(* ===== verification/GoBase.thy ===== *)
theory GoBase
  imports Main
begin

text \<open>
  Prelude: the part of Go that every component of the model uses.
  \<^item> Errors: a Go \<open>error\<close> is a tree. A leaf is a sentinel (\<open>var ErrX = errors.New(..)\<close>);
    a node is \<open>fmt.Errorf\<close> with its \<open>%w\<close> operands, \<open>errors.Join\<close>, or a typed error with
    its cause. \<open>errors.Is\<close> and \<open>errors.As\<close> walk the tree. The formatted text keeps the
    constant part of the message only.
  \<^item> Programs: a call that may fail maps the world to a result and the world after the call;
    \<open>check p h k\<close> is Go's \<open>x, err := p; if err != nil { h } ; k\<close>.
  \<^item> Time: \<open>time.Time\<close> is the nanoseconds since the zero time (year 1, UTC), so \<open>IsZero\<close> is
    \<open>= 0\<close>; a \<open>time.Duration\<close> is in nanoseconds.
  \<^item> The environment: the clock, the random source, the UUID source and the failures of the
    database and of the network are functions of the tick; every effect takes one tick.
\<close>

section \<open>Collections\<close>

named_theorems prog_inv \<open>inversion of a run that returned a value\<close>
named_theorems prog_run \<open>running one combinator\<close>
named_theorems preserve_intros \<open>a program keeps an invariant of the world\<close>

section \<open>Errors\<close>

datatype biz_error =
    ErrNotFound | ErrAlreadyExists | ErrMutationMiss | ErrExpired
  | ErrUnauthenticated | ErrInvalidPassword
  | ErrInvalidToken | ErrTokenExpired | ErrEmailAlreadyExists | ErrProfileEtagMismatch
  | ErrInvalidCredentials
  | ErrSessionRevoked | ErrUserDisabled | ErrUserNotActive
  | ErrSessionRevocation | ErrUserInvalidState | ErrUserEtagMismatch

datatype session_authn_error =
    SMissingCredentials | SInvalidCredentials | SDependencyUnavailable
  | SActorMapping | SContextExtension

datatype jwt_authn_error =
    JMissingCredentials | JMalformedCredentials | JInvalidToken | JActorMapping

datatype fga_authz_error = FInvalidInput | FUnauthenticated | FUnavailable

datatype oidc_error = ErrTokenSubjectInactive | ErrTokenNotFound

datatype sentinel =
    Biz biz_error
  | SessionAuthn session_authn_error
  | JwtAuthn jwt_authn_error
  | FgaAuthz fga_authz_error
  | Oidc oidc_error
  | ContextCanceled | ContextDeadlineExceeded
  | RedisNil | HttpNoCookie | OpInvalidRefreshToken

text \<open>The typed errors that the source tells apart with \<open>errors.As\<close> or a library predicate.\<close>

datatype err_tag =
    Errorf string
  | JoinedErrors
  | ApiError int string
  | StorageNotFound
  | EntNotFound | EntNotSingular | EntConstraint
  | FgaRateLimit | FgaInternal | FgaValidation | FgaRequiredParam | FgaInvalid
  | JsonUnsupported | NetError
  | OidcError string

datatype err = Sentinel sentinel | Node err_tag "err list"

abbreviation errorf :: "string \<Rightarrow> err" where
  "errorf msg \<equiv> Node (Errorf msg) []"

abbreviation wrap :: "string \<Rightarrow> err \<Rightarrow> err" where
  "wrap msg e \<equiv> Node (Errorf msg) [e]"

abbreviation wrap2 :: "string \<Rightarrow> err \<Rightarrow> err \<Rightarrow> err" where
  "wrap2 msg a b \<equiv> Node (Errorf msg) [a, b]"

abbreviation biz :: "biz_error \<Rightarrow> err" where
  "biz e \<equiv> Sentinel (Biz e)"

fun err_any :: "(err \<Rightarrow> bool) \<Rightarrow> err \<Rightarrow> bool" where
  "err_any P (Sentinel s) = P (Sentinel s)"
| "err_any P (Node t es) = (P (Node t es) \<or> list_ex (err_any P) es)"

definition errors_is :: "err \<Rightarrow> sentinel \<Rightarrow> bool" where
  "errors_is e s = err_any (\<lambda>x. x = Sentinel s) e"

definition errors_as :: "err \<Rightarrow> (err_tag \<Rightarrow> bool) \<Rightarrow> bool" where
  "errors_as e P = err_any (\<lambda>x. case x of Node t _ \<Rightarrow> P t | Sentinel _ \<Rightarrow> False) e"

lemma errors_is_sentinel [simp]: "errors_is (Sentinel a) s = (a = s)"
  by (simp add: errors_is_def)

lemma errors_is_node [simp]: "errors_is (Node t es) s = list_ex (\<lambda>e. errors_is e s) es"
  by (simp add: errors_is_def)

lemma errors_as_sentinel [simp]: "\<not> errors_as (Sentinel a) P"
  by (simp add: errors_as_def)

lemma errors_as_node [simp]:
  "errors_as (Node t es) P = (P t \<or> list_ex (\<lambda>e. errors_as e P) es)"
  by (simp add: errors_as_def)

text \<open>\<open>errors.Join\<close> drops nil errors and is nil when all of them are.\<close>

definition errors_join :: "err option list \<Rightarrow> err option" where
  "errors_join es =
     (case concat (map (\<lambda>e. case e of None \<Rightarrow> [] | Some x \<Rightarrow> [x]) es) of
        [] \<Rightarrow> None
      | xs \<Rightarrow> Some (Node JoinedErrors xs))"

lemma errors_join_None_iff: "errors_join es = None \<longleftrightarrow> (\<forall>e \<in> set es. e = None)"
proof -
  let ?xs = "concat (map (\<lambda>e. case e of None \<Rightarrow> [] | Some x \<Rightarrow> [x]) es)"
  have "?xs = [] \<longleftrightarrow> (\<forall>e \<in> set es. e = None)"
    by (induction es) (auto split: option.splits)
  moreover have "errors_join es = None \<longleftrightarrow> ?xs = []"
    by (simp add: errors_join_def split: list.split del: concat_eq_Nil_conv)
  ultimately show ?thesis by simp
qed

lemma errors_join_pair [simp]:
  "errors_join [None, None] = None"
  "errors_join [Some a, None] = Some (Node JoinedErrors [a])"
  "errors_join [None, Some b] = Some (Node JoinedErrors [b])"
  "errors_join [Some a, Some b] = Some (Node JoinedErrors [a, b])"
  by (simp_all add: errors_join_def)

definition err_of :: "err + 'a \<Rightarrow> err option" where
  "err_of r = (case r of Inl e \<Rightarrow> Some e | Inr _ \<Rightarrow> None)"

lemma err_of_simps [simp]: "err_of (Inl e) = Some e" "err_of (Inr x) = None"
  by (simp_all add: err_of_def)

lemma err_of_None_iff: "err_of r = None \<longleftrightarrow> (\<exists>x. r = Inr x)"
  by (cases r) simp_all

text \<open>A loop over a list that stops at the first error.\<close>

fun fold_err :: "('x \<Rightarrow> 's \<Rightarrow> err + 's) \<Rightarrow> 'x list \<Rightarrow> 's \<Rightarrow> err + 's" where
  "fold_err f [] s = Inr s"
| "fold_err f (x # xs) s = (case f x s of Inl e \<Rightarrow> Inl e | Inr s' \<Rightarrow> fold_err f xs s')"

text \<open>The results of all, or the first error.\<close>

fun collect_results :: "('a \<Rightarrow> err + 'b) \<Rightarrow> 'a list \<Rightarrow> err + 'b list" where
  "collect_results f [] = Inr []"
| "collect_results f (x # xs) =
     (case f x of Inl e \<Rightarrow> Inl e
      | Inr y \<Rightarrow> (case collect_results f xs of Inl e \<Rightarrow> Inl e | Inr ys \<Rightarrow> Inr (y # ys)))"

lemma collect_results_from: "collect_results f xs = Inr ys \<Longrightarrow> y \<in> set ys \<Longrightarrow> \<exists>x \<in> set xs. f x = Inr y"
  by (induction xs arbitrary: ys) (auto split: sum.splits)

section \<open>Programs over a world\<close>

type_synonym ('w, 'a) run = "'w \<Rightarrow> 'a \<times> 'w"
type_synonym ('w, 'a) prog = "('w, err + 'a) run"

definition ret :: "'a \<Rightarrow> ('w, 'a) prog" where
  "ret x = (\<lambda>w. (Inr x, w))"

definition throw :: "err \<Rightarrow> ('w, 'a) prog" where
  "throw e = (\<lambda>w. (Inl e, w))"

definition result :: "err + 'a \<Rightarrow> ('w, 'a) prog" where
  "result r = (\<lambda>w. (r, w))"

definition seq :: "('w, 'a) run \<Rightarrow> ('a \<Rightarrow> ('w, 'b) run) \<Rightarrow> ('w, 'b) run" where
  "seq p k = (\<lambda>w. case p w of (x, w') \<Rightarrow> k x w')"

definition check ::
    "('w, 'a) prog \<Rightarrow> (err \<Rightarrow> ('w, 'b) run) \<Rightarrow> ('a \<Rightarrow> ('w, 'b) run) \<Rightarrow> ('w, 'b) run" where
  "check p h k = seq p (\<lambda>r. case r of Inl e \<Rightarrow> h e | Inr x \<Rightarrow> k x)"

text \<open>\<open>if err != nil { return err }\<close>\<close>

abbreviation pass :: "('w, 'a) prog \<Rightarrow> ('a \<Rightarrow> ('w, 'b) prog) \<Rightarrow> ('w, 'b) prog" where
  "pass p k \<equiv> check p throw k"

definition fails_with :: "err option \<Rightarrow> ('w, 'a) prog \<Rightarrow> ('w, 'a) prog" where
  "fails_with e p = (case e of None \<Rightarrow> p | Some x \<Rightarrow> throw x)"

lemma ret_run [simp, prog_run]: "ret x w = (Inr x, w)"
  by (simp add: ret_def)

lemma throw_run [simp, prog_run]: "throw e w = (Inl e, w)"
  by (simp add: throw_def)

lemma result_run [simp, prog_run]: "result r w = (r, w)"
  by (simp add: result_def)

lemma seq_run [prog_run]: "seq p k w = (case p w of (x, w') \<Rightarrow> k x w')"
  by (simp add: seq_def)

lemma check_run [prog_run]:
  "check p h k w =
     (case p w of (Inl e, w') \<Rightarrow> h e w' | (Inr x, w') \<Rightarrow> k x w')"
  by (auto simp: check_def seq_def split: prod.splits sum.splits)

text \<open>Inverting a run that succeeded: the chain of calls that it went through.\<close>

lemma seq_eq [prog_inv]: "seq p k w = r \<longleftrightarrow> (\<exists>x w'. p w = (x, w') \<and> k x w' = r)"
  by (auto simp: seq_def split: prod.splits)

lemma check_eq [prog_inv]:
  "check p h k w = r \<longleftrightarrow>
     (\<exists>x w'. p w = (Inr x, w') \<and> k x w' = r) \<or> (\<exists>e w'. p w = (Inl e, w') \<and> h e w' = r)"
  by (auto simp: check_run split: prod.splits sum.splits)

lemma ret_eq [prog_inv]: "ret x w = (r, w') \<longleftrightarrow> r = Inr x \<and> w' = w"
  by auto

lemma throw_eq [prog_inv]: "throw e w = (r, w') \<longleftrightarrow> r = Inl e \<and> w' = w"
  by auto

lemma pass_Inr:
  "pass p k w = (Inr y, w') \<longleftrightarrow> (\<exists>x v. p w = (Inr x, v) \<and> k x v = (Inr y, w'))"
  by (auto simp: check_eq)

section \<open>Invariants of programs\<close>

definition preserves :: "('w \<Rightarrow> bool) \<Rightarrow> ('w, 'a) run \<Rightarrow> bool" where
  "preserves I p \<longleftrightarrow> (\<forall>w. I w \<longrightarrow> I (snd (p w)))"

lemma preservesI: "(\<And>w r w'. I w \<Longrightarrow> p w = (r, w') \<Longrightarrow> I w') \<Longrightarrow> preserves I p"
  unfolding preserves_def by (metis prod.collapse)

lemma preservesD: "preserves I p \<Longrightarrow> I w \<Longrightarrow> p w = (r, w') \<Longrightarrow> I w'"
  unfolding preserves_def by (metis snd_conv)

lemma preserves_ret [preserve_intros]: "preserves I (ret x)"
  by (simp add: preserves_def)

lemma preserves_throw [preserve_intros]: "preserves I (throw e)"
  by (simp add: preserves_def)

lemma preserves_result [preserve_intros]: "preserves I (result r)"
  by (simp add: preserves_def)

lemma preserves_seq [preserve_intros]:
  "preserves I p \<Longrightarrow> (\<And>x. preserves I (k x)) \<Longrightarrow> preserves I (seq p k)"
  by (simp add: preserves_def seq_def split: prod.splits) (metis snd_conv)

lemma preserves_check [preserve_intros]:
  "preserves I p \<Longrightarrow> (\<And>e. preserves I (h e)) \<Longrightarrow> (\<And>x. preserves I (k x))
    \<Longrightarrow> preserves I (check p h k)"
  unfolding check_def by (rule preserves_seq) (auto split: sum.splits)

lemma preserves_fails_with [preserve_intros]:
  "preserves I p \<Longrightarrow> preserves I (fails_with e p)"
  by (cases e) (simp_all add: fails_with_def preserves_throw)

lemma preserves_if [preserve_intros]:
  "(b \<Longrightarrow> preserves I p) \<Longrightarrow> (\<not> b \<Longrightarrow> preserves I q) \<Longrightarrow> preserves I (if b then p else q)"
  by simp

lemma preserves_case_option [preserve_intros]:
  "(x = None \<Longrightarrow> preserves I p) \<Longrightarrow> (\<And>y. x = Some y \<Longrightarrow> preserves I (q y))
    \<Longrightarrow> preserves I (case x of None \<Rightarrow> p | Some y \<Rightarrow> q y)"
  by (cases x) simp_all

lemma preserves_case_sum [preserve_intros]:
  "(\<And>e. x = Inl e \<Longrightarrow> preserves I (p e)) \<Longrightarrow> (\<And>y. x = Inr y \<Longrightarrow> preserves I (q y))
    \<Longrightarrow> preserves I (case x of Inl e \<Rightarrow> p e | Inr y \<Rightarrow> q y)"
  by (cases x) simp_all

lemma preserves_case_prod [preserve_intros]:
  "(\<And>a b. x = (a, b) \<Longrightarrow> preserves I (p a b)) \<Longrightarrow> preserves I (case x of (a, b) \<Rightarrow> p a b)"
  by (cases x) simp

lemma preserves_Let [preserve_intros]:
  "(\<And>x. x = a \<Longrightarrow> preserves I (p x)) \<Longrightarrow> preserves I (let x = a in p x)"
  by simp

section \<open>Time\<close>

type_synonym time = int
type_synonym duration = int

definition ns_per_ms :: int where "ns_per_ms = 1000000"
definition ns_per_sec :: int where "ns_per_sec = 1000000000"
definition go_minute :: duration where "go_minute = 60 * ns_per_sec"
definition go_hour :: duration where "go_hour = 60 * go_minute"

text \<open>1970-01-01 on the time line that starts at 0001-01-01.\<close>

definition unix_epoch :: time where "unix_epoch = 62135596800 * ns_per_sec"

definition unix_milli :: "time \<Rightarrow> int" where
  "unix_milli t = (t - unix_epoch) div ns_per_ms"

abbreviation (input) is_zero :: "time \<Rightarrow> bool" where
  "is_zero t \<equiv> t = 0"

lemmas time_consts = ns_per_ms_def ns_per_sec_def go_minute_def go_hour_def

lemma unix_milli_mono: "s \<le> t \<Longrightarrow> unix_milli s \<le> unix_milli t"
  by (simp add: unix_milli_def ns_per_ms_def zdiv_mono1)

text \<open>Go's \<open>int64\<close> arithmetic: the mathematical result, wrapped to 64-bit two's complement.\<close>

definition int64 :: "int \<Rightarrow> int" where
  "int64 x = (x + 2 ^ 63) mod 2 ^ 64 - 2 ^ 63"

lemma int64_id: "- (2 ^ 63) \<le> x \<Longrightarrow> x < 2 ^ 63 \<Longrightarrow> int64 x = x"
  by (simp add: int64_def)

lemma int64_bounds: "- (2 ^ 63) \<le> int64 x" "int64 x < 2 ^ 63"
proof -
  have "0 \<le> (x + 2 ^ 63) mod 2 ^ 64" "(x + 2 ^ 63) mod 2 ^ 64 < (2 ^ 64 :: int)"
    by simp_all
  then show "- (2 ^ 63) \<le> int64 x" "int64 x < 2 ^ 63"
    by (simp_all add: int64_def)
qed

text \<open>Go's integer division truncates towards zero.\<close>

definition go_quot :: "int \<Rightarrow> int \<Rightarrow> int" where
  "go_quot a b = (if (a < 0) = (b < 0) then \<bar>a\<bar> div \<bar>b\<bar> else - (\<bar>a\<bar> div \<bar>b\<bar>))"

definition duration_ms :: "duration \<Rightarrow> int" where
  "duration_ms d = go_quot d ns_per_ms"

lemma duration_ms_nonneg: "0 \<le> d \<Longrightarrow> duration_ms d = d div ns_per_ms"
  by (simp add: duration_ms_def go_quot_def ns_per_ms_def)

section \<open>The environment\<close>

record env =
  clock :: "nat \<Rightarrow> time"
  uuid_v7 :: "nat \<Rightarrow> err + string"
  rand_read :: "nat \<Rightarrow> nat \<Rightarrow> err + string"
  store_fault :: "nat \<Rightarrow> err option"

record world = tick :: nat

definition next_tick :: "'z world_scheme \<Rightarrow> nat \<times> 'z world_scheme" where
  "next_tick w = (tick w, w\<lparr>tick := Suc (tick w)\<rparr>)"

definition now :: "'e env_scheme \<Rightarrow> 'z world_scheme \<Rightarrow> time \<times> 'z world_scheme" where
  "now E w = (clock E (tick w), w\<lparr>tick := Suc (tick w)\<rparr>)"

text \<open>The clock is monotone when later effects read later times.\<close>

definition mono_clock :: "'e env_scheme \<Rightarrow> bool" where
  "mono_clock E \<longleftrightarrow> mono (clock E)"

lemma mono_clockD: "mono_clock E \<Longrightarrow> i \<le> j \<Longrightarrow> clock E i \<le> clock E j"
  by (simp add: mono_clock_def monoD)

lemma now_eq [prog_inv]:
  "now E w = (t, w') \<longleftrightarrow> t = clock E (tick w) \<and> w' = w\<lparr>tick := Suc (tick w)\<rparr>"
  by (auto simp: now_def)

text \<open>Invariants that do not read the tick are kept by every read of the clock.\<close>

definition tick_free :: "('z world_scheme \<Rightarrow> bool) \<Rightarrow> bool" where
  "tick_free I \<longleftrightarrow> (\<forall>w n. I (w\<lparr>tick := n\<rparr>) = I w)"

lemma preserves_now: "tick_free I \<Longrightarrow> preserves I (now E)"
  by (simp add: preserves_def now_def tick_free_def)

end
