(* ===== verification/GoStrings.thy ===== *)
theory GoStrings
  imports GoBase
begin

text \<open>
  Prelude: the functions of Go's \<open>strings\<close>, \<open>strconv\<close>, \<open>unicode/utf8\<close>, \<open>encoding/hex\<close> and
  \<open>encoding/base64\<close> that the source calls. A Go string or byte slice is a list of bytes, here a
  list of \<^typ>\<open>char\<close>; \<open>len\<close> counts bytes, and runes come from the UTF-8 decoder below.
\<close>

abbreviation ord_of :: "char \<Rightarrow> nat" where
  "ord_of c \<equiv> of_char c"

lemma ord_of_less [simp]: "ord_of c < 256"
  by simp

section \<open>Bytes: split, cut, prefixes\<close>

fun split_on :: "char \<Rightarrow> string \<Rightarrow> string list" where
  "split_on c [] = [[]]"
| "split_on c (x # xs) =
     (if x = c then [] # split_on c xs
      else case split_on c xs of [] \<Rightarrow> [[x]] | p # ps \<Rightarrow> (x # p) # ps)"

lemma split_on_nonempty [simp]: "split_on c s \<noteq> []"
  by (induction s) (auto split: list.splits)

lemma split_on_single: "c \<notin> set s \<Longrightarrow> split_on c s = [s]"
  by (induction s) auto

lemma split_on_append: "c \<notin> set a \<Longrightarrow> split_on c (a @ c # b) = a # split_on c b"
  by (induction a) auto

fun join_with :: "string \<Rightarrow> string list \<Rightarrow> string" where
  "join_with sep [] = []"
| "join_with sep [x] = x"
| "join_with sep (x # y # ys) = x @ sep @ join_with sep (y # ys)"

lemma join_split_on [simp]: "join_with [c] (split_on c s) = s"
proof (induction s)
  case (Cons x xs)
  then show ?case
    by (cases "split_on c xs"; cases "tl (split_on c xs)") (auto split: list.splits)
qed simp

lemma split_on_no_sep: "p \<in> set (split_on c s) \<Longrightarrow> c \<notin> set p"
proof (induction s arbitrary: p)
  case (Cons x xs)
  show ?case
  proof (cases "split_on c xs")
    case (Cons q qs)
    with Cons.IH Cons.prems show ?thesis by (cases "x = c") auto
  qed simp
qed simp

definition cut :: "char \<Rightarrow> string \<Rightarrow> string \<times> string \<times> bool" where
  "cut c s =
     (case dropWhile (\<lambda>x. x \<noteq> c) s of
        [] \<Rightarrow> (s, [], False)
      | _ # r \<Rightarrow> (takeWhile (\<lambda>x. x \<noteq> c) s, r, True))"

lemma cut_append: "c \<notin> set a \<Longrightarrow> cut c (a @ c # b) = (a, b, True)"
proof -
  assume a: "c \<notin> set a"
  have "dropWhile (\<lambda>x. x \<noteq> c) (a @ c # b) = c # b"
    using a by (induction a) auto
  moreover have "takeWhile (\<lambda>x. x \<noteq> c) (a @ c # b) = a"
    using a by (induction a) auto
  ultimately show ?thesis by (simp add: cut_def)
qed

lemma cut_True: "cut c s = (a, b, True) \<Longrightarrow> s = a @ c # b \<and> c \<notin> set a"
proof -
  assume "cut c s = (a, b, True)"
  then obtain x where d: "dropWhile (\<lambda>x. x \<noteq> c) s = x # b" and a: "a = takeWhile (\<lambda>x. x \<noteq> c) s"
    by (auto simp: cut_def split: list.splits)
  from d have "x = c" by (simp add: dropWhile_eq_Cons_conv)
  moreover have "s = a @ dropWhile (\<lambda>x. x \<noteq> c) s" unfolding a by simp
  ultimately have "s = a @ c # b" using d by simp
  moreover have "c \<notin> set a" unfolding a using set_takeWhileD by fastforce
  ultimately show ?thesis by simp
qed

definition has_prefix :: "string \<Rightarrow> string \<Rightarrow> bool" where
  "has_prefix s p = (take (length p) s = p)"

definition trim_prefix :: "string \<Rightarrow> string \<Rightarrow> string" where
  "trim_prefix s p = (if has_prefix s p then drop (length p) s else s)"

definition trim_suffix :: "string \<Rightarrow> string \<Rightarrow> string" where
  "trim_suffix s p =
     (if length p \<le> length s \<and> drop (length s - length p) s = p
      then take (length s - length p) s else s)"

lemma has_prefix_append [simp]: "has_prefix (p @ s) p"
  by (simp add: has_prefix_def)

lemma has_prefixE: "has_prefix s p \<Longrightarrow> s = p @ drop (length p) s"
  by (metis append_take_drop_id has_prefix_def)

lemma trim_prefix_append [simp]: "trim_prefix (p @ s) p = s"
  by (simp add: trim_prefix_def)

section \<open>Runes\<close>

definition cont_byte :: "nat \<Rightarrow> bool" where
  "cont_byte b \<longleftrightarrow> 128 \<le> b \<and> b \<le> 191"

text \<open>
  \<open>utf8.DecodeRune\<close>, repeated: every element is the rune and the bytes it came from; \<open>None\<close> is
  \<open>RuneError\<close> for one byte that starts no valid encoding.
\<close>

definition rune2 :: "nat \<Rightarrow> nat \<Rightarrow> nat" where
  "rune2 a b = (a - 192) * 64 + (b - 128)"
definition rune3 :: "nat \<Rightarrow> nat \<Rightarrow> nat \<Rightarrow> nat" where
  "rune3 a b c = (a - 224) * 4096 + (b - 128) * 64 + (c - 128)"
definition rune4 :: "nat \<Rightarrow> nat \<Rightarrow> nat \<Rightarrow> nat \<Rightarrow> nat" where
  "rune4 a b c d = (a - 240) * 262144 + (b - 128) * 4096 + (c - 128) * 64 + (d - 128)"

definition second_ok3 :: "nat \<Rightarrow> nat \<Rightarrow> bool" where
  "second_ok3 a b =
     (if a = 224 then 160 \<le> b \<and> b \<le> 191 else if a = 237 then 128 \<le> b \<and> b \<le> 159 else cont_byte b)"

definition second_ok4 :: "nat \<Rightarrow> nat \<Rightarrow> bool" where
  "second_ok4 a b =
     (if a = 240 then 144 \<le> b \<and> b \<le> 191 else if a = 244 then 128 \<le> b \<and> b \<le> 143 else cont_byte b)"

definition decode_rune :: "string \<Rightarrow> nat option \<times> nat" where
  "decode_rune s =
     (case map ord_of (take 4 s) of
        [] \<Rightarrow> (None, 0)
      | a # r \<Rightarrow>
          if a < 128 then (Some a, 1)
          else if 194 \<le> a \<and> a \<le> 223 then
            (case r of b # _ \<Rightarrow> if cont_byte b then (Some (rune2 a b), 2) else (None, 1)
             | _ \<Rightarrow> (None, 1))
          else if 224 \<le> a \<and> a \<le> 239 then
            (case r of b # c # _ \<Rightarrow>
               if second_ok3 a b \<and> cont_byte c then (Some (rune3 a b c), 3) else (None, 1)
             | _ \<Rightarrow> (None, 1))
          else if 240 \<le> a \<and> a \<le> 244 then
            (case r of b # c # d # _ \<Rightarrow>
               if second_ok4 a b \<and> cont_byte c \<and> cont_byte d
               then (Some (rune4 a b c d), 4) else (None, 1)
             | _ \<Rightarrow> (None, 1))
          else (None, 1))"

lemma decode_rune_width: "s \<noteq> [] \<Longrightarrow> 0 < snd (decode_rune s)"
  by (auto simp: decode_rune_def split: list.splits)

lemma decode_rune_ascii [simp]: "ord_of c < 128 \<Longrightarrow> decode_rune (c # s) = (Some (ord_of c), 1)"
  by (simp add: decode_rune_def)

function runes :: "string \<Rightarrow> (nat option \<times> string) list" where
  "runes s =
     (if s = [] then []
      else (fst (decode_rune s), take (snd (decode_rune s)) s)
             # runes (drop (snd (decode_rune s)) s))"
  by pat_completeness auto
termination
proof (relation "measure length")
  fix s :: string
  assume "s \<noteq> []"
  then show "(drop (snd (decode_rune s)) s, s) \<in> measure length"
    using decode_rune_width [of s] by (simp add: diff_less)
qed simp

declare runes.simps [simp del]

lemma runes_Nil [simp]: "runes [] = []"
  by (simp add: runes.simps)

lemma runes_ascii [simp]:
  "ord_of c < 128 \<Longrightarrow> runes (c # s) = (Some (ord_of c), [c]) # runes s"
  by (subst runes.simps) simp

lemma concat_runes [simp]: "concat (map snd (runes s)) = s"
  by (induction s rule: runes.induct) (subst runes.simps, simp)

definition ascii :: "string \<Rightarrow> bool" where
  "ascii s = list_all (\<lambda>c. ord_of c < 128) s"

lemma runes_of_ascii: "ascii s \<Longrightarrow> runes s = map (\<lambda>c. (Some (ord_of c), [c])) s"
  by (induction s) (simp_all add: ascii_def)

definition valid_string :: "string \<Rightarrow> bool" where
  "valid_string s = list_all (\<lambda>r. fst r \<noteq> None) (runes s)"

definition rune_count :: "string \<Rightarrow> nat" where
  "rune_count s = length (runes s)"

lemma valid_ascii: "ascii s \<Longrightarrow> valid_string s"
  by (simp add: valid_string_def runes_of_ascii list_all_iff)

lemma rune_count_ascii: "ascii s \<Longrightarrow> rune_count s = length s"
  by (simp add: rune_count_def runes_of_ascii)

text \<open>\<open>unicode.IsSpace\<close> and \<open>unicode.IsControl\<close>.\<close>

definition rune_is_space :: "nat \<Rightarrow> bool" where
  "rune_is_space r \<longleftrightarrow>
     (9 \<le> r \<and> r \<le> 13) \<or> r = 32 \<or> r = 133 \<or> r = 160 \<or> r = 5760 \<or> (8192 \<le> r \<and> r \<le> 8202)
     \<or> r = 8232 \<or> r = 8233 \<or> r = 8239 \<or> r = 8287 \<or> r = 12288"

definition rune_is_control :: "nat \<Rightarrow> bool" where
  "rune_is_control r \<longleftrightarrow> r < 32 \<or> (127 \<le> r \<and> r < 160)"

definition rune_where :: "(nat \<Rightarrow> bool) \<Rightarrow> nat option \<times> string \<Rightarrow> bool" where
  "rune_where P r = (case fst r of None \<Rightarrow> False | Some x \<Rightarrow> P x)"

definition trim_space :: "string \<Rightarrow> string" where
  "trim_space s =
     concat (map snd
       (rev (dropWhile (rune_where rune_is_space)
         (rev (dropWhile (rune_where rune_is_space) (runes s))))))"

lemma trim_space_Nil [simp]: "trim_space [] = []"
  by (simp add: trim_space_def)

lemma trim_space_id:
  assumes "\<not> list_ex (rune_where rune_is_space) (runes s)"
  shows "trim_space s = s"
proof -
  have no: "\<not> rune_where rune_is_space x" if "x \<in> set (runes s)" for x
    using assms that by (auto simp: list_ex_iff)
  then have "dropWhile (rune_where rune_is_space) (runes s) = runes s"
    by (metis dropWhile_eq_self_iff hd_in_set)
  moreover have "dropWhile (rune_where rune_is_space) (rev (runes s)) = rev (runes s)"
    using no by (metis dropWhile_eq_self_iff hd_in_set set_rev)
  ultimately show ?thesis by (simp add: trim_space_def)
qed

text \<open>\<open>strings.Fields\<close>: the maximal runs of runes that are no white space.\<close>

fun fields_of :: "(nat option \<times> string) list \<Rightarrow> string \<Rightarrow> string list" where
  "fields_of [] acc = (if acc = [] then [] else [acc])"
| "fields_of (r # rs) acc =
     (if rune_where rune_is_space r
      then (if acc = [] then fields_of rs [] else acc # fields_of rs [])
      else fields_of rs (acc @ snd r))"

definition fields :: "string \<Rightarrow> string list" where
  "fields s = fields_of (runes s) []"

lemma fields_of_nonempty: "x \<in> set (fields_of rs acc) \<Longrightarrow> \<forall>r \<in> set rs. snd r \<noteq> [] \<Longrightarrow> x \<noteq> []"
  by (induction rs acc rule: fields_of.induct) (auto split: if_splits)

section \<open>Numbers as text\<close>

definition digit :: "nat \<Rightarrow> char" where
  "digit n = char_of (48 + n)"

fun itoa_nat :: "nat \<Rightarrow> string" where
  "itoa_nat n = (if n < 10 then [digit n] else itoa_nat (n div 10) @ [digit (n mod 10)])"

declare itoa_nat.simps [simp del]

definition itoa :: "int \<Rightarrow> string" where
  "itoa i = (if i < 0 then CHR ''-'' # itoa_nat (nat (- i)) else itoa_nat (nat i))"

section \<open>Hexadecimal\<close>

definition hex_digit :: "nat \<Rightarrow> char" where
  "hex_digit n = (if n < 10 then char_of (48 + n) else char_of (87 + n))"

definition hex_value :: "char \<Rightarrow> nat option" where
  "hex_value c =
     (let n = ord_of c in
      if 48 \<le> n \<and> n \<le> 57 then Some (n - 48)
      else if 97 \<le> n \<and> n \<le> 102 then Some (n - 87)
      else if 65 \<le> n \<and> n \<le> 70 then Some (n - 55)
      else None)"

definition hex_encode :: "string \<Rightarrow> string" where
  "hex_encode s = concat (map (\<lambda>c. [hex_digit (ord_of c div 16), hex_digit (ord_of c mod 16)]) s)"

definition lower_hex_char :: "char \<Rightarrow> bool" where
  "lower_hex_char c \<longleftrightarrow>
     (48 \<le> ord_of c \<and> ord_of c \<le> 57) \<or> (97 \<le> ord_of c \<and> ord_of c \<le> 102)"

lemma hex_digit_value [simp]: "n < 16 \<Longrightarrow> hex_value (hex_digit n) = Some n"
  by (auto simp: hex_digit_def hex_value_def Let_def)

lemma hex_digit_lower [simp]: "n < 16 \<Longrightarrow> lower_hex_char (hex_digit n)"
  by (auto simp: hex_digit_def lower_hex_char_def)

lemma hex_digit_inj: "a < 16 \<Longrightarrow> b < 16 \<Longrightarrow> hex_digit a = hex_digit b \<longleftrightarrow> a = b"
  by (metis hex_digit_value option.inject)

lemma lower_hex_digit: "lower_hex_char c \<Longrightarrow> \<exists>n < 16. c = hex_digit n"
proof -
  assume c: "lower_hex_char c"
  show ?thesis
  proof (cases "ord_of c \<le> 57")
    case True
    then have "c = hex_digit (ord_of c - 48) \<and> ord_of c - 48 < 16"
      using c by (auto simp: lower_hex_char_def hex_digit_def)
    then show ?thesis by blast
  next
    case False
    then have "c = hex_digit (ord_of c - 87) \<and> ord_of c - 87 < 16"
      using c by (auto simp: lower_hex_char_def hex_digit_def)
    then show ?thesis by blast
  qed
qed

lemma length_hex_encode [simp]: "length (hex_encode s) = 2 * length s"
  by (induction s) (simp_all add: hex_encode_def)

lemma nibbles [simp]: "ord_of c div 16 < 16" "ord_of c mod 16 < 16"
  using ord_of_less [of c] by linarith+

lemma hex_encode_lower: "list_all lower_hex_char (hex_encode s)"
  by (induction s) (simp_all add: hex_encode_def)

lemma hex_encode_Cons [simp]:
  "hex_encode (c # s) = hex_digit (ord_of c div 16) # hex_digit (ord_of c mod 16) # hex_encode s"
  by (simp add: hex_encode_def)

lemma hex_encode_Nil [simp]: "hex_encode [] = []"
  by (simp add: hex_encode_def)

lemma hex_encode_inj: "hex_encode a = hex_encode b \<longleftrightarrow> a = b"
proof (induction a arbitrary: b)
  case Nil
  then show ?case by (cases b) simp_all
next
  case (Cons x a)
  show ?case
  proof (cases b)
    case (Cons y b')
    have "ord_of x div 16 < 16 \<and> ord_of y div 16 < 16"
      using ord_of_less [of x] ord_of_less [of y] by linarith
    then have "hex_encode (x # a) = hex_encode (y # b')
      \<longleftrightarrow> ord_of x div 16 = ord_of y div 16 \<and> ord_of x mod 16 = ord_of y mod 16 \<and> a = b'"
      by (simp add: hex_digit_inj Cons.IH)
    also have "\<dots> \<longleftrightarrow> x = y \<and> a = b'"
      by (metis div_mult_mod_eq of_char_eq_iff)
    finally show ?thesis using Cons by simp
  qed simp
qed

lemma colon_not_lower_hex: "list_all lower_hex_char s \<Longrightarrow> CHR '':'' \<notin> set s"
  by (auto simp: list_all_iff lower_hex_char_def)

text \<open>\<open>hex.DecodeString\<close>, with its errors as \<open>None\<close>.\<close>

fun hex_decode :: "string \<Rightarrow> string option" where
  "hex_decode [] = Some []"
| "hex_decode [_] = None"
| "hex_decode (a # b # r) =
     (case (hex_value a, hex_value b) of
        (Some x, Some y) \<Rightarrow> map_option (\<lambda>t. char_of (16 * x + y) # t) (hex_decode r)
      | _ \<Rightarrow> None)"

lemma hex_decode_length: "hex_decode s = Some t \<Longrightarrow> length s = 2 * length t"
  by (induction s arbitrary: t rule: hex_decode.induct) (auto split: option.splits)

lemma hex_decode_encode [simp]: "hex_decode (hex_encode s) = Some s"
proof (induction s)
  case (Cons c s)
  have "char_of (16 * (ord_of c div 16) + ord_of c mod 16) = c" by (metis char_of_char mult.commute div_mult_mod_eq)
  with Cons show ?case using ord_of_less [of c] by (simp add: hex_encode_def)
qed (simp add: hex_encode_def)

section \<open>Base64 without padding\<close>

definition url_alphabet :: string where
  "url_alphabet = ''ABCDEFGHIJKLMNOPQRSTUVWXYZabcdefghijklmnopqrstuvwxyz0123456789-_''"

definition b64_value :: "char \<Rightarrow> nat option" where
  "b64_value c =
     (if c \<in> set url_alphabet then Some (length (takeWhile (\<lambda>x. x \<noteq> c) url_alphabet)) else None)"

fun sextets :: "nat list \<Rightarrow> nat list" where
  "sextets [] = []"
| "sextets [a] = [a div 4, (a mod 4) * 16]"
| "sextets [a, b] = [a div 4, (a mod 4) * 16 + b div 16, (b mod 16) * 4]"
| "sextets (a # b # c # r) =
     a div 4 # ((a mod 4) * 16 + b div 16) # ((b mod 16) * 4 + c div 64) # (c mod 64) # sextets r"

fun octets :: "nat list \<Rightarrow> nat list option" where
  "octets [] = Some []"
| "octets [_] = None"
| "octets [a, b] = Some [a * 4 + b div 16]"
| "octets [a, b, c] = Some [a * 4 + b div 16, (b mod 16) * 16 + c div 4]"
| "octets (a # b # c # d # r) =
     map_option (\<lambda>xs. (a * 4 + b div 16) # ((b mod 16) * 16 + c div 4) # ((c mod 4) * 64 + d) # xs)
       (octets r)"

definition b64_encode :: "string \<Rightarrow> string" where
  "b64_encode s = map (\<lambda>n. url_alphabet ! n) (sextets (map ord_of s))"

text \<open>\<open>RawURLEncoding.DecodeString\<close> skips line breaks and ignores the unused low bits.\<close>

definition b64_decode :: "string \<Rightarrow> string option" where
  "b64_decode s =
     (case those (map b64_value (filter (\<lambda>c. ord_of c \<noteq> 10 \<and> ord_of c \<noteq> 13) s)) of
        None \<Rightarrow> None
      | Some vs \<Rightarrow> map_option (map char_of) (octets vs))"

lemma length_url_alphabet [simp]: "length url_alphabet = 64"
  by (simp add: url_alphabet_def)

lemma distinct_url_alphabet: "distinct url_alphabet"
  by (simp add: url_alphabet_def)

lemma takeWhile_nth:
  "distinct xs \<Longrightarrow> i < length xs \<Longrightarrow> length (takeWhile (\<lambda>x. x \<noteq> xs ! i) xs) = i"
proof (induction xs arbitrary: i)
  case (Cons x xs)
  then show ?case by (cases i) auto
qed simp

lemma b64_value_nth [simp]: "n < 64 \<Longrightarrow> b64_value (url_alphabet ! n) = Some n"
  by (simp add: b64_value_def takeWhile_nth distinct_url_alphabet)

lemma url_alphabet_visible:
  "c \<in> set url_alphabet \<Longrightarrow> ord_of c \<noteq> 10 \<and> ord_of c \<noteq> 13 \<and> c \<noteq> CHR ''.'' \<and> c \<noteq> CHR '':''"
  by (auto simp: url_alphabet_def)

lemma sextets_bound: "\<forall>x \<in> set bs. x < 256 \<Longrightarrow> \<forall>v \<in> set (sextets bs). v < 64"
  by (induction bs rule: sextets.induct) auto

lemma octets_sextets: "\<forall>x \<in> set bs. x < 256 \<Longrightarrow> octets (sextets bs) = Some bs"
  by (induction bs rule: sextets.induct) auto

lemma those_map_Some: "\<forall>x \<in> set xs. f x = Some (g x) \<Longrightarrow> those (map f xs) = Some (map g xs)"
  by (induction xs) auto

lemma b64_encode_alphabet: "set (b64_encode s) \<subseteq> set url_alphabet"
proof -
  have "\<forall>v \<in> set (sextets (map ord_of s)). v < length url_alphabet"
    using sextets_bound [of "map ord_of s"] by simp
  then show ?thesis unfolding b64_encode_def set_map by (meson image_subsetI nth_mem)
qed

lemma b64_encode_no_dot [simp]: "CHR ''.'' \<notin> set (b64_encode s)"
  using b64_encode_alphabet url_alphabet_visible by blast

lemma b64_encode_Nil_iff [simp]: "b64_encode s = [] \<longleftrightarrow> s = []"
  by (cases "map ord_of s" rule: sextets.cases) (auto simp: b64_encode_def)

lemma b64_roundtrip [simp]: "b64_decode (b64_encode s) = Some s"
proof -
  let ?vs = "sextets (map ord_of s)"
  have b: "\<forall>v \<in> set ?vs. v < 64" by (rule sextets_bound) simp
  have "filter (\<lambda>c. ord_of c \<noteq> 10 \<and> ord_of c \<noteq> 13) (b64_encode s) = b64_encode s"
    using b64_encode_alphabet url_alphabet_visible by (intro filter_True) blast
  moreover have "those (map b64_value (b64_encode s)) = Some ?vs"
    unfolding b64_encode_def map_map using b
    by (subst those_map_Some [where g = "\<lambda>v. v"]) auto
  moreover have "octets ?vs = Some (map ord_of s)"
    by (rule octets_sextets) simp
  ultimately show ?thesis by (simp add: b64_decode_def)
qed

lemma b64_encode_inj: "b64_encode a = b64_encode b \<longleftrightarrow> a = b"
  by (metis b64_roundtrip option.inject)

section \<open>A sample environment\<close>

text \<open>One second per tick, counting identifiers and bytes, no failures.\<close>

definition sample_env :: env where
  "sample_env = \<lparr>clock = (\<lambda>n. unix_epoch + int n * ns_per_sec), uuid_v7 = (\<lambda>n. Inr (CHR ''u'' # itoa (int n))),
     rand_read = (\<lambda>n k. Inr (replicate k (char_of (min n 200)))), store_fault = (\<lambda>_. None)\<rparr>"

lemma sample_env_mono: "mono_clock sample_env"
  by (simp add: mono_clock_def mono_def sample_env_def ns_per_sec_def)

end
