(* ===== verification/CapWork.thy ===== *)
theory CapWork
  imports GoStrings "HOL-Library.Word"
begin

text \<open>
  \<open>security/cap/cap.go\<close>, the proof of work: \<open>fnv1a\<close>, \<open>prng\<close>, \<open>validSolutions\<close> and
  \<open>matchesHexPrefix\<close>, on 32-bit words. \<open>crypto/sha256\<close> is a parameter (a function from bytes to
  bytes); what is used of it is that a digest has 32 bytes. The last section relates the resumed
  hashes of \<open>validSolutions\<close> to the protocol's own definition of salts and targets.
\<close>

unbundle bit_operations_syntax

type_synonym uint32 = "32 word"

section \<open>Parameters of a challenge\<close>

record challenge_params =
  cp_c :: int
  cp_s :: int
  cp_d :: int

definition max_challenge_count :: int where "max_challenge_count = 1000"
definition max_challenge_size :: int where "max_challenge_size = 256"
definition max_challenge_difficulty :: int where "max_challenge_difficulty = 16"

definition validate_challenge_params :: "challenge_params \<Rightarrow> err option" where
  "validate_challenge_params p =
     (if cp_c p < 1 \<or> cp_c p > max_challenge_count then Some (errorf ''challenge_count'')
      else if cp_s p < 1 \<or> cp_s p > max_challenge_size then Some (errorf ''challenge_size'')
      else if cp_d p < 1 \<or> cp_d p > max_challenge_difficulty then Some (errorf ''challenge_difficulty'')
      else None)"

lemma validate_challenge_params_None:
  "validate_challenge_params p = None \<longleftrightarrow>
     1 \<le> cp_c p \<and> cp_c p \<le> 1000 \<and> 1 \<le> cp_s p \<and> cp_s p \<le> 256 \<and> 1 \<le> cp_d p \<and> cp_d p \<le> 16"
  by (auto simp: validate_challenge_params_def max_challenge_count_def max_challenge_size_def
      max_challenge_difficulty_def)

section \<open>FNV-1a and the generator\<close>

definition fnv1a_step :: "uint32 \<Rightarrow> char \<Rightarrow> uint32" where
  "fnv1a_step state c =
     (let s = state XOR word_of_nat (ord_of c) in
      s + (push_bit 1 s + push_bit 4 s + push_bit 7 s + push_bit 8 s + push_bit 24 s))"

definition fnv1a_resume :: "uint32 \<Rightarrow> string \<Rightarrow> uint32" where
  "fnv1a_resume state value = fold (\<lambda>c s. fnv1a_step s c) value state"

definition fnv1a :: "string \<Rightarrow> uint32" where
  "fnv1a value = fnv1a_resume 2166136261 value"

definition xorshift :: "uint32 \<Rightarrow> uint32" where
  "xorshift state =
     (let s1 = state XOR push_bit 13 state;
          s2 = s1 XOR drop_bit 17 s1
      in s2 XOR push_bit 5 s2)"

definition state_digits :: "uint32 \<Rightarrow> string" where
  "state_digits state =
     map (\<lambda>digit. hex_digit (unat (drop_bit (28 - digit * 4) state AND 15))) [0..<8]"

fun prng_blocks :: "nat \<Rightarrow> uint32 \<Rightarrow> string" where
  "prng_blocks 0 state = []"
| "prng_blocks (Suc n) state =
     (let s = xorshift state in state_digits s @ prng_blocks n s)"

text \<open>The buffer holds \<open>(length + 7) / 8\<close> blocks of eight digits and is cut to the length.\<close>

definition prng_from_hash :: "uint32 \<Rightarrow> nat \<Rightarrow> string" where
  "prng_from_hash state len = take len (prng_blocks ((len + 7) div 8) state)"

definition prng :: "string \<Rightarrow> nat \<Rightarrow> string" where
  "prng seed len = prng_from_hash (fnv1a seed) len"

text \<open>The multiplication form of the hash: the shifts add up to the FNV prime.\<close>

lemma fnv1a_step_prime: "fnv1a_step s c = (s XOR word_of_nat (ord_of c)) * 16777619"
  by (simp add: fnv1a_step_def Let_def push_bit_eq_mult algebra_simps)

lemma fnv1a_resume_append: "fnv1a_resume s (a @ b) = fnv1a_resume (fnv1a_resume s a) b"
  by (simp add: fnv1a_resume_def)

lemma fnv1a_append: "fnv1a (a @ b) = fnv1a_resume (fnv1a a) b"
  by (simp add: fnv1a_def fnv1a_resume_append)

lemma length_state_digits [simp]: "length (state_digits s) = 8"
  by (simp add: state_digits_def)

lemma nibble_less: "unat ((w :: uint32) AND 15) < 16"
proof -
  have "w AND 15 \<le> 15" by (rule word_and_le1)
  then have "unat (w AND 15) \<le> unat (15 :: uint32)" by (simp only: word_le_nat_alt)
  then show ?thesis by simp
qed

lemma state_digits_lower: "list_all lower_hex_char (state_digits s)"
  by (simp add: state_digits_def list_all_iff nibble_less)

lemma length_prng_blocks [simp]: "length (prng_blocks n s) = 8 * n"
  by (induction n arbitrary: s) (simp_all add: Let_def)

lemma prng_blocks_lower: "list_all lower_hex_char (prng_blocks n s)"
  by (induction n arbitrary: s) (simp_all add: Let_def state_digits_lower)

lemma length_prng_from_hash [simp]: "length (prng_from_hash s n) = n"
  by (simp add: prng_from_hash_def)

lemma prng_from_hash_lower: "list_all lower_hex_char (prng_from_hash s n)"
  using prng_blocks_lower [of "(n + 7) div 8" s] set_take_subset
  by (fastforce simp: prng_from_hash_def list_all_iff)

section \<open>Prefixes of a digest\<close>

text \<open>\<open>strconv.ParseUint(s, 16, bits)\<close> of at most two digits; \<open>None\<close> is the error.\<close>

fun parse_hex_acc :: "nat \<Rightarrow> string \<Rightarrow> nat option" where
  "parse_hex_acc acc [] = Some acc"
| "parse_hex_acc acc (c # s) =
     (case hex_value c of None \<Rightarrow> None | Some v \<Rightarrow> parse_hex_acc (acc * 16 + v) s)"

definition parse_hex :: "string \<Rightarrow> nat option" where
  "parse_hex s = (if s = [] then None else parse_hex_acc 0 s)"

text \<open>
  The digest is a 32-byte array; \<open>nth\<close> is used within it because a target has at most 16 digits.
\<close>

definition matches_hex_prefix :: "string \<Rightarrow> string \<Rightarrow> bool" where
  "matches_hex_prefix digest target =
     (let full = length target div 2 in
      list_all (\<lambda>i. parse_hex (take 2 (drop (i * 2) target)) = Some (ord_of (digest ! i))) [0..<full]
      \<and> (length target mod 2 = 1 \<longrightarrow>
           parse_hex (drop (length target - 1) target) = Some (ord_of (digest ! full) div 16)))"

lemma nibbles_unique: "n < 16 \<Longrightarrow> m * 16 + n = x \<longleftrightarrow> m = x div 16 \<and> n = x mod (16 :: nat)"
  by (auto simp: mult.commute div_mult_mod_eq)

lemma parse_hex_pair:
  "lower_hex_char a \<Longrightarrow> lower_hex_char b \<Longrightarrow>
     parse_hex [a, b] = Some (ord_of d) \<longleftrightarrow> [a, b] = hex_encode [d]"
proof -
  assume "lower_hex_char a" "lower_hex_char b"
  then obtain m n where mn: "m < 16" "n < 16" "a = hex_digit m" "b = hex_digit n"
    using lower_hex_digit by metis
  have "m * 16 + n = ord_of d \<longleftrightarrow> m = ord_of d div 16 \<and> n = ord_of d mod 16"
    using mn(1,2) nibbles_unique by blast
  with mn show ?thesis by (simp add: parse_hex_def hex_digit_inj)
qed

lemma parse_hex_single:
  "lower_hex_char a \<Longrightarrow>
     parse_hex [a] = Some (ord_of d div 16) \<longleftrightarrow> a = hex_digit (ord_of d div 16)"
  using lower_hex_digit [of a] by (auto simp: parse_hex_def hex_digit_inj)

lemma matches_hex_prefix_step:
  "matches_hex_prefix (d # ds) (a # b # t) \<longleftrightarrow>
     parse_hex [a, b] = Some (ord_of d) \<and> matches_hex_prefix ds t"
proof -
  let ?P = "\<lambda>e u i. parse_hex (take 2 (drop (i * 2) u)) = Some (ord_of (e ! i))"
  have all: "list_all (?P e u) [0..<n] \<longleftrightarrow> (\<forall>i < n. ?P e u i)" for e u n
    by (auto simp: list_all_iff)
  have "list_all (?P (d # ds) (a # b # t)) [0..<length (a # b # t) div 2] \<longleftrightarrow>
      parse_hex [a, b] = Some (ord_of d) \<and> list_all (?P ds t) [0..<length t div 2]"
    unfolding all by (simp add: All_less_Suc2)
  moreover have "length t mod 2 = 1 \<Longrightarrow> drop (length (a # b # t) - 1) (a # b # t) = drop (length t - 1) t"
    by (cases t) auto
  ultimately show ?thesis
    unfolding matches_hex_prefix_def Let_def by (cases "length t mod 2 = 1") simp_all
qed

lemma matches_hex_prefix_iff:
  assumes "list_all lower_hex_char target" "length target \<le> 2 * length digest"
  shows "matches_hex_prefix digest target \<longleftrightarrow> has_prefix (hex_encode digest) target"
  using assms
proof (induction target arbitrary: digest rule: induct_list012)
  case 1
  then show ?case by (simp add: matches_hex_prefix_def has_prefix_def)
next
  case (2 a)
  then obtain d ds where "digest = d # ds" by (cases digest) auto
  with 2 show ?case
    using parse_hex_single [of a d] by (auto simp: matches_hex_prefix_def has_prefix_def)
next
  case (3 a b t)
  then obtain d ds where d: "digest = d # ds" by (cases digest) auto
  with 3 have "matches_hex_prefix digest (a # b # t) \<longleftrightarrow>
      [a, b] = hex_encode [d] \<and> has_prefix (hex_encode ds) t"
    by (simp add: matches_hex_prefix_step parse_hex_pair)
  then show ?case unfolding d by (auto simp: has_prefix_def)
qed

section \<open>Solutions\<close>

record challenge_claims =
  cc_nonce :: string
  cc_count :: int
  cc_size :: int
  cc_difficulty :: int
  cc_expires :: int
  cc_issued :: int
  cc_scope :: string

definition solution_ok ::
    "(string \<Rightarrow> string) \<Rightarrow> uint32 \<Rightarrow> challenge_claims \<Rightarrow> nat \<Rightarrow> int \<Rightarrow> bool" where
  "solution_ok sha tokenHash claims index solution =
     (if solution < 0 then False
      else
        let indexText = itoa (int index + 1);
            saltHash = fnv1a_resume tokenHash indexText;
            targetHash = fnv1a_resume saltHash ''d'';
            salt = prng_from_hash saltHash (nat (cc_size claims));
            target = prng_from_hash targetHash (nat (cc_difficulty claims));
            digest = sha (salt @ itoa solution)
        in matches_hex_prefix digest target)"

fun solutions_from ::
    "(string \<Rightarrow> string) \<Rightarrow> uint32 \<Rightarrow> challenge_claims \<Rightarrow> nat \<Rightarrow> int list \<Rightarrow> bool" where
  "solutions_from sha tokenHash claims index [] = True"
| "solutions_from sha tokenHash claims index (x # xs) =
     (if solution_ok sha tokenHash claims index x
      then solutions_from sha tokenHash claims (index + 1) xs else False)"

definition valid_solutions ::
    "(string \<Rightarrow> string) \<Rightarrow> string \<Rightarrow> challenge_claims \<Rightarrow> int list \<Rightarrow> bool" where
  "valid_solutions sha token claims solutions = solutions_from sha (fnv1a token) claims 0 solutions"

text \<open>The protocol's definition: puzzle \<open>i\<close> of a token, from the token's own text.\<close>

definition puzzle_salt :: "string \<Rightarrow> nat \<Rightarrow> nat \<Rightarrow> string" where
  "puzzle_salt token i s = prng (token @ itoa (int i)) s"

definition puzzle_target :: "string \<Rightarrow> nat \<Rightarrow> nat \<Rightarrow> string" where
  "puzzle_target token i d = prng (token @ itoa (int i) @ ''d'') d"

definition solves :: "(string \<Rightarrow> string) \<Rightarrow> string \<Rightarrow> challenge_claims \<Rightarrow> nat \<Rightarrow> int \<Rightarrow> bool" where
  "solves sha token claims i x \<longleftrightarrow>
     0 \<le> x
     \<and> has_prefix (hex_encode (sha (puzzle_salt token i (nat (cc_size claims)) @ itoa x)))
         (puzzle_target token i (nat (cc_difficulty claims)))"

lemma solution_ok_iff:
  assumes "\<And>x. length (sha x) = 32" "cc_difficulty claims \<le> 64"
  shows "solution_ok sha (fnv1a token) claims index x \<longleftrightarrow> solves sha token claims (index + 1) x"
proof -
  have idx: "itoa (int index + 1) = itoa (int (index + 1))" by (simp add: add.commute)
  have "nat (cc_difficulty claims) \<le> 2 * 32" using assms(2) by simp
  then have "matches_hex_prefix (sha y) (prng_from_hash h (nat (cc_difficulty claims)))
      \<longleftrightarrow> has_prefix (hex_encode (sha y)) (prng_from_hash h (nat (cc_difficulty claims)))" for y h
    by (intro matches_hex_prefix_iff) (simp_all add: assms(1) prng_from_hash_lower)
  then show ?thesis
    unfolding solution_ok_def solves_def puzzle_salt_def puzzle_target_def prng_def Let_def idx
    by (simp add: fnv1a_append fnv1a_resume_append)
qed

lemma solutions_from_iff:
  assumes "\<And>x. length (sha x) = 32" "cc_difficulty claims \<le> 64"
  shows "solutions_from sha (fnv1a token) claims n xs \<longleftrightarrow>
      (\<forall>i < length xs. solves sha token claims (n + i + 1) (xs ! i))"
proof (induction xs arbitrary: n)
  case (Cons x xs)
  show ?case
    using solution_ok_iff [where sha = sha and claims = claims and token = token and index = n and x = x,
        OF assms] Cons.IH [of "n + 1"]
    by (auto simp: less_Suc_eq_0_disj nth_Cons')
qed simp

lemma valid_solutions_iff:
  assumes "\<And>x. length (sha x) = 32" "cc_difficulty claims \<le> 64"
  shows "valid_solutions sha token claims xs \<longleftrightarrow>
      (\<forall>i < length xs. solves sha token claims (i + 1) (xs ! i))"
  using solutions_from_iff [where sha = sha and claims = claims and token = token and n = 0 and xs = xs,
      OF assms] by (simp add: valid_solutions_def)

end
