(* ===== verification/Redis.thy ===== *)
theory Redis
  imports GoStrings
begin

text \<open>
  The Redis commands that the source calls, directly or from its Lua scripts. Redis is a service
  outside the repository, so its commands are a parameter: a record of functions over a keyspace
  of any type, each reading the server's time in milliseconds. The locale \<open>redis_server\<close> states the
  documented behaviour of the commands that the proofs rely on, and \<open>expiring_map\<close> is a keyspace
  that has it. A call may fail before or after the server has executed it (\<open>rd_fault\<close>).
\<close>

record 'r redis =
  rd_get :: "int \<Rightarrow> string \<Rightarrow> 'r \<Rightarrow> string option"
  rd_psetex :: "int \<Rightarrow> string \<Rightarrow> int \<Rightarrow> string \<Rightarrow> 'r \<Rightarrow> 'r option"
  rd_del :: "string \<Rightarrow> 'r \<Rightarrow> 'r"
  rd_fault :: "nat \<Rightarrow> (bool \<times> err) option"

record 'r redis_world = world +
  rw_redis :: 'r

text \<open>\<open>EXISTS\<close> is 1 when \<open>GET\<close> finds a value.\<close>

definition rd_exists :: "'r redis \<Rightarrow> int \<Rightarrow> string \<Rightarrow> 'r \<Rightarrow> bool" where
  "rd_exists R t k r = (rd_get R t k r \<noteq> None)"

text \<open>
  One round trip: the server executes \<open>f\<close> at the time of this tick. When the call fails, the fault
  says whether the server had executed it.
\<close>

definition redis_call ::
    "env \<Rightarrow> 'r redis \<Rightarrow> (int \<Rightarrow> 'r \<Rightarrow> (err + 'a) \<times> 'r) \<Rightarrow> (('r, 'z) redis_world_scheme, 'a) prog" where
  "redis_call E R f w =
     (case f (unix_milli (clock E (tick w))) (rw_redis w) of
        (x, r) \<Rightarrow>
          (case rd_fault R (tick w) of
             None \<Rightarrow> (x, w\<lparr>tick := Suc (tick w), rw_redis := r\<rparr>)
           | Some (executed, e) \<Rightarrow>
               (Inl e, w\<lparr>tick := Suc (tick w), rw_redis := (if executed then r else rw_redis w)\<rparr>)))"

lemma redis_call_Inr:
  "redis_call E R f w = (Inr x, w') \<Longrightarrow>
     \<exists>r. f (unix_milli (clock E (tick w))) (rw_redis w) = (Inr x, r)
       \<and> w' = w\<lparr>tick := Suc (tick w), rw_redis := r\<rparr>"
  by (auto simp: redis_call_def split: prod.splits option.splits)

lemma redis_call_tick: "redis_call E R f w = (x, w') \<Longrightarrow> tick w' = Suc (tick w)"
  by (auto simp: redis_call_def split: prod.splits option.splits)

text \<open>What a call did to the keyspace: nothing, or the effect of \<open>f\<close> at the time of the tick.\<close>

lemma redis_call_state:
  "redis_call E R f w = (x, w') \<Longrightarrow>
     rw_redis w' = rw_redis w
     \<or> rw_redis w' = snd (f (unix_milli (clock E (tick w))) (rw_redis w))"
  by (auto simp: redis_call_def split: prod.splits option.splits)

section \<open>What Redis documents\<close>

locale redis_server =
  fixes R :: "'r redis"
  assumes psetex_ok: "0 < px \<Longrightarrow> rd_psetex R t k px v r \<noteq> None"
    and psetex_same:
      "rd_psetex R t k px v r = Some r' \<Longrightarrow> t \<le> t' \<Longrightarrow> t' < t + px \<Longrightarrow> rd_get R t' k r' = Some v"
    and psetex_other: "rd_psetex R t k px v r = Some r' \<Longrightarrow> k' \<noteq> k \<Longrightarrow> rd_get R t' k' r' = rd_get R t' k' r"
    and del_same: "rd_get R t k (rd_del R k r) = None"
    and del_other: "k' \<noteq> k \<Longrightarrow> rd_get R t k' (rd_del R k r) = rd_get R t k' r"
    and expiry_final: "rd_get R t k r = None \<Longrightarrow> t \<le> t' \<Longrightarrow> rd_get R t' k r = None"
begin

text \<open>A key that is live throughout a window stays live when other keys change.\<close>

definition live_until :: "int \<Rightarrow> int \<Rightarrow> string \<Rightarrow> 'r \<Rightarrow> bool" where
  "live_until s e k r \<longleftrightarrow> (\<forall>t. s \<le> t \<longrightarrow> t < e \<longrightarrow> rd_get R t k r \<noteq> None)"

lemma live_later: "live_until s e k r \<Longrightarrow> s \<le> t \<Longrightarrow> live_until t e k r"
  by (auto simp: live_until_def)

lemma live_after_psetex:
  "rd_psetex R t k px v r = Some r' \<Longrightarrow> e \<le> t + px \<Longrightarrow> live_until t e k r'"
  using psetex_same by (fastforce simp: live_until_def)

lemma live_psetex_other:
  "rd_psetex R t k' px v r = Some r' \<Longrightarrow> k' \<noteq> k \<Longrightarrow> live_until s e k r
    \<Longrightarrow> live_until s e k r'"
  using psetex_other by (fastforce simp: live_until_def)

lemma live_del_other: "k' \<noteq> k \<Longrightarrow> live_until s e k r \<Longrightarrow> live_until s e k (rd_del R k' r)"
  using del_other by (fastforce simp: live_until_def)

lemma live_exists: "live_until s e k r \<Longrightarrow> s \<le> t \<Longrightarrow> t < e \<Longrightarrow> rd_exists R t k r"
  by (auto simp: live_until_def rd_exists_def)

text \<open>A key is absent from a moment on.\<close>

definition absent_from :: "int \<Rightarrow> string \<Rightarrow> 'r \<Rightarrow> bool" where
  "absent_from t k r \<longleftrightarrow> (\<forall>t' \<ge> t. rd_get R t' k r = None)"

lemma absent_iff: "absent_from t k r \<longleftrightarrow> rd_get R t k r = None"
  using expiry_final by (auto simp: absent_from_def)

end

section \<open>A keyspace with this behaviour\<close>

text \<open>A value and the first millisecond at which it is gone.\<close>

type_synonym expiring_map = "string \<rightharpoonup> string \<times> int"

definition expiring_get :: "int \<Rightarrow> string \<Rightarrow> expiring_map \<Rightarrow> string option" where
  "expiring_get t k m = (case m k of None \<Rightarrow> None | Some (v, e) \<Rightarrow> if t < e then Some v else None)"

definition expiring_psetex :: "int \<Rightarrow> string \<Rightarrow> int \<Rightarrow> string \<Rightarrow> expiring_map \<Rightarrow> expiring_map option" where
  "expiring_psetex t k px v m = (if px \<le> 0 then None else Some (m(k \<mapsto> (v, t + px))))"

definition expiring_redis :: "(nat \<Rightarrow> (bool \<times> err) option) \<Rightarrow> expiring_map redis" where
  "expiring_redis fault =
     \<lparr>rd_get = expiring_get, rd_psetex = expiring_psetex, rd_del = (\<lambda>k m. m(k := None)),
      rd_fault = fault\<rparr>"

lemma expiring_redis_sel [simp]:
  "rd_get (expiring_redis fault) = expiring_get"
  "rd_psetex (expiring_redis fault) = expiring_psetex"
  "rd_del (expiring_redis fault) = (\<lambda>k m. m(k := None))"
  "rd_fault (expiring_redis fault) = fault"
  by (simp_all add: expiring_redis_def)

interpretation expiring: redis_server "expiring_redis fault"
  by unfold_locales
    (auto simp: expiring_get_def expiring_psetex_def split: option.splits if_splits)

lemma expiring_redis_server: "redis_server (expiring_redis fault)"
  by (rule expiring.redis_server_axioms)

end
