(* ===== verification/Actor.thy ===== *)
theory Actor
  imports GoStrings
begin

text \<open>
  \<open>security/actor.go\<close>: the execution identity that the authentication middlewares put into the
  request context; and \<open>security/authn/rules.go\<close>, \<open>security/authz/rules.go\<close>: the merge of the
  generated rule maps. \<open>context.Context\<close> is a record: its cancellation error, the value stored
  under the actor key, and (in the extension of the record) what other packages store.
\<close>

section \<open>Actors\<close>

record actor =
  act_type :: string
  act_id :: string

abbreviation actor_type_human :: string where "actor_type_human \<equiv> ''human''"
abbreviation actor_type_service :: string where "actor_type_service \<equiv> ''service''"
abbreviation actor_type_anonymous :: string where "actor_type_anonymous \<equiv> ''anonymous''"

definition actor_valid :: "actor \<Rightarrow> bool" where
  "actor_valid a =
     (if act_type a = actor_type_human \<or> act_type a = actor_type_service then act_id a \<noteq> []
      else if act_type a = actor_type_anonymous then act_id a = []
      else False)"

text \<open>
  The server transport that \<open>transport.FromServerContext\<close> finds: the operation and the request
  header as a lookup; a nil header is \<open>None\<close>.
\<close>

record transport =
  tr_operation :: string
  tr_header :: "(string \<Rightarrow> string) option"

record go_ctx =
  ctx_err :: "err option"
  ctx_actor :: "actor option"
  ctx_transport :: "transport option"

definition background :: go_ctx where
  "background = \<lparr>ctx_err = None, ctx_actor = None, ctx_transport = None\<rparr>"

definition with_actor :: "'c go_ctx_scheme \<Rightarrow> actor \<Rightarrow> 'c go_ctx_scheme" where
  "with_actor ctx a = ctx\<lparr>ctx_actor := Some a\<rparr>"

text \<open>\<open>ActorFrom\<close>; a nil context is \<open>None\<close>.\<close>

definition actor_from :: "'c go_ctx_scheme option \<Rightarrow> actor option" where
  "actor_from ctx =
     (case ctx of
        None \<Rightarrow> None
      | Some c \<Rightarrow>
          (case ctx_actor c of
             None \<Rightarrow> None
           | Some a \<Rightarrow> if actor_valid a then Some a else None))"

lemma actor_from_with [simp]:
  "actor_from (Some (with_actor ctx a)) = (if actor_valid a then Some a else None)"
  by (simp add: actor_from_def with_actor_def)

lemma actor_from_valid: "actor_from ctx = Some a \<Longrightarrow> actor_valid a"
  by (auto simp: actor_from_def split: option.splits if_splits)

lemma actor_valid_types:
  "actor_valid a \<Longrightarrow>
     act_type a \<in> {actor_type_human, actor_type_service, actor_type_anonymous}
     \<and> (act_type a = actor_type_anonymous \<longleftrightarrow> act_id a = [])"
  by (auto simp: actor_valid_def split: if_splits)

section \<open>Rule maps\<close>

text \<open>
  An \<open>Option\<close> is the list of providers given to \<open>WithRulesFuncs\<close>; a nil option or provider is
  \<open>None\<close>, and \<open>None\<close> as a result is the panic. \<open>maps.Copy\<close> is map update, later entries win.
\<close>

type_synonym 'r rules = "string \<rightharpoonup> 'r"
type_synonym 'r rules_provider = "unit \<Rightarrow> 'r rules"

definition with_rules_funcs ::
    "'r rules_provider option list \<Rightarrow> 'r rules_provider option list \<Rightarrow> 'r rules_provider option list"
  where "with_rules_funcs providers fs = fs @ providers"

fun apply_rule_options ::
    "'r rules_provider option list option list \<Rightarrow> 'r rules_provider option list
     \<Rightarrow> 'r rules_provider option list option" where
  "apply_rule_options [] fs = Some fs"
| "apply_rule_options (None # opts) fs = None"
| "apply_rule_options (Some ps # opts) fs = apply_rule_options opts (with_rules_funcs ps fs)"

fun merge_rules :: "'r rules_provider option list \<Rightarrow> 'r rules \<Rightarrow> 'r rules" where
  "merge_rules [] rules = rules"
| "merge_rules (None # ps) rules = merge_rules ps rules"
| "merge_rules (Some p # ps) rules = merge_rules ps (rules ++ p ())"

definition authn_new_rules :: "'r rules_provider option list option list \<Rightarrow> 'r rules option" where
  "authn_new_rules opts =
     (case apply_rule_options opts [] of None \<Rightarrow> None | Some fs \<Rightarrow> Some (merge_rules fs Map.empty))"

definition authz_new_rules :: "'r rules_provider option list option list \<Rightarrow> 'r rules option" where
  "authz_new_rules opts =
     (case apply_rule_options opts [] of None \<Rightarrow> None | Some fs \<Rightarrow> Some (merge_rules fs Map.empty))"

lemma apply_rule_options_eq:
  "apply_rule_options opts fs =
     (if None \<in> set opts then None else Some (fs @ concat (map the opts)))"
  by (induction opts fs rule: apply_rule_options.induct) (auto simp: with_rules_funcs_def)

lemma merge_rules_lookup:
  "merge_rules ps rules op =
     (case filter (\<lambda>p. p () op \<noteq> None) (List.map_filter id ps) of
        [] \<Rightarrow> rules op
      | q # qs \<Rightarrow> last (q # qs) () op)"
proof (induction ps rules rule: merge_rules.induct)
  case (3 p ps rules)
  then show ?case
    by (cases "p () op")
      (auto simp: List.map_filter_simps map_add_def split: list.splits)
qed (simp_all add: List.map_filter_simps)

text \<open>
  The rule of an operation is the entry of the last provider that has one; nil providers count
  for nothing and a nil option is a panic.
\<close>

lemma new_rules_last_provider_wins:
  "authn_new_rules opts =
     (if None \<in> set opts then None
      else Some (\<lambda>op.
        case filter (\<lambda>p. p () op \<noteq> None) (List.map_filter id (concat (map the opts))) of
          [] \<Rightarrow> None
        | q # qs \<Rightarrow> last (q # qs) () op))
   \<and> authz_new_rules opts = authn_new_rules opts"
  by (auto simp: authn_new_rules_def authz_new_rules_def apply_rule_options_eq merge_rules_lookup
      intro!: ext)

end
