(* ===== verification/Cap.thy ===== *)
theory Cap
  imports CapWork Redis Actor
begin

text \<open>
  \<open>security/cap/cap.go\<close>: the proof-of-work captcha. A challenge is a signed, stateless token; a
  redeemed challenge leaves a nonce key in Redis until the challenge expires and a verification
  token key that \<open>ValidateToken\<close> and \<open>ValidateTokenWithScope\<close> consume. The Lua scripts are
  translated as one atomic step each. SHA-256, HMAC and the JSON codec of the claims are the
  fields of \<open>cap_crypto\<close>.
\<close>

section \<open>Configuration\<close>

text \<open>
  A \<open>durationpb.Duration\<close>: what its methods \<open>IsValid\<close> and \<open>AsDuration\<close> return.
\<close>

record pb_duration =
  dp_is_valid :: bool
  dp_as_duration :: duration

record pb_cap =
  pc_signing_secret :: string
  pc_redis_key_prefix :: string
  pc_challenge_ttl :: "pb_duration option"
  pc_token_ttl :: "pb_duration option"
  pc_challenge_count :: int
  pc_challenge_size :: int
  pc_challenge_difficulty :: int
  pc_default_scope :: string

definition pb_duration_new :: "duration \<Rightarrow> pb_duration" where
  "pb_duration_new d = \<lparr>dp_is_valid = True, dp_as_duration = d\<rparr>"

definition pb_cap_apply_defaults :: "pb_cap \<Rightarrow> pb_cap" where
  "pb_cap_apply_defaults m =
     m\<lparr>pc_redis_key_prefix :=
         (if pc_redis_key_prefix m = [] then ''cap:v2:'' else pc_redis_key_prefix m),
       pc_challenge_ttl :=
         (if pc_challenge_ttl m = None then Some (pb_duration_new 600000000000) else pc_challenge_ttl m),
       pc_token_ttl :=
         (if pc_token_ttl m = None then Some (pb_duration_new 1200000000000) else pc_token_ttl m),
       pc_challenge_count := (if pc_challenge_count m = 0 then 50 else pc_challenge_count m),
       pc_challenge_size := (if pc_challenge_size m = 0 then 32 else pc_challenge_size m),
       pc_challenge_difficulty :=
         (if pc_challenge_difficulty m = 0 then 4 else pc_challenge_difficulty m)\<rparr>"

definition pb_cap_check_required :: "pb_cap \<Rightarrow> err option" where
  "pb_cap_check_required m =
     (if pc_signing_secret m = [] then Some (errorf ''signing_secret is required'') else None)"

record cap =
  cap_signing_secret :: string
  cap_key_prefix :: string
  cap_params :: challenge_params
  cap_challenge_ttl :: duration
  cap_token_ttl :: duration
  cap_default_scope :: string

definition default_challenge_ttl :: duration where "default_challenge_ttl = 10 * go_minute"
definition default_token_ttl :: duration where "default_token_ttl = 20 * go_minute"
definition default_key_prefix :: string where "default_key_prefix = ''cap:v2:''"
definition min_signing_secret_bytes :: nat where "min_signing_secret_bytes = 16"

definition valid_duration :: "pb_duration option \<Rightarrow> duration \<Rightarrow> err + duration" where
  "valid_duration value fallback =
     (case value of
        None \<Rightarrow> Inr fallback
      | Some v \<Rightarrow>
          if \<not> dp_is_valid v then Inl (errorf ''cap: invalid config: duration is invalid'')
          else if dp_as_duration v \<le> 0 then Inl (errorf ''cap: invalid config: duration must be positive'')
          else Inr (dp_as_duration v))"

text \<open>\<open>New\<close>; the arguments are \<open>None\<close> for nil pointers.\<close>

definition cap_new :: "pb_cap option \<Rightarrow> 'r redis option \<Rightarrow> err + cap" where
  "cap_new config rdb =
     (case config of
        None \<Rightarrow> Inl (errorf ''cap: config is nil'')
      | Some config0 \<Rightarrow>
     (case rdb of
        None \<Rightarrow> Inl (errorf ''cap: Redis client is nil'')
      | Some _ \<Rightarrow>
     (let cfg = pb_cap_apply_defaults config0 in
      case pb_cap_check_required cfg of
        Some e \<Rightarrow> Inl (wrap ''cap: invalid config'' e)
      | None \<Rightarrow>
      if length (pc_signing_secret cfg) < min_signing_secret_bytes
      then Inl (errorf ''cap: signing_secret is too short'')
      else
        case valid_duration (pc_challenge_ttl cfg) default_challenge_ttl of
          Inl e \<Rightarrow> Inl e
        | Inr challengeTTL \<Rightarrow>
        (case valid_duration (pc_token_ttl cfg) default_token_ttl of
          Inl e \<Rightarrow> Inl e
        | Inr tokenTTL \<Rightarrow>
        (let params = \<lparr>cp_c = pc_challenge_count cfg, cp_s = pc_challenge_size cfg,
                       cp_d = pc_challenge_difficulty cfg\<rparr> in
         case validate_challenge_params params of
           Some e \<Rightarrow> Inl (wrap ''cap: invalid config'' e)
         | None \<Rightarrow>
             Inr \<lparr>cap_signing_secret = pc_signing_secret cfg,
                  cap_key_prefix =
                    (if pc_redis_key_prefix cfg = [] then default_key_prefix
                     else pc_redis_key_prefix cfg),
                  cap_params = params,
                  cap_challenge_ttl = challengeTTL,
                  cap_token_ttl = tokenTTL,
                  cap_default_scope = pc_default_scope cfg\<rparr>)))))"

definition cap_wf :: "cap \<Rightarrow> bool" where
  "cap_wf c \<longleftrightarrow>
     min_signing_secret_bytes \<le> length (cap_signing_secret c)
     \<and> cap_key_prefix c \<noteq> []
     \<and> validate_challenge_params (cap_params c) = None
     \<and> 0 < cap_challenge_ttl c \<and> 0 < cap_token_ttl c"

lemma valid_duration_pos: "valid_duration v d = Inr x \<Longrightarrow> 0 < d \<Longrightarrow> 0 < x"
  by (auto simp: valid_duration_def split: option.splits if_splits)

lemma default_ttls_pos: "0 < default_challenge_ttl" "0 < default_token_ttl"
  by (simp_all add: default_challenge_ttl_def default_token_ttl_def time_consts)

lemma cap_new_wf: "cap_new config rdb = Inr c \<Longrightarrow> cap_wf c"
  by (auto simp: cap_new_def cap_wf_def Let_def default_key_prefix_def default_ttls_pos
      dest: valid_duration_pos split: option.splits if_splits sum.splits)

section \<open>Random values, keys\<close>

record cap_crypto =
  cr_sha256 :: "string \<Rightarrow> string"
  cr_hmac :: "string \<Rightarrow> string \<Rightarrow> string"
  cr_marshal :: "challenge_claims \<Rightarrow> err + string"
  cr_unmarshal :: "string \<Rightarrow> challenge_claims option"

definition random_hex :: "env \<Rightarrow> nat \<Rightarrow> ('z world_scheme, string) prog" where
  "random_hex E byteCount w =
     (case rand_read E (tick w) byteCount of
        Inl e \<Rightarrow> (Inl e, w\<lparr>tick := Suc (tick w)\<rparr>)
      | Inr value \<Rightarrow> (Inr (hex_encode value), w\<lparr>tick := Suc (tick w)\<rparr>))"

definition hash_sha256 :: "cap_crypto \<Rightarrow> string \<Rightarrow> string" where
  "hash_sha256 K value = hex_encode (cr_sha256 K value)"

definition is_lower_hex :: "string \<Rightarrow> nat \<Rightarrow> bool" where
  "is_lower_hex value len \<longleftrightarrow> length value = len \<and> list_all lower_hex_char value"

definition nonce_key :: "cap \<Rightarrow> string \<Rightarrow> string" where
  "nonce_key c signatureHex = cap_key_prefix c @ ''nonce:'' @ signatureHex"

definition token_key :: "cap_crypto \<Rightarrow> cap \<Rightarrow> string \<Rightarrow> string \<Rightarrow> string" where
  "token_key K c tid secret = cap_key_prefix c @ ''token:'' @ tid @ '':'' @ hash_sha256 K secret"

definition verification_key :: "cap_crypto \<Rightarrow> cap \<Rightarrow> string \<Rightarrow> string option" where
  "verification_key K c token =
     (case cut (CHR '':'') token of
        (tid, secret, ok) \<Rightarrow>
          if \<not> ok \<or> CHR '':'' \<in> set secret \<or> \<not> is_lower_hex tid 16 \<or> \<not> is_lower_hex secret 30
          then None
          else Some (token_key K c tid secret))"

lemma nonce_token_keys: "nonce_key c s \<noteq> token_key K c i h"
  by (simp add: nonce_key_def token_key_def)

lemma nonce_key_inj [simp]: "nonce_key c s = nonce_key c s' \<longleftrightarrow> s = s'"
  by (simp add: nonce_key_def)

lemma random_hex_Inr:
  "random_hex E n w = (Inr x, w') \<Longrightarrow>
     (\<exists>v. rand_read E (tick w) n = Inr v \<and> x = hex_encode v) \<and> w' = w\<lparr>tick := Suc (tick w)\<rparr>"
  by (auto simp: random_hex_def split: sum.splits)

section \<open>Challenges\<close>

record challenge_config =
  cg_count :: int
  cg_size :: int
  cg_difficulty :: int
  cg_expires_ms :: int
  cg_scope :: string

record challenge_response =
  ch_challenge :: challenge_params
  ch_token :: string
  ch_expires :: int

definition jwt_header_encoded :: string where
  "jwt_header_encoded = b64_encode ''{\"alg\":\"HS256\",\"typ\":\"JWT\"}''"

definition sign_challenge :: "cap_crypto \<Rightarrow> cap \<Rightarrow> challenge_claims \<Rightarrow> err + string" where
  "sign_challenge K c claims =
     (case cr_marshal K claims of
        Inl e \<Rightarrow> Inl e
      | Inr payload \<Rightarrow>
          let body = b64_encode payload;
              signingInput = jwt_header_encoded @ ''.'' @ body
          in Inr (signingInput @ ''.'' @ b64_encode (cr_hmac K (cap_signing_secret c) signingInput)))"

text \<open>The server's policy and what \<open>ChallengeConfig\<close> overrides of it.\<close>

definition challenge_policy :: "cap \<Rightarrow> challenge_config option \<Rightarrow> challenge_params \<times> duration \<times> string" where
  "challenge_policy c override =
     (case override of
        None \<Rightarrow> (cap_params c, cap_challenge_ttl c, cap_default_scope c)
      | Some o' \<Rightarrow>
          (\<lparr>cp_c = (if cg_count o' > 0 then cg_count o' else cp_c (cap_params c)),
            cp_s = (if cg_size o' > 0 then cg_size o' else cp_s (cap_params c)),
            cp_d = (if cg_difficulty o' > 0 then cg_difficulty o' else cp_d (cap_params c))\<rparr>,
           (if cg_expires_ms o' > 0 then int64 (cg_expires_ms o' * ns_per_ms) else cap_challenge_ttl c),
           (if cg_scope o' \<noteq> [] then cg_scope o' else cap_default_scope c)))"

definition create_challenge ::
    "env \<Rightarrow> cap_crypto \<Rightarrow> cap \<Rightarrow> 'c go_ctx_scheme \<Rightarrow> challenge_config option
     \<Rightarrow> ('z world_scheme, challenge_response) prog" where
  "create_challenge E K c ctx override =
     (case ctx_err ctx of Some e \<Rightarrow> throw e | None \<Rightarrow>
      case challenge_policy c override of (params, ttl, scope) \<Rightarrow>
      case validate_challenge_params params of
        Some e \<Rightarrow> throw (wrap ''cap: create challenge'' e)
      | None \<Rightarrow>
      if ttl \<le> 0 then throw (errorf ''cap: create challenge: expiration must be positive'')
      else
        check (random_hex E 25) (\<lambda>e. throw (wrap ''cap: generate challenge nonce'' e)) (\<lambda>nonce.
        seq (now E) (\<lambda>t.
        let issued = unix_milli t;
            expires = int64 (issued + duration_ms ttl);
            claims = \<lparr>cc_nonce = nonce, cc_count = cp_c params, cc_size = cp_s params,
                      cc_difficulty = cp_d params, cc_expires = expires, cc_issued = issued,
                      cc_scope = scope\<rparr>
        in check (result (sign_challenge K c claims)) (\<lambda>e. throw (wrap ''cap: sign challenge'' e)) (\<lambda>token.
           ret \<lparr>ch_challenge = params, ch_token = token, ch_expires = expires\<rparr>))))"

text \<open>
  \<open>verifyChallenge\<close>: first the token itself (\<open>open_challenge\<close>, up to the parameter check), then
  the clock.
\<close>

definition claims_ok :: "challenge_claims \<Rightarrow> bool" where
  "claims_ok claims \<longleftrightarrow>
     is_lower_hex (cc_nonce claims) 50 \<and> \<not> cc_issued claims \<le> 0
     \<and> \<not> cc_expires claims \<le> cc_issued claims
     \<and> validate_challenge_params
         \<lparr>cp_c = cc_count claims, cp_s = cc_size claims, cp_d = cc_difficulty claims\<rparr> = None"

definition open_challenge :: "cap_crypto \<Rightarrow> cap \<Rightarrow> string \<Rightarrow> (challenge_claims \<times> string) option" where
  "open_challenge K c token =
     (case split_on (CHR ''.'') token of
        [p0, p1, p2] \<Rightarrow>
          if p0 \<noteq> jwt_header_encoded \<or> p1 = [] \<or> p2 = [] then None
          else
            (case b64_decode p2 of None \<Rightarrow> None | Some signature \<Rightarrow>
             if signature \<noteq> cr_hmac K (cap_signing_secret c) (p0 @ ''.'' @ p1) then None
             else
               (case b64_decode p1 of None \<Rightarrow> None | Some payload \<Rightarrow>
                (case cr_unmarshal K payload of None \<Rightarrow> None | Some claims \<Rightarrow>
                 if \<not> claims_ok claims then None else Some (claims, signature))))
      | _ \<Rightarrow> None)"

definition verify_challenge ::
    "env \<Rightarrow> cap_crypto \<Rightarrow> cap \<Rightarrow> string \<Rightarrow> ('z world_scheme, challenge_claims \<times> string) prog" where
  "verify_challenge E K c token =
     (case open_challenge K c token of
        None \<Rightarrow> throw (errorf ''invalid token'')
      | Some (claims, signature) \<Rightarrow>
          seq (now E) (\<lambda>t.
          if cc_expires claims < unix_milli t then throw (errorf ''expired token'')
          else ret (claims, hex_encode signature)))"

section \<open>Redeeming\<close>

record redeem_response =
  rr_success :: bool
  rr_message :: string
  rr_token :: string
  rr_expires :: int
  rr_scope :: string
  rr_issued :: int

definition failed_redeem :: "string \<Rightarrow> redeem_response" where
  "failed_redeem msg =
     \<lparr>rr_success = False, rr_message = msg, rr_token = [], rr_expires = 0, rr_scope = [], rr_issued = 0\<rparr>"

text \<open>\<open>issueVerificationScript\<close>: a script that fails keeps what it had already written.\<close>

definition issue_verification_script ::
    "'r redis \<Rightarrow> string \<Rightarrow> string \<Rightarrow> int \<Rightarrow> int \<Rightarrow> string \<Rightarrow> int \<Rightarrow> 'r \<Rightarrow> (err + int) \<times> 'r" where
  "issue_verification_script R nonceKey tokenKey nonceTTL tokenTTL scope t r =
     (if rd_exists R t nonceKey r then (Inr 0, r)
      else if rd_exists R t tokenKey r then (Inr (-1), r)
      else
        case rd_psetex R t nonceKey nonceTTL ''1'' r of
          None \<Rightarrow> (Inl (errorf ''invalid expire time''), r)
        | Some r1 \<Rightarrow>
            (case rd_psetex R t tokenKey tokenTTL scope r1 of
               None \<Rightarrow> (Inl (errorf ''invalid expire time''), r1)
             | Some r2 \<Rightarrow> (Inr 1, r2)))"

fun issue_loop ::
    "env \<Rightarrow> cap_crypto \<Rightarrow> 'r redis \<Rightarrow> cap \<Rightarrow> challenge_claims \<Rightarrow> string \<Rightarrow> duration \<Rightarrow> nat
     \<Rightarrow> (('r, 'z) redis_world_scheme, redeem_response) prog" where
  "issue_loop E K R c claims signatureHex remainingTTL 0 =
     throw (errorf ''cap: issue verification token: repeated token collision'')"
| "issue_loop E K R c claims signatureHex remainingTTL (Suc n) =
     check (random_hex E 15) (\<lambda>e. throw (wrap ''cap: generate verification token'' e)) (\<lambda>secret.
     check (random_hex E 8) (\<lambda>e. throw (wrap ''cap: generate verification id'' e)) (\<lambda>tid.
     check (redis_call E R
              (issue_verification_script R (nonce_key c signatureHex) (token_key K c tid secret)
                 (duration_ms remainingTTL) (duration_ms (cap_token_ttl c)) (cc_scope claims)))
       (\<lambda>e. throw (wrap ''cap: issue verification token'' e)) (\<lambda>res.
     if res = 0 then ret (failed_redeem ''Challenge invalid or expired'')
     else if res = -1 then issue_loop E K R c claims signatureHex remainingTTL n
     else if res = 1 then
       seq (now E) (\<lambda>t.
       ret \<lparr>rr_success = True, rr_message = [], rr_token = tid @ '':'' @ secret,
            rr_expires = int64 (unix_milli t + duration_ms (cap_token_ttl c)),
            rr_scope = cc_scope claims, rr_issued = cc_issued claims\<rparr>)
     else throw (errorf ''cap: issue verification token: unexpected Redis result''))))"

text \<open>A nil slice of solutions is \<open>None\<close>.\<close>

definition redeem_with_scope ::
    "env \<Rightarrow> cap_crypto \<Rightarrow> 'r redis \<Rightarrow> cap \<Rightarrow> string \<Rightarrow> int list option \<Rightarrow> string
     \<Rightarrow> (('r, 'z) redis_world_scheme, redeem_response) prog" where
  "redeem_with_scope E K R c token solutions expectedScope =
     (case (token, solutions) of
        ([], _) \<Rightarrow> ret (failed_redeem ''Invalid body'')
      | (_, None) \<Rightarrow> ret (failed_redeem ''Invalid body'')
      | (_, Some sols) \<Rightarrow>
     check (verify_challenge E K c token)
       (\<lambda>e. ret (failed_redeem ''Challenge invalid or expired'')) (\<lambda>(claims, signatureHex).
     if expectedScope \<noteq> [] \<and> cc_scope claims \<noteq> expectedScope
     then ret (failed_redeem ''Challenge invalid or expired'')
     else if int (length sols) \<noteq> cc_count claims then ret (failed_redeem ''Invalid solution'')
     else if \<not> valid_solutions (cr_sha256 K) token claims sols
     then ret (failed_redeem ''Invalid solution'')
     else
       seq (now E) (\<lambda>t.
       let remainingTTL = int64 (int64 (cc_expires claims - unix_milli t) * ns_per_ms) in
       if remainingTTL \<le> 0 then ret (failed_redeem ''Challenge invalid or expired'')
       else issue_loop E K R c claims signatureHex remainingTTL 3)))"

definition redeem_challenge ::
    "env \<Rightarrow> cap_crypto \<Rightarrow> 'r redis \<Rightarrow> cap \<Rightarrow> string \<Rightarrow> int list option
     \<Rightarrow> (('r, 'z) redis_world_scheme, redeem_response) prog" where
  "redeem_challenge E K R c token solutions =
     redeem_with_scope E K R c token solutions (cap_default_scope c)"

section \<open>Consuming verification tokens\<close>

definition getdel :: "'r redis \<Rightarrow> string \<Rightarrow> int \<Rightarrow> 'r \<Rightarrow> (err + string) \<times> 'r" where
  "getdel R k t r =
     (case rd_get R t k r of
        None \<Rightarrow> (Inl (Sentinel RedisNil), r)
      | Some v \<Rightarrow> (Inr v, rd_del R k r))"

definition validate_token ::
    "env \<Rightarrow> cap_crypto \<Rightarrow> 'r redis \<Rightarrow> cap \<Rightarrow> string \<Rightarrow> (('r, 'z) redis_world_scheme, bool) prog" where
  "validate_token E K R c token =
     (case verification_key K c token of
        None \<Rightarrow> ret False
      | Some key \<Rightarrow>
          check (redis_call E R (getdel R key))
            (\<lambda>e. if errors_is e RedisNil then ret False
                 else throw (wrap ''cap: consume verification token'' e))
            (\<lambda>_. ret True))"

text \<open>\<open>consumeScopedTokenScript\<close>\<close>

definition consume_scoped_token_script ::
    "'r redis \<Rightarrow> string \<Rightarrow> string \<Rightarrow> int \<Rightarrow> 'r \<Rightarrow> (err + int) \<times> 'r" where
  "consume_scoped_token_script R k expectedScope t r =
     (case rd_get R t k r of
        None \<Rightarrow> (Inr 0, r)
      | Some scope \<Rightarrow> if scope \<noteq> expectedScope then (Inr 0, r) else (Inr 1, rd_del R k r))"

definition validate_token_with_scope ::
    "env \<Rightarrow> cap_crypto \<Rightarrow> 'r redis \<Rightarrow> cap \<Rightarrow> string \<Rightarrow> string
     \<Rightarrow> (('r, 'z) redis_world_scheme, bool) prog" where
  "validate_token_with_scope E K R c token expectedScope =
     (case verification_key K c token of
        None \<Rightarrow> ret False
      | Some key \<Rightarrow>
          check (redis_call E R (consume_scoped_token_script R key expectedScope))
            (\<lambda>e. throw (wrap ''cap: consume scoped verification token'' e))
            (\<lambda>res. ret (res = 1)))"

section \<open>The HTTP routes\<close>

datatype cap_json =
    JsonError string
  | JsonChallenge challenge_response
  | JsonRedeem redeem_response

definition handle_challenge ::
    "env \<Rightarrow> cap_crypto \<Rightarrow> cap \<Rightarrow> 'c go_ctx_scheme \<Rightarrow> ('z world_scheme, int \<times> cap_json) run" where
  "handle_challenge E K c ctx =
     seq (create_challenge E K c ctx None) (\<lambda>r w.
       (case r of
          Inl _ \<Rightarrow> (500, JsonError ''internal error'')
        | Inr response \<Rightarrow> (200, JsonChallenge response), w))"

text \<open>The body as the JSON decoder leaves it; \<open>None\<close> when it is rejected.\<close>

definition handle_redeem ::
    "env \<Rightarrow> cap_crypto \<Rightarrow> 'r redis \<Rightarrow> cap \<Rightarrow> (string \<times> int list option) option
     \<Rightarrow> (('r, 'z) redis_world_scheme, int \<times> cap_json) run" where
  "handle_redeem E K R c body =
     (case body of
        None \<Rightarrow> (\<lambda>w. ((400, JsonError ''invalid body''), w))
      | Some (token, solutions) \<Rightarrow>
          seq (redeem_challenge E K R c token solutions) (\<lambda>r w.
            (case r of
               Inl _ \<Rightarrow> (500, JsonError ''internal error'')
             | Inr response \<Rightarrow> (if \<not> rr_success response then 400 else 200, JsonRedeem response), w)))"

section \<open>Traffic\<close>

text \<open>Any sequence of calls to one Cap, from any number of clients.\<close>

datatype cap_request =
    ReqChallenge "challenge_config option"
  | ReqRedeem string "int list option" string
  | ReqValidate string
  | ReqValidateScope string string

fun cap_serve ::
    "env \<Rightarrow> cap_crypto \<Rightarrow> 'r redis \<Rightarrow> cap \<Rightarrow> cap_request
     \<Rightarrow> ('r, 'z) redis_world_scheme \<Rightarrow> ('r, 'z) redis_world_scheme" where
  "cap_serve E K R c (ReqChallenge override) w =
     snd (create_challenge E K c background override w)"
| "cap_serve E K R c (ReqRedeem token sols scope) w =
     snd (redeem_with_scope E K R c token sols scope w)"
| "cap_serve E K R c (ReqValidate token) w = snd (validate_token E K R c token w)"
| "cap_serve E K R c (ReqValidateScope token scope) w =
     snd (validate_token_with_scope E K R c token scope w)"

definition cap_traffic ::
    "env \<Rightarrow> cap_crypto \<Rightarrow> 'r redis \<Rightarrow> cap \<Rightarrow> cap_request list
     \<Rightarrow> ('r, 'z) redis_world_scheme \<Rightarrow> ('r, 'z) redis_world_scheme" where
  "cap_traffic E K R c reqs w = fold (cap_serve E K R c) reqs w"

section \<open>What requests keep\<close>

text \<open>
  A predicate on the tick and the keyspace is kept by every request when it survives the passing of
  time and the atomic steps; the issuing step writes a token key made of the random values that
  were read in the two ticks before it.
\<close>

definition redis_ms :: "env \<Rightarrow> nat \<Rightarrow> int" where
  "redis_ms E n = unix_milli (clock E n)"

definition at_world :: "(nat \<Rightarrow> 'r \<Rightarrow> bool) \<Rightarrow> ('r, 'z) redis_world_scheme \<Rightarrow> bool" where
  "at_world I w \<longleftrightarrow> I (tick w) (rw_redis w)"

definition time_stable :: "(nat \<Rightarrow> 'r \<Rightarrow> bool) \<Rightarrow> bool" where
  "time_stable I \<longleftrightarrow> (\<forall>i j r. i \<le> j \<longrightarrow> I i r \<longrightarrow> I j r)"

definition script_stable :: "env \<Rightarrow> (nat \<Rightarrow> 'r \<Rightarrow> bool) \<Rightarrow> (int \<Rightarrow> 'r \<Rightarrow> 'a \<times> 'r) \<Rightarrow> bool" where
  "script_stable E I f \<longleftrightarrow> (\<forall>n r. I n r \<longrightarrow> I n (snd (f (redis_ms E n) r)))"

definition issue_stable :: "env \<Rightarrow> cap_crypto \<Rightarrow> 'r redis \<Rightarrow> cap \<Rightarrow> (nat \<Rightarrow> 'r \<Rightarrow> bool) \<Rightarrow> bool" where
  "issue_stable E K R c I \<longleftrightarrow>
     (\<forall>n r s i sig p q scope.
        I n r \<longrightarrow> rand_read E n 15 = Inr s \<longrightarrow> rand_read E (Suc n) 8 = Inr i \<longrightarrow>
        I (Suc (Suc n))
          (snd (issue_verification_script R (nonce_key c sig)
                  (token_key K c (hex_encode i) (hex_encode s)) p q scope
                  (redis_ms E (Suc (Suc n))) r)))"

definition cap_stable ::
    "env \<Rightarrow> cap_crypto \<Rightarrow> 'r redis \<Rightarrow> cap \<Rightarrow> (string \<Rightarrow> bool) \<Rightarrow> (nat \<Rightarrow> 'r \<Rightarrow> bool) \<Rightarrow> bool" where
  "cap_stable E K R c S I \<longleftrightarrow>
     time_stable I \<and> issue_stable E K R c I
     \<and> (\<forall>tid secret. S (token_key K c tid secret) \<longrightarrow>
          script_stable E I (getdel R (token_key K c tid secret))
          \<and> (\<forall>scope. script_stable E I
               (consume_scoped_token_script R (token_key K c tid secret) scope)))"

text \<open>The token key that a request would consume.\<close>

fun req_token_key :: "cap_crypto \<Rightarrow> cap \<Rightarrow> cap_request \<Rightarrow> string option" where
  "req_token_key K c (ReqValidate token) = verification_key K c token"
| "req_token_key K c (ReqValidateScope token scope) = verification_key K c token"
| "req_token_key K c (ReqChallenge override) = None"
| "req_token_key K c (ReqRedeem token sols scope) = None"

lemma redis_ms_mono: "mono_clock E \<Longrightarrow> i \<le> j \<Longrightarrow> redis_ms E i \<le> redis_ms E j"
  by (simp add: redis_ms_def mono_clockD unix_milli_mono)

lemma at_world_later:
  "time_stable I \<Longrightarrow> at_world I w \<Longrightarrow> tick w \<le> tick w' \<Longrightarrow> rw_redis w' = rw_redis w \<Longrightarrow> at_world I w'"
  by (metis at_world_def time_stable_def)

lemma preserves_at_now [preserve_intros]: "time_stable I \<Longrightarrow> preserves (at_world I) (now E)"
  by (rule preservesI) (auto simp: now_def intro: at_world_later)

lemma preserves_at_random [preserve_intros]:
  "time_stable I \<Longrightarrow> preserves (at_world I) (random_hex E n)"
  by (rule preservesI) (auto simp: random_hex_def split: sum.splits intro: at_world_later)

lemma at_call:
  assumes "time_stable I" "redis_call E R f w = (x, w')" "at_world I w"
    and "I (tick w) (snd (f (redis_ms E (tick w)) (rw_redis w)))"
  shows "at_world I w'"
proof -
  have "I (tick w) (rw_redis w')"
    using assms redis_call_state [OF assms(2)] by (auto simp: redis_ms_def at_world_def)
  then show ?thesis
    using assms(1) redis_call_tick [OF assms(2)] unfolding at_world_def time_stable_def
    by (metis le_Suc_eq order_refl)
qed

lemma preserves_at_call [preserve_intros]:
  "time_stable I \<Longrightarrow> script_stable E I f \<Longrightarrow> preserves (at_world I) (redis_call E R f)"
  by (rule preservesI, rule at_call) (auto simp: script_stable_def at_world_def)

lemma verification_key_Some:
  "verification_key K c token = Some k \<Longrightarrow> \<exists>tid secret. k = token_key K c tid secret"
  by (auto simp: verification_key_def split: prod.splits if_splits)

lemma cap_stableD:
  assumes "cap_stable E K R c S I"
  shows "time_stable I" and "issue_stable E K R c I"
    and "verification_key K c token = Some k \<Longrightarrow> S k \<Longrightarrow> script_stable E I (getdel R k)"
    and "verification_key K c token = Some k \<Longrightarrow> S k
      \<Longrightarrow> script_stable E I (consume_scoped_token_script R k scope)"
  using assms verification_key_Some [of K c token k] by (auto simp: cap_stable_def)

text \<open>One attempt of the issuing loop, unfolded.\<close>

abbreviation issue_step where
  "issue_step R K c claims sig rem s i \<equiv>
     issue_verification_script R (nonce_key c sig) (token_key K c (hex_encode i) (hex_encode s))
       (duration_ms rem) (duration_ms (cap_token_ttl c)) (cc_scope claims)"

lemma issue_loop_step:
  "issue_loop E K R c claims sig rem (Suc n) w =
     (case rand_read E (tick w) 15 of
        Inl e \<Rightarrow> (Inl (wrap ''cap: generate verification token'' e), w\<lparr>tick := Suc (tick w)\<rparr>)
      | Inr s \<Rightarrow>
     (case rand_read E (Suc (tick w)) 8 of
        Inl e \<Rightarrow> (Inl (wrap ''cap: generate verification id'' e), w\<lparr>tick := Suc (Suc (tick w))\<rparr>)
      | Inr i \<Rightarrow>
     (case redis_call E R (issue_step R K c claims sig rem s i) (w\<lparr>tick := Suc (Suc (tick w))\<rparr>) of
        (Inl e, v) \<Rightarrow> (Inl (wrap ''cap: issue verification token'' e), v)
      | (Inr res, v) \<Rightarrow>
          if res = 0 then (Inr (failed_redeem ''Challenge invalid or expired''), v)
          else if res = -1 then issue_loop E K R c claims sig rem n v
          else if res = 1 then
            (Inr \<lparr>rr_success = True, rr_message = [], rr_token = hex_encode i @ '':'' @ hex_encode s,
                  rr_expires = int64 (unix_milli (clock E (tick v)) + duration_ms (cap_token_ttl c)),
                  rr_scope = cc_scope claims, rr_issued = cc_issued claims\<rparr>,
             v\<lparr>tick := Suc (tick v)\<rparr>)
          else (Inl (errorf ''cap: issue verification token: unexpected Redis result''), v))))"
  by (simp add: check_run random_hex_def seq_run now_def split: sum.splits prod.splits)

declare issue_loop.simps(2) [simp del]

lemma issue_loop_keeps:
  assumes "cap_stable E K R c S I"
  shows "preserves (at_world I)
    (issue_loop E K R c claims sig rem n :: (('r, 'z) redis_world_scheme, redeem_response) prog)"
proof (induction n)
  case 0
  show ?case by (subst issue_loop.simps) (rule preserves_throw)
next
  case (Suc n)
  note ts = cap_stableD(1) [OF assms]
  show ?case
    unfolding preserves_def
  proof (intro allI impI)
    fix w :: "('r, 'z) redis_world_scheme"
    assume I: "at_world I w"
    have later: "at_world I (w\<lparr>tick := Suc (tick w)\<rparr>)" "at_world I (w\<lparr>tick := Suc (Suc (tick w))\<rparr>)"
      by (rule at_world_later [OF ts I]; simp)+
    have called: "at_world I v \<and> at_world I (v\<lparr>tick := Suc (tick v)\<rparr>)"
      if r: "rand_read E (tick w) 15 = Inr s" "rand_read E (Suc (tick w)) 8 = Inr i"
        and call: "redis_call E R (issue_step R K c claims sig rem s i) (w\<lparr>tick := Suc (Suc (tick w))\<rparr>)
          = (x, v)" for s i x v
    proof -
      have "I (Suc (Suc (tick w)))
          (snd (issue_step R K c claims sig rem s i (redis_ms E (Suc (Suc (tick w)))) (rw_redis w)))"
        using cap_stableD(2) [OF assms] I r by (simp add: issue_stable_def at_world_def)
      then have v: "at_world I v" by (intro at_call [OF ts call] later) simp
      then show ?thesis by (auto intro: at_world_later [OF ts v])
    qed
    note ih = Suc.IH [unfolded preserves_def, rule_format]
    show "at_world I (snd (issue_loop E K R c claims sig rem (Suc n) w))"
      unfolding issue_loop_step
      by (auto simp: later split: sum.split prod.split dest: called intro: ih)
  qed
qed

lemma create_keeps:
  assumes "cap_stable E K R c S I"
  shows "preserves (at_world I) (create_challenge E K c ctx override)"
  unfolding create_challenge_def
  by (intro preserve_intros cap_stableD(1) [OF assms])

lemma verify_keeps:
  assumes "cap_stable E K R c S I"
  shows "preserves (at_world I) (verify_challenge E K c token)"
  unfolding verify_challenge_def
  by (intro preserve_intros cap_stableD(1) [OF assms])

lemma redeem_keeps:
  assumes "cap_stable E K R c S I"
  shows "preserves (at_world I) (redeem_with_scope E K R c token sols scope)"
  unfolding redeem_with_scope_def
  by (cases token; cases sols; simp only: prod.case list.case option.case;
      intro preserve_intros verify_keeps [OF assms] issue_loop_keeps [OF assms]
        cap_stableD(1) [OF assms])

lemma validate_keeps:
  assumes "cap_stable E K R c S I" "\<And>k. verification_key K c token = Some k \<Longrightarrow> S k"
  shows "preserves (at_world I) (validate_token E K R c token)"
    and "preserves (at_world I) (validate_token_with_scope E K R c token scope)"
  unfolding validate_token_def validate_token_with_scope_def
  by (intro preserve_intros cap_stableD(1) [OF assms(1)] cap_stableD(3,4) [OF assms(1)] assms(2);
      assumption)+

lemma serve_keeps:
  assumes "cap_stable E K R c S I" "\<And>k. req_token_key K c req = Some k \<Longrightarrow> S k" "at_world I w"
  shows "at_world I (cap_serve E K R c req w)"
proof -
  have step: "at_world I (snd (p w))" if "preserves (at_world I) p" for p
    using that assms(3) by (simp add: preserves_def)
  show ?thesis
    using assms(2)
    by (cases req)
      (simp_all add: step create_keeps [OF assms(1)] redeem_keeps [OF assms(1)]
        validate_keeps [OF assms(1)])
qed

lemma traffic_keeps:
  assumes "cap_stable E K R c S I" "\<forall>req \<in> set reqs. \<forall>k. req_token_key K c req = Some k \<longrightarrow> S k"
    "at_world I w"
  shows "at_world I (cap_traffic E K R c reqs w)"
  using assms(2,3) unfolding cap_traffic_def
  by (induction reqs arbitrary: w) (simp_all add: serve_keeps [OF assms(1)])

text \<open>Requests only move time forward.\<close>

lemma cap_stable_tick: "cap_stable E K R c (\<lambda>_. True) (\<lambda>n r. m \<le> n)"
  by (auto simp: cap_stable_def time_stable_def script_stable_def issue_stable_def)

lemma issue_loop_tick:
  "issue_loop E K R c claims sig rem n w = (res, w') \<Longrightarrow> tick w \<le> tick w'"
  using preservesD [OF issue_loop_keeps [OF cap_stable_tick]] unfolding at_world_def by blast

section \<open>The issuing script\<close>

lemma issue_script_other:
  assumes "redis_server R" "k \<noteq> nk" "k \<noteq> tk"
  shows "rd_get R t' k (snd (issue_verification_script R nk tk p q scope t r)) = rd_get R t' k r"
  using assms(2,3) redis_server.psetex_other [OF assms(1)]
  by (auto simp: issue_verification_script_def split: option.split)

text \<open>A success of the loop: the moment of the script, and the two keys it wrote.\<close>

lemma issue_loop_success:
  "issue_loop E K R c claims sig rem n w = (Inr resp, w') \<Longrightarrow> rr_success resp \<Longrightarrow>
     \<exists>m s i r r1. tick w \<le> m \<and> m < tick w'
       \<and> rr_token resp = hex_encode i @ '':'' @ hex_encode s
       \<and> (\<exists>j. rand_read E j 15 = Inr s \<and> rand_read E (Suc j) 8 = Inr i \<and> m = Suc (Suc j))
       \<and> rd_psetex R (redis_ms E m) (nonce_key c sig) (duration_ms rem) ''1'' r = Some r1
       \<and> rd_psetex R (redis_ms E m) (token_key K c (hex_encode i) (hex_encode s))
            (duration_ms (cap_token_ttl c)) (cc_scope claims) r1 = Some (rw_redis w')"
proof (induction n arbitrary: w)
  case 0
  then show ?case by simp
next
  case (Suc n)
  obtain s where s: "rand_read E (tick w) 15 = Inr s"
    using Suc.prems(1) by (auto simp: issue_loop_step split: sum.splits)
  obtain i where i: "rand_read E (Suc (tick w)) 8 = Inr i"
    using Suc.prems(1) s by (auto simp: issue_loop_step split: sum.splits)
  let ?f = "issue_step R K c claims sig rem s i" and ?u = "w\<lparr>tick := Suc (Suc (tick w))\<rparr>"
  obtain x v where call: "redis_call E R ?f ?u = (Inr x, v)"
    using Suc.prems(1) s i by (auto simp: issue_loop_step split: sum.splits prod.splits)
  then have tv: "tick v = Suc (Suc (Suc (tick w)))" using redis_call_tick [OF call] by simp
  show ?case
  proof (cases "x = -1")
    case True
    then have "issue_loop E K R c claims sig rem n v = (Inr resp, w')"
      using Suc.prems(1) s i call by (simp add: issue_loop_step)
    moreover have "tick w \<le> m" if "tick v \<le> m" for m using tv that by simp
    ultimately show ?thesis using Suc.IH [OF _ Suc.prems(2)] by blast
  next
    case False
    then have x: "x = 1" and tok: "rr_token resp = hex_encode i @ '':'' @ hex_encode s"
      and w': "w' = v\<lparr>tick := Suc (tick v)\<rparr>"
      using Suc.prems s i call by (auto simp: issue_loop_step failed_redeem_def split: if_splits)
    have "fst (?f (redis_ms E (tick ?u)) (rw_redis w)) = Inr 1"
      "rw_redis v = snd (?f (redis_ms E (tick ?u)) (rw_redis w))"
      using redis_call_Inr [OF call] x by (auto simp: redis_ms_def)
    then have "\<exists>r1. rd_psetex R (redis_ms E (tick ?u)) (nonce_key c sig) (duration_ms rem) ''1'' (rw_redis w)
          = Some r1
        \<and> rd_psetex R (redis_ms E (tick ?u)) (token_key K c (hex_encode i) (hex_encode s))
            (duration_ms (cap_token_ttl c)) (cc_scope claims) r1 = Some (rw_redis v)"
      by (auto simp: issue_verification_script_def split: if_splits option.splits)
    with tok w' tv s i show ?thesis by (intro exI [of _ "tick ?u"]) auto
  qed
qed

lemma redeem_success:
  assumes "redeem_with_scope E K R c token sols scope w = (Inr resp, w')" "rr_success resp"
  shows "\<exists>claims signature xs v.
      token \<noteq> [] \<and> sols = Some xs
      \<and> open_challenge K c token = Some (claims, signature)
      \<and> redis_ms E (tick w) \<le> cc_expires claims
      \<and> (scope = [] \<or> cc_scope claims = scope)
      \<and> int (length xs) = cc_count claims
      \<and> valid_solutions (cr_sha256 K) token claims xs
      \<and> v = w\<lparr>tick := Suc (Suc (tick w))\<rparr>
      \<and> 0 < int64 (int64 (cc_expires claims - redis_ms E (Suc (tick w))) * ns_per_ms)
      \<and> issue_loop E K R c claims (hex_encode signature)
          (int64 (int64 (cc_expires claims - redis_ms E (Suc (tick w))) * ns_per_ms)) 3 v = (Inr resp, w')"
proof -
  obtain a t where tok: "token = a # t"
    using assms by (cases token) (auto simp: redeem_with_scope_def failed_redeem_def)
  obtain xs where sols: "sols = Some xs"
    using assms tok by (cases sols) (auto simp: redeem_with_scope_def failed_redeem_def)
  show ?thesis
    using assms unfolding redeem_with_scope_def tok sols
    by (auto simp: check_run verify_challenge_def seq_run now_def redis_ms_def failed_redeem_def
        Let_def split: option.splits if_splits prod.splits)
qed

text \<open>Milliseconds survive the conversion to a duration and back while they fit 64 bits.\<close>

definition max_remaining_ms :: int where "max_remaining_ms = 9223372036854"

lemma remaining_exact:
  assumes "x \<le> max_remaining_ms" "0 < int64 (int64 x * ns_per_ms)" "- max_remaining_ms \<le> x"
  shows "duration_ms (int64 (int64 x * ns_per_ms)) = x"
proof -
  have x: "int64 x = x" using assms by (intro int64_id) (simp_all add: max_remaining_ms_def)
  have "int64 (x * ns_per_ms) = x * ns_per_ms"
    using assms(1,3) by (intro int64_id) (simp_all add: max_remaining_ms_def ns_per_ms_def)
  then show ?thesis using assms(2) unfolding x by (simp add: duration_ms_nonneg ns_per_ms_def)
qed

context redis_server
begin

text \<open>A nonce stays in the keyspace up to the expiry of its challenge, whatever is requested.\<close>

lemma nonce_stable:
  assumes "mono_clock E"
  shows "cap_stable E K R c (\<lambda>_. True) (\<lambda>n r. live_until (redis_ms E n) e (nonce_key c sig) r)"
proof -
  have "script_stable E (\<lambda>n r. live_until (redis_ms E n) e (nonce_key c sig) r) (getdel R k)"
    "script_stable E (\<lambda>n r. live_until (redis_ms E n) e (nonce_key c sig) r)
      (consume_scoped_token_script R k scope)"
    if "k \<noteq> nonce_key c sig" for k scope
    using that by (auto simp: script_stable_def getdel_def consume_scoped_token_script_def
        intro: live_del_other split: option.splits)
  moreover have "issue_stable E K R c (\<lambda>n r. live_until (redis_ms E n) e (nonce_key c sig) r)"
    unfolding issue_stable_def
  proof (intro allI impI)
    fix n r s i sig' p q scope
    let ?t = "redis_ms E (Suc (Suc n))" and ?k = "nonce_key c sig"
    assume "live_until (redis_ms E n) e ?k r"
    then have l: "live_until ?t e ?k r" using redis_ms_mono [OF assms] by (rule live_later) simp
    let ?r = "snd (issue_verification_script R (nonce_key c sig')
      (token_key K c (hex_encode i) (hex_encode s)) p q scope ?t r)"
    show "live_until ?t e ?k ?r"
    proof (cases "sig' = sig \<and> ?t < e")
      case True
      then have "rd_exists R ?t ?k r" using live_exists [OF l] by simp
      with True l show ?thesis by (simp add: issue_verification_script_def)
    next
      case False
      then consider "e \<le> ?t" | "sig' \<noteq> sig" by linarith
      then show ?thesis
      proof cases
        case 2
        then show ?thesis
          using l issue_script_other [OF redis_server_axioms] nonce_token_keys
          by (simp add: live_until_def)
      qed (simp add: live_until_def)
    qed
  qed
  ultimately show ?thesis
    using redis_ms_mono [OF assms] nonce_token_keys [THEN not_sym]
    by (auto simp: cap_stable_def time_stable_def intro: live_later)
qed

lemma live_blocks_issue:
  assumes "mono_clock E"
  shows "live_until (redis_ms E (tick w)) e (nonce_key c sig) (rw_redis w)
    \<Longrightarrow> issue_loop E K R c claims sig rem n w = (Inr resp, w') \<Longrightarrow> redis_ms E (tick w') < e
    \<Longrightarrow> \<not> rr_success resp"
proof
  assume live: "live_until (redis_ms E (tick w)) e (nonce_key c sig) (rw_redis w)"
    and run: "issue_loop E K R c claims sig rem n w = (Inr resp, w')"
    and e: "redis_ms E (tick w') < e" and ok: "rr_success resp"
  show False
    using live run
  proof (induction n arbitrary: w)
    case 0
    then show ?case by simp
  next
    case (Suc n)
    let ?t = "redis_ms E (Suc (Suc (tick w)))"
    obtain s i x v where r: "rand_read E (tick w) 15 = Inr s" "rand_read E (Suc (tick w)) 8 = Inr i"
      and call: "redis_call E R (issue_step R K c claims sig rem s i) (w\<lparr>tick := Suc (Suc (tick w))\<rparr>)
        = (Inr x, v)"
      using Suc.prems(2) by (auto simp: issue_loop_step split: sum.splits prod.splits)
    have "Suc (Suc (tick w)) \<le> tick w'"
    proof -
      have "tick v = Suc (Suc (Suc (tick w)))" using redis_call_tick [OF call] by simp
      moreover have "tick v \<le> tick w'"
        using Suc.prems(2) r call issue_loop_tick [of E K R c claims sig rem n v]
        by (auto simp: issue_loop_step split: if_splits)
      ultimately show ?thesis by simp
    qed
    then have "?t < e" using redis_ms_mono [OF assms] e by (meson le_less_trans)
    moreover have "redis_ms E (tick w) \<le> ?t" by (simp add: redis_ms_mono [OF assms])
    ultimately have "rd_exists R ?t (nonce_key c sig) (rw_redis w)"
      using live_exists [OF Suc.prems(1)] by blast
    then have "x = 0"
      using redis_call_Inr [OF call] by (simp add: issue_verification_script_def redis_ms_def)
    then show False
      using Suc.prems(2) r call ok by (auto simp: issue_loop_step failed_redeem_def)
  qed
qed

text \<open>After a success the nonce lives until the challenge expires.\<close>

lemma redeem_nonce_live:
  assumes "mono_clock E" "redeem_with_scope E K R c token sols scope w = (Inr resp, w')"
    "rr_success resp" "open_challenge K c token = Some (claims, signature)"
    "cc_expires claims - redis_ms E (tick w) \<le> max_remaining_ms"
  shows "live_until (redis_ms E (tick w')) (cc_expires claims)
           (nonce_key c (hex_encode signature)) (rw_redis w')"
proof -
  let ?rem = "int64 (int64 (cc_expires claims - redis_ms E (Suc (tick w))) * ns_per_ms)"
  let ?u = "w\<lparr>tick := Suc (Suc (tick w))\<rparr>" and ?k = "nonce_key c (hex_encode signature)"
  have pos: "0 < ?rem" and lower: "redis_ms E (tick w) \<le> cc_expires claims"
    and loop: "issue_loop E K R c claims (hex_encode signature) ?rem 3 ?u = (Inr resp, w')"
    using redeem_success [OF assms(2,3)] assms(4) by auto
  obtain m s i r r1 where m: "tick ?u \<le> m" "m < tick w'"
    and n1: "rd_psetex R (redis_ms E m) ?k (duration_ms ?rem) ''1'' r = Some r1"
    and n2: "rd_psetex R (redis_ms E m) (token_key K c (hex_encode i) (hex_encode s))
          (duration_ms (cap_token_ttl c)) (cc_scope claims) r1 = Some (rw_redis w')"
    using issue_loop_success [OF loop assms(3)] by blast
  let ?x = "cc_expires claims - redis_ms E (Suc (tick w))"
  have "redis_ms E (tick w) \<le> redis_ms E (Suc (tick w))" by (simp add: redis_ms_mono [OF assms(1)])
  then have x: "?x \<le> max_remaining_ms" using assms(5) by linarith
  show ?thesis
  proof (cases "- max_remaining_ms \<le> ?x")
    case True
    have le: "redis_ms E (Suc (tick w)) \<le> redis_ms E m"
      using m(1) by (simp add: redis_ms_mono [OF assms(1)])
    have "duration_ms ?rem = ?x" by (rule remaining_exact [OF x pos True])
    with le have "cc_expires claims \<le> redis_ms E m + duration_ms ?rem" by linarith
    then have "live_until (redis_ms E m) (cc_expires claims) ?k r1"
      using live_after_psetex [OF n1] by blast
    then have "live_until (redis_ms E m) (cc_expires claims) ?k (rw_redis w')"
      using live_psetex_other [OF n2] nonce_token_keys by metis
    then show ?thesis
      using redis_ms_mono [OF assms(1), of m "tick w'"] m(2) by (auto intro: live_later)
  next
    case False
    then have "cc_expires claims \<le> redis_ms E (tick w')"
      using redis_ms_mono [OF assms(1), of "Suc (tick w)" "tick w'"] m
      by (simp add: max_remaining_ms_def)
    then show ?thesis by (auto simp: live_until_def)
  qed
qed

lemma redeem_blocked:
  assumes "mono_clock E" "redeem_with_scope E K R c token sols scope w = (Inr resp, w')"
    "open_challenge K c token = Some (claims, signature)"
    "live_until (redis_ms E (tick w)) e (nonce_key c (hex_encode signature)) (rw_redis w)"
    "redis_ms E (tick w') < e"
  shows "\<not> rr_success resp"
proof
  assume ok: "rr_success resp"
  let ?u = "w\<lparr>tick := Suc (Suc (tick w))\<rparr>"
  obtain rem where loop: "issue_loop E K R c claims (hex_encode signature) rem 3 ?u = (Inr resp, w')"
    using redeem_success [OF assms(2) ok] assms(3) by auto
  have "redis_ms E (tick w) \<le> redis_ms E (tick ?u)" by (simp add: redis_ms_mono [OF assms(1)])
  then have "live_until (redis_ms E (tick ?u)) e (nonce_key c (hex_encode signature)) (rw_redis ?u)"
    using live_later [OF assms(4)] by simp
  from live_blocks_issue [OF assms(1) this loop assms(5)] ok show False by simp
qed

end

section \<open>The life of a verification token\<close>

text \<open>\<open>crypto/rand.Read\<close> fills the slice it is given.\<close>

definition rand_fills :: "env \<Rightarrow> bool" where
  "rand_fills E \<longleftrightarrow> (\<forall>n k v. rand_read E n k = Inr v \<longrightarrow> length v = k)"

text \<open>No later reading of the random source yields a token with this key again.\<close>

definition no_reissue :: "env \<Rightarrow> cap_crypto \<Rightarrow> cap \<Rightarrow> string \<Rightarrow> nat \<Rightarrow> bool" where
  "no_reissue E K c key n \<longleftrightarrow>
     (\<forall>m \<ge> n. \<forall>s i. rand_read E m 15 = Inr s \<longrightarrow> rand_read E (Suc m) 8 = Inr i \<longrightarrow>
        token_key K c (hex_encode i) (hex_encode s) \<noteq> key)"

lemma hex_no_colon [simp]: "CHR '':'' \<notin> set (hex_encode s)"
  using colon_not_lower_hex hex_encode_lower by blast

lemma verification_key_issued:
  "length i = 8 \<Longrightarrow> length s = 15 \<Longrightarrow>
     verification_key K c (hex_encode i @ '':'' @ hex_encode s)
       = Some (token_key K c (hex_encode i) (hex_encode s))"
  by (simp add: verification_key_def cut_append is_lower_hex_def hex_encode_lower)

lemma validate_token_true:
  "validate_token E K R c token w = (Inr True, w') \<Longrightarrow>
     \<exists>k. verification_key K c token = Some k
       \<and> rd_get R (redis_ms E (tick w)) k (rw_redis w) \<noteq> None
       \<and> rw_redis w' = rd_del R k (rw_redis w) \<and> tick w' = Suc (tick w)"
  by (auto simp: validate_token_def check_run redis_call_def getdel_def redis_ms_def
      split: option.splits prod.splits if_splits)

lemma validate_token_absent:
  "verification_key K c token = Some k \<Longrightarrow> rd_get R (redis_ms E (tick w)) k (rw_redis w) = None
    \<Longrightarrow> fst (validate_token E K R c token w) \<noteq> Inr True"
  by (auto simp: validate_token_def check_run redis_call_def getdel_def redis_ms_def
      split: option.splits prod.splits if_splits)

lemma validate_token_present:
  "verification_key K c token = Some k \<Longrightarrow> rd_get R (redis_ms E (tick w)) k (rw_redis w) \<noteq> None
    \<Longrightarrow> rd_fault R (tick w) = None \<Longrightarrow> fst (validate_token E K R c token w) = Inr True"
  by (auto simp: validate_token_def check_run redis_call_def getdel_def redis_ms_def
      split: option.splits prod.splits if_splits)

lemma validate_scope_present:
  "verification_key K c token = Some k \<Longrightarrow> rd_get R (redis_ms E (tick w)) k (rw_redis w) = Some sc
    \<Longrightarrow> rd_fault R (tick w) = None
    \<Longrightarrow> fst (validate_token_with_scope E K R c token scope w) = Inr (sc = scope)
      \<and> (sc \<noteq> scope \<longrightarrow> rw_redis (snd (validate_token_with_scope E K R c token scope w)) = rw_redis w)"
  by (auto simp: validate_token_with_scope_def check_run redis_call_def
      consume_scoped_token_script_def redis_ms_def split: option.splits prod.splits if_splits)

context redis_server
begin

lemma absent_stable:
  assumes "mono_clock E" "no_reissue E K c k n0" "\<And>sig. k \<noteq> nonce_key c sig"
  shows "cap_stable E K R c (\<lambda>_. True) (\<lambda>n r. n0 \<le> n \<and> rd_get R (redis_ms E n) k r = None)"
proof -
  let ?I = "\<lambda>n r. n0 \<le> n \<and> rd_get R (redis_ms E n) k r = None"
  have del: "rd_get R t k (rd_del R k' r) = None" if "rd_get R t k r = None" for t k' r
    using that del_same del_other by (cases "k' = k") (auto simp: expiry_final)
  have "script_stable E ?I (getdel R k')" "script_stable E ?I (consume_scoped_token_script R k' sc)"
    for k' sc
    by (auto simp: script_stable_def getdel_def consume_scoped_token_script_def del split: option.splits)
  moreover have later: "time_stable ?I"
    using redis_ms_mono [OF assms(1)] expiry_final by (fastforce simp: time_stable_def)
  moreover have "issue_stable E K R c ?I"
    unfolding issue_stable_def
  proof (intro allI impI)
    fix n r s i sig p q scope
    let ?t = "redis_ms E (Suc (Suc n))"
    assume I: "?I n r" and r: "rand_read E n 15 = Inr s" "rand_read E (Suc n) 8 = Inr i"
    from I r assms(2) have "k \<noteq> token_key K c (hex_encode i) (hex_encode s)"
      unfolding no_reissue_def by metis
    moreover from later I have "?I (Suc (Suc n)) r" unfolding time_stable_def by (meson le_SucI order_refl)
    ultimately show "?I (Suc (Suc n)) (snd (issue_verification_script R (nonce_key c sig)
        (token_key K c (hex_encode i) (hex_encode s)) p q scope ?t r))"
      using issue_script_other [OF redis_server_axioms assms(3)] by simp
  qed
  ultimately show ?thesis by (simp add: cap_stable_def)
qed

text \<open>A live token stays live as long as nobody asks to consume it.\<close>

lemma token_stable:
  assumes "mono_clock E" "\<And>sig. k \<noteq> nonce_key c sig"
  shows "cap_stable E K R c (\<lambda>k'. k' \<noteq> k)
    (\<lambda>n r. \<forall>t. redis_ms E n \<le> t \<longrightarrow> t < e \<longrightarrow> rd_get R t k r = Some v)"
proof -
  let ?I = "\<lambda>n r. \<forall>t. redis_ms E n \<le> t \<longrightarrow> t < e \<longrightarrow> rd_get R t k r = Some v"
  have "script_stable E ?I (getdel R k')" "script_stable E ?I (consume_scoped_token_script R k' sc)"
    if "k' \<noteq> k" for k' sc
    using that del_other [of k k']
    by (auto simp: script_stable_def getdel_def consume_scoped_token_script_def split: option.splits)
  moreover have later: "time_stable ?I"
    using redis_ms_mono [OF assms(1)] by (auto simp: time_stable_def intro: order_trans)
  moreover have "issue_stable E K R c ?I"
    unfolding issue_stable_def
  proof (intro allI impI)
    fix n r s i sig p q scope t
    let ?t = "redis_ms E (Suc (Suc n))" and ?tk = "token_key K c (hex_encode i) (hex_encode s)"
    let ?f = "issue_verification_script R (nonce_key c sig) ?tk p q scope ?t r"
    assume I: "?I n r" and t: "?t \<le> t" "t < e"
    have n: "redis_ms E n \<le> ?t" by (simp add: redis_ms_mono [OF assms(1)])
    show "rd_get R t k (snd ?f) = Some v"
    proof (cases "k = ?tk")
      case True
      have "rd_get R ?t k r = Some v" using I n t by auto
      then have "rd_exists R ?t ?tk r" using True by (simp add: rd_exists_def)
      then show ?thesis using I n t by (auto simp: issue_verification_script_def)
    next
      case False
      then show ?thesis
        using I n t issue_script_other [OF redis_server_axioms assms(2) False] by auto
    qed
  qed
  ultimately show ?thesis by (simp add: cap_stable_def)
qed

text \<open>What a success leaves under the key of the token it returns.\<close>

lemma redeem_token_live:
  assumes "mono_clock E" "rand_fills E"
    "redeem_with_scope E K R c token sols scope w = (Inr resp, w')" "rr_success resp"
  shows "\<exists>k claims sg. verification_key K c (rr_token resp) = Some k
    \<and> open_challenge K c token = Some (claims, sg)
    \<and> at_world (\<lambda>n r. \<forall>t. redis_ms E n \<le> t \<longrightarrow> t < redis_ms E (tick w) + duration_ms (cap_token_ttl c)
         \<longrightarrow> rd_get R t k r = Some (cc_scope claims)) w'"
proof -
  obtain claims signature rem where
    op: "open_challenge K c token = Some (claims, signature)" and
    loop: "issue_loop E K R c claims (hex_encode signature) rem 3 (w\<lparr>tick := Suc (Suc (tick w))\<rparr>)
        = (Inr resp, w')"
    using redeem_success [OF assms(3,4)] by blast
  obtain m s i r1 where m: "Suc (Suc (tick w)) \<le> m" "m < tick w'"
    and tok: "rr_token resp = hex_encode i @ '':'' @ hex_encode s"
    and len: "length s = 15" "length i = 8"
    and set_tok: "rd_psetex R (redis_ms E m) (token_key K c (hex_encode i) (hex_encode s))
        (duration_ms (cap_token_ttl c)) (cc_scope claims) r1 = Some (rw_redis w')"
    using issue_loop_success [OF loop assms(4)] assms(2) unfolding rand_fills_def simp_thms
    by (elim exE conjE) (simp, blast)
  have ms: "redis_ms E (tick w) \<le> redis_ms E m" "redis_ms E m \<le> redis_ms E (tick w')"
    using m by (simp_all add: redis_ms_mono [OF assms(1)])
  have "rd_get R t (token_key K c (hex_encode i) (hex_encode s)) (rw_redis w') = Some (cc_scope claims)"
    if "redis_ms E (tick w') \<le> t" "t < redis_ms E (tick w) + duration_ms (cap_token_ttl c)" for t
    using psetex_same [OF set_tok] that ms by simp
  then show ?thesis
    using verification_key_issued [OF len(2,1)] op tok by (auto simp: at_world_def)
qed

end

text \<open>The way to the loop, for a proof that passes every check.\<close>

lemma redeem_run:
  assumes "token \<noteq> []" "open_challenge K c token = Some (claims, signature)"
    "redis_ms E (tick w) \<le> cc_expires claims" "scope = [] \<or> cc_scope claims = scope"
    "int (length xs) = cc_count claims" "valid_solutions (cr_sha256 K) token claims xs"
    "0 < int64 (int64 (cc_expires claims - redis_ms E (Suc (tick w))) * ns_per_ms)"
  shows "redeem_with_scope E K R c token (Some xs) scope w =
    issue_loop E K R c claims (hex_encode signature)
      (int64 (int64 (cc_expires claims - redis_ms E (Suc (tick w))) * ns_per_ms)) 3
      (w\<lparr>tick := Suc (Suc (tick w))\<rparr>)"
proof -
  obtain a t where "token = a # t" using assms(1) by (cases token) auto
  with assms(2-) show ?thesis
    by (auto simp: redeem_with_scope_def check_run verify_challenge_def seq_run now_def redis_ms_def
        Let_def)
qed

section \<open>A concrete server\<close>

text \<open>
  Small stand-ins for the parameters, used to apply the theorems at a concrete input: a digest of 32
  bytes that does not depend on its input, a MAC that copies its key, a codec for one record, a
  random source that counts up to 200 and a clock that advances by one millisecond per tick.
\<close>

definition demo_claims :: challenge_claims where
  "demo_claims = \<lparr>cc_nonce = replicate 50 (CHR ''0''), cc_count = 1, cc_size = 1, cc_difficulty = 1,
     cc_expires = 1000, cc_issued = 1, cc_scope = ''s''\<rparr>"

definition demo_crypto :: cap_crypto where
  "demo_crypto = \<lparr>cr_sha256 = (\<lambda>_. replicate 32 (CHR 0x01)), cr_hmac = (\<lambda>k m. k),
     cr_marshal = (\<lambda>_. Inr ''x''), cr_unmarshal = (\<lambda>p. if p = ''x'' then Some demo_claims else None)\<rparr>"

definition demo_env :: env where
  "demo_env = \<lparr>clock = (\<lambda>n. unix_epoch + (int n + 1) * ns_per_ms), uuid_v7 = (\<lambda>n. Inr (itoa (int n))),
     rand_read = (\<lambda>n k. Inr (replicate k (char_of (min n 200)))), store_fault = (\<lambda>_. None)\<rparr>"

definition demo_cap :: cap where
  "demo_cap = \<lparr>cap_signing_secret = ''0123456789abcdef'', cap_key_prefix = ''cap:v2:'',
     cap_params = \<lparr>cp_c = 1, cp_s = 1, cp_d = 1\<rparr>, cap_challenge_ttl = 1000000000,
     cap_token_ttl = 1000000000, cap_default_scope = ''s''\<rparr>"

definition demo_world :: "expiring_map redis_world" where
  "demo_world = \<lparr>tick = 0, rw_redis = Map.empty\<rparr>"

definition demo_token :: string where
  "demo_token = (case sign_challenge demo_crypto demo_cap demo_claims of Inr t \<Rightarrow> t | Inl _ \<Rightarrow> [])"

abbreviation demo_redis :: "expiring_map redis" where
  "demo_redis \<equiv> expiring_redis (\<lambda>_. None)"

abbreviation demo_redeem :: "expiring_map redis_world \<Rightarrow> (err + redeem_response) \<times> expiring_map redis_world" where
  "demo_redeem \<equiv> redeem_with_scope demo_env demo_crypto demo_redis demo_cap demo_token (Some [7]) ''s''"

definition demo_sig :: string where "demo_sig = cap_signing_secret demo_cap"
definition demo_id :: string where "demo_id = replicate 8 (CHR 0x03)"
definition demo_secret :: string where "demo_secret = replicate 15 (CHR 0x02)"

lemma demo_facts:
  "valid_solutions (cr_sha256 demo_crypto) demo_token demo_claims [7]"
  "open_challenge demo_crypto demo_cap demo_token = Some (demo_claims, demo_sig)"
  "demo_token \<noteq> []"
  "cc_scope demo_claims = ''s''" "cc_count demo_claims = 1" "cc_expires demo_claims = 1000"
  "cc_issued demo_claims = 1" "cap_token_ttl demo_cap = 1000000000"
  "rand_read demo_env (Suc (Suc 0)) 15 = Inr demo_secret"
  "rand_read demo_env (Suc (Suc (Suc 0))) 8 = Inr demo_id"
  by code_simp+

lemma demo_clock [simp]: "unix_milli (clock demo_env n) = int n + 1"
  by (simp add: demo_env_def unix_milli_def ns_per_ms_def)

lemma demo_ms [simp]: "redis_ms demo_env n = int n + 1"
  by (simp add: redis_ms_def)

lemma demo_mono: "mono_clock demo_env"
  by (simp add: mono_clock_def mono_def demo_env_def ns_per_ms_def)

lemma demo_rand: "rand_read demo_env n k = Inr (replicate k (char_of (min n 200)))"
  by (simp add: demo_env_def)

lemma demo_rand_fills: "rand_fills demo_env"
  by (auto simp: rand_fills_def demo_env_def)

definition demo_nonce :: string where
  "demo_nonce = nonce_key demo_cap (hex_encode demo_sig)"

definition demo_vtoken :: string where
  "demo_vtoken = hex_encode demo_id @ '':'' @ hex_encode demo_secret"

definition demo_key :: string where
  "demo_key = token_key demo_crypto demo_cap (hex_encode demo_id) (hex_encode demo_secret)"

definition demo_after :: "expiring_map redis_world" where
  "demo_after = \<lparr>tick = 6, rw_redis = [demo_nonce \<mapsto> (''1'', 1003), demo_key \<mapsto> (''s'', 1005)]\<rparr>"

lemma demo_keys [simp]: "demo_nonce \<noteq> demo_key" "demo_key \<noteq> demo_nonce"
  using nonce_token_keys nonce_token_keys [THEN not_sym] by (simp_all add: demo_nonce_def demo_key_def)

lemma demo_key_of: "verification_key demo_crypto demo_cap demo_vtoken = Some demo_key"
  unfolding demo_vtoken_def demo_key_def
  by (rule verification_key_issued) (simp_all add: demo_id_def demo_secret_def)

lemma demo_redeem_loop:
  "tick w < 900 \<Longrightarrow>
     demo_redeem w =
       issue_loop demo_env demo_crypto demo_redis demo_cap demo_claims (hex_encode demo_sig)
         ((998 - int (tick w)) * ns_per_ms) 3 (w\<lparr>tick := Suc (Suc (tick w))\<rparr>)"
  by (subst redeem_run [OF demo_facts(3) demo_facts(2)])
    (simp_all add: demo_facts int64_id ns_per_ms_def)

lemma demo_duration: "0 \<le> n \<Longrightarrow> duration_ms (n * ns_per_ms) = n" "duration_ms 1000000000 = 1000"
  by (simp_all add: duration_ms_nonneg ns_per_ms_def)

lemma demo_first:
  "demo_redeem demo_world =
     (Inr \<lparr>rr_success = True, rr_message = [], rr_token = demo_vtoken, rr_expires = 1006,
          rr_scope = ''s'', rr_issued = 1\<rparr>, demo_after)"
  using demo_duration(1) [of 998]
  by (simp add: demo_redeem_loop demo_world_def numeral_3_eq_3 issue_loop_step redis_call_def
      demo_facts demo_duration issue_verification_script_def rd_exists_def expiring_get_def
      expiring_psetex_def int64_id demo_after_def demo_vtoken_def
      flip: demo_nonce_def demo_key_def redis_ms_def)

section \<open>Properties\<close>

text \<open>
  C31. One proof of work buys one token. Once a challenge has been redeemed, no later redemption of a
  challenge with the same decoded signature succeeds (the same token, or the same bytes in another
  base64 spelling), whatever requests come in between and whoever sends them, as long as the script
  runs before the expiry in the challenge.
\<close>

theorem challenge_redeemed_once:
  assumes "redis_server R" "mono_clock E"
    and "open_challenge K c token = Some (claims, signature)"
    and "cc_expires claims - redis_ms E (tick w) \<le> max_remaining_ms"
    and "redeem_with_scope E K R c token sols scope w = (Inr resp, w1)" "rr_success resp"
    and "open_challenge K c token' = Some (claims', signature)"
    and "redeem_with_scope E K R c token' sols' scope' (cap_traffic E K R c reqs w1) = (Inr resp', w2)"
    and "redis_ms E (tick w2) < cc_expires claims"
  shows "\<not> rr_success resp'"
proof -
  let ?live = "\<lambda>n r. redis_server.live_until R (redis_ms E n) (cc_expires claims)
    (nonce_key c (hex_encode signature)) r"
  have "at_world ?live w1"
    using redis_server.redeem_nonce_live [OF assms(1,2,5,6,3,4)] by (simp add: at_world_def)
  then have "at_world ?live (cap_traffic E K R c reqs w1)"
    by (rule traffic_keeps [OF redis_server.nonce_stable [OF assms(1,2)], rotated]) simp
  then show ?thesis
    using redis_server.redeem_blocked [OF assms(1,2,8,7) _ assms(9)] by (simp add: at_world_def)
qed

lemma demo_live: "cc_expires demo_claims - redis_ms demo_env (tick demo_world) \<le> max_remaining_ms"
  by (simp add: demo_facts max_remaining_ms_def demo_world_def)

lemma demo_second:
  "demo_redeem demo_after =
     (Inr (failed_redeem ''Challenge invalid or expired''), demo_after\<lparr>tick := 11\<rparr>)"
  by (simp add: demo_redeem_loop demo_after_def numeral_3_eq_3 issue_loop_step redis_call_def
      demo_rand issue_verification_script_def rd_exists_def expiring_get_def flip: demo_nonce_def)

theorem challenge_redeemed_once_witness:
  "\<exists>resp w. demo_redeem demo_after = (Inr resp, w) \<and> \<not> rr_success resp"
  using challenge_redeemed_once [OF expiring_redis_server demo_mono demo_facts(2) demo_live demo_first _
      demo_facts(2), where reqs = "[]"] demo_second
  by (simp add: cap_traffic_def demo_after_def demo_facts)

text \<open>
  A redeemed challenge yields a token that works. Until its TTL has passed, and as long as nobody
  has asked to consume it, \<open>ValidateToken\<close> accepts it, and \<open>ValidateTokenWithScope\<close> accepts it for
  exactly the scope signed into the challenge; a request with another scope leaves it in place.
\<close>

lemma redeemed_token_is_valid:
  assumes "redis_server R" "mono_clock E" "rand_fills E"
    and "redeem_with_scope E K R c token sols scope w = (Inr resp, w1)" "rr_success resp"
    and "\<forall>req \<in> set reqs. req_token_key K c req \<noteq> verification_key K c (rr_token resp)"
    and "w2 = cap_traffic E K R c reqs w1"
    and "redis_ms E (tick w2) < redis_ms E (tick w) + duration_ms (cap_token_ttl c)"
    and "rd_fault R (tick w2) = None"
  shows "fst (validate_token E K R c (rr_token resp) w2) = Inr True
    \<and> (\<exists>claims sig. open_challenge K c token = Some (claims, sig)
       \<and> (\<forall>sc. fst (validate_token_with_scope E K R c (rr_token resp) sc w2) = Inr (cc_scope claims = sc)
            \<and> (cc_scope claims \<noteq> sc \<longrightarrow>
                 rw_redis (snd (validate_token_with_scope E K R c (rr_token resp) sc w2)) = rw_redis w2)))"
proof -
  let ?e = "redis_ms E (tick w) + duration_ms (cap_token_ttl c)"
  obtain k claims sg where k: "verification_key K c (rr_token resp) = Some k"
    and op: "open_challenge K c token = Some (claims, sg)"
    and live: "at_world (\<lambda>n r. \<forall>t. redis_ms E n \<le> t \<longrightarrow> t < ?e \<longrightarrow> rd_get R t k r = Some (cc_scope claims)) w1"
    using redis_server.redeem_token_live [OF assms(1-5)] by blast
  have "k \<noteq> nonce_key c s" for s
    using verification_key_Some [OF k] by (auto simp: nonce_token_keys [THEN not_sym])
  then have "at_world (\<lambda>n r. \<forall>t. redis_ms E n \<le> t \<longrightarrow> t < ?e \<longrightarrow> rd_get R t k r = Some (cc_scope claims)) w2"
    using assms(6) k unfolding assms(7)
    by (intro traffic_keeps [OF redis_server.token_stable [OF assms(1,2)] _ live]) auto
  then have "rd_get R (redis_ms E (tick w2)) k (rw_redis w2) = Some (cc_scope claims)"
    using assms(8) by (simp add: at_world_def)
  with k op assms(9) show ?thesis
    by (simp add: validate_token_present validate_scope_present)
qed

text \<open>
  A verification token is consumed once. After \<open>ValidateToken\<close> has accepted it, no sequence of
  requests makes it valid again, as long as the random source does not yield the same token a second
  time.
\<close>

lemma token_consumed_once:
  assumes "redis_server R" "mono_clock E"
    and "validate_token E K R c token w = (Inr True, w1)"
    and "verification_key K c token = Some k" "no_reissue E K c k (tick w1)"
  shows "fst (validate_token E K R c token (cap_traffic E K R c reqs w1)) \<noteq> Inr True"
proof -
  let ?I = "\<lambda>n r. tick w1 \<le> n \<and> rd_get R (redis_ms E n) k r = None"
  have "rw_redis w1 = rd_del R k (rw_redis w)"
    using validate_token_true [OF assms(3)] assms(4) by auto
  then have "at_world ?I w1" using redis_server.del_same [OF assms(1)] by (simp add: at_world_def)
  moreover have "k \<noteq> nonce_key c s" for s
    using verification_key_Some [OF assms(4)] by (auto simp: nonce_token_keys [THEN not_sym])
  ultimately have "at_world ?I (cap_traffic E K R c reqs w1)"
    by (intro traffic_keeps [OF redis_server.absent_stable [OF assms(1,2,5)]]) simp_all
  then show ?thesis by (intro validate_token_absent [OF assms(4)]) (simp add: at_world_def)
qed

lemma demo_no_reissue: "no_reissue demo_env demo_crypto demo_cap demo_key 6"
  unfolding no_reissue_def
proof (intro allI impI)
  fix m s i
  assume m: "6 \<le> m" and i: "rand_read demo_env (Suc m) 8 = Inr i"
  have "of_char (char_of (min (Suc m) 200) :: char) \<noteq> (of_char (CHR 0x03) :: nat)"
    using m by (simp add: min_def)
  then have "char_of (min (Suc m) 200) \<noteq> CHR 0x03" by metis
  with i have "i \<noteq> demo_id" by (auto simp: demo_rand demo_id_def)
  then show "token_key demo_crypto demo_cap (hex_encode i) (hex_encode s) \<noteq> demo_key"
    by (simp add: demo_key_def token_key_def hash_sha256_def hex_encode_inj demo_crypto_def)
qed

lemma no_reissue_later: "no_reissue E K c k m \<Longrightarrow> m \<le> n \<Longrightarrow> no_reissue E K c k n"
  unfolding no_reissue_def by (blast intro: order_trans)

lemma demo_validate:
  "validate_token demo_env demo_crypto demo_redis demo_cap demo_vtoken demo_after =
     (Inr True, \<lparr>tick = 7, rw_redis = [demo_nonce \<mapsto> (''1'', 1003)]\<rparr>)"
  by (simp add: validate_token_def demo_key_of check_run redis_call_def getdel_def demo_after_def
      expiring_get_def fun_upd_twist)

text \<open>What an accepted token is made of, and what an issued one is made of.\<close>

lemma open_challenge_Some:
  "open_challenge K c token = Some (claims, sg) \<Longrightarrow>
     claims_ok claims \<and> (\<exists>body signature payload.
       split_on (CHR ''.'') token = [jwt_header_encoded, body, signature]
       \<and> sg = cr_hmac K (cap_signing_secret c) (jwt_header_encoded @ ''.'' @ body)
       \<and> b64_decode signature = Some sg
       \<and> b64_decode body = Some payload \<and> cr_unmarshal K payload = Some claims)"
  by (auto simp: open_challenge_def split: list.splits if_splits option.splits)

definition issued_claims :: "string \<Rightarrow> challenge_params \<Rightarrow> int \<Rightarrow> duration \<Rightarrow> string \<Rightarrow> challenge_claims" where
  "issued_claims v params t ttl scope =
     \<lparr>cc_nonce = hex_encode v, cc_count = cp_c params, cc_size = cp_s params,
      cc_difficulty = cp_d params, cc_expires = int64 (t + duration_ms ttl), cc_issued = t,
      cc_scope = scope\<rparr>"

lemma create_success:
  assumes "challenge_policy c override = (params, ttl, scope)"
    and "create_challenge E K c ctx override w = (Inr resp, w')"
  shows "\<exists>v p claims. validate_challenge_params params = None \<and> 0 < ttl
    \<and> rand_read E (tick w) 25 = Inr v
    \<and> claims = issued_claims v params (redis_ms E (Suc (tick w))) ttl scope
    \<and> cr_marshal K claims = Inr p
    \<and> ch_challenge resp = params \<and> ch_expires resp = cc_expires claims
    \<and> split_on (CHR ''.'') (ch_token resp) = [jwt_header_encoded, b64_encode p,
         b64_encode (cr_hmac K (cap_signing_secret c) (jwt_header_encoded @ ''.'' @ b64_encode p))]"
proof -
  have valid: "validate_challenge_params params = None" "0 < ttl" and ctx: "ctx_err ctx = None"
    using assms by (auto simp: create_challenge_def split: option.splits if_splits)
  obtain v where v: "rand_read E (tick w) 25 = Inr v"
    using assms valid ctx
    by (auto simp: create_challenge_def check_run random_hex_def split: sum.splits)
  define claims where "claims = issued_claims v params (redis_ms E (Suc (tick w))) ttl scope"
  obtain tok where tok: "sign_challenge K c claims = Inr tok"
    and resp: "resp = \<lparr>ch_challenge = params, ch_token = tok, ch_expires = cc_expires claims\<rparr>"
    using assms(2) valid ctx v unfolding claims_def issued_claims_def
    by (auto simp: assms(1) create_challenge_def check_run random_hex_def seq_run now_def
        redis_ms_def Let_def split: sum.splits)
  obtain p where p: "cr_marshal K claims = Inr p"
    and tok2: "tok = jwt_header_encoded @ ''.'' @ b64_encode p @ ''.'' @
      b64_encode (cr_hmac K (cap_signing_secret c) (jwt_header_encoded @ ''.'' @ b64_encode p))"
    using tok by (auto simp: sign_challenge_def Let_def split: sum.splits)
  have "split_on (CHR ''.'') tok = [jwt_header_encoded, b64_encode p,
      b64_encode (cr_hmac K (cap_signing_secret c) (jwt_header_encoded @ ''.'' @ b64_encode p))]"
    unfolding tok2 by (simp add: jwt_header_encoded_def split_on_append split_on_single)
  with valid v p claims_def resp show ?thesis by auto
qed

text \<open>
  C36. A redemption that succeeds was paid for: the token carries the server's MAC over its header and
  claims, the challenge is within its lifetime and its parameters within bounds, the scope is the
  expected one, and there is one solution per puzzle, each of which makes the SHA-256 of salt and
  solution start with the puzzle's target, where salts and targets are the protocol's
  \<open>prng(token + i, s)\<close> and \<open>prng(token + i + "d", d)\<close>.
\<close>

theorem redeem_requires_work:
  assumes "\<And>x. length (cr_sha256 K x) = 32"
    and "redeem_with_scope E K R c token sols scope w = (Inr resp, w')" "rr_success resp"
  shows "\<exists>xs claims body signature.
      sols = Some xs \<and> split_on (CHR ''.'') token = [jwt_header_encoded, body, signature]
      \<and> b64_decode signature = Some (cr_hmac K (cap_signing_secret c) (jwt_header_encoded @ ''.'' @ body))
      \<and> (\<exists>payload. b64_decode body = Some payload \<and> cr_unmarshal K payload = Some claims)
      \<and> claims_ok claims \<and> redis_ms E (tick w) \<le> cc_expires claims
      \<and> (scope = [] \<or> cc_scope claims = scope)
      \<and> int (length xs) = cc_count claims
      \<and> (\<forall>i < length xs. solves (cr_sha256 K) token claims (i + 1) (xs ! i))"
proof -
  obtain claims sg xs where ok: "sols = Some xs" "open_challenge K c token = Some (claims, sg)"
    "redis_ms E (tick w) \<le> cc_expires claims" "scope = [] \<or> cc_scope claims = scope"
    "int (length xs) = cc_count claims" "valid_solutions (cr_sha256 K) token claims xs"
    using redeem_success [OF assms(2,3)] by blast
  note open_ok = open_challenge_Some [OF ok(2)]
  have "cc_difficulty claims \<le> 64"
    using open_ok by (simp add: claims_ok_def validate_challenge_params_None)
  with ok open_ok valid_solutions_iff [of "cr_sha256 K" claims token xs] assms(1) show ?thesis by blast
qed

theorem redeem_requires_work_witness:
  "solves (cr_sha256 demo_crypto) demo_token demo_claims 1 7"
proof -
  have "\<exists>xs claims. Some [7] = Some xs \<and> Some claims = Some demo_claims
      \<and> solves (cr_sha256 demo_crypto) demo_token claims 1 (xs ! 0)"
    using redeem_requires_work [OF _ demo_first] by (auto simp: demo_crypto_def split: if_splits)
  then show ?thesis by simp
qed

text \<open>
  What \<open>CreateChallenge\<close> hands out, \<open>verifyChallenge\<close> accepts, up to and including its expiry: the
  claims it reads are the parameters, the scope and the expiry that were announced. The codec must
  round-trip, and the lifetime must be at least a millisecond and within 64 bits.
\<close>

lemma created_challenge_verifies:
  assumes "\<And>cl p. cr_marshal K cl = Inr p \<Longrightarrow> p \<noteq> [] \<and> cr_unmarshal K p = Some cl"
    and "\<And>k m. cr_hmac K k m \<noteq> []" "rand_fills E"
    and "challenge_policy c override = (params, ttl, scope)" "1 \<le> duration_ms ttl"
    and "0 < redis_ms E (Suc (tick w))" "redis_ms E (Suc (tick w)) + duration_ms ttl < 2 ^ 63"
    and "create_challenge E K c ctx override w = (Inr resp, w')"
  shows "\<exists>claims sg. open_challenge K c (ch_token resp) = Some (claims, sg)
    \<and> cp_c (ch_challenge resp) = cc_count claims \<and> cp_s (ch_challenge resp) = cc_size claims
    \<and> cp_d (ch_challenge resp) = cc_difficulty claims \<and> cc_scope claims = scope
    \<and> ch_expires resp = cc_expires claims
    \<and> cc_expires claims = redis_ms E (Suc (tick w)) + duration_ms ttl
    \<and> (\<forall>v. fst (verify_challenge E K c (ch_token resp) v) =
         (if redis_ms E (tick v) \<le> cc_expires claims then Inr (claims, hex_encode sg)
          else Inl (errorf ''expired token'')))"
proof -
  let ?t = "redis_ms E (Suc (tick w))"
  obtain v p where v: "validate_challenge_params params = None" "rand_read E (tick w) 25 = Inr v"
    and p: "cr_marshal K (issued_claims v params ?t ttl scope) = Inr p"
    and resp: "ch_challenge resp = params" "ch_expires resp = cc_expires (issued_claims v params ?t ttl scope)"
    and parts: "split_on (CHR ''.'') (ch_token resp) = [jwt_header_encoded, b64_encode p,
         b64_encode (cr_hmac K (cap_signing_secret c) (jwt_header_encoded @ ''.'' @ b64_encode p))]"
    using create_success [OF assms(4,8)] by blast
  define claims where "claims = issued_claims v params ?t ttl scope"
  have ex: "cc_expires claims = ?t + duration_ms ttl"
    using assms(5,6,7) by (simp add: claims_def issued_claims_def int64_id)
  have "length v = 25" using v assms(3) by (simp add: rand_fills_def)
  then have "claims_ok claims"
    using v(1) assms(5,6) ex
    by (simp add: claims_ok_def claims_def issued_claims_def is_lower_hex_def hex_encode_lower
        validate_challenge_params_None)
  then have op: "open_challenge K c (ch_token resp) =
      Some (claims, cr_hmac K (cap_signing_secret c) (jwt_header_encoded @ ''.'' @ b64_encode p))"
    using assms(1) [OF p] assms(2) parts by (simp add: open_challenge_def claims_def)
  then show ?thesis
    using resp ex
    by (auto simp: verify_challenge_def seq_run now_def redis_ms_def claims_def issued_claims_def)
qed

definition demo_created :: challenge_claims where
  "demo_created = demo_claims\<lparr>cc_nonce := hex_encode (replicate 25 (char_of (0 :: nat))), cc_issued := 2,
     cc_expires := 1002\<rparr>"

text \<open>A codec for the one record that is signed below.\<close>

definition demo_codec :: cap_crypto where
  "demo_codec = demo_crypto\<lparr>
     cr_marshal := (\<lambda>cl. if cl = demo_created then Inr ''y'' else Inl (Node JsonUnsupported [])),
     cr_unmarshal := (\<lambda>p. if p = ''y'' then Some demo_created else None),
     cr_hmac := (\<lambda>k m. ''0123456789abcdef'')\<rparr>"

lemma demo_policy: "challenge_policy demo_cap None = (\<lparr>cp_c = 1, cp_s = 1, cp_d = 1\<rparr>, 1000000000, ''s'')"
  by (simp add: challenge_policy_def demo_cap_def)

lemma demo_create:
  "\<exists>resp w'. create_challenge demo_env demo_codec demo_cap background None demo_world
     = (Inr resp, w')"
proof -
  have "\<lparr>cc_nonce = hex_encode (replicate 25 (char_of (0 :: nat))), cc_count = 1, cc_size = 1, cc_difficulty = 1,
      cc_expires = 1002, cc_issued = 2, cc_scope = ''s''\<rparr> = demo_created"
    by (simp add: demo_created_def demo_claims_def)
  then show ?thesis
    by (simp add: create_challenge_def background_def demo_policy validate_challenge_params_def max_challenge_count_def
        max_challenge_size_def max_challenge_difficulty_def check_run random_hex_def demo_rand seq_run
        now_def demo_world_def demo_duration int64_id sign_challenge_def demo_codec_def
        flip: redis_ms_def)
qed

text \<open>
  The replay guard lives exactly as long as the challenge, and expiry is read before the script is
  sent. A redemption that passes the expiry check and whose script reaches Redis after the expiry no
  longer finds the nonce: the same proof of work buys a second token.
\<close>

definition late_env :: env where
  "late_env = demo_env\<lparr>clock := (\<lambda>n. unix_epoch + (if n < 8 then int n + 1 else int n + 1010) * ns_per_ms)\<rparr>"

definition late_redeem :: "expiring_map redis_world \<Rightarrow> (err + redeem_response) \<times> expiring_map redis_world" where
  "late_redeem = redeem_with_scope late_env demo_crypto demo_redis demo_cap demo_token (Some [7]) ''s''"

lemma late_ms: "redis_ms late_env n = (if n < 8 then int n + 1 else int n + 1010)"
  "unix_milli (clock late_env n) = (if n < 8 then int n + 1 else int n + 1010)"
  by (simp_all add: redis_ms_def late_env_def unix_milli_def ns_per_ms_def)

lemma late_rand: "rand_read late_env n k = Inr (replicate k (char_of (min n 200)))"
  by (simp add: late_env_def demo_rand)

lemma late_loop:
  "tick w < 7 \<Longrightarrow> late_redeem w =
     issue_loop late_env demo_crypto demo_redis demo_cap demo_claims (hex_encode demo_sig)
       ((998 - int (tick w)) * ns_per_ms) 3 (w\<lparr>tick := Suc (Suc (tick w))\<rparr>)"
  unfolding late_redeem_def
  by (subst redeem_run [OF demo_facts(3) demo_facts(2)])
    (simp_all add: demo_facts int64_id ns_per_ms_def late_ms)

lemma late_script_redeems_twice:
  "\<exists>resp w1 resp' w2.
     late_redeem demo_world = (Inr resp, w1) \<and> rr_success resp
     \<and> late_redeem w1 = (Inr resp', w2) \<and> rr_success resp' \<and> rr_token resp' \<noteq> rr_token resp"
proof -
  let ?c2 = "char_of (Suc (Suc 0)) :: char" and ?c3 = "char_of (Suc (Suc (Suc 0))) :: char"
  let ?c8 = "char_of (8 :: nat) :: char"
  let ?c9 = "char_of (9 :: nat) :: char"
  define key where "key i s = token_key demo_crypto demo_cap (hex_encode (replicate 8 i)) (hex_encode (replicate 15 s))"
    for i s :: char
  define tok where "tok i s = hex_encode (replicate 8 i) @ CHR '':'' # hex_encode (replicate 15 s)"
    for i s :: char
  have keys: "key i s \<noteq> demo_nonce" "demo_nonce \<noteq> key i s" for i s
    using nonce_token_keys nonce_token_keys [THEN not_sym] by (simp_all add: key_def demo_nonce_def)
  have "key ?c9 ?c8 \<noteq> key ?c3 ?c2"
    by (simp add: key_def token_key_def hex_encode_inj hash_sha256_def demo_crypto_def)
  note facts = issue_loop_step redis_call_def demo_facts demo_duration issue_verification_script_def
    rd_exists_def expiring_get_def expiring_psetex_def int64_id late_rand late_ms keys this
  let ?w1 = "\<lparr>tick = 6, rw_redis = [demo_nonce \<mapsto> (''1'', 1003), key ?c3 ?c2 \<mapsto> (''s'', 1005)]\<rparr>"
  have "\<exists>resp. late_redeem demo_world = (Inr resp, ?w1) \<and> rr_success resp
      \<and> rr_token resp = tok ?c3 ?c2"
    by (simp add: late_loop demo_world_def numeral_3_eq_3 facts
        flip: demo_nonce_def key_def tok_def redis_ms_def)
  moreover have "\<exists>resp w2. late_redeem ?w1 = (Inr resp, w2) \<and> rr_success resp
      \<and> rr_token resp = tok ?c9 ?c8"
    by (simp add: late_loop numeral_3_eq_3 facts
        flip: demo_nonce_def key_def tok_def redis_ms_def)
  moreover have "tok ?c9 ?c8 \<noteq> tok ?c3 ?c2"
    by (simp add: tok_def hex_encode_inj)
  ultimately show ?thesis by metis
qed

text \<open>
  A lifetime below one millisecond passes the checks of \<open>New\<close>, and every challenge issued with it is
  refused.
\<close>

lemma sub_millisecond_ttl_never_verifies:
  assumes "\<And>cl p. cr_marshal K cl = Inr p \<Longrightarrow> cr_unmarshal K p = Some cl"
    and "challenge_policy c override = (params, ttl, scope)" "duration_ms ttl = 0"
    "redis_ms E (Suc (tick w)) < 2 ^ 63"
    and "create_challenge E K c ctx override w = (Inr resp, w')"
  shows "open_challenge K c (ch_token resp) = None"
proof (rule ccontr)
  assume "open_challenge K c (ch_token resp) \<noteq> None"
  then obtain claims sg where op: "open_challenge K c (ch_token resp) = Some (claims, sg)" by auto
  obtain v p where p: "cr_marshal K (issued_claims v params (redis_ms E (Suc (tick w))) ttl scope) = Inr p"
    and parts: "split_on (CHR ''.'') (ch_token resp) = [jwt_header_encoded, b64_encode p,
         b64_encode (cr_hmac K (cap_signing_secret c) (jwt_header_encoded @ ''.'' @ b64_encode p))]"
    using create_success [OF assms(2,5)] by blast
  obtain body signature payload where "split_on (CHR ''.'') (ch_token resp) = [jwt_header_encoded, body, signature]"
    and payload: "b64_decode body = Some payload" "cr_unmarshal K payload = Some claims" "claims_ok claims"
    using open_challenge_Some [OF op] by blast
  with parts have "body = b64_encode p" by simp
  with payload assms(1) [OF p]
  have "claims = issued_claims v params (redis_ms E (Suc (tick w))) ttl scope" "claims_ok claims"
    by simp_all
  then show False
    using assms(3,4) by (auto simp: claims_ok_def issued_claims_def int64_id)
qed

end
