(* ===== verification/Middleware.thy ===== *)
theory Middleware
  imports Actor
begin

text \<open>
  What the three security middlewares share: the errors they answer with
  (\<open>api/gen/go/plateau/security/errors/v1\<close>), handlers as programs over a world, the route rules of
  \<open>plateau/security/authn/v1\<close> and \<open>plateau/security/authz/v1\<close>, and the shape of a middleware that
  either fails by itself or calls its handler once, as its last step.
\<close>

section \<open>API errors\<close>

definition api_unauthenticated :: "err \<Rightarrow> err" where
  "api_unauthenticated cause = Node (ApiError 401 ''SECURITY_ERROR_REASON_UNAUTHENTICATED'') [cause]"
definition api_permission_denied :: err where
  "api_permission_denied = Node (ApiError 403 ''SECURITY_ERROR_REASON_PERMISSION_DENIED'') []"
definition api_invalid_argument :: "err \<Rightarrow> err" where
  "api_invalid_argument cause = Node (ApiError 400 ''SECURITY_ERROR_REASON_INVALID_ARGUMENT'') [cause]"
definition api_unavailable :: "err \<Rightarrow> err" where
  "api_unavailable cause = Node (ApiError 503 ''SECURITY_ERROR_REASON_UNAVAILABLE'') [cause]"
definition api_internal :: "err \<Rightarrow> err" where
  "api_internal cause = Node (ApiError 500 ''SECURITY_ERROR_REASON_INTERNAL'') [cause]"

lemmas api_errors = api_unauthenticated_def api_permission_denied_def api_invalid_argument_def
  api_unavailable_def api_internal_def

section \<open>Rules\<close>

datatype authn_mode = AuthnUnspecified | AuthnPublic | AuthnRequired | AuthnOther int

record authn_rule =
  ar_mode :: authn_mode

datatype authz_mode = AuthzUnspecified | AuthzNone | AuthzRequired | AuthzOther int

datatype authz_target = TargetResourceId string | TargetResourceIdField string

record authz_rule =
  zr_mode :: authz_mode
  zr_action :: string
  zr_resource_type :: string
  zr_target :: "authz_target option"

definition get_resource_id :: "authz_rule \<Rightarrow> string" where
  "get_resource_id r = (case zr_target r of Some (TargetResourceId i) \<Rightarrow> i | _ \<Rightarrow> [])"

definition get_resource_id_field :: "authz_rule \<Rightarrow> string" where
  "get_resource_id_field r = (case zr_target r of Some (TargetResourceIdField f) \<Rightarrow> f | _ \<Rightarrow> [])"

section \<open>Handlers\<close>

text \<open>A nil context is \<open>None\<close>.\<close>

type_synonym ('c, 'q, 'w, 'a) handler = "'c go_ctx_scheme option \<Rightarrow> 'q \<Rightarrow> ('w, 'a) prog"
type_synonym ('c, 'q, 'w, 'a) middleware = "('c, 'q, 'w, 'a) handler \<Rightarrow> ('c, 'q, 'w, 'a) handler"

definition anonymous_actor :: actor where
  "anonymous_actor = \<lparr>act_type = actor_type_anonymous, act_id = []\<rparr>"

definition authenticated :: "actor \<Rightarrow> bool" where
  "authenticated a \<longleftrightarrow> actor_valid a \<and> act_type a \<noteq> actor_type_anonymous"

lemma anonymous_valid [simp]: "actor_valid anonymous_actor"
  by (simp add: anonymous_actor_def actor_valid_def)

lemma anonymous_not_authenticated [simp]: "\<not> authenticated anonymous_actor"
  by (simp add: anonymous_actor_def authenticated_def)

text \<open>
  A guarded middleware: for each call it either fails on its own, with the same error whatever the
  handler is, or its result is that of the handler, called on one context and one world.
\<close>

definition stops :: "('c, 'q, 'w, 'a) middleware \<Rightarrow> 'c go_ctx_scheme option \<Rightarrow> 'q \<Rightarrow> 'w \<Rightarrow> err \<Rightarrow> 'w \<Rightarrow> bool" where
  "stops mw ctx req w e w' \<longleftrightarrow> (\<forall>h. mw h ctx req w = (Inl e, w'))"

definition calls ::
    "('c, 'q, 'w, 'a) middleware \<Rightarrow> 'c go_ctx_scheme option \<Rightarrow> 'q \<Rightarrow> 'w \<Rightarrow> 'c go_ctx_scheme \<Rightarrow> 'w \<Rightarrow> bool" where
  "calls mw ctx req w c w' \<longleftrightarrow> (\<forall>h. mw h ctx req w = h (Some c) req w')"

text \<open>Middlewares compose: \<open>middleware.Chain\<close> runs the first one outermost.\<close>

definition chain2 ::
    "('c, 'q, 'w, 'a) middleware \<Rightarrow> ('c, 'q, 'w, 'a) middleware \<Rightarrow> ('c, 'q, 'w, 'a) middleware" where
  "chain2 outer inner = (\<lambda>h. outer (inner h))"

lemma chain2_stops:
  "stops outer ctx req w e w' \<Longrightarrow> stops (chain2 outer inner) ctx req w e w'"
  "calls outer ctx req w c v \<Longrightarrow> stops inner (Some c) req v e w' \<Longrightarrow> stops (chain2 outer inner) ctx req w e w'"
  by (auto simp: stops_def calls_def chain2_def)

lemma chain2_calls:
  "calls outer ctx req w c v \<Longrightarrow> calls inner (Some c) req v c' w' \<Longrightarrow> calls (chain2 outer inner) ctx req w c' w'"
  by (auto simp: calls_def chain2_def)

end
