(* ===== verification/SessionAuthn.thy ===== *)
theory SessionAuthn
  imports Middleware
begin

text \<open>
  \<open>security/authn/session\<close>: authentication by an opaque session cookie. The resolver, the actor
  mapper and the context extender are the service's; the parsing of the \<open>Cookie\<close> header is that of
  \<open>net/http\<close>.
\<close>

section \<open>Cookies\<close>

text \<open>\<open>textproto.TrimString\<close>: ASCII white space at both ends.\<close>

definition ascii_space :: "char \<Rightarrow> bool" where
  "ascii_space c \<longleftrightarrow> ord_of c \<in> {9, 10, 13, 32}"

definition trim_ascii :: "string \<Rightarrow> string" where
  "trim_ascii s = rev (dropWhile ascii_space (rev (dropWhile ascii_space s)))"

definition token_char :: "char \<Rightarrow> bool" where
  "token_char c \<longleftrightarrow>
     (let n = ord_of c in
      (48 \<le> n \<and> n \<le> 57) \<or> (65 \<le> n \<and> n \<le> 90) \<or> (97 \<le> n \<and> n \<le> 122)
      \<or> c \<in> set ''!#$%&*+-.^_`|~'' \<or> n = 39)"

definition is_token :: "string \<Rightarrow> bool" where
  "is_token s \<longleftrightarrow> s \<noteq> [] \<and> list_all token_char s"

definition cookie_value_byte :: "char \<Rightarrow> bool" where
  "cookie_value_byte c \<longleftrightarrow>
     (let n = ord_of c in 32 \<le> n \<and> n < 127 \<and> n \<noteq> 34 \<and> n \<noteq> 59 \<and> n \<noteq> 92)"

definition parse_cookie_value :: "string \<Rightarrow> string option" where
  "parse_cookie_value raw =
     (let v = (if 1 < length raw \<and> ord_of (hd raw) = 34 \<and> ord_of (last raw) = 34
               then butlast (tl raw) else raw)
      in if list_all cookie_value_byte v then Some v else None)"

text \<open>\<open>readCookies\<close> for one header line and one name; the first hit is what \<open>Request.Cookie\<close> returns.\<close>

definition cookie_of_part :: "string \<Rightarrow> string \<Rightarrow> string option" where
  "cookie_of_part name part =
     (let part = trim_ascii part in
      if part = [] then None
      else
        case cut (CHR ''='') part of
          (n, val, _) \<Rightarrow>
            let n = trim_ascii n in
            if \<not> is_token n \<or> n \<noteq> name then None else parse_cookie_value val)"

fun first_some :: "('a \<Rightarrow> 'b option) \<Rightarrow> 'a list \<Rightarrow> 'b option" where
  "first_some f [] = None"
| "first_some f (x # xs) = (case f x of Some y \<Rightarrow> Some y | None \<Rightarrow> first_some f xs)"

definition request_cookie :: "string \<Rightarrow> string \<Rightarrow> err + string" where
  "request_cookie header name =
     (if name = [] then Inl (Sentinel HttpNoCookie)
      else
        case first_some (cookie_of_part name) (split_on (CHR '';'') (trim_ascii header)) of
          None \<Rightarrow> Inl (Sentinel HttpNoCookie)
        | Some v \<Rightarrow> Inr v)"

definition cookie_credential :: "string \<Rightarrow> string \<Rightarrow> err + string" where
  "cookie_credential rawCookieHeader name =
     (if rawCookieHeader = [] then Inl (Sentinel (SessionAuthn SMissingCredentials))
      else
        case request_cookie rawCookieHeader name of
          Inl e \<Rightarrow>
            if errors_is e HttpNoCookie then Inl (Sentinel (SessionAuthn SMissingCredentials))
            else Inl (wrap ''malformed Cookie header'' (Sentinel (SessionAuthn SInvalidCredentials)))
        | Inr value \<Rightarrow>
            if value = [] then Inl (Sentinel (SessionAuthn SMissingCredentials)) else Inr value)"

lemma cookie_credential_nonempty: "cookie_credential h n = Inr v \<Longrightarrow> v \<noteq> [] \<and> h \<noteq> []"
  by (auto simp: cookie_credential_def split: if_splits sum.splits)

section \<open>The authenticator\<close>

text \<open>Nil functions are \<open>None\<close>.\<close>

record ('c, 'w, 't) session_authenticator =
  sa_cookie_name :: string
  sa_resolve :: "('c go_ctx_scheme \<Rightarrow> string \<Rightarrow> ('w, 't) prog) option"
  sa_map_actor :: "('t \<Rightarrow> err + actor) option"
  sa_extend :: "('c go_ctx_scheme \<Rightarrow> 't \<Rightarrow> 'c go_ctx_scheme option) option"

definition session_new ::
    "string \<Rightarrow> ('c go_ctx_scheme \<Rightarrow> string \<Rightarrow> ('w, 't) prog) option \<Rightarrow> ('t \<Rightarrow> err + actor) option
     \<Rightarrow> ('c go_ctx_scheme \<Rightarrow> 't \<Rightarrow> 'c go_ctx_scheme option) option
     \<Rightarrow> err + ('c, 'w, 't) session_authenticator" where
  "session_new cookieName resolve mapActor ext =
     (if \<not> is_token cookieName then Inl (errorf ''session authn: cookie name is invalid'')
      else if resolve = None then Inl (errorf ''session authn: resolver is nil'')
      else if mapActor = None then Inl (errorf ''session authn: Actor mapper is nil'')
      else Inr \<lparr>sa_cookie_name = cookieName, sa_resolve = resolve, sa_map_actor = mapActor,
                sa_extend = ext\<rparr>)"

definition session_valid :: "('c, 'w, 't) session_authenticator option \<Rightarrow> bool" where
  "session_valid a \<longleftrightarrow>
     (case a of None \<Rightarrow> False
      | Some x \<Rightarrow> sa_cookie_name x \<noteq> [] \<and> sa_resolve x \<noteq> None \<and> sa_map_actor x \<noteq> None)"

lemma session_new_valid: "session_new n r m e = Inr a \<Longrightarrow> session_valid (Some a)"
  by (auto simp: session_new_def session_valid_def is_token_def split: if_splits)

definition session_authenticate ::
    "('c, 'w, 't) session_authenticator option \<Rightarrow> 'c go_ctx_scheme option \<Rightarrow> string
     \<Rightarrow> ('w, 'c go_ctx_scheme) prog" where
  "session_authenticate authenticator ctx0 credential =
     (case ctx0 of None \<Rightarrow> throw (errorf ''session authn: context is nil'')
      | Some ctx \<Rightarrow>
     (case ctx_err ctx of Some e \<Rightarrow> throw e
      | None \<Rightarrow>
      if \<not> session_valid authenticator then throw (errorf ''session authn: authenticator is invalid'')
      else
        let a = the authenticator in
        pass (the (sa_resolve a) ctx credential) (\<lambda>identity.
        case the (sa_map_actor a) identity of
          Inl e \<Rightarrow> throw (wrap2 '''' (Sentinel (SessionAuthn SActorMapping)) e)
        | Inr actor \<Rightarrow>
          if \<not> actor_valid actor \<or> act_type actor = actor_type_anonymous
          then throw (wrap ''mapper returned invalid authenticated Actor'' (Sentinel (SessionAuthn SActorMapping)))
          else
            let ctx1 = with_actor ctx actor in
            case sa_extend a of
              None \<Rightarrow> ret ctx1
            | Some ext \<Rightarrow>
                (case ext ctx1 identity of
                   None \<Rightarrow> throw (wrap ''extender returned nil context'' (Sentinel (SessionAuthn SContextExtension)))
                 | Some ctx2 \<Rightarrow>
                     if actor_from (Some ctx2) = Some actor then ret ctx2
                     else throw (wrap ''extender changed shared Actor'' (Sentinel (SessionAuthn SContextExtension)))))))"

text \<open>What a success of \<open>authenticate\<close> has established.\<close>

lemma session_authenticate_success:
  assumes "session_authenticate (Some a) ctx0 credential w = (Inr c, w')"
  shows "\<exists>ctx resolve mapA identity actor.
    ctx0 = Some ctx \<and> ctx_err ctx = None \<and> sa_resolve a = Some resolve \<and> sa_map_actor a = Some mapA
    \<and> resolve ctx credential w = (Inr identity, w') \<and> mapA identity = Inr actor
    \<and> authenticated actor \<and> actor_from (Some c) = Some actor
    \<and> (case sa_extend a of None \<Rightarrow> c = with_actor ctx actor
       | Some ext \<Rightarrow> ext (with_actor ctx actor) identity = Some c)"
proof -
  obtain ctx where ctx: "ctx0 = Some ctx" "ctx_err ctx = None" and v: "session_valid (Some a)"
    using assms by (auto simp: session_authenticate_def split: option.splits if_splits)
  obtain resolve mapA where f: "sa_resolve a = Some resolve" "sa_map_actor a = Some mapA"
    using v by (auto simp: session_valid_def)
  show ?thesis
    using assms ctx v f
    by (auto simp: session_authenticate_def check_run Let_def authenticated_def
        split: option.splits if_splits sum.splits prod.splits)
qed

section \<open>The middleware\<close>

definition session_api_error :: "err \<Rightarrow> err" where
  "session_api_error e =
     (if errors_is e ContextCanceled \<or> errors_is e ContextDeadlineExceeded then e
      else if errors_is e (SessionAuthn SMissingCredentials)
        \<or> errors_is e (SessionAuthn SInvalidCredentials) \<or> errors_is e (SessionAuthn SActorMapping)
      then api_unauthenticated e
      else if errors_is e (SessionAuthn SDependencyUnavailable) then api_unavailable e
      else api_internal e)"

text \<open>\<open>Server\<close>; \<open>None\<close> is the panic of a bad configuration.\<close>

definition session_server ::
    "('c, 'w, 't) session_authenticator option \<Rightarrow> authn_rule rules_provider option list option list
     \<Rightarrow> ('c, 'q, 'w, 'a) middleware option" where
  "session_server authenticator opts =
     (if \<not> session_valid authenticator then None
      else
        case authn_new_rules opts of None \<Rightarrow> None
        | Some rules \<Rightarrow> Some (\<lambda>handler ctx0 request.
            case ctx0 of None \<Rightarrow> throw (session_api_error (errorf ''session authn: context is nil''))
            | Some ctx \<Rightarrow>
            (case ctx_transport ctx of
               None \<Rightarrow> throw (session_api_error (errorf ''session authn: server transport is missing''))
             | Some serverTransport \<Rightarrow>
            (case rules (tr_operation serverTransport) of
               None \<Rightarrow> throw (session_api_error (errorf ''session authn: no authentication rule for operation''))
             | Some rule \<Rightarrow>
            (case ar_mode rule of
               AuthnPublic \<Rightarrow> handler (Some (with_actor ctx anonymous_actor)) request
             | AuthnRequired \<Rightarrow>
                 (case tr_header serverTransport of
                    None \<Rightarrow> throw (session_api_error (errorf ''session authn: request header is missing''))
                  | Some header \<Rightarrow>
                      (case cookie_credential (header ''Cookie'') (sa_cookie_name (the authenticator)) of
                         Inl e \<Rightarrow> throw (session_api_error e)
                       | Inr credential \<Rightarrow>
                           check (session_authenticate authenticator ctx0 credential)
                             (\<lambda>e. throw (session_api_error e))
                             (\<lambda>trusted. handler (Some trusted) request)))
             | _ \<Rightarrow> throw (session_api_error (errorf ''session authn: unsupported mode'')))))))"

section \<open>Properties\<close>

text \<open>What makes a call reach the handler behind the session middleware.\<close>

definition session_grants ::
    "('c, 'w, 't) session_authenticator \<Rightarrow> authn_rule rules \<Rightarrow> 'c go_ctx_scheme \<Rightarrow> 'w
     \<Rightarrow> 'c go_ctx_scheme \<Rightarrow> 'w \<Rightarrow> bool" where
  "session_grants a rules ctx w c w' \<longleftrightarrow>
     (\<exists>tr rule. ctx_transport ctx = Some tr \<and> rules (tr_operation tr) = Some rule \<and>
       (ar_mode rule = AuthnPublic \<and> c = with_actor ctx anonymous_actor \<and> w' = w
        \<or> ar_mode rule = AuthnRequired \<and>
          (\<exists>header credential resolve mapA identity actor.
             tr_header tr = Some header
             \<and> cookie_credential (header ''Cookie'') (sa_cookie_name a) = Inr credential
             \<and> sa_resolve a = Some resolve \<and> resolve ctx credential w = (Inr identity, w')
             \<and> sa_map_actor a = Some mapA \<and> mapA identity = Inr actor
             \<and> authenticated actor \<and> actor_from (Some c) = Some actor
             \<and> (case sa_extend a of None \<Rightarrow> c = with_actor ctx actor
                | Some ext \<Rightarrow> ext (with_actor ctx actor) identity = Some c))))"

lemma session_required_cases:
  assumes "ar_mode rule = AuthnRequired" "ctx_transport ctx = Some tr"
    "rules (tr_operation tr) = Some rule" "session_valid (Some a)" "authn_new_rules opts = Some rules"
  defines "mw \<equiv> the (session_server (Some a) opts)"
  shows "(\<exists>e w'. stops mw (Some ctx) req w e w')
    \<or> (\<exists>c w'. calls mw (Some ctx) req w c w' \<and> session_grants a rules ctx w c w')"
proof (cases "tr_header tr")
  case None
  then show ?thesis using assms(1-5) by (auto simp: mw_def session_server_def stops_def)
next
  case header: (Some header)
  show ?thesis
  proof (cases "cookie_credential (header ''Cookie'') (sa_cookie_name a)")
    case (Inl e)
    then show ?thesis using assms(1-5) header by (auto simp: mw_def session_server_def stops_def)
  next
    case cred: (Inr credential)
    obtain r w' where r: "session_authenticate (Some a) (Some ctx) credential w = (r, w')" by fastforce
    have eq: "mw h (Some ctx) req w = (case r of Inl e \<Rightarrow> (Inl (session_api_error e), w')
        | Inr c \<Rightarrow> h (Some c) req w')" for h
      using assms(1-5) header cred r by (simp add: mw_def session_server_def check_run split: sum.split)
    show ?thesis
    proof (cases r)
      case (Inl e)
      then have "stops mw (Some ctx) req w (session_api_error e) w'" by (simp add: stops_def eq)
      then show ?thesis by blast
    next
      case (Inr c)
      then have "calls mw (Some ctx) req w c w'" by (simp add: calls_def eq)
      moreover have "session_grants a rules ctx w c w'"
        using session_authenticate_success [of a "Some ctx" credential w c w'] r Inr assms(1-3) header cred
        by (auto simp: session_grants_def)
      ultimately show ?thesis by blast
    qed
  qed
qed

lemma session_server_cases:
  assumes "session_server (Some a) opts = Some mw" "authn_new_rules opts = Some rules"
  shows "(\<exists>e w'. stops mw (Some ctx) req w e w')
    \<or> (\<exists>c w'. calls mw (Some ctx) req w c w' \<and> session_grants a rules ctx w c w')"
proof -
  have valid: "session_valid (Some a)"
    using assms(1) by (auto simp: session_server_def split: if_splits)
  have mw: "mw = the (session_server (Some a) opts)" by (simp add: assms(1))
  note run = mw session_server_def valid assms(2)
  show ?thesis
  proof (cases "ctx_transport ctx")
    case None
    then show ?thesis by (auto simp: run stops_def)
  next
    case tr: (Some tr)
    show ?thesis
    proof (cases "rules (tr_operation tr)")
      case None
      with tr show ?thesis by (auto simp: run stops_def)
    next
      case rule: (Some rule)
      show ?thesis
      proof (cases "ar_mode rule")
        case AuthnPublic
        with tr rule have "calls mw (Some ctx) req w (with_actor ctx anonymous_actor) w"
          by (simp add: run calls_def)
        with tr rule AuthnPublic show ?thesis by (auto simp: session_grants_def)
      next
        case AuthnRequired
        show ?thesis
          unfolding mw by (rule session_required_cases [OF AuthnRequired tr rule valid assms(2)])
      qed (use tr rule in \<open>auto simp: run stops_def\<close>)
    qed
  qed
qed

text \<open>
  The session middleware fails closed. Every call either stops with an error that does not depend
  on the handler, or runs the handler exactly once: as the anonymous actor when the rule of the
  operation is PUBLIC, or, when it is REQUIRED, after the session cookie has been resolved, as the
  valid, not anonymous actor of the resolved identity, whatever the context extender does. No rule,
  an unspecified or unknown mode, a missing transport, header or cookie all stop.
\<close>

lemma session_server_guards:
  assumes "session_server (Some a) opts = Some mw" "authn_new_rules opts = Some rules"
  shows "(\<exists>e w'. stops mw (Some ctx) req w e w')
    \<or> (\<exists>c w'. calls mw (Some ctx) req w c w' \<and> session_grants a rules ctx w c w')"
  using assms by (rule session_server_cases)

text \<open>A service with one protected operation.\<close>

definition demo_session_auth :: "(unit, nat, string) session_authenticator" where
  "demo_session_auth = \<lparr>sa_cookie_name = ''sid'', sa_resolve = Some (\<lambda>_ s. ret s),
     sa_map_actor = Some (\<lambda>s. Inr \<lparr>act_type = actor_type_human, act_id = s\<rparr>), sa_extend = None\<rparr>"

definition demo_session_opts :: "authn_rule rules_provider option list option list" where
  "demo_session_opts = [Some [Some (\<lambda>_. [''/op'' \<mapsto> \<lparr>ar_mode = AuthnRequired\<rparr>])]]"

definition demo_session_ctx :: go_ctx where
  "demo_session_ctx = background\<lparr>ctx_transport :=
     Some \<lparr>tr_operation = ''/op'', tr_header = Some (\<lambda>_. ''a=b; sid=u1'')\<rparr>\<rparr>"

lemma demo_cookie: "cookie_credential ''a=b; sid=u1'' ''sid'' = Inr ''u1''"
  by code_simp

end
