(* ===== verification/OpenFga.thy ===== *)
theory OpenFga
  imports Middleware
begin

text \<open>
  \<open>security/authz/openfga\<close>: authorization by OpenFGA. The SDK client is a parameter, a record of its
  three calls; names, resource identifiers, batches and listings are translated in full, and a
  request message is what protobuf reflection shows of it.
\<close>

section \<open>Names\<close>

definition rune_name_char :: "nat \<Rightarrow> bool" where
  "rune_name_char r \<longleftrightarrow>
     r = 95 \<or> (97 \<le> r \<and> r \<le> 122) \<or> (65 \<le> r \<and> r \<le> 90) \<or> (48 \<le> r \<and> r \<le> 57)"

definition valid_provider_name :: "string \<Rightarrow> int \<Rightarrow> bool" where
  "valid_provider_name value maxLength =
     (if value = [] \<or> int (length value) > maxLength \<or> \<not> valid_string value then False
      else list_all (rune_where rune_name_char) (runes value))"

definition valid_resource_id :: "string \<Rightarrow> int \<Rightarrow> bool" where
  "valid_resource_id value maxLength =
     (if value = [] \<or> maxLength < 1 \<or> \<not> valid_string value \<or> int (rune_count value) > maxLength
      then False
      else \<not> list_ex (\<lambda>c. c = CHR ''#'' \<or> c = CHR '':'') value
        \<and> \<not> list_ex (rune_where (\<lambda>r. rune_is_space r \<or> rune_is_control r)) (runes value))"

definition relation_name :: "string \<Rightarrow> err + string" where
  "relation_name action =
     (if \<not> valid_provider_name action 50
      then Inl (wrap ''action is invalid'' (Sentinel (FgaAuthz FInvalidInput))) else Inr action)"

definition resource_type_name :: "string \<Rightarrow> err + string" where
  "resource_type_name resourceType =
     (if \<not> valid_provider_name resourceType 254
      then Inl (wrap ''resource type is invalid'' (Sentinel (FgaAuthz FInvalidInput)))
      else Inr resourceType)"

definition resource_object :: "string \<Rightarrow> string \<Rightarrow> err + string" where
  "resource_object resourceType resourceID =
     (case resource_type_name resourceType of
        Inl e \<Rightarrow> Inl e
      | Inr rt \<Rightarrow>
          if \<not> valid_resource_id resourceID (256 - int (rune_count rt) - 1)
          then Inl (wrap ''resource ID is invalid'' (Sentinel (FgaAuthz FInvalidInput)))
          else Inr (rt @ '':'' @ resourceID))"

section \<open>The SDK\<close>

text \<open>
  Responses may be nil, and their optional fields unset; a batch result maps correlation identifiers
  to single results, each of which may carry an internal or an input error code.
\<close>

record batch_error =
  be_internal :: string
  be_input :: string

record batch_result =
  br_error :: "batch_error option"
  br_allowed :: "bool option"

record batch_item =
  bi_user :: string
  bi_relation :: string
  bi_object :: string
  bi_correlation :: string

record 'w fga_client =
  fc_check :: "string \<Rightarrow> string \<Rightarrow> string \<Rightarrow> ('w, bool option option) prog"
  fc_batch :: "batch_item list \<Rightarrow> ('w, (string \<rightharpoonup> batch_result) option) prog"
  fc_list :: "string \<Rightarrow> string \<Rightarrow> string \<Rightarrow> ('w, string list option) prog"

record 'w authorizer =
  az_client :: "'w fga_client option"
  az_map_subject :: "(actor \<Rightarrow> err + string) option"

definition authorizer_new ::
    "'w fga_client option \<Rightarrow> (actor \<Rightarrow> err + string) option \<Rightarrow> err + 'w authorizer" where
  "authorizer_new client mapSubject =
     (if client = None then Inl (errorf ''openfga authz: sdk client is invalid'')
      else if mapSubject = None then Inl (errorf ''openfga authz: subject mapper is nil'')
      else Inr \<lparr>az_client = client, az_map_subject = mapSubject\<rparr>)"

definition authorizer_valid :: "'w authorizer option \<Rightarrow> bool" where
  "authorizer_valid z \<longleftrightarrow>
     (case z of None \<Rightarrow> False | Some a \<Rightarrow> az_client a \<noteq> None \<and> az_map_subject a \<noteq> None)"

definition fga_subject :: "'w authorizer \<Rightarrow> actor \<Rightarrow> err + string" where
  "fga_subject z actor =
     (if \<not> actor_valid actor then Inl (wrap ''actor is invalid'' (Sentinel (FgaAuthz FInvalidInput)))
      else if act_type actor = actor_type_anonymous
      then Inl (wrap ''anonymous actor cannot access protected resources'' (Sentinel (FgaAuthz FUnauthenticated)))
      else
        case the (az_map_subject z) actor of
          Inl e \<Rightarrow> Inl (wrap ''openfga authz: map Actor subject'' e)
        | Inr subject \<Rightarrow>
            (case cut (CHR '':'') subject of
               (subjectType, subjectID, ok) \<Rightarrow>
                 if \<not> ok \<or> \<not> valid_provider_name subjectType 254 \<or> subjectID = ''*''
                   \<or> \<not> valid_resource_id subjectID (512 - int (rune_count subjectType) - 1)
                 then Inl (wrap ''mapped provider subject is invalid'' (Sentinel (FgaAuthz FInvalidInput)))
                 else Inr subject))"

definition request_parts ::
    "'w authorizer \<Rightarrow> actor \<Rightarrow> string \<Rightarrow> string \<Rightarrow> string \<Rightarrow> err + string \<times> string \<times> string" where
  "request_parts z actor action resourceType resourceID =
     (case fga_subject z actor of
        Inl e \<Rightarrow> Inl e
      | Inr user \<Rightarrow>
     (case relation_name action of
        Inl e \<Rightarrow> Inl e
      | Inr relation \<Rightarrow>
     (case resource_object resourceType resourceID of
        Inl e \<Rightarrow> Inl e
      | Inr object \<Rightarrow> Inr (user, relation, object))))"

definition fga_check ::
    "'w authorizer option \<Rightarrow> 'c go_ctx_scheme option \<Rightarrow> actor \<Rightarrow> string \<Rightarrow> string \<Rightarrow> string \<Rightarrow> ('w, bool) prog"
  where
  "fga_check authorizer ctx actor action resourceType resourceID =
     (if ctx = None then throw (wrap ''context is nil'' (Sentinel (FgaAuthz FInvalidInput)))
      else if \<not> authorizer_valid authorizer then throw (errorf ''openfga authz: authorizer is invalid'')
      else
        let z = the authorizer in
        case request_parts z actor action resourceType resourceID of
          Inl e \<Rightarrow> throw e
        | Inr (user, relation, object) \<Rightarrow>
            check (fc_check (the (az_client z)) user relation object)
              (\<lambda>e. throw (wrap ''openfga check'' e))
              (\<lambda>response.
                 case response of
                   None \<Rightarrow> throw (errorf ''openfga check: response is missing allowed'')
                 | Some None \<Rightarrow> throw (errorf ''openfga check: response is missing allowed'')
                 | Some (Some allowed) \<Rightarrow> ret allowed))"

section \<open>Batches\<close>

record fga_request =
  fq_actor :: actor
  fq_action :: string
  fq_resource_type :: string
  fq_resource_id :: string

fun batch_items :: "'w authorizer \<Rightarrow> nat \<Rightarrow> fga_request list \<Rightarrow> err + batch_item list" where
  "batch_items z index [] = Inr []"
| "batch_items z index (q # qs) =
     (case request_parts z (fq_actor q) (fq_action q) (fq_resource_type q) (fq_resource_id q) of
        Inl e \<Rightarrow> Inl (wrap ''openfga batch check item'' e)
      | Inr (user, relation, object) \<Rightarrow>
          (case batch_items z (Suc index) qs of
             Inl e \<Rightarrow> Inl e
           | Inr items \<Rightarrow>
               Inr (\<lparr>bi_user = user, bi_relation = relation, bi_object = object,
                     bi_correlation = itoa (int index)\<rparr> # items)))"

definition batch_result_allowed :: "batch_result \<Rightarrow> err + bool" where
  "batch_result_allowed res =
     (case br_error res of
        Some checkErr \<Rightarrow>
          if be_internal checkErr \<noteq> [] \<and> be_internal checkErr \<noteq> ''no_internal_error''
          then Inl (wrap ''batch check item internal error'' (Sentinel (FgaAuthz FUnavailable)))
          else if be_input checkErr \<noteq> [] \<and> be_input checkErr \<noteq> ''no_error''
          then Inl (wrap ''batch check item input error'' (Sentinel (FgaAuthz FInvalidInput)))
          else Inl (errorf ''openfga batch check item returned an unspecified error'')
      | None \<Rightarrow>
          (case br_allowed res of
             None \<Rightarrow> Inl (errorf ''openfga batch check item is missing allowed'')
           | Some allowed \<Rightarrow> Inr allowed))"

fun batch_allowed :: "(string \<rightharpoonup> batch_result) \<Rightarrow> nat \<Rightarrow> nat \<Rightarrow> err + bool list" where
  "batch_allowed results index 0 = Inr []"
| "batch_allowed results index (Suc n) =
     (case results (itoa (int index)) of
        None \<Rightarrow> Inl (errorf ''openfga batch check: missing correlation ID'')
      | Some res \<Rightarrow>
          (case batch_result_allowed res of
             Inl e \<Rightarrow> Inl e
           | Inr allowed \<Rightarrow>
               (case batch_allowed results (Suc index) n of
                  Inl e \<Rightarrow> Inl e
                | Inr rest \<Rightarrow> Inr (allowed # rest))))"

definition fga_batch_check ::
    "'w authorizer option \<Rightarrow> 'c go_ctx_scheme option \<Rightarrow> fga_request list \<Rightarrow> ('w, bool list) prog" where
  "fga_batch_check authorizer ctx requests =
     (if ctx = None then throw (wrap ''context is nil'' (Sentinel (FgaAuthz FInvalidInput)))
      else if \<not> authorizer_valid authorizer then throw (errorf ''openfga authz: authorizer is invalid'')
      else if requests = [] then ret []
      else
        case batch_items (the authorizer) 0 requests of
          Inl e \<Rightarrow> throw e
        | Inr items \<Rightarrow>
            check (fc_batch (the (az_client (the authorizer))) items)
              (\<lambda>e. throw (wrap ''openfga batch check'' e))
              (\<lambda>response.
                 case response of
                   None \<Rightarrow> throw (errorf ''openfga batch check: response is nil'')
                 | Some results \<Rightarrow>
                     if card (dom results) \<noteq> length requests
                     then throw (errorf ''openfga batch check: result cardinality does not match'')
                     else result (batch_allowed results 0 (length requests))))"

section \<open>Listings\<close>

fun listed_ids :: "string \<Rightarrow> string list \<Rightarrow> err + string list" where
  "listed_ids prefix [] = Inr []"
| "listed_ids prefix (obj # objs) =
     (if \<not> has_prefix obj prefix then Inl (errorf ''openfga list objects: unexpected resource type'')
      else
        let i = trim_prefix obj prefix in
        if \<not> valid_resource_id i (256 - int (rune_count prefix))
        then Inl (errorf ''openfga list objects: invalid resource ID'')
        else (case listed_ids prefix objs of Inl e \<Rightarrow> Inl e | Inr ids \<Rightarrow> Inr (i # ids)))"

definition fga_list_allowed ::
    "'w authorizer option \<Rightarrow> 'c go_ctx_scheme option \<Rightarrow> actor \<Rightarrow> string \<Rightarrow> string \<Rightarrow> ('w, string list) prog"
  where
  "fga_list_allowed authorizer ctx actor action resourceType =
     (if ctx = None then throw (wrap ''context is nil'' (Sentinel (FgaAuthz FInvalidInput)))
      else if \<not> authorizer_valid authorizer then throw (errorf ''openfga authz: authorizer is invalid'')
      else
        case fga_subject (the authorizer) actor of Inl e \<Rightarrow> throw e | Inr user \<Rightarrow>
       (case relation_name action of Inl e \<Rightarrow> throw e | Inr relation \<Rightarrow>
       (case resource_type_name resourceType of Inl e \<Rightarrow> throw e | Inr rt \<Rightarrow>
          check (fc_list (the (az_client (the authorizer))) user relation rt)
            (\<lambda>e. throw (wrap ''openfga list objects'' e))
            (\<lambda>response.
               case response of
                 None \<Rightarrow> throw (errorf ''openfga list objects: response is nil'')
               | Some objects \<Rightarrow> result (listed_ids (rt @ '':'') objects)))))"

section \<open>The middleware\<close>

text \<open>A request as protobuf reflection shows it: the fields of a message by name.\<close>

datatype pkind = StringKind | SignedKind | UnsignedKind | MessageKind | GroupKind | OtherKind

datatype pmessage = PMessage "(string \<times> pfield) list"
and pfield = PField (pf_kind: pkind) (pf_list: bool) (pf_map: bool) (pf_oneof: "bool option")
    (pf_presence: bool) (pf_has: bool) (pf_value: pvalue)
and pvalue = PString string | PInt int | PMsg pmessage | POther

fun message_field :: "pmessage \<Rightarrow> string \<Rightarrow> pfield option" where
  "message_field (PMessage fs) name = map_of fs name"

text \<open>The text of a field of a kind that can name a resource.\<close>

definition field_text :: "pfield \<Rightarrow> string option" where
  "field_text f =
     (case (pf_kind f, pf_value f) of
        (StringKind, PString s) \<Rightarrow> Some s
      | (SignedKind, PInt i) \<Rightarrow> Some (itoa i)
      | (UnsignedKind, PInt i) \<Rightarrow> Some (itoa i)
      | _ \<Rightarrow> None)"

fun walk_field :: "pmessage \<Rightarrow> string list \<Rightarrow> err + string" where
  "walk_field m [] = Inl (errorf ''openfga authz: resource field path is empty'')"
| "walk_field m (segment # rest) =
     (case message_field m segment of
        None \<Rightarrow> Inl (errorf ''openfga authz: resource field is missing'')
      | Some f \<Rightarrow>
          if pf_oneof f = Some False then Inl (errorf ''openfga authz: resource field belongs to a oneof'')
          else if rest \<noteq> [] then
            (if (pf_kind f \<noteq> MessageKind \<and> pf_kind f \<noteq> GroupKind) \<or> pf_list f \<or> pf_map f \<or> \<not> pf_has f
             then Inl (errorf ''openfga authz: resource field is unavailable'')
             else case pf_value f of
                PMsg sub \<Rightarrow> walk_field sub rest
              | _ \<Rightarrow> Inl (errorf ''openfga authz: resource field is unavailable''))
          else if pf_list f \<or> pf_map f then Inl (errorf ''openfga authz: resource field is not singular'')
          else if pf_presence f \<and> \<not> pf_has f then Inl (errorf ''openfga authz: resource field is unavailable'')
          else
            case field_text f of
              None \<Rightarrow> Inl (errorf ''openfga authz: resource field has unsupported kind'')
            | Some resourceID \<Rightarrow>
                if trim_space resourceID = [] then Inl (errorf ''openfga authz: resource field is empty'')
                else Inr resourceID)"

text \<open>A request that is no proto message is \<open>None\<close>, one that is not valid \<open>Some None\<close>.\<close>

definition resource_id_from_request :: "string \<Rightarrow> pmessage option option \<Rightarrow> err + string" where
  "resource_id_from_request fieldPath request =
     (case request of
        None \<Rightarrow> Inl (errorf ''openfga authz: request is not a proto message'')
      | Some None \<Rightarrow> Inl (errorf ''openfga authz: request proto message is invalid'')
      | Some (Some message) \<Rightarrow> walk_field message (split_on (CHR ''.'') fieldPath))"

definition fga_api_error :: "err \<Rightarrow> err" where
  "fga_api_error e =
     (if errors_is e ContextCanceled \<or> errors_is e ContextDeadlineExceeded then e
      else if errors_is e (FgaAuthz FUnauthenticated) then api_unauthenticated e
      else if errors_is e (FgaAuthz FInvalidInput) then api_invalid_argument e
      else if errors_is e (FgaAuthz FUnavailable) then api_unavailable e
      else if errors_as e (\<lambda>t. t = FgaRateLimit) \<or> errors_as e (\<lambda>t. t = FgaInternal) then api_unavailable e
      else if errors_as e (\<lambda>t. t = FgaRequiredParam) \<or> errors_as e (\<lambda>t. t = FgaInvalid)
        \<or> errors_as e (\<lambda>t. t = FgaValidation) \<or> errors_as e (\<lambda>t. t = JsonUnsupported)
      then api_invalid_argument e
      else if errors_as e (\<lambda>t. t = NetError) then api_unavailable e
      else api_internal e)"

text \<open>The identifier that a rule names: fixed, or a field of the request.\<close>

definition rule_resource_id :: "authz_rule \<Rightarrow> pmessage option option \<Rightarrow> err + string" where
  "rule_resource_id rule request =
     (if get_resource_id rule \<noteq> [] then Inr (get_resource_id rule)
      else if get_resource_id_field rule = [] then Inl (errorf ''openfga authz: authorization rule target is missing'')
      else
        case resource_id_from_request (get_resource_id_field rule) request of
          Inl e \<Rightarrow> Inl (wrap2 '''' (Sentinel (FgaAuthz FInvalidInput)) e)
        | Inr resolved \<Rightarrow> Inr resolved)"

definition openfga_server ::
    "'w authorizer option \<Rightarrow> authz_rule rules_provider option list option list
     \<Rightarrow> ('q \<Rightarrow> pmessage option option) \<Rightarrow> ('c, 'q, 'w, 'a) middleware option" where
  "openfga_server authorizer opts proto_of =
     (if \<not> authorizer_valid authorizer then None
      else
        case authz_new_rules opts of None \<Rightarrow> None
        | Some rules \<Rightarrow> Some (\<lambda>handler ctx0 request.
            case ctx0 of None \<Rightarrow> throw (fga_api_error (errorf ''openfga authz: context is nil''))
            | Some ctx \<Rightarrow>
            (case ctx_transport ctx of
               None \<Rightarrow> throw (fga_api_error (errorf ''openfga authz: server transport is missing''))
             | Some serverTransport \<Rightarrow>
            (case rules (tr_operation serverTransport) of
               None \<Rightarrow> throw (fga_api_error (errorf ''openfga authz: no authorization rule for operation''))
             | Some rule \<Rightarrow>
            (case zr_mode rule of
               AuthzNone \<Rightarrow> handler ctx0 request
             | AuthzRequired \<Rightarrow>
                 (case actor_from ctx0 of
                    None \<Rightarrow> throw (fga_api_error (wrap ''authenticated actor is missing'' (Sentinel (FgaAuthz FUnauthenticated))))
                  | Some actor \<Rightarrow>
                      if act_type actor = actor_type_anonymous
                      then throw (fga_api_error (wrap ''authenticated actor is missing'' (Sentinel (FgaAuthz FUnauthenticated))))
                      else
                        case rule_resource_id rule (proto_of request) of
                          Inl e \<Rightarrow> throw (fga_api_error e)
                        | Inr resourceID \<Rightarrow>
                            check (fga_check authorizer ctx0 actor (zr_action rule) (zr_resource_type rule) resourceID)
                              (\<lambda>e. throw (fga_api_error e))
                              (\<lambda>allowed.
                                 if \<not> allowed then throw api_permission_denied
                                 else handler ctx0 request))
             | _ \<Rightarrow> throw (fga_api_error (errorf ''openfga authz: unsupported mode'')))))))"


section \<open>Names determine objects\<close>

lemma name_char_ascii: "valid_provider_name v n \<Longrightarrow> list_all (rune_where rune_name_char) (runes v)"
  by (simp add: valid_provider_name_def split: if_splits)

text \<open>A rune that is a name character comes from one byte, so a valid name is plain ASCII without a colon.\<close>

lemma decode_name_byte:
  assumes "decode_rune s = (Some r, n)" "r < 128"
  shows "\<exists>c t. s = c # t \<and> ord_of c = r \<and> n = 1"
proof (cases s)
  case (Cons c t)
  show ?thesis
  proof (cases "ord_of c < 128")
    case True
    with assms Cons show ?thesis by simp
  next
    case False
    with assms Cons show ?thesis
      by (auto simp: decode_rune_def rune2_def rune3_def rune4_def second_ok3_def second_ok4_def
          cont_byte_def split: list.splits if_splits)
  qed
qed (use assms in \<open>simp add: decode_rune_def\<close>)

lemma small_runes_ascii:
  "list_all (rune_where (\<lambda>r. r < 128 \<and> P r)) (runes v) \<Longrightarrow> list_all (\<lambda>c. ord_of c < 128 \<and> P (ord_of c)) v"
proof (induction v rule: runes.induct)
  case (1 s)
  show ?case
  proof (cases "s = []")
    case False
    obtain x n where d: "decode_rune s = (x, n)" by fastforce
    have unfold: "runes s = (x, take n s) # runes (drop n s)"
      using False d by (subst runes.simps) simp
    with 1(2) obtain r where r: "x = Some r" "r < 128" "P r"
      by (cases x) (auto simp: rune_where_def)
    then obtain c t where c: "s = c # t" "ord_of c = r" "n = 1" using decode_name_byte d by blast
    with 1 False unfold d r show ?thesis by simp
  qed simp
qed

lemma provider_name_chars:
  "valid_provider_name v n \<Longrightarrow> v \<noteq> [] \<and> list_all (\<lambda>c. ord_of c < 128 \<and> rune_name_char (ord_of c)) v"
proof -
  assume v: "valid_provider_name v n"
  have "rune_name_char r \<Longrightarrow> r < 128" for r by (auto simp: rune_name_char_def)
  then have "list_all (rune_where (\<lambda>r. r < 128 \<and> rune_name_char r)) (runes v)"
    using name_char_ascii [OF v] by (auto simp: list_all_iff rune_where_def split: option.splits)
  with small_runes_ascii v show ?thesis by (auto simp: valid_provider_name_def split: if_splits)
qed

lemma provider_name_no_colon: "valid_provider_name v n \<Longrightarrow> CHR '':'' \<notin> set v"
  using provider_name_chars [of v n] by (auto simp: list_all_iff rune_name_char_def)

lemma provider_name_rune_count: "valid_provider_name v n \<Longrightarrow> rune_count v = length v"
  using provider_name_chars [of v n] by (intro rune_count_ascii) (auto simp: ascii_def list_all_iff)

lemma resource_object_Inr:
  "resource_object t i = Inr obj \<Longrightarrow>
     valid_provider_name t 254 \<and> valid_resource_id i (256 - int (length t) - 1) \<and> obj = t @ '':'' @ i"
  using provider_name_rune_count [of t 254]
  by (auto simp: resource_object_def resource_type_name_def split: if_splits)

lemma resource_id_no_sep: "valid_resource_id i n \<Longrightarrow> CHR '':'' \<notin> set i \<and> CHR ''#'' \<notin> set i \<and> i \<noteq> []"
  by (auto simp: valid_resource_id_def list_ex_iff split: if_splits)

text \<open>
  An OpenFGA object names one resource: two (type, identifier) pairs that are accepted give the
  same object only if they are equal, an object has exactly one colon and no hash, and it is cut back
  into the pair at the colon.
\<close>

lemma resource_object_injective:
  assumes "resource_object t i = Inr obj"
  shows "cut (CHR '':'') obj = (t, i, True)
    \<and> (\<forall>t' i'. resource_object t' i' = Inr obj \<longrightarrow> t' = t \<and> i' = i)
    \<and> count_list obj (CHR '':'') = 1 \<and> CHR ''#'' \<notin> set obj"
proof -
  note o1 = resource_object_Inr [OF assms]
  have cut_obj: "cut (CHR '':'') obj' = (t', i', True)" if "resource_object t' i' = Inr obj'" for t' i' obj'
    using resource_object_Inr [OF that] by (auto dest: provider_name_no_colon simp: cut_append)
  moreover have "t' = t \<and> i' = i" if "resource_object t' i' = Inr obj" for t' i'
    using cut_obj [OF that] cut_obj [OF assms] by simp
  moreover have "count_list obj (CHR '':'') = 1"
    using o1 provider_name_no_colon [of t 254] resource_id_no_sep [of i]
    by (auto simp: count_notin)
  moreover have "CHR ''#'' \<notin> set obj"
    using o1 provider_name_chars [of t 254] resource_id_no_sep
    by (auto simp: list_all_iff rune_name_char_def)
  ultimately show ?thesis using assms by blast
qed

section \<open>Calls\<close>

text \<open>An answer of \<open>Check\<close> is the provider's answer to one question about one subject and one object.\<close>

lemma fga_check_success:
  assumes "fga_check (Some z) ctx actor action rt i w = (Inr allowed, w')"
  shows "\<exists>client mapS user.
    az_client z = Some client \<and> az_map_subject z = Some mapS
    \<and> authenticated actor \<and> mapS actor = Inr user \<and> CHR '':'' \<in> set user
    \<and> (\<exists>object. resource_object rt i = Inr object \<and> valid_provider_name action 50
         \<and> fc_check client user action object w = (Inr (Some (Some allowed)), w'))"
proof -
  obtain client mapS where c: "az_client z = Some client" "az_map_subject z = Some mapS"
    and valid: "authorizer_valid (Some z)"
    using assms by (auto simp: fga_check_def authorizer_valid_def split: if_splits)
  obtain user relation object where parts: "request_parts z actor action rt i = Inr (user, relation, object)"
    and ans: "fc_check client user relation object w = (Inr (Some (Some allowed)), w')"
    using assms c valid
    by (auto simp: fga_check_def check_run Let_def split: if_splits sum.splits prod.splits option.splits)
  have sub: "fga_subject z actor = Inr user" and rel: "relation_name action = Inr relation"
    and obj: "resource_object rt i = Inr object"
    using parts by (auto simp: request_parts_def split: sum.splits)
  have "authenticated actor \<and> mapS actor = Inr user \<and> CHR '':'' \<in> set user"
    using sub c cut_True [of "CHR '':''" user]
    by (auto simp: fga_subject_def authenticated_def split: if_splits sum.splits prod.splits)
  with c rel obj ans show ?thesis by (auto simp: relation_name_def split: if_splits)
qed

lemma batch_allowed_Inr:
  "batch_allowed results n k = Inr bs \<Longrightarrow> length bs = k \<and> (\<forall>i < k.
      \<exists>res. results (itoa (int (n + i))) = Some res \<and> br_error res = None
        \<and> br_allowed res = Some (bs ! i))"
proof (induction k arbitrary: n bs)
  case (Suc k)
  obtain res b rest where r: "results (itoa (int n)) = Some res" "batch_result_allowed res = Inr b"
    and rest: "batch_allowed results (Suc n) k = Inr rest" and bs: "bs = b # rest"
    using Suc.prems by (auto split: option.splits sum.splits)
  have "br_error res = None \<and> br_allowed res = Some b"
    using r(2) by (auto simp: batch_result_allowed_def split: option.splits if_splits)
  with r(1) Suc.IH [OF rest] bs show ?case
    by (auto simp: less_Suc_eq_0_disj ac_simps)
qed simp

text \<open>
  A batch answers its requests in order and all at once: when \<open>BatchCheck\<close> succeeds there is one
  answer per request, and the answer at an index is what the provider returned under that index for
  the subject, relation and object of the request at that index; an error, a missing answer or a
  wrong number of answers fails the whole batch.
\<close>

lemma batch_check_in_order:
  assumes "fga_batch_check (Some z) ctx requests w = (Inr answers, w')" "requests \<noteq> []"
  shows "length answers = length requests
    \<and> (\<exists>client items results. az_client z = Some client \<and> length items = length requests
       \<and> fc_batch client items w = (Inr (Some results), w')
       \<and> (\<forall>i < length requests.
            let q = requests ! i in
            request_parts z (fq_actor q) (fq_action q) (fq_resource_type q) (fq_resource_id q)
              = Inr (bi_user (items ! i), bi_relation (items ! i), bi_object (items ! i))
            \<and> bi_correlation (items ! i) = itoa (int i)
            \<and> (\<exists>res. results (itoa (int i)) = Some res \<and> br_error res = None
                 \<and> br_allowed res = Some (answers ! i))))"
proof -
  have items: "batch_items z n qs = Inr its \<Longrightarrow> length its = length qs \<and> (\<forall>i < length qs.
      request_parts z (fq_actor (qs ! i)) (fq_action (qs ! i)) (fq_resource_type (qs ! i)) (fq_resource_id (qs ! i))
        = Inr (bi_user (its ! i), bi_relation (its ! i), bi_object (its ! i))
      \<and> bi_correlation (its ! i) = itoa (int (n + i)))" for n qs its
    by (induction qs arbitrary: n its)
      (auto simp: less_Suc_eq_0_disj ac_simps split: sum.splits prod.splits)
  obtain client where c: "az_client z = Some client" and v: "authorizer_valid (Some z)" "ctx \<noteq> None"
    using assms by (auto simp: fga_batch_check_def authorizer_valid_def split: if_splits)
  obtain its where its: "batch_items z 0 requests = Inr its"
    using assms v by (auto simp: fga_batch_check_def split: if_splits sum.splits)
  obtain results where r: "fc_batch client its w = (Inr (Some results), w')"
    and b: "batch_allowed results 0 (length requests) = Inr answers"
    using assms v its c
    by (auto simp: fga_batch_check_def check_run split: if_splits sum.splits prod.splits option.splits)
  show ?thesis using items [OF its] batch_allowed_Inr [OF b] r c by (auto simp: Let_def)
qed

text \<open>
  \<open>ListAllowed\<close> returns the identifiers of the objects the provider listed, in its order: put back
  behind the type each of them is the listed object, and each is an identifier that \<open>Check\<close> accepts
  for that type.
\<close>

lemma list_allowed_roundtrip:
  assumes "fga_list_allowed (Some z) ctx actor action rt w = (Inr ids, w')"
  shows "authenticated actor \<and> (\<exists>client user objects. az_client z = Some client
    \<and> fga_subject z actor = Inr user
    \<and> fc_list client user action rt w = (Inr (Some objects), w')
    \<and> map (resource_object rt) ids = map Inr objects)"
proof -
  have ids: "valid_provider_name rt 254 \<Longrightarrow> listed_ids (rt @ '':'') objs = Inr xs \<Longrightarrow>
      map (resource_object rt) xs = map Inr objs" for objs xs
  proof (induction objs arbitrary: xs)
    case (Cons obj objs)
    have asc: "ascii (rt @ '':'')"
      using provider_name_chars [OF Cons.prems(1)] by (auto simp: ascii_def list_all_iff)
    then have "rune_count (rt @ '':'') = Suc (length rt)" by (simp add: rune_count_ascii)
    with Cons show ?case
      using has_prefixE [of obj "rt @ '':''"] provider_name_rune_count [OF Cons.prems(1)]
      by (auto simp: Let_def resource_object_def resource_type_name_def trim_prefix_def
          split: if_splits sum.splits)
  qed simp
  obtain client where c: "az_client z = Some client" and v: "authorizer_valid (Some z)" "ctx \<noteq> None"
    using assms by (auto simp: fga_list_allowed_def authorizer_valid_def split: if_splits)
  obtain user where u: "fga_subject z actor = Inr user" and a: "relation_name action = Inr action"
    and rt: "resource_type_name rt = Inr rt" "valid_provider_name rt 254"
    using assms v
    by (auto simp: fga_list_allowed_def relation_name_def resource_type_name_def split: if_splits sum.splits)
  obtain objects where o: "fc_list client user action rt w = (Inr (Some objects), w')"
    and l: "listed_ids (rt @ '':'') objects = Inr ids"
    using assms v c u a rt
    by (auto simp: fga_list_allowed_def check_run split: if_splits sum.splits prod.splits option.splits)
  have "authenticated actor"
    using u by (auto simp: fga_subject_def authenticated_def split: if_splits)
  with c u o ids [OF rt(2) l] show ?thesis by blast
qed

section \<open>The guard\<close>

definition openfga_grants ::
    "'w authorizer \<Rightarrow> authz_rule rules \<Rightarrow> 'c go_ctx_scheme \<Rightarrow> pmessage option option \<Rightarrow> 'w \<Rightarrow> 'w \<Rightarrow> bool" where
  "openfga_grants z rules ctx msg w w' \<longleftrightarrow>
     (\<exists>tr rule. ctx_transport ctx = Some tr \<and> rules (tr_operation tr) = Some rule \<and>
       (zr_mode rule = AuthzNone \<and> w' = w
        \<or> zr_mode rule = AuthzRequired \<and>
          (\<exists>actor i client mapS user object.
             actor_from (Some ctx) = Some actor \<and> authenticated actor
             \<and> rule_resource_id rule msg = Inr i
             \<and> az_client z = Some client \<and> az_map_subject z = Some mapS \<and> mapS actor = Inr user
             \<and> resource_object (zr_resource_type rule) i = Inr object
             \<and> fc_check client user (zr_action rule) object w = (Inr (Some (Some True)), w'))))"

lemma openfga_required_cases:
  fixes proto_of :: "'q \<Rightarrow> pmessage option option"
  assumes "zr_mode rule = AuthzRequired" "ctx_transport ctx = Some tr"
    "rules (tr_operation tr) = Some rule" "authorizer_valid (Some z)" "authz_new_rules opts = Some rules"
  defines "mw \<equiv> the (openfga_server (Some z) opts proto_of)"
  shows "(\<exists>e w'. stops mw (Some ctx) req w e w')
    \<or> (\<exists>w'. calls mw (Some ctx) req w ctx w' \<and> openfga_grants z rules ctx (proto_of req) w w')"
proof (cases "\<exists>actor i. actor_from (Some ctx) = Some actor \<and> act_type actor \<noteq> actor_type_anonymous
    \<and> rule_resource_id rule (proto_of req) = Inr i")
  case False
  note run = mw_def openfga_server_def stops_def assms(1-5)
  have "\<exists>e. stops mw (Some ctx) req w e w"
  proof (cases "actor_from (Some ctx)")
    case None
    then show ?thesis by (simp add: run)
  next
    case (Some actor)
    show ?thesis
    proof (cases "act_type actor = actor_type_anonymous")
      case True
      with Some show ?thesis by (simp add: run)
    next
      case anon: False
      with False Some obtain e where "rule_resource_id rule (proto_of req) = Inl e"
        by (cases "rule_resource_id rule (proto_of req)") auto
      with Some anon show ?thesis by (simp add: run)
    qed
  qed
  then show ?thesis by blast
next
  case True
  then obtain actor i where a: "actor_from (Some ctx) = Some actor" "act_type actor \<noteq> actor_type_anonymous"
    "rule_resource_id rule (proto_of req) = Inr i" by blast
  obtain r w' where r: "fga_check (Some z) (Some ctx) actor (zr_action rule) (zr_resource_type rule) i w = (r, w')"
    by fastforce
  have eq: "mw h (Some ctx) req w =
      (case r of Inl e \<Rightarrow> (Inl (fga_api_error e), w')
       | Inr allowed \<Rightarrow> if allowed then h (Some ctx) req w' else (Inl api_permission_denied, w'))" for h
    using assms(1-5) a r by (simp add: mw_def openfga_server_def check_run split: sum.split)
  show ?thesis
  proof (cases "r = Inr True")
    case True
    then have "calls mw (Some ctx) req w ctx w'" by (simp add: calls_def eq)
    moreover have "openfga_grants z rules ctx (proto_of req) w w'"
      using fga_check_success [of z "Some ctx" actor "zr_action rule" "zr_resource_type rule" i w True w']
        r True a assms(1-3)
      unfolding openfga_grants_def by blast
    ultimately show ?thesis by blast
  next
    case False
    then have "\<exists>e. stops mw (Some ctx) req w e w'"
      by (cases r) (auto simp: stops_def eq)
    then show ?thesis by blast
  qed
qed

lemma openfga_server_cases:
  assumes "openfga_server (Some z) opts proto_of = Some mw" "authz_new_rules opts = Some rules"
  shows "(\<exists>e w'. stops mw (Some ctx) req w e w')
    \<or> (\<exists>w'. calls mw (Some ctx) req w ctx w' \<and> openfga_grants z rules ctx (proto_of req) w w')"
proof -
  have valid: "authorizer_valid (Some z)"
    using assms(1) by (auto simp: openfga_server_def split: if_splits)
  have mw: "mw = the (openfga_server (Some z) opts proto_of)" by (simp add: assms(1))
  note run = mw openfga_server_def valid assms(2)
  show ?thesis
  proof (cases "ctx_transport ctx")
    case None
    then show ?thesis by (auto simp: run stops_def)
  next
    case tr: (Some tr)
    show ?thesis
    proof (cases "rules (tr_operation tr)")
      case None
      with tr show ?thesis by (auto simp: run stops_def)
    next
      case rule: (Some rule)
      show ?thesis
      proof (cases "zr_mode rule")
        case AuthzNone
        with tr rule have "calls mw (Some ctx) req w ctx w"
          by (simp add: run calls_def)
        with tr rule AuthzNone show ?thesis by (auto simp: openfga_grants_def)
      next
        case AuthzRequired
        show ?thesis
          unfolding mw by (rule openfga_required_cases [OF AuthzRequired tr rule valid assms(2)])
      qed (use tr rule in \<open>auto simp: run stops_def\<close>)
    qed
  qed
qed

text \<open>
  The OpenFGA middleware fails closed. Every call either stops with an error that does not depend
  on the handler, or runs the handler exactly once, on the same context: because the rule of the
  operation is NONE, or because it is REQUIRED, the context holds a valid, not anonymous actor, and
  the provider answered true to the rule's relation between the mapped subject of that actor and the
  object made of the rule's type and resource identifier.
\<close>

lemma openfga_server_guards:
  assumes "openfga_server (Some z) opts proto_of = Some mw" "authz_new_rules opts = Some rules"
  shows "(\<exists>e w'. stops mw (Some ctx) req w e w')
    \<or> (\<exists>w'. calls mw (Some ctx) req w ctx w' \<and> openfga_grants z rules ctx (proto_of req) w w')"
  using assms by (rule openfga_server_cases)

text \<open>On ASCII text the checks look at bytes.\<close>

lemma valid_provider_name_ascii:
  "ascii v \<Longrightarrow> valid_provider_name v n \<longleftrightarrow>
     v \<noteq> [] \<and> int (length v) \<le> n \<and> list_all (\<lambda>c. rune_name_char (ord_of c)) v"
  by (auto simp: valid_provider_name_def valid_ascii runes_of_ascii list_all_iff rune_where_def)

lemma valid_resource_id_ascii:
  "ascii v \<Longrightarrow> valid_resource_id v n \<longleftrightarrow>
     v \<noteq> [] \<and> 1 \<le> n \<and> int (length v) \<le> n
     \<and> list_all (\<lambda>c. c \<noteq> CHR ''#'' \<and> c \<noteq> CHR '':'' \<and> \<not> rune_is_space (ord_of c)
           \<and> \<not> rune_is_control (ord_of c)) v"
  by (auto simp: valid_resource_id_def valid_ascii rune_count_ascii runes_of_ascii list_all_iff
      list_ex_iff rune_where_def)

section \<open>A concrete provider\<close>

definition demo_fga_client :: "nat fga_client" where
  "demo_fga_client = \<lparr>fc_check = (\<lambda>u r ob. ret (Some (Some True))),
     fc_batch = (\<lambda>items. ret (Some [''0'' \<mapsto> \<lparr>br_error = None, br_allowed = Some True\<rparr>])),
     fc_list = (\<lambda>u r t. ret (Some [''plateau:default'']))\<rparr>"

definition demo_authorizer :: "nat authorizer" where
  "demo_authorizer = \<lparr>az_client = Some demo_fga_client,
     az_map_subject = Some (\<lambda>a. Inr (''user:'' @ act_id a))\<rparr>"

definition demo_actor :: actor where
  "demo_actor = \<lparr>act_type = actor_type_human, act_id = ''u1''\<rparr>"

definition demo_fga_request :: fga_request where
  "demo_fga_request = \<lparr>fq_actor = demo_actor, fq_action = ''can_view'', fq_resource_type = ''plateau'',
     fq_resource_id = ''default''\<rparr>"

lemma demo_fga_ascii:
  "ascii ''plateau''" "ascii ''default''" "ascii ''can_view''" "ascii ''user''" "ascii ''u1''" "ascii ''plateau:''"
  by code_simp+

lemmas demo_fga_simps = demo_fga_ascii valid_provider_name_ascii valid_resource_id_ascii rune_count_ascii
  rune_name_char_def rune_is_space_def rune_is_control_def

lemma demo_fga_names:
  "resource_object ''plateau'' ''default'' = Inr ''plateau:default''"
  "fga_subject demo_authorizer demo_actor = Inr ''user:u1''"
  "relation_name ''can_view'' = Inr ''can_view''"
  "resource_type_name ''plateau'' = Inr ''plateau''"
  "listed_ids ''plateau:'' [''plateau:default''] = Inr [''default'']"
  "itoa 0 = ''0''"
  by (simp_all add: resource_object_def resource_type_name_def relation_name_def fga_subject_def
      demo_authorizer_def demo_actor_def actor_valid_def cut_def demo_fga_simps has_prefix_def
      trim_prefix_def)
    code_simp

lemma demo_authorizer_valid [simp]: "authorizer_valid (Some demo_authorizer)"
  by (simp add: authorizer_valid_def demo_authorizer_def)

lemma demo_authorizer_client [simp]: "az_client demo_authorizer = Some demo_fga_client"
  by (simp add: demo_authorizer_def)

lemma demo_batch:
  "fga_batch_check (Some demo_authorizer) (Some background) [demo_fga_request] 0 = (Inr [True], 0)"
  by (simp add: fga_batch_check_def request_parts_def demo_fga_request_def demo_fga_names check_run
      demo_fga_client_def batch_result_allowed_def)

lemma demo_list:
  "fga_list_allowed (Some demo_authorizer) (Some background) demo_actor ''can_view'' ''plateau'' 0
     = (Inr [''default''], 0)"
  by (simp add: fga_list_allowed_def demo_fga_names check_run demo_fga_client_def del: listed_ids.simps)

definition demo_fga_opts :: "authz_rule rules_provider option list option list" where
  "demo_fga_opts = [Some [Some (\<lambda>_. [''/op'' \<mapsto>
     \<lparr>zr_mode = AuthzRequired, zr_action = ''can_view'', zr_resource_type = ''plateau'',
      zr_target = Some (TargetResourceId ''default'')\<rparr>])]]"

definition demo_fga_ctx :: go_ctx where
  "demo_fga_ctx = background\<lparr>ctx_transport := Some \<lparr>tr_operation = ''/op'', tr_header = None\<rparr>,
     ctx_actor := Some demo_actor\<rparr>"

end
