(* ===== verification/JwtAuthn.thy ===== *)
theory JwtAuthn
  imports Middleware
begin

text \<open>
  \<open>security/jwt/jwt.go\<close> and \<open>security/authn/jwt\<close>: RS256 signing and verification, and
  authentication by a bearer token. PEM and X.509 parsing, RSA, \<open>golang-jwt\<close>'s parser and claims
  validator are parameters (\<open>jwt_lib\<close>); what the key callback, the header checks and the order of
  the steps add to them is translated.
\<close>

section \<open>Keys\<close>

text \<open>An RSA public key: modulus (nil is \<open>None\<close>) and exponent.\<close>

record rsa_public =
  rp_n :: "int option"
  rp_e :: int

text \<open>What PKCS#8 and PKIX blocks may hold.\<close>

datatype 'k parsed_key = RsaKey 'k | NotRsa

text \<open>A parsed token: its header values of string type (\<open>alg\<close>, \<open>typ\<close>, \<open>kid\<close>) and its text.\<close>

record jwt_token =
  jt_alg :: string
  jt_typ :: "string option"
  jt_kid :: "string option"

record ('k, 'cl) jwt_lib =
  jl_pem_decode :: "string \<Rightarrow> string option"
  jl_parse_pkcs1_private :: "string \<Rightarrow> err + 'k"
  jl_parse_pkcs8_private :: "string \<Rightarrow> err + 'k parsed_key"
  jl_validate :: "'k \<Rightarrow> err option"
  jl_public :: "'k \<Rightarrow> rsa_public"
  jl_marshal_pkix :: "rsa_public \<Rightarrow> err + string"
  jl_sha256 :: "string \<Rightarrow> string"
  jl_signed_string :: "jwt_token \<Rightarrow> 'cl \<Rightarrow> 'k \<Rightarrow> err + string"
  jl_parse_pkix_public :: "string \<Rightarrow> err + rsa_public parsed_key"
  jl_parse_pkcs1_public :: "string \<Rightarrow> err + rsa_public"
  jl_unverified :: "string \<Rightarrow> (jwt_token \<times> 'cl) option"
  jl_signature_ok :: "string \<Rightarrow> rsa_public \<Rightarrow> bool"
  jl_validate_claims :: "string \<Rightarrow> string \<Rightarrow> 'cl \<Rightarrow> time \<Rightarrow> err option"

text \<open>
  \<open>Parser.ParseWithClaims\<close> with RS256 as the only valid method and strict decoding, without claims
  validation: it decodes header and claims, rejects other methods, asks the callback for the key and
  checks the signature with it.
\<close>

definition parse_with_claims ::
    "('k, 'cl) jwt_lib \<Rightarrow> (jwt_token \<Rightarrow> err + rsa_public) \<Rightarrow> string \<Rightarrow> err + jwt_token \<times> 'cl" where
  "parse_with_claims L keyFunc tokenString =
     (case jl_unverified L tokenString of
        None \<Rightarrow> Inl (errorf ''token is malformed'')
      | Some (token, claims) \<Rightarrow>
          if jt_alg token \<noteq> ''RS256'' then Inl (errorf ''token signature is invalid: signing method'')
          else
            case keyFunc token of
              Inl e \<Rightarrow> Inl (wrap ''token is unverifiable'' e)
            | Inr key \<Rightarrow>
                if jl_signature_ok L tokenString key then Inr (token, claims)
                else Inl (errorf ''token signature is invalid''))"

section \<open>Signing\<close>

record 'k signer =
  sg_key :: "'k option"
  sg_kid :: string

definition new_signer :: "('k, 'cl) jwt_lib \<Rightarrow> string \<Rightarrow> err + 'k signer" where
  "new_signer L privateKeyPEM =
     (case jl_pem_decode L privateKeyPEM of
        None \<Rightarrow> Inl (errorf ''jwt: failed to decode PEM block'')
      | Some block \<Rightarrow>
          let parsed =
            (case jl_parse_pkcs1_private L block of
               Inr key \<Rightarrow> Inr key
             | Inl pkcs1Err \<Rightarrow>
                 (case jl_parse_pkcs8_private L block of
                    Inl pkcs8Err \<Rightarrow>
                      Inl (wrap ''jwt: failed to parse private key as PKCS#1 or PKCS#8''
                            (the (errors_join [Some pkcs1Err, Some pkcs8Err])))
                  | Inr NotRsa \<Rightarrow> Inl (errorf ''jwt: PKCS#8 key is not RSA'')
                  | Inr (RsaKey key) \<Rightarrow> Inr key))
          in case parsed of
               Inl e \<Rightarrow> Inl e
             | Inr key \<Rightarrow>
                 (case jl_validate L key of
                    Some e \<Rightarrow> Inl (wrap ''jwt: invalid RSA private key'' e)
                  | None \<Rightarrow>
                      (case jl_marshal_pkix L (jl_public L key) of
                         Inl e \<Rightarrow> Inl (wrap ''jwt: failed to marshal public key'' e)
                       | Inr der \<Rightarrow>
                           Inr \<lparr>sg_key = Some key, sg_kid = take 8 (hex_encode (jl_sha256 L der))\<rparr>)))"

text \<open>Nil signers and nil claims are \<open>None\<close>.\<close>

definition signer_sign :: "('k, 'cl) jwt_lib \<Rightarrow> 'k signer option \<Rightarrow> 'cl option \<Rightarrow> err + string" where
  "signer_sign L signer claims =
     (case signer of
        None \<Rightarrow> Inl (errorf ''jwt: signer is nil'')
      | Some s \<Rightarrow>
     (case sg_key s of
        None \<Rightarrow> Inl (errorf ''jwt: signer is nil'')
      | Some key \<Rightarrow>
     (case claims of
        None \<Rightarrow> Inl (errorf ''jwt: claims are nil'')
      | Some cl \<Rightarrow>
          jl_signed_string L \<lparr>jt_alg = ''RS256'', jt_typ = Some ''JWT'', jt_kid = Some (sg_kid s)\<rparr> cl key)))"

definition signer_public_key :: "('k, 'cl) jwt_lib \<Rightarrow> 'k signer option \<Rightarrow> rsa_public option" where
  "signer_public_key L signer =
     (case signer of
        None \<Rightarrow> None
      | Some s \<Rightarrow>
     (case sg_key s of
        None \<Rightarrow> None
      | Some key \<Rightarrow> if rp_n (jl_public L key) = None then None else Some (jl_public L key)))"

definition signer_kid :: "'k signer option \<Rightarrow> string" where
  "signer_kid signer = (case signer of None \<Rightarrow> [] | Some s \<Rightarrow> sg_kid s)"

section \<open>Verification\<close>

text \<open>
  The key set of a verifier. A Go map is iterated in some order: \<open>jwt_new\<close> takes its entries in that
  order. The parser is always built by \<open>New\<close>.
\<close>

type_synonym verifier = "string \<rightharpoonup> rsa_public"

definition public_key_ok :: "rsa_public option \<Rightarrow> bool" where
  "public_key_ok k \<longleftrightarrow>
     (case k of None \<Rightarrow> False
      | Some p \<Rightarrow> (case rp_n p of None \<Rightarrow> False | Some n \<Rightarrow> 0 < n \<and> 1 < rp_e p))"

fun clone_keys :: "(string \<times> rsa_public option) list \<Rightarrow> verifier \<Rightarrow> err + verifier" where
  "clone_keys [] cloned = Inr cloned"
| "clone_keys ((kid, publicKey) # rest) cloned =
     (if kid = [] then Inl (errorf ''jwt: public key KID is empty'')
      else if \<not> public_key_ok publicKey then Inl (errorf ''jwt: public key is invalid'')
      else clone_keys rest (cloned(kid \<mapsto> the publicKey)))"

definition jwt_new :: "(string \<times> rsa_public option) list \<Rightarrow> err + verifier" where
  "jwt_new publicKeys =
     (if publicKeys = [] then Inl (errorf ''jwt: public key set is empty'')
      else clone_keys publicKeys Map.empty)"

definition key_func :: "verifier \<Rightarrow> jwt_token \<Rightarrow> err + rsa_public" where
  "key_func v token =
     (if jt_alg token \<noteq> ''RS256'' then Inl (errorf ''jwt: unexpected signing method'')
      else
        case jt_kid token of
          None \<Rightarrow> Inl (errorf ''jwt: missing kid in token header'')
        | Some kid \<Rightarrow>
            if kid = [] then Inl (errorf ''jwt: missing kid in token header'')
            else (case v kid of None \<Rightarrow> Inl (errorf ''jwt: unknown kid'') | Some k \<Rightarrow> Inr k))"

text \<open>A nil verifier is \<open>None\<close>; \<open>has_claims\<close> says whether the claims pointer is not nil.\<close>

definition verify_signature ::
    "('k, 'cl) jwt_lib \<Rightarrow> verifier option \<Rightarrow> string \<Rightarrow> bool \<Rightarrow> err + jwt_token \<times> 'cl" where
  "verify_signature L verifier tokenString has_claims =
     (case verifier of
        None \<Rightarrow> Inl (errorf ''jwt: verifier is invalid'')
      | Some v \<Rightarrow>
          if v = Map.empty then Inl (errorf ''jwt: verifier is invalid'')
          else if tokenString = [] then Inl (errorf ''jwt: token is empty'')
          else if \<not> has_claims then Inl (errorf ''jwt: claims are nil'')
          else parse_with_claims L (key_func v) tokenString)"

section \<open>The authenticator\<close>

datatype key_source = PublicKeyPem string | PublicKeyPath string

record verification_key_config =
  vk_kid :: string
  vk_source :: "key_source option"

record jwt_authn_config =
  jc_issuer :: string
  jc_audience :: string
  jc_keys :: "verification_key_config option list"

record jwt_authenticator =
  ja_verifier :: "verifier option"
  ja_expect :: "(string \<times> string) option"

definition public_key_data :: "(string \<Rightarrow> err + string) \<Rightarrow> verification_key_config \<Rightarrow> err + string" where
  "public_key_data read_file config =
     (case vk_source config of
        Some (PublicKeyPem p) \<Rightarrow>
          if trim_space p = [] then Inl (errorf ''public_key_pem is empty'') else Inr p
      | Some (PublicKeyPath p) \<Rightarrow>
          if trim_space p = [] then Inl (errorf ''public_key_path is empty'')
          else (case read_file p of Inl e \<Rightarrow> Inl (wrap ''read public_key_path'' e) | Inr d \<Rightarrow> Inr d)
      | None \<Rightarrow> Inl (errorf ''exactly one public key source is required''))"

definition parse_public_key :: "('k, 'cl) jwt_lib \<Rightarrow> string \<Rightarrow> err + rsa_public" where
  "parse_public_key L data =
     (case jl_pem_decode L data of
        None \<Rightarrow> Inl (errorf ''failed to decode public key PEM'')
      | Some block \<Rightarrow>
          (case jl_parse_pkix_public L block of
             Inr (RsaKey k) \<Rightarrow> Inr k
           | Inr NotRsa \<Rightarrow> Inl (errorf ''public key is not RSA'')
           | Inl _ \<Rightarrow>
               (case jl_parse_pkcs1_public L block of
                  Inl e \<Rightarrow> Inl (wrap ''parse RSA public key'' e)
                | Inr k \<Rightarrow> Inr k)))"

fun load_keys ::
    "('k, 'cl) jwt_lib \<Rightarrow> (string \<Rightarrow> err + string) \<Rightarrow> verification_key_config option list
     \<Rightarrow> (string \<times> rsa_public option) list \<Rightarrow> err + (string \<times> rsa_public option) list" where
  "load_keys L read_file [] keys = Inr keys"
| "load_keys L read_file (None # rest) keys = Inl (errorf ''jwt authn: verification_keys[] is nil'')"
| "load_keys L read_file (Some cfg # rest) keys =
     (let kid = trim_space (vk_kid cfg) in
      if kid = [] \<or> kid \<noteq> vk_kid cfg
      then Inl (errorf ''jwt authn: kid must be non-empty without surrounding whitespace'')
      else if kid \<in> fst ` set keys then Inl (errorf ''jwt authn: duplicate verification KID'')
      else
        case public_key_data read_file cfg of
          Inl e \<Rightarrow> Inl (wrap ''jwt authn: verification_keys'' e)
        | Inr data \<Rightarrow>
            (case parse_public_key L data of
               Inl e \<Rightarrow> Inl (wrap ''jwt authn: verification_keys'' e)
             | Inr k \<Rightarrow> load_keys L read_file rest (keys @ [(kid, Some k)])))"

definition jwt_authn_new ::
    "('k, 'cl) jwt_lib \<Rightarrow> (string \<Rightarrow> err + string) \<Rightarrow> jwt_authn_config option \<Rightarrow> err + jwt_authenticator" where
  "jwt_authn_new L read_file config =
     (case config of
        None \<Rightarrow> Inl (errorf ''jwt authn: config is nil'')
      | Some cfg \<Rightarrow>
          let issuer = trim_space (jc_issuer cfg); audience = trim_space (jc_audience cfg) in
          if issuer = [] \<or> issuer \<noteq> jc_issuer cfg
          then Inl (errorf ''jwt authn: issuer must be non-empty without surrounding whitespace'')
          else if audience = [] \<or> audience \<noteq> jc_audience cfg
          then Inl (errorf ''jwt authn: audience must be non-empty without surrounding whitespace'')
          else if jc_keys cfg = [] then Inl (errorf ''jwt authn: verification key set is empty'')
          else
            case load_keys L read_file (jc_keys cfg) [] of
              Inl e \<Rightarrow> Inl e
            | Inr keys \<Rightarrow>
                (case jwt_new keys of
                   Inl e \<Rightarrow> Inl (wrap ''jwt authn: verifier config'' e)
                 | Inr v \<Rightarrow> Inr \<lparr>ja_verifier = Some v, ja_expect = Some (issuer, audience)\<rparr>))"

definition jwt_valid :: "jwt_authenticator option \<Rightarrow> bool" where
  "jwt_valid a \<longleftrightarrow> (case a of None \<Rightarrow> False | Some x \<Rightarrow> ja_verifier x \<noteq> None \<and> ja_expect x \<noteq> None)"

text \<open>\<open>strings.EqualFold\<close> for the ASCII scheme name.\<close>

definition ascii_lower :: "char \<Rightarrow> char" where
  "ascii_lower c = (if 65 \<le> ord_of c \<and> ord_of c \<le> 90 then char_of (ord_of c + 32) else c)"

definition bearer_token :: "string \<Rightarrow> err + string" where
  "bearer_token authorization =
     (if authorization = [] then Inl (Sentinel (JwtAuthn JMissingCredentials))
      else
        case GoStrings.fields authorization of
          [scheme, tok] \<Rightarrow>
            if map ascii_lower scheme \<noteq> ''bearer'' \<or> tok = []
            then Inl (Sentinel (JwtAuthn JMalformedCredentials)) else Inr tok
        | _ \<Rightarrow> Inl (Sentinel (JwtAuthn JMalformedCredentials)))"

definition validate_token_type :: "jwt_token option \<Rightarrow> err option" where
  "validate_token_type token =
     (case token of
        None \<Rightarrow> Some (wrap ''token is nil'' (Sentinel (JwtAuthn JInvalidToken)))
      | Some t \<Rightarrow>
          if jt_typ t \<noteq> Some ''JWT''
          then Some (wrap ''unexpected token type'' (Sentinel (JwtAuthn JInvalidToken))) else None)"

text \<open>
  What a claims factory returns, as reflection sees it: no value at all, a value of a kind other than pointer, a nil
  pointer, or a pointer with the getters that panic on it. A nil factory is \<open>None\<close>.
\<close>

datatype claims_value = ClaimsInvalid | ClaimsNoPointer | ClaimsNil | ClaimsPointer "string \<Rightarrow> bool"

type_synonym claims_factory = "(unit \<Rightarrow> claims_value option) option"

text \<open>A panic of the factory (\<open>None\<close>) or of a getter is recovered into an error.\<close>

definition claims_from_factory :: "(unit \<Rightarrow> claims_value option) \<Rightarrow> err + unit" where
  "claims_from_factory factory =
     (case factory () of
        None \<Rightarrow> Inl (errorf ''jwt authn: claims factory returned uninitialized claims'')
      | Some ClaimsInvalid \<Rightarrow> Inl (errorf ''jwt authn: claims factory must return a non-nil pointer'')
      | Some ClaimsNoPointer \<Rightarrow> Inl (errorf ''jwt authn: claims factory must return a non-nil pointer'')
      | Some ClaimsNil \<Rightarrow> Inl (errorf ''jwt authn: claims factory returned nil'')
      | Some (ClaimsPointer panics) \<Rightarrow>
          if \<exists>getter \<in> set [''GetExpirationTime'', ''GetIssuedAt'', ''GetNotBefore'', ''GetIssuer'', ''GetSubject'', ''GetAudience''].
               panics getter
          then Inl (errorf ''jwt authn: claims factory returned uninitialized claims'')
          else Inr ())"

definition jwt_authenticate ::
    "env \<Rightarrow> ('k, 'cl) jwt_lib \<Rightarrow> 'c go_ctx_scheme option \<Rightarrow> jwt_authenticator option \<Rightarrow> string
     \<Rightarrow> claims_factory \<Rightarrow> ('cl \<Rightarrow> err + actor) option \<Rightarrow> ('z world_scheme, actor) prog" where
  "jwt_authenticate E L ctx0 authenticator authorization newClaims mapActor =
     (case ctx0 of None \<Rightarrow> throw (errorf ''jwt authn: context is nil'')
      | Some ctx \<Rightarrow>
     (case ctx_err ctx of Some e \<Rightarrow> throw e
      | None \<Rightarrow>
      if \<not> jwt_valid authenticator then throw (errorf ''jwt authn: authenticator is invalid'')
      else if newClaims = None then throw (errorf ''jwt authn: claims factory is nil'')
      else if mapActor = None then throw (errorf ''jwt authn: actor mapper is nil'')
      else
        let a = the authenticator in
        pass (result (bearer_token authorization)) (\<lambda>tokenString.
        pass (result (claims_from_factory (the newClaims))) (\<lambda>_.
        check (result (verify_signature L (ja_verifier a) tokenString True))
          (\<lambda>e. throw (wrap2 '''' (Sentinel (JwtAuthn JInvalidToken)) e)) (\<lambda>(token, claims).
        fails_with (validate_token_type (Some token)) (
        seq (now E) (\<lambda>t.
        case jl_validate_claims L (fst (the (ja_expect a))) (snd (the (ja_expect a))) claims t of
          Some e \<Rightarrow> throw (wrap2 '''' (Sentinel (JwtAuthn JInvalidToken)) e)
        | None \<Rightarrow>
            (case the mapActor claims of
               Inl e \<Rightarrow> throw (wrap2 '''' (Sentinel (JwtAuthn JActorMapping)) e)
             | Inr actor \<Rightarrow>
                 if \<not> actor_valid actor \<or> act_type actor = actor_type_anonymous
                 then throw (wrap ''mapper returned invalid authenticated Actor'' (Sentinel (JwtAuthn JActorMapping)))
                 else ret actor))))))))"

section \<open>The middleware\<close>

definition jwt_api_error :: "err \<Rightarrow> err" where
  "jwt_api_error e =
     (if errors_is e ContextCanceled \<or> errors_is e ContextDeadlineExceeded then e
      else if errors_is e (JwtAuthn JMissingCredentials) \<or> errors_is e (JwtAuthn JMalformedCredentials)
        \<or> errors_is e (JwtAuthn JInvalidToken) \<or> errors_is e (JwtAuthn JActorMapping)
      then api_unauthenticated e
      else api_internal e)"

definition jwt_server ::
    "env \<Rightarrow> ('k, 'cl) jwt_lib \<Rightarrow> jwt_authenticator option \<Rightarrow> claims_factory \<Rightarrow> ('cl \<Rightarrow> err + actor) option
     \<Rightarrow> authn_rule rules_provider option list option list
     \<Rightarrow> ('c, 'q, 'z world_scheme, 'a) middleware option" where
  "jwt_server E L authenticator newClaims mapActor opts =
     (if \<not> jwt_valid authenticator \<or> newClaims = None \<or> mapActor = None then None
      else
        case authn_new_rules opts of None \<Rightarrow> None
        | Some rules \<Rightarrow> Some (\<lambda>handler ctx0 request.
            case ctx0 of None \<Rightarrow> throw (jwt_api_error (errorf ''jwt authn: context is nil''))
            | Some ctx \<Rightarrow>
            (case ctx_transport ctx of
               None \<Rightarrow> throw (jwt_api_error (errorf ''jwt authn: server transport is missing''))
             | Some serverTransport \<Rightarrow>
            (case rules (tr_operation serverTransport) of
               None \<Rightarrow> throw (jwt_api_error (errorf ''jwt authn: no authentication rule for operation''))
             | Some rule \<Rightarrow>
            (case ar_mode rule of
               AuthnPublic \<Rightarrow> handler (Some (with_actor ctx anonymous_actor)) request
             | AuthnRequired \<Rightarrow>
                 (case tr_header serverTransport of
                    None \<Rightarrow> throw (jwt_api_error (errorf ''jwt authn: request header is missing''))
                  | Some header \<Rightarrow>
                      check (jwt_authenticate E L ctx0 authenticator (header ''Authorization'') newClaims mapActor)
                        (\<lambda>e. throw (jwt_api_error e))
                        (\<lambda>actor. handler (Some (with_actor ctx actor)) request))
             | _ \<Rightarrow> throw (jwt_api_error (errorf ''jwt authn: unsupported mode'')))))))"


section \<open>Properties\<close>

text \<open>What a verified bearer token has passed.\<close>

definition jwt_verified ::
    "('k, 'cl) jwt_lib \<Rightarrow> jwt_authenticator \<Rightarrow> string \<Rightarrow> time \<Rightarrow> 'cl \<Rightarrow> bool" where
  "jwt_verified L a authorization t claims \<longleftrightarrow>
     (\<exists>tokenString token v kid key issuer audience.
        bearer_token authorization = Inr tokenString
        \<and> ja_verifier a = Some v \<and> ja_expect a = Some (issuer, audience)
        \<and> jl_unverified L tokenString = Some (token, claims)
        \<and> jt_alg token = ''RS256'' \<and> jt_typ token = Some ''JWT'' \<and> jt_kid token = Some kid \<and> kid \<noteq> []
        \<and> v kid = Some key \<and> jl_signature_ok L tokenString key
        \<and> jl_validate_claims L issuer audience claims t = None)"

lemma verify_signature_Inr:
  "verify_signature L (Some v) s b = Inr (token, claims) \<Longrightarrow>
     jl_unverified L s = Some (token, claims) \<and> jt_alg token = ''RS256''
     \<and> (\<exists>kid key. jt_kid token = Some kid \<and> kid \<noteq> [] \<and> v kid = Some key \<and> jl_signature_ok L s key)"
  by (auto simp: verify_signature_def parse_with_claims_def key_func_def
      split: if_splits option.splits sum.splits)

lemma jwt_authenticate_success:
  assumes "jwt_authenticate E L ctx0 (Some a) authorization nc mapA w = (Inr actor, w')"
  shows "\<exists>ctx f claims. ctx0 = Some ctx \<and> ctx_err ctx = None \<and> mapA = Some f \<and> f claims = Inr actor
    \<and> authenticated actor \<and> jwt_verified L a authorization (clock E (tick w)) claims"
proof -
  obtain ctx where ctx: "ctx0 = Some ctx" "ctx_err ctx = None" and v: "jwt_valid (Some a)"
    and nil: "nc \<noteq> None" "mapA \<noteq> None"
    using assms by (auto simp: jwt_authenticate_def split: option.splits if_splits)
  obtain ver iss aud f where a: "ja_verifier a = Some ver" "ja_expect a = Some (iss, aud)" "mapA = Some f"
    using v nil by (auto simp: jwt_valid_def)
  obtain s where s: "bearer_token authorization = Inr s"
    using assms ctx v nil by (cases "bearer_token authorization") (auto simp: jwt_authenticate_def check_run)
  obtain token claims where vs: "verify_signature L (Some ver) s True = Inr (token, claims)"
    and rest: "validate_token_type (Some token) = None" "jl_validate_claims L iss aud claims (clock E (tick w)) = None"
      "f claims = Inr actor" "authenticated actor"
    using assms ctx v nil a s
    by (auto simp: jwt_authenticate_def check_run seq_run now_def Let_def fails_with_def authenticated_def
        split: option.splits if_splits sum.splits prod.splits)
  have "jwt_verified L a authorization (clock E (tick w)) claims"
    using verify_signature_Inr [OF vs] rest s a
    unfolding jwt_verified_def validate_token_type_def by (auto split: if_splits)
  with ctx a rest show ?thesis by blast
qed

definition jwt_grants ::
    "env \<Rightarrow> ('k, 'cl) jwt_lib \<Rightarrow> jwt_authenticator \<Rightarrow> ('cl \<Rightarrow> err + actor) \<Rightarrow> authn_rule rules
     \<Rightarrow> 'c go_ctx_scheme \<Rightarrow> nat \<Rightarrow> 'c go_ctx_scheme \<Rightarrow> bool" where
  "jwt_grants E L a f rules ctx n c \<longleftrightarrow>
     (\<exists>tr rule. ctx_transport ctx = Some tr \<and> rules (tr_operation tr) = Some rule \<and>
       (ar_mode rule = AuthnPublic \<and> c = with_actor ctx anonymous_actor
        \<or> ar_mode rule = AuthnRequired \<and>
          (\<exists>header claims actor. tr_header tr = Some header
             \<and> jwt_verified L a (header ''Authorization'') (clock E n) claims
             \<and> f claims = Inr actor \<and> authenticated actor \<and> c = with_actor ctx actor)))"

lemma jwt_required_cases:
  fixes mapA :: "'cl \<Rightarrow> err + actor" and E :: env and L :: "('k, 'cl) jwt_lib"
  assumes "ar_mode rule = AuthnRequired" "ctx_transport ctx = Some tr"
    "rules (tr_operation tr) = Some rule" "jwt_valid (Some a)" "nc = Some y" "authn_new_rules opts = Some rules"
  defines "mw \<equiv> the (jwt_server E L (Some a) nc (Some mapA) opts)"
  shows "(\<exists>e w'. stops mw (Some ctx) req w e w')
    \<or> (\<exists>c w'. calls mw (Some ctx) req w c w' \<and> jwt_grants E L a mapA rules ctx (tick w) c)"
proof (cases "tr_header tr")
  case None
  then show ?thesis using assms(1-6) by (auto simp: mw_def jwt_server_def stops_def)
next
  case header: (Some header)
  obtain r w' where r: "jwt_authenticate E L (Some ctx) (Some a) (header ''Authorization'') nc (Some mapA) w = (r, w')"
    by fastforce
  have eq: "mw h (Some ctx) req w = (case r of Inl e \<Rightarrow> (Inl (jwt_api_error e), w')
      | Inr actor \<Rightarrow> h (Some (with_actor ctx actor)) req w')" for h
    using assms(1-6) header r by (simp add: mw_def jwt_server_def check_run split: sum.split)
  show ?thesis
  proof (cases r)
    case (Inl e)
    then have "stops mw (Some ctx) req w (jwt_api_error e) w'" by (simp add: stops_def eq)
    then show ?thesis by blast
  next
    case (Inr actor)
    then have "calls mw (Some ctx) req w (with_actor ctx actor) w'" by (simp add: calls_def eq)
    moreover have "jwt_grants E L a mapA rules ctx (tick w) (with_actor ctx actor)"
      using jwt_authenticate_success [OF r [unfolded Inr]] assms(1-3) header
      by (auto simp: jwt_grants_def)
    ultimately show ?thesis by blast
  qed
qed


lemma clone_keys_lookup:
  "clone_keys keys cloned = Inr v \<Longrightarrow> distinct (map fst keys) \<Longrightarrow> (kid, Some k) \<in> set keys \<Longrightarrow> v kid = Some k"
proof (induction keys cloned rule: clone_keys.induct)
  case (2 kid' publicKey rest cloned)
  have other: "clone_keys ks c = Inr v' \<Longrightarrow> kid \<notin> fst ` set ks \<Longrightarrow> v' kid = c kid" for ks c v'
    by (induction ks c rule: clone_keys.induct) (auto split: if_splits)
  let ?c = "cloned(kid' \<mapsto> the publicKey)"
  have rec: "clone_keys rest ?c = Inr v" "public_key_ok publicKey"
    using 2(2) by (auto split: if_splits)
  show ?case
  proof (cases "(kid, Some k) \<in> set rest")
    case True
    then show ?thesis using 2(1) [OF _ _ rec(1)] 2(2,3) by (auto split: if_splits)
  next
    case False
    then have "kid = kid'" "publicKey = Some k" using 2(4) by auto
    then show ?thesis using other [OF rec(1)] 2(3) by simp
  qed
qed simp

text \<open>
  C38. What a signer signs, a verifier that registers its public key under its key identifier
  verifies, and gets back the same claims: for any other keys in the set, with RS256 and the
  signer's key identifier in the header. The library must decode what it encoded and accept a
  signature under the public key of the private key that made it.
\<close>

theorem sign_then_verify:
  assumes "\<And>h cl k s. jl_signed_string L h cl k = Inr s \<Longrightarrow>
      s \<noteq> [] \<and> jl_unverified L s = Some (h, cl) \<and> jl_signature_ok L s (jl_public L k)"
    and "signer_sign L (Some sg) (Some cl) = Inr s"
    and "signer_public_key L (Some sg) = Some pub" "signer_kid (Some sg) \<noteq> []"
    and "jwt_new keys = Inr v" "distinct (map fst keys)" "(signer_kid (Some sg), Some pub) \<in> set keys"
  shows "verify_signature L (Some v) s True
    = Inr (\<lparr>jt_alg = ''RS256'', jt_typ = Some ''JWT'', jt_kid = Some (signer_kid (Some sg))\<rparr>, cl)"
proof -
  have "v (signer_kid (Some sg)) = Some pub"
    using assms(5-7) clone_keys_lookup by (fastforce simp: jwt_new_def split: if_splits)
  moreover obtain k where "sg_key sg = Some k"
    "jl_signed_string L \<lparr>jt_alg = ''RS256'', jt_typ = Some ''JWT'', jt_kid = Some (sg_kid sg)\<rparr> cl k = Inr s"
    using assms(2) by (auto simp: signer_sign_def split: option.splits)
  moreover from this have "jl_public L k = pub"
    using assms(3) by (auto simp: signer_public_key_def split: if_splits)
  ultimately show ?thesis
    using assms(1,4) by (auto simp: verify_signature_def parse_with_claims_def key_func_def signer_kid_def)
qed

section \<open>A concrete library\<close>

text \<open>Tokens are the claims in the clear, with a header that the library remembers.\<close>

definition demo_jwt_lib :: "(nat, string) jwt_lib" where
  "demo_jwt_lib =
     \<lparr>jl_pem_decode = Some, jl_parse_pkcs1_private = (\<lambda>b. Inr (length b)),
      jl_parse_pkcs8_private = (\<lambda>b. Inr NotRsa), jl_validate = (\<lambda>_. None),
      jl_public = (\<lambda>k. \<lparr>rp_n = Some (int k), rp_e = 3\<rparr>), jl_marshal_pkix = (\<lambda>p. Inr ''der''),
      jl_sha256 = (\<lambda>_. ''0123456789''),
      jl_signed_string = (\<lambda>h cl k. if h = \<lparr>jt_alg = ''RS256'', jt_typ = Some ''JWT'', jt_kid = Some ''k1''\<rparr>
          then Inr (CHR ''.'' # cl) else Inl (errorf ''kid'')),
      jl_parse_pkix_public = (\<lambda>b. Inl (errorf ''no'')),
      jl_parse_pkcs1_public = (\<lambda>b. Inl (errorf ''no'')),
      jl_unverified = (\<lambda>s. if s = [] then None
          else Some (\<lparr>jt_alg = ''RS256'', jt_typ = Some ''JWT'', jt_kid = Some ''k1''\<rparr>, tl s)),
      jl_signature_ok = (\<lambda>s p. True), jl_validate_claims = (\<lambda>i a c t. None)\<rparr>"

definition demo_jwt_auth :: jwt_authenticator where
  "demo_jwt_auth = \<lparr>ja_verifier = Some [''k1'' \<mapsto> \<lparr>rp_n = Some 7, rp_e = 3\<rparr>], ja_expect = Some (''iss'', ''aud'')\<rparr>"

definition demo_jwt_opts :: "authn_rule rules_provider option list option list" where
  "demo_jwt_opts = [Some [Some (\<lambda>_. [''/op'' \<mapsto> \<lparr>ar_mode = AuthnRequired\<rparr>])]]"

definition demo_jwt_ctx :: go_ctx where
  "demo_jwt_ctx = background\<lparr>ctx_transport :=
     Some \<lparr>tr_operation = ''/op'', tr_header = Some (\<lambda>_. ''Bearer .claims'')\<rparr>\<rparr>"


definition demo_signer :: "nat signer" where
  "demo_signer = \<lparr>sg_key = Some 7, sg_kid = ''k1''\<rparr>"

theorem sign_then_verify_witness:
  "\<exists>token. verify_signature demo_jwt_lib (Some [''k1'' \<mapsto> \<lparr>rp_n = Some 7, rp_e = 3\<rparr>]) ''.claims'' True
    = Inr (token, ''claims'')"
proof -
  have sig: "signer_sign demo_jwt_lib (Some demo_signer) (Some ''claims'') = Inr ''.claims''"
    by (simp add: signer_sign_def demo_signer_def demo_jwt_lib_def)
  have pub: "signer_public_key demo_jwt_lib (Some demo_signer) = Some \<lparr>rp_n = Some 7, rp_e = 3\<rparr>"
    by (simp add: signer_public_key_def demo_signer_def demo_jwt_lib_def)
  have new: "jwt_new [(''k1'', Some \<lparr>rp_n = Some 7, rp_e = 3\<rparr>)] = Inr [''k1'' \<mapsto> \<lparr>rp_n = Some 7, rp_e = 3\<rparr>]"
    by (simp add: jwt_new_def public_key_ok_def)
  have law: "jl_signed_string demo_jwt_lib h cl k = Inr s \<Longrightarrow> s \<noteq> []
      \<and> jl_unverified demo_jwt_lib s = Some (h, cl) \<and> jl_signature_ok demo_jwt_lib s (jl_public demo_jwt_lib k)"
    for h cl k s
    by (auto simp: demo_jwt_lib_def split: if_splits)
  have kid: "signer_kid (Some demo_signer) \<noteq> []"
    "distinct (map fst [(''k1'', Some \<lparr>rp_n = Some 7, rp_e = 3\<rparr>)])"
    "(signer_kid (Some demo_signer), Some \<lparr>rp_n = Some 7, rp_e = 3\<rparr>)
       \<in> set [(''k1'', Some \<lparr>rp_n = Some 7, rp_e = 3\<rparr>)]"
    by (simp_all add: signer_kid_def demo_signer_def)
  show ?thesis
    using sign_then_verify [OF law sig pub kid(1) new kid(2,3)] by blast
qed

end
