(* ===== verification/EntStore.thy ===== *)
theory EntStore
  imports GoStrings
begin

text \<open>
  The database as the generated \<open>ent\<close> client shows it: a table is a list of rows, and \<open>Only\<close>,
  \<open>UpdateOneID(..).Where(..).Save\<close>, \<open>Update().Where(..).Save\<close>, \<open>Create().Save\<close> and \<open>Delete\<close> are
  functions on it, with the \<open>NotFound\<close>, \<open>NotSingular\<close>, validation and constraint errors of the
  generated code. A statement on the client is one atomic step, before which other requests may
  have changed the database (\<open>de_others\<close>); a transaction (\<open>Data.InTx\<close>) is isolated, and its writes
  are undone when its body or its commit fails.
\<close>

section \<open>Tables\<close>

definition not_found :: err where "not_found = Node EntNotFound []"
definition not_singular :: err where "not_singular = Node EntNotSingular []"
definition constraint_error :: err where "constraint_error = Node EntConstraint []"
definition validation_error :: err where "validation_error = errorf ''ent: validator failed''"

definition is_not_found :: "err \<Rightarrow> bool" where
  "is_not_found e = errors_as e (\<lambda>t. t = EntNotFound)"
definition is_constraint_error :: "err \<Rightarrow> bool" where
  "is_constraint_error e = errors_as e (\<lambda>t. t = EntConstraint)"

lemma ent_error_kinds [simp]:
  "is_not_found not_found" "\<not> is_not_found not_singular" "\<not> is_not_found constraint_error"
  "\<not> is_not_found validation_error" "is_constraint_error constraint_error"
  "\<not> is_constraint_error not_found" "\<not> is_constraint_error not_singular"
  "\<not> is_constraint_error validation_error"
  by (simp_all add: is_not_found_def is_constraint_error_def not_found_def not_singular_def
      constraint_error_def validation_error_def)

definition ent_only :: "('a \<Rightarrow> bool) \<Rightarrow> 'a list \<Rightarrow> err + 'a" where
  "ent_only P rows =
     (case filter P rows of
        [] \<Rightarrow> Inl not_found
      | [row] \<Rightarrow> Inr row
      | _ \<Rightarrow> Inl not_singular)"

definition ent_update_where :: "('a \<Rightarrow> bool) \<Rightarrow> ('a \<Rightarrow> 'a) \<Rightarrow> 'a list \<Rightarrow> 'a list" where
  "ent_update_where P f rows = map (\<lambda>row. if P row then f row else row) rows"

definition ent_update_one :: "('a \<Rightarrow> bool) \<Rightarrow> ('a \<Rightarrow> 'a) \<Rightarrow> 'a list \<Rightarrow> (err + 'a) \<times> 'a list" where
  "ent_update_one P f rows =
     (case filter P rows of
        [] \<Rightarrow> (Inl not_found, rows)
      | row # _ \<Rightarrow> (Inr (f row), ent_update_where P f rows))"

definition ent_create ::
    "('a \<Rightarrow> bool) \<Rightarrow> ('a \<Rightarrow> 'a \<Rightarrow> bool) \<Rightarrow> 'a \<Rightarrow> 'a list \<Rightarrow> (err + 'a) \<times> 'a list" where
  "ent_create valid clash row rows =
     (if \<not> valid row then (Inl validation_error, rows)
      else if list_ex (clash row) rows then (Inl constraint_error, rows)
      else (Inr row, rows @ [row]))"

definition ent_delete :: "('a \<Rightarrow> bool) \<Rightarrow> 'a list \<Rightarrow> nat \<times> 'a list" where
  "ent_delete P rows = (length (filter P rows), filter (\<lambda>row. \<not> P row) rows)"

lemma ent_only_Inr: "ent_only P rows = Inr row \<longleftrightarrow> filter P rows = [row]"
  by (auto simp: ent_only_def split: list.splits)

lemma ent_only_in: "ent_only P rows = Inr row \<Longrightarrow> row \<in> set rows \<and> P row"
  unfolding ent_only_Inr by (metis Cons_eq_filterD in_set_conv_decomp)

lemma ent_only_unique:
  "ent_only P rows = Inr row \<Longrightarrow> r \<in> set rows \<Longrightarrow> P r \<Longrightarrow> r = row"
proof -
  assume "ent_only P rows = Inr row" "r \<in> set rows" "P r"
  moreover from this have "r \<in> set (filter P rows)" by simp
  ultimately show ?thesis by (simp only: ent_only_Inr) simp
qed

lemma ent_only_none: "\<forall>r \<in> set rows. \<not> P r \<Longrightarrow> ent_only P rows = Inl not_found"
  by (simp add: ent_only_def filter_False)

lemma ent_only_not_found: "ent_only P rows = Inl not_found \<longleftrightarrow> (\<forall>r \<in> set rows. \<not> P r)"
proof
  assume "ent_only P rows = Inl not_found"
  then have "filter P rows = []"
    by (auto simp: ent_only_def not_found_def not_singular_def split: list.splits)
  then show "\<forall>r \<in> set rows. \<not> P r" by (simp add: filter_empty_conv)
qed (rule ent_only_none)

lemma ent_only_errors: "ent_only P rows = Inl e \<Longrightarrow> e = not_found \<or> e = not_singular"
  by (auto simp: ent_only_def split: list.splits)

text \<open>Rows that are told apart by a key: at most one row has a given key.\<close>

definition unique_by :: "('a \<Rightarrow> 'k) \<Rightarrow> 'a list \<Rightarrow> bool" where
  "unique_by key rows \<longleftrightarrow> distinct (map key rows)"

lemma unique_byD: "unique_by key rows \<Longrightarrow> r \<in> set rows \<Longrightarrow> s \<in> set rows \<Longrightarrow> key r = key s \<Longrightarrow> r = s"
  by (auto simp: unique_by_def distinct_map dest: inj_onD)

lemma unique_by_filter: "unique_by key rows \<Longrightarrow> r \<in> set rows \<Longrightarrow> filter (\<lambda>s. key s = key r) rows = [r]"
proof (induction rows)
  case (Cons x rows)
  show ?case
  proof (cases "r = x")
    case True
    have "key x \<notin> key ` set rows" using Cons.prems(1) by (simp add: unique_by_def)
    then have "\<forall>s \<in> set rows. key s \<noteq> key x" by (metis imageI)
    with True show ?thesis by (simp add: filter_False)
  next
    case False
    with Cons show ?thesis by (auto simp: unique_by_def)
  qed
qed simp

lemma unique_by_only:
  "unique_by key rows \<Longrightarrow> r \<in> set rows \<Longrightarrow> key r = k \<Longrightarrow> P r \<Longrightarrow>
     (\<And>s. s \<in> set rows \<Longrightarrow> P s \<Longrightarrow> key s = k) \<Longrightarrow> ent_only P rows = Inr r"
proof -
  assume u: "unique_by key rows" and r: "r \<in> set rows" "key r = k" "P r"
    and P: "\<And>s. s \<in> set rows \<Longrightarrow> P s \<Longrightarrow> key s = k"
  have "filter P rows = filter P (filter (\<lambda>s. key s = key r) rows)"
    unfolding filter_filter using P r(2) by (intro filter_cong) auto
  then show ?thesis using unique_by_filter [OF u r(1)] r(3) by (simp add: ent_only_Inr)
qed

lemma unique_by_create:
  "unique_by key rows \<Longrightarrow> ent_create valid clash row rows = (r, rows') \<Longrightarrow>
     (\<And>s. s \<in> set rows \<Longrightarrow> key s = key row \<Longrightarrow> clash row s) \<Longrightarrow> unique_by key rows'"
  by (force simp: ent_create_def unique_by_def list_ex_iff split: if_splits)

lemma unique_by_map: "(\<And>r. r \<in> set rows \<Longrightarrow> key (g r) = key r) \<Longrightarrow> unique_by key rows \<Longrightarrow> unique_by key (map g rows)"
  unfolding unique_by_def map_map by (metis (mono_tags, lifting) comp_apply map_eq_conv)

lemma unique_by_update_where:
  "(\<And>r. key (f r) = key r) \<Longrightarrow> unique_by key rows \<Longrightarrow> unique_by key (ent_update_where P f rows)"
  unfolding ent_update_where_def by (rule unique_by_map) simp_all

lemma set_update_where [simp]:
  "set (ent_update_where P f rows) = (\<lambda>r. if P r then f r else r) ` set rows"
  by (simp add: ent_update_where_def)

lemma updated_in: "x \<in> set rows \<Longrightarrow> P x \<Longrightarrow> f x \<in> set (ent_update_where P f rows)"
  by (auto simp: ent_update_where_def)

lemma update_where_all:
  "(\<And>r. P r \<Longrightarrow> Q (f r)) \<Longrightarrow> (\<And>r. \<not> P r \<Longrightarrow> Q r) \<Longrightarrow> \<forall>x \<in> set (ent_update_where P f rows). Q x"
  by (auto simp: ent_update_where_def)

lemma ent_only_update:
  assumes "ent_only P rows = Inr q" "\<And>r. P (f r) = P r"
  shows "ent_only P (ent_update_where Q f rows) = Inr (if Q q then f q else q)"
proof -
  have "filter P (ent_update_where Q f rows) = map (\<lambda>r. if Q r then f r else r) (filter P rows)"
    unfolding ent_update_where_def filter_map by (rule arg_cong [where f = "map _"], rule filter_cong)
      (use assms(2) in auto)
  then show ?thesis using assms(1) by (simp add: ent_only_Inr)
qed

lemma ent_update_one_Inr:
  "ent_update_one P f rows = (Inr x, rows') \<Longrightarrow>
     (\<exists>r \<in> set rows. P r \<and> x = f r) \<and> rows' = ent_update_where P f rows"
  by (auto simp: ent_update_one_def dest: filter_eq_ConsD split: list.splits)

lemma ent_update_one_Inl:
  "ent_update_one P f rows = (Inl e, rows') \<Longrightarrow> e = not_found \<and> rows' = rows \<and> (\<forall>r \<in> set rows. \<not> P r)"
  by (auto simp: ent_update_one_def filter_empty_conv split: list.splits)

lemma ent_update_one_rows:
  "snd (ent_update_one P f rows) = (if \<exists>r \<in> set rows. P r then ent_update_where P f rows else rows)"
  by (auto simp: ent_update_one_def filter_empty_conv split: list.splits dest: filter_eq_ConsD)

lemma ent_update_where_none: "\<forall>r \<in> set rows. \<not> P r \<Longrightarrow> ent_update_where P f rows = rows"
  unfolding ent_update_where_def by (rule map_idI) simp

lemma ent_update_one_snd: "snd (ent_update_one P f rows) = ent_update_where P f rows"
  by (auto simp: ent_update_one_rows ent_update_where_none)

lemma ent_create_Inr:
  "ent_create valid clash row rows = (Inr x, rows') \<longleftrightarrow>
     valid row \<and> \<not> list_ex (clash row) rows \<and> x = row \<and> rows' = rows @ [row]"
  by (auto simp: ent_create_def)

lemma ent_create_snd:
  "snd (ent_create valid clash row rows) =
     (if valid row \<and> \<not> list_ex (clash row) rows then rows @ [row] else rows)"
  by (auto simp: ent_create_def)

section \<open>Statements and transactions\<close>

text \<open>A statement reads the clock (for column defaults) and maps the database.\<close>

type_synonym ('d, 'a) stmt = "time \<Rightarrow> 'd \<Rightarrow> (err + 'a) \<times> 'd"

record 'd dbenv = env +
  de_others :: "nat \<Rightarrow> 'd \<Rightarrow> 'd"

record 'd db_world = world +
  dw_db :: 'd

definition stmt_query :: "('d \<Rightarrow> err + 'a) \<Rightarrow> ('d, 'a) stmt" where
  "stmt_query f = (\<lambda>t d. (f d, d))"

text \<open>A statement inside a transaction.\<close>

definition tx_exec :: "'d dbenv \<Rightarrow> ('d, 'a) stmt \<Rightarrow> (('d, 'z) db_world_scheme, 'a) prog" where
  "tx_exec E s w =
     (case store_fault E (tick w) of
        Some e \<Rightarrow> (Inl e, w\<lparr>tick := Suc (tick w)\<rparr>)
      | None \<Rightarrow>
          (case s (clock E (tick w)) (dw_db w) of
             (r, d) \<Rightarrow> (r, w\<lparr>tick := Suc (tick w), dw_db := d\<rparr>)))"

text \<open>What other requests did before this tick.\<close>

definition interfere :: "'d dbenv \<Rightarrow> (('d, 'z) db_world_scheme, unit) run" where
  "interfere E w = ((), w\<lparr>dw_db := de_others E (tick w) (dw_db w)\<rparr>)"

text \<open>A statement of its own.\<close>

definition db_exec :: "'d dbenv \<Rightarrow> ('d, 'a) stmt \<Rightarrow> (('d, 'z) db_world_scheme, 'a) prog" where
  "db_exec E s = seq (interfere E) (\<lambda>_. tx_exec E s)"

text \<open>
  A transaction: begin, body, commit; a failing body is rolled back and its error joined with that of
  the rollback, a failing commit leaves nothing.
\<close>

definition in_tx_with :: "string \<Rightarrow> string \<Rightarrow> 'd dbenv \<Rightarrow> (('d, 'z) db_world_scheme, 'a) prog \<Rightarrow> (('d, 'z) db_world_scheme, 'a) prog" where
  "in_tx_with at_begin at_commit E body =
     seq (interfere E) (\<lambda>_ w.
       case store_fault E (tick w) of
         Some e \<Rightarrow> (Inl (wrap at_begin e), w\<lparr>tick := Suc (tick w)\<rparr>)
       | None \<Rightarrow>
           (case body (w\<lparr>tick := Suc (tick w)\<rparr>) of
              (Inl e, v) \<Rightarrow>
                (Inl (the (errors_join [Some e, store_fault E (tick v)])),
                 v\<lparr>tick := Suc (tick v), dw_db := dw_db w\<rparr>)
            | (Inr x, v) \<Rightarrow>
                (case store_fault E (tick v) of
                   Some e \<Rightarrow> (Inl (wrap at_commit e),
                              v\<lparr>tick := Suc (tick v), dw_db := dw_db w\<rparr>)
                 | None \<Rightarrow> (Inr x, v\<lparr>tick := Suc (tick v)\<rparr>))))"

text \<open>\<open>Data.InTx\<close> and \<open>OIDCStorage.inTx\<close> differ in the text of their errors.\<close>

abbreviation in_tx :: "'d dbenv \<Rightarrow> (('d, 'z) db_world_scheme, 'a) prog \<Rightarrow> (('d, 'z) db_world_scheme, 'a) prog" where
  "in_tx \<equiv> in_tx_with ''begin IAM transaction'' ''commit IAM transaction''"

abbreviation oidc_tx :: "'d dbenv \<Rightarrow> (('d, 'z) db_world_scheme, 'a) prog \<Rightarrow> (('d, 'z) db_world_scheme, 'a) prog" where
  "oidc_tx \<equiv> in_tx_with ''begin OIDC transaction'' ''commit OIDC transaction''"

section \<open>Invariants of the database\<close>

definition on_db :: "('d \<Rightarrow> bool) \<Rightarrow> ('d, 'z) db_world_scheme \<Rightarrow> bool" where
  "on_db I w \<longleftrightarrow> I (dw_db w)"

text \<open>Other requests keep the invariant too.\<close>

definition others_keep :: "'d dbenv \<Rightarrow> ('d \<Rightarrow> bool) \<Rightarrow> bool" where
  "others_keep E I \<longleftrightarrow> (\<forall>n d. I d \<longrightarrow> I (de_others E n d))"

definition stmt_keeps :: "('d \<Rightarrow> bool) \<Rightarrow> ('d, 'a) stmt \<Rightarrow> bool" where
  "stmt_keeps I s \<longleftrightarrow> (\<forall>t d. I d \<longrightarrow> I (snd (s t d)))"

lemma on_db_tick_free: "tick_free (on_db I)"
  by (simp add: tick_free_def on_db_def)

lemma preserves_on_db_now [preserve_intros]: "preserves (on_db I) (now E)"
  by (rule preserves_now) (rule on_db_tick_free)

lemma stmt_keeps_query [preserve_intros]: "stmt_keeps I (stmt_query f)"
  by (simp add: stmt_keeps_def stmt_query_def)

lemma preserves_tx_exec [preserve_intros]: "stmt_keeps I s \<Longrightarrow> preserves (on_db I) (tx_exec E s)"
  by (auto simp: preserves_def tx_exec_def on_db_def stmt_keeps_def split: option.splits prod.splits)
    (metis snd_conv)

lemma preserves_interfere [preserve_intros]: "others_keep E I \<Longrightarrow> preserves (on_db I) (interfere E)"
  by (simp add: preserves_def interfere_def on_db_def others_keep_def)

lemma preserves_db_exec [preserve_intros]:
  "others_keep E I \<Longrightarrow> stmt_keeps I s \<Longrightarrow> preserves (on_db I) (db_exec E s)"
  unfolding db_exec_def by (intro preserve_intros)

text \<open>A transaction keeps an invariant that its body establishes whenever the body succeeds.\<close>

lemma preserves_in_tx_success:
  assumes "others_keep E I"
    and "\<And>w x v. I (dw_db w) \<Longrightarrow> body w = (Inr x, v) \<Longrightarrow> I (dw_db v)"
  shows "preserves (on_db I) (in_tx_with b c E body)"
  unfolding in_tx_with_def
proof (rule preserves_seq)
  show "preserves (on_db I) (interfere E)" using assms(1) by (rule preserves_interfere)
next
  fix x
  show "preserves (on_db I) (\<lambda>w.
       case store_fault E (tick w) of
         Some e \<Rightarrow> (Inl (wrap b e), w\<lparr>tick := Suc (tick w)\<rparr>)
       | None \<Rightarrow>
           (case body (w\<lparr>tick := Suc (tick w)\<rparr>) of
              (Inl e, v) \<Rightarrow>
                (Inl (the (errors_join [Some e, store_fault E (tick v)])),
                 v\<lparr>tick := Suc (tick v), dw_db := dw_db w\<rparr>)
            | (Inr x, v) \<Rightarrow>
                (case store_fault E (tick v) of
                   Some e \<Rightarrow> (Inl (wrap c e),
                              v\<lparr>tick := Suc (tick v), dw_db := dw_db w\<rparr>)
                 | None \<Rightarrow> (Inr x, v\<lparr>tick := Suc (tick v)\<rparr>))))"
    unfolding preserves_def on_db_def
    using assms(2) [of "w\<lparr>tick := Suc (tick w)\<rparr>" for w]
    by (auto split: option.split prod.split sum.split)
qed

lemma preserves_in_tx [preserve_intros]:
  "others_keep E I \<Longrightarrow> preserves (on_db I) body \<Longrightarrow> preserves (on_db I) (in_tx_with b c E body)"
  by (rule preserves_in_tx_success) (auto simp: on_db_def dest: preservesD)

section \<open>Runs that succeed\<close>

lemma tx_exec_Inr:
  "tx_exec E s w = (Inr x, w') \<longleftrightarrow>
     (\<exists>d. store_fault E (tick w) = None \<and> s (clock E (tick w)) (dw_db w) = (Inr x, d)
        \<and> w' = w\<lparr>tick := Suc (tick w), dw_db := d\<rparr>)"
  by (auto simp: tx_exec_def split: option.splits prod.splits)

lemma db_exec_Inr:
  "db_exec E s w = (Inr x, w') \<longleftrightarrow>
     (\<exists>d. store_fault E (tick w) = None
        \<and> s (clock E (tick w)) (de_others E (tick w) (dw_db w)) = (Inr x, d)
        \<and> w' = w\<lparr>tick := Suc (tick w), dw_db := d\<rparr>)"
  by (auto simp: db_exec_def seq_def interfere_def tx_exec_def split: option.splits prod.splits)

lemma in_tx_Inr:
  "in_tx_with b c E body w = (Inr x, w') \<longleftrightarrow>
     (\<exists>v. store_fault E (tick w) = None
        \<and> body (w\<lparr>dw_db := de_others E (tick w) (dw_db w), tick := Suc (tick w)\<rparr>) = (Inr x, v)
        \<and> store_fault E (tick v) = None \<and> w' = v\<lparr>tick := Suc (tick v)\<rparr>)"
  by (auto simp: in_tx_with_def seq_def interfere_def split: option.splits prod.splits sum.splits)

lemma in_tx_Inl_db:
  "in_tx_with b c E body w = (Inl e, w') \<Longrightarrow> dw_db w' = de_others E (tick w) (dw_db w)"
  by (auto simp: in_tx_with_def seq_def interfere_def split: option.splits prod.splits sum.splits)

section \<open>What a call met\<close>

text \<open>
  The database \<open>e\<close> is what the other requests made of \<open>d\<close> before one of the statements of the call from \<open>w\<close> to
  \<open>w'\<close>; \<open>t\<close> is a time that the call read from the clock, and \<open>i\<close> an identifier that it drew. A property states the course of a call with them: from
  the database of the start through the databases that its statements saw, each own write written out, to the
  database of the end, with nothing in between left open.
\<close>

definition meets :: "'d dbenv \<Rightarrow> ('d, 'z) db_world_scheme \<Rightarrow> ('d, 'z) db_world_scheme \<Rightarrow> 'd \<Rightarrow> 'd \<Rightarrow> bool" where
  "meets E w w' d e \<longleftrightarrow> (\<exists>n. tick w \<le> n \<and> n < tick w' \<and> e = de_others E n d)"

definition reads_clock :: "'e env_scheme \<Rightarrow> 'z world_scheme \<Rightarrow> 'z world_scheme \<Rightarrow> time \<Rightarrow> bool" where
  "reads_clock E w w' t \<longleftrightarrow> (\<exists>n. tick w \<le> n \<and> n < tick w' \<and> t = clock E n)"

definition draws_id :: "'e env_scheme \<Rightarrow> 'z world_scheme \<Rightarrow> 'z world_scheme \<Rightarrow> string \<Rightarrow> bool" where
  "draws_id E w w' i \<longleftrightarrow> (\<exists>n. tick w \<le> n \<and> n < tick w' \<and> uuid_v7 E n = Inr i)"

lemma meetsI: "tick w \<le> n \<Longrightarrow> n < tick w' \<Longrightarrow> meets E w w' d (de_others E n d)"
  by (auto simp: meets_def)

lemma reads_clockI: "tick w \<le> n \<Longrightarrow> n < tick w' \<Longrightarrow> reads_clock E w w' (clock E n)"
  by (auto simp: reads_clock_def)

lemma draws_idI: "tick w \<le> n \<Longrightarrow> n < tick w' \<Longrightarrow> uuid_v7 E n = Inr i \<Longrightarrow> draws_id E w w' i"
  by (auto simp: draws_id_def)

lemma draws_id_within: "draws_id E v v' t \<Longrightarrow> tick w \<le> tick v \<Longrightarrow> tick v' \<le> tick w' \<Longrightarrow> draws_id E w w' t"
  unfolding draws_id_def by (elim exE conjE, rule exI, intro conjI, erule (1) le_trans, erule (1) less_le_trans)

lemma meets_within: "meets E v v' d e \<Longrightarrow> tick w \<le> tick v \<Longrightarrow> tick v' \<le> tick w' \<Longrightarrow> meets E w w' d e"
  unfolding meets_def by (elim exE conjE, rule exI, intro conjI, erule (1) le_trans, erule (1) less_le_trans)

lemma reads_clock_within: "reads_clock E v v' t \<Longrightarrow> tick w \<le> tick v \<Longrightarrow> tick v' \<le> tick w' \<Longrightarrow> reads_clock E w w' t"
  unfolding reads_clock_def by (elim exE conjE, rule exI, intro conjI, erule (1) le_trans, erule (1) less_le_trans)

section \<open>A quiet database\<close>

text \<open>No other request runs and nothing fails: what a program does by itself.\<close>

definition quiet :: "'d dbenv \<Rightarrow> bool" where
  "quiet E \<longleftrightarrow> (\<forall>n. store_fault E n = None) \<and> (\<forall>n d. de_others E n d = d)"

lemma quiet_run:
  assumes "quiet E"
  shows "db_exec E s w = (case s (clock E (tick w)) (dw_db w) of (r, d) \<Rightarrow>
           (r, w\<lparr>tick := Suc (tick w), dw_db := d\<rparr>))"
    and "tx_exec E s w = (case s (clock E (tick w)) (dw_db w) of (r, d) \<Rightarrow>
           (r, w\<lparr>tick := Suc (tick w), dw_db := d\<rparr>))"
    and "in_tx_with b c E body w =
           (case body (w\<lparr>tick := Suc (tick w)\<rparr>) of
              (Inl e, v) \<Rightarrow> (Inl (Node JoinedErrors [e]), v\<lparr>tick := Suc (tick v), dw_db := dw_db w\<rparr>)
            | (Inr x, v) \<Rightarrow> (Inr x, v\<lparr>tick := Suc (tick v)\<rparr>))"
  using assms
  by (simp_all add: quiet_def db_exec_def seq_def interfere_def tx_exec_def in_tx_with_def
      split: prod.split sum.split)

lemma quiet_meets: "quiet E \<Longrightarrow> meets E w w' d e \<Longrightarrow> e = d"
  by (auto simp: quiet_def meets_def)

end
