(* ===== verification/IamSchema.thy ===== *)
theory IamSchema
  imports EntStore
begin

text \<open>
  The IAM database (\<open>app/iam/service/internal/data/schema\<close>): a record per ent schema, with the
  validators of the generated \<open>Create\<close> builders (\<open>NotEmpty\<close>) and the unique indexes as the clash of
  a new row with an old one; and the statements of the client on a table.
\<close>

section \<open>Rows\<close>

record profile =
  pf_name :: "string option"
  pf_given_name :: "string option"
  pf_family_name :: "string option"
  pf_nickname :: "string option"
  pf_preferred_username :: "string option"
  pf_picture :: "string option"
  pf_locale :: "string option"

definition empty_profile :: profile where
  "empty_profile = \<lparr>pf_name = None, pf_given_name = None, pf_family_name = None, pf_nickname = None,
     pf_preferred_username = None, pf_picture = None, pf_locale = None\<rparr>"

record user_row =
  us_id :: string
  us_status :: string
  us_profile :: profile
  us_etag :: string
  us_create :: time
  us_update :: time

definition user_valid :: "user_row \<Rightarrow> bool" where "user_valid r \<longleftrightarrow> us_etag r \<noteq> []"
definition user_clash :: "user_row \<Rightarrow> user_row \<Rightarrow> bool" where "user_clash r s \<longleftrightarrow> us_id s = us_id r"

record identifier_row =
  li_id :: string
  li_user :: string
  li_type :: string
  li_canonical :: string
  li_display :: string
  li_verified :: "time option"
  li_create :: time
  li_update :: time

definition identifier_valid :: "identifier_row \<Rightarrow> bool" where
  "identifier_valid r \<longleftrightarrow> li_user r \<noteq> [] \<and> li_type r \<noteq> [] \<and> li_canonical r \<noteq> [] \<and> li_display r \<noteq> []"
definition identifier_clash :: "identifier_row \<Rightarrow> identifier_row \<Rightarrow> bool" where
  "identifier_clash r s \<longleftrightarrow> li_id s = li_id r \<or> (li_user s = li_user r \<and> li_type s = li_type r)
     \<or> (li_type s = li_type r \<and> li_canonical s = li_canonical r)"

record authenticator_row =
  au_id :: string
  au_user :: string
  au_type :: string
  au_state :: string
  au_display :: "string option"
  au_verified :: "time option"
  au_last_used :: "time option"
  au_revoked :: "time option"
  au_create :: time
  au_update :: time

definition authenticator_valid :: "authenticator_row \<Rightarrow> bool" where
  "authenticator_valid r \<longleftrightarrow> au_user r \<noteq> [] \<and> au_type r \<noteq> []"
definition authenticator_clash :: "authenticator_row \<Rightarrow> authenticator_row \<Rightarrow> bool" where
  "authenticator_clash r s \<longleftrightarrow> au_id s = au_id r"

record password_row =
  pw_id :: string
  pw_authenticator :: string
  pw_hash :: string
  pw_changed :: time

definition password_valid :: "password_row \<Rightarrow> bool" where
  "password_valid r \<longleftrightarrow> pw_authenticator r \<noteq> [] \<and> pw_hash r \<noteq> []"
definition password_clash :: "password_row \<Rightarrow> password_row \<Rightarrow> bool" where
  "password_clash r s \<longleftrightarrow> pw_id s = pw_id r \<or> pw_authenticator s = pw_authenticator r"

record vtoken_row =
  vt_id :: string
  vt_user :: string
  vt_identifier :: string
  vt_hash :: string
  vt_expires :: time
  vt_consumed :: "time option"
  vt_create :: time

definition vtoken_valid :: "vtoken_row \<Rightarrow> bool" where
  "vtoken_valid r \<longleftrightarrow> vt_user r \<noteq> [] \<and> vt_identifier r \<noteq> [] \<and> vt_hash r \<noteq> []"
definition vtoken_clash :: "vtoken_row \<Rightarrow> vtoken_row \<Rightarrow> bool" where
  "vtoken_clash r s \<longleftrightarrow> vt_id s = vt_id r \<or> vt_hash s = vt_hash r"

record rtoken_row =
  rt_id :: string
  rt_user :: string
  rt_hash :: string
  rt_expires :: time
  rt_consumed :: "time option"
  rt_create :: time

definition rtoken_valid :: "rtoken_row \<Rightarrow> bool" where
  "rtoken_valid r \<longleftrightarrow> rt_user r \<noteq> [] \<and> rt_hash r \<noteq> []"
definition rtoken_clash :: "rtoken_row \<Rightarrow> rtoken_row \<Rightarrow> bool" where
  "rtoken_clash r s \<longleftrightarrow> rt_id s = rt_id r \<or> rt_hash s = rt_hash r"

record login_row =
  ls_id :: string
  ls_user :: string
  ls_secret :: string
  ls_create :: time
  ls_seen :: time
  ls_idle :: time
  ls_absolute :: time
  ls_revoked :: "time option"

definition login_valid :: "login_row \<Rightarrow> bool" where
  "login_valid r \<longleftrightarrow> ls_user r \<noteq> [] \<and> ls_secret r \<noteq> []"
definition login_clash :: "login_row \<Rightarrow> login_row \<Rightarrow> bool" where
  "login_clash r s \<longleftrightarrow> ls_id s = ls_id r \<or> ls_secret s = ls_secret r"

section \<open>OpenID Connect rows\<close>

record auth_request_row =
  oq_id :: string
  oq_client :: string
  oq_redirect :: string
  oq_response_type :: string
  oq_response_mode :: string
  oq_scopes :: "string list"
  oq_state :: "string option"
  oq_nonce :: "string option"
  oq_pkce :: string
  oq_pkce_method :: string
  oq_subject :: "string option"
  oq_login :: "string option"
  oq_auth_time :: "time option"
  oq_done :: bool
  oq_expires :: time
  oq_create :: time
  oq_update :: time

definition auth_request_valid :: "auth_request_row \<Rightarrow> bool" where
  "auth_request_valid r \<longleftrightarrow>
     oq_client r \<noteq> [] \<and> oq_redirect r \<noteq> [] \<and> oq_response_type r \<noteq> [] \<and> oq_pkce r \<noteq> []"
definition auth_request_clash :: "auth_request_row \<Rightarrow> auth_request_row \<Rightarrow> bool" where
  "auth_request_clash r s \<longleftrightarrow> oq_id s = oq_id r"

record code_row =
  co_id :: string
  co_hash :: string
  co_request :: string
  co_session :: "string option"
  co_client :: string
  co_subject :: string
  co_redirect :: string
  co_scopes :: "string list"
  co_pkce :: string
  co_pkce_method :: string
  co_expires :: time
  co_consumed :: "time option"
  co_create :: time

definition code_valid :: "code_row \<Rightarrow> bool" where
  "code_valid r \<longleftrightarrow> co_hash r \<noteq> [] \<and> co_request r \<noteq> [] \<and> co_client r \<noteq> [] \<and> co_subject r \<noteq> []
     \<and> co_redirect r \<noteq> [] \<and> co_pkce r \<noteq> []"
definition code_clash :: "code_row \<Rightarrow> code_row \<Rightarrow> bool" where
  "code_clash r s \<longleftrightarrow> co_id s = co_id r \<or> co_hash s = co_hash r \<or> co_request s = co_request r"

record tsession_row =
  ts_id :: string
  ts_user :: string
  ts_client :: string
  ts_login :: string
  ts_family :: string
  ts_scopes :: "string list"
  ts_auth_time :: time
  ts_amr :: "string list"
  ts_revoked :: "time option"
  ts_create :: time
  ts_update :: time

definition tsession_valid :: "tsession_row \<Rightarrow> bool" where
  "tsession_valid r \<longleftrightarrow> ts_user r \<noteq> [] \<and> ts_client r \<noteq> [] \<and> ts_login r \<noteq> [] \<and> ts_family r \<noteq> []"
definition tsession_clash :: "tsession_row \<Rightarrow> tsession_row \<Rightarrow> bool" where
  "tsession_clash r s \<longleftrightarrow> ts_id s = ts_id r \<or> ts_family s = ts_family r"

record access_row =
  at_id :: string
  at_session :: string
  at_subject :: string
  at_client :: string
  at_scopes :: "string list"
  at_issued :: time
  at_expires :: time
  at_revoked :: "time option"

definition access_valid :: "access_row \<Rightarrow> bool" where
  "access_valid r \<longleftrightarrow> at_session r \<noteq> [] \<and> at_subject r \<noteq> [] \<and> at_client r \<noteq> []"
definition access_clash :: "access_row \<Rightarrow> access_row \<Rightarrow> bool" where
  "access_clash r s \<longleftrightarrow> at_id s = at_id r"

record refresh_row =
  rf_id :: string
  rf_session :: string
  rf_family :: string
  rf_hash :: string
  rf_parent :: "string option"
  rf_issued :: time
  rf_expires :: time
  rf_consumed :: "time option"
  rf_revoked :: "time option"

definition refresh_valid :: "refresh_row \<Rightarrow> bool" where
  "refresh_valid r \<longleftrightarrow> rf_session r \<noteq> [] \<and> rf_family r \<noteq> [] \<and> rf_hash r \<noteq> []"
definition refresh_clash :: "refresh_row \<Rightarrow> refresh_row \<Rightarrow> bool" where
  "refresh_clash r s \<longleftrightarrow> rf_id s = rf_id r \<or> rf_hash s = rf_hash r"

record client_row =
  cl_id :: string
  cl_secret :: string
  cl_redirects :: "string list"
  cl_grants :: "string list"
  cl_responses :: "string list"
  cl_scopes :: "string list"
  cl_trusted :: bool
  cl_create :: time
  cl_update :: time

definition client_valid :: "client_row \<Rightarrow> bool" where "client_valid r \<longleftrightarrow> cl_secret r \<noteq> []"
definition client_clash :: "client_row \<Rightarrow> client_row \<Rightarrow> bool" where
  "client_clash r s \<longleftrightarrow> cl_id s = cl_id r"

record signing_key_row =
  sk_id :: string
  sk_jwk :: string
  sk_alg :: string
  sk_not_before :: time
  sk_expires :: time
  sk_revoked :: "time option"
  sk_create :: time

definition signing_key_valid :: "signing_key_row \<Rightarrow> bool" where
  "signing_key_valid r \<longleftrightarrow> sk_jwk r \<noteq> []"
definition signing_key_clash :: "signing_key_row \<Rightarrow> signing_key_row \<Rightarrow> bool" where
  "signing_key_clash r s \<longleftrightarrow> sk_id s = sk_id r"

section \<open>The database\<close>

record db =
  db_users :: "user_row list"
  db_identifiers :: "identifier_row list"
  db_authenticators :: "authenticator_row list"
  db_passwords :: "password_row list"
  db_vtokens :: "vtoken_row list"
  db_rtokens :: "rtoken_row list"
  db_logins :: "login_row list"
  db_requests :: "auth_request_row list"
  db_codes :: "code_row list"
  db_tsessions :: "tsession_row list"
  db_access :: "access_row list"
  db_refresh :: "refresh_row list"
  db_clients :: "client_row list"
  db_keys :: "signing_key_row list"

definition empty_db :: db where
  "empty_db = \<lparr>db_users = [], db_identifiers = [], db_authenticators = [], db_passwords = [],
     db_vtokens = [], db_rtokens = [], db_logins = [], db_requests = [], db_codes = [],
     db_tsessions = [], db_access = [], db_refresh = [], db_clients = [], db_keys = []\<rparr>"

text \<open>A table of the database: how it is read and written.\<close>

record ('d, 'a) table =
  tb_get :: "'d \<Rightarrow> 'a list"
  tb_put :: "'a list \<Rightarrow> 'd \<Rightarrow> 'd"

definition users_t :: "(db, user_row) table" where
  "users_t = \<lparr>tb_get = db_users, tb_put = (\<lambda>r d. d\<lparr>db_users := r\<rparr>)\<rparr>"
definition identifiers_t :: "(db, identifier_row) table" where
  "identifiers_t = \<lparr>tb_get = db_identifiers, tb_put = (\<lambda>r d. d\<lparr>db_identifiers := r\<rparr>)\<rparr>"
definition authenticators_t :: "(db, authenticator_row) table" where
  "authenticators_t = \<lparr>tb_get = db_authenticators, tb_put = (\<lambda>r d. d\<lparr>db_authenticators := r\<rparr>)\<rparr>"
definition passwords_t :: "(db, password_row) table" where
  "passwords_t = \<lparr>tb_get = db_passwords, tb_put = (\<lambda>r d. d\<lparr>db_passwords := r\<rparr>)\<rparr>"
definition vtokens_t :: "(db, vtoken_row) table" where
  "vtokens_t = \<lparr>tb_get = db_vtokens, tb_put = (\<lambda>r d. d\<lparr>db_vtokens := r\<rparr>)\<rparr>"
definition rtokens_t :: "(db, rtoken_row) table" where
  "rtokens_t = \<lparr>tb_get = db_rtokens, tb_put = (\<lambda>r d. d\<lparr>db_rtokens := r\<rparr>)\<rparr>"
definition logins_t :: "(db, login_row) table" where
  "logins_t = \<lparr>tb_get = db_logins, tb_put = (\<lambda>r d. d\<lparr>db_logins := r\<rparr>)\<rparr>"
definition requests_t :: "(db, auth_request_row) table" where
  "requests_t = \<lparr>tb_get = db_requests, tb_put = (\<lambda>r d. d\<lparr>db_requests := r\<rparr>)\<rparr>"
definition codes_t :: "(db, code_row) table" where
  "codes_t = \<lparr>tb_get = db_codes, tb_put = (\<lambda>r d. d\<lparr>db_codes := r\<rparr>)\<rparr>"
definition tsessions_t :: "(db, tsession_row) table" where
  "tsessions_t = \<lparr>tb_get = db_tsessions, tb_put = (\<lambda>r d. d\<lparr>db_tsessions := r\<rparr>)\<rparr>"
definition access_t :: "(db, access_row) table" where
  "access_t = \<lparr>tb_get = db_access, tb_put = (\<lambda>r d. d\<lparr>db_access := r\<rparr>)\<rparr>"
definition refresh_t :: "(db, refresh_row) table" where
  "refresh_t = \<lparr>tb_get = db_refresh, tb_put = (\<lambda>r d. d\<lparr>db_refresh := r\<rparr>)\<rparr>"
definition clients_t :: "(db, client_row) table" where
  "clients_t = \<lparr>tb_get = db_clients, tb_put = (\<lambda>r d. d\<lparr>db_clients := r\<rparr>)\<rparr>"
definition keys_t :: "(db, signing_key_row) table" where
  "keys_t = \<lparr>tb_get = db_keys, tb_put = (\<lambda>r d. d\<lparr>db_keys := r\<rparr>)\<rparr>"

lemmas table_defs = users_t_def identifiers_t_def authenticators_t_def passwords_t_def vtokens_t_def
  rtokens_t_def logins_t_def requests_t_def codes_t_def tsessions_t_def access_t_def refresh_t_def
  clients_t_def keys_t_def

section \<open>Statements\<close>

definition only :: "('d, 'a) table \<Rightarrow> ('a \<Rightarrow> bool) \<Rightarrow> ('d, 'a) stmt" where
  "only T P = (\<lambda>t d. (ent_only P (tb_get T d), d))"

definition all_where :: "('d, 'a) table \<Rightarrow> ('a \<Rightarrow> bool) \<Rightarrow> ('d, 'a list) stmt" where
  "all_where T P = (\<lambda>t d. (Inr (filter P (tb_get T d)), d))"

text \<open>The new values of a row may depend on the clock (\<open>UpdateDefault\<close>, \<open>Default\<close>).\<close>

definition update_one :: "('d, 'a) table \<Rightarrow> ('a \<Rightarrow> bool) \<Rightarrow> (time \<Rightarrow> 'a \<Rightarrow> 'a) \<Rightarrow> ('d, 'a) stmt" where
  "update_one T P f = (\<lambda>t d. case ent_update_one P (f t) (tb_get T d) of (r, rows) \<Rightarrow> (r, tb_put T rows d))"

definition update_where :: "('d, 'a) table \<Rightarrow> ('a \<Rightarrow> bool) \<Rightarrow> (time \<Rightarrow> 'a \<Rightarrow> 'a) \<Rightarrow> ('d, nat) stmt" where
  "update_where T P f = (\<lambda>t d.
     (Inr (length (filter P (tb_get T d))), tb_put T (ent_update_where P (f t) (tb_get T d)) d))"

definition create ::
    "('d, 'a) table \<Rightarrow> ('a \<Rightarrow> bool) \<Rightarrow> ('a \<Rightarrow> 'a \<Rightarrow> bool) \<Rightarrow> (time \<Rightarrow> 'a) \<Rightarrow> ('d, 'a) stmt" where
  "create T valid clash row = (\<lambda>t d.
     case ent_create valid clash (row t) (tb_get T d) of (r, rows) \<Rightarrow> (r, tb_put T rows d))"

definition delete_where :: "('d, 'a) table \<Rightarrow> ('a \<Rightarrow> bool) \<Rightarrow> ('d, nat) stmt" where
  "delete_where T P = (\<lambda>t d. case ent_delete P (tb_get T d) of (n, rows) \<Rightarrow> (Inr n, tb_put T rows d))"

lemma only_Inr: "only T P t d = (Inr r, d') \<longleftrightarrow> ent_only P (tb_get T d) = Inr r \<and> d' = d"
  by (auto simp: only_def)

lemma all_where_eq: "all_where T P t d = (r, d') \<longleftrightarrow> r = Inr (filter P (tb_get T d)) \<and> d' = d"
  by (auto simp: all_where_def)

lemma update_one_Inr:
  "update_one T P f t d = (Inr x, d') \<Longrightarrow>
     (\<exists>r \<in> set (tb_get T d). P r \<and> x = f t r) \<and> d' = tb_put T (ent_update_where P (f t) (tb_get T d)) d"
  by (auto simp: update_one_def dest: ent_update_one_Inr split: prod.splits)

lemma update_where_eq:
  "update_where T P f t d = (r, d') \<longleftrightarrow>
     r = Inr (length (filter P (tb_get T d))) \<and> d' = tb_put T (ent_update_where P (f t) (tb_get T d)) d"
  by (auto simp: update_where_def)

lemma create_Inr:
  "create T valid clash row t d = (Inr x, d') \<longleftrightarrow>
     valid (row t) \<and> \<not> list_ex (clash (row t)) (tb_get T d) \<and> x = row t
     \<and> d' = tb_put T (tb_get T d @ [row t]) d"
  by (auto simp: create_def ent_create_def)

text \<open>What a statement does to its table.\<close>

lemma stmt_snd:
  "snd (only T P t d) = d" "snd (all_where T P t d) = d"
  "snd (update_one T P f t d) = tb_put T (ent_update_where P (f t) (tb_get T d)) d"
  "snd (update_where T P f t d) = tb_put T (ent_update_where P (f t) (tb_get T d)) d"
  "snd (create T valid clash row t d) =
     tb_put T (if valid (row t) \<and> \<not> list_ex (clash (row t)) (tb_get T d)
               then tb_get T d @ [row t] else tb_get T d) d"
  by (simp_all add: only_def all_where_def update_one_def update_where_def create_def
      ent_update_one_snd [symmetric] ent_create_snd [symmetric] split: prod.split)

lemma stmt_keeps_reads [preserve_intros]: "stmt_keeps I (only T P)" "stmt_keeps I (all_where T P)"
  by (simp_all add: stmt_keeps_def stmt_snd)

end
