(* ===== verification/Password.thy ===== *)
theory Password
  imports GoStrings
begin

text \<open>
  \<open>security/password/password.go\<close>: Argon2id with fixed parameters. The hash function of
  \<open>alexedwards/argon2id\<close> is a parameter; its salt comes from the tick at which it runs.
\<close>

record argon_params =
  ap_memory :: nat
  ap_iterations :: nat
  ap_parallelism :: nat
  ap_salt_length :: nat
  ap_key_length :: nat

definition password_params :: argon_params where
  "password_params = \<lparr>ap_memory = 64 * 1024, ap_iterations = 3, ap_parallelism = 1,
     ap_salt_length = 16, ap_key_length = 32\<rparr>"

record argon2id =
  ag_create_hash :: "nat \<Rightarrow> string \<Rightarrow> argon_params \<Rightarrow> err + string"
  ag_check_hash :: "string \<Rightarrow> string \<Rightarrow> err + bool \<times> argon_params option"

definition password_hash :: "argon2id \<Rightarrow> string \<Rightarrow> ('z world_scheme, string) prog" where
  "password_hash A plaintext w =
     (case ag_create_hash A (tick w) plaintext password_params of
        Inl e \<Rightarrow> (Inl (wrap ''hash password'' e), w\<lparr>tick := Suc (tick w)\<rparr>)
      | Inr h \<Rightarrow> (Inr h, w\<lparr>tick := Suc (tick w)\<rparr>))"

definition equal_params :: "argon_params option \<Rightarrow> argon_params option \<Rightarrow> bool" where
  "equal_params l r \<longleftrightarrow>
     (case (l, r) of
        (Some a, Some b) \<Rightarrow>
          ap_memory a = ap_memory b \<and> ap_iterations a = ap_iterations b
          \<and> ap_parallelism a = ap_parallelism b \<and> ap_salt_length a = ap_salt_length b
          \<and> ap_key_length a = ap_key_length b
      | _ \<Rightarrow> False)"

text \<open>The match, and whether the stored parameters should be upgraded.\<close>

definition password_compare :: "argon2id \<Rightarrow> string \<Rightarrow> string \<Rightarrow> err + bool \<times> bool" where
  "password_compare A plaintext encodedHash =
     (case ag_check_hash A plaintext encodedHash of
        Inl e \<Rightarrow> Inl (wrap ''compare password'' e)
      | Inr (m, actual) \<Rightarrow> Inr (m, \<not> equal_params actual (Some password_params)))"

lemma equal_params_iff: "equal_params (Some a) (Some b) \<longleftrightarrow> a = b"
  by (cases a; cases b) (simp add: equal_params_def)

text \<open>\<open>argon2id\<close>: a password checks against the hashes made of it, and against no hash of another one.\<close>

definition argon_sound :: "argon2id \<Rightarrow> bool" where
  "argon_sound A \<longleftrightarrow>
     (\<forall>n p h q. ag_create_hash A n p password_params = Inr h \<longrightarrow>
        h \<noteq> [] \<and> ag_check_hash A q h = Inr (q = p, Some password_params))"

lemma preserves_password_hash [preserve_intros]: "tick_free I \<Longrightarrow> preserves I (password_hash A p)"
  by (simp add: preserves_def password_hash_def tick_free_def split: sum.split)

lemma password_hash_Inr:
  "password_hash A p w = (Inr h, w') \<longleftrightarrow>
     ag_create_hash A (tick w) p password_params = Inr h \<and> w' = w\<lparr>tick := Suc (tick w)\<rparr>"
  by (auto simp: password_hash_def split: sum.splits)

lemma compare_after_hash:
  "argon_sound A \<Longrightarrow> password_hash A p w = (Inr h, w') \<Longrightarrow>
     password_compare A q h = Inr (q = p, False)"
  by (auto simp: argon_sound_def password_compare_def password_hash_Inr equal_params_iff)

end
