(* ===== verification/IamBiz.thy ===== *)
theory IamBiz
  imports IamSchema Password
begin

text \<open>
  \<open>app/iam/service/internal/biz\<close>: the use cases of the IAM service over their ports. A port is a
  record of programs; its implementations are in \<open>IamData\<close>. The hash, the case folding and the
  mappers of third-party packages are the fields of \<open>iam_lib\<close>. Cancellation of the request context
  shows as a failure of the port that was called.
\<close>

section \<open>Messages\<close>

datatype user_status =
  UserStatusUnspecified | UserStatusPendingEmailVerification | UserStatusActive | UserStatusDisabled

record user_pb =
  up_name :: string
  up_user_id :: string
  up_email :: "string option"
  up_profile :: "profile option"
  up_status :: user_status
  up_email_verified :: bool
  up_email_verified_time :: "time option"
  up_create_time :: "time option"
  up_update_time :: "time option"
  up_etag :: string

definition zero_user :: user_pb where
  "zero_user = \<lparr>up_name = [], up_user_id = [], up_email = None, up_profile = None,
     up_status = UserStatusUnspecified, up_email_verified = False, up_email_verified_time = None,
     up_create_time = None, up_update_time = None, up_etag = []\<rparr>"

definition get_email :: "user_pb \<Rightarrow> string" where
  "get_email u = (case up_email u of None \<Rightarrow> [] | Some e \<Rightarrow> e)"

record session_pb =
  sp_name :: string
  sp_session_id :: string
  sp_create_time :: "time option"
  sp_last_seen_time :: "time option"
  sp_idle_expires_time :: "time option"
  sp_absolute_expires_time :: "time option"

record password_credential =
  pcr_user_id :: string
  pcr_authenticator_id :: string
  pcr_password_hash :: string

section \<open>Constants\<close>

definition login_identifier_email :: string where "login_identifier_email = ''email''"
definition authenticator_password :: string where "authenticator_password = ''password''"
definition authenticator_active :: string where "authenticator_active = ''active''"
definition authenticator_disabled :: string where "authenticator_disabled = ''disabled''"
definition user_status_pending :: string where "user_status_pending = ''pending_verification''"
definition user_status_active :: string where "user_status_active = ''active''"
definition user_status_disabled :: string where "user_status_disabled = ''disabled''"

lemmas iam_consts = login_identifier_email_def authenticator_password_def authenticator_active_def
  authenticator_disabled_def user_status_pending_def user_status_active_def user_status_disabled_def

definition login_session_idle_ttl :: duration where "login_session_idle_ttl = 7 * 24 * go_hour"
definition login_session_absolute_ttl :: duration where "login_session_absolute_ttl = 30 * 24 * go_hour"
definition email_verification_ttl :: duration where "email_verification_ttl = 24 * go_hour"
definition password_reset_ttl :: duration where "password_reset_ttl = go_hour"

lemmas iam_ttls = login_session_idle_ttl_def login_session_absolute_ttl_def
  email_verification_ttl_def password_reset_ttl_def

section \<open>Identifiers and secrets\<close>

text \<open>
  \<open>il_fold\<close> is \<open>cases.Fold().String(norm.NFC.String(s))\<close>; \<open>il_copy\<close> what
  \<open>crudmapper.ResourceMapper\<close> copies by name; \<open>il_clear\<close> the columns that \<open>entcrud.ClearHelper\<close>
  clears.
\<close>

record iam_lib =
  il_sha256 :: "string \<Rightarrow> string"
  il_fold :: "string \<Rightarrow> string"
  il_copy :: "user_row \<Rightarrow> user_pb"
  il_clear :: "user_pb \<Rightarrow> string list \<Rightarrow> err + string list"
  il_argon :: argon2id

definition normalize_email :: "iam_lib \<Rightarrow> string \<Rightarrow> err + string \<times> string" where
  "normalize_email L raw =
     (let display = trim_space raw in
      if display = [] then Inl (errorf ''email is empty'')
      else Inr (il_fold L display, display))"

definition new_user_id :: "'e env_scheme \<Rightarrow> ('z world_scheme, string) prog" where
  "new_user_id E w =
     (case uuid_v7 E (tick w) of
        Inl e \<Rightarrow> (Inl (wrap ''generate User UUIDv7'' e), w\<lparr>tick := Suc (tick w)\<rparr>)
      | Inr i \<Rightarrow> (Inr i, w\<lparr>tick := Suc (tick w)\<rparr>))"

definition opaque_secret_bytes :: nat where "opaque_secret_bytes = 32"

definition hash_opaque_secret :: "iam_lib \<Rightarrow> string \<Rightarrow> string" where
  "hash_opaque_secret L plaintext = b64_encode (il_sha256 L plaintext)"

definition new_opaque_secret :: "'e env_scheme \<Rightarrow> iam_lib \<Rightarrow> ('z world_scheme, string \<times> string) prog" where
  "new_opaque_secret E L w =
     (case rand_read E (tick w) opaque_secret_bytes of
        Inl e \<Rightarrow> (Inl (wrap ''generate opaque secret'' e), w\<lparr>tick := Suc (tick w)\<rparr>)
      | Inr secret \<Rightarrow>
          (let plaintext = b64_encode secret
           in (Inr (plaintext, hash_opaque_secret L plaintext), w\<lparr>tick := Suc (tick w)\<rparr>)))"

lemma preserves_new_user_id: "tick_free I \<Longrightarrow> preserves I (new_user_id E)"
  by (simp add: preserves_def new_user_id_def tick_free_def split: sum.split)

lemma preserves_new_opaque_secret: "tick_free I \<Longrightarrow> preserves I (new_opaque_secret E L)"
  by (simp add: preserves_def new_opaque_secret_def tick_free_def Let_def split: sum.split)

lemma new_user_id_Inr:
  "new_user_id E w = (Inr i, w') \<longleftrightarrow> uuid_v7 E (tick w) = Inr i \<and> w' = w\<lparr>tick := Suc (tick w)\<rparr>"
  by (auto simp: new_user_id_def split: sum.splits)

lemma new_opaque_secret_Inr:
  "new_opaque_secret E L w = (Inr (p, h), w') \<longleftrightarrow>
     (\<exists>s. rand_read E (tick w) opaque_secret_bytes = Inr s \<and> p = b64_encode s)
     \<and> h = hash_opaque_secret L p \<and> w' = w\<lparr>tick := Suc (tick w)\<rparr>"
  by (auto simp: new_opaque_secret_def Let_def split: sum.splits)

section \<open>Ports\<close>

record 'w user_repo =
  ur_create :: "user_pb \<Rightarrow> string \<Rightarrow> string \<Rightarrow> ('w, user_pb) prog"
  ur_find_by_email :: "string \<Rightarrow> ('w, user_pb) prog"
  ur_get :: "string \<Rightarrow> ('w, user_pb) prog"
  ur_activate_email :: "string \<Rightarrow> time \<Rightarrow> ('w, unit) prog"
  ur_update_profile :: "string \<Rightarrow> string \<Rightarrow> profile option \<Rightarrow> ('w, user_pb) prog"
  ur_update_status :: "string \<Rightarrow> string \<Rightarrow> user_status \<Rightarrow> time \<Rightarrow> ('w, user_pb) prog"
  ur_update_user :: "string \<Rightarrow> user_pb option \<Rightarrow> string list option \<Rightarrow> string \<Rightarrow> ('w, user_pb) prog"

text \<open>\<open>FindBySecretHash\<close> gives the session, its user and whether it is revoked.\<close>

record 'w session_repo =
  sr_create :: "string \<Rightarrow> string \<Rightarrow> time \<Rightarrow> ('w, session_pb) prog"
  sr_find :: "string \<Rightarrow> ('w, session_pb option \<times> string \<times> bool) prog"
  sr_touch :: "string \<Rightarrow> time \<Rightarrow> ('w, session_pb) prog"
  sr_revoke :: "string \<Rightarrow> time \<Rightarrow> ('w, unit) prog"
  sr_revoke_others :: "string \<Rightarrow> string \<Rightarrow> time \<Rightarrow> ('w, unit) prog"
  sr_revoke_all :: "string \<Rightarrow> time \<Rightarrow> ('w, unit) prog"

record 'w token_session_repo =
  tr_revoke_for_login :: "string \<Rightarrow> time \<Rightarrow> ('w, unit) prog"
  tr_revoke_all :: "string \<Rightarrow> time \<Rightarrow> ('w, unit) prog"

record 'w credential_repo =
  cd_find_active_password :: "string \<Rightarrow> ('w, password_credential) prog"
  cd_replace_password :: "string \<Rightarrow> string \<Rightarrow> string \<Rightarrow> time \<Rightarrow> ('w, unit) prog"

record 'w verification_token_repo =
  vr_create :: "string \<Rightarrow> string \<Rightarrow> string \<Rightarrow> time \<Rightarrow> ('w, unit) prog"
  vr_consume :: "string \<Rightarrow> time \<Rightarrow> ('w, string) prog"

record 'w password_reset_token_repo =
  pr_create :: "string \<Rightarrow> string \<Rightarrow> time \<Rightarrow> ('w, unit) prog"
  pr_consume_and_replace :: "string \<Rightarrow> string \<Rightarrow> time \<Rightarrow> ('w, string) prog"

record 'w mail_sender =
  ms_send_verification :: "string \<Rightarrow> string \<Rightarrow> int \<Rightarrow> ('w, unit) prog"
  ms_send_password_reset :: "string \<Rightarrow> string \<Rightarrow> int \<Rightarrow> ('w, unit) prog"

section \<open>Sessions\<close>

record 'w session_usecase =
  su_users :: "'w user_repo"
  su_sessions :: "'w session_repo"
  su_token_sessions :: "'w token_session_repo"

text \<open>\<open>errors.Join(p(), q())\<close>: both calls are made, in order.\<close>

definition join2 :: "('w, unit) prog \<Rightarrow> ('w, unit) prog \<Rightarrow> ('w, unit) prog" where
  "join2 p q = seq p (\<lambda>a. seq q (\<lambda>b.
     case errors_join [err_of a, err_of b] of None \<Rightarrow> ret () | Some e \<Rightarrow> throw e))"

lemma preserves_join2 [preserve_intros]:
  "preserves I p \<Longrightarrow> preserves I q \<Longrightarrow> preserves I (join2 p q)"
  unfolding join2_def by (intro preserve_intros)

lemma join2_Inr:
  "join2 p q w = (Inr x, w') \<longleftrightarrow> (\<exists>v. p w = (Inr (), v) \<and> q v = (Inr (), w'))"
proof -
  obtain a v where p: "p w = (a, v)" by fastforce
  obtain b u where q: "q v = (b, u)" by fastforce
  show ?thesis by (cases a; cases b) (simp_all add: join2_def seq_def p q)
qed

definition session_create ::
    "'e env_scheme \<Rightarrow> iam_lib \<Rightarrow> ('z world_scheme) session_usecase \<Rightarrow> string
     \<Rightarrow> ('z world_scheme, session_pb \<times> string) prog" where
  "session_create E L uc userID =
     (if userID = [] then throw (biz ErrUnauthenticated)
      else
        check (new_opaque_secret E L) (\<lambda>e. throw (wrap ''create login session secret'' e)) (\<lambda>(secret, _).
        seq (now E) (\<lambda>t.
        check (sr_create (su_sessions uc) userID (hash_opaque_secret L secret) t)
          (\<lambda>e. throw (wrap ''persist login session'' e)) (\<lambda>loginSession.
        ret (loginSession, secret)))))"

definition session_active :: "time \<Rightarrow> session_pb option \<Rightarrow> bool" where
  "session_active t loginSession \<longleftrightarrow>
     (case loginSession of None \<Rightarrow> False
      | Some s \<Rightarrow>
          sp_session_id s \<noteq> []
          \<and> (case (sp_idle_expires_time s, sp_absolute_expires_time s) of
               (Some idle, Some absolute) \<Rightarrow> t < idle \<and> t < absolute
             | _ \<Rightarrow> False))"

definition session_resolve ::
    "'e env_scheme \<Rightarrow> iam_lib \<Rightarrow> ('z world_scheme) session_usecase \<Rightarrow> string
     \<Rightarrow> ('z world_scheme, user_pb \<times> session_pb) prog" where
  "session_resolve E L uc secret =
     (if secret = [] then throw (biz ErrUnauthenticated)
      else
        check (sr_find (su_sessions uc) (hash_opaque_secret L secret))
          (\<lambda>e. if errors_is e (Biz ErrNotFound) then throw (biz ErrSessionRevoked)
               else throw (wrap ''find login session'' e))
          (\<lambda>(loginSession, userID, revoked).
        seq (now E) (\<lambda>t.
        if revoked \<or> \<not> session_active t loginSession then throw (biz ErrSessionRevoked)
        else
          check (ur_get (su_users uc) userID)
            (\<lambda>e. if errors_is e (Biz ErrNotFound) then throw (biz ErrSessionRevoked)
                 else throw (wrap ''find session user'' e))
            (\<lambda>user.
          if up_status user = UserStatusDisabled then throw (biz ErrUserDisabled)
          else if up_status user \<noteq> UserStatusActive \<or> \<not> up_email_verified user
          then throw (biz ErrUserNotActive)
          else
            check (sr_touch (su_sessions uc) (sp_session_id (the loginSession)) t)
              (\<lambda>e. if errors_is e (Biz ErrMutationMiss) \<or> errors_is e (Biz ErrNotFound)
                   then throw (biz ErrSessionRevoked)
                   else throw (wrap ''touch login session'' e))
              (\<lambda>touched. ret (user, touched))))))"

definition session_logout ::
    "'e env_scheme \<Rightarrow> ('z world_scheme) session_usecase \<Rightarrow> string \<Rightarrow> ('z world_scheme, unit) prog" where
  "session_logout E uc sessionID =
     (if sessionID = [] then throw (biz ErrUnauthenticated)
      else
        seq (now E) (\<lambda>t.
        check (join2 (sr_revoke (su_sessions uc) sessionID t)
                     (tr_revoke_for_login (su_token_sessions uc) sessionID t))
          (\<lambda>e. throw (wrap ''logout current login session'' e)) ret))"

definition session_revoke_others ::
    "'e env_scheme \<Rightarrow> ('z world_scheme) session_usecase \<Rightarrow> string \<Rightarrow> string
     \<Rightarrow> ('z world_scheme, unit) prog" where
  "session_revoke_others E uc userID keepSessionID =
     (if userID = [] \<or> keepSessionID = [] then throw (biz ErrUnauthenticated)
      else
        seq (now E) (\<lambda>t.
        check (join2 (sr_revoke_others (su_sessions uc) userID keepSessionID t)
                     (tr_revoke_all (su_token_sessions uc) userID t))
          (\<lambda>e. throw (wrap ''revoke other user sessions'' e)) ret))"

definition session_revoke_all ::
    "'e env_scheme \<Rightarrow> ('z world_scheme) session_usecase \<Rightarrow> string \<Rightarrow> ('z world_scheme, unit) prog" where
  "session_revoke_all E uc userID =
     (if userID = [] then throw (biz ErrUnauthenticated)
      else
        seq (now E) (\<lambda>t.
        check (join2 (sr_revoke_all (su_sessions uc) userID t)
                     (tr_revoke_all (su_token_sessions uc) userID t))
          (\<lambda>e. throw (wrap ''revoke all user sessions'' e)) ret))"

section \<open>Login\<close>

record 'w authentication_usecase =
  nu_users :: "'w user_repo"
  nu_credentials :: "'w credential_repo"
  nu_sessions :: "'w session_usecase"

definition may_login :: "user_pb \<Rightarrow> bool" where
  "may_login user \<longleftrightarrow> up_status user = UserStatusActive \<and> up_email_verified user"

definition authentication_login ::
    "'e env_scheme \<Rightarrow> iam_lib \<Rightarrow> ('z world_scheme) authentication_usecase \<Rightarrow> string \<Rightarrow> string
     \<Rightarrow> ('z world_scheme, user_pb \<times> session_pb \<times> string) prog" where
  "authentication_login E L uc email plaintextPassword =
     check (result (normalize_email L email)) (\<lambda>_. throw (biz ErrInvalidCredentials)) (\<lambda>(canonical, _).
     check (ur_find_by_email (nu_users uc) canonical)
       (\<lambda>e. if errors_is e (Biz ErrNotFound) then throw (biz ErrInvalidCredentials)
            else throw (wrap ''find login user'' e)) (\<lambda>user.
     if \<not> may_login user then throw (biz ErrInvalidCredentials)
     else
       check (cd_find_active_password (nu_credentials uc) (up_user_id user))
         (\<lambda>e. if errors_is e (Biz ErrNotFound) then throw (biz ErrInvalidCredentials)
              else throw (wrap ''find password credential'' e)) (\<lambda>credential.
       check (result (password_compare (il_argon L) plaintextPassword (pcr_password_hash credential)))
         (\<lambda>_. throw (biz ErrInvalidCredentials)) (\<lambda>(match, _).
       if \<not> match then throw (biz ErrInvalidCredentials)
       else
         check (session_create E L (nu_sessions uc) (up_user_id user))
           (\<lambda>e. throw (wrap ''create login session'' e)) (\<lambda>(session, secret).
         ret (user, session, secret))))))"

end
