(* ===== verification/IamAccount.thy ===== *)
theory IamAccount
  imports IamBiz
begin

text \<open>
  \<open>biz/account.go\<close>, \<open>biz/user.go\<close> and \<open>biz/admin_initializer.go\<close>: registration, verification,
  password recovery and change, profiles, the administrator's user management, and the bootstrap
  administrator.
\<close>

section \<open>Accounts\<close>

record 'w account_usecase =
  ac_users :: "'w user_repo"
  ac_credentials :: "'w credential_repo"
  ac_verification_tokens :: "'w verification_token_repo"
  ac_reset_tokens :: "'w password_reset_token_repo"
  ac_cap :: "string \<Rightarrow> ('w, bool) prog"
  ac_mailer :: "'w mail_sender"
  ac_sessions :: "'w session_usecase"
  ac_verification_origin :: string

definition trim_right_char :: "char \<Rightarrow> string \<Rightarrow> string" where
  "trim_right_char c s = rev (dropWhile (\<lambda>x. x = c) (rev s))"

text \<open>\<open>NewAccountUsecase\<close> with its dependencies present.\<close>

definition new_account_usecase ::
    "'w user_repo \<Rightarrow> 'w credential_repo \<Rightarrow> 'w verification_token_repo \<Rightarrow> 'w password_reset_token_repo
     \<Rightarrow> (string \<Rightarrow> ('w, bool) prog) \<Rightarrow> 'w mail_sender \<Rightarrow> 'w session_usecase \<Rightarrow> string
     \<Rightarrow> err + 'w account_usecase" where
  "new_account_usecase users credentials verificationTokens resetTokens captcha mailer sessions externalUrl =
     (let verificationOrigin = trim_right_char (CHR ''/'') (trim_space externalUrl) in
      if verificationOrigin = [] then Inl (errorf ''account: verification origin is empty'')
      else Inr \<lparr>ac_users = users, ac_credentials = credentials, ac_verification_tokens = verificationTokens,
                ac_reset_tokens = resetTokens, ac_cap = captcha, ac_mailer = mailer,
                ac_sessions = sessions, ac_verification_origin = verificationOrigin\<rparr>)"

definition verification_link :: "'w account_usecase \<Rightarrow> string \<Rightarrow> string" where
  "verification_link uc token = ac_verification_origin uc @ ''/verify-email#'' @ token"

definition account_token_error :: "err \<Rightarrow> err" where
  "account_token_error e =
     (if errors_is e (Biz ErrExpired) then biz ErrTokenExpired
      else if errors_is e (Biz ErrNotFound) \<or> errors_is e (Biz ErrMutationMiss) then biz ErrInvalidToken
      else wrap ''consume account token'' e)"

text \<open>Issuing a verification token and mailing its link.\<close>

definition send_verification ::
    "'e env_scheme \<Rightarrow> iam_lib \<Rightarrow> ('z world_scheme) account_usecase \<Rightarrow> string \<Rightarrow> user_pb
     \<Rightarrow> ('z world_scheme, unit) prog" where
  "send_verification E L uc msg user =
     pass (new_opaque_secret E L) (\<lambda>(token, _).
     seq (now E) (\<lambda>t.
     check (vr_create (ac_verification_tokens uc) (up_user_id user) [] (hash_opaque_secret L token)
              (t + email_verification_ttl))
       (\<lambda>e. throw (wrap msg e)) (\<lambda>_.
     check (ms_send_verification (ac_mailer uc) (get_email user) (verification_link uc token)
              (email_verification_ttl div go_hour))
       (\<lambda>e. throw (wrap ''send verification email'' e)) ret)))"

definition create_pending_user ::
    "'e env_scheme \<Rightarrow> iam_lib \<Rightarrow> ('z world_scheme) account_usecase \<Rightarrow> string \<Rightarrow> string \<Rightarrow> string
     \<Rightarrow> profile option \<Rightarrow> ('z world_scheme, user_pb) prog" where
  "create_pending_user E L uc userID0 email plaintextPassword prof =
     pass (result (normalize_email L email)) (\<lambda>(canonical, display).
     seq (ur_find_by_email (ac_users uc) canonical) (\<lambda>found.
     case found of
       Inr _ \<Rightarrow> throw (biz ErrEmailAlreadyExists)
     | Inl e \<Rightarrow>
       if \<not> errors_is e (Biz ErrNotFound) then throw (wrap ''check registered email'' e)
       else
         pass (if userID0 = [] then new_user_id E else ret userID0) (\<lambda>userID.
         let resource = zero_user\<lparr>up_name := ''users/'' @ userID, up_user_id := userID,
               up_email := Some display, up_profile := prof,
               up_status := UserStatusPendingEmailVerification\<rparr> in
         check (password_hash (il_argon L) plaintextPassword)
           (\<lambda>e. throw (wrap ''hash account password'' e)) (\<lambda>hash.
         check (ur_create (ac_users uc) resource hash canonical)
           (\<lambda>e. if errors_is e (Biz ErrAlreadyExists) then throw (biz ErrEmailAlreadyExists)
                else throw (wrap ''create pending user'' e)) (\<lambda>user.
         pass (send_verification E L uc ''create verification token'' user) (\<lambda>_.
         ret user))))))"

definition account_register ::
    "'e env_scheme \<Rightarrow> iam_lib \<Rightarrow> ('z world_scheme) account_usecase \<Rightarrow> string \<Rightarrow> string \<Rightarrow> string
     \<Rightarrow> profile option \<Rightarrow> ('z world_scheme, user_pb) prog" where
  "account_register E L uc email plaintextPassword capToken prof =
     check (ac_cap uc capToken) (\<lambda>e. throw (wrap ''validate registration CAP'' e)) (\<lambda>valid.
     if \<not> valid then throw (biz ErrInvalidToken)
     else create_pending_user E L uc [] email plaintextPassword prof)"

definition account_verify_email ::
    "'e env_scheme \<Rightarrow> iam_lib \<Rightarrow> ('z world_scheme) account_usecase \<Rightarrow> string
     \<Rightarrow> ('z world_scheme, user_pb) prog" where
  "account_verify_email E L uc token =
     (if token = [] then throw (biz ErrInvalidToken)
      else
        seq (now E) (\<lambda>t.
        check (vr_consume (ac_verification_tokens uc) (hash_opaque_secret L token) t)
          (\<lambda>e. throw (account_token_error e)) (\<lambda>userID.
        seq (now E) (\<lambda>t2.
        pass (ur_activate_email (ac_users uc) userID t2) (\<lambda>_.
        ur_get (ac_users uc) userID)))))"

definition account_resend_verification ::
    "'e env_scheme \<Rightarrow> iam_lib \<Rightarrow> ('z world_scheme) account_usecase \<Rightarrow> string \<Rightarrow> string
     \<Rightarrow> ('z world_scheme, unit) prog" where
  "account_resend_verification E L uc email capToken =
     check (ac_cap uc capToken) (\<lambda>e. throw (wrap ''validate resend CAP'' e)) (\<lambda>valid.
     if \<not> valid then throw (biz ErrInvalidToken)
     else
       check (result (normalize_email L email)) (\<lambda>_. ret ()) (\<lambda>(canonical, _).
       check (ur_find_by_email (ac_users uc) canonical)
         (\<lambda>e. if errors_is e (Biz ErrNotFound) then ret () else throw (wrap ''find resend user'' e))
         (\<lambda>user.
       if up_status user \<noteq> UserStatusPendingEmailVerification \<or> up_email_verified user then ret ()
       else send_verification E L uc ''create resend token'' user)))"

definition account_request_password_reset ::
    "'e env_scheme \<Rightarrow> iam_lib \<Rightarrow> ('z world_scheme) account_usecase \<Rightarrow> string \<Rightarrow> string
     \<Rightarrow> ('z world_scheme, unit) prog" where
  "account_request_password_reset E L uc email capToken =
     check (ac_cap uc capToken) (\<lambda>e. throw (wrap ''validate password reset CAP'' e)) (\<lambda>valid.
     if \<not> valid then throw (biz ErrInvalidToken)
     else
       check (result (normalize_email L email)) (\<lambda>_. ret ()) (\<lambda>(canonical, _).
       check (ur_find_by_email (ac_users uc) canonical)
         (\<lambda>e. if errors_is e (Biz ErrNotFound) then ret ()
              else throw (wrap ''find password reset user'' e)) (\<lambda>user.
       if up_status user \<noteq> UserStatusActive \<or> \<not> up_email_verified user then ret ()
       else
         pass (new_opaque_secret E L) (\<lambda>(token, _).
         seq (now E) (\<lambda>t.
         check (pr_create (ac_reset_tokens uc) (up_user_id user) (hash_opaque_secret L token)
                  (t + password_reset_ttl))
           (\<lambda>e. throw (wrap ''create password reset token'' e)) (\<lambda>_.
         check (ms_send_password_reset (ac_mailer uc) (get_email user)
                  (ac_verification_origin uc @ ''/reset-password#'' @ token)
                  (password_reset_ttl div go_hour))
           (\<lambda>e. throw (wrap ''send password reset email'' e)) ret))))))"

definition account_confirm_password_reset ::
    "'e env_scheme \<Rightarrow> iam_lib \<Rightarrow> ('z world_scheme) account_usecase \<Rightarrow> string \<Rightarrow> string
     \<Rightarrow> ('z world_scheme, unit) prog" where
  "account_confirm_password_reset E L uc token newPassword =
     (if token = [] then throw (biz ErrInvalidToken)
      else
        check (password_hash (il_argon L) newPassword) (\<lambda>_. throw (biz ErrInvalidPassword)) (\<lambda>hash.
        seq (now E) (\<lambda>t.
        check (pr_consume_and_replace (ac_reset_tokens uc) (hash_opaque_secret L token) hash t)
          (\<lambda>e. throw (account_token_error e)) (\<lambda>userID.
        check (session_revoke_all E (ac_sessions uc) userID)
          (\<lambda>e. throw (wrap ''revoke sessions after password reset'' e)) ret))))"

definition account_change_password ::
    "'e env_scheme \<Rightarrow> iam_lib \<Rightarrow> ('z world_scheme) account_usecase \<Rightarrow> string \<Rightarrow> string \<Rightarrow> string
     \<Rightarrow> string \<Rightarrow> ('z world_scheme, unit) prog" where
  "account_change_password E L uc userID currentSessionID currentPassword newPassword =
     (if userID = [] \<or> currentSessionID = [] then throw (biz ErrUnauthenticated)
      else
        check (cd_find_active_password (ac_credentials uc) userID)
          (\<lambda>e. throw (wrap ''find current password'' e)) (\<lambda>credential.
        check (result (password_compare (il_argon L) currentPassword (pcr_password_hash credential)))
          (\<lambda>_. throw (biz ErrInvalidCredentials)) (\<lambda>(match, _).
        if \<not> match then throw (biz ErrInvalidCredentials)
        else
          check (password_hash (il_argon L) newPassword) (\<lambda>e. throw (wrap ''hash new password'' e)) (\<lambda>hash.
          seq (now E) (\<lambda>t.
          check (cd_replace_password (ac_credentials uc) userID (pcr_authenticator_id credential) hash t)
            (\<lambda>e. throw (wrap ''replace password'' e)) (\<lambda>_.
          check (session_revoke_others E (ac_sessions uc) userID currentSessionID)
            (\<lambda>e. throw (wrap ''revoke sessions after password change'' e)) ret))))))"

definition account_get_profile :: "'w account_usecase \<Rightarrow> string \<Rightarrow> ('w, user_pb) prog" where
  "account_get_profile uc userID =
     (if trim_space userID = [] then throw (biz ErrUnauthenticated) else ur_get (ac_users uc) userID)"

definition account_update_profile ::
    "'w account_usecase \<Rightarrow> string \<Rightarrow> string \<Rightarrow> profile option \<Rightarrow> ('w, user_pb) prog" where
  "account_update_profile uc userID etag prof =
     (if userID = [] \<or> etag = [] then throw (biz ErrUnauthenticated)
      else
        check (ur_update_profile (ac_users uc) userID etag prof)
          (\<lambda>e. if errors_is e (Biz ErrMutationMiss) then throw (biz ErrProfileEtagMismatch) else throw e)
          ret)"

definition account_update_current_profile ::
    "'w account_usecase \<Rightarrow> string \<Rightarrow> profile option \<Rightarrow> ('w, user_pb) prog" where
  "account_update_current_profile uc userID prof =
     pass (account_get_profile uc userID) (\<lambda>current.
     account_update_profile uc userID (up_etag current) prof)"

section \<open>User management\<close>

record 'w user_usecase =
  uu_account :: "'w account_usecase"
  uu_sessions :: "'w session_usecase"
  uu_users :: "'w user_repo"

text \<open>\<open>corecrud.PreparedUpdate\<close> as the use case reads it.\<close>

record prepared_update =
  pu_etag :: string
  pu_validate_immutable :: "user_pb \<Rightarrow> err option"
  pu_resource :: "user_pb option"
  pu_write_mask :: "string list option"

definition user_create_user ::
    "'e env_scheme \<Rightarrow> iam_lib \<Rightarrow> ('z world_scheme) user_usecase \<Rightarrow> string \<Rightarrow> user_pb \<Rightarrow> string
     \<Rightarrow> ('z world_scheme, user_pb) prog" where
  "user_create_user E L uc nam resource plaintextPassword =
     create_pending_user E L (uu_account uc) nam (get_email resource) plaintextPassword (up_profile resource)"

definition user_get_user :: "'w user_usecase \<Rightarrow> string \<Rightarrow> ('w, user_pb) prog" where
  "user_get_user uc nam = ur_get (uu_users uc) nam"

definition user_update_user :: "'w user_usecase \<Rightarrow> string \<Rightarrow> prepared_update \<Rightarrow> ('w, user_pb) prog" where
  "user_update_user uc nam prepared =
     (if pu_etag prepared = [] then throw (biz ErrUserEtagMismatch)
      else
        pass (ur_get (uu_users uc) nam) (\<lambda>current.
        fails_with (pu_validate_immutable prepared current)
          (check (ur_update_user (uu_users uc) nam (pu_resource prepared) (pu_write_mask prepared)
                    (pu_etag prepared))
            (\<lambda>e. if errors_is e (Biz ErrMutationMiss) then throw (biz ErrUserEtagMismatch) else throw e)
            ret)))"

definition user_status_of :: "string \<Rightarrow> user_status" where
  "user_status_of status =
     (if status = user_status_pending then UserStatusPendingEmailVerification
      else if status = user_status_active then UserStatusActive
      else if status = user_status_disabled then UserStatusDisabled
      else UserStatusUnspecified)"

definition user_update_status ::
    "'e env_scheme \<Rightarrow> ('z world_scheme) user_usecase \<Rightarrow> string \<Rightarrow> string \<Rightarrow> string
     \<Rightarrow> ('z world_scheme, user_pb) prog" where
  "user_update_status E uc nam expectedEtag status =
     pass (ur_get (uu_users uc) nam) (\<lambda>current.
     if status = user_status_active \<and> up_status current \<noteq> UserStatusDisabled
     then throw (biz ErrUserInvalidState)
     else if expectedEtag \<noteq> [] \<and> expectedEtag \<noteq> up_etag current
     then throw (biz ErrUserEtagMismatch)
     else
       seq (now E) (\<lambda>t.
       pass (if status \<noteq> user_status_disabled \<or> up_status current \<noteq> UserStatusDisabled
             then check (ur_update_status (uu_users uc) nam (up_etag current) (user_status_of status) t)
                    (\<lambda>e. if errors_is e (Biz ErrMutationMiss) then throw (biz ErrUserEtagMismatch)
                         else throw e) ret
             else ret current) (\<lambda>updated.
       if status \<noteq> user_status_disabled then ret updated
       else
         check (session_revoke_all E (uu_sessions uc) nam)
           (\<lambda>revokeErr. throw (the (errors_join [Some (biz ErrSessionRevocation), Some revokeErr])))
           (\<lambda>_. ret updated))))"

definition user_disable :: "'e env_scheme \<Rightarrow> ('z world_scheme) user_usecase \<Rightarrow> string \<Rightarrow> string
     \<Rightarrow> ('z world_scheme, user_pb) prog" where
  "user_disable E uc nam expectedEtag = user_update_status E uc nam expectedEtag user_status_disabled"

definition user_enable :: "'e env_scheme \<Rightarrow> ('z world_scheme) user_usecase \<Rightarrow> string \<Rightarrow> string
     \<Rightarrow> ('z world_scheme, user_pb) prog" where
  "user_enable E uc nam expectedEtag = user_update_status E uc nam expectedEtag user_status_active"

section \<open>The bootstrap administrator\<close>

record 'w admin_initializer =
  ai_email :: string
  ai_users :: "'w user_repo"
  ai_create :: "string \<Rightarrow> string \<Rightarrow> string \<Rightarrow> string \<Rightarrow> time \<Rightarrow> ('w, unit) prog"
  ai_ensure_admin :: "string \<Rightarrow> ('w, unit) prog"

definition admin_create ::
    "'e env_scheme \<Rightarrow> iam_lib \<Rightarrow> ('z world_scheme) admin_initializer \<Rightarrow> string \<Rightarrow> string
     \<Rightarrow> ('z world_scheme, user_pb) prog" where
  "admin_create E L ini displayEmail canonicalEmail =
     pass (new_user_id E) (\<lambda>userID.
     check (new_opaque_secret E L) (\<lambda>e. throw (wrap ''generate bootstrap admin password'' e))
       (\<lambda>(plaintext, _).
     check (password_hash (il_argon L) plaintext) (\<lambda>e. throw (wrap ''hash bootstrap admin password'' e))
       (\<lambda>passwordHash.
     seq (now E) (\<lambda>t.
     check (ai_create ini userID displayEmail canonicalEmail passwordHash t)
       (\<lambda>e. throw (wrap ''create bootstrap admin'' e)) (\<lambda>_.
     ret (zero_user\<lparr>up_name := ''users/'' @ userID, up_user_id := userID,
            up_email := Some displayEmail, up_status := UserStatusActive,
            up_email_verified := True\<rparr>))))))"

text \<open>
  \<open>displayEmail, canonicalEmail, err := NormalizeEmail(..)\<close>: the order in which the code binds the
  two results of \<open>NormalizeEmail\<close>.
\<close>

definition admin_initialize ::
    "'e env_scheme \<Rightarrow> iam_lib \<Rightarrow> ('z world_scheme) admin_initializer \<Rightarrow> ('z world_scheme, unit) prog" where
  "admin_initialize E L ini =
     check (result (normalize_email L (ai_email ini)))
       (\<lambda>e. throw (wrap ''normalize bootstrap admin email'' e)) (\<lambda>(displayEmail, canonicalEmail).
     pass
       (check (ur_find_by_email (ai_users ini) canonicalEmail)
         (\<lambda>e. if errors_is e (Biz ErrNotFound)
              then check (admin_create E L ini displayEmail canonicalEmail)
                     (\<lambda>e. if \<not> errors_is e (Biz ErrAlreadyExists) then throw e
                          else check (ur_find_by_email (ai_users ini) canonicalEmail)
                                 (\<lambda>e. throw (wrap ''load concurrently created bootstrap admin'' e)) ret)
                     ret
              else throw (wrap ''find bootstrap admin'' e))
         (\<lambda>admin. if \<not> may_login admin
                  then throw (errorf ''bootstrap admin exists but is not active and email-verified'')
                  else ret admin)) (\<lambda>admin.
     check (ai_ensure_admin ini (up_user_id admin))
       (\<lambda>e. throw (wrap ''ensure bootstrap admin relation'' e)) ret))"

end
