(* ===== verification/IamData.thy ===== *)
theory IamData
  imports IamAccount
begin

text \<open>
  \<open>app/iam/service/internal/data\<close>: the repositories of the IAM service as programs over the database
  (\<open>IamSchema\<close>), with one statement or one transaction where the code has one, and the ports of
  \<open>IamBiz\<close> filled with them.
\<close>

section \<open>Errors, times\<close>

definition translate_ent_error :: "err \<Rightarrow> err" where
  "translate_ent_error e =
     (if is_not_found e then biz ErrNotFound
      else if is_constraint_error e then Node JoinedErrors [biz ErrAlreadyExists, e]
      else e)"

definition translated :: "('w, 'a) prog \<Rightarrow> ('w, 'a) prog" where
  "translated p = check p (\<lambda>e. throw (translate_ent_error e)) ret"

text \<open>A statement whose \<open>NotFound\<close> means that its condition did not hold.\<close>

definition or_mutation_miss :: "('w, 'a) prog \<Rightarrow> ('w, 'a) prog" where
  "or_mutation_miss p =
     check p (\<lambda>e. if is_not_found e then throw (biz ErrMutationMiss) else throw (translate_ent_error e)) ret"

text \<open>\<open>if now.IsZero() { now = time.Now() }\<close>\<close>

definition time_or_now :: "'e env_scheme \<Rightarrow> time \<Rightarrow> (time \<Rightarrow> ('z world_scheme, 'a) prog) \<Rightarrow> ('z world_scheme, 'a) prog" where
  "time_or_now E t k = (if is_zero t then seq (now E) k else k t)"

definition discard :: "('w, 'a) prog \<Rightarrow> ('w, unit) prog" where
  "discard p = pass p (\<lambda>_. ret ())"

lemma translate_ent_error_simps [simp]:
  "translate_ent_error not_found = biz ErrNotFound"
  "translate_ent_error not_singular = not_singular"
  "translate_ent_error constraint_error = Node JoinedErrors [biz ErrAlreadyExists, constraint_error]"
  by (simp_all add: translate_ent_error_def)

lemma preserves_translated [preserve_intros]: "preserves I p \<Longrightarrow> preserves I (translated p)"
  unfolding translated_def by (intro preserve_intros)

lemma preserves_or_mutation_miss [preserve_intros]: "preserves I p \<Longrightarrow> preserves I (or_mutation_miss p)"
  unfolding or_mutation_miss_def by (intro preserve_intros)

lemma preserves_discard [preserve_intros]: "preserves I p \<Longrightarrow> preserves I (discard p)"
  unfolding discard_def by (intro preserve_intros)

lemma preserves_time_or_now:
  "preserves I (now E) \<Longrightarrow> (\<And>t. preserves I (k t)) \<Longrightarrow> preserves I (time_or_now E t0 k)"
  unfolding time_or_now_def by (intro preserve_intros)

lemma translated_Inr: "translated p w = (Inr x, w') \<longleftrightarrow> p w = (Inr x, w')"
  by (auto simp: translated_def check_eq)

lemma or_mutation_miss_Inr: "or_mutation_miss p w = (Inr x, w') \<longleftrightarrow> p w = (Inr x, w')"
  by (auto simp: or_mutation_miss_def check_eq)

lemma discard_Inr: "discard p w = (Inr u, w') \<longleftrightarrow> (\<exists>x. p w = (Inr x, w'))"
  by (auto simp: discard_def check_eq)

text \<open>The time that \<open>time_or_now\<close> settles on.\<close>

definition stamp :: "'e env_scheme \<Rightarrow> time \<Rightarrow> 'z world_scheme \<Rightarrow> time \<Rightarrow> 'z world_scheme \<Rightarrow> bool" where
  "stamp E t0 w t v \<longleftrightarrow>
     (if is_zero t0 then t = clock E (tick w) \<and> v = w\<lparr>tick := Suc (tick w)\<rparr> else t = t0 \<and> v = w)"

lemma time_or_now_eq: "time_or_now E t0 k w = r \<longleftrightarrow> (\<exists>t v. stamp E t0 w t v \<and> k t v = r)"
  by (auto simp: time_or_now_def stamp_def seq_eq now_eq)

lemma stamp_db: "stamp E t0 w t v \<Longrightarrow> dw_db v = dw_db w"
  by (auto simp: stamp_def split: if_splits)

lemmas ent_wrappers_Inr = translated_Inr or_mutation_miss_Inr discard_Inr

section \<open>Users\<close>

text \<open>The resource of a user row, given the row of its email identifier.\<close>

definition to_dto :: "iam_lib \<Rightarrow> user_row \<Rightarrow> user_pb" where
  "to_dto L entity =
     (il_copy L entity)\<lparr>up_user_id := us_id entity, up_status := user_status_of (us_status entity),
       up_profile := Some (us_profile entity)\<rparr>"

definition to_resource :: "iam_lib \<Rightarrow> (string \<Rightarrow> identifier_row option) \<Rightarrow> user_row \<Rightarrow> err + user_pb" where
  "to_resource L emailByUserID entity =
     (case emailByUserID (us_id entity) of
        None \<Rightarrow> Inl (errorf ''IAM User has no email Login Identifier'')
      | Some identifier \<Rightarrow>
          Inr ((to_dto L entity)\<lparr>up_email := Some (li_display identifier),
                 up_email_verified := li_verified identifier \<noteq> None,
                 up_email_verified_time :=
                   (if li_verified identifier \<noteq> None then li_verified identifier
                    else up_email_verified_time (to_dto L entity))\<rparr>))"

definition email_by_user_id :: "identifier_row list \<Rightarrow> string \<Rightarrow> identifier_row option" where
  "email_by_user_id identifiers = foldl (\<lambda>m i. m(li_user i \<mapsto> i)) Map.empty identifiers"

definition to_resources ::
    "db dbenv \<Rightarrow> iam_lib \<Rightarrow> user_row list \<Rightarrow> ((db, 'z) db_world_scheme, user_pb list) prog" where
  "to_resources E L entities =
     (if entities = [] then ret []
      else
        pass (translated (db_exec E (all_where identifiers_t
                (\<lambda>i. li_user i \<in> set (map us_id entities) \<and> li_type i = login_identifier_email))))
          (\<lambda>identifiers.
        result (collect_results (to_resource L (email_by_user_id identifiers)) entities)))"

definition user_get :: "db dbenv \<Rightarrow> iam_lib \<Rightarrow> string \<Rightarrow> ((db, 'z) db_world_scheme, user_pb) prog" where
  "user_get E L userID =
     pass (translated (db_exec E (only users_t (\<lambda>u. us_id u = userID)))) (\<lambda>entity.
     pass (to_resources E L [entity]) (\<lambda>resources. ret (resources ! 0)))"

definition user_find_by_email ::
    "db dbenv \<Rightarrow> iam_lib \<Rightarrow> string \<Rightarrow> ((db, 'z) db_world_scheme, user_pb) prog" where
  "user_find_by_email E L canonical =
     pass (translated (db_exec E (only identifiers_t
             (\<lambda>i. li_type i = login_identifier_email \<and> li_canonical i = canonical)))) (\<lambda>identifier.
     user_get E L (li_user identifier))"

text \<open>The new rows; \<open>d\<close> is the time of a column default.\<close>

definition new_user_row :: "string \<Rightarrow> string \<Rightarrow> string \<Rightarrow> profile option \<Rightarrow> time \<Rightarrow> user_row" where
  "new_user_row userID status etag prof t =
     \<lparr>us_id = userID, us_status = status,
      us_profile = (case prof of None \<Rightarrow> empty_profile | Some p \<Rightarrow> p),
      us_etag = etag, us_create = t, us_update = t\<rparr>"

definition new_identifier_row ::
    "string \<Rightarrow> string \<Rightarrow> string \<Rightarrow> string \<Rightarrow> time option \<Rightarrow> time \<Rightarrow> identifier_row" where
  "new_identifier_row identifierID userID canonical display verifiedTime d =
     \<lparr>li_id = identifierID, li_user = userID, li_type = login_identifier_email,
      li_canonical = canonical, li_display = display, li_verified = verifiedTime,
      li_create = d, li_update = d\<rparr>"

definition new_authenticator_row :: "string \<Rightarrow> string \<Rightarrow> time \<Rightarrow> authenticator_row" where
  "new_authenticator_row authenticatorID userID d =
     \<lparr>au_id = authenticatorID, au_user = userID, au_type = authenticator_password,
      au_state = authenticator_active, au_display = None, au_verified = None, au_last_used = None,
      au_revoked = None, au_create = d, au_update = d\<rparr>"

definition new_password_row :: "string \<Rightarrow> string \<Rightarrow> string \<Rightarrow> time \<Rightarrow> password_row" where
  "new_password_row passwordID authenticatorID passwordHash d =
     \<lparr>pw_id = passwordID, pw_authenticator = authenticatorID, pw_hash = passwordHash, pw_changed = d\<rparr>"

definition create_aggregate_tx ::
    "db dbenv \<Rightarrow> user_pb \<Rightarrow> string \<Rightarrow> string \<Rightarrow> string \<Rightarrow> time option \<Rightarrow> time
     \<Rightarrow> string \<Rightarrow> string \<Rightarrow> string \<Rightarrow> string \<Rightarrow> ((db, 'z) db_world_scheme, unit) prog" where
  "create_aggregate_tx E resource passwordHash canonical status verifiedTime t
       identifierID authenticatorID passwordAuthenticatorID etag =
     pass (translated (tx_exec E (create users_t user_valid user_clash
             (\<lambda>_. new_user_row (up_user_id resource) status etag (up_profile resource) t)))) (\<lambda>entity.
     pass (translated (tx_exec E (create identifiers_t identifier_valid identifier_clash
             (new_identifier_row identifierID (us_id entity) canonical (get_email resource) verifiedTime))))
       (\<lambda>_.
     pass (translated (tx_exec E (create authenticators_t authenticator_valid authenticator_clash
             (new_authenticator_row authenticatorID (us_id entity))))) (\<lambda>_.
     pass (translated (tx_exec E (create passwords_t password_valid password_clash
             (new_password_row passwordAuthenticatorID authenticatorID passwordHash)))) (\<lambda>_.
     ret ()))))"

definition create_user_aggregate ::
    "db dbenv \<Rightarrow> user_pb \<Rightarrow> string \<Rightarrow> string \<Rightarrow> string \<Rightarrow> time option \<Rightarrow> time
     \<Rightarrow> ((db, 'z) db_world_scheme, unit) prog" where
  "create_user_aggregate E resource passwordHash canonical status verifiedTime t =
     pass (new_user_id E) (\<lambda>identifierID.
     pass (new_user_id E) (\<lambda>authenticatorID.
     pass (new_user_id E) (\<lambda>passwordAuthenticatorID.
     pass (new_user_id E) (\<lambda>etag.
     in_tx E (create_aggregate_tx E resource passwordHash canonical status verifiedTime t
                identifierID authenticatorID passwordAuthenticatorID etag)))))"

definition user_create ::
    "db dbenv \<Rightarrow> iam_lib \<Rightarrow> user_pb \<Rightarrow> string \<Rightarrow> string \<Rightarrow> ((db, 'z) db_world_scheme, user_pb) prog" where
  "user_create E L resource passwordHash canonical =
     (if up_user_id resource = [] \<or> get_email resource = [] \<or> passwordHash = [] \<or> canonical = []
      then throw (errorf ''create user: required identity fields are missing'')
      else
        seq (now E) (\<lambda>t0.
        let t = (case up_create_time resource of None \<Rightarrow> t0 | Some c \<Rightarrow> c) in
        pass (create_user_aggregate E resource passwordHash canonical user_status_pending None t) (\<lambda>_.
        user_get E L (up_user_id resource))))"

definition activate_email_tx ::
    "db dbenv \<Rightarrow> string \<Rightarrow> string \<Rightarrow> string \<Rightarrow> time \<Rightarrow> ((db, 'z) db_world_scheme, unit) prog" where
  "activate_email_tx E userID identifierID etag t =
     pass (translated (tx_exec E (update_one users_t
             (\<lambda>u. us_id u = userID \<and> us_status u = user_status_pending)
             (\<lambda>_ u. u\<lparr>us_status := user_status_active, us_etag := etag, us_update := t\<rparr>)))) (\<lambda>_.
     discard (translated (tx_exec E (update_one identifiers_t (\<lambda>i. li_id i = identifierID)
             (\<lambda>d i. i\<lparr>li_verified := Some t, li_update := d\<rparr>)))))"

definition user_activate_email ::
    "db dbenv \<Rightarrow> string \<Rightarrow> time \<Rightarrow> ((db, 'z) db_world_scheme, unit) prog" where
  "user_activate_email E userID t0 =
     time_or_now E t0 (\<lambda>t.
     pass (new_user_id E) (\<lambda>etag.
     pass (translated (db_exec E (only identifiers_t
             (\<lambda>i. li_user i = userID \<and> li_type i = login_identifier_email)))) (\<lambda>identifier.
     in_tx E (activate_email_tx E userID (li_id identifier) etag t))))"

text \<open>The mutation that \<open>updateProfileFields\<close> builds: the cleared columns, then the set ones.\<close>

definition clear_column :: "string \<Rightarrow> profile \<Rightarrow> profile" where
  "clear_column c p =
     (if c = ''name'' then p\<lparr>pf_name := None\<rparr>
      else if c = ''given_name'' then p\<lparr>pf_given_name := None\<rparr>
      else if c = ''family_name'' then p\<lparr>pf_family_name := None\<rparr>
      else if c = ''nickname'' then p\<lparr>pf_nickname := None\<rparr>
      else if c = ''preferred_username'' then p\<lparr>pf_preferred_username := None\<rparr>
      else if c = ''picture'' then p\<lparr>pf_picture := None\<rparr>
      else if c = ''locale'' then p\<lparr>pf_locale := None\<rparr>
      else p)"

definition or_keep :: "'a option \<Rightarrow> 'a option \<Rightarrow> 'a option" where
  "or_keep new old = (case new of None \<Rightarrow> old | Some x \<Rightarrow> Some x)"

definition set_path :: "profile option \<Rightarrow> string \<Rightarrow> profile \<Rightarrow> profile" where
  "set_path prof path p =
     (case prof of None \<Rightarrow> p
      | Some q \<Rightarrow>
          if path = ''profile.name'' then p\<lparr>pf_name := or_keep (pf_name q) (pf_name p)\<rparr>
          else if path = ''profile.given_name''
          then p\<lparr>pf_given_name := or_keep (pf_given_name q) (pf_given_name p)\<rparr>
          else if path = ''profile.family_name''
          then p\<lparr>pf_family_name := or_keep (pf_family_name q) (pf_family_name p)\<rparr>
          else if path = ''profile.nickname'' then p\<lparr>pf_nickname := or_keep (pf_nickname q) (pf_nickname p)\<rparr>
          else if path = ''profile.preferred_username''
          then p\<lparr>pf_preferred_username := or_keep (pf_preferred_username q) (pf_preferred_username p)\<rparr>
          else if path = ''profile.picture'' then p\<lparr>pf_picture := or_keep (pf_picture q) (pf_picture p)\<rparr>
          else if path = ''profile.locale'' then p\<lparr>pf_locale := or_keep (pf_locale q) (pf_locale p)\<rparr>
          else p)"

definition mutate_profile :: "string list \<Rightarrow> profile option \<Rightarrow> string list \<Rightarrow> profile \<Rightarrow> profile" where
  "mutate_profile cleared prof paths p = fold (set_path prof) paths (fold clear_column cleared p)"

definition user_profile_write_mask :: "string list" where
  "user_profile_write_mask =
     [''profile.name'', ''profile.given_name'', ''profile.family_name'', ''profile.nickname'',
      ''profile.preferred_username'', ''profile.picture'', ''profile.locale'']"

definition update_profile_fields ::
    "db dbenv \<Rightarrow> iam_lib \<Rightarrow> string \<Rightarrow> string \<Rightarrow> user_pb \<Rightarrow> string list
     \<Rightarrow> ((db, 'z) db_world_scheme, user_pb) prog" where
  "update_profile_fields E L userID expectedEtag resource wmask =
     pass (new_user_id E) (\<lambda>etag.
     check (result (il_clear L resource wmask)) (\<lambda>e. throw (wrap ''apply IAM User Clear intents'' e)) (\<lambda>cleared.
     pass (or_mutation_miss (db_exec E (update_one users_t
             (\<lambda>u. us_id u = userID \<and> us_etag u = expectedEtag)
             (\<lambda>d u. u\<lparr>us_profile := mutate_profile cleared (up_profile resource) wmask (us_profile u),
                     us_etag := etag, us_update := d\<rparr>)))) (\<lambda>updated.
     user_get E L (us_id updated))))"

definition user_update_profile ::
    "db dbenv \<Rightarrow> iam_lib \<Rightarrow> string \<Rightarrow> string \<Rightarrow> profile option
     \<Rightarrow> ((db, 'z) db_world_scheme, user_pb) prog" where
  "user_update_profile E L userID expectedEtag prof =
     (if userID = [] \<or> expectedEtag = []
      then throw (errorf ''update User profile requires user ID and expected etag'')
      else update_profile_fields E L userID expectedEtag (zero_user\<lparr>up_profile := prof\<rparr>)
             user_profile_write_mask)"

definition user_update_masked ::
    "db dbenv \<Rightarrow> iam_lib \<Rightarrow> string \<Rightarrow> user_pb option \<Rightarrow> string list option \<Rightarrow> string
     \<Rightarrow> ((db, 'z) db_world_scheme, user_pb) prog" where
  "user_update_masked E L nam resource wmask expectedEtag =
     (case (resource, wmask) of
        (Some r, Some m) \<Rightarrow>
          if expectedEtag = []
          then throw (errorf ''update User resource, mask, and expected etag are required'')
          else update_profile_fields E L nam expectedEtag r m
      | _ \<Rightarrow> throw (errorf ''update User resource, mask, and expected etag are required''))"

definition update_status_tx ::
    "db dbenv \<Rightarrow> string \<Rightarrow> string \<Rightarrow> user_status \<Rightarrow> string \<Rightarrow> string \<Rightarrow> time
     \<Rightarrow> ((db, 'z) db_world_scheme, unit) prog" where
  "update_status_tx E userID expectedEtag status storageStatus etag t =
     pass (or_mutation_miss (tx_exec E (update_one users_t
             (\<lambda>u. us_id u = userID \<and> us_etag u = expectedEtag)
             (\<lambda>_ u. u\<lparr>us_status := storageStatus, us_etag := etag, us_update := t\<rparr>)))) (\<lambda>_.
     discard (translated (tx_exec E (update_where authenticators_t (\<lambda>a. au_user a = userID)
       (\<lambda>d a. if status = UserStatusDisabled
              then a\<lparr>au_state := authenticator_disabled, au_revoked := Some t, au_update := d\<rparr>
              else a\<lparr>au_state := authenticator_active, au_revoked := None, au_update := d\<rparr>)))))"

definition user_set_status ::
    "db dbenv \<Rightarrow> iam_lib \<Rightarrow> string \<Rightarrow> string \<Rightarrow> user_status \<Rightarrow> time
     \<Rightarrow> ((db, 'z) db_world_scheme, user_pb) prog" where
  "user_set_status E L userID expectedEtag status t0 =
     (if userID = [] \<or> expectedEtag = []
      then throw (errorf ''update User status requires user ID and expected etag'')
      else
        let storageStatus =
              (if status = UserStatusDisabled then user_status_disabled else user_status_active) in
        pass (new_user_id E) (\<lambda>etag.
        time_or_now E t0 (\<lambda>t.
        pass (in_tx E (update_status_tx E userID expectedEtag status storageStatus etag t)) (\<lambda>_.
        user_get E L userID))))"

definition user_repository :: "db dbenv \<Rightarrow> iam_lib \<Rightarrow> ((db, 'z) db_world_scheme) user_repo" where
  "user_repository E L =
     \<lparr>ur_create = user_create E L, ur_find_by_email = user_find_by_email E L, ur_get = user_get E L,
      ur_activate_email = user_activate_email E, ur_update_profile = user_update_profile E L,
      ur_update_status = user_set_status E L, ur_update_user = user_update_masked E L\<rparr>"

section \<open>Verification and reset tokens\<close>

definition new_vtoken_row :: "string \<Rightarrow> string \<Rightarrow> string \<Rightarrow> string \<Rightarrow> time \<Rightarrow> time \<Rightarrow> vtoken_row" where
  "new_vtoken_row tokenID userID identifierID tokenHash expires d =
     \<lparr>vt_id = tokenID, vt_user = userID, vt_identifier = identifierID, vt_hash = tokenHash,
      vt_expires = expires, vt_consumed = None, vt_create = d\<rparr>"

definition vtoken_create ::
    "db dbenv \<Rightarrow> string \<Rightarrow> string \<Rightarrow> string \<Rightarrow> time \<Rightarrow> ((db, 'z) db_world_scheme, unit) prog" where
  "vtoken_create E userID identifierID0 tokenHash expires =
     (if userID = [] \<or> tokenHash = []
      then throw (errorf ''verification token: user and token hash are required'')
      else
        pass (if identifierID0 = []
              then pass (translated (db_exec E (only identifiers_t
                           (\<lambda>i. li_user i = userID \<and> li_type i = login_identifier_email))))
                     (\<lambda>identifier. ret (li_id identifier))
              else ret identifierID0) (\<lambda>identifierID.
        pass (new_user_id E) (\<lambda>tokenID.
        discard (translated (db_exec E (create vtokens_t vtoken_valid vtoken_clash
                   (new_vtoken_row tokenID userID identifierID tokenHash expires)))))))"

definition vtoken_consume :: "db dbenv \<Rightarrow> string \<Rightarrow> time \<Rightarrow> ((db, 'z) db_world_scheme, string) prog" where
  "vtoken_consume E tokenHash t0 =
     (if tokenHash = [] then throw (errorf ''verification token hash is required'')
      else
        time_or_now E t0 (\<lambda>t.
        pass (translated (db_exec E (only vtokens_t (\<lambda>v. vt_hash v = tokenHash)))) (\<lambda>entity.
        if vt_consumed entity \<noteq> None then throw (biz ErrMutationMiss)
        else if \<not> t < vt_expires entity then throw (biz ErrExpired)
        else
          pass (or_mutation_miss (db_exec E (update_one vtokens_t
                  (\<lambda>v. vt_id v = vt_id entity \<and> vt_consumed v = None \<and> vt_expires v > t)
                  (\<lambda>_ v. v\<lparr>vt_consumed := Some t\<rparr>)))) (\<lambda>updated.
          ret (vt_user updated)))))"

definition verification_token_repository ::
    "db dbenv \<Rightarrow> ((db, 'z) db_world_scheme) verification_token_repo" where
  "verification_token_repository E = \<lparr>vr_create = vtoken_create E, vr_consume = vtoken_consume E\<rparr>"

definition new_rtoken_row :: "string \<Rightarrow> string \<Rightarrow> string \<Rightarrow> time \<Rightarrow> time \<Rightarrow> rtoken_row" where
  "new_rtoken_row tokenID userID tokenHash expires d =
     \<lparr>rt_id = tokenID, rt_user = userID, rt_hash = tokenHash, rt_expires = expires,
      rt_consumed = None, rt_create = d\<rparr>"

definition rtoken_create ::
    "db dbenv \<Rightarrow> string \<Rightarrow> string \<Rightarrow> time \<Rightarrow> ((db, 'z) db_world_scheme, unit) prog" where
  "rtoken_create E userID tokenHash expires =
     (if userID = [] \<or> tokenHash = []
      then throw (errorf ''password reset token: user and token hash are required'')
      else
        pass (new_user_id E) (\<lambda>tokenID.
        discard (translated (db_exec E (create rtokens_t rtoken_valid rtoken_clash
                   (new_rtoken_row tokenID userID tokenHash expires))))))"

text \<open>The authenticator and the password row that belong to a user.\<close>

definition active_password_of :: "string \<Rightarrow> authenticator_row \<Rightarrow> bool" where
  "active_password_of userID a \<longleftrightarrow>
     au_user a = userID \<and> au_type a = authenticator_password \<and> au_state a = authenticator_active
     \<and> au_revoked a = None"

definition consume_and_replace_tx ::
    "db dbenv \<Rightarrow> rtoken_row \<Rightarrow> string \<Rightarrow> time \<Rightarrow> ((db, 'z) db_world_scheme, unit) prog" where
  "consume_and_replace_tx E entity passwordHash t =
     pass (translated (tx_exec E (only authenticators_t (active_password_of (rt_user entity))))) (\<lambda>auth.
     pass (translated (tx_exec E (only passwords_t (\<lambda>p. pw_authenticator p = au_id auth)))) (\<lambda>pw.
     pass (translated (tx_exec E (update_one passwords_t (\<lambda>p. pw_id p = pw_id pw)
             (\<lambda>_ p. p\<lparr>pw_hash := passwordHash, pw_changed := t\<rparr>)))) (\<lambda>_.
     pass (or_mutation_miss (tx_exec E (update_one rtokens_t
             (\<lambda>r. rt_id r = rt_id entity \<and> rt_consumed r = None \<and> rt_expires r > t)
             (\<lambda>_ r. r\<lparr>rt_consumed := Some t\<rparr>)))) (\<lambda>_.
     ret ()))))"

definition rtoken_consume_and_replace ::
    "db dbenv \<Rightarrow> string \<Rightarrow> string \<Rightarrow> time \<Rightarrow> ((db, 'z) db_world_scheme, string) prog" where
  "rtoken_consume_and_replace E tokenHash passwordHash t0 =
     (if tokenHash = [] \<or> passwordHash = []
      then throw (errorf ''password reset token hash and password hash are required'')
      else
        time_or_now E t0 (\<lambda>t.
        pass (translated (db_exec E (only rtokens_t (\<lambda>r. rt_hash r = tokenHash)))) (\<lambda>entity.
        if rt_consumed entity \<noteq> None then throw (biz ErrMutationMiss)
        else if \<not> t < rt_expires entity then throw (biz ErrExpired)
        else
          pass (in_tx E (consume_and_replace_tx E entity passwordHash t)) (\<lambda>_.
          ret (rt_user entity)))))"

definition password_reset_token_repository ::
    "db dbenv \<Rightarrow> ((db, 'z) db_world_scheme) password_reset_token_repo" where
  "password_reset_token_repository E =
     \<lparr>pr_create = rtoken_create E, pr_consume_and_replace = rtoken_consume_and_replace E\<rparr>"

section \<open>Credentials\<close>

definition credential_find_active ::
    "db dbenv \<Rightarrow> string \<Rightarrow> ((db, 'z) db_world_scheme, password_credential) prog" where
  "credential_find_active E userID =
     pass (translated (db_exec E (only authenticators_t (active_password_of userID)))) (\<lambda>entity.
     pass (translated (db_exec E (only passwords_t (\<lambda>p. pw_authenticator p = au_id entity))))
       (\<lambda>passwordEntity.
     ret \<lparr>pcr_user_id = userID, pcr_authenticator_id = au_id entity,
          pcr_password_hash = pw_hash passwordEntity\<rparr>))"

definition replace_password_tx ::
    "db dbenv \<Rightarrow> string \<Rightarrow> string \<Rightarrow> string \<Rightarrow> time \<Rightarrow> ((db, 'z) db_world_scheme, unit) prog" where
  "replace_password_tx E userID authenticatorID passwordHash t =
     pass (translated (tx_exec E (only authenticators_t
             (\<lambda>a. au_id a = authenticatorID \<and> active_password_of userID a)))) (\<lambda>auth.
     pass (translated (tx_exec E (only passwords_t (\<lambda>p. pw_authenticator p = au_id auth)))) (\<lambda>pw.
     pass (translated (tx_exec E (update_one passwords_t (\<lambda>p. pw_id p = pw_id pw)
             (\<lambda>_ p. p\<lparr>pw_hash := passwordHash\<rparr>)))) (\<lambda>_.
     discard (translated (tx_exec E (update_one authenticators_t (\<lambda>a. au_id a = au_id auth)
             (\<lambda>_ a. a\<lparr>au_last_used := Some t, au_update := t\<rparr>)))))))"

definition credential_replace_password ::
    "db dbenv \<Rightarrow> string \<Rightarrow> string \<Rightarrow> string \<Rightarrow> time \<Rightarrow> ((db, 'z) db_world_scheme, unit) prog" where
  "credential_replace_password E userID authenticatorID passwordHash t0 =
     (if userID = [] \<or> authenticatorID = [] \<or> passwordHash = []
      then throw (errorf ''password replacement identifiers and hash are required'')
      else
        time_or_now E t0 (\<lambda>t.
        in_tx E (replace_password_tx E userID authenticatorID passwordHash t)))"

definition credential_repository :: "db dbenv \<Rightarrow> ((db, 'z) db_world_scheme) credential_repo" where
  "credential_repository E =
     \<lparr>cd_find_active_password = credential_find_active E,
      cd_replace_password = credential_replace_password E\<rparr>"

section \<open>Login sessions\<close>

definition to_session :: "login_row \<Rightarrow> session_pb" where
  "to_session entity =
     \<lparr>sp_name = ''sessions/'' @ ls_id entity, sp_session_id = ls_id entity,
      sp_create_time = Some (ls_create entity), sp_last_seen_time = Some (ls_seen entity),
      sp_idle_expires_time = Some (ls_idle entity), sp_absolute_expires_time = Some (ls_absolute entity)\<rparr>"

definition new_login_row :: "string \<Rightarrow> string \<Rightarrow> string \<Rightarrow> time \<Rightarrow> login_row" where
  "new_login_row sessionID userID secretHash t =
     \<lparr>ls_id = sessionID, ls_user = userID, ls_secret = secretHash, ls_create = t, ls_seen = t,
      ls_idle = t + login_session_idle_ttl, ls_absolute = t + login_session_absolute_ttl,
      ls_revoked = None\<rparr>"

definition login_create ::
    "db dbenv \<Rightarrow> string \<Rightarrow> string \<Rightarrow> time \<Rightarrow> ((db, 'z) db_world_scheme, session_pb) prog" where
  "login_create E userID secretHash t0 =
     pass (new_user_id E) (\<lambda>sessionID.
     time_or_now E t0 (\<lambda>t.
     pass (translated (db_exec E (create logins_t login_valid login_clash
             (\<lambda>_. new_login_row sessionID userID secretHash t)))) (\<lambda>entity.
     ret (to_session entity))))"

definition login_find ::
    "db dbenv \<Rightarrow> string \<Rightarrow> ((db, 'z) db_world_scheme, session_pb option \<times> string \<times> bool) prog" where
  "login_find E secretHash =
     pass (translated (db_exec E (only logins_t (\<lambda>l. ls_secret l = secretHash)))) (\<lambda>entity.
     ret (Some (to_session entity), ls_user entity, ls_revoked entity \<noteq> None))"

definition login_touch ::
    "db dbenv \<Rightarrow> string \<Rightarrow> time \<Rightarrow> ((db, 'z) db_world_scheme, session_pb) prog" where
  "login_touch E sessionID t0 =
     time_or_now E t0 (\<lambda>t.
     pass (translated (db_exec E (only logins_t (\<lambda>l. ls_id l = sessionID)))) (\<lambda>current.
     let idleExpires0 = t + login_session_idle_ttl;
         idleExpires = (if idleExpires0 > ls_absolute current then ls_absolute current else idleExpires0) in
     pass (or_mutation_miss (db_exec E (update_one logins_t
             (\<lambda>l. ls_id l = sessionID \<and> ls_revoked l = None \<and> ls_idle l > t \<and> ls_absolute l > t)
             (\<lambda>_ l. l\<lparr>ls_seen := t, ls_idle := idleExpires\<rparr>)))) (\<lambda>updated.
     ret (to_session updated))))"

definition login_revoke ::
    "db dbenv \<Rightarrow> string \<Rightarrow> time \<Rightarrow> ((db, 'z) db_world_scheme, unit) prog" where
  "login_revoke E sessionID t0 =
     time_or_now E t0 (\<lambda>t.
     check (db_exec E (update_one logins_t (\<lambda>l. ls_id l = sessionID \<and> ls_revoked l = None)
              (\<lambda>_ l. l\<lparr>ls_revoked := Some t\<rparr>)))
       (\<lambda>e. if is_not_found e then ret () else throw (translate_ent_error e)) (\<lambda>_. ret ()))"

definition login_revoke_others ::
    "db dbenv \<Rightarrow> string \<Rightarrow> string \<Rightarrow> time \<Rightarrow> ((db, 'z) db_world_scheme, unit) prog" where
  "login_revoke_others E userID keepSessionID t0 =
     time_or_now E t0 (\<lambda>t.
     discard (translated (db_exec E (update_where logins_t
       (\<lambda>l. ls_user l = userID \<and> ls_id l \<noteq> keepSessionID \<and> ls_revoked l = None)
       (\<lambda>_ l. l\<lparr>ls_revoked := Some t\<rparr>)))))"

definition login_revoke_all ::
    "db dbenv \<Rightarrow> string \<Rightarrow> time \<Rightarrow> ((db, 'z) db_world_scheme, unit) prog" where
  "login_revoke_all E userID t0 =
     time_or_now E t0 (\<lambda>t.
     discard (translated (db_exec E (update_where logins_t
       (\<lambda>l. ls_user l = userID \<and> ls_revoked l = None)
       (\<lambda>_ l. l\<lparr>ls_revoked := Some t\<rparr>)))))"

definition session_repository :: "db dbenv \<Rightarrow> ((db, 'z) db_world_scheme) session_repo" where
  "session_repository E =
     \<lparr>sr_create = login_create E, sr_find = login_find E, sr_touch = login_touch E,
      sr_revoke = login_revoke E, sr_revoke_others = login_revoke_others E,
      sr_revoke_all = login_revoke_all E\<rparr>"

section \<open>OAuth token sessions\<close>

definition revoke_token_sessions_tx ::
    "db dbenv \<Rightarrow> time \<Rightarrow> (tsession_row \<Rightarrow> bool) \<Rightarrow> ((db, 'z) db_world_scheme, unit) prog" where
  "revoke_token_sessions_tx E t P =
     pass (translated (tx_exec E (all_where tsessions_t P))) (\<lambda>rows.
     let ids = set (map ts_id rows) in
     if rows = [] then ret ()
     else
       pass (translated (tx_exec E (update_where tsessions_t (\<lambda>s. ts_id s \<in> ids \<and> ts_revoked s = None)
               (\<lambda>d s. s\<lparr>ts_revoked := Some t, ts_update := d\<rparr>)))) (\<lambda>_.
       pass (translated (tx_exec E (update_where access_t (\<lambda>a. at_session a \<in> ids \<and> at_revoked a = None)
               (\<lambda>_ a. a\<lparr>at_revoked := Some t\<rparr>)))) (\<lambda>_.
       pass (translated (tx_exec E (update_where refresh_t (\<lambda>r. rf_session r \<in> ids \<and> rf_revoked r = None)
               (\<lambda>_ r. r\<lparr>rf_revoked := Some t\<rparr>)))) (\<lambda>_.
       ret ()))))"

definition token_revoke ::
    "db dbenv \<Rightarrow> time \<Rightarrow> (tsession_row \<Rightarrow> bool) \<Rightarrow> ((db, 'z) db_world_scheme, unit) prog" where
  "token_revoke E t P = in_tx E (revoke_token_sessions_tx E t P)"

definition token_revoke_for_login ::
    "db dbenv \<Rightarrow> string \<Rightarrow> time \<Rightarrow> ((db, 'z) db_world_scheme, unit) prog" where
  "token_revoke_for_login E loginSessionID t0 =
     (if loginSessionID = [] then ret ()
      else time_or_now E t0 (\<lambda>t. token_revoke E t (\<lambda>s. ts_login s = loginSessionID)))"

definition token_revoke_all ::
    "db dbenv \<Rightarrow> string \<Rightarrow> time \<Rightarrow> ((db, 'z) db_world_scheme, unit) prog" where
  "token_revoke_all E userID t0 =
     (if userID = [] then ret ()
      else time_or_now E t0 (\<lambda>t. token_revoke E t (\<lambda>s. ts_user s = userID)))"

definition token_session_repository :: "db dbenv \<Rightarrow> ((db, 'z) db_world_scheme) token_session_repo" where
  "token_session_repository E =
     \<lparr>tr_revoke_for_login = token_revoke_for_login E, tr_revoke_all = token_revoke_all E\<rparr>"

section \<open>The bootstrap administrator\<close>

definition create_initial_admin ::
    "db dbenv \<Rightarrow> string \<Rightarrow> string \<Rightarrow> string \<Rightarrow> string \<Rightarrow> time \<Rightarrow> ((db, 'z) db_world_scheme, unit) prog" where
  "create_initial_admin E userID email canonical passwordHash t0 =
     (if userID = [] \<or> email = [] \<or> canonical = [] \<or> passwordHash = []
      then throw (errorf ''initial admin creator: required identity fields are missing'')
      else
        time_or_now E t0 (\<lambda>t.
        create_user_aggregate E (zero_user\<lparr>up_user_id := userID, up_email := Some email\<rparr>)
          passwordHash canonical user_status_active (Some t) t))"

text \<open>
  The tuple that \<open>EnsurePlatformAdmin\<close> writes with the OpenFGA client: user, relation, object, and
  whether duplicates are ignored.
\<close>

definition ensure_platform_admin ::
    "(string \<times> string \<times> string \<Rightarrow> bool \<Rightarrow> ('w, unit) prog) \<Rightarrow> string \<Rightarrow> ('w, unit) prog" where
  "ensure_platform_admin fga_write userID =
     (if userID = [] then throw (errorf ''admin relation writer: user ID is empty'')
      else
        check (fga_write (''user:'' @ userID, ''admin'', ''plateau:default'') True)
          (\<lambda>e. throw (wrap ''write platform admin tuple'' e)) (\<lambda>_. ret ()))"

end
