(* ===== verification/IamContracts.thy ===== *)
theory IamContracts
  imports IamAccount
begin

text \<open>
  What the use cases of \<open>IamBiz\<close> and \<open>IamAccount\<close> need of their ports, as locales. An invariant
  that every port keeps is kept by every use case (\<open>session_ports\<close>, \<open>login_ports\<close>,
  \<open>account_ports\<close>, \<open>user_ports\<close>, \<open>admin_ports\<close>). A secret that the session port reports as
  revoked never resolves (\<open>revoked_secret\<close>), a token that its port refuses never verifies
  (\<open>spent_vtoken\<close>, \<open>spent_rtoken\<close>). \<open>IamKeeps\<close> interprets each of them on the repositories.
\<close>

section \<open>Invariants that ignore the clock\<close>

locale clocked =
  fixes I :: "'z world_scheme \<Rightarrow> bool"
  assumes tick_free: "tick_free I"
begin

lemmas clock_keeps [preserve_intros] =
  preserves_now [OF tick_free] preserves_new_user_id [OF tick_free]
  preserves_new_opaque_secret [OF tick_free] preserves_password_hash [OF tick_free]

end

section \<open>Sessions and login\<close>

locale session_ports = clocked I
  for I :: "'z world_scheme \<Rightarrow> bool" and uc :: "('z world_scheme) session_usecase" +
  assumes get_keeps [preserve_intros]: "preserves I (ur_get (su_users uc) i)"
    and create_keeps [preserve_intros]: "preserves I (sr_create (su_sessions uc) u h t)"
    and find_keeps [preserve_intros]: "preserves I (sr_find (su_sessions uc) h)"
    and touch_keeps [preserve_intros]: "preserves I (sr_touch (su_sessions uc) s t)"
    and revoke_keeps [preserve_intros]: "preserves I (sr_revoke (su_sessions uc) s t)"
    and revoke_others_keeps [preserve_intros]: "preserves I (sr_revoke_others (su_sessions uc) u s t)"
    and revoke_all_keeps [preserve_intros]: "preserves I (sr_revoke_all (su_sessions uc) u t)"
    and token_login_keeps [preserve_intros]:
      "preserves I (tr_revoke_for_login (su_token_sessions uc) s t)"
    and token_all_keeps [preserve_intros]: "preserves I (tr_revoke_all (su_token_sessions uc) u t)"
begin

lemma session_create_keeps [preserve_intros]: "preserves I (session_create E L uc u)"
  unfolding session_create_def by (intro preserve_intros)

lemma session_resolve_keeps [preserve_intros]: "preserves I (session_resolve E L uc s)"
  unfolding session_resolve_def by (intro preserve_intros)

lemma session_logout_keeps [preserve_intros]: "preserves I (session_logout E uc s)"
  unfolding session_logout_def by (intro preserve_intros)

lemma session_revoke_others_keeps [preserve_intros]: "preserves I (session_revoke_others E uc u s)"
  unfolding session_revoke_others_def by (intro preserve_intros)

lemma session_revoke_all_keeps [preserve_intros]: "preserves I (session_revoke_all E uc u)"
  unfolding session_revoke_all_def by (intro preserve_intros)

end

locale login_ports = session_ports I "nu_sessions uc"
  for I :: "'z world_scheme \<Rightarrow> bool" and uc :: "('z world_scheme) authentication_usecase" +
  assumes find_email_keeps [preserve_intros]: "preserves I (ur_find_by_email (nu_users uc) e)"
    and find_password_keeps [preserve_intros]:
      "preserves I (cd_find_active_password (nu_credentials uc) u)"
begin

lemma login_keeps [preserve_intros]: "preserves I (authentication_login E L uc e p)"
  unfolding authentication_login_def by (intro preserve_intros)

end

section \<open>Accounts\<close>

locale account_ports = session_ports I "ac_sessions uc"
  for I :: "'z world_scheme \<Rightarrow> bool" and uc :: "('z world_scheme) account_usecase" +
  assumes user_create_keeps [preserve_intros]: "preserves I (ur_create (ac_users uc) r h c)"
    and find_email_keeps [preserve_intros]: "preserves I (ur_find_by_email (ac_users uc) e)"
    and user_get_keeps [preserve_intros]: "preserves I (ur_get (ac_users uc) i)"
    and activate_keeps [preserve_intros]: "preserves I (ur_activate_email (ac_users uc) i t)"
    and update_profile_keeps [preserve_intros]: "preserves I (ur_update_profile (ac_users uc) i g p)"
    and find_password_keeps [preserve_intros]:
      "preserves I (cd_find_active_password (ac_credentials uc) i)"
    and replace_password_keeps [preserve_intros]:
      "preserves I (cd_replace_password (ac_credentials uc) i a h t)"
    and vtoken_create_keeps [preserve_intros]:
      "preserves I (vr_create (ac_verification_tokens uc) i li h t)"
    and vtoken_consume_keeps [preserve_intros]:
      "preserves I (vr_consume (ac_verification_tokens uc) h t)"
    and rtoken_create_keeps [preserve_intros]: "preserves I (pr_create (ac_reset_tokens uc) i h t)"
    and rtoken_consume_keeps [preserve_intros]:
      "preserves I (pr_consume_and_replace (ac_reset_tokens uc) h ph t)"
    and cap_keeps [preserve_intros]: "preserves I (ac_cap uc c)"
    and mail_verification_keeps [preserve_intros]:
      "preserves I (ms_send_verification (ac_mailer uc) to_addr link hours)"
    and mail_reset_keeps [preserve_intros]:
      "preserves I (ms_send_password_reset (ac_mailer uc) to_addr link hours)"
begin

lemma send_verification_keeps [preserve_intros]: "preserves I (send_verification E L uc m u)"
  unfolding send_verification_def by (intro preserve_intros)

lemma create_pending_user_keeps [preserve_intros]: "preserves I (create_pending_user E L uc i e p f)"
  unfolding create_pending_user_def by (intro preserve_intros)

lemma register_keeps [preserve_intros]: "preserves I (account_register E L uc e p c f)"
  unfolding account_register_def by (intro preserve_intros)

lemma verify_email_keeps [preserve_intros]: "preserves I (account_verify_email E L uc k)"
  unfolding account_verify_email_def by (intro preserve_intros)

lemma resend_keeps [preserve_intros]: "preserves I (account_resend_verification E L uc e c)"
  unfolding account_resend_verification_def by (intro preserve_intros)

lemma request_reset_keeps [preserve_intros]: "preserves I (account_request_password_reset E L uc e c)"
  unfolding account_request_password_reset_def by (intro preserve_intros)

lemma confirm_reset_keeps [preserve_intros]: "preserves I (account_confirm_password_reset E L uc k p)"
  unfolding account_confirm_password_reset_def by (intro preserve_intros)

lemma change_password_keeps [preserve_intros]: "preserves I (account_change_password E L uc i s p q)"
  unfolding account_change_password_def by (intro preserve_intros)

lemma get_profile_keeps [preserve_intros]: "preserves I (account_get_profile uc i)"
  unfolding account_get_profile_def by (intro preserve_intros)

lemma update_profile_use_keeps [preserve_intros]: "preserves I (account_update_profile uc i g p)"
  unfolding account_update_profile_def by (intro preserve_intros)

lemma update_current_profile_keeps [preserve_intros]: "preserves I (account_update_current_profile uc i p)"
  unfolding account_update_current_profile_def by (intro preserve_intros)

end

section \<open>Administration\<close>

locale user_ports = account_ports I "uu_account uc"
  for I :: "'z world_scheme \<Rightarrow> bool" and uc :: "('z world_scheme) user_usecase" +
  assumes sessions: "session_ports I (uu_sessions uc)"
    and admin_get_keeps [preserve_intros]: "preserves I (ur_get (uu_users uc) i)"
    and status_keeps [preserve_intros]: "preserves I (ur_update_status (uu_users uc) i g s t)"
    and update_user_keeps [preserve_intros]: "preserves I (ur_update_user (uu_users uc) i r m g)"
begin

lemmas admin_revoke_all_keeps [preserve_intros] = session_ports.session_revoke_all_keeps [OF sessions]

lemma create_user_keeps [preserve_intros]: "preserves I (user_create_user E L uc i r p)"
  unfolding user_create_user_def by (intro preserve_intros)

lemma get_user_keeps [preserve_intros]: "preserves I (user_get_user uc i)"
  unfolding user_get_user_def by (intro preserve_intros)

lemma update_user_use_keeps [preserve_intros]: "preserves I (user_update_user uc i p)"
  unfolding user_update_user_def by (intro preserve_intros)

lemma update_status_keeps [preserve_intros]: "preserves I (user_update_status E uc i g s)"
  unfolding user_update_status_def by (intro preserve_intros)

lemma disable_keeps [preserve_intros]: "preserves I (user_disable E uc i g)"
  unfolding user_disable_def by (intro preserve_intros)

lemma enable_keeps [preserve_intros]: "preserves I (user_enable E uc i g)"
  unfolding user_enable_def by (intro preserve_intros)

end

locale admin_ports = clocked I
  for I :: "'z world_scheme \<Rightarrow> bool" and ini :: "('z world_scheme) admin_initializer" +
  assumes admin_find_keeps [preserve_intros]: "preserves I (ur_find_by_email (ai_users ini) e)"
    and admin_create_keeps [preserve_intros]: "preserves I (ai_create ini i e c h t)"
    and admin_relation_keeps [preserve_intros]: "preserves I (ai_ensure_admin ini i)"
begin

lemma initialize_keeps [preserve_intros]: "preserves I (admin_initialize E L ini)"
  unfolding admin_initialize_def admin_create_def by (intro preserve_intros)

end

section \<open>Secrets that are spent\<close>

text \<open>An invariant may carry a fact that does not depend on the world.\<close>

lemma preserves_and_fact: "preserves I p \<Longrightarrow> preserves (\<lambda>w. I w \<and> c) p"
  by (simp add: preserves_def)

lemma session_ports_and_fact: "session_ports I uc \<Longrightarrow> session_ports (\<lambda>w. I w \<and> c) uc"
  unfolding session_ports_def session_ports_axioms_def clocked_def
  by (simp add: preserves_and_fact tick_free_def)

lemma account_ports_and_fact: "account_ports I uc \<Longrightarrow> account_ports (\<lambda>w. I w \<and> c) uc"
  unfolding account_ports_def account_ports_axioms_def
  by (simp add: preserves_and_fact session_ports_and_fact)

locale revoked_secret = session_ports I uc
  for I :: "'z world_scheme \<Rightarrow> bool" and uc :: "('z world_scheme) session_usecase" +
  fixes h :: string
  assumes find_revoked: "I w \<Longrightarrow> sr_find (su_sessions uc) h w = (Inr (s, u, r), w') \<Longrightarrow> r"
begin

lemma never_resolves:
  assumes "I w" "hash_opaque_secret L secret = h"
  shows "session_resolve E L uc secret w \<noteq> (Inr x, w')"
  using assms(1) unfolding session_resolve_def
  by (auto simp: check_run seq_run assms(2) split: prod.splits sum.splits if_splits dest: find_revoked)

end

locale spent_vtoken = account_ports I uc
  for I :: "'z world_scheme \<Rightarrow> bool" and uc :: "('z world_scheme) account_usecase" +
  fixes h :: string
  assumes consume_spent: "I w \<Longrightarrow> vr_consume (ac_verification_tokens uc) h t w \<noteq> (Inr u, w')"
begin

lemma never_verifies:
  assumes "I w" "hash_opaque_secret L token = h"
  shows "account_verify_email E L uc token w \<noteq> (Inr x, w')"
proof
  assume "account_verify_email E L uc token w = (Inr x, w')"
  then obtain u v v' where "vr_consume (ac_verification_tokens uc) h (clock E (tick w)) v = (Inr u, v')"
    and v: "v = w\<lparr>tick := Suc (tick w)\<rparr>"
    unfolding account_verify_email_def
    by (auto simp: check_eq seq_eq now_eq assms(2) split: if_splits)
  moreover have "I v" using assms(1) tick_free v by (simp add: tick_free_def)
  ultimately show False using consume_spent by blast
qed

end

locale spent_rtoken = account_ports I uc
  for I :: "'z world_scheme \<Rightarrow> bool" and uc :: "('z world_scheme) account_usecase" +
  fixes h :: string
  assumes reset_spent:
    "I w \<Longrightarrow> pr_consume_and_replace (ac_reset_tokens uc) h p t w \<noteq> (Inr u, w')"
begin

lemma never_resets:
  assumes "I w" "hash_opaque_secret L token = h"
  shows "account_confirm_password_reset E L uc token p w \<noteq> (Inr x, w')"
proof
  assume "account_confirm_password_reset E L uc token p w = (Inr x, w')"
  then obtain ph v u v' t where c: "pr_consume_and_replace (ac_reset_tokens uc) h ph t v = (Inr u, v')"
    and v: "v = w\<lparr>tick := Suc (Suc (tick w))\<rparr>"
    unfolding account_confirm_password_reset_def
    by (auto simp: check_eq seq_eq now_eq password_hash_Inr assms(2) split: if_splits)
  moreover have "I v" using assms(1) tick_free v by (simp add: tick_free_def)
  ultimately show False using reset_spent by blast
qed

end

end
