(* ===== verification/DbEvolve.thy ===== *)
theory DbEvolve
  imports IamSchema
begin

text \<open>
  What every request of the IAM service guarantees about the database, and may rely on from the
  requests that run beside it: the unique indexes hold (\<open>db_wf\<close>), rows of the account and token
  tables stay, their immutable columns do not change, and a revoked session and a consumed token
  keep that state for ever (\<open>db_evolves\<close>). Each table is an instance of the locale
  \<open>evolving_table\<close>, which proves once that the generated statements keep both.
\<close>

section \<open>Rows over time\<close>

definition identifier_evolves :: "identifier_row \<Rightarrow> identifier_row \<Rightarrow> bool" where
  "identifier_evolves r s \<longleftrightarrow> li_id s = li_id r \<and> li_user s = li_user r \<and> li_type s = li_type r
     \<and> li_canonical s = li_canonical r \<and> li_display s = li_display r \<and> li_create s = li_create r
     \<and> (li_verified r \<noteq> None \<longrightarrow> li_verified s \<noteq> None)"

definition user_evolves :: "user_row \<Rightarrow> user_row \<Rightarrow> bool" where
  "user_evolves r s \<longleftrightarrow> us_id s = us_id r \<and> us_create s = us_create r"

definition authenticator_evolves :: "authenticator_row \<Rightarrow> authenticator_row \<Rightarrow> bool" where
  "authenticator_evolves r s \<longleftrightarrow> au_id s = au_id r \<and> au_user s = au_user r \<and> au_type s = au_type r
     \<and> au_create s = au_create r"

definition password_evolves :: "password_row \<Rightarrow> password_row \<Rightarrow> bool" where
  "password_evolves r s \<longleftrightarrow> pw_id s = pw_id r \<and> pw_authenticator s = pw_authenticator r"

text \<open>A consumed token and a revoked session are frozen.\<close>

definition vtoken_evolves :: "vtoken_row \<Rightarrow> vtoken_row \<Rightarrow> bool" where
  "vtoken_evolves r s \<longleftrightarrow> vt_id s = vt_id r \<and> vt_user s = vt_user r \<and> vt_identifier s = vt_identifier r
     \<and> vt_hash s = vt_hash r \<and> vt_expires s = vt_expires r \<and> vt_create s = vt_create r
     \<and> (vt_consumed r \<noteq> None \<longrightarrow> s = r)"

definition rtoken_evolves :: "rtoken_row \<Rightarrow> rtoken_row \<Rightarrow> bool" where
  "rtoken_evolves r s \<longleftrightarrow> rt_id s = rt_id r \<and> rt_user s = rt_user r \<and> rt_hash s = rt_hash r
     \<and> rt_expires s = rt_expires r \<and> rt_create s = rt_create r \<and> (rt_consumed r \<noteq> None \<longrightarrow> s = r)"

definition login_evolves :: "login_row \<Rightarrow> login_row \<Rightarrow> bool" where
  "login_evolves r s \<longleftrightarrow> ls_id s = ls_id r \<and> ls_user s = ls_user r \<and> ls_secret s = ls_secret r
     \<and> ls_create s = ls_create r \<and> ls_absolute s = ls_absolute r \<and> (ls_revoked r \<noteq> None \<longrightarrow> s = r)"

definition code_evolves :: "code_row \<Rightarrow> code_row \<Rightarrow> bool" where
  "code_evolves r s \<longleftrightarrow> co_id s = co_id r \<and> co_hash s = co_hash r \<and> co_request s = co_request r
     \<and> co_client s = co_client r \<and> co_subject s = co_subject r \<and> co_redirect s = co_redirect r
     \<and> co_scopes s = co_scopes r \<and> co_expires s = co_expires r \<and> co_create s = co_create r
     \<and> (co_consumed r \<noteq> None \<longrightarrow> s = r)"

definition tsession_evolves :: "tsession_row \<Rightarrow> tsession_row \<Rightarrow> bool" where
  "tsession_evolves r s \<longleftrightarrow> ts_id s = ts_id r \<and> ts_user s = ts_user r \<and> ts_client s = ts_client r
     \<and> ts_login s = ts_login r \<and> ts_family s = ts_family r \<and> ts_auth_time s = ts_auth_time r
     \<and> ts_amr s = ts_amr r \<and> ts_create s = ts_create r \<and> (ts_revoked r \<noteq> None \<longrightarrow> s = r)"

definition access_evolves :: "access_row \<Rightarrow> access_row \<Rightarrow> bool" where
  "access_evolves r s \<longleftrightarrow> at_id s = at_id r \<and> at_session s = at_session r \<and> at_subject s = at_subject r
     \<and> at_client s = at_client r \<and> at_scopes s = at_scopes r \<and> at_issued s = at_issued r
     \<and> at_expires s = at_expires r \<and> (at_revoked r \<noteq> None \<longrightarrow> s = r)"

definition refresh_evolves :: "refresh_row \<Rightarrow> refresh_row \<Rightarrow> bool" where
  "refresh_evolves r s \<longleftrightarrow> rf_id s = rf_id r \<and> rf_session s = rf_session r \<and> rf_family s = rf_family r
     \<and> rf_hash s = rf_hash r \<and> rf_parent s = rf_parent r \<and> rf_issued s = rf_issued r
     \<and> rf_expires s = rf_expires r \<and> (rf_consumed r \<noteq> None \<longrightarrow> rf_consumed s = rf_consumed r)
     \<and> (rf_revoked r \<noteq> None \<longrightarrow> s = r)"

text \<open>Tables whose rows may be deleted or reconfigured keep their keys only.\<close>

definition request_evolves :: "auth_request_row \<Rightarrow> auth_request_row \<Rightarrow> bool" where
  "request_evolves r s \<longleftrightarrow> oq_id s = oq_id r"
definition client_evolves :: "client_row \<Rightarrow> client_row \<Rightarrow> bool" where
  "client_evolves r s \<longleftrightarrow> cl_id s = cl_id r"
definition key_evolves :: "signing_key_row \<Rightarrow> signing_key_row \<Rightarrow> bool" where
  "key_evolves r s \<longleftrightarrow> sk_id s = sk_id r"

lemmas row_evolves_defs = identifier_evolves_def user_evolves_def authenticator_evolves_def
  password_evolves_def vtoken_evolves_def rtoken_evolves_def login_evolves_def code_evolves_def
  tsession_evolves_def access_evolves_def refresh_evolves_def request_evolves_def client_evolves_def
  key_evolves_def

lemmas clash_defs = user_clash_def identifier_clash_def authenticator_clash_def password_clash_def
  vtoken_clash_def rtoken_clash_def login_clash_def auth_request_clash_def code_clash_def
  tsession_clash_def access_clash_def refresh_clash_def client_clash_def signing_key_clash_def

section \<open>Tables over time\<close>

definition rows_evolve :: "('a \<Rightarrow> 'a \<Rightarrow> bool) \<Rightarrow> 'a list \<Rightarrow> 'a list \<Rightarrow> bool" where
  "rows_evolve R xs ys \<longleftrightarrow> (\<forall>r \<in> set xs. \<exists>s \<in> set ys. R r s)"

definition no_clash :: "('a \<Rightarrow> 'a \<Rightarrow> bool) \<Rightarrow> 'a list \<Rightarrow> bool" where
  "no_clash clash rows \<longleftrightarrow> sorted_wrt (\<lambda>r s. \<not> clash s r) rows"

lemma rows_evolve_refl: "(\<And>r. R r r) \<Longrightarrow> rows_evolve R xs xs"
  by (auto simp: rows_evolve_def)

lemma rows_evolve_trans:
  "(\<And>r s u. R r s \<Longrightarrow> R s u \<Longrightarrow> R r u) \<Longrightarrow> rows_evolve R xs ys \<Longrightarrow> rows_evolve R ys zs \<Longrightarrow> rows_evolve R xs zs"
  unfolding rows_evolve_def by metis

lemma rows_evolveD: "rows_evolve R xs ys \<Longrightarrow> r \<in> set xs \<Longrightarrow> \<exists>s \<in> set ys. R r s"
  by (simp add: rows_evolve_def)

lemma no_clash_create: "no_clash clash rows \<Longrightarrow> \<not> list_ex (clash row) rows \<Longrightarrow> no_clash clash (rows @ [row])"
  by (auto simp: no_clash_def sorted_wrt_append list_ex_iff)

lemma no_clash_map:
  "(\<And>r s. clash (g r) (g s) = clash r s) \<Longrightarrow> no_clash clash rows \<Longrightarrow> no_clash clash (map g rows)"
  by (simp add: no_clash_def sorted_wrt_map)

lemma no_clash_filter: "no_clash clash rows \<Longrightarrow> no_clash clash (filter P rows)"
  by (simp add: no_clash_def sorted_wrt_filter)

lemma no_clash_unique: "(\<And>r s. key r = key s \<Longrightarrow> clash r s) \<Longrightarrow> no_clash clash rows \<Longrightarrow> unique_by key rows"
proof -
  assume c: "\<And>r s. key r = key s \<Longrightarrow> clash r s" and n: "no_clash clash rows"
  have "sorted_wrt (\<lambda>r s. key r \<noteq> key s) rows"
    by (rule sorted_wrt_mono_rel [OF _ n [unfolded no_clash_def]]) (metis c)
  then show "unique_by key rows" by (induction rows) (auto simp: unique_by_def)
qed

definition db_wf :: "db \<Rightarrow> bool" where
  "db_wf d \<longleftrightarrow>
     no_clash user_clash (db_users d) \<and> no_clash identifier_clash (db_identifiers d)
     \<and> no_clash authenticator_clash (db_authenticators d) \<and> no_clash password_clash (db_passwords d)
     \<and> no_clash vtoken_clash (db_vtokens d) \<and> no_clash rtoken_clash (db_rtokens d)
     \<and> no_clash login_clash (db_logins d) \<and> no_clash auth_request_clash (db_requests d)
     \<and> no_clash code_clash (db_codes d) \<and> no_clash tsession_clash (db_tsessions d)
     \<and> no_clash access_clash (db_access d) \<and> no_clash refresh_clash (db_refresh d)
     \<and> no_clash client_clash (db_clients d) \<and> no_clash signing_key_clash (db_keys d)"

definition db_evolves :: "db \<Rightarrow> db \<Rightarrow> bool" where
  "db_evolves d e \<longleftrightarrow>
     rows_evolve user_evolves (db_users d) (db_users e)
     \<and> rows_evolve identifier_evolves (db_identifiers d) (db_identifiers e)
     \<and> rows_evolve authenticator_evolves (db_authenticators d) (db_authenticators e)
     \<and> rows_evolve password_evolves (db_passwords d) (db_passwords e)
     \<and> rows_evolve vtoken_evolves (db_vtokens d) (db_vtokens e)
     \<and> rows_evolve rtoken_evolves (db_rtokens d) (db_rtokens e)
     \<and> rows_evolve login_evolves (db_logins d) (db_logins e)
     \<and> rows_evolve code_evolves (db_codes d) (db_codes e)
     \<and> rows_evolve tsession_evolves (db_tsessions d) (db_tsessions e)
     \<and> rows_evolve access_evolves (db_access d) (db_access e)
     \<and> rows_evolve refresh_evolves (db_refresh d) (db_refresh e)"

definition db_reach :: "db \<Rightarrow> db \<Rightarrow> bool" where
  "db_reach d e \<longleftrightarrow> db_wf e \<and> db_evolves d e"

lemma empty_db_wf: "db_wf empty_db"
  by (simp add: db_wf_def empty_db_def no_clash_def)

lemma row_evolves_refl: 
  "user_evolves a a" "identifier_evolves b b" "authenticator_evolves c c" "password_evolves d d"
  "vtoken_evolves e e" "rtoken_evolves f f" "login_evolves g g" "code_evolves h h"
  "tsession_evolves i i" "access_evolves j j" "refresh_evolves k k"
  by (simp_all add: row_evolves_defs)

lemma row_evolves_trans:
  "user_evolves a a' \<Longrightarrow> user_evolves a' a'' \<Longrightarrow> user_evolves a a''"
  "identifier_evolves b b' \<Longrightarrow> identifier_evolves b' b'' \<Longrightarrow> identifier_evolves b b''"
  "authenticator_evolves c c' \<Longrightarrow> authenticator_evolves c' c'' \<Longrightarrow> authenticator_evolves c c''"
  "password_evolves p p' \<Longrightarrow> password_evolves p' p'' \<Longrightarrow> password_evolves p p''"
  "vtoken_evolves e e' \<Longrightarrow> vtoken_evolves e' e'' \<Longrightarrow> vtoken_evolves e e''"
  "rtoken_evolves f f' \<Longrightarrow> rtoken_evolves f' f'' \<Longrightarrow> rtoken_evolves f f''"
  "login_evolves g g' \<Longrightarrow> login_evolves g' g'' \<Longrightarrow> login_evolves g g''"
  "code_evolves h h' \<Longrightarrow> code_evolves h' h'' \<Longrightarrow> code_evolves h h''"
  "tsession_evolves i i' \<Longrightarrow> tsession_evolves i' i'' \<Longrightarrow> tsession_evolves i i''"
  "access_evolves j j' \<Longrightarrow> access_evolves j' j'' \<Longrightarrow> access_evolves j j''"
  "refresh_evolves k k' \<Longrightarrow> refresh_evolves k' k'' \<Longrightarrow> refresh_evolves k k''"
  unfolding row_evolves_defs by (safe; simp)+

lemma rows_evolve_refls:
  "rows_evolve user_evolves xa xa" "rows_evolve identifier_evolves xb xb"
  "rows_evolve authenticator_evolves xc xc" "rows_evolve password_evolves xd xd"
  "rows_evolve vtoken_evolves xe xe" "rows_evolve rtoken_evolves xf xf"
  "rows_evolve login_evolves xg xg" "rows_evolve code_evolves xh xh"
  "rows_evolve tsession_evolves xi xi" "rows_evolve access_evolves xj xj"
  "rows_evolve refresh_evolves xk xk"
  by (rule rows_evolve_refl, rule row_evolves_refl)+

lemma rows_evolve_transs:
  "rows_evolve user_evolves xa ya \<Longrightarrow> rows_evolve user_evolves ya za \<Longrightarrow> rows_evolve user_evolves xa za"
  "rows_evolve identifier_evolves xb yb \<Longrightarrow> rows_evolve identifier_evolves yb zb
     \<Longrightarrow> rows_evolve identifier_evolves xb zb"
  "rows_evolve authenticator_evolves xc yc \<Longrightarrow> rows_evolve authenticator_evolves yc zc
     \<Longrightarrow> rows_evolve authenticator_evolves xc zc"
  "rows_evolve password_evolves xd yd \<Longrightarrow> rows_evolve password_evolves yd zd
     \<Longrightarrow> rows_evolve password_evolves xd zd"
  "rows_evolve vtoken_evolves xe ye \<Longrightarrow> rows_evolve vtoken_evolves ye ze \<Longrightarrow> rows_evolve vtoken_evolves xe ze"
  "rows_evolve rtoken_evolves xf yf \<Longrightarrow> rows_evolve rtoken_evolves yf zf \<Longrightarrow> rows_evolve rtoken_evolves xf zf"
  "rows_evolve login_evolves xg yg \<Longrightarrow> rows_evolve login_evolves yg zg \<Longrightarrow> rows_evolve login_evolves xg zg"
  "rows_evolve code_evolves xh yh \<Longrightarrow> rows_evolve code_evolves yh zh \<Longrightarrow> rows_evolve code_evolves xh zh"
  "rows_evolve tsession_evolves xi yi \<Longrightarrow> rows_evolve tsession_evolves yi zi
     \<Longrightarrow> rows_evolve tsession_evolves xi zi"
  "rows_evolve access_evolves xj yj \<Longrightarrow> rows_evolve access_evolves yj zj \<Longrightarrow> rows_evolve access_evolves xj zj"
  "rows_evolve refresh_evolves xk yk \<Longrightarrow> rows_evolve refresh_evolves yk zk
     \<Longrightarrow> rows_evolve refresh_evolves xk zk"
  by (erule (1) rows_evolve_trans [rotated]; blast intro: row_evolves_trans)+

lemma db_evolves_refl: "db_evolves d d"
  unfolding db_evolves_def by (intro conjI rows_evolve_refls)

lemma db_evolves_trans: "db_evolves a b \<Longrightarrow> db_evolves b c \<Longrightarrow> db_evolves a c"
  unfolding db_evolves_def by (elim conjE, intro conjI; erule (1) rows_evolve_transs)

lemma db_reach_refl: "db_wf d \<Longrightarrow> db_reach d d"
  by (simp add: db_reach_def db_evolves_refl)

lemma db_reach_trans: "db_reach a b \<Longrightarrow> db_reach b c \<Longrightarrow> db_reach a c"
  by (auto simp: db_reach_def intro: db_evolves_trans)

section \<open>The statements of a table\<close>

locale evolving_table =
  fixes T :: "(db, 'a) table"
    and valid :: "'a \<Rightarrow> bool"
    and clash :: "'a \<Rightarrow> 'a \<Rightarrow> bool"
    and evolves :: "'a \<Rightarrow> 'a \<Rightarrow> bool"
  assumes get_wf: "db_wf d \<Longrightarrow> no_clash clash (tb_get T d)"
    and put_reach: "db_reach d0 d \<Longrightarrow> no_clash clash rows \<Longrightarrow> rows_evolve evolves (tb_get T d) rows
          \<Longrightarrow> db_reach d0 (tb_put T rows d)"
    and evolves_refl: "evolves r r"
    and clash_evolves: "evolves r r' \<Longrightarrow> evolves s s' \<Longrightarrow> clash r' s' = clash r s"
begin

lemma get_no_clash: "db_reach d0 d \<Longrightarrow> no_clash clash (tb_get T d)"
  by (simp add: db_reach_def get_wf)

lemma reach_create:
  "db_reach d0 d \<Longrightarrow> db_reach d0 (snd (create T valid clash row t d))"
proof -
  assume r: "db_reach d0 d"
  have "rows_evolve evolves (tb_get T d) (tb_get T d)" by (rule rows_evolve_refl) (rule evolves_refl)
  then have "rows_evolve evolves (tb_get T d) (tb_get T d @ [row t])"
    by (auto simp: rows_evolve_def)
  then show ?thesis
    unfolding stmt_snd using r get_no_clash [OF r]
    by (auto intro!: put_reach no_clash_create rows_evolve_refl evolves_refl)
qed

lemma reach_update_where:
  assumes r: "db_reach d0 d" and f: "\<And>x. P x \<Longrightarrow> evolves x (f x)"
  shows "db_reach d0 (tb_put T (ent_update_where P f (tb_get T d)) d)"
proof (rule put_reach [OF r])
  let ?g = "\<lambda>x. if P x then f x else x"
  have g: "evolves x (?g x)" for x using f evolves_refl by simp
  show "no_clash clash (ent_update_where P f (tb_get T d))"
    unfolding ent_update_where_def using g clash_evolves get_no_clash [OF r]
    by (blast intro: no_clash_map)
  show "rows_evolve evolves (tb_get T d) (ent_update_where P f (tb_get T d))"
    unfolding rows_evolve_def ent_update_where_def set_map using g by (meson imageI)
qed

lemma keeps_create [preserve_intros]: "stmt_keeps (db_reach d0) (create T valid clash row)"
  by (simp add: stmt_keeps_def reach_create)

lemma keeps_update_one [preserve_intros]:
  "(\<And>t x. P x \<Longrightarrow> evolves x (f t x)) \<Longrightarrow> stmt_keeps (db_reach d0) (update_one T P f)"
  by (simp add: stmt_keeps_def stmt_snd reach_update_where)

lemma keeps_update_where [preserve_intros]:
  "(\<And>t x. P x \<Longrightarrow> evolves x (f t x)) \<Longrightarrow> stmt_keeps (db_reach d0) (update_where T P f)"
  by (simp add: stmt_keeps_def stmt_snd reach_update_where)

end

lemmas reach_defs = db_reach_def db_wf_def db_evolves_def

interpretation users_table: evolving_table users_t user_valid user_clash user_evolves
  by (unfold_locales, (auto simp: users_t_def reach_defs intro: rows_evolve_transs)[2],
      auto simp: user_evolves_def user_clash_def)

interpretation identifiers_table: evolving_table identifiers_t identifier_valid identifier_clash identifier_evolves
  by (unfold_locales, (auto simp: identifiers_t_def reach_defs intro: rows_evolve_transs)[2],
      auto simp: identifier_evolves_def identifier_clash_def)

interpretation authenticators_table: evolving_table authenticators_t authenticator_valid authenticator_clash authenticator_evolves
  by (unfold_locales, (auto simp: authenticators_t_def reach_defs intro: rows_evolve_transs)[2],
      auto simp: authenticator_evolves_def authenticator_clash_def)

interpretation passwords_table: evolving_table passwords_t password_valid password_clash password_evolves
  by (unfold_locales, (auto simp: passwords_t_def reach_defs intro: rows_evolve_transs)[2],
      auto simp: password_evolves_def password_clash_def)

interpretation vtokens_table: evolving_table vtokens_t vtoken_valid vtoken_clash vtoken_evolves
  by (unfold_locales, (auto simp: vtokens_t_def reach_defs intro: rows_evolve_transs)[2],
      auto simp: vtoken_evolves_def vtoken_clash_def)

interpretation rtokens_table: evolving_table rtokens_t rtoken_valid rtoken_clash rtoken_evolves
  by (unfold_locales, (auto simp: rtokens_t_def reach_defs intro: rows_evolve_transs)[2],
      auto simp: rtoken_evolves_def rtoken_clash_def)

interpretation logins_table: evolving_table logins_t login_valid login_clash login_evolves
  by (unfold_locales, (auto simp: logins_t_def reach_defs intro: rows_evolve_transs)[2],
      auto simp: login_evolves_def login_clash_def)

interpretation codes_table: evolving_table codes_t code_valid code_clash code_evolves
  by (unfold_locales, (auto simp: codes_t_def reach_defs intro: rows_evolve_transs)[2],
      auto simp: code_evolves_def code_clash_def)

interpretation tsessions_table: evolving_table tsessions_t tsession_valid tsession_clash tsession_evolves
  by (unfold_locales, (auto simp: tsessions_t_def reach_defs intro: rows_evolve_transs)[2],
      auto simp: tsession_evolves_def tsession_clash_def)

interpretation access_table: evolving_table access_t access_valid access_clash access_evolves
  by (unfold_locales, (auto simp: access_t_def reach_defs intro: rows_evolve_transs)[2],
      auto simp: access_evolves_def access_clash_def)

interpretation refresh_table: evolving_table refresh_t refresh_valid refresh_clash refresh_evolves
  by (unfold_locales, (auto simp: refresh_t_def reach_defs intro: rows_evolve_transs)[2],
      auto simp: refresh_evolves_def refresh_clash_def)

interpretation requests_table: evolving_table requests_t auth_request_valid auth_request_clash request_evolves
  by (unfold_locales, (auto simp: requests_t_def reach_defs intro: rows_evolve_transs)[2],
      auto simp: request_evolves_def auth_request_clash_def)

interpretation clients_table: evolving_table clients_t client_valid client_clash client_evolves
  by (unfold_locales, (auto simp: clients_t_def reach_defs intro: rows_evolve_transs)[2],
      auto simp: client_evolves_def client_clash_def)

interpretation keys_table: evolving_table keys_t signing_key_valid signing_key_clash key_evolves
  by (unfold_locales, (auto simp: keys_t_def reach_defs intro: rows_evolve_transs)[2],
      auto simp: key_evolves_def signing_key_clash_def)

lemma delete_requests_keeps [preserve_intros]: "stmt_keeps (db_reach d0) (delete_where requests_t P)"
  by (auto simp: stmt_keeps_def delete_where_def ent_delete_def requests_t_def reach_defs no_clash_filter)

section \<open>Keys\<close>

lemma wf_unique:
  assumes "db_wf d"
  shows
    "unique_by us_id (db_users d)"
    and "unique_by li_id (db_identifiers d)"
    and "unique_by au_id (db_authenticators d)"
    and "unique_by pw_id (db_passwords d)"
    and "unique_by pw_authenticator (db_passwords d)"
    and "unique_by vt_id (db_vtokens d)"
    and "unique_by vt_hash (db_vtokens d)"
    and "unique_by rt_id (db_rtokens d)"
    and "unique_by rt_hash (db_rtokens d)"
    and "unique_by ls_id (db_logins d)"
    and "unique_by ls_secret (db_logins d)"
    and "unique_by oq_id (db_requests d)"
    and "unique_by co_id (db_codes d)"
    and "unique_by co_hash (db_codes d)"
    and "unique_by ts_id (db_tsessions d)"
    and "unique_by at_id (db_access d)"
    and "unique_by rf_id (db_refresh d)"
    and "unique_by rf_hash (db_refresh d)"
    and "unique_by cl_id (db_clients d)"
    and "unique_by sk_id (db_keys d)"
    and "unique_by (\<lambda>i. (li_type i, li_canonical i)) (db_identifiers d)"
    and "unique_by (\<lambda>i. (li_user i, li_type i)) (db_identifiers d)"
  using assms unfolding db_wf_def
  by - (elim conjE, erule no_clash_unique [rotated], simp add: clash_defs)+

text \<open>What the end of a time line still shows of a row.\<close>

lemma reach_rowsD:
  assumes "db_reach d e"
  shows
    "u \<in> set (db_users d) \<Longrightarrow> \<exists>u' \<in> set (db_users e). user_evolves u u'"
    "i \<in> set (db_identifiers d) \<Longrightarrow> \<exists>i' \<in> set (db_identifiers e). identifier_evolves i i'"
    "a \<in> set (db_authenticators d) \<Longrightarrow> \<exists>a' \<in> set (db_authenticators e). authenticator_evolves a a'"
    "p \<in> set (db_passwords d) \<Longrightarrow> \<exists>p' \<in> set (db_passwords e). password_evolves p p'"
    "v \<in> set (db_vtokens d) \<Longrightarrow> \<exists>v' \<in> set (db_vtokens e). vtoken_evolves v v'"
    "r \<in> set (db_rtokens d) \<Longrightarrow> \<exists>r' \<in> set (db_rtokens e). rtoken_evolves r r'"
    "l \<in> set (db_logins d) \<Longrightarrow> \<exists>l' \<in> set (db_logins e). login_evolves l l'"
    "c \<in> set (db_codes d) \<Longrightarrow> \<exists>c' \<in> set (db_codes e). code_evolves c c'"
    "s \<in> set (db_tsessions d) \<Longrightarrow> \<exists>s' \<in> set (db_tsessions e). tsession_evolves s s'"
    "x \<in> set (db_access d) \<Longrightarrow> \<exists>x' \<in> set (db_access e). access_evolves x x'"
    "f \<in> set (db_refresh d) \<Longrightarrow> \<exists>f' \<in> set (db_refresh e). refresh_evolves f f'"
  using assms by (auto simp: reach_defs dest: rows_evolveD)

section \<open>Other requests\<close>

definition others_ok :: "db dbenv \<Rightarrow> bool" where
  "others_ok E \<longleftrightarrow> (\<forall>n d. db_wf d \<longrightarrow> db_reach d (de_others E n d))"

lemma others_ok_keep [preserve_intros]: "others_ok E \<Longrightarrow> others_keep E (db_reach d0)"
  unfolding others_ok_def others_keep_def by (meson db_reach_def db_reach_trans)

lemma others_okD: "others_ok E \<Longrightarrow> db_reach d0 d \<Longrightarrow> db_reach d0 (de_others E n d)"
  using others_ok_keep unfolding others_keep_def by blast

text \<open>One statement of its own: other requests first, then the statement.\<close>

lemma exec_step:
  assumes "others_ok E" "db_wf (dw_db w)" "db_exec E s w = (Inr x, w')"
  obtains d where "db_reach (dw_db w) d" "s (clock E (tick w)) d = (Inr x, dw_db w')"
  using assms unfolding db_exec_Inr others_ok_def by force

lemma read_step:
  assumes "others_ok E" "db_wf (dw_db w)" "db_exec E (only T P) w = (Inr x, w')"
  shows "db_reach (dw_db w) (dw_db w')" "ent_only P (tb_get T (dw_db w')) = Inr x"
  using exec_step [OF assms] by (force simp: only_Inr)+

lemma tx_step:
  assumes "others_ok E" "db_wf (dw_db w)" "in_tx_with b c E body w = (Inr x, w')"
  obtains v u where "db_reach (dw_db w) (dw_db v)" "body v = (Inr x, u)" "dw_db w' = dw_db u"
proof -
  from assms(3) obtain u where
    "body (w\<lparr>dw_db := de_others E (tick w) (dw_db w), tick := Suc (tick w)\<rparr>) = (Inr x, u)"
    "w' = u\<lparr>tick := Suc (tick u)\<rparr>" unfolding in_tx_Inr by blast
  with assms(1,2) show thesis by (intro that [OF _ \<open>body _ = _\<close>]) (simp_all add: others_ok_def)
qed

text \<open>A failure of the database itself is not the \<open>NotFound\<close> of an empty result.\<close>

definition plain_faults :: "'e env_scheme \<Rightarrow> bool" where
  "plain_faults E \<longleftrightarrow> (\<forall>n e. store_fault E n = Some e \<longrightarrow> \<not> is_not_found e)"

lemma update_not_found:
  assumes "plain_faults E" "db_exec E (update_one T P f) w = (Inl e, w')" "is_not_found e"
    and tb: "\<And>rows d. tb_get T (tb_put T rows d) = rows"
  shows "\<forall>r \<in> set (tb_get T (dw_db w')). \<not> P r"
  using assms(1,2,3)
  by (auto simp: db_exec_def seq_def interfere_def tx_exec_def plain_faults_def update_one_def tb
      split: option.splits prod.splits dest: ent_update_one_Inl)

lemma quiet_ok: "quiet E \<Longrightarrow> others_ok E" "quiet E \<Longrightarrow> plain_faults E"
  by (simp_all add: quiet_def others_ok_def db_reach_refl plain_faults_def)

end
