(* ===== verification/IamKeeps.thy ===== *)
theory IamKeeps
  imports IamData IamContracts DbEvolve
begin

text \<open>
  The use cases on the repositories, as the service wires them (\<open>cmd/server/wire.go\<close>), and the
  interpretation of the contracts of \<open>IamContracts\<close>: every operation keeps the unique indexes and
  lets the database evolve (\<open>DbEvolve\<close>), whatever other requests do beside it, as long as they do
  the same.
\<close>

section \<open>Repositories keep what DbEvolve states\<close>

lemma on_db_clock_keeps [preserve_intros]:
  "preserves (on_db J) (new_user_id E)" "preserves (on_db J) (new_opaque_secret E L)"
  "preserves (on_db J) (password_hash A p)"
  by (intro preserves_new_user_id preserves_new_opaque_secret preserves_password_hash on_db_tick_free)+

lemma on_db_time_or_now [preserve_intros]:
  "(\<And>t. preserves (on_db J) (k t)) \<Longrightarrow> preserves (on_db J) (time_or_now E t0 k)"
  by (intro preserves_time_or_now preserves_on_db_now)

lemma to_resources_keeps [preserve_intros]:
  "others_ok E \<Longrightarrow> preserves (on_db (db_reach d0)) (to_resources E L us)"
  unfolding to_resources_def by (intro preserve_intros; simp add: row_evolves_defs)

lemma user_get_keeps [preserve_intros]:
  "others_ok E \<Longrightarrow> preserves (on_db (db_reach d0)) (user_get E L i)"
  unfolding user_get_def by (intro preserve_intros; simp add: row_evolves_defs)

lemma user_find_by_email_keeps [preserve_intros]:
  "others_ok E \<Longrightarrow> preserves (on_db (db_reach d0)) (user_find_by_email E L c)"
  unfolding user_find_by_email_def by (intro preserve_intros; simp add: row_evolves_defs)

lemma create_aggregate_keeps [preserve_intros]:
  "others_ok E \<Longrightarrow> preserves (on_db (db_reach d0)) (create_user_aggregate E r h c s v t)"
  unfolding create_user_aggregate_def create_aggregate_tx_def by (intro preserve_intros; simp add: row_evolves_defs)

lemma user_create_keeps [preserve_intros]:
  "others_ok E \<Longrightarrow> preserves (on_db (db_reach d0)) (user_create E L r h c)"
  unfolding user_create_def by (intro preserve_intros; simp add: row_evolves_defs)

lemma user_activate_email_keeps [preserve_intros]:
  "others_ok E \<Longrightarrow> preserves (on_db (db_reach d0)) (user_activate_email E i t)"
  unfolding user_activate_email_def activate_email_tx_def by (intro preserve_intros; simp add: row_evolves_defs)

lemma update_profile_fields_keeps [preserve_intros]:
  "others_ok E \<Longrightarrow> preserves (on_db (db_reach d0)) (update_profile_fields E L i g r m)"
  unfolding update_profile_fields_def by (intro preserve_intros; simp add: row_evolves_defs)

lemma user_update_profile_keeps [preserve_intros]:
  "others_ok E \<Longrightarrow> preserves (on_db (db_reach d0)) (user_update_profile E L i g p)"
  unfolding user_update_profile_def by (intro preserve_intros; simp add: row_evolves_defs)

lemma user_update_masked_keeps [preserve_intros]:
  "others_ok E \<Longrightarrow> preserves (on_db (db_reach d0)) (user_update_masked E L i ro mo g)"
  unfolding user_update_masked_def by (intro preserve_intros; simp add: row_evolves_defs)

lemma user_set_status_keeps [preserve_intros]:
  "others_ok E \<Longrightarrow> preserves (on_db (db_reach d0)) (user_set_status E L i g s t)"
  unfolding user_set_status_def update_status_tx_def by (intro preserve_intros; simp add: row_evolves_defs)

lemma create_initial_admin_keeps [preserve_intros]:
  "others_ok E \<Longrightarrow> preserves (on_db (db_reach d0)) (create_initial_admin E i em c h t)"
  unfolding create_initial_admin_def by (intro preserve_intros; simp add: row_evolves_defs)

lemma vtoken_create_keeps [preserve_intros]:
  "others_ok E \<Longrightarrow> preserves (on_db (db_reach d0)) (vtoken_create E i li h t)"
  unfolding vtoken_create_def by (intro preserve_intros; simp add: row_evolves_defs)

lemma vtoken_consume_keeps [preserve_intros]:
  "others_ok E \<Longrightarrow> preserves (on_db (db_reach d0)) (vtoken_consume E h t)"
  unfolding vtoken_consume_def by (intro preserve_intros; simp add: row_evolves_defs)

lemma rtoken_create_keeps [preserve_intros]:
  "others_ok E \<Longrightarrow> preserves (on_db (db_reach d0)) (rtoken_create E i h t)"
  unfolding rtoken_create_def by (intro preserve_intros; simp add: row_evolves_defs)

lemma rtoken_consume_keeps [preserve_intros]:
  "others_ok E \<Longrightarrow> preserves (on_db (db_reach d0)) (rtoken_consume_and_replace E h p t)"
  unfolding rtoken_consume_and_replace_def consume_and_replace_tx_def by (intro preserve_intros; simp add: row_evolves_defs)

lemma credential_find_keeps [preserve_intros]:
  "others_ok E \<Longrightarrow> preserves (on_db (db_reach d0)) (credential_find_active E i)"
  unfolding credential_find_active_def by (intro preserve_intros; simp add: row_evolves_defs)

lemma credential_replace_keeps [preserve_intros]:
  "others_ok E \<Longrightarrow> preserves (on_db (db_reach d0)) (credential_replace_password E i a h t)"
  unfolding credential_replace_password_def replace_password_tx_def by (intro preserve_intros; simp add: row_evolves_defs)

lemma login_create_keeps [preserve_intros]:
  "others_ok E \<Longrightarrow> preserves (on_db (db_reach d0)) (login_create E i h t)"
  unfolding login_create_def by (intro preserve_intros; simp add: row_evolves_defs)

lemma login_find_keeps [preserve_intros]:
  "others_ok E \<Longrightarrow> preserves (on_db (db_reach d0)) (login_find E h)"
  unfolding login_find_def by (intro preserve_intros; simp add: row_evolves_defs)

lemma login_touch_keeps [preserve_intros]:
  "others_ok E \<Longrightarrow> preserves (on_db (db_reach d0)) (login_touch E s t)"
  unfolding login_touch_def by (intro preserve_intros; simp add: row_evolves_defs)

lemma login_revoke_keeps [preserve_intros]:
  "others_ok E \<Longrightarrow> preserves (on_db (db_reach d0)) (login_revoke E s t)"
  unfolding login_revoke_def by (intro preserve_intros; simp add: row_evolves_defs)

lemma login_revoke_others_keeps [preserve_intros]:
  "others_ok E \<Longrightarrow> preserves (on_db (db_reach d0)) (login_revoke_others E i s t)"
  unfolding login_revoke_others_def by (intro preserve_intros; simp add: row_evolves_defs)

lemma login_revoke_all_keeps [preserve_intros]:
  "others_ok E \<Longrightarrow> preserves (on_db (db_reach d0)) (login_revoke_all E i t)"
  unfolding login_revoke_all_def by (intro preserve_intros; simp add: row_evolves_defs)

lemma token_revoke_keeps [preserve_intros]:
  "others_ok E \<Longrightarrow> preserves (on_db (db_reach d0)) (token_revoke E t P)"
  unfolding token_revoke_def revoke_token_sessions_tx_def by (intro preserve_intros; simp add: row_evolves_defs)

lemma token_revoke_for_login_keeps [preserve_intros]:
  "others_ok E \<Longrightarrow> preserves (on_db (db_reach d0)) (token_revoke_for_login E s t)"
  unfolding token_revoke_for_login_def by (intro preserve_intros; simp add: row_evolves_defs)

lemma token_revoke_all_keeps [preserve_intros]:
  "others_ok E \<Longrightarrow> preserves (on_db (db_reach d0)) (token_revoke_all E i t)"
  unfolding token_revoke_all_def by (intro preserve_intros; simp add: row_evolves_defs)

section \<open>The service as it is wired\<close>

text \<open>The ports outside the database: captcha, mail, and the tuple writes of OpenFGA.\<close>

record 'w iam_deps =
  id_captcha :: "string \<Rightarrow> ('w, bool) prog"
  id_mailer :: "'w mail_sender"
  id_fga_write :: "string \<times> string \<times> string \<Rightarrow> bool \<Rightarrow> ('w, unit) prog"
  id_origin :: string
  id_admin_email :: string

definition iam_sessions :: "db dbenv \<Rightarrow> iam_lib \<Rightarrow> ((db, 'z) db_world_scheme) session_usecase" where
  "iam_sessions E L = \<lparr>su_users = user_repository E L, su_sessions = session_repository E,
     su_token_sessions = token_session_repository E\<rparr>"

definition iam_authentication :: "db dbenv \<Rightarrow> iam_lib \<Rightarrow> ((db, 'z) db_world_scheme) authentication_usecase" where
  "iam_authentication E L = \<lparr>nu_users = user_repository E L, nu_credentials = credential_repository E,
     nu_sessions = iam_sessions E L\<rparr>"

definition iam_account ::
    "db dbenv \<Rightarrow> iam_lib \<Rightarrow> ((db, 'z) db_world_scheme) iam_deps \<Rightarrow> ((db, 'z) db_world_scheme) account_usecase" where
  "iam_account E L D =
     \<lparr>ac_users = user_repository E L, ac_credentials = credential_repository E,
      ac_verification_tokens = verification_token_repository E,
      ac_reset_tokens = password_reset_token_repository E, ac_cap = id_captcha D,
      ac_mailer = id_mailer D, ac_sessions = iam_sessions E L,
      ac_verification_origin = trim_right_char (CHR ''/'') (trim_space (id_origin D))\<rparr>"

definition iam_users ::
    "db dbenv \<Rightarrow> iam_lib \<Rightarrow> ((db, 'z) db_world_scheme) iam_deps \<Rightarrow> ((db, 'z) db_world_scheme) user_usecase" where
  "iam_users E L D = \<lparr>uu_account = iam_account E L D, uu_sessions = iam_sessions E L,
     uu_users = user_repository E L\<rparr>"

definition iam_admin ::
    "db dbenv \<Rightarrow> iam_lib \<Rightarrow> ((db, 'z) db_world_scheme) iam_deps \<Rightarrow> ((db, 'z) db_world_scheme) admin_initializer" where
  "iam_admin E L D = \<lparr>ai_email = id_admin_email D, ai_users = user_repository E L,
     ai_create = create_initial_admin E, ai_ensure_admin = ensure_platform_admin (id_fga_write D)\<rparr>"

lemmas wired = iam_sessions_def iam_authentication_def iam_account_def iam_users_def iam_admin_def
  user_repository_def session_repository_def token_session_repository_def credential_repository_def
  verification_token_repository_def password_reset_token_repository_def

text \<open>Captcha, mail and tuple writes leave the database alone.\<close>

definition leaves_db :: "((db, 'z) db_world_scheme, 'a) run \<Rightarrow> bool" where
  "leaves_db p \<longleftrightarrow> (\<forall>w. dw_db (snd (p w)) = dw_db w)"

definition deps_ok :: "((db, 'z) db_world_scheme) iam_deps \<Rightarrow> bool" where
  "deps_ok D \<longleftrightarrow>
     (\<forall>c. leaves_db (id_captcha D c)) \<and> (\<forall>t b. leaves_db (id_fga_write D t b))
     \<and> (\<forall>m l h. leaves_db (ms_send_verification (id_mailer D) m l h))
     \<and> (\<forall>m l h. leaves_db (ms_send_password_reset (id_mailer D) m l h))"

lemma leaves_db_keeps: "leaves_db p \<Longrightarrow> preserves (on_db J) p"
  by (simp add: leaves_db_def preserves_def on_db_def)

definition kept ::
    "db dbenv \<Rightarrow> ((db, 'z) db_world_scheme) iam_deps \<Rightarrow> db \<Rightarrow> (db, 'z) db_world_scheme \<Rightarrow> bool" where
  "kept E D d0 w \<longleftrightarrow> others_ok E \<and> deps_ok D \<and> on_db (db_reach d0) w"

lemma kept_tick_free: "tick_free (kept E D d0)"
  by (simp add: tick_free_def kept_def on_db_def)

lemma kept_keeps:
  "(others_ok E \<Longrightarrow> deps_ok D \<Longrightarrow> preserves (on_db (db_reach d0)) p) \<Longrightarrow> preserves (kept E D d0) p"
  by (auto simp: kept_def preserves_def)

interpretation iam_session: session_ports "kept E D d0" "iam_sessions E L" for E D d0 L
  by unfold_locales (simp add: kept_tick_free, (rule kept_keeps, simp add: wired, intro preserve_intros, assumption)+)

interpretation iam_login: login_ports "kept E D d0" "iam_authentication E L" for E D d0 L
  by unfold_locales (simp add: kept_tick_free, (rule kept_keeps, simp add: wired, intro preserve_intros, assumption)+)

lemma deps_keep [preserve_intros]:
  "deps_ok D \<Longrightarrow> preserves (on_db J) (id_captcha D c)"
  "deps_ok D \<Longrightarrow> preserves (on_db J) (ms_send_verification (id_mailer D) m l h)"
  "deps_ok D \<Longrightarrow> preserves (on_db J) (ms_send_password_reset (id_mailer D) m l h)"
  "deps_ok D \<Longrightarrow> preserves (on_db J) (id_fga_write D t b)"
  unfolding deps_ok_def by (blast intro: leaves_db_keeps)+

interpretation iam_account: account_ports "kept E D d0" "iam_account E L D" for E D d0 L
  by (unfold_locales,
      (simp add: kept_tick_free | rule kept_keeps, simp add: wired, intro preserve_intros, assumption)+)

interpretation iam_users: user_ports "kept E D d0" "iam_users E L D" for E D d0 L
proof -
  have s: "session_ports (kept E D d0) (uu_sessions (iam_users E L D))"
    using iam_session.session_ports_axioms by (simp add: iam_users_def)
  have a: "account_ports (kept E D d0) (uu_account (iam_users E L D))"
    using iam_account.account_ports_axioms by (simp add: iam_users_def)
  show "user_ports (kept E D d0) (iam_users E L D)"
    by (intro user_ports.intro a user_ports_axioms.intro s)
      (rule kept_keeps, simp add: wired, intro preserve_intros, assumption)+
qed

interpretation iam_admin: admin_ports "kept E D d0" "iam_admin E L D" for E D d0 L
proof unfold_locales
  show "preserves (kept E D d0) (ur_find_by_email (ai_users (iam_admin E L D)) e)" for e
    by (rule kept_keeps) (simp add: wired user_find_by_email_keeps)
  show "preserves (kept E D d0) (ai_create (iam_admin E L D) i e c h t)" for i e c h t
    by (rule kept_keeps) (simp add: wired create_initial_admin_keeps)
  show "preserves (kept E D d0) (ai_ensure_admin (iam_admin E L D) i)" for i
    unfolding wired ensure_platform_admin_def admin_initializer.simps
    by (rule kept_keeps) (intro preserve_intros)
qed

section \<open>Requests\<close>

text \<open>What clients, administrators and the start-up may ask of the service.\<close>

datatype iam_request =
    ReqLogin string string
  | ReqResolve string
  | ReqLogout string
  | ReqRegister string string string "profile option"
  | ReqVerifyEmail string
  | ReqResendVerification string string
  | ReqRequestPasswordReset string string
  | ReqConfirmPasswordReset string string
  | ReqChangePassword string string string string
  | ReqGetProfile string
  | ReqUpdateProfile string string "profile option"
  | ReqUpdateCurrentProfile string "profile option"
  | ReqCreateUser string user_pb string
  | ReqGetUser string
  | ReqUpdateUser string prepared_update
  | ReqDisableUser string string
  | ReqEnableUser string string
  | ReqInitializeAdmin

definition and_drop :: "('w, 'a) run \<Rightarrow> ('w, unit) run" where
  "and_drop p = seq p (\<lambda>_ w. ((), w))"

fun serve ::
    "db dbenv \<Rightarrow> iam_lib \<Rightarrow> ((db, 'z) db_world_scheme) iam_deps \<Rightarrow> iam_request
     \<Rightarrow> ((db, 'z) db_world_scheme, unit) run" where
  "serve E L D (ReqLogin e p) = and_drop (authentication_login E L (iam_authentication E L) e p)"
| "serve E L D (ReqResolve s) = and_drop (session_resolve E L (iam_sessions E L) s)"
| "serve E L D (ReqLogout s) = and_drop (session_logout E (iam_sessions E L) s)"
| "serve E L D (ReqRegister e p c f) = and_drop (account_register E L (iam_account E L D) e p c f)"
| "serve E L D (ReqVerifyEmail k) = and_drop (account_verify_email E L (iam_account E L D) k)"
| "serve E L D (ReqResendVerification e c) =
     and_drop (account_resend_verification E L (iam_account E L D) e c)"
| "serve E L D (ReqRequestPasswordReset e c) =
     and_drop (account_request_password_reset E L (iam_account E L D) e c)"
| "serve E L D (ReqConfirmPasswordReset k p) =
     and_drop (account_confirm_password_reset E L (iam_account E L D) k p)"
| "serve E L D (ReqChangePassword u s p q) =
     and_drop (account_change_password E L (iam_account E L D) u s p q)"
| "serve E L D (ReqGetProfile u) = and_drop (account_get_profile (iam_account E L D) u)"
| "serve E L D (ReqUpdateProfile u g f) = and_drop (account_update_profile (iam_account E L D) u g f)"
| "serve E L D (ReqUpdateCurrentProfile u f) =
     and_drop (account_update_current_profile (iam_account E L D) u f)"
| "serve E L D (ReqCreateUser u r p) = and_drop (user_create_user E L (iam_users E L D) u r p)"
| "serve E L D (ReqGetUser u) = and_drop (user_get_user (iam_users E L D) u)"
| "serve E L D (ReqUpdateUser u r) = and_drop (user_update_user (iam_users E L D) u r)"
| "serve E L D (ReqDisableUser u g) = and_drop (user_disable E (iam_users E L D) u g)"
| "serve E L D (ReqEnableUser u g) = and_drop (user_enable E (iam_users E L D) u g)"
| "serve E L D ReqInitializeAdmin = and_drop (admin_initialize E L (iam_admin E L D))"

definition serve_all ::
    "db dbenv \<Rightarrow> iam_lib \<Rightarrow> ((db, 'z) db_world_scheme) iam_deps \<Rightarrow> iam_request list
     \<Rightarrow> (db, 'z) db_world_scheme \<Rightarrow> (db, 'z) db_world_scheme" where
  "serve_all E L D rs w = fold (\<lambda>r w. snd (serve E L D r w)) rs w"

lemma preserves_and_drop [preserve_intros]: "preserves I p \<Longrightarrow> preserves I (and_drop p)"
  by (simp add: and_drop_def preserves_def seq_def split: prod.splits) (metis snd_conv)

lemma serve_kept: "preserves (kept E D d0) (serve E L D r)"
  by (cases r) (simp_all add: preserves_and_drop iam_login.login_keeps iam_session.session_resolve_keeps
      iam_session.session_logout_keeps iam_account.register_keeps iam_account.verify_email_keeps
      iam_account.resend_keeps iam_account.request_reset_keeps iam_account.confirm_reset_keeps
      iam_account.change_password_keeps iam_account.get_profile_keeps
      iam_account.update_profile_use_keeps iam_account.update_current_profile_keeps
      iam_users.create_user_keeps iam_users.get_user_keeps iam_users.update_user_use_keeps
      iam_users.disable_keeps iam_users.enable_keeps iam_admin.initialize_keeps)

lemma serve_all_kept: "kept E D d0 w \<Longrightarrow> kept E D d0 (serve_all E L D rs w)"
  unfolding serve_all_def
proof (induction rs arbitrary: w)
  case (Cons r rs)
  have "kept E D d0 (snd (serve E L D r w))"
    using serve_kept Cons.prems unfolding preserves_def by blast
  then show ?case using Cons.IH by simp
qed simp

lemma serve_all_reach:
  assumes "others_ok E" "deps_ok D" "db_wf (dw_db w)"
  shows "db_reach (dw_db w) (dw_db (serve_all E L D rs w))"
  using serve_all_kept [of E D "dw_db w" w L rs] assms
  by (simp add: kept_def on_db_def db_reach_refl)

end
