(* ===== verification/IamSpent.thy ===== *)
theory IamSpent
  imports IamKeeps
begin

text \<open>
  Sessions and tokens that stay spent: a revoked login session never resolves again, a consumed
  verification or reset token is never accepted again, whatever requests run before or beside. The
  contracts \<open>revoked_secret\<close>, \<open>spent_vtoken\<close> and \<open>spent_rtoken\<close> are interpreted on the repositories.
\<close>

section \<open>Spent rows\<close>

definition session_revoked :: "db \<Rightarrow> string \<Rightarrow> bool" where
  "session_revoked d h \<longleftrightarrow> (\<exists>l \<in> set (db_logins d). ls_secret l = h \<and> ls_revoked l \<noteq> None)"

definition vtoken_spent :: "db \<Rightarrow> string \<Rightarrow> bool" where
  "vtoken_spent d h \<longleftrightarrow> (\<exists>v \<in> set (db_vtokens d). vt_hash v = h \<and> vt_consumed v \<noteq> None)"

definition rtoken_spent :: "db \<Rightarrow> string \<Rightarrow> bool" where
  "rtoken_spent d h \<longleftrightarrow> (\<exists>r \<in> set (db_rtokens d). rt_hash r = h \<and> rt_consumed r \<noteq> None)"

lemma session_revoked_stays: "db_reach d e \<Longrightarrow> session_revoked d h \<Longrightarrow> session_revoked e h"
  unfolding session_revoked_def by (metis reach_rowsD(7) login_evolves_def)

lemma vtoken_spent_stays: "db_reach d e \<Longrightarrow> vtoken_spent d h \<Longrightarrow> vtoken_spent e h"
  unfolding vtoken_spent_def by (metis reach_rowsD(5) vtoken_evolves_def)

lemma rtoken_spent_stays: "db_reach d e \<Longrightarrow> rtoken_spent d h \<Longrightarrow> rtoken_spent e h"
  unfolding rtoken_spent_def by (metis reach_rowsD(6) rtoken_evolves_def)

section \<open>The repositories refuse spent rows\<close>

lemma login_find_Inr:
  "login_find E h w = (Inr (s, u, r), w') \<Longrightarrow>
     \<exists>l. ent_only (\<lambda>l. ls_secret l = h) (db_logins (dw_db w')) = Inr l
       \<and> dw_db w' = de_others E (tick w) (dw_db w)
       \<and> s = Some (to_session l) \<and> u = ls_user l \<and> r = (ls_revoked l \<noteq> None)"
  by (auto simp: login_find_def pass_Inr translated_Inr db_exec_Inr only_Inr logins_t_def)

lemma kept_others: "kept E D d0 w \<Longrightarrow> db_reach d0 (de_others E n (dw_db w))"
  by (auto simp: kept_def on_db_def dest: others_okD)

lemma login_find_revoked:
  assumes "kept E D d0 w" "session_revoked d0 h" "login_find E h w = (Inr (s, u, r), w')"
  shows r
proof -
  from login_find_Inr [OF assms(3)] obtain l where
    l: "ent_only (\<lambda>l. ls_secret l = h) (db_logins (dw_db w')) = Inr l" "r = (ls_revoked l \<noteq> None)"
    and w': "dw_db w' = de_others E (tick w) (dw_db w)" by blast
  have "session_revoked (dw_db w') h"
    using session_revoked_stays [OF kept_others [OF assms(1)] assms(2)] w' by simp
  then show r
    using l ent_only_unique [OF l(1)] unfolding session_revoked_def by metis
qed

lemma kept_stamp: "kept E D d0 w \<Longrightarrow> stamp E t0 w t v \<Longrightarrow> kept E D d0 v"
  by (simp add: kept_def on_db_def stamp_db)

lemma vtoken_consume_Inr:
  assumes ok: "others_ok E" and wf: "db_wf (dw_db w)"
    and r: "vtoken_consume E h t0 w = (Inr u, w')"
  obtains t v d x d1 y where "stamp E t0 w t v" "db_reach (dw_db w) d"
    "ent_only (\<lambda>x. vt_hash x = h) (db_vtokens d) = Inr x" "vt_consumed x = None" "t < vt_expires x"
    "db_reach d d1" "y \<in> set (db_vtokens d1)" "vt_id y = vt_id x" "vt_consumed y = None"
    "t < vt_expires y" "u = vt_user y"
    "dw_db w' = d1\<lparr>db_vtokens := ent_update_where
       (\<lambda>v. vt_id v = vt_id x \<and> vt_consumed v = None \<and> vt_expires v > t)
       (\<lambda>v. v\<lparr>vt_consumed := Some t\<rparr>) (db_vtokens d1)\<rparr>"
proof -
  from r obtain t v x v1 y where st: "stamp E t0 w t v"
    and e1: "db_exec E (only vtokens_t (\<lambda>x. vt_hash x = h)) v = (Inr x, v1)"
    and c: "vt_consumed x = None" "t < vt_expires x"
    and e2: "db_exec E (update_one vtokens_t
        (\<lambda>v. vt_id v = vt_id x \<and> vt_consumed v = None \<and> vt_expires v > t)
        (\<lambda>_ v. v\<lparr>vt_consumed := Some t\<rparr>)) v1 = (Inr y, w')" and u: "u = vt_user y"
    by (auto simp: vtoken_consume_def time_or_now_eq pass_Inr ent_wrappers_Inr split: if_splits)
  from st wf have wv: "db_wf (dw_db v)" by (simp add: stamp_db)
  note s1 = read_step [OF ok wv e1]
  then have "db_wf (dw_db v1)" by (simp add: db_reach_def)
  from exec_step [OF ok this e2] obtain d1 where d1: "db_reach (dw_db v1) d1"
    and up: "update_one vtokens_t
        (\<lambda>v. vt_id v = vt_id x \<and> vt_consumed v = None \<and> vt_expires v > t)
        (\<lambda>_ v. v\<lparr>vt_consumed := Some t\<rparr>) (clock E (tick v1)) d1 = (Inr y, dw_db w')" by blast
  show thesis
    using update_one_Inr [OF up] st s1 d1 c u
    by (auto simp: vtokens_t_def stamp_db intro!: that [OF st])
qed

text \<open>A success consumes the one unconsumed row of the hash, for its user.\<close>

lemma vtoken_consume_success:
  assumes ok: "others_ok E" and wf: "db_wf (dw_db w)" and r: "vtoken_consume E h t0 w = (Inr u, w')"
  shows "\<not> vtoken_spent (dw_db w) h" "vtoken_spent (dw_db w') h"
    and "\<exists>v \<in> set (db_vtokens (dw_db w')). vt_hash v = h \<and> vt_user v = u \<and> vt_consumed v \<noteq> None"
proof -
  from ok wf r obtain t v d x d1 y where d: "db_reach (dw_db w) d"
    and x: "ent_only (\<lambda>x. vt_hash x = h) (db_vtokens d) = Inr x" "vt_consumed x = None"
    and d1: "db_reach d d1"
    and y: "y \<in> set (db_vtokens d1)" "vt_id y = vt_id x" "vt_consumed y = None" "t < vt_expires y"
      "u = vt_user y"
    and w': "dw_db w' = d1\<lparr>db_vtokens := ent_update_where
       (\<lambda>v. vt_id v = vt_id x \<and> vt_consumed v = None \<and> vt_expires v > t)
       (\<lambda>v. v\<lparr>vt_consumed := Some t\<rparr>) (db_vtokens d1)\<rparr>"
    by (rule vtoken_consume_Inr)
  show "\<not> vtoken_spent (dw_db w) h"
    using vtoken_spent_stays [OF d] ent_only_unique [OF x(1)] x(2) unfolding vtoken_spent_def by metis
  obtain y' where y': "y' \<in> set (db_vtokens d1)" "vtoken_evolves x y'"
    using reach_rowsD(5) [OF d1] ent_only_in [OF x(1)] by blast
  have "y' = y"
    using wf_unique(6) [of d1] d1 y' y unique_byD by (metis db_reach_def vtoken_evolves_def)
  then have "vt_hash y = h" using y' ent_only_in [OF x(1)] by (simp add: vtoken_evolves_def)
  then show e: "\<exists>v \<in> set (db_vtokens (dw_db w')). vt_hash v = h \<and> vt_user v = u \<and> vt_consumed v \<noteq> None"
    unfolding w' using y by (auto intro!: bexI [OF _ updated_in [where x = y]] simp del: set_update_where)
  then show "vtoken_spent (dw_db w') h" by (auto simp: vtoken_spent_def)
qed

lemma rtoken_consume_Inr:
  fixes w :: "(db, 'z) db_world_scheme"
  assumes ok: "others_ok E" and wf: "db_wf (dw_db w)"
    and r: "rtoken_consume_and_replace E h p t0 w = (Inr u, w')"
  obtains t v d x and v1 v2 :: "(db, 'z) db_world_scheme" where "stamp E t0 w t v" "db_reach (dw_db w) d"
    "ent_only (\<lambda>x. rt_hash x = h) (db_rtokens d) = Inr x" "rt_consumed x = None" "t < rt_expires x"
    "u = rt_user x" "db_reach d (dw_db v1)"
    "consume_and_replace_tx E x p t v1 = (Inr (), v2)" "dw_db w' = dw_db v2"
proof -
  from r obtain t v x v1 where st: "stamp E t0 w t v"
    and e1: "db_exec E (only rtokens_t (\<lambda>x. rt_hash x = h)) v = (Inr x, v1)"
    and c: "rt_consumed x = None" "t < rt_expires x"
    and e2: "in_tx E (consume_and_replace_tx E x p t) v1 = (Inr (), w')" and u: "u = rt_user x"
    by (auto simp: rtoken_consume_and_replace_def time_or_now_eq pass_Inr ent_wrappers_Inr split: if_splits)
  from st wf have wv: "db_wf (dw_db v)" by (simp add: stamp_db)
  note s1 = read_step [OF ok wv e1]
  then have wf1: "db_wf (dw_db v1)" by (simp add: db_reach_def)
  obtain v2 v3 :: "(db, 'z) db_world_scheme" where tx: "db_reach (dw_db v1) (dw_db v2)"
    "consume_and_replace_tx E x p t v2 = (Inr (), v3)" "dw_db w' = dw_db v3"
    by (rule tx_step [OF ok wf1 e2])
  have "db_reach (dw_db w) (dw_db v1)" using s1(1) st by (simp add: stamp_db)
  moreover have "ent_only (\<lambda>x. rt_hash x = h) (db_rtokens (dw_db v1)) = Inr x"
    using s1(2) by (simp add: rtokens_t_def)
  ultimately show thesis by (rule that [OF st _ _ c u tx])
qed

lemma consume_and_replace_tx_Inr:
  assumes "consume_and_replace_tx E x p t w = (Inr (), w')"
  obtains a q where
    "ent_only (active_password_of (rt_user x)) (db_authenticators (dw_db w)) = Inr a"
    "ent_only (\<lambda>q. pw_authenticator q = au_id a) (db_passwords (dw_db w)) = Inr q"
    "\<exists>r \<in> set (db_rtokens (dw_db w)). rt_id r = rt_id x \<and> rt_consumed r = None \<and> rt_expires r > t"
    "dw_db w' = (dw_db w)
       \<lparr>db_passwords := ent_update_where (\<lambda>r. pw_id r = pw_id q)
          (\<lambda>r. r\<lparr>pw_hash := p, pw_changed := t\<rparr>) (db_passwords (dw_db w)),
        db_rtokens := ent_update_where
          (\<lambda>r. rt_id r = rt_id x \<and> rt_consumed r = None \<and> rt_expires r > t)
          (\<lambda>r. r\<lparr>rt_consumed := Some t\<rparr>) (db_rtokens (dw_db w))\<rparr>"
  using assms
  by (auto simp: consume_and_replace_tx_def pass_Inr ent_wrappers_Inr tx_exec_Inr only_Inr
      table_defs intro!: that dest!: update_one_Inr)

text \<open>A success consumes the token and replaces the password, in one step of the database.\<close>

lemma rtoken_consume_success:
  fixes w :: "(db, 'z) db_world_scheme"
  assumes ok: "others_ok E" and wf: "db_wf (dw_db w)"
    and r: "rtoken_consume_and_replace E h p t0 w = (Inr u, w')"
  shows "\<not> rtoken_spent (dw_db w) h" "rtoken_spent (dw_db w') h"
    and "\<exists>a q. ent_only (active_password_of u) (db_authenticators (dw_db w')) = Inr a
           \<and> ent_only (\<lambda>q. pw_authenticator q = au_id a) (db_passwords (dw_db w')) = Inr q \<and> pw_hash q = p"
    and "\<exists>x \<in> set (db_rtokens (dw_db w')). rt_hash x = h \<and> rt_user x = u \<and> rt_consumed x \<noteq> None"
proof -
  from ok wf r obtain t v d x and v1 v2 :: "(db, 'z) db_world_scheme" where d: "db_reach (dw_db w) d"
    and x: "ent_only (\<lambda>x. rt_hash x = h) (db_rtokens d) = Inr x" "rt_consumed x = None"
    and u: "u = rt_user x" and d1: "db_reach d (dw_db v1)"
    and tx: "consume_and_replace_tx E x p t v1 = (Inr (), v2)" and w': "dw_db w' = dw_db v2"
    by (rule rtoken_consume_Inr)
  from tx obtain a q where a: "ent_only (active_password_of (rt_user x)) (db_authenticators (dw_db v1)) = Inr a"
    and q: "ent_only (\<lambda>q. pw_authenticator q = au_id a) (db_passwords (dw_db v1)) = Inr q"
    and y: "\<exists>y \<in> set (db_rtokens (dw_db v1)). rt_id y = rt_id x \<and> rt_consumed y = None \<and> rt_expires y > t"
    and v2: "dw_db v2 = (dw_db v1)
       \<lparr>db_passwords := ent_update_where (\<lambda>r. pw_id r = pw_id q)
          (\<lambda>r. r\<lparr>pw_hash := p, pw_changed := t\<rparr>) (db_passwords (dw_db v1)),
        db_rtokens := ent_update_where
          (\<lambda>r. rt_id r = rt_id x \<and> rt_consumed r = None \<and> rt_expires r > t)
          (\<lambda>r. r\<lparr>rt_consumed := Some t\<rparr>) (db_rtokens (dw_db v1))\<rparr>"
    by (rule consume_and_replace_tx_Inr)
  show "\<not> rtoken_spent (dw_db w) h"
    using rtoken_spent_stays [OF d] ent_only_unique [OF x(1)] x(2) unfolding rtoken_spent_def by metis
  obtain y' where y': "y' \<in> set (db_rtokens (dw_db v1))" "rtoken_evolves x y'"
    using reach_rowsD(6) [OF d1] ent_only_in [OF x(1)] by blast
  have "rt_consumed y' = None \<and> rt_expires y' > t"
    using wf_unique(8) [of "dw_db v1"] d1 y' y unique_byD by (metis db_reach_def rtoken_evolves_def)
  then show e: "\<exists>x \<in> set (db_rtokens (dw_db w')). rt_hash x = h \<and> rt_user x = u \<and> rt_consumed x \<noteq> None"
    unfolding w' v2 using y' ent_only_in [OF x(1)] u
    by (auto intro!: bexI [OF _ updated_in [where x = y']] simp: rtoken_evolves_def simp del: set_update_where)
  then show "rtoken_spent (dw_db w') h" by (auto simp: rtoken_spent_def)
  have "ent_only (\<lambda>q. pw_authenticator q = au_id a) (db_passwords (dw_db w'))
      = Inr (q\<lparr>pw_hash := p, pw_changed := t\<rparr>)"
    unfolding w' v2 using ent_only_update [OF q] by simp
  then show "\<exists>a q. ent_only (active_password_of u) (db_authenticators (dw_db w')) = Inr a
      \<and> ent_only (\<lambda>q. pw_authenticator q = au_id a) (db_passwords (dw_db w')) = Inr q \<and> pw_hash q = p"
    using a unfolding u by (intro exI [of _ a] exI [of _ "q\<lparr>pw_hash := p, pw_changed := t\<rparr>"]) (simp add: w' v2)
qed

section \<open>Revocation\<close>

lemma login_revoke_success:
  assumes pf: "plain_faults E" and r: "login_revoke E s t0 w = (Inr (), w')"
  shows "\<forall>l \<in> set (db_logins (dw_db w')). ls_id l = s \<longrightarrow> ls_revoked l \<noteq> None"
proof -
  from r obtain t v where "(\<exists>x. db_exec E (update_one logins_t (\<lambda>l. ls_id l = s \<and> ls_revoked l = None)
        (\<lambda>_ l. l\<lparr>ls_revoked := Some t\<rparr>)) v = (Inr x, w'))
     \<or> (\<exists>e. is_not_found e \<and> db_exec E (update_one logins_t (\<lambda>l. ls_id l = s \<and> ls_revoked l = None)
        (\<lambda>_ l. l\<lparr>ls_revoked := Some t\<rparr>)) v = (Inl e, w'))"
    by (auto simp: login_revoke_def time_or_now_eq check_eq split: if_splits)
  then show ?thesis
  proof (elim disjE exE conjE)
    fix x assume "db_exec E (update_one logins_t (\<lambda>l. ls_id l = s \<and> ls_revoked l = None)
        (\<lambda>_ l. l\<lparr>ls_revoked := Some t\<rparr>)) v = (Inr x, w')"
    then show ?thesis by (auto simp: db_exec_Inr logins_t_def dest!: update_one_Inr)
  next
    fix e assume "is_not_found e" "db_exec E (update_one logins_t (\<lambda>l. ls_id l = s \<and> ls_revoked l = None)
        (\<lambda>_ l. l\<lparr>ls_revoked := Some t\<rparr>)) v = (Inl e, w')"
    from update_not_found [OF pf this(2,1)] show ?thesis by (auto simp: logins_t_def)
  qed
qed

lemma login_revoke_all_success:
  assumes "login_revoke_all E u t0 w = (Inr (), w')"
  shows "\<forall>l \<in> set (db_logins (dw_db w')). ls_user l = u \<longrightarrow> ls_revoked l \<noteq> None"
proof -
  from assms obtain t v n where "db_exec E (update_where logins_t
      (\<lambda>l. ls_user l = u \<and> ls_revoked l = None) (\<lambda>_ l. l\<lparr>ls_revoked := Some t\<rparr>)) v = (Inr n, w')"
    by (auto simp: login_revoke_all_def time_or_now_eq ent_wrappers_Inr)
  then obtain d0 d where "update_where logins_t (\<lambda>l. ls_user l = u \<and> ls_revoked l = None) (\<lambda>_ l. l\<lparr>ls_revoked := Some t\<rparr>) d0 d
      = (Inr n, dw_db w')" unfolding db_exec_Inr by auto
  then have eq: "db_logins (dw_db w') = ent_update_where (\<lambda>l. ls_user l = u \<and> ls_revoked l = None)
       (\<lambda>l. l\<lparr>ls_revoked := Some t\<rparr>) (db_logins d)"
    unfolding update_where_eq logins_t_def by simp
  show ?thesis unfolding eq by (rule update_where_all) auto
qed

lemma login_revoke_others_success:
  assumes "login_revoke_others E u s t0 w = (Inr (), w')"
  shows "\<forall>l \<in> set (db_logins (dw_db w')). ls_user l = u \<and> ls_id l \<noteq> s \<longrightarrow> ls_revoked l \<noteq> None"
proof -
  from assms obtain t v n where "db_exec E (update_where logins_t
      (\<lambda>l. ls_user l = u \<and> ls_id l \<noteq> s \<and> ls_revoked l = None) (\<lambda>_ l. l\<lparr>ls_revoked := Some t\<rparr>)) v = (Inr n, w')"
    by (auto simp: login_revoke_others_def time_or_now_eq ent_wrappers_Inr)
  then obtain d0 d where "update_where logins_t (\<lambda>l. ls_user l = u \<and> ls_id l \<noteq> s \<and> ls_revoked l = None) (\<lambda>_ l. l\<lparr>ls_revoked := Some t\<rparr>) d0 d
      = (Inr n, dw_db w')" unfolding db_exec_Inr by auto
  then have eq: "db_logins (dw_db w') = ent_update_where (\<lambda>l. ls_user l = u \<and> ls_id l \<noteq> s \<and> ls_revoked l = None)
       (\<lambda>l. l\<lparr>ls_revoked := Some t\<rparr>) (db_logins d)"
    unfolding update_where_eq logins_t_def by simp
  show ?thesis unfolding eq by (rule update_where_all) auto
qed

text \<open>No live token session satisfies \<open>P\<close>, and no live token belongs to one that does.\<close>

definition tokens_dead :: "(tsession_row \<Rightarrow> bool) \<Rightarrow> db \<Rightarrow> bool" where
  "tokens_dead P d \<longleftrightarrow>
     (\<forall>s \<in> set (db_tsessions d). P s \<longrightarrow>
        ts_revoked s \<noteq> None
        \<and> (\<forall>a \<in> set (db_access d). at_session a = ts_id s \<longrightarrow> at_revoked a \<noteq> None)
        \<and> (\<forall>r \<in> set (db_refresh d). rf_session r = ts_id s \<longrightarrow> rf_revoked r \<noteq> None))"

lemma revoke_token_sessions_tx_success:
  assumes P: "\<And>s t d. P (s\<lparr>ts_revoked := t, ts_update := d\<rparr>) = P s"
    and r: "revoke_token_sessions_tx E t P w = (Inr (), w')"
  shows "tokens_dead P (dw_db w')"
proof (cases "filter P (db_tsessions (dw_db w)) = []")
  case True
  with r have "dw_db w' = dw_db w"
    by (auto simp: revoke_token_sessions_tx_def pass_Inr ent_wrappers_Inr tx_exec_Inr all_where_eq
        tsessions_t_def Let_def)
  with True show ?thesis by (auto simp: tokens_dead_def filter_empty_conv)
next
  case False
  let ?ids = "ts_id ` {s \<in> set (db_tsessions (dw_db w)). P s}"
  from r False have w': "dw_db w' = (dw_db w)
    \<lparr>db_tsessions := ent_update_where (\<lambda>s. ts_id s \<in> ?ids \<and> ts_revoked s = None)
       (\<lambda>s. s\<lparr>ts_revoked := Some t, ts_update := clock E (Suc (tick w))\<rparr>) (db_tsessions (dw_db w)),
     db_access := ent_update_where (\<lambda>a. at_session a \<in> ?ids \<and> at_revoked a = None)
       (\<lambda>a. a\<lparr>at_revoked := Some t\<rparr>) (db_access (dw_db w)),
     db_refresh := ent_update_where (\<lambda>a. rf_session a \<in> ?ids \<and> rf_revoked a = None)
       (\<lambda>a. a\<lparr>rf_revoked := Some t\<rparr>) (db_refresh (dw_db w))\<rparr>"
    by (auto simp: revoke_token_sessions_tx_def pass_Inr ent_wrappers_Inr tx_exec_Inr all_where_eq
        update_where_eq table_defs Let_def)
  show ?thesis unfolding tokens_dead_def w' using P by auto
qed

lemma token_revoke_success:
  "(\<And>s t d. P (s\<lparr>ts_revoked := t, ts_update := d\<rparr>) = P s) \<Longrightarrow> token_revoke E t P w = (Inr (), w')
    \<Longrightarrow> tokens_dead P (dw_db w')"
  unfolding token_revoke_def in_tx_Inr by (auto dest: revoke_token_sessions_tx_success)

lemma token_revoke_for_login_success:
  "token_revoke_for_login E s t0 w = (Inr (), w') \<Longrightarrow> s \<noteq> [] \<Longrightarrow>
     tokens_dead (\<lambda>x. ts_login x = s) (dw_db w')"
  by (auto simp: token_revoke_for_login_def time_or_now_eq intro: token_revoke_success)

lemma token_revoke_all_success:
  "token_revoke_all E u t0 w = (Inr (), w') \<Longrightarrow> u \<noteq> [] \<Longrightarrow> tokens_dead (\<lambda>x. ts_user x = u) (dw_db w')"
  by (auto simp: token_revoke_all_def time_or_now_eq intro: token_revoke_success)

section \<open>Sessions that end\<close>

lemma revoked_by_id:
  assumes "db_reach a b" "\<forall>l \<in> set (db_logins b). P (ls_id l) (ls_user l) \<longrightarrow> ls_revoked l \<noteq> None"
    and "l \<in> set (db_logins a)" "P (ls_id l) (ls_user l)"
  shows "session_revoked b (ls_secret l)"
  using reach_rowsD(7) [OF assms(1,3)] assms(2,4) unfolding session_revoked_def login_evolves_def by metis

lemma session_logout_Inr:
  assumes "session_logout E (iam_sessions E L) sid w = (Inr (), w')"
  obtains t v v1 where "sid \<noteq> []" "login_revoke E sid t v = (Inr (), v1)" "dw_db v = dw_db w"
    "token_revoke_for_login E sid t v1 = (Inr (), w')"
  using assms
  by (auto simp: session_logout_def wired check_eq seq_eq now_eq join2_Inr split: if_splits intro!: that)

lemma keeps_step:
  assumes "others_ok E" "db_wf (dw_db w)" "p w = (r, w')"
    and "\<And>d0. others_ok E \<Longrightarrow> preserves (on_db (db_reach d0)) p"
  shows "db_reach (dw_db w) (dw_db w')"
  using preservesD [OF assms(4) [OF assms(1), of "dw_db w"] _ assms(3)] assms(2)
  by (simp add: on_db_def db_reach_refl)

lemma iam_session_create_keeps:
  "others_ok E \<Longrightarrow> preserves (on_db (db_reach d0)) (session_create E L (iam_sessions E L) u)"
  unfolding session_create_def by (intro preserve_intros; simp add: wired login_create_keeps)

lemma session_logout_success:
  fixes w :: "(db, 'z) db_world_scheme"
  assumes ok: "others_ok E" "plain_faults E" and wf: "db_wf (dw_db w)"
    and r: "session_logout E (iam_sessions E L) sid w = (Inr (), w')"
  shows "db_reach (dw_db w) (dw_db w')"
    and "l \<in> set (db_logins (dw_db w)) \<Longrightarrow> ls_id l = sid \<Longrightarrow> session_revoked (dw_db w') (ls_secret l)"
    and "tokens_dead (\<lambda>s. ts_login s = sid) (dw_db w')"
proof -
  from r obtain t and v v1 :: "(db, 'z) db_world_scheme" where sid: "sid \<noteq> []"
    and a: "login_revoke E sid t v = (Inr (), v1)" and v: "dw_db v = dw_db w"
    and b: "token_revoke_for_login E sid t v1 = (Inr (), w')" by (rule session_logout_Inr)
  have r1: "db_reach (dw_db w) (dw_db v1)"
    using keeps_step [OF ok(1) _ a login_revoke_keeps] wf v by simp
  then have "db_wf (dw_db v1)" by (simp add: db_reach_def)
  note r2 = keeps_step [OF ok(1) this b token_revoke_for_login_keeps]
  show "db_reach (dw_db w) (dw_db w')" using r1 r2 by (rule db_reach_trans)
  show "tokens_dead (\<lambda>s. ts_login s = sid) (dw_db w')" using token_revoke_for_login_success [OF b sid] .
  show "session_revoked (dw_db w') (ls_secret l)" if "l \<in> set (db_logins (dw_db w))" "ls_id l = sid"
    using revoked_by_id [OF r1, of "\<lambda>i u. i = sid"] login_revoke_success [OF ok(2) a] that
      session_revoked_stays [OF r2] by blast
qed

lemma session_revoke_all_Inr:
  assumes "session_revoke_all E (iam_sessions E L) u w = (Inr (), w')"
  obtains t v v1 where "u \<noteq> []" "login_revoke_all E u t v = (Inr (), v1)" "dw_db v = dw_db w"
    "token_revoke_all E u t v1 = (Inr (), w')"
  using assms
  by (auto simp: session_revoke_all_def wired check_eq seq_eq now_eq join2_Inr split: if_splits intro!: that)

lemma session_revoke_all_success:
  fixes w :: "(db, 'z) db_world_scheme"
  assumes ok: "others_ok E" and wf: "db_wf (dw_db w)"
    and r: "session_revoke_all E (iam_sessions E L) u w = (Inr (), w')"
  shows "db_reach (dw_db w) (dw_db w')"
    and "l \<in> set (db_logins (dw_db w)) \<Longrightarrow> ls_user l = u \<Longrightarrow> session_revoked (dw_db w') (ls_secret l)"
    and "tokens_dead (\<lambda>s. ts_user s = u) (dw_db w')"
proof -
  from r obtain t and v v1 :: "(db, 'z) db_world_scheme" where u: "u \<noteq> []"
    and a: "login_revoke_all E u t v = (Inr (), v1)" and v: "dw_db v = dw_db w"
    and b: "token_revoke_all E u t v1 = (Inr (), w')" by (rule session_revoke_all_Inr)
  have r1: "db_reach (dw_db w) (dw_db v1)"
    using keeps_step [OF ok _ a login_revoke_all_keeps] wf v by simp
  then have "db_wf (dw_db v1)" by (simp add: db_reach_def)
  note r2 = keeps_step [OF ok this b token_revoke_all_keeps]
  show "db_reach (dw_db w) (dw_db w')" using r1 r2 by (rule db_reach_trans)
  show "tokens_dead (\<lambda>s. ts_user s = u) (dw_db w')" using token_revoke_all_success [OF b u] .
  show "session_revoked (dw_db w') (ls_secret l)" if "l \<in> set (db_logins (dw_db w))" "ls_user l = u"
    using revoked_by_id [OF r1, of "\<lambda>i x. x = u"] login_revoke_all_success [OF a] that
      session_revoked_stays [OF r2] by blast
qed

section \<open>The contracts, interpreted\<close>

interpretation iam_revoked:
  revoked_secret "\<lambda>w. kept E D d0 w \<and> session_revoked d0 h" "iam_sessions E L" h for E D d0 L h
proof (intro revoked_secret.intro revoked_secret_axioms.intro)
  show "session_ports (\<lambda>w. kept E D d0 w \<and> session_revoked d0 h) (iam_sessions E L)"
    by (intro session_ports_and_fact iam_session.session_ports_axioms)
  show "r" if "kept E D d0 w \<and> session_revoked d0 h"
    "sr_find (su_sessions (iam_sessions E L)) h w = (Inr (s, u, r), w')" for w s u r w'
    using that login_find_revoked by (auto simp: wired)
qed

interpretation iam_spent_vtoken:
  spent_vtoken "\<lambda>w. kept E D d0 w \<and> vtoken_spent d0 h" "iam_account E L D" h for E D d0 L h
proof (intro spent_vtoken.intro spent_vtoken_axioms.intro)
  show "account_ports (\<lambda>w. kept E D d0 w \<and> vtoken_spent d0 h) (iam_account E L D)"
    by (intro account_ports_and_fact iam_account.account_ports_axioms)
  show "vr_consume (ac_verification_tokens (iam_account E L D)) h t w \<noteq> (Inr u, w')"
    if k: "kept E D d0 w \<and> vtoken_spent d0 h" for w t u w'
  proof
    assume "vr_consume (ac_verification_tokens (iam_account E L D)) h t w = (Inr u, w')"
    then have "\<not> vtoken_spent (dw_db w) h"
      using k vtoken_consume_success(1) [of E w h t u w'] by (simp add: wired kept_def on_db_def db_reach_def)
    then show False using k vtoken_spent_stays by (auto simp: kept_def on_db_def)
  qed
qed

interpretation iam_spent_rtoken:
  spent_rtoken "\<lambda>w. kept E D d0 w \<and> rtoken_spent d0 h" "iam_account E L D" h for E D d0 L h
proof (intro spent_rtoken.intro spent_rtoken_axioms.intro)
  show "account_ports (\<lambda>w. kept E D d0 w \<and> rtoken_spent d0 h) (iam_account E L D)"
    by (intro account_ports_and_fact iam_account.account_ports_axioms)
  show "pr_consume_and_replace (ac_reset_tokens (iam_account E L D)) h p t w \<noteq> (Inr u, w')"
    if k: "kept E D d0 w \<and> rtoken_spent d0 h" for w p t u w'
  proof
    assume "pr_consume_and_replace (ac_reset_tokens (iam_account E L D)) h p t w = (Inr u, w')"
    then have "\<not> rtoken_spent (dw_db w) h"
      using k rtoken_consume_success(1) [of E w h p t u w']
      by (simp add: wired kept_def on_db_def db_reach_def)
    then show False using k rtoken_spent_stays by (auto simp: kept_def on_db_def)
  qed
qed

end
