(* ===== verification/IamDemo.thy ===== *)
theory IamDemo
  imports IamSpent
begin

text \<open>
  A small instance of the service: two users (one active, one that has not verified its email), a
  login session, a verification token and a reset token. It shows that the hypotheses of the theorems
  about the IAM service hold together.
\<close>

definition demo_lib :: iam_lib where
  "demo_lib = \<lparr>il_sha256 = (\<lambda>s. s), il_fold = (\<lambda>s. s),
     il_copy = (\<lambda>r. zero_user\<lparr>up_name := ''users/'' @ us_id r, up_etag := us_etag r\<rparr>),
     il_clear = (\<lambda>_ _. Inr []),
     il_argon = \<lparr>ag_create_hash = (\<lambda>n p _. Inr (CHR ''h'' # p)),
                 ag_check_hash = (\<lambda>p h. Inr (h = CHR ''h'' # p, Some password_params))\<rparr>\<rparr>"

definition demo_env :: "db dbenv" where
  "demo_env = \<lparr>clock = (\<lambda>n. int n + 10), uuid_v7 = (\<lambda>n. Inr (replicate (Suc n) (CHR ''i''))),
     rand_read = (\<lambda>n k. Inr (replicate k (CHR ''r''))), store_fault = (\<lambda>_. None),
     de_others = (\<lambda>_ d. d)\<rparr>"

definition demo_deps :: "(db db_world) iam_deps" where
  "demo_deps = \<lparr>id_captcha = (\<lambda>_. ret True),
     id_mailer = \<lparr>ms_send_verification = (\<lambda>_ _ _. ret ()), ms_send_password_reset = (\<lambda>_ _ _. ret ())\<rparr>,
     id_fga_write = (\<lambda>_ _. ret ()), id_origin = ''https://p'', id_admin_email = ''Root''\<rparr>"

definition demo_db :: db where
  "demo_db = empty_db
     \<lparr>db_users := [new_user_row ''u1'' user_status_active ''e1'' None 1,
                  new_user_row ''u2'' user_status_pending ''e2'' None 1],
      db_identifiers := [new_identifier_row ''i1'' ''u1'' ''a@x'' ''a@x'' (Some 2) 1,
                         new_identifier_row ''i2'' ''u2'' ''b@x'' ''b@x'' None 1],
      db_authenticators := [new_authenticator_row ''a1'' ''u1'' 1, new_authenticator_row ''a2'' ''u2'' 1],
      db_passwords := [new_password_row ''p1'' ''a1'' ''hpw'' 1, new_password_row ''p2'' ''a2'' ''hqw'' 1],
      db_vtokens := [new_vtoken_row ''v1'' ''u2'' ''i2'' (hash_opaque_secret demo_lib ''vt'') 1000 1],
      db_rtokens := [new_rtoken_row ''r1'' ''u1'' (hash_opaque_secret demo_lib ''rt'') 1000 1],
      db_logins := [new_login_row ''s1'' ''u1'' (hash_opaque_secret demo_lib ''sk'') 1]\<rparr>"

definition demo_world :: "db db_world" where
  "demo_world = \<lparr>tick = 0, dw_db = demo_db\<rparr>"

lemma demo_env_ok: "others_ok demo_env" "plain_faults demo_env"
  by (simp_all add: others_ok_def demo_env_def db_reach_refl plain_faults_def)

lemma demo_deps_ok: "deps_ok demo_deps"
  by (simp add: deps_ok_def demo_deps_def leaves_db_def)

lemmas demo_rows = new_user_row_def new_identifier_row_def new_authenticator_row_def new_password_row_def
  new_vtoken_row_def new_rtoken_row_def new_login_row_def

lemma demo_db_wf: "db_wf demo_db"
  by (simp add: db_wf_def no_clash_def demo_db_def empty_db_def clash_defs demo_rows)

text \<open>Running one statement of the demo.\<close>

lemma demo_exec:
  "db_exec demo_env s w =
     (case s (int (tick w) + 10) (dw_db w) of (r, d) \<Rightarrow> (r, w\<lparr>tick := Suc (tick w), dw_db := d\<rparr>))"
  "tx_exec demo_env s w =
     (case s (int (tick w) + 10) (dw_db w) of (r, d) \<Rightarrow> (r, w\<lparr>tick := Suc (tick w), dw_db := d\<rparr>))"
  "now demo_env w = (int (tick w) + 10, w\<lparr>tick := Suc (tick w)\<rparr>)"
  by (simp_all add: db_exec_def seq_def interfere_def tx_exec_def demo_env_def now_def)

lemma demo_tx:
  "in_tx_with b c demo_env body w =
     (case body (w\<lparr>tick := Suc (tick w)\<rparr>) of
        (Inl e, v) \<Rightarrow> (Inl (Node JoinedErrors [e]), v\<lparr>tick := Suc (tick v), dw_db := dw_db w\<rparr>)
      | (Inr x, v) \<Rightarrow> (Inr x, v\<lparr>tick := Suc (tick v)\<rparr>))"
  by (simp add: in_tx_with_def seq_def interfere_def demo_env_def split: prod.split sum.split)

lemmas demo_stmts = only_def all_where_def update_one_def update_where_def create_def
  ent_only_def ent_update_one_def ent_update_where_def ent_create_def table_defs

lemmas demo_run = demo_exec demo_tx check_run seq_run demo_stmts translated_def or_mutation_miss_def
  discard_def time_or_now_def join2_def

lemma demo_argon:
  "ag_create_hash (il_argon demo_lib) n p q = Inr (CHR ''h'' # p)"
  "ag_check_hash (il_argon demo_lib) p h = Inr (h = CHR ''h'' # p, Some password_params)"
  by (simp_all add: demo_lib_def)

lemma demo_ids:
  "new_user_id demo_env w = (Inr (replicate (Suc (tick w)) (CHR ''i'')), w\<lparr>tick := Suc (tick w)\<rparr>)"
  by (simp add: new_user_id_def demo_env_def)

lemma demo_hash_nonempty: "s \<noteq> [] \<Longrightarrow> hash_opaque_secret demo_lib s \<noteq> []"
  by (simp add: hash_opaque_secret_def demo_lib_def)

lemma demo_hash_eq: "hash_opaque_secret demo_lib s = hash_opaque_secret demo_lib t \<longleftrightarrow> s = t"
  by (simp add: hash_opaque_secret_def demo_lib_def b64_encode_inj)

end
