(* ===== verification/IamTrace.thy ===== *)
theory IamTrace
  imports IamDemo
begin

text \<open>
  The course of the calls of the repositories that succeed: which database each statement saw, what it found there,
  and what it wrote (\<open>meets\<close>: the database of a statement is the one the call left before it, after what the
  other requests did at that tick).
\<close>

lemma meets_reach: "others_ok E \<Longrightarrow> db_wf d \<Longrightarrow> meets E w w' d e \<Longrightarrow> db_reach d e"
  by (auto simp: meets_def others_ok_def)

lemma meets_wf: "others_ok E \<Longrightarrow> db_wf d \<Longrightarrow> meets E w w' d e \<Longrightarrow> db_wf e"
  by (auto dest!: meets_reach simp: db_reach_def)

lemma meets_run:
  assumes "others_ok E" "db_wf d1" "meets E w w' d1 d2" "meets E w w' d2 d3" "meets E w w' d3 d4" "meets E w w' d4 d5"
  shows "db_reach d1 d5"
  using assms by (metis meets_reach db_reach_def db_reach_trans)

section \<open>Users and credentials\<close>

lemma email_by_user_id_Some:
  "email_by_user_id is k = Some x \<Longrightarrow> x \<in> set is \<and> li_user x = k"
  unfolding email_by_user_id_def
  by (induction "is" rule: rev_induct) (auto split: if_splits)

lemma collect_single: "collect_results f [x] = Inr ys \<longleftrightarrow> (\<exists>y. f x = Inr y \<and> ys = [y])"
  by (auto split: sum.splits)

lemma exec_only:
  "db_exec E (only T P) w = (Inr x, w') \<longleftrightarrow>
     store_fault E (tick w) = None \<and> ent_only P (tb_get T (de_others E (tick w) (dw_db w))) = Inr x
     \<and> w' = w\<lparr>tick := Suc (tick w), dw_db := de_others E (tick w) (dw_db w)\<rparr>"
  by (auto simp: db_exec_Inr only_Inr)

lemma exec_all_where:
  "db_exec E (all_where T P) w = (Inr xs, w') \<longleftrightarrow>
     store_fault E (tick w) = None \<and> xs = filter P (tb_get T (de_others E (tick w) (dw_db w)))
     \<and> w' = w\<lparr>tick := Suc (tick w), dw_db := de_others E (tick w) (dw_db w)\<rparr>"
  by (auto simp: db_exec_Inr all_where_eq)

lemma user_get_trace:
  assumes "user_get E L i w = (Inr user, w')"
  obtains d u x where "meets E w w' (dw_db w) d" "meets E w w' d (dw_db w')" "tick w < tick w'"
    "ent_only (\<lambda>u. us_id u = i) (db_users d) = Inr u" "u \<in> set (db_users d)" "us_id u = i"
    "up_status user = user_status_of (us_status u)"
    "x \<in> set (db_identifiers (dw_db w'))" "li_user x = i" "li_type x = login_identifier_email"
    "up_user_id user = i" "up_email user = Some (li_display x)"
    "up_email_verified user = (li_verified x \<noteq> None)" "up_etag user = up_etag (il_copy L u)"
proof -
  let ?d = "de_others E (tick w) (dw_db w)"
  let ?e = "de_others E (Suc (tick w)) ?d"
  from assms obtain u x where
    u: "ent_only (\<lambda>u. us_id u = i) (db_users ?d) = Inr u"
    and w': "w' = w\<lparr>tick := Suc (Suc (tick w)), dw_db := ?e\<rparr>"
    and x: "email_by_user_id (filter (\<lambda>x. li_user x = us_id u \<and> li_type x = login_identifier_email) (db_identifiers ?e))
              (us_id u) = Some x"
    and user: "user = (to_dto L u)\<lparr>up_email := Some (li_display x), up_email_verified := li_verified x \<noteq> None,
                 up_email_verified_time := (if li_verified x \<noteq> None then li_verified x else up_email_verified_time (to_dto L u))\<rparr>"
    by (auto simp: user_get_def to_resources_def pass_Inr translated_Inr collect_single exec_only exec_all_where
        users_t_def identifiers_t_def to_resource_def simp del: collect_results.simps split: option.splits)
  note id = ent_only_in [OF u]
  have m: "meets E w w' (dw_db w) ?d" "meets E w w' ?d (dw_db w')" "tick w < tick w'"
    by (auto simp: w' intro!: meetsI)
  show thesis
    using id email_by_user_id_Some [OF x] user w'
    by (intro that [OF m u, of x]) (auto simp: to_dto_def)
qed

lemma find_by_email_trace:
  fixes w :: "(db, 'z) db_world_scheme"
  assumes "user_find_by_email E L c w = (Inr user, w')"
  obtains i and v :: "(db, 'z) db_world_scheme" where "meets E w v (dw_db w) (dw_db v)" "tick w < tick v"
    "i \<in> set (db_identifiers (dw_db v))" "li_type i = login_identifier_email" "li_canonical i = c"
    "user_get E L (li_user i) v = (Inr user, w')"
proof -
  let ?v = "w\<lparr>tick := Suc (tick w), dw_db := de_others E (tick w) (dw_db w)\<rparr>"
  from assms obtain i where "ent_only (\<lambda>i. li_type i = login_identifier_email \<and> li_canonical i = c)
      (db_identifiers (de_others E (tick w) (dw_db w))) = Inr i" and g: "user_get E L (li_user i) ?v = (Inr user, w')"
    by (auto simp: user_find_by_email_def pass_Inr translated_Inr exec_only identifiers_t_def)
  then show thesis by (intro that [of ?v i]) (auto dest!: ent_only_in intro!: meetsI)
qed

lemma credential_find_trace:
  assumes "credential_find_active E u w = (Inr c, w')"
  obtains d a q where "meets E w w' (dw_db w) d" "meets E w w' d (dw_db w')" "tick w < tick w'"
    "a \<in> set (db_authenticators d)" "active_password_of u a"
    "q \<in> set (db_passwords (dw_db w'))" "pw_authenticator q = au_id a" "pcr_password_hash c = pw_hash q"
proof -
  let ?d = "de_others E (tick w) (dw_db w)"
  let ?e = "de_others E (Suc (tick w)) ?d"
  from assms obtain a q where f: "ent_only (active_password_of u) (db_authenticators ?d) = Inr a"
    "ent_only (\<lambda>p. pw_authenticator p = au_id a) (db_passwords ?e) = Inr q" "pcr_password_hash c = pw_hash q"
    and w': "w' = w\<lparr>tick := Suc (Suc (tick w)), dw_db := ?e\<rparr>"
    by (auto simp: credential_find_active_def pass_Inr translated_Inr exec_only authenticators_t_def passwords_t_def)
  have m: "meets E w w' (dw_db w) ?d" "meets E w w' ?d (dw_db w')" "tick w < tick w'"
    by (auto simp: w' intro!: meetsI)
  show thesis using ent_only_in [OF f(1)] ent_only_in [OF f(2)] f(3) w' by (intro that [OF m]) auto
qed

section \<open>Login sessions\<close>

lemma login_find_trace:
  assumes "login_find E h w = (Inr (s, u, revoked), w')"
  obtains l where "meets E w w' (dw_db w) (dw_db w')" "tick w' = Suc (tick w)"
    "l \<in> set (db_logins (dw_db w'))" "ls_secret l = h"
    "s = Some (to_session l)" "u = ls_user l" "revoked = (ls_revoked l \<noteq> None)"
  using assms
  by (auto simp: login_find_def pass_Inr translated_Inr exec_only logins_t_def dest!: ent_only_in intro!: that meetsI)

lemma stamp_tick: "stamp E t0 w t v \<Longrightarrow> tick w \<le> tick v \<and> tick v \<le> Suc (tick w) \<and> dw_db v = dw_db w"
  by (auto simp: stamp_def split: if_splits)

lemma login_touch_trace:
  assumes "login_touch E sid t0 w = (Inr s, w')"
  obtains t d e c r where "t = t0 \<or> reads_clock E w w' t" "meets E w w' (dw_db w) d" "meets E w w' d e"
    "tick w < tick w'" "c \<in> set (db_logins d)" "ls_id c = sid"
    "r \<in> set (db_logins e)" "ls_id r = sid" "ls_revoked r = None" "t < ls_idle r" "t < ls_absolute r"
    "s = to_session (r\<lparr>ls_seen := t, ls_idle := min (t + login_session_idle_ttl) (ls_absolute c)\<rparr>)"
    "dw_db w' = e\<lparr>db_logins := ent_update_where
       (\<lambda>l. ls_id l = sid \<and> ls_revoked l = None \<and> ls_idle l > t \<and> ls_absolute l > t)
       (\<lambda>l. l\<lparr>ls_seen := t, ls_idle := min (t + login_session_idle_ttl) (ls_absolute c)\<rparr>) (db_logins e)\<rparr>"
proof -
  let ?idle = "\<lambda>t c. if t + login_session_idle_ttl > ls_absolute c then ls_absolute c else t + login_session_idle_ttl"
  have idle: "?idle t c = min (t + login_session_idle_ttl) (ls_absolute c)" for t and c :: login_row by simp
  from assms obtain t v c x where st: "stamp E t0 w t v"
    and c: "ent_only (\<lambda>l. ls_id l = sid) (db_logins (de_others E (tick v) (dw_db v))) = Inr c"
    and up: "update_one logins_t (\<lambda>l. ls_id l = sid \<and> ls_revoked l = None \<and> ls_idle l > t \<and> ls_absolute l > t)
        (\<lambda>_ l. l\<lparr>ls_seen := t, ls_idle := min (t + login_session_idle_ttl) (ls_absolute c)\<rparr>) (clock E (Suc (tick v)))
        (de_others E (Suc (tick v)) (de_others E (tick v) (dw_db v))) = (Inr x, dw_db w')"
    and w': "w' = v\<lparr>tick := Suc (Suc (tick v)), dw_db := dw_db w'\<rparr>" and s: "s = to_session x"
    unfolding login_touch_def Let_def idle time_or_now_eq pass_Inr translated_Inr or_mutation_miss_Inr exec_only
    by (auto simp: pass_Inr or_mutation_miss_Inr db_exec_Inr logins_t_def)
  note db = stamp_tick [OF st]
  note u = update_one_Inr [OF up, unfolded logins_t_def, simplified]
  from u obtain r where r: "r \<in> set (db_logins (de_others E (Suc (tick v)) (de_others E (tick v) (dw_db w))))"
    "ls_id r = sid" "ls_revoked r = None" "t < ls_idle r" "t < ls_absolute r"
    "x = r\<lparr>ls_seen := t, ls_idle := min (t + login_session_idle_ttl) (ls_absolute c)\<rparr>" using db by auto
  from u db have d: "dw_db w' = (de_others E (Suc (tick v)) (de_others E (tick v) (dw_db w)))
      \<lparr>db_logins := ent_update_where
       (\<lambda>l. ls_id l = sid \<and> ls_revoked l = None \<and> ls_idle l > t \<and> ls_absolute l > t)
       (\<lambda>l. l\<lparr>ls_seen := t, ls_idle := min (t + login_session_idle_ttl) (ls_absolute c)\<rparr>)
       (db_logins (de_others E (Suc (tick v)) (de_others E (tick v) (dw_db w))))\<rparr>" by simp
  have m: "meets E w w' (dw_db w) (de_others E (tick v) (dw_db w))"
      "meets E w w' (de_others E (tick v) (dw_db w)) (de_others E (Suc (tick v)) (de_others E (tick v) (dw_db w)))"
      "tick w < tick w'" using db by (auto simp: arg_cong [OF w', of tick] intro!: meetsI)
  have t: "t = t0 \<or> reads_clock E w w' t"
    using st by (auto simp: stamp_def arg_cong [OF w', of tick] intro!: reads_clockI split: if_splits)
  have c': "c \<in> set (db_logins (de_others E (tick v) (dw_db w)))" "ls_id c = sid" using ent_only_in [OF c] db by auto
  show thesis using r s by (intro that [OF t m c' r(1-5) _ d]) simp
qed

lemma login_create_trace:
  assumes "login_create E u h t0 w = (Inr s, w')"
  obtains sid t v d where "stamp E t0 (w\<lparr>tick := Suc (tick w)\<rparr>) t v" "d = de_others E (tick v) (dw_db w)"
    "s = to_session (new_login_row sid u h t)" "\<not> list_ex (login_clash (new_login_row sid u h t)) (db_logins d)"
    "w' = v\<lparr>tick := Suc (tick v), dw_db := d\<lparr>db_logins := db_logins d @ [new_login_row sid u h t]\<rparr>\<rparr>"
  using assms
  by (auto simp: login_create_def pass_Inr new_user_id_Inr time_or_now_eq translated_Inr db_exec_Inr create_Inr logins_t_def
      dest: stamp_tick intro!: that)

lemma session_create_trace:
  assumes "session_create E L (iam_sessions E L) u w = (Inr (s, secret), w')"
  obtains sid t d where "reads_clock E w w' t" "meets E w w' (dw_db w) d" "tick w < tick w'"
    "s = to_session (new_login_row sid u (hash_opaque_secret L secret) t)"
    "\<not> list_ex (login_clash (new_login_row sid u (hash_opaque_secret L secret) t)) (db_logins d)"
    "dw_db w' = d\<lparr>db_logins := db_logins d @ [new_login_row sid u (hash_opaque_secret L secret) t]\<rparr>"
    "\<exists>b. rand_read E (tick w) opaque_secret_bytes = Inr b \<and> secret = b64_encode b"
proof -
  let ?w2 = "w\<lparr>tick := Suc (Suc (tick w))\<rparr>"
  from assms obtain b where b: "rand_read E (tick w) opaque_secret_bytes = Inr b" "secret = b64_encode b"
    and c: "login_create E u (hash_opaque_secret L secret) (clock E (Suc (tick w))) ?w2 = (Inr s, w')"
    by (auto simp: session_create_def wired check_eq seq_eq now_eq new_opaque_secret_Inr split: if_splits)
  from login_create_trace [OF c] obtain sid t v d where
    st: "stamp E (clock E (Suc (tick w))) (?w2\<lparr>tick := Suc (tick ?w2)\<rparr>) t v" and d: "d = de_others E (tick v) (dw_db ?w2)"
    and s: "s = to_session (new_login_row sid u (hash_opaque_secret L secret) t)"
    and n: "\<not> list_ex (login_clash (new_login_row sid u (hash_opaque_secret L secret) t)) (db_logins d)"
    and w': "w' = v\<lparr>tick := Suc (tick v), dw_db := d\<lparr>db_logins := db_logins d
        @ [new_login_row sid u (hash_opaque_secret L secret) t]\<rparr>\<rparr>" .
  note k = stamp_tick [OF st]
  have t: "t = clock E (Suc (tick w)) \<or> t = clock E (Suc (Suc (Suc (tick w)))) \<and> tick v = Suc (Suc (Suc (Suc (tick w))))"
    using st by (auto simp: stamp_def split: if_splits)
  show thesis
  proof (rule that [of t d sid])
    show "reads_clock E w w' t" using t k by (auto simp: w' intro!: reads_clockI)
    show "meets E w w' (dw_db w) d" using k by (auto simp: w' d intro!: meetsI)
  qed (use s n b k in \<open>auto simp: w'\<close>)
qed

section \<open>The end of a user's sessions\<close>

text \<open>
  The rows after \<open>RevokeAll\<close> on the login sessions of a user, and after the revocation of the token sessions
  of which \<open>P\<close> holds, with all their tokens.
\<close>

definition logins_ended :: "string \<Rightarrow> time \<Rightarrow> db \<Rightarrow> db" where
  "logins_ended u t d = d\<lparr>db_logins := ent_update_where (\<lambda>l. ls_user l = u \<and> ls_revoked l = None)
     (\<lambda>l. l\<lparr>ls_revoked := Some t\<rparr>) (db_logins d)\<rparr>"

definition tokens_ended :: "(tsession_row \<Rightarrow> bool) \<Rightarrow> time \<Rightarrow> time \<Rightarrow> db \<Rightarrow> db" where
  "tokens_ended P t n d =
     (let ids = set (map ts_id (filter P (db_tsessions d))) in
      d\<lparr>db_tsessions := ent_update_where (\<lambda>s. ts_id s \<in> ids \<and> ts_revoked s = None)
          (\<lambda>s. s\<lparr>ts_revoked := Some t, ts_update := n\<rparr>) (db_tsessions d),
        db_access := ent_update_where (\<lambda>a. at_session a \<in> ids \<and> at_revoked a = None)
          (\<lambda>a. a\<lparr>at_revoked := Some t\<rparr>) (db_access d),
        db_refresh := ent_update_where (\<lambda>r. rf_session r \<in> ids \<and> rf_revoked r = None)
          (\<lambda>r. r\<lparr>rf_revoked := Some t\<rparr>) (db_refresh d)\<rparr>)"

text \<open>The call ended all sessions of \<open>u\<close>: from \<open>d\<close>, first its login sessions, then its token sessions, to \<open>d'\<close>.\<close>

definition user_ended ::
    "db dbenv \<Rightarrow> (db, 'z) db_world_scheme \<Rightarrow> (db, 'z) db_world_scheme \<Rightarrow> string \<Rightarrow> db \<Rightarrow> db \<Rightarrow> bool" where
  "user_ended E w w' u d d' \<longleftrightarrow>
     (\<exists>e t e2 t2 n. meets E w w' d e \<and> reads_clock E w w' t
        \<and> meets E w w' (logins_ended u t e) e2 \<and> reads_clock E w w' t2 \<and> reads_clock E w w' n
        \<and> d' = tokens_ended (\<lambda>s. ts_user s = u) t2 n e2)"

lemma user_ended_within:
  assumes "user_ended E v v' u d d'" "tick w \<le> tick v" "tick v' \<le> tick w'"
  shows "user_ended E w w' u d d'"
  using assms(1) meets_within [OF _ assms(2,3)] reads_clock_within [OF _ assms(2,3)] unfolding user_ended_def by blast

lemma tokens_ended_none: "filter P (db_tsessions d) = [] \<Longrightarrow> tokens_ended P t n d = d"
  by (simp add: tokens_ended_def ent_update_where_def Let_def)

lemma revoke_token_sessions_tx_trace:
  assumes "revoke_token_sessions_tx E t P w = (Inr (), w')"
  shows "\<exists>k. tick w < k \<and> k \<le> tick w' \<and> dw_db w' = tokens_ended P t (clock E k) (dw_db w)" "tick w < tick w'"
proof -
  have "dw_db w' = tokens_ended P t (clock E (Suc (tick w))) (dw_db w) \<and> tick w < tick w'"
  proof (cases "filter P (db_tsessions (dw_db w)) = []")
    case True
    with assms show ?thesis
      by (auto simp: revoke_token_sessions_tx_def pass_Inr ent_wrappers_Inr tx_exec_Inr all_where_eq
          tsessions_t_def Let_def tokens_ended_none)
  next
    case False
    with assms show ?thesis
      by (auto simp: revoke_token_sessions_tx_def pass_Inr ent_wrappers_Inr tx_exec_Inr all_where_eq
          update_where_eq table_defs Let_def tokens_ended_def)
  qed
  then show "\<exists>k. tick w < k \<and> k \<le> tick w' \<and> dw_db w' = tokens_ended P t (clock E k) (dw_db w)" "tick w < tick w'"
    by (auto intro!: exI [of _ "Suc (tick w)"])
qed

lemma tx_trace:
  fixes w :: "('d, 'z) db_world_scheme"
  assumes "in_tx_with b c E body w = (Inr x, w')"
  obtains v u :: "('d, 'z) db_world_scheme" where "dw_db v = de_others E (tick w) (dw_db w)" "tick v = Suc (tick w)"
    "body v = (Inr x, u)" "dw_db w' = dw_db u" "tick w' = Suc (tick u)"
  using assms unfolding in_tx_Inr by (auto intro!: that)

lemma login_revoke_all_trace:
  assumes "login_revoke_all E u t0 w = (Inr (), w')"
  obtains t d where "t = t0 \<or> reads_clock E w w' t" "meets E w w' (dw_db w) d" "tick w < tick w'"
    "dw_db w' = logins_ended u t d"
proof -
  from assms obtain t v n where st: "stamp E t0 w t v"
    and e: "db_exec E (update_where logins_t (\<lambda>l. ls_user l = u \<and> ls_revoked l = None) (\<lambda>_ l. l\<lparr>ls_revoked := Some t\<rparr>)) v
      = (Inr n, w')" by (auto simp: login_revoke_all_def time_or_now_eq ent_wrappers_Inr)
  note k = stamp_tick [OF st]
  have w': "tick w' = Suc (tick v)" "dw_db w' = logins_ended u t (de_others E (tick v) (dw_db v))"
    using e by (auto simp: db_exec_Inr update_where_eq logins_t_def logins_ended_def)
  show thesis
  proof (rule that [of t "de_others E (tick v) (dw_db v)"])
    show "t = t0 \<or> reads_clock E w w' t" using st w' by (auto simp: stamp_def intro!: reads_clockI split: if_splits)
    show "meets E w w' (dw_db w) (de_others E (tick v) (dw_db v))" using k w' by (auto intro!: meetsI)
  qed (use k w' in simp_all)
qed

lemma token_revoke_all_trace:
  fixes w :: "(db, 'z) db_world_scheme"
  assumes "token_revoke_all E u t0 w = (Inr (), w')" "u \<noteq> []"
  obtains t d n where "t = t0 \<or> reads_clock E w w' t" "meets E w w' (dw_db w) d" "reads_clock E w w' n" "tick w < tick w'"
    "dw_db w' = tokens_ended (\<lambda>s. ts_user s = u) t n d"
proof -
  from assms obtain t and v :: "(db, 'z) db_world_scheme" where st: "stamp E t0 w t v"
    and tx: "in_tx E (revoke_token_sessions_tx E t (\<lambda>s. ts_user s = u)) v = (Inr (), w')"
    by (auto simp: token_revoke_all_def token_revoke_def time_or_now_eq)
  note k = stamp_tick [OF st]
  obtain v1 v2 :: "(db, 'z) db_world_scheme" where v1: "dw_db v1 = de_others E (tick v) (dw_db v)" "tick v1 = Suc (tick v)"
    and run: "revoke_token_sessions_tx E t (\<lambda>s. ts_user s = u) v1 = (Inr (), v2)"
    and w': "dw_db w' = dw_db v2" "tick w' = Suc (tick v2)" by (rule tx_trace [OF tx])
  from revoke_token_sessions_tx_trace [OF run] obtain n where n: "tick v1 < n" "n \<le> tick v2" "tick v1 < tick v2"
    "dw_db v2 = tokens_ended (\<lambda>s. ts_user s = u) t (clock E n) (dw_db v1)" by blast
  show thesis
  proof (rule that [of t "dw_db v1" "clock E n"])
    show "t = t0 \<or> reads_clock E w w' t" using st k v1 w' n by (auto simp: stamp_def intro!: reads_clockI split: if_splits)
    show "meets E w w' (dw_db w) (dw_db v1)" using k v1 w' n by (auto intro!: meetsI)
  qed (use k v1 w' n in \<open>auto intro!: reads_clockI\<close>)
qed

lemma session_revoke_all_trace:
  assumes "session_revoke_all E (iam_sessions E L) u w = (Inr (), w')"
  shows "user_ended E w w' u (dw_db w) (dw_db w')" "tick w < tick w'"
proof -
  let ?v = "w\<lparr>tick := Suc (tick w)\<rparr>"
  from assms obtain v1 where u: "u \<noteq> []" and a: "login_revoke_all E u (clock E (tick w)) ?v = (Inr (), v1)"
    and b: "token_revoke_all E u (clock E (tick w)) v1 = (Inr (), w')"
    by (auto simp: session_revoke_all_def wired check_eq seq_eq now_eq join2_Inr split: if_splits)
  obtain t d where t: "t = clock E (tick w) \<or> reads_clock E ?v v1 t" and d: "meets E ?v v1 (dw_db ?v) d"
    and k: "tick ?v < tick v1" and v1: "dw_db v1 = logins_ended u t d" by (rule login_revoke_all_trace [OF a])
  obtain t2 e n where t2: "t2 = clock E (tick w) \<or> reads_clock E v1 w' t2" and e: "meets E v1 w' (dw_db v1) e"
    and n: "reads_clock E v1 w' n" and k2: "tick v1 < tick w'"
    and w': "dw_db w' = tokens_ended (\<lambda>s. ts_user s = u) t2 n e" by (rule token_revoke_all_trace [OF b u])
  have le: "tick w \<le> tick ?v" "tick v1 \<le> tick w'" "tick w \<le> tick v1" "tick w' \<le> tick w'" using k k2 by simp_all
  have "reads_clock E w w' (clock E (tick w))" using k k2 by (auto intro!: reads_clockI)
  then have "reads_clock E w w' t" "reads_clock E w w' t2" "reads_clock E w w' n"
    using t t2 n reads_clock_within [OF _ le(1,2)] reads_clock_within [OF _ le(3,4)] by blast+
  moreover have "meets E w w' (dw_db w) d" "meets E w w' (logins_ended u t d) e"
    using meets_within [OF d le(1,2)] meets_within [OF e le(3,4)] v1 by simp_all
  ultimately show "user_ended E w w' u (dw_db w) (dw_db w')" using w' unfolding user_ended_def by blast
  show "tick w < tick w'" using k k2 by simp
qed

section \<open>Mailed tokens\<close>

text \<open>The one write of a password reset: the new hash and the end of the token, committed together.\<close>

definition reset_db :: "rtoken_row \<Rightarrow> password_row \<Rightarrow> string \<Rightarrow> time \<Rightarrow> db \<Rightarrow> db" where
  "reset_db x q h t d = d\<lparr>
     db_passwords := ent_update_where (\<lambda>r. pw_id r = pw_id q) (\<lambda>r. r\<lparr>pw_hash := h, pw_changed := t\<rparr>) (db_passwords d),
     db_rtokens := ent_update_where (\<lambda>r. rt_id r = rt_id x \<and> rt_consumed r = None \<and> rt_expires r > t)
       (\<lambda>r. r\<lparr>rt_consumed := Some t\<rparr>) (db_rtokens d)\<rparr>"

text \<open>The one write of an activation: the user active and its email identifier verified, committed together.\<close>

definition activated_db :: "string \<Rightarrow> string \<Rightarrow> string \<Rightarrow> time \<Rightarrow> time \<Rightarrow> db \<Rightarrow> db" where
  "activated_db u i g t n d = d\<lparr>
     db_users := ent_update_where (\<lambda>x. us_id x = u \<and> us_status x = user_status_pending)
       (\<lambda>x. x\<lparr>us_status := user_status_active, us_etag := g, us_update := t\<rparr>) (db_users d),
     db_identifiers := ent_update_where (\<lambda>y. li_id y = i)
       (\<lambda>y. y\<lparr>li_verified := Some t, li_update := n\<rparr>) (db_identifiers d)\<rparr>"

lemma consume_and_replace_tx_tick:
  "consume_and_replace_tx E x p t w = (Inr (), w') \<Longrightarrow> tick w < tick w'"
  by (auto simp: consume_and_replace_tx_def pass_Inr ent_wrappers_Inr tx_exec_Inr)

lemma rtoken_consume_trace:
  fixes w :: "(db, 'z) db_world_scheme"
  assumes "rtoken_consume_and_replace E h p t0 w = (Inr u, w')"
  obtains t d e x a q where "t = t0 \<or> reads_clock E w w' t" "meets E w w' (dw_db w) d" "meets E w w' d e" "tick w < tick w'"
    "x \<in> set (db_rtokens d)" "rt_hash x = h" "rt_user x = u" "rt_consumed x = None" "t < rt_expires x"
    "ent_only (active_password_of u) (db_authenticators e) = Inr a"
    "ent_only (\<lambda>q. pw_authenticator q = au_id a) (db_passwords e) = Inr q"
    "\<exists>r \<in> set (db_rtokens e). rt_id r = rt_id x \<and> rt_consumed r = None \<and> t < rt_expires r"
    "dw_db w' = reset_db x q p t e"
proof -
  from assms obtain t x and v v1 :: "(db, 'z) db_world_scheme" where st: "stamp E t0 w t v"
    and e1: "db_exec E (only rtokens_t (\<lambda>x. rt_hash x = h)) v = (Inr x, v1)"
    and c: "rt_consumed x = None" "t < rt_expires x"
    and e2: "in_tx E (consume_and_replace_tx E x p t) v1 = (Inr (), w')" and u: "rt_user x = u"
    by (auto simp: rtoken_consume_and_replace_def time_or_now_eq pass_Inr ent_wrappers_Inr split: if_splits)
  note k = stamp_tick [OF st]
  from e1 have v1: "tick v1 = Suc (tick v)" "dw_db v1 = de_others E (tick v) (dw_db v)"
    and x: "x \<in> set (db_rtokens (dw_db v1))" "rt_hash x = h"
    by (auto simp: exec_only rtokens_t_def dest!: ent_only_in)
  obtain v2 v3 :: "(db, 'z) db_world_scheme" where v2: "dw_db v2 = de_others E (tick v1) (dw_db v1)" "tick v2 = Suc (tick v1)"
    and tx: "consume_and_replace_tx E x p t v2 = (Inr (), v3)" and w': "dw_db w' = dw_db v3" "tick w' = Suc (tick v3)"
    by (rule tx_trace [OF e2])
  note k2 = consume_and_replace_tx_tick [OF tx]
  obtain a q where body: "ent_only (active_password_of (rt_user x)) (db_authenticators (dw_db v2)) = Inr a"
    "ent_only (\<lambda>q. pw_authenticator q = au_id a) (db_passwords (dw_db v2)) = Inr q"
    "\<exists>r \<in> set (db_rtokens (dw_db v2)). rt_id r = rt_id x \<and> rt_consumed r = None \<and> t < rt_expires r"
    "dw_db v3 = reset_db x q p t (dw_db v2)"
    by (rule consume_and_replace_tx_Inr [OF tx, folded reset_db_def])
  show thesis
  proof (rule that [OF _ _ _ _ x u c body(1) [unfolded u] body(2,3)])
    show "t = t0 \<or> reads_clock E w w' t"
      using st k v1 v2 k2 w' by (auto simp: stamp_def intro!: reads_clockI split: if_splits)
    show "meets E w w' (dw_db w) (dw_db v1)" "meets E w w' (dw_db v1) (dw_db v2)"
      using k v1 v2 k2 w' by (auto intro!: meetsI)
  qed (use k v1 v2 k2 w' body in simp_all)
qed

lemma vtoken_consume_trace:
  assumes "vtoken_consume E h t0 w = (Inr u, w')"
  obtains t d e x y where "t = t0 \<or> reads_clock E w w' t" "meets E w w' (dw_db w) d" "meets E w w' d e" "tick w < tick w'"
    "x \<in> set (db_vtokens d)" "vt_hash x = h" "vt_consumed x = None" "t < vt_expires x"
    "y \<in> set (db_vtokens e)" "vt_id y = vt_id x" "vt_user y = u" "vt_consumed y = None" "t < vt_expires y"
    "dw_db w' = e\<lparr>db_vtokens := ent_update_where
       (\<lambda>v. vt_id v = vt_id x \<and> vt_consumed v = None \<and> vt_expires v > t) (\<lambda>v. v\<lparr>vt_consumed := Some t\<rparr>) (db_vtokens e)\<rparr>"
proof -
  from assms obtain t v x v1 y where st: "stamp E t0 w t v"
    and e1: "db_exec E (only vtokens_t (\<lambda>x. vt_hash x = h)) v = (Inr x, v1)"
    and c: "vt_consumed x = None" "t < vt_expires x"
    and e2: "db_exec E (update_one vtokens_t (\<lambda>v. vt_id v = vt_id x \<and> vt_consumed v = None \<and> vt_expires v > t)
        (\<lambda>_ v. v\<lparr>vt_consumed := Some t\<rparr>)) v1 = (Inr y, w')" and u: "vt_user y = u"
    by (auto simp: vtoken_consume_def time_or_now_eq pass_Inr ent_wrappers_Inr split: if_splits)
  note k = stamp_tick [OF st]
  from e1 have v1: "tick v1 = Suc (tick v)" "dw_db v1 = de_others E (tick v) (dw_db v)"
    and x: "x \<in> set (db_vtokens (dw_db v1))" "vt_hash x = h"
    by (auto simp: exec_only vtokens_t_def dest!: ent_only_in)
  from e2 have w': "tick w' = Suc (tick v1)" by (auto simp: db_exec_Inr)
  from e2 have up: "update_one vtokens_t (\<lambda>v. vt_id v = vt_id x \<and> vt_consumed v = None \<and> vt_expires v > t)
        (\<lambda>_ v. v\<lparr>vt_consumed := Some t\<rparr>) (clock E (tick v1)) (de_others E (tick v1) (dw_db v1)) = (Inr y, dw_db w')"
    by (auto simp: db_exec_Inr)
  from update_one_Inr [OF up] obtain r where r: "r \<in> set (db_vtokens (de_others E (tick v1) (dw_db v1)))"
    "vt_id r = vt_id x" "vt_consumed r = None" "t < vt_expires r" "vt_user r = u"
    and d: "dw_db w' = (de_others E (tick v1) (dw_db v1))\<lparr>db_vtokens := ent_update_where
       (\<lambda>v. vt_id v = vt_id x \<and> vt_consumed v = None \<and> vt_expires v > t) (\<lambda>v. v\<lparr>vt_consumed := Some t\<rparr>)
       (db_vtokens (de_others E (tick v1) (dw_db v1)))\<rparr>"
    using u by (auto simp: vtokens_t_def)
  show thesis
  proof (rule that [OF _ _ _ _ x c r(1,2,5,3,4) d])
    show "t = t0 \<or> reads_clock E w w' t" using st k v1 w' by (auto simp: stamp_def intro!: reads_clockI split: if_splits)
    show "meets E w w' (dw_db w) (dw_db v1)" "meets E w w' (dw_db v1) (de_others E (tick v1) (dw_db v1))"
      using k v1 w' by (auto intro!: meetsI)
  qed (use k v1 w' in simp_all)
qed

lemma activate_email_tx_trace:
  assumes "activate_email_tx E u i g t w = (Inr (), w')"
  shows "\<exists>x \<in> set (db_users (dw_db w)). us_id x = u \<and> us_status x = user_status_pending"
    and "\<exists>y \<in> set (db_identifiers (dw_db w)). li_id y = i"
    and "\<exists>n. tick w \<le> n \<and> n < tick w' \<and> dw_db w' = activated_db u i g t (clock E n) (dw_db w)" and "tick w < tick w'"
proof -
  from assms obtain v x y where
    a: "tx_exec E (update_one users_t (\<lambda>x. us_id x = u \<and> us_status x = user_status_pending)
          (\<lambda>_ x. x\<lparr>us_status := user_status_active, us_etag := g, us_update := t\<rparr>)) w = (Inr x, v)"
    and b: "tx_exec E (update_one identifiers_t (\<lambda>y. li_id y = i)
          (\<lambda>d y. y\<lparr>li_verified := Some t, li_update := d\<rparr>)) v = (Inr y, w')"
    by (auto simp: activate_email_tx_def pass_Inr ent_wrappers_Inr)
  have v: "tick v = Suc (tick w)" "tick w' = Suc (tick v)" using a b by (auto simp: tx_exec_Inr)
  show "\<exists>x \<in> set (db_users (dw_db w)). us_id x = u \<and> us_status x = user_status_pending"
    using a by (auto simp: tx_exec_Inr users_t_def dest!: update_one_Inr)
  show "\<exists>y \<in> set (db_identifiers (dw_db w)). li_id y = i"
    using a b by (auto simp: tx_exec_Inr users_t_def identifiers_t_def dest!: update_one_Inr)
  show "\<exists>n. tick w \<le> n \<and> n < tick w' \<and> dw_db w' = activated_db u i g t (clock E n) (dw_db w)"
    using a b by (intro exI [of _ "tick v"])
      (auto simp: v activated_db_def tx_exec_Inr users_t_def identifiers_t_def dest!: update_one_Inr)
  show "tick w < tick w'" by (simp add: v)
qed

lemma user_activate_email_trace:
  fixes w :: "(db, 'z) db_world_scheme"
  assumes "user_activate_email E u t0 w = (Inr (), w')"
  obtains t g n d e i where "t = t0 \<or> reads_clock E w w' t" "draws_id E w w' g" "reads_clock E w w' n"
    "meets E w w' (dw_db w) d" "meets E w w' d e" "tick w < tick w'"
    "i \<in> set (db_identifiers d)" "li_user i = u" "li_type i = login_identifier_email"
    "\<exists>x \<in> set (db_users e). us_id x = u \<and> us_status x = user_status_pending"
    "\<exists>y \<in> set (db_identifiers e). li_id y = li_id i" "dw_db w' = activated_db u (li_id i) g t n e"
proof -
  from assms obtain t g i and v v1 v2 :: "(db, 'z) db_world_scheme" where st: "stamp E t0 w t v"
    and g: "new_user_id E v = (Inr g, v1)"
    and e1: "db_exec E (only identifiers_t (\<lambda>i. li_user i = u \<and> li_type i = login_identifier_email)) v1 = (Inr i, v2)"
    and e2: "in_tx E (activate_email_tx E u (li_id i) g t) v2 = (Inr (), w')"
    by (auto simp: user_activate_email_def time_or_now_eq pass_Inr ent_wrappers_Inr)
  note k = stamp_tick [OF st]
  have v1: "tick v1 = Suc (tick v)" "dw_db v1 = dw_db v" "uuid_v7 E (tick v) = Inr g" using g by (auto simp: new_user_id_Inr)
  from e1 have v2: "tick v2 = Suc (tick v1)" "dw_db v2 = de_others E (tick v1) (dw_db v1)"
    and i: "i \<in> set (db_identifiers (dw_db v2))" "li_user i = u" "li_type i = login_identifier_email"
    by (auto simp: exec_only identifiers_t_def dest!: ent_only_in)
  obtain v3 v4 :: "(db, 'z) db_world_scheme" where v3: "dw_db v3 = de_others E (tick v2) (dw_db v2)" "tick v3 = Suc (tick v2)"
    and tx: "activate_email_tx E u (li_id i) g t v3 = (Inr (), v4)" and w': "dw_db w' = dw_db v4" "tick w' = Suc (tick v4)"
    by (rule tx_trace [OF e2])
  note up = activate_email_tx_trace [OF tx]
  obtain n where n: "tick v3 \<le> n" "n < tick v4" "dw_db v4 = activated_db u (li_id i) g t (clock E n) (dw_db v3)"
    using up(3) by blast
  show thesis
  proof (rule that [OF _ _ _ _ _ _ i up(1,2)])
    show "t = t0 \<or> reads_clock E w w' t"
      using st k v1 v2 v3 n w' by (auto simp: stamp_def intro!: reads_clockI split: if_splits)
    show "draws_id E w w' g" using k v1 v2 v3 n w' by (intro draws_idI [OF _ _ v1(3)]) auto
    show "reads_clock E w w' (clock E n)" using k v1 v2 v3 n w' by (intro reads_clockI) auto
    show "meets E w w' (dw_db w) (dw_db v2)" "meets E w w' (dw_db v2) (dw_db v3)"
      using k v1 v2 v3 n w' by (auto intro!: meetsI)
  qed (use k v1 v2 v3 n w' in simp_all)
qed

section \<open>Administration\<close>

text \<open>The one write of a status change to disabled: the user over its etag, and all of its authenticators.\<close>

definition disabled_db :: "string \<Rightarrow> string \<Rightarrow> string \<Rightarrow> time \<Rightarrow> time \<Rightarrow> db \<Rightarrow> db" where
  "disabled_db i g tag t n d = d\<lparr>
     db_users := ent_update_where (\<lambda>x. us_id x = i \<and> us_etag x = g)
       (\<lambda>x. x\<lparr>us_status := user_status_disabled, us_etag := tag, us_update := t\<rparr>) (db_users d),
     db_authenticators := ent_update_where (\<lambda>a. au_user a = i)
       (\<lambda>a. a\<lparr>au_state := authenticator_disabled, au_revoked := Some t, au_update := n\<rparr>) (db_authenticators d)\<rparr>"

lemma update_status_tx_trace:
  assumes "update_status_tx E i g UserStatusDisabled user_status_disabled tag t w = (Inr (), w')"
  shows "\<exists>r \<in> set (db_users (dw_db w)). us_id r = i \<and> us_etag r = g" and "tick w < tick w'"
    and "\<exists>n. tick w \<le> n \<and> n < tick w' \<and> dw_db w' = disabled_db i g tag t (clock E n) (dw_db w)"
proof -
  from assms obtain v x k where
    a: "tx_exec E (update_one users_t (\<lambda>x. us_id x = i \<and> us_etag x = g)
          (\<lambda>_ x. x\<lparr>us_status := user_status_disabled, us_etag := tag, us_update := t\<rparr>)) w = (Inr x, v)"
    and b: "tx_exec E (update_where authenticators_t (\<lambda>a. au_user a = i)
          (\<lambda>d a. a\<lparr>au_state := authenticator_disabled, au_revoked := Some t, au_update := d\<rparr>)) v = (Inr k, w')"
    by (auto simp: update_status_tx_def pass_Inr ent_wrappers_Inr)
  have v: "tick v = Suc (tick w)" "tick w' = Suc (tick v)" using a b by (auto simp: tx_exec_Inr)
  show "\<exists>r \<in> set (db_users (dw_db w)). us_id r = i \<and> us_etag r = g"
    using a by (auto simp: tx_exec_Inr users_t_def dest!: update_one_Inr)
  show "\<exists>n. tick w \<le> n \<and> n < tick w' \<and> dw_db w' = disabled_db i g tag t (clock E n) (dw_db w)"
    using a b by (intro exI [of _ "tick v"])
      (auto simp: v disabled_db_def tx_exec_Inr users_t_def authenticators_t_def update_where_eq dest!: update_one_Inr)
  show "tick w < tick w'" by (simp add: v)
qed

lemma user_set_status_trace:
  fixes w :: "(db, 'z) db_world_scheme"
  assumes "user_set_status E L i g UserStatusDisabled t0 w = (Inr user, w')"
  obtains t tag n d e where "t = t0 \<or> reads_clock E w w' t" "draws_id E w w' tag" "reads_clock E w w' n" "tick w < tick w'"
    "meets E w w' (dw_db w) d" "\<exists>r \<in> set (db_users d). us_id r = i \<and> us_etag r = g"
    "meets E w w' (disabled_db i g tag t n d) e" "meets E w w' e (dw_db w')"
proof -
  from assms obtain tag t and v v1 v3 :: "(db, 'z) db_world_scheme" where id: "new_user_id E w = (Inr tag, v)"
    and st: "stamp E t0 v t v1"
    and tx: "in_tx E (update_status_tx E i g UserStatusDisabled user_status_disabled tag t) v1 = (Inr (), v3)"
    and get: "user_get E L i v3 = (Inr user, w')"
    by (auto simp: user_set_status_def Let_def pass_Inr time_or_now_eq split: if_splits)
  have v: "tick v = Suc (tick w)" "dw_db v = dw_db w" "uuid_v7 E (tick w) = Inr tag" using id by (auto simp: new_user_id_Inr)
  note k = stamp_tick [OF st]
  obtain x y :: "(db, 'z) db_world_scheme" where x: "dw_db x = de_others E (tick v1) (dw_db v1)" "tick x = Suc (tick v1)"
    and up: "update_status_tx E i g UserStatusDisabled user_status_disabled tag t x = (Inr (), y)"
    and v3: "dw_db v3 = dw_db y" "tick v3 = Suc (tick y)" by (rule tx_trace [OF tx])
  note u = update_status_tx_trace [OF up]
  obtain n where n: "tick x \<le> n" "n < tick y" "dw_db y = disabled_db i g tag t (clock E n) (dw_db x)" using u(3) by blast
  obtain e where e: "meets E v3 w' (dw_db v3) e" "meets E v3 w' e (dw_db w')" "tick v3 < tick w'" by (rule user_get_trace [OF get])
  have le: "tick w \<le> tick v3" using v k x n v3 by simp
  show thesis
  proof (rule that [of t tag "clock E n" "dw_db x" e])
    show "t = t0 \<or> reads_clock E w w' t"
      using st v k x n v3 e by (auto simp: stamp_def intro!: reads_clockI split: if_splits)
    show "draws_id E w w' tag" using v k x n v3 e by (intro draws_idI [OF _ _ v(3)]) auto
    show "reads_clock E w w' (clock E n)" using v k x n v3 e by (intro reads_clockI) auto
    show "meets E w w' (dw_db w) (dw_db x)" using v k x n v3 e by (auto intro!: meetsI)
    show "meets E w w' (disabled_db i g tag t (clock E n) (dw_db x)) e" "meets E w w' e (dw_db w')"
      using meets_within [OF e(1) le order_refl] meets_within [OF e(2) le order_refl] v3 n by simp_all
  qed (use v k x n v3 e u in simp_all)
qed

lemma update_profile_trace:
  fixes w :: "(db, 'z) db_world_scheme"
  assumes "user_update_profile E L i g f w = (Inr user, w')"
  obtains t tag c d e where "reads_clock E w w' t" "draws_id E w w' tag" "g \<noteq> []" "tick w < tick w'"
    "il_clear L (zero_user\<lparr>up_profile := f\<rparr>) user_profile_write_mask = Inr c"
    "meets E w w' (dw_db w) d" "\<exists>r \<in> set (db_users d). us_id r = i \<and> us_etag r = g"
    "meets E w w' (d\<lparr>db_users := ent_update_where (\<lambda>x. us_id x = i \<and> us_etag x = g)
       (\<lambda>x. x\<lparr>us_profile := mutate_profile c f user_profile_write_mask (us_profile x),
          us_etag := tag, us_update := t\<rparr>) (db_users d)\<rparr>) e" "meets E w w' e (dw_db w')"
proof -
  from assms obtain tag c x and v v1 :: "(db, 'z) db_world_scheme" where
    g: "g \<noteq> []" and c: "il_clear L (zero_user\<lparr>up_profile := f\<rparr>) user_profile_write_mask = Inr c"
    and id: "new_user_id E w = (Inr tag, v)"
    and e: "db_exec E (update_one users_t (\<lambda>u. us_id u = i \<and> us_etag u = g)
        (\<lambda>d u. u\<lparr>us_profile := mutate_profile c (up_profile (zero_user\<lparr>up_profile := f\<rparr>)) user_profile_write_mask (us_profile u),
           us_etag := tag, us_update := d\<rparr>)) v = (Inr x, v1)"
    and get: "user_get E L (us_id x) v1 = (Inr user, w')"
    by (auto simp: user_update_profile_def update_profile_fields_def check_eq ent_wrappers_Inr split: if_splits)
  have v: "tick v = Suc (tick w)" "dw_db v = dw_db w" "uuid_v7 E (tick w) = Inr tag" using id by (auto simp: new_user_id_Inr)
  let ?d = "de_others E (tick v) (dw_db v)"
  have v1: "tick v1 = Suc (tick v)" using e by (auto simp: db_exec_Inr)
  from e have up: "update_one users_t (\<lambda>u. us_id u = i \<and> us_etag u = g)
        (\<lambda>d u. u\<lparr>us_profile := mutate_profile c (up_profile (zero_user\<lparr>up_profile := f\<rparr>)) user_profile_write_mask (us_profile u),
           us_etag := tag, us_update := d\<rparr>) (clock E (tick v)) ?d = (Inr x, dw_db v1)" by (auto simp: db_exec_Inr)
  note out = update_one_Inr [OF up, unfolded users_t_def, simplified]
  obtain e where e: "meets E v1 w' (dw_db v1) e" "meets E v1 w' e (dw_db w')" "tick v1 < tick w'" by (rule user_get_trace [OF get])
  have le: "tick w \<le> tick v1" using v v1 by simp
  show thesis
  proof (rule that [OF _ _ g _ c, where d = ?d and e = e and t = "clock E (tick v)"])
    show "reads_clock E w w' (clock E (tick v))" using v v1 e by (intro reads_clockI) auto
    show "draws_id E w w' tag" using v v1 e by (intro draws_idI [OF _ _ v(3)]) auto
    show "meets E w w' (dw_db w) ?d" using v v1 e by (auto intro!: meetsI)
    show "\<exists>r \<in> set (db_users ?d). us_id r = i \<and> us_etag r = g" using out by blast
    show "meets E w w' (?d\<lparr>db_users := ent_update_where (\<lambda>x. us_id x = i \<and> us_etag x = g)
       (\<lambda>x. x\<lparr>us_profile := mutate_profile c f user_profile_write_mask (us_profile x),
          us_etag := tag, us_update := clock E (tick v)\<rparr>) (db_users ?d)\<rparr>) e" "meets E w w' e (dw_db w')"
      using meets_within [OF e(1) le order_refl] meets_within [OF e(2) le order_refl] out by simp_all
  qed (use v v1 e in simp_all)
qed

end
