(* ===== verification/IamClaims.thy ===== *)
theory IamClaims
  imports IamTrace
begin

text \<open>
  What the IAM service guarantees, over any sequence of requests and any interference of the same
  kind: the evolution of the database, the end of sessions, and the single use of mailed tokens.
\<close>

section \<open>Every request\<close>

text \<open>
  C14. Whatever clients, administrators and the start-up ask, and whatever requests of the same kind
  run beside them, the unique indexes hold, account and token rows stay with their immutable columns,
  a verified identifier stays verified, and revoked sessions and consumed tokens never change again.
\<close>

theorem iam_requests_evolve:
  assumes "others_ok E" "deps_ok D" "db_wf (dw_db w)"
  shows "db_reach (dw_db w) (dw_db (serve_all E L D rs w))"
  using serve_all_reach assms .

theorem iam_requests_evolve_witness:
  "db_reach demo_db (dw_db (serve_all demo_env demo_lib demo_deps
      [ReqLogin ''a@x'' ''pw'', ReqVerifyEmail ''vt'', ReqDisableUser ''u1'' []] demo_world))"
  using iam_requests_evolve [OF demo_env_ok(1) demo_deps_ok, of demo_world demo_lib
      "[ReqLogin ''a@x'' ''pw'', ReqVerifyEmail ''vt'', ReqDisableUser ''u1'' []]"]
  by (simp add: demo_world_def demo_db_wf)

text \<open>
  Interference that consists of requests to the service satisfies the assumption on others: the
  guarantee of one replica is the assumption of the next.
\<close>

lemma requests_as_others:
  assumes "others_ok E" "deps_ok D"
  shows "others_ok (E\<lparr>de_others := \<lambda>n d. dw_db (serve_all E L D (rs n) \<lparr>tick = t n, dw_db = d\<rparr>)\<rparr>)"
  unfolding others_ok_def
  using serve_all_reach [OF assms, of "\<lparr>tick = t n, dw_db = d\<rparr>" L "rs n" for n d] by simp

section \<open>Sessions\<close>

lemma serve_all_kept_fact:
  assumes "others_ok E" "deps_ok D" "db_wf (dw_db w)"
  shows "kept E D (dw_db w) (serve_all E L D rs w)"
  using serve_all_reach [OF assms] assms by (simp add: kept_def on_db_def)

lemma revoked_never_resolves:
  assumes "others_ok E" "deps_ok D" "db_wf (dw_db w)" "session_revoked (dw_db w) (hash_opaque_secret L secret)"
  shows "session_resolve E L (iam_sessions E L) secret (serve_all E L D rs w) \<noteq> (Inr r, v)"
  using serve_all_kept_fact [OF assms(1-3)] assms(4) by (intro iam_revoked.never_resolves) auto

lemma spent_reset_never:
  assumes "others_ok E" "deps_ok D" "db_wf (dw_db w)" "rtoken_spent (dw_db w) (hash_opaque_secret L token)"
  shows "account_confirm_password_reset E L (iam_account E L D) token p (serve_all E L D rs w) \<noteq> (Inr x, v)"
  using serve_all_kept_fact [OF assms(1-3)] assms(4) by (intro iam_spent_rtoken.never_resets) auto

lemma spent_vtoken_never:
  assumes "others_ok E" "deps_ok D" "db_wf (dw_db w)" "vtoken_spent (dw_db w) (hash_opaque_secret L token)"
  shows "account_verify_email E L (iam_account E L D) token (serve_all E L D rs w) \<noteq> (Inr x, v)"
  using serve_all_kept_fact [OF assms(1-3)] assms(4) by (intro iam_spent_vtoken.never_verifies) auto

text \<open>
  C3. After a successful logout of a session, its cookie secret never resolves again, through any
  sequence of requests; and every OAuth token session that was opened from it is revoked with its
  access and refresh tokens.
\<close>

theorem logged_out_session_never_resolves:
  assumes "others_ok E" "plain_faults E" "deps_ok D" "db_wf (dw_db w)"
    and "l \<in> set (db_logins (dw_db w))" "ls_id l = sid" "ls_secret l = hash_opaque_secret L secret"
    and "session_logout E (iam_sessions E L) sid w = (Inr (), w')"
  shows "session_resolve E L (iam_sessions E L) secret (serve_all E L D rs w') \<noteq> (Inr r, v)
    \<and> tokens_dead (\<lambda>s. ts_login s = sid) (dw_db w')"
proof
  note out = session_logout_success [OF assms(1,2,4,8)]
  have "db_wf (dw_db w')" using out(1) by (simp add: db_reach_def)
  then show "session_resolve E L (iam_sessions E L) secret (serve_all E L D rs w') \<noteq> (Inr r, v)"
    using revoked_never_resolves [OF assms(1,3)] out(2) [OF assms(5,6)] assms(7) by simp
  show "tokens_dead (\<lambda>s. ts_login s = sid) (dw_db w')" by (rule out(3))
qed

lemma demo_logout: "fst (session_logout demo_env (iam_sessions demo_env demo_lib) ''s1'' demo_world) = Inr ()"
  by (simp add: session_logout_def wired demo_run demo_world_def login_revoke_def
      token_revoke_for_login_def token_revoke_def revoke_token_sessions_tx_def demo_db_def empty_db_def
      demo_rows)

theorem logged_out_session_never_resolves_witness:
  "\<exists>w'. session_logout demo_env (iam_sessions demo_env demo_lib) ''s1'' demo_world = (Inr (), w')
     \<and> (\<forall>r v. session_resolve demo_env demo_lib (iam_sessions demo_env demo_lib) ''sk''
          (serve_all demo_env demo_lib demo_deps [ReqLogin ''a@x'' ''pw''] w') \<noteq> (Inr r, v))
     \<and> tokens_dead (\<lambda>s. ts_login s = ''s1'') (dw_db w')"
proof -
  obtain w' where out: "session_logout demo_env (iam_sessions demo_env demo_lib) ''s1'' demo_world = (Inr (), w')"
    using demo_logout by (metis prod.collapse)
  have wf: "db_wf (dw_db demo_world)" by (simp add: demo_world_def demo_db_wf)
  have l: "new_login_row ''s1'' ''u1'' (hash_opaque_secret demo_lib ''sk'') 1 \<in> set (db_logins (dw_db demo_world))"
    by (simp add: demo_world_def demo_db_def)
  have i: "ls_id (new_login_row ''s1'' ''u1'' (hash_opaque_secret demo_lib ''sk'') 1) = ''s1''"
    "ls_secret (new_login_row ''s1'' ''u1'' (hash_opaque_secret demo_lib ''sk'') 1)
       = hash_opaque_secret demo_lib ''sk''" by (simp_all add: new_login_row_def)
  show ?thesis
    using logged_out_session_never_resolves [OF demo_env_ok demo_deps_ok wf l i out] out by blast
qed

section \<open>Password reset\<close>

text \<open>
  The course of a password reset: the token, found unconsumed and unexpired; at the start of the transaction the one active
  password authenticator of its user, its password and the token still unconsumed; what the transaction commits; and the
  end of the user's sessions.
\<close>

definition password_reset_run ::
    "db dbenv \<Rightarrow> string \<Rightarrow> string \<Rightarrow> (db, 'z) db_world_scheme \<Rightarrow> (db, 'z) db_world_scheme \<Rightarrow> string \<Rightarrow> bool" where
  "password_reset_run E tokenHash passwordHash w w' u \<longleftrightarrow>
     (\<exists>d e t x a q.
        meets E w w' (dw_db w) d \<and> reads_clock E w w' t
        \<and> x \<in> set (db_rtokens d) \<and> rt_hash x = tokenHash \<and> rt_user x = u \<and> rt_consumed x = None \<and> t < rt_expires x
        \<and> meets E w w' d e
        \<and> ent_only (active_password_of u) (db_authenticators e) = Inr a
        \<and> ent_only (\<lambda>q. pw_authenticator q = au_id a) (db_passwords e) = Inr q
        \<and> (\<exists>r \<in> set (db_rtokens e). rt_id r = rt_id x \<and> rt_consumed r = None \<and> t < rt_expires r)
        \<and> user_ended E w w' u (reset_db x q passwordHash t e) (dw_db w'))"

lemma confirm_reset_Inr:
  fixes w :: "(db, 'z) db_world_scheme"
  assumes "account_confirm_password_reset E L (iam_account E L D) token p w = (Inr (), w')"
  obtains h u and v v1 :: "(db, 'z) db_world_scheme" where
    "ag_create_hash (il_argon L) (tick w) p password_params = Inr h"
    "rtoken_consume_and_replace E (hash_opaque_secret L token) h (clock E (Suc (tick w))) v = (Inr u, v1)"
    "dw_db v = dw_db w" "tick v = Suc (Suc (tick w))"
    "session_revoke_all E (iam_sessions E L) u v1 = (Inr (), w')"
  using assms
  by (auto simp: account_confirm_password_reset_def check_eq seq_eq now_eq password_hash_Inr iam_account_def
      password_reset_token_repository_def split: if_splits intro!: that)

lemma confirm_reset_course:
  fixes w :: "(db, 'z) db_world_scheme"
  assumes c: "rtoken_consume_and_replace E k h (clock E (Suc (tick w))) v = (Inr u, v1)"
    and v: "dw_db v = dw_db w" "tick v = Suc (Suc (tick w))"
    and a: "session_revoke_all E (iam_sessions E L) u v1 = (Inr (), w')"
  shows "password_reset_run E k h w w' u"
proof -
  obtain t d e x au q where t: "t = clock E (Suc (tick w)) \<or> reads_clock E v v1 t" and m: "meets E v v1 (dw_db v) d" "meets E v v1 d e"
    and k: "tick v < tick v1"
    and x: "x \<in> set (db_rtokens d)" "rt_hash x = k" "rt_user x = u" "rt_consumed x = None" "t < rt_expires x"
    and au: "ent_only (active_password_of u) (db_authenticators e) = Inr au"
      "ent_only (\<lambda>q. pw_authenticator q = au_id au) (db_passwords e) = Inr q"
      "\<exists>r \<in> set (db_rtokens e). rt_id r = rt_id x \<and> rt_consumed r = None \<and> t < rt_expires r"
    and v1: "dw_db v1 = reset_db x q h t e" by (rule rtoken_consume_trace [OF c])
  note r = session_revoke_all_trace [OF a]
  have le: "tick w \<le> tick v" "tick v1 \<le> tick w'" "tick w \<le> tick v1" using k r(2) v by simp_all
  have "reads_clock E w w' (clock E (Suc (tick w)))" using k r(2) v by (auto intro!: reads_clockI)
  then have "reads_clock E w w' t" using t reads_clock_within [OF _ le(1,2)] by blast
  moreover have "meets E w w' (dw_db w) d" "meets E w w' d e"
    using meets_within [OF m(1) le(1,2)] meets_within [OF m(2) le(1,2)] v by simp_all
  moreover have "user_ended E w w' u (reset_db x q h t e) (dw_db w')"
    using user_ended_within [OF r(1) le(3) order_refl] v1 by simp
  ultimately show ?thesis unfolding password_reset_run_def using x au by blast
qed

text \<open>
  C13. A successful password reset replaces the hash and consumes the token together. It finds the token of one user
  unconsumed and unexpired; in one transaction it writes the hash of the new password, and the time, to the password of
  the user's only active password authenticator and marks the token consumed, writing nothing else; then it ends the
  login sessions and the OAuth token sessions of the user, which is all that it writes after that. The token never resets
  again, no session that the user had before resolves afterwards, and no OAuth token of the user is alive.
\<close>

theorem password_reset_effects:
  fixes w :: "(db, 'a) db_world_scheme"
  assumes "others_ok E" "deps_ok D" "db_wf (dw_db w)"
    and "account_confirm_password_reset E L (iam_account E L D) token newPassword w = (Inr (), w')"
  shows "\<exists>u h. ag_create_hash (il_argon L) (tick w) newPassword password_params = Inr h
    \<and> password_reset_run E (hash_opaque_secret L token) h w w' u
    \<and> (\<exists>x \<in> set (db_rtokens (dw_db w')). rt_hash x = hash_opaque_secret L token \<and> rt_user x = u
       \<and> rt_consumed x \<noteq> None)
    \<and> (\<forall>rs p x v. account_confirm_password_reset E L (iam_account E L D) token p
          (serve_all E L D rs w') \<noteq> (Inr x, v))
    \<and> (\<forall>l \<in> set (db_logins (dw_db w)). ls_user l = u \<longrightarrow>
         (\<forall>secret rs r v. ls_secret l = hash_opaque_secret L secret \<longrightarrow>
            session_resolve E L (iam_sessions E L) secret (serve_all E L D rs w') \<noteq> (Inr r, v)))
    \<and> tokens_dead (\<lambda>s. ts_user s = u) (dw_db w')"
proof -
  from assms(4) obtain h u and v v1 :: "(db, 'a) db_world_scheme" where
    h: "ag_create_hash (il_argon L) (tick w) newPassword password_params = Inr h"
    and c: "rtoken_consume_and_replace E (hash_opaque_secret L token) h (clock E (Suc (tick w))) v = (Inr u, v1)"
    and v: "dw_db v = dw_db w" "tick v = Suc (Suc (tick w))"
    and a: "session_revoke_all E (iam_sessions E L) u v1 = (Inr (), w')"
    by (rule confirm_reset_Inr)
  have wfv: "db_wf (dw_db v)" using assms(3) v by simp
  note c1 = rtoken_consume_success [OF assms(1) wfv c]
  have r1: "db_reach (dw_db w) (dw_db v1)"
    using keeps_step [OF assms(1) wfv c rtoken_consume_keeps] v by simp
  then have wf1: "db_wf (dw_db v1)" by (simp add: db_reach_def)
  note a1 = session_revoke_all_success [OF assms(1) wf1 a]
  have wf': "db_wf (dw_db w')" using a1(1) by (simp add: db_reach_def)
  have old: "session_revoked (dw_db w') (ls_secret l)" if "l \<in> set (db_logins (dw_db w))" "ls_user l = u" for l
    using reach_rowsD(7) [OF r1 that(1)] a1(2) that(2) by (force simp: login_evolves_def)
  show ?thesis
  proof (rule exI [of _ u], rule exI [of _ h], intro conjI allI ballI impI)
    show "password_reset_run E (hash_opaque_secret L token) h w w' u" by (rule confirm_reset_course [OF c v a])
    show "\<exists>x \<in> set (db_rtokens (dw_db w')). rt_hash x = hash_opaque_secret L token \<and> rt_user x = u
        \<and> rt_consumed x \<noteq> None"
      using c1(4) reach_rowsD(6) [OF a1(1)] unfolding rtoken_evolves_def by metis
    show "account_confirm_password_reset E L (iam_account E L D) token p (serve_all E L D rs w') \<noteq> (Inr x, y)"
      for rs p x y
      using spent_reset_never [OF assms(1,2) wf'] rtoken_spent_stays [OF a1(1) c1(2)] by blast
    show "session_resolve E L (iam_sessions E L) secret (serve_all E L D rs w') \<noteq> (Inr r, y)"
      if "l \<in> set (db_logins (dw_db w))" "ls_user l = u" "ls_secret l = hash_opaque_secret L secret"
      for l secret rs r y
      using revoked_never_resolves [OF assms(1,2) wf'] old [OF that(1,2)] that(3) by simp
  qed (rule h, rule a1(3))
qed

lemma demo_reset:
  "fst (account_confirm_password_reset demo_env demo_lib (iam_account demo_env demo_lib demo_deps)
     ''rt'' ''new'' demo_world) = Inr ()"
  by (simp add: account_confirm_password_reset_def wired demo_run demo_world_def demo_hash_nonempty
      rtoken_consume_and_replace_def consume_and_replace_tx_def password_hash_def
      session_revoke_all_def login_revoke_all_def token_revoke_all_def token_revoke_def
      revoke_token_sessions_tx_def demo_db_def empty_db_def demo_rows active_password_of_def
      demo_argon)

theorem password_reset_effects_witness:
  "\<exists>w' u h. account_confirm_password_reset demo_env demo_lib (iam_account demo_env demo_lib demo_deps)
       ''rt'' ''new'' demo_world = (Inr (), w')
     \<and> password_reset_run demo_env (hash_opaque_secret demo_lib ''rt'') h demo_world w' u
     \<and> tokens_dead (\<lambda>s. ts_user s = u) (dw_db w')
     \<and> (\<forall>p x v. account_confirm_password_reset demo_env demo_lib (iam_account demo_env demo_lib demo_deps)
          ''rt'' p (serve_all demo_env demo_lib demo_deps [] w') \<noteq> (Inr x, v))"
proof -
  obtain w' where out: "account_confirm_password_reset demo_env demo_lib (iam_account demo_env demo_lib demo_deps)
      ''rt'' ''new'' demo_world = (Inr (), w')"
    using demo_reset by (metis prod.collapse)
  have wf: "db_wf (dw_db demo_world)" by (simp add: demo_world_def demo_db_wf)
  obtain u h where "password_reset_run demo_env (hash_opaque_secret demo_lib ''rt'') h demo_world w' u"
    and "tokens_dead (\<lambda>s. ts_user s = u) (dw_db w')"
    and "\<forall>rs p x v. account_confirm_password_reset demo_env demo_lib (iam_account demo_env demo_lib demo_deps)
       ''rt'' p (serve_all demo_env demo_lib demo_deps rs w') \<noteq> (Inr x, v)"
    using password_reset_effects [OF demo_env_ok(1) demo_deps_ok wf out] by (elim exE conjE)
  then show ?thesis using out by (intro exI conjI) (assumption | erule spec)+
qed

section \<open>Email verification\<close>

text \<open>
  The course of an email verification: the token, found unconsumed and unexpired, consumed by an update of its own; the
  email identifier of its user; at the start of the next transaction the user, found pending; what that transaction
  commits; and the reads of the answer.
\<close>

definition verification_run ::
    "db dbenv \<Rightarrow> string \<Rightarrow> (db, 'z) db_world_scheme \<Rightarrow> (db, 'z) db_world_scheme \<Rightarrow> string \<Rightarrow> bool" where
  "verification_run E tokenHash w w' u \<longleftrightarrow>
     (\<exists>d1 d2 d3 d4 d5 t t2 n g x i.
        meets E w w' (dw_db w) d1 \<and> reads_clock E w w' t
        \<and> x \<in> set (db_vtokens d1) \<and> vt_hash x = tokenHash \<and> vt_consumed x = None \<and> t < vt_expires x
        \<and> meets E w w' d1 d2
        \<and> (\<exists>y \<in> set (db_vtokens d2). vt_id y = vt_id x \<and> vt_user y = u \<and> vt_consumed y = None \<and> t < vt_expires y)
        \<and> meets E w w' (d2\<lparr>db_vtokens := ent_update_where (\<lambda>v. vt_id v = vt_id x \<and> vt_consumed v = None \<and> vt_expires v > t)
             (\<lambda>v. v\<lparr>vt_consumed := Some t\<rparr>) (db_vtokens d2)\<rparr>) d3
        \<and> i \<in> set (db_identifiers d3) \<and> li_user i = u \<and> li_type i = login_identifier_email
        \<and> meets E w w' d3 d4
        \<and> (\<exists>r \<in> set (db_users d4). us_id r = u \<and> us_status r = user_status_pending)
        \<and> (\<exists>y \<in> set (db_identifiers d4). li_id y = li_id i)
        \<and> draws_id E w w' g \<and> reads_clock E w w' t2 \<and> reads_clock E w w' n
        \<and> meets E w w' (activated_db u (li_id i) g t2 n d4) d5 \<and> meets E w w' d5 (dw_db w'))"

lemma activated_rows:
  assumes "\<exists>x \<in> set (db_users d). us_id x = u \<and> us_status x = user_status_pending"
    and "y \<in> set (db_identifiers d)" "li_id y = i" "li_user y = u" "li_type y = login_identifier_email"
  shows "\<exists>x \<in> set (db_users (activated_db u i g t n d)). us_id x = u \<and> us_status x = user_status_active"
    and "\<exists>x \<in> set (db_identifiers (activated_db u i g t n d)).
      li_user x = u \<and> li_type x = login_identifier_email \<and> li_verified x \<noteq> None"
proof -
  from assms(1) obtain x where x: "x \<in> set (db_users d)" "us_id x = u" "us_status x = user_status_pending" by blast
  show "\<exists>x \<in> set (db_users (activated_db u i g t n d)). us_id x = u \<and> us_status x = user_status_active"
    unfolding activated_db_def using x by (auto intro!: bexI [OF _ updated_in [where x = x]] simp del: set_update_where)
  show "\<exists>x \<in> set (db_identifiers (activated_db u i g t n d)).
      li_user x = u \<and> li_type x = login_identifier_email \<and> li_verified x \<noteq> None"
    unfolding activated_db_def using assms(2-5)
    by (auto intro!: bexI [OF _ updated_in [where x = y]] simp del: set_update_where)
qed

lemma activate_email_success:
  fixes w :: "(db, 'z) db_world_scheme"
  assumes ok: "others_ok E" and wf: "db_wf (dw_db w)"
    and r: "user_activate_email E u t0 w = (Inr (), w')"
  shows "\<exists>i \<in> set (db_identifiers (dw_db w')). li_user i = u \<and> li_type i = login_identifier_email \<and> li_verified i \<noteq> None"
proof -
  obtain t g n d e i where "t = t0 \<or> reads_clock E w w' t" "draws_id E w w' g" "reads_clock E w w' n"
    and m: "meets E w w' (dw_db w) d" "meets E w w' d e" and "tick w < tick w'"
    and i: "i \<in> set (db_identifiers d)" "li_user i = u" "li_type i = login_identifier_email"
    and p: "\<exists>x \<in> set (db_users e). us_id x = u \<and> us_status x = user_status_pending"
    and "\<exists>y \<in> set (db_identifiers e). li_id y = li_id i" and w': "dw_db w' = activated_db u (li_id i) g t n e"
    by (rule user_activate_email_trace [OF r])
  have "db_reach d e" using meets_reach [OF ok meets_wf [OF ok wf m(1)] m(2)] .
  from reach_rowsD(2) [OF this i(1)] obtain y where "y \<in> set (db_identifiers e)" "identifier_evolves i y" by blast
  then show ?thesis using activated_rows(2) [OF p] i by (auto simp: w' identifier_evolves_def)
qed

lemma verify_email_Inr:
  fixes w :: "(db, 'z) db_world_scheme"
  assumes "account_verify_email E L (iam_account E L D) token w = (Inr x, w')"
  obtains u and v v1 v2 v3 :: "(db, 'z) db_world_scheme" where
    "vtoken_consume E (hash_opaque_secret L token) (clock E (tick w)) v = (Inr u, v1)" "dw_db v = dw_db w" "tick v = Suc (tick w)"
    "user_activate_email E u (clock E (tick v1)) v2 = (Inr (), v3)" "dw_db v2 = dw_db v1" "tick v2 = Suc (tick v1)"
    "user_get E L u v3 = (Inr x, w')"
  using assms
  by (auto simp: account_verify_email_def check_eq seq_eq now_eq wired split: if_splits intro!: that)

lemma verify_email_course:
  fixes w :: "(db, 'z) db_world_scheme"
  assumes c: "vtoken_consume E k (clock E (tick w)) v = (Inr u, v1)" and v: "dw_db v = dw_db w" "tick v = Suc (tick w)"
    and a: "user_activate_email E u (clock E (tick v1)) v2 = (Inr (), v3)" and v2: "dw_db v2 = dw_db v1" "tick v2 = Suc (tick v1)"
    and g: "user_get E L u v3 = (Inr x, w')"
  shows "verification_run E k w w' u"
proof -
  obtain t d1 d2 y z where t: "t = clock E (tick w) \<or> reads_clock E v v1 t"
    and m1: "meets E v v1 (dw_db v) d1" "meets E v v1 d1 d2" and k1: "tick v < tick v1"
    and y: "y \<in> set (db_vtokens d1)" "vt_hash y = k" "vt_consumed y = None" "t < vt_expires y"
    and z: "z \<in> set (db_vtokens d2)" "vt_id z = vt_id y" "vt_user z = u" "vt_consumed z = None" "t < vt_expires z"
    and v1: "dw_db v1 = d2\<lparr>db_vtokens := ent_update_where
       (\<lambda>v. vt_id v = vt_id y \<and> vt_consumed v = None \<and> vt_expires v > t) (\<lambda>v. v\<lparr>vt_consumed := Some t\<rparr>) (db_vtokens d2)\<rparr>"
    by (rule vtoken_consume_trace [OF c])
  obtain t2 tag n d3 d4 i where t2: "t2 = clock E (tick v1) \<or> reads_clock E v2 v3 t2" and tag: "draws_id E v2 v3 tag"
    and n: "reads_clock E v2 v3 n" and m2: "meets E v2 v3 (dw_db v2) d3" "meets E v2 v3 d3 d4" and k2: "tick v2 < tick v3"
    and i: "i \<in> set (db_identifiers d3)" "li_user i = u" "li_type i = login_identifier_email"
    and p: "\<exists>x \<in> set (db_users d4). us_id x = u \<and> us_status x = user_status_pending"
      "\<exists>y \<in> set (db_identifiers d4). li_id y = li_id i"
    and v3: "dw_db v3 = activated_db u (li_id i) tag t2 n d4" by (rule user_activate_email_trace [OF a])
  obtain d5 where m3: "meets E v3 w' (dw_db v3) d5" "meets E v3 w' d5 (dw_db w')" and k3: "tick v3 < tick w'"
    by (rule user_get_trace [OF g])
  have le: "tick w \<le> tick v" "tick v1 \<le> tick w'" "tick w \<le> tick v2" "tick v3 \<le> tick w'" "tick w \<le> tick v3"
    using v v2 k1 k2 k3 by simp_all
  have t0: "reads_clock E w w' (clock E (tick w))" "reads_clock E w w' (clock E (tick v1))"
    using v v2 k1 k2 k3 by (auto intro!: reads_clockI)
  have T: "reads_clock E w w' t" "reads_clock E w w' t2" "reads_clock E w w' n" "draws_id E w w' tag"
    using t t0(1) reads_clock_within [OF _ le(1,2)] t2 t0(2) reads_clock_within [OF _ le(3,4)] n draws_id_within [OF tag le(3,4)]
    by blast+
  note M = meets_within [OF m1(1) le(1,2), unfolded v] meets_within [OF m1(2) le(1,2)]
    meets_within [OF m2(1) le(3,4), unfolded v2 v1] meets_within [OF m2(2) le(3,4)]
    meets_within [OF m3(1) le(5) order_refl, unfolded v3] meets_within [OF m3(2) le(5) order_refl]
  show ?thesis
    unfolding verification_run_def
    by (intro exI conjI, rule M(1), rule T(1), rule y(1), rule y(2), rule y(3), rule y(4), rule M(2), use z in blast,
      rule M(3), rule i(1), rule i(2), rule i(3), rule M(4), rule p(1), rule p(2), rule T(4), rule T(2), rule T(3), rule M(5), rule M(6))
qed

text \<open>
  C17. A successful email verification activates the user of its token. It finds the token unconsumed and unexpired and
  consumes it; at the start of the next transaction the user is pending, and that transaction makes the user active, with
  a new etag, and marks the user's email identifier as verified, writing nothing else; all that follows is reads. The
  token never verifies again, and the mark stays through any sequence of requests.
\<close>

theorem verify_email_effects:
  fixes w :: "(db, 'z) db_world_scheme"
  assumes "others_ok E" "deps_ok D" "db_wf (dw_db w)"
    and "account_verify_email E L (iam_account E L D) token w = (Inr x, w')"
  shows "\<exists>u. verification_run E (hash_opaque_secret L token) w w' u
    \<and> (\<exists>v \<in> set (db_vtokens (dw_db w')). vt_hash v = hash_opaque_secret L token \<and> vt_user v = u
       \<and> vt_consumed v \<noteq> None)
    \<and> (\<forall>rs. (\<forall>y v. account_verify_email E L (iam_account E L D) token (serve_all E L D rs w') \<noteq> (Inr y, v))
         \<and> (\<exists>i \<in> set (db_identifiers (dw_db (serve_all E L D rs w'))).
              li_user i = u \<and> li_type i = login_identifier_email \<and> li_verified i \<noteq> None))"
proof -
  from assms(4) obtain u and v v1 v2 v3 :: "(db, 'z) db_world_scheme" where
    c: "vtoken_consume E (hash_opaque_secret L token) (clock E (tick w)) v = (Inr u, v1)"
    and v: "dw_db v = dw_db w" "tick v = Suc (tick w)"
    and a: "user_activate_email E u (clock E (tick v1)) v2 = (Inr (), v3)" and v2: "dw_db v2 = dw_db v1" "tick v2 = Suc (tick v1)"
    and g: "user_get E L u v3 = (Inr x, w')" by (rule verify_email_Inr)
  have wfv: "db_wf (dw_db v)" using assms(3) v by simp
  note c1 = vtoken_consume_success [OF assms(1) wfv c]
  have r1: "db_reach (dw_db w) (dw_db v2)"
    using keeps_step [OF assms(1) wfv c vtoken_consume_keeps] v v2 by simp
  then have wf2: "db_wf (dw_db v2)" by (simp add: db_reach_def)
  note r2 = keeps_step [OF assms(1) wf2 a user_activate_email_keeps]
  then have wf3: "db_wf (dw_db v3)" by (simp add: db_reach_def)
  note r3 = keeps_step [OF assms(1) wf3 g user_get_keeps]
  then have wf': "db_wf (dw_db w')" by (simp add: db_reach_def)
  have r23: "db_reach (dw_db v1) (dw_db w')" using db_reach_trans [OF r2 r3] v2 by simp
  have mark: "\<exists>i \<in> set (db_identifiers e). li_user i = u \<and> li_type i = login_identifier_email \<and> li_verified i \<noteq> None"
    if "db_reach (dw_db v3) e" for e
    using activate_email_success [OF assms(1) wf2 a] reach_rowsD(2) [OF that] unfolding identifier_evolves_def by metis
  show ?thesis
  proof (intro exI [of _ u] conjI allI)
    show "verification_run E (hash_opaque_secret L token) w w' u" by (rule verify_email_course [OF c v a v2 g])
    show "\<exists>v \<in> set (db_vtokens (dw_db w')). vt_hash v = hash_opaque_secret L token \<and> vt_user v = u \<and> vt_consumed v \<noteq> None"
      using c1(3) reach_rowsD(5) [OF r23] unfolding vtoken_evolves_def by metis
    show "account_verify_email E L (iam_account E L D) token (serve_all E L D rs w') \<noteq> (Inr y, z)" for rs y z
      using spent_vtoken_never [OF assms(1,2) wf'] vtoken_spent_stays [OF r23 c1(2)] by blast
    show "\<exists>i \<in> set (db_identifiers (dw_db (serve_all E L D rs w'))).
        li_user i = u \<and> li_type i = login_identifier_email \<and> li_verified i \<noteq> None" for rs
      using mark db_reach_trans [OF r3 serve_all_reach [OF assms(1,2) wf']] by blast
  qed
qed

lemma demo_verify:
  "\<exists>x. fst (account_verify_email demo_env demo_lib (iam_account demo_env demo_lib demo_deps) ''vt'' demo_world) = Inr x"
  by (simp add: account_verify_email_def wired demo_run demo_world_def demo_hash_nonempty
      vtoken_consume_def user_activate_email_def activate_email_tx_def demo_ids user_get_def
      to_resources_def demo_db_def empty_db_def demo_rows iam_consts email_by_user_id_def to_resource_def)

theorem verify_email_effects_witness:
  "\<exists>x w' u. account_verify_email demo_env demo_lib (iam_account demo_env demo_lib demo_deps) ''vt'' demo_world
       = (Inr x, w')
     \<and> verification_run demo_env (hash_opaque_secret demo_lib ''vt'') demo_world w' u
     \<and> (\<forall>y v. account_verify_email demo_env demo_lib (iam_account demo_env demo_lib demo_deps) ''vt''
          (serve_all demo_env demo_lib demo_deps [] w') \<noteq> (Inr y, v))"
proof -
  obtain x w' where out: "account_verify_email demo_env demo_lib (iam_account demo_env demo_lib demo_deps)
      ''vt'' demo_world = (Inr x, w')"
    using demo_verify by (metis prod.collapse)
  have wf: "db_wf (dw_db demo_world)" by (simp add: demo_world_def demo_db_wf)
  show ?thesis using verify_email_effects [OF demo_env_ok(1) demo_deps_ok wf out] out by blast
qed

end
