(* ===== verification/IamLogin.thy ===== *)
theory IamLogin
  imports IamClaims
begin

text \<open>
  What a resolved session and a successful login mean, and that a login can be resolved: the reads
  and writes of \<open>session_resolve\<close> and \<open>authentication_login\<close> on the repositories.
\<close>

section \<open>Reading a user\<close>

lemma email_by_user_id_None:
  "email_by_user_id is k = None \<longleftrightarrow> (\<forall>x \<in> set is. li_user x \<noteq> k)"
  unfolding email_by_user_id_def by (induction "is" rule: rev_induct) auto

lemma email_by_user_id_only:
  "x \<in> set is \<Longrightarrow> li_user x = k \<Longrightarrow> (\<And>y. y \<in> set is \<Longrightarrow> li_user y = k \<Longrightarrow> y = x)
    \<Longrightarrow> email_by_user_id is k = Some x"
  using email_by_user_id_None email_by_user_id_Some by (metis not_None_eq)

text \<open>What \<open>Get\<close> answers: the row of the user at one statement, its email identifier at the next.\<close>

lemma user_get_Inr:
  fixes w :: "(db, 'z) db_world_scheme"
  assumes ok: "others_ok E" and wf: "db_wf (dw_db w)" and r: "user_get E L i w = (Inr user, w')"
  obtains d u x where "db_reach (dw_db w) d" "db_reach d (dw_db w')"
    "u \<in> set (db_users d)" "us_id u = i" "up_status user = user_status_of (us_status u)"
    "x \<in> set (db_identifiers (dw_db w'))" "li_user x = i" "li_type x = login_identifier_email"
    "up_user_id user = i" "up_email user = Some (li_display x)"
    "up_email_verified user = (li_verified x \<noteq> None)" "up_etag user = up_etag (il_copy L u)"
proof -
  from r obtain u xs and v :: "(db, 'z) db_world_scheme" where
    e1: "db_exec E (only users_t (\<lambda>u. us_id u = i)) w = (Inr u, v)"
    and e2: "db_exec E (all_where identifiers_t
        (\<lambda>x. li_user x \<in> set (map us_id [u]) \<and> li_type x = login_identifier_email)) v = (Inr xs, w')"
    and user: "to_resource L (email_by_user_id xs) u = Inr user"
    by (auto simp: user_get_def to_resources_def pass_Inr ent_wrappers_Inr collect_single
        simp del: collect_results.simps)
  note s1 = read_step [OF ok wf e1]
  then have wf1: "db_wf (dw_db v)" by (simp add: db_reach_def)
  have u: "u \<in> set (db_users (dw_db v))" "us_id u = i"
    using ent_only_in [OF s1(2)] by (simp_all add: users_t_def)
  from exec_step [OF ok wf1 e2] obtain d2 where d2: "db_reach (dw_db v) d2"
    "all_where identifiers_t (\<lambda>x. li_user x \<in> set (map us_id [u]) \<and> li_type x = login_identifier_email)
       (clock E (tick v)) d2 = (Inr xs, dw_db w')" .
  then have w': "dw_db w' = d2"
    and xs: "xs = filter (\<lambda>x. li_user x = i \<and> li_type x = login_identifier_email) (db_identifiers d2)"
    using u by (auto simp: all_where_eq identifiers_t_def)
  from user obtain x where x: "email_by_user_id xs (us_id u) = Some x"
    by (auto simp: to_resource_def split: option.splits)
  have x': "x \<in> set (db_identifiers d2)" "li_user x = i" "li_type x = login_identifier_email"
    using email_by_user_id_Some [OF x] xs by auto
  show thesis
  proof (rule that [of "dw_db v" u x])
    show "db_reach (dw_db w) (dw_db v)" by (rule s1(1))
    show "db_reach (dw_db v) (dw_db w')" using d2(1) w' by simp
  qed (use u x' w' user x in \<open>auto simp: to_resource_def to_dto_def\<close>)
qed

section \<open>Resolving\<close>

text \<open>
  The course of a resolution that succeeded: the row \<open>l\<close> of the secret, found live at the time \<open>t\<close>; the row of its user,
  found active; the user's email identifier, found verified; and the row \<open>r\<close> of the same session, still live at the time
  \<open>t'\<close> at which it is touched, which is all that the call writes and leaves as \<open>k\<close>.
\<close>

definition resolved_live ::
    "db dbenv \<Rightarrow> iam_lib \<Rightarrow> string \<Rightarrow> (db, 'z) db_world_scheme \<Rightarrow> (db, 'z) db_world_scheme \<Rightarrow> user_row \<Rightarrow> login_row \<Rightarrow> bool" where
  "resolved_live E L secret w w' u k \<longleftrightarrow>
     (\<exists>d1 d2 d3 d4 d5 t t' l x r.
        meets E w w' (dw_db w) d1 \<and> reads_clock E w w' t
        \<and> l \<in> set (db_logins d1) \<and> ls_secret l = hash_opaque_secret L secret
        \<and> ls_revoked l = None \<and> t < ls_idle l \<and> t < ls_absolute l
        \<and> meets E w w' d1 d2 \<and> u \<in> set (db_users d2) \<and> us_id u = ls_user l \<and> us_status u = user_status_active
        \<and> meets E w w' d2 d3 \<and> x \<in> set (db_identifiers d3) \<and> li_user x = us_id u
        \<and> li_type x = login_identifier_email \<and> li_verified x \<noteq> None
        \<and> meets E w w' d3 d4 \<and> meets E w w' d4 d5 \<and> reads_clock E w w' t'
        \<and> r \<in> set (db_logins d5) \<and> ls_id r = ls_id l \<and> ls_revoked r = None \<and> t' < ls_idle r \<and> t' < ls_absolute r
        \<and> k = r\<lparr>ls_seen := t', ls_idle := min (t' + login_session_idle_ttl) (ls_absolute r)\<rparr>
        \<and> dw_db w' = d5\<lparr>db_logins := map (\<lambda>s. if ls_id s = ls_id l then k else s) (db_logins d5)\<rparr>)"

lemma session_resolve_Inr:
  fixes w :: "(db, 'z) db_world_scheme"
  assumes "session_resolve E L (iam_sessions E L) secret w = (Inr (user, session), w')"
  obtains s uid and v v2 :: "(db, 'z) db_world_scheme" where
    "login_find E (hash_opaque_secret L secret) w = (Inr (Some s, uid, False), v)"
    "session_active (clock E (tick v)) (Some s)"
    "user_get E L uid (v\<lparr>tick := Suc (tick v)\<rparr>) = (Inr user, v2)" "may_login user"
    "login_touch E (sp_session_id s) (clock E (tick v)) v2 = (Inr session, w')"
proof -
  from assms obtain so uid rvk and v v2 :: "(db, 'z) db_world_scheme" where
    f: "login_find E (hash_opaque_secret L secret) w = (Inr (so, uid, rvk), v)"
    and c: "\<not> rvk" "session_active (clock E (tick v)) so" "up_status user = UserStatusActive"
      "up_email_verified user"
    and g: "user_get E L uid (v\<lparr>tick := Suc (tick v)\<rparr>) = (Inr user, v2)"
    and h: "login_touch E (sp_session_id (the so)) (clock E (tick v)) v2 = (Inr session, w')"
    unfolding session_resolve_def by (auto simp: wired check_eq seq_eq now_eq split: if_splits)
  from c(2) obtain s where "so = Some s" by (cases so) (auto simp: session_active_def)
  with f c g h show thesis by (intro that [OF _ _ g]) (auto simp: may_login_def)
qed

lemma login_touch_Inr:
  fixes w :: "(db, 'z) db_world_scheme"
  assumes ok: "others_ok E" and wf: "db_wf (dw_db w)" and r: "login_touch E sid t0 w = (Inr s, w')"
  shows "\<exists>l \<in> set (db_logins (dw_db w')). ls_id l = sid \<and> ls_revoked l = None
     \<and> ls_seen l < ls_idle l \<and> ls_idle l \<le> ls_absolute l \<and> ls_idle l \<le> ls_seen l + login_session_idle_ttl
     \<and> s = to_session l"
proof -
  from r obtain t c l and v v1 :: "(db, 'z) db_world_scheme" where st: "stamp E t0 w t v"
    and e1: "db_exec E (only logins_t (\<lambda>l. ls_id l = sid)) v = (Inr c, v1)"
    and e2: "db_exec E (update_one logins_t
        (\<lambda>l. ls_id l = sid \<and> ls_revoked l = None \<and> ls_idle l > t \<and> ls_absolute l > t)
        (\<lambda>_ l. l\<lparr>ls_seen := t, ls_idle := (if t + login_session_idle_ttl > ls_absolute c
           then ls_absolute c else t + login_session_idle_ttl)\<rparr>)) v1 = (Inr l, w')"
    and s: "s = to_session l"
    by (auto simp: login_touch_def Let_def time_or_now_eq pass_Inr ent_wrappers_Inr)
  let ?f = "\<lambda>l. l\<lparr>ls_seen := t, ls_idle := (if t + login_session_idle_ttl > ls_absolute c
           then ls_absolute c else t + login_session_idle_ttl)\<rparr>"
  have wfv: "db_wf (dw_db v)" using wf st by (simp add: stamp_db)
  note s1 = read_step [OF ok wfv e1]
  then have wf1: "db_wf (dw_db v1)" by (simp add: db_reach_def)
  have c: "c \<in> set (db_logins (dw_db v1))" "ls_id c = sid"
    using ent_only_in [OF s1(2)] by (simp_all add: logins_t_def)
  from exec_step [OF ok wf1 e2] obtain d where d: "db_reach (dw_db v1) d"
    and up: "update_one logins_t
        (\<lambda>l. ls_id l = sid \<and> ls_revoked l = None \<and> ls_idle l > t \<and> ls_absolute l > t)
        (\<lambda>_. ?f) (clock E (tick v1)) d = (Inr l, dw_db w')" .
  from update_one_Inr [OF up] obtain r where r: "r \<in> set (db_logins d)" "ls_id r = sid" "ls_revoked r = None"
      "ls_absolute r > t" "l = ?f r"
    and w': "dw_db w' = d\<lparr>db_logins := ent_update_where
        (\<lambda>l. ls_id l = sid \<and> ls_revoked l = None \<and> ls_idle l > t \<and> ls_absolute l > t) ?f (db_logins d)\<rparr>"
    and rt: "ls_idle r > t"
    by (auto simp: logins_t_def)
  obtain c' where c': "c' \<in> set (db_logins d)" "ls_id c' = sid" "ls_absolute c' = ls_absolute c"
    using reach_rowsD(7) [OF d c(1)] c(2) by (auto simp: login_evolves_def)
  have "unique_by ls_id (db_logins d)" using d by (auto simp: db_reach_def dest: wf_unique)
  then have "ls_absolute r = ls_absolute c" using unique_byD r(1,2) c' by metis
  moreover have "?f r \<in> set (db_logins (dw_db w'))"
    unfolding w' using updated_in [OF r(1), of _ ?f] r rt by simp
  ultimately show ?thesis
    using r s by (intro bexI [of _ "?f r"]) (auto simp: login_session_idle_ttl_def time_consts)
qed

lemma session_resolve_live:
  fixes w :: "(db, 'z) db_world_scheme"
  assumes "others_ok E" "db_wf (dw_db w)"
    and "session_resolve E L (iam_sessions E L) secret w = (Inr (user, session), w')"
  shows "\<exists>l \<in> set (db_logins (dw_db w')).
      ls_secret l = hash_opaque_secret L secret \<and> ls_user l = up_user_id user
      \<and> ls_revoked l = None \<and> ls_seen l < ls_idle l \<and> ls_idle l \<le> ls_absolute l
      \<and> ls_idle l \<le> ls_seen l + login_session_idle_ttl \<and> session = to_session l
      \<and> may_login user
      \<and> (\<exists>d u i. db_reach (dw_db w) d \<and> u \<in> set (db_users d) \<and> us_id u = up_user_id user
           \<and> us_status u = user_status_active
           \<and> i \<in> set (db_identifiers (dw_db w')) \<and> li_user i = up_user_id user
           \<and> li_type i = login_identifier_email \<and> li_verified i \<noteq> None)"
proof -
  from assms(3) obtain s uid and v v2 :: "(db, 'z) db_world_scheme" where
    f: "login_find E (hash_opaque_secret L secret) w = (Inr (Some s, uid, False), v)"
    and g: "user_get E L uid (v\<lparr>tick := Suc (tick v)\<rparr>) = (Inr user, v2)" and ml: "may_login user"
    and h: "login_touch E (sp_session_id s) (clock E (tick v)) v2 = (Inr session, w')"
    by (rule session_resolve_Inr)
  define v1 where "v1 = v\<lparr>tick := Suc (tick v)\<rparr>"
  have v1: "dw_db v1 = dw_db v" by (simp add: v1_def)
  note g = g [folded v1_def]
  from login_find_Inr [OF f] obtain l where
    l: "ent_only (\<lambda>l. ls_secret l = hash_opaque_secret L secret) (db_logins (dw_db v)) = Inr l"
    "s = to_session l" "uid = ls_user l" by auto
  have r1: "db_reach (dw_db w) (dw_db v)"
    using keeps_step [OF assms(1,2) f login_find_keeps] .
  then have wf1: "db_wf (dw_db v1)" using v1 by (simp add: db_reach_def)
  from user_get_Inr [OF assms(1) wf1 g] obtain d u x where d: "db_reach (dw_db v1) d" "db_reach d (dw_db v2)"
    and u: "u \<in> set (db_users d)" "us_id u = uid" "up_status user = user_status_of (us_status u)"
    and x: "x \<in> set (db_identifiers (dw_db v2))" "li_user x = uid" "li_type x = login_identifier_email"
    and user: "up_user_id user = uid" "up_email_verified user = (li_verified x \<noteq> None)" .
  have wf2: "db_wf (dw_db v2)" using d(2) by (simp add: db_reach_def)
  have r2: "db_reach (dw_db v) (dw_db v2)" using d v1 by (auto intro: db_reach_trans)
  have r3: "db_reach (dw_db v2) (dw_db w')" using keeps_step [OF assms(1) wf2 h login_touch_keeps] .
  from login_touch_Inr [OF assms(1) wf2 h] l(2) obtain k where
    k: "k \<in> set (db_logins (dw_db w'))" "ls_id k = ls_id l" "ls_revoked k = None" "ls_seen k < ls_idle k"
    "ls_idle k \<le> ls_absolute k" "ls_idle k \<le> ls_seen k + login_session_idle_ttl" "session = to_session k"
    by (auto simp: to_session_def)
  obtain l' where l': "l' \<in> set (db_logins (dw_db w'))" "login_evolves l l'"
    using reach_rowsD(7) [OF db_reach_trans [OF r2 r3]] ent_only_in [OF l(1)] by blast
  have "unique_by ls_id (db_logins (dw_db w'))" using r3 by (auto simp: db_reach_def dest: wf_unique)
  then have "k = l'" using unique_byD k(1,2) l' by (metis login_evolves_def)
  then have same: "ls_secret k = hash_opaque_secret L secret" "ls_user k = uid"
    using l' ent_only_in [OF l(1)] l(3) by (auto simp: login_evolves_def)
  obtain x' where x': "x' \<in> set (db_identifiers (dw_db w'))" "identifier_evolves x x'"
    using reach_rowsD(2) [OF r3 x(1)] by blast
  have st: "us_status u = user_status_active"
    using ml u(3) by (auto simp: may_login_def user_status_of_def split: if_splits)
  have "db_reach (dw_db w) d" using r1 d(1) v1 by (auto intro: db_reach_trans)
  then show ?thesis
    using k same ml st u x x' user
    by (intro bexI [OF _ k(1)] conjI exI [of _ d] exI [of _ u] exI [of _ x'])
      (auto simp: may_login_def identifier_evolves_def)
qed

lemma touched_rows:
  assumes "db_wf d" "r \<in> set (db_logins d)" "ls_id r = i" "P r"
  shows "ent_update_where (\<lambda>l. ls_id l = i \<and> P l) f (db_logins d) = map (\<lambda>s. if ls_id s = i then f r else s) (db_logins d)"
  unfolding ent_update_where_def using unique_byD [OF wf_unique(10) [OF assms(1)]] assms(2-4) by (intro map_cong) auto

lemma iam_session_resolve_keeps:
  "others_ok E \<Longrightarrow> preserves (on_db (db_reach d0)) (session_resolve E L (iam_sessions E L) s)"
  unfolding session_resolve_def by (intro preserve_intros; simp add: wired login_find_keeps login_touch_keeps user_get_keeps)

lemma session_resolve_trace:
  fixes w :: "(db, 'z) db_world_scheme"
  assumes run: "session_resolve E L (iam_sessions E L) secret w = (Inr (user, session), w')"
  obtains d1 d2 d3 d4 d5 t t' l u x c r where
    "meets E w w' (dw_db w) d1" "meets E w w' d1 d2" "meets E w w' d2 d3" "meets E w w' d3 d4" "meets E w w' d4 d5"
    "reads_clock E w w' t" "reads_clock E w w' t'" "tick w < tick w'" "may_login user"
    "l \<in> set (db_logins d1)" "ls_secret l = hash_opaque_secret L secret" "ls_revoked l = None"
    "session_active t (Some (to_session l))"
    "u \<in> set (db_users d2)" "us_id u = ls_user l" "up_status user = user_status_of (us_status u)"
    "x \<in> set (db_identifiers d3)" "li_user x = us_id u" "li_type x = login_identifier_email"
    "up_user_id user = us_id u" "up_email_verified user = (li_verified x \<noteq> None)"
    "c \<in> set (db_logins d4)" "ls_id c = ls_id l" "r \<in> set (db_logins d5)" "ls_id r = ls_id l" "ls_revoked r = None"
    "t' < ls_idle r" "t' < ls_absolute r"
    "session = to_session (r\<lparr>ls_seen := t', ls_idle := min (t' + login_session_idle_ttl) (ls_absolute c)\<rparr>)"
    "dw_db w' = d5\<lparr>db_logins := ent_update_where
       (\<lambda>k. ls_id k = ls_id l \<and> ls_revoked k = None \<and> ls_idle k > t' \<and> ls_absolute k > t')
       (\<lambda>k. k\<lparr>ls_seen := t', ls_idle := min (t' + login_session_idle_ttl) (ls_absolute c)\<rparr>) (db_logins d5)\<rparr>"
proof -
  from run obtain s uid and v v2 :: "(db, 'z) db_world_scheme" where
    f: "login_find E (hash_opaque_secret L secret) w = (Inr (Some s, uid, False), v)"
    and act: "session_active (clock E (tick v)) (Some s)"
    and g: "user_get E L uid (v\<lparr>tick := Suc (tick v)\<rparr>) = (Inr user, v2)" and ml: "may_login user"
    and h: "login_touch E (sp_session_id s) (clock E (tick v)) v2 = (Inr session, w')" by (rule session_resolve_Inr)
  obtain l where m1: "meets E w v (dw_db w) (dw_db v)" and tv: "tick v = Suc (tick w)"
    and l: "l \<in> set (db_logins (dw_db v))" "ls_secret l = hash_opaque_secret L secret" "Some s = Some (to_session l)"
      "uid = ls_user l" "False = (ls_revoked l \<noteq> None)" by (rule login_find_trace [OF f])
  define v1 where "v1 = v\<lparr>tick := Suc (tick v)\<rparr>"
  note g = g [folded v1_def]
  have v1: "dw_db v1 = dw_db v" "tick v1 = Suc (tick v)" by (simp_all add: v1_def)
  obtain d2 u x where m2: "meets E v1 v2 (dw_db v1) d2" "meets E v1 v2 d2 (dw_db v2)" and t2: "tick v1 < tick v2"
    and "ent_only (\<lambda>u. us_id u = uid) (db_users d2) = Inr u"
    and u: "u \<in> set (db_users d2)" "us_id u = uid" "up_status user = user_status_of (us_status u)"
    and x: "x \<in> set (db_identifiers (dw_db v2))" "li_user x = uid" "li_type x = login_identifier_email"
    and user: "up_user_id user = uid" "up_email user = Some (li_display x)" "up_email_verified user = (li_verified x \<noteq> None)"
      "up_etag user = up_etag (il_copy L u)" by (rule user_get_trace [OF g])
  obtain t d4 d5 c r where t: "t = clock E (tick v) \<or> reads_clock E v2 w' t"
    and m3: "meets E v2 w' (dw_db v2) d4" "meets E v2 w' d4 d5" and t3: "tick v2 < tick w'"
    and c: "c \<in> set (db_logins d4)" "ls_id c = sp_session_id s"
    and r: "r \<in> set (db_logins d5)" "ls_id r = sp_session_id s" "ls_revoked r = None" "t < ls_idle r" "t < ls_absolute r"
      "session = to_session (r\<lparr>ls_seen := t, ls_idle := min (t + login_session_idle_ttl) (ls_absolute c)\<rparr>)"
    and w': "dw_db w' = d5\<lparr>db_logins := ent_update_where
       (\<lambda>k. ls_id k = sp_session_id s \<and> ls_revoked k = None \<and> ls_idle k > t \<and> ls_absolute k > t)
       (\<lambda>k. k\<lparr>ls_seen := t, ls_idle := min (t + login_session_idle_ttl) (ls_absolute c)\<rparr>) (db_logins d5)\<rparr>"
    by (rule login_touch_trace [OF h])
  have sid: "sp_session_id s = ls_id l" using l(3) by (simp add: to_session_def)
  have tk: "tick w \<le> tick v" "tick v \<le> tick v1" "tick v1 \<le> tick v2" "tick v \<le> tick v2" "tick v < tick w'"
    "tick w \<le> tick v1" "tick w \<le> tick v2" "tick v2 \<le> tick w'" "tick w < tick w'" "tick v \<le> tick w'" "tick v1 \<le> tick w'"
    using tv v1 t2 t3 by simp_all
  have m: "meets E w w' (dw_db w) (dw_db v)" "meets E w w' (dw_db v) d2" "meets E w w' d2 (dw_db v2)"
    "meets E w w' (dw_db v2) d4" "meets E w w' d4 d5"
    using m1 m2 m3 v1 tk by (auto elim: meets_within)
  have t0: "reads_clock E w w' (clock E (tick v))" using tk by (intro reads_clockI)
  then have t1: "reads_clock E w w' t" using t tk by (auto elim: reads_clock_within)
  show thesis
    by (rule that [OF m t0 t1 tk(9) ml l(1,2) _ act [unfolded l(3)] u(1) _ u(3) x(1) _ x(3) _ user(3) c(1) _ r(1) _ r(3-6)
      w' [unfolded sid]]) (use l u x user c r sid in simp_all)
qed

lemma session_resolve_course:
  fixes w :: "(db, 'z) db_world_scheme"
  assumes ok: "others_ok E" and wf: "db_wf (dw_db w)"
    and run: "session_resolve E L (iam_sessions E L) secret w = (Inr (user, session), w')"
  obtains u k where "resolved_live E L secret w w' u k" "tick w < tick w'" "session = to_session k"
    "ls_secret k = hash_opaque_secret L secret" "ls_user k = up_user_id user" "ls_revoked k = None"
    "us_id u = up_user_id user" "may_login user" "k \<in> set (db_logins (dw_db w'))" "db_reach (dw_db w) (dw_db w')"
proof -
  obtain d1 d2 d3 d4 d5 t0 t l u x c r where
    m: "meets E w w' (dw_db w) d1" "meets E w w' d1 d2" "meets E w w' d2 d3" "meets E w w' d3 d4" "meets E w w' d4 d5"
    and t: "reads_clock E w w' t0" "reads_clock E w w' t" and tk: "tick w < tick w'" and ml: "may_login user"
    and l: "l \<in> set (db_logins d1)" "ls_secret l = hash_opaque_secret L secret" "ls_revoked l = None"
    and act: "session_active t0 (Some (to_session l))"
    and u: "u \<in> set (db_users d2)" "us_id u = ls_user l" "up_status user = user_status_of (us_status u)"
    and x: "x \<in> set (db_identifiers d3)" "li_user x = us_id u" "li_type x = login_identifier_email"
    and user: "up_user_id user = us_id u" "up_email_verified user = (li_verified x \<noteq> None)"
    and c: "c \<in> set (db_logins d4)" "ls_id c = ls_id l"
    and r: "r \<in> set (db_logins d5)" "ls_id r = ls_id l" "ls_revoked r = None" "t < ls_idle r" "t < ls_absolute r"
      "session = to_session (r\<lparr>ls_seen := t, ls_idle := min (t + login_session_idle_ttl) (ls_absolute c)\<rparr>)"
    and w': "dw_db w' = d5\<lparr>db_logins := ent_update_where
       (\<lambda>k. ls_id k = ls_id l \<and> ls_revoked k = None \<and> ls_idle k > t \<and> ls_absolute k > t)
       (\<lambda>k. k\<lparr>ls_seen := t, ls_idle := min (t + login_session_idle_ttl) (ls_absolute c)\<rparr>) (db_logins d5)\<rparr>"
    by (rule session_resolve_trace [OF run])
  have wf1: "db_wf d1" using meets_wf [OF ok wf m(1)] .
  have wf4: "db_wf d4" using meets_wf [OF ok _ m(2)] meets_wf [OF ok _ m(3)] meets_wf [OF ok _ m(4)] wf1 by blast
  have r5: "db_reach d4 d5" by (rule meets_reach [OF ok wf4 m(5)])
  then have wf5: "db_wf d5" by (simp add: db_reach_def)
  have r15: "db_reach d1 d5" by (rule meets_run [OF ok wf1 m(2-5)])
  obtain c' where c': "c' \<in> set (db_logins d5)" "login_evolves c c'" using reach_rowsD(7) [OF r5 c(1)] by blast
  have uniq: "unique_by ls_id (db_logins d5)" using wf5 by (rule wf_unique)
  have "c' = r" by (rule unique_byD [OF uniq c'(1) r(1)]) (use c' c r in \<open>simp add: login_evolves_def\<close>)
  then have abs: "ls_absolute c = ls_absolute r" using c' by (simp add: login_evolves_def)
  obtain l' where l': "l' \<in> set (db_logins d5)" "login_evolves l l'" using reach_rowsD(7) [OF r15 l(1)] by blast
  have "l' = r" by (rule unique_byD [OF uniq l'(1) r(1)]) (use l' r in \<open>simp add: login_evolves_def\<close>)
  then have same: "ls_secret r = hash_opaque_secret L secret" "ls_user r = us_id u"
    using l' l u by (simp_all add: login_evolves_def)
  define k where "k = r\<lparr>ls_seen := t, ls_idle := min (t + login_session_idle_ttl) (ls_absolute r)\<rparr>"
  have db': "dw_db w' = d5\<lparr>db_logins := map (\<lambda>s. if ls_id s = ls_id l then k else s) (db_logins d5)\<rparr>"
    using touched_rows [OF wf5 r(1,2), of "\<lambda>k. ls_revoked k = None \<and> ls_idle k > t \<and> ls_absolute k > t"] r
    by (simp add: w' abs k_def)
  have status: "us_status u = user_status_active"
    using ml u(3) by (auto simp: may_login_def user_status_of_def split: if_splits)
  have ver: "li_verified x \<noteq> None" using user ml by (simp add: may_login_def)
  have act': "t0 < ls_idle l" "t0 < ls_absolute l" using act by (simp_all add: session_active_def to_session_def)
  have "resolved_live E L secret w w' u k"
    unfolding resolved_live_def
    by (intro exI conjI, rule m(1), rule t(1), rule l(1), rule l(2), rule l(3), rule act'(1), rule act'(2), rule m(2),
      rule u(1), rule u(2), rule status, rule m(3), rule x(1), rule x(2), rule x(3), rule ver, rule m(4), rule m(5), rule t(2),
      rule r(1), rule r(2), rule r(3), rule r(4), rule r(5), rule k_def, rule db')
  moreover have "k \<in> set (db_logins (dw_db w'))" unfolding db' using r by force
  moreover have "db_reach (dw_db w) (dw_db w')" by (rule keeps_step [OF ok wf run iam_session_resolve_keeps])
  ultimately show thesis
    using tk r same user u ml by (intro that [of u k]) (auto simp: k_def abs)
qed

text \<open>
  C6. A cookie resolves only to a live session. When a secret resolves, the call found the row of the secret neither
  revoked nor past its idle or absolute limit at a time that it read; the user of that row, at the next statement, active,
  and, at the next, with a verified email; and the same session still live when it touched it. The touch is all that
  the call writes: it sets the time of the last use and moves the idle limit to seven days later, never beyond the
  absolute limit. The answer is that user and the touched session.
\<close>

theorem resolve_grants_live_session:
  fixes w :: "(db, 'z) db_world_scheme"
  assumes "others_ok E" "db_wf (dw_db w)"
    and "session_resolve E L (iam_sessions E L) secret w = (Inr (user, session), w')"
  shows "\<exists>u k. resolved_live E L secret w w' u k \<and> us_id u = up_user_id user \<and> may_login user
     \<and> session = to_session k \<and> ls_secret k = hash_opaque_secret L secret \<and> ls_user k = up_user_id user
     \<and> k \<in> set (db_logins (dw_db w'))"
  by (rule session_resolve_course [OF assms]) blast

lemma demo_resolve:
  "\<exists>x. fst (session_resolve demo_env demo_lib (iam_sessions demo_env demo_lib) ''sk'' demo_world) = Inr x"
  by (simp add: session_resolve_def wired demo_run demo_world_def login_find_def user_get_def
      to_resources_def login_touch_def session_active_def to_session_def demo_db_def empty_db_def demo_rows
      iam_consts email_by_user_id_def to_resource_def to_dto_def user_status_of_def iam_ttls time_consts)

theorem resolve_grants_live_session_witness:
  "\<exists>user session w' u k.
     session_resolve demo_env demo_lib (iam_sessions demo_env demo_lib) ''sk'' demo_world = (Inr (user, session), w')
     \<and> resolved_live demo_env demo_lib ''sk'' demo_world w' u k \<and> session = to_session k"
proof -
  obtain user session w' where
    out: "session_resolve demo_env demo_lib (iam_sessions demo_env demo_lib) ''sk'' demo_world
       = (Inr (user, session), w')" using demo_resolve by (metis prod.collapse)
  have wf: "db_wf (dw_db demo_world)" by (simp add: demo_world_def demo_db_wf)
  show ?thesis using resolve_grants_live_session [OF demo_env_ok(1) wf out] out by blast
qed

section \<open>Login\<close>

lemma find_by_email_Inr:
  fixes w :: "(db, 'z) db_world_scheme"
  assumes ok: "others_ok E" and wf: "db_wf (dw_db w)" and r: "user_find_by_email E L c w = (Inr user, w')"
  obtains x and v :: "(db, 'z) db_world_scheme" where "db_reach (dw_db w) (dw_db v)"
    "x \<in> set (db_identifiers (dw_db v))" "li_type x = login_identifier_email" "li_canonical x = c"
    "user_get E L (li_user x) v = (Inr user, w')"
proof -
  from r obtain x and v :: "(db, 'z) db_world_scheme" where
    e: "db_exec E (only identifiers_t (\<lambda>i. li_type i = login_identifier_email \<and> li_canonical i = c)) w = (Inr x, v)"
    and g: "user_get E L (li_user x) v = (Inr user, w')"
    by (auto simp: user_find_by_email_def pass_Inr ent_wrappers_Inr)
  note s = read_step [OF ok wf e]
  show thesis using ent_only_in [OF s(2)] by (intro that [OF s(1) _ _ _ g]) (auto simp: identifiers_t_def)
qed

lemma authentication_login_Inr:
  fixes w :: "(db, 'z) db_world_scheme"
  assumes "authentication_login E L (iam_authentication E L) email p w = (Inr (user, session, secret), w')"
  obtains canonical display c m and v v1 :: "(db, 'z) db_world_scheme" where
    "normalize_email L email = Inr (canonical, display)"
    "user_find_by_email E L canonical w = (Inr user, v)" "may_login user"
    "credential_find_active E (up_user_id user) v = (Inr c, v1)"
    "password_compare (il_argon L) p (pcr_password_hash c) = Inr (True, m)"
    "session_create E L (iam_sessions E L) (up_user_id user) v1 = (Inr (session, secret), w')"
  using assms unfolding authentication_login_def
  by (auto simp: wired check_eq split: if_splits intro!: that)

text \<open>
  The course of the checks of a login: each row at the statement that read it. \<open>i\<close> is the identifier of the canonical
  address, \<open>u\<close> its user, \<open>x\<close> the email identifier of that user, \<open>a\<close> the active password authenticator and \<open>q\<close> its password,
  read last, from \<open>d\<close>.
\<close>

definition credentials_proved ::
    "db dbenv \<Rightarrow> iam_lib \<Rightarrow> string \<Rightarrow> string \<Rightarrow> (db, 'z) db_world_scheme \<Rightarrow> (db, 'z) db_world_scheme \<Rightarrow> user_row \<Rightarrow> db \<Rightarrow> bool" where
  "credentials_proved E L canonical p w w' u d \<longleftrightarrow>
     (\<exists>d1 d2 d3 d4 i x a q m.
        meets E w w' (dw_db w) d1 \<and> i \<in> set (db_identifiers d1) \<and> li_type i = login_identifier_email
        \<and> li_canonical i = canonical
        \<and> meets E w w' d1 d2 \<and> u \<in> set (db_users d2) \<and> us_id u = li_user i \<and> us_status u = user_status_active
        \<and> meets E w w' d2 d3 \<and> x \<in> set (db_identifiers d3) \<and> li_user x = us_id u \<and> li_type x = login_identifier_email
        \<and> li_canonical x = canonical \<and> li_verified x \<noteq> None
        \<and> meets E w w' d3 d4 \<and> a \<in> set (db_authenticators d4) \<and> active_password_of (us_id u) a
        \<and> meets E w w' d4 d \<and> q \<in> set (db_passwords d) \<and> pw_authenticator q = au_id a
        \<and> password_compare (il_argon L) p (pw_hash q) = Inr (True, m))"

lemma credentials_provedI:
  assumes "meets E w w' (dw_db w) d1" "meets E w w' d1 d2" "meets E w w' d2 d3" "meets E w w' d3 d4" "meets E w w' d4 d"
    and "i \<in> set (db_identifiers d1)" "li_type i = login_identifier_email" "li_canonical i = canonical"
    and "u \<in> set (db_users d2)" "us_id u = li_user i" "us_status u = user_status_active"
    and "x \<in> set (db_identifiers d3)" "li_user x = us_id u" "li_type x = login_identifier_email"
      "li_canonical x = canonical" "li_verified x \<noteq> None"
    and "a \<in> set (db_authenticators d4)" "active_password_of (us_id u) a"
    and "q \<in> set (db_passwords d)" "pw_authenticator q = au_id a" "password_compare (il_argon L) p (pw_hash q) = Inr (True, m)"
  shows "credentials_proved E L canonical p w w' u d"
  unfolding credentials_proved_def using assms by blast

lemma credentials_proved_within:
  assumes "credentials_proved E L canonical p w v u d" "tick v \<le> tick w'"
  shows "credentials_proved E L canonical p w w' u d"
proof -
  have "meets E w w' e e'" if "meets E w v e e'" for e e' using meets_within [OF that order_refl assms(2)] .
  with assms(1) show ?thesis
    unfolding credentials_proved_def by (elim exE conjE) (rule credentials_provedI [unfolded credentials_proved_def]; blast)
qed

lemma login_checks_course:
  fixes w :: "(db, 'z) db_world_scheme"
  assumes ok: "others_ok E" and wf: "db_wf (dw_db w)"
    and f: "user_find_by_email E L canonical w = (Inr user, v)" and ml: "may_login user"
    and cf: "credential_find_active E (up_user_id user) v = (Inr c, v1)"
    and pc: "password_compare (il_argon L) p (pcr_password_hash c) = Inr (True, m)"
  obtains u where "credentials_proved E L canonical p w v1 u (dw_db v1)" "us_id u = up_user_id user" "tick w < tick v1"
proof -
  obtain i and y :: "(db, 'z) db_world_scheme" where m1: "meets E w y (dw_db w) (dw_db y)" and t1: "tick w < tick y"
    and i: "i \<in> set (db_identifiers (dw_db y))" "li_type i = login_identifier_email" "li_canonical i = canonical"
    and g: "user_get E L (li_user i) y = (Inr user, v)" by (rule find_by_email_trace [OF f])
  obtain d2 u x where m2: "meets E y v (dw_db y) d2" "meets E y v d2 (dw_db v)" and t2: "tick y < tick v"
    and "ent_only (\<lambda>u. us_id u = li_user i) (db_users d2) = Inr u"
    and u: "u \<in> set (db_users d2)" "us_id u = li_user i" "up_status user = user_status_of (us_status u)"
    and x: "x \<in> set (db_identifiers (dw_db v))" "li_user x = li_user i" "li_type x = login_identifier_email"
    and user: "up_user_id user = li_user i" "up_email user = Some (li_display x)"
      "up_email_verified user = (li_verified x \<noteq> None)" "up_etag user = up_etag (il_copy L u)"
    by (rule user_get_trace [OF g])
  obtain d4 a q where m3: "meets E v v1 (dw_db v) d4" "meets E v v1 d4 (dw_db v1)" and t3: "tick v < tick v1"
    and a: "a \<in> set (db_authenticators d4)" "active_password_of (up_user_id user) a"
      "q \<in> set (db_passwords (dw_db v1))" "pw_authenticator q = au_id a" "pcr_password_hash c = pw_hash q"
    by (rule credential_find_trace [OF cf])
  have tk: "tick w \<le> tick w" "tick w \<le> tick y" "tick w \<le> tick v" "tick y \<le> tick v1" "tick v \<le> tick v1" "tick w < tick v1"
    using t1 t2 t3 by simp_all
  have m: "meets E w v1 (dw_db w) (dw_db y)" "meets E w v1 (dw_db y) d2" "meets E w v1 d2 (dw_db v)"
      "meets E w v1 (dw_db v) d4" "meets E w v1 d4 (dw_db v1)"
    using m1 m2 m3 tk by (auto elim: meets_within)
  have "db_wf (dw_db y)" "db_wf d2" "db_wf (dw_db v)" using meets_wf [OF ok] wf m by blast+
  then have r: "db_reach (dw_db y) (dw_db v)" and wfv: "db_wf (dw_db v)"
    using meets_reach [OF ok] m(2,3) by (blast intro: db_reach_trans)+
  obtain x' where x': "x' \<in> set (db_identifiers (dw_db v))" "identifier_evolves i x'"
    using reach_rowsD(2) [OF r i(1)] by blast
  have "unique_by (\<lambda>i. (li_user i, li_type i)) (db_identifiers (dw_db v))" using wfv by (rule wf_unique)
  then have "x' = x" by (rule unique_byD [OF _ x'(1) x(1)]) (use x' x i in \<open>auto simp: identifier_evolves_def\<close>)
  then have xc: "li_canonical x = canonical" using x' i by (simp add: identifier_evolves_def)
  have "us_status u = user_status_active" and "li_verified x \<noteq> None"
    using ml u(3) user by (auto simp: may_login_def user_status_of_def split: if_splits)
  then have "credentials_proved E L canonical p w v1 u (dw_db v1)"
    using u x user a pc by (intro credentials_provedI [OF m i u(1,2) _ x(1) _ x(3) xc _ a(1) _ a(3,4)]) simp_all
  with u user tk show thesis by (intro that) simp_all
qed

text \<open>
  C7. A login needs the credentials and opens one new session. A login that succeeds found, in this order, the identifier
  of the normalized email, its user active, that user's email verified, an active password authenticator of that user
  and, stored for it, a hash that the password matches. All that it then writes is one row at the end of the session
  table, with a secret hash and id that no session had: a session of that user, stored under the hash of the returned
  secret (the base64 of bytes that the random source gave to this call), with an idle limit of seven and an absolute
  limit of thirty days after a time that the call read.
\<close>

theorem login_requires_credentials:
  fixes w :: "(db, 'z) db_world_scheme"
  assumes "others_ok E" "db_wf (dw_db w)"
    and "authentication_login E L (iam_authentication E L) email p w = (Inr (user, session, secret), w')"
  shows "may_login user
    \<and> (\<exists>canonical display u d e l sid t n b. normalize_email L email = Inr (canonical, display)
         \<and> credentials_proved E L canonical p w w' u d \<and> us_id u = up_user_id user
         \<and> meets E w w' d e \<and> reads_clock E w w' t
         \<and> l = new_login_row sid (up_user_id user) (hash_opaque_secret L secret) t
         \<and> \<not> list_ex (login_clash l) (db_logins e)
         \<and> dw_db w' = e\<lparr>db_logins := db_logins e @ [l]\<rparr> \<and> session = to_session l
         \<and> tick w \<le> n \<and> n < tick w' \<and> rand_read E n opaque_secret_bytes = Inr b \<and> secret = b64_encode b)"
proof -
  from assms(3) obtain canonical display c m and v v1 :: "(db, 'z) db_world_scheme" where
    n: "normalize_email L email = Inr (canonical, display)"
    and f: "user_find_by_email E L canonical w = (Inr user, v)" and ml: "may_login user"
    and cf: "credential_find_active E (up_user_id user) v = (Inr c, v1)"
    and pc: "password_compare (il_argon L) p (pcr_password_hash c) = Inr (True, m)"
    and sc: "session_create E L (iam_sessions E L) (up_user_id user) v1 = (Inr (session, secret), w')"
    by (rule authentication_login_Inr)
  obtain u where u: "credentials_proved E L canonical p w v1 u (dw_db v1)" "us_id u = up_user_id user" "tick w < tick v1"
    by (rule login_checks_course [OF assms(1,2) f ml cf pc])
  obtain sid t e where t: "reads_clock E v1 w' t" and e: "meets E v1 w' (dw_db v1) e" and k: "tick v1 < tick w'"
    and s: "session = to_session (new_login_row sid (up_user_id user) (hash_opaque_secret L secret) t)"
    and new: "\<not> list_ex (login_clash (new_login_row sid (up_user_id user) (hash_opaque_secret L secret) t)) (db_logins e)"
    and w': "dw_db w' = e\<lparr>db_logins := db_logins e @ [new_login_row sid (up_user_id user) (hash_opaque_secret L secret) t]\<rparr>"
    and b: "\<exists>b. rand_read E (tick v1) opaque_secret_bytes = Inr b \<and> secret = b64_encode b"
    by (rule session_create_trace [OF sc])
  have le: "tick w \<le> tick v1" "tick v1 \<le> tick w'" using u(3) k by simp_all
  have c: "credentials_proved E L canonical p w w' u (dw_db v1)" by (rule credentials_proved_within [OF u(1) le(2)])
  have "meets E w w' (dw_db v1) e" "reads_clock E w w' t"
    using e t le by (blast intro: meets_within reads_clock_within order_refl)+
  then show ?thesis using ml n c u(2) s new w' b le k by blast
qed

lemma length_sextets: "length bs \<le> length (sextets bs)"
  by (induction bs rule: sextets.induct) auto

lemma demo_secret:
  "new_opaque_secret demo_env demo_lib w =
     (Inr (b64_encode (replicate 32 (CHR ''r'')), hash_opaque_secret demo_lib (b64_encode (replicate 32 (CHR ''r'')))),
      w\<lparr>tick := Suc (tick w)\<rparr>)"
  by (simp add: new_opaque_secret_def demo_env_def opaque_secret_bytes_def Let_def)

lemma demo_secret_new: "b64_encode (replicate 32 (CHR ''r'')) \<noteq> ''sk''"
proof
  assume "b64_encode (replicate 32 (CHR ''r'')) = ''sk''"
  then have "length (b64_encode (replicate 32 (CHR ''r''))) = 2" by (metis length_Cons list.size(3) numeral_2_eq_2)
  then show False using length_sextets [of "map ord_of (replicate 32 (CHR ''r''))"] by (simp add: b64_encode_def)
qed

lemma demo_trim: "trim_space ''a@x'' = ''a@x''"
  by (rule trim_space_id) code_simp

lemma demo_email: "normalize_email demo_lib ''a@x'' = Inr (''a@x'', ''a@x'')"
  by (simp add: normalize_email_def demo_lib_def demo_trim Let_def)

lemma demo_login:
  "\<exists>x. fst (authentication_login demo_env demo_lib (iam_authentication demo_env demo_lib)
     ''a@x'' ''pw'' demo_world) = Inr x"
  by (simp add: authentication_login_def session_create_def wired demo_run demo_world_def 
      demo_email password_compare_def demo_argon active_password_of_def may_login_def user_status_of_def
      demo_secret demo_secret_new demo_secret_new [symmetric] demo_hash_eq demo_hash_nonempty
      user_find_by_email_def credential_find_active_def login_create_def demo_ids user_get_def
      to_resources_def demo_db_def empty_db_def demo_rows iam_consts email_by_user_id_def to_resource_def
      to_dto_def login_valid_def login_clash_def)

theorem login_requires_credentials_witness:
  "\<exists>user session secret w' u d l.
     authentication_login demo_env demo_lib (iam_authentication demo_env demo_lib) ''a@x'' ''pw'' demo_world
       = (Inr (user, session, secret), w')
     \<and> credentials_proved demo_env demo_lib ''a@x'' ''pw'' demo_world w' u d
     \<and> dw_db w' = d\<lparr>db_logins := db_logins d @ [l]\<rparr> \<and> ls_secret l = hash_opaque_secret demo_lib secret"
proof -
  obtain user session secret w' where
    out: "authentication_login demo_env demo_lib (iam_authentication demo_env demo_lib) ''a@x'' ''pw'' demo_world
       = (Inr (user, session, secret), w')" using demo_login by (metis prod.collapse)
  have wf: "db_wf (dw_db demo_world)" by (simp add: demo_world_def demo_db_wf)
  obtain u d e l sid t where c: "credentials_proved demo_env demo_lib ''a@x'' ''pw'' demo_world w' u d"
    and m: "meets demo_env demo_world w' d e" and w': "dw_db w' = e\<lparr>db_logins := db_logins e @ [l]\<rparr>"
    and l: "l = new_login_row sid (up_user_id user) (hash_opaque_secret demo_lib secret) t"
    using login_requires_credentials [OF demo_env_ok(1) wf out] by (auto simp: demo_email)
  have "e = d" using m by (auto simp: meets_def demo_env_def)
  moreover have "ls_secret l = hash_opaque_secret demo_lib secret" by (simp add: l new_login_row_def)
  ultimately show ?thesis using out c w' by blast
qed

end
