(* ===== verification/IamRound.thy ===== *)
theory IamRound
  imports IamLogin
begin

text \<open>
  What a request achieves when it runs alone: a login that succeeded can be resolved.
\<close>

section \<open>Reading alone\<close>

lemma quiet_seen: "quiet E \<Longrightarrow> db_exec E s w = (r, w') \<longleftrightarrow>
    (\<exists>d. s (clock E (tick w)) (dw_db w) = (r, d) \<and> w' = w\<lparr>tick := Suc (tick w), dw_db := d\<rparr>)"
  by (auto simp: quiet_run split: prod.split)

text \<open>\<open>Get\<close> reads the users and the identifiers, and nothing else.\<close>

lemma user_get_again:
  assumes q: "quiet E" and r: "user_get E L i w = (Inr user, w')"
    and same: "db_users (dw_db v) = db_users (dw_db w)" "db_identifiers (dw_db v) = db_identifiers (dw_db w)"
  shows "user_get E L i v = (Inr user, v\<lparr>tick := tick v + 2\<rparr>)"
  using r same
  by (auto simp: user_get_def to_resources_def pass_Inr ent_wrappers_Inr quiet_seen [OF q] only_Inr all_where_eq
      table_defs collect_single simp del: collect_results.simps)


definition sources_ok :: "'e env_scheme \<Rightarrow> bool" where
  "sources_ok E \<longleftrightarrow> mono_clock E \<and> 0 < clock E 0
     \<and> (\<forall>n i. uuid_v7 E n = Inr i \<longrightarrow> i \<noteq> []) \<and> (\<forall>n k s. rand_read E n k = Inr s \<longrightarrow> length s = k)"

lemma sources_clock: "sources_ok E \<Longrightarrow> 0 < clock E n" "sources_ok E \<Longrightarrow> m \<le> n \<Longrightarrow> clock E m \<le> clock E n"
  by (auto simp: sources_ok_def dest: mono_clockD [of E 0 n] mono_clockD [of E m n])

lemma session_create_alone:
  fixes w :: "(db, 'z) db_world_scheme"
  assumes q: "quiet E" and src: "sources_ok E" and r: "session_create E L (iam_sessions E L) u w = (Inr (s, secret), w')"
  obtains sid t where "s = to_session (new_login_row sid u (hash_opaque_secret L secret) t)"
    "u \<noteq> []" "sid \<noteq> []" "secret \<noteq> []" "set secret \<subseteq> set url_alphabet" "dw_db w' = (dw_db w)\<lparr>db_logins := db_logins (dw_db w) @ [new_login_row sid u (hash_opaque_secret L secret) t]\<rparr>"
    "\<forall>l \<in> set (db_logins (dw_db w)). ls_secret l \<noteq> hash_opaque_secret L secret \<and> ls_id l \<noteq> sid"
proof -
  have ne: "b64_encode s \<noteq> []" if "rand_read E n opaque_secret_bytes = Inr s" for n s
    using src that by (fastforce simp: sources_ok_def opaque_secret_bytes_def)
  from r ne src show thesis
    by (auto simp: session_create_def wired check_eq seq_eq now_eq new_opaque_secret_Inr login_create_def
        time_or_now_eq ent_wrappers_Inr quiet_seen [OF q] create_Inr logins_t_def stamp_db new_user_id_Inr
        login_clash_def new_login_row_def list_ex_iff sources_ok_def split: if_splits intro!: that dest: subsetD [OF b64_encode_alphabet])
qed


lemma session_resolve_alone:
  fixes v :: "(db, 'z) db_world_scheme"
  assumes q: "quiet E" and src: "sources_ok E" and wf: "db_wf (dw_db v)" and secret: "secret \<noteq> []"
    and l: "l \<in> set (db_logins (dw_db v))" "ls_secret l = hash_opaque_secret L secret" "ls_id l \<noteq> []"
      "ls_revoked l = None" "clock E (Suc (tick v)) < ls_idle l" "clock E (Suc (tick v)) < ls_absolute l"
    and g: "\<And>x :: (db, 'z) db_world_scheme. dw_db x = dw_db v \<Longrightarrow> user_get E L (ls_user l) x = (Inr user, x\<lparr>tick := tick x + 2\<rparr>)"
    and ml: "may_login user"
  shows "\<exists>k v'. session_resolve E L (iam_sessions E L) secret v = (Inr (user, to_session k), v')
     \<and> k = l\<lparr>ls_seen := clock E (Suc (tick v)),
           ls_idle := min (clock E (Suc (tick v)) + login_session_idle_ttl) (ls_absolute l)\<rparr>"
proof -
  have one: "ent_only (\<lambda>x. ls_secret x = hash_opaque_secret L secret) (db_logins (dw_db v)) = Inr l"
    "ent_only (\<lambda>x. ls_id x = ls_id l) (db_logins (dw_db v)) = Inr l"
    using unique_by_only [OF wf_unique(11) [OF wf] l(1)] unique_by_only [OF wf_unique(10) [OF wf] l(1)] l(2)
    by auto
  let ?t = "clock E (Suc (tick v))"
  have up: "ent_update_one (\<lambda>x. ls_id x = ls_id l \<and> ls_revoked x = None \<and> ls_idle x > ?t \<and> ls_absolute x > ?t) f
      (db_logins (dw_db v)) = (Inr (f l), rows)" 
    if "rows = ent_update_where (\<lambda>x. ls_id x = ls_id l \<and> ls_revoked x = None \<and> ls_idle x > ?t \<and> ls_absolute x > ?t) f
      (db_logins (dw_db v))" for f rows
  proof -
    have "ent_only (\<lambda>x. ls_id x = ls_id l \<and> ls_revoked x = None \<and> ls_idle x > ?t \<and> ls_absolute x > ?t)
        (db_logins (dw_db v)) = Inr l"
      by (rule unique_by_only [OF wf_unique(10) [OF wf] l(1) refl]) (use l in auto)
    then show ?thesis using that by (simp add: ent_update_one_def ent_only_Inr)
  qed
  have t: "?t \<noteq> 0" using sources_clock(1) [OF src, of "Suc (tick v)"] by simp
  let ?k = "l\<lparr>ls_seen := ?t, ls_idle := min (?t + login_session_idle_ttl) (ls_absolute l)\<rparr>"
  have f: "login_find E (hash_opaque_secret L secret) v
      = (Inr (Some (to_session l), ls_user l, False), v\<lparr>tick := Suc (tick v)\<rparr>)"
    using l one(1) by (simp add: login_find_def translated_def check_run quiet_run [OF q] only_def logins_t_def)
  have touch: "\<exists>x'. login_touch E (ls_id l) ?t x = (Inr (to_session ?k), x')" if "dw_db x = dw_db v" for x :: "(db, 'z) db_world_scheme"
    using that one(2) t l
    by (simp add: login_touch_def time_or_now_def translated_def or_mutation_miss_def check_run quiet_run [OF q]
        only_def logins_t_def update_one_def up min_def Let_def)
  obtain x' where x': "login_touch E (ls_id l) ?t (v\<lparr>tick := Suc (Suc (Suc (Suc (tick v))))\<rparr>) = (Inr (to_session ?k), x')"
    using touch [of "v\<lparr>tick := Suc (Suc (Suc (Suc (tick v))))\<rparr>"] by auto
  have "session_active ?t (Some (to_session l))" using l by (simp add: session_active_def to_session_def)
  moreover have "sp_session_id (to_session l) = ls_id l" by (simp add: to_session_def)
  ultimately have "session_resolve E L (iam_sessions E L) secret v = (Inr (user, to_session ?k), x')"
    using secret ml x' g [of "v\<lparr>tick := tick v + 2\<rparr>"] f
    by (simp add: session_resolve_def wired check_run seq_run now_def may_login_def)
  then show ?thesis by blast
qed

text \<open>
  A login that succeeded can be resolved: run alone, the cookie secret that the login returned is
  accepted until the idle limit of the session, for the same user and the same session, and the idle
  limit then lies seven days ahead, or at the absolute limit when that comes first.
\<close>

lemma login_then_resolve:
  fixes w v :: "(db, 'z) db_world_scheme"
  assumes "quiet E" "sources_ok E" "db_wf (dw_db w)"
    and "authentication_login E L (iam_authentication E L) email p w = (Inr (user, session, secret), w')"
    and "dw_db v = dw_db w'" "sp_idle_expires_time session = Some idle" "clock E (Suc (tick v)) < idle"
  shows "\<exists>session' v'. session_resolve E L (iam_sessions E L) secret v = (Inr (user, session'), v')
     \<and> sp_session_id session' = sp_session_id session
     \<and> sp_absolute_expires_time session' = sp_absolute_expires_time session
     \<and> sp_idle_expires_time session' = Some (min (clock E (Suc (tick v)) + login_session_idle_ttl)
          (the (sp_absolute_expires_time session)))
     \<and> up_user_id user \<noteq> [] \<and> sp_session_id session \<noteq> [] \<and> secret \<noteq> [] \<and> set secret \<subseteq> set url_alphabet"
proof -
  from assms(4) obtain canonical display c m and x y :: "(db, 'z) db_world_scheme" where
    f: "user_find_by_email E L canonical w = (Inr user, x)" and ml: "may_login user"
    and cf: "credential_find_active E (up_user_id user) x = (Inr c, y)"
    and sc: "session_create E L (iam_sessions E L) (up_user_id user) y = (Inr (session, secret), w')"
    by (rule authentication_login_Inr)
  note ok = quiet_ok(1) [OF assms(1)]
  from find_by_email_Inr [OF ok assms(3) f] obtain i and u :: "(db, 'z) db_world_scheme" where
    u: "db_reach (dw_db w) (dw_db u)" and "i \<in> set (db_identifiers (dw_db u))"
    "li_type i = login_identifier_email" "li_canonical i = canonical"
    and gu: "user_get E L (li_user i) u = (Inr user, x)" .
  then have wfu: "db_wf (dw_db u)" by (simp add: db_reach_def)
  from user_get_Inr [OF ok wfu gu] have uid: "up_user_id user = li_user i" by metis
  have x: "x = u\<lparr>tick := tick u + 2\<rparr>" using user_get_again [OF assms(1) gu refl refl] gu by simp
  have y: "dw_db y = dw_db x"
    using cf by (auto simp: credential_find_active_def pass_Inr ent_wrappers_Inr quiet_seen [OF assms(1)] only_Inr)
  have wfy: "db_wf (dw_db y)" using wfu x y by simp
  from session_create_alone [OF assms(1,2) sc] obtain sid t where
    s: "session = to_session (new_login_row sid (up_user_id user) (hash_opaque_secret L secret) t)"
    and ne: "up_user_id user \<noteq> []" "sid \<noteq> []" "secret \<noteq> []" "set secret \<subseteq> set url_alphabet"
    and w': "dw_db w' = (dw_db y)\<lparr>db_logins := db_logins (dw_db y)
        @ [new_login_row sid (up_user_id user) (hash_opaque_secret L secret) t]\<rparr>" by metis
  have "db_reach (dw_db y) (dw_db w')" by (rule keeps_step [OF ok wfy sc iam_session_create_keeps [OF ok]])
  then have wfv: "db_wf (dw_db v)" using assms(5) by (simp add: db_reach_def)
  let ?l = "new_login_row sid (up_user_id user) (hash_opaque_secret L secret) t"
  have l: "?l \<in> set (db_logins (dw_db v))" using w' assms(5) by simp
  have "user_get E L (ls_user ?l) z = (Inr user, z\<lparr>tick := tick z + 2\<rparr>)"
    if "dw_db z = dw_db v" for z :: "(db, 'z) db_world_scheme"
    using user_get_again [OF assms(1) gu, of z] that assms(5) w' x y uid by (simp add: new_login_row_def)
  then have "\<exists>k v'. session_resolve E L (iam_sessions E L) secret v = (Inr (user, to_session k), v')
     \<and> k = ?l\<lparr>ls_seen := clock E (Suc (tick v)),
           ls_idle := min (clock E (Suc (tick v)) + login_session_idle_ttl) (ls_absolute ?l)\<rparr>"
    using s assms(6,7) ne ml
    by (intro session_resolve_alone [OF assms(1,2) wfv ne(3) l])
      (auto simp: new_login_row_def to_session_def iam_ttls time_consts)
  then show ?thesis using s ne by (auto simp: to_session_def new_login_row_def)
qed

lemma demo_env_quiet: "quiet demo_env" "sources_ok demo_env"
  by (auto simp: quiet_def sources_ok_def mono_clock_def demo_env_def mono_def)

lemma demo_login_idle:
  "\<exists>u s k i. fst (authentication_login demo_env demo_lib (iam_authentication demo_env demo_lib)
     ''a@x'' ''pw'' demo_world) = Inr (u, s, k) \<and> sp_idle_expires_time s = Some i \<and> 11 < i"
  by (simp add: authentication_login_def session_create_def wired demo_run demo_world_def
      demo_email password_compare_def demo_argon active_password_of_def may_login_def user_status_of_def
      demo_secret demo_secret_new demo_secret_new [symmetric] demo_hash_eq demo_hash_nonempty
      user_find_by_email_def credential_find_active_def login_create_def demo_ids user_get_def
      to_resources_def demo_db_def empty_db_def demo_rows iam_consts email_by_user_id_def to_resource_def
      to_dto_def login_valid_def login_clash_def to_session_def iam_ttls time_consts)

end
