(* ===== verification/IamAdmin.thy ===== *)
theory IamAdmin
  imports IamRound
begin

text \<open>
  Administration: disabling a user ends its sessions, a profile is updated only over the version that
  the client has seen, and the address under which the bootstrap administrator is stored.
\<close>

section \<open>Disabling\<close>

text \<open>
  The course of a \<open>DisableUser\<close>: the user row \<open>u\<close>, read with the etag of the request, if any; unless it is already
  disabled, a transaction that disables it over the etag read, and the reads of the answer; then the end of its sessions.
\<close>

definition disable_run ::
    "db dbenv \<Rightarrow> iam_lib \<Rightarrow> string \<Rightarrow> (db, 'z) db_world_scheme \<Rightarrow> (db, 'z) db_world_scheme \<Rightarrow> string \<Rightarrow> bool" where
  "disable_run E L g w w' i \<longleftrightarrow>
     (\<exists>d1 u d2 d3.
        meets E w w' (dw_db w) d1 \<and> u \<in> set (db_users d1) \<and> us_id u = i \<and> (g = [] \<or> g = up_etag (il_copy L u))
        \<and> meets E w w' d1 d2
        \<and> (if us_status u = user_status_disabled then d3 = d2
           else (\<exists>e f tag t n. meets E w w' d2 e
                   \<and> (\<exists>r \<in> set (db_users e). us_id r = i \<and> us_etag r = up_etag (il_copy L u))
                   \<and> draws_id E w w' tag \<and> reads_clock E w w' t \<and> reads_clock E w w' n
                   \<and> meets E w w' (disabled_db i (up_etag (il_copy L u)) tag t n e) f \<and> meets E w w' f d3))
        \<and> user_ended E w w' i d3 (dw_db w'))"

lemma user_disable_Inr:
  assumes "user_disable E (iam_users E L D) i g w = (Inr user, w')"
  obtains cur v v1 v2 where "user_get E L i w = (Inr cur, v)" "g = [] \<or> g = up_etag cur"
    "session_revoke_all E (iam_sessions E L) i v2 = (Inr (), w')"
    "up_status cur \<noteq> UserStatusDisabled \<longrightarrow>
       user_set_status E L i (up_etag cur) UserStatusDisabled (clock E (tick v)) v1 = (Inr user, v2)"
    "up_status cur = UserStatusDisabled \<longrightarrow> user = cur \<and> v2 = v1" "dw_db v1 = dw_db v" "tick v1 = Suc (tick v)"
proof -
  note defs = user_disable_def user_update_status_def iam_users_def user_repository_def iam_consts user_status_of_def
  from assms obtain cur v where g: "user_get E L i w = (Inr cur, v)" by (auto simp: defs pass_Inr)
  let ?v = "v\<lparr>tick := Suc (tick v)\<rparr>"
  from assms g have e: "g = [] \<or> g = up_etag cur"
    by (auto simp: user_disable_def user_update_status_def pass_Inr iam_users_def user_repository_def split: if_splits)
  show thesis
  proof (cases "up_status cur = UserStatusDisabled")
    case True
    from assms g True have "session_revoke_all E (iam_sessions E L) i ?v = (Inr (), w') \<and> user = cur"
      by (auto simp: defs check_eq seq_eq now_eq split: if_splits)
    then show thesis using True by (intro that [OF g e, where ?v2.0 = ?v and ?v1.0 = ?v]) auto
  next
    case False
    with assms g obtain v2 where "session_revoke_all E (iam_sessions E L) i v2 = (Inr (), w')"
      "user_set_status E L i (up_etag cur) UserStatusDisabled (clock E (tick v)) ?v = (Inr user, v2)"
      by (auto simp: defs check_eq seq_eq now_eq split: if_splits)
    then show thesis using False by (intro that [OF g e, where ?v2.0 = v2 and ?v1.0 = ?v]) auto
  qed
qed

lemma set_status_tick:
  "user_set_status E L i g UserStatusDisabled t0 v = (Inr user, v') \<Longrightarrow> tick v < tick v'"
  by (erule user_set_status_trace)

lemma set_status_course:
  fixes w :: "(db, 'z) db_world_scheme"
  assumes run: "user_set_status E L i g UserStatusDisabled t0 v = (Inr user, v')"
    and le: "tick w \<le> tick v" "tick v' \<le> tick w'" and t0: "reads_clock E w w' t0"
  shows "\<exists>e f tag t n. meets E w w' (dw_db v) e \<and> (\<exists>r \<in> set (db_users e). us_id r = i \<and> us_etag r = g)
       \<and> draws_id E w w' tag \<and> reads_clock E w w' t \<and> reads_clock E w w' n
       \<and> meets E w w' (disabled_db i g tag t n e) f \<and> meets E w w' f (dw_db v')"
proof -
  obtain t tag n e f where t: "t = t0 \<or> reads_clock E v v' t" and tag: "draws_id E v v' tag"
    and n: "reads_clock E v v' n" and k: "tick v < tick v'" and m: "meets E v v' (dw_db v) e"
    and row: "\<exists>r \<in> set (db_users e). us_id r = i \<and> us_etag r = g"
    and f: "meets E v v' (disabled_db i g tag t n e) f" "meets E v v' f (dw_db v')"
    by (rule user_set_status_trace [OF run])
  have "reads_clock E w w' t" using t t0 reads_clock_within [OF _ le] by blast
  moreover note reads_clock_within [OF n le] draws_id_within [OF tag le] meets_within [OF m le]
    meets_within [OF f(1) le] meets_within [OF f(2) le] row
  ultimately show "\<exists>e f tag t n. meets E w w' (dw_db v) e \<and> (\<exists>r \<in> set (db_users e). us_id r = i \<and> us_etag r = g)
       \<and> draws_id E w w' tag \<and> reads_clock E w w' t \<and> reads_clock E w w' n
       \<and> meets E w w' (disabled_db i g tag t n e) f \<and> meets E w w' f (dw_db v')" by blast
qed

lemma user_disable_course:
  fixes w :: "(db, 'z) db_world_scheme"
  assumes g: "user_get E L i w = (Inr cur, v)" and e: "g = [] \<or> g = up_etag cur"
    and rv: "session_revoke_all E (iam_sessions E L) i v2 = (Inr (), w')"
    and s: "up_status cur \<noteq> UserStatusDisabled \<longrightarrow>
       user_set_status E L i (up_etag cur) UserStatusDisabled (clock E (tick v)) v1 = (Inr user, v2)"
      "up_status cur = UserStatusDisabled \<longrightarrow> user = cur \<and> v2 = v1"
    and v1: "dw_db v1 = dw_db v" "tick v1 = Suc (tick v)"
  shows "disable_run E L g w w' i"
proof -
  obtain d1 u where m1: "meets E w v (dw_db w) d1" "meets E w v d1 (dw_db v)" and k1: "tick w < tick v"
    and u: "u \<in> set (db_users d1)" "us_id u = i" "up_status cur = user_status_of (us_status u)"
    and etag: "up_etag cur = up_etag (il_copy L u)" by (rule user_get_trace [OF g])
  note r = session_revoke_all_trace [OF rv]
  have status: "up_status cur = UserStatusDisabled \<longleftrightarrow> us_status u = user_status_disabled"
    unfolding u(3) by (auto simp: user_status_of_def iam_consts)
  have k12: "tick v1 \<le> tick v2"
    using s set_status_tick by (metis order_refl less_imp_le)
  then have k: "tick w \<le> tick v1" "tick w \<le> tick v2" "tick v \<le> tick w'" "tick v2 \<le> tick w'" using k1 v1 r(2) by simp_all
  have t0: "reads_clock E w w' (clock E (tick v))" using k1 v1 k12 r(2) by (auto intro!: reads_clockI)
  show ?thesis unfolding disable_run_def
  proof (rule exI [of _ d1], rule exI [of _ u], rule exI [of _ "dw_db v"], rule exI [of _ "dw_db v2"], intro conjI)
    show "if us_status u = user_status_disabled then dw_db v2 = dw_db v
     else (\<exists>e f tag t n. meets E w w' (dw_db v) e
             \<and> (\<exists>r \<in> set (db_users e). us_id r = i \<and> us_etag r = up_etag (il_copy L u))
             \<and> draws_id E w w' tag \<and> reads_clock E w w' t \<and> reads_clock E w w' n
             \<and> meets E w w' (disabled_db i (up_etag (il_copy L u)) tag t n e) f \<and> meets E w w' f (dw_db v2))"
      using s status v1 set_status_course [OF _ k(1,4) t0] unfolding etag by (metis (no_types, lifting))
  qed (use meets_within [OF m1(1) order_refl k(3)] meets_within [OF m1(2) order_refl k(3)] u e etag
      user_ended_within [OF r(1) k(2) order_refl] in simp_all)
qed

text \<open>
  C16. Disabling a user that succeeds disables it and ends everything it had. The call found the user, with the etag of
  the request when there is one; unless that row was already disabled, one transaction set its status to disabled over the
  etag read, with a new etag, and disabled and revoked all of its authenticators, writing nothing else; then it ended the
  user's sessions, which is all that it writes after that. No cookie of a session that the user had before ever resolves
  again, through any requests, and every OAuth token session of the user is revoked with its tokens.
\<close>

theorem disabled_user_loses_sessions:
  fixes w :: "(db, 'z) db_world_scheme"
  assumes "others_ok E" "deps_ok D" "db_wf (dw_db w)"
    and "user_disable E (iam_users E L D) i g w = (Inr user, w')"
  shows "(\<forall>l \<in> set (db_logins (dw_db w)). \<forall>secret rs x v.
        ls_user l = i \<longrightarrow> ls_secret l = hash_opaque_secret L secret
        \<longrightarrow> session_resolve E L (iam_sessions E L) secret (serve_all E L D rs w') \<noteq> (Inr x, v))
     \<and> tokens_dead (\<lambda>s. ts_user s = i) (dw_db w')
     \<and> disable_run E L g w w' i"
proof -
  from assms(4) obtain cur and v v1 v2 :: "(db, 'z) db_world_scheme" where
    g: "user_get E L i w = (Inr cur, v)" and e: "g = [] \<or> g = up_etag cur"
    and rv: "session_revoke_all E (iam_sessions E L) i v2 = (Inr (), w')"
    and s: "up_status cur \<noteq> UserStatusDisabled \<longrightarrow>
        user_set_status E L i (up_etag cur) UserStatusDisabled (clock E (tick v)) v1 = (Inr user, v2)"
      "up_status cur = UserStatusDisabled \<longrightarrow> user = cur \<and> v2 = v1"
    and v1: "dw_db v1 = dw_db v" "tick v1 = Suc (tick v)" by (rule user_disable_Inr)
  have r1: "db_reach (dw_db w) (dw_db v1)" using keeps_step [OF assms(1,3) g user_get_keeps] v1 by simp
  then have wf1: "db_wf (dw_db v1)" by (simp add: db_reach_def)
  have r2: "db_reach (dw_db v1) (dw_db v2)"
    using s keeps_step [OF assms(1) wf1 _ user_set_status_keeps [OF assms(1)]] db_reach_refl [OF wf1] by blast
  then have wf2: "db_wf (dw_db v2)" by (simp add: db_reach_def)
  note out = session_revoke_all_success [OF assms(1) wf2 rv]
  have r12: "db_reach (dw_db w) (dw_db v2)" by (rule db_reach_trans [OF r1 r2])
  have wf': "db_wf (dw_db w')" using out(1) by (simp add: db_reach_def)
  have "session_revoked (dw_db w') (ls_secret l)" if l: "l \<in> set (db_logins (dw_db w))" "ls_user l = i" for l
  proof -
    obtain l' where "l' \<in> set (db_logins (dw_db v2))" "login_evolves l l'"
      using reach_rowsD(7) [OF r12 l(1)] by blast
    then show ?thesis using out(2) [of l'] l(2) by (simp add: login_evolves_def)
  qed
  then show ?thesis
    using revoked_never_resolves [OF assms(1,2) wf'] out(3) user_disable_course [OF g e rv s v1] by metis
qed

lemma demo_copy: "il_copy demo_lib u = zero_user\<lparr>up_name := ''users/'' @ us_id u, up_etag := us_etag u\<rparr>"
  by (simp add: demo_lib_def)

lemma demo_disable:
  "\<exists>x. fst (user_disable demo_env (iam_users demo_env demo_lib demo_deps) ''u1'' [] demo_world) = Inr x"
  by (simp add: user_disable_def user_update_status_def wired demo_run demo_world_def user_set_status_def
      update_status_tx_def session_revoke_all_def login_revoke_all_def token_revoke_all_def token_revoke_def
      revoke_token_sessions_tx_def user_get_def to_resources_def demo_db_def empty_db_def demo_rows iam_consts
      email_by_user_id_def to_resource_def to_dto_def user_status_of_def demo_ids demo_copy Let_def)

theorem disabled_user_loses_sessions_witness:
  "\<exists>user w'. user_disable demo_env (iam_users demo_env demo_lib demo_deps) ''u1'' [] demo_world = (Inr user, w')
     \<and> disable_run demo_env demo_lib [] demo_world w' ''u1''
     \<and> (\<forall>rs x v. session_resolve demo_env demo_lib (iam_sessions demo_env demo_lib) ''sk''
          (serve_all demo_env demo_lib demo_deps rs w') \<noteq> (Inr x, v))"
proof -
  obtain user w' where out: "user_disable demo_env (iam_users demo_env demo_lib demo_deps) ''u1'' [] demo_world
      = (Inr user, w')" using demo_disable by (metis prod.collapse)
  have wf: "db_wf (dw_db demo_world)" by (simp add: demo_world_def demo_db_wf)
  have l: "new_login_row ''s1'' ''u1'' (hash_opaque_secret demo_lib ''sk'') 1 \<in> set (db_logins (dw_db demo_world))"
    by (simp add: demo_world_def demo_db_def)
  note facts = disabled_user_loses_sessions [OF demo_env_ok(1) demo_deps_ok wf out]
  show ?thesis
    using facts [THEN conjunct1, rule_format, OF l] facts [THEN conjunct2] out
    by (intro exI [of _ user] exI [of _ w']) (auto simp: new_login_row_def)
qed

section \<open>Profiles\<close>

text \<open>
  C18. A profile update is optimistic: it succeeds only when the row of the user carries the etag of the request in the
  database that the update statement meets. What the statement writes is the profile, etag and update time of that user,
  the profile with the fields of the request, the etag new; the rest of the call is reads. So an update made over an older
  version cannot overwrite a newer one.
\<close>

theorem profile_update_is_guarded:
  fixes w :: "(db, 'z) db_world_scheme"
  assumes ok: "others_ok E" and wf: "db_wf (dw_db w)"
    and r: "account_update_profile (iam_account E L D) i g f w = (Inr user, w')"
  shows "g \<noteq> [] \<and> (\<exists>d e u tag c t. meets E w w' (dw_db w) d \<and> u \<in> set (db_users d) \<and> us_id u = i \<and> us_etag u = g
     \<and> il_clear L (zero_user\<lparr>up_profile := f\<rparr>) user_profile_write_mask = Inr c
     \<and> draws_id E w w' tag \<and> reads_clock E w w' t
     \<and> meets E w w' (d\<lparr>db_users := ent_update_where (\<lambda>x. us_id x = i)
           (\<lambda>x. x\<lparr>us_profile := mutate_profile c f user_profile_write_mask (us_profile x),
              us_etag := tag, us_update := t\<rparr>) (db_users d)\<rparr>) e \<and> meets E w w' e (dw_db w'))"
proof -
  from r have run: "user_update_profile E L i g f w = (Inr user, w')"
    by (auto simp: account_update_profile_def iam_account_def user_repository_def check_eq split: if_splits)
  obtain t tag c d e where t: "reads_clock E w w' t" and tag: "draws_id E w w' tag" and g: "g \<noteq> []" and "tick w < tick w'"
    and c: "il_clear L (zero_user\<lparr>up_profile := f\<rparr>) user_profile_write_mask = Inr c"
    and d: "meets E w w' (dw_db w) d" and row: "\<exists>r \<in> set (db_users d). us_id r = i \<and> us_etag r = g"
    and e: "meets E w w' (d\<lparr>db_users := ent_update_where (\<lambda>x. us_id x = i \<and> us_etag x = g)
       (\<lambda>x. x\<lparr>us_profile := mutate_profile c f user_profile_write_mask (us_profile x),
          us_etag := tag, us_update := t\<rparr>) (db_users d)\<rparr>) e" "meets E w w' e (dw_db w')"
    by (rule update_profile_trace [OF run])
  from row obtain u where u: "u \<in> set (db_users d)" "us_id u = i" "us_etag u = g" by blast
  have uniq: "unique_by us_id (db_users d)" using meets_wf [OF ok wf d] by (rule wf_unique)
  have same: "ent_update_where (\<lambda>u. us_id u = i \<and> us_etag u = g) h (db_users d)
      = ent_update_where (\<lambda>u. us_id u = i) h (db_users d)" for h
    unfolding ent_update_where_def using unique_byD [OF uniq] u by (intro map_cong) auto
  show ?thesis using g d u c tag t e(1) [unfolded same] e(2) by blast
qed

lemma demo_update_profile:
  "\<exists>x. fst (account_update_profile (iam_account demo_env demo_lib demo_deps) ''u1'' ''e1'' None demo_world) = Inr x"
  by (simp add: account_update_profile_def wired demo_run demo_world_def user_update_profile_def
      update_profile_fields_def user_get_def to_resources_def demo_db_def empty_db_def demo_rows iam_consts
      email_by_user_id_def to_resource_def to_dto_def demo_ids demo_lib_def Let_def)

theorem profile_update_is_guarded_witness:
  "\<exists>user w'. account_update_profile (iam_account demo_env demo_lib demo_deps) ''u1'' ''e1'' None demo_world
     = (Inr user, w')
     \<and> (\<exists>u tag c t. u \<in> set (db_users demo_db) \<and> us_etag u = ''e1'' \<and> draws_id demo_env demo_world w' tag
          \<and> dw_db w' = demo_db\<lparr>db_users := ent_update_where (\<lambda>x. us_id x = ''u1'')
              (\<lambda>x. x\<lparr>us_profile := mutate_profile c None user_profile_write_mask (us_profile x),
                 us_etag := tag, us_update := t\<rparr>) (db_users demo_db)\<rparr>)"
proof -
  obtain user w' where out: "account_update_profile (iam_account demo_env demo_lib demo_deps) ''u1'' ''e1'' None demo_world
     = (Inr user, w')" using demo_update_profile by (metis prod.collapse)
  have wf: "db_wf (dw_db demo_world)" by (simp add: demo_world_def demo_db_wf)
  have same: "meets demo_env v v' d e \<Longrightarrow> e = d" for v v' d e by (auto simp: meets_def demo_env_def)
  show ?thesis using profile_update_is_guarded [OF demo_env_ok(1) wf out] out
    by (auto simp: demo_world_def dest!: same)
qed

text \<open>
  A stale etag is answered as such: run alone, an update of the profile of an existing user with an
  etag that is not the current one fails with the etag mismatch of the API and changes nothing.
\<close>

lemma stale_profile_update_rejected:
  fixes w :: "(db, 'z) db_world_scheme"
  assumes "quiet E" "i \<noteq> []" "g \<noteq> []"
    and "uuid_v7 E (tick w) = Inr tag" "il_clear L (zero_user\<lparr>up_profile := f\<rparr>) user_profile_write_mask = Inr c"
    and "\<forall>u \<in> set (db_users (dw_db w)). us_id u = i \<longrightarrow> us_etag u \<noteq> g"
  shows "\<exists>w'. account_update_profile (iam_account E L D) i g f w = (Inl (biz ErrProfileEtagMismatch), w')
     \<and> dw_db w' = dw_db w"
proof -
  have none: "filter (\<lambda>u. us_id u = i \<and> us_etag u = g) (db_users (dw_db w)) = []"
    using assms(6) by (auto simp: filter_empty_conv)
  show ?thesis
    using assms(2-5) none
    by (simp add: account_update_profile_def iam_account_def user_repository_def user_update_profile_def
        update_profile_fields_def check_run quiet_run [OF assms(1)] new_user_id_def update_one_def
        ent_update_one_def users_t_def or_mutation_miss_def)
qed

section \<open>The bootstrap administrator\<close>

lemma find_by_email_alone:
  assumes "quiet E" "\<forall>i \<in> set (db_identifiers (dw_db w)). li_type i = login_identifier_email \<longrightarrow> li_canonical i \<noteq> c"
  shows "user_find_by_email E L c w = (Inl (biz ErrNotFound), w\<lparr>tick := Suc (tick w)\<rparr>)"
proof -
  have "ent_only (\<lambda>i. li_type i = login_identifier_email \<and> li_canonical i = c) (db_identifiers (dw_db w)) = Inl not_found"
    using assms(2) by (intro ent_only_none) auto
  then show ?thesis
    by (simp add: user_find_by_email_def check_run translated_def quiet_run [OF assms(1)] only_def identifiers_t_def)
qed

lemma create_aggregate_tx_identifiers:
  "create_aggregate_tx E r h c s vt t li au pw tag w = (Inr (), w') \<Longrightarrow>
     \<exists>d. db_identifiers (dw_db w') = db_identifiers (dw_db w)
       @ [new_identifier_row li (up_user_id r) c (get_email r) vt d]"
  by (auto simp: create_aggregate_tx_def pass_Inr ent_wrappers_Inr tx_exec_Inr create_Inr table_defs new_user_row_def)

lemma create_initial_admin_alone:
  assumes "quiet E" "create_initial_admin E u e c h t0 w = (Inr (), w')"
  shows "\<exists>li vt d. db_identifiers (dw_db w') = db_identifiers (dw_db w) @ [new_identifier_row li u c e vt d]"
proof -
  from assms(2) obtain t li au pw tag v1 where
    tx: "in_tx E (create_aggregate_tx E (zero_user\<lparr>up_user_id := u, up_email := Some e\<rparr>) h c user_status_active
        (Some t) t li au pw tag) v1 = (Inr (), w')" and v1: "dw_db v1 = dw_db w"
    by (auto simp: create_initial_admin_def time_or_now_eq create_user_aggregate_def pass_Inr new_user_id_Inr
        split: if_splits dest: stamp_db)
  show ?thesis
    using tx v1 create_aggregate_tx_identifiers
    by (auto simp: quiet_run(3) [OF assms(1)] get_email_def split: sum.splits prod.splits) fastforce
qed

lemma new_user_id_db: "new_user_id E w = (r, w') \<Longrightarrow> dw_db w' = dw_db w"
  by (auto simp: new_user_id_def split: sum.splits)

lemma create_initial_admin_failed:
  fixes w :: "(db, 'z) db_world_scheme"
  assumes q: "quiet E" and r: "create_initial_admin E u e c h t0 w = (Inl x, w')"
  shows "dw_db w' = dw_db w"
proof -
  have tx: "in_tx E b v = (Inl y, v') \<Longrightarrow> dw_db v' = dw_db v"
    for b :: "((db, 'z) db_world_scheme, unit) prog" and v v' y
    using in_tx_Inl_db [of _ _ E b v y v'] q by (simp add: quiet_def)
  show ?thesis
    using r
    by (auto simp: create_initial_admin_def time_or_now_eq create_user_aggregate_def check_eq
        split: if_splits dest!: new_user_id_db stamp_db tx)
qed

lemma admin_create_alone:
  assumes q: "quiet E" and r: "admin_create E L (iam_admin E L D) de ce w = (r, v)"
  shows "(\<exists>e. r = Inl e \<and> dw_db v = dw_db w)
     \<or> (\<exists>a li u vt d. r = Inr a \<and>
          db_identifiers (dw_db v) = db_identifiers (dw_db w) @ [new_identifier_row li u ce de vt d])"
  using r
  by (auto simp: admin_create_def iam_admin_def check_eq seq_eq now_eq new_user_id_def new_opaque_secret_def
      password_hash_def Let_def split: sum.splits
      dest!: create_initial_admin_alone [OF q] create_initial_admin_failed [OF q]) blast+

text \<open>
  C39. The address of the bootstrap administrator is stored the wrong way round: on a database without
  that address, a start that creates the administrator stores the unfolded address as the canonical
  one, so that, when folding changes the address, the next login with it is refused as invalid
  credentials, whatever the password.
\<close>

theorem bootstrap_admin_cannot_login:
  fixes w v :: "(db, 'z) db_world_scheme"
  assumes "quiet E" "deps_ok D" "admin_initialize E L (iam_admin E L D) w = (Inr (), w')"
    and "normalize_email L (id_admin_email D) = Inr (canonical, display)" "canonical \<noteq> display"
    and "\<forall>i \<in> set (db_identifiers (dw_db w)). li_type i = login_identifier_email \<longrightarrow>
           li_canonical i \<noteq> canonical \<and> li_canonical i \<noteq> display"
    and "dw_db v = dw_db w'"
  shows "(\<exists>i \<in> set (db_identifiers (dw_db w')). li_type i = login_identifier_email
           \<and> li_canonical i = display \<and> li_display i = canonical)
     \<and> fst (authentication_login E L (iam_authentication E L) (id_admin_email D) p v) = Inl (biz ErrInvalidCredentials)"
proof -
  have nf: "user_find_by_email E L display x = (Inl (biz ErrNotFound), x\<lparr>tick := Suc (tick x)\<rparr>)"
    if "dw_db x = dw_db w" for x :: "(db, 'z) db_world_scheme"
    using that assms(6) by (intro find_by_email_alone [OF assms(1)]) auto
  define w1 where "w1 = w\<lparr>tick := Suc (tick w)\<rparr>"
  have nf1: "user_find_by_email E L display w = (Inl (biz ErrNotFound), w1)" by (simp add: nf w1_def)
  from assms(3) obtain r admin x v1 where c: "admin_create E L (iam_admin E L D) canonical display w1 = (r, v1)"
    and ens: "ensure_platform_admin (id_fga_write D) (up_user_id admin) x = (Inr (), w')"
    and alt: "(r = Inr admin \<and> x = v1) \<or> (\<exists>e. r = Inl e \<and> user_find_by_email E L display v1 = (Inr admin, x))"
    using assms(4) nf1
    by (auto simp: admin_initialize_def iam_admin_def user_repository_def check_eq split: if_splits)
  have x: "dw_db w' = dw_db x"
    using ens assms(2) unfolding deps_ok_def leaves_db_def
    by (auto simp: ensure_platform_admin_def check_eq split: if_splits) (metis snd_conv)
  have "\<not> (r = Inl e \<and> dw_db v1 = dw_db w)" for e
    using alt nf [of v1] by auto
  with admin_create_alone [OF assms(1) c] alt obtain li u vt d where
    ids: "db_identifiers (dw_db v1) = db_identifiers (dw_db w) @ [new_identifier_row li u display canonical vt d]"
    and "x = v1" by (auto simp: w1_def)
  with ids x have w': "db_identifiers (dw_db w')
      = db_identifiers (dw_db w) @ [new_identifier_row li u display canonical vt d]" by simp
  have "user_find_by_email E L canonical v = (Inl (biz ErrNotFound), v\<lparr>tick := Suc (tick v)\<rparr>)"
    using assms(5,6) w' assms(7) by (intro find_by_email_alone [OF assms(1)]) (auto simp: new_identifier_row_def)
  then have "fst (authentication_login E L (iam_authentication E L) (id_admin_email D) p v) = Inl (biz ErrInvalidCredentials)"
    using assms(4) by (simp add: authentication_login_def iam_authentication_def user_repository_def check_run)
  then show ?thesis using w' by (simp add: new_identifier_row_def)
qed

definition folding_lib :: iam_lib where
  "folding_lib = demo_lib\<lparr>il_fold := (\<lambda>s. if s = ''Root'' then ''root'' else s)\<rparr>"

lemma demo_root: "normalize_email folding_lib (id_admin_email demo_deps) = Inr (''root'', ''Root'')"
proof -
  have "trim_space ''Root'' = ''Root''" by (rule trim_space_id) code_simp
  then show ?thesis by (simp add: normalize_email_def demo_deps_def folding_lib_def Let_def)
qed

lemma demo_root_parts:
  "new_opaque_secret demo_env folding_lib w =
     (Inr (b64_encode (replicate 32 (CHR ''r'')), hash_opaque_secret folding_lib (b64_encode (replicate 32 (CHR ''r'')))),
      w\<lparr>tick := Suc (tick w)\<rparr>)"
  "password_hash (il_argon folding_lib) s w = (Inr (CHR ''h'' # s), w\<lparr>tick := Suc (tick w)\<rparr>)"
  "id_fga_write demo_deps = (\<lambda>_ _. ret ())"
  by (simp_all add: new_opaque_secret_def demo_env_def opaque_secret_bytes_def Let_def password_hash_def
      folding_lib_def demo_argon demo_deps_def)

lemma demo_root_starts:
  "fst (admin_initialize demo_env folding_lib (iam_admin demo_env folding_lib demo_deps) demo_world) = Inr ()"
  by (simp add: admin_initialize_def iam_admin_def demo_root user_repository_def
      user_find_by_email_def demo_run demo_world_def demo_db_def empty_db_def demo_rows iam_consts admin_create_def
      demo_ids demo_root_parts create_initial_admin_def create_user_aggregate_def create_aggregate_tx_def
      ensure_platform_admin_def user_valid_def user_clash_def identifier_valid_def identifier_clash_def
      authenticator_valid_def authenticator_clash_def password_valid_def password_clash_def get_email_def zero_user_def)

theorem bootstrap_admin_cannot_login_witness:
  "\<exists>w'. admin_initialize demo_env folding_lib (iam_admin demo_env folding_lib demo_deps) demo_world = (Inr (), w')
     \<and> fst (authentication_login demo_env folding_lib (iam_authentication demo_env folding_lib) ''Root'' ''x'' w')
         = Inl (biz ErrInvalidCredentials)"
proof -
  obtain w' where out: "admin_initialize demo_env folding_lib (iam_admin demo_env folding_lib demo_deps) demo_world
     = (Inr (), w')" using demo_root_starts by (metis prod.collapse)
  have "\<forall>i \<in> set (db_identifiers (dw_db demo_world)). li_type i = login_identifier_email \<longrightarrow>
      li_canonical i \<noteq> ''root'' \<and> li_canonical i \<noteq> ''Root''"
    by (simp add: demo_world_def demo_db_def demo_rows)
  moreover have "id_admin_email demo_deps = ''Root''" by (simp add: demo_deps_def)
  ultimately show ?thesis
    using bootstrap_admin_cannot_login [OF demo_env_quiet(1) demo_deps_ok out demo_root _ _ refl, of "''x''"] out by simp
qed

end
