(* ===== verification/OidcStorage.thy ===== *)
theory OidcStorage
  imports IamAdmin
begin

text \<open>
  \<open>app/iam/service/internal/oidc\<close>: the storage behind the OpenID provider. Authorization requests and
  codes, access tokens, rotating refresh tokens, revocation, user info and introspection, as programs
  over the database of \<open>IamSchema\<close>. The protocol engine that calls them (\<open>zitadel/oidc\<close>) is not part of
  the repository: its calls are the operations of this theory, in any order and with any arguments.
\<close>

section \<open>Constants\<close>

definition authorization_request_ttl :: duration where "authorization_request_ttl = 10 * go_minute"
definition authorization_code_ttl :: duration where "authorization_code_ttl = 5 * go_minute"
definition access_token_ttl :: duration where "access_token_ttl = 15 * go_minute"
definition refresh_token_ttl :: duration where "refresh_token_ttl = 7 * 24 * go_hour"
definition password_amr :: string where "password_amr = ''pwd''"

definition supported_scopes :: "string list" where
  "supported_scopes = [''openid'', ''profile'', ''email'', ''offline_access'']"

lemmas oidc_ttls = authorization_request_ttl_def authorization_code_ttl_def access_token_ttl_def
  refresh_token_ttl_def

section \<open>Errors\<close>

definition storage_not_found :: "err \<Rightarrow> err" where
  "storage_not_found cause = Node StorageNotFound [cause]"

definition oidc_error :: "string \<Rightarrow> err" where
  "oidc_error kind = Node (OidcError kind) []"

definition with_parent :: "string \<Rightarrow> err \<Rightarrow> err" where
  "with_parent kind parent = Node (OidcError kind) [parent]"

definition token_grant_error :: "err \<Rightarrow> err" where
  "token_grant_error e =
     (if errors_as e (\<lambda>t. t = StorageNotFound) \<or> errors_is e (Oidc ErrTokenSubjectInactive)
      then with_parent ''invalid_grant'' e else e)"

text \<open>\<open>if ent.IsNotFound(err) { return storageNotFoundError }; if err != nil { return wrapped }\<close>\<close>

definition or_not_found :: "string \<Rightarrow> string \<Rightarrow> ('w, 'a) prog \<Rightarrow> ('w, 'a) prog" where
  "or_not_found missing failed p =
     check p (\<lambda>e. if is_not_found e then throw (storage_not_found (errorf missing)) else throw (wrap failed e)) ret"

definition or_wrapped :: "string \<Rightarrow> ('w, 'a) prog \<Rightarrow> ('w, 'a) prog" where
  "or_wrapped failed p = check p (\<lambda>e. throw (wrap failed e)) ret"

lemma or_not_found_Inr: "or_not_found m f p w = (Inr x, w') \<longleftrightarrow> p w = (Inr x, w')"
  by (auto simp: or_not_found_def check_eq)

lemma or_wrapped_Inr: "or_wrapped f p w = (Inr x, w') \<longleftrightarrow> p w = (Inr x, w')"
  by (auto simp: or_wrapped_def check_eq)

lemma preserves_or_not_found [preserve_intros]: "preserves I p \<Longrightarrow> preserves I (or_not_found m f p)"
  unfolding or_not_found_def by (intro preserve_intros)

lemma preserves_or_wrapped [preserve_intros]: "preserves I p \<Longrightarrow> preserves I (or_wrapped f p)"
  unfolding or_wrapped_def by (intro preserve_intros)

lemmas oidc_wrappers_Inr = or_not_found_Inr or_wrapped_Inr

text \<open>\<open>Query().Where(..).Exist\<close>\<close>

definition exists_where :: "('d, 'a) table \<Rightarrow> ('a \<Rightarrow> bool) \<Rightarrow> ('d, bool) stmt" where
  "exists_where T P = stmt_query (\<lambda>d. Inr (list_ex P (tb_get T d)))"

lemma exists_where_eq: "exists_where T P t d = (r, d') \<longleftrightarrow> r = Inr (list_ex P (tb_get T d)) \<and> d' = d"
  by (auto simp: exists_where_def stmt_query_def)

lemma exists_where_keeps [preserve_intros]: "stmt_keeps I (exists_where T P)"
  unfolding exists_where_def by (rule stmt_keeps_query)

section \<open>Authorization requests\<close>

text \<open>\<open>oidc.AuthRequest\<close>: the fields that the storage reads.\<close>

record auth_request =
  ar_client :: string
  ar_redirect :: string
  ar_response_type :: string
  ar_response_mode :: string
  ar_scopes :: "string list"
  ar_state :: string
  ar_nonce :: string
  ar_challenge :: string
  ar_challenge_method :: string
  ar_request_param :: string

definition validate_authorization_request :: "auth_request option \<Rightarrow> err option" where
  "validate_authorization_request request =
     (case request of
        None \<Rightarrow> Some (oidc_error ''invalid_request'')
      | Some r \<Rightarrow>
          if ar_response_type r \<noteq> ''code'' then Some (oidc_error ''invalid_request'')
          else if ar_response_mode r \<noteq> [] \<and> ar_response_mode r \<noteq> ''query''
          then Some (oidc_error ''invalid_request'')
          else if ar_state r = [] \<or> ar_nonce r = [] then Some (oidc_error ''invalid_request'')
          else if ar_challenge r = [] \<or> ar_challenge_method r \<noteq> ''S256''
          then Some (oidc_error ''invalid_request'')
          else if ar_request_param r \<noteq> [] then Some (oidc_error ''request_not_supported'')
          else if ''openid'' \<notin> set (ar_scopes r) then Some (oidc_error ''invalid_scope'')
          else if list_ex (\<lambda>s. s \<notin> set supported_scopes) (ar_scopes r)
          then Some (oidc_error ''invalid_scope'')
          else None)"

text \<open>\<open>authorizationRequest\<close> and what the engine reads of it.\<close>

record authorization_request =
  az_entity :: auth_request_row
  az_code_id :: string

definition az_done :: "authorization_request \<Rightarrow> bool" where
  "az_done request \<longleftrightarrow>
     oq_done (az_entity request) \<and> oq_subject (az_entity request) \<noteq> None
     \<and> oq_auth_time (az_entity request) \<noteq> None"

definition az_amr :: "authorization_request \<Rightarrow> string list" where
  "az_amr request = (if \<not> az_done request then [] else [password_amr])"

definition az_auth_time :: "authorization_request \<Rightarrow> time" where
  "az_auth_time request = (case oq_auth_time (az_entity request) of None \<Rightarrow> 0 | Some t \<Rightarrow> t)"

definition az_subject :: "authorization_request \<Rightarrow> string" where
  "az_subject request = (case oq_subject (az_entity request) of None \<Rightarrow> [] | Some s \<Rightarrow> s)"

definition az_nonce :: "authorization_request \<Rightarrow> string" where
  "az_nonce request = (case oq_nonce (az_entity request) of None \<Rightarrow> [] | Some n \<Rightarrow> n)"

definition az_state :: "authorization_request \<Rightarrow> string" where
  "az_state request = (case oq_state (az_entity request) of None \<Rightarrow> [] | Some s \<Rightarrow> s)"

definition az_code_challenge :: "authorization_request \<Rightarrow> (string \<times> string) option" where
  "az_code_challenge request =
     (if oq_pkce (az_entity request) = [] then None
      else Some (oq_pkce (az_entity request), oq_pkce_method (az_entity request)))"

definition az_audience :: "authorization_request \<Rightarrow> string list" where
  "az_audience request = [oq_client (az_entity request)]"

definition new_id :: "'e env_scheme \<Rightarrow> ('z world_scheme, string) prog" where
  "new_id E w =
     (case uuid_v7 E (tick w) of
        Inl e \<Rightarrow> (Inl (wrap ''generate UUIDv7'' e), w\<lparr>tick := Suc (tick w)\<rparr>)
      | Inr i \<Rightarrow> (Inr i, w\<lparr>tick := Suc (tick w)\<rparr>))"

definition new_request_row :: "string \<Rightarrow> auth_request \<Rightarrow> time \<Rightarrow> time \<Rightarrow> auth_request_row" where
  "new_request_row i r expires d =
     \<lparr>oq_id = i, oq_client = ar_client r, oq_redirect = ar_redirect r,
      oq_response_type = ar_response_type r, oq_response_mode = ar_response_mode r,
      oq_scopes = ar_scopes r,
      oq_state = (if ar_state r \<noteq> [] then Some (ar_state r) else None),
      oq_nonce = (if ar_nonce r \<noteq> [] then Some (ar_nonce r) else None),
      oq_pkce = ar_challenge r, oq_pkce_method = ar_challenge_method r,
      oq_subject = None, oq_login = None, oq_auth_time = None, oq_done = False,
      oq_expires = expires, oq_create = d, oq_update = d\<rparr>"

definition create_auth_request ::
    "db dbenv \<Rightarrow> auth_request option \<Rightarrow> ((db, 'z) db_world_scheme, authorization_request) prog" where
  "create_auth_request E request =
     fails_with (validate_authorization_request request)
       (pass (new_id E) (\<lambda>i.
        seq (now E) (\<lambda>t.
        pass (or_wrapped ''create OIDC authorization request''
                (db_exec E (create requests_t auth_request_valid auth_request_clash
                   (new_request_row i (the request) (t + authorization_request_ttl))))) (\<lambda>entity.
        ret \<lparr>az_entity = entity, az_code_id = []\<rparr>))))"

definition auth_request_by_id ::
    "db dbenv \<Rightarrow> string \<Rightarrow> ((db, 'z) db_world_scheme, authorization_request) prog" where
  "auth_request_by_id E requestID =
     seq (now E) (\<lambda>t.
     pass (or_not_found ''OIDC authorization request not found'' ''query OIDC authorization request''
             (db_exec E (only requests_t (\<lambda>r. oq_id r = requestID \<and> oq_expires r > t)))) (\<lambda>entity.
     ret \<lparr>az_entity = entity, az_code_id = []\<rparr>))"

definition complete_auth_request ::
    "db dbenv \<Rightarrow> string \<Rightarrow> string \<Rightarrow> string \<Rightarrow> time \<Rightarrow> ((db, 'z) db_world_scheme, unit) prog" where
  "complete_auth_request E requestID userID iamSessionID authTime =
     seq (now E) (\<lambda>t.
     pass (or_wrapped ''complete OIDC authorization request''
             (db_exec E (update_where requests_t
                (\<lambda>r. oq_id r = requestID \<and> \<not> oq_done r \<and> oq_expires r > t)
                (\<lambda>d r. r\<lparr>oq_subject := Some userID, oq_login := Some iamSessionID,
                         oq_auth_time := Some authTime, oq_done := True, oq_update := d\<rparr>)))) (\<lambda>updated.
     if updated \<noteq> 1
     then throw (storage_not_found (errorf ''OIDC authorization request is missing, expired, or already completed''))
     else ret ()))"

definition auth_request_by_code ::
    "db dbenv \<Rightarrow> iam_lib \<Rightarrow> string \<Rightarrow> ((db, 'z) db_world_scheme, authorization_request) prog" where
  "auth_request_by_code E L code =
     seq (now E) (\<lambda>t.
     pass (or_not_found ''OAuth authorization code not found'' ''query OAuth authorization code''
             (db_exec E (only codes_t (\<lambda>c. co_hash c = hash_opaque_secret L code \<and> co_consumed c = None
                                         \<and> co_expires c > t)))) (\<lambda>codeEntity.
     pass (or_not_found ''OIDC authorization request for code not found''
                        ''query OIDC authorization request for code''
             (db_exec E (only requests_t (\<lambda>r. oq_id r = co_request codeEntity)))) (\<lambda>requestEntity.
     if \<not> oq_done requestEntity \<or> oq_subject requestEntity = None \<or> oq_auth_time requestEntity = None
     then throw (storage_not_found (errorf ''OIDC authorization request is incomplete''))
     else ret \<lparr>az_entity = requestEntity, az_code_id = co_id codeEntity\<rparr>)))"

definition new_code_row :: "string \<Rightarrow> string \<Rightarrow> auth_request_row \<Rightarrow> time \<Rightarrow> time \<Rightarrow> code_row" where
  "new_code_row i codeHash request expires d =
     \<lparr>co_id = i, co_hash = codeHash, co_request = oq_id request, co_session = None,
      co_client = oq_client request, co_subject = the (oq_subject request),
      co_redirect = oq_redirect request, co_scopes = oq_scopes request, co_pkce = oq_pkce request,
      co_pkce_method = oq_pkce_method request, co_expires = expires, co_consumed = None, co_create = d\<rparr>"

text \<open>A done request without a subject would be a nil dereference: the run fails.\<close>

definition save_auth_code ::
    "db dbenv \<Rightarrow> iam_lib \<Rightarrow> string \<Rightarrow> string \<Rightarrow> ((db, 'z) db_world_scheme, unit) prog" where
  "save_auth_code E L requestID code =
     seq (now E) (\<lambda>t.
     pass (or_not_found ''completed OIDC authorization request not found''
                        ''query completed OIDC authorization request''
             (db_exec E (only requests_t (\<lambda>r. oq_id r = requestID \<and> oq_done r \<and> oq_expires r > t))))
       (\<lambda>request.
     pass (new_id E) (\<lambda>i.
     if oq_subject request = None then throw (errorf ''panic: nil pointer dereference'')
     else
       seq (now E) (\<lambda>t2.
       pass (or_wrapped ''save OAuth authorization code''
               (db_exec E (create codes_t code_valid code_clash
                  (new_code_row i (hash_opaque_secret L code) request (t2 + authorization_code_ttl))))) (\<lambda>_.
       ret ())))))"

definition delete_auth_request :: "db dbenv \<Rightarrow> string \<Rightarrow> ((db, 'z) db_world_scheme, unit) prog" where
  "delete_auth_request E requestID =
     pass (or_wrapped ''delete OIDC authorization request''
             (db_exec E (delete_where requests_t (\<lambda>r. oq_id r = requestID)))) (\<lambda>_. ret ())"

section \<open>Token requests\<close>

record refresh_token_request =
  rr_token_id :: string
  rr_session_id :: string
  rr_client :: string
  rr_subject :: string
  rr_scopes :: "string list"
  rr_auth_time :: time
  rr_amr :: "string list"

definition set_current_scopes :: "string list \<Rightarrow> refresh_token_request \<Rightarrow> refresh_token_request" where
  "set_current_scopes scopes request = request\<lparr>rr_scopes := scopes\<rparr>"

text \<open>\<open>op.TokenRequest\<close>; the engine has other kinds, which the storage refuses.\<close>

datatype token_request =
    AuthorizationRequest authorization_request
  | RefreshTokenRequest refresh_token_request
  | OtherTokenRequest

record token_grant =
  tg_code_id :: string
  tg_refresh_token_id :: string
  tg_session_id :: string
  tg_user :: string
  tg_client :: string
  tg_login :: "string option"
  tg_scopes :: "string list"
  tg_auth_time :: time
  tg_amr :: "string list"

definition token_grant_from_request :: "token_request \<Rightarrow> err + token_grant" where
  "token_grant_from_request request =
     (case request of
        AuthorizationRequest typed \<Rightarrow>
          if az_code_id typed = [] \<or> \<not> az_done typed \<or> oq_login (az_entity typed) = None
          then Inl (errorf ''authorization request is not ready for token issuance'')
          else Inr \<lparr>tg_code_id = az_code_id typed, tg_refresh_token_id = [], tg_session_id = [],
                     tg_user = az_subject typed, tg_client = oq_client (az_entity typed),
                     tg_login = oq_login (az_entity typed), tg_scopes = oq_scopes (az_entity typed),
                     tg_auth_time = az_auth_time typed, tg_amr = az_amr typed\<rparr>
      | RefreshTokenRequest typed \<Rightarrow>
          Inr \<lparr>tg_code_id = [], tg_refresh_token_id = rr_token_id typed,
                tg_session_id = rr_session_id typed, tg_user = rr_subject typed,
                tg_client = rr_client typed, tg_login = None, tg_scopes = rr_scopes typed,
                tg_auth_time = rr_auth_time typed, tg_amr = rr_amr typed\<rparr>
      | OtherTokenRequest \<Rightarrow> Inl (errorf ''unsupported token request type''))"

definition consume_authorization_code ::
    "db dbenv \<Rightarrow> string \<Rightarrow> string \<Rightarrow> time \<Rightarrow> ((db, 'z) db_world_scheme, unit) prog" where
  "consume_authorization_code E codeID tokenSessionID t =
     pass (or_wrapped ''consume OAuth authorization code''
             (tx_exec E (update_where codes_t
                (\<lambda>c. co_id c = codeID \<and> co_consumed c = None \<and> co_expires c > t)
                (\<lambda>_ c. c\<lparr>co_session := Some tokenSessionID, co_consumed := Some t\<rparr>)))) (\<lambda>consumed.
     if consumed \<noteq> 1 then throw (storage_not_found (errorf ''OAuth authorization code is inactive''))
     else ret ())"

definition ensure_active_user :: "db dbenv \<Rightarrow> string \<Rightarrow> ((db, 'z) db_world_scheme, unit) prog" where
  "ensure_active_user E userID =
     pass (or_wrapped ''check token subject''
             (tx_exec E (exists_where users_t (\<lambda>u. us_id u = userID \<and> us_status u = user_status_active))))
       (\<lambda>exists.
     if \<not> exists then throw (Sentinel (Oidc ErrTokenSubjectInactive)) else ret ())"

definition revoke_token_session ::
    "db dbenv \<Rightarrow> string \<Rightarrow> time \<Rightarrow> ((db, 'z) db_world_scheme, unit) prog" where
  "revoke_token_session E sessionID t =
     pass (or_wrapped ''revoke OAuth token session''
             (tx_exec E (update_where tsessions_t (\<lambda>s. ts_id s = sessionID \<and> ts_revoked s = None)
                (\<lambda>d s. s\<lparr>ts_revoked := Some t, ts_update := d\<rparr>)))) (\<lambda>_.
     pass (or_wrapped ''revoke OAuth access tokens''
             (tx_exec E (update_where access_t (\<lambda>a. at_session a = sessionID \<and> at_revoked a = None)
                (\<lambda>_ a. a\<lparr>at_revoked := Some t\<rparr>)))) (\<lambda>_.
     pass (or_wrapped ''revoke OAuth refresh tokens''
             (tx_exec E (update_where refresh_t (\<lambda>r. rf_session r = sessionID \<and> rf_revoked r = None)
                (\<lambda>_ r. r\<lparr>rf_revoked := Some t\<rparr>)))) (\<lambda>_.
     ret ())))"

text \<open>The session builder leaves the login session empty when the grant has none.\<close>

definition new_tsession_row :: "string \<Rightarrow> string \<Rightarrow> token_grant \<Rightarrow> time \<Rightarrow> tsession_row" where
  "new_tsession_row i familyID grant d =
     \<lparr>ts_id = i, ts_user = tg_user grant, ts_client = tg_client grant,
      ts_login = (case tg_login grant of None \<Rightarrow> [] | Some s \<Rightarrow> s), ts_family = familyID,
      ts_scopes = tg_scopes grant, ts_auth_time = tg_auth_time grant, ts_amr = tg_amr grant,
      ts_revoked = None, ts_create = d, ts_update = d\<rparr>"

definition new_access_row :: "string \<Rightarrow> string \<Rightarrow> token_grant \<Rightarrow> time \<Rightarrow> time \<Rightarrow> access_row" where
  "new_access_row i sessionID grant t expires =
     \<lparr>at_id = i, at_session = sessionID, at_subject = tg_user grant, at_client = tg_client grant,
      at_scopes = tg_scopes grant, at_issued = t, at_expires = expires, at_revoked = None\<rparr>"

definition new_refresh_row ::
    "string \<Rightarrow> string \<Rightarrow> string \<Rightarrow> string \<Rightarrow> string option \<Rightarrow> time \<Rightarrow> time \<Rightarrow> refresh_row" where
  "new_refresh_row i sessionID familyID tokenHash parent t expires =
     \<lparr>rf_id = i, rf_session = sessionID, rf_family = familyID, rf_hash = tokenHash, rf_parent = parent,
      rf_issued = t, rf_expires = expires, rf_consumed = None, rf_revoked = None\<rparr>"

text \<open>The part of a code exchange that opens the token session.\<close>

definition open_token_session ::
    "db dbenv \<Rightarrow> token_grant \<Rightarrow> string \<Rightarrow> string \<Rightarrow> time \<Rightarrow> ((db, 'z) db_world_scheme, unit) prog" where
  "open_token_session E grant tokenSessionID familyID t =
     pass (consume_authorization_code E (tg_code_id grant) tokenSessionID t) (\<lambda>_.
     pass (ensure_active_user E (tg_user grant)) (\<lambda>_.
     pass (or_wrapped ''create OAuth token session''
             (tx_exec E (create tsessions_t tsession_valid tsession_clash
                (new_tsession_row tokenSessionID familyID grant)))) (\<lambda>_. ret ())))"

definition issue_access_token ::
    "db dbenv \<Rightarrow> string \<Rightarrow> string \<Rightarrow> token_grant \<Rightarrow> time \<Rightarrow> time \<Rightarrow> ((db, 'z) db_world_scheme, unit) prog" where
  "issue_access_token E accessTokenID tokenSessionID grant t expires =
     pass (or_wrapped ''create OAuth access token''
             (tx_exec E (create access_t access_valid access_clash
                (\<lambda>_. new_access_row accessTokenID tokenSessionID grant t expires)))) (\<lambda>_. ret ())"

definition create_access_token ::
    "db dbenv \<Rightarrow> token_request \<Rightarrow> ((db, 'z) db_world_scheme, string \<times> time) prog" where
  "create_access_token E request =
     pass (result (token_grant_from_request request)) (\<lambda>grant.
     pass (new_id E) (\<lambda>accessTokenID.
     pass (new_id E) (\<lambda>tokenSessionID.
     pass (new_id E) (\<lambda>familyID.
     seq (now E) (\<lambda>t.
     let expires = t + access_token_ttl in
     check (oidc_tx E
              (pass (open_token_session E grant tokenSessionID familyID t) (\<lambda>_.
               issue_access_token E accessTokenID tokenSessionID grant t expires)))
       (\<lambda>e. throw (token_grant_error e)) (\<lambda>_.
     ret (accessTokenID, expires)))))))"

text \<open>
  The transaction of \<open>CreateAccessAndRefreshTokens\<close> gives the session, the family and the parent of the
  new refresh token, or nothing when it found a replay, which it answers by revoking the session.
\<close>

definition rotate_refresh_token ::
    "db dbenv \<Rightarrow> token_grant \<Rightarrow> time
     \<Rightarrow> ((db, 'z) db_world_scheme, (string \<times> string \<times> string option) option) prog" where
  "rotate_refresh_token E grant t =
     (let tokenSessionID = tg_session_id grant in
      pass (or_wrapped ''query OAuth refresh token''
              (tx_exec E (only refresh_t (\<lambda>r. rf_id r = tg_refresh_token_id grant)))) (\<lambda>current.
      if rf_consumed current \<noteq> None
      then pass (revoke_token_session E tokenSessionID t) (\<lambda>_. ret None)
      else if rf_revoked current \<noteq> None \<or> \<not> rf_expires current > t
      then throw (storage_not_found (errorf ''refresh token is inactive''))
      else
        pass (or_wrapped ''query OAuth token session''
                (tx_exec E (only tsessions_t (\<lambda>s. ts_id s = tokenSessionID)))) (\<lambda>session.
        if ts_revoked session \<noteq> None
        then throw (storage_not_found (errorf ''OAuth token session is revoked''))
        else
          pass (ensure_active_user E (tg_user grant)) (\<lambda>_.
          pass (or_wrapped ''validate OAuth token session''
                  (tx_exec E (update_where tsessions_t (\<lambda>s. ts_id s = tokenSessionID \<and> ts_revoked s = None)
                     (\<lambda>_ s. s\<lparr>ts_scopes := tg_scopes grant, ts_update := t\<rparr>)))) (\<lambda>activeSessions.
          if activeSessions \<noteq> 1
          then throw (storage_not_found (errorf ''OAuth token session is revoked''))
          else
            pass (or_wrapped ''consume OAuth refresh token''
                    (tx_exec E (update_where refresh_t
                       (\<lambda>r. rf_id r = rf_id current \<and> rf_consumed r = None \<and> rf_revoked r = None
                            \<and> rf_expires r > t)
                       (\<lambda>_ r. r\<lparr>rf_consumed := Some t\<rparr>)))) (\<lambda>consumed.
            if consumed \<noteq> 1
            then pass (revoke_token_session E tokenSessionID t) (\<lambda>_. ret None)
            else ret (Some (tokenSessionID, ts_family session, Some (rf_id current)))))))))"

definition start_refresh_family ::
    "db dbenv \<Rightarrow> token_grant \<Rightarrow> time
     \<Rightarrow> ((db, 'z) db_world_scheme, (string \<times> string \<times> string option) option) prog" where
  "start_refresh_family E grant t =
     pass (new_id E) (\<lambda>tokenSessionID.
     pass (new_id E) (\<lambda>refreshFamilyID.
     pass (open_token_session E grant tokenSessionID refreshFamilyID t) (\<lambda>_.
     ret (Some (tokenSessionID, refreshFamilyID, None)))))"

definition issue_token_pair ::
    "db dbenv \<Rightarrow> iam_lib \<Rightarrow> token_grant \<Rightarrow> string \<Rightarrow> string \<Rightarrow> string \<Rightarrow> time
     \<Rightarrow> ((db, 'z) db_world_scheme, bool) prog" where
  "issue_token_pair E L grant accessTokenID refreshTokenID refreshToken t =
     pass (if tg_session_id grant = [] then start_refresh_family E grant t
           else rotate_refresh_token E grant t) (\<lambda>family.
     case family of
       None \<Rightarrow> ret True
     | Some (tokenSessionID, refreshFamilyID, parent) \<Rightarrow>
         pass (issue_access_token E accessTokenID tokenSessionID grant t (t + access_token_ttl)) (\<lambda>_.
         pass (or_wrapped ''create OAuth refresh token''
                 (tx_exec E (create refresh_t refresh_valid refresh_clash
                    (\<lambda>_. new_refresh_row refreshTokenID tokenSessionID refreshFamilyID
                            (hash_opaque_secret L refreshToken) parent t (t + refresh_token_ttl))))) (\<lambda>_.
         ret False)))"

definition create_access_and_refresh_tokens ::
    "db dbenv \<Rightarrow> iam_lib \<Rightarrow> token_request
     \<Rightarrow> ((db, 'z) db_world_scheme, string \<times> string \<times> time) prog" where
  "create_access_and_refresh_tokens E L request =
     pass (result (token_grant_from_request request)) (\<lambda>grant.
     pass (new_id E) (\<lambda>accessTokenID.
     pass (new_id E) (\<lambda>refreshTokenID.
     pass (new_opaque_secret E L) (\<lambda>(refreshToken, _).
     seq (now E) (\<lambda>t.
     check (oidc_tx E (issue_token_pair E L grant accessTokenID refreshTokenID refreshToken t))
       (\<lambda>e. throw (token_grant_error e)) (\<lambda>replayDetected.
     if replayDetected then throw (oidc_error ''invalid_grant'')
     else ret (accessTokenID, refreshToken, t + access_token_ttl)))))))"

section \<open>Refresh tokens, termination, revocation\<close>

definition token_request_tx ::
    "db dbenv \<Rightarrow> iam_lib \<Rightarrow> string \<Rightarrow> time
     \<Rightarrow> ((db, 'z) db_world_scheme, refresh_token_request option) prog" where
  "token_request_tx E L refreshToken t =
     pass (or_not_found ''OAuth refresh token not found'' ''query OAuth refresh token''
             (tx_exec E (only refresh_t (\<lambda>r. rf_hash r = hash_opaque_secret L refreshToken)))) (\<lambda>token.
     pass (or_wrapped ''query OAuth token session''
             (tx_exec E (only tsessions_t (\<lambda>s. ts_id s = rf_session token)))) (\<lambda>session.
     if rf_consumed token \<noteq> None
     then pass (revoke_token_session E (ts_id session) t) (\<lambda>_. ret None)
     else if rf_revoked token \<noteq> None \<or> \<not> rf_expires token > t \<or> ts_revoked session \<noteq> None
     then throw (storage_not_found (errorf ''OAuth refresh token is inactive''))
     else
       check (ensure_active_user E (ts_user session)) (\<lambda>e. throw (storage_not_found e)) (\<lambda>_.
       ret (Some \<lparr>rr_token_id = rf_id token, rr_session_id = ts_id session, rr_client = ts_client session,
              rr_subject = ts_user session, rr_scopes = ts_scopes session,
              rr_auth_time = ts_auth_time session, rr_amr = ts_amr session\<rparr>))))"

definition token_request_by_refresh_token ::
    "db dbenv \<Rightarrow> iam_lib \<Rightarrow> string \<Rightarrow> ((db, 'z) db_world_scheme, refresh_token_request) prog" where
  "token_request_by_refresh_token E L refreshToken =
     seq (now E) (\<lambda>t.
     pass (oidc_tx E (token_request_tx E L refreshToken t)) (\<lambda>request.
     case request of
       None \<Rightarrow> throw (storage_not_found (errorf ''OAuth refresh token replay detected''))
     | Some r \<Rightarrow> ret r))"

fun revoke_token_sessions ::
    "db dbenv \<Rightarrow> string list \<Rightarrow> time \<Rightarrow> ((db, 'z) db_world_scheme, unit) prog" where
  "revoke_token_sessions E [] t = ret ()"
| "revoke_token_sessions E (sessionID # rest) t =
     pass (revoke_token_session E sessionID t) (\<lambda>_. revoke_token_sessions E rest t)"

definition terminate_session_tx ::
    "db dbenv \<Rightarrow> string \<Rightarrow> string \<Rightarrow> time \<Rightarrow> ((db, 'z) db_world_scheme, unit) prog" where
  "terminate_session_tx E userID clientID t =
     pass (or_wrapped ''query OAuth token sessions for termination''
             (tx_exec E (all_where tsessions_t (\<lambda>s. ts_user s = userID \<and> ts_client s = clientID
                                                    \<and> ts_revoked s = None)))) (\<lambda>sessions.
     revoke_token_sessions E (map ts_id sessions) t)"

definition terminate_session ::
    "db dbenv \<Rightarrow> string \<Rightarrow> string \<Rightarrow> ((db, 'z) db_world_scheme, unit) prog" where
  "terminate_session E userID clientID =
     seq (now E) (\<lambda>t. oidc_tx E (terminate_session_tx E userID clientID t))"

definition token_session_id_by_token ::
    "db dbenv \<Rightarrow> string \<Rightarrow> string \<Rightarrow> string \<Rightarrow> ((db, 'z) db_world_scheme, string) prog" where
  "token_session_id_by_token E tokenID userID clientID =
     check (tx_exec E (only access_t (\<lambda>a. at_id a = tokenID \<and> at_subject a = userID \<and> at_client a = clientID)))
       (\<lambda>e.
        if \<not> is_not_found e then throw (wrap ''query OAuth access token for revocation'' e)
        else
          check (tx_exec E (only refresh_t (\<lambda>r. rf_id r = tokenID)))
            (\<lambda>e. if is_not_found e then throw (Sentinel (Oidc ErrTokenNotFound))
                 else throw (wrap ''query OAuth refresh token for revocation'' e))
            (\<lambda>refresh.
          check (tx_exec E (only tsessions_t (\<lambda>s. ts_id s = rf_session refresh)))
            (\<lambda>_. throw (Sentinel (Oidc ErrTokenNotFound)))
            (\<lambda>session.
          if ts_user session \<noteq> userID \<or> ts_client session \<noteq> clientID
          then throw (Sentinel (Oidc ErrTokenNotFound)) else ret (ts_id session))))
       (\<lambda>access. ret (at_session access))"

definition revoke_token_tx ::
    "db dbenv \<Rightarrow> string \<Rightarrow> string \<Rightarrow> string \<Rightarrow> time \<Rightarrow> ((db, 'z) db_world_scheme, unit) prog" where
  "revoke_token_tx E tokenID userID clientID t =
     check (token_session_id_by_token E tokenID userID clientID)
       (\<lambda>e. if errors_is e (Oidc ErrTokenNotFound) then ret () else throw e)
       (\<lambda>sessionID. revoke_token_session E sessionID t)"

definition revoke_token ::
    "db dbenv \<Rightarrow> string \<Rightarrow> string \<Rightarrow> string \<Rightarrow> ((db, 'z) db_world_scheme, unit) prog" where
  "revoke_token E tokenID userID clientID =
     seq (now E) (\<lambda>t.
     check (oidc_tx E (revoke_token_tx E tokenID userID clientID t))
       (\<lambda>e. throw (with_parent ''server_error'' e)) ret)"

definition get_refresh_token_info ::
    "db dbenv \<Rightarrow> iam_lib \<Rightarrow> string \<Rightarrow> string \<Rightarrow> ((db, 'z) db_world_scheme, string \<times> string) prog" where
  "get_refresh_token_info E L clientID refreshToken =
     check (db_exec E (only refresh_t (\<lambda>r. rf_hash r = hash_opaque_secret L refreshToken)))
       (\<lambda>e. if is_not_found e then throw (Sentinel OpInvalidRefreshToken)
            else throw (wrap ''query OAuth refresh token info'' e))
       (\<lambda>token.
     check (db_exec E (only tsessions_t (\<lambda>s. ts_id s = rf_session token)))
       (\<lambda>_. throw (Sentinel OpInvalidRefreshToken))
       (\<lambda>session.
     if ts_client session \<noteq> clientID then throw (Sentinel OpInvalidRefreshToken)
     else ret (ts_user session, rf_id token)))"

section \<open>User info and introspection\<close>

text \<open>\<open>oidc.UserInfo\<close>; the locale is parsed by \<open>golang.org/x/text/language\<close>, a parameter.\<close>

record userinfo =
  ui_subject :: string
  ui_name :: string
  ui_given_name :: string
  ui_family_name :: string
  ui_nickname :: string
  ui_preferred_username :: string
  ui_picture :: string
  ui_locale :: "string option"
  ui_updated_at :: "time option"
  ui_email :: string
  ui_email_verified :: bool

definition empty_userinfo :: userinfo where
  "empty_userinfo = \<lparr>ui_subject = [], ui_name = [], ui_given_name = [], ui_family_name = [],
     ui_nickname = [], ui_preferred_username = [], ui_picture = [], ui_locale = None,
     ui_updated_at = None, ui_email = [], ui_email_verified = False\<rparr>"

definition override :: "'a option \<Rightarrow> 'a \<Rightarrow> 'a" where
  "override new old = (case new of None \<Rightarrow> old | Some x \<Rightarrow> x)"

definition fill_profile :: "(string \<Rightarrow> string option) \<Rightarrow> user_row \<Rightarrow> userinfo \<Rightarrow> userinfo" where
  "fill_profile parse_language entity info =
     info\<lparr>ui_name := override (pf_name (us_profile entity)) (ui_name info),
          ui_given_name := override (pf_given_name (us_profile entity)) (ui_given_name info),
          ui_family_name := override (pf_family_name (us_profile entity)) (ui_family_name info),
          ui_nickname := override (pf_nickname (us_profile entity)) (ui_nickname info),
          ui_preferred_username := override (pf_preferred_username (us_profile entity)) (ui_preferred_username info),
          ui_picture := override (pf_picture (us_profile entity)) (ui_picture info),
          ui_locale :=
            (case pf_locale (us_profile entity) of
               None \<Rightarrow> ui_locale info
             | Some l \<Rightarrow> (case parse_language l of None \<Rightarrow> ui_locale info | Some tag \<Rightarrow> Some tag)),
          ui_updated_at := Some (us_update entity)\<rparr>"

definition populate_userinfo ::
    "db dbenv \<Rightarrow> (string \<Rightarrow> string option) \<Rightarrow> userinfo \<Rightarrow> string \<Rightarrow> string list
     \<Rightarrow> ((db, 'z) db_world_scheme, userinfo) prog" where
  "populate_userinfo E parse_language info userID scopes =
     pass (or_not_found ''OIDC subject is not active'' ''query OIDC subject''
             (db_exec E (only users_t (\<lambda>u. us_id u = userID \<and> us_status u = user_status_active)))) (\<lambda>entity.
     let info1 = info\<lparr>ui_subject := us_id entity\<rparr>;
         info2 = (if ''profile'' \<in> set scopes then fill_profile parse_language entity info1 else info1) in
     if ''email'' \<in> set scopes
     then
       pass (or_wrapped ''query OIDC subject email''
               (db_exec E (only identifiers_t
                  (\<lambda>i. li_user i = us_id entity \<and> li_type i = login_identifier_email)))) (\<lambda>email.
       ret (info2\<lparr>ui_email := li_display email, ui_email_verified := (li_verified email \<noteq> None)\<rparr>))
     else ret info2)"

definition active_access_token ::
    "db dbenv \<Rightarrow> string \<Rightarrow> string \<Rightarrow> ((db, 'z) db_world_scheme, access_row) prog" where
  "active_access_token E tokenID subject =
     seq (now E) (\<lambda>t.
     pass (or_not_found ''OAuth access token is inactive'' ''query OAuth access token''
             (db_exec E (only access_t (\<lambda>a. at_id a = tokenID \<and> at_subject a = subject \<and> at_expires a > t
                                          \<and> at_revoked a = None)))) (\<lambda>token.
     pass (or_wrapped ''check OAuth token session''
             (db_exec E (exists_where tsessions_t (\<lambda>s. ts_id s = at_session token \<and> ts_revoked s = None))))
       (\<lambda>sessionActive.
     if \<not> sessionActive then throw (storage_not_found (errorf ''OAuth token session is inactive''))
     else ret token)))"

definition set_userinfo_from_token ::
    "db dbenv \<Rightarrow> (string \<Rightarrow> string option) \<Rightarrow> userinfo \<Rightarrow> string \<Rightarrow> string
     \<Rightarrow> ((db, 'z) db_world_scheme, userinfo) prog" where
  "set_userinfo_from_token E parse_language info tokenID subject =
     pass (active_access_token E tokenID subject) (\<lambda>token.
     populate_userinfo E parse_language info (at_subject token) (at_scopes token))"

definition set_userinfo_from_request ::
    "db dbenv \<Rightarrow> (string \<Rightarrow> string option) \<Rightarrow> userinfo \<Rightarrow> string \<Rightarrow> string list
     \<Rightarrow> ((db, 'z) db_world_scheme, userinfo) prog" where
  "set_userinfo_from_request E parse_language info subject scopes =
     populate_userinfo E parse_language info subject scopes"

record introspection =
  ix_active :: bool
  ix_scope :: "string list"
  ix_client :: string
  ix_token_type :: string
  ix_expiration :: time
  ix_issued_at :: time
  ix_auth_time :: time
  ix_subject :: string
  ix_audience :: "string list"
  ix_amr :: "string list"
  ix_jwt_id :: string
  ix_userinfo :: userinfo

definition set_introspection_from_token ::
    "db dbenv \<Rightarrow> (string \<Rightarrow> string option) \<Rightarrow> string \<Rightarrow> string \<Rightarrow> string
     \<Rightarrow> ((db, 'z) db_world_scheme, introspection) prog" where
  "set_introspection_from_token E parse_language tokenID subject clientID =
     pass (active_access_token E tokenID subject) (\<lambda>token.
     if clientID = [] \<or> at_client token \<noteq> clientID
     then throw (storage_not_found (errorf ''OAuth access token does not belong to introspecting client''))
     else
       pass (or_wrapped ''query OAuth token session for introspection''
               (db_exec E (only tsessions_t (\<lambda>s. ts_id s = at_session token)))) (\<lambda>session.
       pass (populate_userinfo E parse_language empty_userinfo (at_subject token) (at_scopes token))
         (\<lambda>info.
       ret \<lparr>ix_active = True, ix_scope = at_scopes token, ix_client = at_client token,
            ix_token_type = ''Bearer'', ix_expiration = at_expires token, ix_issued_at = at_issued token,
            ix_auth_time = ts_auth_time session, ix_subject = at_subject token,
            ix_audience = [at_client token], ix_amr = ts_amr session, ix_jwt_id = at_id token,
            ix_userinfo = info\<rparr>)))"

section \<open>Clients and keys\<close>

definition get_client_by_client_id ::
    "db dbenv \<Rightarrow> string \<Rightarrow> ((db, 'z) db_world_scheme, client_row) prog" where
  "get_client_by_client_id E clientID =
     or_not_found ''OAuth client not found'' ''query OAuth client''
       (db_exec E (only clients_t (\<lambda>c. cl_id c = clientID)))"

definition is_scope_allowed :: "client_row \<Rightarrow> string \<Rightarrow> bool" where
  "is_scope_allowed client scope \<longleftrightarrow> scope \<in> set (cl_scopes client)"

definition authorize_client_id_secret ::
    "db dbenv \<Rightarrow> iam_lib \<Rightarrow> string \<Rightarrow> string \<Rightarrow> ((db, 'z) db_world_scheme, unit) prog" where
  "authorize_client_id_secret E L clientID clientSecret =
     pass (or_not_found ''OAuth client not found'' ''query OAuth client secret''
             (db_exec E (only clients_t (\<lambda>c. cl_id c = clientID)))) (\<lambda>entity.
     let expectedHash = hash_opaque_secret L clientSecret in
     if cl_secret entity = [] \<or> expectedHash \<noteq> cl_secret entity
     then throw (errorf ''OAuth client credentials rejected'') else ret ())"

text \<open>\<open>OIDCStorage\<close>: the key that it signs with, and its public half.\<close>

record signing_key =
  sg_id :: string
  sg_public_jwk :: string

definition oidc_health :: "db dbenv \<Rightarrow> signing_key \<Rightarrow> ((db, 'z) db_world_scheme, unit) prog" where
  "oidc_health E key =
     seq (now E) (\<lambda>t.
     pass (or_wrapped ''check OIDC signing key metadata''
             (db_exec E (exists_where keys_t (\<lambda>k. sk_id k = sg_id key \<and> sk_not_before k \<le> t \<and> sk_expires k > t
                                                \<and> sk_revoked k = None)))) (\<lambda>exists.
     if \<not> exists then throw (errorf ''active OIDC signing key metadata not found'') else ret ()))"

fun decode_keys :: "(string \<Rightarrow> err + string) \<Rightarrow> signing_key_row list \<Rightarrow> err + (string \<times> string) list" where
  "decode_keys decode_jwk [] = Inr []"
| "decode_keys decode_jwk (k # ks) =
     (case decode_jwk (sk_jwk k) of
        Inl e \<Rightarrow> Inl (wrap ''decode OIDC public JWK'' e)
      | Inr key \<Rightarrow>
          (case decode_keys decode_jwk ks of Inl e \<Rightarrow> Inl e | Inr rest \<Rightarrow> Inr ((sk_id k, key) # rest)))"

definition key_set ::
    "db dbenv \<Rightarrow> (string \<Rightarrow> err + string) \<Rightarrow> ((db, 'z) db_world_scheme, (string \<times> string) list) prog" where
  "key_set E decode_jwk =
     seq (now E) (\<lambda>t1. seq (now E) (\<lambda>t2.
     pass (or_wrapped ''query OIDC signing key metadata''
             (db_exec E (all_where keys_t (\<lambda>k. sk_not_before k \<le> t1 \<and> sk_expires k > t2 \<and> sk_revoked k = None))))
       (\<lambda>metadata.
     if metadata = [] then throw (storage_not_found (errorf ''active OIDC signing key metadata not found''))
     else result (decode_keys decode_jwk metadata))))"

end
