(* ===== verification/OidcKeeps.thy ===== *)
theory OidcKeeps
  imports OidcStorage
begin

text \<open>
  Every operation of the OpenID storage keeps the unique indexes and lets the database evolve
  (\<open>DbEvolve\<close>): codes and refresh tokens are consumed once, revoked rows are frozen. With the use cases
  of \<open>IamKeeps\<close>, the requests of the whole service.
\<close>

section \<open>The storage keeps what DbEvolve states\<close>

lemma on_db_new_id [preserve_intros]: "preserves (on_db J) (new_id E)"
  by (simp add: preserves_def new_id_def on_db_def split: sum.split)

lemma create_auth_request_keeps [preserve_intros]:
  "others_ok E \<Longrightarrow> preserves (on_db (db_reach d0)) (create_auth_request E r)"
  unfolding create_auth_request_def by (intro preserve_intros; simp add: row_evolves_defs)

lemma auth_request_by_id_keeps [preserve_intros]:
  "others_ok E \<Longrightarrow> preserves (on_db (db_reach d0)) (auth_request_by_id E i)"
  unfolding auth_request_by_id_def by (intro preserve_intros; simp add: row_evolves_defs)

lemma complete_auth_request_keeps [preserve_intros]:
  "others_ok E \<Longrightarrow> preserves (on_db (db_reach d0)) (complete_auth_request E i u s t)"
  unfolding complete_auth_request_def by (intro preserve_intros; simp add: row_evolves_defs)

lemma auth_request_by_code_keeps [preserve_intros]:
  "others_ok E \<Longrightarrow> preserves (on_db (db_reach d0)) (auth_request_by_code E L c)"
  unfolding auth_request_by_code_def by (intro preserve_intros; simp add: row_evolves_defs)

lemma save_auth_code_keeps [preserve_intros]:
  "others_ok E \<Longrightarrow> preserves (on_db (db_reach d0)) (save_auth_code E L i c)"
  unfolding save_auth_code_def by (intro preserve_intros; simp add: row_evolves_defs)

lemma delete_auth_request_keeps [preserve_intros]:
  "others_ok E \<Longrightarrow> preserves (on_db (db_reach d0)) (delete_auth_request E i)"
  unfolding delete_auth_request_def by (intro preserve_intros; simp add: row_evolves_defs)

lemma consume_authorization_code_keeps [preserve_intros]:
  "preserves (on_db (db_reach d0)) (consume_authorization_code E i s t)"
  unfolding consume_authorization_code_def by (intro preserve_intros; simp add: row_evolves_defs)

lemma ensure_active_user_keeps [preserve_intros]: "preserves (on_db J) (ensure_active_user E u)"
  unfolding ensure_active_user_def by (intro preserve_intros)

lemma revoke_token_session_keeps [preserve_intros]:
  "preserves (on_db (db_reach d0)) (revoke_token_session E s t)"
  unfolding revoke_token_session_def by (intro preserve_intros; simp add: row_evolves_defs)

lemma open_token_session_keeps [preserve_intros]:
  "preserves (on_db (db_reach d0)) (open_token_session E g s f t)"
  unfolding open_token_session_def by (intro preserve_intros; simp add: row_evolves_defs)

lemma issue_access_token_keeps [preserve_intros]:
  "preserves (on_db (db_reach d0)) (issue_access_token E a s g t x)"
  unfolding issue_access_token_def by (intro preserve_intros; simp add: row_evolves_defs)

lemma create_access_token_keeps [preserve_intros]:
  "others_ok E \<Longrightarrow> preserves (on_db (db_reach d0)) (create_access_token E r)"
  unfolding create_access_token_def by (intro preserve_intros; simp add: row_evolves_defs)

lemma rotate_refresh_token_keeps [preserve_intros]:
  "preserves (on_db (db_reach d0)) (rotate_refresh_token E g t)"
  unfolding rotate_refresh_token_def by (intro preserve_intros; simp add: row_evolves_defs)

lemma issue_token_pair_keeps [preserve_intros]:
  "preserves (on_db (db_reach d0)) (issue_token_pair E L g a r k t)"
  unfolding issue_token_pair_def start_refresh_family_def
  by (intro preserve_intros; simp add: row_evolves_defs)

lemma create_access_and_refresh_tokens_keeps [preserve_intros]:
  "others_ok E \<Longrightarrow> preserves (on_db (db_reach d0)) (create_access_and_refresh_tokens E L r)"
  unfolding create_access_and_refresh_tokens_def by (intro preserve_intros; simp add: row_evolves_defs)

lemma token_request_by_refresh_token_keeps [preserve_intros]:
  "others_ok E \<Longrightarrow> preserves (on_db (db_reach d0)) (token_request_by_refresh_token E L k)"
  unfolding token_request_by_refresh_token_def token_request_tx_def
  by (intro preserve_intros; simp add: row_evolves_defs)

lemma revoke_token_sessions_keeps [preserve_intros]:
  "preserves (on_db (db_reach d0)) (revoke_token_sessions E ss t)"
  by (induction ss; subst revoke_token_sessions.simps; intro preserve_intros)

lemma terminate_session_keeps [preserve_intros]:
  "others_ok E \<Longrightarrow> preserves (on_db (db_reach d0)) (terminate_session E u c)"
  unfolding terminate_session_def terminate_session_tx_def
  by (intro preserve_intros; simp add: row_evolves_defs)

lemma revoke_token_keeps [preserve_intros]:
  "others_ok E \<Longrightarrow> preserves (on_db (db_reach d0)) (revoke_token E k u c)"
  unfolding revoke_token_def revoke_token_tx_def token_session_id_by_token_def
  by (intro preserve_intros; simp add: row_evolves_defs)

lemma get_refresh_token_info_keeps [preserve_intros]:
  "others_ok E \<Longrightarrow> preserves (on_db (db_reach d0)) (get_refresh_token_info E L c k)"
  unfolding get_refresh_token_info_def by (intro preserve_intros; simp add: row_evolves_defs)

lemma populate_userinfo_keeps [preserve_intros]:
  "others_ok E \<Longrightarrow> preserves (on_db (db_reach d0)) (populate_userinfo E pl i u ss)"
  unfolding populate_userinfo_def by (intro preserve_intros; simp add: row_evolves_defs)

lemma active_access_token_keeps [preserve_intros]:
  "others_ok E \<Longrightarrow> preserves (on_db (db_reach d0)) (active_access_token E k u)"
  unfolding active_access_token_def by (intro preserve_intros; simp add: row_evolves_defs)

lemma set_userinfo_from_token_keeps [preserve_intros]:
  "others_ok E \<Longrightarrow> preserves (on_db (db_reach d0)) (set_userinfo_from_token E pl i k u)"
  unfolding set_userinfo_from_token_def by (intro preserve_intros; simp add: row_evolves_defs)

lemma set_introspection_from_token_keeps [preserve_intros]:
  "others_ok E \<Longrightarrow> preserves (on_db (db_reach d0)) (set_introspection_from_token E pl k u c)"
  unfolding set_introspection_from_token_def by (intro preserve_intros; simp add: row_evolves_defs)

lemma client_queries_keep [preserve_intros]:
  "others_ok E \<Longrightarrow> preserves (on_db (db_reach d0)) (get_client_by_client_id E c)"
  "others_ok E \<Longrightarrow> preserves (on_db (db_reach d0)) (authorize_client_id_secret E L c s)"
  "others_ok E \<Longrightarrow> preserves (on_db (db_reach d0)) (key_set E dj)"
  "others_ok E \<Longrightarrow> preserves (on_db (db_reach d0)) (oidc_health E key)"
  unfolding get_client_by_client_id_def authorize_client_id_secret_def key_set_def oidc_health_def
  by (intro preserve_intros; simp add: row_evolves_defs)+

section \<open>Requests of the whole service\<close>

text \<open>What the protocol engine may call, and what clients and administrators may ask.\<close>

datatype platform_request =
    PlIam iam_request
  | PlCreateAuthRequest "auth_request option"
  | PlAuthRequestById string
  | PlCompleteAuthRequest string string string time
  | PlAuthRequestByCode string
  | PlSaveAuthCode string string
  | PlDeleteAuthRequest string
  | PlCreateAccessToken token_request
  | PlCreateTokens token_request
  | PlTokenRequestByRefreshToken string
  | PlTerminateSession string string
  | PlRevokeToken string string string
  | PlGetRefreshTokenInfo string string
  | PlUserinfo "string \<Rightarrow> string option" userinfo string string
  | PlIntrospect "string \<Rightarrow> string option" string string string
  | PlGetClient string
  | PlAuthorizeClient string string

fun platform ::
    "db dbenv \<Rightarrow> iam_lib \<Rightarrow> ((db, 'z) db_world_scheme) iam_deps \<Rightarrow> platform_request
     \<Rightarrow> ((db, 'z) db_world_scheme, unit) run" where
  "platform E L D (PlIam r) = serve E L D r"
| "platform E L D (PlCreateAuthRequest r) = and_drop (create_auth_request E r)"
| "platform E L D (PlAuthRequestById i) = and_drop (auth_request_by_id E i)"
| "platform E L D (PlCompleteAuthRequest i u s t) = and_drop (complete_auth_request E i u s t)"
| "platform E L D (PlAuthRequestByCode c) = and_drop (auth_request_by_code E L c)"
| "platform E L D (PlSaveAuthCode i c) = and_drop (save_auth_code E L i c)"
| "platform E L D (PlDeleteAuthRequest i) = and_drop (delete_auth_request E i)"
| "platform E L D (PlCreateAccessToken r) = and_drop (create_access_token E r)"
| "platform E L D (PlCreateTokens r) = and_drop (create_access_and_refresh_tokens E L r)"
| "platform E L D (PlTokenRequestByRefreshToken k) = and_drop (token_request_by_refresh_token E L k)"
| "platform E L D (PlTerminateSession u c) = and_drop (terminate_session E u c)"
| "platform E L D (PlRevokeToken k u c) = and_drop (revoke_token E k u c)"
| "platform E L D (PlGetRefreshTokenInfo c k) = and_drop (get_refresh_token_info E L c k)"
| "platform E L D (PlUserinfo pl i k u) = and_drop (set_userinfo_from_token E pl i k u)"
| "platform E L D (PlIntrospect pl k u c) = and_drop (set_introspection_from_token E pl k u c)"
| "platform E L D (PlGetClient c) = and_drop (get_client_by_client_id E c)"
| "platform E L D (PlAuthorizeClient c s) = and_drop (authorize_client_id_secret E L c s)"

definition platform_all ::
    "db dbenv \<Rightarrow> iam_lib \<Rightarrow> ((db, 'z) db_world_scheme) iam_deps \<Rightarrow> platform_request list
     \<Rightarrow> (db, 'z) db_world_scheme \<Rightarrow> (db, 'z) db_world_scheme" where
  "platform_all E L D rs w = fold (\<lambda>r w. snd (platform E L D r w)) rs w"

lemma and_drop_kept:
  "(others_ok E \<Longrightarrow> preserves (on_db (db_reach d0)) p) \<Longrightarrow> preserves (kept E D d0) (and_drop p)"
  by (intro preserves_and_drop kept_keeps)

lemma platform_kept: "preserves (kept E D d0) (platform E L D r)"
  by (cases r) (simp_all only: platform.simps serve_kept, (rule and_drop_kept, intro preserve_intros, assumption)+)

lemma platform_all_kept: "kept E D d0 w \<Longrightarrow> kept E D d0 (platform_all E L D rs w)"
  unfolding platform_all_def
proof (induction rs arbitrary: w)
  case (Cons r rs)
  have "kept E D d0 (snd (platform E L D r w))"
    using platform_kept Cons.prems unfolding preserves_def by blast
  then show ?case using Cons.IH by simp
qed simp

lemma platform_all_reach:
  assumes "others_ok E" "deps_ok D" "db_wf (dw_db w)"
  shows "db_reach (dw_db w) (dw_db (platform_all E L D rs w))"
  using platform_all_kept [of E D "dw_db w" w L rs] assms
  by (simp add: kept_def on_db_def db_reach_refl)

end
