(* ===== verification/OidcTokens.thy ===== *)
theory OidcTokens
  imports OidcKeeps
begin

text \<open>
  Codes, sessions and refresh tokens: what the storage did when it issued tokens, that a code is
  exchanged once and a refresh token rotated once, and that a replay revokes the whole session.
\<close>

section \<open>What a success of each step says\<close>

lemma new_id_Inr: "new_id E w = (Inr i, w') \<longleftrightarrow> uuid_v7 E (tick w) = Inr i \<and> w' = w\<lparr>tick := Suc (tick w)\<rparr>"
  by (auto simp: new_id_def split: sum.splits)

lemma new_id_db: "new_id E w = (r, w') \<Longrightarrow> dw_db w' = dw_db w"
  by (auto simp: new_id_def split: sum.splits)

lemma filter_one: "length (filter P xs) = Suc 0 \<Longrightarrow> \<exists>x \<in> set xs. P x"
  by (metis filter_False list.size(3) nat.distinct(1))

lemma tx_update_where:
  "tx_exec E (update_where T P f) w = (Inr n, w') \<longleftrightarrow>
     store_fault E (tick w) = None \<and> n = length (filter P (tb_get T (dw_db w)))
     \<and> w' = w\<lparr>tick := Suc (tick w),
         dw_db := tb_put T (ent_update_where P (f (clock E (tick w))) (tb_get T (dw_db w))) (dw_db w)\<rparr>"
  by (auto simp: tx_exec_Inr update_where_eq)

lemma tx_only: "tx_exec E (only T P) w = (Inr x, w') \<longleftrightarrow>
     store_fault E (tick w) = None \<and> ent_only P (tb_get T (dw_db w)) = Inr x \<and> w' = w\<lparr>tick := Suc (tick w)\<rparr>"
  by (auto simp: tx_exec_Inr only_Inr)

lemma ensure_active_user_Inr:
  "ensure_active_user E u w = (Inr (), w') \<Longrightarrow>
     dw_db w' = dw_db w \<and> (\<exists>x \<in> set (db_users (dw_db w)). us_id x = u \<and> us_status x = user_status_active)"
  by (auto simp: ensure_active_user_def pass_Inr oidc_wrappers_Inr tx_exec_Inr exists_where_eq users_t_def
      list_ex_iff split: if_splits)

lemma consume_authorization_code_Inr:
  "consume_authorization_code E c s t w = (Inr (), w') \<Longrightarrow>
     (\<exists>x \<in> set (db_codes (dw_db w)). co_id x = c \<and> co_consumed x = None \<and> co_expires x > t)
     \<and> dw_db w' = (dw_db w)\<lparr>db_codes := ent_update_where (\<lambda>x. co_id x = c \<and> co_consumed x = None \<and> co_expires x > t)
          (\<lambda>x. x\<lparr>co_session := Some s, co_consumed := Some t\<rparr>) (db_codes (dw_db w))\<rparr>"
  by (auto simp: consume_authorization_code_def pass_Inr oidc_wrappers_Inr tx_exec_Inr update_where_eq codes_t_def
      simp del: set_update_where split: if_splits dest!: filter_one)

lemma open_token_session_Inr:
  assumes "open_token_session E g s f t w = (Inr (), w')"
  obtains n where
    "dw_db w' = (dw_db w)
       \<lparr>db_codes := ent_update_where (\<lambda>x. co_id x = tg_code_id g \<and> co_consumed x = None \<and> co_expires x > t)
          (\<lambda>x. x\<lparr>co_session := Some s, co_consumed := Some t\<rparr>) (db_codes (dw_db w)),
        db_tsessions := db_tsessions (dw_db w) @ [new_tsession_row s f g n]\<rparr>"
    "\<exists>x \<in> set (db_codes (dw_db w)). co_id x = tg_code_id g \<and> co_consumed x = None \<and> co_expires x > t"
    "\<exists>x \<in> set (db_users (dw_db w)). us_id x = tg_user g \<and> us_status x = user_status_active"
    "\<forall>x \<in> set (db_tsessions (dw_db w)). ts_id x \<noteq> s"
proof -
  from assms obtain u v z where
    c: "consume_authorization_code E (tg_code_id g) s t w = (Inr (), u)"
    and e: "ensure_active_user E (tg_user g) u = (Inr (), v)"
    and k: "tx_exec E (create tsessions_t tsession_valid tsession_clash (new_tsession_row s f g)) v = (Inr z, w')"
    by (auto simp: open_token_session_def pass_Inr oidc_wrappers_Inr)
  from k have "dw_db w' = (dw_db v)\<lparr>db_tsessions := db_tsessions (dw_db v) @ [new_tsession_row s f g (clock E (tick v))]\<rparr>"
    and "\<forall>x \<in> set (db_tsessions (dw_db v)). ts_id x \<noteq> s"
    by (auto simp: tx_exec_Inr create_Inr tsessions_t_def list_ex_iff tsession_clash_def new_tsession_row_def)
  with consume_authorization_code_Inr [OF c] ensure_active_user_Inr [OF e] show thesis
    by (intro that) auto
qed

lemma issue_access_token_Inr:
  "issue_access_token E a s g t x w = (Inr (), w') \<Longrightarrow>
     dw_db w' = (dw_db w)\<lparr>db_access := db_access (dw_db w) @ [new_access_row a s g t x]\<rparr>"
  by (auto simp: issue_access_token_def pass_Inr oidc_wrappers_Inr tx_exec_Inr create_Inr access_t_def)

lemma rotate_refresh_token_Inr:
  assumes "rotate_refresh_token E g t w = (Inr (Some (s, f, p)), w')"
  obtains cur se where "cur \<in> set (db_refresh (dw_db w))" "rf_id cur = tg_refresh_token_id g" "rf_consumed cur = None"
    "rf_revoked cur = None" "rf_expires cur > t" "s = tg_session_id g" "p = Some (rf_id cur)"
    "se \<in> set (db_tsessions (dw_db w))" "ts_id se = s" "ts_revoked se = None" "f = ts_family se"
    "\<exists>x \<in> set (db_users (dw_db w)). us_id x = tg_user g \<and> us_status x = user_status_active"
    "dw_db w' = (dw_db w)
       \<lparr>db_tsessions := ent_update_where (\<lambda>x. ts_id x = s \<and> ts_revoked x = None)
          (\<lambda>x. x\<lparr>ts_scopes := tg_scopes g, ts_update := t\<rparr>) (db_tsessions (dw_db w)),
        db_refresh := ent_update_where
          (\<lambda>x. rf_id x = rf_id cur \<and> rf_consumed x = None \<and> rf_revoked x = None \<and> rf_expires x > t)
          (\<lambda>x. x\<lparr>rf_consumed := Some t\<rparr>) (db_refresh (dw_db w))\<rparr>"
proof -
  from assms obtain cur se u v n where
    c: "tx_exec E (only refresh_t (\<lambda>r. rf_id r = tg_refresh_token_id g)) w = (Inr cur, u)"
    and cn: "rf_consumed cur = None" "rf_revoked cur = None" "rf_expires cur > t"
    and se: "tx_exec E (only tsessions_t (\<lambda>x. ts_id x = tg_session_id g)) u = (Inr se, v)" "ts_revoked se = None"
    and r: "s = tg_session_id g" "p = Some (rf_id cur)" "f = ts_family se"
    and rest: "pass (ensure_active_user E (tg_user g)) (\<lambda>_.
      tx_exec E (update_where tsessions_t (\<lambda>s. ts_id s = tg_session_id g \<and> ts_revoked s = None)
                     (\<lambda>_ s. s\<lparr>ts_scopes := tg_scopes g, ts_update := t\<rparr>))) v = (Inr 1, n)"
      "tx_exec E (update_where refresh_t
                       (\<lambda>r. rf_id r = rf_id cur \<and> rf_consumed r = None \<and> rf_revoked r = None
                            \<and> rf_expires r > t)
                       (\<lambda>_ r. r\<lparr>rf_consumed := Some t\<rparr>)) n = (Inr 1, w')"
    unfolding rotate_refresh_token_def Let_def pass_Inr oidc_wrappers_Inr
    by (auto simp: pass_Inr oidc_wrappers_Inr simp del: set_update_where One_nat_def split: if_splits)
  from rest(1) obtain x where e: "ensure_active_user E (tg_user g) v = (Inr (), x)"
    and up: "tx_exec E (update_where tsessions_t (\<lambda>s. ts_id s = tg_session_id g \<and> ts_revoked s = None)
                     (\<lambda>_ s. s\<lparr>ts_scopes := tg_scopes g, ts_update := t\<rparr>)) x = (Inr 1, n)"
    by (auto simp: pass_Inr)
  have w: "dw_db v = dw_db w" "dw_db u = dw_db w" using c se(1) by (auto simp: tx_only)
  have cur: "ent_only (\<lambda>r. rf_id r = tg_refresh_token_id g) (db_refresh (dw_db w)) = Inr cur"
    and ses: "ent_only (\<lambda>x. ts_id x = tg_session_id g) (db_tsessions (dw_db w)) = Inr se"
    using c se(1) by (auto simp: tx_only refresh_t_def tsessions_t_def)
  have d: "dw_db w' = (dw_db w)
       \<lparr>db_tsessions := ent_update_where (\<lambda>x. ts_id x = s \<and> ts_revoked x = None)
          (\<lambda>x. x\<lparr>ts_scopes := tg_scopes g, ts_update := t\<rparr>) (db_tsessions (dw_db w)),
        db_refresh := ent_update_where
          (\<lambda>x. rf_id x = rf_id cur \<and> rf_consumed x = None \<and> rf_revoked x = None \<and> rf_expires x > t)
          (\<lambda>x. x\<lparr>rf_consumed := Some t\<rparr>) (db_refresh (dw_db w))\<rparr>"
    using up rest(2) ensure_active_user_Inr [OF e] w r(1)
    by (simp add: tx_update_where tsessions_t_def refresh_t_def)
  show thesis
    using ent_only_in [OF cur] ent_only_in [OF ses] ensure_active_user_Inr [OF e] cn se(2) r w
    by (intro that [of cur se, OF _ _ _ _ _ _ _ _ _ _ _ _ d]) auto
qed

lemma issue_token_pair_Inr:
  assumes "issue_token_pair E L g a r k t w = (Inr False, w')"
  obtains s f p v where
    "(if tg_session_id g = [] then start_refresh_family E g t else rotate_refresh_token E g t) w = (Inr (Some (s, f, p)), v)"
    "dw_db w' = (dw_db v)
       \<lparr>db_access := db_access (dw_db v) @ [new_access_row a s g t (t + access_token_ttl)],
        db_refresh := db_refresh (dw_db v)
          @ [new_refresh_row r s f (hash_opaque_secret L k) p t (t + refresh_token_ttl)]\<rparr>"
    "\<forall>x \<in> set (db_refresh (dw_db v)). rf_hash x \<noteq> hash_opaque_secret L k \<and> rf_id x \<noteq> r"
proof -
  from assms obtain s f p u v z where
    fam: "(if tg_session_id g = [] then start_refresh_family E g t else rotate_refresh_token E g t) w = (Inr (Some (s, f, p)), v)"
    and acc: "issue_access_token E a s g t (t + access_token_ttl) v = (Inr (), u)"
    and ref: "tx_exec E (create refresh_t refresh_valid refresh_clash
       (\<lambda>_. new_refresh_row r s f (hash_opaque_secret L k) p t (t + refresh_token_ttl))) u = (Inr z, w')"
    unfolding issue_token_pair_def pass_Inr
    by (auto simp: pass_Inr oidc_wrappers_Inr simp del: if_split split: option.splits prod.splits)
  from ref have "dw_db w' = (dw_db u)\<lparr>db_refresh := db_refresh (dw_db u)
          @ [new_refresh_row r s f (hash_opaque_secret L k) p t (t + refresh_token_ttl)]\<rparr>"
    "\<forall>x \<in> set (db_refresh (dw_db u)). rf_hash x \<noteq> hash_opaque_secret L k \<and> rf_id x \<noteq> r"
    by (auto simp: tx_exec_Inr create_Inr refresh_t_def list_ex_iff refresh_clash_def new_refresh_row_def)
  with issue_access_token_Inr [OF acc] show thesis by (intro that [OF fam]) simp_all
qed

lemma start_refresh_family_Inr:
  assumes "start_refresh_family E g t w = (Inr (Some (s, f, p)), w')"
  obtains v where "open_token_session E g s f t v = (Inr (), w')" "dw_db v = dw_db w" "p = None"
  using assms by (auto simp: start_refresh_family_def pass_Inr new_id_Inr intro!: that)

lemma create_tokens_Inr:
  fixes w :: "(db, 'z) db_world_scheme"
  assumes ok: "others_ok E" and wf: "db_wf (dw_db w)"
    and r: "create_access_and_refresh_tokens E L req w = (Inr (a, k, x), w')"
  obtains g i t and v u :: "(db, 'z) db_world_scheme" where "token_grant_from_request req = Inr g"
    "issue_token_pair E L g a i k t v = (Inr False, u)" "dw_db w' = dw_db u"
    "db_reach (dw_db w) (dw_db v)" "x = t + access_token_ttl"
proof -
  from r obtain g i t and v :: "(db, 'z) db_world_scheme" where g: "token_grant_from_request req = Inr g"
    and tx: "oidc_tx E (issue_token_pair E L g a i k t) v = (Inr False, w')" and x: "x = t + access_token_ttl"
    and v: "dw_db v = dw_db w"
    by (auto simp: create_access_and_refresh_tokens_def check_eq seq_eq now_eq new_id_Inr new_opaque_secret_Inr split: if_splits)
  have wfv: "db_wf (dw_db v)" using wf v by simp
  obtain v0 u :: "(db, 'z) db_world_scheme" where "db_reach (dw_db v) (dw_db v0)"
    "issue_token_pair E L g a i k t v0 = (Inr False, u)" "dw_db w' = dw_db u" by (rule tx_step [OF ok wfv tx])
  with g x v show thesis by (intro that [OF g]) auto
qed

section \<open>Codes\<close>

definition code_spent :: "db \<Rightarrow> string \<Rightarrow> bool" where
  "code_spent d i \<longleftrightarrow> (\<exists>c \<in> set (db_codes d). co_id c = i \<and> co_consumed c \<noteq> None)"

lemma code_spent_stays: "db_reach d e \<Longrightarrow> code_spent d i \<Longrightarrow> code_spent e i"
  unfolding code_spent_def by (metis reach_rowsD(8) code_evolves_def)

lemma spent_code_opens_nothing:
  assumes "code_spent (dw_db w) (tg_code_id g)" "db_wf (dw_db w)"
  shows "open_token_session E g s f t w \<noteq> (Inr (), w')"
proof
  assume "open_token_session E g s f t w = (Inr (), w')"
  then obtain x where x: "x \<in> set (db_codes (dw_db w))" "co_id x = tg_code_id g" "co_consumed x = None"
    by (rule open_token_session_Inr) blast
  from assms(1) obtain c where "c \<in> set (db_codes (dw_db w))" "co_id c = tg_code_id g" "co_consumed c \<noteq> None"
    by (auto simp: code_spent_def)
  then show False using unique_byD [OF wf_unique(13) [OF assms(2)] x(1)] x by metis
qed

lemma spent_code_no_pair:
  fixes w :: "(db, 'z) db_world_scheme"
  assumes "others_ok E" "db_wf (dw_db w)" "code_spent (dw_db w) (az_code_id az)"
  shows "create_access_and_refresh_tokens E L (AuthorizationRequest az) w \<noteq> (Inr y, w')"
proof
  assume "create_access_and_refresh_tokens E L (AuthorizationRequest az) w = (Inr y, w')"
  then obtain a k x where "create_access_and_refresh_tokens E L (AuthorizationRequest az) w = (Inr (a, k, x), w')"
    by (cases y) auto
  from create_tokens_Inr [OF assms(1,2) this] obtain g i t and v u :: "(db, 'z) db_world_scheme" where
    g: "token_grant_from_request (AuthorizationRequest az) = Inr g"
    and p: "issue_token_pair E L g a i k t v = (Inr False, u)" and r: "db_reach (dw_db w) (dw_db v)" by metis
  from g have gc: "tg_session_id g = []" "tg_code_id g = az_code_id az"
    by (auto simp: token_grant_from_request_def split: if_splits)
  from p gc(1) obtain s f q and v1 :: "(db, 'z) db_world_scheme" where
    "start_refresh_family E g t v = (Inr (Some (s, f, q)), v1)" by (auto elim: issue_token_pair_Inr)
  then obtain v2 :: "(db, 'z) db_world_scheme" where
    "open_token_session E g s f t v2 = (Inr (), v1)" "dw_db v2 = dw_db v" by (rule start_refresh_family_Inr)
  moreover have "code_spent (dw_db v) (tg_code_id g)" using code_spent_stays [OF r assms(3)] gc by simp
  ultimately show False using spent_code_opens_nothing [of v2 g E s f t v1] r by (simp add: db_reach_def)
qed

lemma spent_code_no_access:
  fixes w :: "(db, 'z) db_world_scheme"
  assumes ok: "others_ok E" and wf: "db_wf (dw_db w)" and sp: "code_spent (dw_db w) (az_code_id az)"
  shows "create_access_token E (AuthorizationRequest az) w \<noteq> (Inr y, w')"
proof
  assume "create_access_token E (AuthorizationRequest az) w = (Inr y, w')"
  then obtain g a s f t and v :: "(db, 'z) db_world_scheme" where
    g: "token_grant_from_request (AuthorizationRequest az) = Inr g"
    and tx: "oidc_tx E (pass (open_token_session E g s f t)
        (\<lambda>_. issue_access_token E a s g t (t + access_token_ttl))) v = (Inr (), w')"
    and v: "dw_db v = dw_db w"
    by (auto simp: create_access_token_def check_eq seq_eq now_eq new_id_Inr Let_def)
  have wfv: "db_wf (dw_db v)" using wf v by simp
  obtain v0 u :: "(db, 'z) db_world_scheme" where r: "db_reach (dw_db v) (dw_db v0)"
    and b: "pass (open_token_session E g s f t) (\<lambda>_. issue_access_token E a s g t (t + access_token_ttl)) v0 = (Inr (), u)"
    by (rule tx_step [OF ok wfv tx])
  then obtain v1 :: "(db, 'z) db_world_scheme" where "open_token_session E g s f t v0 = (Inr (), v1)"
    by (auto simp: pass_Inr)
  moreover have "tg_code_id g = az_code_id az" using g by (auto simp: token_grant_from_request_def split: if_splits)
  moreover have "code_spent (dw_db v0) (az_code_id az)" using code_spent_stays [OF r] sp v by simp
  ultimately show False using spent_code_opens_nothing [of v0 g E s f t v1] r by (simp add: db_reach_def)
qed

text \<open>What an exchange of a code leaves: the state before it, with the code spent and the new rows appended.\<close>

lemma code_exchange_db:
  fixes w :: "(db, 'z) db_world_scheme"
  assumes "others_ok E" "db_wf (dw_db w)"
    and "create_access_and_refresh_tokens E L (AuthorizationRequest az) w = (Inr (a, k, x), w')"
  obtains g i s f q t n c and v :: "(db, 'z) db_world_scheme" where
    "tg_code_id g = az_code_id az" "tg_user g = az_subject az" "tg_client g = oq_client (az_entity az)"
    "tg_login g = oq_login (az_entity az)" "oq_login (az_entity az) \<noteq> None" "x = t + access_token_ttl"
    "c \<in> set (db_codes (dw_db v))" "co_id c = tg_code_id g \<and> co_consumed c = None \<and> co_expires c > t"
    "dw_db w' = (dw_db v)
       \<lparr>db_codes := ent_update_where (\<lambda>x. co_id x = tg_code_id g \<and> co_consumed x = None \<and> co_expires x > t)
          (\<lambda>x. x\<lparr>co_session := Some s, co_consumed := Some t\<rparr>) (db_codes (dw_db v)),
        db_tsessions := db_tsessions (dw_db v) @ [new_tsession_row s f g n],
        db_access := db_access (dw_db v) @ [new_access_row a s g t (t + access_token_ttl)],
        db_refresh := db_refresh (dw_db v)
          @ [new_refresh_row i s f (hash_opaque_secret L k) q t (t + refresh_token_ttl)]\<rparr>"
proof -
  from create_tokens_Inr [OF assms] obtain g i t and v u :: "(db, 'z) db_world_scheme" where
    g: "token_grant_from_request (AuthorizationRequest az) = Inr g"
    and p: "issue_token_pair E L g a i k t v = (Inr False, u)" and u: "dw_db w' = dw_db u"
    and x: "x = t + access_token_ttl" .
  from g have gc: "tg_session_id g = []" "tg_code_id g = az_code_id az" "tg_user g = az_subject az"
    "tg_client g = oq_client (az_entity az)" "tg_login g = oq_login (az_entity az)" "oq_login (az_entity az) \<noteq> None"
    by (auto simp: token_grant_from_request_def split: if_splits)
  from p gc(1) obtain s f q and v1 :: "(db, 'z) db_world_scheme" where
    fam: "start_refresh_family E g t v = (Inr (Some (s, f, q)), v1)"
    and u1: "dw_db u = (dw_db v1)
       \<lparr>db_access := db_access (dw_db v1) @ [new_access_row a s g t (t + access_token_ttl)],
        db_refresh := db_refresh (dw_db v1)
          @ [new_refresh_row i s f (hash_opaque_secret L k) q t (t + refresh_token_ttl)]\<rparr>"
    by (auto elim: issue_token_pair_Inr)
  from fam obtain v2 :: "(db, 'z) db_world_scheme" where o: "open_token_session E g s f t v2 = (Inr (), v1)"
    by (rule start_refresh_family_Inr)
  from open_token_session_Inr [OF o] obtain n c where
    "dw_db v1 = (dw_db v2)
       \<lparr>db_codes := ent_update_where (\<lambda>x. co_id x = tg_code_id g \<and> co_consumed x = None \<and> co_expires x > t)
          (\<lambda>x. x\<lparr>co_session := Some s, co_consumed := Some t\<rparr>) (db_codes (dw_db v2)),
        db_tsessions := db_tsessions (dw_db v2) @ [new_tsession_row s f g n]\<rparr>"
    "c \<in> set (db_codes (dw_db v2))" "co_id c = tg_code_id g \<and> co_consumed c = None \<and> co_expires c > t"
    by blast
  with gc x u u1 show thesis by (intro that [where g = g and c = c and t = t and v = v2 and s = s]) simp_all
qed

text \<open>The same without a refresh token.\<close>

lemma code_access_db:
  fixes w :: "(db, 'z) db_world_scheme"
  assumes ok: "others_ok E" and wf: "db_wf (dw_db w)"
    and r: "create_access_token E (AuthorizationRequest az) w = (Inr (a, x), w')"
  obtains g s f t n c and v :: "(db, 'z) db_world_scheme" where
    "tg_code_id g = az_code_id az" "tg_user g = az_subject az" "tg_client g = oq_client (az_entity az)"
    "tg_login g = oq_login (az_entity az)" "oq_login (az_entity az) \<noteq> None" "x = t + access_token_ttl"
    "c \<in> set (db_codes (dw_db v))" "co_id c = tg_code_id g \<and> co_consumed c = None \<and> co_expires c > t"
    "dw_db w' = (dw_db v)
       \<lparr>db_codes := ent_update_where (\<lambda>x. co_id x = tg_code_id g \<and> co_consumed x = None \<and> co_expires x > t)
          (\<lambda>x. x\<lparr>co_session := Some s, co_consumed := Some t\<rparr>) (db_codes (dw_db v)),
        db_tsessions := db_tsessions (dw_db v) @ [new_tsession_row s f g n],
        db_access := db_access (dw_db v) @ [new_access_row a s g t (t + access_token_ttl)]\<rparr>"
proof -
  from r obtain g s f t and v :: "(db, 'z) db_world_scheme" where
    g: "token_grant_from_request (AuthorizationRequest az) = Inr g"
    and tx: "oidc_tx E (pass (open_token_session E g s f t)
        (\<lambda>_. issue_access_token E a s g t (t + access_token_ttl))) v = (Inr (), w')"
    and v: "dw_db v = dw_db w" and x: "x = t + access_token_ttl"
    by (auto simp: create_access_token_def check_eq seq_eq now_eq new_id_Inr Let_def split: if_splits)
  have wfv: "db_wf (dw_db v)" using wf v by simp
  obtain v0 u :: "(db, 'z) db_world_scheme" where
    b: "pass (open_token_session E g s f t) (\<lambda>_. issue_access_token E a s g t (t + access_token_ttl)) v0 = (Inr (), u)"
    and u: "dw_db w' = dw_db u" by (rule tx_step [OF ok wfv tx])
  from b obtain v1 :: "(db, 'z) db_world_scheme" where o: "open_token_session E g s f t v0 = (Inr (), v1)"
    and acc: "issue_access_token E a s g t (t + access_token_ttl) v1 = (Inr (), u)" by (auto simp: pass_Inr)
  from g have gc: "tg_code_id g = az_code_id az" "tg_user g = az_subject az"
    "tg_client g = oq_client (az_entity az)" "tg_login g = oq_login (az_entity az)" "oq_login (az_entity az) \<noteq> None"
    by (auto simp: token_grant_from_request_def split: if_splits)
  from open_token_session_Inr [OF o] obtain n c where
    "dw_db v1 = (dw_db v0)
       \<lparr>db_codes := ent_update_where (\<lambda>x. co_id x = tg_code_id g \<and> co_consumed x = None \<and> co_expires x > t)
          (\<lambda>x. x\<lparr>co_session := Some s, co_consumed := Some t\<rparr>) (db_codes (dw_db v0)),
        db_tsessions := db_tsessions (dw_db v0) @ [new_tsession_row s f g n]\<rparr>"
    "c \<in> set (db_codes (dw_db v0))" "co_id c = tg_code_id g \<and> co_consumed c = None \<and> co_expires c > t"
    by blast
  with gc x u issue_access_token_Inr [OF acc] show thesis
    by (intro that [where g = g and c = c and t = t and v = v0 and s = s]) simp_all
qed

text \<open>
  The storage exchanged the code of \<open>az\<close>: for an access token alone, or, when the engine asked for one, for an access
  token and a refresh token with the secret \<open>k\<close>.
\<close>

definition code_exchanged ::
    "db dbenv \<Rightarrow> iam_lib \<Rightarrow> authorization_request \<Rightarrow> (db, 'z) db_world_scheme \<Rightarrow> string \<Rightarrow> string option \<Rightarrow> time
      \<Rightarrow> (db, 'z) db_world_scheme \<Rightarrow> bool" where
  "code_exchanged E L az w a ko x w' \<longleftrightarrow>
     (case ko of
        None \<Rightarrow> create_access_token E (AuthorizationRequest az) w = (Inr (a, x), w')
      | Some k \<Rightarrow> create_access_and_refresh_tokens E L (AuthorizationRequest az) w = (Inr (a, k, x), w'))"

lemma code_exchanged_db:
  fixes w :: "(db, 'z) db_world_scheme"
  assumes "others_ok E" "db_wf (dw_db w)" "code_exchanged E L az w a ko x w'"
  obtains g s f t n c i q and v :: "(db, 'z) db_world_scheme" where
    "tg_code_id g = az_code_id az" "tg_user g = az_subject az" "tg_client g = oq_client (az_entity az)"
    "tg_login g = oq_login (az_entity az)" "oq_login (az_entity az) \<noteq> None" "x = t + access_token_ttl"
    "c \<in> set (db_codes (dw_db v))" "co_id c = tg_code_id g \<and> co_consumed c = None \<and> co_expires c > t"
    "dw_db w' = (dw_db v)
       \<lparr>db_codes := ent_update_where (\<lambda>x. co_id x = tg_code_id g \<and> co_consumed x = None \<and> co_expires x > t)
          (\<lambda>x. x\<lparr>co_session := Some s, co_consumed := Some t\<rparr>) (db_codes (dw_db v)),
        db_tsessions := db_tsessions (dw_db v) @ [new_tsession_row s f g n],
        db_access := db_access (dw_db v) @ [new_access_row a s g t (t + access_token_ttl)],
        db_refresh := db_refresh (dw_db v) @ (case ko of None \<Rightarrow> []
          | Some k \<Rightarrow> [new_refresh_row i s f (hash_opaque_secret L k) q t (t + refresh_token_ttl)])\<rparr>"
proof (cases ko)
  case None
  with assms(3) have r: "create_access_token E (AuthorizationRequest az) w = (Inr (a, x), w')" by (simp add: code_exchanged_def)
  show thesis by (rule code_access_db [OF assms(1,2) r], rule that, assumption+) (simp add: None)
next
  case (Some k)
  with assms(3) have r: "create_access_and_refresh_tokens E L (AuthorizationRequest az) w = (Inr (a, k, x), w')"
    by (simp add: code_exchanged_def)
  show thesis by (rule code_exchange_db [OF assms(1,2) r], rule that, assumption+) (simp add: Some)
qed

text \<open>The rows of the exchange, and the code spent.\<close>

lemma code_exchange_rows:
  fixes w :: "(db, 'z) db_world_scheme"
  assumes "others_ok E" "db_wf (dw_db w)" "code_exchanged E L az w a ko x w'"
  shows "\<exists>c \<in> set (db_codes (dw_db w')). \<exists>s \<in> set (db_tsessions (dw_db w')). \<exists>at \<in> set (db_access (dw_db w')).
          co_id c = az_code_id az \<and> co_consumed c \<noteq> None \<and> co_session c = Some (ts_id s)
          \<and> ts_user s = az_subject az \<and> ts_client s = oq_client (az_entity az)
          \<and> Some (ts_login s) = oq_login (az_entity az) \<and> ts_revoked s = None
          \<and> at_id at = a \<and> at_session at = ts_id s \<and> at_expires at = x \<and> at_revoked at = None
          \<and> (\<forall>k. ko = Some k \<longrightarrow> (\<exists>rt \<in> set (db_refresh (dw_db w')). rf_session rt = ts_id s
               \<and> rf_hash rt = hash_opaque_secret L k \<and> rf_consumed rt = None \<and> rf_revoked rt = None))"
    and "code_spent (dw_db w') (az_code_id az)"
proof -
  from code_exchanged_db [OF assms] obtain g s f t n c i q and v :: "(db, 'z) db_world_scheme" where
    gc: "tg_code_id g = az_code_id az" "tg_user g = az_subject az" "tg_client g = oq_client (az_entity az)"
    "tg_login g = oq_login (az_entity az)" "oq_login (az_entity az) \<noteq> None" "x = t + access_token_ttl"
    and c: "c \<in> set (db_codes (dw_db v))" "co_id c = tg_code_id g \<and> co_consumed c = None \<and> co_expires c > t"
    and w': "dw_db w' = (dw_db v)
       \<lparr>db_codes := ent_update_where (\<lambda>x. co_id x = tg_code_id g \<and> co_consumed x = None \<and> co_expires x > t)
          (\<lambda>x. x\<lparr>co_session := Some s, co_consumed := Some t\<rparr>) (db_codes (dw_db v)),
        db_tsessions := db_tsessions (dw_db v) @ [new_tsession_row s f g n],
        db_access := db_access (dw_db v) @ [new_access_row a s g t (t + access_token_ttl)],
        db_refresh := db_refresh (dw_db v) @ (case ko of None \<Rightarrow> []
          | Some k \<Rightarrow> [new_refresh_row i s f (hash_opaque_secret L k) q t (t + refresh_token_ttl)])\<rparr>" .
  have cin: "c\<lparr>co_session := Some s, co_consumed := Some t\<rparr> \<in> set (db_codes (dw_db w'))"
    unfolding w' using updated_in [OF c(1), of "\<lambda>x. co_id x = tg_code_id g \<and> co_consumed x = None \<and> co_expires x > t"
      "\<lambda>x. x\<lparr>co_session := Some s, co_consumed := Some t\<rparr>"] c(2) by simp
  have sin: "new_tsession_row s f g n \<in> set (db_tsessions (dw_db w'))"
    "new_access_row a s g t (t + access_token_ttl) \<in> set (db_access (dw_db w'))"
    and rin: "ko = Some k \<Longrightarrow>
      new_refresh_row i s f (hash_opaque_secret L k) q t (t + refresh_token_ttl) \<in> set (db_refresh (dw_db w'))" for k
    by (simp_all add: w')
  show "code_spent (dw_db w') (az_code_id az)"
    unfolding code_spent_def using cin c gc(1) by (intro bexI [OF _ cin]) simp
  show "\<exists>c \<in> set (db_codes (dw_db w')). \<exists>s \<in> set (db_tsessions (dw_db w')). \<exists>at \<in> set (db_access (dw_db w')).
          co_id c = az_code_id az \<and> co_consumed c \<noteq> None \<and> co_session c = Some (ts_id s)
          \<and> ts_user s = az_subject az \<and> ts_client s = oq_client (az_entity az)
          \<and> Some (ts_login s) = oq_login (az_entity az) \<and> ts_revoked s = None
          \<and> at_id at = a \<and> at_session at = ts_id s \<and> at_expires at = x \<and> at_revoked at = None
          \<and> (\<forall>k. ko = Some k \<longrightarrow> (\<exists>rt \<in> set (db_refresh (dw_db w')). rf_session rt = ts_id s
               \<and> rf_hash rt = hash_opaque_secret L k \<and> rf_consumed rt = None \<and> rf_revoked rt = None))"
    by (intro bexI [OF _ cin] bexI [OF _ sin(1)] bexI [OF _ sin(2)] conjI allI impI bexI [OF _ rin])
      (use gc c in \<open>auto simp: new_tsession_row_def new_access_row_def new_refresh_row_def\<close>)
qed

lemma code_exchanged_keeps:
  fixes w :: "(db, 'z) db_world_scheme"
  assumes "others_ok E" "db_wf (dw_db w)" "code_exchanged E L az w a ko x w'"
  shows "db_reach (dw_db w) (dw_db w')"
  using assms keeps_step [OF assms(1,2) _ create_access_token_keeps]
    keeps_step [OF assms(1,2) _ create_access_and_refresh_tokens_keeps]
  by (auto simp: code_exchanged_def split: option.splits)

text \<open>
  C1. An authorization code is exchanged at most once. When the storage issued tokens for a code, an access token alone or
  an access and a refresh token, the code is consumed and names a new token session of exactly the user, the client and
  the login session of the authorization request, with the live access token that was returned and, if a refresh token
  was asked for, one live refresh token under the hash of the secret that was returned; and whatever requests the service
  serves from then on, the code never issues tokens again, with or without a refresh token.
\<close>

theorem authorization_code_single_use:
  fixes w :: "(db, 'z) db_world_scheme"
  assumes "others_ok E" "deps_ok D" "db_wf (dw_db w)" "code_exchanged E L az w a ko x w'"
  shows "(\<exists>c \<in> set (db_codes (dw_db w')). \<exists>s \<in> set (db_tsessions (dw_db w')). \<exists>at \<in> set (db_access (dw_db w')).
          co_id c = az_code_id az \<and> co_consumed c \<noteq> None \<and> co_session c = Some (ts_id s)
          \<and> ts_user s = az_subject az \<and> ts_client s = oq_client (az_entity az)
          \<and> Some (ts_login s) = oq_login (az_entity az) \<and> ts_revoked s = None
          \<and> at_id at = a \<and> at_session at = ts_id s \<and> at_expires at = x \<and> at_revoked at = None
          \<and> (\<forall>k. ko = Some k \<longrightarrow> (\<exists>rt \<in> set (db_refresh (dw_db w')). rf_session rt = ts_id s
               \<and> rf_hash rt = hash_opaque_secret L k \<and> rf_consumed rt = None \<and> rf_revoked rt = None)))
     \<and> (\<forall>rs az2 a2 ko2 x2 v. az_code_id az2 = az_code_id az \<longrightarrow>
          \<not> code_exchanged E L az2 (platform_all E L D rs w') a2 ko2 x2 v)"
proof -
  have wf: "db_wf (dw_db w')" using code_exchanged_keeps [OF assms(1,3,4)] by (simp add: db_reach_def)
  note rows = code_exchange_rows [OF assms(1,3,4)]
  have later: "db_wf (dw_db (platform_all E L D rs w'))" "code_spent (dw_db (platform_all E L D rs w')) (az_code_id az)" for rs
    using platform_all_reach [OF assms(1,2) wf, of L rs] code_spent_stays [OF _ rows(2)] by (auto simp: db_reach_def)
  have "\<not> code_exchanged E L az2 (platform_all E L D rs w') a2 ko2 x2 v" if "az_code_id az2 = az_code_id az" for rs az2 a2 ko2 x2 v
    using spent_code_no_pair [OF assms(1) later(1), of _ az2] spent_code_no_access [OF assms(1) later(1), of _ az2] later(2) that
    by (auto simp: code_exchanged_def split: option.splits)
  then show ?thesis using rows(1) by blast
qed

section \<open>Refresh tokens\<close>

definition refresh_spent :: "db \<Rightarrow> string \<Rightarrow> bool" where
  "refresh_spent d i \<longleftrightarrow> (\<exists>r \<in> set (db_refresh d). rf_id r = i \<and> rf_consumed r \<noteq> None)"

lemma refresh_spent_stays: "db_reach d e \<Longrightarrow> refresh_spent d i \<Longrightarrow> refresh_spent e i"
  unfolding refresh_spent_def by (metis reach_rowsD(11) refresh_evolves_def)

lemma revoke_token_session_Inr:
  "revoke_token_session E s t w = (Inr (), w') \<Longrightarrow>
     \<exists>n. dw_db w' = (dw_db w)
       \<lparr>db_tsessions := ent_update_where (\<lambda>x. ts_id x = s \<and> ts_revoked x = None)
          (\<lambda>x. x\<lparr>ts_revoked := Some t, ts_update := n\<rparr>) (db_tsessions (dw_db w)),
        db_access := ent_update_where (\<lambda>x. at_session x = s \<and> at_revoked x = None)
          (\<lambda>x. x\<lparr>at_revoked := Some t\<rparr>) (db_access (dw_db w)),
        db_refresh := ent_update_where (\<lambda>x. rf_session x = s \<and> rf_revoked x = None)
          (\<lambda>x. x\<lparr>rf_revoked := Some t\<rparr>) (db_refresh (dw_db w))\<rparr>"
  by (auto simp: revoke_token_session_def pass_Inr oidc_wrappers_Inr tx_update_where table_defs
      simp del: set_update_where)

lemma revoke_token_session_dead:
  "revoke_token_session E s t w = (Inr (), w') \<Longrightarrow> tokens_dead (\<lambda>x. ts_id x = s) (dw_db w')"
proof -
  assume "revoke_token_session E s t w = (Inr (), w')"
  from revoke_token_session_Inr [OF this] obtain n where w': "dw_db w' = (dw_db w)
       \<lparr>db_tsessions := ent_update_where (\<lambda>x. ts_id x = s \<and> ts_revoked x = None)
          (\<lambda>x. x\<lparr>ts_revoked := Some t, ts_update := n\<rparr>) (db_tsessions (dw_db w)),
        db_access := ent_update_where (\<lambda>x. at_session x = s \<and> at_revoked x = None)
          (\<lambda>x. x\<lparr>at_revoked := Some t\<rparr>) (db_access (dw_db w)),
        db_refresh := ent_update_where (\<lambda>x. rf_session x = s \<and> rf_revoked x = None)
          (\<lambda>x. x\<lparr>rf_revoked := Some t\<rparr>) (db_refresh (dw_db w))\<rparr>" ..
  have "\<forall>x \<in> set (db_tsessions (dw_db w')). ts_id x = s \<longrightarrow> ts_revoked x \<noteq> None"
    by (simp add: w' del: set_update_where not_None_eq) (rule update_where_all, auto)
  moreover have "\<forall>x \<in> set (db_access (dw_db w')). at_session x = s \<longrightarrow> at_revoked x \<noteq> None"
    by (simp add: w' del: set_update_where not_None_eq) (rule update_where_all, auto)
  moreover have "\<forall>x \<in> set (db_refresh (dw_db w')). rf_session x = s \<longrightarrow> rf_revoked x \<noteq> None"
    by (simp add: w' del: set_update_where not_None_eq) (rule update_where_all, auto)
  ultimately show "tokens_dead (\<lambda>x. ts_id x = s) (dw_db w')" unfolding tokens_dead_def by simp
qed

lemma revoke_token_session_ids:
  "revoke_token_session E s t w = (Inr (), w') \<Longrightarrow> map ts_id (db_tsessions (dw_db w')) = map ts_id (db_tsessions (dw_db w))"
  by (auto dest!: revoke_token_session_Inr simp: ent_update_where_def)

lemma token_request_tx_Inr:
  assumes "token_request_tx E L k t w = (Inr q, w')"
  obtains r s where "r \<in> set (db_refresh (dw_db w))" "rf_hash r = hash_opaque_secret L k"
    "ent_only (\<lambda>r. rf_hash r = hash_opaque_secret L k) (db_refresh (dw_db w)) = Inr r"
    "s \<in> set (db_tsessions (dw_db w))" "ts_id s = rf_session r"
    "q = None \<Longrightarrow> rf_consumed r \<noteq> None \<and> tokens_dead (\<lambda>x. ts_id x = rf_session r) (dw_db w')
       \<and> (\<exists>x \<in> set (db_tsessions (dw_db w')). ts_id x = rf_session r)"
    "q \<noteq> None \<Longrightarrow> rf_consumed r = None \<and> rf_revoked r = None \<and> rf_expires r > t \<and> ts_revoked s = None
       \<and> dw_db w' = dw_db w
       \<and> (\<exists>x \<in> set (db_users (dw_db w)). us_id x = ts_user s \<and> us_status x = user_status_active)
       \<and> the q = \<lparr>rr_token_id = rf_id r, rr_session_id = ts_id s, rr_client = ts_client s,
              rr_subject = ts_user s, rr_scopes = ts_scopes s, rr_auth_time = ts_auth_time s, rr_amr = ts_amr s\<rparr>"
proof -
  from assms obtain r s v where
    r: "ent_only (\<lambda>r. rf_hash r = hash_opaque_secret L k) (db_refresh (dw_db w)) = Inr r"
    and s: "ent_only (\<lambda>x. ts_id x = rf_session r) (db_tsessions (dw_db w)) = Inr s"
    and alt: "(if rf_consumed r \<noteq> None
        then pass (revoke_token_session E (ts_id s) t) (\<lambda>_. ret None)
        else if rf_revoked r \<noteq> None \<or> \<not> rf_expires r > t \<or> ts_revoked s \<noteq> None
        then throw (storage_not_found (errorf ''OAuth refresh token is inactive''))
        else
          check (ensure_active_user E (ts_user s)) (\<lambda>e. throw (storage_not_found e)) (\<lambda>_.
          ret (Some \<lparr>rr_token_id = rf_id r, rr_session_id = ts_id s, rr_client = ts_client s,
              rr_subject = ts_user s, rr_scopes = ts_scopes s, rr_auth_time = ts_auth_time s, rr_amr = ts_amr s\<rparr>))) v
        = (Inr q, w')" and v: "dw_db v = dw_db w"
    unfolding token_request_tx_def pass_Inr oidc_wrappers_Inr tx_only
    by (elim exE conjE) (rule that, assumption | simp add: refresh_t_def tsessions_t_def del: if_split not_None_eq)+
  note in_rs = ent_only_in [OF r] ent_only_in [OF s]
  have n: "rf_consumed r \<noteq> None \<and> tokens_dead (\<lambda>x. ts_id x = rf_session r) (dw_db w')
      \<and> (\<exists>x \<in> set (db_tsessions (dw_db w')). ts_id x = rf_session r)" if none: "q = None"
  proof -
    have c: "rf_consumed r \<noteq> None" and rv: "revoke_token_session E (ts_id s) t v = (Inr (), w')"
      using alt none by (auto simp: check_eq pass_Inr split: if_splits)
    have "ts_id s \<in> set (map ts_id (db_tsessions (dw_db w')))"
      unfolding revoke_token_session_ids [OF rv] v set_map by (rule imageI) (use in_rs in \<open>simp add: tsessions_t_def\<close>)
    then show ?thesis using c revoke_token_session_dead [OF rv] in_rs by auto
  qed
  have m: "rf_consumed r = None \<and> rf_revoked r = None \<and> rf_expires r > t \<and> ts_revoked s = None
       \<and> dw_db w' = dw_db w
       \<and> (\<exists>x \<in> set (db_users (dw_db w)). us_id x = ts_user s \<and> us_status x = user_status_active)
       \<and> the q = \<lparr>rr_token_id = rf_id r, rr_session_id = ts_id s, rr_client = ts_client s,
              rr_subject = ts_user s, rr_scopes = ts_scopes s, rr_auth_time = ts_auth_time s, rr_amr = ts_amr s\<rparr>"
    if "q \<noteq> None"
    using alt that v by (auto simp: check_eq split: if_splits dest!: ensure_active_user_Inr)
  show thesis using in_rs r n m by (intro that [of r s]) auto
qed

lemma token_request_tx_Some:
  assumes "token_request_tx E L k t w = (Inr (Some q), w')"
  obtains r s where "r \<in> set (db_refresh (dw_db w))" "rf_hash r = hash_opaque_secret L k"
    "s \<in> set (db_tsessions (dw_db w))" "ts_id s = rf_session r" "rf_consumed r = None"
    "q = \<lparr>rr_token_id = rf_id r, rr_session_id = ts_id s, rr_client = ts_client s,
              rr_subject = ts_user s, rr_scopes = ts_scopes s, rr_auth_time = ts_auth_time s, rr_amr = ts_amr s\<rparr>"
    "dw_db w' = dw_db w"
  using assms
proof (rule token_request_tx_Inr)
  fix r s
  assume r: "r \<in> set (db_refresh (dw_db w))" "rf_hash r = hash_opaque_secret L k"
    "s \<in> set (db_tsessions (dw_db w))" "ts_id s = rf_session r"
  assume "Some q \<noteq> None \<Longrightarrow> rf_consumed r = None \<and> rf_revoked r = None \<and> rf_expires r > t \<and> ts_revoked s = None
       \<and> dw_db w' = dw_db w
       \<and> (\<exists>x \<in> set (db_users (dw_db w)). us_id x = ts_user s \<and> us_status x = user_status_active)
       \<and> the (Some q) = \<lparr>rr_token_id = rf_id r, rr_session_id = ts_id s, rr_client = ts_client s,
              rr_subject = ts_user s, rr_scopes = ts_scopes s, rr_auth_time = ts_auth_time s, rr_amr = ts_amr s\<rparr>"
  from this [OF option.distinct(2)] show thesis by (intro that [OF r]) (elim conjE, simp only: option.sel)+
qed

lemma token_request_Inr:
  fixes w :: "(db, 'z) db_world_scheme"
  assumes ok: "others_ok E" and wf: "db_wf (dw_db w)"
    and r: "token_request_by_refresh_token E L k w = (Inr q, w')"
  obtains t and v u :: "(db, 'z) db_world_scheme" where "token_request_tx E L k t v = (Inr (Some q), u)"
    "db_reach (dw_db w) (dw_db v)" "dw_db w' = dw_db u"
proof -
  from r obtain t and v :: "(db, 'z) db_world_scheme" where tx: "oidc_tx E (token_request_tx E L k t) v = (Inr (Some q), w')"
    and v: "dw_db v = dw_db w"
    by (auto simp: token_request_by_refresh_token_def seq_eq now_eq check_eq split: option.splits)
  have wfv: "db_wf (dw_db v)" using wf v by simp
  obtain v0 u :: "(db, 'z) db_world_scheme" where "db_reach (dw_db v) (dw_db v0)"
    "token_request_tx E L k t v0 = (Inr (Some q), u)" "dw_db w' = dw_db u" by (rule tx_step [OF ok wfv tx])
  with v show thesis by (intro that) auto
qed

lemma spent_refresh_no_request:
  fixes w :: "(db, 'z) db_world_scheme"
  assumes "others_ok E" "db_wf (dw_db w)"
    and "r \<in> set (db_refresh (dw_db w))" "rf_hash r = hash_opaque_secret L k" "rf_consumed r \<noteq> None"
  shows "token_request_by_refresh_token E L k w \<noteq> (Inr q, w')"
proof
  assume "token_request_by_refresh_token E L k w = (Inr q, w')"
  from token_request_Inr [OF assms(1,2) this] obtain t and v u :: "(db, 'z) db_world_scheme" where
    tx: "token_request_tx E L k t v = (Inr (Some q), u)" and v: "db_reach (dw_db w) (dw_db v)" by metis
  from token_request_tx_Inr [OF tx] obtain x where
    x: "x \<in> set (db_refresh (dw_db v))" "rf_hash x = hash_opaque_secret L k" "rf_consumed x = None" by (metis option.simps(3))
  obtain r' where r': "r' \<in> set (db_refresh (dw_db v))" "refresh_evolves r r'"
    using reach_rowsD(11) [OF v assms(3)] by blast
  have "unique_by rf_hash (db_refresh (dw_db v))" using v by (auto simp: db_reach_def dest: wf_unique)
  then have "r' = x" using unique_byD r' x assms(4) by (metis refresh_evolves_def)
  then show False using r' x assms(5) by (auto simp: refresh_evolves_def)
qed

lemma spent_refresh_no_pair:
  fixes w :: "(db, 'z) db_world_scheme"
  assumes "others_ok E" "db_wf (dw_db w)" "refresh_spent (dw_db w) (rr_token_id q)" "rr_session_id q \<noteq> []"
  shows "create_access_and_refresh_tokens E L (RefreshTokenRequest q) w \<noteq> (Inr y, w')"
proof
  assume "create_access_and_refresh_tokens E L (RefreshTokenRequest q) w = (Inr y, w')"
  then obtain a k x where "create_access_and_refresh_tokens E L (RefreshTokenRequest q) w = (Inr (a, k, x), w')"
    by (cases y) auto
  from create_tokens_Inr [OF assms(1,2) this] obtain g i t and v u :: "(db, 'z) db_world_scheme" where
    g: "token_grant_from_request (RefreshTokenRequest q) = Inr g"
    and p: "issue_token_pair E L g a i k t v = (Inr False, u)" and r: "db_reach (dw_db w) (dw_db v)" by metis
  from g have gc: "tg_session_id g \<noteq> []" "tg_refresh_token_id g = rr_token_id q"
    using assms(4) by (auto simp: token_grant_from_request_def)
  from p gc(1) obtain s f e and v1 :: "(db, 'z) db_world_scheme" where
    "rotate_refresh_token E g t v = (Inr (Some (s, f, e)), v1)" by (auto elim: issue_token_pair_Inr)
  then obtain cur where cur: "cur \<in> set (db_refresh (dw_db v))" "rf_id cur = rr_token_id q" "rf_consumed cur = None"
    by (rule rotate_refresh_token_Inr) (use gc in auto)
  have "refresh_spent (dw_db v) (rr_token_id q)" by (rule refresh_spent_stays [OF r assms(3)])
  then obtain z where z: "z \<in> set (db_refresh (dw_db v))" "rf_id z = rr_token_id q" "rf_consumed z \<noteq> None"
    by (auto simp: refresh_spent_def)
  have "unique_by rf_id (db_refresh (dw_db v))" using r by (auto simp: db_reach_def dest: wf_unique)
  then have "z = cur" using unique_byD z cur by metis
  then show False using z cur by simp
qed

text \<open>A refresh request that was granted describes the live token that was looked up.\<close>

lemma refresh_lookup_rows:
  fixes w :: "(db, 'z) db_world_scheme"
  assumes "others_ok E" "db_wf (dw_db w)" "token_request_by_refresh_token E L k w = (Inr q, w1)"
  obtains r s where "r \<in> set (db_refresh (dw_db w1))" "rf_hash r = hash_opaque_secret L k"
    "s \<in> set (db_tsessions (dw_db w1))" "ts_id s = rf_session r"
    "q = \<lparr>rr_token_id = rf_id r, rr_session_id = ts_id s, rr_client = ts_client s,
          rr_subject = ts_user s, rr_scopes = ts_scopes s, rr_auth_time = ts_auth_time s, rr_amr = ts_amr s\<rparr>"
    "db_wf (dw_db w1)"
proof -
  from token_request_Inr [OF assms] obtain t and v u :: "(db, 'z) db_world_scheme" where
    tx: "token_request_tx E L k t v = (Inr (Some q), u)" and v: "db_reach (dw_db w) (dw_db v)"
    and w1: "dw_db w1 = dw_db u" .
  show thesis by (rule token_request_tx_Some [OF tx], intro that) (use v w1 in \<open>auto simp: db_reach_def\<close>)
qed

text \<open>What an exchange of a refresh token leaves.\<close>

lemma refresh_exchange_db:
  fixes w :: "(db, 'z) db_world_scheme"
  assumes "others_ok E" "db_wf (dw_db w)" "rr_session_id q \<noteq> []"
    and "create_access_and_refresh_tokens E L (RefreshTokenRequest (set_current_scopes sc q)) w = (Inr (a, k, x), w')"
  obtains g :: token_grant and i s f cur se t and v :: "(db, 'z) db_world_scheme" where "tg_scopes g = sc" "s = rr_session_id q"
    "db_reach (dw_db w) (dw_db v)"
    "cur \<in> set (db_refresh (dw_db v))" "rf_id cur = rr_token_id q"
    "rf_consumed cur = None \<and> rf_revoked cur = None \<and> rf_expires cur > t"
    "se \<in> set (db_tsessions (dw_db v))" "ts_id se = s" "ts_revoked se = None" "f = ts_family se"
    "db_refresh (dw_db w') = ent_update_where
         (\<lambda>x. rf_id x = rf_id cur \<and> rf_consumed x = None \<and> rf_revoked x = None \<and> rf_expires x > t)
         (\<lambda>x. x\<lparr>rf_consumed := Some t\<rparr>) (db_refresh (dw_db v))
       @ [new_refresh_row i s f (hash_opaque_secret L k) (Some (rf_id cur)) t (t + refresh_token_ttl)]"
    "db_tsessions (dw_db w') = ent_update_where (\<lambda>x. ts_id x = s \<and> ts_revoked x = None)
       (\<lambda>x. x\<lparr>ts_scopes := tg_scopes g, ts_update := t\<rparr>) (db_tsessions (dw_db v))"
proof -
  let ?q = "set_current_scopes sc q"
  from create_tokens_Inr [OF assms(1,2,4)] obtain g i t and v u :: "(db, 'z) db_world_scheme" where
    g: "token_grant_from_request (RefreshTokenRequest ?q) = Inr g"
    and p: "issue_token_pair E L g a i k t v = (Inr False, u)" and u: "dw_db w' = dw_db u"
    and r: "db_reach (dw_db w) (dw_db v)" .
  from g have gc: "tg_session_id g = rr_session_id q" "tg_refresh_token_id g = rr_token_id q" "tg_scopes g = sc"
    by (auto simp: token_grant_from_request_def set_current_scopes_def)
  from p gc(1) assms(3) obtain s f e and v1 :: "(db, 'z) db_world_scheme" where
    fam: "rotate_refresh_token E g t v = (Inr (Some (s, f, e)), v1)"
    and u1: "dw_db u = (dw_db v1)
       \<lparr>db_access := db_access (dw_db v1) @ [new_access_row a s g t (t + access_token_ttl)],
        db_refresh := db_refresh (dw_db v1)
          @ [new_refresh_row i s f (hash_opaque_secret L k) e t (t + refresh_token_ttl)]\<rparr>"
    by (auto elim: issue_token_pair_Inr)
  from fam obtain cur se where
    cur: "cur \<in> set (db_refresh (dw_db v))" "rf_id cur = tg_refresh_token_id g" "rf_consumed cur = None"
      "rf_revoked cur = None" "rf_expires cur > t" and se: "s = tg_session_id g" "e = Some (rf_id cur)"
      "se \<in> set (db_tsessions (dw_db v))" "ts_id se = s" "ts_revoked se = None" "f = ts_family se"
    and v1: "dw_db v1 = (dw_db v)
       \<lparr>db_tsessions := ent_update_where (\<lambda>x. ts_id x = s \<and> ts_revoked x = None)
          (\<lambda>x. x\<lparr>ts_scopes := tg_scopes g, ts_update := t\<rparr>) (db_tsessions (dw_db v)),
        db_refresh := ent_update_where
          (\<lambda>x. rf_id x = rf_id cur \<and> rf_consumed x = None \<and> rf_revoked x = None \<and> rf_expires x > t)
          (\<lambda>x. x\<lparr>rf_consumed := Some t\<rparr>) (db_refresh (dw_db v))\<rparr>"
    by (rule rotate_refresh_token_Inr)
  show thesis
    by (rule that [where g = g and v = v and t = t and s = s and i = i and cur = cur and se = se])
      (use cur se gc r u u1 v1 in simp_all)
qed

text \<open>
  The token looked up is the one exchanged: its row is consumed, and the new one follows it in its session.
\<close>

lemma refresh_exchange_rows:
  fixes w w2 :: "(db, 'z) db_world_scheme"
  assumes "others_ok E" "db_wf (dw_db w)" "token_request_by_refresh_token E L k w = (Inr q, w1)"
    and reach: "db_reach (dw_db w1) (dw_db w2)" and "rr_session_id q \<noteq> []"
    and "create_access_and_refresh_tokens E L (RefreshTokenRequest (set_current_scopes sc q)) w2 = (Inr (a, k2, x), w3)"
  shows "\<exists>old \<in> set (db_refresh (dw_db w3)). \<exists>new \<in> set (db_refresh (dw_db w3)). \<exists>s \<in> set (db_tsessions (dw_db w3)).
        rf_id old = rr_token_id q \<and> rf_hash old = hash_opaque_secret L k \<and> rf_consumed old \<noteq> None
        \<and> rf_hash new = hash_opaque_secret L k2 \<and> rf_parent new = Some (rf_id old)
        \<and> rf_session new = rf_session old \<and> rf_session new = ts_id s \<and> rf_family new = ts_family s
        \<and> rf_consumed new = None \<and> rf_revoked new = None \<and> ts_revoked s = None \<and> ts_scopes s = sc
        \<and> ts_user s = rr_subject q \<and> ts_client s = rr_client q"
proof (rule refresh_lookup_rows [OF assms(1-3)])
  fix r0 s0 assume r0: "r0 \<in> set (db_refresh (dw_db w1))" "rf_hash r0 = hash_opaque_secret L k"
    and s0: "s0 \<in> set (db_tsessions (dw_db w1))" "ts_id s0 = rf_session r0"
    and q: "q = \<lparr>rr_token_id = rf_id r0, rr_session_id = ts_id s0, rr_client = ts_client s0,
        rr_subject = ts_user s0, rr_scopes = ts_scopes s0, rr_auth_time = ts_auth_time s0, rr_amr = ts_amr s0\<rparr>"
  have wf2: "db_wf (dw_db w2)" using reach by (simp add: db_reach_def)
  show ?thesis
  proof (rule refresh_exchange_db [OF assms(1) wf2 assms(5,6)], goal_cases)
    case (1 g i s f cur se t v)
    have via: "db_reach (dw_db w1) (dw_db v)" by (rule db_reach_trans [OF reach 1(3)])
    obtain r' s' where ev: "r' \<in> set (db_refresh (dw_db v))" "refresh_evolves r0 r'"
      "s' \<in> set (db_tsessions (dw_db v))" "tsession_evolves s0 s'"
      using reach_rowsD(11) [OF via r0(1)] reach_rowsD(9) [OF via s0(1)] by blast
    have uniq: "unique_by rf_id (db_refresh (dw_db v))" "unique_by ts_id (db_tsessions (dw_db v))"
      using 1(3) by (auto simp: db_reach_def dest: wf_unique)
    have same: "r' = cur" "s' = se"
      by (rule unique_byD [OF uniq(1) ev(1) 1(4)], use ev 1 q in \<open>simp add: refresh_evolves_def\<close>)
        (rule unique_byD [OF uniq(2) ev(3) 1(7)], use ev 1 q in \<open>simp add: tsession_evolves_def\<close>)
    have rows: "cur\<lparr>rf_consumed := Some t\<rparr> \<in> set (db_refresh (dw_db w3))"
      "new_refresh_row i s f (hash_opaque_secret L k2) (Some (rf_id cur)) t (t + refresh_token_ttl) \<in> set (db_refresh (dw_db w3))"
      "se\<lparr>ts_scopes := tg_scopes g, ts_update := t\<rparr> \<in> set (db_tsessions (dw_db w3))"
      using updated_in [OF 1(4), of "\<lambda>x. rf_id x = rf_id cur \<and> rf_consumed x = None \<and> rf_revoked x = None \<and> rf_expires x > t"
          "\<lambda>x. x\<lparr>rf_consumed := Some t\<rparr>"] updated_in [OF 1(7), of "\<lambda>x. ts_id x = s \<and> ts_revoked x = None"
          "\<lambda>x. x\<lparr>ts_scopes := tg_scopes g, ts_update := t\<rparr>"] 1 by (simp_all del: set_update_where)
    show ?case
      by (intro bexI [OF _ rows(1)] bexI [OF _ rows(2)] bexI [OF _ rows(3)])
        (use ev same 1 q r0 s0 in \<open>auto simp: new_refresh_row_def refresh_evolves_def tsession_evolves_def\<close>)
  qed
qed

text \<open>
  C12. Refresh tokens rotate. When the engine looked a refresh token up and, later, exchanged it (over
  any scopes), the old token is consumed and a new live one, under the hash of the returned secret,
  names it as its parent, in the same live session and family; and the old secret is never accepted
  again, neither looked up nor exchanged, whatever requests the service serves from then on.
\<close>

theorem refresh_token_rotates:
  fixes w w2 :: "(db, 'z) db_world_scheme"
  assumes "others_ok E" "deps_ok D" "db_wf (dw_db w)"
    and "token_request_by_refresh_token E L k w = (Inr q, w1)"
    and "db_reach (dw_db w1) (dw_db w2)" "rr_session_id q \<noteq> []"
    and "create_access_and_refresh_tokens E L (RefreshTokenRequest (set_current_scopes sc q)) w2 = (Inr (a, k2, x), w3)"
  shows "(\<exists>old \<in> set (db_refresh (dw_db w3)). \<exists>new \<in> set (db_refresh (dw_db w3)). \<exists>s \<in> set (db_tsessions (dw_db w3)).
        rf_hash old = hash_opaque_secret L k \<and> rf_consumed old \<noteq> None
        \<and> rf_hash new = hash_opaque_secret L k2 \<and> rf_parent new = Some (rf_id old)
        \<and> rf_session new = rf_session old \<and> rf_session new = ts_id s \<and> rf_family new = ts_family s
        \<and> rf_consumed new = None \<and> rf_revoked new = None \<and> ts_revoked s = None \<and> ts_scopes s = sc
        \<and> ts_user s = rr_subject q \<and> ts_client s = rr_client q)
     \<and> (\<forall>rs q2 v. token_request_by_refresh_token E L k (platform_all E L D rs w3) \<noteq> (Inr q2, v))
     \<and> (\<forall>rs q2 y v. rr_token_id q2 = rr_token_id q \<longrightarrow> rr_session_id q2 \<noteq> [] \<longrightarrow>
          create_access_and_refresh_tokens E L (RefreshTokenRequest q2) (platform_all E L D rs w3) \<noteq> (Inr y, v))"
proof -
  have wf2: "db_wf (dw_db w2)" using assms(5) by (simp add: db_reach_def)
  have wf3: "db_wf (dw_db w3)"
    using keeps_step [OF assms(1) wf2 assms(7) create_access_and_refresh_tokens_keeps] by (simp add: db_reach_def)
  note later = platform_all_reach [OF assms(1,2) wf3]
  note rows = refresh_exchange_rows [OF assms(1,3,4,5,6,7)]
  then obtain old where old: "old \<in> set (db_refresh (dw_db w3))" "rf_id old = rr_token_id q"
    "rf_hash old = hash_opaque_secret L k" "rf_consumed old \<noteq> None" by blast
  have spent: "refresh_spent (dw_db w3) (rr_token_id q)" unfolding refresh_spent_def using old by blast
  show ?thesis
  proof (intro conjI allI impI)
    fix rs q2 v
    obtain o2 where o2: "o2 \<in> set (db_refresh (dw_db (platform_all E L D rs w3)))" "refresh_evolves old o2"
      using reach_rowsD(11) [OF later old(1)] by blast
    then show "token_request_by_refresh_token E L k (platform_all E L D rs w3) \<noteq> (Inr q2, v)"
      using spent_refresh_no_request [OF assms(1) _ o2(1)] later [of L rs] old
      by (auto simp: refresh_evolves_def db_reach_def)
  next
    fix rs and q2 :: refresh_token_request and y v assume "rr_token_id q2 = rr_token_id q" "rr_session_id q2 \<noteq> []"
    then show "create_access_and_refresh_tokens E L (RefreshTokenRequest q2) (platform_all E L D rs w3) \<noteq> (Inr y, v)"
      using spent_refresh_no_pair [OF assms(1), of "platform_all E L D rs w3" q2 L y v] later [of L rs]
        refresh_spent_stays [OF later [of L rs] spent] by (simp add: db_reach_def)
  qed (use rows in blast)
qed

section \<open>Replays\<close>

lemma in_tx_Inl_kind:
  "in_tx_with b c E body w = (Inl e, w') \<Longrightarrow> \<exists>es. e = Node JoinedErrors es \<or> e = Node (Errorf b) es \<or> e = Node (Errorf c) es"
  by (auto simp: in_tx_with_def seq_def interfere_def errors_join_def split: option.splits prod.splits sum.splits)

abbreviation replay_detected :: err where
  "replay_detected \<equiv> storage_not_found (errorf ''OAuth refresh token replay detected'')"

lemma token_request_replay:
  fixes w :: "(db, 'z) db_world_scheme"
  assumes ok: "others_ok E" and wf: "db_wf (dw_db w)"
    and r: "token_request_by_refresh_token E L k w = (Inl replay_detected, w')"
  obtains t and v u :: "(db, 'z) db_world_scheme" where "token_request_tx E L k t v = (Inr None, u)"
    "db_reach (dw_db w) (dw_db v)" "dw_db w' = dw_db u"
proof -
  from r obtain t and v :: "(db, 'z) db_world_scheme" where tx: "oidc_tx E (token_request_tx E L k t) v = (Inr None, w')"
    and v: "dw_db v = dw_db w"
    by (auto simp: token_request_by_refresh_token_def seq_eq now_eq check_eq storage_not_found_def
        dest!: in_tx_Inl_kind split: option.splits)
  have wfv: "db_wf (dw_db v)" using wf v by simp
  obtain v0 u :: "(db, 'z) db_world_scheme" where "db_reach (dw_db v) (dw_db v0)"
    "token_request_tx E L k t v0 = (Inr None, u)" "dw_db w' = dw_db u" by (rule tx_step [OF ok wfv tx])
  with v show thesis by (intro that) auto
qed

lemma token_request_tx_None:
  assumes "token_request_tx E L k t w = (Inr None, w')"
  obtains r where "r \<in> set (db_refresh (dw_db w))" "rf_hash r = hash_opaque_secret L k"
    "tokens_dead (\<lambda>x. ts_id x = rf_session r) (dw_db w')" "\<exists>x \<in> set (db_tsessions (dw_db w')). ts_id x = rf_session r"
  using assms
proof (rule token_request_tx_Inr)
  fix r s
  assume r: "r \<in> set (db_refresh (dw_db w))" "rf_hash r = hash_opaque_secret L k"
  assume "(None :: refresh_token_request option) = None \<Longrightarrow>
      rf_consumed r \<noteq> None \<and> tokens_dead (\<lambda>x. ts_id x = rf_session r) (dw_db w')
      \<and> (\<exists>x \<in> set (db_tsessions (dw_db w')). ts_id x = rf_session r)"
  from this [OF refl] show thesis by (elim conjE) (rule that [OF r])
qed

lemma quiet_replay:
  assumes q: "quiet E"
    and r: "ent_only (\<lambda>r. rf_hash r = hash_opaque_secret L k) (db_refresh (dw_db w)) = Inr r" "rf_consumed r \<noteq> None"
    and s: "ent_only (\<lambda>x. ts_id x = rf_session r) (db_tsessions (dw_db w)) = Inr s"
  shows "fst (token_request_by_refresh_token E L k w) = Inl replay_detected"
  using r s
  by (simp add: token_request_by_refresh_token_def token_request_tx_def revoke_token_session_def or_not_found_def
      or_wrapped_def check_run seq_run now_def quiet_run [OF q] only_def update_where_def table_defs)

section \<open>Access tokens\<close>

lemma active_access_token_Inr:
  fixes w :: "(db, 'z) db_world_scheme"
  assumes ok: "others_ok E" and wf: "db_wf (dw_db w)" and r: "active_access_token E i u w = (Inr a, w')"
  obtains t s and v :: "(db, 'z) db_world_scheme" where "db_reach (dw_db w) (dw_db v)" "db_reach (dw_db v) (dw_db w')"
    "a \<in> set (db_access (dw_db v))" "at_id a = i" "at_subject a = u" "at_revoked a = None" "at_expires a > t"
    "s \<in> set (db_tsessions (dw_db w'))" "ts_id s = at_session a" "ts_revoked s = None" "t = clock E (tick w)"
proof -
  from r obtain v v1 :: "(db, 'z) db_world_scheme" where
    e1: "db_exec E (only access_t (\<lambda>a. at_id a = i \<and> at_subject a = u \<and> at_expires a > clock E (tick w)
                                          \<and> at_revoked a = None)) (w\<lparr>tick := Suc (tick w)\<rparr>) = (Inr a, v)"
    and e2: "db_exec E (exists_where tsessions_t (\<lambda>s. ts_id s = at_session a \<and> ts_revoked s = None)) v = (Inr True, w')"
    by (auto simp: active_access_token_def seq_eq now_eq pass_Inr oidc_wrappers_Inr split: if_splits)
  have wf0: "db_wf (dw_db (w\<lparr>tick := Suc (tick w)\<rparr>))" using wf by simp
  note s1 = read_step [OF ok wf0 e1]
  then have wf1: "db_wf (dw_db v)" by (simp add: db_reach_def)
  from exec_step [OF ok wf1 e2] obtain d where d: "db_reach (dw_db v) d"
    "exists_where tsessions_t (\<lambda>s. ts_id s = at_session a \<and> ts_revoked s = None) (clock E (tick v)) d = (Inr True, dw_db w')" .
  then have w': "dw_db w' = d" and "\<exists>s \<in> set (db_tsessions d). ts_id s = at_session a \<and> ts_revoked s = None"
    by (auto simp: exists_where_eq tsessions_t_def list_ex_iff)
  then show thesis using ent_only_in [OF s1(2)] s1(1) d(1)
    by (auto simp: access_t_def intro!: that [of v])
qed

lemma dead_session_no_access:
  fixes w :: "(db, 'z) db_world_scheme"
  assumes ok: "others_ok E" and r: "db_reach d (dw_db w)"
    and a: "a \<in> set (db_access d)" and s: "s \<in> set (db_tsessions d)" "ts_id s = at_session a" "ts_revoked s \<noteq> None"
  shows "active_access_token E (at_id a) u w \<noteq> (Inr y, w')"
proof
  have wf: "db_wf (dw_db w)" using r by (simp add: db_reach_def)
  assume "active_access_token E (at_id a) u w = (Inr y, w')"
  from active_access_token_Inr [OF ok wf this] obtain z and v :: "(db, 'z) db_world_scheme" where
    v: "db_reach (dw_db w) (dw_db v)" "db_reach (dw_db v) (dw_db w')" and y: "y \<in> set (db_access (dw_db v))" "at_id y = at_id a"
    and z: "z \<in> set (db_tsessions (dw_db w'))" "ts_id z = at_session y" "ts_revoked z = None" by metis
  obtain a' where a': "a' \<in> set (db_access (dw_db v))" "access_evolves a a'"
    using reach_rowsD(10) [OF db_reach_trans [OF r v(1)] a] by blast
  have "unique_by at_id (db_access (dw_db v))" using v by (auto simp: db_reach_def dest: wf_unique)
  then have "a' = y" by (rule unique_byD [OF _ a'(1) y(1)]) (use a' y in \<open>simp add: access_evolves_def\<close>)
  then have ys: "at_session y = at_session a" using a' by (simp add: access_evolves_def)
  obtain s' where s': "s' \<in> set (db_tsessions (dw_db w'))" "tsession_evolves s s'"
    using reach_rowsD(9) [OF db_reach_trans [OF db_reach_trans [OF r v(1)] v(2)] s(1)] by blast
  have "unique_by ts_id (db_tsessions (dw_db w'))" using v by (auto simp: db_reach_def dest: wf_unique)
  then have "s' = z" by (rule unique_byD [OF _ s'(1) z(1)]) (use s' z ys s in \<open>simp add: tsession_evolves_def\<close>)
  then show False using s' s z by (auto simp: tsession_evolves_def)
qed

section \<open>Dead sessions and their refresh tokens\<close>

lemma dead_session_no_request:
  fixes w :: "(db, 'z) db_world_scheme"
  assumes ok: "others_ok E" and r: "db_reach d (dw_db w)"
    and rt: "rt \<in> set (db_refresh d)" "rf_hash rt = hash_opaque_secret L k"
    and s: "s \<in> set (db_tsessions d)" "ts_id s = rf_session rt" "ts_revoked s \<noteq> None"
  shows "token_request_by_refresh_token E L k w \<noteq> (Inr q, w')"
proof
  have wf: "db_wf (dw_db w)" using r by (simp add: db_reach_def)
  assume "token_request_by_refresh_token E L k w = (Inr q, w')"
  from token_request_Inr [OF ok wf this] obtain t and v u :: "(db, 'z) db_world_scheme" where
    tx: "token_request_tx E L k t v = (Inr (Some q), u)" and v: "db_reach (dw_db w) (dw_db v)" by metis
  from token_request_tx_Inr [OF tx] obtain x z where
    x: "x \<in> set (db_refresh (dw_db v))" "rf_hash x = hash_opaque_secret L k"
    and z: "z \<in> set (db_tsessions (dw_db v))" "ts_id z = rf_session x" "ts_revoked z = None" by (metis option.simps(3))
  have rv: "db_reach d (dw_db v)" by (rule db_reach_trans [OF r v])
  obtain y where y: "y \<in> set (db_refresh (dw_db v))" "refresh_evolves rt y" using reach_rowsD(11) [OF rv rt(1)] by blast
  have "unique_by rf_hash (db_refresh (dw_db v))" using v by (auto simp: db_reach_def dest: wf_unique)
  then have "y = x" by (rule unique_byD [OF _ y(1) x(1)]) (use y x rt in \<open>simp add: refresh_evolves_def\<close>)
  then have same: "rf_session x = rf_session rt" using y by (simp add: refresh_evolves_def)
  obtain s' where s': "s' \<in> set (db_tsessions (dw_db v))" "tsession_evolves s s'" using reach_rowsD(9) [OF rv s(1)] by blast
  have "unique_by ts_id (db_tsessions (dw_db v))" using v by (auto simp: db_reach_def dest: wf_unique)
  then have "s' = z" by (rule unique_byD [OF _ s'(1) z(1)]) (use s' z s same in \<open>simp add: tsession_evolves_def\<close>)
  then show False using s' s z by (auto simp: tsession_evolves_def)
qed

lemma dead_session_no_rotation:
  fixes w :: "(db, 'z) db_world_scheme"
  assumes ok: "others_ok E" and r: "db_reach d (dw_db w)"
    and s: "s \<in> set (db_tsessions d)" "ts_id s = rr_session_id q" "ts_revoked s \<noteq> None" and n: "rr_session_id q \<noteq> []"
  shows "create_access_and_refresh_tokens E L (RefreshTokenRequest (set_current_scopes sc q)) w \<noteq> (Inr y, w')"
proof
  assume run: "create_access_and_refresh_tokens E L (RefreshTokenRequest (set_current_scopes sc q)) w = (Inr y, w')"
  have wf: "db_wf (dw_db w)" using r by (simp add: db_reach_def)
  obtain a k x where y: "y = (a, k, x)" by (cases y) auto
  obtain z and v :: "(db, 'z) db_world_scheme" where v: "db_reach (dw_db w) (dw_db v)"
    and z: "z \<in> set (db_tsessions (dw_db v))" "ts_id z = rr_session_id q" "ts_revoked z = None"
    by (rule refresh_exchange_db [OF ok wf n run [unfolded y]]) blast
  obtain s' where s': "s' \<in> set (db_tsessions (dw_db v))" "tsession_evolves s s'"
    using reach_rowsD(9) [OF db_reach_trans [OF r v] s(1)] by blast
  have "unique_by ts_id (db_tsessions (dw_db v))" using v by (auto simp: db_reach_def dest: wf_unique)
  then have "s' = z" by (rule unique_byD [OF _ s'(1) z(1)]) (use s' z s in \<open>simp add: tsession_evolves_def\<close>)
  then show False using s' s z by (auto simp: tsession_evolves_def)
qed

lemma replayed_session_dead:
  fixes w :: "(db, 'z) db_world_scheme"
  assumes "others_ok E" "db_wf (dw_db w)" "old \<in> set (db_refresh (dw_db w))" "rf_hash old = hash_opaque_secret L k"
    and "token_request_by_refresh_token E L k w = (Inl replay_detected, w')"
  shows "tokens_dead (\<lambda>s. ts_id s = rf_session old) (dw_db w')"
    and "\<exists>s \<in> set (db_tsessions (dw_db w')). ts_id s = rf_session old \<and> ts_revoked s \<noteq> None"
proof -
  from assms(5) obtain t and v u :: "(db, 'z) db_world_scheme" where
    tx: "token_request_tx E L k t v = (Inr None, u)" and v: "db_reach (dw_db w) (dw_db v)" and u: "dw_db w' = dw_db u"
    using token_request_replay [OF assms(1,2)] by blast
  from tx obtain x where x: "x \<in> set (db_refresh (dw_db v))" "rf_hash x = hash_opaque_secret L k"
    and dead: "tokens_dead (\<lambda>s. ts_id s = rf_session x) (dw_db u)"
    and s: "\<exists>s \<in> set (db_tsessions (dw_db u)). ts_id s = rf_session x" by (rule token_request_tx_None)
  obtain o' where o': "o' \<in> set (db_refresh (dw_db v))" "refresh_evolves old o'"
    using reach_rowsD(11) [OF v assms(3)] by blast
  have "unique_by rf_hash (db_refresh (dw_db v))" using v by (auto simp: db_reach_def dest: wf_unique)
  then have "o' = x" by (rule unique_byD [OF _ o'(1) x(1)]) (use o' x assms(4) in \<open>simp add: refresh_evolves_def\<close>)
  then have same: "rf_session x = rf_session old" using o' by (simp add: refresh_evolves_def)
  show d: "tokens_dead (\<lambda>s. ts_id s = rf_session old) (dw_db w')" using dead u same by simp
  then show "\<exists>s \<in> set (db_tsessions (dw_db w')). ts_id s = rf_session old \<and> ts_revoked s \<noteq> None"
    using s u same by (auto simp: tokens_dead_def)
qed

lemma replay_answered:
  assumes q: "quiet E" and wf: "db_wf (dw_db w)"
    and old: "old \<in> set (db_refresh (dw_db w))" "rf_hash old = hash_opaque_secret L k" "rf_consumed old \<noteq> None"
    and s: "s \<in> set (db_tsessions (dw_db w))" "ts_id s = rf_session old"
  shows "fst (token_request_by_refresh_token E L k w) = Inl replay_detected"
proof -
  have "ent_only (\<lambda>r. rf_hash r = hash_opaque_secret L k) (db_refresh (dw_db w)) = Inr old"
    by (rule unique_by_only [OF wf_unique(18) [OF wf] old(1) refl]) (use old(2) in auto)
  moreover have "ent_only (\<lambda>x. ts_id x = rf_session old) (db_tsessions (dw_db w)) = Inr s"
    by (rule unique_by_only [OF wf_unique(15) [OF wf] s(1) refl]) (use s in auto)
  ultimately show ?thesis using quiet_replay [OF q _ old(3)] by blast
qed

text \<open>
  C2. The replay of a rotated refresh token ends its session. Looking up a consumed refresh token never gives a request.
  When it is answered as a replay, the token session and every access and refresh token of it are revoked, the one in use
  included, and whatever requests the service serves from then on: no access token of the session is active, neither for
  user info nor for introspection, no refresh token of the session gives a request, and no request of the session, not
  even one that was looked up before the replay, is exchanged for tokens. With no failure and nothing else running, the
  replay of a token whose session exists is answered so.
\<close>

theorem refresh_replay_revokes_session:
  fixes w :: "(db, 'z) db_world_scheme"
  assumes "others_ok E" "deps_ok D" "db_wf (dw_db w)"
    and "old \<in> set (db_refresh (dw_db w))" "rf_hash old = hash_opaque_secret L k" "rf_consumed old \<noteq> None"
    and "token_request_by_refresh_token E L k w = (r, w')"
  shows "(\<forall>q. r \<noteq> Inr q)
     \<and> (r = Inl replay_detected \<longrightarrow> tokens_dead (\<lambda>s. ts_id s = rf_session old) (dw_db w')
          \<and> (\<forall>rs a u y v. a \<in> set (db_access (dw_db w')) \<longrightarrow> at_session a = rf_session old \<longrightarrow>
               (\<forall>pl info. set_userinfo_from_token E pl info (at_id a) u (platform_all E L D rs w') \<noteq> (Inr y, v)))
          \<and> (\<forall>rs a u y v. a \<in> set (db_access (dw_db w')) \<longrightarrow> at_session a = rf_session old \<longrightarrow>
               (\<forall>pl c. set_introspection_from_token E pl (at_id a) u c (platform_all E L D rs w') \<noteq> (Inr y, v)))
          \<and> (\<forall>rs rt k2 q v. rt \<in> set (db_refresh (dw_db w')) \<longrightarrow> rf_session rt = rf_session old \<longrightarrow>
               rf_hash rt = hash_opaque_secret L k2 \<longrightarrow>
               token_request_by_refresh_token E L k2 (platform_all E L D rs w') \<noteq> (Inr q, v))
          \<and> (\<forall>rs q sc y v. rr_session_id q = rf_session old \<longrightarrow> rr_session_id q \<noteq> [] \<longrightarrow>
               create_access_and_refresh_tokens E L (RefreshTokenRequest (set_current_scopes sc q))
                 (platform_all E L D rs w') \<noteq> (Inr y, v)))
     \<and> (quiet E \<longrightarrow> (\<exists>s \<in> set (db_tsessions (dw_db w)). ts_id s = rf_session old) \<longrightarrow> r = Inl replay_detected)"
    (is "?never \<and> (_ \<longrightarrow> ?ended) \<and> ?quiet")
proof (rule conjI [OF _ conjI])
  show ?never using spent_refresh_no_request [OF assms(1,3-6)] assms(7) by blast
  show ?quiet using replay_answered [OF _ assms(3-6)] assms(7) by fastforce
  show "r = Inl replay_detected \<longrightarrow> ?ended"
  proof
    assume rep: "r = Inl replay_detected"
    note run = assms(7) [unfolded rep]
    note dead = replayed_session_dead [OF assms(1,3-5) run]
    from dead(2) obtain s where s: "s \<in> set (db_tsessions (dw_db w'))" "ts_id s = rf_session old" "ts_revoked s \<noteq> None" by blast
    have wf': "db_wf (dw_db w')"
      using keeps_step [OF assms(1,3) run token_request_by_refresh_token_keeps] by (simp add: db_reach_def)
    note later = platform_all_reach [OF assms(1,2) wf']
    have no: "active_access_token E (at_id a) u (platform_all E L D rs w') \<noteq> (Inr y, v)"
      if "a \<in> set (db_access (dw_db w'))" "at_session a = rf_session old" for rs a u y v
      by (rule dead_session_no_access [OF assms(1) later that(1) s(1)]) (use that s in simp_all)
    have req: "token_request_by_refresh_token E L k2 (platform_all E L D rs w') \<noteq> (Inr q, v)"
      if "rt \<in> set (db_refresh (dw_db w'))" "rf_session rt = rf_session old" "rf_hash rt = hash_opaque_secret L k2" for rs rt k2 q v
      by (rule dead_session_no_request [OF assms(1) later that(1,3) s(1)]) (use that s in simp_all)
    have rot: "create_access_and_refresh_tokens E L (RefreshTokenRequest (set_current_scopes sc q)) (platform_all E L D rs w') \<noteq> (Inr y, v)"
      if "rr_session_id q = rf_session old" "rr_session_id q \<noteq> []" for rs q sc y v
      by (rule dead_session_no_rotation [OF assms(1) later s(1)]) (use that s in simp_all)
    show ?ended
      using dead(1) no req rot by (auto simp: set_userinfo_from_token_def set_introspection_from_token_def pass_Inr)
  qed
qed

section \<open>The end of a login session\<close>

text \<open>
  C10. Logging out of the browser ends the OAuth tokens it gave rise to: after a successful logout, an
  access token whose token session was opened from that login session is never active again, neither
  for user info nor for introspection, whatever requests the service serves from then on.
\<close>

theorem logout_ends_access_tokens:
  fixes w :: "(db, 'z) db_world_scheme"
  assumes "others_ok E" "plain_faults E" "deps_ok D" "db_wf (dw_db w)"
    and "session_logout E (iam_sessions E L) sid w = (Inr (), w')"
    and "a \<in> set (db_access (dw_db w'))" "s \<in> set (db_tsessions (dw_db w'))" "at_session a = ts_id s" "ts_login s = sid"
  shows "(\<forall>rs pl info subject y v.
        set_userinfo_from_token E pl info (at_id a) subject (platform_all E L D rs w') \<noteq> (Inr y, v))
     \<and> (\<forall>rs pl subject client y v.
        set_introspection_from_token E pl (at_id a) subject client (platform_all E L D rs w') \<noteq> (Inr y, v))"
proof -
  note out = session_logout_success [OF assms(1,2,4,5)]
  have rev: "ts_revoked s \<noteq> None" using out(3) assms(7,9) by (auto simp: tokens_dead_def)
  have wf': "db_wf (dw_db w')" using out(1) by (simp add: db_reach_def)
  have no: "active_access_token E (at_id a) u (platform_all E L D rs w') \<noteq> (Inr y, v)" for rs u y v
    by (rule dead_session_no_access [OF assms(1) platform_all_reach [OF assms(1,3) wf'] assms(6,7)])
      (use assms(8) rev in auto)
  show ?thesis
    using no by (auto simp: set_userinfo_from_token_def set_introspection_from_token_def pass_Inr)
qed

end
