(* ===== verification/OidcDemo.thy ===== *)
theory OidcDemo
  imports OidcTokens
begin

text \<open>
  A small instance of the OpenID storage: a completed authorization request with a code, and a token
  session with one access token, a consumed and a live refresh token. It shows that the hypotheses of
  the theorems about the storage hold together.
\<close>

definition demo_request :: auth_request_row where
  "demo_request = \<lparr>oq_id = ''q1'', oq_client = ''web'', oq_redirect = ''https://c/cb'',
     oq_response_type = ''code'', oq_response_mode = [], oq_scopes = [''openid''], oq_state = Some ''st'',
     oq_nonce = Some ''no'', oq_pkce = ''ch'', oq_pkce_method = ''S256'', oq_subject = Some ''u1'',
     oq_login = Some ''s1'', oq_auth_time = Some 5, oq_done = True, oq_expires = 1000, oq_create = 1, oq_update = 1\<rparr>"

definition demo_session :: tsession_row where
  "demo_session = \<lparr>ts_id = ''t1'', ts_user = ''u1'', ts_client = ''web'', ts_login = ''s1'', ts_family = ''f1'',
     ts_scopes = [''openid''], ts_auth_time = 5, ts_amr = [''pwd''], ts_revoked = None, ts_create = 1, ts_update = 1\<rparr>"

definition demo_access :: access_row where
  "demo_access = \<lparr>at_id = ''a1'', at_session = ''t1'', at_subject = ''u1'', at_client = ''web'',
     at_scopes = [''openid''], at_issued = 1, at_expires = 1000, at_revoked = None\<rparr>"

definition demo_refresh :: "string \<Rightarrow> string \<Rightarrow> time option \<Rightarrow> refresh_row" where
  "demo_refresh i k c = \<lparr>rf_id = i, rf_session = ''t1'', rf_family = ''f1'', rf_hash = hash_opaque_secret demo_lib k,
     rf_parent = None, rf_issued = 1, rf_expires = 1000, rf_consumed = c, rf_revoked = None\<rparr>"

definition oauth_demo_db :: db where
  "oauth_demo_db = demo_db
     \<lparr>db_requests := [demo_request],
      db_codes := [new_code_row ''c1'' (hash_opaque_secret demo_lib ''cd'') demo_request 1000 1],
      db_tsessions := [demo_session], db_access := [demo_access],
      db_refresh := [demo_refresh ''r0'' ''ro'' (Some 3), demo_refresh ''r1'' ''rk'' None],
      db_clients := [\<lparr>cl_id = ''web'', cl_secret = hash_opaque_secret demo_lib ''cs'', cl_redirects = [''https://c/cb''],
         cl_grants = [], cl_responses = [], cl_scopes = [''openid''], cl_trusted = True, cl_create = 1, cl_update = 1\<rparr>]\<rparr>"

definition oauth_demo :: "db db_world" where
  "oauth_demo = \<lparr>tick = 0, dw_db = oauth_demo_db\<rparr>"

definition demo_az :: authorization_request where
  "demo_az = \<lparr>az_entity = demo_request, az_code_id = ''c1''\<rparr>"

lemma oauth_demo_wf: "db_wf (dw_db oauth_demo)"
  by (simp add: db_wf_def no_clash_def oauth_demo_def oauth_demo_db_def demo_db_def empty_db_def clash_defs demo_rows
      demo_refresh_def demo_hash_eq)

lemma demo_new_id: "new_id demo_env w = (Inr (replicate (Suc (tick w)) (CHR ''i'')), w\<lparr>tick := Suc (tick w)\<rparr>)"
  by (simp add: new_id_def demo_env_def)

lemma demo_secret_long: "length s < 32 \<Longrightarrow> b64_encode (replicate 32 (CHR ''r'')) \<noteq> s"
  using length_sextets [of "map ord_of (replicate 32 (CHR ''r''))"] by (auto simp: b64_encode_def)

lemmas oauth_rows = demo_request_def demo_session_def demo_access_def demo_refresh_def new_code_row_def
  new_tsession_row_def new_access_row_def new_refresh_row_def demo_az_def oauth_demo_def oauth_demo_db_def
  demo_db_def empty_db_def demo_rows

lemmas oauth_run = demo_exec demo_tx check_run seq_run demo_stmts or_not_found_def or_wrapped_def
  exists_where_def stmt_query_def demo_new_id demo_secret

lemma demo_exchange:
  "\<exists>x. fst (create_access_and_refresh_tokens demo_env demo_lib (AuthorizationRequest demo_az) oauth_demo) = Inr x"
proof -
  have h: "hash_opaque_secret demo_lib (b64_encode (replicate 32 (CHR ''r''))) \<noteq> hash_opaque_secret demo_lib ''ro''"
    "hash_opaque_secret demo_lib (b64_encode (replicate 32 (CHR ''r''))) \<noteq> hash_opaque_secret demo_lib ''rk''"
    by (simp_all add: demo_hash_eq demo_secret_long)
  show ?thesis
    by (simp add: create_access_and_refresh_tokens_def token_grant_from_request_def oauth_rows az_done_def
        oauth_run issue_token_pair_def start_refresh_family_def open_token_session_def consume_authorization_code_def
        ensure_active_user_def iam_consts issue_access_token_def tsession_valid_def tsession_clash_def
        access_valid_def access_clash_def refresh_valid_def refresh_clash_def az_subject_def h h [symmetric]
        demo_hash_nonempty)
qed

lemma demo_exchange_access:
  "\<exists>x. fst (create_access_token demo_env (AuthorizationRequest demo_az) oauth_demo) = Inr x"
  by (simp add: create_access_token_def token_grant_from_request_def oauth_rows az_done_def Let_def
      oauth_run open_token_session_def consume_authorization_code_def
      ensure_active_user_def iam_consts issue_access_token_def tsession_valid_def tsession_clash_def
      access_valid_def access_clash_def az_subject_def)

theorem authorization_code_single_use_witness:
  "(\<exists>a k x w'. code_exchanged demo_env demo_lib demo_az oauth_demo a (Some k) x w'
      \<and> (\<exists>s \<in> set (db_tsessions (dw_db w')). ts_user s = ''u1'' \<and> ts_login s = ''s1'')
      \<and> (\<forall>rs a2 ko x2 v. \<not> code_exchanged demo_env demo_lib demo_az (platform_all demo_env demo_lib demo_deps rs w') a2 ko x2 v))
   \<and> (\<exists>a x w'. code_exchanged demo_env demo_lib demo_az oauth_demo a None x w'
      \<and> (\<exists>s \<in> set (db_tsessions (dw_db w')). ts_user s = ''u1'' \<and> ts_login s = ''s1'')
      \<and> (\<forall>rs a2 ko x2 v. \<not> code_exchanged demo_env demo_lib demo_az (platform_all demo_env demo_lib demo_deps rs w') a2 ko x2 v))"
proof -
  obtain a k x w' where "create_access_and_refresh_tokens demo_env demo_lib (AuthorizationRequest demo_az) oauth_demo
      = (Inr (a, k, x), w')" using demo_exchange by (metis prod.collapse)
  then have one: "code_exchanged demo_env demo_lib demo_az oauth_demo a (Some k) x w'" by (simp add: code_exchanged_def)
  obtain b y w2 where "create_access_token demo_env (AuthorizationRequest demo_az) oauth_demo = (Inr (b, y), w2)"
    using demo_exchange_access by (metis prod.collapse)
  then have two: "code_exchanged demo_env demo_lib demo_az oauth_demo b None y w2" by (simp add: code_exchanged_def)
  have az: "az_subject demo_az = ''u1''" "oq_login (az_entity demo_az) = Some ''s1''"
    by (simp_all add: demo_az_def demo_request_def az_subject_def)
  have after: "(\<exists>s \<in> set (db_tsessions (dw_db w)). ts_user s = ''u1'' \<and> ts_login s = ''s1'')
      \<and> (\<forall>rs a2 ko x2 v. \<not> code_exchanged demo_env demo_lib demo_az (platform_all demo_env demo_lib demo_deps rs w) a2 ko x2 v)"
    if "code_exchanged demo_env demo_lib demo_az oauth_demo c ko z w" for c ko z w
    using authorization_code_single_use [OF demo_env_ok(1) demo_deps_ok oauth_demo_wf that] az
    by (metis (no_types, lifting) option.inject)
  show ?thesis using one after [OF one] two after [OF two] by blast
qed

definition demo_rr :: refresh_token_request where
  "demo_rr = \<lparr>rr_token_id = ''r1'', rr_session_id = ''t1'', rr_client = ''web'', rr_subject = ''u1'',
     rr_scopes = [''openid''], rr_auth_time = 5, rr_amr = [''pwd'']\<rparr>"

lemma demo_lookup:
  "\<exists>w'. token_request_by_refresh_token demo_env demo_lib ''rk'' oauth_demo = (Inr demo_rr, w') \<and> dw_db w' = oauth_demo_db"
  by (simp add: token_request_by_refresh_token_def token_request_tx_def oauth_rows demo_rr_def oauth_run
      ensure_active_user_def iam_consts demo_hash_eq)

lemma demo_rotate:
  "\<exists>x. fst (create_access_and_refresh_tokens demo_env demo_lib (RefreshTokenRequest (set_current_scopes [''openid''] demo_rr))
     oauth_demo) = Inr x"
proof -
  have h: "hash_opaque_secret demo_lib (b64_encode (replicate 32 (CHR ''r''))) \<noteq> hash_opaque_secret demo_lib ''ro''"
    "hash_opaque_secret demo_lib (b64_encode (replicate 32 (CHR ''r''))) \<noteq> hash_opaque_secret demo_lib ''rk''"
    by (simp_all add: demo_hash_eq demo_secret_long)
  show ?thesis
    by (simp add: create_access_and_refresh_tokens_def token_grant_from_request_def oauth_rows set_current_scopes_def
        demo_rr_def oauth_run issue_token_pair_def rotate_refresh_token_def Let_def
        ensure_active_user_def iam_consts issue_access_token_def
        access_valid_def access_clash_def refresh_valid_def refresh_clash_def h h [symmetric] demo_hash_nonempty)
qed

theorem refresh_token_rotates_witness:
  "\<exists>y w'. create_access_and_refresh_tokens demo_env demo_lib
        (RefreshTokenRequest (set_current_scopes [''openid''] demo_rr)) oauth_demo = (Inr y, w')
     \<and> (\<forall>q v. token_request_by_refresh_token demo_env demo_lib ''rk''
            (platform_all demo_env demo_lib demo_deps [] w') \<noteq> (Inr q, v))"
proof -
  obtain w1 where look: "token_request_by_refresh_token demo_env demo_lib ''rk'' oauth_demo = (Inr demo_rr, w1)"
    and w1: "dw_db w1 = oauth_demo_db" using demo_lookup by blast
  obtain a k x w' where out: "create_access_and_refresh_tokens demo_env demo_lib
        (RefreshTokenRequest (set_current_scopes [''openid''] demo_rr)) oauth_demo = (Inr (a, k, x), w')"
    using demo_rotate by (metis prod.collapse)
  have r: "db_reach (dw_db w1) (dw_db oauth_demo)"
    using oauth_demo_wf db_reach_refl by (simp add: w1 oauth_demo_def)
  have n: "rr_session_id demo_rr \<noteq> []" by (simp add: demo_rr_def)
  show ?thesis
    using refresh_token_rotates [OF demo_env_ok(1) demo_deps_ok oauth_demo_wf look r n out, THEN conjunct2, THEN conjunct1] out
    by blast
qed

theorem refresh_replay_revokes_session_witness:
  "\<exists>w'. token_request_by_refresh_token demo_env demo_lib ''ro'' oauth_demo = (Inl replay_detected, w')
     \<and> tokens_dead (\<lambda>s. ts_id s = ''t1'') (dw_db w')
     \<and> (\<forall>rs q v. token_request_by_refresh_token demo_env demo_lib ''rk''
          (platform_all demo_env demo_lib demo_deps rs w') \<noteq> (Inr q, v))
     \<and> (\<forall>rs sc y v. create_access_and_refresh_tokens demo_env demo_lib (RefreshTokenRequest (set_current_scopes sc demo_rr))
          (platform_all demo_env demo_lib demo_deps rs w') \<noteq> (Inr y, v))"
proof -
  let ?old = "demo_refresh ''r0'' ''ro'' (Some 3)"
  let ?new = "demo_refresh ''r1'' ''rk'' None"
  obtain r w' where out: "token_request_by_refresh_token demo_env demo_lib ''ro'' oauth_demo = (r, w')" by fastforce
  have old: "?old \<in> set (db_refresh (dw_db oauth_demo))" "rf_hash ?old = hash_opaque_secret demo_lib ''ro''"
    "rf_consumed ?old \<noteq> None"
    by (simp_all add: oauth_demo_def oauth_demo_db_def demo_refresh_def)
  have s: "\<exists>s \<in> set (db_tsessions (dw_db oauth_demo)). ts_id s = rf_session ?old" by (simp add: oauth_rows)
  note all = refresh_replay_revokes_session [OF demo_env_ok(1) demo_deps_ok oauth_demo_wf old out]
  have r: "r = Inl replay_detected" using all demo_env_quiet(1) s by blast
  have reach: "db_reach (dw_db oauth_demo) (dw_db w')"
    by (rule keeps_step [OF demo_env_ok(1) oauth_demo_wf out token_request_by_refresh_token_keeps])
  have "?new \<in> set (db_refresh (dw_db oauth_demo))" by (simp add: oauth_demo_def oauth_demo_db_def)
  then obtain n where n: "n \<in> set (db_refresh (dw_db w'))" "refresh_evolves ?new n" using reach_rowsD(11) [OF reach] by blast
  have k: "rf_session n = rf_session ?old" "rf_hash n = hash_opaque_secret demo_lib ''rk''" "rr_session_id demo_rr = rf_session ?old"
    "rr_session_id demo_rr \<noteq> []" using n(2) by (simp_all add: refresh_evolves_def demo_refresh_def demo_rr_def)
  note after = all [THEN conjunct2, THEN conjunct1, rule_format, OF r]
  have "tokens_dead (\<lambda>s. ts_id s = ''t1'') (dw_db w')" using after by (simp add: demo_refresh_def)
  moreover have "\<forall>rs q v. token_request_by_refresh_token demo_env demo_lib ''rk''
          (platform_all demo_env demo_lib demo_deps rs w') \<noteq> (Inr q, v)" using after n(1) k by blast
  moreover have "\<forall>rs sc y v. create_access_and_refresh_tokens demo_env demo_lib (RefreshTokenRequest (set_current_scopes sc demo_rr))
          (platform_all demo_env demo_lib demo_deps rs w') \<noteq> (Inr y, v)" using after k by blast
  ultimately show ?thesis using r out by blast
qed

lemma demo_oauth_logout:
  "fst (session_logout demo_env (iam_sessions demo_env demo_lib) ''s1'' oauth_demo) = Inr ()"
  by (simp add: session_logout_def wired oauth_run oauth_rows login_revoke_def token_revoke_for_login_def time_or_now_def
      token_revoke_def revoke_token_sessions_tx_def translated_def discard_def join2_def Let_def)

theorem logout_ends_access_tokens_witness:
  "\<exists>w'. session_logout demo_env (iam_sessions demo_env demo_lib) ''s1'' oauth_demo = (Inr (), w')
     \<and> (\<forall>pl info subject y v. set_userinfo_from_token demo_env pl info ''a1'' subject
          (platform_all demo_env demo_lib demo_deps [] w') \<noteq> (Inr y, v))"
proof -
  obtain w' where out: "session_logout demo_env (iam_sessions demo_env demo_lib) ''s1'' oauth_demo = (Inr (), w')"
    using demo_oauth_logout by (metis prod.collapse)
  have r: "db_reach (dw_db oauth_demo) (dw_db w')"
    by (rule session_logout_success(1) [OF demo_env_ok oauth_demo_wf out])
  have "demo_access \<in> set (db_access (dw_db oauth_demo))" "demo_session \<in> set (db_tsessions (dw_db oauth_demo))"
    by (simp_all add: oauth_demo_def oauth_demo_db_def)
  then obtain a s where a: "a \<in> set (db_access (dw_db w'))" "access_evolves demo_access a"
    and s: "s \<in> set (db_tsessions (dw_db w'))" "tsession_evolves demo_session s"
    using reach_rowsD(9,10) [OF r] by blast
  have "at_session a = ts_id s" "ts_login s = ''s1''" "at_id a = ''a1''"
    using a(2) s(2) by (simp_all add: access_evolves_def tsession_evolves_def demo_access_def demo_session_def)
  then have "\<forall>pl info subject y v. set_userinfo_from_token demo_env pl info ''a1'' subject
          (platform_all demo_env demo_lib demo_deps [] w') \<noteq> (Inr y, v)"
    using logout_ends_access_tokens [OF demo_env_ok demo_deps_ok oauth_demo_wf out a(1) s(1), THEN conjunct1] by simp
  then show ?thesis using out by (intro exI [of _ w'] conjI)
qed

end
