(* ===== verification/OidcProvider.thy ===== *)
theory OidcProvider
  imports OidcDemo
begin

text \<open>
  The provider and the start-up of the OpenID part (\<open>oidc/provider.go\<close>, \<open>oidc/initializer.go\<close>,
  \<open>oidc/op_client.go\<close>): validation of authorization requests, completion of an authorization through the
  browser session, and reconciliation of the configured clients and the signing key. \<open>net/url\<close> parsing
  and the checks of the protocol engine are the fields of \<open>oidc_lib\<close>.
\<close>

section \<open>Third-party and library calls\<close>

record parsed_url =
  pu_scheme :: string
  pu_host :: string
  pu_hostname :: string
  pu_path :: string
  pu_raw_query :: string
  pu_fragment :: string

text \<open>
  \<open>ol_redirect_error\<close> is \<open>op.ValidateAuthReqRedirectURI\<close>, \<open>ol_client_subject\<close> is
  \<open>op.ValidateAuthRequestClient\<close>.
\<close>

record oidc_lib =
  ol_url_parse :: "string \<Rightarrow> err + parsed_url"
  ol_redirect_error :: "client_row \<Rightarrow> string \<Rightarrow> string \<Rightarrow> err option"
  ol_client_subject :: "auth_request \<Rightarrow> client_row \<Rightarrow> err + string"

text \<open>\<open>url.QueryEscape\<close>: unreserved characters stay, a space becomes a plus, the rest is percent-encoded.\<close>

definition upper_hex :: "nat \<Rightarrow> char" where
  "upper_hex n = (if n < 10 then char_of (48 + n) else char_of (55 + n))"

definition url_unreserved :: "char \<Rightarrow> bool" where
  "url_unreserved c \<longleftrightarrow>
     (let n = ord_of c in 48 \<le> n \<and> n \<le> 57 \<or> 65 \<le> n \<and> n \<le> 90 \<or> 97 \<le> n \<and> n \<le> 122
        \<or> n = 45 \<or> n = 95 \<or> n = 46 \<or> n = 126)"

definition query_escape_char :: "char \<Rightarrow> string" where
  "query_escape_char c =
     (if url_unreserved c then [c]
      else if c = CHR '' '' then ''+''
      else [CHR ''%'', upper_hex (ord_of c div 16), upper_hex (ord_of c mod 16)])"

definition query_escape :: "string \<Rightarrow> string" where
  "query_escape s = concat (map query_escape_char s)"

text \<open>\<open>url.QueryUnescape\<close> and \<open>Query().Get\<close>: the first value of a key of a raw query.\<close>

fun query_unescape :: "string \<Rightarrow> string option" where
  "query_unescape [] = Some []"
| "query_unescape (c # s) =
     (if c = CHR ''%'' then
        (case s of
           a # b # rest \<Rightarrow>
             (case (hex_value a, hex_value b) of
                (Some x, Some y) \<Rightarrow> map_option (\<lambda>t. char_of (16 * x + y) # t) (query_unescape rest)
              | _ \<Rightarrow> None)
         | _ \<Rightarrow> None)
      else map_option (\<lambda>t. (if c = CHR ''+'' then CHR '' '' else c) # t) (query_unescape s))"

lemma cut_shorter: "(x, y, f) = cut sep (c # cs) \<Longrightarrow> length y < Suc (length cs)"
  using length_dropWhile_le [of "\<lambda>c. c \<noteq> sep" "c # cs"] by (auto simp: cut_def split: if_splits list.splits)

function query_get :: "string \<Rightarrow> string \<Rightarrow> string" where
  "query_get [] key = []"
| "query_get (c # cs) key =
     (case cut (CHR ''&'') (c # cs) of (pair, rest, _) \<Rightarrow>
        if CHR '';'' \<in> set pair \<or> pair = [] then query_get rest key
        else
          case cut (CHR ''='') pair of (k, v, _) \<Rightarrow>
            (case (query_unescape k, query_unescape v) of
               (Some k', Some v') \<Rightarrow> if k' = key then v' else query_get rest key
             | _ \<Rightarrow> query_get rest key))"
  by pat_completeness auto
termination
  by (relation "measure (\<lambda>(s, _). length s)") (auto dest: cut_shorter)

section \<open>Authorization through the browser session\<close>

definition login_url :: "string \<Rightarrow> string" where
  "login_url requestID = ''/authorize/callback?id='' @ query_escape requestID"

datatype provider_reply =
    BadRequest string
  | RedirectFound string
  | ServeDiscovery
  | ServeEngine

definition redirect_to_login :: "string \<Rightarrow> provider_reply" where
  "redirect_to_login requestID = RedirectFound (''/login?request_id='' @ query_escape requestID)"

definition complete_authorization ::
    "db dbenv \<Rightarrow> iam_lib \<Rightarrow> string \<Rightarrow> string option \<Rightarrow> ((db, 'z) db_world_scheme, provider_reply) run" where
  "complete_authorization E L requestID cookie =
     (if requestID = [] then (\<lambda>w. (BadRequest ''authorization request rejected'', w))
      else
        case cookie of
          None \<Rightarrow> (\<lambda>w. (redirect_to_login requestID, w))
        | Some value \<Rightarrow>
            if value = [] then (\<lambda>w. (redirect_to_login requestID, w))
            else
              check (session_resolve E L (iam_sessions E L) value) (\<lambda>_ w. (redirect_to_login requestID, w))
                (\<lambda>(user, session).
              case sp_create_time session of
                None \<Rightarrow> (\<lambda>w. (redirect_to_login requestID, w))
              | Some created \<Rightarrow>
                  check (complete_auth_request E requestID (up_user_id user) (sp_session_id session) created)
                    (\<lambda>_ w. (BadRequest ''authorization request rejected'', w))
                    (\<lambda>_ w. (ServeEngine, w))))"

definition provider_serve_http ::
    "db dbenv \<Rightarrow> iam_lib \<Rightarrow> string \<Rightarrow> string \<Rightarrow> string option
     \<Rightarrow> ((db, 'z) db_world_scheme, provider_reply) run" where
  "provider_serve_http E L path rawQuery cookie =
     (if path = ''/.well-known/openid-configuration'' then (\<lambda>w. (ServeDiscovery, w))
      else if path = ''/authorize/callback'' then complete_authorization E L (query_get rawQuery ''id'') cookie
      else (\<lambda>w. (ServeEngine, w)))"

definition validate_auth_request ::
    "db dbenv \<Rightarrow> oidc_lib \<Rightarrow> auth_request \<Rightarrow> ((db, 'z) db_world_scheme, string) prog" where
  "validate_auth_request E OL request =
     pass (get_client_by_client_id E (ar_client request)) (\<lambda>client.
     fails_with (ol_redirect_error OL client (ar_redirect request) (ar_response_type request))
       (fails_with (validate_authorization_request (Some request))
         (pass (result (ol_client_subject OL request client)) (\<lambda>subject.
          if list_ex (\<lambda>scope. \<not> is_scope_allowed client scope) (ar_scopes request)
          then throw (oidc_error ''invalid_scope'')
          else ret subject))))"

section \<open>Issuer and redirect addresses\<close>

definition is_loopback_host :: "string \<Rightarrow> bool" where
  "is_loopback_host host \<longleftrightarrow> host = ''localhost'' \<or> host = ''127.0.0.1'' \<or> host = ''::1''"

definition normalize_issuer :: "oidc_lib \<Rightarrow> string \<Rightarrow> err + string \<times> bool" where
  "normalize_issuer OL raw =
     (let issuer = trim_suffix (trim_space raw) ''/'' in
      case ol_url_parse OL issuer of
        Inl _ \<Rightarrow> Inl (errorf ''OIDC issuer must be an absolute URL without query or fragment'')
      | Inr parsed \<Rightarrow>
          if pu_scheme parsed = [] \<or> pu_host parsed = [] \<or> pu_raw_query parsed \<noteq> [] \<or> pu_fragment parsed \<noteq> []
          then Inl (errorf ''OIDC issuer must be an absolute URL without query or fragment'')
          else if pu_path parsed \<noteq> [] then Inl (errorf ''OIDC issuer path is unsupported'')
          else if pu_scheme parsed = ''https'' then Inr (issuer, False)
          else if pu_scheme parsed = ''http'' \<and> is_loopback_host (pu_hostname parsed) then Inr (issuer, True)
          else Inl (errorf ''OIDC issuer must use HTTPS except on localhost''))"

definition validate_redirect_uri :: "oidc_lib \<Rightarrow> string \<Rightarrow> err option" where
  "validate_redirect_uri OL raw =
     (if CHR ''*'' \<in> set raw then Some (errorf ''redirect URI wildcards are forbidden'')
      else
        case ol_url_parse OL raw of
          Inl _ \<Rightarrow> Some (errorf ''redirect URI must be absolute and omit fragments'')
        | Inr parsed \<Rightarrow>
            if pu_scheme parsed = [] \<or> pu_host parsed = [] \<or> pu_fragment parsed \<noteq> []
            then Some (errorf ''redirect URI must be absolute and omit fragments'')
            else if pu_scheme parsed = ''https'' then None
            else if pu_scheme parsed = ''http'' \<and> is_loopback_host (pu_hostname parsed) then None
            else Some (errorf ''redirect URI must use HTTPS except on localhost''))"

section \<open>Configured clients\<close>

fun deduplicate_from :: "string set \<Rightarrow> string list \<Rightarrow> string list" where
  "deduplicate_from seen [] = []"
| "deduplicate_from seen (value # rest) =
     (if value \<in> seen then deduplicate_from seen rest
      else value # deduplicate_from (insert value seen) rest)"

definition deduplicate :: "string list \<Rightarrow> string list" where
  "deduplicate values = deduplicate_from {} values"

record client_config =
  cc_client_id :: string
  cc_secret :: string
  cc_redirects :: "string list"
  cc_scopes :: "string list"
  cc_trusted :: bool

text \<open>The first of the errors of a list of checks.\<close>

fun first_error :: "('a \<Rightarrow> err option) \<Rightarrow> 'a list \<Rightarrow> err option" where
  "first_error f [] = None"
| "first_error f (x # xs) = (case f x of None \<Rightarrow> first_error f xs | Some e \<Rightarrow> Some e)"

text \<open>The client id, redirect addresses and scopes, and the ids seen so far.\<close>

definition validate_configured_client ::
    "oidc_lib \<Rightarrow> client_config option \<Rightarrow> string set
     \<Rightarrow> err + (string \<times> string list \<times> string list) \<times> string set" where
  "validate_configured_client OL configured seenIDs =
     (case configured of
        None \<Rightarrow> Inl (errorf ''OIDC client configuration is nil'')
      | Some c \<Rightarrow>
          let clientID = trim_space (cc_client_id c) in
          if clientID = [] then Inl (errorf ''OIDC client ID is empty'')
          else if clientID \<in> seenIDs then Inl (errorf ''duplicate OIDC client ID'')
          else if length (cc_secret c) < 32
          then Inl (errorf ''OIDC client secret must contain at least 32 bytes'')
          else if \<not> cc_trusted c
          then Inl (errorf ''OIDC client must be trusted because consent is unsupported'')
          else
            let redirectURIs = deduplicate (cc_redirects c) in
            if redirectURIs = [] then Inl (errorf ''OIDC client requires a redirect URI'')
            else
              case first_error (validate_redirect_uri OL) redirectURIs of
                Some e \<Rightarrow> Inl (wrap ''OIDC client'' e)
              | None \<Rightarrow>
                  let scopes = deduplicate (cc_scopes c) in
                  if ''openid'' \<notin> set scopes then Inl (errorf ''OIDC client must allow the openid scope'')
                  else if list_ex (\<lambda>s. s \<notin> set supported_scopes) scopes
                  then Inl (errorf ''OIDC client contains unsupported scope'')
                  else Inr ((clientID, redirectURIs, scopes), insert clientID seenIDs))"

definition code_grants :: "string list" where "code_grants = [''authorization_code'', ''refresh_token'']"
definition code_responses :: "string list" where "code_responses = [''code'']"

definition new_client_row ::
    "string \<Rightarrow> string \<Rightarrow> string list \<Rightarrow> string list \<Rightarrow> bool \<Rightarrow> time \<Rightarrow> client_row" where
  "new_client_row clientID secretHash redirectURIs scopes trusted d =
     \<lparr>cl_id = clientID, cl_secret = secretHash, cl_redirects = redirectURIs, cl_grants = code_grants,
      cl_responses = code_responses, cl_scopes = scopes, cl_trusted = trusted, cl_create = d, cl_update = d\<rparr>"

definition reconcile_client ::
    "db dbenv \<Rightarrow> iam_lib \<Rightarrow> client_config \<Rightarrow> string \<Rightarrow> string list \<Rightarrow> string list
     \<Rightarrow> ((db, 'z) db_world_scheme, unit) prog" where
  "reconcile_client E L configured clientID redirectURIs scopes =
     seq (db_exec E (only clients_t (\<lambda>c. cl_id c = clientID))) (\<lambda>found.
     case found of
       Inl e \<Rightarrow>
         if is_not_found e
         then
           pass (or_wrapped ''seed OAuth client''
                   (db_exec E (create clients_t client_valid client_clash
                      (new_client_row clientID (hash_opaque_secret L (cc_secret configured)) redirectURIs scopes
                         (cc_trusted configured))))) (\<lambda>_. ret ())
         else throw (wrap ''query OAuth client'' e)
     | Inr existing \<Rightarrow>
         if hash_opaque_secret L (cc_secret configured) \<noteq> cl_secret existing
         then throw (errorf ''configured OAuth client secret conflicts with persisted seed'')
         else
           pass (or_wrapped ''reconcile OAuth client''
                   (db_exec E (update_one clients_t (\<lambda>c. cl_id c = clientID)
                      (\<lambda>d c. c\<lparr>cl_redirects := redirectURIs, cl_grants := code_grants,
                               cl_responses := code_responses, cl_scopes := scopes,
                               cl_trusted := cc_trusted configured, cl_update := d\<rparr>)))) (\<lambda>_. ret ()))"

section \<open>The signing key\<close>

text \<open>\<open>time.AddDate(10, 0, 0)\<close> on the proleptic Gregorian calendar; a 29 February may move to 1 March.\<close>

definition ns_per_day :: int where "ns_per_day = 24 * go_hour"

definition days_before_year :: "int \<Rightarrow> int" where
  "days_before_year y = 365 * (y - 1) + (y - 1) div 4 - (y - 1) div 100 + (y - 1) div 400"

definition leap_year :: "int \<Rightarrow> bool" where
  "leap_year y \<longleftrightarrow> y mod 4 = 0 \<and> (y mod 100 \<noteq> 0 \<or> y mod 400 = 0)"

definition year_of_day :: "int \<Rightarrow> int" where
  "year_of_day d =
     (let y = (d * 400) div 146097 + 1 in
      if d < days_before_year y then y - 1
      else if days_before_year (y + 1) \<le> d then y + 1
      else y)"

text \<open>Days from the start of the year, moved between years with and without a 29 February.\<close>

definition shift_year_day :: "bool \<Rightarrow> bool \<Rightarrow> int \<Rightarrow> int" where
  "shift_year_day leap leap' n =
     (if n < 59 then n
      else if leap then (if leap' then n else if n = 59 then 59 else n - 1)
      else (if leap' then n + 1 else n))"

definition add_years :: "int \<Rightarrow> time \<Rightarrow> time" where
  "add_years k t =
     (let d = t div ns_per_day; y = year_of_day d; n = d - days_before_year y in
      (days_before_year (y + k) + shift_year_day (leap_year y) (leap_year (y + k)) n) * ns_per_day
        + t mod ns_per_day)"

definition new_key_row :: "signing_key \<Rightarrow> time \<Rightarrow> time \<Rightarrow> signing_key_row" where
  "new_key_row key t d =
     \<lparr>sk_id = sg_id key, sk_jwk = sg_public_jwk key, sk_alg = ''RS256'', sk_not_before = t - go_minute,
      sk_expires = add_years 10 t, sk_revoked = None, sk_create = d\<rparr>"

definition reconcile_signing_key ::
    "db dbenv \<Rightarrow> signing_key \<Rightarrow> ((db, 'z) db_world_scheme, unit) prog" where
  "reconcile_signing_key E key =
     seq (now E) (\<lambda>t.
     seq (db_exec E (only keys_t (\<lambda>k. sk_id k = sg_id key))) (\<lambda>found.
     case found of
       Inl e \<Rightarrow>
         if is_not_found e
         then
           pass (or_wrapped ''seed OIDC signing key metadata''
                   (db_exec E (create keys_t signing_key_valid signing_key_clash (new_key_row key t)))) (\<lambda>_. ret ())
         else throw (wrap ''query OIDC signing key metadata'' e)
     | Inr existing \<Rightarrow>
         if sk_jwk existing \<noteq> sg_public_jwk key \<or> sk_alg existing \<noteq> ''RS256''
         then throw (errorf ''OIDC signing key metadata conflicts with mounted private key'')
         else if sk_revoked existing \<noteq> None \<or> \<not> sk_expires existing > t \<or> sk_not_before existing > t
         then throw (errorf ''OIDC signing key metadata is inactive'')
         else ret ()))"

fun reconcile_clients ::
    "db dbenv \<Rightarrow> iam_lib \<Rightarrow> oidc_lib \<Rightarrow> client_config option list \<Rightarrow> string set \<Rightarrow> string list
     \<Rightarrow> ((db, 'z) db_world_scheme, string list) prog" where
  "reconcile_clients E L OL [] seenIDs configuredIDs = ret configuredIDs"
| "reconcile_clients E L OL (configured # rest) seenIDs configuredIDs =
     pass (result (validate_configured_client OL configured seenIDs)) (\<lambda>((clientID, redirectURIs, scopes), seenIDs').
     pass (reconcile_client E L (the configured) clientID redirectURIs scopes) (\<lambda>_.
     reconcile_clients E L OL rest seenIDs' (configuredIDs @ [clientID])))"

definition oidc_initialize ::
    "db dbenv \<Rightarrow> iam_lib \<Rightarrow> oidc_lib \<Rightarrow> signing_key \<Rightarrow> client_config option list
     \<Rightarrow> ((db, 'z) db_world_scheme, unit) prog" where
  "oidc_initialize E L OL key clients =
     pass (reconcile_signing_key E key) (\<lambda>_.
     pass (reconcile_clients E L OL clients {} []) (\<lambda>configuredIDs.
     pass (or_wrapped ''delete OAuth clients removed from static configuration''
             (db_exec E (delete_where clients_t (\<lambda>c. cl_id c \<notin> set configuredIDs)))) (\<lambda>_. ret ())))"

definition new_oidc_initializer :: "oidc_lib \<Rightarrow> string \<Rightarrow> client_config option list \<Rightarrow> err option" where
  "new_oidc_initializer OL issuer clients =
     (case normalize_issuer OL issuer of
        Inl e \<Rightarrow> Some e
      | Inr _ \<Rightarrow>
          if clients = [] then Some (errorf ''OIDC requires at least one static OAuth client'') else None)"

end
