(* ===== verification/OidcStart.thy ===== *)
theory OidcStart
  imports OidcProvider
begin

text \<open>
  What the provider and the start-up of the OpenID part guarantee: which authorization requests are
  accepted, who may complete one, that the login address leads back to its request, and what the
  reconciliation of the configured clients leaves in the database.
\<close>

section \<open>Addresses\<close>

lemma hex_value_upper [simp]: "n < 16 \<Longrightarrow> hex_value (upper_hex n) = Some n"
  by (auto simp: hex_value_def upper_hex_def Let_def)

lemma query_unescape_char:
  "query_unescape (query_escape_char c @ t) = map_option ((#) c) (query_unescape t)"
proof (cases "url_unreserved c")
  case True
  then have "c \<noteq> CHR ''%''" "c \<noteq> CHR ''+''" by (auto simp: url_unreserved_def)
  with True show ?thesis by (simp add: query_escape_char_def)
next
  case False
  then show ?thesis
    using ord_of_less [of c] by (simp add: query_escape_char_def option.map_comp o_def of_char_mod_256)
qed

lemma query_unescape_escape [simp]: "query_unescape (query_escape s) = Some s"
  by (induction s) (simp_all add: query_escape_def query_unescape_char)

definition url_separator :: "char \<Rightarrow> bool" where
  "url_separator c \<longleftrightarrow> c = CHR ''&'' \<or> c = CHR '';'' \<or> c = CHR ''=''"

lemma upper_hex_safe: "n < 16 \<Longrightarrow> \<not> url_separator (upper_hex n)"
proof -
  have "\<forall>n \<in> set [0..<16]. \<not> url_separator (upper_hex n)" by code_simp
  then show "n < 16 \<Longrightarrow> \<not> url_separator (upper_hex n)" by simp
qed

lemma query_escape_safe: "x \<in> set (query_escape s) \<Longrightarrow> \<not> url_separator x"
proof -
  have "\<not> url_separator x" if "x \<in> set (query_escape_char c)" for c
    using that upper_hex_safe [of "ord_of c div 16"] upper_hex_safe [of "ord_of c mod 16"] ord_of_less [of c]
    by (auto simp: query_escape_char_def url_separator_def url_unreserved_def split: if_splits)
  then show "x \<in> set (query_escape s) \<Longrightarrow> \<not> url_separator x" by (auto simp: query_escape_def)
qed

lemma cut_none: "sep \<notin> set s \<Longrightarrow> cut sep s = (s, [], False)"
proof -
  assume "sep \<notin> set s"
  then have "dropWhile (\<lambda>x. x \<noteq> sep) s = []" by (auto simp: dropWhile_eq_Nil_conv)
  then show ?thesis by (simp only: cut_def list.case)
qed

lemma query_get_id: "query_get (''id='' @ query_escape s) ''id'' = s"
proof -
  have n: "CHR ''&'' \<notin> set (query_escape s)" "CHR '';'' \<notin> set (query_escape s)"
    using query_escape_safe [of _ s] by (auto simp: url_separator_def)
  have "cut (CHR ''&'') (''id='' @ query_escape s) = (''id='' @ query_escape s, [], False)"
    using n by (intro cut_none) simp
  moreover have "cut (CHR ''='') (''id'' @ CHR ''='' # query_escape s) = (''id'', query_escape s, True)"
    by (intro cut_append) simp
  ultimately show ?thesis using n by simp
qed

text \<open>
  The address that the engine sends the browser to leads back to the same authorization request:
  the raw query of \<open>LoginURL(id)\<close>, served at the callback path, completes exactly the request \<open>id\<close>,
  whatever characters the id has.
\<close>

lemma login_url_leads_back:
  "\<exists>rawQuery. login_url i = ''/authorize/callback?'' @ rawQuery
     \<and> provider_serve_http E L ''/authorize/callback'' rawQuery cookie w = complete_authorization E L i cookie w"
proof (intro exI conjI)
  show "login_url i = ''/authorize/callback?'' @ (''id='' @ query_escape i)" by (simp add: login_url_def)
  show "provider_serve_http E L ''/authorize/callback'' (''id='' @ query_escape i) cookie w
      = complete_authorization E L i cookie w"
    by (simp only: provider_serve_http_def query_get_id) simp
qed

section \<open>Accepted authorization requests\<close>

text \<open>
  The storage and the provider accept exactly the authorization requests of the code flow with
  PKCE S256: response type code, default or query response mode, a state, a nonce, a challenge with
  method S256, no request object, the openid scope, and supported scopes only.
\<close>

lemma accepted_authorization_requests:
  "validate_authorization_request (Some r) = None \<longleftrightarrow>
     ar_response_type r = ''code'' \<and> (ar_response_mode r = [] \<or> ar_response_mode r = ''query'')
     \<and> ar_state r \<noteq> [] \<and> ar_nonce r \<noteq> [] \<and> ar_challenge r \<noteq> [] \<and> ar_challenge_method r = ''S256''
     \<and> ar_request_param r = []
     \<and> ''openid'' \<in> set (ar_scopes r) \<and> set (ar_scopes r) \<subseteq> {''openid'', ''profile'', ''email'', ''offline_access''}"
  by (auto simp: validate_authorization_request_def supported_scopes_def list_ex_iff subset_eq)

section \<open>Completing an authorization\<close>

text \<open>The one write of the completion: the subject, the login session and the time of the authentication.\<close>

definition completed_db :: "string \<Rightarrow> string \<Rightarrow> string \<Rightarrow> time \<Rightarrow> time \<Rightarrow> time \<Rightarrow> db \<Rightarrow> db" where
  "completed_db i u s a t n d = d\<lparr>db_requests := ent_update_where (\<lambda>r. oq_id r = i \<and> \<not> oq_done r \<and> oq_expires r > t)
     (\<lambda>r. r\<lparr>oq_subject := Some u, oq_login := Some s, oq_auth_time := Some a, oq_done := True, oq_update := n\<rparr>)
     (db_requests d)\<rparr>"

lemma complete_auth_request_trace:
  assumes "complete_auth_request E i u s a w = (Inr (), w')"
  obtains d t n q where "meets E w w' (dw_db w) d" "reads_clock E w w' t" "reads_clock E w w' n" "tick w < tick w'"
    "filter (\<lambda>r. oq_id r = i \<and> \<not> oq_done r \<and> t < oq_expires r) (db_requests d) = [q]"
    "dw_db w' = completed_db i u s a t n d"
proof -
  let ?t = "clock E (tick w)"
  let ?d = "de_others E (Suc (tick w)) (dw_db w)"
  let ?P = "\<lambda>r. oq_id r = i \<and> \<not> oq_done r \<and> ?t < oq_expires r"
  from assms have one: "length (filter ?P (db_requests ?d)) = 1"
    and db: "dw_db w' = completed_db i u s a ?t (clock E (Suc (tick w))) ?d" and k: "tick w' = Suc (Suc (tick w))"
    by (auto simp: complete_auth_request_def seq_eq now_eq pass_Inr oidc_wrappers_Inr db_exec_Inr update_where_eq
        requests_t_def completed_db_def simp del: set_update_where split: if_splits)
  from one obtain q where "filter ?P (db_requests ?d) = [q]" by (auto simp: length_Suc_conv)
  then show thesis using db k by (intro that [of ?d ?t "clock E (Suc (tick w))" q]) (auto intro!: meetsI reads_clockI)
qed

text \<open>
  C9. An authorization request is completed only through a live browser session. When the callback hands the request to
  the engine, the cookie resolved to a live session of an active user with a verified email, which is the course of a
  resolution; after it the request was found open and unexpired, the only such one with its id, and the one write that
  follows marks it done with that user, that login session and the creation time of that session, and touches nothing
  else.
\<close>

theorem authorization_needs_live_session:
  fixes w :: "(db, 'z) db_world_scheme"
  assumes "others_ok E" "db_wf (dw_db w)"
    and "complete_authorization E L i cookie w = (ServeEngine, w')"
  shows "\<exists>secret (v :: (db, 'z) db_world_scheme) u k d q t n. cookie = Some secret
     \<and> resolved_live E L secret w v u k \<and> tick w < tick v \<and> tick v < tick w'
     \<and> ls_secret k = hash_opaque_secret L secret \<and> ls_user k = us_id u
     \<and> meets E v w' (dw_db v) d \<and> reads_clock E v w' t \<and> reads_clock E v w' n
     \<and> filter (\<lambda>r. oq_id r = i \<and> \<not> oq_done r \<and> t < oq_expires r) (db_requests d) = [q]
     \<and> dw_db w' = completed_db i (us_id u) (ls_id k) (ls_create k) t n d"
proof -
  from assms(3) obtain secret user session created and v :: "(db, 'z) db_world_scheme" where
    c: "cookie = Some secret" and r: "session_resolve E L (iam_sessions E L) secret w = (Inr (user, session), v)"
    and t: "sp_create_time session = Some created"
    and a: "complete_auth_request E i (up_user_id user) (sp_session_id session) created v = (Inr (), w')"
    by (auto simp: complete_authorization_def redirect_to_login_def check_eq split: if_splits option.splits)
  obtain u k where u: "resolved_live E L secret w v u k" "tick w < tick v" and s: "session = to_session k"
    and k: "ls_secret k = hash_opaque_secret L secret" "ls_user k = up_user_id user" and "ls_revoked k = None"
    and id: "us_id u = up_user_id user" by (rule session_resolve_course [OF assms(1,2) r])
  have sid: "sp_session_id session = ls_id k" "created = ls_create k" using s t by (simp_all add: to_session_def)
  obtain d t n q where d: "meets E v w' (dw_db v) d" "reads_clock E v w' t" "reads_clock E v w' n" "tick v < tick w'"
    "filter (\<lambda>r. oq_id r = i \<and> \<not> oq_done r \<and> t < oq_expires r) (db_requests d) = [q]"
    "dw_db w' = completed_db i (us_id u) (ls_id k) (ls_create k) t n d"
    by (rule complete_auth_request_trace [OF a [folded id, unfolded sid]])
  then show ?thesis using c u k [folded id]
    by (rule_tac x = secret in exI, rule_tac x = v in exI, rule_tac x = u in exI, rule_tac x = k in exI, rule_tac x = d in exI,
      rule_tac x = q in exI, rule_tac x = t in exI, rule_tac x = n in exI) (intro conjI; assumption)
qed

lemma demo_callback:
  "\<exists>w'. complete_authorization demo_env demo_lib ''q2'' (Some ''sk'')
     (oauth_demo\<lparr>dw_db := oauth_demo_db\<lparr>db_requests := [demo_request\<lparr>oq_id := ''q2'', oq_done := False\<rparr>]\<rparr>\<rparr>)
       = (ServeEngine, w')"
  by (simp add: complete_authorization_def complete_auth_request_def oauth_rows oauth_run
      session_resolve_def wired login_find_def user_get_def translated_def or_mutation_miss_def time_or_now_def
      to_resources_def login_touch_def session_active_def to_session_def demo_exec(3)
      iam_consts email_by_user_id_def to_resource_def to_dto_def user_status_of_def iam_ttls time_consts)

theorem authorization_needs_live_session_witness:
  "\<exists>w' v u k t n. complete_authorization demo_env demo_lib ''q2'' (Some ''sk'')
      (oauth_demo\<lparr>dw_db := oauth_demo_db\<lparr>db_requests := [demo_request\<lparr>oq_id := ''q2'', oq_done := False\<rparr>]\<rparr>\<rparr>)
        = (ServeEngine, w')
     \<and> resolved_live demo_env demo_lib ''sk''
         (oauth_demo\<lparr>dw_db := oauth_demo_db\<lparr>db_requests := [demo_request\<lparr>oq_id := ''q2'', oq_done := False\<rparr>]\<rparr>\<rparr>) v u k
     \<and> dw_db w' = completed_db ''q2'' (us_id u) (ls_id k) (ls_create k) t n (dw_db v)"
proof -
  let ?w = "oauth_demo\<lparr>dw_db := oauth_demo_db\<lparr>db_requests := [demo_request\<lparr>oq_id := ''q2'', oq_done := False\<rparr>]\<rparr>\<rparr>"
  obtain w' where out: "complete_authorization demo_env demo_lib ''q2'' (Some ''sk'') ?w = (ServeEngine, w')"
    using demo_callback by blast
  have wf: "db_wf (dw_db ?w)" using oauth_demo_wf by (simp add: db_wf_def oauth_demo_def oauth_demo_db_def no_clash_def)
  have same: "meets demo_env v v' d e \<Longrightarrow> e = d" for v v' d e by (auto simp: meets_def demo_env_def)
  obtain secret v u k d t n where c: "Some ''sk'' = Some secret" and r: "resolved_live demo_env demo_lib secret ?w v u k"
    and m: "meets demo_env v w' (dw_db v) d" and w': "dw_db w' = completed_db ''q2'' (us_id u) (ls_id k) (ls_create k) t n d"
    using authorization_needs_live_session [OF demo_env_ok(1) wf out] by blast
  show ?thesis using out c r w' same [OF m] by blast
qed

section \<open>Configured clients\<close>

lemma remdups_snoc: "remdups (xs @ [x]) = filter (\<lambda>y. y \<noteq> x) (remdups xs) @ [x]"
  by (induction xs) auto

lemma deduplicate_from_eq: "deduplicate_from seen xs = filter (\<lambda>x. x \<notin> seen) (rev (remdups (rev xs)))"
proof (induction xs arbitrary: seen)
  case (Cons x xs)
  have "rev (remdups (rev (x # xs))) = x # filter (\<lambda>y. y \<noteq> x) (rev (remdups (rev xs)))"
    by (simp add: remdups_snoc rev_filter)
  then show ?case using Cons.IH by (auto simp: conj_commute intro: filter_cong)
qed simp

text \<open>
  \<open>deduplicate\<close> keeps exactly the first occurrence of every value, in order: it is the mirror image
  of HOL's \<open>remdups\<close>, which keeps the last ones.
\<close>

lemma deduplicate_keeps_first: "deduplicate xs = rev (remdups (rev xs))"
  by (simp add: deduplicate_def deduplicate_from_eq)

text \<open>What the reconciliation of one client leaves: a row of the client with the configured values.\<close>

definition client_reconciled :: "iam_lib \<Rightarrow> client_config \<Rightarrow> string \<Rightarrow> client_row \<Rightarrow> bool" where
  "client_reconciled L c i r \<longleftrightarrow> cl_id r = i \<and> cl_secret r = hash_opaque_secret L (cc_secret c)
     \<and> cl_redirects r = deduplicate (cc_redirects c) \<and> cl_scopes r = deduplicate (cc_scopes c)
     \<and> cl_grants r = [''authorization_code'', ''refresh_token''] \<and> cl_responses r = [''code''] \<and> cl_trusted r"

lemma validated_client:
  assumes "validate_configured_client OL c seen = Inr ((i, us, ss), seen')"
  obtains cc where "c = Some cc" "i = trim_space (cc_client_id cc)" "i \<noteq> []" "i \<notin> seen" "seen' = insert i seen"
    "us = deduplicate (cc_redirects cc)" "ss = deduplicate (cc_scopes cc)" "cc_trusted cc"
    "32 \<le> length (cc_secret cc)" "first_error (validate_redirect_uri OL) us = None"
    "''openid'' \<in> set ss" "set ss \<subseteq> set supported_scopes"
proof -
  from assms obtain cc where c: "c = Some cc" by (auto simp: validate_configured_client_def split: option.splits)
  show thesis
    by (rule that [OF c])
      (use assms c in \<open>auto simp: validate_configured_client_def Let_def list_ex_iff not_less split: option.splits if_splits\<close>)
qed

end
