(* ===== verification/IamService.thy ===== *)
theory IamService
  imports IamAdmin SessionAuthn OpenFga
begin

text \<open>
  The RPC layer of the IAM service: \<open>internal/authn\<close> and \<open>internal/authz\<close> (how the shared session and
  OpenFGA backends are bound to IAM users), \<open>internal/service\<close> (the four services and their API errors),
  the generated rule maps of \<open>api/gen/go/iam\<close>, and the middleware chain of \<open>internal/server\<close>. The plan of
  Servora's CRUD library is a parameter.
\<close>

section \<open>The authenticated identity\<close>

record iam_identity =
  idn_user :: "user_pb option"
  idn_session :: "session_pb option"

record iam_ctx = go_ctx +
  ctx_identity :: "iam_identity option"

definition with_identity :: "'c iam_ctx_scheme \<Rightarrow> iam_identity option \<Rightarrow> 'c iam_ctx_scheme" where
  "with_identity ctx value = ctx\<lparr>ctx_identity := value\<rparr>"

definition identity_from :: "'c iam_ctx_scheme option \<Rightarrow> err + user_pb \<times> session_pb" where
  "identity_from ctx =
     (case ctx of
        None \<Rightarrow> Inl (biz ErrUnauthenticated)
      | Some c \<Rightarrow>
          (case ctx_identity c of
             None \<Rightarrow> Inl (biz ErrUnauthenticated)
           | Some value \<Rightarrow>
               (case (idn_user value, idn_session value) of
                  (Some user, Some session) \<Rightarrow> Inr (user, session)
                | _ \<Rightarrow> Inl (biz ErrUnauthenticated))))"

definition session_cookie_name :: string where "session_cookie_name = ''__Host-iam_session''"

definition resolution_error :: "err \<Rightarrow> err" where
  "resolution_error e =
     (if errors_is e (Biz ErrUnauthenticated) \<or> errors_is e (Biz ErrSessionRevoked)
        \<or> errors_is e (Biz ErrUserDisabled) \<or> errors_is e (Biz ErrUserNotActive)
      then wrap2 [] (Sentinel (SessionAuthn SInvalidCredentials)) e
      else wrap2 [] (Sentinel (SessionAuthn SDependencyUnavailable)) e)"

definition map_actor :: "iam_identity option \<Rightarrow> err + actor" where
  "map_actor value =
     (case value of
        None \<Rightarrow> Inl (errorf ''IAM authenticated identity is incomplete'')
      | Some v \<Rightarrow>
          (case (idn_user v, idn_session v) of
             (Some user, Some session) \<Rightarrow>
               if up_user_id user = [] \<or> sp_session_id session = []
               then Inl (errorf ''IAM authenticated identity is incomplete'')
               else Inr \<lparr>act_type = actor_type_human, act_id = up_user_id user\<rparr>
           | _ \<Rightarrow> Inl (errorf ''IAM authenticated identity is incomplete'')))"

definition iam_resolve ::
    "'e env_scheme \<Rightarrow> iam_lib \<Rightarrow> ('z world_scheme) session_usecase \<Rightarrow> string
     \<Rightarrow> ('z world_scheme, iam_identity option) prog" where
  "iam_resolve E L uc credential =
     check (session_resolve E L uc credential) (\<lambda>e. throw (resolution_error e))
       (\<lambda>(user, session). ret (Some \<lparr>idn_user = Some user, idn_session = Some session\<rparr>))"

text \<open>The context that a handler gets is that of the transport with the identity added.\<close>

definition new_session_authenticator ::
    "'e env_scheme \<Rightarrow> iam_lib \<Rightarrow> ('z world_scheme) session_usecase option
     \<Rightarrow> err + (\<lparr>ctx_identity :: iam_identity option\<rparr>, 'z world_scheme, iam_identity option) session_authenticator" where
  "new_session_authenticator E L usecase =
     (case usecase of
        None \<Rightarrow> Inl (errorf ''IAM session authenticator: usecase is nil'')
      | Some uc \<Rightarrow>
          session_new session_cookie_name (Some (\<lambda>_ credential. iam_resolve E L uc credential)) (Some map_actor)
            (Some (\<lambda>ctx value. Some (with_identity ctx value))))"

definition iam_subject :: "actor \<Rightarrow> err + string" where
  "iam_subject actor =
     (if act_type actor \<noteq> actor_type_human \<or> act_id actor = []
      then Inl (errorf ''IAM OpenFGA subject requires a human Actor'')
      else Inr (''user:'' @ act_id actor))"

definition new_openfga_authorizer :: "'w fga_client option \<Rightarrow> err + 'w authorizer" where
  "new_openfga_authorizer client =
     (if client = None then Inl (errorf ''IAM OpenFGA authorizer: client is nil'')
      else authorizer_new client (Some iam_subject))"

section \<open>API errors\<close>

definition internal_server :: "string \<Rightarrow> err \<Rightarrow> err" where
  "internal_server reason cause = Node (ApiError 500 reason) [cause]"

definition account_error :: "err \<Rightarrow> err" where
  "account_error e =
     (if errors_is e (Biz ErrInvalidToken) then Node (ApiError 400 ''ACCOUNT_ERROR_REASON_INVALID_TOKEN'') []
      else if errors_is e (Biz ErrTokenExpired) then Node (ApiError 400 ''ACCOUNT_ERROR_REASON_TOKEN_EXPIRED'') []
      else if errors_is e (Biz ErrInvalidCredentials) \<or> errors_is e (Biz ErrInvalidPassword)
      then Node (ApiError 400 ''ACCOUNT_ERROR_REASON_INVALID_PASSWORD'') []
      else if errors_is e (Biz ErrEmailAlreadyExists)
      then Node (ApiError 409 ''ACCOUNT_ERROR_REASON_EMAIL_ALREADY_REGISTERED'') []
      else if errors_is e (Biz ErrProfileEtagMismatch) then Node (ApiError 409 ''ETAG_MISMATCH'') [e]
      else if errors_is e (Biz ErrUnauthenticated) \<or> errors_is e (Biz ErrSessionRevoked)
        \<or> errors_is e (Biz ErrUserDisabled) \<or> errors_is e (Biz ErrUserNotActive)
      then Node (ApiError 401 ''ACCOUNT_ERROR_REASON_UNAUTHENTICATED'') []
      else internal_server ''IAM account operation failed'' e)"

definition authn_error :: "err \<Rightarrow> err" where
  "authn_error e =
     (if errors_is e (Biz ErrInvalidCredentials)
      then Node (ApiError 401 ''AUTHN_ERROR_REASON_INVALID_CREDENTIALS'') []
      else internal_server ''IAM authentication failed'' e)"

definition session_error :: "err \<Rightarrow> err" where
  "session_error e =
     (if errors_is e (Biz ErrSessionRevoked) \<or> errors_is e (Biz ErrUnauthenticated)
      then Node (ApiError 401 ''SESSION_ERROR_REASON_REVOKED'') []
      else internal_server ''IAM session operation failed'' e)"

definition user_error :: "err \<Rightarrow> err" where
  "user_error e =
     (if errors_is e (Biz ErrNotFound) then Node (ApiError 404 ''USER_ERROR_REASON_NOT_FOUND'') [e]
      else if errors_is e (Biz ErrEmailAlreadyExists)
      then Node (ApiError 409 ''USER_ERROR_REASON_ALREADY_EXISTS'') [e]
      else if errors_is e (Biz ErrUserInvalidState)
      then Node (ApiError 409 ''USER_ERROR_REASON_INVALID_STATE'') [e]
      else if errors_is e (Biz ErrUserEtagMismatch)
      then Node (ApiError 409 ''USER_ERROR_REASON_ETAG_MISMATCH'') [e]
      else if errors_is e (Biz ErrInvalidPassword) then Node (ApiError 400 ''INVALID_ARGUMENT'') [e]
      else internal_server ''IAM user operation failed'' e)"

definition invalid_argument :: err where "invalid_argument = Node (ApiError 400 ''INVALID_ARGUMENT'') []"

definition invalid_resource_name :: err where
  "invalid_resource_name = Node (ApiError 400 ''CRUD_ERROR_REASON_INVALID_RESOURCE_NAME'') []"

text \<open>\<open>if err != nil { return nil, mapped(err) }\<close>\<close>

abbreviation mapping_error :: "(err \<Rightarrow> err) \<Rightarrow> ('w, 'a) prog \<Rightarrow> ('a \<Rightarrow> ('w, 'b) prog) \<Rightarrow> ('w, 'b) prog" where
  "mapping_error f p k \<equiv> check p (\<lambda>e. throw (f e)) k"

section \<open>Cookies and replies\<close>

record set_cookie =
  sc_value :: string
  sc_max_age :: int

datatype iam_reply =
    ReplyEmpty
  | ReplyUser user_pb
  | ReplyLogin user_pb session_pb
  | ReplyUsers "user_pb list" string

type_synonym iam_answer = "iam_reply \<times> set_cookie option"

definition session_cookie :: "string \<Rightarrow> set_cookie" where
  "session_cookie secret = \<lparr>sc_value = secret, sc_max_age = login_session_absolute_ttl div ns_per_sec\<rparr>"

definition expired_session_cookie :: set_cookie where
  "expired_session_cookie = \<lparr>sc_value = [], sc_max_age = -1\<rparr>"

definition set_session_cookie :: "'c go_ctx_scheme \<Rightarrow> string \<Rightarrow> set_cookie option" where
  "set_session_cookie ctx secret =
     (if ctx_transport ctx = None \<or> secret = [] then None else Some (session_cookie secret))"

definition clear_session_cookie :: "'c go_ctx_scheme \<Rightarrow> set_cookie option" where
  "clear_session_cookie ctx = (if ctx_transport ctx = None then None else Some expired_session_cookie)"

section \<open>Services\<close>

definition authn_login ::
    "'e env_scheme \<Rightarrow> iam_lib \<Rightarrow> ('z world_scheme) authentication_usecase \<Rightarrow> 'c go_ctx_scheme
     \<Rightarrow> (string \<times> string) option \<Rightarrow> ('z world_scheme, iam_answer) prog" where
  "authn_login E L uc ctx request =
     (case request of
        None \<Rightarrow> throw (Node (ApiError 401 ''AUTHN_ERROR_REASON_INVALID_CREDENTIALS'') [])
      | Some (email, password) \<Rightarrow>
          mapping_error authn_error (authentication_login E L uc email password) (\<lambda>(user, session, secret).
          ret (ReplyLogin user session, set_session_cookie ctx secret)))"

definition session_service_logout ::
    "'e env_scheme \<Rightarrow> ('z world_scheme) session_usecase \<Rightarrow> 'c iam_ctx_scheme \<Rightarrow> ('z world_scheme, iam_answer) prog"
  where
  "session_service_logout E uc ctx =
     (case identity_from (Some ctx) of
        Inl _ \<Rightarrow> throw (Node (ApiError 401 ''SESSION_ERROR_REASON_REVOKED'') [])
      | Inr (_, session) \<Rightarrow>
          mapping_error session_error (session_logout E uc (sp_session_id session)) (\<lambda>_.
          ret (ReplyEmpty, clear_session_cookie ctx)))"

definition service_register ::
    "'e env_scheme \<Rightarrow> iam_lib \<Rightarrow> ('z world_scheme) account_usecase
     \<Rightarrow> (string \<times> string \<times> string \<times> profile option) option \<Rightarrow> ('z world_scheme, iam_answer) prog" where
  "service_register E L uc request =
     (case request of
        None \<Rightarrow> throw (account_error (biz ErrInvalidToken))
      | Some (email, password, capToken, prof) \<Rightarrow>
          mapping_error account_error (account_register E L uc email password capToken prof) (\<lambda>user.
          ret (ReplyUser user, None)))"

definition service_verify_email ::
    "'e env_scheme \<Rightarrow> iam_lib \<Rightarrow> ('z world_scheme) account_usecase \<Rightarrow> string option
     \<Rightarrow> ('z world_scheme, iam_answer) prog" where
  "service_verify_email E L uc request =
     (case request of
        None \<Rightarrow> throw (account_error (biz ErrInvalidToken))
      | Some token \<Rightarrow>
          mapping_error account_error (account_verify_email E L uc token) (\<lambda>user. ret (ReplyUser user, None)))"

definition service_resend_verification ::
    "'e env_scheme \<Rightarrow> iam_lib \<Rightarrow> ('z world_scheme) account_usecase \<Rightarrow> (string \<times> string) option
     \<Rightarrow> ('z world_scheme, iam_answer) prog" where
  "service_resend_verification E L uc request =
     (case request of
        None \<Rightarrow> throw (account_error (biz ErrInvalidToken))
      | Some (email, capToken) \<Rightarrow>
          mapping_error account_error (account_resend_verification E L uc email capToken) (\<lambda>_.
          ret (ReplyEmpty, None)))"

definition service_request_password_reset ::
    "'e env_scheme \<Rightarrow> iam_lib \<Rightarrow> ('z world_scheme) account_usecase \<Rightarrow> (string \<times> string) option
     \<Rightarrow> ('z world_scheme, iam_answer) prog" where
  "service_request_password_reset E L uc request =
     (case request of
        None \<Rightarrow> throw (account_error (biz ErrInvalidToken))
      | Some (email, capToken) \<Rightarrow>
          mapping_error account_error (account_request_password_reset E L uc email capToken) (\<lambda>_.
          ret (ReplyEmpty, None)))"

definition service_confirm_password_reset ::
    "'e env_scheme \<Rightarrow> iam_lib \<Rightarrow> ('z world_scheme) account_usecase \<Rightarrow> (string \<times> string) option
     \<Rightarrow> ('z world_scheme, iam_answer) prog" where
  "service_confirm_password_reset E L uc request =
     (case request of
        None \<Rightarrow> throw (account_error (biz ErrInvalidToken))
      | Some (token, newPassword) \<Rightarrow>
          mapping_error account_error (account_confirm_password_reset E L uc token newPassword) (\<lambda>_.
          ret (ReplyEmpty, None)))"

definition service_get_profile :: "'c iam_ctx_scheme \<Rightarrow> ('w, iam_answer) prog" where
  "service_get_profile ctx =
     (case identity_from (Some ctx) of
        Inl e \<Rightarrow> throw (account_error e)
      | Inr (user, _) \<Rightarrow> ret (ReplyUser user, None))"

fun merge_path :: "profile \<Rightarrow> string \<Rightarrow> profile \<Rightarrow> err + profile" where
  "merge_path requested path merged =
     (if path = ''name'' then Inr (merged\<lparr>pf_name := pf_name requested\<rparr>)
      else if path = ''given_name'' then Inr (merged\<lparr>pf_given_name := pf_given_name requested\<rparr>)
      else if path = ''family_name'' then Inr (merged\<lparr>pf_family_name := pf_family_name requested\<rparr>)
      else if path = ''nickname'' then Inr (merged\<lparr>pf_nickname := pf_nickname requested\<rparr>)
      else if path = ''preferred_username''
      then Inr (merged\<lparr>pf_preferred_username := pf_preferred_username requested\<rparr>)
      else if path = ''picture'' then Inr (merged\<lparr>pf_picture := pf_picture requested\<rparr>)
      else if path = ''locale'' then Inr (merged\<lparr>pf_locale := pf_locale requested\<rparr>)
      else Inl (errorf ''unsupported profile field''))"

fun merge_paths :: "profile \<Rightarrow> string list \<Rightarrow> profile \<Rightarrow> err + profile" where
  "merge_paths requested [] merged = Inr merged"
| "merge_paths requested (path # paths) merged =
     (case merge_path requested path merged of
        Inl e \<Rightarrow> Inl e
      | Inr merged' \<Rightarrow> merge_paths requested paths merged')"

definition merge_profile :: "profile option \<Rightarrow> profile option \<Rightarrow> string list option \<Rightarrow> err + profile" where
  "merge_profile current requested update_mask =
     (case requested of
        None \<Rightarrow> Inl (errorf ''profile is required'')
      | Some r \<Rightarrow>
          if update_mask = None \<or> update_mask = Some [] then Inr r
          else merge_paths r (the update_mask) (case current of None \<Rightarrow> empty_profile | Some c \<Rightarrow> c))"

text \<open>The profile and the update mask of a request.\<close>

definition service_update_profile ::
    "'w account_usecase \<Rightarrow> 'c iam_ctx_scheme \<Rightarrow> (profile option \<times> string list option) option
     \<Rightarrow> ('w, iam_answer) prog" where
  "service_update_profile uc ctx request =
     (case request of
        None \<Rightarrow> throw invalid_argument
      | Some (prof, update_mask) \<Rightarrow>
          if prof = None then throw invalid_argument
          else
            case identity_from (Some ctx) of
              Inl e \<Rightarrow> throw (account_error e)
            | Inr (user, _) \<Rightarrow>
                pass (result (merge_profile (up_profile user) prof update_mask)) (\<lambda>merged.
                mapping_error account_error
                  (account_update_profile uc (up_user_id user) (up_etag user) (Some merged)) (\<lambda>updated.
                ret (ReplyUser updated, None))))"

definition service_change_password ::
    "'e env_scheme \<Rightarrow> iam_lib \<Rightarrow> ('z world_scheme) account_usecase \<Rightarrow> 'c iam_ctx_scheme
     \<Rightarrow> (string \<times> string) option \<Rightarrow> ('z world_scheme, iam_answer) prog" where
  "service_change_password E L uc ctx request =
     (case request of
        None \<Rightarrow> throw (account_error (biz ErrInvalidCredentials))
      | Some (currentPassword, newPassword) \<Rightarrow>
          (case identity_from (Some ctx) of
             Inl e \<Rightarrow> throw (account_error e)
           | Inr (user, session) \<Rightarrow>
               mapping_error account_error
                 (account_change_password E L uc (up_user_id user) (sp_session_id session) currentPassword newPassword)
                 (\<lambda>_. ret (ReplyEmpty, None))))"

text \<open>
  The resource plan of the CRUD library; \<open>cp_parse_name\<close> gives the variable of the name, when it has one. A
  prepared list query is opaque (a string); \<open>cp_list\<close> is \<open>entcrud.List\<close> on the rows of the table, which gives the
  rows of the page, the next token and the total, and \<open>cp_list_result\<close> is \<open>NewListResult\<close>.
\<close>

record list_input =
  lq_page_size :: int
  lq_page_token :: string
  lq_filter :: string
  lq_order_by :: string

record crud_plan =
  cp_prepare_list :: "string \<Rightarrow> list_input \<Rightarrow> err + string"
  cp_list :: "string \<Rightarrow> user_row list \<Rightarrow> err + user_row list \<times> string \<times> int option"
  cp_list_result :: "string \<Rightarrow> user_pb list \<Rightarrow> string \<Rightarrow> int option \<Rightarrow> err + user_pb list \<times> string"
  cp_prepare_create :: "user_pb \<Rightarrow> err + user_pb"
  cp_prepare_update :: "user_pb \<Rightarrow> string list option \<Rightarrow> string \<Rightarrow> err + prepared_update"
  cp_parse_name :: "string \<Rightarrow> err + string option"
  cp_to_response :: "user_pb \<Rightarrow> err + user_pb"

definition user_name_valid :: "string \<Rightarrow> bool" where
  "user_name_valid user \<longleftrightarrow> user \<noteq> [] \<and> CHR ''/'' \<notin> set user"

definition parse_user_name :: "crud_plan \<Rightarrow> string \<Rightarrow> err + string" where
  "parse_user_name P value =
     (case cp_parse_name P value of
        Inl e \<Rightarrow> Inl e
      | Inr None \<Rightarrow> Inl invalid_resource_name
      | Inr (Some userID) \<Rightarrow> Inr userID)"

definition service_create_user ::
    "'e env_scheme \<Rightarrow> iam_lib \<Rightarrow> crud_plan \<Rightarrow> ('z world_scheme) user_usecase
     \<Rightarrow> (string \<times> user_pb option \<times> string) option \<Rightarrow> ('z world_scheme, iam_answer) prog" where
  "service_create_user E L P uc request =
     (case request of
        None \<Rightarrow> throw invalid_argument
      | Some (requestedID, user, password) \<Rightarrow>
          (case user of
             None \<Rightarrow> throw invalid_argument
           | Some u \<Rightarrow>
               let trimmedID = trim_space requestedID in
               pass (if trimmedID = []
                     then mapping_error (internal_server ''IAM user id generation failed'') (new_user_id E) ret
                     else ret trimmedID) (\<lambda>userID.
               if \<not> user_name_valid userID then throw invalid_resource_name
               else
                 pass (result (cp_prepare_create P u)) (\<lambda>prepared.
                 mapping_error user_error (user_create_user E L uc userID prepared password) (\<lambda>resource.
                 pass (result (cp_to_response P resource)) (\<lambda>reply. ret (ReplyUser reply, None)))))))"

definition service_get_user ::
    "crud_plan \<Rightarrow> 'w user_usecase \<Rightarrow> string \<Rightarrow> ('w, iam_answer) prog" where
  "service_get_user P uc requestName =
     pass (result (parse_user_name P requestName)) (\<lambda>nam.
     mapping_error user_error (user_get_user uc nam) (\<lambda>resource.
     pass (result (cp_to_response P resource)) (\<lambda>reply. ret (ReplyUser reply, None))))"

text \<open>\<open>ListUsers\<close>: of the repository, of the use case, and the handler; a nil request is the empty one.\<close>

definition user_list_users ::
    "db dbenv \<Rightarrow> iam_lib \<Rightarrow> crud_plan \<Rightarrow> string \<Rightarrow> ((db, 'z) db_world_scheme, user_pb list \<times> string) prog" where
  "user_list_users E L P query =
     pass (translated (db_exec E (\<lambda>_ d. (cp_list P query (db_users d), d)))) (\<lambda>(items, token, total).
     pass (to_resources E L items) (\<lambda>resources.
     result (cp_list_result P query resources token total)))"

definition iam_usecase_list_users ::
    "db dbenv \<Rightarrow> iam_lib \<Rightarrow> crud_plan \<Rightarrow> string \<Rightarrow> ((db, 'z) db_world_scheme, user_pb list \<times> string) prog" where
  "iam_usecase_list_users E L P query = user_list_users E L P query"

definition service_list_users ::
    "db dbenv \<Rightarrow> iam_lib \<Rightarrow> crud_plan \<Rightarrow> list_input option \<Rightarrow> ((db, 'z) db_world_scheme, iam_answer) prog" where
  "service_list_users E L P request =
     (let r = (case request of None \<Rightarrow> \<lparr>lq_page_size = 0, lq_page_token = [], lq_filter = [], lq_order_by = []\<rparr> | Some x \<Rightarrow> x) in
      pass (result (cp_prepare_list P ''users'' r)) (\<lambda>query.
      mapping_error user_error (iam_usecase_list_users E L P query) (\<lambda>(items, token).
      pass (result (collect_results (cp_to_response P) items)) (\<lambda>resources.
      ret (ReplyUsers resources token, None)))))"

definition service_update_user ::
    "crud_plan \<Rightarrow> 'w user_usecase \<Rightarrow> (user_pb option \<times> string list option) option \<Rightarrow> ('w, iam_answer) prog" where
  "service_update_user P uc request =
     (case request of
        Some (Some user, update_mask) \<Rightarrow>
          pass (result (parse_user_name P (up_name user))) (\<lambda>nam.
          pass (result (cp_prepare_update P user update_mask (up_etag user))) (\<lambda>prepared.
          mapping_error user_error (user_update_user uc nam prepared) (\<lambda>resource.
          pass (result (cp_to_response P resource)) (\<lambda>reply. ret (ReplyUser reply, None)))))
      | _ \<Rightarrow> throw invalid_argument)"

text \<open>Name and etag of a request; a nil request has an empty name.\<close>

definition service_disable_user ::
    "'e env_scheme \<Rightarrow> crud_plan \<Rightarrow> ('z world_scheme) user_usecase \<Rightarrow> (string \<times> string) option
     \<Rightarrow> ('z world_scheme, iam_answer) prog" where
  "service_disable_user E P uc request =
     (case (case request of None \<Rightarrow> ([], []) | Some r \<Rightarrow> r) of (requestName, etag) \<Rightarrow>
        pass (result (parse_user_name P requestName)) (\<lambda>nam.
        mapping_error user_error (user_disable E uc nam etag) (\<lambda>resource.
        pass (result (cp_to_response P resource)) (\<lambda>reply. ret (ReplyUser reply, None)))))"

definition service_enable_user ::
    "'e env_scheme \<Rightarrow> crud_plan \<Rightarrow> ('z world_scheme) user_usecase \<Rightarrow> (string \<times> string) option
     \<Rightarrow> ('z world_scheme, iam_answer) prog" where
  "service_enable_user E P uc request =
     (case (case request of None \<Rightarrow> ([], []) | Some r \<Rightarrow> r) of (requestName, etag) \<Rightarrow>
        pass (result (parse_user_name P requestName)) (\<lambda>nam.
        mapping_error user_error (user_enable E uc nam etag) (\<lambda>resource.
        pass (result (cp_to_response P resource)) (\<lambda>reply. ret (ReplyUser reply, None)))))"

section \<open>Operations and their rules\<close>

text \<open>The RPCs with their request messages; a nil request is \<open>None\<close>.\<close>

datatype iam_rpc =
    RpcLogin "(string \<times> string) option"
  | RpcLogout
  | RpcRegister "(string \<times> string \<times> string \<times> profile option) option"
  | RpcVerifyEmail "string option"
  | RpcResendVerificationEmail "(string \<times> string) option"
  | RpcRequestPasswordReset "(string \<times> string) option"
  | RpcConfirmPasswordReset "(string \<times> string) option"
  | RpcGetProfile
  | RpcUpdateProfile "(profile option \<times> string list option) option"
  | RpcChangePassword "(string \<times> string) option"
  | RpcCreateUser "(string \<times> user_pb option \<times> string) option"
  | RpcGetUser string
  | RpcListUsers "list_input option"
  | RpcUpdateUser "(user_pb option \<times> string list option) option"
  | RpcDisableUser "(string \<times> string) option"
  | RpcEnableUser "(string \<times> string) option"

fun rpc_operation :: "iam_rpc \<Rightarrow> string" where
  "rpc_operation (RpcLogin _) = ''/iam.authn.v1.AuthnService/Login''"
| "rpc_operation RpcLogout = ''/iam.session.v1.SessionService/Logout''"
| "rpc_operation (RpcRegister _) = ''/iam.account.v1.AccountService/Register''"
| "rpc_operation (RpcVerifyEmail _) = ''/iam.account.v1.AccountService/VerifyEmail''"
| "rpc_operation (RpcResendVerificationEmail _) = ''/iam.account.v1.AccountService/ResendVerificationEmail''"
| "rpc_operation (RpcRequestPasswordReset _) = ''/iam.account.v1.AccountService/RequestPasswordReset''"
| "rpc_operation (RpcConfirmPasswordReset _) = ''/iam.account.v1.AccountService/ConfirmPasswordReset''"
| "rpc_operation RpcGetProfile = ''/iam.account.v1.AccountService/GetProfile''"
| "rpc_operation (RpcUpdateProfile _) = ''/iam.account.v1.AccountService/UpdateProfile''"
| "rpc_operation (RpcChangePassword _) = ''/iam.account.v1.AccountService/ChangePassword''"
| "rpc_operation (RpcCreateUser _) = ''/iam.user.v1.UserService/CreateUser''"
| "rpc_operation (RpcGetUser _) = ''/iam.user.v1.UserService/GetUser''"
| "rpc_operation (RpcListUsers _) = ''/iam.user.v1.UserService/ListUsers''"
| "rpc_operation (RpcUpdateUser _) = ''/iam.user.v1.UserService/UpdateUser''"
| "rpc_operation (RpcDisableUser _) = ''/iam.user.v1.UserService/DisableUser''"
| "rpc_operation (RpcEnableUser _) = ''/iam.user.v1.UserService/EnableUser''"

definition authn_public :: authn_rule where "authn_public = \<lparr>ar_mode = AuthnPublic\<rparr>"
definition authn_required :: authn_rule where "authn_required = \<lparr>ar_mode = AuthnRequired\<rparr>"

definition authz_none :: authz_rule where
  "authz_none = \<lparr>zr_mode = AuthzNone, zr_action = [], zr_resource_type = [], zr_target = None\<rparr>"

definition can_manage_users :: authz_rule where
  "can_manage_users = \<lparr>zr_mode = AuthzRequired, zr_action = ''can_manage_users'', zr_resource_type = ''plateau'',
     zr_target = Some (TargetResourceId ''default'')\<rparr>"

definition authn_authn_rules :: "authn_rule rules" where
  "authn_authn_rules = [''/iam.authn.v1.AuthnService/Login'' \<mapsto> authn_public]"

definition session_authn_rules :: "authn_rule rules" where
  "session_authn_rules = [''/iam.session.v1.SessionService/Logout'' \<mapsto> authn_required]"

definition account_authn_rules :: "authn_rule rules" where
  "account_authn_rules =
     [''/iam.account.v1.AccountService/ChangePassword'' \<mapsto> authn_required,
      ''/iam.account.v1.AccountService/ConfirmPasswordReset'' \<mapsto> authn_public,
      ''/iam.account.v1.AccountService/GetProfile'' \<mapsto> authn_required,
      ''/iam.account.v1.AccountService/Register'' \<mapsto> authn_public,
      ''/iam.account.v1.AccountService/RequestPasswordReset'' \<mapsto> authn_public,
      ''/iam.account.v1.AccountService/ResendVerificationEmail'' \<mapsto> authn_public,
      ''/iam.account.v1.AccountService/UpdateProfile'' \<mapsto> authn_required,
      ''/iam.account.v1.AccountService/VerifyEmail'' \<mapsto> authn_public]"

definition user_authn_rules :: "authn_rule rules" where
  "user_authn_rules =
     [''/iam.user.v1.UserService/CreateUser'' \<mapsto> authn_required,
      ''/iam.user.v1.UserService/DisableUser'' \<mapsto> authn_required,
      ''/iam.user.v1.UserService/EnableUser'' \<mapsto> authn_required,
      ''/iam.user.v1.UserService/GetUser'' \<mapsto> authn_required,
      ''/iam.user.v1.UserService/ListUsers'' \<mapsto> authn_required,
      ''/iam.user.v1.UserService/UpdateUser'' \<mapsto> authn_required]"

definition authn_authz_rules :: "authz_rule rules" where
  "authn_authz_rules = [''/iam.authn.v1.AuthnService/Login'' \<mapsto> authz_none]"

definition session_authz_rules :: "authz_rule rules" where
  "session_authz_rules = [''/iam.session.v1.SessionService/Logout'' \<mapsto> authz_none]"

definition account_authz_rules :: "authz_rule rules" where
  "account_authz_rules =
     [''/iam.account.v1.AccountService/ChangePassword'' \<mapsto> authz_none,
      ''/iam.account.v1.AccountService/ConfirmPasswordReset'' \<mapsto> authz_none,
      ''/iam.account.v1.AccountService/GetProfile'' \<mapsto> authz_none,
      ''/iam.account.v1.AccountService/Register'' \<mapsto> authz_none,
      ''/iam.account.v1.AccountService/RequestPasswordReset'' \<mapsto> authz_none,
      ''/iam.account.v1.AccountService/ResendVerificationEmail'' \<mapsto> authz_none,
      ''/iam.account.v1.AccountService/UpdateProfile'' \<mapsto> authz_none,
      ''/iam.account.v1.AccountService/VerifyEmail'' \<mapsto> authz_none]"

definition user_authz_rules :: "authz_rule rules" where
  "user_authz_rules =
     [''/iam.user.v1.UserService/CreateUser'' \<mapsto> can_manage_users,
      ''/iam.user.v1.UserService/DisableUser'' \<mapsto> can_manage_users,
      ''/iam.user.v1.UserService/EnableUser'' \<mapsto> can_manage_users,
      ''/iam.user.v1.UserService/GetUser'' \<mapsto> can_manage_users,
      ''/iam.user.v1.UserService/ListUsers'' \<mapsto> can_manage_users,
      ''/iam.user.v1.UserService/UpdateUser'' \<mapsto> can_manage_users]"

definition iam_authn_options :: "authn_rule rules_provider option list option list" where
  "iam_authn_options =
     [Some [Some (\<lambda>_. authn_authn_rules), Some (\<lambda>_. session_authn_rules), Some (\<lambda>_. account_authn_rules),
            Some (\<lambda>_. user_authn_rules)]]"

definition iam_authz_options :: "authz_rule rules_provider option list option list" where
  "iam_authz_options =
     [Some [Some (\<lambda>_. authn_authz_rules), Some (\<lambda>_. session_authz_rules), Some (\<lambda>_. account_authz_rules),
            Some (\<lambda>_. user_authz_rules)]]"

section \<open>The server\<close>

text \<open>A handler runs with the context that the middlewares left.\<close>

fun iam_handler ::
    "db dbenv \<Rightarrow> iam_lib \<Rightarrow> ((db, 'z) db_world_scheme) iam_deps \<Rightarrow> crud_plan \<Rightarrow> iam_ctx \<Rightarrow> iam_rpc
     \<Rightarrow> ((db, 'z) db_world_scheme, iam_answer) prog" where
  "iam_handler E L D P ctx (RpcLogin r) = authn_login E L (iam_authentication E L) ctx r"
| "iam_handler E L D P ctx RpcLogout = session_service_logout E (iam_sessions E L) ctx"
| "iam_handler E L D P ctx (RpcRegister r) = service_register E L (iam_account E L D) r"
| "iam_handler E L D P ctx (RpcVerifyEmail r) = service_verify_email E L (iam_account E L D) r"
| "iam_handler E L D P ctx (RpcResendVerificationEmail r) = service_resend_verification E L (iam_account E L D) r"
| "iam_handler E L D P ctx (RpcRequestPasswordReset r) = service_request_password_reset E L (iam_account E L D) r"
| "iam_handler E L D P ctx (RpcConfirmPasswordReset r) = service_confirm_password_reset E L (iam_account E L D) r"
| "iam_handler E L D P ctx RpcGetProfile = service_get_profile ctx"
| "iam_handler E L D P ctx (RpcUpdateProfile r) = service_update_profile (iam_account E L D) ctx r"
| "iam_handler E L D P ctx (RpcChangePassword r) = service_change_password E L (iam_account E L D) ctx r"
| "iam_handler E L D P ctx (RpcCreateUser r) = service_create_user E L P (iam_users E L D) r"
| "iam_handler E L D P ctx (RpcGetUser r) = service_get_user P (iam_users E L D) r"
| "iam_handler E L D P ctx (RpcListUsers r) = service_list_users E L P r"
| "iam_handler E L D P ctx (RpcUpdateUser r) = service_update_user P (iam_users E L D) r"
| "iam_handler E L D P ctx (RpcDisableUser r) = service_disable_user E P (iam_users E L D) r"
| "iam_handler E L D P ctx (RpcEnableUser r) = service_enable_user E P (iam_users E L D) r"

text \<open>
  The middlewares of \<open>NewHTTPServer\<close> and \<open>NewGRPCServer\<close> that decide: authentication, then
  authorization. \<open>proto_of\<close> is what reflection shows of a request.
\<close>

definition iam_middleware ::
    "db dbenv \<Rightarrow> iam_lib \<Rightarrow> ((db, 'z) db_world_scheme) fga_client \<Rightarrow> ('q \<Rightarrow> pmessage option option)
     \<Rightarrow> (\<lparr>ctx_identity :: iam_identity option\<rparr>, 'q, (db, 'z) db_world_scheme, 'a) middleware option" where
  "iam_middleware E L fga proto_of =
     (case (new_session_authenticator E L (Some (iam_sessions E L)), new_openfga_authorizer (Some fga)) of
        (Inr a, Inr z) \<Rightarrow>
          (case (session_server (Some a) iam_authn_options, openfga_server (Some z) iam_authz_options proto_of) of
             (Some authn, Some authz) \<Rightarrow> Some (chain2 authn authz)
           | _ \<Rightarrow> None)
      | _ \<Rightarrow> None)"

definition iam_serve ::
    "db dbenv \<Rightarrow> iam_lib \<Rightarrow> ((db, 'z) db_world_scheme) iam_deps \<Rightarrow> crud_plan \<Rightarrow> ((db, 'z) db_world_scheme) fga_client
     \<Rightarrow> (iam_rpc \<Rightarrow> pmessage option option) \<Rightarrow> (iam_ctx \<Rightarrow> iam_rpc \<Rightarrow> ((db, 'z) db_world_scheme, iam_answer) prog) option"
  where
  "iam_serve E L D P fga proto_of =
     map_option (\<lambda>mw ctx rpc. mw (\<lambda>c r. iam_handler E L D P (the c) r) (Some ctx) rpc)
       (iam_middleware E L fga proto_of)"

end
