(* ===== verification/IamServed.thy ===== *)
theory IamServed
  imports IamService IamRound
begin

text \<open>
  What the middlewares and services of IAM promise together: which calls reach a handler and with which
  identity, that every RPC has rules, and how logins answer.
\<close>

section \<open>Operations by access\<close>

definition public_operations :: "string list" where
  "public_operations =
     [''/iam.authn.v1.AuthnService/Login'', ''/iam.account.v1.AccountService/ConfirmPasswordReset'',
      ''/iam.account.v1.AccountService/Register'', ''/iam.account.v1.AccountService/RequestPasswordReset'',
      ''/iam.account.v1.AccountService/ResendVerificationEmail'', ''/iam.account.v1.AccountService/VerifyEmail'']"

definition own_operations :: "string list" where
  "own_operations =
     [''/iam.session.v1.SessionService/Logout'', ''/iam.account.v1.AccountService/ChangePassword'',
      ''/iam.account.v1.AccountService/GetProfile'', ''/iam.account.v1.AccountService/UpdateProfile'']"

definition admin_operations :: "string list" where
  "admin_operations =
     [''/iam.user.v1.UserService/CreateUser'', ''/iam.user.v1.UserService/DisableUser'',
      ''/iam.user.v1.UserService/EnableUser'', ''/iam.user.v1.UserService/GetUser'',
      ''/iam.user.v1.UserService/ListUsers'', ''/iam.user.v1.UserService/UpdateUser'']"

lemmas operation_lists = public_operations_def own_operations_def admin_operations_def

definition iam_authn_rules :: "authn_rule rules" where
  "iam_authn_rules = authn_authn_rules ++ session_authn_rules ++ account_authn_rules ++ user_authn_rules"

definition iam_authz_rules :: "authz_rule rules" where
  "iam_authz_rules = authn_authz_rules ++ session_authz_rules ++ account_authz_rules ++ user_authz_rules"

lemma iam_new_rules:
  "authn_new_rules iam_authn_options = Some iam_authn_rules"
  "authz_new_rules iam_authz_options = Some iam_authz_rules"
  by (simp_all add: authn_new_rules_def authz_new_rules_def iam_authn_options_def iam_authz_options_def
      iam_authn_rules_def iam_authz_rules_def with_rules_funcs_def)

lemma iam_authn_rules_eq:
  "iam_authn_rules op =
     (if op \<in> set public_operations then Some authn_public
      else if op \<in> set own_operations \<or> op \<in> set admin_operations then Some authn_required else None)"
  unfolding iam_authn_rules_def map_add_def authn_authn_rules_def session_authn_rules_def
    account_authn_rules_def user_authn_rules_def operation_lists
  by (simp add: fun_upd_apply)

lemma iam_authz_rules_eq:
  "iam_authz_rules op =
     (if op \<in> set admin_operations then Some can_manage_users
      else if op \<in> set own_operations \<or> op \<in> set public_operations then Some authz_none else None)"
  unfolding iam_authz_rules_def map_add_def authn_authz_rules_def session_authz_rules_def
    account_authz_rules_def user_authz_rules_def operation_lists
  by (simp add: fun_upd_apply)


section \<open>Access\<close>

text \<open>The secret belongs to a session that is neither revoked nor past its idle limit, of a user that may log in.\<close>

definition live_login :: "iam_lib \<Rightarrow> string \<Rightarrow> db \<Rightarrow> user_pb \<Rightarrow> session_pb \<Rightarrow> bool" where
  "live_login L secret d user session \<longleftrightarrow>
     may_login user \<and> (\<exists>l \<in> set (db_logins d).
       ls_secret l = hash_opaque_secret L secret \<and> ls_user l = up_user_id user \<and> ls_revoked l = None
       \<and> ls_seen l < ls_idle l \<and> ls_idle l \<le> ls_absolute l \<and> session = to_session l)"

text \<open>
  How a call in \<open>ctx\<close> may reach its handler in \<open>c\<close>: anonymously on a public operation, else with the
  identity of the live session of its cookie; on an administration operation OpenFGA has then allowed it.
\<close>

definition iam_grants ::
    "iam_lib \<Rightarrow> ((db, 'z) db_world_scheme) fga_client \<Rightarrow> iam_ctx \<Rightarrow> iam_ctx \<Rightarrow> (db, 'z) db_world_scheme
     \<Rightarrow> (db, 'z) db_world_scheme \<Rightarrow> bool" where
  "iam_grants L fga ctx c w w' \<longleftrightarrow>
     (\<exists>tr. ctx_transport ctx = Some tr \<and>
       (tr_operation tr \<in> set public_operations \<and> c = with_actor ctx anonymous_actor \<and> w' = w
        \<or> (\<exists>header secret user session v.
             tr_header tr = Some header
             \<and> cookie_credential (header ''Cookie'') session_cookie_name = Inr secret
             \<and> live_login L secret (dw_db v) user session
             \<and> identity_from (Some c) = Inr (user, session)
             \<and> (tr_operation tr \<in> set own_operations \<and> w' = v
                \<or> tr_operation tr \<in> set admin_operations
                  \<and> fc_check fga (''user:'' @ up_user_id user) ''can_manage_users'' ''plateau:default'' v
                      = (Inr (Some (Some True)), w')))))"

lemma new_session_authenticator_Inr:
  "new_session_authenticator E L (Some uc) = Inr a \<Longrightarrow>
     sa_cookie_name a = session_cookie_name \<and> sa_resolve a = Some (\<lambda>_ credential. iam_resolve E L uc credential)
     \<and> sa_map_actor a = Some map_actor \<and> sa_extend a = Some (\<lambda>ctx value. Some (with_identity ctx value))"
  by (auto simp: new_session_authenticator_def session_new_def split: if_splits)

lemma new_openfga_authorizer_Inr:
  "new_openfga_authorizer (Some fga) = Inr z \<Longrightarrow> az_client z = Some fga \<and> az_map_subject z = Some iam_subject"
  by (auto simp: new_openfga_authorizer_def authorizer_new_def split: if_splits)

lemma iam_resolve_Inr:
  "iam_resolve E L uc credential w = (Inr identity, w') \<longleftrightarrow>
     (\<exists>user session. session_resolve E L uc credential w = (Inr (user, session), w')
        \<and> identity = Some \<lparr>idn_user = Some user, idn_session = Some session\<rparr>)"
  by (auto simp: iam_resolve_def check_run split: sum.splits prod.splits)

lemma map_actor_Inr:
  "map_actor (Some \<lparr>idn_user = Some user, idn_session = Some session\<rparr>) = Inr actor
     \<Longrightarrow> actor = \<lparr>act_type = actor_type_human, act_id = up_user_id user\<rparr>"
  by (auto simp: map_actor_def split: if_splits)

lemma identity_from_with_identity [simp]:
  "identity_from (Some (with_identity ctx (Some \<lparr>idn_user = Some user, idn_session = Some session\<rparr>)))
     = Inr (user, session)"
  by (simp add: identity_from_def with_identity_def)

lemma session_resolve_live_login:
  assumes "others_ok E" "db_wf (dw_db w)"
    and "session_resolve E L (iam_sessions E L) secret w = (Inr (user, session), w')"
  shows "live_login L secret (dw_db w') user session"
  using session_resolve_live [OF assms] by (auto simp: live_login_def)

lemma plateau_object: "resource_object ''plateau'' ''default'' = Inr object \<Longrightarrow> object = ''plateau:default''"
  by (auto simp: resource_object_def resource_type_name_def split: if_splits)

lemma can_manage_users_resource [simp]: "rule_resource_id can_manage_users msg = Inr ''default''"
  by (simp add: rule_resource_id_def can_manage_users_def get_resource_id_def)

lemma can_manage_users_fields [simp]:
  "zr_mode can_manage_users = AuthzRequired" "zr_action can_manage_users = ''can_manage_users''"
  "zr_resource_type can_manage_users = ''plateau''"
  by (simp_all add: can_manage_users_def)

text \<open>The context after authentication: the operation is the same, and the identity is that of a live session.\<close>

lemma iam_session_grants:
  fixes w :: "(db, 'z) db_world_scheme" and ctx :: iam_ctx
  assumes ok: "others_ok E" "db_wf (dw_db w)"
    and a: "new_session_authenticator E L (Some (iam_sessions E L)) = Inr a"
    and g: "session_grants a iam_authn_rules ctx w c v"
  obtains tr where "ctx_transport ctx = Some tr" "tr_operation tr \<in> set public_operations"
      "c = with_actor ctx anonymous_actor" "v = w"
    | tr header secret user session where "ctx_transport ctx = Some tr" "ctx_transport c = Some tr"
      "tr_operation tr \<in> set own_operations \<union> set admin_operations"
      "tr_header tr = Some header" "cookie_credential (header ''Cookie'') session_cookie_name = Inr secret"
      "live_login L secret (dw_db v) user session" "identity_from (Some c) = Inr (user, session)"
      "actor_from (Some c) = Some \<lparr>act_type = actor_type_human, act_id = up_user_id user\<rparr>"
proof -
  from g obtain tr rule where tr: "ctx_transport ctx = Some tr" and rule: "iam_authn_rules (tr_operation tr) = Some rule"
    and cases: "ar_mode rule = AuthnPublic \<and> c = with_actor ctx anonymous_actor \<and> v = w
        \<or> ar_mode rule = AuthnRequired \<and>
          (\<exists>header credential resolve mapA identity actor.
             tr_header tr = Some header
             \<and> cookie_credential (header ''Cookie'') (sa_cookie_name a) = Inr credential
             \<and> sa_resolve a = Some resolve \<and> resolve ctx credential w = (Inr identity, v)
             \<and> sa_map_actor a = Some mapA \<and> mapA identity = Inr actor
             \<and> authenticated actor \<and> actor_from (Some c) = Some actor
             \<and> (case sa_extend a of None \<Rightarrow> c = with_actor ctx actor
                | Some ext \<Rightarrow> ext (with_actor ctx actor) identity = Some c))"
    by (auto simp: session_grants_def)
  note new = new_session_authenticator_Inr [OF a]
  from cases show ?thesis
  proof (elim disjE conjE exE)
    assume "ar_mode rule = AuthnPublic" "c = with_actor ctx anonymous_actor" "v = w"
    with tr rule show ?thesis
      by (intro that(1)) (auto simp: iam_authn_rules_eq authn_required_def split: if_splits)
  next
    fix header credential resolve mapA identity actor
    assume req: "ar_mode rule = AuthnRequired" and h: "tr_header tr = Some header"
      and cred: "cookie_credential (header ''Cookie'') (sa_cookie_name a) = Inr credential"
      and res: "sa_resolve a = Some resolve" "resolve ctx credential w = (Inr identity, v)"
      and actor: "sa_map_actor a = Some mapA" "mapA identity = Inr actor" "actor_from (Some c) = Some actor"
      and ext: "case sa_extend a of None \<Rightarrow> c = with_actor ctx actor
        | Some ext \<Rightarrow> ext (with_actor ctx actor) identity = Some c"
    from res new obtain user session where
      r: "session_resolve E L (iam_sessions E L) credential w = (Inr (user, session), v)"
      and i: "identity = Some \<lparr>idn_user = Some user, idn_session = Some session\<rparr>"
      by (auto simp: iam_resolve_Inr)
    have c: "c = with_identity (with_actor ctx actor) identity" using ext new by simp
    have op: "tr_operation tr \<in> set own_operations \<union> set admin_operations"
      using rule req by (auto simp: iam_authn_rules_eq authn_public_def split: if_splits)
    have t: "ctx_transport c = Some tr" using c tr by (simp add: with_identity_def with_actor_def)
    have u: "actor = \<lparr>act_type = actor_type_human, act_id = up_user_id user\<rparr>"
      using map_actor_Inr [of user session actor] actor new i by simp
    show ?thesis
      using that(2) [OF tr t op h] cred new session_resolve_live_login [OF ok r] c i actor(3) u by simp
  qed
qed


lemma iam_middleware_cases:
  fixes w :: "(db, 'z) db_world_scheme" and ctx :: iam_ctx
  assumes mw: "iam_middleware E L fga proto_of = Some mw" and ok: "others_ok E" "db_wf (dw_db w)"
  shows "(\<exists>e w'. stops mw (Some ctx) req w e w')
    \<or> (\<exists>c w'. calls mw (Some ctx) req w c w' \<and> iam_grants L fga ctx c w w')"
proof -
  from mw obtain a z authn authz where
    a: "new_session_authenticator E L (Some (iam_sessions E L)) = Inr a" and z: "new_openfga_authorizer (Some fga) = Inr z"
    and s: "session_server (Some a) iam_authn_options = Some authn"
    and f: "openfga_server (Some z) iam_authz_options proto_of = Some authz" and mw: "mw = chain2 authn authz"
    by (auto simp: iam_middleware_def split: sum.splits option.splits)
  note z' = new_openfga_authorizer_Inr [OF z]
  from session_server_cases [OF s iam_new_rules(1), of ctx req w] show ?thesis
  proof (elim disjE exE conjE)
    fix e w' assume "stops authn (Some ctx) req w e w'"
    then have "stops mw (Some ctx) req w e w'" unfolding mw by (rule chain2_stops(1))
    then show ?thesis by blast
  next
    fix c v assume authn: "calls authn (Some ctx) req w c v" and g: "session_grants a iam_authn_rules ctx w c v"
    from openfga_server_cases [OF f iam_new_rules(2), of c req v] show ?thesis
    proof (elim disjE exE conjE)
      fix e w' assume "stops authz (Some c) req v e w'"
      then have "stops mw (Some ctx) req w e w'" unfolding mw by (rule chain2_stops(2) [OF authn])
      then show ?thesis by blast
    next
      fix w' assume authz: "calls authz (Some c) req v c w'"
        and o: "openfga_grants z iam_authz_rules c (proto_of req) v w'"
      have "iam_grants L fga ctx c w w'"
        using iam_session_grants [OF ok a g]
      proof cases
        case (1 tr)
        then have "ctx_transport c = Some tr" by (simp add: with_actor_def)
        with o 1(2) have "w' = v"
          by (auto simp: openfga_grants_def iam_authz_rules_eq authz_none_def operation_lists)
        with 1 show ?thesis by (auto simp: iam_grants_def)
      next
        case (2 tr header secret user session)
        show ?thesis
        proof (cases "tr_operation tr \<in> set admin_operations")
          case True
          with o 2(2) have "\<exists>actor user object. actor_from (Some c) = Some actor
              \<and> iam_subject actor = Inr user \<and> resource_object ''plateau'' ''default'' = Inr object
              \<and> fc_check fga user ''can_manage_users'' object v = (Inr (Some (Some True)), w')"
            using z' by (auto simp: openfga_grants_def iam_authz_rules_eq)
          then have "fc_check fga (''user:'' @ up_user_id user) ''can_manage_users'' ''plateau:default'' v
              = (Inr (Some (Some True)), w')"
            using 2(8) plateau_object by (auto simp: iam_subject_def split: if_splits)
          with 2 True show ?thesis by (auto simp: iam_grants_def)
        next
          case False
          with o 2 have "w' = v"
            by (auto simp: openfga_grants_def iam_authz_rules_eq authz_none_def split: if_splits)
          with 2 False show ?thesis by (auto simp: iam_grants_def)
        qed
      qed
      moreover have "calls mw (Some ctx) req w c w'" unfolding mw by (rule chain2_calls [OF authn authz])
      ultimately show ?thesis by blast
    qed
  qed
qed


text \<open>
  C4. Access to the IAM service. Every call either stops in the middlewares with an error that does not
  depend on the handler, or runs the handler of its operation exactly once: anonymously for the six
  public operations, and for every other one with the identity of the user and session that the
  session cookie resolved to, a session neither revoked nor expired of a user that may log in; the
  operations of the user service are moreover run only after OpenFGA answered that this user can
  manage users of the plateau. An operation without rules never runs.
\<close>

theorem iam_calls_are_authorized:
  fixes w :: "(db, 'z) db_world_scheme" and ctx :: iam_ctx
  assumes "iam_middleware E L fga proto_of = Some mw" "others_ok E" "db_wf (dw_db w)"
  shows "(\<exists>e w'. stops mw (Some ctx) req w e w')
    \<or> (\<exists>c w'. calls mw (Some ctx) req w c w' \<and> iam_grants L fga ctx c w w')"
  using assms by (rule iam_middleware_cases)

section \<open>The cookie of a login\<close>

lemma url_alphabet_cookie:
  "c \<in> set url_alphabet \<Longrightarrow> cookie_value_byte c \<and> \<not> ascii_space c \<and> c \<noteq> CHR '';'' \<and> c \<noteq> CHR ''='' \<and> ord_of c \<noteq> 34"
proof -
  have "list_all (\<lambda>c. cookie_value_byte c \<and> \<not> ascii_space c \<and> c \<noteq> CHR '';'' \<and> c \<noteq> CHR ''='' \<and> ord_of c \<noteq> 34) url_alphabet"
    by code_simp
  then show "c \<in> set url_alphabet \<Longrightarrow> ?thesis" by (simp add: list_all_iff)
qed

lemma session_cookie_name_facts:
  "is_token session_cookie_name" "session_cookie_name \<noteq> []"
  "\<forall>c \<in> set session_cookie_name. \<not> ascii_space c \<and> c \<noteq> CHR '';'' \<and> c \<noteq> CHR ''=''"
  by code_simp+

lemma dropWhile_none: "\<forall>c \<in> set xs. \<not> P c \<Longrightarrow> dropWhile P xs = xs"
  by (cases xs) auto

lemma trim_ascii_visible: "\<forall>c \<in> set s. \<not> ascii_space c \<Longrightarrow> trim_ascii s = s"
  by (simp add: trim_ascii_def dropWhile_none)

lemma url_text_cookie:
  "set s \<subseteq> set url_alphabet \<Longrightarrow>
     \<forall>c \<in> set s. cookie_value_byte c \<and> \<not> ascii_space c \<and> c \<noteq> CHR '';'' \<and> c \<noteq> CHR ''='' \<and> ord_of c \<noteq> 34"
  using url_alphabet_cookie by (intro ballI) blast

lemma cookie_read_back:
  assumes "s \<noteq> []" "set s \<subseteq> set url_alphabet"
  shows "cookie_credential (session_cookie_name @ ''='' @ s) session_cookie_name = Inr s"
proof -
  let ?h = "session_cookie_name @ ''='' @ s"
  have a: "\<forall>c \<in> set s. cookie_value_byte c \<and> \<not> ascii_space c \<and> c \<noteq> CHR '';'' \<and> c \<noteq> CHR ''='' \<and> ord_of c \<noteq> 34"
    by (rule url_text_cookie [OF assms(2)])
  have eq: "\<not> ascii_space (CHR ''='')" by code_simp
  have h: "\<forall>c \<in> set ?h. \<not> ascii_space c \<and> c \<noteq> CHR '';''"
    using a eq session_cookie_name_facts(3) by (simp add: ball_Un)
  have t: "trim_ascii ?h = ?h" "trim_ascii session_cookie_name = session_cookie_name"
    using h session_cookie_name_facts(3) by (metis trim_ascii_visible)+
  have sp: "split_on (CHR '';'') ?h = [?h]"
    using h by (metis split_on_single)
  have c: "cut (CHR ''='') ?h = (session_cookie_name, s, True)"
    using session_cookie_name_facts(3) cut_append [of "CHR ''=''" session_cookie_name s] by auto
  have v: "parse_cookie_value s = Some s"
    using a assms(1) hd_in_set [of s] by (auto simp: parse_cookie_value_def list_all_iff Let_def)
  show ?thesis
    using t sp c v session_cookie_name_facts assms(1)
    by (simp add: cookie_credential_def request_cookie_def cookie_of_part_def Let_def)
qed


text \<open>A call on an own operation with the cookie of a session that resolves reaches its handler.\<close>

lemma own_call_served:
  fixes v :: "(db, 'z) db_world_scheme" and ctx :: iam_ctx
  assumes mw: "iam_middleware E L fga proto_of = Some mw"
    and tr: "ctx_err ctx = None" "ctx_transport ctx = Some tr" "tr_operation tr \<in> set own_operations"
      "tr_header tr = Some header" "cookie_credential (header ''Cookie'') session_cookie_name = Inr secret"
    and res: "session_resolve E L (iam_sessions E L) secret v = (Inr (user, session), v')"
      "up_user_id user \<noteq> []" "sp_session_id session \<noteq> []"
  shows "\<exists>c. identity_from (Some c) = Inr (user, session) \<and> mw h (Some ctx) req v = h (Some c) req v'"
proof -
  from mw obtain a z authn authz where
    a: "new_session_authenticator E L (Some (iam_sessions E L)) = Inr a" and z: "new_openfga_authorizer (Some fga) = Inr z"
    and s: "session_server (Some a) iam_authn_options = Some authn"
    and f: "openfga_server (Some z) iam_authz_options proto_of = Some authz" and mw: "mw = chain2 authn authz"
    by (auto simp: iam_middleware_def split: sum.splits option.splits)
  note new = new_session_authenticator_Inr [OF a]
  have valid: "session_valid (Some a)" "authorizer_valid (Some z)"
    using s f by (auto simp: session_server_def openfga_server_def split: if_splits)
  let ?id = "Some \<lparr>idn_user = Some user, idn_session = Some session\<rparr>"
  let ?act = "\<lparr>act_type = actor_type_human, act_id = up_user_id user\<rparr>"
  let ?c = "with_identity (with_actor ctx ?act) ?id"
  have i: "iam_resolve E L (iam_sessions E L) secret v = (Inr ?id, v')" using res by (simp add: iam_resolve_Inr)
  have act: "map_actor ?id = Inr ?act" using res by (simp add: map_actor_def)
  have "actor_valid ?act" "act_type ?act \<noteq> actor_type_anonymous" "actor_from (Some ?c) = Some ?act"
    using res(2) by (simp_all add: actor_valid_def actor_from_def with_identity_def with_actor_def)
  then have au: "session_authenticate (Some a) (Some ctx) secret v = (Inr ?c, v')"
    using tr(1) valid(1) new i act by (simp add: session_authenticate_def check_run)
  have op: "iam_authn_rules (tr_operation tr) = Some authn_required" "iam_authz_rules (tr_operation tr) = Some authz_none"
    using tr(3) by (auto simp: iam_authn_rules_eq iam_authz_rules_eq operation_lists)
  have "authn (authz h) (Some ctx) req v = authz h (Some ?c) req v'"
    using s valid(1) tr op(1) new au by (auto simp: session_server_def iam_new_rules authn_required_def check_run)
  moreover have "ctx_transport ?c = Some tr" using tr(2) by (simp add: with_identity_def with_actor_def)
  then have "authz h (Some ?c) req v' = h (Some ?c) req v'"
    using f valid(2) op(2) by (auto simp: openfga_server_def iam_new_rules authz_none_def)
  ultimately show ?thesis using mw by (auto simp: chain2_def intro!: exI [of _ ?c])
qed

lemma login_reply_Inr:
  assumes "authn_login E L uc ctx r w = (Inr (ReplyLogin user session, Some cookie), w')"
  obtains email p where "r = Some (email, p)"
    "authentication_login E L uc email p w = (Inr (user, session, sc_value cookie), w')"
    "cookie = session_cookie (sc_value cookie)"
  using assms
  by (auto simp: authn_login_def check_run set_session_cookie_def session_cookie_def
      split: option.splits sum.splits prod.splits if_splits intro!: that)


text \<open>
  C15. The cookie of a login authenticates. When no one else uses the database, the value that a login
  sets as its cookie, put back as the \<open>Cookie\<close> header of a profile request before the idle limit of the
  session, passes the middlewares, and the profile request answers the user that logged in.
\<close>

theorem login_cookie_authenticates:
  fixes w v :: "(db, 'z) db_world_scheme" and ctx :: iam_ctx
  assumes "quiet E" "sources_ok E" "db_wf (dw_db w)"
    and "iam_handler E L D P ctx0 (RpcLogin r) w = (Inr (ReplyLogin user session, Some cookie), w')"
    and "iam_serve E L D P fga proto_of = Some srv"
    and "ctx_err ctx = None" "ctx_transport ctx = Some tr" "tr_operation tr = rpc_operation RpcGetProfile"
    and "tr_header tr = Some header" "header ''Cookie'' = session_cookie_name @ ''='' @ sc_value cookie"
    and "dw_db v = dw_db w'" "sp_idle_expires_time session = Some idle" "clock E (Suc (tick v)) < idle"
  shows "\<exists>v'. srv ctx RpcGetProfile v = (Inr (ReplyUser user, None), v')"
proof -
  from assms(4) have "authn_login E L (iam_authentication E L) ctx0 r w = (Inr (ReplyLogin user session, Some cookie), w')"
    by simp
  then obtain email p where login:
    "authentication_login E L (iam_authentication E L) email p w = (Inr (user, session, sc_value cookie), w')"
    by (rule login_reply_Inr)
  from login_then_resolve [OF assms(1-3) login assms(11-13)] obtain session' v' where
    r: "session_resolve E L (iam_sessions E L) (sc_value cookie) v = (Inr (user, session'), v')"
    and ne: "sp_session_id session' = sp_session_id session" "up_user_id user \<noteq> []" "sp_session_id session \<noteq> []"
      "sc_value cookie \<noteq> []" "set (sc_value cookie) \<subseteq> set url_alphabet" by blast
  from assms(5) obtain mw where mw: "iam_middleware E L fga proto_of = Some mw"
    and srv: "srv = (\<lambda>ctx rpc. mw (\<lambda>c r. iam_handler E L D P (the c) r) (Some ctx) rpc)"
    by (auto simp: iam_serve_def)
  have own: "tr_operation tr \<in> set own_operations" using assms(8) by (simp add: own_operations_def)
  have cred: "cookie_credential (header ''Cookie'') session_cookie_name = Inr (sc_value cookie)"
    unfolding assms(10) by (rule cookie_read_back [OF ne(4,5)])
  have sid: "sp_session_id session' \<noteq> []" using ne by simp
  obtain c where "identity_from (Some c) = Inr (user, session')"
    "mw (\<lambda>c r. iam_handler E L D P (the c) r) (Some ctx) RpcGetProfile v
       = (\<lambda>c r. iam_handler E L D P (the c) r) (Some c) RpcGetProfile v'"
    using own_call_served [OF mw assms(6,7) own assms(9) cred r ne(2) sid] by blast
  then show ?thesis by (simp add: srv service_get_profile_def)
qed

section \<open>A sample service\<close>

definition sample_fga :: "(db db_world) fga_client" where
  "sample_fga = \<lparr>fc_check = (\<lambda>u r ob. ret (Some (Some True))), fc_batch = (\<lambda>items. ret None),
     fc_list = (\<lambda>u r t. ret None)\<rparr>"

definition sample_plan :: crud_plan where
  "sample_plan = \<lparr>cp_prepare_list = (\<lambda>_ _. Inr []), cp_list = (\<lambda>_ rows. Inr (rows, [], None)),
     cp_list_result = (\<lambda>_ users token _. Inr (users, token)), cp_prepare_create = Inr, cp_prepare_update = (\<lambda>u m e. Inl (errorf ''unused'')),
     cp_parse_name = (\<lambda>s. Inr (Some s)), cp_to_response = Inr\<rparr>"

definition sample_call :: "string \<Rightarrow> string \<Rightarrow> iam_ctx" where
  "sample_call op cookie = \<lparr>ctx_err = None, ctx_actor = None,
     ctx_transport = Some \<lparr>tr_operation = op, tr_header = Some (\<lambda>_. cookie)\<rparr>, ctx_identity = None\<rparr>"

lemma iam_middleware_exists:
  fixes fga :: "((db, 'z) db_world_scheme) fga_client"
  shows "\<exists>mw. iam_middleware E L fga proto_of = Some mw"
proof -
  obtain a :: "(\<lparr>ctx_identity :: iam_identity option\<rparr>, (db, 'z) db_world_scheme, iam_identity option) session_authenticator"
    where a: "new_session_authenticator E L (Some (iam_sessions E L)) = Inr a"
    using session_cookie_name_facts(1) by (simp add: new_session_authenticator_def session_new_def)
  then have va: "session_valid (Some a)" by (auto simp: new_session_authenticator_def dest: session_new_valid)
  obtain z where z: "new_openfga_authorizer (Some fga) = Inr z" "authorizer_valid (Some z)"
    by (simp add: new_openfga_authorizer_def authorizer_new_def authorizer_valid_def)
  show ?thesis using a va z by (simp add: iam_middleware_def session_server_def openfga_server_def iam_new_rules)
qed

theorem iam_calls_are_authorized_witness:
  "\<exists>mw :: (\<lparr>ctx_identity :: iam_identity option\<rparr>, unit, db db_world, unit) middleware.
     iam_middleware demo_env demo_lib sample_fga (\<lambda>_. None) = Some mw
     \<and> ((\<exists>e w'. stops mw (Some (sample_call ''/iam.user.v1.UserService/GetUser'' ''a=b'')) () demo_world e w')
        \<or> (\<exists>c w'. calls mw (Some (sample_call ''/iam.user.v1.UserService/GetUser'' ''a=b'')) () demo_world c w'
             \<and> iam_grants demo_lib sample_fga (sample_call ''/iam.user.v1.UserService/GetUser'' ''a=b'') c demo_world w'))"
proof -
  obtain mw :: "(\<lparr>ctx_identity :: iam_identity option\<rparr>, unit, db db_world, unit) middleware"
    where mw: "iam_middleware demo_env demo_lib sample_fga (\<lambda>_. None) = Some mw"
    using iam_middleware_exists by blast
  have wf: "db_wf (dw_db demo_world)" by (simp add: demo_world_def demo_db_wf)
  show ?thesis using mw iam_calls_are_authorized [OF mw demo_env_ok(1) wf] by blast
qed

lemma sample_login:
  "\<exists>user session cookie w' i.
     iam_handler demo_env demo_lib demo_deps sample_plan (sample_call ''x'' ''a=b'') (RpcLogin (Some (''a@x'', ''pw''))) demo_world
       = (Inr (ReplyLogin user session, Some cookie), w') \<and> sp_idle_expires_time session = Some i \<and> 11 < i"
proof -
  obtain u s k i w' where l: "authentication_login demo_env demo_lib (iam_authentication demo_env demo_lib)
     ''a@x'' ''pw'' demo_world = (Inr (u, s, k), w')" and i: "sp_idle_expires_time s = Some i" "11 < i"
    using demo_login_idle by (metis prod.collapse)
  have wf: "db_wf (dw_db demo_world)" by (simp add: demo_world_def demo_db_wf)
  have "clock demo_env (Suc (tick (w'\<lparr>tick := 0\<rparr>))) < i" using i by (simp add: demo_env_def)
  from login_then_resolve [OF demo_env_quiet wf l _ i(1) this] have "k \<noteq> []" by auto
  with l i show ?thesis
    by (simp add: authn_login_def check_run set_session_cookie_def sample_call_def)
qed

theorem login_cookie_authenticates_witness:
  "\<exists>user session cookie w' v v' srv.
     iam_handler demo_env demo_lib demo_deps sample_plan (sample_call ''x'' ''a=b'') (RpcLogin (Some (''a@x'', ''pw''))) demo_world
       = (Inr (ReplyLogin user session, Some cookie), w')
     \<and> iam_serve demo_env demo_lib demo_deps sample_plan sample_fga (\<lambda>_. None) = Some srv
     \<and> srv (sample_call (rpc_operation RpcGetProfile) (session_cookie_name @ ''='' @ sc_value cookie)) RpcGetProfile v
         = (Inr (ReplyUser user, None), v')"
proof -
  obtain user session cookie w' i where l:
    "iam_handler demo_env demo_lib demo_deps sample_plan (sample_call ''x'' ''a=b'') (RpcLogin (Some (''a@x'', ''pw''))) demo_world
       = (Inr (ReplyLogin user session, Some cookie), w')" and i: "sp_idle_expires_time session = Some i" "11 < i"
    using sample_login by blast
  obtain srv where s: "iam_serve demo_env demo_lib demo_deps sample_plan sample_fga (\<lambda>_. None) = Some srv"
    using iam_middleware_exists by (metis iam_serve_def option.simps(9))
  have wf: "db_wf (dw_db demo_world)" by (simp add: demo_world_def demo_db_wf)
  let ?c = "sample_call (rpc_operation RpcGetProfile) (session_cookie_name @ ''='' @ sc_value cookie)"
  have "clock demo_env (Suc (tick (w'\<lparr>tick := 0\<rparr>))) < i" using i by (simp add: demo_env_def)
  then have "\<exists>v'. srv ?c RpcGetProfile (w'\<lparr>tick := 0\<rparr>) = (Inr (ReplyUser user, None), v')"
    using login_cookie_authenticates [OF demo_env_quiet wf l s, of ?c _ _ "w'\<lparr>tick := 0\<rparr>" i] i(1)
    by (simp add: sample_call_def)
  then show ?thesis using l s by blast
qed

end
