(* ===== verification/OidcConfig.thy ===== *)
theory OidcConfig
  imports OidcStart IamServed
begin

text \<open>
  The configuration of the OpenID part and the start-up of the IAM service: key files (\<open>oidc/op_key.go\<close>),
  the construction of storage and provider, the discovery document (\<open>oidc/provider.go\<close>), what the
  engine sees of a client (\<open>oidc/op_client.go\<close>) and the order of the start-up tasks
  (\<open>startup/initializer.go\<close>). Files, PEM, X.509 and JWK encoding are the fields of \<open>key_lib\<close>.
\<close>

section \<open>Key files\<close>

text \<open>
  A PEM block is its type and its bytes; a PKCS#8 key that is not RSA is \<open>None\<close>. \<open>kl_jwk\<close> gets the key
  and the key id.
\<close>

record 'k key_lib =
  kl_read_file :: "string \<Rightarrow> err + string"
  kl_pem_decode :: "string \<Rightarrow> (string \<times> string) option"
  kl_parse_pkcs1 :: "string \<Rightarrow> err + 'k"
  kl_parse_pkcs8 :: "string \<Rightarrow> err + 'k option"
  kl_bit_len :: "'k \<Rightarrow> int"
  kl_validate :: "'k \<Rightarrow> err option"
  kl_marshal_pkix :: "'k \<Rightarrow> err + string"
  kl_jwk :: "'k \<Rightarrow> string \<Rightarrow> err + string"
  kl_sha256 :: "string \<Rightarrow> string"

definition parse_signing_block :: "'k key_lib \<Rightarrow> string \<times> string \<Rightarrow> err + 'k" where
  "parse_signing_block K block =
     (let wrapped = (\<lambda>e. Inl (wrap ''parse OIDC signing key'' e)) in
      if fst block = ''RSA PRIVATE KEY'' then
        (case kl_parse_pkcs1 K (snd block) of Inl e \<Rightarrow> wrapped e | Inr key \<Rightarrow> Inr key)
      else if fst block = ''PRIVATE KEY'' then
        (case kl_parse_pkcs8 K (snd block) of
           Inl e \<Rightarrow> wrapped e
         | Inr None \<Rightarrow> Inl (errorf ''OIDC signing key is not RSA'')
         | Inr (Some key) \<Rightarrow> Inr key)
      else Inl (errorf ''unsupported OIDC signing PEM type''))"

definition load_signing_key :: "'k key_lib \<Rightarrow> string \<Rightarrow> err + 'k \<times> string \<times> string" where
  "load_signing_key K rawPath =
     (let path = trim_space rawPath in
      if path = [] then Inl (errorf ''OIDC signing key path is empty'')
      else
        case kl_read_file K path of
          Inl e \<Rightarrow> Inl (wrap ''read OIDC signing key'' e)
        | Inr data \<Rightarrow>
        (case kl_pem_decode K data of
           None \<Rightarrow> Inl (errorf ''decode OIDC signing key: PEM block is missing'')
         | Some block \<Rightarrow>
        (case parse_signing_block K block of
           Inl e \<Rightarrow> Inl e
         | Inr privateKey \<Rightarrow>
             if kl_bit_len K privateKey < 2048
             then Inl (errorf ''OIDC RSA signing key must be at least 2048 bits'')
             else
               case kl_validate K privateKey of
                 Some e \<Rightarrow> Inl (wrap ''validate OIDC signing key'' e)
               | None \<Rightarrow>
               (case kl_marshal_pkix K privateKey of
                  Inl e \<Rightarrow> Inl (wrap ''marshal OIDC public key'' e)
                | Inr publicDER \<Rightarrow>
                    let keyID = b64_encode (kl_sha256 K publicDER) in
                    (case kl_jwk K privateKey keyID of
                       Inl e \<Rightarrow> Inl (wrap ''marshal OIDC public JWK'' e)
                     | Inr jwk \<Rightarrow> Inr (privateKey, keyID, jwk))))))"

definition crypto_key_bytes :: nat where "crypto_key_bytes = 32"

definition crypto_material :: "string \<Rightarrow> string" where
  "crypto_material data =
     (let trimmed = trim_space data; n = crypto_key_bytes in
      case hex_decode trimmed of
        Some decoded \<Rightarrow>
          if length decoded = n then decoded
          else (case b64_decode trimmed of
                  Some decoded' \<Rightarrow> if length decoded' = n then decoded' else data
                | None \<Rightarrow> data)
      | None \<Rightarrow>
          (case b64_decode trimmed of
             Some decoded' \<Rightarrow> if length decoded' = n then decoded' else data
           | None \<Rightarrow> data))"

definition load_crypto_key :: "'k key_lib \<Rightarrow> string \<Rightarrow> err + string \<times> string" where
  "load_crypto_key K rawPath =
     (let path = trim_space rawPath in
      if path = [] then Inl (errorf ''OIDC crypto key path is empty'')
      else
        case kl_read_file K path of
          Inl e \<Rightarrow> Inl (wrap ''read OIDC crypto key'' e)
        | Inr data \<Rightarrow>
            let material = crypto_material data in
            if length material \<noteq> crypto_key_bytes then Inl (errorf ''OIDC crypto key must contain exactly 32 bytes'')
            else Inr (material, b64_encode (kl_sha256 K material)))"

section \<open>Storage and provider\<close>

record oidc_config =
  of_issuer :: string
  of_signing_key_path :: string
  of_crypto_key_path :: string
  of_clients :: "client_config option list"

definition new_oidc_storage :: "'k key_lib \<Rightarrow> bool \<Rightarrow> oidc_config option \<Rightarrow> err + 'k \<times> signing_key" where
  "new_oidc_storage K has_client config =
     (if \<not> has_client then Inl (errorf ''OIDC Ent client is nil'')
      else
        case config of
          None \<Rightarrow> Inl (errorf ''OIDC configuration is nil'')
        | Some c \<Rightarrow>
            (case load_signing_key K (of_signing_key_path c) of
               Inl e \<Rightarrow> Inl e
             | Inr (privateKey, keyID, publicJWK) \<Rightarrow>
                 Inr (privateKey, \<lparr>sg_id = keyID, sg_public_jwk = publicJWK\<rparr>)))"

text \<open>The configuration that the engine gets; the last field is \<open>op.WithAllowInsecure\<close>.\<close>

record engine_config =
  ec_crypto_key :: string
  ec_crypto_key_id :: string
  ec_logout_redirect :: string
  ec_code_s256 :: bool
  ec_refresh_grant :: bool
  ec_request_object :: bool
  ec_scopes :: "string list"
  ec_insecure :: bool

definition new_iam_provider ::
    "'k key_lib \<Rightarrow> oidc_lib \<Rightarrow> (string \<Rightarrow> engine_config \<Rightarrow> err option) \<Rightarrow> oidc_config option \<Rightarrow> bool \<Rightarrow> bool
     \<Rightarrow> err + string \<times> engine_config" where
  "new_iam_provider K OL new_provider config has_storage has_sessions =
     (case config of
        None \<Rightarrow> Inl (errorf ''OIDC provider dependencies are nil'')
      | Some c \<Rightarrow>
          if \<not> has_storage \<or> \<not> has_sessions then Inl (errorf ''OIDC provider dependencies are nil'')
          else
            case normalize_issuer OL (of_issuer c) of
              Inl e \<Rightarrow> Inl e
            | Inr (issuer, insecure) \<Rightarrow>
                (case load_crypto_key K (of_crypto_key_path c) of
                   Inl e \<Rightarrow> Inl e
                 | Inr (cryptoKey, cryptoKeyID) \<Rightarrow>
                     let protocolConfig =
                       \<lparr>ec_crypto_key = cryptoKey, ec_crypto_key_id = cryptoKeyID,
                        ec_logout_redirect = issuer @ ''/account'', ec_code_s256 = True, ec_refresh_grant = True,
                        ec_request_object = False, ec_scopes = supported_scopes, ec_insecure = insecure\<rparr>
                     in case new_provider issuer protocolConfig of
                          Some e \<Rightarrow> Inl (wrap ''create OIDC provider'' e)
                        | None \<Rightarrow> Inr (issuer, protocolConfig)))"

section \<open>Discovery\<close>

record discovery =
  di_issuer :: string
  di_authorization :: string
  di_token :: string
  di_introspection :: string
  di_userinfo :: string
  di_revocation :: string
  di_end_session :: string
  di_jwks :: string
  di_scopes :: "string list"
  di_responses :: "string list"
  di_grants :: "string list"
  di_subjects :: "string list"
  di_signing_algs :: "string list"
  di_token_auth :: "string list"
  di_claims :: "string list"
  di_challenge_methods :: "string list"
  di_request_parameter :: bool

definition serve_discovery :: "string \<Rightarrow> discovery" where
  "serve_discovery issuer =
     \<lparr>di_issuer = issuer, di_authorization = issuer @ ''/authorize'', di_token = issuer @ ''/oauth/token'',
      di_introspection = issuer @ ''/oauth/introspect'', di_userinfo = issuer @ ''/userinfo'',
      di_revocation = issuer @ ''/revoke'', di_end_session = issuer @ ''/end_session'', di_jwks = issuer @ ''/keys'',
      di_scopes = supported_scopes, di_responses = [''code''],
      di_grants = [''authorization_code'', ''refresh_token''], di_subjects = [''public''],
      di_signing_algs = [''RS256''], di_token_auth = [''client_secret_basic''],
      di_claims = [''sub'', ''aud'', ''exp'', ''iat'', ''iss'', ''auth_time'', ''nonce'', ''amr'', ''c_hash'', ''at_hash'',
        ''name'', ''family_name'', ''given_name'', ''nickname'', ''preferred_username'', ''picture'', ''locale'',
        ''updated_at'', ''email'', ''email_verified''],
      di_challenge_methods = [''S256''], di_request_parameter = False\<rparr>"

definition oidc_route_paths :: "string list" where
  "oidc_route_paths =
     [''/.well-known/openid-configuration'', ''/authorize'', ''/authorize/callback'', ''/oauth/token'',
      ''/oauth/introspect'', ''/userinfo'', ''/revoke'', ''/end_session'', ''/keys'']"

text \<open>What the engine is told of a client, besides its id, addresses and scopes.\<close>

definition client_auth_method :: string where "client_auth_method = ''client_secret_basic''"
definition client_response_types :: "client_row \<Rightarrow> string list" where "client_response_types client = cl_responses client"
definition client_grant_types :: "client_row \<Rightarrow> string list" where "client_grant_types client = cl_grants client"

section \<open>Start-up\<close>

definition startup_initialize ::
    "db dbenv \<Rightarrow> iam_lib \<Rightarrow> ((db, 'z) db_world_scheme) admin_initializer \<Rightarrow> oidc_lib \<Rightarrow> signing_key
     \<Rightarrow> client_config option list \<Rightarrow> ((db, 'z) db_world_scheme, unit) prog" where
  "startup_initialize E L admin OL key clients =
     pass (admin_initialize E L admin) (\<lambda>_.
     pass (oidc_initialize E L OL key clients) (\<lambda>_. ret ()))"

section \<open>Key material\<close>

lemma octets_length: "octets vs = Some bs \<Longrightarrow> 4 * length bs \<le> 3 * length vs"
  by (induction vs arbitrary: bs rule: octets.induct) auto

lemma those_length: "those xs = Some ys \<Longrightarrow> length ys = length xs"
  by (induction xs arbitrary: ys) (auto split: option.splits)

lemma b64_decode_length: "b64_decode s = Some t \<Longrightarrow> 4 * length t \<le> 3 * length s"
proof -
  let ?v = "filter (\<lambda>c. ord_of c \<noteq> 10 \<and> ord_of c \<noteq> 13) s"
  assume "b64_decode s = Some t"
  then obtain vs bs where v: "those (map b64_value ?v) = Some vs" "octets vs = Some bs" "t = map char_of bs"
    by (auto simp: b64_decode_def split: option.splits)
  have "length vs \<le> length s" using those_length [OF v(1)] by simp
  with octets_length [OF v(2)] v(3) show ?thesis by simp
qed

lemma length_sextets_exact: "length (sextets bs) = (4 * length bs + 2) div 3"
  by (induction bs rule: sextets.induct) auto

lemma trim_space_length: "length (trim_space s) \<le> length s"
proof -
  have drop: "length (concat (map snd (dropWhile P xs))) \<le> length (concat (map snd xs))"
    for P and xs :: "(nat option \<times> string) list"
    by (induction xs) auto
  have rev: "length (concat (map snd (rev xs))) = length (concat (map snd xs))"
    for xs :: "(nat option \<times> string) list"
    by (induction xs) auto
  let ?P = "rune_where rune_is_space"
  have "length (trim_space s) \<le> length (concat (map snd (dropWhile ?P (runes s))))"
    unfolding trim_space_def rev using drop rev by (metis le_trans)
  also have "\<dots> \<le> length (concat (map snd (runes s)))" by (rule drop)
  finally show ?thesis by simp
qed

text \<open>White space around a text without any.\<close>

definition ascii_blank :: "string \<Rightarrow> bool" where
  "ascii_blank s \<longleftrightarrow> list_all (\<lambda>c. c = CHR '' '' \<or> c = CHR 0x09 \<or> c = CHR 0x0A \<or> c = CHR 0x0D) s"

definition ascii_visible :: "string \<Rightarrow> bool" where
  "ascii_visible s \<longleftrightarrow> list_all (\<lambda>c. 32 < ord_of c \<and> ord_of c < 127) s"

lemma ascii_blank_ascii: "ascii_blank s \<Longrightarrow> ascii s"
  unfolding ascii_blank_def ascii_def by (erule list.pred_mono_strong) auto

lemma ascii_visible_ascii: "ascii_visible s \<Longrightarrow> ascii s"
  unfolding ascii_visible_def ascii_def by (erule list.pred_mono_strong) simp

lemma dropWhile_blank:
  "\<forall>x \<in> set xs. P x \<Longrightarrow> \<forall>y \<in> set ys. \<not> P y \<Longrightarrow> dropWhile P (xs @ ys @ zs) = (if ys = [] then dropWhile P zs else ys @ zs)"
  by (induction xs) (cases ys; simp)+

lemma trim_space_around:
  assumes "ascii_blank pre" "ascii_blank post" "ascii_visible s" "s \<noteq> []"
  shows "trim_space (pre @ s @ post) = s"
proof -
  let ?P = "rune_where rune_is_space" and ?r = "map (\<lambda>c. (Some (ord_of c), [c]))"
  have asc: "ascii (pre @ s @ post)"
    using ascii_blank_ascii [OF assms(1)] ascii_blank_ascii [OF assms(2)] ascii_visible_ascii [OF assms(3)]
    by (simp add: ascii_def)
  have "rune_is_space (ord_of c)" if "ascii_blank t" "c \<in> set t" for c t
  proof -
    have "c = CHR '' '' \<or> c = CHR 0x09 \<or> c = CHR 0x0A \<or> c = CHR 0x0D"
      using that unfolding ascii_blank_def list_all_iff by blast
    then show ?thesis by (elim disjE) (simp_all add: rune_is_space_def)
  qed
  then have b: "\<forall>x \<in> set (?r pre). ?P x" "\<forall>x \<in> set (rev (?r post)). ?P x"
    using assms(1,2) by (simp_all add: rune_where_def)
  have "\<not> rune_is_space (ord_of c)" if "c \<in> set s" for c
  proof -
    have "32 < ord_of c" "ord_of c < 127" using assms(3) that by (auto simp: ascii_visible_def list_all_iff)
    then show ?thesis by (simp add: rune_is_space_def)
  qed
  then have v: "\<forall>x \<in> set (?r s). \<not> ?P x" "\<forall>x \<in> set (rev (?r s)). \<not> ?P x" by (simp_all add: rune_where_def)
  have "dropWhile ?P (runes (pre @ s @ post)) = ?r s @ ?r post"
    unfolding runes_of_ascii [OF asc] map_append using dropWhile_blank [OF b(1) v(1)] assms(4) by simp
  moreover have "dropWhile ?P (rev (?r s @ ?r post)) = rev (?r s)"
    using dropWhile_blank [OF b(2) v(2), of "[]"] assms(4) by simp
  ultimately show ?thesis
    unfolding trim_space_def by (simp add: concat_map_singleton o_def)
qed

lemma hex_digit_visible: "n < 16 \<Longrightarrow> 32 < ord_of (hex_digit n) \<and> ord_of (hex_digit n) < 127"
  by (simp add: hex_digit_def)

lemma hex_encode_visible: "ascii_visible (hex_encode s)"
proof (induction s)
  case (Cons c s)
  have "ord_of c div 16 < 16" "ord_of c mod 16 < 16" using ord_of_less [of c] by simp_all
  from this [THEN hex_digit_visible] Cons show ?case by (simp add: ascii_visible_def hex_encode_def)
qed (simp add: ascii_visible_def hex_encode_def)

lemma b64_encode_visible: "ascii_visible (b64_encode s)"
proof -
  have "list_all (\<lambda>c. 32 < ord_of c \<and> ord_of c < 127) url_alphabet" by code_simp
  then show ?thesis using b64_encode_alphabet [of s] by (auto simp: ascii_visible_def list_all_iff)
qed

lemma length_b64_encode: "length (b64_encode s) = (4 * length s + 2) div 3"
  by (simp add: b64_encode_def length_sextets_exact)

lemma crypto_material_raw: "length k = crypto_key_bytes \<Longrightarrow> crypto_material k = k"
proof -
  assume k: "length k = crypto_key_bytes"
  have "length (trim_space k) \<le> 32" using trim_space_length [of k] k by (simp add: crypto_key_bytes_def)
  then have "hex_decode (trim_space k) = Some t \<Longrightarrow> length t \<noteq> 32"
    "b64_decode (trim_space k) = Some t \<Longrightarrow> length t \<noteq> 32" for t
    using hex_decode_length [of "trim_space k" t] b64_decode_length [of "trim_space k" t] by auto
  then show ?thesis by (auto simp: crypto_material_def crypto_key_bytes_def Let_def split: option.split)
qed

lemma crypto_material_encoded:
  assumes "length k = crypto_key_bytes" "ascii_blank pre" "ascii_blank post"
  shows "crypto_material (pre @ hex_encode k @ post) = k" "crypto_material (pre @ b64_encode k @ post) = k"
proof -
  have "length (hex_encode k) = 64" using assms(1) by (simp add: crypto_key_bytes_def)
  then have "hex_encode k \<noteq> []" by (metis length_0_conv zero_neq_numeral)
  then have t: "trim_space (pre @ hex_encode k @ post) = hex_encode k"
    using trim_space_around [OF assms(2,3) hex_encode_visible] by blast
  show "crypto_material (pre @ hex_encode k @ post) = k" unfolding crypto_material_def t using assms(1) by simp
  have l: "length (b64_encode k) = 43" using assms(1) by (simp add: length_b64_encode crypto_key_bytes_def)
  then have "b64_encode k \<noteq> []" by (metis length_0_conv zero_neq_numeral)
  then have t: "trim_space (pre @ b64_encode k @ post) = b64_encode k"
    using trim_space_around [OF assms(2,3) b64_encode_visible] by blast
  have "hex_decode (b64_encode k) = None"
  proof (cases "hex_decode (b64_encode k)")
    case (Some x)
    from hex_decode_length [OF this] l show ?thesis by presburger
  qed
  then show "crypto_material (pre @ b64_encode k @ post) = k" unfolding crypto_material_def t using assms(1) by simp
qed

text \<open>
  A crypto key file may hold the 32 key bytes as they are, or their hexadecimal or base64url text
  with white space around it: all of them load the same key under the same key id, no raw key is
  mistaken for a text, and a key that loads has 32 bytes.
\<close>

lemma crypto_key_encodings:
  assumes "trim_space path \<noteq> []" "length k = crypto_key_bytes" "ascii_blank pre" "ascii_blank post"
    and "kl_read_file K (trim_space path) = Inr data"
    and "data = k \<or> data = pre @ hex_encode k @ post \<or> data = pre @ b64_encode k @ post"
  shows "load_crypto_key K path = Inr (k, b64_encode (kl_sha256 K k))"
proof -
  have "crypto_material data = k"
    using assms(6) crypto_material_raw [OF assms(2)] crypto_material_encoded [OF assms(2-4)] by blast
  with assms(1,2,5) show ?thesis by (simp add: load_crypto_key_def Let_def)
qed

definition sample_key_lib :: "string \<Rightarrow> nat key_lib" where
  "sample_key_lib data = \<lparr>kl_read_file = (\<lambda>_. Inr data), kl_pem_decode = (\<lambda>_. None), kl_parse_pkcs1 = (\<lambda>_. Inr 0),
     kl_parse_pkcs8 = (\<lambda>_. Inr None), kl_bit_len = (\<lambda>_. 2048), kl_validate = (\<lambda>_. None),
     kl_marshal_pkix = (\<lambda>_. Inr []), kl_jwk = (\<lambda>_ _. Inr []), kl_sha256 = (\<lambda>s. s)\<rparr>"

section \<open>Discovery\<close>

text \<open>What the discovery document offers is what requests and clients are held to.\<close>

lemma discovery_agrees:
  "validate_authorization_request (Some r) = None \<Longrightarrow>
     ar_response_type r \<in> set (di_responses (serve_discovery issuer))
     \<and> ar_challenge_method r \<in> set (di_challenge_methods (serve_discovery issuer))
     \<and> set (ar_scopes r) \<subseteq> set (di_scopes (serve_discovery issuer))
     \<and> (di_request_parameter (serve_discovery issuer) \<or> ar_request_param r = [])"
  "client_grant_types (new_client_row i h us ss t d) = di_grants (serve_discovery issuer)"
  "client_response_types (new_client_row i h us ss t d) = di_responses (serve_discovery issuer)"
  by (auto simp: validate_authorization_request_def serve_discovery_def list_ex_iff client_grant_types_def
      client_response_types_def new_client_row_def code_grants_def code_responses_def split: if_splits)

end
