(* ===== verification/IamMail.thy ===== *)
theory IamMail
  imports IamBiz
begin

text \<open>
  The mail capability of IAM (\<open>app/iam/service/internal/mail\<close>): the configuration of the SMTP sender, the
  rendering of the two messages and their submission. The execution of the HTML templates and the mail
  library are parameters.
\<close>

section \<open>Configuration\<close>

record smtp_config =
  sm_host :: string
  sm_port :: int
  sm_username :: string
  sm_password :: string
  sm_tls :: bool
  sm_skip_verify :: bool
  sm_timeout :: "duration option"

record mail_from =
  mf_address :: string
  mf_name :: string

record mail_config =
  mc_smtp :: "smtp_config option"
  mc_from :: "mail_from option"

text \<open>The options of the mail library.\<close>

datatype mail_option =
    WithPort int
  | WithPlainAuth string string
  | WithTlsMandatory
  | WithTlsOpportunistic
  | WithSkipVerify string
  | WithTimeout duration

record smtp_sender =
  ss_host :: string
  ss_opts :: "mail_option list"

definition new_sender :: "mail_config option \<Rightarrow> err + smtp_sender" where
  "new_sender config =
     (case (case config of None \<Rightarrow> None | Some c \<Rightarrow> mc_smtp c) of
        None \<Rightarrow> Inl (errorf ''mail: SMTP configuration is required'')
      | Some smtp \<Rightarrow>
          let host = trim_space (sm_host smtp);
              port = (if sm_port smtp = 0 then 587 else sm_port smtp)
          in if host = [] then Inl (errorf ''mail: SMTP host is required'')
             else if port < 1 \<or> port > 65535 then Inl (errorf ''mail: SMTP port is invalid'')
             else if (sm_username smtp = []) \<noteq> (sm_password smtp = [])
             then Inl (errorf ''mail: SMTP username and password must be configured together'')
             else
               let opts =
                 [WithPort port]
                 @ (if sm_username smtp \<noteq> [] then [WithPlainAuth (sm_username smtp) (sm_password smtp)] else [])
                 @ [if sm_tls smtp then WithTlsMandatory else WithTlsOpportunistic]
                 @ (if sm_skip_verify smtp then [WithSkipVerify host] else [])
               in case sm_timeout smtp of
                    None \<Rightarrow> Inr \<lparr>ss_host = host, ss_opts = opts\<rparr>
                  | Some d \<Rightarrow>
                      if d \<le> 0 then Inl (errorf ''mail: SMTP send timeout must be positive'')
                      else Inr \<lparr>ss_host = host, ss_opts = opts @ [WithTimeout d]\<rparr>)"

definition new_from :: "mail_config option \<Rightarrow> err + mail_from" where
  "new_from config =
     (case (case config of None \<Rightarrow> None | Some c \<Rightarrow> mc_from c) of
        None \<Rightarrow> Inl (errorf ''mail: from configuration is required'')
      | Some f \<Rightarrow> if mf_address f = [] then Inl (errorf ''mail: from address is required'') else Inr f)"

section \<open>Messages\<close>

record mail_message =
  mm_from :: mail_from
  mm_to :: string
  mm_subject :: string
  mm_text :: string
  mm_html :: string

text \<open>
  \<open>mt_verification\<close> and \<open>mt_reset\<close> execute a parsed template on a link, the hours of validity and the
  logo.
\<close>

record mail_templates =
  mt_verification :: "string \<Rightarrow> int \<Rightarrow> string \<Rightarrow> err + string"
  mt_reset :: "string \<Rightarrow> int \<Rightarrow> string \<Rightarrow> err + string"
  mt_logo :: string

text \<open>Reading and parsing the embedded files are the arguments; the logo is embedded as a data URI.\<close>

definition new_templates ::
    "(string \<Rightarrow> err + (string \<Rightarrow> int \<Rightarrow> string \<Rightarrow> err + string)) \<Rightarrow> (string \<Rightarrow> err + string) \<Rightarrow> (string \<Rightarrow> string)
     \<Rightarrow> err + mail_templates" where
  "new_templates parse read_file std_base64 =
     (case parse ''mailTemplate/verify_email.html'' of
        Inl e \<Rightarrow> Inl (wrap ''mail: parse verification template'' e)
      | Inr verification \<Rightarrow>
     (case parse ''mailTemplate/reset_password.html'' of
        Inl e \<Rightarrow> Inl (wrap ''mail: parse password-reset template'' e)
      | Inr reset \<Rightarrow>
     (case read_file ''mailTemplate/logo.png'' of
        Inl e \<Rightarrow> Inl (wrap ''mail: read embedded logo'' e)
      | Inr logo \<Rightarrow>
          Inr \<lparr>mt_verification = verification, mt_reset = reset,
               mt_logo = ''data:image/png;base64,'' @ std_base64 logo\<rparr>)))"

definition render_template ::
    "(string \<Rightarrow> int \<Rightarrow> string \<Rightarrow> err + string) \<Rightarrow> string \<Rightarrow> string \<Rightarrow> int \<Rightarrow> err + string" where
  "render_template source logo link expiryHours =
     (if link = [] then Inl (errorf ''mail: link is empty'')
      else if expiryHours \<le> 0 then Inl (errorf ''mail: expiry hours must be positive'')
      else
        case source link expiryHours logo of
          Inl e \<Rightarrow> Inl (wrap ''mail: render template'' e)
        | Inr html \<Rightarrow> Inr html)"

text \<open>The Chinese texts, as the hexadecimal digits of their UTF-8 bytes.\<close>

definition utf8_text :: "string \<Rightarrow> string" where "utf8_text h = the (hex_decode h)"

definition verification_subject :: string where
  "verification_subject = utf8_text ''e9aa8ce8af81e682a8e79a84e982aee7aeb1''"
definition reset_subject :: string where
  "reset_subject = utf8_text ''e9878de7bdaee682a8e79a84e5af86e7a081''"

definition verification_text :: "int \<Rightarrow> string \<Rightarrow> string" where
  "verification_text hours link =
     utf8_text ''e8afb7e8aebfe997aee4bba5e4b88be993bee68ea5e9aa8ce8af81e682a8e79a84e982aee7aeb1efbc88'' @ itoa hours
     @ utf8_text ''20e5b08fe697b6e58685e69c89e69588efbc89efbc9a0a'' @ link"

definition reset_text :: "int \<Rightarrow> string \<Rightarrow> string" where
  "reset_text hours link =
     utf8_text ''e8afb7e8aebfe997aee4bba5e4b88be993bee68ea5e9878de7bdaee682a8e79a84e5af86e7a081efbc88'' @ itoa hours
     @ utf8_text ''20e5b08fe697b6e58685e69c89e69588efbc89efbc9a0a'' @ link"

record 'w mailer =
  ml_send :: "mail_message \<Rightarrow> ('w, unit) prog"
  ml_from :: mail_from
  ml_templates :: mail_templates

definition new_mailer ::
    "(mail_message \<Rightarrow> ('w, unit) prog) option \<Rightarrow> mail_from \<Rightarrow> mail_templates option \<Rightarrow> err + 'w mailer" where
  "new_mailer sender from templates =
     (case sender of
        None \<Rightarrow> Inl (errorf ''mail: sender is nil'')
      | Some send \<Rightarrow>
          (case templates of
             None \<Rightarrow> Inl (errorf ''mail: templates are nil'')
           | Some t \<Rightarrow> Inr \<lparr>ml_send = send, ml_from = from, ml_templates = t\<rparr>))"

definition mailer_send_verification :: "'w mailer \<Rightarrow> string \<Rightarrow> string \<Rightarrow> int \<Rightarrow> ('w, unit) prog" where
  "mailer_send_verification m recipient link expiryHours =
     pass (result (render_template (mt_verification (ml_templates m)) (mt_logo (ml_templates m)) link expiryHours))
       (\<lambda>html. ml_send m \<lparr>mm_from = ml_from m, mm_to = recipient, mm_subject = verification_subject,
          mm_text = verification_text expiryHours link, mm_html = html\<rparr>)"

definition mailer_send_password_reset :: "'w mailer \<Rightarrow> string \<Rightarrow> string \<Rightarrow> int \<Rightarrow> ('w, unit) prog" where
  "mailer_send_password_reset m recipient link expiryHours =
     pass (result (render_template (mt_reset (ml_templates m)) (mt_logo (ml_templates m)) link expiryHours))
       (\<lambda>html. ml_send m \<lparr>mm_from = ml_from m, mm_to = recipient, mm_subject = reset_subject,
          mm_text = reset_text expiryHours link, mm_html = html\<rparr>)"

definition new_mail_sender :: "'w mailer \<Rightarrow> 'w mail_sender" where
  "new_mail_sender m = \<lparr>ms_send_verification = mailer_send_verification m,
     ms_send_password_reset = mailer_send_password_reset m\<rparr>"

section \<open>Submission\<close>

text \<open>The bodies of a message, the preferred one first, with their content types.\<close>

datatype body_part = HtmlPart string | PlainPart string

record mail_draft =
  md_from :: string
  md_to :: string
  md_subject :: string
  md_parts :: "body_part list"

text \<open>
  The mail library: formatting of an address, the two setters that check it, the client of a host and
  its submission.
\<close>

record 'w mail_lib =
  gm_format :: "string \<Rightarrow> string \<Rightarrow> string"
  gm_from :: "string \<Rightarrow> err option"
  gm_to :: "string \<Rightarrow> err option"
  gm_client :: "string \<Rightarrow> mail_option list \<Rightarrow> err option"
  gm_dial_and_send :: "string \<Rightarrow> mail_option list \<Rightarrow> mail_draft \<Rightarrow> ('w, unit) prog"

definition message_parts :: "mail_message \<Rightarrow> body_part list" where
  "message_parts email =
     (if mm_html email \<noteq> [] then HtmlPart (mm_html email) # (if mm_text email \<noteq> [] then [PlainPart (mm_text email)] else [])
      else if mm_text email \<noteq> [] then [PlainPart (mm_text email)] else [])"

text \<open>A nil context is \<open>False\<close>.\<close>

definition smtp_send :: "'w mail_lib \<Rightarrow> smtp_sender \<Rightarrow> bool \<Rightarrow> mail_message \<Rightarrow> ('w, unit) prog" where
  "smtp_send G sender has_ctx email =
     (if \<not> has_ctx then throw (errorf ''mail: context is nil'')
      else if mm_to email = [] then throw (errorf ''mail: recipient is required'')
      else
        let from = gm_format G (mf_name (mm_from email)) (mf_address (mm_from email)) in
        case gm_from G from of
          Some e \<Rightarrow> throw (wrap ''mail: set From header'' e)
        | None \<Rightarrow>
        (case gm_to G (mm_to email) of
           Some e \<Rightarrow> throw (wrap ''mail: set To header'' e)
         | None \<Rightarrow>
        (case gm_client G (ss_host sender) (ss_opts sender) of
           Some e \<Rightarrow> throw (wrap ''mail: create SMTP client'' e)
         | None \<Rightarrow>
             check (gm_dial_and_send G (ss_host sender) (ss_opts sender)
                 \<lparr>md_from = from, md_to = mm_to email, md_subject = mm_subject email, md_parts = message_parts email\<rparr>)
               (\<lambda>e. throw (wrap ''mail: send'' e)) ret)))"

section \<open>Properties\<close>

text \<open>A mail that was sent was handed to the server once, as one message to its recipient with the link in its text.\<close>

lemma sent_verification:
  assumes "mailer_send_verification m recipient link h w = (Inr (), w')" "ml_send m = smtp_send G sender True"
  shows "\<exists>html. recipient \<noteq> [] \<and> link \<noteq> [] \<and> 0 < h \<and> gm_dial_and_send G (ss_host sender) (ss_opts sender)
    \<lparr>md_from = gm_format G (mf_name (ml_from m)) (mf_address (ml_from m)), md_to = recipient,
     md_subject = verification_subject,
     md_parts = (if html = [] then [] else [HtmlPart html]) @ [PlainPart (verification_text h link)]\<rparr> w = (Inr (), w')"
proof -
  from assms(1) obtain html where html: "render_template (mt_verification (ml_templates m)) (mt_logo (ml_templates m)) link h = Inr html"
    and send: "smtp_send G sender True \<lparr>mm_from = ml_from m, mm_to = recipient, mm_subject = verification_subject,
          mm_text = verification_text h link, mm_html = html\<rparr> w = (Inr (), w')"
    unfolding mailer_send_verification_def by (auto simp: pass_Inr assms(2))
  have "link \<noteq> []" "0 < h" using html by (auto simp: render_template_def split: if_splits)
  moreover from this have "verification_text h link \<noteq> []" by (simp add: verification_text_def)
  ultimately show ?thesis
    using send unfolding smtp_send_def
    by (auto simp: Let_def check_eq message_parts_def split: if_splits option.splits intro!: exI [of _ html])
qed

text \<open>The port of an accepted configuration is a port, and credentials come in pairs.\<close>

lemma new_sender_options:
  assumes "new_sender config = Inr sender"
  shows "ss_host sender \<noteq> [] \<and> (\<exists>p rest. ss_opts sender = WithPort p # rest \<and> 1 \<le> p \<and> p \<le> 65535)
    \<and> (\<forall>u p. WithPlainAuth u p \<in> set (ss_opts sender) \<longrightarrow> u \<noteq> [] \<and> p \<noteq> [])
    \<and> (\<forall>d. WithTimeout d \<in> set (ss_opts sender) \<longrightarrow> 0 < d)"
  using assms by (auto simp: new_sender_def Let_def split: if_splits option.splits)

end
