(* ===== verification/RulePlan.thy ===== *)
theory RulePlan
  imports OpenFga "HOL-Library.AList" "HOL-Library.List_Lexorder" "HOL-Library.Char_ord"
begin

text \<open>
  The generators of the rule maps: \<open>internal/codegen/ruleplan\<close> and \<open>internal/codegen/optionmerge\<close>, and
  the plugins \<open>protoc-gen-plateau-authn\<close> and \<open>protoc-gen-plateau-authz\<close>. A plugin request is the list of
  its files with what protogen shows of them; descriptors of messages are a schema by full name.
\<close>

section \<open>Loops that may fail\<close>

lemma fold_err_collect:
  assumes "fold_err f xs s = Inr t" "I s"
    and "\<And>x s s'. x \<in> set xs \<Longrightarrow> I s \<Longrightarrow> f x s = Inr s' \<Longrightarrow> I s' \<and> g s' = g s \<union> c x"
  shows "I t \<and> g t = g s \<union> (\<Union>x \<in> set xs. c x)"
  using assms
proof (induction xs arbitrary: s)
  case (Cons x xs)
  then obtain s' where s': "f x s = Inr s'" "fold_err f xs s' = Inr t" by (auto split: sum.splits)
  with Cons.prems have "I s'" "g s' = g s \<union> c x" by auto
  with Cons.IH [OF s'(2)] Cons.prems(3) show ?case by auto
qed simp

lemma fold_err_maps:
  assumes "fold_err f xs s = Inr t" "distinct (map k xs)" "\<forall>x \<in> set xs. s (k x) = None"
    and "\<And>x s s'. x \<in> set xs \<Longrightarrow> f x s = Inr s' \<Longrightarrow>
      \<exists>y. R x y \<and> s' = (case y of None \<Rightarrow> s | Some z \<Rightarrow> s(k x \<mapsto> z))"
  shows "(\<forall>x \<in> set xs. R x (t (k x))) \<and> (\<forall>n. n \<notin> k ` set xs \<longrightarrow> t n = s n)"
  using assms
proof (induction xs arbitrary: s)
  case (Cons x xs)
  then obtain s' where s': "f x s = Inr s'" "fold_err f xs s' = Inr t" by (auto split: sum.splits)
  with Cons.prems(4) obtain y where y: "R x y" "s' = (case y of None \<Rightarrow> s | Some z \<Rightarrow> s(k x \<mapsto> z))"
    by fastforce
  have "s' (k x) = y" and "n \<noteq> k x \<Longrightarrow> s' n = s n" for n
    using y Cons.prems(3) by (auto split: option.splits)
  moreover have "(\<forall>x \<in> set xs. R x (t (k x))) \<and> (\<forall>n. n \<notin> k ` set xs \<longrightarrow> t n = s' n)"
  proof (rule Cons.IH [OF s'(2)])
    show "distinct (map k xs)" using Cons.prems(2) by simp
    show "\<forall>x' \<in> set xs. s' (k x') = None"
      using y Cons.prems(2,3) by (auto split: option.splits) (metis image_eqI)
  qed (use Cons.prems(4) in auto)
  ultimately show ?case using y(1) Cons.prems(2) by auto
qed simp

lemma fold_err_nested:
  "fold_err (\<lambda>x s. fold_err (f x) (ys x) s) xs s
     = fold_err (\<lambda>(x, y). f x y) (concat (map (\<lambda>x. map (Pair x) (ys x)) xs)) s"
proof (induction xs arbitrary: s)
  case (Cons x xs)
  have "fold_err (\<lambda>(x, y). f x y) (map (Pair x) zs @ rest) s
      = (case fold_err (f x) zs s of Inl e \<Rightarrow> Inl e | Inr s' \<Rightarrow> fold_err (\<lambda>(x, y). f x y) rest s')" for zs rest s
    by (induction zs arbitrary: s) (auto split: sum.split)
  with Cons.IH show ?case by (auto split: sum.split)
qed simp

section \<open>Paths\<close>

text \<open>\<open>path.Clean\<close> and \<open>path.Dir\<close>.\<close>

fun clean_parts :: "bool \<Rightarrow> string list \<Rightarrow> string list \<Rightarrow> string list" where
  "clean_parts rooted [] out = rev out"
| "clean_parts rooted (part # parts) out =
     (if part = [] \<or> part = ''.'' then clean_parts rooted parts out
      else if part = ''..'' then
        (case out of
           [] \<Rightarrow> clean_parts rooted parts (if rooted then [] else [''..''])
         | x # rest \<Rightarrow> clean_parts rooted parts (if x = ''..'' then ''..'' # out else rest))
      else clean_parts rooted parts (part # out))"

definition path_clean :: "string \<Rightarrow> string" where
  "path_clean p =
     (let rooted = (p \<noteq> [] \<and> hd p = CHR ''/'');
          s = join_with ''/'' (clean_parts rooted (split_on (CHR ''/'') p) [])
      in if rooted then CHR ''/'' # s else if s = [] then ''.'' else s)"

definition path_dir :: "string \<Rightarrow> string" where
  "path_dir p = path_clean (rev (dropWhile (\<lambda>c. c \<noteq> CHR ''/'') (rev p)))"

section \<open>Declarations\<close>

text \<open>What an extension of an options message holds: a value of another type, no valid message, or a rule.\<close>

datatype 'r ext_value = ExtAbsent | ExtOtherType | ExtInvalid | ExtRule 'r

record 'r method_decl =
  md_name :: string
  md_rule :: "'r ext_value"
  md_input :: string

record 'r service_decl =
  sd_full_name :: string
  sd_default :: "'r ext_value"
  sd_methods :: "'r method_decl list"

record 'r file_decl =
  fl_path :: string
  fl_generate :: bool
  fl_prefix :: string
  fl_import_path :: string
  fl_package :: string
  fl_services :: "'r service_decl list"

definition plan_operation :: "'r service_decl \<Rightarrow> 'r method_decl \<Rightarrow> string" where
  "plan_operation service method = ''/'' @ sd_full_name service @ ''/'' @ md_name method"

definition extension_rule :: "'r ext_value \<Rightarrow> err + 'r option" where
  "extension_rule value =
     (case value of
        ExtAbsent \<Rightarrow> Inr None
      | ExtOtherType \<Rightarrow> Inl (errorf ''extension returned another type'')
      | ExtInvalid \<Rightarrow> Inr None
      | ExtRule rule \<Rightarrow> Inr (Some rule))"

text \<open>\<open>pc_mode_set\<close> reads field 1 of a rule; the extensions are present or nil.\<close>

record 'r plan_config =
  pc_method_extension :: bool
  pc_service_extension :: bool
  pc_mode_set :: "'r \<Rightarrow> bool"
  pc_validate :: "('r file_decl \<Rightarrow> 'r service_decl \<Rightarrow> 'r method_decl option \<Rightarrow> 'r \<Rightarrow> err option) option"
  pc_accept :: "('r file_decl \<Rightarrow> 'r service_decl \<Rightarrow> 'r method_decl \<Rightarrow> string \<Rightarrow> 'r \<Rightarrow> err + bool) option"

definition option_merge :: "('r \<Rightarrow> bool) \<Rightarrow> 'r option \<Rightarrow> 'r option \<Rightarrow> bool \<Rightarrow> 'r option" where
  "option_merge modeNonZero svcDefault methodRule hasMethod =
     (if hasMethod \<and> methodRule \<noteq> None \<and> modeNonZero (the methodRule) then methodRule
      else if svcDefault \<noteq> None \<and> modeNonZero (the svcDefault) then svcDefault
      else None)"

section \<open>The plan\<close>

record 'r service_rules =
  sr_default :: "'r option"
  sr_methods :: "string \<rightharpoonup> 'r"

record 'r plan_group =
  pg_directory :: string
  pg_target :: "'r file_decl"
  pg_entries :: "(string \<times> 'r) list"

record 'r group_state =
  gs_group :: "'r plan_group"
  gs_seen :: "string set"

record 'r plan_state =
  pl_targets :: "string \<rightharpoonup> 'r file_decl"
  pl_states :: "(string \<times> 'r group_state) list"

definition validate_declared ::
    "'r plan_config \<Rightarrow> 'r file_decl \<Rightarrow> 'r service_decl \<Rightarrow> 'r method_decl option \<Rightarrow> 'r \<Rightarrow> err option" where
  "validate_declared C file service method rule =
     (case pc_validate C of None \<Rightarrow> None | Some validate \<Rightarrow> validate file service method rule)"

definition index_method ::
    "'r plan_config \<Rightarrow> 'r file_decl \<Rightarrow> 'r service_decl \<Rightarrow> 'r method_decl \<Rightarrow> (string \<rightharpoonup> 'r)
     \<Rightarrow> err + (string \<rightharpoonup> 'r)" where
  "index_method C file service method methods =
     (case extension_rule (md_rule method) of
        Inl e \<Rightarrow> Inl (wrap ''ruleplan: operation'' e)
      | Inr None \<Rightarrow> Inr methods
      | Inr (Some rule) \<Rightarrow>
          (case validate_declared C file service (Some method) rule of
             Some e \<Rightarrow> Inl e
           | None \<Rightarrow> Inr (methods(md_name method \<mapsto> rule))))"

definition index_service ::
    "'r plan_config \<Rightarrow> 'r file_decl \<Rightarrow> 'r service_decl \<Rightarrow> (string \<rightharpoonup> 'r service_rules)
     \<Rightarrow> err + (string \<rightharpoonup> 'r service_rules)" where
  "index_service C file service indexed =
     (case extension_rule (sd_default service) of
        Inl e \<Rightarrow> Inl (wrap ''ruleplan: service default'' e)
      | Inr serviceDefault \<Rightarrow>
          (case (case serviceDefault of None \<Rightarrow> None | Some d \<Rightarrow> validate_declared C file service None d) of
             Some e \<Rightarrow> Inl e
           | None \<Rightarrow>
               (case fold_err (index_method C file service) (sd_methods service) Map.empty of
                  Inl e \<Rightarrow> Inl e
                | Inr methods \<Rightarrow>
                    Inr (indexed(sd_full_name service \<mapsto> \<lparr>sr_default = serviceDefault, sr_methods = methods\<rparr>)))))"

definition index_files :: "'r plan_config \<Rightarrow> 'r file_decl list \<Rightarrow> err + (string \<rightharpoonup> 'r service_rules)" where
  "index_files C files =
     fold_err (\<lambda>file indexed. fold_err (index_service C file) (fl_services file) indexed) files Map.empty"

definition add_entry :: "string \<Rightarrow> string \<Rightarrow> 'r \<Rightarrow> 'r plan_state \<Rightarrow> 'r plan_state" where
  "add_entry directory op merged st =
     (let state = (case map_of (pl_states st) directory of
                     Some s \<Rightarrow> s
                   | None \<Rightarrow> \<lparr>gs_group = \<lparr>pg_directory = directory, pg_target = the (pl_targets st directory),
                                pg_entries = []\<rparr>, gs_seen = {}\<rparr>);
          state' = (if op \<in> gs_seen state then state
                    else \<lparr>gs_group = (gs_group state)\<lparr>pg_entries := pg_entries (gs_group state) @ [(op, merged)]\<rparr>,
                          gs_seen = insert op (gs_seen state)\<rparr>)
      in st\<lparr>pl_states := AList.update directory state' (pl_states st)\<rparr>)"

definition plan_method ::
    "'r plan_config \<Rightarrow> string \<Rightarrow> 'r file_decl \<Rightarrow> 'r service_decl \<Rightarrow> 'r service_rules \<Rightarrow> 'r method_decl
     \<Rightarrow> 'r plan_state \<Rightarrow> err + 'r plan_state" where
  "plan_method C directory file service rules method st =
     (let declared = sr_methods rules (md_name method) in
      case option_merge (pc_mode_set C) (sr_default rules) declared (declared \<noteq> None) of
        None \<Rightarrow> Inr st
      | Some merged \<Rightarrow>
          let op = plan_operation service method in
          (case (case pc_accept C of None \<Rightarrow> Inr True | Some accept \<Rightarrow> accept file service method op merged) of
             Inl e \<Rightarrow> Inl e
           | Inr accepted \<Rightarrow> if \<not> accepted then Inr st else Inr (add_entry directory op merged st)))"

definition plan_service ::
    "'r plan_config \<Rightarrow> (string \<rightharpoonup> 'r service_rules) \<Rightarrow> string \<Rightarrow> 'r file_decl \<Rightarrow> 'r service_decl
     \<Rightarrow> 'r plan_state \<Rightarrow> err + 'r plan_state" where
  "plan_service C indexed directory file service st =
     (case indexed (sd_full_name service) of
        None \<Rightarrow> Inr st
      | Some rules \<Rightarrow> fold_err (plan_method C directory file service rules) (sd_methods service) st)"

definition plan_file ::
    "'r plan_config \<Rightarrow> (string \<rightharpoonup> 'r service_rules) \<Rightarrow> 'r file_decl \<Rightarrow> 'r plan_state \<Rightarrow> err + 'r plan_state"
  where
  "plan_file C indexed file st =
     (if \<not> fl_generate file then Inr st
      else
        let directory = path_dir (fl_prefix file) in
        case pl_targets st directory of
          None \<Rightarrow>
            fold_err (plan_service C indexed directory file) (fl_services file)
              (st\<lparr>pl_targets := (pl_targets st)(directory \<mapsto> file)\<rparr>)
        | Some target \<Rightarrow>
            if fl_import_path target \<noteq> fl_import_path file \<or> fl_package target \<noteq> fl_package file
            then Inl (errorf ''ruleplan: output directory has conflicting Go packages'')
            else fold_err (plan_service C indexed directory file) (fl_services file) st)"

text \<open>A nil plugin is \<open>None\<close>. Operations are distinct within a group, so any sort gives the same order.\<close>

definition plan_build :: "'r file_decl list option \<Rightarrow> 'r plan_config \<Rightarrow> err + 'r plan_group list" where
  "plan_build plugin C =
     (case plugin of
        None \<Rightarrow> Inl (errorf ''ruleplan: nil plugin'')
      | Some files \<Rightarrow>
          if \<not> pc_method_extension C then Inl (errorf ''ruleplan: method extension is required'')
          else if \<not> pc_service_extension C then Inl (errorf ''ruleplan: service extension is required'')
          else
            case index_files C files of
              Inl e \<Rightarrow> Inl e
            | Inr indexed \<Rightarrow>
                (case fold_err (plan_file C indexed) files \<lparr>pl_targets = Map.empty, pl_states = []\<rparr> of
                   Inl e \<Rightarrow> Inl e
                 | Inr st \<Rightarrow>
                     Inr (map (\<lambda>directory.
                            let group = gs_group (the (map_of (pl_states st) directory))
                            in group\<lparr>pg_entries := sort_key fst (pg_entries group)\<rparr>)
                          (sort (map fst (pl_states st))))))"


section \<open>Indexing\<close>

text \<open>The rule that an options message declares, when the extension has the type of the rules.\<close>

fun declared_rule :: "'r ext_value \<Rightarrow> 'r option" where
  "declared_rule (ExtRule r) = Some r"
| "declared_rule _ = None"

lemma extension_rule_Inr: "extension_rule v = Inr d \<Longrightarrow> d = declared_rule v"
  by (cases v) (auto simp: extension_rule_def)

lemma index_method_Inr:
  assumes "index_method C file service m methods = Inr methods'"
  shows "methods' = (case declared_rule (md_rule m) of None \<Rightarrow> methods | Some r \<Rightarrow> methods(md_name m \<mapsto> r))"
  using assms by (cases "md_rule m") (auto simp: index_method_def extension_rule_def split: option.splits)

text \<open>What the index holds for a service.\<close>

definition rules_of_service :: "'r service_decl \<Rightarrow> 'r service_rules option \<Rightarrow> bool" where
  "rules_of_service service rules \<longleftrightarrow>
     (\<exists>r. rules = Some r \<and> sr_default r = declared_rule (sd_default service)
        \<and> (distinct (map md_name (sd_methods service)) \<longrightarrow>
             (\<forall>m \<in> set (sd_methods service). sr_methods r (md_name m) = declared_rule (md_rule m))))"

lemma index_service_Inr:
  assumes "index_service C file service indexed = Inr indexed'"
  shows "\<exists>y. rules_of_service service y
    \<and> indexed' = (case y of None \<Rightarrow> indexed | Some z \<Rightarrow> indexed(sd_full_name service \<mapsto> z))"
proof -
  from assms obtain d methods where d: "extension_rule (sd_default service) = Inr d"
    and ms: "fold_err (index_method C file service) (sd_methods service) Map.empty = Inr methods"
    and i: "indexed' = indexed(sd_full_name service \<mapsto> \<lparr>sr_default = d, sr_methods = methods\<rparr>)"
    by (auto simp: index_service_def split: sum.splits option.splits)
  have "\<forall>m \<in> set (sd_methods service). methods (md_name m) = declared_rule (md_rule m)"
    if "distinct (map md_name (sd_methods service))"
    using fold_err_maps [where R = "\<lambda>m y. y = declared_rule (md_rule m)", OF ms that]
    by (auto dest: index_method_Inr)
  then have "rules_of_service service (Some \<lparr>sr_default = d, sr_methods = methods\<rparr>)"
    using extension_rule_Inr [OF d] by (auto simp: rules_of_service_def)
  with i show ?thesis by auto
qed

definition plan_services :: "'r file_decl list \<Rightarrow> ('r file_decl \<times> 'r service_decl) list" where
  "plan_services files = concat (map (\<lambda>f. map (Pair f) (fl_services f)) files)"

lemma index_files_Inr:
  assumes "index_files C files = Inr indexed"
    and "distinct (map (\<lambda>(f, s). sd_full_name s) (plan_services files))"
    and "file \<in> set files" "service \<in> set (fl_services file)"
  shows "rules_of_service service (indexed (sd_full_name service))"
proof -
  have run: "fold_err (\<lambda>(f, s). index_service C f s) (plan_services files) Map.empty = Inr indexed"
    using assms(1) by (simp add: index_files_def fold_err_nested plan_services_def)
  have step: "\<exists>y. rules_of_service (snd x) y
      \<and> ix' = (case y of None \<Rightarrow> ix | Some z \<Rightarrow> ix((\<lambda>(f, s). sd_full_name s) x \<mapsto> z))"
    if "(\<lambda>(f, s). index_service C f s) x ix = Inr ix'" for x ix ix'
    using that index_service_Inr by (cases x) auto
  have mem: "(file, service) \<in> set (plan_services files)"
    using assms(3,4) by (auto simp: plan_services_def)
  show ?thesis
    using fold_err_maps [where R = "\<lambda>x. rules_of_service (snd x)" and k = "\<lambda>(f, s). sd_full_name s",
        OF run assms(2) _ step] mem by fastforce
qed

section \<open>What a plan holds\<close>

text \<open>Service names and operations are unique in a plugin request, as protoc checks.\<close>

definition well_named :: "'r file_decl list \<Rightarrow> bool" where
  "well_named files \<longleftrightarrow>
     distinct (map (\<lambda>(f, s). sd_full_name s) (plan_services files))
     \<and> distinct (concat (map (\<lambda>(f, s). map (plan_operation s) (sd_methods s)) (plan_services files)))"

text \<open>The rule of a method: its own when the mode is set, else the default of its service.\<close>

definition effective_rule :: "'r plan_config \<Rightarrow> 'r service_decl \<Rightarrow> 'r method_decl \<Rightarrow> 'r option" where
  "effective_rule C service method =
     (case filter (pc_mode_set C) (List.map_filter declared_rule [md_rule method, sd_default service]) of
        [] \<Rightarrow> None
      | r # _ \<Rightarrow> Some r)"

definition accepts_rule :: "'r plan_config \<Rightarrow> 'r file_decl \<Rightarrow> 'r service_decl \<Rightarrow> 'r method_decl \<Rightarrow> 'r \<Rightarrow> bool" where
  "accepts_rule C file service method r \<longleftrightarrow>
     (case pc_accept C of None \<Rightarrow> True
      | Some accept \<Rightarrow> accept file service method (plan_operation service method) r = Inr True)"

text \<open>The rules generated into a directory.\<close>

definition plan_rules :: "'r plan_config \<Rightarrow> 'r file_decl list \<Rightarrow> string \<Rightarrow> (string \<times> 'r) set" where
  "plan_rules C files directory =
     {(plan_operation s m, r) | file s m r. file \<in> set files \<and> fl_generate file \<and> path_dir (fl_prefix file) = directory
        \<and> s \<in> set (fl_services file) \<and> m \<in> set (sd_methods s) \<and> effective_rule C s m = Some r
        \<and> accepts_rule C file s m r}"

lemma option_merge_effective:
  "option_merge (pc_mode_set C) (declared_rule (sd_default s)) (declared_rule (md_rule m)) (declared_rule (md_rule m) \<noteq> None)
     = effective_rule C s m"
  by (auto simp: option_merge_def effective_rule_def List.map_filter_simps split: option.splits)

lemma distinct_concat_unique:
  "distinct (concat (map f xs)) \<Longrightarrow> x \<in> set xs \<Longrightarrow> y \<in> set xs \<Longrightarrow> a \<in> set (f x) \<Longrightarrow> a \<in> set (f y) \<Longrightarrow> x = y"
  by (induction xs) auto

lemma well_named_unique:
  assumes "well_named files" "f \<in> set files" "s \<in> set (fl_services f)" "m \<in> set (sd_methods s)"
    and "f' \<in> set files" "s' \<in> set (fl_services f')" "m' \<in> set (sd_methods s')"
    and "plan_operation s m = plan_operation s' m'"
  shows "f = f' \<and> s = s' \<and> m = m'"
proof -
  let ?ops = "\<lambda>(f, s). map (plan_operation s) (sd_methods s)"
  have d: "distinct (concat (map ?ops (plan_services files)))" using assms(1) by (simp add: well_named_def)
  have mem: "(f, s) \<in> set (plan_services files)" "(f', s') \<in> set (plan_services files)"
    using assms by (auto simp: plan_services_def)
  have ops: "plan_operation s m \<in> plan_operation s ` set (sd_methods s)" by (rule imageI [OF assms(4)])
  have "plan_operation s m \<in> plan_operation s' ` set (sd_methods s')"
    unfolding assms(8) by (rule imageI [OF assms(7)])
  then have "(f, s) = (f', s')"
    using distinct_concat_unique [OF d mem, of "plan_operation s m"] ops by simp
  moreover have "distinct (map (plan_operation s) (sd_methods s))"
    using d mem(1) by (force simp: distinct_concat_iff)
  ultimately show ?thesis using assms by (auto simp: distinct_map dest: inj_onD)
qed

lemma well_named_methods:
  assumes "well_named files" "f \<in> set files" "s \<in> set (fl_services f)"
  shows "distinct (map md_name (sd_methods s))"
proof -
  have "(f, s) \<in> set (plan_services files)" using assms by (auto simp: plan_services_def)
  then have "distinct (map (plan_operation s) (sd_methods s))"
    using assms(1) by (force simp: well_named_def distinct_concat_iff)
  then show ?thesis by (auto simp: distinct_map plan_operation_def inj_on_def)
qed

lemma plan_rules_functional:
  "well_named files \<Longrightarrow> (op, r) \<in> plan_rules C files d \<Longrightarrow> (op, r') \<in> plan_rules C files d \<Longrightarrow> r = r'"
  unfolding plan_rules_def using well_named_unique by (smt (verit) mem_Collect_eq option.inject prod.inject)

text \<open>The rules in a plan state, by directory.\<close>

definition planned :: "'r plan_state \<Rightarrow> (string \<times> string \<times> 'r) set" where
  "planned st = {(d, op, r). \<exists>g. map_of (pl_states st) d = Some g \<and> (op, r) \<in> set (pg_entries (gs_group g))}"

definition state_ok :: "'r plan_state \<Rightarrow> bool" where
  "state_ok st \<longleftrightarrow>
     distinct (map fst (pl_states st))
     \<and> (\<forall>d g. map_of (pl_states st) d = Some g \<longrightarrow>
          gs_seen g = fst ` set (pg_entries (gs_group g)) \<and> pg_directory (gs_group g) = d
          \<and> pg_entries (gs_group g) \<noteq> [] \<and> distinct (map fst (pg_entries (gs_group g))))"

lemma add_entry_distinct:
  "distinct (map fst (pl_states st)) \<Longrightarrow> distinct (map fst (pl_states (add_entry d op r st)))"
  by (simp add: add_entry_def Let_def distinct_update)

lemma add_entry_planned:
  assumes "state_ok st" "\<And>r'. (d, op, r') \<in> planned st \<Longrightarrow> r' = r"
  shows "state_ok (add_entry d op r st) \<and> planned (add_entry d op r st) = insert (d, op, r) (planned st)"
proof (cases "map_of (pl_states st) d")
  case None
  with assms(1) show ?thesis
    by (auto simp: add_entry_def state_ok_def planned_def update_conv' distinct_update Let_def simp del: map_of_eq_Some_iff split: if_splits)
next
  case (Some g)
  note g = assms(1) [unfolded state_ok_def, THEN conjunct2, rule_format, OF Some]
  show ?thesis
  proof (cases "op \<in> gs_seen g")
    case True
    then obtain r' where r': "(op, r') \<in> set (pg_entries (gs_group g))" using g by force
    with assms(2) Some have "r' = r" by (auto simp: planned_def)
    moreover have "map_of (pl_states (add_entry d op r st)) = map_of (pl_states st)"
      using Some True by (auto simp: add_entry_def update_conv' Let_def)
    ultimately show ?thesis
      using assms(1) r' Some add_entry_distinct [of st d op r] by (auto simp: state_ok_def planned_def simp del: map_of_eq_Some_iff)
  next
    case False
    then have "map_of (pl_states (add_entry d op r st)) = (map_of (pl_states st))(d \<mapsto>
        \<lparr>gs_group = (gs_group g)\<lparr>pg_entries := pg_entries (gs_group g) @ [(op, r)]\<rparr>, gs_seen = insert op (gs_seen g)\<rparr>)"
      using Some by (simp add: add_entry_def update_conv' Let_def)
    then show ?thesis
      using assms(1) Some False g add_entry_distinct [of st d op r] by (auto simp: state_ok_def planned_def simp del: map_of_eq_Some_iff split: if_splits)
  qed
qed


text \<open>One step of the second pass adds the rules of one method.\<close>

definition method_rules ::
    "'r plan_config \<Rightarrow> string \<Rightarrow> 'r file_decl \<Rightarrow> 'r service_decl \<Rightarrow> 'r method_decl \<Rightarrow> (string \<times> string \<times> 'r) set" where
  "method_rules C d file s m =
     {(d, plan_operation s m, r) | r. effective_rule C s m = Some r \<and> accepts_rule C file s m r}"

definition within_plan :: "'r plan_config \<Rightarrow> 'r file_decl list \<Rightarrow> 'r plan_state \<Rightarrow> bool" where
  "within_plan C files st \<longleftrightarrow> state_ok st \<and> (\<forall>(d, x) \<in> planned st. x \<in> plan_rules C files d)"

lemma plan_method_step:
  assumes "well_named files" "file \<in> set files" "fl_generate file" "path_dir (fl_prefix file) = d"
    and "s \<in> set (fl_services file)" "m \<in> set (sd_methods s)" "rules_of_service s (Some rules)"
    and "within_plan C files st" "plan_method C d file s rules m st = Inr st'"
  shows "within_plan C files st' \<and> planned st' = planned st \<union> method_rules C d file s m"
proof -
  have rules: "sr_default rules = declared_rule (sd_default s)" "sr_methods rules (md_name m) = declared_rule (md_rule m)"
    using assms(6,7) well_named_methods [OF assms(1,2,5)] by (auto simp: rules_of_service_def)
  have run: "plan_method C d file s rules m st =
      (case effective_rule C s m of
         None \<Rightarrow> Inr st
       | Some merged \<Rightarrow>
           (case (case pc_accept C of None \<Rightarrow> Inr True | Some accept \<Rightarrow> accept file s m (plan_operation s m) merged) of
              Inl e \<Rightarrow> Inl e
            | Inr accepted \<Rightarrow> if \<not> accepted then Inr st else Inr (add_entry d (plan_operation s m) merged st)))"
    by (simp only: plan_method_def Let_def rules option_merge_effective)
  show ?thesis
  proof (cases "effective_rule C s m")
    case None
    with assms(8,9) run show ?thesis by (simp add: method_rules_def)
  next
    case (Some r)
    show ?thesis
    proof (cases "accepts_rule C file s m r")
      case False
      with assms(8,9) run Some show ?thesis
        by (auto simp: method_rules_def accepts_rule_def split: option.splits sum.splits if_splits)
    next
      case True
      have st': "st' = add_entry d (plan_operation s m) r st"
        using assms(9) run Some True by (auto simp: accepts_rule_def split: option.splits)
      have mine: "(plan_operation s m, r) \<in> plan_rules C files d"
        using assms Some True by (auto simp: plan_rules_def)
      have "r' = r" if "(d, plan_operation s m, r') \<in> planned st" for r'
        using that assms(8) mine plan_rules_functional [OF assms(1)] by (fastforce simp: within_plan_def)
      from add_entry_planned [OF _ this] assms(8) st' mine Some True show ?thesis
        by (auto simp: within_plan_def method_rules_def)
    qed
  qed
qed

lemma plan_service_step:
  assumes "well_named files" "index_files C files = Inr indexed" "file \<in> set files" "fl_generate file"
    "path_dir (fl_prefix file) = d" "s \<in> set (fl_services file)"
    and "within_plan C files st" "plan_service C indexed d file s st = Inr st'"
  shows "within_plan C files st' \<and> planned st' = planned st \<union> (\<Union>m \<in> set (sd_methods s). method_rules C d file s m)"
proof -
  have "rules_of_service s (indexed (sd_full_name s))"
    using index_files_Inr [OF assms(2) _ assms(3,6)] assms(1) by (simp add: well_named_def)
  then obtain rules where rules: "indexed (sd_full_name s) = Some rules" "rules_of_service s (Some rules)"
    by (auto simp: rules_of_service_def)
  with assms(8) have run: "fold_err (plan_method C d file s rules) (sd_methods s) st = Inr st'"
    by (simp add: plan_service_def)
  show ?thesis
    by (rule fold_err_collect [where I = "within_plan C files", OF run assms(7)])
      (rule plan_method_step [OF assms(1,3,4,5,6) _ rules(2)])
qed

definition file_rules :: "'r plan_config \<Rightarrow> 'r file_decl \<Rightarrow> (string \<times> string \<times> 'r) set" where
  "file_rules C file =
     (if fl_generate file then \<Union>s \<in> set (fl_services file). \<Union>m \<in> set (sd_methods s).
        method_rules C (path_dir (fl_prefix file)) file s m else {})"

lemma within_plan_targets [simp]: "within_plan C files (st\<lparr>pl_targets := t\<rparr>) = within_plan C files st"
  "planned (st\<lparr>pl_targets := t\<rparr>) = planned st"
  by (simp_all add: within_plan_def planned_def state_ok_def)

lemma plan_file_step:
  assumes "well_named files" "index_files C files = Inr indexed" "file \<in> set files"
    and "within_plan C files st" "plan_file C indexed file st = Inr st'"
  shows "within_plan C files st' \<and> planned st' = planned st \<union> file_rules C file"
proof (cases "fl_generate file")
  case gen: True
  let ?d = "path_dir (fl_prefix file)"
  obtain t where run: "fold_err (plan_service C indexed ?d file) (fl_services file) (st\<lparr>pl_targets := t\<rparr>) = Inr st'"
  proof (cases "pl_targets st ?d")
    case None
    with assms(5) gen that show ?thesis by (simp add: plan_file_def Let_def)
  next
    case (Some target)
    with assms(5) gen that [of "pl_targets st"] show ?thesis
      by (simp add: plan_file_def Let_def split: if_splits)
  qed
  have "within_plan C files st' \<and> planned st'
      = planned (st\<lparr>pl_targets := t\<rparr>) \<union> (\<Union>s \<in> set (fl_services file). \<Union>m \<in> set (sd_methods s). method_rules C ?d file s m)"
    by (rule fold_err_collect [where I = "within_plan C files", OF run])
      (use assms(4) in \<open>simp_all add: plan_service_step [OF assms(1,2,3) gen refl]\<close>)
  then show ?thesis using gen by (simp add: file_rules_def)
qed (use assms in \<open>auto simp: plan_file_def file_rules_def\<close>)


section \<open>Targets\<close>

text \<open>Every directory has one target file, of whose Go package all generated files of the directory are.\<close>

definition same_package :: "'r file_decl \<Rightarrow> 'r file_decl \<Rightarrow> bool" where
  "same_package f g \<longleftrightarrow> fl_import_path f = fl_import_path g \<and> fl_package f = fl_package g"

definition targets_ok :: "'r plan_state \<Rightarrow> bool" where
  "targets_ok st \<longleftrightarrow> (\<forall>d g. map_of (pl_states st) d = Some g \<longrightarrow> pl_targets st d = Some (pg_target (gs_group g)))"

lemma fold_err_inv:
  assumes "fold_err f xs s = Inr t" "I s" "\<And>x s s'. x \<in> set xs \<Longrightarrow> I s \<Longrightarrow> f x s = Inr s' \<Longrightarrow> I s'"
  shows "I t"
  using fold_err_collect [where I = I and g = "\<lambda>_. {} :: unit set" and c = "\<lambda>_. {}", OF assms(1,2)] assms(3) by auto

lemma add_entry_targets:
  "pl_targets (add_entry d op r st) = pl_targets st"
  "targets_ok st \<Longrightarrow> pl_targets st d = Some t \<Longrightarrow> targets_ok (add_entry d op r st)"
  by (auto simp: add_entry_def targets_ok_def update_conv' Let_def simp del: map_of_eq_Some_iff split: option.splits)

lemma plan_method_targets:
  assumes "plan_method C d file s rules m st = Inr st'"
  shows "st' = st \<or> (\<exists>op r. st' = add_entry d op r st)"
  using assms by (auto simp: plan_method_def Let_def split: option.splits sum.splits if_splits)

lemma plan_services_targets:
  assumes "fold_err (plan_service C indexed d file) ss st = Inr st'" "targets_ok st" "pl_targets st d = Some t"
  shows "targets_ok st' \<and> pl_targets st' = pl_targets st"
proof (rule fold_err_inv [where I = "\<lambda>x. targets_ok x \<and> pl_targets x = pl_targets st", OF assms(1)])
  fix s x x' assume x: "targets_ok x \<and> pl_targets x = pl_targets st" and run: "plan_service C indexed d file s x = Inr x'"
  show "targets_ok x' \<and> pl_targets x' = pl_targets st"
  proof (cases "indexed (sd_full_name s)")
    case None
    with run x show ?thesis by (simp add: plan_service_def)
  next
    case (Some rules)
    with run have "fold_err (plan_method C d file s rules) (sd_methods s) x = Inr x'" by (simp add: plan_service_def)
    then show ?thesis
      by (rule fold_err_inv [where I = "\<lambda>x. targets_ok x \<and> pl_targets x = pl_targets st"])
        (use x assms(3) in \<open>auto dest!: plan_method_targets simp: add_entry_targets\<close>)
  qed
qed (use assms in simp)

lemma plan_file_targets:
  assumes "plan_file C indexed file st = Inr st'" "targets_ok st"
  shows "targets_ok st'" "pl_targets st d = Some t \<Longrightarrow> pl_targets st' d = Some t"
    and "fl_generate file \<Longrightarrow> \<exists>t. pl_targets st' (path_dir (fl_prefix file)) = Some t \<and> same_package t file"
proof -
  let ?d = "path_dir (fl_prefix file)"
  have "targets_ok st' \<and> (pl_targets st d = Some t \<longrightarrow> pl_targets st' d = Some t)
      \<and> (fl_generate file \<longrightarrow> (\<exists>t. pl_targets st' ?d = Some t \<and> same_package t file))"
  proof (cases "fl_generate file")
    case gen: True
    show ?thesis
    proof (cases "pl_targets st ?d")
      case None
      let ?st = "st\<lparr>pl_targets := (pl_targets st)(?d \<mapsto> file)\<rparr>"
      from None assms(1) gen have run: "fold_err (plan_service C indexed ?d file) (fl_services file) ?st = Inr st'"
        by (simp add: plan_file_def Let_def)
      have "targets_ok ?st" using assms(2) None by (auto simp: targets_ok_def simp del: map_of_eq_Some_iff)
      from plan_services_targets [OF run this] None show ?thesis by (auto simp: same_package_def)
    next
      case (Some target)
      with assms(1) gen have run: "fold_err (plan_service C indexed ?d file) (fl_services file) st = Inr st'"
        and same: "same_package target file"
        by (auto simp: plan_file_def Let_def same_package_def split: if_splits)
      from plan_services_targets [OF run assms(2) Some] Some same show ?thesis by auto
    qed
  qed (use assms in \<open>simp add: plan_file_def\<close>)
  then show "targets_ok st'" "pl_targets st d = Some t \<Longrightarrow> pl_targets st' d = Some t"
    "fl_generate file \<Longrightarrow> \<exists>t. pl_targets st' ?d = Some t \<and> same_package t file" by blast+
qed

lemma plan_files_targets:
  assumes "fold_err (plan_file C indexed) files st = Inr st'" "targets_ok st"
  shows "targets_ok st' \<and> (\<forall>d t. pl_targets st d = Some t \<longrightarrow> pl_targets st' d = Some t)
    \<and> (\<forall>f \<in> set files. fl_generate f \<longrightarrow>
         (\<exists>t. pl_targets st' (path_dir (fl_prefix f)) = Some t \<and> same_package t f))"
  using assms
proof (induction files arbitrary: st)
  case (Cons f fs)
  then obtain x where x: "plan_file C indexed f st = Inr x" "fold_err (plan_file C indexed) fs x = Inr st'"
    by (auto split: sum.splits)
  note step = plan_file_targets [OF x(1) Cons.prems(2)]
  from Cons.IH [OF x(2) step(1)] step show ?case by (metis set_ConsD)
qed simp


section \<open>Properties of plans\<close>

lemma plan_build_Inr:
  assumes "plan_build (Some files) C = Inr groups"
  obtains indexed st where "index_files C files = Inr indexed"
    "fold_err (plan_file C indexed) files \<lparr>pl_targets = Map.empty, pl_states = []\<rparr> = Inr st"
    "groups = map (\<lambda>d. let group = gs_group (the (map_of (pl_states st) d))
       in group\<lparr>pg_entries := sort_key fst (pg_entries group)\<rparr>) (sort (map fst (pl_states st)))"
  using assms by (auto simp: plan_build_def split: if_splits sum.splits intro: that)

lemma strict_sorted_keys:
  fixes xs :: "(string \<times> 'r) list"
  assumes "distinct (map fst xs)"
  shows "sorted_wrt (<) (map fst (sort_key fst xs))"
  using assms by (simp add: strict_sorted_iff distinct_map)

lemma file_rules_plan:
  "(d, x) \<in> (\<Union>f \<in> set files. file_rules C f) \<longleftrightarrow> x \<in> plan_rules C files d"
  by (cases x) (auto simp: file_rules_def method_rules_def plan_rules_def split: if_splits)

lemma plan_build_rules:
  fixes groups :: "'r plan_group list"
  assumes named: "well_named files" and run: "plan_build (Some files) C = Inr groups"
  shows "sorted_wrt (<) (map pg_directory groups)
    \<and> set (map pg_directory groups) = {d. plan_rules C files d \<noteq> {}}
    \<and> (\<forall>g \<in> set groups. sorted_wrt (<) (map fst (pg_entries g))
         \<and> set (pg_entries g) = plan_rules C files (pg_directory g)
         \<and> (\<forall>f \<in> set files. fl_generate f \<and> path_dir (fl_prefix f) = pg_directory g \<longrightarrow> same_package (pg_target g) f))"
proof -
  let ?s0 = "\<lparr>pl_targets = Map.empty, pl_states = []\<rparr> :: 'r plan_state"
  from run obtain indexed st where ix: "index_files C files = Inr indexed"
    and st: "fold_err (plan_file C indexed) files ?s0 = Inr st"
    and groups: "groups = map (\<lambda>d. let group = gs_group (the (map_of (pl_states st) d))
       in group\<lparr>pg_entries := sort_key fst (pg_entries group)\<rparr>) (sort (map fst (pl_states st)))"
    by (rule plan_build_Inr)
  have i0: "within_plan C files ?s0" "targets_ok ?s0" "planned ?s0 = {}"
    by (simp_all add: within_plan_def state_ok_def planned_def targets_ok_def)
  have "within_plan C files st \<and> planned st = planned ?s0 \<union> (\<Union>f \<in> set files. file_rules C f)"
    by (rule fold_err_collect [where I = "within_plan C files", OF st i0(1)]) (rule plan_file_step [OF named ix])
  then have ok: "state_ok st" and eq: "planned st = (\<Union>f \<in> set files. file_rules C f)"
    using i0(3) by (auto simp: within_plan_def)
  have planned: "(d, x) \<in> planned st \<longleftrightarrow> x \<in> plan_rules C files d" for d x
    unfolding eq by (rule file_rules_plan)
  note targets = plan_files_targets [OF st i0(2)]
  have g: "pg_directory g = d \<and> sorted_wrt (<) (map fst (pg_entries g)) \<and> set (pg_entries g) = plan_rules C files d
      \<and> set (pg_entries g) \<noteq> {}
      \<and> (\<forall>f \<in> set files. fl_generate f \<and> path_dir (fl_prefix f) = d \<longrightarrow> same_package (pg_target g) f)"
    if s: "map_of (pl_states st) d = Some s" and g: "g = (gs_group s)\<lparr>pg_entries := sort_key fst (pg_entries (gs_group s))\<rparr>"
    for d s g
  proof -
    have s': "pg_directory (gs_group s) = d" "pg_entries (gs_group s) \<noteq> []" "distinct (map fst (pg_entries (gs_group s)))"
      using ok s unfolding state_ok_def by blast+
    have "set (pg_entries (gs_group s)) = plan_rules C files d"
      using planned [of d] s unfolding planned_def by auto
    moreover have "pl_targets st d = Some (pg_target (gs_group s))"
      using targets s unfolding targets_ok_def by blast
    ultimately show ?thesis
      using s' g targets strict_sorted_keys [OF s'(3)] by auto
  qed
  have dirs: "\<exists>s. map_of (pl_states st) d = Some s" if "d \<in> set (map fst (pl_states st))" for d
    using that by (metis map_of_eq_None_iff not_None_eq image_set)
  have names: "map pg_directory groups = sort (map fst (pl_states st))"
    unfolding groups using dirs g by (auto simp: Let_def intro!: map_idI)
  have "d \<in> set (map fst (pl_states st)) \<longleftrightarrow> plan_rules C files d \<noteq> {}" for d
  proof (cases "map_of (pl_states st) d")
    case None
    then have "x \<notin> plan_rules C files d" for x using planned [of d x] by (cases x) (auto simp: planned_def)
    with None show ?thesis by (auto simp: map_of_eq_None_iff)
  next
    case (Some s)
    then have "d \<in> set (map fst (pl_states st))" using map_of_SomeD by force
    moreover have "plan_rules C files d \<noteq> {}" using g [OF Some refl] by metis
    ultimately show ?thesis by blast
  qed
  then have "set (map pg_directory groups) = {d. plan_rules C files d \<noteq> {}}" unfolding names by auto
  moreover have "sorted_wrt (<) (map pg_directory groups)"
    unfolding names using ok by (simp add: state_ok_def strict_sorted_iff)
  moreover have "\<forall>x \<in> set groups. \<exists>s. map_of (pl_states st) (pg_directory x) = Some s
      \<and> x = (gs_group s)\<lparr>pg_entries := sort_key fst (pg_entries (gs_group s))\<rparr>"
    unfolding groups using dirs g by (fastforce simp: Let_def)
  ultimately show ?thesis using g by blast
qed

end
