(* ===== verification/RuleGen.thy ===== *)
theory RuleGen
  imports RulePlan
begin

text \<open>
  The two protoc plugins on top of the plans, and what their output is worth to the middlewares: a rule
  that passed the generator never gets stuck on a request of the input type of its method.
\<close>

section \<open>Descriptors\<close>

text \<open>\<open>ds_oneof\<close> tells whether the containing oneof, if any, is synthetic; \<open>ds_message\<close> names the message type.\<close>

record field_desc =
  ds_kind :: pkind
  ds_list :: bool
  ds_map :: bool
  ds_oneof :: "bool option"
  ds_message :: string

type_synonym schema = "string \<Rightarrow> (string \<times> field_desc) list"

definition valid_resource_id_kind :: "pkind \<Rightarrow> bool" where
  "valid_resource_id_kind k \<longleftrightarrow> k = StringKind \<or> k = SignedKind \<or> k = UnsignedKind"

text \<open>The walk along \<open>resource_id_field\<close>; \<open>None\<close> is success.\<close>

fun check_field_path :: "schema \<Rightarrow> string \<Rightarrow> string list \<Rightarrow> err option" where
  "check_field_path S current [] = None"
| "check_field_path S current (segment # rest) =
     (if segment = [] then Some (errorf ''authz: resource_id_field contains an empty segment'')
      else
        case map_of (S current) segment of
          None \<Rightarrow> Some (errorf ''authz: resource_id_field: field not found'')
        | Some field \<Rightarrow>
            if ds_list field \<or> ds_map field then Some (errorf ''authz: resource_id_field: field is repeated or map'')
            else if ds_oneof field = Some False then Some (errorf ''authz: resource_id_field: field belongs to oneof'')
            else if rest \<noteq> [] then
              (if ds_kind field \<noteq> MessageKind \<and> ds_kind field \<noteq> GroupKind
               then Some (errorf ''authz: resource_id_field: intermediate field is not a message'')
               else check_field_path S (ds_message field) rest)
            else if ds_kind field = MessageKind \<or> ds_kind field = GroupKind \<or> \<not> valid_resource_id_kind (ds_kind field)
            then Some (errorf ''authz: resource_id_field has unsupported terminal kind'')
            else None)"

definition validate_check_rule :: "schema \<Rightarrow> authz_rule \<Rightarrow> string \<Rightarrow> err option" where
  "validate_check_rule S rule input =
     (if zr_mode rule \<noteq> AuthzRequired then None
      else if trim_space (zr_action rule) = [] then Some (errorf ''authz: REQUIRED rule requires action'')
      else if zr_action rule \<noteq> trim_space (zr_action rule)
      then Some (errorf ''authz: action must not contain leading or trailing whitespace'')
      else if trim_space (zr_resource_type rule) = [] then Some (errorf ''authz: REQUIRED rule requires resource_type'')
      else if zr_resource_type rule \<noteq> trim_space (zr_resource_type rule)
      then Some (errorf ''authz: resource_type must not contain leading or trailing whitespace'')
      else
        let resourceID = get_resource_id rule; fieldPath = get_resource_id_field rule in
        if (resourceID = []) = (fieldPath = [])
        then Some (errorf ''authz: REQUIRED rule requires exactly one non-empty resource target'')
        else if resourceID \<noteq> [] then
          (if resourceID \<noteq> trim_space resourceID
           then Some (errorf ''authz: resource_id must not contain leading or trailing whitespace'') else None)
        else if fieldPath \<noteq> trim_space fieldPath
        then Some (errorf ''authz: resource_id_field must not contain leading or trailing whitespace'')
        else check_field_path S input (split_on (CHR ''.'') fieldPath))"

definition validate_declared_rule :: "authz_rule \<Rightarrow> err option" where
  "validate_declared_rule rule =
     (case zr_mode rule of
        AuthzOther n \<Rightarrow> Some (errorf ''authz: unknown AuthzMode'')
      | _ \<Rightarrow> None)"

definition validate_authn_rule :: "authn_rule \<Rightarrow> err option" where
  "validate_authn_rule rule =
     (case ar_mode rule of
        AuthnOther n \<Rightarrow> Some (errorf ''unknown AuthnMode'')
      | _ \<Rightarrow> None)"

section \<open>The plugins\<close>

text \<open>Field number 1 of the two rule messages is their mode.\<close>

definition authn_mode_non_zero :: "authn_rule \<Rightarrow> bool" where
  "authn_mode_non_zero r \<longleftrightarrow> ar_mode r \<noteq> AuthnUnspecified \<and> ar_mode r \<noteq> AuthnOther 0"

definition authz_mode_non_zero :: "authz_rule \<Rightarrow> bool" where
  "authz_mode_non_zero r \<longleftrightarrow> zr_mode r \<noteq> AuthzUnspecified \<and> zr_mode r \<noteq> AuthzOther 0"

definition authn_plan_config :: "authn_rule plan_config" where
  "authn_plan_config = \<lparr>pc_method_extension = True, pc_service_extension = True, pc_mode_set = authn_mode_non_zero,
     pc_validate = Some (\<lambda>_ _ _ rule. validate_authn_rule rule), pc_accept = None\<rparr>"

definition authz_plan_config :: "schema \<Rightarrow> authz_rule plan_config" where
  "authz_plan_config S = \<lparr>pc_method_extension = True, pc_service_extension = True, pc_mode_set = authz_mode_non_zero,
     pc_validate = Some (\<lambda>_ _ _ rule. validate_declared_rule rule),
     pc_accept = Some (\<lambda>_ _ method _ rule.
       case validate_check_rule S rule (md_input method) of Some e \<Rightarrow> Inl e | None \<Rightarrow> Inr True)\<rparr>"

text \<open>A generated file: its name, Go package and the literal of the rule map.\<close>

record 'r generated_file =
  gf_name :: string
  gf_import_path :: string
  gf_package :: string
  gf_rules :: "(string \<times> 'r) list"

definition path_join :: "string \<Rightarrow> string \<Rightarrow> string" where
  "path_join a b = (if a = [] then path_clean b else path_clean (a @ ''/'' @ b))"

text \<open>The fields that the literal of a rule sets.\<close>

definition authn_literal :: "authn_rule \<Rightarrow> authn_rule" where
  "authn_literal rule = \<lparr>ar_mode = ar_mode rule\<rparr>"

definition authz_literal :: "authz_rule \<Rightarrow> authz_rule" where
  "authz_literal rule =
     \<lparr>zr_mode = zr_mode rule, zr_action = zr_action rule, zr_resource_type = zr_resource_type rule,
      zr_target = (if get_resource_id rule \<noteq> [] then Some (TargetResourceId (get_resource_id rule))
                   else if get_resource_id_field rule \<noteq> [] then Some (TargetResourceIdField (get_resource_id_field rule))
                   else None)\<rparr>"

definition generated_of :: "string \<Rightarrow> ('r \<Rightarrow> 'r) \<Rightarrow> 'r plan_group \<Rightarrow> 'r generated_file" where
  "generated_of name literal grp =
     \<lparr>gf_name = path_join (pg_directory grp) name, gf_import_path = fl_import_path (pg_target grp),
      gf_package = fl_package (pg_target grp), gf_rules = map (\<lambda>(op, r). (op, literal r)) (pg_entries grp)\<rparr>"

definition authn_generate :: "authn_rule file_decl list option \<Rightarrow> err + authn_rule generated_file list" where
  "authn_generate gen =
     (case plan_build gen authn_plan_config of
        Inl e \<Rightarrow> Inl e
      | Inr groups \<Rightarrow> Inr (map (generated_of ''authn_rules.gen.go'' authn_literal) groups))"

definition authz_generate :: "schema \<Rightarrow> authz_rule file_decl list option \<Rightarrow> err + authz_rule generated_file list" where
  "authz_generate S gen =
     (case plan_build gen (authz_plan_config S) of
        Inl e \<Rightarrow> Inl e
      | Inr groups \<Rightarrow> Inr (map (generated_of ''authz_rules.gen.go'' authz_literal) groups))"

section \<open>Messages of a schema\<close>

text \<open>
  A message of a type shows exactly the fields of its descriptor, each with a value of its kind; a
  message field that is not set has no value to look at.
\<close>

inductive conforms :: "schema \<Rightarrow> string \<Rightarrow> pmessage \<Rightarrow> bool" and fits :: "schema \<Rightarrow> field_desc \<Rightarrow> pfield \<Rightarrow> bool"
  for S :: schema where
  message: "map fst fs = map fst (S t) \<Longrightarrow> list_all2 (fits S) (map snd (S t)) (map snd fs) \<Longrightarrow> conforms S t (PMessage fs)"
| text_value: "fits S \<lparr>ds_kind = StringKind, ds_list = False, ds_map = False, ds_oneof = oneof, ds_message = t\<rparr>
     (PField StringKind False False oneof presence has (PString s))"
| number_value: "k = SignedKind \<or> k = UnsignedKind \<Longrightarrow>
     fits S \<lparr>ds_kind = k, ds_list = False, ds_map = False, ds_oneof = oneof, ds_message = t\<rparr>
       (PField k False False oneof presence has (PInt i))"
| sub_message: "k = MessageKind \<or> k = GroupKind \<Longrightarrow> conforms S t m \<Longrightarrow>
     fits S \<lparr>ds_kind = k, ds_list = False, ds_map = False, ds_oneof = oneof, ds_message = t\<rparr>
       (PField k False False oneof presence True (PMsg m))"
| unset_message: "k = MessageKind \<or> k = GroupKind \<Longrightarrow>
     fits S \<lparr>ds_kind = k, ds_list = False, ds_map = False, ds_oneof = oneof, ds_message = t\<rparr>
       (PField k False False oneof presence False v)"
| other_value: "is_list \<or> is_map \<or> k = OtherKind \<Longrightarrow>
     fits S \<lparr>ds_kind = k, ds_list = is_list, ds_map = is_map, ds_oneof = oneof, ds_message = t\<rparr>
       (PField k is_list is_map oneof presence has v)"

inductive_cases conformsE: "conforms S t m"
inductive_cases fitsE: "fits S d f"

text \<open>The fields along a path are set, and the text of the last is not blank.\<close>

fun path_set :: "pmessage \<Rightarrow> string list \<Rightarrow> bool" where
  "path_set m [] = False"
| "path_set m (segment # rest) =
     (case message_field m segment of
        None \<Rightarrow> False
      | Some f \<Rightarrow>
          if rest \<noteq> [] then pf_has f \<and> (case pf_value f of PMsg sub \<Rightarrow> path_set sub rest | _ \<Rightarrow> False)
          else (pf_presence f \<longrightarrow> pf_has f) \<and> (case field_text f of None \<Rightarrow> False | Some s \<Rightarrow> trim_space s \<noteq> []))"

definition unset_errors :: "err set" where
  "unset_errors = {errorf ''openfga authz: resource field is unavailable'', errorf ''openfga authz: resource field is empty''}"

lemma conforms_field:
  assumes "conforms S t m" "map_of (S t) n = Some d"
  shows "\<exists>f. message_field m n = Some f \<and> fits S d f"
proof -
  from assms(1) obtain fs where m: "m = PMessage fs" and k: "map fst fs = map fst (S t)"
    and v: "list_all2 (fits S) (map snd (S t)) (map snd fs)" by (rule conformsE)
  have "\<exists>f. map_of ys n = Some f \<and> fits S d f"
    if "map fst ys = map fst xs" "list_all2 (fits S) (map snd xs) (map snd ys)" "map_of xs n = Some d" for xs ys
    using that
  proof (induction xs arbitrary: ys)
    case (Cons x xs)
    then obtain y zs where "ys = y # zs" by (cases ys) auto
    with Cons show ?case by (cases x; cases y) (auto split: if_splits)
  qed simp
  with m k v assms(2) show ?thesis by auto
qed

text \<open>A path that passed the generator does not get stuck.\<close>

lemma checked_path_progress:
  assumes "check_field_path S t segs = None" "segs \<noteq> []" "conforms S t m"
  shows "if path_set m segs then \<exists>s. walk_field m segs = Inr s \<and> trim_space s \<noteq> []
    else \<exists>e \<in> unset_errors. walk_field m segs = Inl e"
  using assms
proof (induction S t segs arbitrary: m rule: check_field_path.induct)
  case (2 S t seg rest)
  from 2(2) obtain d where d: "map_of (S t) seg = Some d" and nl: "\<not> ds_list d" "\<not> ds_map d"
    and one: "ds_oneof d \<noteq> Some False" and seg: "seg \<noteq> []"
    by (auto split: if_splits option.splits)
  from conforms_field [OF 2(4) d] obtain f where f: "message_field m seg = Some f" "fits S d f" by blast
  show ?case
  proof (cases "rest = []")
    case True
    with 2(2) d nl one seg have k: "ds_kind d = StringKind \<or> ds_kind d = SignedKind \<or> ds_kind d = UnsignedKind"
      by (auto simp: valid_resource_id_kind_def split: if_splits)
    from f(2) show ?thesis
    proof cases
      case (text_value oneof t presence has s)
      with f(1) one True show ?thesis by (simp add: field_text_def unset_errors_def)
    next
      case (number_value k oneof t presence has i)
      then have "field_text f = Some (itoa i)" by (auto simp: field_text_def)
      with f(1) one True number_value show ?thesis by (simp add: unset_errors_def)
    qed (use k nl in \<open>auto simp del: path_set.simps walk_field.simps\<close>)
  next
    case False
    with 2(2) d nl one seg have k: "ds_kind d = MessageKind \<or> ds_kind d = GroupKind"
      and rest: "check_field_path S (ds_message d) rest = None" by (auto split: if_splits)
    from f(2) show ?thesis
    proof cases
      case (sub_message k t sub oneof presence)
      with 2(1) [OF seg d _ _ False] rest nl one k False have
        "if path_set sub rest then \<exists>s. walk_field sub rest = Inr s \<and> trim_space s \<noteq> []
         else \<exists>e \<in> unset_errors. walk_field sub rest = Inl e" by auto
      with f(1) False one sub_message show ?thesis by (auto split: if_splits)
    qed (use f(1) False nl one k in \<open>auto simp: unset_errors_def\<close>)
  qed
qed simp

section \<open>Properties\<close>

text \<open>
  C32. A plan is exactly what the annotations declare. When service names and operations are unique, a
  plan that is built has one group for each output directory that gets a rule, in strict order of the
  directories; a group holds, in strict order of the operations, the accepted rule of every method of
  the files generated into its directory and no other, where the rule of a method is its own when its
  mode is set and else the default of its service; and all files generated into the directory have the
  Go package of its target file.
\<close>

theorem plan_is_what_is_declared:
  assumes "well_named files" "plan_build (Some files) C = Inr groups"
  shows "sorted_wrt (<) (map pg_directory groups)
    \<and> set (map pg_directory groups) = {d. plan_rules C files d \<noteq> {}}
    \<and> (\<forall>g \<in> set groups. sorted_wrt (<) (map fst (pg_entries g))
         \<and> set (pg_entries g) = plan_rules C files (pg_directory g)
         \<and> (\<forall>f \<in> set files. fl_generate f \<and> path_dir (fl_prefix f) = pg_directory g \<longrightarrow> same_package (pg_target g) f))"
  using assms by (rule plan_build_rules)

lemma strict_keys_unique:
  fixes xs ys :: "(string \<times> 'r) list"
  assumes "sorted_wrt (<) (map fst xs)" "sorted_wrt (<) (map fst ys)" "set xs = set ys"
  shows "xs = ys"
proof (rule map_sorted_distinct_set_unique [of fst])
  show "inj_on fst (set xs \<union> set ys)" using assms by (simp add: strict_sorted_iff distinct_map)
qed (use assms in \<open>simp_all add: strict_sorted_iff\<close>)

lemma strict_sorted_unique:
  fixes xs ys :: "string list"
  assumes "sorted_wrt (<) xs" "sorted_wrt (<) ys" "set xs = set ys"
  shows "xs = ys"
  using assms by (metis sorted_distinct_set_unique strict_sorted_iff)

text \<open>
  Generation is deterministic. Two requests with the same files in any order, from which plans are
  built, give the same directories with the same entries in the same order.
\<close>

lemma plan_ignores_file_order:
  assumes "well_named files" "well_named files'" "set files = set files'"
    and "plan_build (Some files) C = Inr groups" "plan_build (Some files') C = Inr groups'"
  shows "map (\<lambda>g. (pg_directory g, pg_entries g)) groups = map (\<lambda>g. (pg_directory g, pg_entries g)) groups'"
proof -
  note a = plan_build_rules [OF assms(1,4)] and b = plan_build_rules [OF assms(2,5)]
  have eq: "plan_rules C files d = plan_rules C files' d" for d using assms(3) by (simp add: plan_rules_def)
  have dirs: "map pg_directory groups = map pg_directory groups'"
    using a b eq by (intro strict_sorted_unique) auto
  have "pg_entries (groups ! i) = pg_entries (groups' ! i)" if "i < length groups" for i
  proof -
    have l: "i < length groups'" using dirs that by (metis length_map)
    have "pg_directory (groups ! i) = pg_directory (groups' ! i)" using dirs that l by (metis nth_map)
    with a b eq that l show ?thesis by (intro strict_keys_unique) auto
  qed
  with dirs show ?thesis
    by (intro nth_equalityI) (metis length_map, metis (mono_tags, lifting) length_map nth_map)
qed

lemma get_resource_literal [simp]:
  "get_resource_id (authz_literal r) = get_resource_id r"
  "get_resource_id_field (authz_literal r) = get_resource_id_field r"
  by (auto simp: authz_literal_def get_resource_id_def get_resource_id_field_def split: option.splits authz_target.splits)

lemma checked_rule_resolves:
  assumes "validate_check_rule S rule input = None" "zr_mode rule = AuthzRequired" "conforms S input m"
  shows "if get_resource_id rule \<noteq> [] \<or> path_set m (split_on (CHR ''.'') (get_resource_id_field rule))
    then \<exists>i. rule_resource_id rule (Some (Some m)) = Inr i \<and> trim_space i \<noteq> []
    else \<exists>e \<in> unset_errors. rule_resource_id rule (Some (Some m)) = Inl (wrap2 [] (Sentinel (FgaAuthz FInvalidInput)) e)"
proof (cases "get_resource_id rule = []")
  case False
  with assms(1,2) have "get_resource_id rule = trim_space (get_resource_id rule)"
    by (auto simp: validate_check_rule_def Let_def split: if_splits)
  with False show ?thesis by (simp add: rule_resource_id_def)
next
  case True
  with assms(1,2) have f: "get_resource_id_field rule \<noteq> []"
    and "check_field_path S input (split_on (CHR ''.'') (get_resource_id_field rule)) = None"
    by (auto simp: validate_check_rule_def Let_def split: if_splits)
  from checked_path_progress [OF this(2) _ assms(3)] f True show ?thesis
    by (auto simp: rule_resource_id_def resource_id_from_request_def)
qed

lemma authz_accepts:
  "accepts_rule (authz_plan_config S) f s m r \<longleftrightarrow> validate_check_rule S r (md_input m) = None"
  by (auto simp: accepts_rule_def authz_plan_config_def split: option.splits)

text \<open>
  C28. Generated authorization rules are type sound. Every entry of a generated rule map is the rule of a
  method of the request, and when it requires authorization, the resource of any request message that
  conforms to the input type of this method is found: a fixed identifier, or the not blank text of the
  field that the rule names. The only errors left are that a field on the path is not set or its text is
  blank; the field is never missing, repeated, in a oneof or of a kind without text.
\<close>

theorem generated_rules_resolve:
  assumes "authz_generate S (Some files) = Inr outs" "well_named files" "out \<in> set outs"
    and "(op, r) \<in> set (gf_rules out)" "zr_mode r = AuthzRequired"
  shows "\<exists>f s m. f \<in> set files \<and> fl_generate f \<and> s \<in> set (fl_services f) \<and> m \<in> set (sd_methods s)
    \<and> op = plan_operation s m
    \<and> (\<forall>msg. conforms S (md_input m) msg \<longrightarrow>
         (if get_resource_id r \<noteq> [] \<or> path_set msg (split_on (CHR ''.'') (get_resource_id_field r))
          then \<exists>i. rule_resource_id r (Some (Some msg)) = Inr i \<and> trim_space i \<noteq> []
          else \<exists>e \<in> unset_errors. rule_resource_id r (Some (Some msg)) = Inl (wrap2 [] (Sentinel (FgaAuthz FInvalidInput)) e)))"
proof -
  from assms(1) obtain groups where b: "plan_build (Some files) (authz_plan_config S) = Inr groups"
    and outs: "outs = map (generated_of ''authz_rules.gen.go'' authz_literal) groups"
    by (auto simp: authz_generate_def split: sum.splits)
  from outs assms(3,4) obtain g r0 where g: "g \<in> set groups" "(op, r0) \<in> set (pg_entries g)" and r: "r = authz_literal r0"
    by (auto simp: generated_of_def)
  from plan_build_rules [OF assms(2) b] g have "(op, r0) \<in> plan_rules (authz_plan_config S) files (pg_directory g)"
    by blast
  then obtain f s m where m: "f \<in> set files" "fl_generate f" "s \<in> set (fl_services f)" "m \<in> set (sd_methods s)"
    "op = plan_operation s m" and v: "validate_check_rule S r0 (md_input m) = None"
    by (auto simp: plan_rules_def authz_accepts)
  have "zr_mode r0 = AuthzRequired" using assms(5) r by (simp add: authz_literal_def)
  note res = checked_rule_resolves [OF v this]
  have "rule_resource_id r x = rule_resource_id r0 x" for x by (simp add: r rule_resource_id_def)
  with res m r show ?thesis by (intro exI [of _ f] exI [of _ s] exI [of _ m]) simp
qed

section \<open>A sample request\<close>

definition sample_rule :: authz_rule where
  "sample_rule = \<lparr>zr_mode = AuthzRequired, zr_action = ''can_view'', zr_resource_type = ''user'',
     zr_target = Some (TargetResourceIdField ''user.id'')\<rparr>"

definition sample_none :: authz_rule where
  "sample_none = \<lparr>zr_mode = AuthzNone, zr_action = [], zr_resource_type = [], zr_target = None\<rparr>"

definition sample_file :: "string \<Rightarrow> string \<Rightarrow> authz_rule file_decl" where
  "sample_file dir service = \<lparr>fl_path = service, fl_generate = True, fl_prefix = dir @ ''/api'', fl_import_path = dir,
     fl_package = ''v1'', fl_services = [\<lparr>sd_full_name = service, sd_default = ExtRule sample_none,
       sd_methods = [\<lparr>md_name = ''Get'', md_rule = ExtRule sample_rule, md_input = ''Req''\<rparr>,
                     \<lparr>md_name = ''Del'', md_rule = ExtAbsent, md_input = ''Req''\<rparr>]\<rparr>]\<rparr>"

definition sample_files :: "authz_rule file_decl list" where
  "sample_files = [sample_file ''b'' ''b.S'', sample_file ''a'' ''a.S'']"

definition sample_schema :: schema where
  "sample_schema t =
     (if t = ''Req'' then [(''user'', \<lparr>ds_kind = MessageKind, ds_list = False, ds_map = False, ds_oneof = None, ds_message = ''User''\<rparr>)]
      else if t = ''User'' then [(''id'', \<lparr>ds_kind = StringKind, ds_list = False, ds_map = False, ds_oneof = None, ds_message = []\<rparr>)]
      else [])"

definition sample_message :: pmessage where
  "sample_message = PMessage [(''user'', PField MessageKind False False None True True
     (PMsg (PMessage [(''id'', PField StringKind False False None False True (PString ''u1''))])))]"

definition sample_config :: "authz_rule plan_config" where
  "sample_config = authz_plan_config sample_schema"

lemma sample_well_named: "well_named sample_files" "well_named (rev sample_files)"
  by (simp_all add: well_named_def plan_services_def sample_files_def sample_file_def plan_operation_def)

lemma sample_texts:
  "trim_space ''can_view'' = ''can_view''" "trim_space ''user'' = ''user''" "trim_space ''user.id'' = ''user.id''"
  "trim_space ''u1'' = ''u1''"
  by (simp_all add: trim_space_def rune_where_def rune_is_space_def)

lemma sample_paths:
  "split_on (CHR ''.'') ''user.id'' = [''user'', ''id'']" "path_dir ''a/api'' = ''a''" "path_dir ''b/api'' = ''b''"
  by (simp_all add: path_dir_def path_clean_def)

lemma sample_checks:
  "validate_check_rule sample_schema sample_rule ''Req'' = None" "validate_check_rule sample_schema sample_none ''Req'' = None"
  "validate_declared_rule sample_rule = None" "validate_declared_rule sample_none = None"
  by (simp_all add: validate_check_rule_def sample_rule_def sample_none_def get_resource_id_def get_resource_id_field_def
      sample_texts sample_paths sample_schema_def valid_resource_id_kind_def validate_declared_rule_def)

lemmas sample_run = plan_build_def index_files_def index_service_def index_method_def plan_file_def plan_service_def
  plan_method_def add_entry_def extension_rule_def validate_declared_def option_merge_def plan_operation_def

lemma sample_plan_ok:
  "\<exists>groups. plan_build (Some sample_files) (authz_plan_config sample_schema) = Inr groups"
  "\<exists>groups. plan_build (Some (rev sample_files)) (authz_plan_config sample_schema) = Inr groups"
  by (simp_all add: sample_run sample_files_def sample_file_def authz_plan_config_def sample_checks sample_paths
      Let_def authz_mode_non_zero_def)

theorem plan_is_what_is_declared_witness:
  "\<exists>groups. plan_build (Some sample_files) (authz_plan_config sample_schema) = Inr groups
     \<and> sorted_wrt (<) (map pg_directory groups)
     \<and> set (map pg_directory groups) = {d. plan_rules (authz_plan_config sample_schema) sample_files d \<noteq> {}}"
  using plan_is_what_is_declared [OF sample_well_named(1)] sample_plan_ok(1) by blast

lemma sample_conforms: "conforms sample_schema ''Req'' sample_message"
proof -
  have "conforms sample_schema ''User'' (PMessage [(''id'', PField StringKind False False None False True (PString ''u1''))])"
    by (rule conforms_fits.message) (simp_all add: sample_schema_def conforms_fits.text_value)
  then show ?thesis
    unfolding sample_message_def
    by (intro conforms_fits.message) (simp_all add: sample_schema_def conforms_fits.sub_message)
qed

lemma sample_generated:
  "\<exists>outs out. authz_generate sample_schema (Some sample_files) = Inr outs \<and> out \<in> set outs
     \<and> (''/a.S/Get'', authz_literal sample_rule) \<in> set (gf_rules out)"
proof -
  obtain groups where g: "plan_build (Some sample_files) (authz_plan_config sample_schema) = Inr groups"
    using sample_plan_ok by blast
  let ?m = "\<lparr>md_name = ''Get'', md_rule = ExtRule sample_rule, md_input = ''Req''\<rparr>"
  let ?s = "hd (fl_services (sample_file ''a'' ''a.S''))"
  have "effective_rule (authz_plan_config sample_schema) ?s ?m = Some sample_rule"
    by (simp add: effective_rule_def authz_plan_config_def authz_mode_non_zero_def sample_rule_def List.map_filter_simps)
  then have "(plan_operation ?s ?m, sample_rule) \<in> plan_rules (authz_plan_config sample_schema) sample_files ''a''"
    unfolding plan_rules_def
    by (intro CollectI exI [of _ "sample_file ''a'' ''a.S''"] exI [of _ ?s] exI [of _ ?m] exI [of _ sample_rule])
      (simp add: sample_files_def sample_file_def sample_paths authz_accepts sample_checks)
  then have mem: "(''/a.S/Get'', sample_rule) \<in> plan_rules (authz_plan_config sample_schema) sample_files ''a''"
    by (simp add: plan_operation_def sample_file_def)
  note rules = plan_build_rules [OF sample_well_named(1) g]
  have "''a'' \<in> set (map pg_directory groups)"
    unfolding rules [THEN conjunct2, THEN conjunct1] ex_in_conv [symmetric] by (rule CollectI, rule exI, rule mem)
  then obtain p where p: "p \<in> set groups" "pg_directory p = ''a''" by (auto simp only: set_map)
  have "set (pg_entries p) = plan_rules (authz_plan_config sample_schema) sample_files (pg_directory p)"
    using rules [THEN conjunct2, THEN conjunct2] p(1) by metis
  then have e: "(''/a.S/Get'', sample_rule) \<in> set (pg_entries p)" by (simp only: p(2) mem)
  let ?gen = "generated_of ''authz_rules.gen.go'' authz_literal"
  have "authz_generate sample_schema (Some sample_files) = Inr (map ?gen groups)" by (simp add: authz_generate_def g)
  moreover have "?gen p \<in> set (map ?gen groups)" using p(1) by simp
  moreover have "(''/a.S/Get'', authz_literal sample_rule) \<in> set (gf_rules (?gen p))"
    using imageI [OF e, of "\<lambda>(op, r). (op, authz_literal r)"] by (simp add: generated_of_def)
  ultimately show ?thesis by blast
qed

theorem generated_rules_resolve_witness:
  "\<exists>i. rule_resource_id (authz_literal sample_rule) (Some (Some sample_message)) = Inr i \<and> trim_space i \<noteq> []"
proof -
  obtain outs out where o: "authz_generate sample_schema (Some sample_files) = Inr outs" "out \<in> set outs"
    "(''/a.S/Get'', authz_literal sample_rule) \<in> set (gf_rules out)" using sample_generated by blast
  have "zr_mode (authz_literal sample_rule) = AuthzRequired" by (simp add: authz_literal_def sample_rule_def)
  from generated_rules_resolve [OF o(1) sample_well_named(1) o(2,3) this] obtain f s m where
    m: "f \<in> set sample_files" "s \<in> set (fl_services f)" "m \<in> set (sd_methods s)" and
    res: "\<And>msg. conforms sample_schema (md_input m) msg \<Longrightarrow>
      (if get_resource_id (authz_literal sample_rule) \<noteq> []
          \<or> path_set msg (split_on (CHR ''.'') (get_resource_id_field (authz_literal sample_rule)))
       then \<exists>i. rule_resource_id (authz_literal sample_rule) (Some (Some msg)) = Inr i \<and> trim_space i \<noteq> []
       else \<exists>e \<in> unset_errors. rule_resource_id (authz_literal sample_rule) (Some (Some msg))
         = Inl (wrap2 [] (Sentinel (FgaAuthz FInvalidInput)) e))" by blast
  have "md_input m = ''Req''" using m by (auto simp: sample_files_def sample_file_def)
  moreover have "path_set sample_message (split_on (CHR ''.'') (get_resource_id_field (authz_literal sample_rule)))"
    unfolding get_resource_literal
    by (simp add: sample_rule_def get_resource_id_field_def sample_paths sample_message_def field_text_def sample_texts)
  ultimately show ?thesis using res [of sample_message] sample_conforms by simp
qed

end
