(* ===== verification/ExampleStore.thy ===== *)
theory ExampleStore
  imports DbEvolve
begin

text \<open>
  The store of the example service (\<open>app/example/service/internal/data\<close>): resource names, the resource
  and its row, the generated \<open>UserMutation\<close> and its builders, and the repository as programs over the
  table of users. A statement is one atomic step, before which other requests may have run.
\<close>

section \<open>Resource names\<close>

record ex_name =
  un_tenant :: string
  un_user :: string

definition new_user_name :: "string \<Rightarrow> string \<Rightarrow> ex_name" where
  "new_user_name tenant user = \<lparr>un_tenant = tenant, un_user = user\<rparr>"

definition user_name_validate :: "ex_name \<Rightarrow> err option" where
  "user_name_validate name =
     (if un_tenant name = [] \<or> CHR ''/'' \<in> set (un_tenant name)
      then Some (errorf ''User resource name variable tenant must be non-empty and contain no slash'')
      else if un_user name = [] \<or> CHR ''/'' \<in> set (un_user name)
      then Some (errorf ''User resource name variable user must be non-empty and contain no slash'')
      else None)"

definition parse_example_name :: "string \<Rightarrow> err + ex_name" where
  "parse_example_name value =
     (let parts = split_on (CHR ''/'') value; candidate = new_user_name (parts ! 1) (parts ! 3) in
      if length parts = 4 \<and> parts ! 0 = ''tenants'' \<and> parts ! 2 = ''users''
         \<and> user_name_validate candidate = None
      then Inr candidate
      else Inl (errorf ''invalid User resource name''))"

definition user_name_format :: "ex_name \<Rightarrow> err + string" where
  "user_name_format name =
     (case user_name_validate name of
        Some e \<Rightarrow> Inl e
      | None \<Rightarrow> Inr (join_with ''/'' [''tenants'', un_tenant name, ''users'', un_user name]))"

lemma user_name_validate_None:
  "user_name_validate n = None \<longleftrightarrow>
     un_tenant n \<noteq> [] \<and> CHR ''/'' \<notin> set (un_tenant n) \<and> un_user n \<noteq> [] \<and> CHR ''/'' \<notin> set (un_user n)"
  by (simp add: user_name_validate_def)

lemma parse_example_name_Inr:
  "parse_example_name s = Inr n \<Longrightarrow> user_name_validate n = None \<and> user_name_format n = Inr s"
proof -
  assume p: "parse_example_name s = Inr n"
  let ?p = "split_on (CHR ''/'') s"
  from p have l: "length ?p = 4" "?p ! 0 = ''tenants''" "?p ! 2 = ''users''" "user_name_validate n = None"
    and n: "n = new_user_name (?p ! 1) (?p ! 3)"
    by (auto simp: parse_example_name_def Let_def split: if_splits)
  then have "?p = [''tenants'', un_tenant n, ''users'', un_user n]"
    by (intro nth_equalityI) (auto simp: new_user_name_def less_Suc_eq numeral_eq_Suc)
  then have "join_with ''/'' [''tenants'', un_tenant n, ''users'', un_user n] = s"
    using join_split_on [of "CHR ''/''" s] by simp
  with l(4) show ?thesis by (simp add: user_name_format_def)
qed

lemma parse_formatted: "user_name_format n = Inr s \<Longrightarrow> parse_example_name s = Inr n"
proof -
  assume f: "user_name_format n = Inr s"
  then have v: "user_name_validate n = None"
    and s: "s = join_with ''/'' [''tenants'', un_tenant n, ''users'', un_user n]"
    by (auto simp: user_name_format_def split: option.splits)
  have "s = ''tenants'' @ CHR ''/'' # un_tenant n @ CHR ''/'' # ''users'' @ CHR ''/'' # un_user n"
    using s by simp
  moreover have "split_on (CHR ''/'') (un_tenant n @ CHR ''/'' # ''users'' @ CHR ''/'' # un_user n)
      = [un_tenant n, ''users'', un_user n]"
    using v by (simp add: user_name_validate_None split_on_append split_on_single)
  ultimately have "split_on (CHR ''/'') s = [''tenants'', un_tenant n, ''users'', un_user n]"
    by simp
  moreover have "new_user_name (un_tenant n) (un_user n) = n" by (simp add: new_user_name_def)
  ultimately show ?thesis using v by (simp add: parse_example_name_def Let_def)
qed

section \<open>The resource and its row\<close>

record ex_user =
  eu_name :: string
  eu_display :: "string option"
  eu_email :: "string option"
  eu_plan :: "string option"
  eu_nickname :: "string option"
  eu_password :: "string option"
  eu_etag :: string
  eu_create :: "time option"
  eu_update :: "time option"
  eu_delete :: "time option"
  eu_purge :: "time option"

record ex_row =
  er_tenant :: string
  er_resource :: string
  er_display :: string
  er_email :: string
  er_plan :: string
  er_nickname :: "string option"
  er_password :: "string option"
  er_etag :: string
  er_create :: time
  er_update :: time
  er_delete :: "time option"
  er_purge :: "time option"
  er_deleted_by :: "string option"

definition path_display_name :: string where "path_display_name = ''display_name''"
definition path_email :: string where "path_email = ''email''"
definition path_nickname :: string where "path_nickname = ''nickname''"
definition path_temporary_password :: string where "path_temporary_password = ''temporary_password''"

lemmas ex_paths = path_display_name_def path_email_def path_nickname_def path_temporary_password_def

text \<open>The unique index.\<close>

definition ex_key :: "ex_row \<Rightarrow> ex_name" where
  "ex_key r = new_user_name (er_tenant r) (er_resource r)"

definition ex_clash :: "ex_row \<Rightarrow> ex_row \<Rightarrow> bool" where
  "ex_clash r s \<longleftrightarrow> er_tenant s = er_tenant r \<and> er_resource s = er_resource r"

lemma ex_key_eq: "ex_key r = n \<longleftrightarrow> er_tenant r = un_tenant n \<and> er_resource r = un_user n"
  by (cases n) (auto simp: ex_key_def new_user_name_def)

lemma ex_clash_key: "ex_clash r s \<longleftrightarrow> ex_key r = ex_key s"
  by (auto simp: ex_clash_def ex_key_def new_user_name_def)

section \<open>Mutations\<close>

record ex_mutation =
  mu_tenant :: "string option"
  mu_resource :: "string option"
  mu_display :: "string option"
  mu_email :: "string option"
  mu_plan :: "string option"
  mu_nickname :: "string option"
  mu_password :: "string option"
  mu_etag :: "string option"
  mu_create :: "time option"
  mu_update :: "time option"
  mu_delete :: "time option"
  mu_purge :: "time option"
  mu_deleted_by :: "string option"
  mu_cleared :: "string list"

definition new_user_mutation :: ex_mutation where
  "new_user_mutation = \<lparr>mu_tenant = None, mu_resource = None, mu_display = None, mu_email = None,
     mu_plan = None, mu_nickname = None, mu_password = None, mu_etag = None, mu_create = None,
     mu_update = None, mu_delete = None, mu_purge = None, mu_deleted_by = None, mu_cleared = []\<rparr>"

text \<open>\<open>ClearX\<close> forgets the value set and remembers the column; \<open>SetX\<close> does not undo it.\<close>

definition clear_delete_time :: "ex_mutation \<Rightarrow> ex_mutation" where
  "clear_delete_time m = m\<lparr>mu_delete := None, mu_cleared := List.insert ''delete_time'' (mu_cleared m)\<rparr>"
definition clear_deleted_by :: "ex_mutation \<Rightarrow> ex_mutation" where
  "clear_deleted_by m = m\<lparr>mu_deleted_by := None, mu_cleared := List.insert ''deleted_by'' (mu_cleared m)\<rparr>"
definition clear_purge_time :: "ex_mutation \<Rightarrow> ex_mutation" where
  "clear_purge_time m = m\<lparr>mu_purge := None, mu_cleared := List.insert ''purge_time'' (mu_cleared m)\<rparr>"
definition clear_nickname :: "ex_mutation \<Rightarrow> ex_mutation" where
  "clear_nickname m = m\<lparr>mu_nickname := None, mu_cleared := List.insert ''nickname'' (mu_cleared m)\<rparr>"
definition clear_password_hash :: "ex_mutation \<Rightarrow> ex_mutation" where
  "clear_password_hash m = m\<lparr>mu_password := None, mu_cleared := List.insert ''password_hash'' (mu_cleared m)\<rparr>"

lemmas ex_clears = clear_delete_time_def clear_deleted_by_def clear_purge_time_def clear_nickname_def
  clear_password_hash_def

definition clear_field :: "string \<Rightarrow> ex_mutation \<Rightarrow> err + ex_mutation" where
  "clear_field name m =
     (if name = ''delete_time'' then Inr (clear_delete_time m)
      else if name = ''deleted_by'' then Inr (clear_deleted_by m)
      else if name = ''purge_time'' then Inr (clear_purge_time m)
      else if name = ''nickname'' then Inr (clear_nickname m)
      else if name = ''password_hash'' then Inr (clear_password_hash m)
      else Inl (errorf ''unknown User nullable field''))"

section \<open>Libraries\<close>

text \<open>
  \<open>xl_copy\<close> is what \<open>crudmapper.ResourceMapper\<close> makes of a row and its formatted name; \<open>xl_clear\<close> the
  paths of a mask that \<open>entcrud.ClearHelper\<close> finds absent in the resource; \<open>xl_tombstone\<close> how the
  delete hook of \<open>SoftDeleteMixin\<close> marks a row; \<open>xl_bcrypt\<close> is \<open>bcrypt.GenerateFromPassword\<close>;
  \<open>xl_twice\<close> what the database says of a statement that assigns some columns twice, of which the
  assignment of a value is the last.
\<close>

record ex_lib =
  xl_copy :: "err + string \<Rightarrow> ex_row \<Rightarrow> ex_user"
  xl_clear :: "ex_user \<Rightarrow> string list \<Rightarrow> err + string list"
  xl_tombstone :: "time \<Rightarrow> ex_row \<Rightarrow> ex_row"
  xl_bcrypt :: "nat \<Rightarrow> string \<Rightarrow> err + string"
  xl_twice :: "string list \<Rightarrow> err option"

definition ex_to_dto :: "ex_lib \<Rightarrow> ex_row \<Rightarrow> ex_user" where
  "ex_to_dto L r = xl_copy L (user_name_format (new_user_name (er_tenant r) (er_resource r))) r"

section \<open>The builders\<close>

type_synonym ex_db = "ex_row list"

definition ex_users_t :: "(ex_db, ex_row) table" where
  "ex_users_t = \<lparr>tb_get = (\<lambda>d. d), tb_put = (\<lambda>rows d. rows)\<rparr>"

definition default_to :: "'a \<Rightarrow> 'a option \<Rightarrow> 'a option" where
  "default_to d x = (case x of None \<Rightarrow> Some d | Some v \<Rightarrow> Some v)"

lemma default_to_simps [simp]: "default_to d None = Some d" "default_to d (Some v) = Some v"
  by (simp_all add: default_to_def)

definition not_empty :: "string option \<Rightarrow> bool" where
  "not_empty x \<longleftrightarrow> (case x of None \<Rightarrow> False | Some v \<Rightarrow> v \<noteq> [])"

definition create_defaults :: "time \<Rightarrow> ex_mutation \<Rightarrow> ex_mutation" where
  "create_defaults t m = m\<lparr>mu_display := default_to [] (mu_display m), mu_plan := default_to [] (mu_plan m),
     mu_create := default_to t (mu_create m), mu_update := default_to t (mu_update m)\<rparr>"

definition create_check :: "ex_mutation \<Rightarrow> bool" where
  "create_check m \<longleftrightarrow> not_empty (mu_tenant m) \<and> not_empty (mu_resource m) \<and> mu_display m \<noteq> None
     \<and> not_empty (mu_email m) \<and> mu_plan m \<noteq> None \<and> not_empty (mu_etag m) \<and> mu_create m \<noteq> None
     \<and> mu_update m \<noteq> None"

definition create_spec :: "ex_mutation \<Rightarrow> ex_row" where
  "create_spec m = \<lparr>er_tenant = the (mu_tenant m), er_resource = the (mu_resource m),
     er_display = the (mu_display m), er_email = the (mu_email m), er_plan = the (mu_plan m),
     er_nickname = mu_nickname m, er_password = mu_password m, er_etag = the (mu_etag m),
     er_create = the (mu_create m), er_update = the (mu_update m), er_delete = mu_delete m,
     er_purge = mu_purge m, er_deleted_by = mu_deleted_by m\<rparr>"

definition create_save :: "ex_mutation \<Rightarrow> (ex_db, ex_row) stmt" where
  "create_save m = (\<lambda>t d.
     let m = create_defaults t m in
     if \<not> create_check m then (Inl validation_error, d)
     else create ex_users_t (\<lambda>_. True) ex_clash (\<lambda>_. create_spec m) t d)"

definition update_defaults :: "time \<Rightarrow> ex_mutation \<Rightarrow> ex_mutation" where
  "update_defaults t m = m\<lparr>mu_update := default_to t (mu_update m)\<rparr>"

definition update_check :: "ex_mutation \<Rightarrow> bool" where
  "update_check m \<longleftrightarrow> mu_email m \<noteq> Some [] \<and> mu_etag m \<noteq> Some []"

text \<open>The columns that the specification of the statement both sets and clears.\<close>

definition twice_assigned :: "ex_mutation \<Rightarrow> string list" where
  "twice_assigned m = map fst (filter (\<lambda>(column, is_set). is_set \<and> column \<in> set (mu_cleared m))
     [(''delete_time'', mu_delete m \<noteq> None), (''deleted_by'', mu_deleted_by m \<noteq> None),
      (''purge_time'', mu_purge m \<noteq> None), (''nickname'', mu_nickname m \<noteq> None),
      (''password_hash'', mu_password m \<noteq> None)])"

definition put :: "'a option \<Rightarrow> 'a \<Rightarrow> 'a" where
  "put v old = (case v of None \<Rightarrow> old | Some x \<Rightarrow> x)"

definition put_nullable :: "bool \<Rightarrow> 'a option \<Rightarrow> 'a option \<Rightarrow> 'a option" where
  "put_nullable cleared v old =
     (case v of Some x \<Rightarrow> Some x | None \<Rightarrow> if cleared then None else old)"

definition update_spec :: "ex_mutation \<Rightarrow> ex_row \<Rightarrow> ex_row" where
  "update_spec m r = r\<lparr>
     er_delete := put_nullable (''delete_time'' \<in> set (mu_cleared m)) (mu_delete m) (er_delete r),
     er_deleted_by := put_nullable (''deleted_by'' \<in> set (mu_cleared m)) (mu_deleted_by m) (er_deleted_by r),
     er_purge := put_nullable (''purge_time'' \<in> set (mu_cleared m)) (mu_purge m) (er_purge r),
     er_display := put (mu_display m) (er_display r),
     er_email := put (mu_email m) (er_email r),
     er_nickname := put_nullable (''nickname'' \<in> set (mu_cleared m)) (mu_nickname m) (er_nickname r),
     er_password := put_nullable (''password_hash'' \<in> set (mu_cleared m)) (mu_password m) (er_password r),
     er_etag := put (mu_etag m) (er_etag r),
     er_update := put (mu_update m) (er_update r)\<rparr>"

definition update_save :: "ex_lib \<Rightarrow> (ex_row \<Rightarrow> bool) \<Rightarrow> ex_mutation \<Rightarrow> (ex_db, nat) stmt" where
  "update_save L P m = (\<lambda>t d.
     let m = update_defaults t m in
     if \<not> update_check m then (Inl validation_error, d)
     else case (if twice_assigned m = [] then None else xl_twice L (twice_assigned m)) of
            Some e \<Rightarrow> (Inl e, d)
          | None \<Rightarrow> update_where ex_users_t P (\<lambda>_. update_spec m) t d)"

text \<open>The hook rewrites a deletion; the interceptor hides tombstones unless the context skips it.\<close>

definition delete_exec :: "ex_lib \<Rightarrow> (ex_row \<Rightarrow> bool) \<Rightarrow> (ex_db, nat) stmt" where
  "delete_exec L P = update_where ex_users_t P (xl_tombstone L)"

definition query_only :: "bool \<Rightarrow> (ex_row \<Rightarrow> bool) \<Rightarrow> (ex_db, ex_row) stmt" where
  "query_only skip_soft_delete P =
     only ex_users_t (\<lambda>r. P r \<and> (skip_soft_delete \<or> er_delete r = None))"

section \<open>The repository\<close>

definition by_name :: "ex_name \<Rightarrow> ex_row \<Rightarrow> bool" where
  "by_name name r \<longleftrightarrow> er_tenant r = un_tenant name \<and> er_resource r = un_user name"

definition by_active_etag :: "ex_name \<Rightarrow> string \<Rightarrow> ex_row \<Rightarrow> bool" where
  "by_active_etag name etag r \<longleftrightarrow> by_name name r \<and> er_delete r = None \<and> er_etag r = etag"

type_synonym ex_world = "ex_db db_world"

definition get_string :: "string option \<Rightarrow> string" where
  "get_string x = (case x of None \<Rightarrow> [] | Some v \<Rightarrow> v)"

definition create_mutation :: "ex_name \<Rightarrow> ex_user \<Rightarrow> string option \<Rightarrow> ex_mutation" where
  "create_mutation name resource passwordHash = new_user_mutation\<lparr>
     mu_tenant := Some (un_tenant name), mu_resource := Some (un_user name),
     mu_email := Some (get_string (eu_email resource)), mu_etag := Some (eu_etag resource),
     mu_display := eu_display resource, mu_plan := eu_plan resource,
     mu_nickname := eu_nickname resource, mu_password := passwordHash\<rparr>"

definition repo_create_user ::
    "ex_db dbenv \<Rightarrow> ex_lib \<Rightarrow> ex_name \<Rightarrow> ex_user \<Rightarrow> string option \<Rightarrow> (ex_world, ex_user option) prog" where
  "repo_create_user E L name resource passwordHash =
     check (db_exec E (create_save (create_mutation name resource passwordHash)))
       (\<lambda>e. if is_constraint_error e then throw (Node JoinedErrors [biz ErrAlreadyExists, e]) else throw e)
       (\<lambda>created. ret (Some (ex_to_dto L created)))"

definition repo_get_user ::
    "ex_db dbenv \<Rightarrow> ex_lib \<Rightarrow> ex_name \<Rightarrow> bool \<Rightarrow> (ex_world, ex_user option) prog" where
  "repo_get_user E L name includeDeleted =
     check (db_exec E (query_only includeDeleted (by_name name)))
       (\<lambda>e. if is_not_found e then throw (Node JoinedErrors [biz ErrNotFound, e]) else throw e)
       (\<lambda>entity. ret (Some (ex_to_dto L entity)))"

text \<open>The bindings of the Clear helper: an absent display name is written as the empty string, an absent
  temporary password clears the column of its hash, another absent field its own column.\<close>

definition clear_path :: "string \<Rightarrow> ex_mutation \<Rightarrow> err + ex_mutation" where
  "clear_path p m =
     (if p = path_display_name then Inr (m\<lparr>mu_display := Some []\<rparr>)
      else if p = path_temporary_password then clear_field ''password_hash'' m
      else clear_field p m)"

definition clear_apply :: "ex_lib \<Rightarrow> ex_user \<Rightarrow> string list \<Rightarrow> ex_mutation \<Rightarrow> err + ex_mutation" where
  "clear_apply L resource paths m =
     (case xl_clear L resource paths of Inl e \<Rightarrow> Inl e | Inr absent \<Rightarrow> fold_err clear_path absent m)"

definition set_mask_path :: "ex_user \<Rightarrow> string option \<Rightarrow> ex_mutation \<Rightarrow> string \<Rightarrow> ex_mutation" where
  "set_mask_path resource passwordHash m p =
     (if p = path_display_name then
        (case eu_display resource of None \<Rightarrow> m | Some v \<Rightarrow> m\<lparr>mu_display := Some v\<rparr>)
      else if p = path_email then
        (case eu_email resource of None \<Rightarrow> m | Some v \<Rightarrow> m\<lparr>mu_email := Some v\<rparr>)
      else if p = path_nickname then
        (case eu_nickname resource of None \<Rightarrow> m | Some v \<Rightarrow> m\<lparr>mu_nickname := Some v\<rparr>)
      else if p = path_temporary_password then
        (case passwordHash of None \<Rightarrow> m | Some v \<Rightarrow> m\<lparr>mu_password := Some v\<rparr>)
      else m)"

definition update_mutation ::
    "ex_lib \<Rightarrow> ex_user \<Rightarrow> string list \<Rightarrow> string option \<Rightarrow> err + ex_mutation" where
  "update_mutation L resource paths passwordHash =
     (case clear_apply L resource paths new_user_mutation of
        Inl e \<Rightarrow> Inl (wrap ''apply User Clear intents'' e)
      | Inr m \<Rightarrow> Inr ((foldl (set_mask_path resource passwordHash) m paths)\<lparr>mu_etag := Some (eu_etag resource)\<rparr>))"

text \<open>What follows a conditional statement: no row is a miss, more than one an error, one is read again.\<close>

definition one_affected :: "string \<Rightarrow> (ex_world, nat) prog \<Rightarrow> (ex_world, 'a) prog \<Rightarrow> (ex_world, 'a) prog" where
  "one_affected unexpected p k =
     pass p (\<lambda>affected.
       if affected = 0 then throw (biz ErrMutationMiss)
       else if affected \<noteq> 1 then throw (errorf unexpected)
       else k)"

definition repo_update_user ::
    "ex_db dbenv \<Rightarrow> ex_lib \<Rightarrow> ex_name \<Rightarrow> ex_user \<Rightarrow> string list \<Rightarrow> string option \<Rightarrow> string
     \<Rightarrow> (ex_world, ex_user option) prog" where
  "repo_update_user E L name resource paths passwordHash expectedEtag =
     pass (result (update_mutation L resource paths passwordHash)) (\<lambda>m.
     one_affected ''update User affected rows''
       (db_exec E (update_save L (by_active_etag name expectedEtag) m))
       (repo_get_user E L name False))"

definition repo_delete_user ::
    "ex_db dbenv \<Rightarrow> ex_lib \<Rightarrow> ex_name \<Rightarrow> string \<Rightarrow> (ex_world, ex_user option) prog" where
  "repo_delete_user E L name expectedEtag =
     one_affected ''delete User affected rows''
       (db_exec E (delete_exec L (by_active_etag name expectedEtag)))
       (repo_get_user E L name True)"

definition undelete_mutation :: "string \<Rightarrow> ex_mutation" where
  "undelete_mutation newEtag =
     (clear_deleted_by (clear_purge_time (clear_delete_time new_user_mutation)))\<lparr>mu_etag := Some newEtag\<rparr>"

definition repo_undelete_user ::
    "ex_db dbenv \<Rightarrow> ex_lib \<Rightarrow> ex_name \<Rightarrow> string \<Rightarrow> (ex_world, ex_user option) prog" where
  "repo_undelete_user E L name newEtag =
     one_affected ''undelete User affected rows''
       (db_exec E (update_save L (\<lambda>r. by_name name r \<and> er_delete r \<noteq> None) (undelete_mutation newEtag)))
       (repo_get_user E L name True)"

end
