(* ===== verification/ExampleUser.thy ===== *)
theory ExampleUser
  imports ExampleStore
begin

text \<open>
  The business layer (\<open>app/example/service/internal/biz/user.go\<close>) over its repository port, and the
  handlers of \<open>UserService\<close> (\<open>internal/service/user.go\<close>). A port answers with a pointer, \<open>None\<close> when nil.
\<close>

section \<open>The scope\<close>

definition new_user_scope :: "string \<Rightarrow> err + string" where
  "new_user_scope tenantID =
     (if tenantID = [] \<or> tenantID = ''-'' \<or> CHR ''/'' \<in> set tenantID
      then Inl (errorf ''tenant id must be non-empty, non-wildcard, and contain no slash'')
      else Inr tenantID)"

definition scope_fingerprint :: "string \<Rightarrow> bool \<Rightarrow> string" where
  "scope_fingerprint tenantID includeDeleted =
     ''tenant:'' @ tenantID @ CHR 0x00 # ''deleted:'' @ (if includeDeleted then ''all'' else ''active'')"

lemma scope_fingerprint_inj:
  "scope_fingerprint a x = scope_fingerprint b y \<longleftrightarrow> a = b \<and> x = y"
  by (auto simp: scope_fingerprint_def dest: arg_cong [where f = rev])

section \<open>The port\<close>

record 'w ex_repo =
  xr_create :: "ex_name \<Rightarrow> ex_user \<Rightarrow> string option \<Rightarrow> ('w, ex_user option) prog"
  xr_get :: "ex_name \<Rightarrow> bool \<Rightarrow> ('w, ex_user option) prog"
  xr_update :: "ex_name \<Rightarrow> ex_user \<Rightarrow> string list \<Rightarrow> string option \<Rightarrow> string \<Rightarrow> ('w, ex_user option) prog"
  xr_delete :: "ex_name \<Rightarrow> string \<Rightarrow> ('w, ex_user option) prog"
  xr_undelete :: "ex_name \<Rightarrow> string \<Rightarrow> ('w, ex_user option) prog"

definition new_ex_repo :: "ex_db dbenv \<Rightarrow> ex_lib \<Rightarrow> ex_world ex_repo" where
  "new_ex_repo E L = \<lparr>xr_create = repo_create_user E L, xr_get = repo_get_user E L,
     xr_update = repo_update_user E L, xr_delete = repo_delete_user E L,
     xr_undelete = repo_undelete_user E L\<rparr>"

definition get_etag :: "ex_user option \<Rightarrow> string" where
  "get_etag u = (case u of None \<Rightarrow> [] | Some x \<Rightarrow> eu_etag x)"

definition get_delete_time :: "ex_user option \<Rightarrow> time option" where
  "get_delete_time u = (case u of None \<Rightarrow> None | Some x \<Rightarrow> eu_delete x)"

lemma ex_getters [simp]:
  "get_etag None = []" "get_etag (Some x) = eu_etag x"
  "get_delete_time None = None" "get_delete_time (Some x) = eu_delete x"
  by (simp_all add: get_etag_def get_delete_time_def)

section \<open>Errors, passwords, etags\<close>

definition user_not_found :: "err list \<Rightarrow> err" where
  "user_not_found cause = Node (ApiError 404 ''USER_ERROR_REASON_NOT_FOUND'') cause"
definition user_already_exists :: "err list \<Rightarrow> err" where
  "user_already_exists cause = Node (ApiError 409 ''USER_ERROR_REASON_ALREADY_EXISTS'') cause"
definition user_etag_mismatch :: "err list \<Rightarrow> err" where
  "user_etag_mismatch cause = Node (ApiError 409 ''USER_ERROR_REASON_ETAG_MISMATCH'') cause"

definition internal_user_error :: "err \<Rightarrow> err" where
  "internal_user_error cause = Node (ApiError 500 ''USER_INTERNAL'') [cause]"

definition translate_repo_error :: "err \<Rightarrow> err" where
  "translate_repo_error e =
     (if errors_is e (Biz ErrNotFound) then user_not_found [e]
      else if errors_is e (Biz ErrAlreadyExists) then user_already_exists [e]
      else if errors_as e (\<lambda>t. case t of ApiError _ _ \<Rightarrow> True | _ \<Rightarrow> False) then e
      else Node (ApiError 500 ''USER_INTERNAL'') [e])"

definition hash_temporary_password :: "ex_lib \<Rightarrow> string option \<Rightarrow> ('z world_scheme, string option) prog" where
  "hash_temporary_password L plaintext w =
     (case plaintext of
        None \<Rightarrow> (Inr None, w)
      | Some p \<Rightarrow>
          (case xl_bcrypt L (tick w) p of
             Inl e \<Rightarrow> (Inl (wrap ''hash temporary password'' e), w\<lparr>tick := Suc (tick w)\<rparr>)
           | Inr hash \<Rightarrow> (Inr (Some hash), w\<lparr>tick := Suc (tick w)\<rparr>)))"

definition new_etag :: "'e env_scheme \<Rightarrow> ('z world_scheme, string) prog" where
  "new_etag E w =
     (case rand_read E (tick w) 16 of
        Inl e \<Rightarrow> (Inl (wrap ''generate user etag'' e), w\<lparr>tick := Suc (tick w)\<rparr>)
      | Inr v \<Rightarrow> (Inr (b64_encode v), w\<lparr>tick := Suc (tick w)\<rparr>))"

definition or_internal :: "('w, 'a) prog \<Rightarrow> ('a \<Rightarrow> ('w, 'b) prog) \<Rightarrow> ('w, 'b) prog" where
  "or_internal p k = check p (\<lambda>e. throw (internal_user_error e)) k"

definition repo_result :: "('w, 'a) prog \<Rightarrow> ('w, 'a) prog" where
  "repo_result p = check p (\<lambda>e. throw (translate_repo_error e)) ret"

section \<open>The use cases\<close>

text \<open>What \<open>corecrud\<close> prepares: the resource of a creation; the parts of an update.\<close>

record ex_prepared_update =
  pe_allow_missing :: bool
  pe_etag :: string
  pe_validate_immutable :: "ex_user option \<Rightarrow> err option"
  pe_resource :: ex_user
  pe_write_mask :: "string list"

definition usecase_create_user ::
    "'e env_scheme \<Rightarrow> ex_lib \<Rightarrow> ('z world_scheme) ex_repo \<Rightarrow> ex_name \<Rightarrow> ex_user
     \<Rightarrow> ('z world_scheme, ex_user option) prog" where
  "usecase_create_user E L repo name resource =
     or_internal (hash_temporary_password L (eu_password resource)) (\<lambda>passwordHash.
     or_internal (new_etag E) (\<lambda>etag.
     repo_result (xr_create repo name (resource\<lparr>eu_password := None, eu_etag := etag\<rparr>) passwordHash)))"

definition usecase_get_user :: "'w ex_repo \<Rightarrow> ex_name \<Rightarrow> ('w, ex_user option) prog" where
  "usecase_get_user repo name = repo_result (xr_get repo name True)"

definition usecase_update_user ::
    "'e env_scheme \<Rightarrow> ex_lib \<Rightarrow> ('z world_scheme) ex_repo \<Rightarrow> ex_name \<Rightarrow> ex_prepared_update \<Rightarrow> ex_user option
     \<Rightarrow> ('z world_scheme, ex_user option) prog" where
  "usecase_update_user E L repo name prepared missingCreate =
     check (xr_get repo name False)
       (\<lambda>e. if errors_is e (Biz ErrNotFound) \<and> pe_allow_missing prepared \<and> missingCreate \<noteq> None
            then usecase_create_user E L repo name (the missingCreate)
            else throw (translate_repo_error e))
       (\<lambda>current.
     fails_with (pe_validate_immutable prepared current)
      (if pe_etag prepared \<noteq> [] \<and> pe_etag prepared \<noteq> get_etag current
       then throw (user_etag_mismatch [])
       else
     or_internal (hash_temporary_password L (eu_password (pe_resource prepared))) (\<lambda>passwordHash.
     or_internal (new_etag E) (\<lambda>etag.
     check (xr_update repo name ((pe_resource prepared)\<lparr>eu_password := None, eu_etag := etag\<rparr>)
              (pe_write_mask prepared) passwordHash (get_etag current))
       (\<lambda>e. if errors_is e (Biz ErrMutationMiss)
            then pass (repo_result (xr_get repo name True)) (\<lambda>latest.
                   if get_delete_time latest \<noteq> None then throw (user_not_found [e])
                   else throw (user_etag_mismatch [e]))
            else throw (translate_repo_error e))
       ret))))"

definition usecase_delete_user ::
    "'w ex_repo \<Rightarrow> ex_name \<Rightarrow> bool \<Rightarrow> string \<Rightarrow> ('w, ex_user option) prog" where
  "usecase_delete_user repo name allowMissing etag =
     pass (repo_result (xr_get repo name True)) (\<lambda>current.
      if etag \<noteq> [] \<and> etag \<noteq> get_etag current then throw (user_etag_mismatch [])
      else if get_delete_time current \<noteq> None then
        (if allowMissing then ret current else throw (user_not_found []))
      else
        check (xr_delete repo name (get_etag current))
          (\<lambda>e. if errors_is e (Biz ErrMutationMiss)
               then pass (repo_result (xr_get repo name True)) (\<lambda>latest.
                      if get_delete_time latest \<noteq> None then
                        (if allowMissing then ret latest else throw (user_not_found [e]))
                      else throw (user_etag_mismatch [e]))
               else throw (translate_repo_error e))
          ret)"

definition nil_user :: err where
  "nil_user = internal_user_error (errorf ''repository returned nil User without error'')"

definition max_undelete_attempts :: nat where "max_undelete_attempts = 3"

fun undelete_attempts ::
    "'e env_scheme \<Rightarrow> ('z world_scheme) ex_repo \<Rightarrow> ex_name \<Rightarrow> nat \<Rightarrow> err option
     \<Rightarrow> ('z world_scheme, ex_user option) prog" where
  "undelete_attempts E repo name 0 lastMiss =
     pass (repo_result (xr_get repo name True)) (\<lambda>latest.
       if latest = None then throw nil_user
       else if get_delete_time latest = None then ret latest
       else throw (user_etag_mismatch (case lastMiss of None \<Rightarrow> [] | Some e \<Rightarrow> [e])))"
| "undelete_attempts E repo name (Suc n) lastMiss =
     pass (repo_result (xr_get repo name True)) (\<lambda>current.
       if current = None then throw nil_user
       else if get_delete_time current = None then ret current
       else
         or_internal (new_etag E) (\<lambda>etag.
         check (xr_undelete repo name etag)
           (\<lambda>e. if \<not> errors_is e (Biz ErrMutationMiss) then throw (translate_repo_error e)
                else undelete_attempts E repo name n (Some e))
           (\<lambda>restored.
             if restored = None then throw nil_user
             else if get_delete_time restored = None then ret restored
             else undelete_attempts E repo name n (Some (biz ErrMutationMiss)))))"

definition usecase_undelete_user ::
    "'e env_scheme \<Rightarrow> ('z world_scheme) ex_repo \<Rightarrow> ex_name \<Rightarrow> ('z world_scheme, ex_user option) prog" where
  "usecase_undelete_user E repo name = undelete_attempts E repo name max_undelete_attempts None"

section \<open>The handlers\<close>

text \<open>\<open>ep_parent\<close> is the matcher of \<open>tenants/{tenant}\<close> and its variable \<open>tenant\<close>; the others are the
  operations of \<open>corecrud.ResourcePlan\<close>.\<close>

record ex_plan =
  ep_parent :: "string \<Rightarrow> err + string option"
  ep_create :: "ex_user option \<Rightarrow> err + ex_user"
  ep_update :: "ex_user option \<Rightarrow> string list option \<Rightarrow> bool \<Rightarrow> string \<Rightarrow> err + ex_prepared_update"
  ep_response :: "ex_user option \<Rightarrow> err + ex_user option"

definition crud_invalid_name :: err where
  "crud_invalid_name = Node (ApiError 400 ''CRUD_ERROR_REASON_INVALID_RESOURCE_NAME'') []"

definition user_scope :: "ex_plan \<Rightarrow> string \<Rightarrow> err + string" where
  "user_scope plan parent =
     (case ep_parent plan parent of
        Inl _ \<Rightarrow> Inl crud_invalid_name
      | Inr None \<Rightarrow> Inl crud_invalid_name
      | Inr (Some tenant) \<Rightarrow>
          (case new_user_scope tenant of Inl _ \<Rightarrow> Inl crud_invalid_name | Inr scope \<Rightarrow> Inr scope))"

definition one_user_name :: "string \<Rightarrow> err + ex_name" where
  "one_user_name value =
     (case parse_example_name value of
        Inl _ \<Rightarrow> Inl crud_invalid_name
      | Inr name \<Rightarrow> if un_user name = ''-'' then Inl crud_invalid_name else Inr name)"

definition get_name :: "ex_user option \<Rightarrow> string" where
  "get_name u = (case u of None \<Rightarrow> [] | Some x \<Rightarrow> eu_name x)"

text \<open>\<open>usecase, err := ..; if err != nil { .. }; return service.plan.ToResponse(resource)\<close>\<close>

definition respond :: "ex_plan \<Rightarrow> ('w, ex_user option) prog \<Rightarrow> ('w, ex_user option) prog" where
  "respond plan p = pass p (\<lambda>resource. result (ep_response plan resource))"

definition create_name :: "ex_plan \<Rightarrow> string \<Rightarrow> string \<Rightarrow> err + ex_name" where
  "create_name plan parent userID =
     (case user_scope plan parent of
        Inl e \<Rightarrow> Inl e
      | Inr scope \<Rightarrow>
          (let name = new_user_name scope userID in
           case user_name_validate name of Some _ \<Rightarrow> Inl crud_invalid_name | None \<Rightarrow> Inr name))"

definition ex_get_user :: "ex_plan \<Rightarrow> 'w ex_repo \<Rightarrow> string \<Rightarrow> ('w, ex_user option) prog" where
  "ex_get_user plan repo nam =
     pass (result (one_user_name nam)) (\<lambda>name. respond plan (usecase_get_user repo name))"

definition ex_create_user ::
    "'e env_scheme \<Rightarrow> ex_lib \<Rightarrow> ex_plan \<Rightarrow> ('z world_scheme) ex_repo \<Rightarrow> string \<Rightarrow> string \<Rightarrow> ex_user option
     \<Rightarrow> ('z world_scheme, ex_user option) prog" where
  "ex_create_user E L plan repo parent userID user =
     pass (result (create_name plan parent userID)) (\<lambda>name.
     pass (result (ep_create plan user)) (\<lambda>prepared.
     respond plan (usecase_create_user E L repo name prepared)))"

definition ex_update_user ::
    "'e env_scheme \<Rightarrow> ex_lib \<Rightarrow> ex_plan \<Rightarrow> ('z world_scheme) ex_repo \<Rightarrow> ex_user option \<Rightarrow> string list option
     \<Rightarrow> bool \<Rightarrow> ('z world_scheme, ex_user option) prog" where
  "ex_update_user E L plan repo user updateMask allowMissing =
     pass (result (one_user_name (get_name user))) (\<lambda>name.
     pass (result (ep_update plan user updateMask allowMissing (get_etag user))) (\<lambda>prepared.
     if allowMissing then
       pass (result (ep_create plan user)) (\<lambda>fallback.
       respond plan (usecase_update_user E L repo name prepared (Some fallback)))
     else respond plan (usecase_update_user E L repo name prepared None)))"

definition ex_delete_user ::
    "ex_plan \<Rightarrow> 'w ex_repo \<Rightarrow> string \<Rightarrow> bool \<Rightarrow> string \<Rightarrow> ('w, ex_user option) prog" where
  "ex_delete_user plan repo nam allowMissing etag =
     pass (result (one_user_name nam)) (\<lambda>name.
     respond plan (usecase_delete_user repo name allowMissing etag))"

definition ex_undelete_user ::
    "'e env_scheme \<Rightarrow> ex_plan \<Rightarrow> ('z world_scheme) ex_repo \<Rightarrow> string \<Rightarrow> ('z world_scheme, ex_user option) prog" where
  "ex_undelete_user E plan repo nam =
     pass (result (one_user_name nam)) (\<lambda>name. respond plan (usecase_undelete_user E repo name))"

text \<open>The RPCs that answer one user, with the fields of their requests.\<close>

datatype ex_rpc =
    ExGetUser string
  | ExCreateUser string string "ex_user option"
  | ExUpdateUser "ex_user option" "string list option" bool
  | ExDeleteUser string bool string
  | ExUndeleteUser string

fun ex_handle ::
    "'e env_scheme \<Rightarrow> ex_lib \<Rightarrow> ex_plan \<Rightarrow> ('z world_scheme) ex_repo \<Rightarrow> ex_rpc
     \<Rightarrow> ('z world_scheme, ex_user option) prog" where
  "ex_handle E L plan repo (ExGetUser nam) = ex_get_user plan repo nam"
| "ex_handle E L plan repo (ExCreateUser parent userID user) = ex_create_user E L plan repo parent userID user"
| "ex_handle E L plan repo (ExUpdateUser user updateMask allowMissing) =
     ex_update_user E L plan repo user updateMask allowMissing"
| "ex_handle E L plan repo (ExDeleteUser nam allowMissing etag) =
     ex_delete_user plan repo nam allowMissing etag"
| "ex_handle E L plan repo (ExUndeleteUser nam) = ex_undelete_user E plan repo nam"

end
