(* ===== verification/ExampleSpec.thy ===== *)
theory ExampleSpec
  imports ExampleUser
begin

text \<open>
  What the example service promises: each user goes through the life \<open>Born\<close>, \<open>Edited\<close>, \<open>Buried\<close>,
  \<open>Restored\<close>, one atomic step at a time, and a request takes few such steps at its own name, whatever
  the other requests do between its statements.
\<close>

section \<open>The abstract store\<close>

definition users_of :: "ex_db \<Rightarrow> ex_name \<Rightarrow> ex_row option" where
  "users_of d = map_of (map (\<lambda>r. (ex_key r, r)) d)"

abbreviation ex_wf :: "ex_db \<Rightarrow> bool" where
  "ex_wf \<equiv> no_clash ex_clash"

lemma ex_wf_unique: "ex_wf d \<Longrightarrow> unique_by ex_key d"
  by (rule no_clash_unique [where clash = ex_clash]) (simp add: ex_clash_key)

lemma users_of_Some: "users_of d n = Some r \<Longrightarrow> r \<in> set d \<and> ex_key r = n"
  by (auto simp: users_of_def dest: map_of_SomeD)

lemma users_of_in: "ex_wf d \<Longrightarrow> r \<in> set d \<Longrightarrow> ex_key r = n \<Longrightarrow> users_of d n = Some r"
  using ex_wf_unique [of d]
  by (auto simp: users_of_def unique_by_def comp_def intro!: map_of_is_SomeI)

lemma users_of_None: "users_of d n = None \<longleftrightarrow> (\<forall>r \<in> set d. ex_key r \<noteq> n)"
  by (auto simp: users_of_def map_of_eq_None_iff image_image)

lemma users_of_map:
  "(\<And>r. ex_key (g r) = ex_key r) \<Longrightarrow> users_of (map g d) n = map_option g (users_of d n)"
  by (induction d) (auto simp: users_of_def)

lemma users_of_append:
  "list_ex (ex_clash r) d = False \<Longrightarrow> users_of (d @ [r]) = (users_of d)(ex_key r \<mapsto> r)"
proof
  fix k
  assume "list_ex (ex_clash r) d = False"
  then have n: "users_of d (ex_key r) = None"
    unfolding users_of_None by (metis ex_clash_key list_ex_iff)
  have "users_of (d @ [r]) k = (case users_of d k of None \<Rightarrow> [ex_key r \<mapsto> r] k | Some s \<Rightarrow> Some s)"
    by (simp add: users_of_def map_add_def split: option.split)
  with n show "users_of (d @ [r]) k = ((users_of d)(ex_key r \<mapsto> r)) k"
    by (cases "users_of d k") auto
qed

lemma users_of_update:
  assumes "ex_wf d" "r \<in> set d" "P r" "\<And>s. P s \<Longrightarrow> ex_key s = n" "\<And>s. ex_key (f s) = ex_key s"
  shows "users_of (ent_update_where P f d) = (users_of d)(n \<mapsto> f r)"
proof
  fix k
  let ?g = "\<lambda>s. if P s then f s else s"
  have u: "users_of (ent_update_where P f d) k = map_option ?g (users_of d k)"
    unfolding ent_update_where_def by (rule users_of_map) (use assms(5) in simp)
  have n: "users_of d n = Some r" using assms(1-4) by (intro users_of_in)
  show "users_of (ent_update_where P f d) k = ((users_of d)(n \<mapsto> f r)) k"
  proof (cases "k = n")
    case False
    then have "?g s = s" if "users_of d k = Some s" for s
      using users_of_Some [OF that] assms(4) by auto
    with False show ?thesis unfolding u by (cases "users_of d k") auto
  qed (use u n assms(3) in simp)
qed

lemma ex_wf_update: "ex_wf d \<Longrightarrow> (\<And>s. ex_key (f s) = ex_key s) \<Longrightarrow> ex_wf (ent_update_where P f d)"
  unfolding ent_update_where_def by (rule no_clash_map) (auto simp: ex_clash_key)

section \<open>The life of a user\<close>

text \<open>\<open>Seen\<close> is no change: a read found the user, active or deleted.\<close>

datatype life_event = Born | Edited string | Buried string | Restored | Seen bool

fun changes :: "life_event list \<Rightarrow> life_event list" where
  "changes [] = []"
| "changes (Seen b # es) = changes es"
| "changes (e # es) = e # changes es"

lemma changes_append [simp]: "changes (es @ fs) = changes es @ changes fs"
  by (induction es rule: changes.induct) simp_all

inductive life_step :: "life_event \<Rightarrow> ex_row option \<Rightarrow> ex_row \<Rightarrow> bool" where
  born: "er_delete r = None \<Longrightarrow> er_purge r = None \<Longrightarrow> er_deleted_by r = None
     \<Longrightarrow> er_email r \<noteq> [] \<Longrightarrow> er_etag r \<noteq> [] \<Longrightarrow> life_step Born None r"
| edited: "er_delete r = None \<Longrightarrow> er_etag r = e \<Longrightarrow> email = er_email r \<or> email \<noteq> [] \<Longrightarrow> etag \<noteq> []
     \<Longrightarrow> purge = er_purge r \<or> purge = None \<Longrightarrow> who = er_deleted_by r \<or> who = None
     \<Longrightarrow> life_step (Edited e) (Some r) (r\<lparr>er_display := display, er_email := email, er_nickname := nickname,
           er_password := password, er_etag := etag, er_update := t, er_purge := purge, er_deleted_by := who\<rparr>)"
| buried: "er_delete r = None \<Longrightarrow> er_etag r = e
     \<Longrightarrow> life_step (Buried e) (Some r) (r\<lparr>er_delete := Some t, er_purge := purge, er_deleted_by := who,
           er_update := u\<rparr>)"
| restored: "er_delete r \<noteq> None \<Longrightarrow> etag \<noteq> []
     \<Longrightarrow> life_step Restored (Some r) (r\<lparr>er_delete := None, er_purge := None, er_deleted_by := None,
           er_etag := etag, er_update := t\<rparr>)"
| seen: "active = (er_delete r = None) \<Longrightarrow> life_step (Seen active) (Some r) r"

text \<open>A request at a name among other requests, with the steps it takes itself.\<close>

inductive ex_run :: "ex_db dbenv \<Rightarrow> ex_name \<Rightarrow> ex_db \<Rightarrow> life_event list \<Rightarrow> ex_db \<Rightarrow> bool"
  for E n d where
  start: "ex_run E n d [] d"
| others: "ex_run E n d es d' \<Longrightarrow> ex_run E n d es (de_others E k d')"
| own: "ex_run E n d es d' \<Longrightarrow> life_step ev (users_of d' n) r
     \<Longrightarrow> users_of d'' = (users_of d')(n \<mapsto> r) \<Longrightarrow> ex_run E n d (es @ [ev]) d''"

lemma ex_run_trans: "ex_run E n d' fs d'' \<Longrightarrow> ex_run E n d es d' \<Longrightarrow> ex_run E n d (es @ fs) d''"
proof (induction rule: ex_run.induct)
  case (own fs d1 ev r d2)
  then have "ex_run E n d (es @ fs) d1" by simp
  from ex_run.own [OF this own.hyps(2,3)] show ?case by simp
qed (auto intro: ex_run.intros)

text \<open>The delete hook marks a row and leaves the application's columns alone.\<close>

definition marks_deleted :: "ex_lib \<Rightarrow> bool" where
  "marks_deleted L \<longleftrightarrow> (\<forall>t r. \<exists>d p b u. xl_tombstone L t r =
     r\<lparr>er_delete := Some d, er_purge := p, er_deleted_by := b, er_update := u\<rparr>)"

text \<open>What the mapper copies by name.\<close>

definition copies_state :: "ex_lib \<Rightarrow> bool" where
  "copies_state L \<longleftrightarrow>
     (\<forall>q r. eu_etag (xl_copy L q r) = er_etag r \<and> eu_delete (xl_copy L q r) = er_delete r)"

lemma copied: "copies_state L \<Longrightarrow> eu_etag (ex_to_dto L r) = er_etag r \<and> eu_delete (ex_to_dto L r) = er_delete r"
  by (simp add: copies_state_def ex_to_dto_def)

definition ex_acts :: "ex_db dbenv \<Rightarrow> ex_lib \<Rightarrow> ex_name \<Rightarrow> ex_world \<Rightarrow> life_event list \<Rightarrow> ex_world \<Rightarrow> bool" where
  "ex_acts E L n w es w' \<longleftrightarrow>
     (others_keep E ex_wf \<longrightarrow> marks_deleted L \<longrightarrow> copies_state L \<longrightarrow> ex_wf (dw_db w) \<longrightarrow>
        ex_wf (dw_db w') \<and> ex_run E n (dw_db w) es (dw_db w'))"

section \<open>What a program does\<close>

text \<open>Every run of \<open>p\<close> takes steps at \<open>n\<close> that fit its result.\<close>

definition does ::
    "(ex_name \<Rightarrow> 'w \<Rightarrow> life_event list \<Rightarrow> 'w \<Rightarrow> bool) \<Rightarrow> ex_name \<Rightarrow> ('w, 'a) prog
     \<Rightarrow> (err + 'a \<Rightarrow> life_event list \<Rightarrow> bool) \<Rightarrow> bool" where
  "does acts n p S \<longleftrightarrow> (\<forall>w r w'. p w = (r, w') \<longrightarrow> (\<exists>es. acts n w es w' \<and> S r es))"

lemma doesI: "(\<And>w r w'. p w = (r, w') \<Longrightarrow> \<exists>es. acts n w es w' \<and> S r es) \<Longrightarrow> does acts n p S"
  by (simp add: does_def)

lemma doesD: "does acts n p S \<Longrightarrow> p w = (r, w') \<Longrightarrow> \<exists>es. acts n w es w' \<and> S r es"
  by (simp add: does_def)

lemma does_weaken: "does acts n p S \<Longrightarrow> (\<And>r es. S r es \<Longrightarrow> T r es) \<Longrightarrow> does acts n p T"
  unfolding does_def by blast

abbreviation nothing :: "'r \<Rightarrow> life_event list \<Rightarrow> bool" where
  "nothing \<equiv> \<lambda>_ es. es = []"

text \<open>A read that answers a user has seen it.\<close>

abbreviation sees :: "err + ex_user option \<Rightarrow> life_event list \<Rightarrow> bool" where
  "sees \<equiv> \<lambda>r es. case r of Inl _ \<Rightarrow> es = []
     | Inr u \<Rightarrow> (\<exists>x. u = Some x \<and> es = [Seen (eu_delete x = None)])"

definition undeletes :: "nat \<Rightarrow> err + 'a \<Rightarrow> life_event list \<Rightarrow> bool" where
  "undeletes k r es \<longleftrightarrow> set es \<subseteq> insert Restored (range Seen) \<and> length (changes es) \<le> k
     \<and> (isl r \<or> es \<noteq> [] \<and> (last es = Restored \<or> last es = Seen True))"

section \<open>Logs of steps\<close>

text \<open>Steps that are closed under sequence and that do not see the tick.\<close>

locale step_log =
  fixes acts :: "ex_name \<Rightarrow> 'z world_scheme \<Rightarrow> life_event list \<Rightarrow> 'z world_scheme \<Rightarrow> bool"
  assumes acts_tick: "acts n w [] (w\<lparr>tick := k\<rparr>)"
    and acts_trans: "acts n w es w1 \<Longrightarrow> acts n w1 fs w2 \<Longrightarrow> acts n w (es @ fs) w2"
begin

lemma acts_refl: "acts n w [] w"
  using acts_tick [of n w "tick w"] by simp

lemma does_ret: "S (Inr x) [] \<Longrightarrow> does acts n (ret x) S"
  using acts_refl by (auto simp: does_def)

lemma does_throw: "S (Inl e) [] \<Longrightarrow> does acts n (throw e) S"
  using acts_refl by (auto simp: does_def)

lemma does_result: "S r [] \<Longrightarrow> does acts n (result r) S"
  using acts_refl by (auto simp: does_def)

lemma does_fails_with:
  "(\<And>x. e = Some x \<Longrightarrow> S (Inl x) []) \<Longrightarrow> does acts n p S \<Longrightarrow> does acts n (fails_with e p) S"
  by (cases e) (auto simp: fails_with_def does_throw)

lemma does_check:
  assumes "does acts n p P"
    and "\<And>e es. P (Inl e) es \<Longrightarrow> does acts n (h e) (\<lambda>r fs. S r (es @ fs))"
    and "\<And>x es. P (Inr x) es \<Longrightarrow> does acts n (k x) (\<lambda>r fs. S r (es @ fs))"
  shows "does acts n (check p h k) S"
proof (rule doesI)
  fix w r w'
  assume run: "check p h k w = (r, w')"
  obtain q v where q: "p w = (q, v)" by fastforce
  from doesD [OF assms(1) q] obtain es where es: "acts n w es v" "P q es" by blast
  show "\<exists>es. acts n w es w' \<and> S r es"
  proof (cases q)
    case (Inl e)
    with run q have "h e v = (r, w')" by (simp add: check_run)
    from doesD [OF assms(2) this] es Inl show ?thesis by (blast intro: acts_trans)
  next
    case (Inr x)
    with run q have "k x v = (r, w')" by (simp add: check_run)
    from doesD [OF assms(3) this] es Inr show ?thesis by (blast intro: acts_trans)
  qed
qed

lemma does_if:
  "(b \<Longrightarrow> does acts n p S) \<Longrightarrow> (\<not> b \<Longrightarrow> does acts n q S) \<Longrightarrow> does acts n (if b then p else q) S"
  by simp

lemma does_after:
  "does acts n p nothing \<Longrightarrow> (\<And>e. does acts n (h e) S) \<Longrightarrow> (\<And>x. does acts n (k x) S)
     \<Longrightarrow> does acts n (check p h k) S"
  by (rule does_check [where P = nothing]) auto

end

section \<open>The contract of the port\<close>

locale ex_user_port = step_log acts
  for acts :: "ex_name \<Rightarrow> 'z world_scheme \<Rightarrow> life_event list \<Rightarrow> 'z world_scheme \<Rightarrow> bool" +
  fixes repo :: "('z world_scheme) ex_repo"
  assumes get_does: "does acts n (xr_get repo n b) nothing"
    and see_does: "does acts n (xr_get repo n b) sees"
    and create_does: "does acts n (xr_create repo n x p)
          (\<lambda>r es. es = (case r of Inr _ \<Rightarrow> [Born] | Inl _ \<Rightarrow> []))"
    and update_does: "does acts n (xr_update repo n x m p e)
          (\<lambda>r es. es = [Edited e] \<or> es = [] \<and> isl r)"
    and delete_does: "does acts n (xr_delete repo n e)
          (\<lambda>r es. es = [Buried e] \<or> es = [] \<and> isl r)"
    and undelete_does: "does acts n (xr_undelete repo n e)
          (\<lambda>r es. es = [Restored] \<or> es = [] \<and> isl r)"
begin

lemma etag_does: "does acts n (new_etag E) nothing"
  using acts_tick by (auto simp: does_def new_etag_def split: sum.splits)

lemma hash_does: "does acts n (hash_temporary_password L p) nothing"
  using acts_tick acts_refl
  by (auto simp: does_def hash_temporary_password_def split: sum.splits option.splits)

lemma get_result_does: "does acts n (repo_result (xr_get repo n b)) nothing"
  unfolding repo_result_def by (intro does_after get_does does_throw does_ret) simp_all

lemma see_result_does: "does acts n (repo_result (xr_get repo n b)) sees"
  unfolding repo_result_def
  by (rule does_check [OF see_does]) (auto intro: does_throw does_ret)

lemma usecase_create_does:
  "does acts n (usecase_create_user E L repo n u) (\<lambda>r es. es = (case r of Inr _ \<Rightarrow> [Born] | Inl _ \<Rightarrow> []))"
  unfolding usecase_create_user_def or_internal_def repo_result_def
  by (intro does_after hash_does etag_does does_check [OF create_does])
    (auto intro: does_throw does_ret)

lemma usecase_update_does:
  "does acts n (usecase_update_user E L repo n prepared missing)
     (\<lambda>r es. (\<exists>e. es = [Edited e] \<and> (pe_etag prepared \<noteq> [] \<longrightarrow> e = pe_etag prepared))
        \<or> es = [Born] \<and> pe_allow_missing prepared \<or> es = [] \<and> isl r)"
  (is "does acts n _ ?S")
  unfolding usecase_update_user_def or_internal_def
proof (rule does_after [OF get_does])
  fix e
  have "does acts n (usecase_create_user E L repo n (the missing)) ?S" if "pe_allow_missing prepared"
    by (rule does_weaken [OF usecase_create_does]) (use that in \<open>auto split: sum.splits\<close>)
  then show "does acts n (if errors_is e (Biz ErrNotFound) \<and> pe_allow_missing prepared \<and> missing \<noteq> None
      then usecase_create_user E L repo n (the missing) else throw (translate_repo_error e)) ?S"
    by (auto intro: does_throw)
next
  fix current
  show "does acts n (fails_with (pe_validate_immutable prepared current)
     (if pe_etag prepared \<noteq> [] \<and> pe_etag prepared \<noteq> get_etag current then throw (user_etag_mismatch [])
      else check (hash_temporary_password L (eu_password (pe_resource prepared)))
        (\<lambda>e. throw (internal_user_error e)) (\<lambda>passwordHash.
        check (new_etag E) (\<lambda>e. throw (internal_user_error e)) (\<lambda>etag.
        check (xr_update repo n (pe_resource prepared\<lparr>eu_password := None, eu_etag := etag\<rparr>)
            (pe_write_mask prepared) passwordHash (get_etag current))
          (\<lambda>e. if errors_is e (Biz ErrMutationMiss)
            then pass (repo_result (xr_get repo n True)) (\<lambda>latest.
                   if get_delete_time latest \<noteq> None then throw (user_not_found [e])
                   else throw (user_etag_mismatch [e]))
            else throw (translate_repo_error e)) ret)))) ?S"
    apply (rule does_fails_with, simp, rule does_if, rule does_throw, simp)
    apply (rule does_after [OF hash_does], rule does_throw, simp)
    apply (rule does_after [OF etag_does], rule does_throw, simp)
    apply (rule does_check [OF update_does])
     apply (auto intro!: does_throw does_after [OF get_result_does])[1]
    apply (auto intro!: does_ret)
    done
qed

lemma usecase_get_does: "does acts n (usecase_get_user repo n) sees"
  unfolding usecase_get_user_def by (rule see_result_does)

lemma usecase_delete_does:
  "does acts n (usecase_delete_user repo n allowMissing etag)
     (\<lambda>r es. (\<exists>e. changes es = [Buried e] \<and> (etag \<noteq> [] \<longrightarrow> e = etag))
        \<or> changes es = [] \<and> (isl r \<or> allowMissing \<and> es \<noteq> [] \<and> last es = Seen False))"
  unfolding usecase_delete_user_def
proof (rule does_check [OF see_result_does])
  fix current es
  assume sees: "sees (Inr current) es"
  let ?S = "\<lambda>r fs. (\<exists>e. changes (es @ fs) = [Buried e] \<and> (etag \<noteq> [] \<longrightarrow> e = etag))
        \<or> changes (es @ fs) = [] \<and> (isl r \<or> allowMissing \<and> es @ fs \<noteq> [] \<and> last (es @ fs) = Seen False)"
  have c: "changes es = []" and del: "get_delete_time current \<noteq> None \<Longrightarrow> es = [Seen False]"
    using sees by (auto simp: get_delete_time_def split: option.splits)
  show "does acts n (if etag \<noteq> [] \<and> etag \<noteq> get_etag current then throw (user_etag_mismatch [])
      else if get_delete_time current \<noteq> None then (if allowMissing then ret current else throw (user_not_found []))
      else
        check (xr_delete repo n (get_etag current))
          (\<lambda>e. if errors_is e (Biz ErrMutationMiss)
               then pass (repo_result (xr_get repo n True)) (\<lambda>latest.
                      if get_delete_time latest \<noteq> None then
                        (if allowMissing then ret latest else throw (user_not_found [e]))
                      else throw (user_etag_mismatch [e]))
               else throw (translate_repo_error e))
          ret) ?S"
  proof (intro does_if)
    assume e: "\<not> (etag \<noteq> [] \<and> etag \<noteq> get_etag current)"
    show "does acts n (check (xr_delete repo n (get_etag current))
          (\<lambda>e. if errors_is e (Biz ErrMutationMiss)
               then pass (repo_result (xr_get repo n True)) (\<lambda>latest.
                      if get_delete_time latest \<noteq> None then
                        (if allowMissing then ret latest else throw (user_not_found [e]))
                      else throw (user_etag_mismatch [e]))
               else throw (translate_repo_error e))
          ret) ?S"
    proof (rule does_check [OF delete_does], rule does_if, rule does_check [OF see_result_does])
      fix e' latest ds ls
      assume "ds = [Buried (get_etag current)] \<or> ds = [] \<and> isl (Inl e' :: err + ex_user option)" "sees (Inr latest) ls"
      then show "does acts n (if get_delete_time latest \<noteq> None
          then (if allowMissing then ret latest else throw (user_not_found [e'])) else throw (user_etag_mismatch [e']))
          (\<lambda>r fs. ?S r (ds @ ls @ fs))"
        using c e by (auto intro!: does_throw does_ret simp: get_delete_time_def split: option.splits)
    qed (use c e in \<open>auto intro!: does_throw does_ret split: option.splits\<close>)
  qed (use c del in \<open>auto intro!: does_throw does_ret\<close>)
qed (auto intro: does_throw)

lemma undelete_attempts_does: "does acts n (undelete_attempts E repo n k miss) (undeletes k)"
proof (induction k arbitrary: miss)
  case 0
  show ?case
    unfolding undelete_attempts.simps
    by (rule does_check [OF see_result_does]; (intro does_if)?)
      (auto intro!: does_throw does_ret simp: undeletes_def get_delete_time_def split: option.splits)
next
  case (Suc k)
  have more: "does acts n (undelete_attempts E repo n k m) (\<lambda>r fs. undeletes (Suc k) r (es @ fs))"
    if "es = [] \<or> (\<exists>b. es = [Seen b]) \<or> (\<exists>b. es = [Seen b, Restored]) \<or> es = [Restored]" for m es
    by (rule does_weaken [OF Suc.IH]) (use that in \<open>auto simp: undeletes_def split: if_splits\<close>)
  show ?case
    unfolding undelete_attempts.simps or_internal_def
    apply (rule does_check [OF see_result_does], rule does_throw, simp add: undeletes_def)
    apply (rule does_if, rule does_throw, simp add: undeletes_def)
    apply (rule does_if, rule does_ret, force simp: undeletes_def get_delete_time_def split: option.splits)
    apply (rule does_after [OF etag_does], rule does_throw, force simp: undeletes_def split: option.splits)
    apply (rule does_check [OF undelete_does]; rule does_if)
       apply (rule does_throw, force simp: undeletes_def split: option.splits)
      apply (unfold append_assoc [symmetric], rule more, force split: option.splits)
     apply (rule does_throw, force simp: undeletes_def split: option.splits)
    apply (rule does_if, rule does_ret, force simp: undeletes_def split: option.splits)
    apply (rule more, auto split: option.splits)
    done
qed

end

section \<open>The repository keeps the contract\<close>

definition stmt_steps :: "ex_lib \<Rightarrow> ex_name \<Rightarrow> (ex_db, 'a) stmt \<Rightarrow> (err + 'a \<Rightarrow> life_event list \<Rightarrow> bool) \<Rightarrow> bool" where
  "stmt_steps L n s S \<longleftrightarrow>
     (\<forall>t d r d'. marks_deleted L \<longrightarrow> ex_wf d \<longrightarrow> s t d = (r, d') \<longrightarrow>
        ex_wf d' \<and> (d' = d \<and> S r [] \<or>
          (\<exists>ev row. life_step ev (users_of d n) row \<and> users_of d' = (users_of d)(n \<mapsto> row) \<and> S r [ev])))"

lemma ex_acts_tick: "ex_acts E L n w [] (w\<lparr>tick := k\<rparr>)"
  by (simp add: ex_acts_def ex_run.start)

lemma ex_acts_trans: "ex_acts E L n w es w1 \<Longrightarrow> ex_acts E L n w1 fs w2 \<Longrightarrow> ex_acts E L n w (es @ fs) w2"
  by (auto simp: ex_acts_def intro: ex_run_trans)

lemma exec_does:
  assumes "stmt_steps L n s S" "\<And>r. \<exists>es. S r es" "\<And>e. S (Inl e) []"
  shows "does (ex_acts E L) n (db_exec E s) S"
proof (rule doesI)
  fix w :: ex_world and r w'
  assume run: "db_exec E s w = (r, w')"
  let ?d = "de_others E (tick w) (dw_db w)"
  show "\<exists>es. ex_acts E L n w es w' \<and> S r es"
  proof (cases "others_keep E ex_wf \<and> marks_deleted L \<and> copies_state L \<and> ex_wf (dw_db w)")
    case False
    with assms(2) show ?thesis by (auto simp: ex_acts_def)
  next
    case True
    then have d: "ex_wf ?d" by (simp add: others_keep_def)
    have o: "ex_run E n (dw_db w) [] ?d" by (intro ex_run.others ex_run.start)
    from run consider e where "r = Inl e" "dw_db w' = ?d"
      | d' where "s (clock E (tick w)) ?d = (r, d')" "dw_db w' = d'"
      by (auto simp: db_exec_def seq_def interfere_def tx_exec_def split: option.splits prod.splits)
    then show ?thesis
    proof cases
      case 1
      with o d assms(3) show ?thesis by (intro exI [of _ "[]"]) (simp add: ex_acts_def)
    next
      case 2
      with assms(1) True d have "ex_wf d' \<and> (d' = ?d \<and> S r [] \<or>
          (\<exists>ev row. life_step ev (users_of ?d n) row \<and> users_of d' = (users_of ?d)(n \<mapsto> row) \<and> S r [ev]))"
        unfolding stmt_steps_def by blast
      then consider "ex_wf d'" "d' = ?d" "S r []"
        | ev row where "ex_wf d'" "life_step ev (users_of ?d n) row"
            "users_of d' = (users_of ?d)(n \<mapsto> row)" "S r [ev]" by blast
      then show ?thesis
      proof cases
        case 1
        with o 2 show ?thesis by (intro exI [of _ "[]"]) (simp add: ex_acts_def)
      next
        case (2 ev row)
        with ex_run.own [OF o 2(2,3)] \<open>dw_db w' = d'\<close> show ?thesis
          by (intro exI [of _ "[ev]"]) (simp add: ex_acts_def)
      qed
    qed
  qed
qed

lemma by_name_key: "by_name n r \<longleftrightarrow> ex_key r = n"
  by (simp add: by_name_def ex_key_eq)

text \<open>A conditional update of the rows of one name.\<close>

lemma update_steps:
  assumes "\<And>s. ex_key (f s) = ex_key s" "\<And>s. P s \<Longrightarrow> life_step ev (Some s) (f s)" "\<And>s. P s \<Longrightarrow> ex_key s = n"
    and "ex_wf d" "d' = ent_update_where P f d"
  shows "ex_wf d' \<and> (filter P d = [] \<and> d' = d \<or>
      filter P d \<noteq> [] \<and> (\<exists>row. life_step ev (users_of d n) row \<and> users_of d' = (users_of d)(n \<mapsto> row)))"
proof (cases "filter P d = []")
  case True
  then have "\<forall>r \<in> set d. \<not> P r" by (simp add: filter_empty_conv)
  with True assms(4,5) show ?thesis by (simp add: ent_update_where_none)
next
  case False
  then obtain r where r: "r \<in> set d" "P r" by (auto simp: filter_empty_conv)
  have "users_of d n = Some r" using assms(4) r assms(3) by (intro users_of_in)
  moreover have "users_of d' = (users_of d)(n \<mapsto> f r)"
    unfolding assms(5) using assms(1,3,4) r by (intro users_of_update)
  ultimately show ?thesis using False assms(2) [OF r(2)] ex_wf_update [OF assms(4,1)]
    by (auto simp: assms(5))
qed

lemma get_steps: "stmt_steps L n (query_only b P) nothing"
  by (auto simp: stmt_steps_def query_only_def only_def)

interpretation ex_log: step_log "ex_acts E L" for E L
  by unfold_locales (rule ex_acts_tick, erule (1) ex_acts_trans)

lemma exec_reads: "does (ex_acts E L) n (db_exec E (query_only b P)) nothing"
  by (rule exec_does [OF get_steps]) simp_all

lemma repo_get_does: "does (ex_acts E L) n (repo_get_user E L n b) nothing"
  unfolding repo_get_user_def
  by (rule ex_log.does_after [OF exec_reads]) (auto intro!: ex_log.does_throw ex_log.does_ret)

lemma see_steps:
  assumes "\<And>r. P r \<Longrightarrow> ex_key r = n"
  shows "stmt_steps L n (query_only b P) (\<lambda>r es. es = (case r of Inr row \<Rightarrow> [Seen (er_delete row = None)] | Inl _ \<Rightarrow> []))"
  unfolding stmt_steps_def
proof (intro allI impI)
  fix t d r d'
  assume wf: "ex_wf d" and run: "query_only b P t d = (r, d')"
  then have d': "d' = d" by (auto simp: query_only_def only_def)
  show "ex_wf d' \<and> (d' = d \<and> [] = (case r of Inr row \<Rightarrow> [Seen (er_delete row = None)] | Inl _ \<Rightarrow> []) \<or>
      (\<exists>ev row. life_step ev (users_of d n) row \<and> users_of d' = (users_of d)(n \<mapsto> row)
         \<and> [ev] = (case r of Inr row \<Rightarrow> [Seen (er_delete row = None)] | Inl _ \<Rightarrow> [])))"
  proof (cases r)
    case (Inr row)
    with run have "row \<in> set d" "P row"
      by (auto simp: query_only_def only_def ex_users_t_def dest!: ent_only_in)
    then have "users_of d n = Some row" using wf assms by (intro users_of_in) auto
    then show ?thesis using wf Inr d' by (auto intro!: seen exI [of _ row])
  qed (use wf d' in simp)
qed

lemma repo_see_does: "does (ex_acts E L) n (repo_get_user E L n b) sees"
proof (cases "copies_state L")
  case False
  have "\<exists>es. sees r es" if "repo_get_user E L n b w = (r, w')" for r w w'
    using that by (cases r) (auto simp: repo_get_user_def check_eq split: if_splits)
  with False show ?thesis by (auto simp: does_def ex_acts_def)
next
  case True
  show ?thesis
    unfolding repo_get_user_def
    by (rule ex_log.does_check [OF exec_does [OF see_steps]])
      (auto intro!: ex_log.does_throw ex_log.does_ret simp: by_name_key copied [OF True])
qed

lemma create_steps:
  "stmt_steps L n (create_save (create_mutation n u p)) (\<lambda>r es. es = (case r of Inr _ \<Rightarrow> [Born] | Inl _ \<Rightarrow> []))"
  unfolding stmt_steps_def
proof (intro allI impI)
  fix t d r d'
  let ?m = "create_defaults t (create_mutation n u p)"
  let ?row = "create_spec ?m"
  assume wf: "ex_wf d" and run: "create_save (create_mutation n u p) t d = (r, d')"
  have key: "ex_key ?row = n"
    by (simp add: ex_key_eq create_spec_def create_defaults_def create_mutation_def)
  show "ex_wf d' \<and> (d' = d \<and> [] = (case r of Inr _ \<Rightarrow> [Born] | Inl _ \<Rightarrow> []) \<or>
      (\<exists>ev row. life_step ev (users_of d n) row \<and> users_of d' = (users_of d)(n \<mapsto> row)
         \<and> [ev] = (case r of Inr _ \<Rightarrow> [Born] | Inl _ \<Rightarrow> [])))"
  proof (cases "create_check ?m \<and> \<not> list_ex (ex_clash ?row) d")
    case True
    with run have d': "d' = d @ [?row]" "r = Inr ?row"
      by (auto simp: create_save_def Let_def create_def ent_create_def ex_users_t_def)
    have none: "users_of d n = None"
      unfolding users_of_None using True key by (metis ex_clash_key list_ex_iff)
    have "life_step Born None ?row"
      using True by (intro born) (auto simp: create_spec_def create_defaults_def create_mutation_def
          new_user_mutation_def create_check_def not_empty_def split: option.splits)
    moreover have "users_of d' = (users_of d)(n \<mapsto> ?row)"
      using users_of_append [of ?row d] True d'(1) key by simp
    moreover have "ex_wf d'" unfolding d'(1) using wf True by (intro no_clash_create) simp_all
    ultimately show ?thesis using none d'(2) by auto
  next
    case False
    with run have "d' = d \<and> isl r"
      by (auto simp: create_save_def Let_def create_def ent_create_def ex_users_t_def split: if_splits)
    with wf show ?thesis by (auto split: sum.splits)
  qed
qed

lemma repo_create_does:
  "does (ex_acts E L) n (repo_create_user E L n u p) (\<lambda>r es. es = (case r of Inr _ \<Rightarrow> [Born] | Inl _ \<Rightarrow> []))"
  unfolding repo_create_user_def
  by (rule ex_log.does_check [OF exec_does [OF create_steps]])
    (auto intro!: ex_log.does_throw ex_log.does_ret)

text \<open>A statement on the rows of a name, and what follows its count.\<close>

abbreviation counts :: "life_event \<Rightarrow> err + nat \<Rightarrow> life_event list \<Rightarrow> bool" where
  "counts ev \<equiv> \<lambda>r es. es = (case r of Inr c \<Rightarrow> if c = 0 then [] else [ev] | Inl _ \<Rightarrow> [])"

lemma one_affected_does:
  assumes "stmt_steps L n s (counts ev)" "does (ex_acts E L) n k nothing"
  shows "does (ex_acts E L) n (one_affected x (db_exec E s) k) (\<lambda>r es. es = [ev] \<or> es = [] \<and> isl r)"
  unfolding one_affected_def
  apply (rule ex_log.does_check [OF exec_does [OF assms(1)]], simp, simp)
   apply (rule ex_log.does_throw, simp)
  apply (intro ex_log.does_if ex_log.does_throw)
    apply (auto intro!: does_weaken [OF assms(2)])
  done

lemma update_where_steps:
  assumes "\<And>s. ex_key (f t s) = ex_key s" "\<And>s. P s \<Longrightarrow> life_step ev (Some s) (f t s)" "\<And>s. P s \<Longrightarrow> ex_key s = n"
    and "ex_wf d" "update_where ex_users_t P f t d = (r, d')"
  shows "ex_wf d' \<and> (d' = d \<and> counts ev r [] \<or>
      (\<exists>e row. life_step e (users_of d n) row \<and> users_of d' = (users_of d)(n \<mapsto> row) \<and> counts ev r [e]))"
proof -
  from assms(5) have d': "d' = ent_update_where P (f t) d" and r: "r = Inr (length (filter P d))"
    by (auto simp: update_where_def ex_users_t_def)
  from update_steps [OF assms(1-4) d'] show ?thesis by (auto simp: r)
qed

lemma update_spec_key [simp]: "ex_key (update_spec m s) = ex_key s"
  by (simp add: update_spec_def ex_key_def)

lemma update_save_steps:
  assumes "\<And>t s. update_check (update_defaults t m) \<Longrightarrow> P s \<Longrightarrow> life_step ev (Some s) (update_spec (update_defaults t m) s)"
    and "\<And>s. P s \<Longrightarrow> ex_key s = n"
  shows "stmt_steps L n (update_save L P m) (counts ev)"
  unfolding stmt_steps_def
proof (intro allI impI)
  fix t d r d'
  assume wf: "ex_wf d" and run: "update_save L P m t d = (r, d')"
  from run consider e where "r = Inl e" "d' = d"
    | "update_check (update_defaults t m)"
        "update_where ex_users_t P (\<lambda>_. update_spec (update_defaults t m)) t d = (r, d')"
    by (auto simp: update_save_def Let_def split: if_splits option.splits)
  then show "ex_wf d' \<and> (d' = d \<and> counts ev r [] \<or>
      (\<exists>e row. life_step e (users_of d n) row \<and> users_of d' = (users_of d)(n \<mapsto> row) \<and> counts ev r [e]))"
  proof cases
    case 2
    show ?thesis by (rule update_where_steps [OF update_spec_key assms(1) [OF 2(1)] assms(2) wf 2(2)])
  qed (use wf in auto)
qed

lemma fold_err_invariant:
  "fold_err f xs s = Inr t \<Longrightarrow> I s \<Longrightarrow> (\<And>x s s'. I s \<Longrightarrow> f x s = Inr s' \<Longrightarrow> I s') \<Longrightarrow> I t"
  by (induction xs arbitrary: s) (auto split: sum.splits)

definition no_lifecycle :: "ex_mutation \<Rightarrow> bool" where
  "no_lifecycle m \<longleftrightarrow> mu_delete m = None \<and> mu_purge m = None \<and> mu_deleted_by m = None"

lemma update_mutation_plain:
  assumes "update_mutation L u paths p = Inr m"
  shows "no_lifecycle m \<and> mu_etag m = Some (eu_etag u)"
proof -
  from assms obtain absent m0 where m0: "fold_err clear_path absent new_user_mutation = Inr m0"
    and m: "m = (foldl (set_mask_path u p) m0 paths)\<lparr>mu_etag := Some (eu_etag u)\<rparr>"
    by (auto simp: update_mutation_def clear_apply_def split: sum.splits)
  have "no_lifecycle m0"
    by (rule fold_err_invariant [OF m0]) (auto simp: new_user_mutation_def no_lifecycle_def clear_path_def
        clear_field_def ex_clears split: if_splits)
  then have "no_lifecycle (foldl (set_mask_path u p) m0 paths)"
    by (induction paths arbitrary: m0) (auto simp: no_lifecycle_def set_mask_path_def split: option.split)
  then show ?thesis by (simp add: m no_lifecycle_def)
qed

lemma edit_step:
  assumes "no_lifecycle m" "mu_etag m \<noteq> None" "update_check (update_defaults t m)" "er_delete r = None" "er_etag r = e"
  shows "life_step (Edited e) (Some r) (update_spec (update_defaults t m) r)"
proof -
  let ?m = "update_defaults t m"
  have "update_spec ?m r = r\<lparr>er_display := er_display (update_spec ?m r), er_email := er_email (update_spec ?m r),
      er_nickname := er_nickname (update_spec ?m r), er_password := er_password (update_spec ?m r),
      er_etag := er_etag (update_spec ?m r), er_update := er_update (update_spec ?m r),
      er_purge := er_purge (update_spec ?m r), er_deleted_by := er_deleted_by (update_spec ?m r)\<rparr>"
    using assms(1,4) by (simp add: update_spec_def update_defaults_def no_lifecycle_def put_nullable_def)
  moreover have "life_step (Edited e) (Some r) \<dots>"
    using assms by (intro edited) (auto simp: update_spec_def update_defaults_def update_check_def
        no_lifecycle_def put_nullable_def put_def split: option.splits)
  ultimately show ?thesis by simp
qed

lemma repo_update_does:
  "does (ex_acts E L) n (repo_update_user E L n u paths p e) (\<lambda>r es. es = [Edited e] \<or> es = [] \<and> isl r)"
  unfolding repo_update_user_def
proof (rule ex_log.does_check [OF ex_log.does_result [where S = "\<lambda>r es. es = [] \<and> r = update_mutation L u paths p"]])
  fix m and es :: "life_event list"
  assume m: "es = [] \<and> Inr m = update_mutation L u paths p"
  have "stmt_steps L n (update_save L (by_active_etag n e) m) (counts (Edited e))"
    by (rule update_save_steps) (use update_mutation_plain [of L u paths p m] m edit_step in
        \<open>auto simp: by_active_etag_def by_name_key\<close>)
  from one_affected_does [OF this repo_get_does] m
  show "does (ex_acts E L) n (one_affected ''update User affected rows''
      (db_exec E (update_save L (by_active_etag n e) m)) (repo_get_user E L n False))
      (\<lambda>r fs. es @ fs = [Edited e] \<or> es @ fs = [] \<and> isl r)" by simp
qed (auto intro: ex_log.does_throw)

lemma marks_deletedD:
  assumes "marks_deleted L"
  shows "ex_key (xl_tombstone L t r) = ex_key r"
    and "er_delete r = None \<Longrightarrow> er_etag r = e \<Longrightarrow> life_step (Buried e) (Some r) (xl_tombstone L t r)"
proof -
  obtain d p b u where "xl_tombstone L t r =
      r\<lparr>er_delete := Some d, er_purge := p, er_deleted_by := b, er_update := u\<rparr>"
    using assms unfolding marks_deleted_def by blast
  then show "ex_key (xl_tombstone L t r) = ex_key r"
    and "er_delete r = None \<Longrightarrow> er_etag r = e \<Longrightarrow> life_step (Buried e) (Some r) (xl_tombstone L t r)"
    by (simp_all add: ex_key_def buried)
qed

lemma repo_delete_does:
  "does (ex_acts E L) n (repo_delete_user E L n e) (\<lambda>r es. es = [Buried e] \<or> es = [] \<and> isl r)"
  unfolding repo_delete_user_def
proof (rule one_affected_does [OF _ repo_get_does])
  show "stmt_steps L n (delete_exec L (by_active_etag n e)) (counts (Buried e))"
    unfolding stmt_steps_def delete_exec_def
    by (intro allI impI, rule update_where_steps)
      (auto simp: by_active_etag_def by_name_key marks_deletedD)
qed

lemma undelete_spec:
  "update_spec (update_defaults t (undelete_mutation g)) = (\<lambda>s.
     s\<lparr>er_delete := None, er_purge := None, er_deleted_by := None, er_etag := g, er_update := t\<rparr>)"
  "update_check (update_defaults t (undelete_mutation g)) \<longleftrightarrow> g \<noteq> []"
  "twice_assigned (update_defaults t (undelete_mutation g)) = []"
  by (rule ext) (simp_all add: update_spec_def update_check_def twice_assigned_def update_defaults_def
      undelete_mutation_def ex_clears new_user_mutation_def put_nullable_def put_def)

lemma repo_undelete_does:
  "does (ex_acts E L) n (repo_undelete_user E L n g) (\<lambda>r es. es = [Restored] \<or> es = [] \<and> isl r)"
  unfolding repo_undelete_user_def
  by (rule one_affected_does [OF update_save_steps repo_get_does])
    (auto simp: undelete_spec by_name_key intro: restored)

interpretation ex_users: ex_user_port "ex_acts E L" "new_ex_repo E L" for E L
  by unfold_locales
    (simp_all add: new_ex_repo_def repo_get_does repo_see_does repo_create_does repo_update_does repo_delete_does
      repo_undelete_does)

end
