(* ===== verification/ExampleServed.thy ===== *)
theory ExampleServed
  imports ExampleSpec
begin

text \<open>
  The requests of the example service: which steps of a user's life each may take, the way back from a
  deletion, and two findings.
\<close>

section \<open>Requests\<close>

fun ex_target :: "ex_plan \<Rightarrow> ex_rpc \<Rightarrow> err + ex_name" where
  "ex_target plan (ExGetUser nam) = one_user_name nam"
| "ex_target plan (ExCreateUser parent userID user) = create_name plan parent userID"
| "ex_target plan (ExUpdateUser user updateMask allowMissing) = one_user_name (get_name user)"
| "ex_target plan (ExDeleteUser nam allowMissing etag) = one_user_name nam"
| "ex_target plan (ExUndeleteUser nam) = one_user_name nam"

text \<open>The steps that fit a request and its answer.\<close>

fun ex_fits :: "ex_rpc \<Rightarrow> err + ex_user option \<Rightarrow> life_event list \<Rightarrow> bool" where
  "ex_fits (ExGetUser nam) r es \<longleftrightarrow> changes es = [] \<and> (isl r \<or> (\<exists>active. es = [Seen active]))"
| "ex_fits (ExCreateUser parent userID user) r es \<longleftrightarrow> es = [Born] \<or> es = [] \<and> isl r"
| "ex_fits (ExUpdateUser user updateMask allowMissing) r es \<longleftrightarrow>
     (\<exists>e. es = [Edited e] \<and> (get_etag user = [] \<or> e = get_etag user))
     \<or> es = [Born] \<and> allowMissing \<or> es = [] \<and> isl r"
| "ex_fits (ExDeleteUser nam allowMissing etag) r es \<longleftrightarrow>
     (\<exists>e. changes es = [Buried e] \<and> (etag = [] \<or> e = etag))
     \<or> changes es = [] \<and> (isl r \<or> allowMissing \<and> es \<noteq> [] \<and> last es = Seen False)"
| "ex_fits (ExUndeleteUser nam) r es \<longleftrightarrow>
     set es \<subseteq> insert Restored (range Seen) \<and> length (changes es) \<le> 3
     \<and> (isl r \<or> es \<noteq> [] \<and> (last es = Restored \<or> last es = Seen True))"

definition keeps_options :: "ex_plan \<Rightarrow> bool" where
  "keeps_options plan \<longleftrightarrow>
     (\<forall>u m a g p. ep_update plan u m a g = Inr p \<longrightarrow> pe_etag p = g \<and> pe_allow_missing p = a)"

lemma respond_does:
  assumes "does (ex_acts E L) n p S" "\<And>e es. S (Inl e) es \<Longrightarrow> T (Inl e) es" "\<And>x r es. S (Inr x) es \<Longrightarrow> T r es"
  shows "does (ex_acts E L) n (respond plan p) T"
  unfolding respond_def
  by (rule ex_log.does_check [OF assms(1)])
    (rule ex_log.does_throw, simp add: assms(2), rule ex_log.does_result, simp add: assms(3))

lemma named_does:
  assumes "q = Inr n" "does (ex_acts E L) n (k n) S"
  shows "does (ex_acts E L) n (pass (result q) k) S"
proof -
  have "pass (result q) k = k n" by (rule ext) (simp add: assms(1) check_run)
  with assms(2) show ?thesis by simp
qed

lemma result_does:
  assumes "\<And>e. S (Inl e) []" "\<And>x. q = Inr x \<Longrightarrow> does (ex_acts E L) n (k x) S"
  shows "does (ex_acts E L) n (pass (result q) k) S"
  by (rule ex_log.does_check [OF ex_log.does_result [where S = "\<lambda>r es. es = [] \<and> r = q"]])
    (use assms in \<open>auto intro: ex_log.does_throw\<close>)

lemma ex_handle_does:
  assumes "ex_target plan rpc = Inr n" "keeps_options plan"
  shows "does (ex_acts E L) n (ex_handle E L plan (new_ex_repo E L) rpc) (ex_fits rpc)"
proof (cases rpc)
  case (ExGetUser nam)
  with assms(1) show ?thesis
    by (auto simp: ex_get_user_def intro!: named_does respond_does [OF ex_users.usecase_get_does])
next
  case (ExCreateUser parent userID user)
  with assms(1) show ?thesis
    by (auto simp: ex_create_user_def intro!: named_does result_does
        respond_does [OF ex_users.usecase_create_does])
next
  case (ExUpdateUser user updateMask allowMissing)
  have "does (ex_acts E L) n (respond plan (usecase_update_user E L (new_ex_repo E L) n p missing)) (ex_fits rpc)"
    if "ep_update plan user updateMask allowMissing (get_etag user) = Inr p" for p missing
  proof -
    have "pe_etag p = get_etag user" "pe_allow_missing p = allowMissing"
      using assms(2) that unfolding keeps_options_def by blast+
    then show ?thesis
      by (intro respond_does [OF ex_users.usecase_update_does]) (auto simp: ExUpdateUser)
  qed
  with ExUpdateUser assms(1) show ?thesis
    by (auto simp: ex_update_user_def intro!: named_does result_does)
next
  case (ExDeleteUser nam allowMissing etag)
  with assms(1) show ?thesis
    by (auto simp: ex_delete_user_def intro!: named_does respond_does [OF ex_users.usecase_delete_does])
next
  case (ExUndeleteUser nam)
  with assms(1) show ?thesis
    by (auto simp: ex_undelete_user_def usecase_undelete_user_def max_undelete_attempts_def
        undeletes_def intro!: named_does respond_does [OF ex_users.undelete_attempts_does])
qed

lemma ex_handle_untargeted:
  "ex_target plan rpc = Inl e \<Longrightarrow> ex_handle E L plan repo rpc w = (Inl e, w)"
  by (cases rpc) (simp_all add: ex_get_user_def ex_create_user_def ex_update_user_def ex_delete_user_def
      ex_undelete_user_def check_run)

lemma ex_fits_refused: "ex_fits rpc (Inl e) []"
  by (cases rpc) simp_all

text \<open>
  C11. A request to the example service changes the store only by atomic steps of the life of the one user
  it names, whatever other requests do between its statements: none for a read, a birth for a creation,
  an edit or a burial of the version whose etag the client named, a birth for an update that allows
  missing users, and at most three restorations for an undeletion. An answer without an error means what it says: a
  read saw the user; a creation, an update or a deletion took its step, or, for a deletion that allows missing users,
  its last sight of the user was deleted; the last thing an undeletion did was to restore the user or to see it active.
  And no two users ever share a name.
\<close>

theorem example_requests_follow_lifecycle:
  assumes "ex_handle E L plan (new_ex_repo E L) rpc w = (r, w')"
    and "others_keep E ex_wf" "ex_wf (dw_db w)"
    and "marks_deleted L" "copies_state L" "keeps_options plan"
  shows "\<exists>es. ex_fits rpc r es \<and> ex_wf (dw_db w') \<and>
    (case ex_target plan rpc of
       Inl e \<Rightarrow> r = Inl e \<and> es = [] \<and> w' = w
     | Inr n \<Rightarrow> ex_run E n (dw_db w) es (dw_db w'))"
proof (cases "ex_target plan rpc")
  case (Inl e)
  with assms(1,3) ex_handle_untargeted [OF Inl, of E L "new_ex_repo E L" w] show ?thesis
    by (auto simp: ex_fits_refused)
next
  case (Inr n)
  from doesD [OF ex_handle_does [OF Inr assms(6)] assms(1)] assms(2-5) Inr show ?thesis
    by (auto simp: ex_acts_def)
qed

section \<open>Alone with the store\<close>

lemma one_row:
  assumes "ex_wf d" "users_of d n = Some r" "P r" "\<And>s. P s \<Longrightarrow> ex_key s = n"
  shows "filter P d = [r]"
proof -
  have "ent_only P d = Inr r"
    by (rule unique_by_only [OF ex_wf_unique [OF assms(1)], of r n])
      (use users_of_Some [OF assms(2)] assms(3,4) in auto)
  then show ?thesis by (simp add: ent_only_Inr)
qed

lemma quiet_get:
  assumes "quiet E" "ex_wf (dw_db w)" "users_of (dw_db w) n = Some r" "b \<or> er_delete r = None"
  shows "repo_get_user E L n b w = (Inr (Some (ex_to_dto L r)), w\<lparr>tick := Suc (tick w)\<rparr>)"
proof -
  have "filter (\<lambda>r. by_name n r \<and> (b \<or> er_delete r = None)) (dw_db w) = [r]"
    by (rule one_row [OF assms(2,3)]) (use users_of_Some [OF assms(3)] assms(4) in \<open>auto simp: by_name_key\<close>)
  then show ?thesis
    by (simp add: repo_get_user_def check_run quiet_run [OF assms(1)] query_only_def only_def ent_only_def
        ex_users_t_def)
qed

text \<open>A statement that changed the row of the name, and the read after it.\<close>

lemma quiet_one_affected:
  assumes "quiet E" "ex_wf (dw_db w)" "users_of (dw_db w) n = Some r" "P r" "\<And>s. P s \<Longrightarrow> ex_key s = n"
    and "\<And>s. ex_key (f s) = ex_key s"
    and "s (clock E (tick w)) (dw_db w) = update_where ex_users_t P (\<lambda>_. f) t (dw_db w)"
  obtains w' where "one_affected x (db_exec E s) (repo_get_user E L n True) w = (Inr (Some (ex_to_dto L (f r))), w')"
    "ex_wf (dw_db w')" "users_of (dw_db w') = (users_of (dw_db w))(n \<mapsto> f r)" "tick w' = Suc (Suc (tick w))"
proof -
  let ?d = "ent_update_where P f (dw_db w)"
  have one: "filter P (dw_db w) = [r]" using assms(2-5) by (intro one_row)
  have in_d: "r \<in> set (dw_db w)" using users_of_Some [OF assms(3)] by blast
  have d: "ex_wf ?d" "users_of ?d = (users_of (dw_db w))(n \<mapsto> f r)"
    using assms(2,6) by (auto intro!: ex_wf_update users_of_update in_d assms(4,5))
  let ?v = "w\<lparr>tick := Suc (tick w), dw_db := ?d\<rparr>"
  have "one_affected x (db_exec E s) (repo_get_user E L n True) w = repo_get_user E L n True ?v"
    by (simp add: one_affected_def check_run quiet_run [OF assms(1)] assms(7) update_where_def ex_users_t_def one)
  also have "\<dots> = (Inr (Some (ex_to_dto L (f r))), ?v\<lparr>tick := Suc (tick ?v)\<rparr>)"
    by (rule quiet_get [OF assms(1)]) (use d in simp_all)
  finally show thesis by (rule that) (use d in simp_all)
qed

lemma quiet_delete:
  assumes "quiet E" "ex_wf (dw_db w)" "users_of (dw_db w) n = Some r" "er_delete r = None" "marks_deleted L"
  obtains w' where "repo_delete_user E L n (er_etag r) w
      = (Inr (Some (ex_to_dto L (xl_tombstone L (clock E (tick w)) r))), w')"
    "ex_wf (dw_db w')" "users_of (dw_db w') = (users_of (dw_db w))(n \<mapsto> xl_tombstone L (clock E (tick w)) r)"
    "tick w' = Suc (Suc (tick w))"
  unfolding repo_delete_user_def
  by (rule quiet_one_affected [OF assms(1-3), of "by_active_etag n (er_etag r)"
        "xl_tombstone L (clock E (tick w))" "delete_exec L (by_active_etag n (er_etag r))" "clock E (tick w)"])
    (use users_of_Some [OF assms(3)] assms(4,5) in
      \<open>auto simp: by_active_etag_def by_name_key marks_deletedD delete_exec_def update_where_def\<close>)

lemma quiet_undelete:
  assumes "quiet E" "ex_wf (dw_db w)" "users_of (dw_db w) n = Some r" "er_delete r \<noteq> None" "g \<noteq> []"
  obtains w' where "repo_undelete_user E L n g w = (Inr (Some (ex_to_dto L (r\<lparr>er_delete := None, er_purge := None,
      er_deleted_by := None, er_etag := g, er_update := clock E (tick w)\<rparr>))), w')"
    "ex_wf (dw_db w')" "users_of (dw_db w') = (users_of (dw_db w))(n \<mapsto> r\<lparr>er_delete := None, er_purge := None,
      er_deleted_by := None, er_etag := g, er_update := clock E (tick w)\<rparr>)" "tick w' = Suc (Suc (tick w))"
  unfolding repo_undelete_user_def
  by (rule quiet_one_affected [OF assms(1-3), of "\<lambda>r. by_name n r \<and> er_delete r \<noteq> None"
        "\<lambda>r. r\<lparr>er_delete := None, er_purge := None, er_deleted_by := None, er_etag := g,
           er_update := clock E (tick w)\<rparr>"
        "update_save L (\<lambda>r. by_name n r \<and> er_delete r \<noteq> None) (undelete_mutation g)" "clock E (tick w)"])
    (use users_of_Some [OF assms(3)] assms(4,5) in
      \<open>auto simp: by_name_key ex_key_def update_save_def Let_def undelete_spec update_where_def\<close>)

lemma restored_tombstone:
  assumes "marks_deleted L" "er_delete r = None" "er_purge r = None" "er_deleted_by r = None"
  shows "er_delete (xl_tombstone L t r) \<noteq> None"
    and "(xl_tombstone L t r)\<lparr>er_delete := None, er_purge := None, er_deleted_by := None, er_etag := g,
           er_update := t'\<rparr> = r\<lparr>er_etag := g, er_update := t'\<rparr>"
proof -
  obtain d p b u where "xl_tombstone L t r =
      r\<lparr>er_delete := Some d, er_purge := p, er_deleted_by := b, er_update := u\<rparr>"
    using assms(1) unfolding marks_deleted_def by blast
  with assms(2-4) show "er_delete (xl_tombstone L t r) \<noteq> None"
    and "(xl_tombstone L t r)\<lparr>er_delete := None, er_purge := None, er_deleted_by := None, er_etag := g,
           er_update := t'\<rparr> = r\<lparr>er_etag := g, er_update := t'\<rparr>"
    by (cases r; simp)+
qed

text \<open>
  C24. On a store that nobody else uses, deleting an active user and undeleting it both succeed at the
  first attempt: the deletion answers with the tombstone, made at a time that it read; the undeletion answers with the
  active user, whose row has every column it had before but a new etag, the base64 of sixteen bytes that the undeletion
  drew from the random source, and a new update time, which the undeletion read from the clock; and no other user changed.
\<close>

theorem deleted_user_can_be_restored:
  assumes "quiet E" "\<And>k. \<exists>v. rand_read E k 16 = Inr v \<and> length v = 16"
    and "copies_state L" "marks_deleted L"
    and "ex_wf (dw_db w)" "users_of (dw_db w) n = Some r"
    and "er_delete r = None" "er_purge r = None" "er_deleted_by r = None"
    and "etag = [] \<or> etag = er_etag r"
  shows "\<exists>u w1 t v w2 k b t'.
    usecase_delete_user (new_ex_repo E L) n allowMissing etag w = (Inr (Some u), w1)
    \<and> eu_delete u \<noteq> None \<and> users_of (dw_db w1) = (users_of (dw_db w))(n \<mapsto> xl_tombstone L t r)
    \<and> reads_clock E w w1 t
    \<and> usecase_undelete_user E (new_ex_repo E L) n w1 = (Inr (Some v), w2)
    \<and> tick w1 \<le> k \<and> k < tick w2 \<and> rand_read E k 16 = Inr b \<and> length b = 16 \<and> reads_clock E w1 w2 t'
    \<and> eu_delete v = None \<and> v = ex_to_dto L (r\<lparr>er_etag := b64_encode b, er_update := t'\<rparr>)
    \<and> users_of (dw_db w2) = (users_of (dw_db w))(n \<mapsto> r\<lparr>er_etag := b64_encode b, er_update := t'\<rparr>)"
proof -
  let ?repo = "new_ex_repo E L" and ?next = "\<lambda>v :: ex_world. v\<lparr>tick := Suc (tick v)\<rparr>"
  note repo [simp] = new_ex_repo_def
  note at [simp] = repo_result_def check_run
  let ?w = "?next w"
  let ?t = "clock E (tick ?w)"
  have g1: "repo_get_user E L n True w = (Inr (Some (ex_to_dto L r)), ?w)"
    using quiet_get [OF assms(1,5,6)] by simp
  obtain w1 where d: "repo_delete_user E L n (er_etag r) ?w = (Inr (Some (ex_to_dto L (xl_tombstone L ?t r))), w1)"
    "ex_wf (dw_db w1)" "users_of (dw_db w1) = (users_of (dw_db w))(n \<mapsto> xl_tombstone L ?t r)"
    "tick w1 = Suc (Suc (tick ?w))"
    by (rule quiet_delete [OF assms(1), of ?w n r L]) (use assms in auto)
  have del: "usecase_delete_user ?repo n allowMissing etag w = (Inr (Some (ex_to_dto L (xl_tombstone L ?t r))), w1)"
    using g1 d(1) assms(7,10) copied [OF assms(3)] by (auto simp: usecase_delete_user_def)
  note tomb = restored_tombstone [OF assms(4,7-9)]
  have g2: "repo_get_user E L n True w1 = (Inr (Some (ex_to_dto L (xl_tombstone L ?t r))), ?next w1)"
    using quiet_get [OF assms(1) d(2)] d(3) by simp
  obtain b where b: "rand_read E (tick (?next w1)) 16 = Inr b" "length b = 16" using assms(2) by blast
  then have g: "b64_encode b \<noteq> []" by auto
  let ?g = "b64_encode b"
  let ?w2 = "?next (?next w1)"
  let ?t' = "clock E (tick ?w2)"
  have etag: "new_etag E (?next w1) = (Inr ?g, ?w2)" using b(1) by (simp add: new_etag_def)
  obtain w2 where u: "repo_undelete_user E L n ?g ?w2 = (Inr (Some (ex_to_dto L (r\<lparr>er_etag := ?g, er_update := ?t'\<rparr>))), w2)"
    "users_of (dw_db w2) = (users_of (dw_db w1))(n \<mapsto> r\<lparr>er_etag := ?g, er_update := ?t'\<rparr>)" "tick w2 = Suc (Suc (tick ?w2))"
    by (rule quiet_undelete [OF assms(1), of ?w2 n "xl_tombstone L ?t r" ?g L]) (use d g tomb in auto)
  have und: "usecase_undelete_user E ?repo n w1 = (Inr (Some (ex_to_dto L (r\<lparr>er_etag := ?g, er_update := ?t'\<rparr>))), w2)"
    using g2 etag u(1) tomb(1) [of ?t] assms(7) copied [OF assms(3)]
    by (auto simp: usecase_undelete_user_def max_undelete_attempts_def numeral_3_eq_3 or_internal_def)
  have c: "reads_clock E w w1 ?t" "reads_clock E w1 w2 ?t'" using d(4) u(3) by (auto intro!: reads_clockI)
  show ?thesis
    by (rule exI, rule exI, rule exI, rule exI, rule exI, rule exI [where x = "tick (?next w1)"], rule exI, rule exI,
      intro conjI, rule del, use tomb(1) copied [OF assms(3)] in simp, rule d(3), rule c(1), rule und)
      (use b c u d(3) copied [OF assms(3)] assms(7) in simp_all)
qed

section \<open>Findings\<close>

text \<open>A user may be created with the identifier \<open>-\<close>, which every other method refuses.\<close>

lemma dash_user_is_unreachable:
  assumes "user_scope plan parent = Inr tenant"
  shows "create_name plan parent ''-'' = Inr (new_user_name tenant ''-'')"
    and "user_name_format (new_user_name tenant ''-'') = Inr nam \<Longrightarrow> one_user_name nam = Inl crud_invalid_name"
proof -
  from assms have "tenant \<noteq> []" "CHR ''/'' \<notin> set tenant"
    by (auto simp: user_scope_def new_user_scope_def split: sum.splits option.splits if_splits)
  then show "create_name plan parent ''-'' = Inr (new_user_name tenant ''-'')"
    using assms by (simp add: create_name_def user_name_validate_def new_user_name_def)
  show "one_user_name nam = Inl crud_invalid_name" if "user_name_format (new_user_name tenant ''-'') = Inr nam"
    using parse_formatted [OF that] by (simp add: one_user_name_def new_user_name_def)
qed

text \<open>The use case takes the temporary password out of the resource before the Clear helper sees it, so
  a new password is both cleared and set by the statement.\<close>

lemma password_assigned_twice:
  assumes "xl_clear L u [path_temporary_password] = Inr [path_temporary_password]"
    and "update_mutation L u [path_temporary_password] (Some hash) = Inr m"
  shows "twice_assigned m = [''password_hash'']"
  using assms
  by (auto simp: update_mutation_def clear_apply_def clear_path_def clear_field_def ex_clears ex_paths
      new_user_mutation_def set_mask_path_def twice_assigned_def)

end
