(* ===== verification/ExampleDemo.thy ===== *)
theory ExampleDemo
  imports ExampleServed
begin

definition alpha_row :: ex_row where
  "alpha_row = \<lparr>er_tenant = ''acme'', er_resource = ''alpha'', er_display = ''Alpha'', er_email = ''a@x'',
     er_plan = [], er_nickname = None, er_password = None, er_etag = ''e1'', er_create = 1, er_update = 1,
     er_delete = None, er_purge = None, er_deleted_by = None\<rparr>"

definition beta_row :: ex_row where
  "beta_row = alpha_row\<lparr>er_resource := ''beta''\<rparr>"

text \<open>At the second tick another request creates beta.\<close>

definition busy_env :: "ex_db dbenv" where
  "busy_env = \<lparr>clock = (\<lambda>n. 100 + int n), uuid_v7 = (\<lambda>_. Inr ''u''), rand_read = (\<lambda>n k. Inr (replicate k (CHR ''r''))),
     store_fault = (\<lambda>_. None),
     de_others = (\<lambda>n d. if n = 1 \<and> \<not> list_ex (ex_clash beta_row) d then d @ [beta_row] else d)\<rparr>"

definition calm_env :: "ex_db dbenv" where "calm_env = busy_env\<lparr>de_others := (\<lambda>n d. d)\<rparr>"

definition sample_ex_lib :: ex_lib where
  "sample_ex_lib = \<lparr>
     xl_copy = (\<lambda>q r. \<lparr>eu_name = (case q of Inr s \<Rightarrow> s | Inl _ \<Rightarrow> []), eu_display = Some (er_display r),
       eu_email = Some (er_email r), eu_plan = Some (er_plan r), eu_nickname = er_nickname r, eu_password = None,
       eu_etag = er_etag r, eu_create = Some (er_create r), eu_update = Some (er_update r),
       eu_delete = er_delete r, eu_purge = er_purge r\<rparr>),
     xl_clear = (\<lambda>u ps. Inr (filter (\<lambda>p. p = path_nickname \<and> eu_nickname u = None) ps)),
     xl_tombstone = (\<lambda>t r. r\<lparr>er_delete := Some t, er_update := t\<rparr>),
     xl_bcrypt = (\<lambda>_ p. Inr (''hash:'' @ p)), xl_twice = (\<lambda>_. None)\<rparr>"

definition sample_ex_plan :: ex_plan where
  "sample_ex_plan = \<lparr>ep_parent = (\<lambda>p. Inr (Some (trim_prefix p ''tenants/''))),
     ep_create = (\<lambda>u. case u of None \<Rightarrow> Inl (errorf ''user is required'') | Some x \<Rightarrow> Inr x),
     ep_update = (\<lambda>u m a g. case u of None \<Rightarrow> Inl (errorf ''user is required'')
        | Some x \<Rightarrow> Inr \<lparr>pe_allow_missing = a, pe_etag = g, pe_validate_immutable = (\<lambda>_. None), pe_resource = x,
                     pe_write_mask = (case m of None \<Rightarrow> [] | Some ps \<Rightarrow> ps)\<rparr>),
     ep_response = Inr\<rparr>"

abbreviation start_world :: ex_world where "start_world \<equiv> \<lparr>tick = 0, dw_db = [alpha_row]\<rparr>"

abbreviation alpha_name :: string where "alpha_name \<equiv> ''tenants/acme/users/alpha''"

lemma sample_laws:
  "others_keep busy_env ex_wf" "ex_wf [alpha_row]" "marks_deleted sample_ex_lib" "keeps_options sample_ex_plan"
  "copies_state sample_ex_lib" "quiet calm_env"
proof -
  show "others_keep busy_env ex_wf"
    by (auto simp: others_keep_def busy_env_def intro: no_clash_create)
  show "ex_wf [alpha_row]" by (simp add: no_clash_def)
  have "xl_tombstone sample_ex_lib t r =
      r\<lparr>er_delete := Some t, er_purge := er_purge r, er_deleted_by := er_deleted_by r, er_update := t\<rparr>" for t r
    by (simp add: sample_ex_lib_def)
  then show "marks_deleted sample_ex_lib" unfolding marks_deleted_def by blast
qed (auto simp: keeps_options_def sample_ex_plan_def copies_state_def sample_ex_lib_def quiet_def calm_env_def
    busy_env_def split: option.splits)

lemma alpha_is_there: "users_of [alpha_row] (new_user_name ''acme'' ''alpha'') = Some alpha_row"
  by (simp add: users_of_def ex_key_def alpha_row_def)

lemma delete_among_others:
  "ex_handle busy_env sample_ex_lib sample_ex_plan (new_ex_repo busy_env sample_ex_lib)
     (ExDeleteUser alpha_name False ''e1'') start_world
   = (Inr (Some (ex_to_dto sample_ex_lib (alpha_row\<lparr>er_delete := Some 101, er_update := 101\<rparr>))),
      \<lparr>tick = 3, dw_db = [alpha_row\<lparr>er_delete := Some 101, er_update := 101\<rparr>, beta_row]\<rparr>)"
  by code_simp

text \<open>The same for an undeletion, which finds its user active at the first attempt.\<close>

lemma undelete_active:
  "ex_handle busy_env sample_ex_lib sample_ex_plan (new_ex_repo busy_env sample_ex_lib) (ExUndeleteUser alpha_name) start_world
   = (Inr (Some (ex_to_dto sample_ex_lib alpha_row)), \<lparr>tick = 1, dw_db = [alpha_row]\<rparr>)"
  by code_simp

theorem example_requests_follow_lifecycle_witness:
  "(\<exists>es. ex_fits (ExDeleteUser alpha_name False ''e1'')
       (Inr (Some (ex_to_dto sample_ex_lib (alpha_row\<lparr>er_delete := Some 101, er_update := 101\<rparr>)))) es
     \<and> ex_wf [alpha_row\<lparr>er_delete := Some 101, er_update := 101\<rparr>, beta_row]
     \<and> ex_run busy_env (new_user_name ''acme'' ''alpha'') [alpha_row] es
         [alpha_row\<lparr>er_delete := Some 101, er_update := 101\<rparr>, beta_row])
   \<and> (\<exists>es. ex_fits (ExUndeleteUser alpha_name) (Inr (Some (ex_to_dto sample_ex_lib alpha_row))) es
     \<and> ex_run busy_env (new_user_name ''acme'' ''alpha'') [alpha_row] es [alpha_row])"
proof
  have target: "ex_target sample_ex_plan (ExDeleteUser alpha_name False ''e1'') = Inr (new_user_name ''acme'' ''alpha'')"
    "ex_target sample_ex_plan (ExUndeleteUser alpha_name) = Inr (new_user_name ''acme'' ''alpha'')"
    by code_simp+
  show "\<exists>es. ex_fits (ExDeleteUser alpha_name False ''e1'')
       (Inr (Some (ex_to_dto sample_ex_lib (alpha_row\<lparr>er_delete := Some 101, er_update := 101\<rparr>)))) es
     \<and> ex_wf [alpha_row\<lparr>er_delete := Some 101, er_update := 101\<rparr>, beta_row]
     \<and> ex_run busy_env (new_user_name ''acme'' ''alpha'') [alpha_row] es
         [alpha_row\<lparr>er_delete := Some 101, er_update := 101\<rparr>, beta_row]"
    using example_requests_follow_lifecycle [OF delete_among_others, unfolded target] sample_laws(1-5) by simp
  show "\<exists>es. ex_fits (ExUndeleteUser alpha_name) (Inr (Some (ex_to_dto sample_ex_lib alpha_row))) es
     \<and> ex_run busy_env (new_user_name ''acme'' ''alpha'') [alpha_row] es [alpha_row]"
    using example_requests_follow_lifecycle [OF undelete_active, unfolded target] sample_laws(1-5) by auto
qed

theorem deleted_user_can_be_restored_witness:
  "\<exists>u w1 t v w2 k b t'.
    usecase_delete_user (new_ex_repo calm_env sample_ex_lib) (new_user_name ''acme'' ''alpha'') False ''e1'' start_world
      = (Inr (Some u), w1)
    \<and> eu_delete u \<noteq> None \<and> users_of (dw_db w1) = (users_of [alpha_row])(new_user_name ''acme'' ''alpha''
        \<mapsto> xl_tombstone sample_ex_lib t alpha_row)
    \<and> reads_clock calm_env start_world w1 t
    \<and> usecase_undelete_user calm_env (new_ex_repo calm_env sample_ex_lib) (new_user_name ''acme'' ''alpha'') w1
      = (Inr (Some v), w2)
    \<and> tick w1 \<le> k \<and> k < tick w2 \<and> rand_read calm_env k 16 = Inr b \<and> length b = 16 \<and> reads_clock calm_env w1 w2 t'
    \<and> eu_delete v = None \<and> v = ex_to_dto sample_ex_lib (alpha_row\<lparr>er_etag := b64_encode b, er_update := t'\<rparr>)
    \<and> users_of (dw_db w2) = (users_of [alpha_row])(new_user_name ''acme'' ''alpha''
        \<mapsto> alpha_row\<lparr>er_etag := b64_encode b, er_update := t'\<rparr>)"
proof -
  have "\<exists>v. rand_read calm_env k 16 = Inr v \<and> length v = 16" for k
    by (simp add: calm_env_def busy_env_def)
  from deleted_user_can_be_restored [of calm_env sample_ex_lib start_world "new_user_name ''acme'' ''alpha''"
      alpha_row "''e1''" False, OF _ this]
  show ?thesis using sample_laws alpha_is_there by (simp add: alpha_row_def)
qed

end
