(* ===== verification/GoText.thy ===== *)
theory GoText
  imports GoStrings
begin

text \<open>
  Prelude: text encodings of Go's standard library that the audit service uses. \<open>encoding/base64\<close> with
  the padded standard alphabet and \<open>encoding/json\<close> for strings.
\<close>

section \<open>Base64 with padding\<close>

definition std_alphabet :: string where
  "std_alphabet = ''ABCDEFGHIJKLMNOPQRSTUVWXYZabcdefghijklmnopqrstuvwxyz0123456789+/''"

definition std_value :: "char \<Rightarrow> nat option" where
  "std_value c =
     (if c \<in> set std_alphabet then Some (length (takeWhile (\<lambda>x. x \<noteq> c) std_alphabet)) else None)"

definition padding_of :: "nat \<Rightarrow> nat" where
  "padding_of n = (4 - n mod 4) mod 4"

definition std_encode :: "string \<Rightarrow> string" where
  "std_encode s =
     (let body = map (\<lambda>n. std_alphabet ! n) (sextets (map ord_of s)) in
      body @ replicate (padding_of (length body)) (CHR ''=''))"

text \<open>\<open>StdEncoding.DecodeString\<close> skips line breaks, asks for padding and ignores unused low bits.\<close>

definition padding_at_end :: "string \<Rightarrow> nat" where
  "padding_at_end t =
     (if drop (length t - 2) t = ''=='' then 2 else if drop (length t - 1) t = ''='' then 1 else 0)"

definition std_decode :: "string \<Rightarrow> string option" where
  "std_decode s =
     (let t = filter (\<lambda>c. ord_of c \<noteq> 10 \<and> ord_of c \<noteq> 13) s in
      if length t mod 4 \<noteq> 0 then None
      else
        case those (map std_value (take (length t - padding_at_end t) t)) of
          None \<Rightarrow> None
        | Some vs \<Rightarrow> map_option (map char_of) (octets vs))"

lemma length_std_alphabet [simp]: "length std_alphabet = 64"
  by (simp add: std_alphabet_def)

lemma std_value_nth [simp]: "n < 64 \<Longrightarrow> std_value (std_alphabet ! n) = Some n"
proof -
  have "distinct std_alphabet" by (simp add: std_alphabet_def)
  then show "n < 64 \<Longrightarrow> std_value (std_alphabet ! n) = Some n"
    by (simp add: std_value_def takeWhile_nth)
qed

lemma std_alphabet_visible:
  "c \<in> set std_alphabet \<Longrightarrow> ord_of c \<noteq> 10 \<and> ord_of c \<noteq> 13 \<and> c \<noteq> CHR ''=''"
  by (auto simp: std_alphabet_def)

lemma length_sextets_mod: "length (sextets bs) mod 4 \<noteq> 1"
  by (induction bs rule: sextets.induct) auto

lemma padding_fills: "(n + padding_of n) mod 4 = 0"
proof -
  have "n mod 4 \<in> {0, 1, 2, 3}" by (simp, arith)
  then show ?thesis unfolding padding_of_def by (subst mod_add_left_eq [symmetric]) auto
qed

lemma padding_cases:
  assumes "n mod 4 \<noteq> 1"
  obtains "padding_of n = 0" | "padding_of n = 1" | "padding_of n = 2"
proof -
  have "n mod 4 \<in> {0, 2, 3}" using assms by (simp, arith)
  then show thesis using that by (auto simp: padding_of_def)
qed

lemma padding_at_end_body:
  assumes "CHR ''='' \<notin> set body" "length body mod 4 \<noteq> 1"
  shows "padding_at_end (body @ replicate (padding_of (length body)) (CHR ''='')) = padding_of (length body)"
proof -
  have last: "drop (length body - k) body \<noteq> ''=''" "drop (length body - k) body \<noteq> ''==''" for k
    using assms(1) by (metis in_set_dropD list.set_intros(1))+
  from assms(2) show ?thesis
  proof (cases rule: padding_cases)
    case 1
    then show ?thesis using last by (simp add: padding_at_end_def)
  next
    case 2
    have "drop (length body - 1) body @ ''='' \<noteq> ''==''"
    proof
      assume "drop (length body - 1) body @ ''='' = ''==''"
      then have "drop (length body - 1) body = ''=''" by simp
      with last show False by blast
    qed
    with 2 show ?thesis by (simp add: padding_at_end_def)
  next
    case 3
    then show ?thesis by (simp add: padding_at_end_def numeral_2_eq_2)
  qed
qed

lemma std_roundtrip [simp]: "std_decode (std_encode s) = Some s"
proof -
  let ?vs = "sextets (map ord_of s)"
  let ?body = "map (\<lambda>n. std_alphabet ! n) ?vs"
  let ?t = "std_encode s"
  have b: "\<forall>v \<in> set ?vs. v < 64" by (rule sextets_bound) simp
  then have vis: "\<forall>c \<in> set ?body. ord_of c \<noteq> 10 \<and> ord_of c \<noteq> 13 \<and> c \<noteq> CHR ''=''"
    by (auto intro!: std_alphabet_visible)
  then have eq: "CHR ''='' \<notin> set ?body" by blast
  have f: "filter (\<lambda>c. ord_of c \<noteq> 10 \<and> ord_of c \<noteq> 13) ?t = ?t"
    using vis by (auto simp: std_encode_def Let_def filter_id_conv)
  have p: "padding_at_end ?t = padding_of (length ?body)"
    unfolding std_encode_def Let_def using length_sextets_mod [of "map ord_of s"] by (intro padding_at_end_body [OF eq]) simp
  have l: "length ?t mod 4 = 0" using padding_fills [of "length ?vs"] by (simp add: std_encode_def Let_def)
  have t: "take (length ?t - padding_at_end ?t) ?t = ?body"
    unfolding p by (simp add: std_encode_def Let_def)
  have m: "those (map std_value ?body) = Some ?vs"
    using those_map_Some [of ?vs "\<lambda>n. std_value (std_alphabet ! n)" id] b by (simp add: o_def)
  have "octets ?vs = Some (map ord_of s)" by (rule octets_sextets) simp
  then show ?thesis by (simp only: std_decode_def Let_def f l t m) (simp add: o_def)
qed

lemma std_encode_Nil_iff [simp]: "std_encode s = [] \<longleftrightarrow> s = []"
proof
  assume "std_encode s = []"
  moreover have "std_decode [] = Some []" by (simp add: std_decode_def padding_at_end_def)
  ultimately show "s = []" using std_roundtrip [of s] by simp
qed (simp add: std_encode_def padding_of_def)

section \<open>JSON strings\<close>

text \<open>\<open>json.Marshal\<close> of a string: HTML characters escaped, invalid UTF-8 replaced.\<close>

definition json_escape_byte :: "nat \<Rightarrow> string" where
  "json_escape_byte n =
     (if n = 34 \<or> n = 92 then [CHR 0x5C, char_of n]
      else if n = 8 then [CHR 0x5C, CHR ''b'']
      else if n = 12 then [CHR 0x5C, CHR ''f'']
      else if n = 10 then [CHR 0x5C, CHR ''n'']
      else if n = 13 then [CHR 0x5C, CHR ''r'']
      else if n = 9 then [CHR 0x5C, CHR ''t'']
      else if n < 32 \<or> n = 60 \<or> n = 62 \<or> n = 38
      then CHR 0x5C # ''u00'' @ [hex_digit (n div 16), hex_digit (n mod 16)]
      else [char_of n])"

definition json_escape_rune :: "nat option \<times> string \<Rightarrow> string" where
  "json_escape_rune r =
     (case r of
        (None, _) \<Rightarrow> CHR 0x5C # ''ufffd''
      | (Some n, bytes) \<Rightarrow>
          if n < 128 then json_escape_byte n
          else if n = 8232 then CHR 0x5C # ''u2028''
          else if n = 8233 then CHR 0x5C # ''u2029''
          else bytes)"

definition json_string :: "string \<Rightarrow> string" where
  "json_string s = CHR 0x22 # concat (map json_escape_rune (runes s)) @ [CHR 0x22]"

text \<open>
  \<open>strings.ToLower\<close> up to runes that stay outside ASCII: the two non-ASCII runes whose lower case is an
  ASCII letter are the dotted capital I and the Kelvin sign.
\<close>

definition lower_rune :: "nat option \<times> string \<Rightarrow> string" where
  "lower_rune r =
     (case r of
        (Some n, bytes) \<Rightarrow>
          if 65 \<le> n \<and> n \<le> 90 then [char_of (n + 32)]
          else if n = 304 then ''i''
          else if n = 8490 then ''k''
          else bytes
      | (None, bytes) \<Rightarrow> bytes)"

definition to_lower :: "string \<Rightarrow> string" where
  "to_lower s = concat (map lower_rune (runes s))"

text \<open>What follows the last separator; the whole string when there is none.\<close>

definition after_last :: "char \<Rightarrow> string \<Rightarrow> string" where
  "after_last c s = rev (takeWhile (\<lambda>x. x \<noteq> c) (rev s))"

end
