(* ===== verification/AuditEvents.thy ===== *)
theory AuditEvents
  imports GoText
begin

text \<open>
  \<open>app/audit/service/internal/data\<close>, projection: how a CloudEvent becomes a row of the table
  \<open>audit_events\<close> (\<open>batch_writer.go\<close>) and which events are accepted (\<open>consumer.go\<close>). An event is what the
  accessors of the CloudEvents SDK return.
\<close>

section \<open>Events\<close>

text \<open>An extension is a string, or another value with its \<open>fmt.Sprint\<close> text.\<close>

datatype ext_value = ExtString string | ExtOther string

record cloud_event =
  ce_id :: string
  ce_type :: string
  ce_spec_version :: string
  ce_source :: string
  ce_subject :: string
  ce_time :: time
  ce_extensions :: "string \<rightharpoonup> ext_value"
  ce_data :: string
  ce_content_type :: string
  ce_schema :: string

record audit_row =
  ev_event_id :: string
  ev_event_type :: string
  ev_event_version :: string
  ev_occurred :: time
  ev_service :: string
  ev_operation :: string
  ev_actor_id :: string
  ev_actor_type :: string
  ev_actor_display :: string
  ev_target_type :: string
  ev_target_id :: string
  ev_target_name :: string
  ev_success :: bool
  ev_error_code :: string
  ev_error_message :: string
  ev_trace_id :: string
  ev_request_id :: string
  ev_detail :: string

text \<open>The registry of message types: full name and bytes to the JSON text of the message.\<close>

type_synonym proto_registry = "string \<Rightarrow> string \<Rightarrow> string option"

definition ext_auth_id :: string where "ext_auth_id = ''authid''"
definition ext_auth_type :: string where "ext_auth_type = ''authtype''"
definition ext_error_message :: string where "ext_error_message = ''errormessage''"
definition ext_trace_parent :: string where "ext_trace_parent = ''traceparent''"

definition ext_string :: "(string \<rightharpoonup> ext_value) \<Rightarrow> string \<Rightarrow> string" where
  "ext_string exts name =
     (case exts name of
        Some (ExtString s) \<Rightarrow> s
      | Some (ExtOther shown) \<Rightarrow> shown
      | None \<Rightarrow> [])"

record event_projection =
  ep_actor_id :: string
  ep_actor_type :: string
  ep_target_type :: string
  ep_target_id :: string
  ep_error_code :: string
  ep_error_message :: string

definition project_event :: "cloud_event option \<Rightarrow> event_projection" where
  "project_event event =
     (case event of
        None \<Rightarrow>
          \<lparr>ep_actor_id = [], ep_actor_type = [], ep_target_type = [], ep_target_id = [], ep_error_code = [],
           ep_error_message = []\<rparr>
      | Some e \<Rightarrow>
          \<lparr>ep_actor_id = ext_string (ce_extensions e) ext_auth_id,
           ep_actor_type = ext_string (ce_extensions e) ext_auth_type,
           ep_target_type = [], ep_target_id = ce_subject e, ep_error_code = [],
           ep_error_message = ext_string (ce_extensions e) ext_error_message\<rparr>)"

definition success_from_ce_type :: "string \<Rightarrow> string \<Rightarrow> bool" where
  "success_from_ce_type ceType errMsg \<longleftrightarrow> errMsg = []"

definition service_from_source :: "string \<Rightarrow> string" where
  "service_from_source source =
     (if source = [] then []
      else if has_prefix source ''//'' then trim_prefix source ''//''
      else
        case cut (CHR ''/'') (trim_prefix source ''/'') of
          (service, _, found) \<Rightarrow> if found \<and> service \<noteq> [] then service else source)"

definition operation_from_event :: "cloud_event option \<Rightarrow> string" where
  "operation_from_event e =
     (case e of
        None \<Rightarrow> []
      | Some event \<Rightarrow> if ce_subject event \<noteq> [] then ce_subject event else ce_type event)"

definition trace_id_from_traceparent :: "string \<Rightarrow> string" where
  "trace_id_from_traceparent tp =
     (if tp = [] then []
      else
        case split_on (CHR ''-'') tp of
          _ # traceID # _ \<Rightarrow> if length traceID = 32 then traceID else tp
        | _ \<Rightarrow> tp)"

definition proto_to_json :: "proto_registry \<Rightarrow> string \<Rightarrow> string \<Rightarrow> string option" where
  "proto_to_json registry schemaURL bytes =
     (let fullName = after_last (CHR ''/'') schemaURL in
      if fullName = [] then None else registry fullName bytes)"

definition base64_envelope :: "string \<Rightarrow> string \<Rightarrow> string \<Rightarrow> string" where
  "base64_envelope contentType schema bytes =
     CHR 0x7B # json_string ''_content_type'' @ '':'' @ json_string contentType
       @ '','' @ json_string ''_raw_base64'' @ '':'' @ json_string (std_encode bytes)
       @ '','' @ json_string ''_schema'' @ '':'' @ json_string schema @ [CHR 0x7D]"

definition detail_json :: "proto_registry \<Rightarrow> cloud_event \<Rightarrow> string" where
  "detail_json registry e =
     (let contentType = to_lower (ce_content_type e);
          envelope = base64_envelope (ce_content_type e) (ce_schema e) (ce_data e) in
      if ce_data e = [] then [CHR 0x7B, CHR 0x7D]
      else if has_prefix contentType ''application/json'' \<or> has_prefix contentType ''application/cloudevents+json''
      then ce_data e
      else if has_prefix contentType ''application/protobuf'' \<or> has_prefix contentType ''application/x-protobuf''
      then (case proto_to_json registry (ce_schema e) (ce_data e) of Some s \<Rightarrow> s | None \<Rightarrow> envelope)
      else envelope)"

text \<open>The arguments of \<open>Append\<close> in \<open>flush\<close>, in the order of the columns.\<close>

definition audit_row_of :: "proto_registry \<Rightarrow> cloud_event \<Rightarrow> audit_row" where
  "audit_row_of registry e =
     (let projection = project_event (Some e) in
      \<lparr>ev_event_id = ce_id e, ev_event_type = ce_type e, ev_event_version = ce_spec_version e,
       ev_occurred = ce_time e, ev_service = service_from_source (ce_source e),
       ev_operation = operation_from_event (Some e),
       ev_actor_id = ep_actor_id projection, ev_actor_type = ep_actor_type projection, ev_actor_display = [],
       ev_target_type = ep_target_type projection, ev_target_id = ep_target_id projection, ev_target_name = [],
       ev_success = success_from_ce_type (ce_type e) (ep_error_message projection),
       ev_error_code = ep_error_code projection, ev_error_message = ep_error_message projection,
       ev_trace_id = trace_id_from_traceparent (ext_string (ce_extensions e) ext_trace_parent),
       ev_request_id = [], ev_detail = detail_json registry e\<rparr>)"

section \<open>Validation\<close>

definition validate_event :: "cloud_event \<Rightarrow> err option" where
  "validate_event e =
     (if ce_id e = [] then Some (errorf ''validation: missing id'')
      else if ce_type e = [] then Some (errorf ''validation: missing type'')
      else if ce_source e = [] then Some (errorf ''validation: missing source'')
      else if is_zero (ce_time e) then Some (errorf ''validation: missing time'')
      else None)"

section \<open>What the projection keeps\<close>

text \<open>A validated event leaves no empty identifying column.\<close>

lemma service_of_valid:
  "source \<noteq> [] \<Longrightarrow> source \<noteq> ''//'' \<Longrightarrow> service_from_source source \<noteq> []"
  by (auto simp: service_from_source_def trim_prefix_def has_prefix_def split: prod.split)

lemma trace_id_cases:
  "trace_id_from_traceparent tp = tp \<or>
     (\<exists>v rest. tp = v @ CHR ''-'' # rest \<and> length (trace_id_from_traceparent tp) = 32)"
proof (cases "split_on (CHR ''-'') tp")
  case (Cons v parts)
  show ?thesis
  proof (cases parts)
    case (Cons t more)
    have "tp = join_with ''-'' (v # t # more)"
      using \<open>split_on (CHR ''-'') tp = v # parts\<close> Cons join_split_on [of "CHR ''-''" tp] by simp
    then show ?thesis
      using \<open>split_on (CHR ''-'') tp = v # parts\<close> Cons by (auto simp: trace_id_from_traceparent_def)
  qed (use Cons in \<open>simp add: trace_id_from_traceparent_def\<close>)
qed simp

end
