(* ===== verification/AuditWriter.thy ===== *)
theory AuditWriter
  imports AuditEvents
begin

text \<open>
  \<open>app/audit/service/internal/data\<close>: the consumer that polls Kafka and the writer that batches events into
  ClickHouse, as a state machine of two goroutines and the shutdown. Every locked section, channel
  operation and call of a client is one step; the answers of Kafka and ClickHouse are the labels of
  the steps. \<open>flush\<close> is the three steps take, write and commit.
\<close>

section \<open>State\<close>

text \<open>A Kafka record and what \<open>auditkafka.DecodeRecord\<close> makes of it.\<close>

record kafka_record =
  kr_partition :: nat
  kr_offset :: nat
  kr_decoded :: "err + cloud_event"

text \<open>
  Every caller of \<open>Add\<close> passes the record that the event was decoded from, so a pending event always
  has its record.
\<close>

record pending_event =
  pe_event :: cloud_event
  pe_record :: kafka_record

text \<open>Where the flush goroutine is; the flag marks the last flush, after \<open>done\<close> was closed.\<close>

datatype loop_state =
    LoopWaiting
  | LoopFlushing bool
  | LoopWriting "pending_event list" bool
  | LoopCommitting "pending_event list" bool
  | LoopReturned

text \<open>
  The poll goroutine runs; is in \<open>Add\<close>, past the locked section with \<open>shouldFlush\<close> set and before its send on \<open>flushCh\<close>;
  has returned, or was never started because there is no client.
\<close>

datatype poll_state = Polling | Signaling | PollReturned

record audit_state =
  aw_buffer :: "pending_event list"
  aw_signal :: bool
  aw_closed :: bool
  aw_loop :: loop_state
  aw_poll :: poll_state
  aw_table :: "audit_row list"
  aw_commits :: "kafka_record list list"

record writer_config =
  wc_batch_size :: int
  wc_interval :: duration
  wc_clickhouse :: bool
  wc_client :: bool
  wc_registry :: proto_registry

section \<open>Configuration\<close>

text \<open>The batch size and the flush interval of the configuration, when there is one.\<close>

record consumer_config =
  cg_batch_size :: int
  cg_flush_interval :: "duration option"

definition new_batch_writer :: "consumer_config option \<Rightarrow> bool \<Rightarrow> bool \<Rightarrow> proto_registry \<Rightarrow> writer_config" where
  "new_batch_writer auditCfg clickhouse client registry =
     \<lparr>wc_batch_size =
        (case auditCfg of
           Some c \<Rightarrow> if cg_batch_size c > 0 then cg_batch_size c else 100
         | None \<Rightarrow> 100),
      wc_interval =
        (case auditCfg of
           Some c \<Rightarrow> (case cg_flush_interval c of Some d \<Rightarrow> if d > 0 then d else ns_per_sec | None \<Rightarrow> ns_per_sec)
         | None \<Rightarrow> ns_per_sec),
      wc_clickhouse = clickhouse, wc_client = client, wc_registry = registry\<rparr>"

text \<open>\<open>Start\<close>: the flush goroutine waits; the poll goroutine runs when there is a Kafka client.\<close>

definition consumer_start :: "writer_config \<Rightarrow> audit_state" where
  "consumer_start C =
     \<lparr>aw_buffer = [], aw_signal = False, aw_closed = False, aw_loop = LoopWaiting,
      aw_poll = (if wc_client C then Polling else PollReturned), aw_table = [], aw_commits = []\<rparr>"

definition audit_default_topic :: "string option \<Rightarrow> string" where
  "audit_default_topic cfg = (case cfg of Some t \<Rightarrow> if t \<noteq> [] then t else ''servora.audit.events'' | None \<Rightarrow> ''servora.audit.events'')"

definition audit_default_group :: "string option \<Rightarrow> string" where
  "audit_default_group cfg = (case cfg of Some g \<Rightarrow> if g \<noteq> [] then g else ''audit-consumer'' | None \<Rightarrow> ''audit-consumer'')"

section \<open>Operations\<close>

text \<open>\<open>Add\<close>: the locked section, and then, for a full buffer, a send that a full channel makes a no-op.\<close>

definition batch_add :: "writer_config \<Rightarrow> cloud_event \<Rightarrow> kafka_record \<Rightarrow> audit_state \<Rightarrow> audit_state" where
  "batch_add C evt record s =
     (let buffer = aw_buffer s @ [\<lparr>pe_event = evt, pe_record = record\<rparr>];
          shouldFlush = int (length buffer) \<ge> wc_batch_size C in
      s\<lparr>aw_buffer := buffer, aw_poll := (if shouldFlush then Signaling else aw_poll s)\<rparr>)"

definition batch_signal :: "audit_state \<Rightarrow> audit_state" where
  "batch_signal s = s\<lparr>aw_signal := True, aw_poll := Polling\<rparr>"

text \<open>Every event type goes to the generic storage.\<close>

definition consumer_route :: "writer_config \<Rightarrow> cloud_event \<Rightarrow> kafka_record \<Rightarrow> audit_state \<Rightarrow> audit_state" where
  "consumer_route C ce record s =
     (if ce_type ce = ''servora.audit.rpc.v1'' then batch_add C ce record s else batch_add C ce record s)"

definition commit_records :: "kafka_record list \<Rightarrow> audit_state \<Rightarrow> audit_state" where
  "commit_records rs s = s\<lparr>aw_commits := aw_commits s @ [rs]\<rparr>"

text \<open>A record that cannot be decoded or validated is committed at once and dropped.\<close>

definition consumer_handle :: "writer_config \<Rightarrow> bool \<Rightarrow> kafka_record \<Rightarrow> audit_state \<Rightarrow> audit_state" where
  "consumer_handle C accepted record s =
     (case kr_decoded record of
        Inl _ \<Rightarrow> if accepted then commit_records [record] s else s
      | Inr ce \<Rightarrow>
          if validate_event ce \<noteq> None then (if accepted then commit_records [record] s else s)
          else consumer_route C ce record s)"

text \<open>The locked section of \<open>flush\<close>: an empty buffer ends it, otherwise the buffer becomes the batch.\<close>

definition after_flush :: "bool \<Rightarrow> loop_state" where
  "after_flush final = (if final then LoopReturned else LoopWaiting)"

definition flush_take :: "writer_config \<Rightarrow> bool \<Rightarrow> audit_state \<Rightarrow> audit_state" where
  "flush_take C final s =
     (if aw_buffer s = [] then s\<lparr>aw_loop := after_flush final\<rparr>
      else s\<lparr>aw_buffer := [],
             aw_loop := (if wc_clickhouse C then LoopWriting (aw_buffer s) final
                         else LoopCommitting (aw_buffer s) final)\<rparr>)"

text \<open>
  What ClickHouse answers: preparing, the append of one event, or sending may fail; a failed send may have stored the
  block all the same, when only its answer was lost.
\<close>

datatype write_outcome = PrepareFailed | AppendFailed nat | SendFailed bool | Sent

definition stores_block :: "write_outcome \<Rightarrow> bool" where
  "stores_block outcome \<longleftrightarrow> outcome = Sent \<or> outcome = SendFailed True"

definition flush_write ::
    "writer_config \<Rightarrow> write_outcome \<Rightarrow> pending_event list \<Rightarrow> bool \<Rightarrow> audit_state \<Rightarrow> audit_state" where
  "flush_write C outcome batch final s =
     s\<lparr>aw_table := aw_table s
          @ (if stores_block outcome then map (\<lambda>p. audit_row_of (wc_registry C) (pe_event p)) batch else []),
       aw_loop := (if outcome = Sent then LoopCommitting batch final else after_flush final)\<rparr>"

text \<open>
  \<open>commitAll\<close>: \<open>NewBatchWriter\<close> stores its client, nil or not, in the interface \<open>committer\<close>, so the test against nil
  never fires. Without a client no record is ever polled and no batch gets here (\<open>no_client_no_batch\<close> below).
\<close>

definition commit_all :: "writer_config \<Rightarrow> bool \<Rightarrow> pending_event list \<Rightarrow> bool \<Rightarrow> audit_state \<Rightarrow> audit_state" where
  "commit_all C accepted batch final s =
     (let records = map pe_record batch in
      if records = [] then s\<lparr>aw_loop := after_flush final\<rparr>
      else if accepted then (commit_records records s)\<lparr>aw_loop := after_flush final\<rparr>
      else s\<lparr>aw_loop := after_flush final\<rparr>)"

section \<open>Steps\<close>

datatype audit_label =
    Polled kafka_record bool
  | Signaled
  | PollEnded
  | TimerFired
  | SignalReceived
  | WriterStopped
  | DoneReceived
  | BatchTaken
  | Wrote write_outcome
  | Committed bool

inductive audit_step :: "writer_config \<Rightarrow> audit_state \<Rightarrow> audit_label \<Rightarrow> audit_state \<Rightarrow> bool" for C where
  poll_record: "aw_poll s = Polling \<Longrightarrow> audit_step C s (Polled r accepted) (consumer_handle C accepted r s)"
| poll_signaled: "aw_poll s = Signaling \<Longrightarrow> audit_step C s Signaled (batch_signal s)"
| poll_ended: "aw_poll s = Polling \<Longrightarrow> audit_step C s PollEnded (s\<lparr>aw_poll := PollReturned\<rparr>)"
| writer_stopped: "aw_poll s = PollReturned \<Longrightarrow> audit_step C s WriterStopped (s\<lparr>aw_closed := True\<rparr>)"
| timer_fired: "aw_loop s = LoopWaiting \<Longrightarrow> audit_step C s TimerFired (s\<lparr>aw_loop := LoopFlushing False\<rparr>)"
| signal_received: "aw_loop s = LoopWaiting \<Longrightarrow> aw_signal s \<Longrightarrow>
    audit_step C s SignalReceived (s\<lparr>aw_signal := False, aw_loop := LoopFlushing False\<rparr>)"
| done_received: "aw_loop s = LoopWaiting \<Longrightarrow> aw_closed s \<Longrightarrow>
    audit_step C s DoneReceived (s\<lparr>aw_loop := LoopFlushing True\<rparr>)"
| batch_taken: "aw_loop s = LoopFlushing final \<Longrightarrow> audit_step C s BatchTaken (flush_take C final s)"
| batch_written: "aw_loop s = LoopWriting batch final \<Longrightarrow>
    audit_step C s (Wrote outcome) (flush_write C outcome batch final s)"
| batch_committed: "aw_loop s = LoopCommitting batch final \<Longrightarrow>
    audit_step C s (Committed accepted) (commit_all C accepted batch final s)"

inductive_cases audit_stepE: "audit_step C s l t"

inductive audit_run :: "writer_config \<Rightarrow> audit_state \<Rightarrow> audit_label list \<Rightarrow> audit_state \<Rightarrow> bool" for C where
  run_refl: "audit_run C s [] s"
| run_step: "audit_run C s ls t \<Longrightarrow> audit_step C t l u \<Longrightarrow> audit_run C s (ls @ [l]) u"

text \<open>The step relation is a partial function of the state and the label.\<close>

fun audit_exec :: "writer_config \<Rightarrow> audit_state \<Rightarrow> audit_label \<Rightarrow> audit_state option" where
  "audit_exec C s (Polled r accepted) =
     (if aw_poll s = Polling then Some (consumer_handle C accepted r s) else None)"
| "audit_exec C s Signaled = (if aw_poll s = Signaling then Some (batch_signal s) else None)"
| "audit_exec C s PollEnded = (if aw_poll s = Polling then Some (s\<lparr>aw_poll := PollReturned\<rparr>) else None)"
| "audit_exec C s WriterStopped = (if aw_poll s = PollReturned then Some (s\<lparr>aw_closed := True\<rparr>) else None)"
| "audit_exec C s TimerFired =
     (if aw_loop s = LoopWaiting then Some (s\<lparr>aw_loop := LoopFlushing False\<rparr>) else None)"
| "audit_exec C s SignalReceived =
     (if aw_loop s = LoopWaiting \<and> aw_signal s then Some (s\<lparr>aw_signal := False, aw_loop := LoopFlushing False\<rparr>)
      else None)"
| "audit_exec C s DoneReceived =
     (if aw_loop s = LoopWaiting \<and> aw_closed s then Some (s\<lparr>aw_loop := LoopFlushing True\<rparr>) else None)"
| "audit_exec C s BatchTaken =
     (case aw_loop s of LoopFlushing final \<Rightarrow> Some (flush_take C final s) | _ \<Rightarrow> None)"
| "audit_exec C s (Wrote outcome) =
     (case aw_loop s of LoopWriting batch final \<Rightarrow> Some (flush_write C outcome batch final s) | _ \<Rightarrow> None)"
| "audit_exec C s (Committed accepted) =
     (case aw_loop s of LoopCommitting batch final \<Rightarrow> Some (commit_all C accepted batch final s) | _ \<Rightarrow> None)"

lemma audit_step_iff: "audit_step C s l t \<longleftrightarrow> audit_exec C s l = Some t"
proof
  show "audit_step C s l t \<Longrightarrow> audit_exec C s l = Some t" by (induction rule: audit_step.induct) simp_all
  show "audit_exec C s l = Some t \<Longrightarrow> audit_step C s l t"
    by (cases l) (auto split: if_splits loop_state.splits intro: audit_step.intros)
qed

fun audit_exec_all :: "writer_config \<Rightarrow> audit_state \<Rightarrow> audit_label list \<Rightarrow> audit_state option" where
  "audit_exec_all C s [] = Some s"
| "audit_exec_all C s (l # ls) = Option.bind (audit_exec C s l) (\<lambda>t. audit_exec_all C t ls)"

lemma run_trans: "audit_run C t ls u \<Longrightarrow> audit_run C s ks t \<Longrightarrow> audit_run C s (ks @ ls) u"
  by (induction rule: audit_run.induct) (simp_all flip: append_assoc add: run_step)

lemma audit_exec_run: "audit_exec_all C s ls = Some t \<Longrightarrow> audit_run C s ls t"
proof (induction ls arbitrary: s)
  case (Cons l ls)
  then obtain u where "audit_step C s l u" "audit_run C u ls t"
    by (auto simp: audit_step_iff bind_eq_Some_conv)
  then show ?case using run_trans [of C u ls t s "[l]"] run_step [OF run_refl] by fastforce
qed (simp add: run_refl)

lemmas audit_ops = batch_add_def batch_signal_def stores_block_def consumer_route_def commit_records_def consumer_handle_def flush_take_def
  flush_write_def commit_all_def after_flush_def Let_def

end
