(* ===== verification/AuditLog.thy ===== *)
theory AuditLog
  imports AuditWriter
begin

text \<open>
  What the audit pipeline guarantees: it implements a queue in front of an append-only log, commits only
  what it stored, misses no full buffer, and ends its last flush. What it does not: a batch that
  ClickHouse refuses is skipped.
\<close>

section \<open>The abstract log\<close>

text \<open>The rows that are stored, and those that are queued in memory, oldest first.\<close>

type_synonym row_log = "audit_row list \<times> audit_row list"

text \<open>Queue a row; store or drop the oldest \<open>n\<close> queued rows; nothing.\<close>

datatype log_op = OpAppend audit_row | OpStore nat | OpDrop nat | OpSkip

fun log_spec :: "log_op \<Rightarrow> row_log \<Rightarrow> row_log \<Rightarrow> bool" where
  "log_spec (OpAppend r) (stored, queued) l \<longleftrightarrow> l = (stored, queued @ [r])"
| "log_spec (OpStore n) (stored, queued) l \<longleftrightarrow> l = (stored @ take n queued, drop n queued)"
| "log_spec (OpDrop n) (stored, queued) l \<longleftrightarrow> l = (stored, drop n queued)"
| "log_spec OpSkip k l \<longleftrightarrow> l = k"

definition unsent :: "audit_state \<Rightarrow> pending_event list" where
  "unsent s = (case aw_loop s of LoopWriting batch _ \<Rightarrow> batch | _ \<Rightarrow> [])"

abbreviation pending_row :: "writer_config \<Rightarrow> pending_event \<Rightarrow> audit_row" where
  "pending_row C p \<equiv> audit_row_of (wc_registry C) (pe_event p)"

definition audit_log :: "writer_config \<Rightarrow> audit_state \<Rightarrow> row_log" where
  "audit_log C s = (aw_table s, map (pending_row C) (unsent s @ aw_buffer s))"

text \<open>The event of a record that the consumer accepts.\<close>

definition accepted_event :: "kafka_record \<Rightarrow> cloud_event option" where
  "accepted_event r =
     (case kr_decoded r of
        Inl _ \<Rightarrow> None
      | Inr ce \<Rightarrow> if validate_event ce = None then Some ce else None)"

text \<open>
  What a label does to the log: a poll queues the row of an accepted event; a block that ClickHouse took is stored, the
  batch in hand, and a block that it did not take is dropped; without ClickHouse the whole queue is dropped when it is
  taken, and its records committed.
\<close>

definition log_op_of :: "writer_config \<Rightarrow> audit_state \<Rightarrow> audit_label \<Rightarrow> log_op" where
  "log_op_of C s l =
     (case l of
        Polled r _ \<Rightarrow> (case accepted_event r of Some e \<Rightarrow> OpAppend (audit_row_of (wc_registry C) e) | None \<Rightarrow> OpSkip)
      | Wrote outcome \<Rightarrow> if stores_block outcome then OpStore (length (unsent s)) else OpDrop (length (unsent s))
      | BatchTaken \<Rightarrow> if wc_clickhouse C then OpSkip else OpDrop (length (aw_buffer s))
      | _ \<Rightarrow> OpSkip)"

lemma handle_accepted:
  "accepted_event r = Some e \<Longrightarrow> consumer_handle C ok r s = batch_add C e r s"
  by (auto simp: accepted_event_def consumer_handle_def consumer_route_def split: sum.splits if_splits)

lemma handle_rejected:
  "accepted_event r = None \<Longrightarrow> consumer_handle C ok r s = (if ok then commit_records [r] s else s)"
  by (auto simp: accepted_event_def consumer_handle_def split: sum.splits if_splits)

lemmas log_defs = audit_log_def unsent_def log_op_of_def

lemma step_refines:
  assumes "audit_step C s l t"
  shows "log_spec (log_op_of C s l) (audit_log C s) (audit_log C t)"
  using assms
proof cases
  case (poll_record r accepted)
  then show ?thesis
    by (cases "accepted_event r")
      (auto simp: handle_accepted handle_rejected log_defs batch_add_def commit_records_def Let_def split: loop_state.split)
next
  case (batch_taken final)
  then show ?thesis by (auto simp: log_defs flush_take_def after_flush_def)
next
  case (batch_written batch final outcome)
  then show ?thesis
    by (cases outcome) (auto simp: log_defs flush_write_def after_flush_def stores_block_def)
qed (auto simp: log_defs commit_all_def after_flush_def commit_records_def batch_signal_def Let_def)

text \<open>
  C23. The audit writer refines a queue in front of an append-only log. Every step of the two goroutines either queues
  the row of the accepted event, or moves exactly the batch in hand, which is the oldest part of the queue, to the end of
  the stored rows, or drops exactly that batch because ClickHouse did not take it, or leaves the log alone. Where
  ClickHouse is not configured, nothing is ever stored: a flush drops the whole queue when it takes it.
\<close>

theorem audit_writer_refines_log:
  "audit_step C s l t \<Longrightarrow> log_spec (log_op_of C s l) (audit_log C s) (audit_log C t)"
  by (rule step_refines)

section \<open>Invariant\<close>

definition pendings :: "audit_state \<Rightarrow> pending_event list" where
  "pendings s =
     (case aw_loop s of LoopWriting batch _ \<Rightarrow> batch | LoopCommitting batch _ \<Rightarrow> batch | _ \<Rightarrow> []) @ aw_buffer s"

fun last_flush :: "loop_state \<Rightarrow> bool" where
  "last_flush LoopWaiting = False"
| "last_flush (LoopFlushing final) = final"
| "last_flush (LoopWriting _ final) = final"
| "last_flush (LoopCommitting _ final) = final"
| "last_flush LoopReturned = True"

definition took_last :: "loop_state \<Rightarrow> bool" where
  "took_last l \<longleftrightarrow> last_flush l \<and> (\<forall>final. l \<noteq> LoopFlushing final)"

definition stored_or_rejected :: "writer_config \<Rightarrow> audit_state \<Rightarrow> kafka_record \<Rightarrow> bool" where
  "stored_or_rejected C s r \<longleftrightarrow>
     (case accepted_event r of None \<Rightarrow> True | Some e \<Rightarrow> audit_row_of (wc_registry C) e \<in> set (aw_table s))"

definition stop_inv :: "audit_state \<Rightarrow> bool" where
  "stop_inv s \<longleftrightarrow> (aw_closed s \<longrightarrow> aw_poll s = PollReturned) \<and> (last_flush (aw_loop s) \<longrightarrow> aw_closed s)
     \<and> (took_last (aw_loop s) \<longrightarrow> aw_buffer s = [])"

definition commit_inv :: "writer_config \<Rightarrow> audit_state \<Rightarrow> bool" where
  "commit_inv C s \<longleftrightarrow> (\<forall>p \<in> set (pendings s). accepted_event (pe_record p) = Some (pe_event p))
     \<and> (\<forall>batch final. aw_loop s = LoopCommitting batch final \<longrightarrow> pending_row C ` set batch \<subseteq> set (aw_table s))
     \<and> (\<forall>rs \<in> set (aw_commits s). \<forall>r \<in> set rs. stored_or_rejected C s r)"

definition wakeup_inv :: "writer_config \<Rightarrow> audit_state \<Rightarrow> bool" where
  "wakeup_inv C s \<longleftrightarrow> (int (length (aw_buffer s)) \<ge> wc_batch_size C \<longrightarrow>
     aw_signal s \<or> aw_poll s = Signaling \<or> (\<exists>final. aw_loop s = LoopFlushing final))"

lemmas inv_defs = stop_inv_def commit_inv_def wakeup_inv_def pendings_def took_last_def

lemma step_stop_inv: "audit_step C s l t \<Longrightarrow> stop_inv s \<Longrightarrow> stop_inv t"
proof (induction rule: audit_step.induct)
  case (poll_record s r accepted)
  then show ?case
    by (cases "accepted_event r")
      (auto simp: handle_accepted handle_rejected stop_inv_def took_last_def batch_add_def commit_records_def Let_def)
next
  case (batch_written s batch final outcome)
  then show ?case by (cases outcome) (auto simp: stop_inv_def took_last_def flush_write_def after_flush_def)
qed (auto simp: stop_inv_def took_last_def flush_take_def commit_all_def commit_records_def after_flush_def batch_signal_def
    Let_def)

lemma step_wakeup_inv: "audit_step C s l t \<Longrightarrow> 0 < wc_batch_size C \<Longrightarrow> wakeup_inv C s \<Longrightarrow> wakeup_inv C t"
proof (induction rule: audit_step.induct)
  case (poll_record s r accepted)
  then show ?case
    by (cases "accepted_event r")
      (auto simp: handle_accepted handle_rejected wakeup_inv_def batch_add_def commit_records_def Let_def)
next
  case (batch_written s batch final outcome)
  then show ?case by (cases outcome) (auto simp: wakeup_inv_def flush_write_def after_flush_def)
qed (auto simp: wakeup_inv_def flush_take_def commit_all_def commit_records_def after_flush_def batch_signal_def Let_def)

lemma stored_append: "stored_or_rejected C s r \<Longrightarrow> stored_or_rejected C (s\<lparr>aw_table := aw_table s @ xs\<rparr>) r"
  by (auto simp: stored_or_rejected_def split: option.splits)

lemma stored_same [simp]:
  "stored_or_rejected C (s\<lparr>aw_loop := x\<rparr>) r = stored_or_rejected C s r"
  "stored_or_rejected C (s\<lparr>aw_buffer := b\<rparr>) r = stored_or_rejected C s r"
  "stored_or_rejected C (s\<lparr>aw_signal := g\<rparr>) r = stored_or_rejected C s r"
  "stored_or_rejected C (s\<lparr>aw_closed := c\<rparr>) r = stored_or_rejected C s r"
  "stored_or_rejected C (s\<lparr>aw_poll := q\<rparr>) r = stored_or_rejected C s r"
  "stored_or_rejected C (s\<lparr>aw_commits := m\<rparr>) r = stored_or_rejected C s r"
  by (simp_all add: stored_or_rejected_def split: option.split)

lemma step_commit_inv: "audit_step C s l t \<Longrightarrow> wc_clickhouse C \<Longrightarrow> commit_inv C s \<Longrightarrow> commit_inv C t"
proof (induction rule: audit_step.induct)
  case (poll_record s r accepted)
  show ?case
  proof (cases "accepted_event r")
    case None
    then have "stored_or_rejected C s r" by (simp add: stored_or_rejected_def)
    with None poll_record show ?thesis
      by (auto simp: handle_rejected commit_inv_def pendings_def commit_records_def)
  next
    case (Some e)
    with poll_record show ?thesis
      by (auto simp: handle_accepted commit_inv_def pendings_def batch_add_def Let_def split: loop_state.splits)
  qed
next
  case (batch_written s batch final outcome)
  then show ?case
  proof (cases outcome)
    case Sent
    with batch_written show ?thesis
      by (auto simp: commit_inv_def pendings_def flush_write_def stores_block_def intro: stored_append)
  qed (auto simp: commit_inv_def pendings_def flush_write_def after_flush_def stores_block_def intro: stored_append)
next
  case (batch_committed s batch final accepted)
  have "\<forall>p \<in> set batch. stored_or_rejected C s (pe_record p)"
    using batch_committed by (auto simp: commit_inv_def pendings_def stored_or_rejected_def)
  with batch_committed show ?case
    by (auto simp: commit_inv_def pendings_def commit_all_def commit_records_def after_flush_def Let_def)
qed (auto simp: commit_inv_def pendings_def flush_take_def after_flush_def batch_signal_def split: loop_state.splits)

definition audit_inv :: "writer_config \<Rightarrow> audit_state \<Rightarrow> bool" where
  "audit_inv C s \<longleftrightarrow> stop_inv s \<and> (wc_clickhouse C \<longrightarrow> commit_inv C s) \<and> (0 < wc_batch_size C \<longrightarrow> wakeup_inv C s)"

lemma start_inv: "audit_inv C (consumer_start C)"
  by (simp add: audit_inv_def inv_defs consumer_start_def)

lemma run_inv: "audit_run C s ls t \<Longrightarrow> audit_inv C s \<Longrightarrow> audit_inv C t"
  by (induction rule: audit_run.induct)
    (auto simp: audit_inv_def intro: step_stop_inv step_commit_inv step_wakeup_inv)

section \<open>What a run keeps\<close>

text \<open>
  A Kafka record is committed only when it is done with: with ClickHouse configured, in every state
  that the consumer and the writer reach, a committed record either could not be decoded or validated, or
  the row of its event is in the table.
\<close>

lemma audit_commits_only_stored:
  assumes "audit_run C (consumer_start C) ls s" "wc_clickhouse C"
    and "rs \<in> set (aw_commits s)" "r \<in> set rs" "accepted_event r = Some e"
  shows "audit_row_of (wc_registry C) e \<in> set (aw_table s)"
proof -
  have "commit_inv C s" using run_inv [OF assms(1) start_inv] assms(2) by (simp add: audit_inv_def)
  with assms(3-) have "stored_or_rejected C s r" by (auto simp: commit_inv_def)
  with assms(5) show ?thesis by (simp add: stored_or_rejected_def)
qed

text \<open>Without a Kafka client the writer never has a batch in hand, so \<open>commitAll\<close> is never called on a nil client.\<close>

lemma no_client_no_batch:
  assumes "audit_run C (consumer_start C) ls s" "\<not> wc_client C"
  shows "aw_buffer s = [] \<and> (\<forall>batch final. aw_loop s \<noteq> LoopWriting batch final \<and> aw_loop s \<noteq> LoopCommitting batch final)"
proof -
  let ?I = "\<lambda>s. aw_poll s = PollReturned \<and> aw_buffer s = []
    \<and> (\<forall>batch final. aw_loop s \<noteq> LoopWriting batch final \<and> aw_loop s \<noteq> LoopCommitting batch final)"
  have step: "?I t" if "audit_step C s l t" "?I s" for s l t
    using that by cases (auto simp: flush_take_def after_flush_def)
  have "?I s" if "audit_run C a ls s" "?I a" for a s ls
    using that by (induction rule: audit_run.induct) (simp, metis step)
  from this [OF assms(1)] show ?thesis using assms(2) by (simp add: consumer_start_def)
qed

text \<open>
  C30. No full buffer is missed: whenever the buffer holds a full batch, the wake-up token is in the channel, or the poll
  goroutine stands in \<open>Add\<close> before the send that puts it there, which it can always do, or the flush goroutine is about to
  take the buffer.
\<close>

theorem full_buffer_wakes_writer:
  assumes "audit_run (new_batch_writer cfg ch cl reg) (consumer_start (new_batch_writer cfg ch cl reg)) ls s"
    and "wc_batch_size (new_batch_writer cfg ch cl reg) \<le> int (length (aw_buffer s))"
  shows "aw_signal s
     \<or> aw_poll s = Signaling \<and> (\<exists>t. audit_step (new_batch_writer cfg ch cl reg) s Signaled t \<and> aw_signal t)
     \<or> (\<exists>final. aw_loop s = LoopFlushing final)"
proof -
  have "0 < wc_batch_size (new_batch_writer cfg ch cl reg)"
    by (simp add: new_batch_writer_def split: option.split)
  then have w: "aw_signal s \<or> aw_poll s = Signaling \<or> (\<exists>final. aw_loop s = LoopFlushing final)"
    using run_inv [OF assms(1) start_inv] assms(2) by (simp add: audit_inv_def wakeup_inv_def)
  have "\<exists>t. audit_step (new_batch_writer cfg ch cl reg) s Signaled t \<and> aw_signal t" if "aw_poll s = Signaling"
    using poll_signaled [OF that] by (intro exI [of _ "batch_signal s"]) (simp add: batch_signal_def)
  with w show ?thesis by blast
qed

text \<open>The rows of the accepted events of a run, in order.\<close>

definition accepted_rows :: "writer_config \<Rightarrow> audit_label list \<Rightarrow> audit_row list" where
  "accepted_rows C ls = concat (map (\<lambda>l. case l of
     Polled r _ \<Rightarrow> (case accepted_event r of Some e \<Rightarrow> [audit_row_of (wc_registry C) e] | None \<Rightarrow> []) | _ \<Rightarrow> []) ls)"

definition no_write_failed :: "audit_label list \<Rightarrow> bool" where
  "no_write_failed ls \<longleftrightarrow> list_all (\<lambda>l. case l of Wrote outcome \<Rightarrow> outcome = Sent | _ \<Rightarrow> True) ls"

lemma log_spec_contents:
  assumes "log_spec (log_op_of C s l) k k'" "no_write_failed [l]" "wc_clickhouse C"
  shows "fst k' @ snd k' = fst k @ snd k @ accepted_rows C [l]"
  using assms
  by (cases k; cases k'; cases l)
    (auto simp: accepted_rows_def log_op_of_def no_write_failed_def stores_block_def split: option.splits)

lemma run_contents:
  "audit_run C s ls t \<Longrightarrow> wc_clickhouse C \<Longrightarrow> no_write_failed ls \<Longrightarrow>
     fst (audit_log C t) @ snd (audit_log C t) = fst (audit_log C s) @ snd (audit_log C s) @ accepted_rows C ls"
proof (induction rule: audit_run.induct)
  case (run_step s ls t l u)
  from log_spec_contents [OF step_refines [OF run_step.hyps(2)]] run_step
  show ?case by (simp add: accepted_rows_def no_write_failed_def)
qed (simp add: accepted_rows_def)

text \<open>
  C22. Nothing is lost, duplicated or reordered while ClickHouse accepts every batch: after any
  interleaving of the goroutines, the stored rows followed by the queued ones are the rows of the
  accepted events in the order of polling; once the writer has returned they are all stored.
\<close>

theorem audit_stores_in_order:
  assumes "audit_run C (consumer_start C) ls s" "wc_clickhouse C" "no_write_failed ls"
  shows "aw_table s @ map (pending_row C) (unsent s @ aw_buffer s) = accepted_rows C ls
     \<and> (aw_loop s = LoopReturned \<longrightarrow> aw_table s = accepted_rows C ls)"
proof -
  have eq: "aw_table s @ map (pending_row C) (unsent s @ aw_buffer s) = accepted_rows C ls"
    using run_contents [OF assms] by (simp add: audit_log_def consumer_start_def unsent_def)
  have "stop_inv s" using run_inv [OF assms(1) start_inv] by (simp add: audit_inv_def)
  then have "aw_buffer s = []" "unsent s = []" if "aw_loop s = LoopReturned"
    using that by (simp_all add: stop_inv_def took_last_def unsent_def)
  with eq show ?thesis by auto
qed

section \<open>The last flush\<close>

definition writer_label :: "audit_label \<Rightarrow> bool" where
  "writer_label l \<longleftrightarrow> (case l of BatchTaken \<Rightarrow> True | Wrote _ \<Rightarrow> True | Committed _ \<Rightarrow> True | TimerFired \<Rightarrow> True
     | SignalReceived \<Rightarrow> True | DoneReceived \<Rightarrow> True | _ \<Rightarrow> False)"

fun loop_fuel :: "loop_state \<Rightarrow> nat" where
  "loop_fuel (LoopFlushing _) = 3"
| "loop_fuel (LoopWriting _ _) = 2"
| "loop_fuel (LoopCommitting _ _) = 1"
| "loop_fuel _ = 0"

lemma last_flush_step:
  "audit_step C s l t \<Longrightarrow> last_flush (aw_loop s) \<Longrightarrow>
     last_flush (aw_loop t) \<and> (if writer_label l then loop_fuel (aw_loop t) < loop_fuel (aw_loop s)
                               else aw_loop t = aw_loop s)"
proof (induction rule: audit_step.induct)
  case (poll_record s r accepted)
  then show ?case
    by (cases "accepted_event r")
      (auto simp: handle_accepted handle_rejected writer_label_def batch_add_def commit_records_def Let_def)
next
  case (batch_written s batch final outcome)
  then show ?case by (cases outcome) (auto simp: writer_label_def flush_write_def after_flush_def)
qed (auto simp: writer_label_def flush_take_def commit_all_def commit_records_def after_flush_def batch_signal_def Let_def)

lemma last_flush_run:
  "audit_run C s ls t \<Longrightarrow> last_flush (aw_loop s) \<Longrightarrow>
     last_flush (aw_loop t) \<and> length (filter writer_label ls) + loop_fuel (aw_loop t) \<le> loop_fuel (aw_loop s)"
proof (induction rule: audit_run.induct)
  case (run_step s ls t l u)
  with last_flush_step [OF run_step.hyps(2)] show ?case by (auto split: if_splits)
qed simp

text \<open>
  C29. The last flush ends, whatever Kafka and ClickHouse answer: once the writer received \<open>done\<close>, its
  goroutine takes at most three further steps, and as long as it has not returned it can take one.
\<close>

theorem last_flush_terminates:
  assumes "audit_run C s ls t" "aw_loop s = LoopFlushing True"
  shows "length (filter writer_label ls) \<le> 3
     \<and> (aw_loop t = LoopReturned \<or> (\<exists>l u. writer_label l \<and> audit_step C t l u))"
proof -
  from last_flush_run [OF assms(1)] assms(2) have l: "last_flush (aw_loop t)" "length (filter writer_label ls) \<le> 3"
    by auto
  from l(1) have "aw_loop t = LoopReturned \<or> (\<exists>l u. writer_label l \<and> audit_step C t l u)"
  proof (cases "aw_loop t")
    case (LoopFlushing final)
    then show ?thesis using batch_taken [of t final C] by (auto simp: writer_label_def intro!: exI [of _ BatchTaken])
  next
    case (LoopWriting batch final)
    then show ?thesis
      using batch_written [of t batch final C Sent] by (auto simp: writer_label_def intro!: exI [of _ "Wrote Sent"])
  next
    case (LoopCommitting batch final)
    then show ?thesis
      using batch_committed [of t batch final C True] by (auto simp: writer_label_def intro!: exI [of _ "Committed True"])
  qed simp_all
  with l(2) show ?thesis by blast
qed

section \<open>A refused batch\<close>

lemma skipped_batch_run:
  assumes "wc_clickhouse C" "wc_client C" "accepted_event r1 = Some e1" "accepted_event r2 = Some e2"
  shows "\<exists>s. audit_exec_all C (consumer_start C)
      ([Polled r1 True] @ (if wc_batch_size C \<le> 1 then [Signaled] else [])
       @ [TimerFired, BatchTaken, Wrote (SendFailed False), Polled r2 True, TimerFired, BatchTaken, Wrote Sent,
       Committed True]) = Some s
    \<and> aw_table s = [audit_row_of (wc_registry C) e2] \<and> aw_commits s = [[r2]] \<and> pendings s = []"
  using assms
  by (simp add: handle_accepted batch_add_def batch_signal_def stores_block_def flush_take_def flush_write_def commit_all_def
      after_flush_def commit_records_def consumer_start_def pendings_def)

text \<open>
  A batch that ClickHouse refuses is not retried: for any two accepted records of different rows
  there is a run after which the second is stored and committed, while the first is neither stored nor
  committed nor held in memory. Kafka's commit of the second covers the first when it comes later in
  the same partition, so its event is lost.
\<close>

lemma refused_batch_is_skipped:
  assumes "wc_clickhouse C" "wc_client C" "accepted_event r1 = Some e1" "accepted_event r2 = Some e2"
    and "audit_row_of (wc_registry C) e1 \<noteq> audit_row_of (wc_registry C) e2"
  shows "\<exists>ls s. audit_run C (consumer_start C) ls s \<and> aw_commits s = [[r2]] \<and> pendings s = []
     \<and> audit_row_of (wc_registry C) e2 \<in> set (aw_table s) \<and> audit_row_of (wc_registry C) e1 \<notin> set (aw_table s)"
proof -
  from skipped_batch_run [OF assms(1-4)] obtain ls s where
    "audit_exec_all C (consumer_start C) ls = Some s" "aw_table s = [audit_row_of (wc_registry C) e2]"
    "aw_commits s = [[r2]]" "pendings s = []" by blast
  with assms(5) show ?thesis by (intro exI [of _ ls] exI [of _ s]) (simp add: audit_exec_run)
qed

section \<open>Sample runs\<close>

definition sample_event :: "string \<Rightarrow> cloud_event" where
  "sample_event i =
     \<lparr>ce_id = i, ce_type = ''servora.audit.rpc.v1'', ce_spec_version = ''1.0'', ce_source = ''//iam'',
      ce_subject = ''/iam.user.v1/Disable'', ce_time = unix_epoch, ce_extensions = [''authid'' \<mapsto> ExtString ''u1''],
      ce_data = ''{}'', ce_content_type = ''application/json'', ce_schema = []\<rparr>"

definition sample_record :: "nat \<Rightarrow> string \<Rightarrow> kafka_record" where
  "sample_record n i = \<lparr>kr_partition = 0, kr_offset = n, kr_decoded = Inr (sample_event i)\<rparr>"

definition sample_writer :: writer_config where
  "sample_writer = new_batch_writer (Some \<lparr>cg_batch_size = 1, cg_flush_interval = None\<rparr>) True True (\<lambda>_ _. None)"

lemma sample_accepted [simp]: "accepted_event (sample_record n i) = (if i = [] then None else Some (sample_event i))"
  by (simp add: accepted_event_def sample_record_def sample_event_def validate_event_def unix_epoch_def time_consts)

lemma sample_writer_sel [simp]: "wc_clickhouse sample_writer" "wc_client sample_writer" "wc_batch_size sample_writer = 1"
  by (simp_all add: sample_writer_def new_batch_writer_def)

lemma sample_rows_differ: "audit_row_of g (sample_event i) \<noteq> audit_row_of g (sample_event j) \<longleftrightarrow> i \<noteq> j"
  by (auto simp: audit_row_of_def Let_def sample_event_def)

lemmas audit_simps = handle_accepted batch_add_def batch_signal_def stores_block_def flush_take_def flush_write_def commit_all_def after_flush_def
  commit_records_def consumer_start_def

definition sample_labels :: "audit_label list" where
  "sample_labels = [Polled (sample_record 0 ''a'') True, Signaled, PollEnded, WriterStopped, DoneReceived, BatchTaken, Wrote Sent,
     Committed True]"

lemma sample_audit_run:
  "\<exists>s. audit_exec_all sample_writer (consumer_start sample_writer) sample_labels = Some s
     \<and> aw_commits s = [[sample_record 0 ''a'']] \<and> aw_loop s = LoopReturned"
  by (simp add: sample_labels_def audit_simps)

theorem audit_writer_refines_log_witness:
  "log_spec (OpAppend (audit_row_of (wc_registry sample_writer) (sample_event ''a'')))
     (audit_log sample_writer (consumer_start sample_writer))
     (audit_log sample_writer (consumer_handle sample_writer True (sample_record 0 ''a'') (consumer_start sample_writer)))"
  using audit_writer_refines_log [of sample_writer "consumer_start sample_writer" "Polled (sample_record 0 ''a'') True"]
    poll_record [of "consumer_start sample_writer" sample_writer "sample_record 0 ''a''" True]
  by (simp add: log_op_of_def consumer_start_def)

theorem full_buffer_wakes_writer_witness:
  "\<exists>s. audit_run sample_writer (consumer_start sample_writer) [Polled (sample_record 0 ''a'') True] s
     \<and> length (aw_buffer s) = 1 \<and> (aw_signal s
         \<or> aw_poll s = Signaling \<and> (\<exists>t. audit_step sample_writer s Signaled t \<and> aw_signal t)
         \<or> (\<exists>final. aw_loop s = LoopFlushing final))"
proof -
  obtain s where s: "audit_exec_all sample_writer (consumer_start sample_writer) [Polled (sample_record 0 ''a'') True] = Some s"
    "length (aw_buffer s) = 1" by (simp add: audit_simps)
  note run = audit_exec_run [OF s(1)]
  have "wc_batch_size sample_writer \<le> int (length (aw_buffer s))" by (simp add: s(2))
  from full_buffer_wakes_writer [OF run [unfolded sample_writer_def] this [unfolded sample_writer_def],
      folded sample_writer_def] run s(2)
  show ?thesis by blast
qed

theorem audit_stores_in_order_witness:
  "\<exists>s. audit_run sample_writer (consumer_start sample_writer) sample_labels s
     \<and> aw_table s = accepted_rows sample_writer sample_labels"
proof -
  from sample_audit_run obtain s where s: "audit_exec_all sample_writer (consumer_start sample_writer) sample_labels = Some s"
    "aw_loop s = LoopReturned" by blast
  have "no_write_failed sample_labels" by (simp add: no_write_failed_def sample_labels_def)
  from audit_stores_in_order [OF audit_exec_run [OF s(1)] sample_writer_sel(1) this] s show ?thesis
    by (blast intro: audit_exec_run)
qed

theorem last_flush_terminates_witness:
  "\<exists>s t. audit_run sample_writer s [BatchTaken, Wrote Sent, Committed True] t \<and> aw_loop s = LoopFlushing True
     \<and> length (filter writer_label [BatchTaken, Wrote Sent, Committed True]) \<le> 3"
proof -
  obtain s where s: "audit_exec_all sample_writer (consumer_start sample_writer)
      [Polled (sample_record 0 ''a'') True, Signaled, PollEnded, WriterStopped, DoneReceived] = Some s" "aw_loop s = LoopFlushing True"
    by (simp add: audit_simps)
  obtain t where "audit_exec_all sample_writer s [BatchTaken, Wrote Sent, Committed True] = Some t"
    using s by (simp add: audit_simps) (auto simp: audit_simps)
  then have run: "audit_run sample_writer s [BatchTaken, Wrote Sent, Committed True] t" by (rule audit_exec_run)
  from last_flush_terminates [OF run s(2)] run s(2) show ?thesis by blast
qed

end
