(* ===== verification/AuditQuery.thy ===== *)
theory AuditQuery
  imports AuditEvents "HOL-Library.List_Lexorder" "HOL-Library.Char_ord" "HOL-Library.Product_Lexorder"
begin

text \<open>
  \<open>app/audit/service/internal/data/audit.go\<close> with its use case and service: filtered listing of the audit
  events by pages, and counting. ClickHouse is a parameter that gets the text and the arguments of a
  query; \<open>page_codec\<close> is \<open>encoding/json\<close> on the page token.
\<close>

section \<open>Page tokens\<close>

type_synonym page_token = "time \<times> string"

record page_codec =
  pc_marshal :: "page_token \<Rightarrow> string"
  pc_unmarshal :: "string \<Rightarrow> err + page_token"

definition encode_page_token :: "page_codec \<Rightarrow> time \<Rightarrow> string \<Rightarrow> string" where
  "encode_page_token K t eventID = std_encode (pc_marshal K (t, eventID))"

definition decode_page_token :: "page_codec \<Rightarrow> string \<Rightarrow> err + page_token" where
  "decode_page_token K token =
     (case std_decode token of
        None \<Rightarrow> Inl (errorf ''illegal base64 data'')
      | Some raw \<Rightarrow> pc_unmarshal K raw)"

section \<open>Conditions\<close>

datatype sql_arg = ArgTime time | ArgString string | ArgStrings "string list"

text \<open>Each condition with its arguments, in the order of the source; a zero time is no bound.\<close>

definition where_conditions ::
    "time \<Rightarrow> time \<Rightarrow> string list \<Rightarrow> string \<Rightarrow> string \<Rightarrow> page_token option \<Rightarrow> (string \<times> sql_arg list) list" where
  "where_conditions startTime endTime eventTypes actorID service after =
     (if is_zero startTime then [] else [(''occurred_at >= ?'', [ArgTime startTime])])
     @ (if is_zero endTime then [] else [(''occurred_at < ?'', [ArgTime endTime])])
     @ (if eventTypes = [] then [] else [(''event_type IN (?)'', [ArgStrings eventTypes])])
     @ (if actorID = [] then [] else [(''actor_id = ?'', [ArgString actorID])])
     @ (if service = [] then [] else [(''service = ?'', [ArgString service])])
     @ (case after of
          None \<Rightarrow> []
        | Some (t, i) \<Rightarrow> [(''(occurred_at, event_id) > (?, ?)'', [ArgTime t, ArgString i])])"

definition where_clause :: "(string \<times> sql_arg list) list \<Rightarrow> string \<times> sql_arg list" where
  "where_clause conditions =
     (if conditions = [] then [] else ''WHERE '' @ join_with '' AND '' (map fst conditions),
      concat (map snd conditions))"

definition build_where ::
    "page_codec \<Rightarrow> time \<Rightarrow> time \<Rightarrow> string list \<Rightarrow> string \<Rightarrow> string \<Rightarrow> string \<Rightarrow> err + string \<times> sql_arg list" where
  "build_where K startTime endTime eventTypes actorID service pageToken =
     (if pageToken = [] then Inr (where_clause (where_conditions startTime endTime eventTypes actorID service None))
      else
        case decode_page_token K pageToken of
          Inl e \<Rightarrow> Inl (wrap ''invalid page_token'' e)
        | Inr pt \<Rightarrow> Inr (where_clause (where_conditions startTime endTime eventTypes actorID service (Some pt))))"

section \<open>Queries\<close>

record list_request =
  lr_start :: "time option"
  lr_end :: "time option"
  lr_types :: "string list"
  lr_actor :: string
  lr_service :: string
  lr_page_size :: int
  lr_page_token :: string

text \<open>
  \<open>ch_query\<close> gives the rows, each scanned or failed to scan, and the error of the iteration.
\<close>

record clickhouse =
  ch_query :: "string \<Rightarrow> sql_arg list \<Rightarrow> err + (err + audit_row) list \<times> err option"
  ch_count :: "string \<Rightarrow> sql_arg list \<Rightarrow> err + nat"

definition newline :: string where "newline = [CHR 0x0A]"

definition list_sql :: "string \<Rightarrow> nat \<Rightarrow> string" where
  "list_sql where_text limit =
     newline @ ''SELECT event_id, event_type, event_version, occurred_at,''
     @ newline @ ''       service, operation,''
     @ newline @ ''       actor_id, actor_type, actor_display_name,''
     @ newline @ ''       target_type, target_id, target_name,''
     @ newline @ ''       success, error_code, error_message,''
     @ newline @ ''       trace_id, request_id, detail''
     @ newline @ ''FROM audit_events''
     @ newline @ where_text
     @ newline @ ''ORDER BY occurred_at ASC, event_id ASC''
     @ newline @ ''LIMIT '' @ itoa (int limit) @ newline"

definition page_size_of :: "int \<Rightarrow> nat" where
  "page_size_of n =
     (let pageSize = if n \<le> 0 then 50 else n in nat (if pageSize > 200 then 200 else pageSize))"

definition time_or_zero :: "time option \<Rightarrow> time" where
  "time_or_zero t = (case t of None \<Rightarrow> 0 | Some x \<Rightarrow> x)"

text \<open>Rows that fail to scan are skipped.\<close>

definition scanned :: "(err + audit_row) list \<Rightarrow> audit_row list" where
  "scanned rows = concat (map (\<lambda>r. case r of Inl _ \<Rightarrow> [] | Inr row \<Rightarrow> [row]) rows)"

definition list_events ::
    "page_codec \<Rightarrow> clickhouse option \<Rightarrow> list_request \<Rightarrow> err + audit_row list \<times> string" where
  "list_events K db req =
     (case db of
        None \<Rightarrow> Inr ([], [])
      | Some ch \<Rightarrow>
          let pageSize = page_size_of (lr_page_size req) in
          case build_where K (time_or_zero (lr_start req)) (time_or_zero (lr_end req)) (lr_types req) (lr_actor req)
                 (lr_service req) (lr_page_token req) of
            Inl e \<Rightarrow> Inl e
          | Inr (where_text, args) \<Rightarrow>
              (case ch_query ch (list_sql where_text (pageSize + 1)) args of
                 Inl e \<Rightarrow> Inl (wrap ''query audit events'' e)
               | Inr (rows, Some e) \<Rightarrow> Inl (wrap ''iterate audit events'' e)
               | Inr (rows, None) \<Rightarrow>
                   let items = scanned rows in
                   if length items > pageSize
                   then
                     let last = items ! (pageSize - 1) in
                     Inr (take pageSize items, encode_page_token K (ev_occurred last) (ev_event_id last))
                   else Inr (items, [])))"

definition count_events :: "page_codec \<Rightarrow> clickhouse option \<Rightarrow> list_request \<Rightarrow> err + int" where
  "count_events K db req =
     (case db of
        None \<Rightarrow> Inr 0
      | Some ch \<Rightarrow>
          case build_where K (time_or_zero (lr_start req)) (time_or_zero (lr_end req)) (lr_types req) (lr_actor req)
                 (lr_service req) [] of
            Inl e \<Rightarrow> Inl e
          | Inr (where_text, args) \<Rightarrow>
              (case ch_count ch (''SELECT count() FROM audit_events '' @ where_text) args of
                 Inl e \<Rightarrow> Inl (wrap ''count audit events'' e)
               | Inr count \<Rightarrow> Inr (int64 (int count))))"

section \<open>Bounds\<close>

lemma page_size_bounds: "0 < page_size_of n" "page_size_of n \<le> 200" "0 < n \<Longrightarrow> int (page_size_of n) \<le> n"
  by (auto simp: page_size_of_def Let_def)

text \<open>
  C40. Whatever ClickHouse returns, a page holds at most 200 events and at most as many as a positive page
  size asks for, and a page with a next token is full.
\<close>

theorem audit_page_bounded:
  assumes "list_events K db req = Inr (items, token)"
  shows "length items \<le> 200 \<and> (0 < lr_page_size req \<longrightarrow> int (length items) \<le> lr_page_size req)
     \<and> (token \<noteq> [] \<longrightarrow> length items = page_size_of (lr_page_size req))"
proof -
  let ?n = "page_size_of (lr_page_size req)"
  from assms have "length items \<le> ?n \<and> (token \<noteq> [] \<longrightarrow> length items = ?n)"
    by (auto simp: list_events_def Let_def split: option.splits sum.splits prod.splits if_splits)
  then show ?thesis using page_size_bounds [of "lr_page_size req"] by linarith
qed

section \<open>Following the pages\<close>

abbreviation row_key :: "audit_row \<Rightarrow> page_token" where
  "row_key r \<equiv> (ev_occurred r, ev_event_id r)"

text \<open>What the filters of a request mean.\<close>

definition request_matches :: "list_request \<Rightarrow> audit_row \<Rightarrow> bool" where
  "request_matches req r \<longleftrightarrow>
     (let s = time_or_zero (lr_start req); e = time_or_zero (lr_end req) in
      (is_zero s \<or> s \<le> ev_occurred r) \<and> (is_zero e \<or> ev_occurred r < e)
      \<and> (lr_types req = [] \<or> ev_event_type r \<in> set (lr_types req))
      \<and> (lr_actor req = [] \<or> ev_actor_id r = lr_actor req)
      \<and> (lr_service req = [] \<or> ev_service r = lr_service req))"

definition after_token :: "page_token option \<Rightarrow> audit_row \<Rightarrow> bool" where
  "after_token after r = (case after of None \<Rightarrow> True | Some k \<Rightarrow> k < row_key r)"

text \<open>
  What ClickHouse documents of the query of a request: the rows of the table that satisfy the conditions,
  ordered by time and id, at most \<open>LIMIT\<close> of them.
\<close>

definition answers :: "clickhouse \<Rightarrow> list_request \<Rightarrow> audit_row list \<Rightarrow> bool" where
  "answers ch req rows \<longleftrightarrow>
     (\<forall>after. case where_clause (where_conditions (time_or_zero (lr_start req)) (time_or_zero (lr_end req))
                      (lr_types req) (lr_actor req) (lr_service req) after) of
        (where_text, args) \<Rightarrow>
          let limit = page_size_of (lr_page_size req) + 1 in
          ch_query ch (list_sql where_text limit) args =
            Inr (map Inr (take limit (sort_key row_key (filter (\<lambda>r. request_matches req r \<and> after_token after r) rows))),
                 None))"

text \<open>A client that follows the tokens, for at most as many pages as the fuel.\<close>

fun follow_pages :: "nat \<Rightarrow> page_codec \<Rightarrow> clickhouse option \<Rightarrow> list_request \<Rightarrow> audit_row list option" where
  "follow_pages 0 K db req = None"
| "follow_pages (Suc n) K db req =
     (case list_events K db req of
        Inl _ \<Rightarrow> None
      | Inr (items, token) \<Rightarrow>
          if token = [] then Some items
          else map_option ((@) items) (follow_pages n K db (req\<lparr>lr_page_token := token\<rparr>)))"

lemma scanned_all [simp]: "scanned (map Inr rows) = rows"
  by (induction rows) (simp_all add: scanned_def)

lemma strict_keys:
  "distinct (map row_key rows) \<Longrightarrow> sorted_wrt (\<lambda>a b. row_key a < row_key b) (sort_key row_key rows)"
proof -
  assume "distinct (map row_key rows)"
  then have "distinct (map row_key (sort_key row_key rows))"
    by (simp add: distinct_map)
  then have "sorted_wrt (<) (map row_key (sort_key row_key rows))"
    by (simp add: strict_sorted_iff)
  then show ?thesis by (simp add: sorted_wrt_map)
qed

lemma filter_after:
  assumes "sorted_wrt (\<lambda>a b. row_key a < row_key b) rows" "0 < k" "k \<le> length rows"
  shows "filter (\<lambda>r. row_key (rows ! (k - 1)) < row_key r) rows = drop k rows"
proof -
  have l: "\<forall>r \<in> set (take k rows). \<not> row_key (rows ! (k - 1)) < row_key r"
  proof
    fix r assume "r \<in> set (take k rows)"
    then obtain i where i: "i < k" "r = rows ! i" using assms(3) by (auto simp: in_set_conv_nth)
    then have "i = k - 1 \<or> row_key (rows ! i) < row_key (rows ! (k - 1))"
      using sorted_wrt_nth_less [OF assms(1), of i "k - 1"] assms(2,3) by auto
    with i show "\<not> row_key (rows ! (k - 1)) < row_key r" by auto
  qed
  have r: "\<forall>r \<in> set (drop k rows). row_key (rows ! (k - 1)) < row_key r"
  proof
    fix r assume "r \<in> set (drop k rows)"
    then obtain i where "i < length rows - k" "r = rows ! (k + i)" by (auto simp: in_set_conv_nth)
    then show "row_key (rows ! (k - 1)) < row_key r"
      using sorted_wrt_nth_less [OF assms(1), of "k - 1" "k + i"] assms(2) by simp
  qed
  have "filter (\<lambda>r. row_key (rows ! (k - 1)) < row_key r) (take k rows @ drop k rows) = drop k rows"
    using l r by (simp only: filter_append) (simp add: filter_empty_conv filter_id_conv)
  then show ?thesis by simp
qed

definition codec_ok :: "page_codec \<Rightarrow> audit_row list \<Rightarrow> bool" where
  "codec_ok K rows \<longleftrightarrow>
     (\<forall>r \<in> set rows. pc_unmarshal K (pc_marshal K (row_key r)) = Inr (row_key r) \<and> pc_marshal K (row_key r) \<noteq> [])"

definition token_of :: "page_codec \<Rightarrow> audit_row option \<Rightarrow> string" where
  "token_of K after = (case after of None \<Rightarrow> [] | Some r \<Rightarrow> encode_page_token K (ev_occurred r) (ev_event_id r))"

definition rest_after :: "list_request \<Rightarrow> audit_row list \<Rightarrow> audit_row option \<Rightarrow> audit_row list" where
  "rest_after req rows after =
     sort_key row_key (filter (\<lambda>r. request_matches req r \<and> after_token (map_option row_key after) r) rows)"

lemma token_simps:
  assumes "codec_ok K rows" "r \<in> set rows"
  shows "token_of K (Some r) \<noteq> []" "decode_page_token K (token_of K (Some r)) = Inr (row_key r)"
  using assms by (simp_all add: codec_ok_def token_of_def encode_page_token_def decode_page_token_def)

lemma build_where_token:
  assumes "codec_ok K rows" "set_option after \<subseteq> set rows"
  shows "build_where K s e ts a v (token_of K after) = Inr (where_clause (where_conditions s e ts a v (map_option row_key after)))"
  using assms token_simps by (cases after) (auto simp: build_where_def token_of_def)

lemma list_events_page:
  assumes "answers ch req rows" "codec_ok K rows" "set_option after \<subseteq> set rows"
  defines "T \<equiv> rest_after req rows after" and "n \<equiv> page_size_of (lr_page_size req)"
  shows "list_events K (Some ch) (req\<lparr>lr_page_token := token_of K after\<rparr>) =
     (if length T \<le> n then Inr (T, []) else Inr (take n T, token_of K (Some (T ! (n - 1)))))"
proof -
  obtain wt args where w: "where_clause (where_conditions (time_or_zero (lr_start req)) (time_or_zero (lr_end req))
      (lr_types req) (lr_actor req) (lr_service req) (map_option row_key after)) = (wt, args)" by fastforce
  have n: "page_size_of (lr_page_size req) = n" by (simp add: n_def)
  from w have q: "ch_query ch (list_sql wt (n + 1)) args = Inr (map Inr (take (n + 1) T), None)"
    using assms(1) unfolding answers_def T_def rest_after_def
    by (auto simp: n dest!: spec [of _ "map_option row_key after"])
  have "0 < n" unfolding n_def by (rule page_size_bounds)
  moreover have "encode_page_token K (ev_occurred r) (ev_event_id r) = token_of K (Some r)" for r
    by (simp add: token_of_def)
  ultimately show ?thesis
    unfolding list_events_def
    by (simp add: build_where_token [OF assms(2,3)] w q Let_def n_def [symmetric] min_def del: One_nat_def)
qed

lemma rest_after_next:
  assumes "distinct (map row_key rows)" "0 < n" "n \<le> length (rest_after req rows after)"
  shows "rest_after req rows (Some (rest_after req rows after ! (n - 1))) = drop n (rest_after req rows after)"
proof -
  let ?P = "\<lambda>r. request_matches req r \<and> after_token (map_option row_key after) r"
  let ?T = "rest_after req rows after"
  have d: "distinct (map row_key (filter ?P rows))"
    using assms(1) by (auto simp: distinct_map intro: inj_on_subset)
  have "?T ! (n - 1) \<in> set ?T" using assms(2,3) by simp
  then have k: "?P (?T ! (n - 1))" by (simp add: rest_after_def)
  then have "filter (\<lambda>r. request_matches req r \<and> row_key (?T ! (n - 1)) < row_key r) rows
     = filter (\<lambda>r. row_key (?T ! (n - 1)) < row_key r) (filter ?P rows)"
    by (auto simp: after_token_def intro!: filter_cong split: option.splits dest: less_trans)
  then have "rest_after req rows (Some (?T ! (n - 1)))
     = filter (\<lambda>r. row_key (?T ! (n - 1)) < row_key r) ?T"
    by (simp add: rest_after_def after_token_def filter_sort)
  also have "\<dots> = drop n ?T"
    using strict_keys [OF d] by (intro filter_after [OF _ assms(2,3)]) (simp only: rest_after_def)
  finally show ?thesis .
qed

lemma follow_pages_rest:
  assumes "answers ch req rows" "codec_ok K rows" "distinct (map row_key rows)"
  shows "set_option after \<subseteq> set rows \<Longrightarrow> length (rest_after req rows after) < fuel \<Longrightarrow>
     follow_pages fuel K (Some ch) (req\<lparr>lr_page_token := token_of K after\<rparr>) = Some (rest_after req rows after)"
proof (induction fuel arbitrary: after)
  case (Suc fuel)
  let ?T = "rest_after req rows after" and ?n = "page_size_of (lr_page_size req)"
  note page = list_events_page [OF assms(1,2) Suc.prems(1)]
  show ?case
  proof (cases "length ?T \<le> ?n")
    case False
    have n: "0 < ?n" by (rule page_size_bounds)
    let ?last = "?T ! (?n - 1)"
    have "?last \<in> set ?T" using False n by simp
    then have last: "?last \<in> set rows" by (simp add: rest_after_def)
    have rest: "rest_after req rows (Some ?last) = drop ?n ?T"
      using False n by (intro rest_after_next [OF assms(3)]) simp_all
    have "follow_pages fuel K (Some ch) (req\<lparr>lr_page_token := token_of K (Some ?last)\<rparr>) = Some (drop ?n ?T)"
      using Suc.IH [of "Some ?last"] Suc.prems(2) last n False by (simp add: rest del: One_nat_def)
    then show ?thesis using False token_simps(1) [OF assms(2) last] by (simp add: page)
  qed (simp add: page)
qed simp


section \<open>A sample table\<close>

definition sample_row :: "string \<Rightarrow> audit_row" where
  "sample_row i = audit_row_of (\<lambda>_ _. None)
     \<lparr>ce_id = i, ce_type = ''t'', ce_spec_version = ''1.0'', ce_source = ''//iam'', ce_subject = [],
      ce_time = unix_epoch, ce_extensions = (\<lambda>_. None), ce_data = [], ce_content_type = [], ce_schema = []\<rparr>"

definition sample_rows :: "audit_row list" where
  "sample_rows = [sample_row ''b'', sample_row ''a'', sample_row ''c'']"

definition sample_codec :: page_codec where
  "sample_codec = \<lparr>pc_marshal = snd, pc_unmarshal = (\<lambda>s. Inr (unix_epoch, s))\<rparr>"

definition sample_request :: list_request where
  "sample_request = \<lparr>lr_start = None, lr_end = None, lr_types = [], lr_actor = [], lr_service = [], lr_page_size = 2,
     lr_page_token = []\<rparr>"

lemma sample_row_sel [simp]: "ev_occurred (sample_row i) = unix_epoch" "ev_event_id (sample_row i) = i"
  by (simp_all add: sample_row_def audit_row_of_def Let_def)

text \<open>A server for the queries of the sample, which differ in the token only.\<close>

definition sample_after :: "sql_arg list \<Rightarrow> page_token option" where
  "sample_after args = (case args of [ArgTime t, ArgString i] \<Rightarrow> Some (t, i) | _ \<Rightarrow> None)"

definition sample_clickhouse :: clickhouse where
  "sample_clickhouse =
     \<lparr>ch_query = (\<lambda>_ args. Inr (map Inr (take 3 (sort_key row_key (filter (after_token (sample_after args)) sample_rows))),
                                None)),
      ch_count = (\<lambda>_ _. Inr 3)\<rparr>"

lemma sample_answers: "answers sample_clickhouse sample_request sample_rows"
  by (auto simp: answers_def sample_clickhouse_def sample_request_def where_clause_def where_conditions_def time_or_zero_def
      sample_after_def page_size_of_def request_matches_def split: option.split)

theorem audit_page_bounded_witness:
  "\<exists>items token. list_events sample_codec (Some sample_clickhouse) sample_request = Inr (items, token)
     \<and> length items \<le> 200 \<and> (0 < lr_page_size sample_request \<longrightarrow> int (length items) \<le> lr_page_size sample_request)"
proof -
  have c: "codec_ok sample_codec sample_rows" by (simp add: codec_ok_def sample_codec_def sample_rows_def)
  have r: "sample_request\<lparr>lr_page_token := token_of sample_codec None\<rparr> = sample_request"
    by (simp add: token_of_def sample_request_def)
  obtain items token where p: "list_events sample_codec (Some sample_clickhouse) sample_request = Inr (items, token)"
    using list_events_page [OF sample_answers c, of None] unfolding r by fastforce
  from audit_page_bounded [OF p] p show ?thesis by blast
qed


end
