(* ===== verification/GoWire.thy ===== *)
theory GoWire
  imports GoStrings
begin

text \<open>
  Prelude: how a process is wired. The generated \<open>wireApp\<close> functions call the constructors in order; what a
  constructor opens belongs to the world until its cleanup runs, and a constructor that fails runs the cleanups
  of what was opened before it. \<open>wires\<close> says that a part of the wiring keeps the account of what is owed.
\<close>

section \<open>Open resources\<close>

datatype resource = MetricsExporter | DatabaseClient | RedisClient | ClickHouseConnection | KafkaClient

text \<open>What is open, the latest first, and the schema statements run.\<close>

record start_world =
  sw_open :: "resource list"
  sw_ddl :: "string list"

type_synonym 'a start = "(start_world, 'a) prog"

definition attempt :: "err option \<Rightarrow> unit start" where
  "attempt e = (case e of None \<Rightarrow> ret () | Some x \<Rightarrow> throw x)"

definition opened :: "resource \<Rightarrow> unit start" where
  "opened r = (\<lambda>w. (Inr (), w\<lparr>sw_open := r # sw_open w\<rparr>))"

definition close :: "resource \<Rightarrow> start_world \<Rightarrow> start_world" where
  "close r w = w\<lparr>sw_open := remove1 r (sw_open w)\<rparr>"

text \<open>\<open>cleanup2(); cleanup()\<close>, the latest first.\<close>

definition cleanup :: "resource list \<Rightarrow> start_world \<Rightarrow> start_world" where
  "cleanup = fold close"

text \<open>\<open>if err != nil { cleanup(); return nil, nil, err }\<close>\<close>

definition or_cleanup :: "resource list \<Rightarrow> 'a start \<Rightarrow> 'a start" where
  "or_cleanup qs p = check p (\<lambda>e w. (Inl e, cleanup qs w)) ret"

lemma attempt_eq [simp]:
  "attempt e w = (Inr (), w') \<longleftrightarrow> e = None \<and> w' = w" "attempt e w = (Inl x, w') \<longleftrightarrow> e = Some x \<and> w' = w"
  by (auto simp: attempt_def split: option.splits)

lemma opened_eq [simp]:
  "opened q w = (r, w') \<longleftrightarrow> r = Inr () \<and> w' = w\<lparr>sw_open := q # sw_open w\<rparr>"
  by (auto simp: opened_def)

lemma close_open [simp]: "sw_open (close q w) = remove1 q (sw_open w)" "sw_ddl (close q w) = sw_ddl w"
  by (simp_all add: close_def)

lemma cleanup_open [simp]: "sw_open (cleanup qs w) = fold remove1 qs (sw_open w)"
  "sw_ddl (cleanup qs w) = sw_ddl w"
  by (induction qs arbitrary: w) (simp_all add: cleanup_def)

lemma or_cleanup_run:
  "or_cleanup qs p w = (case p w of (Inl e, v) \<Rightarrow> (Inl e, cleanup qs v) | (Inr x, v) \<Rightarrow> (Inr x, v))"
  by (simp add: or_cleanup_def check_run split: prod.splits sum.splits)

lemma or_cleanup_Inr: "or_cleanup qs p w = (Inr x, v) \<longleftrightarrow> p w = (Inr x, v)"
  by (auto simp: or_cleanup_run split: prod.splits sum.splits)

section \<open>What is owed\<close>

text \<open>
  Before the part, closing \<open>qs\<close> leads back to what was open at the start; after a failure all is closed, and
  after a success the cleanups of the answer lead back.
\<close>

definition wires :: "resource list \<Rightarrow> resource list \<Rightarrow> 'a start \<Rightarrow> ('a \<Rightarrow> resource list) \<Rightarrow> bool" where
  "wires base qs p qs' \<longleftrightarrow> (\<forall>w r w'. fold remove1 qs (sw_open w) = base \<longrightarrow> p w = (r, w') \<longrightarrow>
     (case r of Inl _ \<Rightarrow> sw_open w' = base | Inr x \<Rightarrow> fold remove1 (qs' x) (sw_open w') = base))"

named_theorems wire_intros \<open>a part of a wiring keeps the account of what is owed\<close>

lemma wiresI:
  assumes "\<And>w r w'. fold remove1 qs (sw_open w) = base \<Longrightarrow> p w = (r, w') \<Longrightarrow>
    (case r of Inl _ \<Rightarrow> sw_open w' = base | Inr x \<Rightarrow> fold remove1 (qs' x) (sw_open w') = base)"
  shows "wires base qs p qs'"
  using assms by (auto simp: wires_def)

lemma wiresD:
  assumes "wires base qs p qs'" "p w = (r, w')" "fold remove1 qs (sw_open w) = base"
  shows "case r of Inl _ \<Rightarrow> sw_open w' = base | Inr x \<Rightarrow> fold remove1 (qs' x) (sw_open w') = base"
  using assms by (auto simp: wires_def)

lemma wires_ret [wire_intros]: "qs = qs' x \<Longrightarrow> wires base qs (ret x) qs'"
  by (rule wiresI) auto

lemma wires_pass [wire_intros]:
  assumes "wires base qs p qs1" "\<And>x. wires base (qs1 x) (k x) qs'"
  shows "wires base qs (pass p k) qs'"
proof (rule wiresI)
  fix w r w'
  assume w: "fold remove1 qs (sw_open w) = base" and run: "pass p k w = (r, w')"
  obtain r1 w1 where p: "p w = (r1, w1)" by fastforce
  show "case r of Inl _ \<Rightarrow> sw_open w' = base | Inr x \<Rightarrow> fold remove1 (qs' x) (sw_open w') = base"
    using wiresD [OF assms(1) p w] run p wiresD [OF assms(2), of _ w1 r w']
    by (cases r1) (auto simp: check_run)
qed

text \<open>A constructor that only computes.\<close>

lemma wires_result [wire_intros]: "wires base qs (or_cleanup qs (result r)) (\<lambda>_. qs)"
  by (rule wiresI) (auto simp: or_cleanup_run split: sum.splits)

text \<open>A constructor that opens \<open>opens x\<close> when it succeeds and nothing when it fails.\<close>

definition acquires :: "'a start \<Rightarrow> ('a \<Rightarrow> resource list) \<Rightarrow> bool" where
  "acquires p opens \<longleftrightarrow> (\<forall>w r w'. p w = (r, w') \<longrightarrow>
     sw_open w' = (case r of Inl _ \<Rightarrow> [] | Inr x \<Rightarrow> opens x) @ sw_open w)"

lemma acquiresD:
  "acquires p opens \<Longrightarrow> p w = (r, w') \<Longrightarrow> sw_open w' = (case r of Inl _ \<Rightarrow> [] | Inr x \<Rightarrow> opens x) @ sw_open w"
  by (simp add: acquires_def)

lemma fold_remove1_append: "fold remove1 (qs @ ps) (qs @ xs) = fold remove1 ps xs"
  by (induction qs) simp_all

lemma wires_acquires:
  assumes "acquires p opens"
  shows "wires base qs (or_cleanup qs p) (\<lambda>x. opens x @ qs)"
proof (rule wiresI)
  fix w r w'
  assume w: "fold remove1 qs (sw_open w) = base" and run: "or_cleanup qs p w = (r, w')"
  obtain r1 w1 where p: "p w = (r1, w1)" by fastforce
  show "case r of Inl _ \<Rightarrow> sw_open w' = base | Inr x \<Rightarrow> fold remove1 (opens x @ qs) (sw_open w') = base"
    using acquiresD [OF assms p] run p w
    by (cases r1) (auto simp: or_cleanup_run fold_remove1_append simp del: fold_append)
qed

lemma wires_first:
  assumes "acquires p opens"
  shows "wires base [] p opens"
  using wires_acquires [OF assms, of base "[]"]
  by (auto simp: wires_def or_cleanup_run cleanup_def split: prod.splits sum.splits)

text \<open>A start that failed left nothing open; one that succeeded is undone by its cleanups.\<close>

lemma wires_start:
  assumes "wires (sw_open w) [] p qs" "p w = (r, w')"
  shows "case r of Inl _ \<Rightarrow> sw_open w' = sw_open w | Inr x \<Rightarrow> sw_open (cleanup (qs x) w') = sw_open w"
  using wiresD [OF assms] by (simp split: sum.splits)

text \<open>\<open>metrics.New\<close>, whose answer is the argument.\<close>

definition metrics_new :: "err option \<Rightarrow> unit start" where
  "metrics_new e = pass (attempt e) (\<lambda>_. opened MetricsExporter)"

lemma metrics_acquires: "acquires (metrics_new e) (\<lambda>_. [MetricsExporter])"
  by (auto simp: acquires_def metrics_new_def prog_inv split: sum.splits)

end
