(* ===== verification/AuditStart.thy ===== *)
theory AuditStart
  imports AuditQuery AuditWriter GoWire
begin

text \<open>
  The start of the audit process: the ClickHouse connection (\<open>infra/clickhouse\<close>), the schema
  (\<open>app/audit/service/internal/data/clickhouse.go\<close>, \<open>data.go\<close>) and the wiring with its cleanups
  (\<open>cmd/server/wire_gen.go\<close>); and the read path of the service. What is open is part of the world; the
  answers of the drivers are parameters.
\<close>

section \<open>Configuration\<close>

record tls_conf =
  tc_enable :: bool
  tc_ca_path :: string
  tc_cert_path :: string
  tc_key_path :: string

record clickhouse_conf =
  hc_addrs :: "string list"
  hc_database :: string
  hc_username :: string
  hc_password :: string
  hc_dial :: "duration option"
  hc_read :: "duration option"
  hc_max_open :: int
  hc_max_idle :: int
  hc_lifetime :: "duration option"
  hc_tls :: "tls_conf option"
  hc_compression :: string

definition or_default :: "'a \<Rightarrow> 'a option \<Rightarrow> 'a option" where
  "or_default d x = (case x of None \<Rightarrow> Some d | Some v \<Rightarrow> Some v)"

definition clickhouse_defaults :: "clickhouse_conf \<Rightarrow> clickhouse_conf" where
  "clickhouse_defaults m = m\<lparr>
     hc_dial := or_default (10 * ns_per_sec) (hc_dial m),
     hc_read := or_default (30 * ns_per_sec) (hc_read m),
     hc_max_open := (if hc_max_open m = 0 then 10 else hc_max_open m),
     hc_max_idle := (if hc_max_idle m = 0 then 5 else hc_max_idle m),
     hc_lifetime := or_default (5 * go_minute) (hc_lifetime m),
     hc_compression := (if hc_compression m = [] then ''none'' else hc_compression m)\<rparr>"

definition clickhouse_required :: "clickhouse_conf \<Rightarrow> err option" where
  "clickhouse_required m =
     (if hc_addrs m = [] then Some (errorf ''plateau.infra.clickhouse.v1.clickhouse.addrs is required'') else None)"

definition clickhouse_apply_conf :: "clickhouse_conf \<Rightarrow> err + clickhouse_conf" where
  "clickhouse_apply_conf m =
     (case clickhouse_required m of Some e \<Rightarrow> Inl e | None \<Rightarrow> Inr (clickhouse_defaults m))"

datatype compression_method = NoCompression | CompressionLZ4 | CompressionZSTD

definition apply_compression :: "string \<Rightarrow> err + compression_method" where
  "apply_compression raw =
     (let v = trim_space (to_lower raw) in
      if v = [] \<or> v = ''none'' then Inr NoCompression
      else if v = ''lz4'' then Inr CompressionLZ4
      else if v = ''zstd'' then Inr CompressionZSTD
      else Inl (errorf ''ClickHouse: unsupported compression''))"

text \<open>\<open>GetX().AsDuration()\<close>: zero when absent.\<close>

definition as_duration :: "duration option \<Rightarrow> duration" where
  "as_duration d = (case d of None \<Rightarrow> 0 | Some x \<Rightarrow> x)"

record clickhouse_options =
  ho_addr :: "string list"
  ho_database :: string
  ho_username :: string
  ho_password :: string
  ho_dial :: duration
  ho_read :: duration
  ho_max_open :: int
  ho_max_idle :: int
  ho_lifetime :: duration
  ho_tls :: "(string \<times> string \<times> string) option"
  ho_compression :: compression_method

section \<open>The drivers\<close>

text \<open>
  \<open>sa_tls\<close> is \<open>svrtls.NewClientConfig\<close>, \<open>sa_open\<close>, \<open>sa_ping\<close> and \<open>sa_exec\<close> the ClickHouse driver,
  \<open>sa_metrics\<close> is \<open>metrics.New\<close> and \<open>sa_kafka\<close> is \<open>kafka.NewClientOptional\<close>, whose client is nil
  (\<open>False\<close>) when Kafka is not configured.
\<close>

record audit_drivers =
  sa_metrics :: "err option"
  sa_tls :: "string \<times> string \<times> string \<Rightarrow> err option"
  sa_open :: "clickhouse_options \<Rightarrow> err option"
  sa_ping :: "duration \<Rightarrow> err option"
  sa_exec :: "string \<Rightarrow> err option"
  sa_kafka :: "string \<Rightarrow> string \<Rightarrow> err + bool"

definition clickhouse_options_of :: "clickhouse_conf \<Rightarrow> clickhouse_options" where
  "clickhouse_options_of config = \<lparr>ho_addr = hc_addrs config, ho_database = hc_database config,
     ho_username = hc_username config, ho_password = hc_password config,
     ho_dial = as_duration (hc_dial config), ho_read = as_duration (hc_read config),
     ho_max_open = hc_max_open config, ho_max_idle = hc_max_idle config,
     ho_lifetime = as_duration (hc_lifetime config), ho_tls = None, ho_compression = NoCompression\<rparr>"

definition with_tls :: "audit_drivers \<Rightarrow> clickhouse_conf \<Rightarrow> clickhouse_options \<Rightarrow> err + clickhouse_options" where
  "with_tls A config opts =
     (case hc_tls config of
        None \<Rightarrow> Inr opts
      | Some t \<Rightarrow>
          if \<not> tc_enable t then Inr opts
          else
            let files = (tc_ca_path t, tc_cert_path t, tc_key_path t) in
            case sa_tls A files of
              Some e \<Rightarrow> Inl (wrap ''build ClickHouse TLS config'' e)
            | None \<Rightarrow> Inr (opts\<lparr>ho_tls := Some files\<rparr>))"

text \<open>The connection, or nil when ClickHouse is not configured.\<close>

definition new_conn_optional :: "audit_drivers \<Rightarrow> clickhouse_conf option \<Rightarrow> bool start" where
  "new_conn_optional A cfg =
     (case cfg of
        None \<Rightarrow> ret False
      | Some m \<Rightarrow>
          if hc_addrs m = [] then ret False
          else
            pass (result (clickhouse_apply_conf m)) (\<lambda>config.
            pass (result (with_tls A config (clickhouse_options_of config))) (\<lambda>opts.
            pass (result (apply_compression (hc_compression config))) (\<lambda>method.
            check (attempt (sa_open A (opts\<lparr>ho_compression := method\<rparr>)))
              (\<lambda>e. throw (wrap ''open ClickHouse'' e)) (\<lambda>_.
            pass (opened ClickHouseConnection) (\<lambda>_.
            check (attempt (sa_ping A (as_duration (hc_dial config))))
              (\<lambda>e w. (Inl (wrap ''ping ClickHouse'' e), close ClickHouseConnection w))
              (\<lambda>_. ret True)))))))"

definition new_clickhouse_client :: "audit_drivers \<Rightarrow> clickhouse_conf option \<Rightarrow> bool start" where
  "new_clickhouse_client A cfg =
     check (new_conn_optional A cfg) (\<lambda>e. throw (wrap ''clickhouse client'' e)) ret"

section \<open>The schema\<close>

definition audit_events_ddl :: "int \<Rightarrow> string" where
  "audit_events_ddl retentionDays = concat (map (\<lambda>l. newline @ l)
     [''CREATE TABLE IF NOT EXISTS audit_events ('',
      ''    event_id              String,'',
      ''    event_type            LowCardinality(String),'',
      ''    event_version         String,'',
      ''    occurred_at           DateTime64(3, '' @ [CHR 0x27] @ ''UTC'' @ [CHR 0x27] @ ''),'',
      [],
      ''    service               LowCardinality(String),'',
      ''    operation             String,'',
      [],
      ''    actor_id              String,'',
      ''    actor_type            LowCardinality(String),'',
      ''    actor_display_name    String,'',
      [],
      ''    target_type           LowCardinality(String),'',
      ''    target_id             String,'',
      ''    target_name           String,'',
      [],
      ''    success               Bool,'',
      ''    error_code            String,'',
      ''    error_message         String,'',
      [],
      ''    trace_id              String,'',
      ''    request_id            String,'',
      [],
      ''    detail                String'',
      '') ENGINE = MergeTree()'',
      ''PARTITION BY toDate(occurred_at)'',
      ''ORDER BY (service, event_type, occurred_at, event_id)'',
      ''TTL occurred_at + INTERVAL '' @ itoa retentionDays @ '' DAY'',
      ''SETTINGS index_granularity = 8192'']) @ newline"

definition create_audit_events_table :: "audit_drivers \<Rightarrow> int \<Rightarrow> unit start" where
  "create_audit_events_table A retentionDays =
     (let ddl = audit_events_ddl (if retentionDays \<le> 0 then 90 else retentionDays) in
      pass (attempt (sa_exec A ddl)) (\<lambda>_ w. (Inr (), w\<lparr>sw_ddl := ddl # sw_ddl w\<rparr>)))"

text \<open>\<open>NewData\<close>: the cleanup it returns closes the connection when there is one.\<close>

definition data_resources :: "bool \<Rightarrow> resource list" where
  "data_resources conn = (if conn then [ClickHouseConnection] else [])"

definition audit_new_data :: "audit_drivers \<Rightarrow> bool \<Rightarrow> int option \<Rightarrow> unit start" where
  "audit_new_data A conn retention =
     (if \<not> conn then ret ()
      else
        let retentionDays = (case retention of None \<Rightarrow> 90 | Some n \<Rightarrow> if n > 0 then n else 90) in
        check (create_audit_events_table A retentionDays)
          (\<lambda>e w. (Inl (wrap ''create audit_events table'' e), cleanup (data_resources conn) w)) ret)"

section \<open>The wiring\<close>

definition new_kafka_client :: "audit_drivers \<Rightarrow> string option \<Rightarrow> string option \<Rightarrow> bool start" where
  "new_kafka_client A kafka auditContract =
     (case sa_kafka A (audit_default_topic auditContract) (audit_default_group kafka) of
        Inl e \<Rightarrow> throw e
      | Inr False \<Rightarrow> ret False
      | Inr True \<Rightarrow> pass (opened KafkaClient) (\<lambda>_. ret True))"

record audit_app =
  ap_clickhouse :: bool
  ap_kafka :: bool

definition audit_wire_app ::
    "audit_drivers \<Rightarrow> string option \<Rightarrow> clickhouse_conf option \<Rightarrow> string option \<Rightarrow> int option \<Rightarrow> audit_app start" where
  "audit_wire_app A kafka clickHouse auditContract auditConsumerConfig =
     pass (metrics_new (sa_metrics A)) (\<lambda>_.
     pass (or_cleanup [MetricsExporter] (new_clickhouse_client A clickHouse)) (\<lambda>conn.
     pass (or_cleanup [MetricsExporter] (audit_new_data A conn auditConsumerConfig)) (\<lambda>_.
     pass (or_cleanup (data_resources conn @ [MetricsExporter]) (new_kafka_client A kafka auditContract)) (\<lambda>client.
     ret \<lparr>ap_clickhouse = conn, ap_kafka = client\<rparr>))))"

text \<open>The cleanup that the wiring returns; \<open>Consumer.Stop\<close>, which runs before it, closes the Kafka client.\<close>

definition audit_cleanup :: "audit_app \<Rightarrow> start_world \<Rightarrow> start_world" where
  "audit_cleanup app = cleanup (data_resources (ap_clickhouse app) @ [MetricsExporter])"

definition stop_kafka :: "audit_app \<Rightarrow> start_world \<Rightarrow> start_world" where
  "stop_kafka app w = (if ap_kafka app then close KafkaClient w else w)"

section \<open>The read path\<close>

text \<open>\<open>AuditService\<close> and \<open>AuditUsecase\<close> hand the request to the repository.\<close>

definition usecase_list_events ::
    "page_codec \<Rightarrow> clickhouse option \<Rightarrow> list_request \<Rightarrow> err + audit_row list \<times> string" where
  "usecase_list_events K db req = list_events K db req"

definition usecase_count_events :: "page_codec \<Rightarrow> clickhouse option \<Rightarrow> list_request \<Rightarrow> err + int" where
  "usecase_count_events K db req = count_events K db req"

definition list_audit_events ::
    "page_codec \<Rightarrow> clickhouse option \<Rightarrow> list_request \<Rightarrow> err + audit_row list \<times> string" where
  "list_audit_events K db req =
     (case usecase_list_events K db req of Inl e \<Rightarrow> Inl e | Inr (items, nextToken) \<Rightarrow> Inr (items, nextToken))"

definition count_audit_events :: "page_codec \<Rightarrow> clickhouse option \<Rightarrow> list_request \<Rightarrow> err + int" where
  "count_audit_events K db req =
     (case usecase_count_events K db req of Inl e \<Rightarrow> Inl e | Inr count \<Rightarrow> Inr count)"

text \<open>A row that does not scan makes a full page look like the last one.\<close>

lemma scanned_le: "length (scanned xs) \<le> length xs"
  by (induction xs) (auto simp: scanned_def split: sum.split)

lemma scanned_less: "Inl e \<in> set xs \<Longrightarrow> length (scanned xs) < length xs"
proof (induction xs)
  case (Cons x xs)
  then show ?case using scanned_le [of xs] by (cases x) (auto simp: scanned_def)
qed simp

lemma unreadable_row_ends_listing:
  assumes "build_where K (time_or_zero (lr_start req)) (time_or_zero (lr_end req)) (lr_types req) (lr_actor req)
      (lr_service req) (lr_page_token req) = Inr (where_text, args)"
    and "ch_query ch (list_sql where_text (page_size_of (lr_page_size req) + 1)) args = Inr (rows, None)"
    and "length rows = page_size_of (lr_page_size req) + 1" "Inl e \<in> set rows"
  shows "list_audit_events K (Some ch) req = Inr (scanned rows, [])"
proof -
  have "length (scanned rows) \<le> page_size_of (lr_page_size req)" using scanned_less [OF assms(4)] assms(3) by simp
  then show ?thesis
    using assms(1,2) by (simp add: list_audit_events_def usecase_list_events_def list_events_def Let_def)
qed

section \<open>What a start leaves\<close>

definition configured :: "clickhouse_conf option \<Rightarrow> bool" where
  "configured cfg \<longleftrightarrow> (\<exists>m. cfg = Some m \<and> hc_addrs m \<noteq> [])"

lemma new_conn_acquires: "acquires (new_conn_optional A cfg) data_resources"
  by (auto simp: acquires_def new_conn_optional_def data_resources_def prog_inv split: option.splits if_splits)

lemma new_client_acquires: "acquires (new_clickhouse_client A cfg) data_resources"
  using new_conn_acquires [of A cfg]
  by (auto simp: acquires_def new_clickhouse_client_def check_run split: prod.splits sum.splits)

lemma new_client_Inr:
  assumes "new_clickhouse_client A cfg w = (Inr b, w')"
  shows "b = configured cfg \<and> sw_ddl w' = sw_ddl w"
  using assms
  by (auto simp: new_clickhouse_client_def new_conn_optional_def configured_def prog_inv split: option.splits if_splits)

lemma kafka_acquires:
  "acquires (new_kafka_client A kafka contract) (\<lambda>b. if b then [KafkaClient] else [])"
  by (auto simp: acquires_def new_kafka_client_def prog_inv split: sum.splits bool.splits)

lemma kafka_ddl: "new_kafka_client A kafka contract w = (r, w') \<Longrightarrow> sw_ddl w' = sw_ddl w"
  by (auto simp: new_kafka_client_def prog_inv split: sum.splits bool.splits)

text \<open>The days that the schema keeps events.\<close>

definition kept_days :: "int option \<Rightarrow> int" where
  "kept_days retention = (case retention of Some n \<Rightarrow> if n > 0 then n else 90 | None \<Rightarrow> 90)"

lemma kept_days_pos: "0 < kept_days retention"
  by (simp add: kept_days_def split: option.split)

lemma new_data_runs:
  assumes "audit_new_data A conn retention w = (r, w')"
  shows "r = Inr () \<Longrightarrow> sw_open w' = sw_open w \<and>
      sw_ddl w' = (if conn then audit_events_ddl (kept_days retention) # sw_ddl w else sw_ddl w)"
    and "r = Inl e \<Longrightarrow> sw_open w' = fold remove1 (data_resources conn) (sw_open w)"
  using assms kept_days_pos [of retention]
  by (auto simp: audit_new_data_def create_audit_events_table_def data_resources_def kept_days_def Let_def prog_inv
      split: option.splits if_splits)

lemma new_data_wires:
  "wires base (data_resources conn @ [MetricsExporter]) (or_cleanup [MetricsExporter] (audit_new_data A conn retention))
     (\<lambda>_. data_resources conn @ [MetricsExporter])"
proof (rule wiresI)
  fix w r w'
  assume w: "fold remove1 (data_resources conn @ [MetricsExporter]) (sw_open w) = base"
    and run: "or_cleanup [MetricsExporter] (audit_new_data A conn retention) w = (r, w')"
  obtain r1 w1 where d: "audit_new_data A conn retention w = (r1, w1)" by fastforce
  show "case r of Inl _ \<Rightarrow> sw_open w' = base
    | Inr _ \<Rightarrow> fold remove1 (data_resources conn @ [MetricsExporter]) (sw_open w') = base"
  proof (cases r1)
    case (Inl e)
    with new_data_runs(2) [OF d Inl] run d w show ?thesis by (auto simp: or_cleanup_run)
  next
    case (Inr u)
    with new_data_runs(1) [OF d] run d w show ?thesis by (auto simp: or_cleanup_run)
  qed
qed

definition audit_owed :: "audit_app \<Rightarrow> resource list" where
  "audit_owed app = (if ap_kafka app then [KafkaClient] else []) @ data_resources (ap_clickhouse app) @ [MetricsExporter]"

lemma audit_wires: "wires base [] (audit_wire_app A kafka cfg contract retention) audit_owed"
  unfolding audit_wire_app_def
  by (rule wires_pass [OF wires_first [OF metrics_acquires]], rule wires_pass [OF wires_acquires [OF new_client_acquires]],
      rule wires_pass [OF new_data_wires], rule wires_pass [OF wires_acquires [OF kafka_acquires]])
    (rule wires_ret, simp add: audit_owed_def)

lemma audit_cleanups: "sw_open (audit_cleanup app (stop_kafka app w)) = sw_open (cleanup (audit_owed app) w)"
  by (simp add: audit_cleanup_def stop_kafka_def audit_owed_def)

lemma audit_wire_Inr:
  assumes "audit_wire_app A kafka cfg contract retention w = (Inr app, w')"
  shows "ap_clickhouse app = configured cfg
    \<and> sw_ddl w' = (if configured cfg then audit_events_ddl (kept_days retention) # sw_ddl w else sw_ddl w)"
proof -
  from assms obtain w1 w2 w3 conn client where m: "metrics_new (sa_metrics A) w = (Inr (), w1)"
    and c: "new_clickhouse_client A cfg w1 = (Inr conn, w2)"
    and d: "audit_new_data A conn retention w2 = (Inr (), w3)"
    and k: "new_kafka_client A kafka contract w3 = (Inr client, w')"
    and app: "app = \<lparr>ap_clickhouse = conn, ap_kafka = client\<rparr>"
    by (auto simp: audit_wire_app_def pass_Inr or_cleanup_Inr)
  have "sw_ddl w1 = sw_ddl w" using m by (auto simp: metrics_new_def prog_inv)
  with new_client_Inr [OF c] new_data_runs(1) [OF d] kafka_ddl [OF k] app show ?thesis by simp
qed

text \<open>
  C27. Whatever step of the start of the audit process fails, every connection and exporter it had opened is closed
  again; a start that succeeds has a ClickHouse connection exactly when one is configured, with the table created
  for a positive number of days, and its cleanup after the stop of the consumer closes all that was opened.
\<close>

theorem audit_start_leaks_nothing:
  assumes "audit_wire_app A kafka clickHouse auditContract retention w = (r, w')"
  shows "case r of
      Inl e \<Rightarrow> sw_open w' = sw_open w
    | Inr app \<Rightarrow> ap_clickhouse app = configured clickHouse
        \<and> sw_ddl w' = (if configured clickHouse then audit_events_ddl (kept_days retention) # sw_ddl w else sw_ddl w)
        \<and> sw_open (audit_cleanup app (stop_kafka app w')) = sw_open w"
  using wires_start [OF audit_wires assms] audit_wire_Inr [of A kafka clickHouse auditContract retention w _ w'] assms
  by (auto simp: audit_cleanups simp del: cleanup_open split: sum.splits)

section \<open>A start\<close>

definition demo_clickhouse :: clickhouse_conf where
  "demo_clickhouse = \<lparr>hc_addrs = [''ch:9000''], hc_database = ''audit'', hc_username = [], hc_password = [],
     hc_dial = None, hc_read = None, hc_max_open = 0, hc_max_idle = 0, hc_lifetime = None, hc_tls = None,
     hc_compression = ''none''\<rparr>"

definition demo_drivers :: audit_drivers where
  "demo_drivers = \<lparr>sa_metrics = None, sa_tls = (\<lambda>_. None), sa_open = (\<lambda>_. None), sa_ping = (\<lambda>_. None),
     sa_exec = (\<lambda>_. Some (errorf ''code: 497'')), sa_kafka = (\<lambda>_ _. Inr True)\<rparr>"

theorem audit_start_leaks_nothing_witness:
  "\<exists>e w'. audit_wire_app demo_drivers None (Some demo_clickhouse) None None \<lparr>sw_open = [], sw_ddl = []\<rparr> = (Inl e, w')
     \<and> sw_open w' = []"
proof -
  let ?w = "\<lparr>sw_open = [], sw_ddl = []\<rparr>"
  have low: "to_lower ''none'' = ''none''" "trim_space ''none'' = ''none''"
    by (simp_all add: to_lower_def lower_rune_def trim_space_def rune_where_def rune_is_space_def)
  obtain r w' where run: "audit_wire_app demo_drivers None (Some demo_clickhouse) None None ?w = (r, w')" by fastforce
  then have "\<exists>e. r = Inl e"
    by (auto simp: audit_wire_app_def metrics_new_def new_clickhouse_client_def new_conn_optional_def check_run
        clickhouse_apply_conf_def clickhouse_required_def clickhouse_defaults_def with_tls_def clickhouse_options_of_def
        apply_compression_def low demo_clickhouse_def demo_drivers_def attempt_def opened_def or_cleanup_run
        audit_new_data_def create_audit_events_table_def Let_def)
  with audit_start_leaks_nothing [OF run] run show ?thesis by auto
qed

end
