(* ===== verification/IamUniform.thy ===== *)
theory IamUniform
  imports IamServed
begin

text \<open>
  What a login tells a stranger: on a database that answers, every failed login whose credentials were
  not right gets one and the same answer, whatever was wrong, and changes nothing.
\<close>

section \<open>Reads of a quiet database\<close>

lemma only_not_found:
  assumes "unique_by key rows" "\<And>s. P s \<Longrightarrow> key s = k" "ent_only P rows = Inl e"
  shows "e = not_found"
proof (cases "\<exists>r \<in> set rows. P r")
  case True
  then obtain r where "r \<in> set rows" "P r" by blast
  then have "ent_only P rows = Inr r" using assms(1,2) by (intro unique_by_only [where key = key and k = k]) auto
  with assms(3) show ?thesis by simp
next
  case False
  then have "ent_only P rows = Inl not_found" by (intro ent_only_none) blast
  with assms(3) show ?thesis by simp
qed

lemma quiet_only:
  assumes "quiet E" "unique_by key (tb_get T (dw_db w))" "\<And>s. P s \<Longrightarrow> key s = k"
  obtains (found) r where "translated (db_exec E (only T P)) w = (Inr r, w\<lparr>tick := Suc (tick w)\<rparr>)"
      "r \<in> set (tb_get T (dw_db w))" "P r"
  | (missing) "translated (db_exec E (only T P)) w = (Inl (biz ErrNotFound), w\<lparr>tick := Suc (tick w)\<rparr>)"
proof (cases "ent_only P (tb_get T (dw_db w))")
  case (Inl e)
  then have "e = not_found" using assms(2,3) by (intro only_not_found [where key = key and k = k])
  with Inl show thesis by (intro missing) (simp add: translated_def check_run quiet_run [OF assms(1)] only_def)
next
  case (Inr r)
  with ent_only_in [OF Inr] show thesis
    by (intro found [of r]) (auto simp: translated_def check_run quiet_run [OF assms(1)] only_def)
qed

lemma quiet_user_get:
  assumes q: "quiet E" and wf: "db_wf (dw_db w)" and i: "i \<in> set (db_identifiers (dw_db w))"
    "li_type i = login_identifier_email"
  obtains (found) user u v where "user_get E L (li_user i) w = (Inr user, v)" "dw_db v = dw_db w"
      "u \<in> set (db_users (dw_db w))" "us_id u = li_user i" "up_user_id user = li_user i"
      "up_status user = user_status_of (us_status u)" "up_email_verified user \<longleftrightarrow> li_verified i \<noteq> None"
  | (missing) v where "user_get E L (li_user i) w = (Inl (biz ErrNotFound), v)" "dw_db v = dw_db w"
proof -
  have ui: "unique_by us_id (tb_get users_t (dw_db w))" using wf_unique(1) [OF wf] by (simp add: users_t_def)
  show thesis
  proof (rule quiet_only [OF q ui, of "\<lambda>u. us_id u = li_user i" "li_user i"])
    fix u
    let ?w = "w\<lparr>tick := Suc (tick w)\<rparr>"
    assume u: "translated (db_exec E (only users_t (\<lambda>u. us_id u = li_user i))) w = (Inr u, ?w)"
      "u \<in> set (tb_get users_t (dw_db w))" "us_id u = li_user i"
    let ?xs = "filter (\<lambda>x. li_user x = li_user i \<and> li_type x = login_identifier_email) (db_identifiers (dw_db w))"
    have "email_by_user_id ?xs (li_user i) = Some i"
    proof (rule email_by_user_id_only)
      fix y
      assume "y \<in> set ?xs" "li_user y = li_user i"
      with i show "y = i" using wf_unique(22) [OF wf] by (auto dest: unique_byD [where r = y and s = i])
    qed (use i in auto)
    then have "user_get E L (li_user i) w = (to_resource L (email_by_user_id ?xs) u, ?w\<lparr>tick := Suc (tick ?w)\<rparr>)"
      "\<exists>x. to_resource L (email_by_user_id ?xs) u = Inr x \<and> up_user_id x = li_user i
         \<and> up_status x = user_status_of (us_status u) \<and> (up_email_verified x \<longleftrightarrow> li_verified i \<noteq> None)"
      using u by (auto simp: user_get_def to_resources_def check_run translated_def quiet_run [OF q] all_where_def
          identifiers_t_def to_resource_def to_dto_def)
    with u(2,3) show thesis by (auto simp: users_t_def intro!: found)
  next
    assume "translated (db_exec E (only users_t (\<lambda>u. us_id u = li_user i))) w
      = (Inl (biz ErrNotFound), w\<lparr>tick := Suc (tick w)\<rparr>)"
    then show thesis by (intro missing [of "w\<lparr>tick := Suc (tick w)\<rparr>"]) (auto simp: user_get_def check_run)
  qed
qed

lemma quiet_find_by_email:
  assumes q: "quiet E" and wf: "db_wf (dw_db w)"
  obtains (found) user i u v where "user_find_by_email E L c w = (Inr user, v)" "dw_db v = dw_db w"
      "i \<in> set (db_identifiers (dw_db w))" "li_type i = login_identifier_email" "li_canonical i = c"
      "u \<in> set (db_users (dw_db w))" "us_id u = li_user i" "up_user_id user = li_user i"
      "up_status user = user_status_of (us_status u)" "up_email_verified user \<longleftrightarrow> li_verified i \<noteq> None"
  | (missing) v where "user_find_by_email E L c w = (Inl (biz ErrNotFound), v)" "dw_db v = dw_db w"
proof -
  have ui: "unique_by (\<lambda>i. (li_type i, li_canonical i)) (tb_get identifiers_t (dw_db w))"
    using wf_unique(21) [OF wf] by (simp add: identifiers_t_def)
  show thesis
  proof (rule quiet_only [OF q ui, of "\<lambda>i. li_type i = login_identifier_email \<and> li_canonical i = c" "(login_identifier_email, c)"])
    fix i
    let ?w = "w\<lparr>tick := Suc (tick w)\<rparr>"
    assume i: "translated (db_exec E (only identifiers_t (\<lambda>i. li_type i = login_identifier_email \<and> li_canonical i = c))) w
        = (Inr i, ?w)" "i \<in> set (tb_get identifiers_t (dw_db w))" "li_type i = login_identifier_email \<and> li_canonical i = c"
    have run: "user_find_by_email E L c w = user_get E L (li_user i) ?w"
      using i(1) by (simp add: user_find_by_email_def check_run)
    show thesis
      by (rule quiet_user_get [OF q, of ?w i L])
        (use i wf run in \<open>auto simp: identifiers_t_def intro: found missing\<close>)
  next
    assume "translated (db_exec E (only identifiers_t (\<lambda>i. li_type i = login_identifier_email \<and> li_canonical i = c))) w
      = (Inl (biz ErrNotFound), w\<lparr>tick := Suc (tick w)\<rparr>)"
    then show thesis by (intro missing [of "w\<lparr>tick := Suc (tick w)\<rparr>"]) (auto simp: user_find_by_email_def check_run)
  qed auto
qed

text \<open>No user has two active passwords; registration gives one and a reset replaces it in place.\<close>

definition one_password :: "db \<Rightarrow> bool" where
  "one_password d \<longleftrightarrow> (\<forall>u. \<forall>a \<in> set (db_authenticators d). \<forall>b \<in> set (db_authenticators d).
     active_password_of u a \<longrightarrow> active_password_of u b \<longrightarrow> au_id a = au_id b)"

lemma quiet_credential:
  assumes q: "quiet E" and wf: "db_wf (dw_db w)" and one: "one_password (dw_db w)"
  obtains (found) a p v where "credential_find_active E u w = (Inr \<lparr>pcr_user_id = u, pcr_authenticator_id = au_id a,
        pcr_password_hash = pw_hash p\<rparr>, v)" "dw_db v = dw_db w"
      "a \<in> set (db_authenticators (dw_db w))" "active_password_of u a"
      "p \<in> set (db_passwords (dw_db w))" "pw_authenticator p = au_id a"
  | (missing) v where "credential_find_active E u w = (Inl (biz ErrNotFound), v)" "dw_db v = dw_db w"
proof -
  let ?A = "filter (active_password_of u) (db_authenticators (dw_db w))"
  let ?w = "w\<lparr>tick := Suc (tick w)\<rparr>"
  have same: "a = b" if "a \<in> set ?A" "b \<in> set ?A" for a b
    using that one wf_unique(3) [OF wf] unfolding one_password_def by (auto dest: unique_byD)
  have "distinct (db_authenticators (dw_db w))"
    using wf_unique(3) [OF wf] by (simp add: unique_by_def distinct_map)
  then have "distinct ?A" by simp
  have "?A = [] \<or> (\<exists>a. ?A = [a])"
  proof (cases ?A)
    case (Cons a xs)
    have "xs = []"
    proof (rule ccontr)
      assume "xs \<noteq> []"
      then obtain b where "b \<in> set xs" by (cases xs) auto
      with same [of a b] \<open>distinct ?A\<close> show False unfolding Cons by simp
    qed
    with Cons show ?thesis by simp
  qed simp
  then consider "?A = []" | a where "?A = [a]" by blast
  then show thesis
  proof cases
    case 1
    then show thesis by (intro missing [of ?w])
        (simp_all add: credential_find_active_def check_run translated_def quiet_run [OF q] only_def ent_only_def
          authenticators_t_def)
  next
    case (2 a)
    then have "a \<in> set ?A" by simp
    then have a: "a \<in> set (db_authenticators (dw_db w))" "active_password_of u a" by simp_all
    have first: "translated (db_exec E (only authenticators_t (active_password_of u))) w = (Inr a, ?w)"
      using 2 by (simp add: translated_def check_run quiet_run [OF q] only_def ent_only_def authenticators_t_def)
    have up: "unique_by pw_authenticator (tb_get passwords_t (dw_db ?w))"
      using wf_unique(5) [OF wf] by (simp add: passwords_t_def)
    show thesis
    proof (rule quiet_only [OF q up, of "\<lambda>p. pw_authenticator p = au_id a" "au_id a"])
      fix p
      assume p: "translated (db_exec E (only passwords_t (\<lambda>p. pw_authenticator p = au_id a))) ?w
          = (Inr p, ?w\<lparr>tick := Suc (tick ?w)\<rparr>)" "p \<in> set (tb_get passwords_t (dw_db ?w))" "pw_authenticator p = au_id a"
      with first have "credential_find_active E u w = (Inr \<lparr>pcr_user_id = u, pcr_authenticator_id = au_id a,
          pcr_password_hash = pw_hash p\<rparr>, ?w\<lparr>tick := Suc (tick ?w)\<rparr>)"
        by (simp add: credential_find_active_def check_run)
      with p(2,3) a show thesis
        by (intro found [of a p "?w\<lparr>tick := Suc (tick ?w)\<rparr>"]) (auto simp: passwords_t_def)
    next
      assume "translated (db_exec E (only passwords_t (\<lambda>p. pw_authenticator p = au_id a))) ?w
          = (Inl (biz ErrNotFound), ?w\<lparr>tick := Suc (tick ?w)\<rparr>)"
      with first show thesis
        by (intro missing [of "?w\<lparr>tick := Suc (tick ?w)\<rparr>"]) (auto simp: credential_find_active_def check_run)
    qed auto
  qed
qed

section \<open>The answer\<close>

definition password_matches :: "iam_lib \<Rightarrow> db \<Rightarrow> string \<Rightarrow> string \<Rightarrow> bool" where
  "password_matches L d userID password \<longleftrightarrow>
     (\<exists>a \<in> set (db_authenticators d). active_password_of userID a
        \<and> (\<exists>p \<in> set (db_passwords d). pw_authenticator p = au_id a
             \<and> (\<exists>m. password_compare (il_argon L) password (pw_hash p) = Inr (True, m))))"

lemma login_without_password:
  fixes w v :: "(db, 'z) db_world_scheme"
  assumes q: "quiet E" and wf: "db_wf (dw_db v)" and one: "one_password (dw_db v)"
    and n: "normalize_email L email = Inr (c, d)" and f: "user_find_by_email E L c w = (Inr user, v)"
    and user: "may_login user" "up_user_id user = u" and no: "\<not> password_matches L (dw_db v) u password"
  obtains w' where "authentication_login E L (iam_authentication E L) email password w
      = (Inl (biz ErrInvalidCredentials), w')" "dw_db w' = dw_db v"
proof (rule quiet_credential [OF q wf one, of u])
  fix v1 :: "(db, 'z) db_world_scheme"
  assume "credential_find_active E u v = (Inl (biz ErrNotFound), v1)" "dw_db v1 = dw_db v"
  with f user show thesis by (intro that [of v1]) (simp_all add: authentication_login_def check_run n wired)
next
  fix a p and v1 :: "(db, 'z) db_world_scheme"
  assume cr: "credential_find_active E u v = (Inr \<lparr>pcr_user_id = u, pcr_authenticator_id = au_id a,
      pcr_password_hash = pw_hash p\<rparr>, v1)" "dw_db v1 = dw_db v"
    and a: "a \<in> set (db_authenticators (dw_db v))" "active_password_of u a"
      "p \<in> set (db_passwords (dw_db v))" "pw_authenticator p = au_id a"
  then have "password_compare (il_argon L) password (pw_hash p) \<noteq> Inr (True, m)" for m
    using no unfolding password_matches_def by metis
  then consider e where "password_compare (il_argon L) password (pw_hash p) = Inl e"
    | m where "password_compare (il_argon L) password (pw_hash p) = Inr (False, m)"
    by (cases "password_compare (il_argon L) password (pw_hash p)") (metis, metis (full_types) old.prod.exhaust)
  then have "authentication_login E L (iam_authentication E L) email password w = (Inl (biz ErrInvalidCredentials), v1)"
    by cases (simp_all add: authentication_login_def check_run n wired f cr(1) user)
  with cr(2) show thesis by (intro that)
qed

definition right_credentials :: "iam_lib \<Rightarrow> db \<Rightarrow> string \<Rightarrow> string \<Rightarrow> bool" where
  "right_credentials L d email password \<longleftrightarrow>
     (\<exists>canonical display. normalize_email L email = Inr (canonical, display)
       \<and> (\<exists>i \<in> set (db_identifiers d). li_type i = login_identifier_email \<and> li_canonical i = canonical
            \<and> li_verified i \<noteq> None
            \<and> (\<exists>u \<in> set (db_users d). us_id u = li_user i \<and> us_status u = user_status_active)
            \<and> password_matches L d (li_user i) password))"

text \<open>
  C8. On a database that answers, every login that fails without the right credentials of an active,
  verified user gets the same answer, 401 with INVALID_CREDENTIALS and no cause, and leaves the database as it
  was: an unknown or malformed address, an unverified, disabled or pending user, a missing password and a
  wrong one cannot be told apart by the answer.
\<close>

theorem login_failures_look_alike:
  fixes w :: "(db, 'z) db_world_scheme"
  assumes "quiet E" "db_wf (dw_db w)" "one_password (dw_db w)"
    and "\<not> right_credentials L (dw_db w) email password"
  shows "\<exists>w'. authn_login E L (iam_authentication E L) ctx (Some (email, password)) w
      = (Inl (Node (ApiError 401 ''AUTHN_ERROR_REASON_INVALID_CREDENTIALS'') []), w') \<and> dw_db w' = dw_db w"
proof -
  have "\<exists>w'. authentication_login E L (iam_authentication E L) email password w
      = (Inl (biz ErrInvalidCredentials), w') \<and> dw_db w' = dw_db w"
  proof (cases "normalize_email L email")
    case (Inl e)
    then show ?thesis by (simp add: authentication_login_def check_run)
  next
    case (Inr cd)
    then obtain c d where n: "normalize_email L email = Inr (c, d)" by (cases cd) auto
    show ?thesis
    proof (rule quiet_find_by_email [OF assms(1,2), of L c])
      fix v :: "(db, 'z) db_world_scheme"
      assume "user_find_by_email E L c w = (Inl (biz ErrNotFound), v)" "dw_db v = dw_db w"
      then show ?thesis by (simp add: authentication_login_def check_run n wired)
    next
      fix user i u and v :: "(db, 'z) db_world_scheme"
      assume f: "user_find_by_email E L c w = (Inr user, v)" "dw_db v = dw_db w"
        and i: "i \<in> set (db_identifiers (dw_db w))" "li_type i = login_identifier_email" "li_canonical i = c"
        and u: "u \<in> set (db_users (dw_db w))" "us_id u = li_user i"
        and user: "up_user_id user = li_user i" "up_status user = user_status_of (us_status u)"
          "up_email_verified user \<longleftrightarrow> li_verified i \<noteq> None"
      show ?thesis
      proof (cases "may_login user")
        case False
        with f show ?thesis by (simp add: authentication_login_def check_run n wired)
      next
        case True
        then have act: "us_status u = user_status_active" "li_verified i \<noteq> None"
          using user by (auto simp: may_login_def user_status_of_def split: if_splits)
        show ?thesis
        proof (rule login_without_password [OF assms(1) _ _ n f(1) True user(1)])
          show "\<not> password_matches L (dw_db v) (li_user i) password"
            using assms(4) n i u act f(2) unfolding right_credentials_def by metis
        qed (use f(2) assms(2,3) in \<open>auto\<close>)
      qed
    qed
  qed
  then show ?thesis by (auto simp: authn_login_def check_run authn_error_def)
qed

theorem login_failures_look_alike_witness:
  "\<forall>ctx :: go_ctx. \<exists>w'. authn_login demo_env demo_lib (iam_authentication demo_env demo_lib) ctx (Some (''a@x'', ''no'')) demo_world
      = (Inl (Node (ApiError 401 ''AUTHN_ERROR_REASON_INVALID_CREDENTIALS'') []), w') \<and> dw_db w' = demo_db"
proof -
  have "one_password demo_db"
    by (auto simp: one_password_def demo_db_def empty_db_def demo_rows active_password_of_def)
  moreover have "\<not> right_credentials demo_lib demo_db ''a@x'' ''no''"
    by (simp add: right_credentials_def password_matches_def demo_email demo_db_def empty_db_def demo_rows
        active_password_of_def password_compare_def demo_argon)
  ultimately have "\<exists>w'. authn_login demo_env demo_lib (iam_authentication demo_env demo_lib) ctx
      (Some (''a@x'', ''no'')) demo_world
      = (Inl (Node (ApiError 401 ''AUTHN_ERROR_REASON_INVALID_CREDENTIALS'') []), w') \<and> dw_db w' = demo_db"
    for ctx :: go_ctx
    using login_failures_look_alike [OF demo_env_quiet(1), of demo_world demo_lib "''a@x''" "''no''" ctx] demo_db_wf
    by (simp add: demo_world_def)
  then show ?thesis by blast
qed

end
