(* ===== verification/IamList.thy ===== *)
theory IamList
  imports IamUniform
begin

text \<open>
  Listing users: the list engine of the framework picks rows of the table, and what the service answers for a row
  is what it answers when the user is asked for by name.
\<close>

text \<open>What the framework promises: a page is made of rows of the table, and the result holds the items it is given.\<close>

definition list_engine :: "crud_plan \<Rightarrow> bool" where
  "list_engine P \<longleftrightarrow>
     (\<forall>query rows items token total. cp_list P query rows = Inr (items, token, total) \<longrightarrow> set items \<subseteq> set rows)
   \<and> (\<forall>query us token total vs next. cp_list_result P query us token total = Inr (vs, next) \<longrightarrow> vs = us \<and> next = token)"

lemma to_resource_cong: "f (us_id u) = g (us_id u) \<Longrightarrow> to_resource L f u = to_resource L g u"
  by (simp add: to_resource_def)

text \<open>The identifier that a batch finds for a user is the one that a single query finds.\<close>

lemma email_by_user_id_batch:
  fixes d :: db
  assumes wf: "db_wf d" and "k \<in> ks"
    and found: "email_by_user_id (filter (\<lambda>i. li_user i \<in> ks \<and> li_type i = login_identifier_email) (db_identifiers d)) k = Some x"
  shows "email_by_user_id (filter (\<lambda>i. li_user i = k \<and> li_type i = login_identifier_email) (db_identifiers d)) k = Some x"
proof -
  have x: "x \<in> set (db_identifiers d)" "li_user x = k" "li_type x = login_identifier_email"
    using email_by_user_id_Some [OF found] by auto
  have "unique_by (\<lambda>i. (li_user i, li_type i)) (db_identifiers d)" using wf by (rule wf_unique)
  then show ?thesis using x by (intro email_by_user_id_only) (auto dest: unique_byD)
qed

lemma quiet_get_row:
  fixes w :: "(db, 'z) db_world_scheme"
  assumes q: "quiet E" and wf: "db_wf (dw_db w)" and u: "u \<in> set (db_users (dw_db w))"
    and k: "us_id u \<in> ks" and r: "to_resource L (email_by_user_id
        (filter (\<lambda>i. li_user i \<in> ks \<and> li_type i = login_identifier_email) (db_identifiers (dw_db w)))) u = Inr x"
  obtains v where "user_get E L (us_id u) w = (Inr x, v)" "dw_db v = dw_db w"
proof -
  from r obtain i where "email_by_user_id
      (filter (\<lambda>i. li_user i \<in> ks \<and> li_type i = login_identifier_email) (db_identifiers (dw_db w))) (us_id u) = Some i"
    by (auto simp: to_resource_def split: option.splits)
  from email_by_user_id_batch [OF wf k this] this r have x: "to_resource L (email_by_user_id
      (filter (\<lambda>i. li_user i = us_id u \<and> li_type i = login_identifier_email) (db_identifiers (dw_db w)))) u = Inr x"
    by (simp add: to_resource_def)
  have "ent_only (\<lambda>s. us_id s = us_id u) (db_users (dw_db w)) = Inr u"
    using wf_unique(1) [OF wf] u by (intro unique_by_only [where key = us_id and k = "us_id u"]) auto
  then have "user_get E L (us_id u) w = (Inr x, w\<lparr>tick := Suc (Suc (tick w))\<rparr>)"
    using x by (simp add: user_get_def to_resources_def check_run translated_def quiet_run [OF q] only_def all_where_def
        users_t_def identifiers_t_def)
  then show thesis by (rule that) simp
qed

text \<open>
  What \<open>ListUsers\<close> shows is what \<open>GetUser\<close> shows: on a database that answers, every resource of a page is the
  answer to a request for the user of that row, with the email address and the verification of that very user, and
  listing changes nothing.
\<close>

lemma listed_users_as_single:
  fixes w :: "(db, 'z) db_world_scheme"
  assumes q: "quiet E" and wf: "db_wf (dw_db w)" and engine: "list_engine P"
    and run: "service_list_users E L P request w = (Inr (ReplyUsers users token, cookie), w')"
  shows "dw_db w' = dw_db w \<and> (\<forall>x \<in> set users. \<exists>u \<in> set (db_users (dw_db w)). \<exists>user v.
      user_get E L (us_id u) w' = (Inr user, v) \<and> cp_to_response P user = Inr x)"
proof -
  obtain query items tok total resources vs w1 where list: "cp_list P query (db_users (dw_db w)) = Inr (items, tok, total)"
    and run1: "to_resources E L items (w\<lparr>tick := Suc (tick w)\<rparr>) = (Inr resources, w1)"
    and page: "cp_list_result P query resources tok total = Inr (vs, token)"
    and reply: "collect_results (cp_to_response P) vs = Inr users" and w1: "w' = w1"
    using run by (auto simp: service_list_users_def iam_usecase_list_users_def user_list_users_def translated_def check_eq
        quiet_run [OF q] Let_def split: prod.splits)
  have vs: "vs = resources" using engine page by (auto simp: list_engine_def)
  have w': "dw_db w' = dw_db w" and ne: "resources \<noteq> [] \<Longrightarrow> items \<noteq> []"
    and res: "items \<noteq> [] \<Longrightarrow> collect_results (to_resource L (email_by_user_id (filter
        (\<lambda>i. li_user i \<in> set (map us_id items) \<and> li_type i = login_identifier_email) (db_identifiers (dw_db w))))) items
        = Inr resources"
    using run1 w1 by (auto simp: to_resources_def translated_def check_eq quiet_run [OF q] all_where_def identifiers_t_def
        split: prod.splits if_splits)
  have "\<exists>u \<in> set (db_users (dw_db w)). \<exists>user v. user_get E L (us_id u) w' = (Inr user, v) \<and> cp_to_response P user = Inr x"
    if "x \<in> set users" for x
  proof -
    obtain user where user: "user \<in> set resources" "cp_to_response P user = Inr x"
      using collect_results_from [OF reply \<open>x \<in> set users\<close>] vs by blast
    then have "resources \<noteq> []" by auto
    then have "items \<noteq> []" by (rule ne)
    obtain u where u: "u \<in> set items" "to_resource L (email_by_user_id (filter
        (\<lambda>i. li_user i \<in> set (map us_id items) \<and> li_type i = login_identifier_email) (db_identifiers (dw_db w)))) u = Inr user"
      using collect_results_from [OF res [OF \<open>items \<noteq> []\<close>] user(1)] by blast
    have row: "u \<in> set (db_users (dw_db w'))" using engine list u(1) w' unfolding list_engine_def by fastforce
    obtain v where "user_get E L (us_id u) w' = (Inr user, v)"
      by (rule quiet_get_row [OF q _ row, of "set (map us_id items)" L user]) (use u wf w' in auto)
    with row w' user(2) show ?thesis by auto
  qed
  with w' show ?thesis by blast
qed

end
