(* ===== verification/Transport.thy ===== *)
theory Transport
  imports Middleware
begin

text \<open>
  How a call reaches its handler: the generated HTTP and gRPC code of the services (\<open>*_http.pb.go\<close>,
  \<open>*_grpc.pb.go\<close>). A route matches a method and a path, decodes the request, names its operation and runs the
  middlewares around the method of the service; a gRPC method does the same for its full name. The decoders, the
  router and the connection are libraries: the decoders are parameters, and the router takes the first route that
  matches, as \<open>gorilla/mux\<close> does.
\<close>

section \<open>Paths\<close>

fun strip_prefix :: "string \<Rightarrow> string \<Rightarrow> string option" where
  "strip_prefix [] s = Some s"
| "strip_prefix (x # xs) [] = None"
| "strip_prefix (x # xs) (y # ys) = (if x = y then strip_prefix xs ys else None)"

lemma strip_prefix_Some [simp]: "strip_prefix p s = Some t \<longleftrightarrow> s = p @ t"
  by (induction p s rule: strip_prefix.induct) auto

lemma strip_prefix_append [simp]: "strip_prefix p (p @ s) = Some s"
  by simp

definition strip_suffix :: "string \<Rightarrow> string \<Rightarrow> string option" where
  "strip_suffix p s = map_option rev (strip_prefix (rev p) (rev s))"

lemma strip_suffix_Some [simp]: "strip_suffix p s = Some t \<longleftrightarrow> s = t @ p"
  by (auto simp: strip_suffix_def) (metis rev_append rev_rev_ident)

text \<open>
  A pattern like \<open>/v1/iam/users/{name:users/[^/]+}:disable\<close>: what precedes the variable, the variable with its
  segments, where \<open>None\<close> is \<open>[^/]+\<close>, and what follows.
\<close>

record path_pattern =
  pp_before :: string
  pp_var :: "(string \<times> string option list) option"
  pp_after :: string

fun pattern_segments :: "string list \<Rightarrow> string option list" where
  "pattern_segments (a # b # rest) =
     (if a = ''[^'' \<and> b = '']+'' then None # pattern_segments rest else Some a # pattern_segments (b # rest))"
| "pattern_segments [a] = [Some a]"
| "pattern_segments [] = []"

definition parse_pattern :: "string \<Rightarrow> path_pattern" where
  "parse_pattern s =
     (case cut (CHR ''{'') s of (before, rest, found) \<Rightarrow>
        if \<not> found then \<lparr>pp_before = s, pp_var = None, pp_after = []\<rparr>
        else
          case cut (CHR ''}'') rest of (inside, after, _) \<Rightarrow>
          (case cut (CHR '':'') inside of (field, segments, _) \<Rightarrow>
             \<lparr>pp_before = before, pp_var = Some (field, pattern_segments (split_on (CHR ''/'') segments)), pp_after = after\<rparr>))"

definition segment_match :: "string option \<Rightarrow> string \<Rightarrow> bool" where
  "segment_match p s = (case p of None \<Rightarrow> s \<noteq> [] | Some l \<Rightarrow> s = l)"

text \<open>The variables of a path that matches.\<close>

definition path_vars :: "path_pattern \<Rightarrow> string \<Rightarrow> (string \<times> string) list option" where
  "path_vars p path =
     (case strip_prefix (pp_before p) path of
        None \<Rightarrow> None
      | Some rest \<Rightarrow>
     (case strip_suffix (pp_after p) rest of
        None \<Rightarrow> None
      | Some v \<Rightarrow>
     (case pp_var p of
        None \<Rightarrow> if v = [] then Some [] else None
      | Some (field, segments) \<Rightarrow>
          if list_all2 segment_match segments (split_on (CHR ''/'') v) then Some [(field, v)] else None)))"

lemma strip_suffix_append [simp]: "strip_suffix p (s @ p) = Some s" "strip_suffix p p = Some []"
  by simp_all

lemma path_vars_Some:
  "path_vars p path = Some vs \<longleftrightarrow>
     (\<exists>v. path = pp_before p @ v @ pp_after p \<and>
        (case pp_var p of None \<Rightarrow> v = [] \<and> vs = []
         | Some (field, segments) \<Rightarrow> list_all2 segment_match segments (split_on (CHR ''/'') v) \<and> vs = [(field, v)]))"
  by (auto simp: path_vars_def split: option.splits if_splits)

section \<open>HTTP\<close>

record http_call =
  hc_method :: string
  hc_path :: string
  hc_query :: string
  hc_body :: string

text \<open>The steps that decode a request: \<open>Bind(&in)\<close>, \<open>Bind(&in.Field)\<close>, \<open>BindQuery(&in)\<close>, \<open>BindVars(&in)\<close>.\<close>

datatype bind_step = BindBody | BindField string | BindQuery | BindVars

record 'm http_codec =
  kc_body :: "string \<Rightarrow> 'm \<Rightarrow> err + 'm"
  kc_field :: "string \<Rightarrow> string \<Rightarrow> 'm \<Rightarrow> err + 'm"
  kc_query :: "string \<Rightarrow> 'm \<Rightarrow> err + 'm"
  kc_vars :: "(string \<times> string) list \<Rightarrow> 'm \<Rightarrow> err + 'm"

definition bind_one :: "'m http_codec \<Rightarrow> http_call \<Rightarrow> (string \<times> string) list \<Rightarrow> bind_step \<Rightarrow> 'm \<Rightarrow> err + 'm" where
  "bind_one K call vars step m =
     (case step of
        BindBody \<Rightarrow> kc_body K (hc_body call) m
      | BindField field \<Rightarrow> kc_field K field (hc_body call) m
      | BindQuery \<Rightarrow> kc_query K (hc_query call) m
      | BindVars \<Rightarrow> kc_vars K vars m)"

text \<open>
  A route with its handler: \<open>rt_request\<close> is the empty message of the request type, which also fixes the method of
  the service that runs, and \<open>rt_operation\<close> is the constant given to \<open>SetOperation\<close>.
\<close>

record 'm route =
  rt_method :: string
  rt_pattern :: string
  rt_binds :: "bind_step list"
  rt_operation :: string
  rt_request :: 'm

definition route_match :: "'m route \<Rightarrow> http_call \<Rightarrow> (string \<times> string) list option" where
  "route_match r call =
     (if hc_method call = rt_method r then path_vars (parse_pattern (rt_pattern r)) (hc_path call) else None)"

fun find_route :: "'m route list \<Rightarrow> http_call \<Rightarrow> ('m route \<times> (string \<times> string) list) option" where
  "find_route [] call = None"
| "find_route (r # rs) call =
     (case route_match r call of Some vars \<Rightarrow> Some (r, vars) | None \<Rightarrow> find_route rs call)"

definition set_operation :: "'c go_ctx_scheme \<Rightarrow> string \<Rightarrow> 'c go_ctx_scheme" where
  "set_operation ctx op =
     ctx\<lparr>ctx_transport := map_option (\<lambda>tr. tr\<lparr>tr_operation := op\<rparr>) (ctx_transport ctx)\<rparr>"

definition http_handle ::
    "'m http_codec \<Rightarrow> 'm route \<Rightarrow> http_call \<Rightarrow> (string \<times> string) list \<Rightarrow> ('c, 'm, 'w, 'a) middleware
     \<Rightarrow> ('c go_ctx_scheme option \<Rightarrow> 'm \<Rightarrow> ('w, 'a) prog) \<Rightarrow> 'c go_ctx_scheme \<Rightarrow> ('w, 'a) prog" where
  "http_handle K r call vars mw h ctx =
     pass (result (fold_err (bind_one K call vars) (rt_binds r) (rt_request r)))
       (\<lambda>request. mw h (Some (set_operation ctx (rt_operation r))) request)"

definition http_serve ::
    "'m http_codec \<Rightarrow> 'm route list \<Rightarrow> ('c, 'm, 'w, 'a) middleware
     \<Rightarrow> ('c go_ctx_scheme option \<Rightarrow> 'm \<Rightarrow> ('w, 'a) prog) \<Rightarrow> 'c go_ctx_scheme \<Rightarrow> http_call \<Rightarrow> ('w, 'a) prog" where
  "http_serve K routes mw h ctx call =
     (case find_route routes call of
        None \<Rightarrow> throw (Node (ApiError 404 ''NOT_FOUND'') [])
      | Some (r, vars) \<Rightarrow> http_handle K r call vars mw h ctx)"

section \<open>gRPC\<close>

text \<open>
  A method of a service descriptor with its handler; \<open>gm_full\<close> is the \<open>FullMethod\<close> that the handler gives to the
  interceptor, which makes it the operation.
\<close>

record 'm grpc_method =
  gm_name :: string
  gm_full :: string
  gm_request :: 'm

record 'm grpc_service =
  gs_name :: string
  gs_methods :: "'m grpc_method list"

definition cut_last :: "char \<Rightarrow> string \<Rightarrow> string \<times> string" where
  "cut_last c s = (case cut c (rev s) of (a, b, _) \<Rightarrow> (rev b, rev a))"

definition grpc_find :: "'m grpc_service list \<Rightarrow> string \<Rightarrow> 'm grpc_method option" where
  "grpc_find services path =
     (case cut_last (CHR ''/'') (case path of [] \<Rightarrow> [] | c # rest \<Rightarrow> if c = CHR ''/'' then rest else path) of
        (service, name) \<Rightarrow>
          (case find (\<lambda>s. gs_name s = service) services of
             None \<Rightarrow> None
           | Some s \<Rightarrow> find (\<lambda>m. gm_name m = name) (gs_methods s)))"

definition grpc_serve ::
    "(string \<Rightarrow> 'm \<Rightarrow> err + 'm) \<Rightarrow> 'm grpc_service list \<Rightarrow> ('c, 'm, 'w, 'a) middleware
     \<Rightarrow> ('c go_ctx_scheme option \<Rightarrow> 'm \<Rightarrow> ('w, 'a) prog) \<Rightarrow> 'c go_ctx_scheme \<Rightarrow> string \<Rightarrow> string \<Rightarrow> ('w, 'a) prog" where
  "grpc_serve dec services mw h ctx path payload =
     (case grpc_find services path of
        None \<Rightarrow> throw (Node (ApiError 501 ''Unimplemented'') [])
      | Some m \<Rightarrow>
          pass (result (dec payload (gm_request m))) (\<lambda>request. mw h (Some (set_operation ctx (gm_full m))) request))"

section \<open>Clients\<close>

text \<open>
  A method of the generated HTTP client. Its pattern is written \<open>{name=users/*}\<close>; \<open>BuildPath\<close> puts the value of the
  field in the place of the variable. What it sends as the body is the request, one field of it, or nothing.
\<close>

datatype client_body = ClientBody | ClientField string | ClientNoBody

record 'm http_client_method =
  cm_method :: string
  cm_pattern :: string
  cm_query :: bool
  cm_body :: client_body
  cm_operation :: string
  cm_request :: 'm

definition client_pattern :: "string \<Rightarrow> path_pattern" where
  "client_pattern pattern =
     (case cut (CHR ''{'') pattern of (before, rest, found) \<Rightarrow>
        if \<not> found then \<lparr>pp_before = pattern, pp_var = None, pp_after = []\<rparr>
        else
          case cut (CHR ''}'') rest of (inside, after, _) \<Rightarrow>
          (case cut (CHR ''='') inside of (field, segments, _) \<Rightarrow>
             \<lparr>pp_before = before,
              pp_var = Some (field, map (\<lambda>x. if x = ''*'' then None else Some x) (split_on (CHR ''/'') segments)),
              pp_after = after\<rparr>))"

definition build_path :: "string \<Rightarrow> string \<Rightarrow> string" where
  "build_path pattern v =
     (let p = client_pattern pattern in pp_before p @ (if pp_var p = None then [] else v) @ pp_after p)"

text \<open>The field of the variable, and the values that it may have.\<close>

definition client_var :: "string \<Rightarrow> (string \<times> string option list) option" where
  "client_var pattern = pp_var (client_pattern pattern)"

definition client_value :: "'m http_client_method \<Rightarrow> string \<Rightarrow> bool" where
  "client_value c v \<longleftrightarrow>
     (case client_var (cm_pattern c) of
        None \<Rightarrow> True
      | Some (_, segments) \<Rightarrow> list_all2 segment_match segments (split_on (CHR ''/'') v))"

definition client_call :: "'m http_client_method \<Rightarrow> string \<Rightarrow> string \<Rightarrow> string \<Rightarrow> http_call" where
  "client_call c v query payload =
     \<lparr>hc_method = cm_method c, hc_path = build_path (cm_pattern c) v, hc_query = (if cm_query c then query else []),
      hc_body = (if cm_body c = ClientNoBody then [] else payload)\<rparr>"

text \<open>The handler decodes what the client sends, in the place where the client puts it.\<close>

definition same_encoding :: "'m http_client_method \<Rightarrow> 'm route \<Rightarrow> bool" where
  "same_encoding c r \<longleftrightarrow>
     (BindBody \<in> set (rt_binds r) \<longleftrightarrow> cm_body c = ClientBody)
   \<and> (\<forall>f \<in> set (concat (map (\<lambda>b. case b of BindField f \<Rightarrow> [f] | _ \<Rightarrow> []) (rt_binds r))). cm_body c = ClientField f)
   \<and> (case cm_body c of ClientField f \<Rightarrow> BindField f \<in> set (rt_binds r) | _ \<Rightarrow> True)
   \<and> (BindQuery \<in> set (rt_binds r) \<longleftrightarrow> cm_query c)
   \<and> (BindVars \<in> set (rt_binds r) \<longleftrightarrow> client_var (cm_pattern c) \<noteq> None)"

definition reaches :: "'m route list \<Rightarrow> 'm http_client_method \<Rightarrow> string \<Rightarrow> string \<Rightarrow> string \<Rightarrow> bool" where
  "reaches routes c v query payload \<longleftrightarrow>
     (\<exists>r. find_route routes (client_call c v query payload)
          = Some (r, case client_var (cm_pattern c) of None \<Rightarrow> [] | Some (field, _) \<Rightarrow> [(field, v)])
        \<and> rt_operation r = cm_operation c \<and> rt_request r = cm_request c \<and> same_encoding c r)"

section \<open>Tables of operations\<close>

lemma find_route_Some: "find_route rs call = Some (r, vars) \<Longrightarrow> r \<in> set rs \<and> route_match r call = Some vars"
  by (induction rs) (auto split: option.splits)

lemma grpc_find_Some:
  "grpc_find services path = Some m \<Longrightarrow> \<exists>s \<in> set services. m \<in> set (gs_methods s)"
  unfolding grpc_find_def by (auto simp: find_Some_iff split: option.splits prod.splits) (metis nth_mem)

text \<open>A decoder fills a message of the type that it is given.\<close>

definition typed_codec :: "('m \<Rightarrow> string) \<Rightarrow> 'm http_codec \<Rightarrow> bool" where
  "typed_codec operation K \<longleftrightarrow> (\<forall>x m m' f vars.
     (kc_body K x m = Inr m' \<or> kc_field K f x m = Inr m' \<or> kc_query K x m = Inr m' \<or> kc_vars K vars m = Inr m')
       \<longrightarrow> operation m' = operation m)"

definition typed_decoder :: "('m \<Rightarrow> string) \<Rightarrow> (string \<Rightarrow> 'm \<Rightarrow> err + 'm) \<Rightarrow> bool" where
  "typed_decoder operation dec \<longleftrightarrow> (\<forall>x m m'. dec x m = Inr m' \<longrightarrow> operation m' = operation m)"

text \<open>
  What a table of routes owes to the middlewares, whose rules are found by operation: the operation that a route
  sets is that of the request that it decodes.
\<close>

text \<open>Two patterns that no path matches at once, and a table in which no call matches two routes.\<close>

definition slashes :: "path_pattern \<Rightarrow> nat" where
  "slashes p = count_list (pp_before p @ pp_after p) (CHR ''/'')
     + (case pp_var p of None \<Rightarrow> 0 | Some (_, segments) \<Rightarrow> length segments - 1)"

definition patterns_apart :: "path_pattern \<Rightarrow> path_pattern \<Rightarrow> bool" where
  "patterns_apart p q \<longleftrightarrow>
     slashes p \<noteq> slashes q
   \<or> (strip_prefix (pp_before p) (pp_before q) = None \<and> strip_prefix (pp_before q) (pp_before p) = None)
   \<or> (strip_suffix (pp_after p) (pp_after q) = None \<and> strip_suffix (pp_after q) (pp_after p) = None)
   \<or> (pp_var p = None \<and> path_vars q (pp_before p @ pp_after p) = None)
   \<or> (pp_var q = None \<and> path_vars p (pp_before q @ pp_after q) = None)"

fun all_apart :: "'m route list \<Rightarrow> bool" where
  "all_apart [] = True"
| "all_apart (r # rs) =
     (list_all (\<lambda>s. rt_method s = rt_method r \<longrightarrow>
         patterns_apart (parse_pattern (rt_pattern r)) (parse_pattern (rt_pattern s))) rs \<and> all_apart rs)"

lemma count_split_on: "length (split_on c s) = Suc (count_list s c)"
  by (induction s) (auto split: list.splits)

lemma path_vars_slashes:
  assumes "path_vars p path = Some vs" "case pp_var p of None \<Rightarrow> True | Some (_, segments) \<Rightarrow> segments \<noteq> []"
  shows "count_list path (CHR ''/'') = slashes p"
proof -
  obtain v where v: "path = pp_before p @ v @ pp_after p"
    and m: "case pp_var p of None \<Rightarrow> v = [] \<and> vs = []
      | Some (field, segments) \<Rightarrow> list_all2 segment_match segments (split_on (CHR ''/'') v) \<and> vs = [(field, v)]"
    using assms(1) unfolding path_vars_Some by blast
  show ?thesis
  proof (cases "pp_var p")
    case (Some x)
    with m have "length (snd x) = Suc (count_list v (CHR ''/''))"
      by (cases x) (auto dest: list_all2_lengthD simp: count_split_on)
    with v Some show ?thesis by (cases x) (simp add: slashes_def)
  qed (use m v in \<open>simp add: slashes_def\<close>)
qed

lemma pattern_segments_nonempty: "pattern_segments xs = [] \<longleftrightarrow> xs = []"
  by (induction xs rule: pattern_segments.induct) auto

lemma parse_pattern_segments:
  "case pp_var (parse_pattern s) of None \<Rightarrow> True | Some (_, segments) \<Rightarrow> segments \<noteq> []"
  by (auto simp: parse_pattern_def pattern_segments_nonempty split: prod.splits)

lemma path_vars_ends:
  assumes "path_vars p path = Some vs"
  obtains v where "path = pp_before p @ v @ pp_after p" "pp_var p = None \<longrightarrow> v = []"
proof -
  from assms obtain v where "path = pp_before p @ v @ pp_after p" "pp_var p = None \<longrightarrow> v = []"
    unfolding path_vars_Some by (auto split: option.splits)
  then show thesis by (intro that) simp_all
qed

lemma common_prefix: "a @ x = b @ y \<Longrightarrow> strip_prefix a b \<noteq> None \<or> strip_prefix b a \<noteq> None"
proof -
  assume "a @ x = b @ y"
  then have "(\<exists>u. a = b @ u) \<or> (\<exists>u. b = a @ u)" by (metis append_eq_append_conv2)
  then show ?thesis by auto
qed

lemma common_suffix: "x @ a = y @ b \<Longrightarrow> strip_suffix a b \<noteq> None \<or> strip_suffix b a \<noteq> None"
  using common_prefix [of "rev a" "rev x" "rev b" "rev y"] by (auto simp: strip_suffix_def simp flip: rev_append)

lemma patterns_apart_sound:
  fixes s t :: string
  defines "p \<equiv> parse_pattern s" and "q \<equiv> parse_pattern t"
  assumes "patterns_apart p q" and p: "path_vars p path = Some a" and q: "path_vars q path = Some b"
  shows False
proof -
  have sl: "slashes p = slashes q"
    using path_vars_slashes [OF p] path_vars_slashes [OF q] parse_pattern_segments unfolding p_def q_def by metis
  obtain v where v: "path = pp_before p @ v @ pp_after p" "pp_var p = None \<longrightarrow> v = []" by (rule path_vars_ends [OF p])
  obtain u where u: "path = pp_before q @ u @ pp_after q" "pp_var q = None \<longrightarrow> u = []" by (rule path_vars_ends [OF q])
  have pre: "strip_prefix (pp_before p) (pp_before q) \<noteq> None \<or> strip_prefix (pp_before q) (pp_before p) \<noteq> None"
    using u(1) v(1) common_prefix by metis
  have suf: "strip_suffix (pp_after p) (pp_after q) \<noteq> None \<or> strip_suffix (pp_after q) (pp_after p) \<noteq> None"
    using u(1) v(1) common_suffix [of "pp_before p @ v" "pp_after p" "pp_before q @ u" "pp_after q"] by simp
  have lit: "pp_var p = None \<Longrightarrow> path = pp_before p @ pp_after p" "pp_var q = None \<Longrightarrow> path = pp_before q @ pp_after q"
    using u v by simp_all
  show False
    using assms(3) unfolding patterns_apart_def
  proof (elim disjE conjE)
    assume "pp_var p = None" "path_vars q (pp_before p @ pp_after p) = None"
    with lit(1) q show False by simp
  next
    assume "pp_var q = None" "path_vars p (pp_before q @ pp_after q) = None"
    with lit(2) p show False by simp
  qed (use sl pre suf in blast)+
qed

lemma all_apart_find:
  "all_apart routes \<Longrightarrow> r \<in> set routes \<Longrightarrow> route_match r call = Some vars \<Longrightarrow> find_route routes call = Some (r, vars)"
proof (induction routes)
  case (Cons r0 routes)
  show ?case
  proof (cases "r = r0")
    case False
    have "route_match r0 call = None"
    proof (rule ccontr)
      assume "route_match r0 call \<noteq> None"
      then obtain w where "route_match r0 call = Some w" by blast
      with Cons.prems False show False
        using patterns_apart_sound [of "rt_pattern r0" "rt_pattern r" "hc_path call" w vars]
        by (auto simp: route_match_def list_all_iff split: if_splits)
    qed
    with Cons False show ?thesis by auto
  qed (use Cons.prems in simp)
qed simp

text \<open>A method of a client and the route that it is meant for.\<close>

definition client_fits :: "'m http_client_method \<Rightarrow> 'm route \<Rightarrow> bool" where
  "client_fits c r \<longleftrightarrow> rt_method r = cm_method c \<and> parse_pattern (rt_pattern r) = client_pattern (cm_pattern c)
     \<and> rt_operation r = cm_operation c \<and> rt_request r = cm_request c \<and> same_encoding c r"

lemma client_fits_match:
  assumes "client_fits c r" "client_value c v"
  shows "route_match r (client_call c v query payload)
    = Some (case client_var (cm_pattern c) of None \<Rightarrow> [] | Some (field, _) \<Rightarrow> [(field, v)])"
  using assms
  by (auto simp: client_fits_def route_match_def client_call_def path_vars_Some build_path_def client_var_def
      client_value_def Let_def split: option.splits)

locale operation_table =
  fixes operation :: "'m \<Rightarrow> string" and routes :: "'m route list" and services :: "'m grpc_service list"
  assumes route_named: "r \<in> set routes \<Longrightarrow> rt_operation r = operation (rt_request r)"
    and routes_apart: "all_apart routes"
    and method_named: "s \<in> set services \<Longrightarrow> m \<in> set (gs_methods s) \<Longrightarrow> gm_full m = operation (gm_request m)"
begin

lemma bind_typed:
  assumes "typed_codec operation K" "fold_err (bind_one K call vars) steps m = Inr m'"
  shows "operation m' = operation m"
  using assms(2)
proof (induction steps arbitrary: m)
  case (Cons step steps)
  then obtain m1 where "bind_one K call vars step m = Inr m1" "operation m' = operation m1"
    by (auto split: sum.splits)
  moreover have "operation m1 = operation m"
    using assms(1) \<open>bind_one K call vars step m = Inr m1\<close> unfolding typed_codec_def
    by (cases step) (simp_all add: bind_one_def, blast+)
  ultimately show ?case by simp
qed simp

lemma http_cases:
  assumes "typed_codec operation K"
  shows "(\<exists>e. \<forall>mw h w. http_serve K routes mw h ctx call w = (Inl e, w))
    \<or> (\<exists>request. \<forall>mw h w. http_serve K routes mw h ctx call w = mw h (Some (set_operation ctx (operation request))) request w)"
proof (cases "find_route routes call")
  case (Some rv)
  then obtain r vars where r: "find_route routes call = Some (r, vars)" by (cases rv) auto
  then have op: "rt_operation r = operation (rt_request r)" using find_route_Some route_named by metis
  show ?thesis
  proof (cases "fold_err (bind_one K call vars) (rt_binds r) (rt_request r)")
    case (Inr request)
    with bind_typed [OF assms Inr] op r show ?thesis
      by (intro disjI2 exI [of _ request]) (simp add: http_serve_def http_handle_def check_run)
  qed (use r in \<open>auto simp: http_serve_def http_handle_def check_run\<close>)
qed (simp add: http_serve_def)

lemma grpc_cases:
  assumes "typed_decoder operation dec"
  shows "(\<exists>e. \<forall>mw h w. grpc_serve dec services mw h ctx path payload w = (Inl e, w))
    \<or> (\<exists>request. \<forall>mw h w. grpc_serve dec services mw h ctx path payload w
         = mw h (Some (set_operation ctx (operation request))) request w)"
proof (cases "grpc_find services path")
  case (Some m)
  then have op: "gm_full m = operation (gm_request m)" using grpc_find_Some method_named by metis
  show ?thesis
  proof (cases "dec payload (gm_request m)")
    case (Inr request)
    with assms have "operation request = operation (gm_request m)" by (auto simp: typed_decoder_def)
    with Inr op Some show ?thesis by (intro disjI2 exI [of _ request]) (simp add: grpc_serve_def check_run)
  qed (use Some in \<open>auto simp: grpc_serve_def check_run\<close>)
qed (simp add: grpc_serve_def)

text \<open>The order of the routes does not matter.\<close>

lemma route_found: "r \<in> set routes \<Longrightarrow> route_match r call = Some vars \<Longrightarrow> find_route routes call = Some (r, vars)"
  using routes_apart by (rule all_apart_find)

end

text \<open>The generated clients next to the server: every method of a client has its route and its gRPC method.\<close>

locale client_table = operation_table operation routes services
  for operation :: "'m \<Rightarrow> string" and routes and services +
  fixes clients :: "'m http_client_method list" and stubs :: "('m \<times> string) list"
  assumes clients_fit: "c \<in> set clients \<Longrightarrow> \<exists>r \<in> set routes. client_fits c r"
    and stubs_fit: "(m, full) \<in> set stubs \<Longrightarrow>
      \<exists>g. grpc_find services full = Some g \<and> gm_request g = m \<and> gm_full g = full"
begin

lemma client_reaches:
  assumes "c \<in> set clients" "client_value c v"
  shows "reaches routes c v query payload"
proof -
  from clients_fit [OF assms(1)] obtain r where r: "r \<in> set routes" "client_fits c r" by blast
  with route_found [OF r(1) client_fits_match [OF r(2) assms(2)]] show ?thesis
    unfolding reaches_def client_fits_def by blast
qed

end

end
