(* ===== verification/IamTransport.thy ===== *)
theory IamTransport
  imports Transport IamUniform
begin

text \<open>
  The HTTP routes, gRPC methods and generated clients of the IAM services (\<open>api/gen/go/iam\<close>), one definition per
  generated function.
\<close>

section \<open>The authn service\<close>

definition http_login :: "iam_rpc route" where
  "http_login = \<lparr>rt_method = ''POST'', rt_pattern = ''/v1/iam/authn/login'',
     rt_binds = [BindBody],
     rt_operation = ''/iam.authn.v1.AuthnService/Login'', rt_request = RpcLogin (Some ([], []))\<rparr>"

definition authn_http_routes :: "iam_rpc route list" where
  "authn_http_routes = [http_login]"

definition grpc_login :: "iam_rpc grpc_method" where
  "grpc_login = \<lparr>gm_name = ''Login'', gm_full = ''/iam.authn.v1.AuthnService/Login'',
     gm_request = RpcLogin (Some ([], []))\<rparr>"

definition authn_grpc_service :: "iam_rpc grpc_service" where
  "authn_grpc_service = \<lparr>gs_name = ''iam.authn.v1.AuthnService'',
     gs_methods = [grpc_login]\<rparr>"

definition http_client_login :: "iam_rpc http_client_method" where
  "http_client_login = \<lparr>cm_method = ''POST'', cm_pattern = ''/v1/iam/authn/login'',
     cm_query = False, cm_body = ClientBody, cm_operation = ''/iam.authn.v1.AuthnService/Login'',
     cm_request = RpcLogin (Some ([], []))\<rparr>"

definition grpc_client_login :: "iam_rpc \<times> string" where
  "grpc_client_login = (RpcLogin (Some ([], [])), ''/iam.authn.v1.AuthnService/Login'')"

section \<open>The session service\<close>

definition http_logout :: "iam_rpc route" where
  "http_logout = \<lparr>rt_method = ''POST'', rt_pattern = ''/v1/iam/sessions/current:logout'',
     rt_binds = [BindBody],
     rt_operation = ''/iam.session.v1.SessionService/Logout'', rt_request = RpcLogout\<rparr>"

definition session_http_routes :: "iam_rpc route list" where
  "session_http_routes = [http_logout]"

definition grpc_logout :: "iam_rpc grpc_method" where
  "grpc_logout = \<lparr>gm_name = ''Logout'', gm_full = ''/iam.session.v1.SessionService/Logout'',
     gm_request = RpcLogout\<rparr>"

definition session_grpc_service :: "iam_rpc grpc_service" where
  "session_grpc_service = \<lparr>gs_name = ''iam.session.v1.SessionService'',
     gs_methods = [grpc_logout]\<rparr>"

definition http_client_logout :: "iam_rpc http_client_method" where
  "http_client_logout = \<lparr>cm_method = ''POST'', cm_pattern = ''/v1/iam/sessions/current:logout'',
     cm_query = False, cm_body = ClientBody, cm_operation = ''/iam.session.v1.SessionService/Logout'',
     cm_request = RpcLogout\<rparr>"

definition grpc_client_logout :: "iam_rpc \<times> string" where
  "grpc_client_logout = (RpcLogout, ''/iam.session.v1.SessionService/Logout'')"

section \<open>The account service\<close>

definition http_register :: "iam_rpc route" where
  "http_register = \<lparr>rt_method = ''POST'', rt_pattern = ''/v1/iam/account/register'',
     rt_binds = [BindBody],
     rt_operation = ''/iam.account.v1.AccountService/Register'', rt_request = RpcRegister (Some ([], [], [], None))\<rparr>"

definition http_verify_email :: "iam_rpc route" where
  "http_verify_email = \<lparr>rt_method = ''POST'', rt_pattern = ''/v1/iam/account/verify-email'',
     rt_binds = [BindBody],
     rt_operation = ''/iam.account.v1.AccountService/VerifyEmail'', rt_request = RpcVerifyEmail (Some [])\<rparr>"

definition http_resend_verification_email :: "iam_rpc route" where
  "http_resend_verification_email = \<lparr>rt_method = ''POST'', rt_pattern = ''/v1/iam/account/resend-verification'',
     rt_binds = [BindBody],
     rt_operation = ''/iam.account.v1.AccountService/ResendVerificationEmail'', rt_request = RpcResendVerificationEmail (Some ([], []))\<rparr>"

definition http_get_profile :: "iam_rpc route" where
  "http_get_profile = \<lparr>rt_method = ''GET'', rt_pattern = ''/v1/iam/account/profile'',
     rt_binds = [BindQuery],
     rt_operation = ''/iam.account.v1.AccountService/GetProfile'', rt_request = RpcGetProfile\<rparr>"

definition http_update_profile :: "iam_rpc route" where
  "http_update_profile = \<lparr>rt_method = ''PATCH'', rt_pattern = ''/v1/iam/account/profile'',
     rt_binds = [BindField ''profile'', BindQuery],
     rt_operation = ''/iam.account.v1.AccountService/UpdateProfile'', rt_request = RpcUpdateProfile (Some (None, None))\<rparr>"

definition http_change_password :: "iam_rpc route" where
  "http_change_password = \<lparr>rt_method = ''POST'', rt_pattern = ''/v1/iam/account/change-password'',
     rt_binds = [BindBody],
     rt_operation = ''/iam.account.v1.AccountService/ChangePassword'', rt_request = RpcChangePassword (Some ([], []))\<rparr>"

definition http_request_password_reset :: "iam_rpc route" where
  "http_request_password_reset = \<lparr>rt_method = ''POST'', rt_pattern = ''/v1/iam/account/password-reset/request'',
     rt_binds = [BindBody],
     rt_operation = ''/iam.account.v1.AccountService/RequestPasswordReset'', rt_request = RpcRequestPasswordReset (Some ([], []))\<rparr>"

definition http_confirm_password_reset :: "iam_rpc route" where
  "http_confirm_password_reset = \<lparr>rt_method = ''POST'', rt_pattern = ''/v1/iam/account/password-reset/confirm'',
     rt_binds = [BindBody],
     rt_operation = ''/iam.account.v1.AccountService/ConfirmPasswordReset'', rt_request = RpcConfirmPasswordReset (Some ([], []))\<rparr>"

definition account_http_routes :: "iam_rpc route list" where
  "account_http_routes = [http_register, http_verify_email, http_resend_verification_email, http_get_profile, http_update_profile, http_change_password, http_request_password_reset, http_confirm_password_reset]"

definition grpc_register :: "iam_rpc grpc_method" where
  "grpc_register = \<lparr>gm_name = ''Register'', gm_full = ''/iam.account.v1.AccountService/Register'',
     gm_request = RpcRegister (Some ([], [], [], None))\<rparr>"

definition grpc_verify_email :: "iam_rpc grpc_method" where
  "grpc_verify_email = \<lparr>gm_name = ''VerifyEmail'', gm_full = ''/iam.account.v1.AccountService/VerifyEmail'',
     gm_request = RpcVerifyEmail (Some [])\<rparr>"

definition grpc_resend_verification_email :: "iam_rpc grpc_method" where
  "grpc_resend_verification_email = \<lparr>gm_name = ''ResendVerificationEmail'', gm_full = ''/iam.account.v1.AccountService/ResendVerificationEmail'',
     gm_request = RpcResendVerificationEmail (Some ([], []))\<rparr>"

definition grpc_get_profile :: "iam_rpc grpc_method" where
  "grpc_get_profile = \<lparr>gm_name = ''GetProfile'', gm_full = ''/iam.account.v1.AccountService/GetProfile'',
     gm_request = RpcGetProfile\<rparr>"

definition grpc_update_profile :: "iam_rpc grpc_method" where
  "grpc_update_profile = \<lparr>gm_name = ''UpdateProfile'', gm_full = ''/iam.account.v1.AccountService/UpdateProfile'',
     gm_request = RpcUpdateProfile (Some (None, None))\<rparr>"

definition grpc_change_password :: "iam_rpc grpc_method" where
  "grpc_change_password = \<lparr>gm_name = ''ChangePassword'', gm_full = ''/iam.account.v1.AccountService/ChangePassword'',
     gm_request = RpcChangePassword (Some ([], []))\<rparr>"

definition grpc_request_password_reset :: "iam_rpc grpc_method" where
  "grpc_request_password_reset = \<lparr>gm_name = ''RequestPasswordReset'', gm_full = ''/iam.account.v1.AccountService/RequestPasswordReset'',
     gm_request = RpcRequestPasswordReset (Some ([], []))\<rparr>"

definition grpc_confirm_password_reset :: "iam_rpc grpc_method" where
  "grpc_confirm_password_reset = \<lparr>gm_name = ''ConfirmPasswordReset'', gm_full = ''/iam.account.v1.AccountService/ConfirmPasswordReset'',
     gm_request = RpcConfirmPasswordReset (Some ([], []))\<rparr>"

definition account_grpc_service :: "iam_rpc grpc_service" where
  "account_grpc_service = \<lparr>gs_name = ''iam.account.v1.AccountService'',
     gs_methods = [grpc_register, grpc_verify_email, grpc_resend_verification_email, grpc_get_profile, grpc_update_profile, grpc_change_password, grpc_request_password_reset, grpc_confirm_password_reset]\<rparr>"

definition http_client_change_password :: "iam_rpc http_client_method" where
  "http_client_change_password = \<lparr>cm_method = ''POST'', cm_pattern = ''/v1/iam/account/change-password'',
     cm_query = False, cm_body = ClientBody, cm_operation = ''/iam.account.v1.AccountService/ChangePassword'',
     cm_request = RpcChangePassword (Some ([], []))\<rparr>"

definition http_client_confirm_password_reset :: "iam_rpc http_client_method" where
  "http_client_confirm_password_reset = \<lparr>cm_method = ''POST'', cm_pattern = ''/v1/iam/account/password-reset/confirm'',
     cm_query = False, cm_body = ClientBody, cm_operation = ''/iam.account.v1.AccountService/ConfirmPasswordReset'',
     cm_request = RpcConfirmPasswordReset (Some ([], []))\<rparr>"

definition http_client_get_profile :: "iam_rpc http_client_method" where
  "http_client_get_profile = \<lparr>cm_method = ''GET'', cm_pattern = ''/v1/iam/account/profile'',
     cm_query = True, cm_body = ClientNoBody, cm_operation = ''/iam.account.v1.AccountService/GetProfile'',
     cm_request = RpcGetProfile\<rparr>"

definition http_client_register :: "iam_rpc http_client_method" where
  "http_client_register = \<lparr>cm_method = ''POST'', cm_pattern = ''/v1/iam/account/register'',
     cm_query = False, cm_body = ClientBody, cm_operation = ''/iam.account.v1.AccountService/Register'',
     cm_request = RpcRegister (Some ([], [], [], None))\<rparr>"

definition http_client_request_password_reset :: "iam_rpc http_client_method" where
  "http_client_request_password_reset = \<lparr>cm_method = ''POST'', cm_pattern = ''/v1/iam/account/password-reset/request'',
     cm_query = False, cm_body = ClientBody, cm_operation = ''/iam.account.v1.AccountService/RequestPasswordReset'',
     cm_request = RpcRequestPasswordReset (Some ([], []))\<rparr>"

definition http_client_resend_verification_email :: "iam_rpc http_client_method" where
  "http_client_resend_verification_email = \<lparr>cm_method = ''POST'', cm_pattern = ''/v1/iam/account/resend-verification'',
     cm_query = False, cm_body = ClientBody, cm_operation = ''/iam.account.v1.AccountService/ResendVerificationEmail'',
     cm_request = RpcResendVerificationEmail (Some ([], []))\<rparr>"

definition http_client_update_profile :: "iam_rpc http_client_method" where
  "http_client_update_profile = \<lparr>cm_method = ''PATCH'', cm_pattern = ''/v1/iam/account/profile'',
     cm_query = True, cm_body = ClientField ''profile'', cm_operation = ''/iam.account.v1.AccountService/UpdateProfile'',
     cm_request = RpcUpdateProfile (Some (None, None))\<rparr>"

definition http_client_verify_email :: "iam_rpc http_client_method" where
  "http_client_verify_email = \<lparr>cm_method = ''POST'', cm_pattern = ''/v1/iam/account/verify-email'',
     cm_query = False, cm_body = ClientBody, cm_operation = ''/iam.account.v1.AccountService/VerifyEmail'',
     cm_request = RpcVerifyEmail (Some [])\<rparr>"

definition grpc_client_register :: "iam_rpc \<times> string" where
  "grpc_client_register = (RpcRegister (Some ([], [], [], None)), ''/iam.account.v1.AccountService/Register'')"

definition grpc_client_verify_email :: "iam_rpc \<times> string" where
  "grpc_client_verify_email = (RpcVerifyEmail (Some []), ''/iam.account.v1.AccountService/VerifyEmail'')"

definition grpc_client_resend_verification_email :: "iam_rpc \<times> string" where
  "grpc_client_resend_verification_email = (RpcResendVerificationEmail (Some ([], [])), ''/iam.account.v1.AccountService/ResendVerificationEmail'')"

definition grpc_client_get_profile :: "iam_rpc \<times> string" where
  "grpc_client_get_profile = (RpcGetProfile, ''/iam.account.v1.AccountService/GetProfile'')"

definition grpc_client_update_profile :: "iam_rpc \<times> string" where
  "grpc_client_update_profile = (RpcUpdateProfile (Some (None, None)), ''/iam.account.v1.AccountService/UpdateProfile'')"

definition grpc_client_change_password :: "iam_rpc \<times> string" where
  "grpc_client_change_password = (RpcChangePassword (Some ([], [])), ''/iam.account.v1.AccountService/ChangePassword'')"

definition grpc_client_request_password_reset :: "iam_rpc \<times> string" where
  "grpc_client_request_password_reset = (RpcRequestPasswordReset (Some ([], [])), ''/iam.account.v1.AccountService/RequestPasswordReset'')"

definition grpc_client_confirm_password_reset :: "iam_rpc \<times> string" where
  "grpc_client_confirm_password_reset = (RpcConfirmPasswordReset (Some ([], [])), ''/iam.account.v1.AccountService/ConfirmPasswordReset'')"

section \<open>The user service\<close>

definition http_create_user :: "iam_rpc route" where
  "http_create_user = \<lparr>rt_method = ''POST'', rt_pattern = ''/v1/iam/users'',
     rt_binds = [BindBody],
     rt_operation = ''/iam.user.v1.UserService/CreateUser'', rt_request = RpcCreateUser (Some ([], None, []))\<rparr>"

definition http_get_user :: "iam_rpc route" where
  "http_get_user = \<lparr>rt_method = ''GET'', rt_pattern = ''/v1/iam/users/{name:users/[^/]+}'',
     rt_binds = [BindQuery, BindVars],
     rt_operation = ''/iam.user.v1.UserService/GetUser'', rt_request = RpcGetUser []\<rparr>"

definition http_list_users :: "iam_rpc route" where
  "http_list_users = \<lparr>rt_method = ''GET'', rt_pattern = ''/v1/iam/users'',
     rt_binds = [BindQuery],
     rt_operation = ''/iam.user.v1.UserService/ListUsers'', rt_request = RpcListUsers (Some \<lparr>lq_page_size = 0, lq_page_token = [], lq_filter = [], lq_order_by = []\<rparr>)\<rparr>"

definition http_update_user :: "iam_rpc route" where
  "http_update_user = \<lparr>rt_method = ''PATCH'', rt_pattern = ''/v1/iam/users/{user.name:users/[^/]+}'',
     rt_binds = [BindField ''user'', BindQuery, BindVars],
     rt_operation = ''/iam.user.v1.UserService/UpdateUser'', rt_request = RpcUpdateUser (Some (None, None))\<rparr>"

definition http_disable_user :: "iam_rpc route" where
  "http_disable_user = \<lparr>rt_method = ''POST'', rt_pattern = ''/v1/iam/users/{name:users/[^/]+}:disable'',
     rt_binds = [BindBody, BindVars],
     rt_operation = ''/iam.user.v1.UserService/DisableUser'', rt_request = RpcDisableUser (Some ([], []))\<rparr>"

definition http_enable_user :: "iam_rpc route" where
  "http_enable_user = \<lparr>rt_method = ''POST'', rt_pattern = ''/v1/iam/users/{name:users/[^/]+}:enable'',
     rt_binds = [BindBody, BindVars],
     rt_operation = ''/iam.user.v1.UserService/EnableUser'', rt_request = RpcEnableUser (Some ([], []))\<rparr>"

definition user_http_routes :: "iam_rpc route list" where
  "user_http_routes = [http_create_user, http_get_user, http_list_users, http_update_user, http_disable_user, http_enable_user]"

definition grpc_create_user :: "iam_rpc grpc_method" where
  "grpc_create_user = \<lparr>gm_name = ''CreateUser'', gm_full = ''/iam.user.v1.UserService/CreateUser'',
     gm_request = RpcCreateUser (Some ([], None, []))\<rparr>"

definition grpc_get_user :: "iam_rpc grpc_method" where
  "grpc_get_user = \<lparr>gm_name = ''GetUser'', gm_full = ''/iam.user.v1.UserService/GetUser'',
     gm_request = RpcGetUser []\<rparr>"

definition grpc_list_users :: "iam_rpc grpc_method" where
  "grpc_list_users = \<lparr>gm_name = ''ListUsers'', gm_full = ''/iam.user.v1.UserService/ListUsers'',
     gm_request = RpcListUsers (Some \<lparr>lq_page_size = 0, lq_page_token = [], lq_filter = [], lq_order_by = []\<rparr>)\<rparr>"

definition grpc_update_user :: "iam_rpc grpc_method" where
  "grpc_update_user = \<lparr>gm_name = ''UpdateUser'', gm_full = ''/iam.user.v1.UserService/UpdateUser'',
     gm_request = RpcUpdateUser (Some (None, None))\<rparr>"

definition grpc_disable_user :: "iam_rpc grpc_method" where
  "grpc_disable_user = \<lparr>gm_name = ''DisableUser'', gm_full = ''/iam.user.v1.UserService/DisableUser'',
     gm_request = RpcDisableUser (Some ([], []))\<rparr>"

definition grpc_enable_user :: "iam_rpc grpc_method" where
  "grpc_enable_user = \<lparr>gm_name = ''EnableUser'', gm_full = ''/iam.user.v1.UserService/EnableUser'',
     gm_request = RpcEnableUser (Some ([], []))\<rparr>"

definition user_grpc_service :: "iam_rpc grpc_service" where
  "user_grpc_service = \<lparr>gs_name = ''iam.user.v1.UserService'',
     gs_methods = [grpc_create_user, grpc_get_user, grpc_list_users, grpc_update_user, grpc_disable_user, grpc_enable_user]\<rparr>"

definition http_client_create_user :: "iam_rpc http_client_method" where
  "http_client_create_user = \<lparr>cm_method = ''POST'', cm_pattern = ''/v1/iam/users'',
     cm_query = False, cm_body = ClientBody, cm_operation = ''/iam.user.v1.UserService/CreateUser'',
     cm_request = RpcCreateUser (Some ([], None, []))\<rparr>"

definition http_client_disable_user :: "iam_rpc http_client_method" where
  "http_client_disable_user = \<lparr>cm_method = ''POST'', cm_pattern = ''/v1/iam/users/{name=users/*}:disable'',
     cm_query = False, cm_body = ClientBody, cm_operation = ''/iam.user.v1.UserService/DisableUser'',
     cm_request = RpcDisableUser (Some ([], []))\<rparr>"

definition http_client_enable_user :: "iam_rpc http_client_method" where
  "http_client_enable_user = \<lparr>cm_method = ''POST'', cm_pattern = ''/v1/iam/users/{name=users/*}:enable'',
     cm_query = False, cm_body = ClientBody, cm_operation = ''/iam.user.v1.UserService/EnableUser'',
     cm_request = RpcEnableUser (Some ([], []))\<rparr>"

definition http_client_get_user :: "iam_rpc http_client_method" where
  "http_client_get_user = \<lparr>cm_method = ''GET'', cm_pattern = ''/v1/iam/users/{name=users/*}'',
     cm_query = True, cm_body = ClientNoBody, cm_operation = ''/iam.user.v1.UserService/GetUser'',
     cm_request = RpcGetUser []\<rparr>"

definition http_client_list_users :: "iam_rpc http_client_method" where
  "http_client_list_users = \<lparr>cm_method = ''GET'', cm_pattern = ''/v1/iam/users'',
     cm_query = True, cm_body = ClientNoBody, cm_operation = ''/iam.user.v1.UserService/ListUsers'',
     cm_request = RpcListUsers (Some \<lparr>lq_page_size = 0, lq_page_token = [], lq_filter = [], lq_order_by = []\<rparr>)\<rparr>"

definition http_client_update_user :: "iam_rpc http_client_method" where
  "http_client_update_user = \<lparr>cm_method = ''PATCH'', cm_pattern = ''/v1/iam/users/{user.name=users/*}'',
     cm_query = True, cm_body = ClientField ''user'', cm_operation = ''/iam.user.v1.UserService/UpdateUser'',
     cm_request = RpcUpdateUser (Some (None, None))\<rparr>"

definition grpc_client_create_user :: "iam_rpc \<times> string" where
  "grpc_client_create_user = (RpcCreateUser (Some ([], None, [])), ''/iam.user.v1.UserService/CreateUser'')"

definition grpc_client_get_user :: "iam_rpc \<times> string" where
  "grpc_client_get_user = (RpcGetUser [], ''/iam.user.v1.UserService/GetUser'')"

definition grpc_client_list_users :: "iam_rpc \<times> string" where
  "grpc_client_list_users = (RpcListUsers (Some \<lparr>lq_page_size = 0, lq_page_token = [], lq_filter = [], lq_order_by = []\<rparr>), ''/iam.user.v1.UserService/ListUsers'')"

definition grpc_client_update_user :: "iam_rpc \<times> string" where
  "grpc_client_update_user = (RpcUpdateUser (Some (None, None)), ''/iam.user.v1.UserService/UpdateUser'')"

definition grpc_client_disable_user :: "iam_rpc \<times> string" where
  "grpc_client_disable_user = (RpcDisableUser (Some ([], [])), ''/iam.user.v1.UserService/DisableUser'')"

definition grpc_client_enable_user :: "iam_rpc \<times> string" where
  "grpc_client_enable_user = (RpcEnableUser (Some ([], [])), ''/iam.user.v1.UserService/EnableUser'')"

section \<open>The server\<close>

text \<open>In the order of \<open>NewHTTPServer\<close> and \<open>NewGRPCServer\<close>.\<close>

definition iam_http_routes :: "iam_rpc route list" where
  "iam_http_routes = authn_http_routes @ session_http_routes @ account_http_routes @ user_http_routes"

definition iam_grpc_services :: "iam_rpc grpc_service list" where
  "iam_grpc_services = [authn_grpc_service, session_grpc_service, user_grpc_service, account_grpc_service]"

definition iam_http_clients :: "iam_rpc http_client_method list" where
  "iam_http_clients =
     [http_client_login,
      http_client_logout,
      http_client_change_password, http_client_confirm_password_reset, http_client_get_profile, http_client_register, http_client_request_password_reset, http_client_resend_verification_email, http_client_update_profile, http_client_verify_email,
      http_client_create_user, http_client_disable_user, http_client_enable_user, http_client_get_user, http_client_list_users, http_client_update_user]"

definition iam_grpc_clients :: "(iam_rpc \<times> string) list" where
  "iam_grpc_clients =
     [grpc_client_login,
      grpc_client_logout,
      grpc_client_register, grpc_client_verify_email, grpc_client_resend_verification_email, grpc_client_get_profile, grpc_client_update_profile, grpc_client_change_password, grpc_client_request_password_reset, grpc_client_confirm_password_reset,
      grpc_client_create_user, grpc_client_get_user, grpc_client_list_users, grpc_client_update_user, grpc_client_disable_user, grpc_client_enable_user]"

lemmas iam_route_defs = http_login_def
  http_logout_def
  http_register_def
  http_verify_email_def
  http_resend_verification_email_def
  http_get_profile_def
  http_update_profile_def
  http_change_password_def
  http_request_password_reset_def
  http_confirm_password_reset_def
  http_create_user_def
  http_get_user_def
  http_list_users_def
  http_update_user_def
  http_disable_user_def
  http_enable_user_def
  authn_http_routes_def
  session_http_routes_def
  account_http_routes_def
  user_http_routes_def
  iam_http_routes_def

lemmas iam_method_defs = grpc_login_def
  grpc_logout_def
  grpc_register_def
  grpc_verify_email_def
  grpc_resend_verification_email_def
  grpc_get_profile_def
  grpc_update_profile_def
  grpc_change_password_def
  grpc_request_password_reset_def
  grpc_confirm_password_reset_def
  grpc_create_user_def
  grpc_get_user_def
  grpc_list_users_def
  grpc_update_user_def
  grpc_disable_user_def
  grpc_enable_user_def
  authn_grpc_service_def
  session_grpc_service_def
  account_grpc_service_def
  user_grpc_service_def
  iam_grpc_services_def

lemmas iam_client_defs = http_client_login_def
  http_client_logout_def
  http_client_change_password_def
  http_client_confirm_password_reset_def
  http_client_get_profile_def
  http_client_register_def
  http_client_request_password_reset_def
  http_client_resend_verification_email_def
  http_client_update_profile_def
  http_client_verify_email_def
  http_client_create_user_def
  http_client_disable_user_def
  http_client_enable_user_def
  http_client_get_user_def
  http_client_list_users_def
  http_client_update_user_def
  iam_http_clients_def

lemmas iam_grpc_client_defs = grpc_client_login_def
  grpc_client_logout_def
  grpc_client_register_def
  grpc_client_verify_email_def
  grpc_client_resend_verification_email_def
  grpc_client_get_profile_def
  grpc_client_update_profile_def
  grpc_client_change_password_def
  grpc_client_request_password_reset_def
  grpc_client_confirm_password_reset_def
  grpc_client_create_user_def
  grpc_client_get_user_def
  grpc_client_list_users_def
  grpc_client_update_user_def
  grpc_client_disable_user_def
  grpc_client_enable_user_def
  iam_grpc_clients_def


lemma iam_routes_apart: "all_apart iam_http_routes"
  by code_simp

lemma iam_clients_fit: "list_all (\<lambda>c. list_ex (client_fits c) iam_http_routes) iam_http_clients"
  by code_simp

lemma iam_stubs_fit:
  "list_all (\<lambda>(request, full). case grpc_find iam_grpc_services full of
      Some m \<Rightarrow> gm_request m = request \<and> gm_full m = full | None \<Rightarrow> False) iam_grpc_clients"
  by code_simp

interpretation iam_table: client_table rpc_operation iam_http_routes iam_grpc_services iam_http_clients iam_grpc_clients
proof unfold_locales
  show "all_apart iam_http_routes" by (rule iam_routes_apart)
  show "\<exists>r \<in> set iam_http_routes. client_fits c r" if "c \<in> set iam_http_clients" for c
    using iam_clients_fit that by (auto simp: list_all_iff list_ex_iff)
  show "\<exists>g. grpc_find iam_grpc_services full = Some g \<and> gm_request g = m \<and> gm_full g = full"
    if "(m, full) \<in> set iam_grpc_clients" for m full
    using iam_stubs_fit that by (auto simp: list_all_iff split: option.splits)
qed (auto simp: iam_route_defs iam_method_defs)

section \<open>Authorization on both transports\<close>

text \<open>A call as it arrives: over HTTP, or over gRPC with its path and payload.\<close>

datatype wire_call = HttpCall http_call | GrpcCall string string

text \<open>The servers of \<open>NewHTTPServer\<close> and \<open>NewGRPCServer\<close> with the handlers of the service as \<open>h\<close>.\<close>

fun iam_receive ::
    "iam_rpc http_codec \<Rightarrow> (string \<Rightarrow> iam_rpc \<Rightarrow> err + iam_rpc) \<Rightarrow> ('c, iam_rpc, 'w, 'a) middleware
     \<Rightarrow> ('c go_ctx_scheme option \<Rightarrow> iam_rpc \<Rightarrow> ('w, 'a) prog) \<Rightarrow> 'c go_ctx_scheme \<Rightarrow> wire_call \<Rightarrow> ('w, 'a) prog" where
  "iam_receive K dec mw h ctx (HttpCall call) = http_serve K iam_http_routes mw h ctx call"
| "iam_receive K dec mw h ctx (GrpcCall path payload) = grpc_serve dec iam_grpc_services mw h ctx path payload"

lemma iam_receive_cases:
  assumes "typed_codec rpc_operation K" "typed_decoder rpc_operation dec"
  shows "(\<exists>e. \<forall>h w. iam_receive K dec mw h ctx call w = (Inl e, w))
    \<or> (\<exists>rpc. \<forall>h w. iam_receive K dec mw h ctx call w = mw h (Some (set_operation ctx (rpc_operation rpc))) rpc w)"
proof (cases call)
  case (HttpCall x)
  show ?thesis unfolding HttpCall iam_receive.simps using iam_table.http_cases [OF assms(1), of ctx x] by metis
next
  case (GrpcCall p b)
  show ?thesis unfolding GrpcCall iam_receive.simps using iam_table.grpc_cases [OF assms(2), of ctx p b] by metis
qed

text \<open>
  C5. Whatever arrives at IAM over HTTP or gRPC, each handler runs only under the access rule of its own method: a
  call ends with an error that no handler had a part in, or it runs the handler of the request that was decoded,
  once, in a context that the access rule of that request's operation grants (public, the live session of the cookie,
  or an administrator that OpenFGA allowed). No path and no body reaches a handler under the rule of another one.
\<close>

theorem transports_are_authorized:
  fixes w :: "(db, 'z) db_world_scheme" and ctx :: iam_ctx
  assumes "iam_middleware E L fga proto_of = Some mw" "others_ok E" "db_wf (dw_db w)"
    and "typed_codec rpc_operation K" "typed_decoder rpc_operation dec"
  shows "(\<exists>e w'. \<forall>h. iam_receive K dec mw h ctx call w = (Inl e, w'))
    \<or> (\<exists>rpc c w'. (\<forall>h. iam_receive K dec mw h ctx call w = h (Some c) rpc w')
        \<and> iam_grants L fga (set_operation ctx (rpc_operation rpc)) c w w')"
  using iam_receive_cases [OF assms(4,5), of mw ctx call]
proof (elim disjE exE)
  fix rpc
  assume r: "\<forall>h w. iam_receive K dec mw h ctx call w = mw h (Some (set_operation ctx (rpc_operation rpc))) rpc w"
  from iam_middleware_cases [OF assms(1-3), of "set_operation ctx (rpc_operation rpc)" rpc] show ?thesis
  proof (elim disjE exE conjE)
    fix e w' assume "stops mw (Some (set_operation ctx (rpc_operation rpc))) rpc w e w'"
    with r show ?thesis by (intro disjI1) (auto simp: stops_def)
  next
    fix c w' assume "calls mw (Some (set_operation ctx (rpc_operation rpc))) rpc w c w'"
      and "iam_grants L fga (set_operation ctx (rpc_operation rpc)) c w w'"
    with r show ?thesis by (intro disjI2 exI [of _ rpc]) (auto simp: calls_def)
  qed
qed blast

definition plain_codec :: "iam_rpc http_codec" where
  "plain_codec = \<lparr>kc_body = (\<lambda>_. Inr), kc_field = (\<lambda>_ _. Inr), kc_query = (\<lambda>_. Inr), kc_vars = (\<lambda>_. Inr)\<rparr>"

theorem transports_are_authorized_witness:
  "\<exists>mw :: (\<lparr>ctx_identity :: iam_identity option\<rparr>, iam_rpc, db db_world, unit) middleware.
     iam_middleware demo_env demo_lib sample_fga (\<lambda>_. None) = Some mw
     \<and> ((\<exists>e w'. \<forall>h. iam_receive plain_codec (\<lambda>_. Inr) mw h (sample_call [] ''a=b'')
            (GrpcCall ''/iam.user.v1.UserService/GetUser'' []) demo_world = (Inl e, w'))
        \<or> (\<exists>rpc c w'. (\<forall>h. iam_receive plain_codec (\<lambda>_. Inr) mw h (sample_call [] ''a=b'')
              (GrpcCall ''/iam.user.v1.UserService/GetUser'' []) demo_world = h (Some c) rpc w')
            \<and> iam_grants demo_lib sample_fga (set_operation (sample_call [] ''a=b'') (rpc_operation rpc)) c demo_world w'))"
proof -
  obtain mw :: "(\<lparr>ctx_identity :: iam_identity option\<rparr>, iam_rpc, db db_world, unit) middleware"
    where mw: "iam_middleware demo_env demo_lib sample_fga (\<lambda>_. None) = Some mw"
    using iam_middleware_exists by blast
  have wf: "db_wf (dw_db demo_world)" by (simp add: demo_world_def demo_db_wf)
  have K: "typed_codec rpc_operation plain_codec" "typed_decoder rpc_operation (\<lambda>_. Inr)"
    by (auto simp: typed_codec_def typed_decoder_def plain_codec_def)
  show ?thesis using mw transports_are_authorized [OF mw demo_env_ok(1) wf K] by blast
qed

section \<open>Clients reach their method\<close>

text \<open>
  C20. A call of the generated IAM clients reaches the method that it names: over HTTP, whatever value the variable of
  the path may have, the one route that matches is that of the same operation and request type, with the variable
  bound to that value, and it decodes the body, the query and the path where the client puts them; over gRPC, the full
  method name finds the handler of that request type, which announces the same name.
\<close>

theorem iam_clients_reach_their_method:
  "(\<forall>c \<in> set iam_http_clients. \<forall>v. client_value c v \<longrightarrow> reaches iam_http_routes c v query payload)
   \<and> (\<forall>(request, full) \<in> set iam_grpc_clients.
        \<exists>m. grpc_find iam_grpc_services full = Some m \<and> gm_request m = request \<and> gm_full m = full)"
  using iam_table.client_reaches iam_table.stubs_fit by blast

theorem iam_clients_reach_their_method_witness:
  "reaches iam_http_routes http_client_disable_user ''users/u1'' [] ''{}''"
proof -
  have "client_value http_client_disable_user ''users/u1''" by code_simp
  moreover have "http_client_disable_user \<in> set iam_http_clients" by (simp add: iam_http_clients_def)
  ultimately show ?thesis using iam_clients_reach_their_method by blast
qed

end
