(* ===== verification/ExampleList.thy ===== *)
theory ExampleList
  imports ExampleDemo
begin

text \<open>
  Listing the users of a tenant: the repository, the use case and the handler. Preparing the query, picking the page
  and counting are the list engine of the framework, whose parts are parameters; a prepared query is opaque.
\<close>

section \<open>The engine\<close>

record ex_list_request =
  lx_parent :: string
  lx_page_size :: int
  lx_page_token :: string
  lx_skip :: int
  lx_filter :: string
  lx_order_by :: string
  lx_include_total :: bool
  lx_show_deleted :: bool

text \<open>
  \<open>xq_prepare\<close> is \<open>PrepareList\<close>; \<open>xq_list\<close> is \<open>entcrud.List\<close>, which gets the query, the rows that the base query
  selects and the fingerprint to which page tokens are bound; \<open>xq_result\<close> is \<open>NewListResult\<close>.
\<close>

record ex_list_lib =
  xq_prepare :: "ex_list_request \<Rightarrow> err + string"
  xq_list :: "string \<Rightarrow> string \<Rightarrow> ex_row list \<Rightarrow> err + ex_row list \<times> string \<times> int option"
  xq_result :: "string \<Rightarrow> ex_user option list \<Rightarrow> string \<Rightarrow> int option \<Rightarrow> err + ex_user option list \<times> string \<times> int option"

section \<open>Listing\<close>

text \<open>The base query: the rows of the tenant, without the deleted ones unless the context skips that filter.\<close>

definition tenant_rows :: "string \<Rightarrow> bool \<Rightarrow> ex_db \<Rightarrow> ex_row list" where
  "tenant_rows tenant skip_soft_delete rows =
     filter (\<lambda>r. er_tenant r = tenant \<and> (skip_soft_delete \<or> er_delete r = None)) rows"

definition repo_list_users ::
    "ex_db dbenv \<Rightarrow> ex_lib \<Rightarrow> ex_list_lib \<Rightarrow> string \<Rightarrow> bool \<Rightarrow> string
     \<Rightarrow> (ex_world, ex_user option list \<times> string \<times> int option) prog" where
  "repo_list_users E L Q scope includeDeleted query =
     pass (db_exec E (\<lambda>_ d. (xq_list Q query (scope_fingerprint scope includeDeleted) (tenant_rows scope includeDeleted d), d)))
       (\<lambda>(items, token, total).
     result (xq_result Q query (map (\<lambda>r. Some (ex_to_dto L r)) items) token total))"

definition usecase_list_users ::
    "ex_db dbenv \<Rightarrow> ex_lib \<Rightarrow> ex_list_lib \<Rightarrow> string \<Rightarrow> string \<Rightarrow> bool
     \<Rightarrow> (ex_world, ex_user option list \<times> string \<times> int option) prog" where
  "usecase_list_users E L Q scope query showDeleted = repo_result (repo_list_users E L Q scope showDeleted query)"

definition ex_list_users ::
    "ex_db dbenv \<Rightarrow> ex_lib \<Rightarrow> ex_plan \<Rightarrow> ex_list_lib \<Rightarrow> ex_list_request
     \<Rightarrow> (ex_world, ex_user option list \<times> string \<times> int option) prog" where
  "ex_list_users E L plan Q request =
     pass (result (user_scope plan (lx_parent request))) (\<lambda>scope.
     pass (result (xq_prepare Q request)) (\<lambda>query.
     pass (usecase_list_users E L Q scope query (lx_show_deleted request)) (\<lambda>(items, token, total).
     pass (result (collect_results (ep_response plan) items)) (\<lambda>resources.
     ret (resources, token, total)))))"

section \<open>Isolation of tenants\<close>

text \<open>What the framework promises: a page has rows of the base query, and the result the items it is given.\<close>

definition ex_list_engine :: "ex_list_lib \<Rightarrow> bool" where
  "ex_list_engine Q \<longleftrightarrow>
     (\<forall>query fp rows items token total. xq_list Q query fp rows = Inr (items, token, total) \<longrightarrow> set items \<subseteq> set rows)
   \<and> (\<forall>query us token total vs next n. xq_result Q query us token total = Inr (vs, next, n) \<longrightarrow> vs = us)"

text \<open>
  C25. A list of the users of a tenant shows users of that tenant only, and deleted ones only when the request asks
  for them: every resource of the page is the response for a row of the tenant named by the parent of the request,
  which is neither empty nor the wildcard, and listing changes nothing.
\<close>

theorem example_list_stays_in_tenant:
  assumes q: "quiet E" and engine: "ex_list_engine Q"
    and run: "ex_list_users E L plan Q request w = (Inr (users, token, count), w')"
  shows "dw_db w' = dw_db w \<and> (\<exists>tenant. ep_parent plan (lx_parent request) = Inr (Some tenant)
    \<and> tenant \<noteq> [] \<and> tenant \<noteq> ''-''
    \<and> (\<forall>x \<in> set users. \<exists>r \<in> set (dw_db w). er_tenant r = tenant \<and> (er_delete r = None \<or> lx_show_deleted request)
         \<and> ep_response plan (Some (ex_to_dto L r)) = Inr x))"
proof -
  obtain tenant query items tok n vs where scope: "user_scope plan (lx_parent request) = Inr tenant"
    and list: "xq_list Q query (scope_fingerprint tenant (lx_show_deleted request))
        (tenant_rows tenant (lx_show_deleted request) (dw_db w)) = Inr (items, tok, n)"
    and page: "xq_result Q query (map (\<lambda>r. Some (ex_to_dto L r)) items) tok n = Inr (vs, token, count)"
    and reply: "collect_results (ep_response plan) vs = Inr users" and w': "dw_db w' = dw_db w"
    using run by (auto simp: ex_list_users_def usecase_list_users_def repo_list_users_def repo_result_def check_eq
        quiet_run [OF q] split: prod.splits)
  have parent: "ep_parent plan (lx_parent request) = Inr (Some tenant)" "tenant \<noteq> []" "tenant \<noteq> ''-''"
    using scope by (auto simp: user_scope_def new_user_scope_def split: sum.splits option.splits if_splits)
  have rows: "set items \<subseteq> set (tenant_rows tenant (lx_show_deleted request) (dw_db w))"
    using engine list unfolding ex_list_engine_def by blast
  have vs: "vs = map (\<lambda>r. Some (ex_to_dto L r)) items"
    using engine page unfolding ex_list_engine_def by blast
  have "\<exists>r \<in> set (dw_db w). er_tenant r = tenant \<and> (er_delete r = None \<or> lx_show_deleted request)
      \<and> ep_response plan (Some (ex_to_dto L r)) = Inr x" if "x \<in> set users" for x
  proof -
    obtain v where "v \<in> set vs" "ep_response plan v = Inr x"
      using collect_results_from [OF reply \<open>x \<in> set users\<close>] by blast
    with vs rows show ?thesis by (auto simp: tenant_rows_def)
  qed
  with w' parent show ?thesis by blast
qed

definition sample_list_lib :: ex_list_lib where
  "sample_list_lib = \<lparr>xq_prepare = (\<lambda>_. Inr []), xq_list = (\<lambda>_ _ rows. Inr (rows, [], None)),
     xq_result = (\<lambda>_ us token n. Inr (us, token, n))\<rparr>"

definition sample_list_request :: ex_list_request where
  "sample_list_request = \<lparr>lx_parent = ''tenants/acme'', lx_page_size = 0, lx_page_token = [], lx_skip = 0, lx_filter = [],
     lx_order_by = [], lx_include_total = False, lx_show_deleted = False\<rparr>"

theorem example_list_stays_in_tenant_witness:
  "\<exists>users w'. ex_list_users calm_env sample_ex_lib sample_ex_plan sample_list_lib sample_list_request
      \<lparr>tick = 0, dw_db = [alpha_row, alpha_row\<lparr>er_tenant := ''other''\<rparr>]\<rparr> = (Inr (users, [], None), w')
     \<and> length users = 1
     \<and> (\<forall>x \<in> set users. ep_response sample_ex_plan (Some (ex_to_dto sample_ex_lib alpha_row)) = Inr x)"
proof -
  let ?w = "\<lparr>tick = 0, dw_db = [alpha_row, alpha_row\<lparr>er_tenant := ''other''\<rparr>]\<rparr> :: ex_world"
  have e: "ex_list_engine sample_list_lib" by (auto simp: ex_list_engine_def sample_list_lib_def)
  have p: "ep_parent sample_ex_plan ''tenants/acme'' = Inr (Some ''acme'')"
    by (simp add: sample_ex_plan_def trim_prefix_def has_prefix_def)
  then have "user_scope sample_ex_plan ''tenants/acme'' = Inr ''acme''"
    by (simp add: user_scope_def new_user_scope_def)
  then have "\<exists>users w'. ex_list_users calm_env sample_ex_lib sample_ex_plan sample_list_lib sample_list_request ?w
      = (Inr (users, [], None), w') \<and> length users = 1"
    by (simp add: ex_list_users_def usecase_list_users_def repo_list_users_def repo_result_def check_run
        quiet_run [OF sample_laws(6)] sample_list_lib_def sample_list_request_def tenant_rows_def alpha_row_def
        sample_ex_plan_def)
  then obtain users w' where run: "ex_list_users calm_env sample_ex_lib sample_ex_plan sample_list_lib sample_list_request ?w
      = (Inr (users, [], None), w')" "length users = 1" by blast
  from example_list_stays_in_tenant [OF sample_laws(6) e run(1)] p
  have "\<forall>x \<in> set users. ep_response sample_ex_plan (Some (ex_to_dto sample_ex_lib alpha_row)) = Inr x"
    by (auto simp: sample_list_request_def)
  with run show ?thesis by blast
qed

end
