(* ===== verification/ServiceTransport.thy ===== *)
theory ServiceTransport
  imports Transport ExampleList AuditQuery
begin

text \<open>
  The HTTP routes, gRPC methods and generated clients of the example and the audit service, one definition per
  generated function.
\<close>

section \<open>The example service\<close>

datatype ex_call = ExOne ex_rpc | ExList ex_list_request

fun ex_operation :: "ex_call \<Rightarrow> string" where
  "ex_operation (ExOne (ExGetUser _)) = ''/example.service.v1.UserService/GetUser''"
| "ex_operation (ExList _) = ''/example.service.v1.UserService/ListUsers''"
| "ex_operation (ExOne (ExCreateUser _ _ _)) = ''/example.service.v1.UserService/CreateUser''"
| "ex_operation (ExOne (ExUpdateUser _ _ _)) = ''/example.service.v1.UserService/UpdateUser''"
| "ex_operation (ExOne (ExDeleteUser _ _ _)) = ''/example.service.v1.UserService/DeleteUser''"
| "ex_operation (ExOne (ExUndeleteUser _)) = ''/example.service.v1.UserService/UndeleteUser''"

definition empty_ex_list :: ex_list_request where
  "empty_ex_list = \<lparr>lx_parent = [], lx_page_size = 0, lx_page_token = [], lx_skip = 0, lx_filter = [], lx_order_by = [],
     lx_include_total = False, lx_show_deleted = False\<rparr>"

definition ex_http_get_user :: "ex_call route" where
  "ex_http_get_user = \<lparr>rt_method = ''GET'', rt_pattern = ''/v1/{name:tenants/[^/]+/users/[^/]+}'',
     rt_binds = [BindQuery, BindVars],
     rt_operation = ''/example.service.v1.UserService/GetUser'', rt_request = ExOne (ExGetUser [])\<rparr>"

definition ex_http_list_users :: "ex_call route" where
  "ex_http_list_users = \<lparr>rt_method = ''GET'', rt_pattern = ''/v1/{parent:tenants/[^/]+}/users'',
     rt_binds = [BindQuery, BindVars],
     rt_operation = ''/example.service.v1.UserService/ListUsers'', rt_request = ExList empty_ex_list\<rparr>"

definition ex_http_create_user :: "ex_call route" where
  "ex_http_create_user = \<lparr>rt_method = ''POST'', rt_pattern = ''/v1/{parent:tenants/[^/]+}/users'',
     rt_binds = [BindField ''user'', BindQuery, BindVars],
     rt_operation = ''/example.service.v1.UserService/CreateUser'', rt_request = ExOne (ExCreateUser [] [] None)\<rparr>"

definition ex_http_update_user :: "ex_call route" where
  "ex_http_update_user = \<lparr>rt_method = ''PATCH'', rt_pattern = ''/v1/{user.name:tenants/[^/]+/users/[^/]+}'',
     rt_binds = [BindField ''user'', BindQuery, BindVars],
     rt_operation = ''/example.service.v1.UserService/UpdateUser'', rt_request = ExOne (ExUpdateUser None None False)\<rparr>"

definition ex_http_delete_user :: "ex_call route" where
  "ex_http_delete_user = \<lparr>rt_method = ''DELETE'', rt_pattern = ''/v1/{name:tenants/[^/]+/users/[^/]+}'',
     rt_binds = [BindQuery, BindVars],
     rt_operation = ''/example.service.v1.UserService/DeleteUser'', rt_request = ExOne (ExDeleteUser [] False [])\<rparr>"

definition ex_http_undelete_user :: "ex_call route" where
  "ex_http_undelete_user = \<lparr>rt_method = ''POST'', rt_pattern = ''/v1/{name:tenants/[^/]+/users/[^/]+}:undelete'',
     rt_binds = [BindBody, BindVars],
     rt_operation = ''/example.service.v1.UserService/UndeleteUser'', rt_request = ExOne (ExUndeleteUser [])\<rparr>"

definition ex_user_http_routes :: "ex_call route list" where
  "ex_user_http_routes = [ex_http_get_user, ex_http_list_users, ex_http_create_user, ex_http_update_user, ex_http_delete_user, ex_http_undelete_user]"

definition ex_grpc_get_user :: "ex_call grpc_method" where
  "ex_grpc_get_user = \<lparr>gm_name = ''GetUser'', gm_full = ''/example.service.v1.UserService/GetUser'',
     gm_request = ExOne (ExGetUser [])\<rparr>"

definition ex_grpc_list_users :: "ex_call grpc_method" where
  "ex_grpc_list_users = \<lparr>gm_name = ''ListUsers'', gm_full = ''/example.service.v1.UserService/ListUsers'',
     gm_request = ExList empty_ex_list\<rparr>"

definition ex_grpc_create_user :: "ex_call grpc_method" where
  "ex_grpc_create_user = \<lparr>gm_name = ''CreateUser'', gm_full = ''/example.service.v1.UserService/CreateUser'',
     gm_request = ExOne (ExCreateUser [] [] None)\<rparr>"

definition ex_grpc_update_user :: "ex_call grpc_method" where
  "ex_grpc_update_user = \<lparr>gm_name = ''UpdateUser'', gm_full = ''/example.service.v1.UserService/UpdateUser'',
     gm_request = ExOne (ExUpdateUser None None False)\<rparr>"

definition ex_grpc_delete_user :: "ex_call grpc_method" where
  "ex_grpc_delete_user = \<lparr>gm_name = ''DeleteUser'', gm_full = ''/example.service.v1.UserService/DeleteUser'',
     gm_request = ExOne (ExDeleteUser [] False [])\<rparr>"

definition ex_grpc_undelete_user :: "ex_call grpc_method" where
  "ex_grpc_undelete_user = \<lparr>gm_name = ''UndeleteUser'', gm_full = ''/example.service.v1.UserService/UndeleteUser'',
     gm_request = ExOne (ExUndeleteUser [])\<rparr>"

definition ex_user_grpc_service :: "ex_call grpc_service" where
  "ex_user_grpc_service = \<lparr>gs_name = ''example.service.v1.UserService'',
     gs_methods = [ex_grpc_get_user, ex_grpc_list_users, ex_grpc_create_user, ex_grpc_update_user, ex_grpc_delete_user, ex_grpc_undelete_user]\<rparr>"

definition ex_http_client_create_user :: "ex_call http_client_method" where
  "ex_http_client_create_user = \<lparr>cm_method = ''POST'', cm_pattern = ''/v1/{parent=tenants/*}/users'',
     cm_query = True, cm_body = ClientField ''user'', cm_operation = ''/example.service.v1.UserService/CreateUser'',
     cm_request = ExOne (ExCreateUser [] [] None)\<rparr>"

definition ex_http_client_delete_user :: "ex_call http_client_method" where
  "ex_http_client_delete_user = \<lparr>cm_method = ''DELETE'', cm_pattern = ''/v1/{name=tenants/*/users/*}'',
     cm_query = True, cm_body = ClientNoBody, cm_operation = ''/example.service.v1.UserService/DeleteUser'',
     cm_request = ExOne (ExDeleteUser [] False [])\<rparr>"

definition ex_http_client_get_user :: "ex_call http_client_method" where
  "ex_http_client_get_user = \<lparr>cm_method = ''GET'', cm_pattern = ''/v1/{name=tenants/*/users/*}'',
     cm_query = True, cm_body = ClientNoBody, cm_operation = ''/example.service.v1.UserService/GetUser'',
     cm_request = ExOne (ExGetUser [])\<rparr>"

definition ex_http_client_list_users :: "ex_call http_client_method" where
  "ex_http_client_list_users = \<lparr>cm_method = ''GET'', cm_pattern = ''/v1/{parent=tenants/*}/users'',
     cm_query = True, cm_body = ClientNoBody, cm_operation = ''/example.service.v1.UserService/ListUsers'',
     cm_request = ExList empty_ex_list\<rparr>"

definition ex_http_client_undelete_user :: "ex_call http_client_method" where
  "ex_http_client_undelete_user = \<lparr>cm_method = ''POST'', cm_pattern = ''/v1/{name=tenants/*/users/*}:undelete'',
     cm_query = False, cm_body = ClientBody, cm_operation = ''/example.service.v1.UserService/UndeleteUser'',
     cm_request = ExOne (ExUndeleteUser [])\<rparr>"

definition ex_http_client_update_user :: "ex_call http_client_method" where
  "ex_http_client_update_user = \<lparr>cm_method = ''PATCH'', cm_pattern = ''/v1/{user.name=tenants/*/users/*}'',
     cm_query = True, cm_body = ClientField ''user'', cm_operation = ''/example.service.v1.UserService/UpdateUser'',
     cm_request = ExOne (ExUpdateUser None None False)\<rparr>"

definition ex_grpc_client_get_user :: "ex_call \<times> string" where
  "ex_grpc_client_get_user = (ExOne (ExGetUser []), ''/example.service.v1.UserService/GetUser'')"

definition ex_grpc_client_list_users :: "ex_call \<times> string" where
  "ex_grpc_client_list_users = (ExList empty_ex_list, ''/example.service.v1.UserService/ListUsers'')"

definition ex_grpc_client_create_user :: "ex_call \<times> string" where
  "ex_grpc_client_create_user = (ExOne (ExCreateUser [] [] None), ''/example.service.v1.UserService/CreateUser'')"

definition ex_grpc_client_update_user :: "ex_call \<times> string" where
  "ex_grpc_client_update_user = (ExOne (ExUpdateUser None None False), ''/example.service.v1.UserService/UpdateUser'')"

definition ex_grpc_client_delete_user :: "ex_call \<times> string" where
  "ex_grpc_client_delete_user = (ExOne (ExDeleteUser [] False []), ''/example.service.v1.UserService/DeleteUser'')"

definition ex_grpc_client_undelete_user :: "ex_call \<times> string" where
  "ex_grpc_client_undelete_user = (ExOne (ExUndeleteUser []), ''/example.service.v1.UserService/UndeleteUser'')"

definition ex_http_clients :: "ex_call http_client_method list" where
  "ex_http_clients = [ex_http_client_create_user, ex_http_client_delete_user, ex_http_client_get_user, ex_http_client_list_users, ex_http_client_undelete_user, ex_http_client_update_user]"

definition ex_grpc_clients :: "(ex_call \<times> string) list" where
  "ex_grpc_clients = [ex_grpc_client_get_user, ex_grpc_client_list_users, ex_grpc_client_create_user, ex_grpc_client_update_user, ex_grpc_client_delete_user, ex_grpc_client_undelete_user]"

lemmas ex_table_defs = ex_http_get_user_def
  ex_http_list_users_def
  ex_http_create_user_def
  ex_http_update_user_def
  ex_http_delete_user_def
  ex_http_undelete_user_def
  ex_grpc_get_user_def
  ex_grpc_list_users_def
  ex_grpc_create_user_def
  ex_grpc_update_user_def
  ex_grpc_delete_user_def
  ex_grpc_undelete_user_def
  ex_user_http_routes_def
  ex_user_grpc_service_def

lemma ex_tables:
  "all_apart ex_user_http_routes" "list_all (\<lambda>c. list_ex (client_fits c) ex_user_http_routes) ex_http_clients"
  "list_all (\<lambda>(request, full). case grpc_find [ex_user_grpc_service] full of
      Some m \<Rightarrow> gm_request m = request \<and> gm_full m = full | None \<Rightarrow> False) ex_grpc_clients"
  by code_simp+

interpretation ex_table: client_table ex_operation ex_user_http_routes "[ex_user_grpc_service]" ex_http_clients ex_grpc_clients
proof unfold_locales
  show "all_apart ex_user_http_routes" by (rule ex_tables)
  show "\<exists>r \<in> set ex_user_http_routes. client_fits c r" if "c \<in> set ex_http_clients" for c
    using ex_tables(2) that by (auto simp: list_all_iff list_ex_iff)
  show "\<exists>g. grpc_find [ex_user_grpc_service] full = Some g \<and> gm_request g = m \<and> gm_full g = full"
    if "(m, full) \<in> set ex_grpc_clients" for m full
    using ex_tables(3) that by (auto simp: list_all_iff split: option.splits)
qed (auto simp: ex_table_defs)

section \<open>The audit service\<close>

datatype audit_call = AuListEvents list_request | AuCountEvents list_request

fun audit_operation :: "audit_call \<Rightarrow> string" where
  "audit_operation (AuListEvents _) = ''/audit.service.v1.AuditQueryService/ListAuditEvents''"
| "audit_operation (AuCountEvents _) = ''/audit.service.v1.AuditQueryService/CountAuditEvents''"

definition empty_list_request :: list_request where
  "empty_list_request = \<lparr>lr_start = None, lr_end = None, lr_types = [], lr_actor = [], lr_service = [], lr_page_size = 0, lr_page_token = []\<rparr>"

definition audit_http_list_audit_events :: "audit_call route" where
  "audit_http_list_audit_events = \<lparr>rt_method = ''GET'', rt_pattern = ''/v1/audit/events'',
     rt_binds = [BindQuery],
     rt_operation = ''/audit.service.v1.AuditQueryService/ListAuditEvents'', rt_request = AuListEvents empty_list_request\<rparr>"

definition audit_http_count_audit_events :: "audit_call route" where
  "audit_http_count_audit_events = \<lparr>rt_method = ''GET'', rt_pattern = ''/v1/audit/events:count'',
     rt_binds = [BindQuery],
     rt_operation = ''/audit.service.v1.AuditQueryService/CountAuditEvents'', rt_request = AuCountEvents empty_list_request\<rparr>"

definition audit_query_http_routes :: "audit_call route list" where
  "audit_query_http_routes = [audit_http_list_audit_events, audit_http_count_audit_events]"

definition audit_grpc_list_audit_events :: "audit_call grpc_method" where
  "audit_grpc_list_audit_events = \<lparr>gm_name = ''ListAuditEvents'', gm_full = ''/audit.service.v1.AuditQueryService/ListAuditEvents'',
     gm_request = AuListEvents empty_list_request\<rparr>"

definition audit_grpc_count_audit_events :: "audit_call grpc_method" where
  "audit_grpc_count_audit_events = \<lparr>gm_name = ''CountAuditEvents'', gm_full = ''/audit.service.v1.AuditQueryService/CountAuditEvents'',
     gm_request = AuCountEvents empty_list_request\<rparr>"

definition audit_query_grpc_service :: "audit_call grpc_service" where
  "audit_query_grpc_service = \<lparr>gs_name = ''audit.service.v1.AuditQueryService'',
     gs_methods = [audit_grpc_list_audit_events, audit_grpc_count_audit_events]\<rparr>"

definition audit_http_client_count_audit_events :: "audit_call http_client_method" where
  "audit_http_client_count_audit_events = \<lparr>cm_method = ''GET'', cm_pattern = ''/v1/audit/events:count'',
     cm_query = True, cm_body = ClientNoBody, cm_operation = ''/audit.service.v1.AuditQueryService/CountAuditEvents'',
     cm_request = AuCountEvents empty_list_request\<rparr>"

definition audit_http_client_list_audit_events :: "audit_call http_client_method" where
  "audit_http_client_list_audit_events = \<lparr>cm_method = ''GET'', cm_pattern = ''/v1/audit/events'',
     cm_query = True, cm_body = ClientNoBody, cm_operation = ''/audit.service.v1.AuditQueryService/ListAuditEvents'',
     cm_request = AuListEvents empty_list_request\<rparr>"

definition audit_grpc_client_list_audit_events :: "audit_call \<times> string" where
  "audit_grpc_client_list_audit_events = (AuListEvents empty_list_request, ''/audit.service.v1.AuditQueryService/ListAuditEvents'')"

definition audit_grpc_client_count_audit_events :: "audit_call \<times> string" where
  "audit_grpc_client_count_audit_events = (AuCountEvents empty_list_request, ''/audit.service.v1.AuditQueryService/CountAuditEvents'')"

definition audit_http_clients :: "audit_call http_client_method list" where
  "audit_http_clients = [audit_http_client_count_audit_events, audit_http_client_list_audit_events]"

definition audit_grpc_clients :: "(audit_call \<times> string) list" where
  "audit_grpc_clients = [audit_grpc_client_list_audit_events, audit_grpc_client_count_audit_events]"

lemmas audit_table_defs = audit_http_list_audit_events_def
  audit_http_count_audit_events_def
  audit_grpc_list_audit_events_def
  audit_grpc_count_audit_events_def
  audit_query_http_routes_def
  audit_query_grpc_service_def

lemma audit_tables:
  "all_apart audit_query_http_routes" "list_all (\<lambda>c. list_ex (client_fits c) audit_query_http_routes) audit_http_clients"
  "list_all (\<lambda>(request, full). case grpc_find [audit_query_grpc_service] full of
      Some m \<Rightarrow> gm_request m = request \<and> gm_full m = full | None \<Rightarrow> False) audit_grpc_clients"
  by code_simp+

interpretation audit_table: client_table audit_operation audit_query_http_routes "[audit_query_grpc_service]" audit_http_clients audit_grpc_clients
proof unfold_locales
  show "all_apart audit_query_http_routes" by (rule audit_tables)
  show "\<exists>r \<in> set audit_query_http_routes. client_fits c r" if "c \<in> set audit_http_clients" for c
    using audit_tables(2) that by (auto simp: list_all_iff list_ex_iff)
  show "\<exists>g. grpc_find [audit_query_grpc_service] full = Some g \<and> gm_request g = m \<and> gm_full g = full"
    if "(m, full) \<in> set audit_grpc_clients" for m full
    using audit_tables(3) that by (auto simp: list_all_iff split: option.splits)
qed (auto simp: audit_table_defs)

end
