(* ===== verification/FgaConfig.thy ===== *)
theory FgaConfig
  imports JwtAuthn
begin

text \<open>
  The OpenFGA client (\<open>infra/openfga\<close>): the configuration and the construction of the SDK client. The parsing
  of a URL and the SDK are parameters.
\<close>

section \<open>Configuration\<close>

record fga_config =
  fg_api_url :: string
  fg_store_id :: string
  fg_model_id :: string
  fg_api_token :: string

text \<open>\<open>CheckRequired\<close> and \<open>ApplyConf\<close>, which sets no default.\<close>

definition fga_check_required :: "fga_config \<Rightarrow> err option" where
  "fga_check_required m =
     (if fg_api_url m = [] then Some (errorf ''plateau.infra.openfga.v1.openfga.api_url is required'')
      else if fg_store_id m = [] then Some (errorf ''plateau.infra.openfga.v1.openfga.store_id is required'')
      else None)"

definition fga_apply_conf :: "fga_config \<Rightarrow> err option" where
  "fga_apply_conf m = (case fga_check_required m of Some e \<Rightarrow> Some e | None \<Rightarrow> None)"

section \<open>The SDK client\<close>

text \<open>What \<open>url.ParseRequestURI\<close> shows: \<open>ru_user\<close> says that there is user information.\<close>

record request_uri =
  ru_scheme :: string
  ru_user :: bool
  ru_hostname :: string

text \<open>What the SDK gets: \<open>fs_token\<close> is the API token credential, and \<open>fs_redirects\<close> says that its HTTP client follows redirects.\<close>

record fga_sdk_config =
  fs_api_url :: string
  fs_store_id :: string
  fs_model_id :: string
  fs_token :: "string option"
  fs_redirects :: bool

definition fga_https :: "string \<Rightarrow> bool" where
  "fga_https scheme \<longleftrightarrow> map ascii_lower scheme = ''https''"

definition fga_sdk_config_of :: "(string \<Rightarrow> err + request_uri) \<Rightarrow> fga_config \<Rightarrow> err + fga_sdk_config" where
  "fga_sdk_config_of parse config =
     (let sdk = \<lparr>fs_api_url = fg_api_url config, fs_store_id = fg_store_id config, fs_model_id = fg_model_id config,
                 fs_token = None, fs_redirects = True\<rparr>;
          token = fg_api_token config
      in if token = [] then Inr sdk
         else
           let refused = Inl (errorf ''openfga: api_token requires an https api_url with a valid hostname'') in
           case parse (fg_api_url config) of
             Inl _ \<Rightarrow> refused
           | Inr endpoint \<Rightarrow>
               if ru_user endpoint \<or> ru_hostname endpoint = [] \<or> \<not> fga_https (ru_scheme endpoint) then refused
               else Inr (sdk\<lparr>fs_token := Some token, fs_redirects := False\<rparr>))"

definition new_fga_client ::
    "(string \<Rightarrow> err + request_uri) \<Rightarrow> (fga_sdk_config \<Rightarrow> err + 'c) \<Rightarrow> fga_config option \<Rightarrow> err + 'c" where
  "new_fga_client parse new_sdk_client config =
     (case config of
        None \<Rightarrow> Inl (errorf ''openfga: config is nil'')
      | Some c \<Rightarrow>
          (case fga_apply_conf c of
             Some e \<Rightarrow> Inl (wrap ''openfga: config'' e)
           | None \<Rightarrow>
          (case fga_sdk_config_of parse c of
             Inl e \<Rightarrow> Inl e
           | Inr sdkConfig \<Rightarrow>
               (case new_sdk_client sdkConfig of
                  Inl e \<Rightarrow> Inl (wrap ''openfga: construct SDK client'' e)
                | Inr client \<Rightarrow> Inr client))))"

text \<open>A token travels over https only, to the configured host only, and a missing token needs no https.\<close>

definition token_guarded :: "(string \<Rightarrow> err + request_uri) \<Rightarrow> fga_sdk_config \<Rightarrow> bool" where
  "token_guarded parse sdk \<longleftrightarrow> fs_api_url sdk \<noteq> [] \<and> fs_store_id sdk \<noteq> [] \<and>
     (fs_token sdk = None \<or>
      (\<exists>u. parse (fs_api_url sdk) = Inr u \<and> fga_https (ru_scheme u) \<and> \<not> ru_user u \<and> ru_hostname u \<noteq> []
         \<and> \<not> fs_redirects sdk))"

lemma new_fga_client_Inr:
  assumes "new_fga_client parse new_sdk_client config = Inr client"
  obtains c sdk where "config = Some c" "new_sdk_client sdk = Inr client" "token_guarded parse sdk"
    "fs_api_url sdk = fg_api_url c" "fs_token sdk = (if fg_api_token c = [] then None else Some (fg_api_token c))"
proof -
  obtain c sdk where c: "config = Some c" "fga_check_required c = None" "fga_sdk_config_of parse c = Inr sdk"
    "new_sdk_client sdk = Inr client"
    using assms by (auto simp: new_fga_client_def fga_apply_conf_def split: option.splits sum.splits)
  from c(2,3) have "token_guarded parse sdk \<and> fs_api_url sdk = fg_api_url c
      \<and> fs_token sdk = (if fg_api_token c = [] then None else Some (fg_api_token c))"
    by (auto simp: fga_sdk_config_of_def fga_check_required_def token_guarded_def Let_def
        split: sum.splits if_splits)
  with c show thesis by (intro that [of c sdk]) simp_all
qed

end
