(* ===== verification/IamStart.thy ===== *)
theory IamStart
  imports GoWire FgaConfig OidcConfig IamMail Cap
begin

text \<open>
  The start of the IAM process: the constructors with their nil checks and the wiring of
  \<open>app/iam/service/cmd/server/wire_gen.go\<close>. A pointer or interface that may be nil is an option. The drivers,
  the list engine of the framework, the templates and the SDKs are parameters.
\<close>

section \<open>The data layer\<close>

record 'w fga_sdk =
  fk_client :: "'w fga_client"
  fk_write :: "string \<times> string \<times> string \<Rightarrow> bool \<Rightarrow> ('w, unit) prog"

record 'w iam_data =
  dt_fga :: "'w fga_sdk option"

definition new_iam_data :: "bool \<Rightarrow> bool \<Rightarrow> 'w fga_sdk option \<Rightarrow> err + 'w iam_data" where
  "new_iam_data client redis openFGA =
     (if \<not> client then Inl (errorf ''Ent client is nil'')
      else if \<not> redis then Inl (errorf ''Redis client is nil'')
      else if openFGA = None then Inl (errorf ''OpenFGA client is nil'')
      else Inr \<lparr>dt_fga = openFGA\<rparr>)"

text \<open>What the framework answers when it builds the list fields, the mapper, the clear helper and the preparer.\<close>

record crud_build =
  cb_list_fields :: "err option"
  cb_mapper :: "err option"
  cb_clear :: "err option"
  cb_list_preparer :: "err option"

definition new_user_repository ::
    "db dbenv \<Rightarrow> iam_lib \<Rightarrow> crud_build \<Rightarrow> 'w iam_data option \<Rightarrow> err + ((db, 'z) db_world_scheme) user_repo" where
  "new_user_repository E L crud data =
     (if data = None then Inl (errorf ''user repository: data is nil'')
      else
        case cb_list_fields crud of
          Some e \<Rightarrow> Inl (wrap ''build IAM User list fields'' e)
        | None \<Rightarrow>
        (case cb_mapper crud of
           Some e \<Rightarrow> Inl (wrap ''build IAM User resource mapper'' e)
         | None \<Rightarrow>
        (case cb_clear crud of
           Some e \<Rightarrow> Inl (wrap ''build IAM User Clear helper'' e)
         | None \<Rightarrow> Inr (user_repository E L))))"

definition new_session_repository :: "db dbenv \<Rightarrow> 'w iam_data option \<Rightarrow> err + ((db, 'z) db_world_scheme) session_repo" where
  "new_session_repository E data =
     (if data = None then Inl (errorf ''session repository: data is nil'') else Inr (session_repository E))"

definition new_token_session_repository ::
    "db dbenv \<Rightarrow> 'w iam_data option \<Rightarrow> err + ((db, 'z) db_world_scheme) token_session_repo" where
  "new_token_session_repository E data =
     (if data = None then Inl (errorf ''token session repository: data is nil'') else Inr (token_session_repository E))"

definition new_credential_repository ::
    "db dbenv \<Rightarrow> 'w iam_data option \<Rightarrow> err + ((db, 'z) db_world_scheme) credential_repo" where
  "new_credential_repository E data =
     (if data = None then Inl (errorf ''credential repository: data is nil'') else Inr (credential_repository E))"

definition new_verification_token_repo ::
    "db dbenv \<Rightarrow> 'w iam_data option \<Rightarrow> err + ((db, 'z) db_world_scheme) verification_token_repo" where
  "new_verification_token_repo E data =
     (if data = None then Inl (errorf ''verification token repository: data is nil'')
      else Inr (verification_token_repository E))"

definition new_password_reset_token_repository ::
    "db dbenv \<Rightarrow> 'w iam_data option \<Rightarrow> err + ((db, 'z) db_world_scheme) password_reset_token_repo" where
  "new_password_reset_token_repository E data =
     (if data = None then Inl (errorf ''password reset token repository: data is nil'')
      else Inr (password_reset_token_repository E))"

definition new_initial_admin_creator ::
    "db dbenv \<Rightarrow> 'w iam_data option
     \<Rightarrow> err + (string \<Rightarrow> string \<Rightarrow> string \<Rightarrow> string \<Rightarrow> time \<Rightarrow> ((db, 'z) db_world_scheme, unit) prog)" where
  "new_initial_admin_creator E data =
     (if data = None then Inl (errorf ''initial admin creator: data is nil'') else Inr (create_initial_admin E))"

definition new_admin_relation_writer :: "'w iam_data option \<Rightarrow> err + (string \<Rightarrow> ('w, unit) prog)" where
  "new_admin_relation_writer data =
     (case (case data of None \<Rightarrow> None | Some d \<Rightarrow> dt_fga d) of
        None \<Rightarrow> Inl (errorf ''admin relation writer: OpenFGA client is nil'')
      | Some fga \<Rightarrow> Inr (ensure_platform_admin (fk_write fga)))"

section \<open>The use cases and services\<close>

definition new_session_usecase ::
    "'w user_repo option \<Rightarrow> 'w session_repo option \<Rightarrow> 'w token_session_repo option \<Rightarrow> err + 'w session_usecase" where
  "new_session_usecase users sessions tokenSessions =
     (case (users, sessions, tokenSessions) of
        (Some u, Some s, Some t) \<Rightarrow> Inr \<lparr>su_users = u, su_sessions = s, su_token_sessions = t\<rparr>
      | _ \<Rightarrow> Inl (errorf ''session: repository dependency is nil''))"

definition new_authentication_usecase ::
    "'w user_repo option \<Rightarrow> 'w credential_repo option \<Rightarrow> 'w session_usecase option \<Rightarrow> err + 'w authentication_usecase" where
  "new_authentication_usecase users credentials sessions =
     (case (users, credentials, sessions) of
        (Some u, Some c, Some s) \<Rightarrow> Inr \<lparr>nu_users = u, nu_credentials = c, nu_sessions = s\<rparr>
      | _ \<Rightarrow> Inl (errorf ''authentication: dependency is nil''))"

text \<open>The checks that \<open>NewAccountUsecase\<close> makes before \<open>new_account_usecase\<close>; \<open>url\<close> is \<open>None\<close> when a part of the runtime is nil.\<close>

definition checked_account_usecase ::
    "'w user_repo option \<Rightarrow> 'w credential_repo option \<Rightarrow> 'w verification_token_repo option
     \<Rightarrow> 'w password_reset_token_repo option \<Rightarrow> (string \<Rightarrow> ('w, bool) prog) option \<Rightarrow> 'w mail_sender option
     \<Rightarrow> 'w session_usecase option \<Rightarrow> string option \<Rightarrow> err + 'w account_usecase" where
  "checked_account_usecase users credentials verificationTokens resetTokens captcha mailer sessions url =
     (case (users, credentials, verificationTokens, resetTokens, captcha, mailer, sessions, url) of
        (Some u, Some c, Some v, Some r, Some p, Some m, Some s, Some externalUrl) \<Rightarrow>
          new_account_usecase u c v r p m s externalUrl
      | _ \<Rightarrow> Inl (errorf ''account: dependency is nil''))"

definition new_user_usecase ::
    "'w account_usecase option \<Rightarrow> 'w user_repo option \<Rightarrow> 'w session_usecase option \<Rightarrow> err + 'w user_usecase" where
  "new_user_usecase account users sessions =
     (case (account, users, sessions) of
        (Some a, Some u, Some s) \<Rightarrow> Inr \<lparr>uu_account = a, uu_sessions = s, uu_users = u\<rparr>
      | _ \<Rightarrow> Inl (errorf ''user: usecase dependency is nil''))"

definition new_admin_initializer ::
    "string option \<Rightarrow> 'w user_repo option \<Rightarrow> (string \<Rightarrow> string \<Rightarrow> string \<Rightarrow> string \<Rightarrow> time \<Rightarrow> ('w, unit) prog) option
     \<Rightarrow> (string \<Rightarrow> ('w, unit) prog) option \<Rightarrow> err + 'w admin_initializer" where
  "new_admin_initializer config users creator relations =
     (case (config, users, creator, relations) of
        (Some email, Some u, Some c, Some r) \<Rightarrow>
          if email = [] then Inl (errorf ''admin initializer: email is empty'')
          else Inr \<lparr>ai_email = email, ai_users = u, ai_create = c, ai_ensure_admin = r\<rparr>
      | _ \<Rightarrow> Inl (errorf ''admin initializer: dependency is nil''))"

text \<open>The services hold their use case.\<close>

definition new_authn_service :: "'w authentication_usecase option \<Rightarrow> err + 'w authentication_usecase" where
  "new_authn_service authentication =
     (case authentication of None \<Rightarrow> Inl (errorf ''authn service: usecase is nil'') | Some a \<Rightarrow> Inr a)"

definition new_session_service :: "'w session_usecase option \<Rightarrow> err + 'w session_usecase" where
  "new_session_service sessions =
     (case sessions of None \<Rightarrow> Inl (errorf ''session service: usecase is nil'') | Some s \<Rightarrow> Inr s)"

definition new_account_service :: "'w account_usecase option \<Rightarrow> err + 'w account_usecase" where
  "new_account_service account =
     (case account of None \<Rightarrow> Inl (errorf ''account service: usecase is nil'') | Some a \<Rightarrow> Inr a)"

definition new_user_service :: "crud_build \<Rightarrow> 'w user_usecase option \<Rightarrow> err + 'w user_usecase" where
  "new_user_service crud usecase =
     (case usecase of
        None \<Rightarrow> Inl (errorf ''user service: dependency is missing'')
      | Some u \<Rightarrow>
          (case cb_list_preparer crud of Some e \<Rightarrow> Inl (wrap ''create User ListPreparer'' e) | None \<Rightarrow> Inr u))"

definition checked_oidc_initializer ::
    "oidc_lib \<Rightarrow> oidc_config option \<Rightarrow> signing_key option \<Rightarrow> err + signing_key \<times> client_config option list" where
  "checked_oidc_initializer OL config storage =
     (case (config, storage) of
        (Some c, Some key) \<Rightarrow>
          (case new_oidc_initializer OL (of_issuer c) (of_clients c) of
             Some e \<Rightarrow> Inl e
           | None \<Rightarrow> Inr (key, of_clients c))
      | _ \<Rightarrow> Inl (errorf ''OIDC bootstrap dependencies are nil''))"

definition new_startup_initializer :: "'a option \<Rightarrow> 'o option \<Rightarrow> err + 'a \<times> 'o" where
  "new_startup_initializer admin oidc =
     (case (admin, oidc) of
        (Some a, Some x) \<Rightarrow> Inr (a, x)
      | _ \<Rightarrow> Inl (errorf ''IAM startup initializer: dependency is nil''))"

section \<open>The connections\<close>

text \<open>\<open>NewEntDriver\<close> answers a driver or nil; the schema migration closes the client when it fails.\<close>

definition new_ent_driver :: "err + bool \<Rightarrow> bool start" where
  "new_ent_driver answer =
     (case answer of
        Inl e \<Rightarrow> throw e
      | Inr driver \<Rightarrow> if driver then pass (opened DatabaseClient) (\<lambda>_. ret True) else ret False)"

definition new_db_client :: "err option \<Rightarrow> bool \<Rightarrow> unit start" where
  "new_db_client schema driver =
     (if \<not> driver then throw (errorf ''database driver is nil'')
      else
        check (attempt schema)
          (\<lambda>e w. (Inl (wrap ''create IAM schema'' e), close DatabaseClient w)) ret)"

definition new_redis_client :: "err option \<Rightarrow> unit start" where
  "new_redis_client answer = pass (attempt answer) (\<lambda>_. opened RedisClient)"

section \<open>The wiring\<close>

record iam_confs =
  ic_url :: "string option"
  ic_admin_email :: "string option"
  ic_oidc :: "oidc_config option"
  ic_cap :: "pb_cap option"
  ic_mail :: "mail_config option"
  ic_fga :: "fga_config option"

text \<open>
  What is not the source of IAM: the answers of the drivers, the SDKs, the embedded files, and the lifting of the
  captcha's Redis commands to the world of the service.
\<close>

record ('w, 'k, 'r) iam_boot =
  bt_metrics :: "err option"
  bt_driver :: "err + bool"
  bt_schema :: "err option"
  bt_redis :: "err option"
  bt_redis_client :: "'r redis"
  bt_parse_uri :: "string \<Rightarrow> err + request_uri"
  bt_sdk :: "fga_sdk_config \<Rightarrow> err + 'w fga_sdk"
  bt_crud :: crud_build
  bt_captcha :: "cap \<Rightarrow> string \<Rightarrow> ('w, bool) prog"
  bt_mail :: "'w mail_lib"
  bt_parse_template :: "string \<Rightarrow> err + (string \<Rightarrow> int \<Rightarrow> string \<Rightarrow> err + string)"
  bt_read_asset :: "string \<Rightarrow> err + string"
  bt_base64 :: "string \<Rightarrow> string"
  bt_keys :: "'k key_lib"
  bt_oidc :: oidc_lib
  bt_provider :: "string \<Rightarrow> engine_config \<Rightarrow> err option"

record 'w iam_process =
  ip_authenticator :: "(\<lparr>ctx_identity :: iam_identity option\<rparr>, 'w, iam_identity option) session_authenticator"
  ip_authorizer :: "'w authorizer"
  ip_authn :: "'w authentication_usecase"
  ip_session :: "'w session_usecase"
  ip_account :: "'w account_usecase"
  ip_users :: "'w user_usecase"
  ip_cap :: cap
  ip_provider :: "string \<times> engine_config"
  ip_startup :: "'w admin_initializer \<times> signing_key \<times> client_config option list"

text \<open>\<open>cleanup3(); cleanup2(); cleanup()\<close>\<close>

definition iam_cleanups :: "resource list" where
  "iam_cleanups = [RedisClient, DatabaseClient, MetricsExporter]"

abbreviation built :: "err + 'a \<Rightarrow> 'a start" where
  "built r \<equiv> or_cleanup iam_cleanups (result r)"

definition iam_wire_services ::
    "db dbenv \<Rightarrow> iam_lib \<Rightarrow> (((db, 'z) db_world_scheme), 'k, 'r) iam_boot \<Rightarrow> iam_confs
     \<Rightarrow> ((db, 'z) db_world_scheme) fga_sdk \<Rightarrow> (((db, 'z) db_world_scheme) iam_process) start" where
  "iam_wire_services E L B C openFgaClient =
     pass (built (new_iam_data True True (Some openFgaClient))) (\<lambda>data.
     pass (built (new_user_repository E L (bt_crud B) (Some data))) (\<lambda>userRepo.
     pass (built (new_session_repository E (Some data))) (\<lambda>sessionRepo.
     pass (built (new_token_session_repository E (Some data))) (\<lambda>tokenSessionRepo.
     pass (built (new_session_usecase (Some userRepo) (Some sessionRepo) (Some tokenSessionRepo))) (\<lambda>sessionUsecase.
     pass (built (new_session_authenticator E L (Some sessionUsecase))) (\<lambda>v.
     pass (built (new_openfga_authorizer (Some (fk_client openFgaClient)))) (\<lambda>authorizer.
     pass (built (new_credential_repository E (Some data))) (\<lambda>credentialRepo.
     pass (built (new_authentication_usecase (Some userRepo) (Some credentialRepo) (Some sessionUsecase))) (\<lambda>authenticationUsecase.
     pass (built (new_authn_service (Some authenticationUsecase))) (\<lambda>authnService.
     pass (built (new_session_service (Some sessionUsecase))) (\<lambda>sessionService.
     pass (built (new_verification_token_repo E (Some data))) (\<lambda>verificationTokenRepo.
     pass (built (new_password_reset_token_repository E (Some data))) (\<lambda>passwordResetTokenRepo.
     pass (built (cap_new (ic_cap C) (Some (bt_redis_client B)))) (\<lambda>capCap.
     pass (built (new_sender (ic_mail C))) (\<lambda>sender.
     pass (built (new_from (ic_mail C))) (\<lambda>from.
     pass (built (new_templates (bt_parse_template B) (bt_read_asset B) (bt_base64 B))) (\<lambda>templates.
     pass (built (new_mailer (Some (smtp_send (bt_mail B) sender True)) from (Some templates))) (\<lambda>mailer.
     pass (built (checked_account_usecase (Some userRepo) (Some credentialRepo) (Some verificationTokenRepo)
         (Some passwordResetTokenRepo) (Some (bt_captcha B capCap)) (Some (new_mail_sender mailer))
         (Some sessionUsecase) (ic_url C))) (\<lambda>accountUsecase.
     pass (built (new_account_service (Some accountUsecase))) (\<lambda>accountService.
     pass (built (new_user_usecase (Some accountUsecase) (Some userRepo) (Some sessionUsecase))) (\<lambda>userUsecase.
     pass (built (new_user_service (bt_crud B) (Some userUsecase))) (\<lambda>userService.
     pass (built (new_oidc_storage (bt_keys B) True (ic_oidc C))) (\<lambda>oidcStorage.
     pass (built (new_iam_provider (bt_keys B) (bt_oidc B) (bt_provider B) (ic_oidc C) True True)) (\<lambda>iamProvider.
     pass (built (new_initial_admin_creator E (Some data))) (\<lambda>initialAdminCreator.
     pass (built (new_admin_relation_writer (Some data))) (\<lambda>adminRelationWriter.
     pass (built (new_admin_initializer (ic_admin_email C) (Some userRepo) (Some initialAdminCreator)
         (Some adminRelationWriter))) (\<lambda>adminInitializer.
     pass (built (checked_oidc_initializer (bt_oidc B) (ic_oidc C) (Some (snd oidcStorage)))) (\<lambda>oidcInitializer.
     pass (built (new_startup_initializer (Some adminInitializer) (Some oidcInitializer))) (\<lambda>initializer.
     ret \<lparr>ip_authenticator = v, ip_authorizer = authorizer, ip_authn = authnService, ip_session = sessionService,
          ip_account = accountService, ip_users = userService, ip_cap = capCap, ip_provider = iamProvider,
          ip_startup = initializer\<rparr>)))))))))))))))))))))))))))))"

definition iam_wire_app ::
    "db dbenv \<Rightarrow> iam_lib \<Rightarrow> (((db, 'z) db_world_scheme), 'k, 'r) iam_boot \<Rightarrow> iam_confs
     \<Rightarrow> (((db, 'z) db_world_scheme) iam_process) start" where
  "iam_wire_app E L B C =
     pass (metrics_new (bt_metrics B)) (\<lambda>_.
     pass (or_cleanup [MetricsExporter] (new_ent_driver (bt_driver B))) (\<lambda>driver.
     pass (or_cleanup [MetricsExporter] (new_db_client (bt_schema B) driver)) (\<lambda>_.
     pass (or_cleanup [DatabaseClient, MetricsExporter] (new_redis_client (bt_redis B))) (\<lambda>_.
     pass (built (new_fga_client (bt_parse_uri B) (bt_sdk B) (ic_fga C))) (\<lambda>openFgaClient.
     iam_wire_services E L B C openFgaClient)))))"

text \<open>The part of \<open>NewHTTPServer\<close> and \<open>NewGRPCServer\<close> that decides: the two middlewares, in order.\<close>

definition iam_server_chain ::
    "'w iam_process \<Rightarrow> ('q \<Rightarrow> pmessage option option)
     \<Rightarrow> (\<lparr>ctx_identity :: iam_identity option\<rparr>, 'q, 'w, 'a) middleware option" where
  "iam_server_chain p proto_of =
     (case (session_server (Some (ip_authenticator p)) iam_authn_options,
            openfga_server (Some (ip_authorizer p)) iam_authz_options proto_of) of
        (Some authn, Some authz) \<Rightarrow> Some (chain2 authn authz)
      | _ \<Rightarrow> None)"

text \<open>\<open>BeforeStart(initializer.Initialize)\<close>, which runs before the servers accept calls.\<close>

definition iam_before_start ::
    "db dbenv \<Rightarrow> iam_lib \<Rightarrow> oidc_lib \<Rightarrow> ((db, 'z) db_world_scheme) iam_process
     \<Rightarrow> ((db, 'z) db_world_scheme, unit) prog" where
  "iam_before_start E L OL p =
     (case ip_startup p of (admin, key, clients) \<Rightarrow> startup_initialize E L admin OL key clients)"

section \<open>What a start leaves\<close>

lemma new_ent_driver_acquires:
  "acquires (new_ent_driver a) (\<lambda>driver. if driver then [DatabaseClient] else [])"
  by (auto simp: acquires_def new_ent_driver_def prog_inv split: sum.splits if_splits)

lemma new_redis_acquires: "acquires (new_redis_client a) (\<lambda>_. [RedisClient])"
  by (auto simp: acquires_def new_redis_client_def prog_inv split: sum.splits)

lemma new_db_client_wires:
  "wires base ((if driver then [DatabaseClient] else []) @ [MetricsExporter])
     (or_cleanup [MetricsExporter] (new_db_client schema driver)) (\<lambda>_. [DatabaseClient, MetricsExporter])"
  by (rule wiresI) (auto simp: new_db_client_def or_cleanup_run check_run attempt_def
      split: if_splits option.splits sum.splits prod.splits)

lemma built_wires [wire_intros]:
  "(\<And>x. wires base iam_cleanups (k x) qs') \<Longrightarrow> wires base iam_cleanups (pass (built r) k) qs'"
  by (rule wires_pass [OF wires_result])

lemma iam_services_wires: "wires base iam_cleanups (iam_wire_services E L B C fga) (\<lambda>_. iam_cleanups)"
  unfolding iam_wire_services_def by (rule built_wires)+ (rule wires_ret, simp)

lemma iam_wires: "wires base [] (iam_wire_app E L B C) (\<lambda>_. iam_cleanups)"
  unfolding iam_wire_app_def
proof (rule wires_pass [OF wires_first [OF metrics_acquires]],
    rule wires_pass [OF wires_acquires [OF new_ent_driver_acquires]], rule wires_pass [OF new_db_client_wires],
    rule wires_pass [OF wires_acquires [OF new_redis_acquires]])
  show "wires base ([RedisClient] @ [DatabaseClient, MetricsExporter])
      (pass (built (new_fga_client (bt_parse_uri B) (bt_sdk B) (ic_fga C))) (iam_wire_services E L B C)) (\<lambda>_. iam_cleanups)"
    using built_wires [OF iam_services_wires] by (simp add: iam_cleanups_def)
qed

lemma built_Inr: "pass (built r) k w = (Inr y, w') \<longleftrightarrow> (\<exists>x. r = Inr x \<and> k x w = (Inr y, w'))"
  by (auto simp: pass_Inr or_cleanup_Inr)

text \<open>None of the nil checks fires: the constructors that only check answer what they are given.\<close>

lemmas nil_checks = new_iam_data_def new_session_repository_def new_token_session_repository_def
  new_credential_repository_def new_verification_token_repo_def new_password_reset_token_repository_def
  new_session_usecase_def new_authentication_usecase_def new_authn_service_def new_session_service_def
  new_account_service_def new_user_usecase_def new_initial_admin_creator_def new_admin_relation_writer_def
  new_startup_initializer_def

lemma new_user_repository_Inr: "new_user_repository E L crud data = Inr x \<Longrightarrow> x = user_repository E L"
  by (auto simp: new_user_repository_def split: if_splits option.splits)

lemma new_user_service_Inr: "new_user_service crud (Some u) = Inr x \<Longrightarrow> x = u"
  by (auto simp: new_user_service_def split: option.splits)

lemma checked_account_Inr:
  assumes "checked_account_usecase (Some u) (Some c) (Some v) (Some r) (Some p) (Some m) (Some s) url = Inr a"
  obtains x where "url = Some x" "new_account_usecase u c v r p m s x = Inr a"
  using assms by (auto simp: checked_account_usecase_def split: option.splits)

lemma new_admin_Inr:
  assumes "new_admin_initializer config (Some u) (Some c) (Some r) = Inr a"
  obtains email where "config = Some email" "email \<noteq> []"
    "a = \<lparr>ai_email = email, ai_users = u, ai_create = c, ai_ensure_admin = r\<rparr>"
  using assms by (auto simp: new_admin_initializer_def split: option.splits if_splits)

text \<open>The deployment that the process serves.\<close>

definition deployment ::
    "((db, 'z) db_world_scheme, 'k, 'r) iam_boot \<Rightarrow> ((db, 'z) db_world_scheme) fga_sdk \<Rightarrow> cap
     \<Rightarrow> ((db, 'z) db_world_scheme) mailer \<Rightarrow> string \<Rightarrow> string \<Rightarrow> ((db, 'z) db_world_scheme) iam_deps" where
  "deployment B fga captcha mailer url email =
     \<lparr>id_captcha = bt_captcha B captcha, id_mailer = new_mail_sender mailer, id_fga_write = fk_write fga,
      id_origin = url, id_admin_email = email\<rparr>"

lemma iam_services_Inr:
  assumes "iam_wire_services E L B C fga w = (Inr p, w')"
  obtains url email mailer key clients where "ic_url C = Some url" "ic_admin_email C = Some email" "email \<noteq> []"
    "trim_right_char (CHR ''/'') (trim_space url) \<noteq> []"
    "ip_authn p = iam_authentication E L" "ip_session p = iam_sessions E L"
    "ip_account p = iam_account E L (deployment B fga (ip_cap p) mailer url email)"
    "ip_users p = iam_users E L (deployment B fga (ip_cap p) mailer url email)"
    "ip_startup p = (iam_admin E L (deployment B fga (ip_cap p) mailer url email), key, clients)" "clients \<noteq> []"
    "new_session_authenticator E L (Some (iam_sessions E L)) = Inr (ip_authenticator p)"
    "new_openfga_authorizer (Some (fk_client fga)) = Inr (ip_authorizer p)"
    "cap_new (ic_cap C) (Some (bt_redis_client B)) = Inr (ip_cap p)"
    "new_iam_provider (bt_keys B) (bt_oidc B) (bt_provider B) (ic_oidc C) True True = Inr (ip_provider p)" "w' = w"
proof -
  from assms obtain data userRepo sessionRepo tokenSessionRepo sessionUsecase v authorizer credentialRepo
      authenticationUsecase authnService sessionService verificationTokenRepo passwordResetTokenRepo capCap sender
      from' templates mailer accountUsecase accountService userUsecase userService oidcStorage iamProvider
      initialAdminCreator adminRelationWriter adminInitializer oidcInitializer initializer
    where r: "new_iam_data True True (Some fga) = Inr data"
      "new_user_repository E L (bt_crud B) (Some data) = Inr userRepo"
      "new_session_repository E (Some data) = Inr sessionRepo"
      "new_token_session_repository E (Some data) = Inr tokenSessionRepo"
      "new_session_usecase (Some userRepo) (Some sessionRepo) (Some tokenSessionRepo) = Inr sessionUsecase"
      "new_session_authenticator E L (Some sessionUsecase) = Inr v"
      "new_openfga_authorizer (Some (fk_client fga)) = Inr authorizer"
      "new_credential_repository E (Some data) = Inr credentialRepo"
      "new_authentication_usecase (Some userRepo) (Some credentialRepo) (Some sessionUsecase) = Inr authenticationUsecase"
      "new_authn_service (Some authenticationUsecase) = Inr authnService"
      "new_session_service (Some sessionUsecase) = Inr sessionService"
      "new_verification_token_repo E (Some data) = Inr verificationTokenRepo"
      "new_password_reset_token_repository E (Some data) = Inr passwordResetTokenRepo"
      "cap_new (ic_cap C) (Some (bt_redis_client B)) = Inr capCap"
    and s: "new_mailer (Some (smtp_send (bt_mail B) sender True)) from' (Some templates) = Inr mailer"
      "checked_account_usecase (Some userRepo) (Some credentialRepo) (Some verificationTokenRepo)
         (Some passwordResetTokenRepo) (Some (bt_captcha B capCap)) (Some (new_mail_sender mailer))
         (Some sessionUsecase) (ic_url C) = Inr accountUsecase"
      "new_account_service (Some accountUsecase) = Inr accountService"
      "new_user_usecase (Some accountUsecase) (Some userRepo) (Some sessionUsecase) = Inr userUsecase"
      "new_user_service (bt_crud B) (Some userUsecase) = Inr userService"
      "new_iam_provider (bt_keys B) (bt_oidc B) (bt_provider B) (ic_oidc C) True True = Inr iamProvider"
      "new_initial_admin_creator E (Some data) = Inr initialAdminCreator"
      "new_admin_relation_writer (Some data) = Inr adminRelationWriter"
      "new_admin_initializer (ic_admin_email C) (Some userRepo) (Some initialAdminCreator) (Some adminRelationWriter)
         = Inr adminInitializer"
      "checked_oidc_initializer (bt_oidc B) (ic_oidc C) (Some (snd oidcStorage)) = Inr oidcInitializer"
      "new_startup_initializer (Some adminInitializer) (Some oidcInitializer) = Inr initializer"
    and p: "w' = w" "p = \<lparr>ip_authenticator = v, ip_authorizer = authorizer, ip_authn = authnService,
          ip_session = sessionService, ip_account = accountService, ip_users = userService, ip_cap = capCap,
          ip_provider = iamProvider, ip_startup = initializer\<rparr>"
    unfolding iam_wire_services_def built_Inr by auto
  have users: "userRepo = user_repository E L" by (rule new_user_repository_Inr [OF r(2)])
  have sessions: "sessionUsecase = iam_sessions E L" "data = \<lparr>dt_fga = Some fga\<rparr>"
    using r(1,3-5) users by (auto simp: nil_checks iam_sessions_def)
  have authn: "authnService = iam_authentication E L" "sessionService = iam_sessions E L"
    using r(8-11) users sessions by (auto simp: nil_checks iam_authentication_def)
  obtain url where url: "ic_url C = Some url" and new: "new_account_usecase userRepo credentialRepo verificationTokenRepo
      passwordResetTokenRepo (bt_captcha B capCap) (new_mail_sender mailer) sessionUsecase url = Inr accountUsecase"
    by (rule checked_account_Inr [OF s(2)])
  have repos: "credentialRepo = credential_repository E" "verificationTokenRepo = verification_token_repository E"
    "passwordResetTokenRepo = password_reset_token_repository E"
    using r(8,12,13) by (simp_all add: nil_checks)
  have origin: "trim_right_char (CHR ''/'') (trim_space url) \<noteq> []"
    and account: "\<And>email. accountUsecase = iam_account E L (deployment B fga capCap mailer url email)"
    using new unfolding repos users sessions
    by (simp_all add: new_account_usecase_def iam_account_def deployment_def Let_def split: if_splits)
  obtain email where email: "ic_admin_email C = Some email" "email \<noteq> []"
    and new_admin: "adminInitializer = \<lparr>ai_email = email, ai_users = userRepo, ai_create = initialAdminCreator,
      ai_ensure_admin = adminRelationWriter\<rparr>"
    by (rule new_admin_Inr [OF s(9)])
  have admin: "adminInitializer = iam_admin E L (deployment B fga capCap mailer url email)"
    using new_admin s(7,8) users sessions by (simp add: nil_checks iam_admin_def deployment_def)
  have services: "accountService = iam_account E L (deployment B fga capCap mailer url email)"
    "userService = iam_users E L (deployment B fga capCap mailer url email)"
    using s(3,4) new_user_service_Inr [OF s(5)] account [of email] users sessions
    by (auto simp: nil_checks iam_users_def)
  obtain key clients where start: "oidcInitializer = (key, clients)" "clients \<noteq> []" "initializer = (adminInitializer, key, clients)"
    using s(10,11)
    by (auto simp: nil_checks checked_oidc_initializer_def new_oidc_initializer_def split: option.splits sum.splits if_splits)
  show thesis
    by (rule that [OF url email origin])
      (use p authn services admin start r(6,7,14) s(6) sessions in simp_all)
qed

text \<open>The protocol engine is told to ask for S256 challenges and gets a key of 32 bytes; its issuer is https or local.\<close>

definition engine_guarded :: "oidc_lib \<Rightarrow> string \<times> engine_config \<Rightarrow> bool" where
  "engine_guarded OL p \<longleftrightarrow> (case p of (issuer, engine) \<Rightarrow>
     ec_code_s256 engine \<and> length (ec_crypto_key engine) = 32 \<and>
     (\<exists>u. ol_url_parse OL issuer = Inr u \<and>
        (pu_scheme u = ''https'' \<or> pu_scheme u = ''http'' \<and> is_loopback_host (pu_hostname u) \<and> ec_insecure engine)))"

lemma new_iam_provider_guarded:
  assumes "new_iam_provider K OL new_provider config s t = Inr p"
  shows "engine_guarded OL p"
proof -
  obtain c issuer insecure key keyID where c: "config = Some c" "normalize_issuer OL (of_issuer c) = Inr (issuer, insecure)"
    "load_crypto_key K (of_crypto_key_path c) = Inr (key, keyID)" "fst p = issuer"
    "ec_crypto_key (snd p) = key" "ec_code_s256 (snd p)" "ec_insecure (snd p) = insecure"
    using assms by (auto simp: new_iam_provider_def Let_def split: option.splits if_splits sum.splits)
  have "length key = 32" using c(3) by (auto simp: load_crypto_key_def crypto_key_bytes_def Let_def split: if_splits sum.splits)
  moreover have "\<exists>u. ol_url_parse OL issuer = Inr u \<and>
      (pu_scheme u = ''https'' \<or> pu_scheme u = ''http'' \<and> is_loopback_host (pu_hostname u) \<and> insecure)"
    using c(2) by (auto simp: normalize_issuer_def Let_def split: sum.splits if_splits)
  ultimately show ?thesis using c(4-7) by (cases p) (simp add: engine_guarded_def)
qed

lemma iam_server_chain_eq:
  assumes "new_session_authenticator E L (Some (iam_sessions E L)) = Inr (ip_authenticator p)"
    and "new_openfga_authorizer (Some fga) = Inr (ip_authorizer p)"
  shows "iam_server_chain p proto_of = iam_middleware E L fga proto_of"
  by (simp add: iam_server_chain_def iam_middleware_def assms)

lemma iam_wire_Inr:
  assumes "iam_wire_app E L B C w = (Inr p, w')"
  obtains fga w1 where "new_fga_client (bt_parse_uri B) (bt_sdk B) (ic_fga C) = Inr fga"
    "iam_wire_services E L B C fga w1 = (Inr p, w')"
  using assms by (auto simp: iam_wire_app_def pass_Inr or_cleanup_Inr)

text \<open>
  C19. A start of IAM that fails at any constructor closes every connection that it had opened, in particular
  the database, Redis and the exporter. A start that succeeds has wired exactly the use cases, the middlewares and
  the start-up task that the theorems on the IAM service are about, none of the nil checks having fired, with a
  non-empty origin for links and a non-empty administrator address; an OpenFGA token goes over https without
  redirects only, the issuer is https or local, and the cleanup closes all that was opened.
\<close>

theorem iam_start_wires_service:
  assumes run: "iam_wire_app E L B C w = (r, w')"
  shows "case r of
      Inl e \<Rightarrow> sw_open w' = sw_open w
    | Inr p \<Rightarrow> sw_open (cleanup iam_cleanups w') = sw_open w
        \<and> engine_guarded (bt_oidc B) (ip_provider p)
        \<and> (\<exists>D fga sdk. bt_sdk B sdk = Inr fga \<and> token_guarded (bt_parse_uri B) sdk
            \<and> ip_authn p = iam_authentication E L \<and> ip_session p = iam_sessions E L
            \<and> ip_account p = iam_account E L D \<and> ip_users p = iam_users E L D
            \<and> fst (ip_startup p) = iam_admin E L D
            \<and> iam_server_chain p proto_of = iam_middleware E L (fk_client fga) proto_of
            \<and> ac_verification_origin (iam_account E L D) \<noteq> [] \<and> ai_email (iam_admin E L D) \<noteq> [])"
proof (cases r)
  case (Inl e)
  with wires_start [OF iam_wires run] show ?thesis by simp
next
  case (Inr p)
  obtain fga w1 where f: "new_fga_client (bt_parse_uri B) (bt_sdk B) (ic_fga C) = Inr fga"
    and s: "iam_wire_services E L B C fga w1 = (Inr p, w')"
    using iam_wire_Inr run Inr by metis
  obtain c sdk where sdk: "bt_sdk B sdk = Inr fga" "token_guarded (bt_parse_uri B) sdk"
    by (rule new_fga_client_Inr [OF f])
  show ?thesis
  proof (rule iam_services_Inr [OF s], goal_cases)
    case (1 url email mailer key clients)
    let ?D = "deployment B fga (ip_cap p) mailer url email"
    have origin: "ac_verification_origin (iam_account E L ?D) \<noteq> []" "ai_email (iam_admin E L ?D) \<noteq> []"
      using 1(3,4) by (simp_all add: iam_account_def iam_admin_def deployment_def)
    have closed: "sw_open (cleanup iam_cleanups w') = sw_open w"
      using wires_start [OF iam_wires run] Inr by simp
    show ?case
      using closed origin sdk new_iam_provider_guarded [OF 1(14)] iam_server_chain_eq [OF 1(11,12), of proto_of] 1(5-9) Inr
      by (auto simp del: cleanup_open)
  qed
qed

section \<open>A start\<close>

definition demo_keys :: "nat key_lib" where
  "demo_keys = \<lparr>kl_read_file = (\<lambda>_. Inr (replicate 32 (CHR ''k''))), kl_pem_decode = (\<lambda>_. Some (''RSA PRIVATE KEY'', [])),
     kl_parse_pkcs1 = (\<lambda>_. Inr 0), kl_parse_pkcs8 = (\<lambda>_. Inr None), kl_bit_len = (\<lambda>_. 2048), kl_validate = (\<lambda>_. None),
     kl_marshal_pkix = (\<lambda>_. Inr []), kl_jwk = (\<lambda>_ _. Inr []), kl_sha256 = (\<lambda>s. s)\<rparr>"

definition demo_boot :: "(db db_world, nat, unit) iam_boot" where
  "demo_boot = \<lparr>bt_metrics = None, bt_driver = Inr True, bt_schema = None, bt_redis = None,
     bt_redis_client = \<lparr>rd_get = (\<lambda>_ _ _. None), rd_psetex = (\<lambda>_ _ _ _ r. Some r), rd_del = (\<lambda>_ r. r), rd_fault = (\<lambda>_. None)\<rparr>,
     bt_parse_uri = (\<lambda>_. Inr \<lparr>ru_scheme = ''https'', ru_user = False, ru_hostname = ''fga''\<rparr>),
     bt_sdk = (\<lambda>_. Inr \<lparr>fk_client = \<lparr>fc_check = (\<lambda>_ _ _. ret (Some (Some True))), fc_batch = (\<lambda>_. ret None),
        fc_list = (\<lambda>_ _ _. ret None)\<rparr>, fk_write = (\<lambda>_ _. ret ())\<rparr>),
     bt_crud = \<lparr>cb_list_fields = None, cb_mapper = None, cb_clear = None, cb_list_preparer = None\<rparr>,
     bt_captcha = (\<lambda>_ _. ret True),
     bt_mail = \<lparr>gm_format = (\<lambda>_ a. a), gm_from = (\<lambda>_. None), gm_to = (\<lambda>_. None), gm_client = (\<lambda>_ _. None),
        gm_dial_and_send = (\<lambda>_ _ _. ret ())\<rparr>,
     bt_parse_template = (\<lambda>_. Inr (\<lambda>link _ _. Inr link)), bt_read_asset = (\<lambda>_. Inr []), bt_base64 = (\<lambda>s. s),
     bt_keys = demo_keys,
     bt_oidc = \<lparr>ol_url_parse = (\<lambda>_. Inr \<lparr>pu_scheme = ''https'', pu_host = ''h'', pu_hostname = ''h'', pu_path = [],
        pu_raw_query = [], pu_fragment = []\<rparr>), ol_redirect_error = (\<lambda>_ _ _. None), ol_client_subject = (\<lambda>_ _. Inr [])\<rparr>,
     bt_provider = (\<lambda>_ _. None)\<rparr>"

definition demo_confs :: iam_confs where
  "demo_confs = \<lparr>ic_url = Some ''u'', ic_admin_email = Some ''a'',
     ic_oidc = Some \<lparr>of_issuer = ''i'', of_signing_key_path = ''s'', of_crypto_key_path = ''c'', of_clients = [None]\<rparr>,
     ic_cap = Some \<lparr>pc_signing_secret = replicate 16 (CHR ''s''), pc_redis_key_prefix = [], pc_challenge_ttl = None,
        pc_token_ttl = None, pc_challenge_count = 0, pc_challenge_size = 0, pc_challenge_difficulty = 0, pc_default_scope = []\<rparr>,
     ic_mail = Some \<lparr>mc_smtp = Some \<lparr>sm_host = ''m'', sm_port = 0, sm_username = [], sm_password = [], sm_tls = True,
        sm_skip_verify = False, sm_timeout = None\<rparr>, mc_from = Some \<lparr>mf_address = ''a'', mf_name = []\<rparr>\<rparr>,
     ic_fga = Some \<lparr>fg_api_url = ''u'', fg_store_id = ''s'', fg_model_id = [], fg_api_token = ''t''\<rparr>\<rparr>"

lemma boot_trim: "trim_space [c] = [c]" if "ord_of c < 127" "32 < ord_of c"
  using that trim_space_around [of "[]" "[]" "[c]"] by (simp add: ascii_blank_def ascii_visible_def)

lemma demo_crypto: "load_crypto_key demo_keys ''c'' = Inr (replicate 32 (CHR ''k''), b64_encode (replicate 32 (CHR ''k'')))"
  using crypto_material_raw [of "replicate 32 (CHR ''k'')"]
  by (simp add: load_crypto_key_def demo_keys_def boot_trim crypto_key_bytes_def Let_def)

lemma demo_signing: "load_signing_key demo_keys ''s'' = Inr (0, b64_encode [], [])"
  by (simp add: load_signing_key_def parse_signing_block_def demo_keys_def boot_trim Let_def)

lemma demo_constructors:
  "\<exists>x. cap_new (ic_cap demo_confs) (Some (bt_redis_client demo_boot)) = Inr x"
  "\<exists>x. new_sender (ic_mail demo_confs) = Inr x" "\<exists>x. new_from (ic_mail demo_confs) = Inr x"
  "\<exists>x. new_templates (bt_parse_template demo_boot) (bt_read_asset demo_boot) (bt_base64 demo_boot) = Inr x"
  "\<exists>x. new_oidc_storage (bt_keys demo_boot) True (ic_oidc demo_confs) = Inr x"
  "\<exists>x. new_iam_provider (bt_keys demo_boot) (bt_oidc demo_boot) (bt_provider demo_boot) (ic_oidc demo_confs) True True = Inr x"
  "\<exists>x. new_fga_client (bt_parse_uri demo_boot) (bt_sdk demo_boot) (ic_fga demo_confs) = Inr x"
  "\<exists>x. checked_oidc_initializer (bt_oidc demo_boot) (ic_oidc demo_confs) (Some key) = Inr x"
  "\<exists>x. new_session_authenticator IamDemo.demo_env demo_lib (Some uc) = Inr x"
  "\<exists>x. new_openfga_authorizer (Some fga) = Inr x"
  by (simp_all add: cap_new_def pb_cap_apply_defaults_def pb_cap_check_required_def min_signing_secret_bytes_def
      valid_duration_def pb_duration_new_def validate_challenge_params_def max_challenge_count_def max_challenge_size_def
      max_challenge_difficulty_def new_sender_def new_from_def new_templates_def new_oidc_storage_def demo_signing
      new_iam_provider_def normalize_issuer_def trim_suffix_def
      demo_crypto new_fga_client_def fga_apply_conf_def fga_check_required_def fga_sdk_config_of_def fga_https_def
      ascii_lower_def checked_oidc_initializer_def new_oidc_initializer_def new_session_authenticator_def session_new_def
      session_cookie_name_def new_openfga_authorizer_def authorizer_new_def demo_confs_def demo_boot_def boot_trim Let_def
      is_token_def token_char_def)

lemma built_run: "pass (built (Inr x)) k w = k x w"
  by (simp add: check_run or_cleanup_run)

lemma demo_repos: "new_user_repository E L (bt_crud demo_boot) (Some data) = Inr (user_repository E L)"
  "new_user_service (bt_crud demo_boot) (Some u) = Inr u"
  by (simp_all add: new_user_repository_def new_user_service_def demo_boot_def)

lemma demo_account:
  "checked_account_usecase (Some u) (Some c) (Some v) (Some r) (Some p) (Some m) (Some s) (ic_url demo_confs)
     = Inr \<lparr>ac_users = u, ac_credentials = c, ac_verification_tokens = v, ac_reset_tokens = r, ac_cap = p,
            ac_mailer = m, ac_sessions = s, ac_verification_origin = ''u''\<rparr>"
  "ic_admin_email demo_confs = Some ''a''"
  by (simp_all add: checked_account_usecase_def new_account_usecase_def demo_confs_def boot_trim trim_right_char_def Let_def)

lemma demo_connections: "bt_metrics demo_boot = None" "bt_driver demo_boot = Inr True" "bt_schema demo_boot = None"
  "bt_redis demo_boot = None"
  by (simp_all add: demo_boot_def)

theorem iam_start_wires_service_witness:
  "\<exists>p w'. iam_wire_app IamDemo.demo_env demo_lib demo_boot demo_confs \<lparr>sw_open = [], sw_ddl = []\<rparr> = (Inr p, w')
     \<and> sw_open (cleanup iam_cleanups w') = [] \<and> ip_authn p = iam_authentication IamDemo.demo_env demo_lib"
proof -
  let ?w = "\<lparr>sw_open = [], sw_ddl = []\<rparr>"
  obtain r w' where run: "iam_wire_app IamDemo.demo_env demo_lib demo_boot demo_confs ?w = (r, w')" by fastforce
  have "\<exists>p. r = Inr p"
  proof -
    obtain c s f t k v g where built: "cap_new (ic_cap demo_confs) (Some (bt_redis_client demo_boot)) = Inr c"
      "new_sender (ic_mail demo_confs) = Inr s" "new_from (ic_mail demo_confs) = Inr f"
      "new_templates (bt_parse_template demo_boot) (bt_read_asset demo_boot) (bt_base64 demo_boot) = Inr t"
      "new_oidc_storage (bt_keys demo_boot) True (ic_oidc demo_confs) = Inr k"
      "new_iam_provider (bt_keys demo_boot) (bt_oidc demo_boot) (bt_provider demo_boot) (ic_oidc demo_confs) True True = Inr v"
      "new_fga_client (bt_parse_uri demo_boot) (bt_sdk demo_boot) (ic_fga demo_confs) = Inr g"
      using demo_constructors(1-7) by blast
    obtain a z o' where more: "new_session_authenticator IamDemo.demo_env demo_lib (Some (iam_sessions IamDemo.demo_env demo_lib :: (db db_world) session_usecase)) = Inr a"
      "new_openfga_authorizer (Some (fk_client g)) = Inr z"
      "checked_oidc_initializer (bt_oidc demo_boot) (ic_oidc demo_confs) (Some (snd k)) = Inr o'"
      using demo_constructors(8-10) by blast
    have services: "\<exists>p v. iam_wire_services IamDemo.demo_env demo_lib demo_boot demo_confs g w = (Inr p, v)" for w
      unfolding iam_wire_services_def demo_repos nil_checks
      by (simp add: built more [unfolded iam_sessions_def] built_run new_mailer_def new_admin_initializer_def demo_account)
    have "\<exists>w1. iam_wire_app IamDemo.demo_env demo_lib demo_boot demo_confs ?w
        = iam_wire_services IamDemo.demo_env demo_lib demo_boot demo_confs g w1"
      unfolding iam_wire_app_def
      by (simp add: built built_run or_cleanup_run check_run demo_connections metrics_new_def attempt_def opened_def
          new_ent_driver_def new_db_client_def new_redis_client_def) (rule exI, rule refl)
    then obtain w1 where "iam_wire_services IamDemo.demo_env demo_lib demo_boot demo_confs g w1 = (r, w')"
      using run by auto
    with services [of w1] show ?thesis by auto
  qed
  then obtain p where p: "r = Inr p" by blast
  with iam_start_wires_service [OF run] have "sw_open (cleanup iam_cleanups w') = []"
    "ip_authn p = iam_authentication IamDemo.demo_env demo_lib" by auto
  with run p show ?thesis by blast
qed

end
