(* ===== verification/ExampleStart.thy ===== *)
theory ExampleStart
  imports GoWire ExampleUser
begin

text \<open>
  The start of the example service (\<open>app/example/service/cmd/server/wire_gen.go\<close>). The answers of the driver and
  of the list engine are parameters.
\<close>

record ex_boot =
  xb_metrics :: "err option"
  xb_driver :: "err option"
  xb_schema :: "err option"
  xb_list_fields :: "err option"
  xb_mapper :: "err option"
  xb_clear :: "err option"
  xb_list_preparer :: "err option"
  xb_parent_matcher :: "err option"

definition ex_ent_driver :: "err option \<Rightarrow> unit start" where
  "ex_ent_driver answer = pass (attempt answer) (\<lambda>_. opened DatabaseClient)"

definition ex_db_client :: "err option \<Rightarrow> unit start" where
  "ex_db_client schema =
     check (attempt schema) (\<lambda>e w. (Inl (wrap ''create example User schema'' e), close DatabaseClient w)) ret"

definition ex_new_data :: "bool \<Rightarrow> err + unit" where
  "ex_new_data client = (if \<not> client then Inl (errorf ''Ent client is nil'') else Inr ())"

definition ex_new_user_repo :: "ex_boot \<Rightarrow> ex_db dbenv \<Rightarrow> ex_lib \<Rightarrow> err + ex_world ex_repo" where
  "ex_new_user_repo B E L =
     (case xb_list_fields B of
        Some e \<Rightarrow> Inl (wrap ''build User list fields'' e)
      | None \<Rightarrow>
     (case xb_mapper B of
        Some e \<Rightarrow> Inl (wrap ''build User resource mapper'' e)
      | None \<Rightarrow>
     (case xb_clear B of
        Some e \<Rightarrow> Inl (wrap ''build User Clear helper'' e)
      | None \<Rightarrow> Inr (new_ex_repo E L))))"

definition ex_new_user_service :: "ex_boot \<Rightarrow> 'w ex_repo \<Rightarrow> err + 'w ex_repo" where
  "ex_new_user_service B usecase =
     (case xb_list_preparer B of
        Some e \<Rightarrow> Inl (wrap ''create User ListPreparer'' e)
      | None \<Rightarrow>
     (case xb_parent_matcher B of
        Some e \<Rightarrow> Inl (wrap ''create User parent matcher'' e)
      | None \<Rightarrow> Inr usecase))"

definition example_wire_app :: "ex_boot \<Rightarrow> ex_db dbenv \<Rightarrow> ex_lib \<Rightarrow> (ex_world ex_repo) start" where
  "example_wire_app B E L =
     pass (metrics_new (xb_metrics B)) (\<lambda>_.
     pass (or_cleanup [MetricsExporter] (ex_ent_driver (xb_driver B))) (\<lambda>_.
     pass (or_cleanup [MetricsExporter] (ex_db_client (xb_schema B))) (\<lambda>_.
     pass (or_cleanup [MetricsExporter] (result (ex_new_data True))) (\<lambda>_.
     pass (or_cleanup [DatabaseClient, MetricsExporter] (result (ex_new_user_repo B E L))) (\<lambda>userRepo.
     pass (or_cleanup [DatabaseClient, MetricsExporter] (result (ex_new_user_service B userRepo))) (\<lambda>userService.
     ret userService))))))"

section \<open>What a start leaves\<close>

lemma ex_driver_acquires: "acquires (ex_ent_driver a) (\<lambda>_. [DatabaseClient])"
  by (auto simp: acquires_def ex_ent_driver_def prog_inv split: sum.splits)

lemma ex_db_client_wires:
  "wires base [DatabaseClient, MetricsExporter] (or_cleanup [MetricsExporter] (ex_db_client schema))
     (\<lambda>_. [DatabaseClient, MetricsExporter])"
  by (rule wiresI) (auto simp: ex_db_client_def or_cleanup_run check_run attempt_def
      split: option.splits sum.splits prod.splits)

text \<open>The cleanup of \<open>NewData\<close> comes one step late, but that step cannot fail.\<close>

lemma ex_new_data_wires:
  "wires base [DatabaseClient, MetricsExporter] (or_cleanup [MetricsExporter] (result (ex_new_data True)))
     (\<lambda>_. [DatabaseClient, MetricsExporter])"
  by (rule wiresI) (auto simp: ex_new_data_def or_cleanup_run)

lemma example_wires: "wires base [] (example_wire_app B E L) (\<lambda>_. [DatabaseClient, MetricsExporter])"
  unfolding example_wire_app_def
proof (rule wires_pass [OF wires_first [OF metrics_acquires]],
    rule wires_pass [OF wires_acquires [OF ex_driver_acquires]])
  show "wires base ([DatabaseClient] @ [MetricsExporter])
      (pass (or_cleanup [MetricsExporter] (ex_db_client (xb_schema B))) (\<lambda>_.
       pass (or_cleanup [MetricsExporter] (result (ex_new_data True))) (\<lambda>_.
       pass (or_cleanup [DatabaseClient, MetricsExporter] (result (ex_new_user_repo B E L))) (\<lambda>userRepo.
       pass (or_cleanup [DatabaseClient, MetricsExporter] (result (ex_new_user_service B userRepo))) ret))))
      (\<lambda>_. [DatabaseClient, MetricsExporter])"
    by (simp, rule wires_pass [OF ex_db_client_wires], rule wires_pass [OF ex_new_data_wires])
      (rule wires_pass [OF wires_result], rule wires_pass [OF wires_result], rule wires_ret, simp)
qed

lemma example_start_leaks_nothing:
  "example_wire_app B E L w = (r, w') \<Longrightarrow> case r of
      Inl _ \<Rightarrow> sw_open w' = sw_open w
    | Inr repo \<Rightarrow> repo = new_ex_repo E L \<and> sw_open (cleanup [DatabaseClient, MetricsExporter] w') = sw_open w"
  using wires_start [OF example_wires, of B E L w r w']
  by (auto simp: example_wire_app_def pass_Inr or_cleanup_Inr ex_new_user_repo_def ex_new_user_service_def
      simp del: cleanup_open split: sum.splits option.splits)

end
