(* ===== verification/PbRedact.thy ===== *)
theory PbRedact
  imports IamService Cap
begin

text \<open>
  What the logs show of a message: the generated \<open>Redact\<close> and \<open>RedactFields\<close> of \<open>*.pb.redact.go\<close>, one definition per
  message, and what the request log of IAM can tell. The text of a message is made by the protobuf library, which is
  a parameter; the logging middleware of the framework calls \<open>Redact\<close> on the requests that have it.
\<close>

section \<open>The generated methods\<close>

text \<open>\<open>Redact\<close>: nothing for nil, else the text of a clone whose annotated fields are replaced.\<close>

definition redact :: "('m \<Rightarrow> string) \<Rightarrow> ('m \<Rightarrow> 'm) \<Rightarrow> 'm option \<Rightarrow> string" where
  "redact render redact_fields x = (case x of None \<Rightarrow> [] | Some clone \<Rightarrow> render (redact_fields clone))"

definition login_request_redact_fields :: "string \<times> string \<Rightarrow> string \<times> string" where
  "login_request_redact_fields = (\<lambda>(email, password). (email, []))"

definition login_response_redact_fields :: "user_pb \<times> session_pb \<Rightarrow> user_pb \<times> session_pb" where
  "login_response_redact_fields x = x"

definition register_request_redact_fields ::
    "string \<times> string \<times> string \<times> profile option \<Rightarrow> string \<times> string \<times> string \<times> profile option" where
  "register_request_redact_fields = (\<lambda>(email, password, cap_token, prof). (email, [], [], prof))"

definition register_response_redact_fields :: "user_pb \<Rightarrow> user_pb" where
  "register_response_redact_fields x = x"

definition verify_email_request_redact_fields :: "string \<Rightarrow> string" where
  "verify_email_request_redact_fields token = []"

definition verify_email_response_redact_fields :: "unit \<Rightarrow> unit" where
  "verify_email_response_redact_fields x = x"

definition resend_request_redact_fields :: "string \<times> string \<Rightarrow> string \<times> string" where
  "resend_request_redact_fields = (\<lambda>(email, cap_token). (email, []))"

definition get_profile_request_redact_fields :: "unit \<Rightarrow> unit" where
  "get_profile_request_redact_fields x = x"

definition update_profile_request_redact_fields ::
    "profile option \<times> string list option \<Rightarrow> profile option \<times> string list option" where
  "update_profile_request_redact_fields x = x"

definition change_password_request_redact_fields :: "string \<times> string \<Rightarrow> string \<times> string" where
  "change_password_request_redact_fields = (\<lambda>(current_password, new_password). ([], []))"

definition request_reset_redact_fields :: "string \<times> string \<Rightarrow> string \<times> string" where
  "request_reset_redact_fields = (\<lambda>(email, cap_token). (email, []))"

definition confirm_reset_redact_fields :: "string \<times> string \<Rightarrow> string \<times> string" where
  "confirm_reset_redact_fields = (\<lambda>(token, new_password). ([], []))"

definition resend_response_redact_fields :: "unit \<Rightarrow> unit" where
  "resend_response_redact_fields x = x"

definition get_profile_response_redact_fields :: "user_pb \<Rightarrow> user_pb" where
  "get_profile_response_redact_fields x = x"

definition update_profile_response_redact_fields :: "user_pb \<Rightarrow> user_pb" where
  "update_profile_response_redact_fields x = x"

definition change_password_response_redact_fields :: "unit \<Rightarrow> unit" where
  "change_password_response_redact_fields x = x"

definition request_reset_response_redact_fields :: "unit \<Rightarrow> unit" where
  "request_reset_response_redact_fields x = x"

definition confirm_reset_response_redact_fields :: "unit \<Rightarrow> unit" where
  "confirm_reset_response_redact_fields x = x"

definition user_profile_redact_fields :: "profile \<Rightarrow> profile" where
  "user_profile_redact_fields x = x"

definition user_redact_fields :: "user_pb \<Rightarrow> user_pb" where
  "user_redact_fields x = x"

definition create_user_request_redact_fields ::
    "string \<times> user_pb option \<times> string \<Rightarrow> string \<times> user_pb option \<times> string" where
  "create_user_request_redact_fields = (\<lambda>(user_id, user, password). (user_id, user, []))"

definition get_user_request_redact_fields :: "string \<Rightarrow> string" where
  "get_user_request_redact_fields x = x"

definition list_users_request_redact_fields :: "list_input \<Rightarrow> list_input" where
  "list_users_request_redact_fields x = x"

definition list_users_response_redact_fields :: "user_pb list \<times> string \<Rightarrow> user_pb list \<times> string" where
  "list_users_response_redact_fields x = x"

definition update_user_request_redact_fields ::
    "user_pb option \<times> string list option \<Rightarrow> user_pb option \<times> string list option" where
  "update_user_request_redact_fields x = x"

definition disable_user_request_redact_fields :: "string \<times> string \<Rightarrow> string \<times> string" where
  "disable_user_request_redact_fields x = x"

definition enable_user_request_redact_fields :: "string \<times> string \<Rightarrow> string \<times> string" where
  "enable_user_request_redact_fields x = x"

definition disable_user_response_redact_fields :: "unit \<Rightarrow> unit" where
  "disable_user_response_redact_fields x = x"

definition enable_user_response_redact_fields :: "unit \<Rightarrow> unit" where
  "enable_user_response_redact_fields x = x"

definition cap_redact_fields :: "pb_cap \<Rightarrow> pb_cap" where
  "cap_redact_fields x = x\<lparr>pc_signing_secret := []\<rparr>"

section \<open>The request log\<close>

text \<open>The line for a request; \<open>render\<close> is the text of a message. \<open>LogoutRequest\<close> has no fields and no \<open>Redact\<close>.\<close>

fun request_line :: "(iam_rpc \<Rightarrow> string) \<Rightarrow> iam_rpc \<Rightarrow> string" where
  "request_line render (RpcLogin x) = redact (\<lambda>m. render (RpcLogin (Some m))) login_request_redact_fields x"
| "request_line render RpcLogout = render RpcLogout"
| "request_line render (RpcRegister x) = redact (\<lambda>m. render (RpcRegister (Some m))) register_request_redact_fields x"
| "request_line render (RpcVerifyEmail x) = redact (\<lambda>m. render (RpcVerifyEmail (Some m))) verify_email_request_redact_fields x"
| "request_line render (RpcResendVerificationEmail x) =
     redact (\<lambda>m. render (RpcResendVerificationEmail (Some m))) resend_request_redact_fields x"
| "request_line render (RpcRequestPasswordReset x) =
     redact (\<lambda>m. render (RpcRequestPasswordReset (Some m))) request_reset_redact_fields x"
| "request_line render (RpcConfirmPasswordReset x) =
     redact (\<lambda>m. render (RpcConfirmPasswordReset (Some m))) confirm_reset_redact_fields x"
| "request_line render RpcGetProfile = redact (\<lambda>_. render RpcGetProfile) get_profile_request_redact_fields (Some ())"
| "request_line render (RpcUpdateProfile x) =
     redact (\<lambda>m. render (RpcUpdateProfile (Some m))) update_profile_request_redact_fields x"
| "request_line render (RpcChangePassword x) =
     redact (\<lambda>m. render (RpcChangePassword (Some m))) change_password_request_redact_fields x"
| "request_line render (RpcCreateUser x) = redact (\<lambda>m. render (RpcCreateUser (Some m))) create_user_request_redact_fields x"
| "request_line render (RpcGetUser x) = redact (\<lambda>m. render (RpcGetUser m)) get_user_request_redact_fields (Some x)"
| "request_line render (RpcListUsers x) = redact (\<lambda>m. render (RpcListUsers (Some m))) list_users_request_redact_fields x"
| "request_line render (RpcUpdateUser x) = redact (\<lambda>m. render (RpcUpdateUser (Some m))) update_user_request_redact_fields x"
| "request_line render (RpcDisableUser x) = redact (\<lambda>m. render (RpcDisableUser (Some m))) disable_user_request_redact_fields x"
| "request_line render (RpcEnableUser x) = redact (\<lambda>m. render (RpcEnableUser (Some m))) enable_user_request_redact_fields x"

lemmas redact_defs = redact_def login_request_redact_fields_def register_request_redact_fields_def
  verify_email_request_redact_fields_def resend_request_redact_fields_def request_reset_redact_fields_def
  confirm_reset_redact_fields_def get_profile_request_redact_fields_def update_profile_request_redact_fields_def
  change_password_request_redact_fields_def create_user_request_redact_fields_def get_user_request_redact_fields_def
  list_users_request_redact_fields_def update_user_request_redact_fields_def disable_user_request_redact_fields_def
  enable_user_request_redact_fields_def

text \<open>
  What is secret in a request, as the specification has it: passwords, captcha tokens and the tokens that were mailed.
  \<open>with_secrets\<close> puts other values in the place of all of them, in order.
\<close>

fun secrets :: "iam_rpc \<Rightarrow> string list" where
  "secrets (RpcLogin (Some (_, password))) = [password]"
| "secrets (RpcRegister (Some (_, password, cap_token, _))) = [password, cap_token]"
| "secrets (RpcVerifyEmail (Some token)) = [token]"
| "secrets (RpcResendVerificationEmail (Some (_, cap_token))) = [cap_token]"
| "secrets (RpcRequestPasswordReset (Some (_, cap_token))) = [cap_token]"
| "secrets (RpcConfirmPasswordReset (Some (token, new_password))) = [token, new_password]"
| "secrets (RpcChangePassword (Some (current_password, new_password))) = [current_password, new_password]"
| "secrets (RpcCreateUser (Some (_, _, password))) = [password]"
| "secrets _ = []"

fun with_secrets :: "iam_rpc \<Rightarrow> string list \<Rightarrow> iam_rpc" where
  "with_secrets (RpcLogin (Some (email, _))) [password] = RpcLogin (Some (email, password))"
| "with_secrets (RpcRegister (Some (email, _, _, prof))) [password, cap_token] = RpcRegister (Some (email, password, cap_token, prof))"
| "with_secrets (RpcVerifyEmail (Some _)) [token] = RpcVerifyEmail (Some token)"
| "with_secrets (RpcResendVerificationEmail (Some (email, _))) [cap_token] = RpcResendVerificationEmail (Some (email, cap_token))"
| "with_secrets (RpcRequestPasswordReset (Some (email, _))) [cap_token] = RpcRequestPasswordReset (Some (email, cap_token))"
| "with_secrets (RpcConfirmPasswordReset (Some _)) [token, new_password] = RpcConfirmPasswordReset (Some (token, new_password))"
| "with_secrets (RpcChangePassword (Some _)) [current_password, new_password] = RpcChangePassword (Some (current_password, new_password))"
| "with_secrets (RpcCreateUser (Some (user_id, user, _))) [password] = RpcCreateUser (Some (user_id, user, password))"
| "with_secrets r _ = r"

fun nil_request :: "iam_rpc \<Rightarrow> bool" where
  "nil_request (RpcLogin None) = True"
| "nil_request (RpcRegister None) = True"
| "nil_request (RpcVerifyEmail None) = True"
| "nil_request (RpcResendVerificationEmail None) = True"
| "nil_request (RpcRequestPasswordReset None) = True"
| "nil_request (RpcConfirmPasswordReset None) = True"
| "nil_request (RpcUpdateProfile None) = True"
| "nil_request (RpcChangePassword None) = True"
| "nil_request (RpcCreateUser None) = True"
| "nil_request (RpcListUsers None) = True"
| "nil_request (RpcUpdateUser None) = True"
| "nil_request (RpcDisableUser None) = True"
| "nil_request (RpcEnableUser None) = True"
| "nil_request _ = False"

lemma log_cases:
  obtains email password where "r = RpcLogin (Some (email, password))"
  | email password cap_token prof where "r = RpcRegister (Some (email, password, cap_token, prof))"
  | token where "r = RpcVerifyEmail (Some token)"
  | email cap_token where "r = RpcResendVerificationEmail (Some (email, cap_token))"
  | email cap_token where "r = RpcRequestPasswordReset (Some (email, cap_token))"
  | token new_password where "r = RpcConfirmPasswordReset (Some (token, new_password))"
  | current_password new_password where "r = RpcChangePassword (Some (current_password, new_password))"
  | user_id user password where "r = RpcCreateUser (Some (user_id, user, password))"
  | "secrets r = []" "\<And>ss. with_secrets r ss = r"
    "\<And>render. request_line render r = (if nil_request r then [] else render r)"
  by (cases r rule: nil_request.cases) (auto simp: redact_defs)

lemma with_own_secrets: "with_secrets r (secrets r) = r"
  by (cases r rule: secrets.cases) simp_all

text \<open>
  C21. The request log of IAM keeps the secrets and nothing else to itself: the line of a request is the text of that
  request with its passwords, captcha tokens and mailed tokens empty and every other field as sent, so that it is the
  same whatever the secrets are; a nil request has an empty line.
\<close>

theorem request_log_hides_secrets:
  "request_line render r = (if nil_request r then [] else render (with_secrets r (map (\<lambda>_. []) (secrets r))))
   \<and> (\<forall>ss. length ss = length (secrets r) \<longrightarrow> request_line render (with_secrets r ss) = request_line render r)"
  by (rule log_cases [of r]) (auto simp: redact_defs length_Suc_conv)

theorem request_log_hides_secrets_witness:
  "request_line (\<lambda>q. concat (secrets q)) (RpcLogin (Some (''a@x'', ''secret''))) = []
   \<and> concat (secrets (RpcLogin (Some (''a@x'', ''secret'')))) = ''secret''"
  using request_log_hides_secrets [of "\<lambda>q. concat (secrets q)" "RpcLogin (Some (''a@x'', ''secret''))"]
  by simp

end
