(* ===== verification/EntTable.thy ===== *)
theory EntTable
  imports GoBase
begin

text \<open>
  The generated \<open>ent\<close> code of an entity: the mutation with its typed and its named methods, the defaults and checks of
  the builders, the columns that they assign, and the scanning of a row. The parts from which the generated functions
  are made come first; then the reference, which is computed from the fields of a schema alone; then what holds of every
  entity whose generated code is the reference. Hooks, predicates and the statements themselves are not part of it.
\<close>

section \<open>Values\<close>

datatype go_value = VString string | VTime time | VBool bool | VInt int | VStrings "string list"

datatype go_type = TString | TTime | TBool | TInt | TStrings

fun type_of :: "go_value \<Rightarrow> go_type" where
  "type_of (VString _) = TString"
| "type_of (VTime _) = TTime"
| "type_of (VBool _) = TBool"
| "type_of (VInt _) = TInt"
| "type_of (VStrings _) = TStrings"

text \<open>The fields of an entity struct by column; \<open>None\<close> is a nil pointer.\<close>

type_synonym entity = "string \<Rightarrow> go_value option"

section \<open>Mutations\<close>

datatype ent_op = OpCreate | OpUpdate | OpUpdateOne | OpDelete | OpDeleteOne

text \<open>
  \<open>oldValue\<close>: absent, the node that the builder was given, or the query of the node with an id, whose answer is kept
  (\<open>sync.Once\<close>).
\<close>

datatype old_value = NoOldValue | OldGiven entity | OldQuery go_value "(err + entity) option"

record mutation =
  mt_op :: ent_op
  mt_typ :: string
  mt_id :: "go_value option"
  mt_set :: "string \<Rightarrow> go_value option"
  mt_appended :: "string \<Rightarrow> string list"
  mt_cleared :: "string set"
  mt_done :: bool
  mt_old :: old_value

definition new_mutation :: "string \<Rightarrow> ent_op \<Rightarrow> mutation" where
  "new_mutation typ op = \<lparr>mt_op = op, mt_typ = typ, mt_id = None, mt_set = (\<lambda>_. None), mt_appended = (\<lambda>_. []),
     mt_cleared = {}, mt_done = False, mt_old = NoOldValue\<rparr>"

definition with_entity_id :: "go_value \<Rightarrow> mutation \<Rightarrow> mutation" where
  "with_entity_id i m = m\<lparr>mt_old := OldQuery i None, mt_id := Some i\<rparr>"

definition with_entity :: "entity \<Rightarrow> mutation \<Rightarrow> mutation" where
  "with_entity node m = m\<lparr>mt_old := OldGiven node, mt_id := node ''id''\<rparr>"

text \<open>The call of \<open>m.oldValue\<close>; \<open>fetch\<close> is \<open>Client().X.Get\<close>.\<close>

definition query_old :: "(go_value \<Rightarrow> err + entity) \<Rightarrow> mutation \<Rightarrow> (err + entity) \<times> mutation" where
  "query_old fetch m =
     (case mt_old m of
        NoOldValue \<Rightarrow> (Inl (errorf ''nil function''), m)
      | OldGiven node \<Rightarrow> (Inr node, m)
      | OldQuery i (Some answer) \<Rightarrow> (answer, m)
      | OldQuery i None \<Rightarrow>
          let answer = (if mt_done m then Inl (errorf ''querying old values post mutation is not allowed'') else fetch i)
          in (answer, m\<lparr>mt_old := OldQuery i (Some answer)\<rparr>))"

text \<open>\<open>OldX\<close>, where \<open>X\<close> is the Go name of the column.\<close>

definition old_method ::
    "string \<Rightarrow> string \<Rightarrow> (go_value \<Rightarrow> err + entity) \<Rightarrow> mutation \<Rightarrow> (err + go_value option) \<times> mutation" where
  "old_method column x fetch m =
     (if mt_op m \<noteq> OpUpdateOne then (Inl (errorf (''Old'' @ x @ '' is only allowed on UpdateOne operations'')), m)
      else if mt_id m = None \<or> mt_old m = NoOldValue
      then (Inl (errorf (''Old'' @ x @ '' requires an ID field in the mutation'')), m)
      else
        case query_old fetch m of
          (Inl e, m') \<Rightarrow> (Inl (wrap (''querying old value for Old'' @ x) e), m')
        | (Inr oldValue, m') \<Rightarrow> (Inr (oldValue column), m'))"

text \<open>
  The typed methods of a field: \<open>SetX\<close>, \<open>X\<close>, \<open>OldX\<close>, \<open>ResetX\<close>; \<open>ClearX\<close> and \<open>XCleared\<close> of an optional field;
  \<open>AppendX\<close> and \<open>AppendedX\<close> of a list. Setting a field does not undo \<open>ClearX\<close>.
\<close>

record field_methods =
  fm_set :: "go_value \<Rightarrow> mutation \<Rightarrow> mutation"
  fm_get :: "mutation \<Rightarrow> go_value option"
  fm_old :: "(go_value \<Rightarrow> err + entity) \<Rightarrow> mutation \<Rightarrow> (err + go_value option) \<times> mutation"
  fm_reset :: "mutation \<Rightarrow> mutation"
  fm_clear :: "mutation \<Rightarrow> mutation"
  fm_cleared :: "mutation \<Rightarrow> bool"
  fm_append :: "string list \<Rightarrow> mutation \<Rightarrow> mutation"
  fm_appended :: "mutation \<Rightarrow> string list option"

definition assign :: "string \<Rightarrow> go_value option \<Rightarrow> mutation \<Rightarrow> mutation" where
  "assign column v m = m\<lparr>mt_set := (mt_set m)(column := v)\<rparr>"

definition plain_field :: "string \<Rightarrow> string \<Rightarrow> field_methods" where
  "plain_field column x = \<lparr>
     fm_set = (\<lambda>v. assign column (Some v)),
     fm_get = (\<lambda>m. mt_set m column),
     fm_old = old_method column x,
     fm_reset = assign column None,
     fm_clear = (\<lambda>m. m), fm_cleared = (\<lambda>_. False), fm_append = (\<lambda>_ m. m), fm_appended = (\<lambda>_. None)\<rparr>"

definition nullable_field :: "string \<Rightarrow> string \<Rightarrow> field_methods" where
  "nullable_field column x = \<lparr>
     fm_set = (\<lambda>v. assign column (Some v)),
     fm_get = (\<lambda>m. mt_set m column),
     fm_old = old_method column x,
     fm_reset = (\<lambda>m. (assign column None m)\<lparr>mt_cleared := mt_cleared m - {column}\<rparr>),
     fm_clear = (\<lambda>m. (assign column None m)\<lparr>mt_cleared := insert column (mt_cleared m)\<rparr>),
     fm_cleared = (\<lambda>m. column \<in> mt_cleared m),
     fm_append = (\<lambda>_ m. m), fm_appended = (\<lambda>_. None)\<rparr>"

definition list_field :: "string \<Rightarrow> string \<Rightarrow> field_methods" where
  "list_field column x = \<lparr>
     fm_set = (\<lambda>v m. (assign column (Some v) m)\<lparr>mt_appended := (mt_appended m)(column := [])\<rparr>),
     fm_get = (\<lambda>m. mt_set m column),
     fm_old = old_method column x,
     fm_reset = (\<lambda>m. (assign column None m)\<lparr>mt_appended := (mt_appended m)(column := [])\<rparr>),
     fm_clear = (\<lambda>m. m), fm_cleared = (\<lambda>_. False),
     fm_append = (\<lambda>xs m. m\<lparr>mt_appended := (mt_appended m)(column := mt_appended m column @ xs)\<rparr>),
     fm_appended = (\<lambda>m. if mt_appended m column = [] then None else Some (mt_appended m column))\<rparr>"

text \<open>The methods by name, each a switch over the columns.\<close>

definition if_set :: "field_methods \<Rightarrow> string \<Rightarrow> mutation \<Rightarrow> string list" where
  "if_set f column m = (if fm_get f m \<noteq> None then [column] else [])"

definition field_cleared :: "string \<Rightarrow> mutation \<Rightarrow> bool" where
  "field_cleared column m \<longleftrightarrow> column \<in> mt_cleared m"

definition if_cleared :: "string \<Rightarrow> mutation \<Rightarrow> string list" where
  "if_cleared column m = (if field_cleared column m then [column] else [])"

definition listed :: "(mutation \<Rightarrow> string list) list \<Rightarrow> mutation \<Rightarrow> string list" where
  "listed steps m = concat (map (\<lambda>s. s m) steps)"

definition get_switch :: "(string \<times> field_methods) list \<Rightarrow> string \<Rightarrow> mutation \<Rightarrow> go_value option" where
  "get_switch cases column m = (case map_of cases column of Some f \<Rightarrow> fm_get f m | None \<Rightarrow> None)"

definition old_switch ::
    "string \<Rightarrow> (string \<times> field_methods) list \<Rightarrow> (go_value \<Rightarrow> err + entity) \<Rightarrow> string \<Rightarrow> mutation
     \<Rightarrow> (err + go_value option) \<times> mutation" where
  "old_switch typ cases fetch column m =
     (case map_of cases column of
        Some f \<Rightarrow> fm_old f fetch m
      | None \<Rightarrow> (Inl (errorf (''unknown '' @ typ @ '' field '' @ column)), m))"

definition set_switch ::
    "string \<Rightarrow> (string \<times> go_type \<times> field_methods) list \<Rightarrow> string \<Rightarrow> go_value \<Rightarrow> mutation \<Rightarrow> err + mutation" where
  "set_switch typ cases column v m =
     (case map_of cases column of
        Some (t, f) \<Rightarrow>
          if type_of v \<noteq> t then Inl (errorf (''unexpected type for field '' @ column)) else Inr (fm_set f v m)
      | None \<Rightarrow> Inl (errorf (''unknown '' @ typ @ '' field '' @ column)))"

definition clear_switch :: "string \<Rightarrow> (string \<times> field_methods) list \<Rightarrow> string \<Rightarrow> mutation \<Rightarrow> err + mutation" where
  "clear_switch typ cases column m =
     (case map_of cases column of
        Some f \<Rightarrow> Inr (fm_clear f m)
      | None \<Rightarrow> Inl (errorf (''unknown '' @ typ @ '' nullable field '' @ column)))"

definition reset_switch :: "string \<Rightarrow> (string \<times> field_methods) list \<Rightarrow> string \<Rightarrow> mutation \<Rightarrow> err + mutation" where
  "reset_switch typ cases column m =
     (case map_of cases column of
        Some f \<Rightarrow> Inr (fm_reset f m)
      | None \<Rightarrow> Inl (errorf (''unknown '' @ typ @ '' field '' @ column)))"

section \<open>Schemas\<close>

datatype default_value = DefaultNow | DefaultConst go_value

text \<open>
  A field of a schema; \<open>cl_go\<close> is the Go name that ent derives from the column, and an optional field is nillable
  when its struct field is a pointer.
\<close>

record column =
  cl_name :: string
  cl_go :: string
  cl_type :: go_type
  cl_optional :: bool
  cl_nillable :: bool
  cl_not_empty :: bool
  cl_default :: "default_value option"
  cl_update_now :: bool
  cl_immutable :: bool

definition field_of :: "go_type \<Rightarrow> string \<Rightarrow> string \<Rightarrow> column" where
  "field_of t column x = \<lparr>cl_name = column, cl_go = x, cl_type = t, cl_optional = False, cl_nillable = False,
     cl_not_empty = False, cl_default = None, cl_update_now = False, cl_immutable = False\<rparr>"

text \<open>
  The package variables that \<open>runtime.go\<close> fills: the descriptor behind a validator or a default, by the position of its
  field in the schema.
\<close>

definition descriptor :: "(string \<times> nat) list \<Rightarrow> column list \<Rightarrow> string \<Rightarrow> column" where
  "descriptor runtime schema x = schema ! (case map_of runtime x of Some i \<Rightarrow> i | None \<Rightarrow> 0)"

section \<open>Builders\<close>

datatype ent_error = MissingField string | InvalidField string | MissingID | InvalidColumn string

type_synonym default_step = "(nat \<Rightarrow> time) \<Rightarrow> nat \<times> mutation \<Rightarrow> nat \<times> mutation"

text \<open>\<open>clk k\<close> is the \<open>k\<close>th reading of the clock.\<close>

definition set_default :: "column \<Rightarrow> field_methods \<Rightarrow> default_step" where
  "set_default d f clk = (\<lambda>(k, m).
     if fm_get f m \<noteq> None then (k, m)
     else
       case cl_default d of
         Some DefaultNow \<Rightarrow> (Suc k, fm_set f (VTime (clk k)) m)
       | Some (DefaultConst v) \<Rightarrow> (k, fm_set f v m)
       | None \<Rightarrow> (k, m))"

definition update_to_now :: "field_methods \<Rightarrow> default_step" where
  "update_to_now f clk = (\<lambda>(k, m). if fm_get f m \<noteq> None then (k, m) else (Suc k, fm_set f (VTime (clk k)) m))"

definition defaulted :: "default_step list \<Rightarrow> (nat \<Rightarrow> time) \<Rightarrow> mutation \<Rightarrow> mutation" where
  "defaulted steps clk m = snd (fold (\<lambda>s. s clk) steps (0, m))"

definition required :: "field_methods \<Rightarrow> string \<Rightarrow> mutation \<Rightarrow> ent_error option" where
  "required f column m = (if fm_get f m = None then Some (MissingField column) else None)"

text \<open>The validator of a descriptor, of which only \<open>NotEmpty\<close> occurs.\<close>

definition valid :: "column \<Rightarrow> field_methods \<Rightarrow> string \<Rightarrow> mutation \<Rightarrow> ent_error option" where
  "valid d f column m =
     (case fm_get f m of
        Some v \<Rightarrow> if cl_not_empty d \<and> v = VString [] then Some (InvalidField column) else None
      | None \<Rightarrow> None)"

fun first_error :: "(mutation \<Rightarrow> ent_error option) list \<Rightarrow> mutation \<Rightarrow> ent_error option" where
  "first_error [] m = None"
| "first_error (s # ss) m = (case s m of Some e \<Rightarrow> Some e | None \<Rightarrow> first_error ss m)"

type_synonym create_spec = "entity \<times> (string \<times> go_value) list"

definition created :: "field_methods \<Rightarrow> string \<Rightarrow> mutation \<Rightarrow> create_spec \<Rightarrow> create_spec" where
  "created f column m = (\<lambda>(node, spec).
     case fm_get f m of Some v \<Rightarrow> (node(column \<mapsto> v), spec @ [(column, v)]) | None \<Rightarrow> (node, spec))"

definition created_id :: "mutation \<Rightarrow> create_spec \<Rightarrow> create_spec" where
  "created_id m = (\<lambda>(node, spec). case mt_id m of Some v \<Rightarrow> (node(''id'' \<mapsto> v), spec @ [(''id'', v)]) | None \<Rightarrow> (node, spec))"

definition create_steps ::
    "entity \<Rightarrow> (mutation \<Rightarrow> create_spec \<Rightarrow> create_spec) list \<Rightarrow> mutation \<Rightarrow> create_spec" where
  "create_steps zero steps m = fold (\<lambda>s. s m) steps (zero, [])"

datatype assignment = Assign string go_value | AssignNull string | AppendTo string "string list"

definition assign_set :: "field_methods \<Rightarrow> string \<Rightarrow> mutation \<Rightarrow> assignment list" where
  "assign_set f column m = (case fm_get f m of Some v \<Rightarrow> [Assign column v] | None \<Rightarrow> [])"

definition assign_append :: "field_methods \<Rightarrow> string \<Rightarrow> mutation \<Rightarrow> assignment list" where
  "assign_append f column m = (case fm_appended f m of Some xs \<Rightarrow> [AppendTo column xs] | None \<Rightarrow> [])"

definition assign_clear :: "field_methods \<Rightarrow> string \<Rightarrow> mutation \<Rightarrow> assignment list" where
  "assign_clear f column m = (if fm_cleared f m then [AssignNull column] else [])"

definition update_steps ::
    "(mutation \<Rightarrow> ent_error option) list \<Rightarrow> (mutation \<Rightarrow> assignment list) list \<Rightarrow> mutation \<Rightarrow> ent_error + assignment list" where
  "update_steps checks steps m =
     (case first_error checks m of Some e \<Rightarrow> Inl e | None \<Rightarrow> Inr (concat (map (\<lambda>s. s m) steps)))"

text \<open>\<open>UpdateOne\<close> also needs the id, and may select the columns that it returns (all when none is selected).\<close>

definition selected_columns :: "string list \<Rightarrow> string list \<Rightarrow> ent_error + string list" where
  "selected_columns columns selected =
     (if selected = [] then Inr columns
      else
        case filter (\<lambda>c. c \<notin> set columns) selected of
          c # _ \<Rightarrow> Inl (InvalidColumn c)
        | [] \<Rightarrow> Inr (''id'' # filter (\<lambda>c. c \<noteq> ''id'') selected))"

definition update_one_steps ::
    "string list \<Rightarrow> (mutation \<Rightarrow> ent_error option) list \<Rightarrow> (mutation \<Rightarrow> assignment list) list \<Rightarrow> string list \<Rightarrow> mutation
     \<Rightarrow> ent_error + go_value \<times> string list \<times> assignment list" where
  "update_one_steps columns checks steps selected m =
     (case first_error checks m of
        Some e \<Rightarrow> Inl e
      | None \<Rightarrow>
          (case mt_id m of
             None \<Rightarrow> Inl MissingID
           | Some i \<Rightarrow>
               (case selected_columns columns selected of
                  Inl e \<Rightarrow> Inl e
                | Inr cs \<Rightarrow> Inr (i, cs, concat (map (\<lambda>s. s m) steps)))))"

section \<open>Rows\<close>

datatype scan_type = NullString | NullTime | NullBool | NullInt64 | RawBytes | UnknownType

text \<open>What a column holds after the scan; \<open>None\<close> is SQL NULL.\<close>

datatype sql_cell =
    CellString "string option" | CellTime "time option" | CellBool "bool option" | CellInt "int option"
  | CellBytes string | CellAny

definition scan_cases :: "(string list \<times> scan_type) list \<Rightarrow> (string \<times> scan_type) list" where
  "scan_cases groups = concat (map (\<lambda>(columns, t). map (\<lambda>c. (c, t)) columns) groups)"

definition scan_switch :: "(string list \<times> scan_type) list \<Rightarrow> string \<Rightarrow> scan_type" where
  "scan_switch groups column = (case map_of (scan_cases groups) column of Some t \<Rightarrow> t | None \<Rightarrow> UnknownType)"

type_synonym assign_step = "(string \<Rightarrow> err + string list) \<Rightarrow> sql_cell \<Rightarrow> entity \<Rightarrow> err + entity"

definition take_value :: "string \<Rightarrow> ('a \<Rightarrow> go_value) \<Rightarrow> 'a option \<Rightarrow> entity \<Rightarrow> err + entity" where
  "take_value column value x e = Inr (case x of Some v \<Rightarrow> e(column \<mapsto> value v) | None \<Rightarrow> e)"

definition unexpected :: "string \<Rightarrow> err + entity" where
  "unexpected column = Inl (errorf (''unexpected type for field '' @ column))"

fun take_cell :: "go_type \<Rightarrow> string \<Rightarrow> assign_step" where
  "take_cell TString column dec (CellString x) e = take_value column VString x e"
| "take_cell TTime column dec (CellTime x) e = take_value column VTime x e"
| "take_cell TBool column dec (CellBool x) e = take_value column VBool x e"
| "take_cell TInt column dec (CellInt x) e = Inr (e(column \<mapsto> VInt (case x of Some i \<Rightarrow> i | None \<Rightarrow> 0)))"
| "take_cell TStrings column dec (CellBytes b) e =
     (if b = [] then Inr e
      else
        case dec b of
          Inl err \<Rightarrow> Inl (wrap (''unmarshal field '' @ column) err)
        | Inr xs \<Rightarrow> Inr (e(column \<mapsto> VStrings xs)))"
| "take_cell _ column dec _ e = unexpected column"

definition assign_switch :: "(string \<times> assign_step) list \<Rightarrow> (string \<Rightarrow> err + string list) \<Rightarrow> string \<times> sql_cell \<Rightarrow> entity \<Rightarrow> err + entity" where
  "assign_switch cases dec = (\<lambda>(column, cell) e. case map_of cases column of Some s \<Rightarrow> s dec cell e | None \<Rightarrow> Inr e)"

definition assign_row ::
    "(string \<times> assign_step) list \<Rightarrow> (string \<Rightarrow> err + string list) \<Rightarrow> string list \<Rightarrow> sql_cell list \<Rightarrow> entity \<Rightarrow> err + entity" where
  "assign_row cases dec columns cells e =
     (if length cells < length columns then Inl (errorf ''mismatch number of scan values'')
      else fold_err (assign_switch cases dec) (zip columns cells) e)"

section \<open>The generated code of an entity\<close>

record entity_code =
  ey_columns :: "string list"
  ey_zero :: entity
  ey_new :: "ent_op \<Rightarrow> mutation"
  ey_fields :: "mutation \<Rightarrow> string list"
  ey_field :: "string \<Rightarrow> mutation \<Rightarrow> go_value option"
  ey_old_field :: "(go_value \<Rightarrow> err + entity) \<Rightarrow> string \<Rightarrow> mutation \<Rightarrow> (err + go_value option) \<times> mutation"
  ey_set_field :: "string \<Rightarrow> go_value \<Rightarrow> mutation \<Rightarrow> err + mutation"
  ey_cleared_fields :: "mutation \<Rightarrow> string list"
  ey_clear_field :: "string \<Rightarrow> mutation \<Rightarrow> err + mutation"
  ey_reset_field :: "string \<Rightarrow> mutation \<Rightarrow> err + mutation"
  ey_defaults :: "(nat \<Rightarrow> time) \<Rightarrow> mutation \<Rightarrow> mutation"
  ey_check :: "mutation \<Rightarrow> ent_error option"
  ey_create_spec :: "mutation \<Rightarrow> create_spec"
  ey_update_defaults :: "(nat \<Rightarrow> time) \<Rightarrow> mutation \<Rightarrow> mutation"
  ey_update :: "mutation \<Rightarrow> ent_error + assignment list"
  ey_update_one :: "string list \<Rightarrow> mutation \<Rightarrow> ent_error + go_value \<times> string list \<times> assignment list"
  ey_scan :: "string \<Rightarrow> scan_type"
  ey_assign :: "(string \<Rightarrow> err + string list) \<Rightarrow> string list \<Rightarrow> sql_cell list \<Rightarrow> entity \<Rightarrow> err + entity"

section \<open>The reference\<close>

definition methods_of :: "column \<Rightarrow> field_methods" where
  "methods_of c =
     (if cl_type c = TStrings then list_field (cl_name c) (cl_go c)
      else if cl_optional c then nullable_field (cl_name c) (cl_go c)
      else plain_field (cl_name c) (cl_go c))"

definition zero_of :: "go_type \<Rightarrow> go_value" where
  "zero_of t = (case t of TString \<Rightarrow> VString [] | TTime \<Rightarrow> VTime 0 | TBool \<Rightarrow> VBool False | TInt \<Rightarrow> VInt 0
     | TStrings \<Rightarrow> VStrings [])"

definition scan_of :: "go_type \<Rightarrow> scan_type" where
  "scan_of t = (case t of TString \<Rightarrow> NullString | TTime \<Rightarrow> NullTime | TBool \<Rightarrow> NullBool | TInt \<Rightarrow> NullInt64
     | TStrings \<Rightarrow> RawBytes)"

definition check_steps :: "column \<Rightarrow> (mutation \<Rightarrow> ent_error option) list" where
  "check_steps c = (if cl_optional c then [] else [required (methods_of c) (cl_name c)])
     @ (if cl_not_empty c then [valid c (methods_of c) (cl_name c)] else [])"

definition update_checks :: "column list \<Rightarrow> (mutation \<Rightarrow> ent_error option) list" where
  "update_checks cs = map (\<lambda>c. valid c (methods_of c) (cl_name c)) (filter (\<lambda>c. cl_not_empty c \<and> \<not> cl_immutable c) cs)"

text \<open>An immutable optional column is never set by an update, but the mutation can still clear it.\<close>

definition column_steps :: "column \<Rightarrow> (mutation \<Rightarrow> assignment list) list" where
  "column_steps c = (if cl_immutable c then [] else [assign_set (methods_of c) (cl_name c)])
     @ (if cl_type c = TStrings \<and> \<not> cl_immutable c then [assign_append (methods_of c) (cl_name c)] else [])
     @ (if cl_optional c then [assign_clear (methods_of c) (cl_name c)] else [])"

definition assign_steps :: "column list \<Rightarrow> (mutation \<Rightarrow> assignment list) list" where
  "assign_steps cs = concat (map column_steps cs)"

definition named :: "column list \<Rightarrow> (string \<times> field_methods) list" where
  "named cs = map (\<lambda>c. (cl_name c, methods_of c)) cs"

text \<open>
  What ent makes of the columns \<open>cs\<close>, with an identifier of type \<open>i\<close>; \<open>own\<close> says that the schema declares the
  identifier, which is then set by the caller instead of the database.
\<close>

definition reference :: "string \<Rightarrow> go_type \<Rightarrow> bool \<Rightarrow> column list \<Rightarrow> entity_code" where
  "reference typ i own cs = \<lparr>
     ey_columns = ''id'' # map cl_name cs,
     ey_zero = map_of ((''id'', zero_of i) # map (\<lambda>c. (cl_name c, zero_of (cl_type c))) (filter (\<lambda>c. \<not> cl_nillable c) cs)),
     ey_new = new_mutation typ,
     ey_fields = listed (map (\<lambda>c. if_set (methods_of c) (cl_name c)) cs),
     ey_field = get_switch (named cs),
     ey_old_field = old_switch typ (named cs),
     ey_set_field = set_switch typ (map (\<lambda>c. (cl_name c, cl_type c, methods_of c)) cs),
     ey_cleared_fields = listed (map (\<lambda>c. if_cleared (cl_name c)) (filter cl_optional cs)),
     ey_clear_field = clear_switch typ (named (filter cl_optional cs)),
     ey_reset_field = reset_switch typ (named cs),
     ey_defaults = defaulted (map (\<lambda>c. set_default c (methods_of c)) (filter (\<lambda>c. cl_default c \<noteq> None) cs)),
     ey_check = first_error (concat (map check_steps cs)),
     ey_create_spec = create_steps
       (map_of ((''id'', zero_of i) # map (\<lambda>c. (cl_name c, zero_of (cl_type c))) (filter (\<lambda>c. \<not> cl_nillable c) cs)))
       ((if own then [created_id] else []) @ map (\<lambda>c. created (methods_of c) (cl_name c)) cs),
     ey_update_defaults = defaulted (map (\<lambda>c. update_to_now (methods_of c)) (filter cl_update_now cs)),
     ey_update = update_steps (update_checks cs) (assign_steps cs),
     ey_update_one = update_one_steps (''id'' # map cl_name cs) (update_checks cs) (assign_steps cs),
     ey_scan = scan_switch (([''id''], scan_of i) # map (\<lambda>c. ([cl_name c], scan_of (cl_type c))) cs),
     ey_assign = assign_row ((''id'', take_cell i ''id'') # map (\<lambda>c. (cl_name c, take_cell (cl_type c) (cl_name c))) cs)\<rparr>"


lemma scan_referenceI:
  assumes "distinct (map fst (scan_cases g))"
    and "distinct (map fst (scan_cases (([''id''], scan_of i) # map (\<lambda>c. ([cl_name c], scan_of (cl_type c))) cs)))"
    and "set (scan_cases g) = set (scan_cases (([''id''], scan_of i) # map (\<lambda>c. ([cl_name c], scan_of (cl_type c))) cs))"
  shows "scan_switch g = ey_scan (reference typ i own cs)"
proof -
  have "map_of (scan_cases g)
      = map_of (scan_cases (([''id''], scan_of i) # map (\<lambda>c. ([cl_name c], scan_of (cl_type c))) cs))"
    using map_of_inject_set assms by blast
  then show ?thesis by (simp add: reference_def scan_switch_def fun_eq_iff)
qed

lemmas reference_simps = reference_def methods_of_def zero_of_def check_steps_def update_checks_def column_steps_def
  assign_steps_def named_def field_of_def descriptor_def

end
