(* ===== verification/EntLaws.thy ===== *)
theory EntLaws
  imports EntTable
begin

text \<open>
  What holds of every entity whose generated code is the reference: each named method changes the field that it names
  and no other, and the entity that a create returns is the one that a later query reads.
\<close>

section \<open>Well-formed columns\<close>

definition well_formed :: "column list \<Rightarrow> bool" where
  "well_formed cs \<longleftrightarrow> distinct (''id'' # map cl_name cs)
     \<and> list_all (\<lambda>c. cl_type c \<noteq> TInt \<and> (cl_type c = TStrings \<longrightarrow> \<not> cl_optional c) \<and> (cl_nillable c \<longrightarrow> cl_optional c)) cs"

lemma well_formedD:
  assumes "well_formed cs"
  shows "distinct (map cl_name cs)" "''id'' \<notin> cl_name ` set cs"
    and "c \<in> set cs \<Longrightarrow> cl_type c \<noteq> TInt" "c \<in> set cs \<Longrightarrow> cl_type c = TStrings \<Longrightarrow> \<not> cl_optional c"
  using assms by (auto simp: well_formed_def list_all_iff)

lemma map_of_columns:
  assumes "well_formed cs" "c \<in> set cs"
  shows "map_of (map (\<lambda>c. (cl_name c, g c)) cs) (cl_name c) = Some (g c)"
  using assms well_formedD(1) [of cs] by (intro map_of_is_SomeI) (auto simp: comp_def)

lemma map_of_columns_None:
  "map_of (map (\<lambda>c. (cl_name c, g c)) cs) column = None \<longleftrightarrow> column \<notin> cl_name ` set cs"
  by (auto simp: map_of_eq_None_iff image_image)

section \<open>The methods by name\<close>

lemma methods_simps [simp]:
  "fm_get (methods_of c) m = mt_set m (cl_name c)"
  "mt_set (fm_set (methods_of c) v m) = (mt_set m)(cl_name c \<mapsto> v)"
  "mt_cleared (fm_set (methods_of c) v m) = mt_cleared m"
  "mt_set (fm_reset (methods_of c) m) = (mt_set m)(cl_name c := None)"
  by (auto simp: methods_of_def plain_field_def nullable_field_def list_field_def assign_def)

lemma reset_cleared:
  "\<not> cl_optional c \<or> cl_type c = TStrings \<Longrightarrow> mt_cleared (fm_reset (methods_of c) m) = mt_cleared m"
  "cl_optional c \<Longrightarrow> cl_type c \<noteq> TStrings
     \<Longrightarrow> mt_cleared (fm_reset (methods_of c) m) = mt_cleared m - {cl_name c}"
  by (auto simp: methods_of_def plain_field_def nullable_field_def list_field_def assign_def)

lemma clear_optional:
  assumes "cl_optional c" "cl_type c \<noteq> TStrings"
  shows "mt_set (fm_clear (methods_of c) m) = (mt_set m)(cl_name c := None)"
    and "mt_cleared (fm_clear (methods_of c) m) = insert (cl_name c) (mt_cleared m)"
  using assms by (auto simp: methods_of_def nullable_field_def assign_def)

lemma reference_field:
  assumes "well_formed cs"
  shows "ey_field (reference typ i own cs) column m = (if column \<in> cl_name ` set cs then mt_set m column else None)"
  using assms map_of_columns [OF assms, of _ methods_of] map_of_columns_None [of methods_of cs column]
  by (auto simp: reference_def get_switch_def named_def split: option.splits)

lemma reference_fields:
  "set (ey_fields (reference typ i own cs) m) = {column \<in> cl_name ` set cs. mt_set m column \<noteq> None}"
  by (auto simp: reference_def listed_def if_set_def)

lemma reference_cleared:
  "ey_cleared_fields (reference typ i own cs) m = filter (\<lambda>c. c \<in> mt_cleared m) (map cl_name (filter cl_optional cs))"
  by (simp add: reference_def listed_def, induction cs) (auto simp: if_cleared_def field_cleared_def)

lemma reference_set_field:
  assumes "ey_set_field (reference typ i own cs) column v m = Inr m'"
  obtains c where "c \<in> set cs" "cl_name c = column" "type_of v = cl_type c" "m' = fm_set (methods_of c) v m"
  using assms by (auto simp: reference_def set_switch_def dest!: map_of_SomeD split: option.splits if_splits)

lemma reference_clear_field:
  assumes "ey_clear_field (reference typ i own cs) column m = Inr m'"
  obtains c where "c \<in> set cs" "cl_name c = column" "cl_optional c" "m' = fm_clear (methods_of c) m"
  using assms by (auto simp: reference_def clear_switch_def named_def dest!: map_of_SomeD split: option.splits)

lemma reference_reset_field:
  assumes "ey_reset_field (reference typ i own cs) column m = Inr m'"
  obtains c where "c \<in> set cs" "cl_name c = column" "m' = fm_reset (methods_of c) m"
  using assms by (auto simp: reference_def reset_switch_def named_def dest!: map_of_SomeD split: option.splits)

text \<open>The laws of the interface: what each method by name does to the fields and the cleared fields.\<close>

definition one_field_laws :: "entity_code \<Rightarrow> bool" where
  "one_field_laws K \<longleftrightarrow> (\<forall>column m m'.
     (\<forall>v. ey_set_field K column v m = Inr m' \<longrightarrow>
        ey_field K column m' = Some v \<and> (\<forall>c. c \<noteq> column \<longrightarrow> ey_field K c m' = ey_field K c m)
        \<and> ey_cleared_fields K m' = ey_cleared_fields K m)
   \<and> (ey_clear_field K column m = Inr m' \<longrightarrow>
        ey_field K column m' = None \<and> (\<forall>c. c \<noteq> column \<longrightarrow> ey_field K c m' = ey_field K c m)
        \<and> set (ey_cleared_fields K m') = insert column (set (ey_cleared_fields K m)))
   \<and> (ey_reset_field K column m = Inr m' \<longrightarrow>
        ey_field K column m' = None \<and> (\<forall>c. c \<noteq> column \<longrightarrow> ey_field K c m' = ey_field K c m)
        \<and> set (ey_cleared_fields K m') = set (ey_cleared_fields K m) - {column})
   \<and> set (ey_fields K m) = {c. ey_field K c m \<noteq> None})"

lemma reference_laws:
  assumes "well_formed cs"
  shows "one_field_laws (reference typ i own cs)"
  unfolding one_field_laws_def
proof (intro allI conjI impI, goal_cases)
  case (1 column m m' v)
  then show ?case by (auto elim!: reference_set_field simp: reference_field [OF assms])
next
  case (2 column m m' v c)
  then show ?case by (auto elim!: reference_set_field simp: reference_field [OF assms])
next
  case (3 column m m' v)
  then show ?case by (auto elim!: reference_set_field simp: reference_cleared)
next
  case (4 column m m')
  obtain k where k: "k \<in> set cs" "cl_name k = column" "cl_optional k" "m' = fm_clear (methods_of k) m"
    by (rule reference_clear_field [OF 4(1)])
  moreover have "cl_type k \<noteq> TStrings" using k well_formedD(4) [OF assms, of k] by blast
  ultimately show ?case using clear_optional [of k m] by (auto simp: reference_field [OF assms])
next
  case (5 column m m' c)
  obtain k where k: "k \<in> set cs" "cl_name k = column" "cl_optional k" "m' = fm_clear (methods_of k) m"
    by (rule reference_clear_field [OF 5(1)])
  moreover have "cl_type k \<noteq> TStrings" using k well_formedD(4) [OF assms, of k] by blast
  ultimately show ?case using 5 clear_optional [of k m] by (auto simp: reference_field [OF assms])
next
  case (6 column m m')
  obtain k where k: "k \<in> set cs" "cl_name k = column" "cl_optional k" "m' = fm_clear (methods_of k) m"
    by (rule reference_clear_field [OF 6(1)])
  moreover have "cl_type k \<noteq> TStrings" using k well_formedD(4) [OF assms, of k] by blast
  ultimately show ?case using clear_optional [of k m] by (auto simp: reference_cleared)
next
  case (7 column m m')
  then show ?case by (auto elim!: reference_reset_field simp: reference_field [OF assms])
next
  case (8 column m m' c)
  then show ?case by (auto elim!: reference_reset_field simp: reference_field [OF assms])
next
  case (9 column m m')
  obtain k where k: "k \<in> set cs" "cl_name k = column" "m' = fm_reset (methods_of k) m"
    by (rule reference_reset_field [OF 9(1)])
  show ?case
  proof (cases "cl_optional k")
    case True
    then have "mt_cleared m' = mt_cleared m - {column}"
      using reset_cleared(2) [of k m] k well_formedD(4) [OF assms, of k] by blast
    then show ?thesis by (auto simp: reference_cleared)
  next
    case False
    then have "mt_cleared m' = mt_cleared m" using reset_cleared(1) [of k m] k by simp
    moreover have "column \<notin> cl_name ` {c \<in> set cs. cl_optional c}"
      using False k well_formedD(1) [OF assms] by (auto simp: distinct_map dest: inj_onD)
    ultimately show ?thesis by (auto simp: reference_cleared)
  qed
next
  case (10 column m m')
  then show ?case by (auto simp: reference_fields reference_field [OF assms])
qed

section \<open>Creating and reading\<close>

lemma created_fold:
  assumes "distinct (map cl_name cs)"
  shows "fold (\<lambda>s. s m) (map (\<lambda>c. created (methods_of c) (cl_name c)) cs) (node, spec)
    = (\<lambda>c. if c \<in> cl_name ` set cs then (case mt_set m c of Some v \<Rightarrow> Some v | None \<Rightarrow> node c) else node c,
       spec @ concat (map (\<lambda>c. case mt_set m (cl_name c) of Some v \<Rightarrow> [(cl_name c, v)] | None \<Rightarrow> []) cs))"
  using assms
proof (induction cs arbitrary: node spec)
  case (Cons x xs)
  have "cl_name y \<noteq> cl_name x" if "y \<in> set xs" for y using Cons.prems that by (auto dest: image_eqI [OF sym])
  with Cons show ?case by (cases "mt_set m (cl_name x)") (auto simp: created_def fun_eq_iff split: option.splits)
qed simp

lemma spec_of_columns:
  "distinct (map cl_name cs) \<Longrightarrow> c \<in> set cs
     \<Longrightarrow> map_of (concat (map (\<lambda>c. case mt_set m (cl_name c) of Some v \<Rightarrow> [(cl_name c, v)] | None \<Rightarrow> []) cs)) (cl_name c)
         = mt_set m (cl_name c)"
proof (induction cs)
  case (Cons x xs)
  have "map_of (concat (map (\<lambda>c. case mt_set m (cl_name c) of Some v \<Rightarrow> [(cl_name c, v)] | None \<Rightarrow> []) xs)) (cl_name x) = None"
    using Cons.prems(1) by (auto simp: map_of_eq_None_iff split: option.splits)
  with Cons show ?case by (cases "c = x") (auto split: option.splits)
qed simp

text \<open>
  The row of a created entity, as the driver scans it: \<open>keep\<close> is what a column keeps of a value, such as the precision
  of a time, and \<open>enc\<close> encodes a list as JSON; a column that was not assigned is NULL.
\<close>

definition cell_of :: "(string list \<Rightarrow> string) \<Rightarrow> scan_type \<Rightarrow> go_value option \<Rightarrow> sql_cell" where
  "cell_of enc t v =
     (case t of
        NullString \<Rightarrow> CellString (case v of Some (VString s) \<Rightarrow> Some s | _ \<Rightarrow> None)
      | NullTime \<Rightarrow> CellTime (case v of Some (VTime s) \<Rightarrow> Some s | _ \<Rightarrow> None)
      | NullBool \<Rightarrow> CellBool (case v of Some (VBool s) \<Rightarrow> Some s | _ \<Rightarrow> None)
      | NullInt64 \<Rightarrow> CellInt (case v of Some (VInt s) \<Rightarrow> Some s | _ \<Rightarrow> None)
      | RawBytes \<Rightarrow> CellBytes (case v of Some (VStrings xs) \<Rightarrow> enc xs | _ \<Rightarrow> [])
      | UnknownType \<Rightarrow> CellAny)"

definition stored_row ::
    "entity_code \<Rightarrow> (go_value \<Rightarrow> go_value) \<Rightarrow> (string list \<Rightarrow> string) \<Rightarrow> (string \<times> go_value) list \<Rightarrow> sql_cell list" where
  "stored_row K keep enc spec = map (\<lambda>c. cell_of enc (ey_scan K c) (map_option keep (map_of spec c))) (ey_columns K)"

definition typed :: "entity_code \<Rightarrow> mutation \<Rightarrow> bool" where
  "typed K m \<longleftrightarrow> (\<forall>c v. ey_field K c m = Some v \<longrightarrow> scan_of (type_of v) = ey_scan K c)"

lemma scan_of_inj: "scan_of t = scan_of u \<Longrightarrow> t = u"
  by (cases t; cases u) (auto simp: scan_of_def)

lemma take_stored:
  assumes "\<And>x. v = Some x \<Longrightarrow> type_of x = t" "t \<noteq> TInt" "\<And>xs. dec (enc xs) = Inr xs \<and> enc xs \<noteq> []"
  shows "take_cell t column dec (cell_of enc (scan_of t) v) e = Inr (case v of Some x \<Rightarrow> e(column \<mapsto> x) | None \<Rightarrow> e)"
proof (cases v)
  case None
  with assms(2) show ?thesis by (cases t) (auto simp: cell_of_def scan_of_def take_value_def)
next
  case (Some x)
  with assms show ?thesis by (cases x) (auto simp: cell_of_def scan_of_def take_value_def)
qed

lemma take_id: "\<exists>e'. take_cell t ''id'' dec (cell_of enc (scan_of t) v) e = Inr e' \<and> (\<forall>c. c \<noteq> ''id'' \<longrightarrow> e' c = e c)"
  if "\<And>xs. dec (enc xs) = Inr xs \<and> enc xs \<noteq> []"
  using that by (cases t; auto simp: cell_of_def scan_of_def take_value_def split: option.splits go_value.splits)

lemma reference_scan:
  assumes "well_formed cs"
  shows "c \<in> set cs \<Longrightarrow> ey_scan (reference typ i own cs) (cl_name c) = scan_of (cl_type c)"
    and "ey_scan (reference typ i own cs) ''id'' = scan_of i"
proof -
  have cases: "scan_cases (([''id''], scan_of i) # map (\<lambda>c. ([cl_name c], scan_of (cl_type c))) cs)
      = (''id'', scan_of i) # map (\<lambda>c. (cl_name c, scan_of (cl_type c))) cs"
    by (simp add: scan_cases_def comp_def)
  show "ey_scan (reference typ i own cs) ''id'' = scan_of i" by (simp add: reference_def scan_switch_def cases)
  show "ey_scan (reference typ i own cs) (cl_name c) = scan_of (cl_type c)" if "c \<in> set cs"
    using map_of_columns [OF assms that, of "\<lambda>c. scan_of (cl_type c)"] well_formedD(2) [OF assms] that
    by (auto simp: reference_def scan_switch_def cases dest: image_eqI [OF sym])
qed

text \<open>Reading the columns of a row one by one.\<close>

lemma assign_columns:
  assumes "distinct (map cl_name cs)" "\<And>xs. dec (enc xs) = Inr xs \<and> enc xs \<noteq> []"
    and "\<And>c. c \<in> set cs \<Longrightarrow> cl_type c \<noteq> TInt \<and> (\<forall>x. val (cl_name c) = Some x \<longrightarrow> type_of x = cl_type c)"
    and "\<And>c. c \<in> set cs \<Longrightarrow> map_of cases (cl_name c) = Some (take_cell (cl_type c) (cl_name c))"
  shows "fold_err (assign_switch cases dec) (map (\<lambda>c. (cl_name c, cell_of enc (scan_of (cl_type c)) (val (cl_name c)))) cs) e
    = Inr (\<lambda>c. if c \<in> cl_name ` set cs then (case val c of Some x \<Rightarrow> Some x | None \<Rightarrow> e c) else e c)"
  using assms
proof (induction cs arbitrary: e)
  case (Cons x xs)
  have step: "assign_switch cases dec (cl_name x, cell_of enc (scan_of (cl_type x)) (val (cl_name x))) e
      = Inr (case val (cl_name x) of Some y \<Rightarrow> e(cl_name x \<mapsto> y) | None \<Rightarrow> e)"
    using take_stored [where dec = dec and enc = enc] Cons.prems by (simp add: assign_switch_def)
  show ?case
    using Cons.prems Cons.IH step by (auto simp: fun_eq_iff split: option.splits)
qed simp

lemma reference_create:
  assumes "well_formed cs" "ey_create_spec (reference typ i own cs) m = (node, spec)" "c \<in> set cs"
  shows "map_of spec (cl_name c) = mt_set m (cl_name c)"
    and "node (cl_name c) = (case mt_set m (cl_name c) of Some v \<Rightarrow> Some v | None \<Rightarrow> ey_zero (reference typ i own cs) (cl_name c))"
proof -
  let ?spec = "concat (map (\<lambda>c. case mt_set m (cl_name c) of Some v \<Rightarrow> [(cl_name c, v)] | None \<Rightarrow> []) cs)"
  let ?zero = "ey_zero (reference typ i own cs)"
  have id: "cl_name c \<noteq> ''id''" using well_formedD(2) [OF assms(1)] assms(3) by (auto dest: image_eqI [OF sym])
  note distinct = well_formedD(1) [OF assms(1)]
  have "(node, spec) = fold (\<lambda>s. s m) (map (\<lambda>c. created (methods_of c) (cl_name c)) cs)
      (if own then created_id m (?zero, []) else (?zero, []))"
    using assms(2) by (cases own) (simp_all add: reference_def create_steps_def)
  moreover obtain z pre where start: "(if own then created_id m (?zero, []) else (?zero, [])) = (z, pre)" by fastforce
  moreover have z: "set (map fst pre) \<subseteq> {''id''}" "z (cl_name c) = ?zero (cl_name c)"
    using start id by (auto simp: created_id_def split: if_splits option.splits)
  ultimately have spec: "spec = pre @ ?spec"
    and node: "node = (\<lambda>c. if c \<in> cl_name ` set cs then (case mt_set m c of Some v \<Rightarrow> Some v | None \<Rightarrow> z c) else z c)"
    by (simp_all add: created_fold [OF distinct])
  have "map_of pre (cl_name c) = None" using z(1) id by (auto simp: map_of_eq_None_iff)
  then have "map_of spec (cl_name c) = map_of ?spec (cl_name c)"
    by (simp add: spec map_add_def split: option.splits)
  then show "map_of spec (cl_name c) = mt_set m (cl_name c)" by (simp add: spec_of_columns [OF distinct assms(3)])
  show "node (cl_name c) = (case mt_set m (cl_name c) of Some v \<Rightarrow> Some v | None \<Rightarrow> ?zero (cl_name c))"
    using assms(3) z(2) by (simp add: node split: option.split)
qed

lemma reference_reads_back:
  defines "K typ i own cs \<equiv> reference typ i own cs"
  assumes wf: "well_formed cs" and "typed (K typ i own cs) m" and create: "ey_create_spec (K typ i own cs) m = (node, spec)"
    and enc: "\<And>xs. dec (enc xs) = Inr xs \<and> enc xs \<noteq> []" and keep: "\<And>v. type_of (keep v) = type_of v"
  shows "\<exists>e. ey_assign (K typ i own cs) dec (ey_columns (K typ i own cs)) (stored_row (K typ i own cs) keep enc spec)
        (ey_zero (K typ i own cs)) = Inr e
      \<and> (\<forall>c \<in> cl_name ` set cs. e c = (case map_of spec c of Some v \<Rightarrow> map_option keep (node c) | None \<Rightarrow> node c))"
proof -
  let ?K = "reference typ i own cs" and ?val = "\<lambda>c. map_option keep (map_of spec c)"
  let ?cases = "(''id'', take_cell i ''id'') # map (\<lambda>c. (cl_name c, take_cell (cl_type c) (cl_name c))) cs"
  note made = reference_create [OF wf create [unfolded K_def]]
  have id: "cl_name c \<noteq> ''id''" if "c \<in> set cs" for c using well_formedD(2) [OF wf] that by (auto dest: image_eqI [OF sym])
  obtain z where z: "assign_switch ?cases dec (''id'', cell_of enc (scan_of i) (?val ''id'')) (ey_zero ?K) = Inr z"
    "\<And>c. c \<noteq> ''id'' \<Longrightarrow> z c = ey_zero ?K c"
    using take_id [where dec = dec and enc = enc, OF enc, of i "?val ''id''" "ey_zero ?K"] by (auto simp: assign_switch_def)
  have "type_of x = cl_type c" if "c \<in> set cs" "?val (cl_name c) = Some x" for c x
    using assms(3) that made(1) [OF that(1)] keep reference_field [OF wf, of "typ" i own "cl_name c" m] reference_scan(1) [OF wf that(1)]
    by (auto simp: typed_def K_def dest!: spec [of _ "cl_name c"] scan_of_inj)
  then have rest: "fold_err (assign_switch ?cases dec) (map (\<lambda>c. (cl_name c, cell_of enc (scan_of (cl_type c)) (?val (cl_name c)))) cs) z
      = Inr (\<lambda>c. if c \<in> cl_name ` set cs then (case ?val c of Some x \<Rightarrow> Some x | None \<Rightarrow> z c) else z c)"
    using well_formedD(3) [OF wf] map_of_columns [OF wf] id
    by (intro assign_columns [OF well_formedD(1) [OF wf] enc]) auto
  have cells: "zip (ey_columns ?K) (stored_row ?K keep enc spec)
      = (''id'', cell_of enc (scan_of i) (?val ''id''))
        # map (\<lambda>c. (cl_name c, cell_of enc (scan_of (cl_type c)) (?val (cl_name c)))) cs"
    using reference_scan [OF wf] by (simp add: stored_row_def reference_def zip_map_map zip_same_conv_map)
  have "ey_assign ?K dec (ey_columns ?K) (stored_row ?K keep enc spec) (ey_zero ?K)
      = fold_err (assign_switch ?cases dec) (zip (ey_columns ?K) (stored_row ?K keep enc spec)) (ey_zero ?K)"
    by (simp add: stored_row_def assign_row_def reference_def)
  also have "\<dots> = Inr (\<lambda>c. if c \<in> cl_name ` set cs then (case ?val c of Some x \<Rightarrow> Some x | None \<Rightarrow> z c) else z c)"
    unfolding cells using rest z(1) by simp
  finally show ?thesis using made id z(2) by (force simp: K_def split: option.splits)
qed

end
