(* ===== verification/EntWhere.thy ===== *)
theory EntWhere
  imports EntTable
begin

text \<open>
  The generated predicates of an entity (\<open>where.go\<close>): each function of such a file returns one call of ent's \<open>sql\<close>
  package, which is data here; and the reference, the functions that a list of columns gives rise to.
\<close>

section \<open>Calls of the library\<close>

datatype pred =
    FieldEQ string go_value | FieldNEQ string go_value
  | FieldIn string "go_value list" | FieldNotIn string "go_value list"
  | FieldGT string go_value | FieldGTE string go_value | FieldLT string go_value | FieldLTE string go_value
  | FieldContains string go_value | FieldHasPrefix string go_value | FieldHasSuffix string go_value
  | FieldIsNull string | FieldNotNull string
  | FieldEqualFold string go_value | FieldContainsFold string go_value
  | AndPredicates "pred list" | OrPredicates "pred list" | NotPredicates pred

text \<open>A generated function by its parameters: one value of a type, any number of them, none, or other predicates.\<close>

datatype filter_method =
    OnOne go_type "go_value \<Rightarrow> pred" | OnMany go_type "go_value list \<Rightarrow> pred" | OnNone pred
  | OnPreds "pred list \<Rightarrow> pred" | OnPred "pred \<Rightarrow> pred"

section \<open>The reference\<close>

definition ordered_filters :: "string \<Rightarrow> string \<Rightarrow> go_type \<Rightarrow> (string \<times> filter_method) list" where
  "ordered_filters go column t = [
     (go @ ''In'', OnMany t (FieldIn column)), (go @ ''NotIn'', OnMany t (FieldNotIn column)),
     (go @ ''GT'', OnOne t (FieldGT column)), (go @ ''GTE'', OnOne t (FieldGTE column)),
     (go @ ''LT'', OnOne t (FieldLT column)), (go @ ''LTE'', OnOne t (FieldLTE column))]"

definition equality_filters :: "string \<Rightarrow> string \<Rightarrow> go_type \<Rightarrow> (string \<times> filter_method) list" where
  "equality_filters go column t =
     [(go @ ''EQ'', OnOne t (FieldEQ column)), (go @ ''NEQ'', OnOne t (FieldNEQ column))]"

definition part_filters :: "string \<Rightarrow> string \<Rightarrow> (string \<times> filter_method) list" where
  "part_filters go column = [
     (go @ ''Contains'', OnOne TString (FieldContains column)), (go @ ''HasPrefix'', OnOne TString (FieldHasPrefix column)),
     (go @ ''HasSuffix'', OnOne TString (FieldHasSuffix column))]"

definition fold_filters :: "string \<Rightarrow> string \<Rightarrow> (string \<times> filter_method) list" where
  "fold_filters go column = [
     (go @ ''EqualFold'', OnOne TString (FieldEqualFold column)),
     (go @ ''ContainsFold'', OnOne TString (FieldContainsFold column))]"

definition null_filters :: "string \<Rightarrow> string \<Rightarrow> (string \<times> filter_method) list" where
  "null_filters go column = [
     (go @ ''IsNil'', OnNone (FieldIsNull column)), (go @ ''NotNil'', OnNone (FieldNotNull column))]"

definition id_filters :: "go_type \<Rightarrow> (string \<times> filter_method) list" where
  "id_filters t = (''ID'', OnOne t (FieldEQ ''id'')) # equality_filters ''ID'' ''id'' t @ ordered_filters ''ID'' ''id'' t
     @ (if t = TString then fold_filters ''ID'' ''id'' else [])"

text \<open>A list has no order and no equality in SQL, a boolean no order; only an optional column can be null.\<close>

definition column_filters :: "column \<Rightarrow> (string \<times> filter_method) list" where
  "column_filters c = (let go = cl_go c; column = cl_name c; t = cl_type c in
     (if t = TStrings then [] else equality_filters go column t)
     @ (if t \<in> {TStrings, TBool} then [] else ordered_filters go column t)
     @ (if t = TString then part_filters go column else [])
     @ (if cl_optional c then null_filters go column else [])
     @ (if t = TString then fold_filters go column else []))"

definition group_filters :: "(string \<times> filter_method) list" where
  "group_filters = [(''And'', OnPreds AndPredicates), (''Or'', OnPreds OrPredicates), (''Not'', OnPred NotPredicates)]"

definition where_reference :: "go_type \<Rightarrow> column list \<Rightarrow> (string \<times> filter_method) list" where
  "where_reference i cs = id_filters i
     @ map (\<lambda>c. (cl_go c, OnOne (cl_type c) (FieldEQ (cl_name c)))) (filter (\<lambda>c. cl_type c \<noteq> TStrings) cs)
     @ concat (map column_filters cs) @ group_filters"

lemmas where_reference_simps = where_reference_def id_filters_def column_filters_def equality_filters_def
  ordered_filters_def part_filters_def fold_filters_def null_filters_def group_filters_def field_of_def Let_def

end
