(* ===== verification/EntAccounts.thy ===== *)
theory EntAccounts
  imports EntTable
begin

text \<open>
  The generated \<open>ent\<close> code of users, their identifiers and authenticators, mailed tokens and login sessions, one definition per generated
  function or, for a field, per group of typed methods; each schema is the hand-written one.
\<close>

section \<open>User\<close>

definition ent_user_schema :: "column list" where
  "ent_user_schema = [
     (field_of TString ''id'' ''ID'')\<lparr>cl_immutable := True\<rparr>,
     (field_of TString ''status'' ''Status'')\<lparr>cl_default := Some (DefaultConst (VString ''pending_verification''))\<rparr>,
     (field_of TString ''name'' ''Name'')\<lparr>cl_optional := True, cl_nillable := True\<rparr>,
     (field_of TString ''given_name'' ''GivenName'')\<lparr>cl_optional := True, cl_nillable := True\<rparr>,
     (field_of TString ''family_name'' ''FamilyName'')\<lparr>cl_optional := True, cl_nillable := True\<rparr>,
     (field_of TString ''nickname'' ''Nickname'')\<lparr>cl_optional := True, cl_nillable := True\<rparr>,
     (field_of TString ''preferred_username'' ''PreferredUsername'')\<lparr>cl_optional := True, cl_nillable := True\<rparr>,
     (field_of TString ''picture'' ''Picture'')\<lparr>cl_optional := True, cl_nillable := True\<rparr>,
     (field_of TString ''locale'' ''Locale'')\<lparr>cl_optional := True, cl_nillable := True\<rparr>,
     (field_of TString ''etag'' ''Etag'')\<lparr>cl_not_empty := True\<rparr>,
     (field_of TTime ''create_time'' ''CreateTime'')\<lparr>cl_default := Some DefaultNow, cl_immutable := True\<rparr>,
     (field_of TTime ''update_time'' ''UpdateTime'')\<lparr>cl_default := Some DefaultNow, cl_update_now := True\<rparr>]"

definition ent_user_runtime :: "(string \<times> nat) list" where
  "ent_user_runtime = [(''DefaultStatus'', 1), (''EtagValidator'', 9), (''DefaultCreateTime'', 10), (''DefaultUpdateTime'', 11),
     (''UpdateDefaultUpdateTime'', 11)]"

definition ent_user_field_status :: "field_methods" where
  "ent_user_field_status = plain_field ''status'' ''Status''"

definition ent_user_field_name :: "field_methods" where
  "ent_user_field_name = nullable_field ''name'' ''Name''"

definition ent_user_field_given_name :: "field_methods" where
  "ent_user_field_given_name = nullable_field ''given_name'' ''GivenName''"

definition ent_user_field_family_name :: "field_methods" where
  "ent_user_field_family_name = nullable_field ''family_name'' ''FamilyName''"

definition ent_user_field_nickname :: "field_methods" where
  "ent_user_field_nickname = nullable_field ''nickname'' ''Nickname''"

definition ent_user_field_preferred_username :: "field_methods" where
  "ent_user_field_preferred_username = nullable_field ''preferred_username'' ''PreferredUsername''"

definition ent_user_field_picture :: "field_methods" where
  "ent_user_field_picture = nullable_field ''picture'' ''Picture''"

definition ent_user_field_locale :: "field_methods" where
  "ent_user_field_locale = nullable_field ''locale'' ''Locale''"

definition ent_user_field_etag :: "field_methods" where
  "ent_user_field_etag = plain_field ''etag'' ''Etag''"

definition ent_user_field_create_time :: "field_methods" where
  "ent_user_field_create_time = plain_field ''create_time'' ''CreateTime''"

definition ent_user_field_update_time :: "field_methods" where
  "ent_user_field_update_time = plain_field ''update_time'' ''UpdateTime''"

definition new_ent_user_mutation :: "ent_op \<Rightarrow> mutation" where
  "new_ent_user_mutation = new_mutation ''User''"

definition ent_user_fields :: "mutation \<Rightarrow> string list" where
  "ent_user_fields = listed [if_set ent_user_field_status ''status'', if_set ent_user_field_name ''name'',
     if_set ent_user_field_given_name ''given_name'', if_set ent_user_field_family_name ''family_name'',
     if_set ent_user_field_nickname ''nickname'',
     if_set ent_user_field_preferred_username ''preferred_username'', if_set ent_user_field_picture ''picture'',
     if_set ent_user_field_locale ''locale'', if_set ent_user_field_etag ''etag'',
     if_set ent_user_field_create_time ''create_time'', if_set ent_user_field_update_time ''update_time'']"

definition ent_user_field :: "string \<Rightarrow> mutation \<Rightarrow> go_value option" where
  "ent_user_field = get_switch [(''status'', ent_user_field_status), (''name'', ent_user_field_name),
     (''given_name'', ent_user_field_given_name), (''family_name'', ent_user_field_family_name),
     (''nickname'', ent_user_field_nickname), (''preferred_username'', ent_user_field_preferred_username),
     (''picture'', ent_user_field_picture), (''locale'', ent_user_field_locale),
     (''etag'', ent_user_field_etag), (''create_time'', ent_user_field_create_time),
     (''update_time'', ent_user_field_update_time)]"

definition ent_user_old_field :: "(go_value \<Rightarrow> err + entity) \<Rightarrow> string \<Rightarrow> mutation
    \<Rightarrow> (err + go_value option) \<times> mutation" where
  "ent_user_old_field = old_switch ''User'' [(''status'', ent_user_field_status), (''name'', ent_user_field_name),
     (''given_name'', ent_user_field_given_name), (''family_name'', ent_user_field_family_name),
     (''nickname'', ent_user_field_nickname), (''preferred_username'', ent_user_field_preferred_username),
     (''picture'', ent_user_field_picture), (''locale'', ent_user_field_locale),
     (''etag'', ent_user_field_etag), (''create_time'', ent_user_field_create_time),
     (''update_time'', ent_user_field_update_time)]"

definition ent_user_set_field :: "string \<Rightarrow> go_value \<Rightarrow> mutation \<Rightarrow> err + mutation" where
  "ent_user_set_field = set_switch ''User'' [(''status'', TString, ent_user_field_status), (''name'', TString, ent_user_field_name),
     (''given_name'', TString, ent_user_field_given_name),
     (''family_name'', TString, ent_user_field_family_name), (''nickname'', TString, ent_user_field_nickname),
     (''preferred_username'', TString, ent_user_field_preferred_username),
     (''picture'', TString, ent_user_field_picture), (''locale'', TString, ent_user_field_locale),
     (''etag'', TString, ent_user_field_etag), (''create_time'', TTime, ent_user_field_create_time),
     (''update_time'', TTime, ent_user_field_update_time)]"

definition ent_user_cleared_fields :: "mutation \<Rightarrow> string list" where
  "ent_user_cleared_fields = listed [if_cleared ''name'', if_cleared ''given_name'', if_cleared ''family_name'', if_cleared ''nickname'',
     if_cleared ''preferred_username'', if_cleared ''picture'', if_cleared ''locale'']"

definition ent_user_clear_field :: "string \<Rightarrow> mutation \<Rightarrow> err + mutation" where
  "ent_user_clear_field = clear_switch ''User'' [(''name'', ent_user_field_name), (''given_name'', ent_user_field_given_name),
     (''family_name'', ent_user_field_family_name), (''nickname'', ent_user_field_nickname),
     (''preferred_username'', ent_user_field_preferred_username), (''picture'', ent_user_field_picture),
     (''locale'', ent_user_field_locale)]"

definition ent_user_reset_field :: "string \<Rightarrow> mutation \<Rightarrow> err + mutation" where
  "ent_user_reset_field = reset_switch ''User'' [(''status'', ent_user_field_status), (''name'', ent_user_field_name),
     (''given_name'', ent_user_field_given_name), (''family_name'', ent_user_field_family_name),
     (''nickname'', ent_user_field_nickname), (''preferred_username'', ent_user_field_preferred_username),
     (''picture'', ent_user_field_picture), (''locale'', ent_user_field_locale),
     (''etag'', ent_user_field_etag), (''create_time'', ent_user_field_create_time),
     (''update_time'', ent_user_field_update_time)]"

definition ent_user_create_defaults :: "(nat \<Rightarrow> time) \<Rightarrow> mutation \<Rightarrow> mutation" where
  "ent_user_create_defaults = defaulted [
     set_default (descriptor ent_user_runtime ent_user_schema ''DefaultStatus'') ent_user_field_status,
     set_default (descriptor ent_user_runtime ent_user_schema ''DefaultCreateTime'') ent_user_field_create_time,
     set_default (descriptor ent_user_runtime ent_user_schema ''DefaultUpdateTime'') ent_user_field_update_time]"

definition ent_user_create_check :: "mutation \<Rightarrow> ent_error option" where
  "ent_user_create_check = first_error [
     required ent_user_field_status ''status'',
     required ent_user_field_etag ''etag'',
     valid (descriptor ent_user_runtime ent_user_schema ''EtagValidator'') ent_user_field_etag ''etag'',
     required ent_user_field_create_time ''create_time'',
     required ent_user_field_update_time ''update_time'']"

definition ent_user_zero :: "entity" where
  "ent_user_zero = map_of [(''id'', VString []), (''status'', VString []), (''etag'', VString []), (''create_time'', VTime 0),
     (''update_time'', VTime 0)]"

definition ent_user_create_spec :: "mutation \<Rightarrow> create_spec" where
  "ent_user_create_spec = create_steps ent_user_zero [created_id, created ent_user_field_status ''status'', created ent_user_field_name ''name'',
     created ent_user_field_given_name ''given_name'', created ent_user_field_family_name ''family_name'',
     created ent_user_field_nickname ''nickname'',
     created ent_user_field_preferred_username ''preferred_username'',
     created ent_user_field_picture ''picture'', created ent_user_field_locale ''locale'',
     created ent_user_field_etag ''etag'', created ent_user_field_create_time ''create_time'',
     created ent_user_field_update_time ''update_time'']"

definition ent_user_update_defaults :: "(nat \<Rightarrow> time) \<Rightarrow> mutation \<Rightarrow> mutation" where
  "ent_user_update_defaults = defaulted [update_to_now ent_user_field_update_time]"

definition ent_user_update :: "mutation \<Rightarrow> ent_error + assignment list" where
  "ent_user_update = update_steps [
     valid (descriptor ent_user_runtime ent_user_schema ''EtagValidator'') ent_user_field_etag ''etag''] [
     assign_set ent_user_field_status ''status'', assign_set ent_user_field_name ''name'',
     assign_clear ent_user_field_name ''name'', assign_set ent_user_field_given_name ''given_name'',
     assign_clear ent_user_field_given_name ''given_name'',
     assign_set ent_user_field_family_name ''family_name'',
     assign_clear ent_user_field_family_name ''family_name'', assign_set ent_user_field_nickname ''nickname'',
     assign_clear ent_user_field_nickname ''nickname'',
     assign_set ent_user_field_preferred_username ''preferred_username'',
     assign_clear ent_user_field_preferred_username ''preferred_username'',
     assign_set ent_user_field_picture ''picture'', assign_clear ent_user_field_picture ''picture'',
     assign_set ent_user_field_locale ''locale'', assign_clear ent_user_field_locale ''locale'',
     assign_set ent_user_field_etag ''etag'', assign_set ent_user_field_update_time ''update_time'']"

definition ent_user_columns :: "string list" where
  "ent_user_columns = [''id'', ''status'', ''name'', ''given_name'', ''family_name'', ''nickname'', ''preferred_username'',
     ''picture'', ''locale'', ''etag'', ''create_time'', ''update_time'']"

definition ent_user_update_one :: "string list \<Rightarrow> mutation
    \<Rightarrow> ent_error + go_value \<times> string list \<times> assignment list" where
  "ent_user_update_one = update_one_steps ent_user_columns [
     valid (descriptor ent_user_runtime ent_user_schema ''EtagValidator'') ent_user_field_etag ''etag''] [
     assign_set ent_user_field_status ''status'', assign_set ent_user_field_name ''name'',
     assign_clear ent_user_field_name ''name'', assign_set ent_user_field_given_name ''given_name'',
     assign_clear ent_user_field_given_name ''given_name'',
     assign_set ent_user_field_family_name ''family_name'',
     assign_clear ent_user_field_family_name ''family_name'', assign_set ent_user_field_nickname ''nickname'',
     assign_clear ent_user_field_nickname ''nickname'',
     assign_set ent_user_field_preferred_username ''preferred_username'',
     assign_clear ent_user_field_preferred_username ''preferred_username'',
     assign_set ent_user_field_picture ''picture'', assign_clear ent_user_field_picture ''picture'',
     assign_set ent_user_field_locale ''locale'', assign_clear ent_user_field_locale ''locale'',
     assign_set ent_user_field_etag ''etag'', assign_set ent_user_field_update_time ''update_time'']"

definition ent_user_scan_values :: "string \<Rightarrow> scan_type" where
  "ent_user_scan_values = scan_switch [
     ([''id'', ''status'', ''name'', ''given_name'', ''family_name'', ''nickname'', ''preferred_username'',
       ''picture'', ''locale'', ''etag''], NullString),
     ([''create_time'', ''update_time''], NullTime)]"

definition ent_user_assign_values :: "(string \<Rightarrow> err + string list) \<Rightarrow> string list \<Rightarrow> sql_cell list \<Rightarrow> entity \<Rightarrow> err + entity" where
  "ent_user_assign_values = assign_row [(''id'', take_cell TString ''id''), (''status'', take_cell TString ''status''),
     (''name'', take_cell TString ''name''), (''given_name'', take_cell TString ''given_name''),
     (''family_name'', take_cell TString ''family_name''), (''nickname'', take_cell TString ''nickname''),
     (''preferred_username'', take_cell TString ''preferred_username''),
     (''picture'', take_cell TString ''picture''), (''locale'', take_cell TString ''locale''),
     (''etag'', take_cell TString ''etag''), (''create_time'', take_cell TTime ''create_time''),
     (''update_time'', take_cell TTime ''update_time'')]"

definition ent_user_code :: entity_code where
  "ent_user_code = \<lparr>ey_columns = ent_user_columns, ey_zero = ent_user_zero, ey_new = new_ent_user_mutation,
     ey_fields = ent_user_fields, ey_field = ent_user_field, ey_old_field = ent_user_old_field, ey_set_field = ent_user_set_field,
     ey_cleared_fields = ent_user_cleared_fields, ey_clear_field = ent_user_clear_field, ey_reset_field = ent_user_reset_field,
     ey_defaults = ent_user_create_defaults, ey_check = ent_user_create_check, ey_create_spec = ent_user_create_spec,
     ey_update_defaults = ent_user_update_defaults, ey_update = ent_user_update, ey_update_one = ent_user_update_one,
     ey_scan = ent_user_scan_values, ey_assign = ent_user_assign_values\<rparr>"

lemmas ent_user_defs = ent_user_schema_def ent_user_runtime_def ent_user_field_status_def ent_user_field_name_def
  ent_user_field_given_name_def ent_user_field_family_name_def ent_user_field_nickname_def
  ent_user_field_preferred_username_def ent_user_field_picture_def ent_user_field_locale_def
  ent_user_field_etag_def ent_user_field_create_time_def ent_user_field_update_time_def
  new_ent_user_mutation_def ent_user_fields_def ent_user_field_def ent_user_old_field_def
  ent_user_set_field_def ent_user_cleared_fields_def ent_user_clear_field_def ent_user_reset_field_def
  ent_user_create_defaults_def ent_user_create_check_def ent_user_zero_def ent_user_create_spec_def
  ent_user_update_defaults_def ent_user_update_def ent_user_columns_def ent_user_update_one_def
  ent_user_scan_values_def ent_user_assign_values_def ent_user_code_def

lemma ent_user_scan: "ent_user_scan_values = ey_scan (reference ''User'' TString True (tl ent_user_schema))"
  unfolding ent_user_scan_values_def by (rule scan_referenceI) code_simp+

lemma ent_user_is_reference: "ent_user_code = reference ''User'' TString True (tl ent_user_schema)"
  using ent_user_scan by (simp add: ent_user_defs reference_simps)

section \<open>LoginIdentifier\<close>

definition ent_login_identifier_schema :: "column list" where
  "ent_login_identifier_schema = [
     (field_of TString ''id'' ''ID'')\<lparr>cl_immutable := True\<rparr>,
     (field_of TString ''user_id'' ''UserID'')\<lparr>cl_not_empty := True, cl_immutable := True\<rparr>,
     (field_of TString ''type'' ''Type'')\<lparr>cl_not_empty := True, cl_immutable := True\<rparr>,
     (field_of TString ''canonical_value'' ''CanonicalValue'')\<lparr>cl_not_empty := True\<rparr>,
     (field_of TString ''display_value'' ''DisplayValue'')\<lparr>cl_not_empty := True\<rparr>,
     (field_of TTime ''verified_time'' ''VerifiedTime'')\<lparr>cl_optional := True, cl_nillable := True\<rparr>,
     (field_of TTime ''create_time'' ''CreateTime'')\<lparr>cl_default := Some DefaultNow, cl_immutable := True\<rparr>,
     (field_of TTime ''update_time'' ''UpdateTime'')\<lparr>cl_default := Some DefaultNow, cl_update_now := True\<rparr>]"

definition ent_login_identifier_runtime :: "(string \<times> nat) list" where
  "ent_login_identifier_runtime = [(''UserIDValidator'', 1), (''TypeValidator'', 2), (''CanonicalValueValidator'', 3),
     (''DisplayValueValidator'', 4), (''DefaultCreateTime'', 6), (''DefaultUpdateTime'', 7),
     (''UpdateDefaultUpdateTime'', 7)]"

definition ent_login_identifier_field_user_id :: "field_methods" where
  "ent_login_identifier_field_user_id = plain_field ''user_id'' ''UserID''"

definition ent_login_identifier_field_type :: "field_methods" where
  "ent_login_identifier_field_type = plain_field ''type'' ''Type''"

definition ent_login_identifier_field_canonical_value :: "field_methods" where
  "ent_login_identifier_field_canonical_value = plain_field ''canonical_value'' ''CanonicalValue''"

definition ent_login_identifier_field_display_value :: "field_methods" where
  "ent_login_identifier_field_display_value = plain_field ''display_value'' ''DisplayValue''"

definition ent_login_identifier_field_verified_time :: "field_methods" where
  "ent_login_identifier_field_verified_time = nullable_field ''verified_time'' ''VerifiedTime''"

definition ent_login_identifier_field_create_time :: "field_methods" where
  "ent_login_identifier_field_create_time = plain_field ''create_time'' ''CreateTime''"

definition ent_login_identifier_field_update_time :: "field_methods" where
  "ent_login_identifier_field_update_time = plain_field ''update_time'' ''UpdateTime''"

definition new_ent_login_identifier_mutation :: "ent_op \<Rightarrow> mutation" where
  "new_ent_login_identifier_mutation = new_mutation ''LoginIdentifier''"

definition ent_login_identifier_fields :: "mutation \<Rightarrow> string list" where
  "ent_login_identifier_fields = listed [if_set ent_login_identifier_field_user_id ''user_id'', if_set ent_login_identifier_field_type ''type'',
     if_set ent_login_identifier_field_canonical_value ''canonical_value'',
     if_set ent_login_identifier_field_display_value ''display_value'',
     if_set ent_login_identifier_field_verified_time ''verified_time'',
     if_set ent_login_identifier_field_create_time ''create_time'',
     if_set ent_login_identifier_field_update_time ''update_time'']"

definition ent_login_identifier_field :: "string \<Rightarrow> mutation \<Rightarrow> go_value option" where
  "ent_login_identifier_field = get_switch [(''user_id'', ent_login_identifier_field_user_id), (''type'', ent_login_identifier_field_type),
     (''canonical_value'', ent_login_identifier_field_canonical_value),
     (''display_value'', ent_login_identifier_field_display_value),
     (''verified_time'', ent_login_identifier_field_verified_time),
     (''create_time'', ent_login_identifier_field_create_time),
     (''update_time'', ent_login_identifier_field_update_time)]"

definition ent_login_identifier_old_field :: "(go_value \<Rightarrow> err + entity) \<Rightarrow> string \<Rightarrow> mutation
    \<Rightarrow> (err + go_value option) \<times> mutation" where
  "ent_login_identifier_old_field = old_switch ''LoginIdentifier'' [(''user_id'', ent_login_identifier_field_user_id), (''type'', ent_login_identifier_field_type),
     (''canonical_value'', ent_login_identifier_field_canonical_value),
     (''display_value'', ent_login_identifier_field_display_value),
     (''verified_time'', ent_login_identifier_field_verified_time),
     (''create_time'', ent_login_identifier_field_create_time),
     (''update_time'', ent_login_identifier_field_update_time)]"

definition ent_login_identifier_set_field :: "string \<Rightarrow> go_value \<Rightarrow> mutation \<Rightarrow> err + mutation" where
  "ent_login_identifier_set_field = set_switch ''LoginIdentifier'' [(''user_id'', TString, ent_login_identifier_field_user_id),
     (''type'', TString, ent_login_identifier_field_type),
     (''canonical_value'', TString, ent_login_identifier_field_canonical_value),
     (''display_value'', TString, ent_login_identifier_field_display_value),
     (''verified_time'', TTime, ent_login_identifier_field_verified_time),
     (''create_time'', TTime, ent_login_identifier_field_create_time),
     (''update_time'', TTime, ent_login_identifier_field_update_time)]"

definition ent_login_identifier_cleared_fields :: "mutation \<Rightarrow> string list" where
  "ent_login_identifier_cleared_fields = listed [if_cleared ''verified_time'']"

definition ent_login_identifier_clear_field :: "string \<Rightarrow> mutation \<Rightarrow> err + mutation" where
  "ent_login_identifier_clear_field = clear_switch ''LoginIdentifier'' [(''verified_time'', ent_login_identifier_field_verified_time)]"

definition ent_login_identifier_reset_field :: "string \<Rightarrow> mutation \<Rightarrow> err + mutation" where
  "ent_login_identifier_reset_field = reset_switch ''LoginIdentifier'' [(''user_id'', ent_login_identifier_field_user_id), (''type'', ent_login_identifier_field_type),
     (''canonical_value'', ent_login_identifier_field_canonical_value),
     (''display_value'', ent_login_identifier_field_display_value),
     (''verified_time'', ent_login_identifier_field_verified_time),
     (''create_time'', ent_login_identifier_field_create_time),
     (''update_time'', ent_login_identifier_field_update_time)]"

definition ent_login_identifier_create_defaults :: "(nat \<Rightarrow> time) \<Rightarrow> mutation \<Rightarrow> mutation" where
  "ent_login_identifier_create_defaults = defaulted [
     set_default (descriptor ent_login_identifier_runtime ent_login_identifier_schema ''DefaultCreateTime'') ent_login_identifier_field_create_time,
     set_default (descriptor ent_login_identifier_runtime ent_login_identifier_schema ''DefaultUpdateTime'') ent_login_identifier_field_update_time]"

definition ent_login_identifier_create_check :: "mutation \<Rightarrow> ent_error option" where
  "ent_login_identifier_create_check = first_error [
     required ent_login_identifier_field_user_id ''user_id'',
     valid (descriptor ent_login_identifier_runtime ent_login_identifier_schema ''UserIDValidator'') ent_login_identifier_field_user_id ''user_id'',
     required ent_login_identifier_field_type ''type'',
     valid (descriptor ent_login_identifier_runtime ent_login_identifier_schema ''TypeValidator'') ent_login_identifier_field_type ''type'',
     required ent_login_identifier_field_canonical_value ''canonical_value'',
     valid (descriptor ent_login_identifier_runtime ent_login_identifier_schema ''CanonicalValueValidator'') ent_login_identifier_field_canonical_value ''canonical_value'',
     required ent_login_identifier_field_display_value ''display_value'',
     valid (descriptor ent_login_identifier_runtime ent_login_identifier_schema ''DisplayValueValidator'') ent_login_identifier_field_display_value ''display_value'',
     required ent_login_identifier_field_create_time ''create_time'',
     required ent_login_identifier_field_update_time ''update_time'']"

definition ent_login_identifier_zero :: "entity" where
  "ent_login_identifier_zero = map_of [(''id'', VString []), (''user_id'', VString []), (''type'', VString []), (''canonical_value'', VString []),
     (''display_value'', VString []), (''create_time'', VTime 0), (''update_time'', VTime 0)]"

definition ent_login_identifier_create_spec :: "mutation \<Rightarrow> create_spec" where
  "ent_login_identifier_create_spec = create_steps ent_login_identifier_zero [created_id, created ent_login_identifier_field_user_id ''user_id'',
     created ent_login_identifier_field_type ''type'',
     created ent_login_identifier_field_canonical_value ''canonical_value'',
     created ent_login_identifier_field_display_value ''display_value'',
     created ent_login_identifier_field_verified_time ''verified_time'',
     created ent_login_identifier_field_create_time ''create_time'',
     created ent_login_identifier_field_update_time ''update_time'']"

definition ent_login_identifier_update_defaults :: "(nat \<Rightarrow> time) \<Rightarrow> mutation \<Rightarrow> mutation" where
  "ent_login_identifier_update_defaults = defaulted [update_to_now ent_login_identifier_field_update_time]"

definition ent_login_identifier_update :: "mutation \<Rightarrow> ent_error + assignment list" where
  "ent_login_identifier_update = update_steps [
     valid (descriptor ent_login_identifier_runtime ent_login_identifier_schema ''CanonicalValueValidator'') ent_login_identifier_field_canonical_value ''canonical_value'',
     valid (descriptor ent_login_identifier_runtime ent_login_identifier_schema ''DisplayValueValidator'') ent_login_identifier_field_display_value ''display_value''] [
     assign_set ent_login_identifier_field_canonical_value ''canonical_value'',
     assign_set ent_login_identifier_field_display_value ''display_value'',
     assign_set ent_login_identifier_field_verified_time ''verified_time'',
     assign_clear ent_login_identifier_field_verified_time ''verified_time'',
     assign_set ent_login_identifier_field_update_time ''update_time'']"

definition ent_login_identifier_columns :: "string list" where
  "ent_login_identifier_columns = [''id'', ''user_id'', ''type'', ''canonical_value'', ''display_value'', ''verified_time'', ''create_time'',
     ''update_time'']"

definition ent_login_identifier_update_one :: "string list \<Rightarrow> mutation
    \<Rightarrow> ent_error + go_value \<times> string list \<times> assignment list" where
  "ent_login_identifier_update_one = update_one_steps ent_login_identifier_columns [
     valid (descriptor ent_login_identifier_runtime ent_login_identifier_schema ''CanonicalValueValidator'') ent_login_identifier_field_canonical_value ''canonical_value'',
     valid (descriptor ent_login_identifier_runtime ent_login_identifier_schema ''DisplayValueValidator'') ent_login_identifier_field_display_value ''display_value''] [
     assign_set ent_login_identifier_field_canonical_value ''canonical_value'',
     assign_set ent_login_identifier_field_display_value ''display_value'',
     assign_set ent_login_identifier_field_verified_time ''verified_time'',
     assign_clear ent_login_identifier_field_verified_time ''verified_time'',
     assign_set ent_login_identifier_field_update_time ''update_time'']"

definition ent_login_identifier_scan_values :: "string \<Rightarrow> scan_type" where
  "ent_login_identifier_scan_values = scan_switch [
     ([''id'', ''user_id'', ''type'', ''canonical_value'', ''display_value''], NullString),
     ([''verified_time'', ''create_time'', ''update_time''], NullTime)]"

definition ent_login_identifier_assign_values :: "(string \<Rightarrow> err + string list) \<Rightarrow> string list \<Rightarrow> sql_cell list \<Rightarrow> entity \<Rightarrow> err + entity" where
  "ent_login_identifier_assign_values = assign_row [(''id'', take_cell TString ''id''), (''user_id'', take_cell TString ''user_id''),
     (''type'', take_cell TString ''type''), (''canonical_value'', take_cell TString ''canonical_value''),
     (''display_value'', take_cell TString ''display_value''),
     (''verified_time'', take_cell TTime ''verified_time''), (''create_time'', take_cell TTime ''create_time''),
     (''update_time'', take_cell TTime ''update_time'')]"

definition ent_login_identifier_code :: entity_code where
  "ent_login_identifier_code = \<lparr>ey_columns = ent_login_identifier_columns, ey_zero = ent_login_identifier_zero, ey_new = new_ent_login_identifier_mutation,
     ey_fields = ent_login_identifier_fields, ey_field = ent_login_identifier_field, ey_old_field = ent_login_identifier_old_field, ey_set_field = ent_login_identifier_set_field,
     ey_cleared_fields = ent_login_identifier_cleared_fields, ey_clear_field = ent_login_identifier_clear_field, ey_reset_field = ent_login_identifier_reset_field,
     ey_defaults = ent_login_identifier_create_defaults, ey_check = ent_login_identifier_create_check, ey_create_spec = ent_login_identifier_create_spec,
     ey_update_defaults = ent_login_identifier_update_defaults, ey_update = ent_login_identifier_update, ey_update_one = ent_login_identifier_update_one,
     ey_scan = ent_login_identifier_scan_values, ey_assign = ent_login_identifier_assign_values\<rparr>"

lemmas ent_login_identifier_defs = ent_login_identifier_schema_def ent_login_identifier_runtime_def ent_login_identifier_field_user_id_def
  ent_login_identifier_field_type_def ent_login_identifier_field_canonical_value_def
  ent_login_identifier_field_display_value_def ent_login_identifier_field_verified_time_def
  ent_login_identifier_field_create_time_def ent_login_identifier_field_update_time_def
  new_ent_login_identifier_mutation_def ent_login_identifier_fields_def ent_login_identifier_field_def
  ent_login_identifier_old_field_def ent_login_identifier_set_field_def
  ent_login_identifier_cleared_fields_def ent_login_identifier_clear_field_def
  ent_login_identifier_reset_field_def ent_login_identifier_create_defaults_def
  ent_login_identifier_create_check_def ent_login_identifier_zero_def ent_login_identifier_create_spec_def
  ent_login_identifier_update_defaults_def ent_login_identifier_update_def ent_login_identifier_columns_def
  ent_login_identifier_update_one_def ent_login_identifier_scan_values_def
  ent_login_identifier_assign_values_def ent_login_identifier_code_def

lemma ent_login_identifier_scan: "ent_login_identifier_scan_values = ey_scan (reference ''LoginIdentifier'' TString True (tl ent_login_identifier_schema))"
  unfolding ent_login_identifier_scan_values_def by (rule scan_referenceI) code_simp+

lemma ent_login_identifier_is_reference: "ent_login_identifier_code = reference ''LoginIdentifier'' TString True (tl ent_login_identifier_schema)"
  using ent_login_identifier_scan by (simp add: ent_login_identifier_defs reference_simps)

section \<open>Authenticator\<close>

definition ent_authenticator_schema :: "column list" where
  "ent_authenticator_schema = [
     (field_of TString ''id'' ''ID'')\<lparr>cl_immutable := True\<rparr>,
     (field_of TString ''user_id'' ''UserID'')\<lparr>cl_not_empty := True, cl_immutable := True\<rparr>,
     (field_of TString ''type'' ''Type'')\<lparr>cl_not_empty := True, cl_immutable := True\<rparr>,
     (field_of TString ''state'' ''State'')\<lparr>cl_default := Some (DefaultConst (VString ''active''))\<rparr>,
     (field_of TString ''display_name'' ''DisplayName'')\<lparr>cl_optional := True, cl_nillable := True\<rparr>,
     (field_of TTime ''verified_time'' ''VerifiedTime'')\<lparr>cl_optional := True, cl_nillable := True\<rparr>,
     (field_of TTime ''last_used_time'' ''LastUsedTime'')\<lparr>cl_optional := True, cl_nillable := True\<rparr>,
     (field_of TTime ''revoked_time'' ''RevokedTime'')\<lparr>cl_optional := True, cl_nillable := True\<rparr>,
     (field_of TTime ''create_time'' ''CreateTime'')\<lparr>cl_default := Some DefaultNow, cl_immutable := True\<rparr>,
     (field_of TTime ''update_time'' ''UpdateTime'')\<lparr>cl_default := Some DefaultNow, cl_update_now := True\<rparr>]"

definition ent_authenticator_runtime :: "(string \<times> nat) list" where
  "ent_authenticator_runtime = [(''UserIDValidator'', 1), (''TypeValidator'', 2), (''DefaultState'', 3), (''DefaultCreateTime'', 8),
     (''DefaultUpdateTime'', 9), (''UpdateDefaultUpdateTime'', 9)]"

definition ent_authenticator_field_user_id :: "field_methods" where
  "ent_authenticator_field_user_id = plain_field ''user_id'' ''UserID''"

definition ent_authenticator_field_type :: "field_methods" where
  "ent_authenticator_field_type = plain_field ''type'' ''Type''"

definition ent_authenticator_field_state :: "field_methods" where
  "ent_authenticator_field_state = plain_field ''state'' ''State''"

definition ent_authenticator_field_display_name :: "field_methods" where
  "ent_authenticator_field_display_name = nullable_field ''display_name'' ''DisplayName''"

definition ent_authenticator_field_verified_time :: "field_methods" where
  "ent_authenticator_field_verified_time = nullable_field ''verified_time'' ''VerifiedTime''"

definition ent_authenticator_field_last_used_time :: "field_methods" where
  "ent_authenticator_field_last_used_time = nullable_field ''last_used_time'' ''LastUsedTime''"

definition ent_authenticator_field_revoked_time :: "field_methods" where
  "ent_authenticator_field_revoked_time = nullable_field ''revoked_time'' ''RevokedTime''"

definition ent_authenticator_field_create_time :: "field_methods" where
  "ent_authenticator_field_create_time = plain_field ''create_time'' ''CreateTime''"

definition ent_authenticator_field_update_time :: "field_methods" where
  "ent_authenticator_field_update_time = plain_field ''update_time'' ''UpdateTime''"

definition new_ent_authenticator_mutation :: "ent_op \<Rightarrow> mutation" where
  "new_ent_authenticator_mutation = new_mutation ''Authenticator''"

definition ent_authenticator_fields :: "mutation \<Rightarrow> string list" where
  "ent_authenticator_fields = listed [if_set ent_authenticator_field_user_id ''user_id'', if_set ent_authenticator_field_type ''type'',
     if_set ent_authenticator_field_state ''state'',
     if_set ent_authenticator_field_display_name ''display_name'',
     if_set ent_authenticator_field_verified_time ''verified_time'',
     if_set ent_authenticator_field_last_used_time ''last_used_time'',
     if_set ent_authenticator_field_revoked_time ''revoked_time'',
     if_set ent_authenticator_field_create_time ''create_time'',
     if_set ent_authenticator_field_update_time ''update_time'']"

definition ent_authenticator_field :: "string \<Rightarrow> mutation \<Rightarrow> go_value option" where
  "ent_authenticator_field = get_switch [(''user_id'', ent_authenticator_field_user_id), (''type'', ent_authenticator_field_type),
     (''state'', ent_authenticator_field_state), (''display_name'', ent_authenticator_field_display_name),
     (''verified_time'', ent_authenticator_field_verified_time),
     (''last_used_time'', ent_authenticator_field_last_used_time),
     (''revoked_time'', ent_authenticator_field_revoked_time),
     (''create_time'', ent_authenticator_field_create_time),
     (''update_time'', ent_authenticator_field_update_time)]"

definition ent_authenticator_old_field :: "(go_value \<Rightarrow> err + entity) \<Rightarrow> string \<Rightarrow> mutation
    \<Rightarrow> (err + go_value option) \<times> mutation" where
  "ent_authenticator_old_field = old_switch ''Authenticator'' [(''user_id'', ent_authenticator_field_user_id), (''type'', ent_authenticator_field_type),
     (''state'', ent_authenticator_field_state), (''display_name'', ent_authenticator_field_display_name),
     (''verified_time'', ent_authenticator_field_verified_time),
     (''last_used_time'', ent_authenticator_field_last_used_time),
     (''revoked_time'', ent_authenticator_field_revoked_time),
     (''create_time'', ent_authenticator_field_create_time),
     (''update_time'', ent_authenticator_field_update_time)]"

definition ent_authenticator_set_field :: "string \<Rightarrow> go_value \<Rightarrow> mutation \<Rightarrow> err + mutation" where
  "ent_authenticator_set_field = set_switch ''Authenticator'' [(''user_id'', TString, ent_authenticator_field_user_id), (''type'', TString, ent_authenticator_field_type),
     (''state'', TString, ent_authenticator_field_state),
     (''display_name'', TString, ent_authenticator_field_display_name),
     (''verified_time'', TTime, ent_authenticator_field_verified_time),
     (''last_used_time'', TTime, ent_authenticator_field_last_used_time),
     (''revoked_time'', TTime, ent_authenticator_field_revoked_time),
     (''create_time'', TTime, ent_authenticator_field_create_time),
     (''update_time'', TTime, ent_authenticator_field_update_time)]"

definition ent_authenticator_cleared_fields :: "mutation \<Rightarrow> string list" where
  "ent_authenticator_cleared_fields = listed [if_cleared ''display_name'', if_cleared ''verified_time'', if_cleared ''last_used_time'',
     if_cleared ''revoked_time'']"

definition ent_authenticator_clear_field :: "string \<Rightarrow> mutation \<Rightarrow> err + mutation" where
  "ent_authenticator_clear_field = clear_switch ''Authenticator'' [(''display_name'', ent_authenticator_field_display_name),
     (''verified_time'', ent_authenticator_field_verified_time),
     (''last_used_time'', ent_authenticator_field_last_used_time),
     (''revoked_time'', ent_authenticator_field_revoked_time)]"

definition ent_authenticator_reset_field :: "string \<Rightarrow> mutation \<Rightarrow> err + mutation" where
  "ent_authenticator_reset_field = reset_switch ''Authenticator'' [(''user_id'', ent_authenticator_field_user_id), (''type'', ent_authenticator_field_type),
     (''state'', ent_authenticator_field_state), (''display_name'', ent_authenticator_field_display_name),
     (''verified_time'', ent_authenticator_field_verified_time),
     (''last_used_time'', ent_authenticator_field_last_used_time),
     (''revoked_time'', ent_authenticator_field_revoked_time),
     (''create_time'', ent_authenticator_field_create_time),
     (''update_time'', ent_authenticator_field_update_time)]"

definition ent_authenticator_create_defaults :: "(nat \<Rightarrow> time) \<Rightarrow> mutation \<Rightarrow> mutation" where
  "ent_authenticator_create_defaults = defaulted [
     set_default (descriptor ent_authenticator_runtime ent_authenticator_schema ''DefaultState'') ent_authenticator_field_state,
     set_default (descriptor ent_authenticator_runtime ent_authenticator_schema ''DefaultCreateTime'') ent_authenticator_field_create_time,
     set_default (descriptor ent_authenticator_runtime ent_authenticator_schema ''DefaultUpdateTime'') ent_authenticator_field_update_time]"

definition ent_authenticator_create_check :: "mutation \<Rightarrow> ent_error option" where
  "ent_authenticator_create_check = first_error [
     required ent_authenticator_field_user_id ''user_id'',
     valid (descriptor ent_authenticator_runtime ent_authenticator_schema ''UserIDValidator'') ent_authenticator_field_user_id ''user_id'',
     required ent_authenticator_field_type ''type'',
     valid (descriptor ent_authenticator_runtime ent_authenticator_schema ''TypeValidator'') ent_authenticator_field_type ''type'',
     required ent_authenticator_field_state ''state'',
     required ent_authenticator_field_create_time ''create_time'',
     required ent_authenticator_field_update_time ''update_time'']"

definition ent_authenticator_zero :: "entity" where
  "ent_authenticator_zero = map_of [(''id'', VString []), (''user_id'', VString []), (''type'', VString []), (''state'', VString []),
     (''create_time'', VTime 0), (''update_time'', VTime 0)]"

definition ent_authenticator_create_spec :: "mutation \<Rightarrow> create_spec" where
  "ent_authenticator_create_spec = create_steps ent_authenticator_zero [created_id, created ent_authenticator_field_user_id ''user_id'',
     created ent_authenticator_field_type ''type'', created ent_authenticator_field_state ''state'',
     created ent_authenticator_field_display_name ''display_name'',
     created ent_authenticator_field_verified_time ''verified_time'',
     created ent_authenticator_field_last_used_time ''last_used_time'',
     created ent_authenticator_field_revoked_time ''revoked_time'',
     created ent_authenticator_field_create_time ''create_time'',
     created ent_authenticator_field_update_time ''update_time'']"

definition ent_authenticator_update_defaults :: "(nat \<Rightarrow> time) \<Rightarrow> mutation \<Rightarrow> mutation" where
  "ent_authenticator_update_defaults = defaulted [update_to_now ent_authenticator_field_update_time]"

definition ent_authenticator_update :: "mutation \<Rightarrow> ent_error + assignment list" where
  "ent_authenticator_update = update_steps [] [
     assign_set ent_authenticator_field_state ''state'',
     assign_set ent_authenticator_field_display_name ''display_name'',
     assign_clear ent_authenticator_field_display_name ''display_name'',
     assign_set ent_authenticator_field_verified_time ''verified_time'',
     assign_clear ent_authenticator_field_verified_time ''verified_time'',
     assign_set ent_authenticator_field_last_used_time ''last_used_time'',
     assign_clear ent_authenticator_field_last_used_time ''last_used_time'',
     assign_set ent_authenticator_field_revoked_time ''revoked_time'',
     assign_clear ent_authenticator_field_revoked_time ''revoked_time'',
     assign_set ent_authenticator_field_update_time ''update_time'']"

definition ent_authenticator_columns :: "string list" where
  "ent_authenticator_columns = [''id'', ''user_id'', ''type'', ''state'', ''display_name'', ''verified_time'', ''last_used_time'',
     ''revoked_time'', ''create_time'', ''update_time'']"

definition ent_authenticator_update_one :: "string list \<Rightarrow> mutation
    \<Rightarrow> ent_error + go_value \<times> string list \<times> assignment list" where
  "ent_authenticator_update_one = update_one_steps ent_authenticator_columns [] [
     assign_set ent_authenticator_field_state ''state'',
     assign_set ent_authenticator_field_display_name ''display_name'',
     assign_clear ent_authenticator_field_display_name ''display_name'',
     assign_set ent_authenticator_field_verified_time ''verified_time'',
     assign_clear ent_authenticator_field_verified_time ''verified_time'',
     assign_set ent_authenticator_field_last_used_time ''last_used_time'',
     assign_clear ent_authenticator_field_last_used_time ''last_used_time'',
     assign_set ent_authenticator_field_revoked_time ''revoked_time'',
     assign_clear ent_authenticator_field_revoked_time ''revoked_time'',
     assign_set ent_authenticator_field_update_time ''update_time'']"

definition ent_authenticator_scan_values :: "string \<Rightarrow> scan_type" where
  "ent_authenticator_scan_values = scan_switch [
     ([''id'', ''user_id'', ''type'', ''state'', ''display_name''], NullString),
     ([''verified_time'', ''last_used_time'', ''revoked_time'', ''create_time'', ''update_time''], NullTime)]"

definition ent_authenticator_assign_values :: "(string \<Rightarrow> err + string list) \<Rightarrow> string list \<Rightarrow> sql_cell list \<Rightarrow> entity \<Rightarrow> err + entity" where
  "ent_authenticator_assign_values = assign_row [(''id'', take_cell TString ''id''), (''user_id'', take_cell TString ''user_id''),
     (''type'', take_cell TString ''type''), (''state'', take_cell TString ''state''),
     (''display_name'', take_cell TString ''display_name''),
     (''verified_time'', take_cell TTime ''verified_time''),
     (''last_used_time'', take_cell TTime ''last_used_time''),
     (''revoked_time'', take_cell TTime ''revoked_time''), (''create_time'', take_cell TTime ''create_time''),
     (''update_time'', take_cell TTime ''update_time'')]"

definition ent_authenticator_code :: entity_code where
  "ent_authenticator_code = \<lparr>ey_columns = ent_authenticator_columns, ey_zero = ent_authenticator_zero, ey_new = new_ent_authenticator_mutation,
     ey_fields = ent_authenticator_fields, ey_field = ent_authenticator_field, ey_old_field = ent_authenticator_old_field, ey_set_field = ent_authenticator_set_field,
     ey_cleared_fields = ent_authenticator_cleared_fields, ey_clear_field = ent_authenticator_clear_field, ey_reset_field = ent_authenticator_reset_field,
     ey_defaults = ent_authenticator_create_defaults, ey_check = ent_authenticator_create_check, ey_create_spec = ent_authenticator_create_spec,
     ey_update_defaults = ent_authenticator_update_defaults, ey_update = ent_authenticator_update, ey_update_one = ent_authenticator_update_one,
     ey_scan = ent_authenticator_scan_values, ey_assign = ent_authenticator_assign_values\<rparr>"

lemmas ent_authenticator_defs = ent_authenticator_schema_def ent_authenticator_runtime_def ent_authenticator_field_user_id_def
  ent_authenticator_field_type_def ent_authenticator_field_state_def ent_authenticator_field_display_name_def
  ent_authenticator_field_verified_time_def ent_authenticator_field_last_used_time_def
  ent_authenticator_field_revoked_time_def ent_authenticator_field_create_time_def
  ent_authenticator_field_update_time_def new_ent_authenticator_mutation_def ent_authenticator_fields_def
  ent_authenticator_field_def ent_authenticator_old_field_def ent_authenticator_set_field_def
  ent_authenticator_cleared_fields_def ent_authenticator_clear_field_def ent_authenticator_reset_field_def
  ent_authenticator_create_defaults_def ent_authenticator_create_check_def ent_authenticator_zero_def
  ent_authenticator_create_spec_def ent_authenticator_update_defaults_def ent_authenticator_update_def
  ent_authenticator_columns_def ent_authenticator_update_one_def ent_authenticator_scan_values_def
  ent_authenticator_assign_values_def ent_authenticator_code_def

lemma ent_authenticator_scan: "ent_authenticator_scan_values = ey_scan (reference ''Authenticator'' TString True (tl ent_authenticator_schema))"
  unfolding ent_authenticator_scan_values_def by (rule scan_referenceI) code_simp+

lemma ent_authenticator_is_reference: "ent_authenticator_code = reference ''Authenticator'' TString True (tl ent_authenticator_schema)"
  using ent_authenticator_scan by (simp add: ent_authenticator_defs reference_simps)

section \<open>PasswordAuthenticator\<close>

definition ent_password_authenticator_schema :: "column list" where
  "ent_password_authenticator_schema = [
     (field_of TString ''id'' ''ID'')\<lparr>cl_immutable := True\<rparr>,
     (field_of TString ''authenticator_id'' ''AuthenticatorID'')\<lparr>cl_not_empty := True, cl_immutable := True\<rparr>,
     (field_of TString ''password_hash'' ''PasswordHash'')\<lparr>cl_not_empty := True\<rparr>,
     (field_of TTime ''changed_time'' ''ChangedTime'')\<lparr>cl_default := Some DefaultNow\<rparr>]"

definition ent_password_authenticator_runtime :: "(string \<times> nat) list" where
  "ent_password_authenticator_runtime = [(''AuthenticatorIDValidator'', 1), (''PasswordHashValidator'', 2), (''DefaultChangedTime'', 3)]"

definition ent_password_authenticator_field_authenticator_id :: "field_methods" where
  "ent_password_authenticator_field_authenticator_id = plain_field ''authenticator_id'' ''AuthenticatorID''"

definition ent_password_authenticator_field_password_hash :: "field_methods" where
  "ent_password_authenticator_field_password_hash = plain_field ''password_hash'' ''PasswordHash''"

definition ent_password_authenticator_field_changed_time :: "field_methods" where
  "ent_password_authenticator_field_changed_time = plain_field ''changed_time'' ''ChangedTime''"

definition new_ent_password_authenticator_mutation :: "ent_op \<Rightarrow> mutation" where
  "new_ent_password_authenticator_mutation = new_mutation ''PasswordAuthenticator''"

definition ent_password_authenticator_fields :: "mutation \<Rightarrow> string list" where
  "ent_password_authenticator_fields = listed [if_set ent_password_authenticator_field_authenticator_id ''authenticator_id'',
     if_set ent_password_authenticator_field_password_hash ''password_hash'',
     if_set ent_password_authenticator_field_changed_time ''changed_time'']"

definition ent_password_authenticator_field :: "string \<Rightarrow> mutation \<Rightarrow> go_value option" where
  "ent_password_authenticator_field = get_switch [(''authenticator_id'', ent_password_authenticator_field_authenticator_id),
     (''password_hash'', ent_password_authenticator_field_password_hash),
     (''changed_time'', ent_password_authenticator_field_changed_time)]"

definition ent_password_authenticator_old_field :: "(go_value \<Rightarrow> err + entity) \<Rightarrow> string \<Rightarrow> mutation
    \<Rightarrow> (err + go_value option) \<times> mutation" where
  "ent_password_authenticator_old_field = old_switch ''PasswordAuthenticator'' [(''authenticator_id'', ent_password_authenticator_field_authenticator_id),
     (''password_hash'', ent_password_authenticator_field_password_hash),
     (''changed_time'', ent_password_authenticator_field_changed_time)]"

definition ent_password_authenticator_set_field :: "string \<Rightarrow> go_value \<Rightarrow> mutation \<Rightarrow> err + mutation" where
  "ent_password_authenticator_set_field = set_switch ''PasswordAuthenticator'' [(''authenticator_id'', TString, ent_password_authenticator_field_authenticator_id),
     (''password_hash'', TString, ent_password_authenticator_field_password_hash),
     (''changed_time'', TTime, ent_password_authenticator_field_changed_time)]"

definition ent_password_authenticator_cleared_fields :: "mutation \<Rightarrow> string list" where
  "ent_password_authenticator_cleared_fields = listed []"

definition ent_password_authenticator_clear_field :: "string \<Rightarrow> mutation \<Rightarrow> err + mutation" where
  "ent_password_authenticator_clear_field = clear_switch ''PasswordAuthenticator'' []"

definition ent_password_authenticator_reset_field :: "string \<Rightarrow> mutation \<Rightarrow> err + mutation" where
  "ent_password_authenticator_reset_field = reset_switch ''PasswordAuthenticator'' [(''authenticator_id'', ent_password_authenticator_field_authenticator_id),
     (''password_hash'', ent_password_authenticator_field_password_hash),
     (''changed_time'', ent_password_authenticator_field_changed_time)]"

definition ent_password_authenticator_create_defaults :: "(nat \<Rightarrow> time) \<Rightarrow> mutation \<Rightarrow> mutation" where
  "ent_password_authenticator_create_defaults = defaulted [
     set_default (descriptor ent_password_authenticator_runtime ent_password_authenticator_schema ''DefaultChangedTime'') ent_password_authenticator_field_changed_time]"

definition ent_password_authenticator_create_check :: "mutation \<Rightarrow> ent_error option" where
  "ent_password_authenticator_create_check = first_error [
     required ent_password_authenticator_field_authenticator_id ''authenticator_id'',
     valid (descriptor ent_password_authenticator_runtime ent_password_authenticator_schema ''AuthenticatorIDValidator'') ent_password_authenticator_field_authenticator_id ''authenticator_id'',
     required ent_password_authenticator_field_password_hash ''password_hash'',
     valid (descriptor ent_password_authenticator_runtime ent_password_authenticator_schema ''PasswordHashValidator'') ent_password_authenticator_field_password_hash ''password_hash'',
     required ent_password_authenticator_field_changed_time ''changed_time'']"

definition ent_password_authenticator_zero :: "entity" where
  "ent_password_authenticator_zero = map_of [(''id'', VString []), (''authenticator_id'', VString []), (''password_hash'', VString []),
     (''changed_time'', VTime 0)]"

definition ent_password_authenticator_create_spec :: "mutation \<Rightarrow> create_spec" where
  "ent_password_authenticator_create_spec = create_steps ent_password_authenticator_zero [created_id, created ent_password_authenticator_field_authenticator_id ''authenticator_id'',
     created ent_password_authenticator_field_password_hash ''password_hash'',
     created ent_password_authenticator_field_changed_time ''changed_time'']"

definition ent_password_authenticator_update_defaults :: "(nat \<Rightarrow> time) \<Rightarrow> mutation \<Rightarrow> mutation" where
  "ent_password_authenticator_update_defaults = defaulted []"

definition ent_password_authenticator_update :: "mutation \<Rightarrow> ent_error + assignment list" where
  "ent_password_authenticator_update = update_steps [
     valid (descriptor ent_password_authenticator_runtime ent_password_authenticator_schema ''PasswordHashValidator'') ent_password_authenticator_field_password_hash ''password_hash''] [
     assign_set ent_password_authenticator_field_password_hash ''password_hash'',
     assign_set ent_password_authenticator_field_changed_time ''changed_time'']"

definition ent_password_authenticator_columns :: "string list" where
  "ent_password_authenticator_columns = [''id'', ''authenticator_id'', ''password_hash'', ''changed_time'']"

definition ent_password_authenticator_update_one :: "string list \<Rightarrow> mutation
    \<Rightarrow> ent_error + go_value \<times> string list \<times> assignment list" where
  "ent_password_authenticator_update_one = update_one_steps ent_password_authenticator_columns [
     valid (descriptor ent_password_authenticator_runtime ent_password_authenticator_schema ''PasswordHashValidator'') ent_password_authenticator_field_password_hash ''password_hash''] [
     assign_set ent_password_authenticator_field_password_hash ''password_hash'',
     assign_set ent_password_authenticator_field_changed_time ''changed_time'']"

definition ent_password_authenticator_scan_values :: "string \<Rightarrow> scan_type" where
  "ent_password_authenticator_scan_values = scan_switch [
     ([''id'', ''authenticator_id'', ''password_hash''], NullString),
     ([''changed_time''], NullTime)]"

definition ent_password_authenticator_assign_values :: "(string \<Rightarrow> err + string list) \<Rightarrow> string list \<Rightarrow> sql_cell list \<Rightarrow> entity \<Rightarrow> err + entity" where
  "ent_password_authenticator_assign_values = assign_row [(''id'', take_cell TString ''id''), (''authenticator_id'', take_cell TString ''authenticator_id''),
     (''password_hash'', take_cell TString ''password_hash''),
     (''changed_time'', take_cell TTime ''changed_time'')]"

definition ent_password_authenticator_code :: entity_code where
  "ent_password_authenticator_code = \<lparr>ey_columns = ent_password_authenticator_columns, ey_zero = ent_password_authenticator_zero, ey_new = new_ent_password_authenticator_mutation,
     ey_fields = ent_password_authenticator_fields, ey_field = ent_password_authenticator_field, ey_old_field = ent_password_authenticator_old_field, ey_set_field = ent_password_authenticator_set_field,
     ey_cleared_fields = ent_password_authenticator_cleared_fields, ey_clear_field = ent_password_authenticator_clear_field, ey_reset_field = ent_password_authenticator_reset_field,
     ey_defaults = ent_password_authenticator_create_defaults, ey_check = ent_password_authenticator_create_check, ey_create_spec = ent_password_authenticator_create_spec,
     ey_update_defaults = ent_password_authenticator_update_defaults, ey_update = ent_password_authenticator_update, ey_update_one = ent_password_authenticator_update_one,
     ey_scan = ent_password_authenticator_scan_values, ey_assign = ent_password_authenticator_assign_values\<rparr>"

lemmas ent_password_authenticator_defs = ent_password_authenticator_schema_def ent_password_authenticator_runtime_def
  ent_password_authenticator_field_authenticator_id_def ent_password_authenticator_field_password_hash_def
  ent_password_authenticator_field_changed_time_def new_ent_password_authenticator_mutation_def
  ent_password_authenticator_fields_def ent_password_authenticator_field_def
  ent_password_authenticator_old_field_def ent_password_authenticator_set_field_def
  ent_password_authenticator_cleared_fields_def ent_password_authenticator_clear_field_def
  ent_password_authenticator_reset_field_def ent_password_authenticator_create_defaults_def
  ent_password_authenticator_create_check_def ent_password_authenticator_zero_def
  ent_password_authenticator_create_spec_def ent_password_authenticator_update_defaults_def
  ent_password_authenticator_update_def ent_password_authenticator_columns_def
  ent_password_authenticator_update_one_def ent_password_authenticator_scan_values_def
  ent_password_authenticator_assign_values_def ent_password_authenticator_code_def

lemma ent_password_authenticator_scan: "ent_password_authenticator_scan_values = ey_scan (reference ''PasswordAuthenticator'' TString True (tl ent_password_authenticator_schema))"
  unfolding ent_password_authenticator_scan_values_def by (rule scan_referenceI) code_simp+

lemma ent_password_authenticator_is_reference: "ent_password_authenticator_code = reference ''PasswordAuthenticator'' TString True (tl ent_password_authenticator_schema)"
  using ent_password_authenticator_scan by (simp add: ent_password_authenticator_defs reference_simps)

section \<open>EmailVerificationToken\<close>

definition ent_email_verification_token_schema :: "column list" where
  "ent_email_verification_token_schema = [
     (field_of TString ''id'' ''ID'')\<lparr>cl_immutable := True\<rparr>,
     (field_of TString ''user_id'' ''UserID'')\<lparr>cl_not_empty := True, cl_immutable := True\<rparr>,
     (field_of TString ''login_identifier_id'' ''LoginIdentifierID'')\<lparr>cl_not_empty := True, cl_immutable := True\<rparr>,
     (field_of TString ''token_hash'' ''TokenHash'')\<lparr>cl_not_empty := True\<rparr>,
     (field_of TTime ''expires_time'' ''ExpiresTime'')\<lparr>cl_immutable := True\<rparr>,
     (field_of TTime ''consumed_time'' ''ConsumedTime'')\<lparr>cl_optional := True, cl_nillable := True\<rparr>,
     (field_of TTime ''create_time'' ''CreateTime'')\<lparr>cl_default := Some DefaultNow, cl_immutable := True\<rparr>]"

definition ent_email_verification_token_runtime :: "(string \<times> nat) list" where
  "ent_email_verification_token_runtime = [(''UserIDValidator'', 1), (''LoginIdentifierIDValidator'', 2), (''TokenHashValidator'', 3),
     (''DefaultCreateTime'', 6)]"

definition ent_email_verification_token_field_user_id :: "field_methods" where
  "ent_email_verification_token_field_user_id = plain_field ''user_id'' ''UserID''"

definition ent_email_verification_token_field_login_identifier_id :: "field_methods" where
  "ent_email_verification_token_field_login_identifier_id = plain_field ''login_identifier_id'' ''LoginIdentifierID''"

definition ent_email_verification_token_field_token_hash :: "field_methods" where
  "ent_email_verification_token_field_token_hash = plain_field ''token_hash'' ''TokenHash''"

definition ent_email_verification_token_field_expires_time :: "field_methods" where
  "ent_email_verification_token_field_expires_time = plain_field ''expires_time'' ''ExpiresTime''"

definition ent_email_verification_token_field_consumed_time :: "field_methods" where
  "ent_email_verification_token_field_consumed_time = nullable_field ''consumed_time'' ''ConsumedTime''"

definition ent_email_verification_token_field_create_time :: "field_methods" where
  "ent_email_verification_token_field_create_time = plain_field ''create_time'' ''CreateTime''"

definition new_ent_email_verification_token_mutation :: "ent_op \<Rightarrow> mutation" where
  "new_ent_email_verification_token_mutation = new_mutation ''EmailVerificationToken''"

definition ent_email_verification_token_fields :: "mutation \<Rightarrow> string list" where
  "ent_email_verification_token_fields = listed [if_set ent_email_verification_token_field_user_id ''user_id'',
     if_set ent_email_verification_token_field_login_identifier_id ''login_identifier_id'',
     if_set ent_email_verification_token_field_token_hash ''token_hash'',
     if_set ent_email_verification_token_field_expires_time ''expires_time'',
     if_set ent_email_verification_token_field_consumed_time ''consumed_time'',
     if_set ent_email_verification_token_field_create_time ''create_time'']"

definition ent_email_verification_token_field :: "string \<Rightarrow> mutation \<Rightarrow> go_value option" where
  "ent_email_verification_token_field = get_switch [(''user_id'', ent_email_verification_token_field_user_id),
     (''login_identifier_id'', ent_email_verification_token_field_login_identifier_id),
     (''token_hash'', ent_email_verification_token_field_token_hash),
     (''expires_time'', ent_email_verification_token_field_expires_time),
     (''consumed_time'', ent_email_verification_token_field_consumed_time),
     (''create_time'', ent_email_verification_token_field_create_time)]"

definition ent_email_verification_token_old_field :: "(go_value \<Rightarrow> err + entity) \<Rightarrow> string \<Rightarrow> mutation
    \<Rightarrow> (err + go_value option) \<times> mutation" where
  "ent_email_verification_token_old_field = old_switch ''EmailVerificationToken'' [(''user_id'', ent_email_verification_token_field_user_id),
     (''login_identifier_id'', ent_email_verification_token_field_login_identifier_id),
     (''token_hash'', ent_email_verification_token_field_token_hash),
     (''expires_time'', ent_email_verification_token_field_expires_time),
     (''consumed_time'', ent_email_verification_token_field_consumed_time),
     (''create_time'', ent_email_verification_token_field_create_time)]"

definition ent_email_verification_token_set_field :: "string \<Rightarrow> go_value \<Rightarrow> mutation \<Rightarrow> err + mutation" where
  "ent_email_verification_token_set_field = set_switch ''EmailVerificationToken'' [(''user_id'', TString, ent_email_verification_token_field_user_id),
     (''login_identifier_id'', TString, ent_email_verification_token_field_login_identifier_id),
     (''token_hash'', TString, ent_email_verification_token_field_token_hash),
     (''expires_time'', TTime, ent_email_verification_token_field_expires_time),
     (''consumed_time'', TTime, ent_email_verification_token_field_consumed_time),
     (''create_time'', TTime, ent_email_verification_token_field_create_time)]"

definition ent_email_verification_token_cleared_fields :: "mutation \<Rightarrow> string list" where
  "ent_email_verification_token_cleared_fields = listed [if_cleared ''consumed_time'']"

definition ent_email_verification_token_clear_field :: "string \<Rightarrow> mutation \<Rightarrow> err + mutation" where
  "ent_email_verification_token_clear_field = clear_switch ''EmailVerificationToken'' [(''consumed_time'', ent_email_verification_token_field_consumed_time)]"

definition ent_email_verification_token_reset_field :: "string \<Rightarrow> mutation \<Rightarrow> err + mutation" where
  "ent_email_verification_token_reset_field = reset_switch ''EmailVerificationToken'' [(''user_id'', ent_email_verification_token_field_user_id),
     (''login_identifier_id'', ent_email_verification_token_field_login_identifier_id),
     (''token_hash'', ent_email_verification_token_field_token_hash),
     (''expires_time'', ent_email_verification_token_field_expires_time),
     (''consumed_time'', ent_email_verification_token_field_consumed_time),
     (''create_time'', ent_email_verification_token_field_create_time)]"

definition ent_email_verification_token_create_defaults :: "(nat \<Rightarrow> time) \<Rightarrow> mutation \<Rightarrow> mutation" where
  "ent_email_verification_token_create_defaults = defaulted [
     set_default (descriptor ent_email_verification_token_runtime ent_email_verification_token_schema ''DefaultCreateTime'') ent_email_verification_token_field_create_time]"

definition ent_email_verification_token_create_check :: "mutation \<Rightarrow> ent_error option" where
  "ent_email_verification_token_create_check = first_error [
     required ent_email_verification_token_field_user_id ''user_id'',
     valid (descriptor ent_email_verification_token_runtime ent_email_verification_token_schema ''UserIDValidator'') ent_email_verification_token_field_user_id ''user_id'',
     required ent_email_verification_token_field_login_identifier_id ''login_identifier_id'',
     valid (descriptor ent_email_verification_token_runtime ent_email_verification_token_schema ''LoginIdentifierIDValidator'') ent_email_verification_token_field_login_identifier_id ''login_identifier_id'',
     required ent_email_verification_token_field_token_hash ''token_hash'',
     valid (descriptor ent_email_verification_token_runtime ent_email_verification_token_schema ''TokenHashValidator'') ent_email_verification_token_field_token_hash ''token_hash'',
     required ent_email_verification_token_field_expires_time ''expires_time'',
     required ent_email_verification_token_field_create_time ''create_time'']"

definition ent_email_verification_token_zero :: "entity" where
  "ent_email_verification_token_zero = map_of [(''id'', VString []), (''user_id'', VString []), (''login_identifier_id'', VString []),
     (''token_hash'', VString []), (''expires_time'', VTime 0), (''create_time'', VTime 0)]"

definition ent_email_verification_token_create_spec :: "mutation \<Rightarrow> create_spec" where
  "ent_email_verification_token_create_spec = create_steps ent_email_verification_token_zero [created_id, created ent_email_verification_token_field_user_id ''user_id'',
     created ent_email_verification_token_field_login_identifier_id ''login_identifier_id'',
     created ent_email_verification_token_field_token_hash ''token_hash'',
     created ent_email_verification_token_field_expires_time ''expires_time'',
     created ent_email_verification_token_field_consumed_time ''consumed_time'',
     created ent_email_verification_token_field_create_time ''create_time'']"

definition ent_email_verification_token_update_defaults :: "(nat \<Rightarrow> time) \<Rightarrow> mutation \<Rightarrow> mutation" where
  "ent_email_verification_token_update_defaults = defaulted []"

definition ent_email_verification_token_update :: "mutation \<Rightarrow> ent_error + assignment list" where
  "ent_email_verification_token_update = update_steps [
     valid (descriptor ent_email_verification_token_runtime ent_email_verification_token_schema ''TokenHashValidator'') ent_email_verification_token_field_token_hash ''token_hash''] [
     assign_set ent_email_verification_token_field_token_hash ''token_hash'',
     assign_set ent_email_verification_token_field_consumed_time ''consumed_time'',
     assign_clear ent_email_verification_token_field_consumed_time ''consumed_time'']"

definition ent_email_verification_token_columns :: "string list" where
  "ent_email_verification_token_columns = [''id'', ''user_id'', ''login_identifier_id'', ''token_hash'', ''expires_time'', ''consumed_time'',
     ''create_time'']"

definition ent_email_verification_token_update_one :: "string list \<Rightarrow> mutation
    \<Rightarrow> ent_error + go_value \<times> string list \<times> assignment list" where
  "ent_email_verification_token_update_one = update_one_steps ent_email_verification_token_columns [
     valid (descriptor ent_email_verification_token_runtime ent_email_verification_token_schema ''TokenHashValidator'') ent_email_verification_token_field_token_hash ''token_hash''] [
     assign_set ent_email_verification_token_field_token_hash ''token_hash'',
     assign_set ent_email_verification_token_field_consumed_time ''consumed_time'',
     assign_clear ent_email_verification_token_field_consumed_time ''consumed_time'']"

definition ent_email_verification_token_scan_values :: "string \<Rightarrow> scan_type" where
  "ent_email_verification_token_scan_values = scan_switch [
     ([''id'', ''user_id'', ''login_identifier_id'', ''token_hash''], NullString),
     ([''expires_time'', ''consumed_time'', ''create_time''], NullTime)]"

definition ent_email_verification_token_assign_values :: "(string \<Rightarrow> err + string list) \<Rightarrow> string list \<Rightarrow> sql_cell list \<Rightarrow> entity \<Rightarrow> err + entity" where
  "ent_email_verification_token_assign_values = assign_row [(''id'', take_cell TString ''id''), (''user_id'', take_cell TString ''user_id''),
     (''login_identifier_id'', take_cell TString ''login_identifier_id''),
     (''token_hash'', take_cell TString ''token_hash''), (''expires_time'', take_cell TTime ''expires_time''),
     (''consumed_time'', take_cell TTime ''consumed_time''), (''create_time'', take_cell TTime ''create_time'')]"

definition ent_email_verification_token_code :: entity_code where
  "ent_email_verification_token_code = \<lparr>ey_columns = ent_email_verification_token_columns, ey_zero = ent_email_verification_token_zero, ey_new = new_ent_email_verification_token_mutation,
     ey_fields = ent_email_verification_token_fields, ey_field = ent_email_verification_token_field, ey_old_field = ent_email_verification_token_old_field, ey_set_field = ent_email_verification_token_set_field,
     ey_cleared_fields = ent_email_verification_token_cleared_fields, ey_clear_field = ent_email_verification_token_clear_field, ey_reset_field = ent_email_verification_token_reset_field,
     ey_defaults = ent_email_verification_token_create_defaults, ey_check = ent_email_verification_token_create_check, ey_create_spec = ent_email_verification_token_create_spec,
     ey_update_defaults = ent_email_verification_token_update_defaults, ey_update = ent_email_verification_token_update, ey_update_one = ent_email_verification_token_update_one,
     ey_scan = ent_email_verification_token_scan_values, ey_assign = ent_email_verification_token_assign_values\<rparr>"

lemmas ent_email_verification_token_defs = ent_email_verification_token_schema_def ent_email_verification_token_runtime_def
  ent_email_verification_token_field_user_id_def ent_email_verification_token_field_login_identifier_id_def
  ent_email_verification_token_field_token_hash_def ent_email_verification_token_field_expires_time_def
  ent_email_verification_token_field_consumed_time_def ent_email_verification_token_field_create_time_def
  new_ent_email_verification_token_mutation_def ent_email_verification_token_fields_def
  ent_email_verification_token_field_def ent_email_verification_token_old_field_def
  ent_email_verification_token_set_field_def ent_email_verification_token_cleared_fields_def
  ent_email_verification_token_clear_field_def ent_email_verification_token_reset_field_def
  ent_email_verification_token_create_defaults_def ent_email_verification_token_create_check_def
  ent_email_verification_token_zero_def ent_email_verification_token_create_spec_def
  ent_email_verification_token_update_defaults_def ent_email_verification_token_update_def
  ent_email_verification_token_columns_def ent_email_verification_token_update_one_def
  ent_email_verification_token_scan_values_def ent_email_verification_token_assign_values_def
  ent_email_verification_token_code_def

lemma ent_email_verification_token_scan: "ent_email_verification_token_scan_values = ey_scan (reference ''EmailVerificationToken'' TString True (tl ent_email_verification_token_schema))"
  unfolding ent_email_verification_token_scan_values_def by (rule scan_referenceI) code_simp+

lemma ent_email_verification_token_is_reference: "ent_email_verification_token_code = reference ''EmailVerificationToken'' TString True (tl ent_email_verification_token_schema)"
  using ent_email_verification_token_scan by (simp add: ent_email_verification_token_defs reference_simps)

section \<open>PasswordResetToken\<close>

definition ent_password_reset_token_schema :: "column list" where
  "ent_password_reset_token_schema = [
     (field_of TString ''id'' ''ID'')\<lparr>cl_immutable := True\<rparr>,
     (field_of TString ''user_id'' ''UserID'')\<lparr>cl_not_empty := True, cl_immutable := True\<rparr>,
     (field_of TString ''token_hash'' ''TokenHash'')\<lparr>cl_not_empty := True\<rparr>,
     (field_of TTime ''expires_time'' ''ExpiresTime'')\<lparr>cl_immutable := True\<rparr>,
     (field_of TTime ''consumed_time'' ''ConsumedTime'')\<lparr>cl_optional := True, cl_nillable := True\<rparr>,
     (field_of TTime ''create_time'' ''CreateTime'')\<lparr>cl_default := Some DefaultNow, cl_immutable := True\<rparr>]"

definition ent_password_reset_token_runtime :: "(string \<times> nat) list" where
  "ent_password_reset_token_runtime = [(''UserIDValidator'', 1), (''TokenHashValidator'', 2), (''DefaultCreateTime'', 5)]"

definition ent_password_reset_token_field_user_id :: "field_methods" where
  "ent_password_reset_token_field_user_id = plain_field ''user_id'' ''UserID''"

definition ent_password_reset_token_field_token_hash :: "field_methods" where
  "ent_password_reset_token_field_token_hash = plain_field ''token_hash'' ''TokenHash''"

definition ent_password_reset_token_field_expires_time :: "field_methods" where
  "ent_password_reset_token_field_expires_time = plain_field ''expires_time'' ''ExpiresTime''"

definition ent_password_reset_token_field_consumed_time :: "field_methods" where
  "ent_password_reset_token_field_consumed_time = nullable_field ''consumed_time'' ''ConsumedTime''"

definition ent_password_reset_token_field_create_time :: "field_methods" where
  "ent_password_reset_token_field_create_time = plain_field ''create_time'' ''CreateTime''"

definition new_ent_password_reset_token_mutation :: "ent_op \<Rightarrow> mutation" where
  "new_ent_password_reset_token_mutation = new_mutation ''PasswordResetToken''"

definition ent_password_reset_token_fields :: "mutation \<Rightarrow> string list" where
  "ent_password_reset_token_fields = listed [if_set ent_password_reset_token_field_user_id ''user_id'',
     if_set ent_password_reset_token_field_token_hash ''token_hash'',
     if_set ent_password_reset_token_field_expires_time ''expires_time'',
     if_set ent_password_reset_token_field_consumed_time ''consumed_time'',
     if_set ent_password_reset_token_field_create_time ''create_time'']"

definition ent_password_reset_token_field :: "string \<Rightarrow> mutation \<Rightarrow> go_value option" where
  "ent_password_reset_token_field = get_switch [(''user_id'', ent_password_reset_token_field_user_id),
     (''token_hash'', ent_password_reset_token_field_token_hash),
     (''expires_time'', ent_password_reset_token_field_expires_time),
     (''consumed_time'', ent_password_reset_token_field_consumed_time),
     (''create_time'', ent_password_reset_token_field_create_time)]"

definition ent_password_reset_token_old_field :: "(go_value \<Rightarrow> err + entity) \<Rightarrow> string \<Rightarrow> mutation
    \<Rightarrow> (err + go_value option) \<times> mutation" where
  "ent_password_reset_token_old_field = old_switch ''PasswordResetToken'' [(''user_id'', ent_password_reset_token_field_user_id),
     (''token_hash'', ent_password_reset_token_field_token_hash),
     (''expires_time'', ent_password_reset_token_field_expires_time),
     (''consumed_time'', ent_password_reset_token_field_consumed_time),
     (''create_time'', ent_password_reset_token_field_create_time)]"

definition ent_password_reset_token_set_field :: "string \<Rightarrow> go_value \<Rightarrow> mutation \<Rightarrow> err + mutation" where
  "ent_password_reset_token_set_field = set_switch ''PasswordResetToken'' [(''user_id'', TString, ent_password_reset_token_field_user_id),
     (''token_hash'', TString, ent_password_reset_token_field_token_hash),
     (''expires_time'', TTime, ent_password_reset_token_field_expires_time),
     (''consumed_time'', TTime, ent_password_reset_token_field_consumed_time),
     (''create_time'', TTime, ent_password_reset_token_field_create_time)]"

definition ent_password_reset_token_cleared_fields :: "mutation \<Rightarrow> string list" where
  "ent_password_reset_token_cleared_fields = listed [if_cleared ''consumed_time'']"

definition ent_password_reset_token_clear_field :: "string \<Rightarrow> mutation \<Rightarrow> err + mutation" where
  "ent_password_reset_token_clear_field = clear_switch ''PasswordResetToken'' [(''consumed_time'', ent_password_reset_token_field_consumed_time)]"

definition ent_password_reset_token_reset_field :: "string \<Rightarrow> mutation \<Rightarrow> err + mutation" where
  "ent_password_reset_token_reset_field = reset_switch ''PasswordResetToken'' [(''user_id'', ent_password_reset_token_field_user_id),
     (''token_hash'', ent_password_reset_token_field_token_hash),
     (''expires_time'', ent_password_reset_token_field_expires_time),
     (''consumed_time'', ent_password_reset_token_field_consumed_time),
     (''create_time'', ent_password_reset_token_field_create_time)]"

definition ent_password_reset_token_create_defaults :: "(nat \<Rightarrow> time) \<Rightarrow> mutation \<Rightarrow> mutation" where
  "ent_password_reset_token_create_defaults = defaulted [
     set_default (descriptor ent_password_reset_token_runtime ent_password_reset_token_schema ''DefaultCreateTime'') ent_password_reset_token_field_create_time]"

definition ent_password_reset_token_create_check :: "mutation \<Rightarrow> ent_error option" where
  "ent_password_reset_token_create_check = first_error [
     required ent_password_reset_token_field_user_id ''user_id'',
     valid (descriptor ent_password_reset_token_runtime ent_password_reset_token_schema ''UserIDValidator'') ent_password_reset_token_field_user_id ''user_id'',
     required ent_password_reset_token_field_token_hash ''token_hash'',
     valid (descriptor ent_password_reset_token_runtime ent_password_reset_token_schema ''TokenHashValidator'') ent_password_reset_token_field_token_hash ''token_hash'',
     required ent_password_reset_token_field_expires_time ''expires_time'',
     required ent_password_reset_token_field_create_time ''create_time'']"

definition ent_password_reset_token_zero :: "entity" where
  "ent_password_reset_token_zero = map_of [(''id'', VString []), (''user_id'', VString []), (''token_hash'', VString []), (''expires_time'', VTime 0),
     (''create_time'', VTime 0)]"

definition ent_password_reset_token_create_spec :: "mutation \<Rightarrow> create_spec" where
  "ent_password_reset_token_create_spec = create_steps ent_password_reset_token_zero [created_id, created ent_password_reset_token_field_user_id ''user_id'',
     created ent_password_reset_token_field_token_hash ''token_hash'',
     created ent_password_reset_token_field_expires_time ''expires_time'',
     created ent_password_reset_token_field_consumed_time ''consumed_time'',
     created ent_password_reset_token_field_create_time ''create_time'']"

definition ent_password_reset_token_update_defaults :: "(nat \<Rightarrow> time) \<Rightarrow> mutation \<Rightarrow> mutation" where
  "ent_password_reset_token_update_defaults = defaulted []"

definition ent_password_reset_token_update :: "mutation \<Rightarrow> ent_error + assignment list" where
  "ent_password_reset_token_update = update_steps [
     valid (descriptor ent_password_reset_token_runtime ent_password_reset_token_schema ''TokenHashValidator'') ent_password_reset_token_field_token_hash ''token_hash''] [
     assign_set ent_password_reset_token_field_token_hash ''token_hash'',
     assign_set ent_password_reset_token_field_consumed_time ''consumed_time'',
     assign_clear ent_password_reset_token_field_consumed_time ''consumed_time'']"

definition ent_password_reset_token_columns :: "string list" where
  "ent_password_reset_token_columns = [''id'', ''user_id'', ''token_hash'', ''expires_time'', ''consumed_time'', ''create_time'']"

definition ent_password_reset_token_update_one :: "string list \<Rightarrow> mutation
    \<Rightarrow> ent_error + go_value \<times> string list \<times> assignment list" where
  "ent_password_reset_token_update_one = update_one_steps ent_password_reset_token_columns [
     valid (descriptor ent_password_reset_token_runtime ent_password_reset_token_schema ''TokenHashValidator'') ent_password_reset_token_field_token_hash ''token_hash''] [
     assign_set ent_password_reset_token_field_token_hash ''token_hash'',
     assign_set ent_password_reset_token_field_consumed_time ''consumed_time'',
     assign_clear ent_password_reset_token_field_consumed_time ''consumed_time'']"

definition ent_password_reset_token_scan_values :: "string \<Rightarrow> scan_type" where
  "ent_password_reset_token_scan_values = scan_switch [
     ([''id'', ''user_id'', ''token_hash''], NullString),
     ([''expires_time'', ''consumed_time'', ''create_time''], NullTime)]"

definition ent_password_reset_token_assign_values :: "(string \<Rightarrow> err + string list) \<Rightarrow> string list \<Rightarrow> sql_cell list \<Rightarrow> entity \<Rightarrow> err + entity" where
  "ent_password_reset_token_assign_values = assign_row [(''id'', take_cell TString ''id''), (''user_id'', take_cell TString ''user_id''),
     (''token_hash'', take_cell TString ''token_hash''), (''expires_time'', take_cell TTime ''expires_time''),
     (''consumed_time'', take_cell TTime ''consumed_time''), (''create_time'', take_cell TTime ''create_time'')]"

definition ent_password_reset_token_code :: entity_code where
  "ent_password_reset_token_code = \<lparr>ey_columns = ent_password_reset_token_columns, ey_zero = ent_password_reset_token_zero, ey_new = new_ent_password_reset_token_mutation,
     ey_fields = ent_password_reset_token_fields, ey_field = ent_password_reset_token_field, ey_old_field = ent_password_reset_token_old_field, ey_set_field = ent_password_reset_token_set_field,
     ey_cleared_fields = ent_password_reset_token_cleared_fields, ey_clear_field = ent_password_reset_token_clear_field, ey_reset_field = ent_password_reset_token_reset_field,
     ey_defaults = ent_password_reset_token_create_defaults, ey_check = ent_password_reset_token_create_check, ey_create_spec = ent_password_reset_token_create_spec,
     ey_update_defaults = ent_password_reset_token_update_defaults, ey_update = ent_password_reset_token_update, ey_update_one = ent_password_reset_token_update_one,
     ey_scan = ent_password_reset_token_scan_values, ey_assign = ent_password_reset_token_assign_values\<rparr>"

lemmas ent_password_reset_token_defs = ent_password_reset_token_schema_def ent_password_reset_token_runtime_def
  ent_password_reset_token_field_user_id_def ent_password_reset_token_field_token_hash_def
  ent_password_reset_token_field_expires_time_def ent_password_reset_token_field_consumed_time_def
  ent_password_reset_token_field_create_time_def new_ent_password_reset_token_mutation_def
  ent_password_reset_token_fields_def ent_password_reset_token_field_def
  ent_password_reset_token_old_field_def ent_password_reset_token_set_field_def
  ent_password_reset_token_cleared_fields_def ent_password_reset_token_clear_field_def
  ent_password_reset_token_reset_field_def ent_password_reset_token_create_defaults_def
  ent_password_reset_token_create_check_def ent_password_reset_token_zero_def
  ent_password_reset_token_create_spec_def ent_password_reset_token_update_defaults_def
  ent_password_reset_token_update_def ent_password_reset_token_columns_def
  ent_password_reset_token_update_one_def ent_password_reset_token_scan_values_def
  ent_password_reset_token_assign_values_def ent_password_reset_token_code_def

lemma ent_password_reset_token_scan: "ent_password_reset_token_scan_values = ey_scan (reference ''PasswordResetToken'' TString True (tl ent_password_reset_token_schema))"
  unfolding ent_password_reset_token_scan_values_def by (rule scan_referenceI) code_simp+

lemma ent_password_reset_token_is_reference: "ent_password_reset_token_code = reference ''PasswordResetToken'' TString True (tl ent_password_reset_token_schema)"
  using ent_password_reset_token_scan by (simp add: ent_password_reset_token_defs reference_simps)

section \<open>IAMLoginSession\<close>

definition ent_iam_login_session_schema :: "column list" where
  "ent_iam_login_session_schema = [
     (field_of TString ''id'' ''ID'')\<lparr>cl_immutable := True\<rparr>,
     (field_of TString ''user_id'' ''UserID'')\<lparr>cl_not_empty := True, cl_immutable := True\<rparr>,
     (field_of TString ''secret_hash'' ''SecretHash'')\<lparr>cl_not_empty := True\<rparr>,
     (field_of TTime ''create_time'' ''CreateTime'')\<lparr>cl_default := Some DefaultNow, cl_immutable := True\<rparr>,
     (field_of TTime ''last_seen_time'' ''LastSeenTime'')\<lparr>cl_default := Some DefaultNow\<rparr>,
     (field_of TTime ''idle_expires_time'' ''IdleExpiresTime''),
     (field_of TTime ''absolute_expires_time'' ''AbsoluteExpiresTime'')\<lparr>cl_immutable := True\<rparr>,
     (field_of TTime ''revoked_time'' ''RevokedTime'')\<lparr>cl_optional := True, cl_nillable := True\<rparr>]"

definition ent_iam_login_session_runtime :: "(string \<times> nat) list" where
  "ent_iam_login_session_runtime = [(''UserIDValidator'', 1), (''SecretHashValidator'', 2), (''DefaultCreateTime'', 3),
     (''DefaultLastSeenTime'', 4)]"

definition ent_iam_login_session_field_user_id :: "field_methods" where
  "ent_iam_login_session_field_user_id = plain_field ''user_id'' ''UserID''"

definition ent_iam_login_session_field_secret_hash :: "field_methods" where
  "ent_iam_login_session_field_secret_hash = plain_field ''secret_hash'' ''SecretHash''"

definition ent_iam_login_session_field_create_time :: "field_methods" where
  "ent_iam_login_session_field_create_time = plain_field ''create_time'' ''CreateTime''"

definition ent_iam_login_session_field_last_seen_time :: "field_methods" where
  "ent_iam_login_session_field_last_seen_time = plain_field ''last_seen_time'' ''LastSeenTime''"

definition ent_iam_login_session_field_idle_expires_time :: "field_methods" where
  "ent_iam_login_session_field_idle_expires_time = plain_field ''idle_expires_time'' ''IdleExpiresTime''"

definition ent_iam_login_session_field_absolute_expires_time :: "field_methods" where
  "ent_iam_login_session_field_absolute_expires_time = plain_field ''absolute_expires_time'' ''AbsoluteExpiresTime''"

definition ent_iam_login_session_field_revoked_time :: "field_methods" where
  "ent_iam_login_session_field_revoked_time = nullable_field ''revoked_time'' ''RevokedTime''"

definition new_ent_iam_login_session_mutation :: "ent_op \<Rightarrow> mutation" where
  "new_ent_iam_login_session_mutation = new_mutation ''IAMLoginSession''"

definition ent_iam_login_session_fields :: "mutation \<Rightarrow> string list" where
  "ent_iam_login_session_fields = listed [if_set ent_iam_login_session_field_user_id ''user_id'',
     if_set ent_iam_login_session_field_secret_hash ''secret_hash'',
     if_set ent_iam_login_session_field_create_time ''create_time'',
     if_set ent_iam_login_session_field_last_seen_time ''last_seen_time'',
     if_set ent_iam_login_session_field_idle_expires_time ''idle_expires_time'',
     if_set ent_iam_login_session_field_absolute_expires_time ''absolute_expires_time'',
     if_set ent_iam_login_session_field_revoked_time ''revoked_time'']"

definition ent_iam_login_session_field :: "string \<Rightarrow> mutation \<Rightarrow> go_value option" where
  "ent_iam_login_session_field = get_switch [(''user_id'', ent_iam_login_session_field_user_id),
     (''secret_hash'', ent_iam_login_session_field_secret_hash),
     (''create_time'', ent_iam_login_session_field_create_time),
     (''last_seen_time'', ent_iam_login_session_field_last_seen_time),
     (''idle_expires_time'', ent_iam_login_session_field_idle_expires_time),
     (''absolute_expires_time'', ent_iam_login_session_field_absolute_expires_time),
     (''revoked_time'', ent_iam_login_session_field_revoked_time)]"

definition ent_iam_login_session_old_field :: "(go_value \<Rightarrow> err + entity) \<Rightarrow> string \<Rightarrow> mutation
    \<Rightarrow> (err + go_value option) \<times> mutation" where
  "ent_iam_login_session_old_field = old_switch ''IAMLoginSession'' [(''user_id'', ent_iam_login_session_field_user_id),
     (''secret_hash'', ent_iam_login_session_field_secret_hash),
     (''create_time'', ent_iam_login_session_field_create_time),
     (''last_seen_time'', ent_iam_login_session_field_last_seen_time),
     (''idle_expires_time'', ent_iam_login_session_field_idle_expires_time),
     (''absolute_expires_time'', ent_iam_login_session_field_absolute_expires_time),
     (''revoked_time'', ent_iam_login_session_field_revoked_time)]"

definition ent_iam_login_session_set_field :: "string \<Rightarrow> go_value \<Rightarrow> mutation \<Rightarrow> err + mutation" where
  "ent_iam_login_session_set_field = set_switch ''IAMLoginSession'' [(''user_id'', TString, ent_iam_login_session_field_user_id),
     (''secret_hash'', TString, ent_iam_login_session_field_secret_hash),
     (''create_time'', TTime, ent_iam_login_session_field_create_time),
     (''last_seen_time'', TTime, ent_iam_login_session_field_last_seen_time),
     (''idle_expires_time'', TTime, ent_iam_login_session_field_idle_expires_time),
     (''absolute_expires_time'', TTime, ent_iam_login_session_field_absolute_expires_time),
     (''revoked_time'', TTime, ent_iam_login_session_field_revoked_time)]"

definition ent_iam_login_session_cleared_fields :: "mutation \<Rightarrow> string list" where
  "ent_iam_login_session_cleared_fields = listed [if_cleared ''revoked_time'']"

definition ent_iam_login_session_clear_field :: "string \<Rightarrow> mutation \<Rightarrow> err + mutation" where
  "ent_iam_login_session_clear_field = clear_switch ''IAMLoginSession'' [(''revoked_time'', ent_iam_login_session_field_revoked_time)]"

definition ent_iam_login_session_reset_field :: "string \<Rightarrow> mutation \<Rightarrow> err + mutation" where
  "ent_iam_login_session_reset_field = reset_switch ''IAMLoginSession'' [(''user_id'', ent_iam_login_session_field_user_id),
     (''secret_hash'', ent_iam_login_session_field_secret_hash),
     (''create_time'', ent_iam_login_session_field_create_time),
     (''last_seen_time'', ent_iam_login_session_field_last_seen_time),
     (''idle_expires_time'', ent_iam_login_session_field_idle_expires_time),
     (''absolute_expires_time'', ent_iam_login_session_field_absolute_expires_time),
     (''revoked_time'', ent_iam_login_session_field_revoked_time)]"

definition ent_iam_login_session_create_defaults :: "(nat \<Rightarrow> time) \<Rightarrow> mutation \<Rightarrow> mutation" where
  "ent_iam_login_session_create_defaults = defaulted [
     set_default (descriptor ent_iam_login_session_runtime ent_iam_login_session_schema ''DefaultCreateTime'') ent_iam_login_session_field_create_time,
     set_default (descriptor ent_iam_login_session_runtime ent_iam_login_session_schema ''DefaultLastSeenTime'') ent_iam_login_session_field_last_seen_time]"

definition ent_iam_login_session_create_check :: "mutation \<Rightarrow> ent_error option" where
  "ent_iam_login_session_create_check = first_error [
     required ent_iam_login_session_field_user_id ''user_id'',
     valid (descriptor ent_iam_login_session_runtime ent_iam_login_session_schema ''UserIDValidator'') ent_iam_login_session_field_user_id ''user_id'',
     required ent_iam_login_session_field_secret_hash ''secret_hash'',
     valid (descriptor ent_iam_login_session_runtime ent_iam_login_session_schema ''SecretHashValidator'') ent_iam_login_session_field_secret_hash ''secret_hash'',
     required ent_iam_login_session_field_create_time ''create_time'',
     required ent_iam_login_session_field_last_seen_time ''last_seen_time'',
     required ent_iam_login_session_field_idle_expires_time ''idle_expires_time'',
     required ent_iam_login_session_field_absolute_expires_time ''absolute_expires_time'']"

definition ent_iam_login_session_zero :: "entity" where
  "ent_iam_login_session_zero = map_of [(''id'', VString []), (''user_id'', VString []), (''secret_hash'', VString []), (''create_time'', VTime 0),
     (''last_seen_time'', VTime 0), (''idle_expires_time'', VTime 0), (''absolute_expires_time'', VTime 0)]"

definition ent_iam_login_session_create_spec :: "mutation \<Rightarrow> create_spec" where
  "ent_iam_login_session_create_spec = create_steps ent_iam_login_session_zero [created_id, created ent_iam_login_session_field_user_id ''user_id'',
     created ent_iam_login_session_field_secret_hash ''secret_hash'',
     created ent_iam_login_session_field_create_time ''create_time'',
     created ent_iam_login_session_field_last_seen_time ''last_seen_time'',
     created ent_iam_login_session_field_idle_expires_time ''idle_expires_time'',
     created ent_iam_login_session_field_absolute_expires_time ''absolute_expires_time'',
     created ent_iam_login_session_field_revoked_time ''revoked_time'']"

definition ent_iam_login_session_update_defaults :: "(nat \<Rightarrow> time) \<Rightarrow> mutation \<Rightarrow> mutation" where
  "ent_iam_login_session_update_defaults = defaulted []"

definition ent_iam_login_session_update :: "mutation \<Rightarrow> ent_error + assignment list" where
  "ent_iam_login_session_update = update_steps [
     valid (descriptor ent_iam_login_session_runtime ent_iam_login_session_schema ''SecretHashValidator'') ent_iam_login_session_field_secret_hash ''secret_hash''] [
     assign_set ent_iam_login_session_field_secret_hash ''secret_hash'',
     assign_set ent_iam_login_session_field_last_seen_time ''last_seen_time'',
     assign_set ent_iam_login_session_field_idle_expires_time ''idle_expires_time'',
     assign_set ent_iam_login_session_field_revoked_time ''revoked_time'',
     assign_clear ent_iam_login_session_field_revoked_time ''revoked_time'']"

definition ent_iam_login_session_columns :: "string list" where
  "ent_iam_login_session_columns = [''id'', ''user_id'', ''secret_hash'', ''create_time'', ''last_seen_time'', ''idle_expires_time'',
     ''absolute_expires_time'', ''revoked_time'']"

definition ent_iam_login_session_update_one :: "string list \<Rightarrow> mutation
    \<Rightarrow> ent_error + go_value \<times> string list \<times> assignment list" where
  "ent_iam_login_session_update_one = update_one_steps ent_iam_login_session_columns [
     valid (descriptor ent_iam_login_session_runtime ent_iam_login_session_schema ''SecretHashValidator'') ent_iam_login_session_field_secret_hash ''secret_hash''] [
     assign_set ent_iam_login_session_field_secret_hash ''secret_hash'',
     assign_set ent_iam_login_session_field_last_seen_time ''last_seen_time'',
     assign_set ent_iam_login_session_field_idle_expires_time ''idle_expires_time'',
     assign_set ent_iam_login_session_field_revoked_time ''revoked_time'',
     assign_clear ent_iam_login_session_field_revoked_time ''revoked_time'']"

definition ent_iam_login_session_scan_values :: "string \<Rightarrow> scan_type" where
  "ent_iam_login_session_scan_values = scan_switch [
     ([''id'', ''user_id'', ''secret_hash''], NullString),
     ([''create_time'', ''last_seen_time'', ''idle_expires_time'', ''absolute_expires_time'', ''revoked_time''], NullTime)]"

definition ent_iam_login_session_assign_values :: "(string \<Rightarrow> err + string list) \<Rightarrow> string list \<Rightarrow> sql_cell list \<Rightarrow> entity \<Rightarrow> err + entity" where
  "ent_iam_login_session_assign_values = assign_row [(''id'', take_cell TString ''id''), (''user_id'', take_cell TString ''user_id''),
     (''secret_hash'', take_cell TString ''secret_hash''), (''create_time'', take_cell TTime ''create_time''),
     (''last_seen_time'', take_cell TTime ''last_seen_time''),
     (''idle_expires_time'', take_cell TTime ''idle_expires_time''),
     (''absolute_expires_time'', take_cell TTime ''absolute_expires_time''),
     (''revoked_time'', take_cell TTime ''revoked_time'')]"

definition ent_iam_login_session_code :: entity_code where
  "ent_iam_login_session_code = \<lparr>ey_columns = ent_iam_login_session_columns, ey_zero = ent_iam_login_session_zero, ey_new = new_ent_iam_login_session_mutation,
     ey_fields = ent_iam_login_session_fields, ey_field = ent_iam_login_session_field, ey_old_field = ent_iam_login_session_old_field, ey_set_field = ent_iam_login_session_set_field,
     ey_cleared_fields = ent_iam_login_session_cleared_fields, ey_clear_field = ent_iam_login_session_clear_field, ey_reset_field = ent_iam_login_session_reset_field,
     ey_defaults = ent_iam_login_session_create_defaults, ey_check = ent_iam_login_session_create_check, ey_create_spec = ent_iam_login_session_create_spec,
     ey_update_defaults = ent_iam_login_session_update_defaults, ey_update = ent_iam_login_session_update, ey_update_one = ent_iam_login_session_update_one,
     ey_scan = ent_iam_login_session_scan_values, ey_assign = ent_iam_login_session_assign_values\<rparr>"

lemmas ent_iam_login_session_defs = ent_iam_login_session_schema_def ent_iam_login_session_runtime_def ent_iam_login_session_field_user_id_def
  ent_iam_login_session_field_secret_hash_def ent_iam_login_session_field_create_time_def
  ent_iam_login_session_field_last_seen_time_def ent_iam_login_session_field_idle_expires_time_def
  ent_iam_login_session_field_absolute_expires_time_def ent_iam_login_session_field_revoked_time_def
  new_ent_iam_login_session_mutation_def ent_iam_login_session_fields_def ent_iam_login_session_field_def
  ent_iam_login_session_old_field_def ent_iam_login_session_set_field_def
  ent_iam_login_session_cleared_fields_def ent_iam_login_session_clear_field_def
  ent_iam_login_session_reset_field_def ent_iam_login_session_create_defaults_def
  ent_iam_login_session_create_check_def ent_iam_login_session_zero_def ent_iam_login_session_create_spec_def
  ent_iam_login_session_update_defaults_def ent_iam_login_session_update_def
  ent_iam_login_session_columns_def ent_iam_login_session_update_one_def
  ent_iam_login_session_scan_values_def ent_iam_login_session_assign_values_def ent_iam_login_session_code_def

lemma ent_iam_login_session_scan: "ent_iam_login_session_scan_values = ey_scan (reference ''IAMLoginSession'' TString True (tl ent_iam_login_session_schema))"
  unfolding ent_iam_login_session_scan_values_def by (rule scan_referenceI) code_simp+

lemma ent_iam_login_session_is_reference: "ent_iam_login_session_code = reference ''IAMLoginSession'' TString True (tl ent_iam_login_session_schema)"
  using ent_iam_login_session_scan by (simp add: ent_iam_login_session_defs reference_simps)

end
