(* ===== verification/EntWhereAccounts.thy ===== *)
theory EntWhereAccounts
  imports EntWhere EntAccounts
begin

text \<open>
  The generated predicates (\<open>where.go\<close>) of users, their identifiers and authenticators, mailed tokens and login sessions, one definition per
  field with the functions in the order of the file.
\<close>

section \<open>User\<close>

definition ent_user_where_id :: "(string \<times> filter_method) list" where
  "ent_user_where_id = [
     (''ID'', OnOne TString (FieldEQ ''id'')), (''IDEQ'', OnOne TString (FieldEQ ''id'')),
     (''IDNEQ'', OnOne TString (FieldNEQ ''id'')), (''IDIn'', OnMany TString (FieldIn ''id'')),
     (''IDNotIn'', OnMany TString (FieldNotIn ''id'')), (''IDGT'', OnOne TString (FieldGT ''id'')),
     (''IDGTE'', OnOne TString (FieldGTE ''id'')), (''IDLT'', OnOne TString (FieldLT ''id'')),
     (''IDLTE'', OnOne TString (FieldLTE ''id'')), (''IDEqualFold'', OnOne TString (FieldEqualFold ''id'')),
     (''IDContainsFold'', OnOne TString (FieldContainsFold ''id''))]"

definition ent_user_where_shortcuts :: "(string \<times> filter_method) list" where
  "ent_user_where_shortcuts = [
     (''Status'', OnOne TString (FieldEQ ''status'')), (''Name'', OnOne TString (FieldEQ ''name'')),
     (''GivenName'', OnOne TString (FieldEQ ''given_name'')),
     (''FamilyName'', OnOne TString (FieldEQ ''family_name'')),
     (''Nickname'', OnOne TString (FieldEQ ''nickname'')),
     (''PreferredUsername'', OnOne TString (FieldEQ ''preferred_username'')),
     (''Picture'', OnOne TString (FieldEQ ''picture'')), (''Locale'', OnOne TString (FieldEQ ''locale'')),
     (''Etag'', OnOne TString (FieldEQ ''etag'')), (''CreateTime'', OnOne TTime (FieldEQ ''create_time'')),
     (''UpdateTime'', OnOne TTime (FieldEQ ''update_time''))]"

definition ent_user_where_status :: "(string \<times> filter_method) list" where
  "ent_user_where_status = [
     (''StatusEQ'', OnOne TString (FieldEQ ''status'')), (''StatusNEQ'', OnOne TString (FieldNEQ ''status'')),
     (''StatusIn'', OnMany TString (FieldIn ''status'')),
     (''StatusNotIn'', OnMany TString (FieldNotIn ''status'')),
     (''StatusGT'', OnOne TString (FieldGT ''status'')), (''StatusGTE'', OnOne TString (FieldGTE ''status'')),
     (''StatusLT'', OnOne TString (FieldLT ''status'')), (''StatusLTE'', OnOne TString (FieldLTE ''status'')),
     (''StatusContains'', OnOne TString (FieldContains ''status'')),
     (''StatusHasPrefix'', OnOne TString (FieldHasPrefix ''status'')),
     (''StatusHasSuffix'', OnOne TString (FieldHasSuffix ''status'')),
     (''StatusEqualFold'', OnOne TString (FieldEqualFold ''status'')),
     (''StatusContainsFold'', OnOne TString (FieldContainsFold ''status''))]"

definition ent_user_where_name :: "(string \<times> filter_method) list" where
  "ent_user_where_name = [
     (''NameEQ'', OnOne TString (FieldEQ ''name'')), (''NameNEQ'', OnOne TString (FieldNEQ ''name'')),
     (''NameIn'', OnMany TString (FieldIn ''name'')), (''NameNotIn'', OnMany TString (FieldNotIn ''name'')),
     (''NameGT'', OnOne TString (FieldGT ''name'')), (''NameGTE'', OnOne TString (FieldGTE ''name'')),
     (''NameLT'', OnOne TString (FieldLT ''name'')), (''NameLTE'', OnOne TString (FieldLTE ''name'')),
     (''NameContains'', OnOne TString (FieldContains ''name'')),
     (''NameHasPrefix'', OnOne TString (FieldHasPrefix ''name'')),
     (''NameHasSuffix'', OnOne TString (FieldHasSuffix ''name'')),
     (''NameIsNil'', OnNone (FieldIsNull ''name'')), (''NameNotNil'', OnNone (FieldNotNull ''name'')),
     (''NameEqualFold'', OnOne TString (FieldEqualFold ''name'')),
     (''NameContainsFold'', OnOne TString (FieldContainsFold ''name''))]"

definition ent_user_where_given_name :: "(string \<times> filter_method) list" where
  "ent_user_where_given_name = [
     (''GivenNameEQ'', OnOne TString (FieldEQ ''given_name'')),
     (''GivenNameNEQ'', OnOne TString (FieldNEQ ''given_name'')),
     (''GivenNameIn'', OnMany TString (FieldIn ''given_name'')),
     (''GivenNameNotIn'', OnMany TString (FieldNotIn ''given_name'')),
     (''GivenNameGT'', OnOne TString (FieldGT ''given_name'')),
     (''GivenNameGTE'', OnOne TString (FieldGTE ''given_name'')),
     (''GivenNameLT'', OnOne TString (FieldLT ''given_name'')),
     (''GivenNameLTE'', OnOne TString (FieldLTE ''given_name'')),
     (''GivenNameContains'', OnOne TString (FieldContains ''given_name'')),
     (''GivenNameHasPrefix'', OnOne TString (FieldHasPrefix ''given_name'')),
     (''GivenNameHasSuffix'', OnOne TString (FieldHasSuffix ''given_name'')),
     (''GivenNameIsNil'', OnNone (FieldIsNull ''given_name'')),
     (''GivenNameNotNil'', OnNone (FieldNotNull ''given_name'')),
     (''GivenNameEqualFold'', OnOne TString (FieldEqualFold ''given_name'')),
     (''GivenNameContainsFold'', OnOne TString (FieldContainsFold ''given_name''))]"

definition ent_user_where_family_name :: "(string \<times> filter_method) list" where
  "ent_user_where_family_name = [
     (''FamilyNameEQ'', OnOne TString (FieldEQ ''family_name'')),
     (''FamilyNameNEQ'', OnOne TString (FieldNEQ ''family_name'')),
     (''FamilyNameIn'', OnMany TString (FieldIn ''family_name'')),
     (''FamilyNameNotIn'', OnMany TString (FieldNotIn ''family_name'')),
     (''FamilyNameGT'', OnOne TString (FieldGT ''family_name'')),
     (''FamilyNameGTE'', OnOne TString (FieldGTE ''family_name'')),
     (''FamilyNameLT'', OnOne TString (FieldLT ''family_name'')),
     (''FamilyNameLTE'', OnOne TString (FieldLTE ''family_name'')),
     (''FamilyNameContains'', OnOne TString (FieldContains ''family_name'')),
     (''FamilyNameHasPrefix'', OnOne TString (FieldHasPrefix ''family_name'')),
     (''FamilyNameHasSuffix'', OnOne TString (FieldHasSuffix ''family_name'')),
     (''FamilyNameIsNil'', OnNone (FieldIsNull ''family_name'')),
     (''FamilyNameNotNil'', OnNone (FieldNotNull ''family_name'')),
     (''FamilyNameEqualFold'', OnOne TString (FieldEqualFold ''family_name'')),
     (''FamilyNameContainsFold'', OnOne TString (FieldContainsFold ''family_name''))]"

definition ent_user_where_nickname :: "(string \<times> filter_method) list" where
  "ent_user_where_nickname = [
     (''NicknameEQ'', OnOne TString (FieldEQ ''nickname'')),
     (''NicknameNEQ'', OnOne TString (FieldNEQ ''nickname'')),
     (''NicknameIn'', OnMany TString (FieldIn ''nickname'')),
     (''NicknameNotIn'', OnMany TString (FieldNotIn ''nickname'')),
     (''NicknameGT'', OnOne TString (FieldGT ''nickname'')),
     (''NicknameGTE'', OnOne TString (FieldGTE ''nickname'')),
     (''NicknameLT'', OnOne TString (FieldLT ''nickname'')),
     (''NicknameLTE'', OnOne TString (FieldLTE ''nickname'')),
     (''NicknameContains'', OnOne TString (FieldContains ''nickname'')),
     (''NicknameHasPrefix'', OnOne TString (FieldHasPrefix ''nickname'')),
     (''NicknameHasSuffix'', OnOne TString (FieldHasSuffix ''nickname'')),
     (''NicknameIsNil'', OnNone (FieldIsNull ''nickname'')),
     (''NicknameNotNil'', OnNone (FieldNotNull ''nickname'')),
     (''NicknameEqualFold'', OnOne TString (FieldEqualFold ''nickname'')),
     (''NicknameContainsFold'', OnOne TString (FieldContainsFold ''nickname''))]"

definition ent_user_where_preferred_username :: "(string \<times> filter_method) list" where
  "ent_user_where_preferred_username = [
     (''PreferredUsernameEQ'', OnOne TString (FieldEQ ''preferred_username'')),
     (''PreferredUsernameNEQ'', OnOne TString (FieldNEQ ''preferred_username'')),
     (''PreferredUsernameIn'', OnMany TString (FieldIn ''preferred_username'')),
     (''PreferredUsernameNotIn'', OnMany TString (FieldNotIn ''preferred_username'')),
     (''PreferredUsernameGT'', OnOne TString (FieldGT ''preferred_username'')),
     (''PreferredUsernameGTE'', OnOne TString (FieldGTE ''preferred_username'')),
     (''PreferredUsernameLT'', OnOne TString (FieldLT ''preferred_username'')),
     (''PreferredUsernameLTE'', OnOne TString (FieldLTE ''preferred_username'')),
     (''PreferredUsernameContains'', OnOne TString (FieldContains ''preferred_username'')),
     (''PreferredUsernameHasPrefix'', OnOne TString (FieldHasPrefix ''preferred_username'')),
     (''PreferredUsernameHasSuffix'', OnOne TString (FieldHasSuffix ''preferred_username'')),
     (''PreferredUsernameIsNil'', OnNone (FieldIsNull ''preferred_username'')),
     (''PreferredUsernameNotNil'', OnNone (FieldNotNull ''preferred_username'')),
     (''PreferredUsernameEqualFold'', OnOne TString (FieldEqualFold ''preferred_username'')),
     (''PreferredUsernameContainsFold'', OnOne TString (FieldContainsFold ''preferred_username''))]"

definition ent_user_where_picture :: "(string \<times> filter_method) list" where
  "ent_user_where_picture = [
     (''PictureEQ'', OnOne TString (FieldEQ ''picture'')),
     (''PictureNEQ'', OnOne TString (FieldNEQ ''picture'')),
     (''PictureIn'', OnMany TString (FieldIn ''picture'')),
     (''PictureNotIn'', OnMany TString (FieldNotIn ''picture'')),
     (''PictureGT'', OnOne TString (FieldGT ''picture'')),
     (''PictureGTE'', OnOne TString (FieldGTE ''picture'')),
     (''PictureLT'', OnOne TString (FieldLT ''picture'')),
     (''PictureLTE'', OnOne TString (FieldLTE ''picture'')),
     (''PictureContains'', OnOne TString (FieldContains ''picture'')),
     (''PictureHasPrefix'', OnOne TString (FieldHasPrefix ''picture'')),
     (''PictureHasSuffix'', OnOne TString (FieldHasSuffix ''picture'')),
     (''PictureIsNil'', OnNone (FieldIsNull ''picture'')),
     (''PictureNotNil'', OnNone (FieldNotNull ''picture'')),
     (''PictureEqualFold'', OnOne TString (FieldEqualFold ''picture'')),
     (''PictureContainsFold'', OnOne TString (FieldContainsFold ''picture''))]"

definition ent_user_where_locale :: "(string \<times> filter_method) list" where
  "ent_user_where_locale = [
     (''LocaleEQ'', OnOne TString (FieldEQ ''locale'')), (''LocaleNEQ'', OnOne TString (FieldNEQ ''locale'')),
     (''LocaleIn'', OnMany TString (FieldIn ''locale'')),
     (''LocaleNotIn'', OnMany TString (FieldNotIn ''locale'')),
     (''LocaleGT'', OnOne TString (FieldGT ''locale'')), (''LocaleGTE'', OnOne TString (FieldGTE ''locale'')),
     (''LocaleLT'', OnOne TString (FieldLT ''locale'')), (''LocaleLTE'', OnOne TString (FieldLTE ''locale'')),
     (''LocaleContains'', OnOne TString (FieldContains ''locale'')),
     (''LocaleHasPrefix'', OnOne TString (FieldHasPrefix ''locale'')),
     (''LocaleHasSuffix'', OnOne TString (FieldHasSuffix ''locale'')),
     (''LocaleIsNil'', OnNone (FieldIsNull ''locale'')), (''LocaleNotNil'', OnNone (FieldNotNull ''locale'')),
     (''LocaleEqualFold'', OnOne TString (FieldEqualFold ''locale'')),
     (''LocaleContainsFold'', OnOne TString (FieldContainsFold ''locale''))]"

definition ent_user_where_etag :: "(string \<times> filter_method) list" where
  "ent_user_where_etag = [
     (''EtagEQ'', OnOne TString (FieldEQ ''etag'')), (''EtagNEQ'', OnOne TString (FieldNEQ ''etag'')),
     (''EtagIn'', OnMany TString (FieldIn ''etag'')), (''EtagNotIn'', OnMany TString (FieldNotIn ''etag'')),
     (''EtagGT'', OnOne TString (FieldGT ''etag'')), (''EtagGTE'', OnOne TString (FieldGTE ''etag'')),
     (''EtagLT'', OnOne TString (FieldLT ''etag'')), (''EtagLTE'', OnOne TString (FieldLTE ''etag'')),
     (''EtagContains'', OnOne TString (FieldContains ''etag'')),
     (''EtagHasPrefix'', OnOne TString (FieldHasPrefix ''etag'')),
     (''EtagHasSuffix'', OnOne TString (FieldHasSuffix ''etag'')),
     (''EtagEqualFold'', OnOne TString (FieldEqualFold ''etag'')),
     (''EtagContainsFold'', OnOne TString (FieldContainsFold ''etag''))]"

definition ent_user_where_create_time :: "(string \<times> filter_method) list" where
  "ent_user_where_create_time = [
     (''CreateTimeEQ'', OnOne TTime (FieldEQ ''create_time'')),
     (''CreateTimeNEQ'', OnOne TTime (FieldNEQ ''create_time'')),
     (''CreateTimeIn'', OnMany TTime (FieldIn ''create_time'')),
     (''CreateTimeNotIn'', OnMany TTime (FieldNotIn ''create_time'')),
     (''CreateTimeGT'', OnOne TTime (FieldGT ''create_time'')),
     (''CreateTimeGTE'', OnOne TTime (FieldGTE ''create_time'')),
     (''CreateTimeLT'', OnOne TTime (FieldLT ''create_time'')),
     (''CreateTimeLTE'', OnOne TTime (FieldLTE ''create_time''))]"

definition ent_user_where_update_time :: "(string \<times> filter_method) list" where
  "ent_user_where_update_time = [
     (''UpdateTimeEQ'', OnOne TTime (FieldEQ ''update_time'')),
     (''UpdateTimeNEQ'', OnOne TTime (FieldNEQ ''update_time'')),
     (''UpdateTimeIn'', OnMany TTime (FieldIn ''update_time'')),
     (''UpdateTimeNotIn'', OnMany TTime (FieldNotIn ''update_time'')),
     (''UpdateTimeGT'', OnOne TTime (FieldGT ''update_time'')),
     (''UpdateTimeGTE'', OnOne TTime (FieldGTE ''update_time'')),
     (''UpdateTimeLT'', OnOne TTime (FieldLT ''update_time'')),
     (''UpdateTimeLTE'', OnOne TTime (FieldLTE ''update_time''))]"

definition ent_user_where_groups :: "(string \<times> filter_method) list" where
  "ent_user_where_groups = [
     (''And'', OnPreds AndPredicates), (''Or'', OnPreds OrPredicates), (''Not'', OnPred NotPredicates)]"

definition ent_user_where :: "(string \<times> filter_method) list" where
  "ent_user_where = concat [ent_user_where_id, ent_user_where_shortcuts, ent_user_where_status, ent_user_where_name,
     ent_user_where_given_name, ent_user_where_family_name, ent_user_where_nickname,
     ent_user_where_preferred_username, ent_user_where_picture, ent_user_where_locale, ent_user_where_etag,
     ent_user_where_create_time, ent_user_where_update_time, ent_user_where_groups]"

lemmas ent_user_where_defs = ent_user_where_id_def ent_user_where_shortcuts_def ent_user_where_status_def ent_user_where_name_def
  ent_user_where_given_name_def ent_user_where_family_name_def ent_user_where_nickname_def
  ent_user_where_preferred_username_def ent_user_where_picture_def ent_user_where_locale_def
  ent_user_where_etag_def ent_user_where_create_time_def ent_user_where_update_time_def
  ent_user_where_groups_def ent_user_where_def ent_user_schema_def

lemma ent_user_where_is_reference: "ent_user_where = where_reference TString (tl ent_user_schema)"
  by (simp add: ent_user_where_defs where_reference_simps)

section \<open>LoginIdentifier\<close>

definition ent_login_identifier_where_id :: "(string \<times> filter_method) list" where
  "ent_login_identifier_where_id = [
     (''ID'', OnOne TString (FieldEQ ''id'')), (''IDEQ'', OnOne TString (FieldEQ ''id'')),
     (''IDNEQ'', OnOne TString (FieldNEQ ''id'')), (''IDIn'', OnMany TString (FieldIn ''id'')),
     (''IDNotIn'', OnMany TString (FieldNotIn ''id'')), (''IDGT'', OnOne TString (FieldGT ''id'')),
     (''IDGTE'', OnOne TString (FieldGTE ''id'')), (''IDLT'', OnOne TString (FieldLT ''id'')),
     (''IDLTE'', OnOne TString (FieldLTE ''id'')), (''IDEqualFold'', OnOne TString (FieldEqualFold ''id'')),
     (''IDContainsFold'', OnOne TString (FieldContainsFold ''id''))]"

definition ent_login_identifier_where_shortcuts :: "(string \<times> filter_method) list" where
  "ent_login_identifier_where_shortcuts = [
     (''UserID'', OnOne TString (FieldEQ ''user_id'')), (''Type'', OnOne TString (FieldEQ ''type'')),
     (''CanonicalValue'', OnOne TString (FieldEQ ''canonical_value'')),
     (''DisplayValue'', OnOne TString (FieldEQ ''display_value'')),
     (''VerifiedTime'', OnOne TTime (FieldEQ ''verified_time'')),
     (''CreateTime'', OnOne TTime (FieldEQ ''create_time'')),
     (''UpdateTime'', OnOne TTime (FieldEQ ''update_time''))]"

definition ent_login_identifier_where_user_id :: "(string \<times> filter_method) list" where
  "ent_login_identifier_where_user_id = [
     (''UserIDEQ'', OnOne TString (FieldEQ ''user_id'')), (''UserIDNEQ'', OnOne TString (FieldNEQ ''user_id'')),
     (''UserIDIn'', OnMany TString (FieldIn ''user_id'')),
     (''UserIDNotIn'', OnMany TString (FieldNotIn ''user_id'')),
     (''UserIDGT'', OnOne TString (FieldGT ''user_id'')), (''UserIDGTE'', OnOne TString (FieldGTE ''user_id'')),
     (''UserIDLT'', OnOne TString (FieldLT ''user_id'')), (''UserIDLTE'', OnOne TString (FieldLTE ''user_id'')),
     (''UserIDContains'', OnOne TString (FieldContains ''user_id'')),
     (''UserIDHasPrefix'', OnOne TString (FieldHasPrefix ''user_id'')),
     (''UserIDHasSuffix'', OnOne TString (FieldHasSuffix ''user_id'')),
     (''UserIDEqualFold'', OnOne TString (FieldEqualFold ''user_id'')),
     (''UserIDContainsFold'', OnOne TString (FieldContainsFold ''user_id''))]"

definition ent_login_identifier_where_type :: "(string \<times> filter_method) list" where
  "ent_login_identifier_where_type = [
     (''TypeEQ'', OnOne TString (FieldEQ ''type'')), (''TypeNEQ'', OnOne TString (FieldNEQ ''type'')),
     (''TypeIn'', OnMany TString (FieldIn ''type'')), (''TypeNotIn'', OnMany TString (FieldNotIn ''type'')),
     (''TypeGT'', OnOne TString (FieldGT ''type'')), (''TypeGTE'', OnOne TString (FieldGTE ''type'')),
     (''TypeLT'', OnOne TString (FieldLT ''type'')), (''TypeLTE'', OnOne TString (FieldLTE ''type'')),
     (''TypeContains'', OnOne TString (FieldContains ''type'')),
     (''TypeHasPrefix'', OnOne TString (FieldHasPrefix ''type'')),
     (''TypeHasSuffix'', OnOne TString (FieldHasSuffix ''type'')),
     (''TypeEqualFold'', OnOne TString (FieldEqualFold ''type'')),
     (''TypeContainsFold'', OnOne TString (FieldContainsFold ''type''))]"

definition ent_login_identifier_where_canonical_value :: "(string \<times> filter_method) list" where
  "ent_login_identifier_where_canonical_value = [
     (''CanonicalValueEQ'', OnOne TString (FieldEQ ''canonical_value'')),
     (''CanonicalValueNEQ'', OnOne TString (FieldNEQ ''canonical_value'')),
     (''CanonicalValueIn'', OnMany TString (FieldIn ''canonical_value'')),
     (''CanonicalValueNotIn'', OnMany TString (FieldNotIn ''canonical_value'')),
     (''CanonicalValueGT'', OnOne TString (FieldGT ''canonical_value'')),
     (''CanonicalValueGTE'', OnOne TString (FieldGTE ''canonical_value'')),
     (''CanonicalValueLT'', OnOne TString (FieldLT ''canonical_value'')),
     (''CanonicalValueLTE'', OnOne TString (FieldLTE ''canonical_value'')),
     (''CanonicalValueContains'', OnOne TString (FieldContains ''canonical_value'')),
     (''CanonicalValueHasPrefix'', OnOne TString (FieldHasPrefix ''canonical_value'')),
     (''CanonicalValueHasSuffix'', OnOne TString (FieldHasSuffix ''canonical_value'')),
     (''CanonicalValueEqualFold'', OnOne TString (FieldEqualFold ''canonical_value'')),
     (''CanonicalValueContainsFold'', OnOne TString (FieldContainsFold ''canonical_value''))]"

definition ent_login_identifier_where_display_value :: "(string \<times> filter_method) list" where
  "ent_login_identifier_where_display_value = [
     (''DisplayValueEQ'', OnOne TString (FieldEQ ''display_value'')),
     (''DisplayValueNEQ'', OnOne TString (FieldNEQ ''display_value'')),
     (''DisplayValueIn'', OnMany TString (FieldIn ''display_value'')),
     (''DisplayValueNotIn'', OnMany TString (FieldNotIn ''display_value'')),
     (''DisplayValueGT'', OnOne TString (FieldGT ''display_value'')),
     (''DisplayValueGTE'', OnOne TString (FieldGTE ''display_value'')),
     (''DisplayValueLT'', OnOne TString (FieldLT ''display_value'')),
     (''DisplayValueLTE'', OnOne TString (FieldLTE ''display_value'')),
     (''DisplayValueContains'', OnOne TString (FieldContains ''display_value'')),
     (''DisplayValueHasPrefix'', OnOne TString (FieldHasPrefix ''display_value'')),
     (''DisplayValueHasSuffix'', OnOne TString (FieldHasSuffix ''display_value'')),
     (''DisplayValueEqualFold'', OnOne TString (FieldEqualFold ''display_value'')),
     (''DisplayValueContainsFold'', OnOne TString (FieldContainsFold ''display_value''))]"

definition ent_login_identifier_where_verified_time :: "(string \<times> filter_method) list" where
  "ent_login_identifier_where_verified_time = [
     (''VerifiedTimeEQ'', OnOne TTime (FieldEQ ''verified_time'')),
     (''VerifiedTimeNEQ'', OnOne TTime (FieldNEQ ''verified_time'')),
     (''VerifiedTimeIn'', OnMany TTime (FieldIn ''verified_time'')),
     (''VerifiedTimeNotIn'', OnMany TTime (FieldNotIn ''verified_time'')),
     (''VerifiedTimeGT'', OnOne TTime (FieldGT ''verified_time'')),
     (''VerifiedTimeGTE'', OnOne TTime (FieldGTE ''verified_time'')),
     (''VerifiedTimeLT'', OnOne TTime (FieldLT ''verified_time'')),
     (''VerifiedTimeLTE'', OnOne TTime (FieldLTE ''verified_time'')),
     (''VerifiedTimeIsNil'', OnNone (FieldIsNull ''verified_time'')),
     (''VerifiedTimeNotNil'', OnNone (FieldNotNull ''verified_time''))]"

definition ent_login_identifier_where_create_time :: "(string \<times> filter_method) list" where
  "ent_login_identifier_where_create_time = [
     (''CreateTimeEQ'', OnOne TTime (FieldEQ ''create_time'')),
     (''CreateTimeNEQ'', OnOne TTime (FieldNEQ ''create_time'')),
     (''CreateTimeIn'', OnMany TTime (FieldIn ''create_time'')),
     (''CreateTimeNotIn'', OnMany TTime (FieldNotIn ''create_time'')),
     (''CreateTimeGT'', OnOne TTime (FieldGT ''create_time'')),
     (''CreateTimeGTE'', OnOne TTime (FieldGTE ''create_time'')),
     (''CreateTimeLT'', OnOne TTime (FieldLT ''create_time'')),
     (''CreateTimeLTE'', OnOne TTime (FieldLTE ''create_time''))]"

definition ent_login_identifier_where_update_time :: "(string \<times> filter_method) list" where
  "ent_login_identifier_where_update_time = [
     (''UpdateTimeEQ'', OnOne TTime (FieldEQ ''update_time'')),
     (''UpdateTimeNEQ'', OnOne TTime (FieldNEQ ''update_time'')),
     (''UpdateTimeIn'', OnMany TTime (FieldIn ''update_time'')),
     (''UpdateTimeNotIn'', OnMany TTime (FieldNotIn ''update_time'')),
     (''UpdateTimeGT'', OnOne TTime (FieldGT ''update_time'')),
     (''UpdateTimeGTE'', OnOne TTime (FieldGTE ''update_time'')),
     (''UpdateTimeLT'', OnOne TTime (FieldLT ''update_time'')),
     (''UpdateTimeLTE'', OnOne TTime (FieldLTE ''update_time''))]"

definition ent_login_identifier_where_groups :: "(string \<times> filter_method) list" where
  "ent_login_identifier_where_groups = [
     (''And'', OnPreds AndPredicates), (''Or'', OnPreds OrPredicates), (''Not'', OnPred NotPredicates)]"

definition ent_login_identifier_where :: "(string \<times> filter_method) list" where
  "ent_login_identifier_where = concat [ent_login_identifier_where_id, ent_login_identifier_where_shortcuts, ent_login_identifier_where_user_id,
     ent_login_identifier_where_type, ent_login_identifier_where_canonical_value,
     ent_login_identifier_where_display_value, ent_login_identifier_where_verified_time,
     ent_login_identifier_where_create_time, ent_login_identifier_where_update_time,
     ent_login_identifier_where_groups]"

lemmas ent_login_identifier_where_defs = ent_login_identifier_where_id_def ent_login_identifier_where_shortcuts_def
  ent_login_identifier_where_user_id_def ent_login_identifier_where_type_def
  ent_login_identifier_where_canonical_value_def ent_login_identifier_where_display_value_def
  ent_login_identifier_where_verified_time_def ent_login_identifier_where_create_time_def
  ent_login_identifier_where_update_time_def ent_login_identifier_where_groups_def
  ent_login_identifier_where_def ent_login_identifier_schema_def

lemma ent_login_identifier_where_is_reference: "ent_login_identifier_where = where_reference TString (tl ent_login_identifier_schema)"
  by (simp add: ent_login_identifier_where_defs where_reference_simps)

section \<open>Authenticator\<close>

definition ent_authenticator_where_id :: "(string \<times> filter_method) list" where
  "ent_authenticator_where_id = [
     (''ID'', OnOne TString (FieldEQ ''id'')), (''IDEQ'', OnOne TString (FieldEQ ''id'')),
     (''IDNEQ'', OnOne TString (FieldNEQ ''id'')), (''IDIn'', OnMany TString (FieldIn ''id'')),
     (''IDNotIn'', OnMany TString (FieldNotIn ''id'')), (''IDGT'', OnOne TString (FieldGT ''id'')),
     (''IDGTE'', OnOne TString (FieldGTE ''id'')), (''IDLT'', OnOne TString (FieldLT ''id'')),
     (''IDLTE'', OnOne TString (FieldLTE ''id'')), (''IDEqualFold'', OnOne TString (FieldEqualFold ''id'')),
     (''IDContainsFold'', OnOne TString (FieldContainsFold ''id''))]"

definition ent_authenticator_where_shortcuts :: "(string \<times> filter_method) list" where
  "ent_authenticator_where_shortcuts = [
     (''UserID'', OnOne TString (FieldEQ ''user_id'')), (''Type'', OnOne TString (FieldEQ ''type'')),
     (''State'', OnOne TString (FieldEQ ''state'')),
     (''DisplayName'', OnOne TString (FieldEQ ''display_name'')),
     (''VerifiedTime'', OnOne TTime (FieldEQ ''verified_time'')),
     (''LastUsedTime'', OnOne TTime (FieldEQ ''last_used_time'')),
     (''RevokedTime'', OnOne TTime (FieldEQ ''revoked_time'')),
     (''CreateTime'', OnOne TTime (FieldEQ ''create_time'')),
     (''UpdateTime'', OnOne TTime (FieldEQ ''update_time''))]"

definition ent_authenticator_where_user_id :: "(string \<times> filter_method) list" where
  "ent_authenticator_where_user_id = [
     (''UserIDEQ'', OnOne TString (FieldEQ ''user_id'')), (''UserIDNEQ'', OnOne TString (FieldNEQ ''user_id'')),
     (''UserIDIn'', OnMany TString (FieldIn ''user_id'')),
     (''UserIDNotIn'', OnMany TString (FieldNotIn ''user_id'')),
     (''UserIDGT'', OnOne TString (FieldGT ''user_id'')), (''UserIDGTE'', OnOne TString (FieldGTE ''user_id'')),
     (''UserIDLT'', OnOne TString (FieldLT ''user_id'')), (''UserIDLTE'', OnOne TString (FieldLTE ''user_id'')),
     (''UserIDContains'', OnOne TString (FieldContains ''user_id'')),
     (''UserIDHasPrefix'', OnOne TString (FieldHasPrefix ''user_id'')),
     (''UserIDHasSuffix'', OnOne TString (FieldHasSuffix ''user_id'')),
     (''UserIDEqualFold'', OnOne TString (FieldEqualFold ''user_id'')),
     (''UserIDContainsFold'', OnOne TString (FieldContainsFold ''user_id''))]"

definition ent_authenticator_where_type :: "(string \<times> filter_method) list" where
  "ent_authenticator_where_type = [
     (''TypeEQ'', OnOne TString (FieldEQ ''type'')), (''TypeNEQ'', OnOne TString (FieldNEQ ''type'')),
     (''TypeIn'', OnMany TString (FieldIn ''type'')), (''TypeNotIn'', OnMany TString (FieldNotIn ''type'')),
     (''TypeGT'', OnOne TString (FieldGT ''type'')), (''TypeGTE'', OnOne TString (FieldGTE ''type'')),
     (''TypeLT'', OnOne TString (FieldLT ''type'')), (''TypeLTE'', OnOne TString (FieldLTE ''type'')),
     (''TypeContains'', OnOne TString (FieldContains ''type'')),
     (''TypeHasPrefix'', OnOne TString (FieldHasPrefix ''type'')),
     (''TypeHasSuffix'', OnOne TString (FieldHasSuffix ''type'')),
     (''TypeEqualFold'', OnOne TString (FieldEqualFold ''type'')),
     (''TypeContainsFold'', OnOne TString (FieldContainsFold ''type''))]"

definition ent_authenticator_where_state :: "(string \<times> filter_method) list" where
  "ent_authenticator_where_state = [
     (''StateEQ'', OnOne TString (FieldEQ ''state'')), (''StateNEQ'', OnOne TString (FieldNEQ ''state'')),
     (''StateIn'', OnMany TString (FieldIn ''state'')), (''StateNotIn'', OnMany TString (FieldNotIn ''state'')),
     (''StateGT'', OnOne TString (FieldGT ''state'')), (''StateGTE'', OnOne TString (FieldGTE ''state'')),
     (''StateLT'', OnOne TString (FieldLT ''state'')), (''StateLTE'', OnOne TString (FieldLTE ''state'')),
     (''StateContains'', OnOne TString (FieldContains ''state'')),
     (''StateHasPrefix'', OnOne TString (FieldHasPrefix ''state'')),
     (''StateHasSuffix'', OnOne TString (FieldHasSuffix ''state'')),
     (''StateEqualFold'', OnOne TString (FieldEqualFold ''state'')),
     (''StateContainsFold'', OnOne TString (FieldContainsFold ''state''))]"

definition ent_authenticator_where_display_name :: "(string \<times> filter_method) list" where
  "ent_authenticator_where_display_name = [
     (''DisplayNameEQ'', OnOne TString (FieldEQ ''display_name'')),
     (''DisplayNameNEQ'', OnOne TString (FieldNEQ ''display_name'')),
     (''DisplayNameIn'', OnMany TString (FieldIn ''display_name'')),
     (''DisplayNameNotIn'', OnMany TString (FieldNotIn ''display_name'')),
     (''DisplayNameGT'', OnOne TString (FieldGT ''display_name'')),
     (''DisplayNameGTE'', OnOne TString (FieldGTE ''display_name'')),
     (''DisplayNameLT'', OnOne TString (FieldLT ''display_name'')),
     (''DisplayNameLTE'', OnOne TString (FieldLTE ''display_name'')),
     (''DisplayNameContains'', OnOne TString (FieldContains ''display_name'')),
     (''DisplayNameHasPrefix'', OnOne TString (FieldHasPrefix ''display_name'')),
     (''DisplayNameHasSuffix'', OnOne TString (FieldHasSuffix ''display_name'')),
     (''DisplayNameIsNil'', OnNone (FieldIsNull ''display_name'')),
     (''DisplayNameNotNil'', OnNone (FieldNotNull ''display_name'')),
     (''DisplayNameEqualFold'', OnOne TString (FieldEqualFold ''display_name'')),
     (''DisplayNameContainsFold'', OnOne TString (FieldContainsFold ''display_name''))]"

definition ent_authenticator_where_verified_time :: "(string \<times> filter_method) list" where
  "ent_authenticator_where_verified_time = [
     (''VerifiedTimeEQ'', OnOne TTime (FieldEQ ''verified_time'')),
     (''VerifiedTimeNEQ'', OnOne TTime (FieldNEQ ''verified_time'')),
     (''VerifiedTimeIn'', OnMany TTime (FieldIn ''verified_time'')),
     (''VerifiedTimeNotIn'', OnMany TTime (FieldNotIn ''verified_time'')),
     (''VerifiedTimeGT'', OnOne TTime (FieldGT ''verified_time'')),
     (''VerifiedTimeGTE'', OnOne TTime (FieldGTE ''verified_time'')),
     (''VerifiedTimeLT'', OnOne TTime (FieldLT ''verified_time'')),
     (''VerifiedTimeLTE'', OnOne TTime (FieldLTE ''verified_time'')),
     (''VerifiedTimeIsNil'', OnNone (FieldIsNull ''verified_time'')),
     (''VerifiedTimeNotNil'', OnNone (FieldNotNull ''verified_time''))]"

definition ent_authenticator_where_last_used_time :: "(string \<times> filter_method) list" where
  "ent_authenticator_where_last_used_time = [
     (''LastUsedTimeEQ'', OnOne TTime (FieldEQ ''last_used_time'')),
     (''LastUsedTimeNEQ'', OnOne TTime (FieldNEQ ''last_used_time'')),
     (''LastUsedTimeIn'', OnMany TTime (FieldIn ''last_used_time'')),
     (''LastUsedTimeNotIn'', OnMany TTime (FieldNotIn ''last_used_time'')),
     (''LastUsedTimeGT'', OnOne TTime (FieldGT ''last_used_time'')),
     (''LastUsedTimeGTE'', OnOne TTime (FieldGTE ''last_used_time'')),
     (''LastUsedTimeLT'', OnOne TTime (FieldLT ''last_used_time'')),
     (''LastUsedTimeLTE'', OnOne TTime (FieldLTE ''last_used_time'')),
     (''LastUsedTimeIsNil'', OnNone (FieldIsNull ''last_used_time'')),
     (''LastUsedTimeNotNil'', OnNone (FieldNotNull ''last_used_time''))]"

definition ent_authenticator_where_revoked_time :: "(string \<times> filter_method) list" where
  "ent_authenticator_where_revoked_time = [
     (''RevokedTimeEQ'', OnOne TTime (FieldEQ ''revoked_time'')),
     (''RevokedTimeNEQ'', OnOne TTime (FieldNEQ ''revoked_time'')),
     (''RevokedTimeIn'', OnMany TTime (FieldIn ''revoked_time'')),
     (''RevokedTimeNotIn'', OnMany TTime (FieldNotIn ''revoked_time'')),
     (''RevokedTimeGT'', OnOne TTime (FieldGT ''revoked_time'')),
     (''RevokedTimeGTE'', OnOne TTime (FieldGTE ''revoked_time'')),
     (''RevokedTimeLT'', OnOne TTime (FieldLT ''revoked_time'')),
     (''RevokedTimeLTE'', OnOne TTime (FieldLTE ''revoked_time'')),
     (''RevokedTimeIsNil'', OnNone (FieldIsNull ''revoked_time'')),
     (''RevokedTimeNotNil'', OnNone (FieldNotNull ''revoked_time''))]"

definition ent_authenticator_where_create_time :: "(string \<times> filter_method) list" where
  "ent_authenticator_where_create_time = [
     (''CreateTimeEQ'', OnOne TTime (FieldEQ ''create_time'')),
     (''CreateTimeNEQ'', OnOne TTime (FieldNEQ ''create_time'')),
     (''CreateTimeIn'', OnMany TTime (FieldIn ''create_time'')),
     (''CreateTimeNotIn'', OnMany TTime (FieldNotIn ''create_time'')),
     (''CreateTimeGT'', OnOne TTime (FieldGT ''create_time'')),
     (''CreateTimeGTE'', OnOne TTime (FieldGTE ''create_time'')),
     (''CreateTimeLT'', OnOne TTime (FieldLT ''create_time'')),
     (''CreateTimeLTE'', OnOne TTime (FieldLTE ''create_time''))]"

definition ent_authenticator_where_update_time :: "(string \<times> filter_method) list" where
  "ent_authenticator_where_update_time = [
     (''UpdateTimeEQ'', OnOne TTime (FieldEQ ''update_time'')),
     (''UpdateTimeNEQ'', OnOne TTime (FieldNEQ ''update_time'')),
     (''UpdateTimeIn'', OnMany TTime (FieldIn ''update_time'')),
     (''UpdateTimeNotIn'', OnMany TTime (FieldNotIn ''update_time'')),
     (''UpdateTimeGT'', OnOne TTime (FieldGT ''update_time'')),
     (''UpdateTimeGTE'', OnOne TTime (FieldGTE ''update_time'')),
     (''UpdateTimeLT'', OnOne TTime (FieldLT ''update_time'')),
     (''UpdateTimeLTE'', OnOne TTime (FieldLTE ''update_time''))]"

definition ent_authenticator_where_groups :: "(string \<times> filter_method) list" where
  "ent_authenticator_where_groups = [
     (''And'', OnPreds AndPredicates), (''Or'', OnPreds OrPredicates), (''Not'', OnPred NotPredicates)]"

definition ent_authenticator_where :: "(string \<times> filter_method) list" where
  "ent_authenticator_where = concat [ent_authenticator_where_id, ent_authenticator_where_shortcuts, ent_authenticator_where_user_id,
     ent_authenticator_where_type, ent_authenticator_where_state, ent_authenticator_where_display_name,
     ent_authenticator_where_verified_time, ent_authenticator_where_last_used_time,
     ent_authenticator_where_revoked_time, ent_authenticator_where_create_time,
     ent_authenticator_where_update_time, ent_authenticator_where_groups]"

lemmas ent_authenticator_where_defs = ent_authenticator_where_id_def ent_authenticator_where_shortcuts_def ent_authenticator_where_user_id_def
  ent_authenticator_where_type_def ent_authenticator_where_state_def ent_authenticator_where_display_name_def
  ent_authenticator_where_verified_time_def ent_authenticator_where_last_used_time_def
  ent_authenticator_where_revoked_time_def ent_authenticator_where_create_time_def
  ent_authenticator_where_update_time_def ent_authenticator_where_groups_def ent_authenticator_where_def
  ent_authenticator_schema_def

lemma ent_authenticator_where_is_reference: "ent_authenticator_where = where_reference TString (tl ent_authenticator_schema)"
  by (simp add: ent_authenticator_where_defs where_reference_simps)

section \<open>PasswordAuthenticator\<close>

definition ent_password_authenticator_where_id :: "(string \<times> filter_method) list" where
  "ent_password_authenticator_where_id = [
     (''ID'', OnOne TString (FieldEQ ''id'')), (''IDEQ'', OnOne TString (FieldEQ ''id'')),
     (''IDNEQ'', OnOne TString (FieldNEQ ''id'')), (''IDIn'', OnMany TString (FieldIn ''id'')),
     (''IDNotIn'', OnMany TString (FieldNotIn ''id'')), (''IDGT'', OnOne TString (FieldGT ''id'')),
     (''IDGTE'', OnOne TString (FieldGTE ''id'')), (''IDLT'', OnOne TString (FieldLT ''id'')),
     (''IDLTE'', OnOne TString (FieldLTE ''id'')), (''IDEqualFold'', OnOne TString (FieldEqualFold ''id'')),
     (''IDContainsFold'', OnOne TString (FieldContainsFold ''id''))]"

definition ent_password_authenticator_where_shortcuts :: "(string \<times> filter_method) list" where
  "ent_password_authenticator_where_shortcuts = [
     (''AuthenticatorID'', OnOne TString (FieldEQ ''authenticator_id'')),
     (''PasswordHash'', OnOne TString (FieldEQ ''password_hash'')),
     (''ChangedTime'', OnOne TTime (FieldEQ ''changed_time''))]"

definition ent_password_authenticator_where_authenticator_id :: "(string \<times> filter_method) list" where
  "ent_password_authenticator_where_authenticator_id = [
     (''AuthenticatorIDEQ'', OnOne TString (FieldEQ ''authenticator_id'')),
     (''AuthenticatorIDNEQ'', OnOne TString (FieldNEQ ''authenticator_id'')),
     (''AuthenticatorIDIn'', OnMany TString (FieldIn ''authenticator_id'')),
     (''AuthenticatorIDNotIn'', OnMany TString (FieldNotIn ''authenticator_id'')),
     (''AuthenticatorIDGT'', OnOne TString (FieldGT ''authenticator_id'')),
     (''AuthenticatorIDGTE'', OnOne TString (FieldGTE ''authenticator_id'')),
     (''AuthenticatorIDLT'', OnOne TString (FieldLT ''authenticator_id'')),
     (''AuthenticatorIDLTE'', OnOne TString (FieldLTE ''authenticator_id'')),
     (''AuthenticatorIDContains'', OnOne TString (FieldContains ''authenticator_id'')),
     (''AuthenticatorIDHasPrefix'', OnOne TString (FieldHasPrefix ''authenticator_id'')),
     (''AuthenticatorIDHasSuffix'', OnOne TString (FieldHasSuffix ''authenticator_id'')),
     (''AuthenticatorIDEqualFold'', OnOne TString (FieldEqualFold ''authenticator_id'')),
     (''AuthenticatorIDContainsFold'', OnOne TString (FieldContainsFold ''authenticator_id''))]"

definition ent_password_authenticator_where_password_hash :: "(string \<times> filter_method) list" where
  "ent_password_authenticator_where_password_hash = [
     (''PasswordHashEQ'', OnOne TString (FieldEQ ''password_hash'')),
     (''PasswordHashNEQ'', OnOne TString (FieldNEQ ''password_hash'')),
     (''PasswordHashIn'', OnMany TString (FieldIn ''password_hash'')),
     (''PasswordHashNotIn'', OnMany TString (FieldNotIn ''password_hash'')),
     (''PasswordHashGT'', OnOne TString (FieldGT ''password_hash'')),
     (''PasswordHashGTE'', OnOne TString (FieldGTE ''password_hash'')),
     (''PasswordHashLT'', OnOne TString (FieldLT ''password_hash'')),
     (''PasswordHashLTE'', OnOne TString (FieldLTE ''password_hash'')),
     (''PasswordHashContains'', OnOne TString (FieldContains ''password_hash'')),
     (''PasswordHashHasPrefix'', OnOne TString (FieldHasPrefix ''password_hash'')),
     (''PasswordHashHasSuffix'', OnOne TString (FieldHasSuffix ''password_hash'')),
     (''PasswordHashEqualFold'', OnOne TString (FieldEqualFold ''password_hash'')),
     (''PasswordHashContainsFold'', OnOne TString (FieldContainsFold ''password_hash''))]"

definition ent_password_authenticator_where_changed_time :: "(string \<times> filter_method) list" where
  "ent_password_authenticator_where_changed_time = [
     (''ChangedTimeEQ'', OnOne TTime (FieldEQ ''changed_time'')),
     (''ChangedTimeNEQ'', OnOne TTime (FieldNEQ ''changed_time'')),
     (''ChangedTimeIn'', OnMany TTime (FieldIn ''changed_time'')),
     (''ChangedTimeNotIn'', OnMany TTime (FieldNotIn ''changed_time'')),
     (''ChangedTimeGT'', OnOne TTime (FieldGT ''changed_time'')),
     (''ChangedTimeGTE'', OnOne TTime (FieldGTE ''changed_time'')),
     (''ChangedTimeLT'', OnOne TTime (FieldLT ''changed_time'')),
     (''ChangedTimeLTE'', OnOne TTime (FieldLTE ''changed_time''))]"

definition ent_password_authenticator_where_groups :: "(string \<times> filter_method) list" where
  "ent_password_authenticator_where_groups = [
     (''And'', OnPreds AndPredicates), (''Or'', OnPreds OrPredicates), (''Not'', OnPred NotPredicates)]"

definition ent_password_authenticator_where :: "(string \<times> filter_method) list" where
  "ent_password_authenticator_where = concat [ent_password_authenticator_where_id, ent_password_authenticator_where_shortcuts,
     ent_password_authenticator_where_authenticator_id, ent_password_authenticator_where_password_hash,
     ent_password_authenticator_where_changed_time, ent_password_authenticator_where_groups]"

lemmas ent_password_authenticator_where_defs = ent_password_authenticator_where_id_def ent_password_authenticator_where_shortcuts_def
  ent_password_authenticator_where_authenticator_id_def ent_password_authenticator_where_password_hash_def
  ent_password_authenticator_where_changed_time_def ent_password_authenticator_where_groups_def
  ent_password_authenticator_where_def ent_password_authenticator_schema_def

lemma ent_password_authenticator_where_is_reference: "ent_password_authenticator_where = where_reference TString (tl ent_password_authenticator_schema)"
  by (simp add: ent_password_authenticator_where_defs where_reference_simps)

section \<open>EmailVerificationToken\<close>

definition ent_email_verification_token_where_id :: "(string \<times> filter_method) list" where
  "ent_email_verification_token_where_id = [
     (''ID'', OnOne TString (FieldEQ ''id'')), (''IDEQ'', OnOne TString (FieldEQ ''id'')),
     (''IDNEQ'', OnOne TString (FieldNEQ ''id'')), (''IDIn'', OnMany TString (FieldIn ''id'')),
     (''IDNotIn'', OnMany TString (FieldNotIn ''id'')), (''IDGT'', OnOne TString (FieldGT ''id'')),
     (''IDGTE'', OnOne TString (FieldGTE ''id'')), (''IDLT'', OnOne TString (FieldLT ''id'')),
     (''IDLTE'', OnOne TString (FieldLTE ''id'')), (''IDEqualFold'', OnOne TString (FieldEqualFold ''id'')),
     (''IDContainsFold'', OnOne TString (FieldContainsFold ''id''))]"

definition ent_email_verification_token_where_shortcuts :: "(string \<times> filter_method) list" where
  "ent_email_verification_token_where_shortcuts = [
     (''UserID'', OnOne TString (FieldEQ ''user_id'')),
     (''LoginIdentifierID'', OnOne TString (FieldEQ ''login_identifier_id'')),
     (''TokenHash'', OnOne TString (FieldEQ ''token_hash'')),
     (''ExpiresTime'', OnOne TTime (FieldEQ ''expires_time'')),
     (''ConsumedTime'', OnOne TTime (FieldEQ ''consumed_time'')),
     (''CreateTime'', OnOne TTime (FieldEQ ''create_time''))]"

definition ent_email_verification_token_where_user_id :: "(string \<times> filter_method) list" where
  "ent_email_verification_token_where_user_id = [
     (''UserIDEQ'', OnOne TString (FieldEQ ''user_id'')), (''UserIDNEQ'', OnOne TString (FieldNEQ ''user_id'')),
     (''UserIDIn'', OnMany TString (FieldIn ''user_id'')),
     (''UserIDNotIn'', OnMany TString (FieldNotIn ''user_id'')),
     (''UserIDGT'', OnOne TString (FieldGT ''user_id'')), (''UserIDGTE'', OnOne TString (FieldGTE ''user_id'')),
     (''UserIDLT'', OnOne TString (FieldLT ''user_id'')), (''UserIDLTE'', OnOne TString (FieldLTE ''user_id'')),
     (''UserIDContains'', OnOne TString (FieldContains ''user_id'')),
     (''UserIDHasPrefix'', OnOne TString (FieldHasPrefix ''user_id'')),
     (''UserIDHasSuffix'', OnOne TString (FieldHasSuffix ''user_id'')),
     (''UserIDEqualFold'', OnOne TString (FieldEqualFold ''user_id'')),
     (''UserIDContainsFold'', OnOne TString (FieldContainsFold ''user_id''))]"

definition ent_email_verification_token_where_login_identifier_id :: "(string \<times> filter_method) list" where
  "ent_email_verification_token_where_login_identifier_id = [
     (''LoginIdentifierIDEQ'', OnOne TString (FieldEQ ''login_identifier_id'')),
     (''LoginIdentifierIDNEQ'', OnOne TString (FieldNEQ ''login_identifier_id'')),
     (''LoginIdentifierIDIn'', OnMany TString (FieldIn ''login_identifier_id'')),
     (''LoginIdentifierIDNotIn'', OnMany TString (FieldNotIn ''login_identifier_id'')),
     (''LoginIdentifierIDGT'', OnOne TString (FieldGT ''login_identifier_id'')),
     (''LoginIdentifierIDGTE'', OnOne TString (FieldGTE ''login_identifier_id'')),
     (''LoginIdentifierIDLT'', OnOne TString (FieldLT ''login_identifier_id'')),
     (''LoginIdentifierIDLTE'', OnOne TString (FieldLTE ''login_identifier_id'')),
     (''LoginIdentifierIDContains'', OnOne TString (FieldContains ''login_identifier_id'')),
     (''LoginIdentifierIDHasPrefix'', OnOne TString (FieldHasPrefix ''login_identifier_id'')),
     (''LoginIdentifierIDHasSuffix'', OnOne TString (FieldHasSuffix ''login_identifier_id'')),
     (''LoginIdentifierIDEqualFold'', OnOne TString (FieldEqualFold ''login_identifier_id'')),
     (''LoginIdentifierIDContainsFold'', OnOne TString (FieldContainsFold ''login_identifier_id''))]"

definition ent_email_verification_token_where_token_hash :: "(string \<times> filter_method) list" where
  "ent_email_verification_token_where_token_hash = [
     (''TokenHashEQ'', OnOne TString (FieldEQ ''token_hash'')),
     (''TokenHashNEQ'', OnOne TString (FieldNEQ ''token_hash'')),
     (''TokenHashIn'', OnMany TString (FieldIn ''token_hash'')),
     (''TokenHashNotIn'', OnMany TString (FieldNotIn ''token_hash'')),
     (''TokenHashGT'', OnOne TString (FieldGT ''token_hash'')),
     (''TokenHashGTE'', OnOne TString (FieldGTE ''token_hash'')),
     (''TokenHashLT'', OnOne TString (FieldLT ''token_hash'')),
     (''TokenHashLTE'', OnOne TString (FieldLTE ''token_hash'')),
     (''TokenHashContains'', OnOne TString (FieldContains ''token_hash'')),
     (''TokenHashHasPrefix'', OnOne TString (FieldHasPrefix ''token_hash'')),
     (''TokenHashHasSuffix'', OnOne TString (FieldHasSuffix ''token_hash'')),
     (''TokenHashEqualFold'', OnOne TString (FieldEqualFold ''token_hash'')),
     (''TokenHashContainsFold'', OnOne TString (FieldContainsFold ''token_hash''))]"

definition ent_email_verification_token_where_expires_time :: "(string \<times> filter_method) list" where
  "ent_email_verification_token_where_expires_time = [
     (''ExpiresTimeEQ'', OnOne TTime (FieldEQ ''expires_time'')),
     (''ExpiresTimeNEQ'', OnOne TTime (FieldNEQ ''expires_time'')),
     (''ExpiresTimeIn'', OnMany TTime (FieldIn ''expires_time'')),
     (''ExpiresTimeNotIn'', OnMany TTime (FieldNotIn ''expires_time'')),
     (''ExpiresTimeGT'', OnOne TTime (FieldGT ''expires_time'')),
     (''ExpiresTimeGTE'', OnOne TTime (FieldGTE ''expires_time'')),
     (''ExpiresTimeLT'', OnOne TTime (FieldLT ''expires_time'')),
     (''ExpiresTimeLTE'', OnOne TTime (FieldLTE ''expires_time''))]"

definition ent_email_verification_token_where_consumed_time :: "(string \<times> filter_method) list" where
  "ent_email_verification_token_where_consumed_time = [
     (''ConsumedTimeEQ'', OnOne TTime (FieldEQ ''consumed_time'')),
     (''ConsumedTimeNEQ'', OnOne TTime (FieldNEQ ''consumed_time'')),
     (''ConsumedTimeIn'', OnMany TTime (FieldIn ''consumed_time'')),
     (''ConsumedTimeNotIn'', OnMany TTime (FieldNotIn ''consumed_time'')),
     (''ConsumedTimeGT'', OnOne TTime (FieldGT ''consumed_time'')),
     (''ConsumedTimeGTE'', OnOne TTime (FieldGTE ''consumed_time'')),
     (''ConsumedTimeLT'', OnOne TTime (FieldLT ''consumed_time'')),
     (''ConsumedTimeLTE'', OnOne TTime (FieldLTE ''consumed_time'')),
     (''ConsumedTimeIsNil'', OnNone (FieldIsNull ''consumed_time'')),
     (''ConsumedTimeNotNil'', OnNone (FieldNotNull ''consumed_time''))]"

definition ent_email_verification_token_where_create_time :: "(string \<times> filter_method) list" where
  "ent_email_verification_token_where_create_time = [
     (''CreateTimeEQ'', OnOne TTime (FieldEQ ''create_time'')),
     (''CreateTimeNEQ'', OnOne TTime (FieldNEQ ''create_time'')),
     (''CreateTimeIn'', OnMany TTime (FieldIn ''create_time'')),
     (''CreateTimeNotIn'', OnMany TTime (FieldNotIn ''create_time'')),
     (''CreateTimeGT'', OnOne TTime (FieldGT ''create_time'')),
     (''CreateTimeGTE'', OnOne TTime (FieldGTE ''create_time'')),
     (''CreateTimeLT'', OnOne TTime (FieldLT ''create_time'')),
     (''CreateTimeLTE'', OnOne TTime (FieldLTE ''create_time''))]"

definition ent_email_verification_token_where_groups :: "(string \<times> filter_method) list" where
  "ent_email_verification_token_where_groups = [
     (''And'', OnPreds AndPredicates), (''Or'', OnPreds OrPredicates), (''Not'', OnPred NotPredicates)]"

definition ent_email_verification_token_where :: "(string \<times> filter_method) list" where
  "ent_email_verification_token_where = concat [ent_email_verification_token_where_id, ent_email_verification_token_where_shortcuts,
     ent_email_verification_token_where_user_id, ent_email_verification_token_where_login_identifier_id,
     ent_email_verification_token_where_token_hash, ent_email_verification_token_where_expires_time,
     ent_email_verification_token_where_consumed_time, ent_email_verification_token_where_create_time,
     ent_email_verification_token_where_groups]"

lemmas ent_email_verification_token_where_defs = ent_email_verification_token_where_id_def ent_email_verification_token_where_shortcuts_def
  ent_email_verification_token_where_user_id_def ent_email_verification_token_where_login_identifier_id_def
  ent_email_verification_token_where_token_hash_def ent_email_verification_token_where_expires_time_def
  ent_email_verification_token_where_consumed_time_def ent_email_verification_token_where_create_time_def
  ent_email_verification_token_where_groups_def ent_email_verification_token_where_def
  ent_email_verification_token_schema_def

lemma ent_email_verification_token_where_is_reference: "ent_email_verification_token_where = where_reference TString (tl ent_email_verification_token_schema)"
  by (simp add: ent_email_verification_token_where_defs where_reference_simps)

section \<open>PasswordResetToken\<close>

definition ent_password_reset_token_where_id :: "(string \<times> filter_method) list" where
  "ent_password_reset_token_where_id = [
     (''ID'', OnOne TString (FieldEQ ''id'')), (''IDEQ'', OnOne TString (FieldEQ ''id'')),
     (''IDNEQ'', OnOne TString (FieldNEQ ''id'')), (''IDIn'', OnMany TString (FieldIn ''id'')),
     (''IDNotIn'', OnMany TString (FieldNotIn ''id'')), (''IDGT'', OnOne TString (FieldGT ''id'')),
     (''IDGTE'', OnOne TString (FieldGTE ''id'')), (''IDLT'', OnOne TString (FieldLT ''id'')),
     (''IDLTE'', OnOne TString (FieldLTE ''id'')), (''IDEqualFold'', OnOne TString (FieldEqualFold ''id'')),
     (''IDContainsFold'', OnOne TString (FieldContainsFold ''id''))]"

definition ent_password_reset_token_where_shortcuts :: "(string \<times> filter_method) list" where
  "ent_password_reset_token_where_shortcuts = [
     (''UserID'', OnOne TString (FieldEQ ''user_id'')), (''TokenHash'', OnOne TString (FieldEQ ''token_hash'')),
     (''ExpiresTime'', OnOne TTime (FieldEQ ''expires_time'')),
     (''ConsumedTime'', OnOne TTime (FieldEQ ''consumed_time'')),
     (''CreateTime'', OnOne TTime (FieldEQ ''create_time''))]"

definition ent_password_reset_token_where_user_id :: "(string \<times> filter_method) list" where
  "ent_password_reset_token_where_user_id = [
     (''UserIDEQ'', OnOne TString (FieldEQ ''user_id'')), (''UserIDNEQ'', OnOne TString (FieldNEQ ''user_id'')),
     (''UserIDIn'', OnMany TString (FieldIn ''user_id'')),
     (''UserIDNotIn'', OnMany TString (FieldNotIn ''user_id'')),
     (''UserIDGT'', OnOne TString (FieldGT ''user_id'')), (''UserIDGTE'', OnOne TString (FieldGTE ''user_id'')),
     (''UserIDLT'', OnOne TString (FieldLT ''user_id'')), (''UserIDLTE'', OnOne TString (FieldLTE ''user_id'')),
     (''UserIDContains'', OnOne TString (FieldContains ''user_id'')),
     (''UserIDHasPrefix'', OnOne TString (FieldHasPrefix ''user_id'')),
     (''UserIDHasSuffix'', OnOne TString (FieldHasSuffix ''user_id'')),
     (''UserIDEqualFold'', OnOne TString (FieldEqualFold ''user_id'')),
     (''UserIDContainsFold'', OnOne TString (FieldContainsFold ''user_id''))]"

definition ent_password_reset_token_where_token_hash :: "(string \<times> filter_method) list" where
  "ent_password_reset_token_where_token_hash = [
     (''TokenHashEQ'', OnOne TString (FieldEQ ''token_hash'')),
     (''TokenHashNEQ'', OnOne TString (FieldNEQ ''token_hash'')),
     (''TokenHashIn'', OnMany TString (FieldIn ''token_hash'')),
     (''TokenHashNotIn'', OnMany TString (FieldNotIn ''token_hash'')),
     (''TokenHashGT'', OnOne TString (FieldGT ''token_hash'')),
     (''TokenHashGTE'', OnOne TString (FieldGTE ''token_hash'')),
     (''TokenHashLT'', OnOne TString (FieldLT ''token_hash'')),
     (''TokenHashLTE'', OnOne TString (FieldLTE ''token_hash'')),
     (''TokenHashContains'', OnOne TString (FieldContains ''token_hash'')),
     (''TokenHashHasPrefix'', OnOne TString (FieldHasPrefix ''token_hash'')),
     (''TokenHashHasSuffix'', OnOne TString (FieldHasSuffix ''token_hash'')),
     (''TokenHashEqualFold'', OnOne TString (FieldEqualFold ''token_hash'')),
     (''TokenHashContainsFold'', OnOne TString (FieldContainsFold ''token_hash''))]"

definition ent_password_reset_token_where_expires_time :: "(string \<times> filter_method) list" where
  "ent_password_reset_token_where_expires_time = [
     (''ExpiresTimeEQ'', OnOne TTime (FieldEQ ''expires_time'')),
     (''ExpiresTimeNEQ'', OnOne TTime (FieldNEQ ''expires_time'')),
     (''ExpiresTimeIn'', OnMany TTime (FieldIn ''expires_time'')),
     (''ExpiresTimeNotIn'', OnMany TTime (FieldNotIn ''expires_time'')),
     (''ExpiresTimeGT'', OnOne TTime (FieldGT ''expires_time'')),
     (''ExpiresTimeGTE'', OnOne TTime (FieldGTE ''expires_time'')),
     (''ExpiresTimeLT'', OnOne TTime (FieldLT ''expires_time'')),
     (''ExpiresTimeLTE'', OnOne TTime (FieldLTE ''expires_time''))]"

definition ent_password_reset_token_where_consumed_time :: "(string \<times> filter_method) list" where
  "ent_password_reset_token_where_consumed_time = [
     (''ConsumedTimeEQ'', OnOne TTime (FieldEQ ''consumed_time'')),
     (''ConsumedTimeNEQ'', OnOne TTime (FieldNEQ ''consumed_time'')),
     (''ConsumedTimeIn'', OnMany TTime (FieldIn ''consumed_time'')),
     (''ConsumedTimeNotIn'', OnMany TTime (FieldNotIn ''consumed_time'')),
     (''ConsumedTimeGT'', OnOne TTime (FieldGT ''consumed_time'')),
     (''ConsumedTimeGTE'', OnOne TTime (FieldGTE ''consumed_time'')),
     (''ConsumedTimeLT'', OnOne TTime (FieldLT ''consumed_time'')),
     (''ConsumedTimeLTE'', OnOne TTime (FieldLTE ''consumed_time'')),
     (''ConsumedTimeIsNil'', OnNone (FieldIsNull ''consumed_time'')),
     (''ConsumedTimeNotNil'', OnNone (FieldNotNull ''consumed_time''))]"

definition ent_password_reset_token_where_create_time :: "(string \<times> filter_method) list" where
  "ent_password_reset_token_where_create_time = [
     (''CreateTimeEQ'', OnOne TTime (FieldEQ ''create_time'')),
     (''CreateTimeNEQ'', OnOne TTime (FieldNEQ ''create_time'')),
     (''CreateTimeIn'', OnMany TTime (FieldIn ''create_time'')),
     (''CreateTimeNotIn'', OnMany TTime (FieldNotIn ''create_time'')),
     (''CreateTimeGT'', OnOne TTime (FieldGT ''create_time'')),
     (''CreateTimeGTE'', OnOne TTime (FieldGTE ''create_time'')),
     (''CreateTimeLT'', OnOne TTime (FieldLT ''create_time'')),
     (''CreateTimeLTE'', OnOne TTime (FieldLTE ''create_time''))]"

definition ent_password_reset_token_where_groups :: "(string \<times> filter_method) list" where
  "ent_password_reset_token_where_groups = [
     (''And'', OnPreds AndPredicates), (''Or'', OnPreds OrPredicates), (''Not'', OnPred NotPredicates)]"

definition ent_password_reset_token_where :: "(string \<times> filter_method) list" where
  "ent_password_reset_token_where = concat [ent_password_reset_token_where_id, ent_password_reset_token_where_shortcuts,
     ent_password_reset_token_where_user_id, ent_password_reset_token_where_token_hash,
     ent_password_reset_token_where_expires_time, ent_password_reset_token_where_consumed_time,
     ent_password_reset_token_where_create_time, ent_password_reset_token_where_groups]"

lemmas ent_password_reset_token_where_defs = ent_password_reset_token_where_id_def ent_password_reset_token_where_shortcuts_def
  ent_password_reset_token_where_user_id_def ent_password_reset_token_where_token_hash_def
  ent_password_reset_token_where_expires_time_def ent_password_reset_token_where_consumed_time_def
  ent_password_reset_token_where_create_time_def ent_password_reset_token_where_groups_def
  ent_password_reset_token_where_def ent_password_reset_token_schema_def

lemma ent_password_reset_token_where_is_reference: "ent_password_reset_token_where = where_reference TString (tl ent_password_reset_token_schema)"
  by (simp add: ent_password_reset_token_where_defs where_reference_simps)

section \<open>IAMLoginSession\<close>

definition ent_iam_login_session_where_id :: "(string \<times> filter_method) list" where
  "ent_iam_login_session_where_id = [
     (''ID'', OnOne TString (FieldEQ ''id'')), (''IDEQ'', OnOne TString (FieldEQ ''id'')),
     (''IDNEQ'', OnOne TString (FieldNEQ ''id'')), (''IDIn'', OnMany TString (FieldIn ''id'')),
     (''IDNotIn'', OnMany TString (FieldNotIn ''id'')), (''IDGT'', OnOne TString (FieldGT ''id'')),
     (''IDGTE'', OnOne TString (FieldGTE ''id'')), (''IDLT'', OnOne TString (FieldLT ''id'')),
     (''IDLTE'', OnOne TString (FieldLTE ''id'')), (''IDEqualFold'', OnOne TString (FieldEqualFold ''id'')),
     (''IDContainsFold'', OnOne TString (FieldContainsFold ''id''))]"

definition ent_iam_login_session_where_shortcuts :: "(string \<times> filter_method) list" where
  "ent_iam_login_session_where_shortcuts = [
     (''UserID'', OnOne TString (FieldEQ ''user_id'')),
     (''SecretHash'', OnOne TString (FieldEQ ''secret_hash'')),
     (''CreateTime'', OnOne TTime (FieldEQ ''create_time'')),
     (''LastSeenTime'', OnOne TTime (FieldEQ ''last_seen_time'')),
     (''IdleExpiresTime'', OnOne TTime (FieldEQ ''idle_expires_time'')),
     (''AbsoluteExpiresTime'', OnOne TTime (FieldEQ ''absolute_expires_time'')),
     (''RevokedTime'', OnOne TTime (FieldEQ ''revoked_time''))]"

definition ent_iam_login_session_where_user_id :: "(string \<times> filter_method) list" where
  "ent_iam_login_session_where_user_id = [
     (''UserIDEQ'', OnOne TString (FieldEQ ''user_id'')), (''UserIDNEQ'', OnOne TString (FieldNEQ ''user_id'')),
     (''UserIDIn'', OnMany TString (FieldIn ''user_id'')),
     (''UserIDNotIn'', OnMany TString (FieldNotIn ''user_id'')),
     (''UserIDGT'', OnOne TString (FieldGT ''user_id'')), (''UserIDGTE'', OnOne TString (FieldGTE ''user_id'')),
     (''UserIDLT'', OnOne TString (FieldLT ''user_id'')), (''UserIDLTE'', OnOne TString (FieldLTE ''user_id'')),
     (''UserIDContains'', OnOne TString (FieldContains ''user_id'')),
     (''UserIDHasPrefix'', OnOne TString (FieldHasPrefix ''user_id'')),
     (''UserIDHasSuffix'', OnOne TString (FieldHasSuffix ''user_id'')),
     (''UserIDEqualFold'', OnOne TString (FieldEqualFold ''user_id'')),
     (''UserIDContainsFold'', OnOne TString (FieldContainsFold ''user_id''))]"

definition ent_iam_login_session_where_secret_hash :: "(string \<times> filter_method) list" where
  "ent_iam_login_session_where_secret_hash = [
     (''SecretHashEQ'', OnOne TString (FieldEQ ''secret_hash'')),
     (''SecretHashNEQ'', OnOne TString (FieldNEQ ''secret_hash'')),
     (''SecretHashIn'', OnMany TString (FieldIn ''secret_hash'')),
     (''SecretHashNotIn'', OnMany TString (FieldNotIn ''secret_hash'')),
     (''SecretHashGT'', OnOne TString (FieldGT ''secret_hash'')),
     (''SecretHashGTE'', OnOne TString (FieldGTE ''secret_hash'')),
     (''SecretHashLT'', OnOne TString (FieldLT ''secret_hash'')),
     (''SecretHashLTE'', OnOne TString (FieldLTE ''secret_hash'')),
     (''SecretHashContains'', OnOne TString (FieldContains ''secret_hash'')),
     (''SecretHashHasPrefix'', OnOne TString (FieldHasPrefix ''secret_hash'')),
     (''SecretHashHasSuffix'', OnOne TString (FieldHasSuffix ''secret_hash'')),
     (''SecretHashEqualFold'', OnOne TString (FieldEqualFold ''secret_hash'')),
     (''SecretHashContainsFold'', OnOne TString (FieldContainsFold ''secret_hash''))]"

definition ent_iam_login_session_where_create_time :: "(string \<times> filter_method) list" where
  "ent_iam_login_session_where_create_time = [
     (''CreateTimeEQ'', OnOne TTime (FieldEQ ''create_time'')),
     (''CreateTimeNEQ'', OnOne TTime (FieldNEQ ''create_time'')),
     (''CreateTimeIn'', OnMany TTime (FieldIn ''create_time'')),
     (''CreateTimeNotIn'', OnMany TTime (FieldNotIn ''create_time'')),
     (''CreateTimeGT'', OnOne TTime (FieldGT ''create_time'')),
     (''CreateTimeGTE'', OnOne TTime (FieldGTE ''create_time'')),
     (''CreateTimeLT'', OnOne TTime (FieldLT ''create_time'')),
     (''CreateTimeLTE'', OnOne TTime (FieldLTE ''create_time''))]"

definition ent_iam_login_session_where_last_seen_time :: "(string \<times> filter_method) list" where
  "ent_iam_login_session_where_last_seen_time = [
     (''LastSeenTimeEQ'', OnOne TTime (FieldEQ ''last_seen_time'')),
     (''LastSeenTimeNEQ'', OnOne TTime (FieldNEQ ''last_seen_time'')),
     (''LastSeenTimeIn'', OnMany TTime (FieldIn ''last_seen_time'')),
     (''LastSeenTimeNotIn'', OnMany TTime (FieldNotIn ''last_seen_time'')),
     (''LastSeenTimeGT'', OnOne TTime (FieldGT ''last_seen_time'')),
     (''LastSeenTimeGTE'', OnOne TTime (FieldGTE ''last_seen_time'')),
     (''LastSeenTimeLT'', OnOne TTime (FieldLT ''last_seen_time'')),
     (''LastSeenTimeLTE'', OnOne TTime (FieldLTE ''last_seen_time''))]"

definition ent_iam_login_session_where_idle_expires_time :: "(string \<times> filter_method) list" where
  "ent_iam_login_session_where_idle_expires_time = [
     (''IdleExpiresTimeEQ'', OnOne TTime (FieldEQ ''idle_expires_time'')),
     (''IdleExpiresTimeNEQ'', OnOne TTime (FieldNEQ ''idle_expires_time'')),
     (''IdleExpiresTimeIn'', OnMany TTime (FieldIn ''idle_expires_time'')),
     (''IdleExpiresTimeNotIn'', OnMany TTime (FieldNotIn ''idle_expires_time'')),
     (''IdleExpiresTimeGT'', OnOne TTime (FieldGT ''idle_expires_time'')),
     (''IdleExpiresTimeGTE'', OnOne TTime (FieldGTE ''idle_expires_time'')),
     (''IdleExpiresTimeLT'', OnOne TTime (FieldLT ''idle_expires_time'')),
     (''IdleExpiresTimeLTE'', OnOne TTime (FieldLTE ''idle_expires_time''))]"

definition ent_iam_login_session_where_absolute_expires_time :: "(string \<times> filter_method) list" where
  "ent_iam_login_session_where_absolute_expires_time = [
     (''AbsoluteExpiresTimeEQ'', OnOne TTime (FieldEQ ''absolute_expires_time'')),
     (''AbsoluteExpiresTimeNEQ'', OnOne TTime (FieldNEQ ''absolute_expires_time'')),
     (''AbsoluteExpiresTimeIn'', OnMany TTime (FieldIn ''absolute_expires_time'')),
     (''AbsoluteExpiresTimeNotIn'', OnMany TTime (FieldNotIn ''absolute_expires_time'')),
     (''AbsoluteExpiresTimeGT'', OnOne TTime (FieldGT ''absolute_expires_time'')),
     (''AbsoluteExpiresTimeGTE'', OnOne TTime (FieldGTE ''absolute_expires_time'')),
     (''AbsoluteExpiresTimeLT'', OnOne TTime (FieldLT ''absolute_expires_time'')),
     (''AbsoluteExpiresTimeLTE'', OnOne TTime (FieldLTE ''absolute_expires_time''))]"

definition ent_iam_login_session_where_revoked_time :: "(string \<times> filter_method) list" where
  "ent_iam_login_session_where_revoked_time = [
     (''RevokedTimeEQ'', OnOne TTime (FieldEQ ''revoked_time'')),
     (''RevokedTimeNEQ'', OnOne TTime (FieldNEQ ''revoked_time'')),
     (''RevokedTimeIn'', OnMany TTime (FieldIn ''revoked_time'')),
     (''RevokedTimeNotIn'', OnMany TTime (FieldNotIn ''revoked_time'')),
     (''RevokedTimeGT'', OnOne TTime (FieldGT ''revoked_time'')),
     (''RevokedTimeGTE'', OnOne TTime (FieldGTE ''revoked_time'')),
     (''RevokedTimeLT'', OnOne TTime (FieldLT ''revoked_time'')),
     (''RevokedTimeLTE'', OnOne TTime (FieldLTE ''revoked_time'')),
     (''RevokedTimeIsNil'', OnNone (FieldIsNull ''revoked_time'')),
     (''RevokedTimeNotNil'', OnNone (FieldNotNull ''revoked_time''))]"

definition ent_iam_login_session_where_groups :: "(string \<times> filter_method) list" where
  "ent_iam_login_session_where_groups = [
     (''And'', OnPreds AndPredicates), (''Or'', OnPreds OrPredicates), (''Not'', OnPred NotPredicates)]"

definition ent_iam_login_session_where :: "(string \<times> filter_method) list" where
  "ent_iam_login_session_where = concat [ent_iam_login_session_where_id, ent_iam_login_session_where_shortcuts, ent_iam_login_session_where_user_id,
     ent_iam_login_session_where_secret_hash, ent_iam_login_session_where_create_time,
     ent_iam_login_session_where_last_seen_time, ent_iam_login_session_where_idle_expires_time,
     ent_iam_login_session_where_absolute_expires_time, ent_iam_login_session_where_revoked_time,
     ent_iam_login_session_where_groups]"

lemmas ent_iam_login_session_where_defs = ent_iam_login_session_where_id_def ent_iam_login_session_where_shortcuts_def
  ent_iam_login_session_where_user_id_def ent_iam_login_session_where_secret_hash_def
  ent_iam_login_session_where_create_time_def ent_iam_login_session_where_last_seen_time_def
  ent_iam_login_session_where_idle_expires_time_def ent_iam_login_session_where_absolute_expires_time_def
  ent_iam_login_session_where_revoked_time_def ent_iam_login_session_where_groups_def
  ent_iam_login_session_where_def ent_iam_login_session_schema_def

lemma ent_iam_login_session_where_is_reference: "ent_iam_login_session_where = where_reference TString (tl ent_iam_login_session_schema)"
  by (simp add: ent_iam_login_session_where_defs where_reference_simps)

end
