(* ===== verification/EntOauth.thy ===== *)
theory EntOauth
  imports EntTable
begin

text \<open>
  The generated \<open>ent\<close> code of the OpenID provider, one definition per generated
  function or, for a field, per group of typed methods; each schema is the hand-written one.
\<close>

section \<open>OIDCAuthorizationRequest\<close>

definition ent_oidc_authorization_request_schema :: "column list" where
  "ent_oidc_authorization_request_schema = [
     (field_of TString ''id'' ''ID'')\<lparr>cl_immutable := True\<rparr>,
     (field_of TString ''client_id'' ''ClientID'')\<lparr>cl_not_empty := True, cl_immutable := True\<rparr>,
     (field_of TString ''redirect_uri'' ''RedirectURI'')\<lparr>cl_not_empty := True, cl_immutable := True\<rparr>,
     (field_of TString ''response_type'' ''ResponseType'')\<lparr>cl_not_empty := True, cl_immutable := True\<rparr>,
     (field_of TString ''response_mode'' ''ResponseMode'')\<lparr>cl_optional := True, cl_default := Some (DefaultConst (VString []))\<rparr>,
     (field_of TStrings ''scopes'' ''Scopes''),
     (field_of TString ''state'' ''State'')\<lparr>cl_optional := True, cl_nillable := True\<rparr>,
     (field_of TString ''nonce'' ''Nonce'')\<lparr>cl_optional := True, cl_nillable := True\<rparr>,
     (field_of TString ''pkce_challenge'' ''PkceChallenge'')\<lparr>cl_not_empty := True\<rparr>,
     (field_of TString ''pkce_challenge_method'' ''PkceChallengeMethod'')\<lparr>cl_default := Some (DefaultConst (VString ''S256''))\<rparr>,
     (field_of TString ''subject'' ''Subject'')\<lparr>cl_optional := True, cl_nillable := True\<rparr>,
     (field_of TString ''iam_login_session_id'' ''IamLoginSessionID'')\<lparr>cl_optional := True, cl_nillable := True\<rparr>,
     (field_of TTime ''auth_time'' ''AuthTime'')\<lparr>cl_optional := True, cl_nillable := True\<rparr>,
     (field_of TBool ''done'' ''Done'')\<lparr>cl_default := Some (DefaultConst (VBool False))\<rparr>,
     (field_of TTime ''expires_time'' ''ExpiresTime'')\<lparr>cl_immutable := True\<rparr>,
     (field_of TTime ''create_time'' ''CreateTime'')\<lparr>cl_default := Some DefaultNow, cl_immutable := True\<rparr>,
     (field_of TTime ''update_time'' ''UpdateTime'')\<lparr>cl_default := Some DefaultNow, cl_update_now := True\<rparr>]"

definition ent_oidc_authorization_request_runtime :: "(string \<times> nat) list" where
  "ent_oidc_authorization_request_runtime = [(''ClientIDValidator'', 1), (''RedirectURIValidator'', 2), (''ResponseTypeValidator'', 3),
     (''DefaultResponseMode'', 4), (''PkceChallengeValidator'', 8), (''DefaultPkceChallengeMethod'', 9),
     (''DefaultDone'', 13), (''DefaultCreateTime'', 15), (''DefaultUpdateTime'', 16),
     (''UpdateDefaultUpdateTime'', 16)]"

definition ent_oidc_authorization_request_field_client_id :: "field_methods" where
  "ent_oidc_authorization_request_field_client_id = plain_field ''client_id'' ''ClientID''"

definition ent_oidc_authorization_request_field_redirect_uri :: "field_methods" where
  "ent_oidc_authorization_request_field_redirect_uri = plain_field ''redirect_uri'' ''RedirectURI''"

definition ent_oidc_authorization_request_field_response_type :: "field_methods" where
  "ent_oidc_authorization_request_field_response_type = plain_field ''response_type'' ''ResponseType''"

definition ent_oidc_authorization_request_field_response_mode :: "field_methods" where
  "ent_oidc_authorization_request_field_response_mode = nullable_field ''response_mode'' ''ResponseMode''"

definition ent_oidc_authorization_request_field_scopes :: "field_methods" where
  "ent_oidc_authorization_request_field_scopes = list_field ''scopes'' ''Scopes''"

definition ent_oidc_authorization_request_field_state :: "field_methods" where
  "ent_oidc_authorization_request_field_state = nullable_field ''state'' ''State''"

definition ent_oidc_authorization_request_field_nonce :: "field_methods" where
  "ent_oidc_authorization_request_field_nonce = nullable_field ''nonce'' ''Nonce''"

definition ent_oidc_authorization_request_field_pkce_challenge :: "field_methods" where
  "ent_oidc_authorization_request_field_pkce_challenge = plain_field ''pkce_challenge'' ''PkceChallenge''"

definition ent_oidc_authorization_request_field_pkce_challenge_method :: "field_methods" where
  "ent_oidc_authorization_request_field_pkce_challenge_method = plain_field ''pkce_challenge_method'' ''PkceChallengeMethod''"

definition ent_oidc_authorization_request_field_subject :: "field_methods" where
  "ent_oidc_authorization_request_field_subject = nullable_field ''subject'' ''Subject''"

definition ent_oidc_authorization_request_field_iam_login_session_id :: "field_methods" where
  "ent_oidc_authorization_request_field_iam_login_session_id = nullable_field ''iam_login_session_id'' ''IamLoginSessionID''"

definition ent_oidc_authorization_request_field_auth_time :: "field_methods" where
  "ent_oidc_authorization_request_field_auth_time = nullable_field ''auth_time'' ''AuthTime''"

definition ent_oidc_authorization_request_field_done :: "field_methods" where
  "ent_oidc_authorization_request_field_done = plain_field ''done'' ''Done''"

definition ent_oidc_authorization_request_field_expires_time :: "field_methods" where
  "ent_oidc_authorization_request_field_expires_time = plain_field ''expires_time'' ''ExpiresTime''"

definition ent_oidc_authorization_request_field_create_time :: "field_methods" where
  "ent_oidc_authorization_request_field_create_time = plain_field ''create_time'' ''CreateTime''"

definition ent_oidc_authorization_request_field_update_time :: "field_methods" where
  "ent_oidc_authorization_request_field_update_time = plain_field ''update_time'' ''UpdateTime''"

definition new_ent_oidc_authorization_request_mutation :: "ent_op \<Rightarrow> mutation" where
  "new_ent_oidc_authorization_request_mutation = new_mutation ''OIDCAuthorizationRequest''"

definition ent_oidc_authorization_request_fields :: "mutation \<Rightarrow> string list" where
  "ent_oidc_authorization_request_fields = listed [if_set ent_oidc_authorization_request_field_client_id ''client_id'',
     if_set ent_oidc_authorization_request_field_redirect_uri ''redirect_uri'',
     if_set ent_oidc_authorization_request_field_response_type ''response_type'',
     if_set ent_oidc_authorization_request_field_response_mode ''response_mode'',
     if_set ent_oidc_authorization_request_field_scopes ''scopes'',
     if_set ent_oidc_authorization_request_field_state ''state'',
     if_set ent_oidc_authorization_request_field_nonce ''nonce'',
     if_set ent_oidc_authorization_request_field_pkce_challenge ''pkce_challenge'',
     if_set ent_oidc_authorization_request_field_pkce_challenge_method ''pkce_challenge_method'',
     if_set ent_oidc_authorization_request_field_subject ''subject'',
     if_set ent_oidc_authorization_request_field_iam_login_session_id ''iam_login_session_id'',
     if_set ent_oidc_authorization_request_field_auth_time ''auth_time'',
     if_set ent_oidc_authorization_request_field_done ''done'',
     if_set ent_oidc_authorization_request_field_expires_time ''expires_time'',
     if_set ent_oidc_authorization_request_field_create_time ''create_time'',
     if_set ent_oidc_authorization_request_field_update_time ''update_time'']"

definition ent_oidc_authorization_request_field :: "string \<Rightarrow> mutation \<Rightarrow> go_value option" where
  "ent_oidc_authorization_request_field = get_switch [(''client_id'', ent_oidc_authorization_request_field_client_id),
     (''redirect_uri'', ent_oidc_authorization_request_field_redirect_uri),
     (''response_type'', ent_oidc_authorization_request_field_response_type),
     (''response_mode'', ent_oidc_authorization_request_field_response_mode),
     (''scopes'', ent_oidc_authorization_request_field_scopes),
     (''state'', ent_oidc_authorization_request_field_state),
     (''nonce'', ent_oidc_authorization_request_field_nonce),
     (''pkce_challenge'', ent_oidc_authorization_request_field_pkce_challenge),
     (''pkce_challenge_method'', ent_oidc_authorization_request_field_pkce_challenge_method),
     (''subject'', ent_oidc_authorization_request_field_subject),
     (''iam_login_session_id'', ent_oidc_authorization_request_field_iam_login_session_id),
     (''auth_time'', ent_oidc_authorization_request_field_auth_time),
     (''done'', ent_oidc_authorization_request_field_done),
     (''expires_time'', ent_oidc_authorization_request_field_expires_time),
     (''create_time'', ent_oidc_authorization_request_field_create_time),
     (''update_time'', ent_oidc_authorization_request_field_update_time)]"

definition ent_oidc_authorization_request_old_field :: "(go_value \<Rightarrow> err + entity) \<Rightarrow> string \<Rightarrow> mutation
    \<Rightarrow> (err + go_value option) \<times> mutation" where
  "ent_oidc_authorization_request_old_field = old_switch ''OIDCAuthorizationRequest'' [(''client_id'', ent_oidc_authorization_request_field_client_id),
     (''redirect_uri'', ent_oidc_authorization_request_field_redirect_uri),
     (''response_type'', ent_oidc_authorization_request_field_response_type),
     (''response_mode'', ent_oidc_authorization_request_field_response_mode),
     (''scopes'', ent_oidc_authorization_request_field_scopes),
     (''state'', ent_oidc_authorization_request_field_state),
     (''nonce'', ent_oidc_authorization_request_field_nonce),
     (''pkce_challenge'', ent_oidc_authorization_request_field_pkce_challenge),
     (''pkce_challenge_method'', ent_oidc_authorization_request_field_pkce_challenge_method),
     (''subject'', ent_oidc_authorization_request_field_subject),
     (''iam_login_session_id'', ent_oidc_authorization_request_field_iam_login_session_id),
     (''auth_time'', ent_oidc_authorization_request_field_auth_time),
     (''done'', ent_oidc_authorization_request_field_done),
     (''expires_time'', ent_oidc_authorization_request_field_expires_time),
     (''create_time'', ent_oidc_authorization_request_field_create_time),
     (''update_time'', ent_oidc_authorization_request_field_update_time)]"

definition ent_oidc_authorization_request_set_field :: "string \<Rightarrow> go_value \<Rightarrow> mutation \<Rightarrow> err + mutation" where
  "ent_oidc_authorization_request_set_field = set_switch ''OIDCAuthorizationRequest'' [(''client_id'', TString, ent_oidc_authorization_request_field_client_id),
     (''redirect_uri'', TString, ent_oidc_authorization_request_field_redirect_uri),
     (''response_type'', TString, ent_oidc_authorization_request_field_response_type),
     (''response_mode'', TString, ent_oidc_authorization_request_field_response_mode),
     (''scopes'', TStrings, ent_oidc_authorization_request_field_scopes),
     (''state'', TString, ent_oidc_authorization_request_field_state),
     (''nonce'', TString, ent_oidc_authorization_request_field_nonce),
     (''pkce_challenge'', TString, ent_oidc_authorization_request_field_pkce_challenge),
     (''pkce_challenge_method'', TString, ent_oidc_authorization_request_field_pkce_challenge_method),
     (''subject'', TString, ent_oidc_authorization_request_field_subject),
     (''iam_login_session_id'', TString, ent_oidc_authorization_request_field_iam_login_session_id),
     (''auth_time'', TTime, ent_oidc_authorization_request_field_auth_time),
     (''done'', TBool, ent_oidc_authorization_request_field_done),
     (''expires_time'', TTime, ent_oidc_authorization_request_field_expires_time),
     (''create_time'', TTime, ent_oidc_authorization_request_field_create_time),
     (''update_time'', TTime, ent_oidc_authorization_request_field_update_time)]"

definition ent_oidc_authorization_request_cleared_fields :: "mutation \<Rightarrow> string list" where
  "ent_oidc_authorization_request_cleared_fields = listed [if_cleared ''response_mode'', if_cleared ''state'', if_cleared ''nonce'', if_cleared ''subject'',
     if_cleared ''iam_login_session_id'', if_cleared ''auth_time'']"

definition ent_oidc_authorization_request_clear_field :: "string \<Rightarrow> mutation \<Rightarrow> err + mutation" where
  "ent_oidc_authorization_request_clear_field = clear_switch ''OIDCAuthorizationRequest'' [(''response_mode'', ent_oidc_authorization_request_field_response_mode),
     (''state'', ent_oidc_authorization_request_field_state),
     (''nonce'', ent_oidc_authorization_request_field_nonce),
     (''subject'', ent_oidc_authorization_request_field_subject),
     (''iam_login_session_id'', ent_oidc_authorization_request_field_iam_login_session_id),
     (''auth_time'', ent_oidc_authorization_request_field_auth_time)]"

definition ent_oidc_authorization_request_reset_field :: "string \<Rightarrow> mutation \<Rightarrow> err + mutation" where
  "ent_oidc_authorization_request_reset_field = reset_switch ''OIDCAuthorizationRequest'' [(''client_id'', ent_oidc_authorization_request_field_client_id),
     (''redirect_uri'', ent_oidc_authorization_request_field_redirect_uri),
     (''response_type'', ent_oidc_authorization_request_field_response_type),
     (''response_mode'', ent_oidc_authorization_request_field_response_mode),
     (''scopes'', ent_oidc_authorization_request_field_scopes),
     (''state'', ent_oidc_authorization_request_field_state),
     (''nonce'', ent_oidc_authorization_request_field_nonce),
     (''pkce_challenge'', ent_oidc_authorization_request_field_pkce_challenge),
     (''pkce_challenge_method'', ent_oidc_authorization_request_field_pkce_challenge_method),
     (''subject'', ent_oidc_authorization_request_field_subject),
     (''iam_login_session_id'', ent_oidc_authorization_request_field_iam_login_session_id),
     (''auth_time'', ent_oidc_authorization_request_field_auth_time),
     (''done'', ent_oidc_authorization_request_field_done),
     (''expires_time'', ent_oidc_authorization_request_field_expires_time),
     (''create_time'', ent_oidc_authorization_request_field_create_time),
     (''update_time'', ent_oidc_authorization_request_field_update_time)]"

definition ent_oidc_authorization_request_create_defaults :: "(nat \<Rightarrow> time) \<Rightarrow> mutation \<Rightarrow> mutation" where
  "ent_oidc_authorization_request_create_defaults = defaulted [
     set_default (descriptor ent_oidc_authorization_request_runtime ent_oidc_authorization_request_schema ''DefaultResponseMode'') ent_oidc_authorization_request_field_response_mode,
     set_default (descriptor ent_oidc_authorization_request_runtime ent_oidc_authorization_request_schema ''DefaultPkceChallengeMethod'') ent_oidc_authorization_request_field_pkce_challenge_method,
     set_default (descriptor ent_oidc_authorization_request_runtime ent_oidc_authorization_request_schema ''DefaultDone'') ent_oidc_authorization_request_field_done,
     set_default (descriptor ent_oidc_authorization_request_runtime ent_oidc_authorization_request_schema ''DefaultCreateTime'') ent_oidc_authorization_request_field_create_time,
     set_default (descriptor ent_oidc_authorization_request_runtime ent_oidc_authorization_request_schema ''DefaultUpdateTime'') ent_oidc_authorization_request_field_update_time]"

definition ent_oidc_authorization_request_create_check :: "mutation \<Rightarrow> ent_error option" where
  "ent_oidc_authorization_request_create_check = first_error [
     required ent_oidc_authorization_request_field_client_id ''client_id'',
     valid (descriptor ent_oidc_authorization_request_runtime ent_oidc_authorization_request_schema ''ClientIDValidator'') ent_oidc_authorization_request_field_client_id ''client_id'',
     required ent_oidc_authorization_request_field_redirect_uri ''redirect_uri'',
     valid (descriptor ent_oidc_authorization_request_runtime ent_oidc_authorization_request_schema ''RedirectURIValidator'') ent_oidc_authorization_request_field_redirect_uri ''redirect_uri'',
     required ent_oidc_authorization_request_field_response_type ''response_type'',
     valid (descriptor ent_oidc_authorization_request_runtime ent_oidc_authorization_request_schema ''ResponseTypeValidator'') ent_oidc_authorization_request_field_response_type ''response_type'',
     required ent_oidc_authorization_request_field_scopes ''scopes'',
     required ent_oidc_authorization_request_field_pkce_challenge ''pkce_challenge'',
     valid (descriptor ent_oidc_authorization_request_runtime ent_oidc_authorization_request_schema ''PkceChallengeValidator'') ent_oidc_authorization_request_field_pkce_challenge ''pkce_challenge'',
     required ent_oidc_authorization_request_field_pkce_challenge_method ''pkce_challenge_method'',
     required ent_oidc_authorization_request_field_done ''done'',
     required ent_oidc_authorization_request_field_expires_time ''expires_time'',
     required ent_oidc_authorization_request_field_create_time ''create_time'',
     required ent_oidc_authorization_request_field_update_time ''update_time'']"

definition ent_oidc_authorization_request_zero :: "entity" where
  "ent_oidc_authorization_request_zero = map_of [(''id'', VString []), (''client_id'', VString []), (''redirect_uri'', VString []),
     (''response_type'', VString []), (''response_mode'', VString []), (''scopes'', VStrings []),
     (''pkce_challenge'', VString []), (''pkce_challenge_method'', VString []), (''done'', VBool False),
     (''expires_time'', VTime 0), (''create_time'', VTime 0), (''update_time'', VTime 0)]"

definition ent_oidc_authorization_request_create_spec :: "mutation \<Rightarrow> create_spec" where
  "ent_oidc_authorization_request_create_spec = create_steps ent_oidc_authorization_request_zero [created_id, created ent_oidc_authorization_request_field_client_id ''client_id'',
     created ent_oidc_authorization_request_field_redirect_uri ''redirect_uri'',
     created ent_oidc_authorization_request_field_response_type ''response_type'',
     created ent_oidc_authorization_request_field_response_mode ''response_mode'',
     created ent_oidc_authorization_request_field_scopes ''scopes'',
     created ent_oidc_authorization_request_field_state ''state'',
     created ent_oidc_authorization_request_field_nonce ''nonce'',
     created ent_oidc_authorization_request_field_pkce_challenge ''pkce_challenge'',
     created ent_oidc_authorization_request_field_pkce_challenge_method ''pkce_challenge_method'',
     created ent_oidc_authorization_request_field_subject ''subject'',
     created ent_oidc_authorization_request_field_iam_login_session_id ''iam_login_session_id'',
     created ent_oidc_authorization_request_field_auth_time ''auth_time'',
     created ent_oidc_authorization_request_field_done ''done'',
     created ent_oidc_authorization_request_field_expires_time ''expires_time'',
     created ent_oidc_authorization_request_field_create_time ''create_time'',
     created ent_oidc_authorization_request_field_update_time ''update_time'']"

definition ent_oidc_authorization_request_update_defaults :: "(nat \<Rightarrow> time) \<Rightarrow> mutation \<Rightarrow> mutation" where
  "ent_oidc_authorization_request_update_defaults = defaulted [update_to_now ent_oidc_authorization_request_field_update_time]"

definition ent_oidc_authorization_request_update :: "mutation \<Rightarrow> ent_error + assignment list" where
  "ent_oidc_authorization_request_update = update_steps [
     valid (descriptor ent_oidc_authorization_request_runtime ent_oidc_authorization_request_schema ''PkceChallengeValidator'') ent_oidc_authorization_request_field_pkce_challenge ''pkce_challenge''] [
     assign_set ent_oidc_authorization_request_field_response_mode ''response_mode'',
     assign_clear ent_oidc_authorization_request_field_response_mode ''response_mode'',
     assign_set ent_oidc_authorization_request_field_scopes ''scopes'',
     assign_append ent_oidc_authorization_request_field_scopes ''scopes'',
     assign_set ent_oidc_authorization_request_field_state ''state'',
     assign_clear ent_oidc_authorization_request_field_state ''state'',
     assign_set ent_oidc_authorization_request_field_nonce ''nonce'',
     assign_clear ent_oidc_authorization_request_field_nonce ''nonce'',
     assign_set ent_oidc_authorization_request_field_pkce_challenge ''pkce_challenge'',
     assign_set ent_oidc_authorization_request_field_pkce_challenge_method ''pkce_challenge_method'',
     assign_set ent_oidc_authorization_request_field_subject ''subject'',
     assign_clear ent_oidc_authorization_request_field_subject ''subject'',
     assign_set ent_oidc_authorization_request_field_iam_login_session_id ''iam_login_session_id'',
     assign_clear ent_oidc_authorization_request_field_iam_login_session_id ''iam_login_session_id'',
     assign_set ent_oidc_authorization_request_field_auth_time ''auth_time'',
     assign_clear ent_oidc_authorization_request_field_auth_time ''auth_time'',
     assign_set ent_oidc_authorization_request_field_done ''done'',
     assign_set ent_oidc_authorization_request_field_update_time ''update_time'']"

definition ent_oidc_authorization_request_columns :: "string list" where
  "ent_oidc_authorization_request_columns = [''id'', ''client_id'', ''redirect_uri'', ''response_type'', ''response_mode'', ''scopes'', ''state'',
     ''nonce'', ''pkce_challenge'', ''pkce_challenge_method'', ''subject'', ''iam_login_session_id'',
     ''auth_time'', ''done'', ''expires_time'', ''create_time'', ''update_time'']"

definition ent_oidc_authorization_request_update_one :: "string list \<Rightarrow> mutation
    \<Rightarrow> ent_error + go_value \<times> string list \<times> assignment list" where
  "ent_oidc_authorization_request_update_one = update_one_steps ent_oidc_authorization_request_columns [
     valid (descriptor ent_oidc_authorization_request_runtime ent_oidc_authorization_request_schema ''PkceChallengeValidator'') ent_oidc_authorization_request_field_pkce_challenge ''pkce_challenge''] [
     assign_set ent_oidc_authorization_request_field_response_mode ''response_mode'',
     assign_clear ent_oidc_authorization_request_field_response_mode ''response_mode'',
     assign_set ent_oidc_authorization_request_field_scopes ''scopes'',
     assign_append ent_oidc_authorization_request_field_scopes ''scopes'',
     assign_set ent_oidc_authorization_request_field_state ''state'',
     assign_clear ent_oidc_authorization_request_field_state ''state'',
     assign_set ent_oidc_authorization_request_field_nonce ''nonce'',
     assign_clear ent_oidc_authorization_request_field_nonce ''nonce'',
     assign_set ent_oidc_authorization_request_field_pkce_challenge ''pkce_challenge'',
     assign_set ent_oidc_authorization_request_field_pkce_challenge_method ''pkce_challenge_method'',
     assign_set ent_oidc_authorization_request_field_subject ''subject'',
     assign_clear ent_oidc_authorization_request_field_subject ''subject'',
     assign_set ent_oidc_authorization_request_field_iam_login_session_id ''iam_login_session_id'',
     assign_clear ent_oidc_authorization_request_field_iam_login_session_id ''iam_login_session_id'',
     assign_set ent_oidc_authorization_request_field_auth_time ''auth_time'',
     assign_clear ent_oidc_authorization_request_field_auth_time ''auth_time'',
     assign_set ent_oidc_authorization_request_field_done ''done'',
     assign_set ent_oidc_authorization_request_field_update_time ''update_time'']"

definition ent_oidc_authorization_request_scan_values :: "string \<Rightarrow> scan_type" where
  "ent_oidc_authorization_request_scan_values = scan_switch [
     ([''scopes''], RawBytes),
     ([''done''], NullBool),
     ([''id'', ''client_id'', ''redirect_uri'', ''response_type'', ''response_mode'', ''state'', ''nonce'',
       ''pkce_challenge'', ''pkce_challenge_method'', ''subject'', ''iam_login_session_id''], NullString),
     ([''auth_time'', ''expires_time'', ''create_time'', ''update_time''], NullTime)]"

definition ent_oidc_authorization_request_assign_values :: "(string \<Rightarrow> err + string list) \<Rightarrow> string list \<Rightarrow> sql_cell list \<Rightarrow> entity \<Rightarrow> err + entity" where
  "ent_oidc_authorization_request_assign_values = assign_row [(''id'', take_cell TString ''id''), (''client_id'', take_cell TString ''client_id''),
     (''redirect_uri'', take_cell TString ''redirect_uri''),
     (''response_type'', take_cell TString ''response_type''),
     (''response_mode'', take_cell TString ''response_mode''), (''scopes'', take_cell TStrings ''scopes''),
     (''state'', take_cell TString ''state''), (''nonce'', take_cell TString ''nonce''),
     (''pkce_challenge'', take_cell TString ''pkce_challenge''),
     (''pkce_challenge_method'', take_cell TString ''pkce_challenge_method''),
     (''subject'', take_cell TString ''subject''),
     (''iam_login_session_id'', take_cell TString ''iam_login_session_id''),
     (''auth_time'', take_cell TTime ''auth_time''), (''done'', take_cell TBool ''done''),
     (''expires_time'', take_cell TTime ''expires_time''), (''create_time'', take_cell TTime ''create_time''),
     (''update_time'', take_cell TTime ''update_time'')]"

definition ent_oidc_authorization_request_code :: entity_code where
  "ent_oidc_authorization_request_code = \<lparr>ey_columns = ent_oidc_authorization_request_columns, ey_zero = ent_oidc_authorization_request_zero, ey_new = new_ent_oidc_authorization_request_mutation,
     ey_fields = ent_oidc_authorization_request_fields, ey_field = ent_oidc_authorization_request_field, ey_old_field = ent_oidc_authorization_request_old_field, ey_set_field = ent_oidc_authorization_request_set_field,
     ey_cleared_fields = ent_oidc_authorization_request_cleared_fields, ey_clear_field = ent_oidc_authorization_request_clear_field, ey_reset_field = ent_oidc_authorization_request_reset_field,
     ey_defaults = ent_oidc_authorization_request_create_defaults, ey_check = ent_oidc_authorization_request_create_check, ey_create_spec = ent_oidc_authorization_request_create_spec,
     ey_update_defaults = ent_oidc_authorization_request_update_defaults, ey_update = ent_oidc_authorization_request_update, ey_update_one = ent_oidc_authorization_request_update_one,
     ey_scan = ent_oidc_authorization_request_scan_values, ey_assign = ent_oidc_authorization_request_assign_values\<rparr>"

lemmas ent_oidc_authorization_request_defs = ent_oidc_authorization_request_schema_def ent_oidc_authorization_request_runtime_def
  ent_oidc_authorization_request_field_client_id_def ent_oidc_authorization_request_field_redirect_uri_def
  ent_oidc_authorization_request_field_response_type_def
  ent_oidc_authorization_request_field_response_mode_def ent_oidc_authorization_request_field_scopes_def
  ent_oidc_authorization_request_field_state_def ent_oidc_authorization_request_field_nonce_def
  ent_oidc_authorization_request_field_pkce_challenge_def
  ent_oidc_authorization_request_field_pkce_challenge_method_def
  ent_oidc_authorization_request_field_subject_def
  ent_oidc_authorization_request_field_iam_login_session_id_def
  ent_oidc_authorization_request_field_auth_time_def ent_oidc_authorization_request_field_done_def
  ent_oidc_authorization_request_field_expires_time_def ent_oidc_authorization_request_field_create_time_def
  ent_oidc_authorization_request_field_update_time_def new_ent_oidc_authorization_request_mutation_def
  ent_oidc_authorization_request_fields_def ent_oidc_authorization_request_field_def
  ent_oidc_authorization_request_old_field_def ent_oidc_authorization_request_set_field_def
  ent_oidc_authorization_request_cleared_fields_def ent_oidc_authorization_request_clear_field_def
  ent_oidc_authorization_request_reset_field_def ent_oidc_authorization_request_create_defaults_def
  ent_oidc_authorization_request_create_check_def ent_oidc_authorization_request_zero_def
  ent_oidc_authorization_request_create_spec_def ent_oidc_authorization_request_update_defaults_def
  ent_oidc_authorization_request_update_def ent_oidc_authorization_request_columns_def
  ent_oidc_authorization_request_update_one_def ent_oidc_authorization_request_scan_values_def
  ent_oidc_authorization_request_assign_values_def ent_oidc_authorization_request_code_def

lemma ent_oidc_authorization_request_scan: "ent_oidc_authorization_request_scan_values = ey_scan (reference ''OIDCAuthorizationRequest'' TString True (tl ent_oidc_authorization_request_schema))"
  unfolding ent_oidc_authorization_request_scan_values_def by (rule scan_referenceI) code_simp+

lemma ent_oidc_authorization_request_is_reference: "ent_oidc_authorization_request_code = reference ''OIDCAuthorizationRequest'' TString True (tl ent_oidc_authorization_request_schema)"
  using ent_oidc_authorization_request_scan by (simp add: ent_oidc_authorization_request_defs reference_simps)

section \<open>OAuthAuthorizationCode\<close>

definition ent_oauth_authorization_code_schema :: "column list" where
  "ent_oauth_authorization_code_schema = [
     (field_of TString ''id'' ''ID'')\<lparr>cl_immutable := True\<rparr>,
     (field_of TString ''code_hash'' ''CodeHash'')\<lparr>cl_not_empty := True\<rparr>,
     (field_of TString ''authorization_request_id'' ''AuthorizationRequestID'')\<lparr>cl_not_empty := True, cl_immutable := True\<rparr>,
     (field_of TString ''token_session_id'' ''TokenSessionID'')\<lparr>cl_optional := True, cl_nillable := True\<rparr>,
     (field_of TString ''client_id'' ''ClientID'')\<lparr>cl_not_empty := True, cl_immutable := True\<rparr>,
     (field_of TString ''subject'' ''Subject'')\<lparr>cl_not_empty := True, cl_immutable := True\<rparr>,
     (field_of TString ''redirect_uri'' ''RedirectURI'')\<lparr>cl_not_empty := True, cl_immutable := True\<rparr>,
     (field_of TStrings ''scopes'' ''Scopes''),
     (field_of TString ''pkce_challenge'' ''PkceChallenge'')\<lparr>cl_not_empty := True\<rparr>,
     (field_of TString ''pkce_challenge_method'' ''PkceChallengeMethod'')\<lparr>cl_default := Some (DefaultConst (VString ''S256''))\<rparr>,
     (field_of TTime ''expires_time'' ''ExpiresTime'')\<lparr>cl_immutable := True\<rparr>,
     (field_of TTime ''consumed_time'' ''ConsumedTime'')\<lparr>cl_optional := True, cl_nillable := True\<rparr>,
     (field_of TTime ''create_time'' ''CreateTime'')\<lparr>cl_default := Some DefaultNow, cl_immutable := True\<rparr>]"

definition ent_oauth_authorization_code_runtime :: "(string \<times> nat) list" where
  "ent_oauth_authorization_code_runtime = [(''CodeHashValidator'', 1), (''AuthorizationRequestIDValidator'', 2), (''ClientIDValidator'', 4),
     (''SubjectValidator'', 5), (''RedirectURIValidator'', 6), (''PkceChallengeValidator'', 8),
     (''DefaultPkceChallengeMethod'', 9), (''DefaultCreateTime'', 12)]"

definition ent_oauth_authorization_code_field_code_hash :: "field_methods" where
  "ent_oauth_authorization_code_field_code_hash = plain_field ''code_hash'' ''CodeHash''"

definition ent_oauth_authorization_code_field_authorization_request_id :: "field_methods" where
  "ent_oauth_authorization_code_field_authorization_request_id = plain_field ''authorization_request_id'' ''AuthorizationRequestID''"

definition ent_oauth_authorization_code_field_token_session_id :: "field_methods" where
  "ent_oauth_authorization_code_field_token_session_id = nullable_field ''token_session_id'' ''TokenSessionID''"

definition ent_oauth_authorization_code_field_client_id :: "field_methods" where
  "ent_oauth_authorization_code_field_client_id = plain_field ''client_id'' ''ClientID''"

definition ent_oauth_authorization_code_field_subject :: "field_methods" where
  "ent_oauth_authorization_code_field_subject = plain_field ''subject'' ''Subject''"

definition ent_oauth_authorization_code_field_redirect_uri :: "field_methods" where
  "ent_oauth_authorization_code_field_redirect_uri = plain_field ''redirect_uri'' ''RedirectURI''"

definition ent_oauth_authorization_code_field_scopes :: "field_methods" where
  "ent_oauth_authorization_code_field_scopes = list_field ''scopes'' ''Scopes''"

definition ent_oauth_authorization_code_field_pkce_challenge :: "field_methods" where
  "ent_oauth_authorization_code_field_pkce_challenge = plain_field ''pkce_challenge'' ''PkceChallenge''"

definition ent_oauth_authorization_code_field_pkce_challenge_method :: "field_methods" where
  "ent_oauth_authorization_code_field_pkce_challenge_method = plain_field ''pkce_challenge_method'' ''PkceChallengeMethod''"

definition ent_oauth_authorization_code_field_expires_time :: "field_methods" where
  "ent_oauth_authorization_code_field_expires_time = plain_field ''expires_time'' ''ExpiresTime''"

definition ent_oauth_authorization_code_field_consumed_time :: "field_methods" where
  "ent_oauth_authorization_code_field_consumed_time = nullable_field ''consumed_time'' ''ConsumedTime''"

definition ent_oauth_authorization_code_field_create_time :: "field_methods" where
  "ent_oauth_authorization_code_field_create_time = plain_field ''create_time'' ''CreateTime''"

definition new_ent_oauth_authorization_code_mutation :: "ent_op \<Rightarrow> mutation" where
  "new_ent_oauth_authorization_code_mutation = new_mutation ''OAuthAuthorizationCode''"

definition ent_oauth_authorization_code_fields :: "mutation \<Rightarrow> string list" where
  "ent_oauth_authorization_code_fields = listed [if_set ent_oauth_authorization_code_field_code_hash ''code_hash'',
     if_set ent_oauth_authorization_code_field_authorization_request_id ''authorization_request_id'',
     if_set ent_oauth_authorization_code_field_token_session_id ''token_session_id'',
     if_set ent_oauth_authorization_code_field_client_id ''client_id'',
     if_set ent_oauth_authorization_code_field_subject ''subject'',
     if_set ent_oauth_authorization_code_field_redirect_uri ''redirect_uri'',
     if_set ent_oauth_authorization_code_field_scopes ''scopes'',
     if_set ent_oauth_authorization_code_field_pkce_challenge ''pkce_challenge'',
     if_set ent_oauth_authorization_code_field_pkce_challenge_method ''pkce_challenge_method'',
     if_set ent_oauth_authorization_code_field_expires_time ''expires_time'',
     if_set ent_oauth_authorization_code_field_consumed_time ''consumed_time'',
     if_set ent_oauth_authorization_code_field_create_time ''create_time'']"

definition ent_oauth_authorization_code_field :: "string \<Rightarrow> mutation \<Rightarrow> go_value option" where
  "ent_oauth_authorization_code_field = get_switch [(''code_hash'', ent_oauth_authorization_code_field_code_hash),
     (''authorization_request_id'', ent_oauth_authorization_code_field_authorization_request_id),
     (''token_session_id'', ent_oauth_authorization_code_field_token_session_id),
     (''client_id'', ent_oauth_authorization_code_field_client_id),
     (''subject'', ent_oauth_authorization_code_field_subject),
     (''redirect_uri'', ent_oauth_authorization_code_field_redirect_uri),
     (''scopes'', ent_oauth_authorization_code_field_scopes),
     (''pkce_challenge'', ent_oauth_authorization_code_field_pkce_challenge),
     (''pkce_challenge_method'', ent_oauth_authorization_code_field_pkce_challenge_method),
     (''expires_time'', ent_oauth_authorization_code_field_expires_time),
     (''consumed_time'', ent_oauth_authorization_code_field_consumed_time),
     (''create_time'', ent_oauth_authorization_code_field_create_time)]"

definition ent_oauth_authorization_code_old_field :: "(go_value \<Rightarrow> err + entity) \<Rightarrow> string \<Rightarrow> mutation
    \<Rightarrow> (err + go_value option) \<times> mutation" where
  "ent_oauth_authorization_code_old_field = old_switch ''OAuthAuthorizationCode'' [(''code_hash'', ent_oauth_authorization_code_field_code_hash),
     (''authorization_request_id'', ent_oauth_authorization_code_field_authorization_request_id),
     (''token_session_id'', ent_oauth_authorization_code_field_token_session_id),
     (''client_id'', ent_oauth_authorization_code_field_client_id),
     (''subject'', ent_oauth_authorization_code_field_subject),
     (''redirect_uri'', ent_oauth_authorization_code_field_redirect_uri),
     (''scopes'', ent_oauth_authorization_code_field_scopes),
     (''pkce_challenge'', ent_oauth_authorization_code_field_pkce_challenge),
     (''pkce_challenge_method'', ent_oauth_authorization_code_field_pkce_challenge_method),
     (''expires_time'', ent_oauth_authorization_code_field_expires_time),
     (''consumed_time'', ent_oauth_authorization_code_field_consumed_time),
     (''create_time'', ent_oauth_authorization_code_field_create_time)]"

definition ent_oauth_authorization_code_set_field :: "string \<Rightarrow> go_value \<Rightarrow> mutation \<Rightarrow> err + mutation" where
  "ent_oauth_authorization_code_set_field = set_switch ''OAuthAuthorizationCode'' [(''code_hash'', TString, ent_oauth_authorization_code_field_code_hash),
     (''authorization_request_id'', TString, ent_oauth_authorization_code_field_authorization_request_id),
     (''token_session_id'', TString, ent_oauth_authorization_code_field_token_session_id),
     (''client_id'', TString, ent_oauth_authorization_code_field_client_id),
     (''subject'', TString, ent_oauth_authorization_code_field_subject),
     (''redirect_uri'', TString, ent_oauth_authorization_code_field_redirect_uri),
     (''scopes'', TStrings, ent_oauth_authorization_code_field_scopes),
     (''pkce_challenge'', TString, ent_oauth_authorization_code_field_pkce_challenge),
     (''pkce_challenge_method'', TString, ent_oauth_authorization_code_field_pkce_challenge_method),
     (''expires_time'', TTime, ent_oauth_authorization_code_field_expires_time),
     (''consumed_time'', TTime, ent_oauth_authorization_code_field_consumed_time),
     (''create_time'', TTime, ent_oauth_authorization_code_field_create_time)]"

definition ent_oauth_authorization_code_cleared_fields :: "mutation \<Rightarrow> string list" where
  "ent_oauth_authorization_code_cleared_fields = listed [if_cleared ''token_session_id'', if_cleared ''consumed_time'']"

definition ent_oauth_authorization_code_clear_field :: "string \<Rightarrow> mutation \<Rightarrow> err + mutation" where
  "ent_oauth_authorization_code_clear_field = clear_switch ''OAuthAuthorizationCode'' [(''token_session_id'', ent_oauth_authorization_code_field_token_session_id),
     (''consumed_time'', ent_oauth_authorization_code_field_consumed_time)]"

definition ent_oauth_authorization_code_reset_field :: "string \<Rightarrow> mutation \<Rightarrow> err + mutation" where
  "ent_oauth_authorization_code_reset_field = reset_switch ''OAuthAuthorizationCode'' [(''code_hash'', ent_oauth_authorization_code_field_code_hash),
     (''authorization_request_id'', ent_oauth_authorization_code_field_authorization_request_id),
     (''token_session_id'', ent_oauth_authorization_code_field_token_session_id),
     (''client_id'', ent_oauth_authorization_code_field_client_id),
     (''subject'', ent_oauth_authorization_code_field_subject),
     (''redirect_uri'', ent_oauth_authorization_code_field_redirect_uri),
     (''scopes'', ent_oauth_authorization_code_field_scopes),
     (''pkce_challenge'', ent_oauth_authorization_code_field_pkce_challenge),
     (''pkce_challenge_method'', ent_oauth_authorization_code_field_pkce_challenge_method),
     (''expires_time'', ent_oauth_authorization_code_field_expires_time),
     (''consumed_time'', ent_oauth_authorization_code_field_consumed_time),
     (''create_time'', ent_oauth_authorization_code_field_create_time)]"

definition ent_oauth_authorization_code_create_defaults :: "(nat \<Rightarrow> time) \<Rightarrow> mutation \<Rightarrow> mutation" where
  "ent_oauth_authorization_code_create_defaults = defaulted [
     set_default (descriptor ent_oauth_authorization_code_runtime ent_oauth_authorization_code_schema ''DefaultPkceChallengeMethod'') ent_oauth_authorization_code_field_pkce_challenge_method,
     set_default (descriptor ent_oauth_authorization_code_runtime ent_oauth_authorization_code_schema ''DefaultCreateTime'') ent_oauth_authorization_code_field_create_time]"

definition ent_oauth_authorization_code_create_check :: "mutation \<Rightarrow> ent_error option" where
  "ent_oauth_authorization_code_create_check = first_error [
     required ent_oauth_authorization_code_field_code_hash ''code_hash'',
     valid (descriptor ent_oauth_authorization_code_runtime ent_oauth_authorization_code_schema ''CodeHashValidator'') ent_oauth_authorization_code_field_code_hash ''code_hash'',
     required ent_oauth_authorization_code_field_authorization_request_id ''authorization_request_id'',
     valid (descriptor ent_oauth_authorization_code_runtime ent_oauth_authorization_code_schema ''AuthorizationRequestIDValidator'') ent_oauth_authorization_code_field_authorization_request_id ''authorization_request_id'',
     required ent_oauth_authorization_code_field_client_id ''client_id'',
     valid (descriptor ent_oauth_authorization_code_runtime ent_oauth_authorization_code_schema ''ClientIDValidator'') ent_oauth_authorization_code_field_client_id ''client_id'',
     required ent_oauth_authorization_code_field_subject ''subject'',
     valid (descriptor ent_oauth_authorization_code_runtime ent_oauth_authorization_code_schema ''SubjectValidator'') ent_oauth_authorization_code_field_subject ''subject'',
     required ent_oauth_authorization_code_field_redirect_uri ''redirect_uri'',
     valid (descriptor ent_oauth_authorization_code_runtime ent_oauth_authorization_code_schema ''RedirectURIValidator'') ent_oauth_authorization_code_field_redirect_uri ''redirect_uri'',
     required ent_oauth_authorization_code_field_scopes ''scopes'',
     required ent_oauth_authorization_code_field_pkce_challenge ''pkce_challenge'',
     valid (descriptor ent_oauth_authorization_code_runtime ent_oauth_authorization_code_schema ''PkceChallengeValidator'') ent_oauth_authorization_code_field_pkce_challenge ''pkce_challenge'',
     required ent_oauth_authorization_code_field_pkce_challenge_method ''pkce_challenge_method'',
     required ent_oauth_authorization_code_field_expires_time ''expires_time'',
     required ent_oauth_authorization_code_field_create_time ''create_time'']"

definition ent_oauth_authorization_code_zero :: "entity" where
  "ent_oauth_authorization_code_zero = map_of [(''id'', VString []), (''code_hash'', VString []), (''authorization_request_id'', VString []),
     (''client_id'', VString []), (''subject'', VString []), (''redirect_uri'', VString []),
     (''scopes'', VStrings []), (''pkce_challenge'', VString []), (''pkce_challenge_method'', VString []),
     (''expires_time'', VTime 0), (''create_time'', VTime 0)]"

definition ent_oauth_authorization_code_create_spec :: "mutation \<Rightarrow> create_spec" where
  "ent_oauth_authorization_code_create_spec = create_steps ent_oauth_authorization_code_zero [created_id, created ent_oauth_authorization_code_field_code_hash ''code_hash'',
     created ent_oauth_authorization_code_field_authorization_request_id ''authorization_request_id'',
     created ent_oauth_authorization_code_field_token_session_id ''token_session_id'',
     created ent_oauth_authorization_code_field_client_id ''client_id'',
     created ent_oauth_authorization_code_field_subject ''subject'',
     created ent_oauth_authorization_code_field_redirect_uri ''redirect_uri'',
     created ent_oauth_authorization_code_field_scopes ''scopes'',
     created ent_oauth_authorization_code_field_pkce_challenge ''pkce_challenge'',
     created ent_oauth_authorization_code_field_pkce_challenge_method ''pkce_challenge_method'',
     created ent_oauth_authorization_code_field_expires_time ''expires_time'',
     created ent_oauth_authorization_code_field_consumed_time ''consumed_time'',
     created ent_oauth_authorization_code_field_create_time ''create_time'']"

definition ent_oauth_authorization_code_update_defaults :: "(nat \<Rightarrow> time) \<Rightarrow> mutation \<Rightarrow> mutation" where
  "ent_oauth_authorization_code_update_defaults = defaulted []"

definition ent_oauth_authorization_code_update :: "mutation \<Rightarrow> ent_error + assignment list" where
  "ent_oauth_authorization_code_update = update_steps [
     valid (descriptor ent_oauth_authorization_code_runtime ent_oauth_authorization_code_schema ''CodeHashValidator'') ent_oauth_authorization_code_field_code_hash ''code_hash'',
     valid (descriptor ent_oauth_authorization_code_runtime ent_oauth_authorization_code_schema ''PkceChallengeValidator'') ent_oauth_authorization_code_field_pkce_challenge ''pkce_challenge''] [
     assign_set ent_oauth_authorization_code_field_code_hash ''code_hash'',
     assign_set ent_oauth_authorization_code_field_token_session_id ''token_session_id'',
     assign_clear ent_oauth_authorization_code_field_token_session_id ''token_session_id'',
     assign_set ent_oauth_authorization_code_field_scopes ''scopes'',
     assign_append ent_oauth_authorization_code_field_scopes ''scopes'',
     assign_set ent_oauth_authorization_code_field_pkce_challenge ''pkce_challenge'',
     assign_set ent_oauth_authorization_code_field_pkce_challenge_method ''pkce_challenge_method'',
     assign_set ent_oauth_authorization_code_field_consumed_time ''consumed_time'',
     assign_clear ent_oauth_authorization_code_field_consumed_time ''consumed_time'']"

definition ent_oauth_authorization_code_columns :: "string list" where
  "ent_oauth_authorization_code_columns = [''id'', ''code_hash'', ''authorization_request_id'', ''token_session_id'', ''client_id'', ''subject'',
     ''redirect_uri'', ''scopes'', ''pkce_challenge'', ''pkce_challenge_method'', ''expires_time'',
     ''consumed_time'', ''create_time'']"

definition ent_oauth_authorization_code_update_one :: "string list \<Rightarrow> mutation
    \<Rightarrow> ent_error + go_value \<times> string list \<times> assignment list" where
  "ent_oauth_authorization_code_update_one = update_one_steps ent_oauth_authorization_code_columns [
     valid (descriptor ent_oauth_authorization_code_runtime ent_oauth_authorization_code_schema ''CodeHashValidator'') ent_oauth_authorization_code_field_code_hash ''code_hash'',
     valid (descriptor ent_oauth_authorization_code_runtime ent_oauth_authorization_code_schema ''PkceChallengeValidator'') ent_oauth_authorization_code_field_pkce_challenge ''pkce_challenge''] [
     assign_set ent_oauth_authorization_code_field_code_hash ''code_hash'',
     assign_set ent_oauth_authorization_code_field_token_session_id ''token_session_id'',
     assign_clear ent_oauth_authorization_code_field_token_session_id ''token_session_id'',
     assign_set ent_oauth_authorization_code_field_scopes ''scopes'',
     assign_append ent_oauth_authorization_code_field_scopes ''scopes'',
     assign_set ent_oauth_authorization_code_field_pkce_challenge ''pkce_challenge'',
     assign_set ent_oauth_authorization_code_field_pkce_challenge_method ''pkce_challenge_method'',
     assign_set ent_oauth_authorization_code_field_consumed_time ''consumed_time'',
     assign_clear ent_oauth_authorization_code_field_consumed_time ''consumed_time'']"

definition ent_oauth_authorization_code_scan_values :: "string \<Rightarrow> scan_type" where
  "ent_oauth_authorization_code_scan_values = scan_switch [
     ([''scopes''], RawBytes),
     ([''id'', ''code_hash'', ''authorization_request_id'', ''token_session_id'', ''client_id'', ''subject'',
       ''redirect_uri'', ''pkce_challenge'', ''pkce_challenge_method''], NullString),
     ([''expires_time'', ''consumed_time'', ''create_time''], NullTime)]"

definition ent_oauth_authorization_code_assign_values :: "(string \<Rightarrow> err + string list) \<Rightarrow> string list \<Rightarrow> sql_cell list \<Rightarrow> entity \<Rightarrow> err + entity" where
  "ent_oauth_authorization_code_assign_values = assign_row [(''id'', take_cell TString ''id''), (''code_hash'', take_cell TString ''code_hash''),
     (''authorization_request_id'', take_cell TString ''authorization_request_id''),
     (''token_session_id'', take_cell TString ''token_session_id''),
     (''client_id'', take_cell TString ''client_id''), (''subject'', take_cell TString ''subject''),
     (''redirect_uri'', take_cell TString ''redirect_uri''), (''scopes'', take_cell TStrings ''scopes''),
     (''pkce_challenge'', take_cell TString ''pkce_challenge''),
     (''pkce_challenge_method'', take_cell TString ''pkce_challenge_method''),
     (''expires_time'', take_cell TTime ''expires_time''),
     (''consumed_time'', take_cell TTime ''consumed_time''), (''create_time'', take_cell TTime ''create_time'')]"

definition ent_oauth_authorization_code_code :: entity_code where
  "ent_oauth_authorization_code_code = \<lparr>ey_columns = ent_oauth_authorization_code_columns, ey_zero = ent_oauth_authorization_code_zero, ey_new = new_ent_oauth_authorization_code_mutation,
     ey_fields = ent_oauth_authorization_code_fields, ey_field = ent_oauth_authorization_code_field, ey_old_field = ent_oauth_authorization_code_old_field, ey_set_field = ent_oauth_authorization_code_set_field,
     ey_cleared_fields = ent_oauth_authorization_code_cleared_fields, ey_clear_field = ent_oauth_authorization_code_clear_field, ey_reset_field = ent_oauth_authorization_code_reset_field,
     ey_defaults = ent_oauth_authorization_code_create_defaults, ey_check = ent_oauth_authorization_code_create_check, ey_create_spec = ent_oauth_authorization_code_create_spec,
     ey_update_defaults = ent_oauth_authorization_code_update_defaults, ey_update = ent_oauth_authorization_code_update, ey_update_one = ent_oauth_authorization_code_update_one,
     ey_scan = ent_oauth_authorization_code_scan_values, ey_assign = ent_oauth_authorization_code_assign_values\<rparr>"

lemmas ent_oauth_authorization_code_defs = ent_oauth_authorization_code_schema_def ent_oauth_authorization_code_runtime_def
  ent_oauth_authorization_code_field_code_hash_def
  ent_oauth_authorization_code_field_authorization_request_id_def
  ent_oauth_authorization_code_field_token_session_id_def ent_oauth_authorization_code_field_client_id_def
  ent_oauth_authorization_code_field_subject_def ent_oauth_authorization_code_field_redirect_uri_def
  ent_oauth_authorization_code_field_scopes_def ent_oauth_authorization_code_field_pkce_challenge_def
  ent_oauth_authorization_code_field_pkce_challenge_method_def
  ent_oauth_authorization_code_field_expires_time_def ent_oauth_authorization_code_field_consumed_time_def
  ent_oauth_authorization_code_field_create_time_def new_ent_oauth_authorization_code_mutation_def
  ent_oauth_authorization_code_fields_def ent_oauth_authorization_code_field_def
  ent_oauth_authorization_code_old_field_def ent_oauth_authorization_code_set_field_def
  ent_oauth_authorization_code_cleared_fields_def ent_oauth_authorization_code_clear_field_def
  ent_oauth_authorization_code_reset_field_def ent_oauth_authorization_code_create_defaults_def
  ent_oauth_authorization_code_create_check_def ent_oauth_authorization_code_zero_def
  ent_oauth_authorization_code_create_spec_def ent_oauth_authorization_code_update_defaults_def
  ent_oauth_authorization_code_update_def ent_oauth_authorization_code_columns_def
  ent_oauth_authorization_code_update_one_def ent_oauth_authorization_code_scan_values_def
  ent_oauth_authorization_code_assign_values_def ent_oauth_authorization_code_code_def

lemma ent_oauth_authorization_code_scan: "ent_oauth_authorization_code_scan_values = ey_scan (reference ''OAuthAuthorizationCode'' TString True (tl ent_oauth_authorization_code_schema))"
  unfolding ent_oauth_authorization_code_scan_values_def by (rule scan_referenceI) code_simp+

lemma ent_oauth_authorization_code_is_reference: "ent_oauth_authorization_code_code = reference ''OAuthAuthorizationCode'' TString True (tl ent_oauth_authorization_code_schema)"
  using ent_oauth_authorization_code_scan by (simp add: ent_oauth_authorization_code_defs reference_simps)

section \<open>OAuthTokenSession\<close>

definition ent_oauth_token_session_schema :: "column list" where
  "ent_oauth_token_session_schema = [
     (field_of TString ''id'' ''ID'')\<lparr>cl_immutable := True\<rparr>,
     (field_of TString ''user_id'' ''UserID'')\<lparr>cl_not_empty := True, cl_immutable := True\<rparr>,
     (field_of TString ''client_id'' ''ClientID'')\<lparr>cl_not_empty := True, cl_immutable := True\<rparr>,
     (field_of TString ''iam_login_session_id'' ''IamLoginSessionID'')\<lparr>cl_not_empty := True, cl_immutable := True\<rparr>,
     (field_of TString ''refresh_family_id'' ''RefreshFamilyID'')\<lparr>cl_not_empty := True, cl_immutable := True\<rparr>,
     (field_of TStrings ''scopes'' ''Scopes''),
     (field_of TTime ''auth_time'' ''AuthTime'')\<lparr>cl_immutable := True\<rparr>,
     (field_of TStrings ''amr'' ''Amr''),
     (field_of TTime ''revoked_time'' ''RevokedTime'')\<lparr>cl_optional := True, cl_nillable := True\<rparr>,
     (field_of TTime ''create_time'' ''CreateTime'')\<lparr>cl_default := Some DefaultNow, cl_immutable := True\<rparr>,
     (field_of TTime ''update_time'' ''UpdateTime'')\<lparr>cl_default := Some DefaultNow, cl_update_now := True\<rparr>]"

definition ent_oauth_token_session_runtime :: "(string \<times> nat) list" where
  "ent_oauth_token_session_runtime = [(''UserIDValidator'', 1), (''ClientIDValidator'', 2), (''IamLoginSessionIDValidator'', 3),
     (''RefreshFamilyIDValidator'', 4), (''DefaultCreateTime'', 9), (''DefaultUpdateTime'', 10),
     (''UpdateDefaultUpdateTime'', 10)]"

definition ent_oauth_token_session_field_user_id :: "field_methods" where
  "ent_oauth_token_session_field_user_id = plain_field ''user_id'' ''UserID''"

definition ent_oauth_token_session_field_client_id :: "field_methods" where
  "ent_oauth_token_session_field_client_id = plain_field ''client_id'' ''ClientID''"

definition ent_oauth_token_session_field_iam_login_session_id :: "field_methods" where
  "ent_oauth_token_session_field_iam_login_session_id = plain_field ''iam_login_session_id'' ''IamLoginSessionID''"

definition ent_oauth_token_session_field_refresh_family_id :: "field_methods" where
  "ent_oauth_token_session_field_refresh_family_id = plain_field ''refresh_family_id'' ''RefreshFamilyID''"

definition ent_oauth_token_session_field_scopes :: "field_methods" where
  "ent_oauth_token_session_field_scopes = list_field ''scopes'' ''Scopes''"

definition ent_oauth_token_session_field_auth_time :: "field_methods" where
  "ent_oauth_token_session_field_auth_time = plain_field ''auth_time'' ''AuthTime''"

definition ent_oauth_token_session_field_amr :: "field_methods" where
  "ent_oauth_token_session_field_amr = list_field ''amr'' ''Amr''"

definition ent_oauth_token_session_field_revoked_time :: "field_methods" where
  "ent_oauth_token_session_field_revoked_time = nullable_field ''revoked_time'' ''RevokedTime''"

definition ent_oauth_token_session_field_create_time :: "field_methods" where
  "ent_oauth_token_session_field_create_time = plain_field ''create_time'' ''CreateTime''"

definition ent_oauth_token_session_field_update_time :: "field_methods" where
  "ent_oauth_token_session_field_update_time = plain_field ''update_time'' ''UpdateTime''"

definition new_ent_oauth_token_session_mutation :: "ent_op \<Rightarrow> mutation" where
  "new_ent_oauth_token_session_mutation = new_mutation ''OAuthTokenSession''"

definition ent_oauth_token_session_fields :: "mutation \<Rightarrow> string list" where
  "ent_oauth_token_session_fields = listed [if_set ent_oauth_token_session_field_user_id ''user_id'',
     if_set ent_oauth_token_session_field_client_id ''client_id'',
     if_set ent_oauth_token_session_field_iam_login_session_id ''iam_login_session_id'',
     if_set ent_oauth_token_session_field_refresh_family_id ''refresh_family_id'',
     if_set ent_oauth_token_session_field_scopes ''scopes'',
     if_set ent_oauth_token_session_field_auth_time ''auth_time'',
     if_set ent_oauth_token_session_field_amr ''amr'',
     if_set ent_oauth_token_session_field_revoked_time ''revoked_time'',
     if_set ent_oauth_token_session_field_create_time ''create_time'',
     if_set ent_oauth_token_session_field_update_time ''update_time'']"

definition ent_oauth_token_session_field :: "string \<Rightarrow> mutation \<Rightarrow> go_value option" where
  "ent_oauth_token_session_field = get_switch [(''user_id'', ent_oauth_token_session_field_user_id),
     (''client_id'', ent_oauth_token_session_field_client_id),
     (''iam_login_session_id'', ent_oauth_token_session_field_iam_login_session_id),
     (''refresh_family_id'', ent_oauth_token_session_field_refresh_family_id),
     (''scopes'', ent_oauth_token_session_field_scopes),
     (''auth_time'', ent_oauth_token_session_field_auth_time), (''amr'', ent_oauth_token_session_field_amr),
     (''revoked_time'', ent_oauth_token_session_field_revoked_time),
     (''create_time'', ent_oauth_token_session_field_create_time),
     (''update_time'', ent_oauth_token_session_field_update_time)]"

definition ent_oauth_token_session_old_field :: "(go_value \<Rightarrow> err + entity) \<Rightarrow> string \<Rightarrow> mutation
    \<Rightarrow> (err + go_value option) \<times> mutation" where
  "ent_oauth_token_session_old_field = old_switch ''OAuthTokenSession'' [(''user_id'', ent_oauth_token_session_field_user_id),
     (''client_id'', ent_oauth_token_session_field_client_id),
     (''iam_login_session_id'', ent_oauth_token_session_field_iam_login_session_id),
     (''refresh_family_id'', ent_oauth_token_session_field_refresh_family_id),
     (''scopes'', ent_oauth_token_session_field_scopes),
     (''auth_time'', ent_oauth_token_session_field_auth_time), (''amr'', ent_oauth_token_session_field_amr),
     (''revoked_time'', ent_oauth_token_session_field_revoked_time),
     (''create_time'', ent_oauth_token_session_field_create_time),
     (''update_time'', ent_oauth_token_session_field_update_time)]"

definition ent_oauth_token_session_set_field :: "string \<Rightarrow> go_value \<Rightarrow> mutation \<Rightarrow> err + mutation" where
  "ent_oauth_token_session_set_field = set_switch ''OAuthTokenSession'' [(''user_id'', TString, ent_oauth_token_session_field_user_id),
     (''client_id'', TString, ent_oauth_token_session_field_client_id),
     (''iam_login_session_id'', TString, ent_oauth_token_session_field_iam_login_session_id),
     (''refresh_family_id'', TString, ent_oauth_token_session_field_refresh_family_id),
     (''scopes'', TStrings, ent_oauth_token_session_field_scopes),
     (''auth_time'', TTime, ent_oauth_token_session_field_auth_time),
     (''amr'', TStrings, ent_oauth_token_session_field_amr),
     (''revoked_time'', TTime, ent_oauth_token_session_field_revoked_time),
     (''create_time'', TTime, ent_oauth_token_session_field_create_time),
     (''update_time'', TTime, ent_oauth_token_session_field_update_time)]"

definition ent_oauth_token_session_cleared_fields :: "mutation \<Rightarrow> string list" where
  "ent_oauth_token_session_cleared_fields = listed [if_cleared ''revoked_time'']"

definition ent_oauth_token_session_clear_field :: "string \<Rightarrow> mutation \<Rightarrow> err + mutation" where
  "ent_oauth_token_session_clear_field = clear_switch ''OAuthTokenSession'' [(''revoked_time'', ent_oauth_token_session_field_revoked_time)]"

definition ent_oauth_token_session_reset_field :: "string \<Rightarrow> mutation \<Rightarrow> err + mutation" where
  "ent_oauth_token_session_reset_field = reset_switch ''OAuthTokenSession'' [(''user_id'', ent_oauth_token_session_field_user_id),
     (''client_id'', ent_oauth_token_session_field_client_id),
     (''iam_login_session_id'', ent_oauth_token_session_field_iam_login_session_id),
     (''refresh_family_id'', ent_oauth_token_session_field_refresh_family_id),
     (''scopes'', ent_oauth_token_session_field_scopes),
     (''auth_time'', ent_oauth_token_session_field_auth_time), (''amr'', ent_oauth_token_session_field_amr),
     (''revoked_time'', ent_oauth_token_session_field_revoked_time),
     (''create_time'', ent_oauth_token_session_field_create_time),
     (''update_time'', ent_oauth_token_session_field_update_time)]"

definition ent_oauth_token_session_create_defaults :: "(nat \<Rightarrow> time) \<Rightarrow> mutation \<Rightarrow> mutation" where
  "ent_oauth_token_session_create_defaults = defaulted [
     set_default (descriptor ent_oauth_token_session_runtime ent_oauth_token_session_schema ''DefaultCreateTime'') ent_oauth_token_session_field_create_time,
     set_default (descriptor ent_oauth_token_session_runtime ent_oauth_token_session_schema ''DefaultUpdateTime'') ent_oauth_token_session_field_update_time]"

definition ent_oauth_token_session_create_check :: "mutation \<Rightarrow> ent_error option" where
  "ent_oauth_token_session_create_check = first_error [
     required ent_oauth_token_session_field_user_id ''user_id'',
     valid (descriptor ent_oauth_token_session_runtime ent_oauth_token_session_schema ''UserIDValidator'') ent_oauth_token_session_field_user_id ''user_id'',
     required ent_oauth_token_session_field_client_id ''client_id'',
     valid (descriptor ent_oauth_token_session_runtime ent_oauth_token_session_schema ''ClientIDValidator'') ent_oauth_token_session_field_client_id ''client_id'',
     required ent_oauth_token_session_field_iam_login_session_id ''iam_login_session_id'',
     valid (descriptor ent_oauth_token_session_runtime ent_oauth_token_session_schema ''IamLoginSessionIDValidator'') ent_oauth_token_session_field_iam_login_session_id ''iam_login_session_id'',
     required ent_oauth_token_session_field_refresh_family_id ''refresh_family_id'',
     valid (descriptor ent_oauth_token_session_runtime ent_oauth_token_session_schema ''RefreshFamilyIDValidator'') ent_oauth_token_session_field_refresh_family_id ''refresh_family_id'',
     required ent_oauth_token_session_field_scopes ''scopes'',
     required ent_oauth_token_session_field_auth_time ''auth_time'',
     required ent_oauth_token_session_field_amr ''amr'',
     required ent_oauth_token_session_field_create_time ''create_time'',
     required ent_oauth_token_session_field_update_time ''update_time'']"

definition ent_oauth_token_session_zero :: "entity" where
  "ent_oauth_token_session_zero = map_of [(''id'', VString []), (''user_id'', VString []), (''client_id'', VString []),
     (''iam_login_session_id'', VString []), (''refresh_family_id'', VString []), (''scopes'', VStrings []),
     (''auth_time'', VTime 0), (''amr'', VStrings []), (''create_time'', VTime 0), (''update_time'', VTime 0)]"

definition ent_oauth_token_session_create_spec :: "mutation \<Rightarrow> create_spec" where
  "ent_oauth_token_session_create_spec = create_steps ent_oauth_token_session_zero [created_id, created ent_oauth_token_session_field_user_id ''user_id'',
     created ent_oauth_token_session_field_client_id ''client_id'',
     created ent_oauth_token_session_field_iam_login_session_id ''iam_login_session_id'',
     created ent_oauth_token_session_field_refresh_family_id ''refresh_family_id'',
     created ent_oauth_token_session_field_scopes ''scopes'',
     created ent_oauth_token_session_field_auth_time ''auth_time'',
     created ent_oauth_token_session_field_amr ''amr'',
     created ent_oauth_token_session_field_revoked_time ''revoked_time'',
     created ent_oauth_token_session_field_create_time ''create_time'',
     created ent_oauth_token_session_field_update_time ''update_time'']"

definition ent_oauth_token_session_update_defaults :: "(nat \<Rightarrow> time) \<Rightarrow> mutation \<Rightarrow> mutation" where
  "ent_oauth_token_session_update_defaults = defaulted [update_to_now ent_oauth_token_session_field_update_time]"

definition ent_oauth_token_session_update :: "mutation \<Rightarrow> ent_error + assignment list" where
  "ent_oauth_token_session_update = update_steps [] [
     assign_set ent_oauth_token_session_field_scopes ''scopes'',
     assign_append ent_oauth_token_session_field_scopes ''scopes'',
     assign_set ent_oauth_token_session_field_amr ''amr'',
     assign_append ent_oauth_token_session_field_amr ''amr'',
     assign_set ent_oauth_token_session_field_revoked_time ''revoked_time'',
     assign_clear ent_oauth_token_session_field_revoked_time ''revoked_time'',
     assign_set ent_oauth_token_session_field_update_time ''update_time'']"

definition ent_oauth_token_session_columns :: "string list" where
  "ent_oauth_token_session_columns = [''id'', ''user_id'', ''client_id'', ''iam_login_session_id'', ''refresh_family_id'', ''scopes'',
     ''auth_time'', ''amr'', ''revoked_time'', ''create_time'', ''update_time'']"

definition ent_oauth_token_session_update_one :: "string list \<Rightarrow> mutation
    \<Rightarrow> ent_error + go_value \<times> string list \<times> assignment list" where
  "ent_oauth_token_session_update_one = update_one_steps ent_oauth_token_session_columns [] [
     assign_set ent_oauth_token_session_field_scopes ''scopes'',
     assign_append ent_oauth_token_session_field_scopes ''scopes'',
     assign_set ent_oauth_token_session_field_amr ''amr'',
     assign_append ent_oauth_token_session_field_amr ''amr'',
     assign_set ent_oauth_token_session_field_revoked_time ''revoked_time'',
     assign_clear ent_oauth_token_session_field_revoked_time ''revoked_time'',
     assign_set ent_oauth_token_session_field_update_time ''update_time'']"

definition ent_oauth_token_session_scan_values :: "string \<Rightarrow> scan_type" where
  "ent_oauth_token_session_scan_values = scan_switch [
     ([''scopes'', ''amr''], RawBytes),
     ([''id'', ''user_id'', ''client_id'', ''iam_login_session_id'', ''refresh_family_id''], NullString),
     ([''auth_time'', ''revoked_time'', ''create_time'', ''update_time''], NullTime)]"

definition ent_oauth_token_session_assign_values :: "(string \<Rightarrow> err + string list) \<Rightarrow> string list \<Rightarrow> sql_cell list \<Rightarrow> entity \<Rightarrow> err + entity" where
  "ent_oauth_token_session_assign_values = assign_row [(''id'', take_cell TString ''id''), (''user_id'', take_cell TString ''user_id''),
     (''client_id'', take_cell TString ''client_id''),
     (''iam_login_session_id'', take_cell TString ''iam_login_session_id''),
     (''refresh_family_id'', take_cell TString ''refresh_family_id''),
     (''scopes'', take_cell TStrings ''scopes''), (''auth_time'', take_cell TTime ''auth_time''),
     (''amr'', take_cell TStrings ''amr''), (''revoked_time'', take_cell TTime ''revoked_time''),
     (''create_time'', take_cell TTime ''create_time''), (''update_time'', take_cell TTime ''update_time'')]"

definition ent_oauth_token_session_code :: entity_code where
  "ent_oauth_token_session_code = \<lparr>ey_columns = ent_oauth_token_session_columns, ey_zero = ent_oauth_token_session_zero, ey_new = new_ent_oauth_token_session_mutation,
     ey_fields = ent_oauth_token_session_fields, ey_field = ent_oauth_token_session_field, ey_old_field = ent_oauth_token_session_old_field, ey_set_field = ent_oauth_token_session_set_field,
     ey_cleared_fields = ent_oauth_token_session_cleared_fields, ey_clear_field = ent_oauth_token_session_clear_field, ey_reset_field = ent_oauth_token_session_reset_field,
     ey_defaults = ent_oauth_token_session_create_defaults, ey_check = ent_oauth_token_session_create_check, ey_create_spec = ent_oauth_token_session_create_spec,
     ey_update_defaults = ent_oauth_token_session_update_defaults, ey_update = ent_oauth_token_session_update, ey_update_one = ent_oauth_token_session_update_one,
     ey_scan = ent_oauth_token_session_scan_values, ey_assign = ent_oauth_token_session_assign_values\<rparr>"

lemmas ent_oauth_token_session_defs = ent_oauth_token_session_schema_def ent_oauth_token_session_runtime_def
  ent_oauth_token_session_field_user_id_def ent_oauth_token_session_field_client_id_def
  ent_oauth_token_session_field_iam_login_session_id_def ent_oauth_token_session_field_refresh_family_id_def
  ent_oauth_token_session_field_scopes_def ent_oauth_token_session_field_auth_time_def
  ent_oauth_token_session_field_amr_def ent_oauth_token_session_field_revoked_time_def
  ent_oauth_token_session_field_create_time_def ent_oauth_token_session_field_update_time_def
  new_ent_oauth_token_session_mutation_def ent_oauth_token_session_fields_def
  ent_oauth_token_session_field_def ent_oauth_token_session_old_field_def
  ent_oauth_token_session_set_field_def ent_oauth_token_session_cleared_fields_def
  ent_oauth_token_session_clear_field_def ent_oauth_token_session_reset_field_def
  ent_oauth_token_session_create_defaults_def ent_oauth_token_session_create_check_def
  ent_oauth_token_session_zero_def ent_oauth_token_session_create_spec_def
  ent_oauth_token_session_update_defaults_def ent_oauth_token_session_update_def
  ent_oauth_token_session_columns_def ent_oauth_token_session_update_one_def
  ent_oauth_token_session_scan_values_def ent_oauth_token_session_assign_values_def
  ent_oauth_token_session_code_def

lemma ent_oauth_token_session_scan: "ent_oauth_token_session_scan_values = ey_scan (reference ''OAuthTokenSession'' TString True (tl ent_oauth_token_session_schema))"
  unfolding ent_oauth_token_session_scan_values_def by (rule scan_referenceI) code_simp+

lemma ent_oauth_token_session_is_reference: "ent_oauth_token_session_code = reference ''OAuthTokenSession'' TString True (tl ent_oauth_token_session_schema)"
  using ent_oauth_token_session_scan by (simp add: ent_oauth_token_session_defs reference_simps)

section \<open>OAuthAccessToken\<close>

definition ent_oauth_access_token_schema :: "column list" where
  "ent_oauth_access_token_schema = [
     (field_of TString ''id'' ''ID'')\<lparr>cl_immutable := True\<rparr>,
     (field_of TString ''token_session_id'' ''TokenSessionID'')\<lparr>cl_not_empty := True, cl_immutable := True\<rparr>,
     (field_of TString ''subject'' ''Subject'')\<lparr>cl_not_empty := True, cl_immutable := True\<rparr>,
     (field_of TString ''client_id'' ''ClientID'')\<lparr>cl_not_empty := True, cl_immutable := True\<rparr>,
     (field_of TStrings ''scopes'' ''Scopes''),
     (field_of TTime ''issued_time'' ''IssuedTime'')\<lparr>cl_default := Some DefaultNow, cl_immutable := True\<rparr>,
     (field_of TTime ''expires_time'' ''ExpiresTime'')\<lparr>cl_immutable := True\<rparr>,
     (field_of TTime ''revoked_time'' ''RevokedTime'')\<lparr>cl_optional := True, cl_nillable := True\<rparr>]"

definition ent_oauth_access_token_runtime :: "(string \<times> nat) list" where
  "ent_oauth_access_token_runtime = [(''TokenSessionIDValidator'', 1), (''SubjectValidator'', 2), (''ClientIDValidator'', 3),
     (''DefaultIssuedTime'', 5)]"

definition ent_oauth_access_token_field_token_session_id :: "field_methods" where
  "ent_oauth_access_token_field_token_session_id = plain_field ''token_session_id'' ''TokenSessionID''"

definition ent_oauth_access_token_field_subject :: "field_methods" where
  "ent_oauth_access_token_field_subject = plain_field ''subject'' ''Subject''"

definition ent_oauth_access_token_field_client_id :: "field_methods" where
  "ent_oauth_access_token_field_client_id = plain_field ''client_id'' ''ClientID''"

definition ent_oauth_access_token_field_scopes :: "field_methods" where
  "ent_oauth_access_token_field_scopes = list_field ''scopes'' ''Scopes''"

definition ent_oauth_access_token_field_issued_time :: "field_methods" where
  "ent_oauth_access_token_field_issued_time = plain_field ''issued_time'' ''IssuedTime''"

definition ent_oauth_access_token_field_expires_time :: "field_methods" where
  "ent_oauth_access_token_field_expires_time = plain_field ''expires_time'' ''ExpiresTime''"

definition ent_oauth_access_token_field_revoked_time :: "field_methods" where
  "ent_oauth_access_token_field_revoked_time = nullable_field ''revoked_time'' ''RevokedTime''"

definition new_ent_oauth_access_token_mutation :: "ent_op \<Rightarrow> mutation" where
  "new_ent_oauth_access_token_mutation = new_mutation ''OAuthAccessToken''"

definition ent_oauth_access_token_fields :: "mutation \<Rightarrow> string list" where
  "ent_oauth_access_token_fields = listed [if_set ent_oauth_access_token_field_token_session_id ''token_session_id'',
     if_set ent_oauth_access_token_field_subject ''subject'',
     if_set ent_oauth_access_token_field_client_id ''client_id'',
     if_set ent_oauth_access_token_field_scopes ''scopes'',
     if_set ent_oauth_access_token_field_issued_time ''issued_time'',
     if_set ent_oauth_access_token_field_expires_time ''expires_time'',
     if_set ent_oauth_access_token_field_revoked_time ''revoked_time'']"

definition ent_oauth_access_token_field :: "string \<Rightarrow> mutation \<Rightarrow> go_value option" where
  "ent_oauth_access_token_field = get_switch [(''token_session_id'', ent_oauth_access_token_field_token_session_id),
     (''subject'', ent_oauth_access_token_field_subject),
     (''client_id'', ent_oauth_access_token_field_client_id), (''scopes'', ent_oauth_access_token_field_scopes),
     (''issued_time'', ent_oauth_access_token_field_issued_time),
     (''expires_time'', ent_oauth_access_token_field_expires_time),
     (''revoked_time'', ent_oauth_access_token_field_revoked_time)]"

definition ent_oauth_access_token_old_field :: "(go_value \<Rightarrow> err + entity) \<Rightarrow> string \<Rightarrow> mutation
    \<Rightarrow> (err + go_value option) \<times> mutation" where
  "ent_oauth_access_token_old_field = old_switch ''OAuthAccessToken'' [(''token_session_id'', ent_oauth_access_token_field_token_session_id),
     (''subject'', ent_oauth_access_token_field_subject),
     (''client_id'', ent_oauth_access_token_field_client_id), (''scopes'', ent_oauth_access_token_field_scopes),
     (''issued_time'', ent_oauth_access_token_field_issued_time),
     (''expires_time'', ent_oauth_access_token_field_expires_time),
     (''revoked_time'', ent_oauth_access_token_field_revoked_time)]"

definition ent_oauth_access_token_set_field :: "string \<Rightarrow> go_value \<Rightarrow> mutation \<Rightarrow> err + mutation" where
  "ent_oauth_access_token_set_field = set_switch ''OAuthAccessToken'' [(''token_session_id'', TString, ent_oauth_access_token_field_token_session_id),
     (''subject'', TString, ent_oauth_access_token_field_subject),
     (''client_id'', TString, ent_oauth_access_token_field_client_id),
     (''scopes'', TStrings, ent_oauth_access_token_field_scopes),
     (''issued_time'', TTime, ent_oauth_access_token_field_issued_time),
     (''expires_time'', TTime, ent_oauth_access_token_field_expires_time),
     (''revoked_time'', TTime, ent_oauth_access_token_field_revoked_time)]"

definition ent_oauth_access_token_cleared_fields :: "mutation \<Rightarrow> string list" where
  "ent_oauth_access_token_cleared_fields = listed [if_cleared ''revoked_time'']"

definition ent_oauth_access_token_clear_field :: "string \<Rightarrow> mutation \<Rightarrow> err + mutation" where
  "ent_oauth_access_token_clear_field = clear_switch ''OAuthAccessToken'' [(''revoked_time'', ent_oauth_access_token_field_revoked_time)]"

definition ent_oauth_access_token_reset_field :: "string \<Rightarrow> mutation \<Rightarrow> err + mutation" where
  "ent_oauth_access_token_reset_field = reset_switch ''OAuthAccessToken'' [(''token_session_id'', ent_oauth_access_token_field_token_session_id),
     (''subject'', ent_oauth_access_token_field_subject),
     (''client_id'', ent_oauth_access_token_field_client_id), (''scopes'', ent_oauth_access_token_field_scopes),
     (''issued_time'', ent_oauth_access_token_field_issued_time),
     (''expires_time'', ent_oauth_access_token_field_expires_time),
     (''revoked_time'', ent_oauth_access_token_field_revoked_time)]"

definition ent_oauth_access_token_create_defaults :: "(nat \<Rightarrow> time) \<Rightarrow> mutation \<Rightarrow> mutation" where
  "ent_oauth_access_token_create_defaults = defaulted [
     set_default (descriptor ent_oauth_access_token_runtime ent_oauth_access_token_schema ''DefaultIssuedTime'') ent_oauth_access_token_field_issued_time]"

definition ent_oauth_access_token_create_check :: "mutation \<Rightarrow> ent_error option" where
  "ent_oauth_access_token_create_check = first_error [
     required ent_oauth_access_token_field_token_session_id ''token_session_id'',
     valid (descriptor ent_oauth_access_token_runtime ent_oauth_access_token_schema ''TokenSessionIDValidator'') ent_oauth_access_token_field_token_session_id ''token_session_id'',
     required ent_oauth_access_token_field_subject ''subject'',
     valid (descriptor ent_oauth_access_token_runtime ent_oauth_access_token_schema ''SubjectValidator'') ent_oauth_access_token_field_subject ''subject'',
     required ent_oauth_access_token_field_client_id ''client_id'',
     valid (descriptor ent_oauth_access_token_runtime ent_oauth_access_token_schema ''ClientIDValidator'') ent_oauth_access_token_field_client_id ''client_id'',
     required ent_oauth_access_token_field_scopes ''scopes'',
     required ent_oauth_access_token_field_issued_time ''issued_time'',
     required ent_oauth_access_token_field_expires_time ''expires_time'']"

definition ent_oauth_access_token_zero :: "entity" where
  "ent_oauth_access_token_zero = map_of [(''id'', VString []), (''token_session_id'', VString []), (''subject'', VString []),
     (''client_id'', VString []), (''scopes'', VStrings []), (''issued_time'', VTime 0),
     (''expires_time'', VTime 0)]"

definition ent_oauth_access_token_create_spec :: "mutation \<Rightarrow> create_spec" where
  "ent_oauth_access_token_create_spec = create_steps ent_oauth_access_token_zero [created_id, created ent_oauth_access_token_field_token_session_id ''token_session_id'',
     created ent_oauth_access_token_field_subject ''subject'',
     created ent_oauth_access_token_field_client_id ''client_id'',
     created ent_oauth_access_token_field_scopes ''scopes'',
     created ent_oauth_access_token_field_issued_time ''issued_time'',
     created ent_oauth_access_token_field_expires_time ''expires_time'',
     created ent_oauth_access_token_field_revoked_time ''revoked_time'']"

definition ent_oauth_access_token_update_defaults :: "(nat \<Rightarrow> time) \<Rightarrow> mutation \<Rightarrow> mutation" where
  "ent_oauth_access_token_update_defaults = defaulted []"

definition ent_oauth_access_token_update :: "mutation \<Rightarrow> ent_error + assignment list" where
  "ent_oauth_access_token_update = update_steps [] [
     assign_set ent_oauth_access_token_field_scopes ''scopes'',
     assign_append ent_oauth_access_token_field_scopes ''scopes'',
     assign_set ent_oauth_access_token_field_revoked_time ''revoked_time'',
     assign_clear ent_oauth_access_token_field_revoked_time ''revoked_time'']"

definition ent_oauth_access_token_columns :: "string list" where
  "ent_oauth_access_token_columns = [''id'', ''token_session_id'', ''subject'', ''client_id'', ''scopes'', ''issued_time'', ''expires_time'',
     ''revoked_time'']"

definition ent_oauth_access_token_update_one :: "string list \<Rightarrow> mutation
    \<Rightarrow> ent_error + go_value \<times> string list \<times> assignment list" where
  "ent_oauth_access_token_update_one = update_one_steps ent_oauth_access_token_columns [] [
     assign_set ent_oauth_access_token_field_scopes ''scopes'',
     assign_append ent_oauth_access_token_field_scopes ''scopes'',
     assign_set ent_oauth_access_token_field_revoked_time ''revoked_time'',
     assign_clear ent_oauth_access_token_field_revoked_time ''revoked_time'']"

definition ent_oauth_access_token_scan_values :: "string \<Rightarrow> scan_type" where
  "ent_oauth_access_token_scan_values = scan_switch [
     ([''scopes''], RawBytes),
     ([''id'', ''token_session_id'', ''subject'', ''client_id''], NullString),
     ([''issued_time'', ''expires_time'', ''revoked_time''], NullTime)]"

definition ent_oauth_access_token_assign_values :: "(string \<Rightarrow> err + string list) \<Rightarrow> string list \<Rightarrow> sql_cell list \<Rightarrow> entity \<Rightarrow> err + entity" where
  "ent_oauth_access_token_assign_values = assign_row [(''id'', take_cell TString ''id''), (''token_session_id'', take_cell TString ''token_session_id''),
     (''subject'', take_cell TString ''subject''), (''client_id'', take_cell TString ''client_id''),
     (''scopes'', take_cell TStrings ''scopes''), (''issued_time'', take_cell TTime ''issued_time''),
     (''expires_time'', take_cell TTime ''expires_time''), (''revoked_time'', take_cell TTime ''revoked_time'')]"

definition ent_oauth_access_token_code :: entity_code where
  "ent_oauth_access_token_code = \<lparr>ey_columns = ent_oauth_access_token_columns, ey_zero = ent_oauth_access_token_zero, ey_new = new_ent_oauth_access_token_mutation,
     ey_fields = ent_oauth_access_token_fields, ey_field = ent_oauth_access_token_field, ey_old_field = ent_oauth_access_token_old_field, ey_set_field = ent_oauth_access_token_set_field,
     ey_cleared_fields = ent_oauth_access_token_cleared_fields, ey_clear_field = ent_oauth_access_token_clear_field, ey_reset_field = ent_oauth_access_token_reset_field,
     ey_defaults = ent_oauth_access_token_create_defaults, ey_check = ent_oauth_access_token_create_check, ey_create_spec = ent_oauth_access_token_create_spec,
     ey_update_defaults = ent_oauth_access_token_update_defaults, ey_update = ent_oauth_access_token_update, ey_update_one = ent_oauth_access_token_update_one,
     ey_scan = ent_oauth_access_token_scan_values, ey_assign = ent_oauth_access_token_assign_values\<rparr>"

lemmas ent_oauth_access_token_defs = ent_oauth_access_token_schema_def ent_oauth_access_token_runtime_def
  ent_oauth_access_token_field_token_session_id_def ent_oauth_access_token_field_subject_def
  ent_oauth_access_token_field_client_id_def ent_oauth_access_token_field_scopes_def
  ent_oauth_access_token_field_issued_time_def ent_oauth_access_token_field_expires_time_def
  ent_oauth_access_token_field_revoked_time_def new_ent_oauth_access_token_mutation_def
  ent_oauth_access_token_fields_def ent_oauth_access_token_field_def ent_oauth_access_token_old_field_def
  ent_oauth_access_token_set_field_def ent_oauth_access_token_cleared_fields_def
  ent_oauth_access_token_clear_field_def ent_oauth_access_token_reset_field_def
  ent_oauth_access_token_create_defaults_def ent_oauth_access_token_create_check_def
  ent_oauth_access_token_zero_def ent_oauth_access_token_create_spec_def
  ent_oauth_access_token_update_defaults_def ent_oauth_access_token_update_def
  ent_oauth_access_token_columns_def ent_oauth_access_token_update_one_def
  ent_oauth_access_token_scan_values_def ent_oauth_access_token_assign_values_def
  ent_oauth_access_token_code_def

lemma ent_oauth_access_token_scan: "ent_oauth_access_token_scan_values = ey_scan (reference ''OAuthAccessToken'' TString True (tl ent_oauth_access_token_schema))"
  unfolding ent_oauth_access_token_scan_values_def by (rule scan_referenceI) code_simp+

lemma ent_oauth_access_token_is_reference: "ent_oauth_access_token_code = reference ''OAuthAccessToken'' TString True (tl ent_oauth_access_token_schema)"
  using ent_oauth_access_token_scan by (simp add: ent_oauth_access_token_defs reference_simps)

section \<open>OAuthRefreshToken\<close>

definition ent_oauth_refresh_token_schema :: "column list" where
  "ent_oauth_refresh_token_schema = [
     (field_of TString ''id'' ''ID'')\<lparr>cl_immutable := True\<rparr>,
     (field_of TString ''token_session_id'' ''TokenSessionID'')\<lparr>cl_not_empty := True, cl_immutable := True\<rparr>,
     (field_of TString ''family_id'' ''FamilyID'')\<lparr>cl_not_empty := True, cl_immutable := True\<rparr>,
     (field_of TString ''token_hash'' ''TokenHash'')\<lparr>cl_not_empty := True\<rparr>,
     (field_of TString ''parent_token_id'' ''ParentTokenID'')\<lparr>cl_optional := True, cl_nillable := True, cl_immutable := True\<rparr>,
     (field_of TTime ''issued_time'' ''IssuedTime'')\<lparr>cl_default := Some DefaultNow, cl_immutable := True\<rparr>,
     (field_of TTime ''expires_time'' ''ExpiresTime'')\<lparr>cl_immutable := True\<rparr>,
     (field_of TTime ''consumed_time'' ''ConsumedTime'')\<lparr>cl_optional := True, cl_nillable := True\<rparr>,
     (field_of TTime ''revoked_time'' ''RevokedTime'')\<lparr>cl_optional := True, cl_nillable := True\<rparr>]"

definition ent_oauth_refresh_token_runtime :: "(string \<times> nat) list" where
  "ent_oauth_refresh_token_runtime = [(''TokenSessionIDValidator'', 1), (''FamilyIDValidator'', 2), (''TokenHashValidator'', 3),
     (''DefaultIssuedTime'', 5)]"

definition ent_oauth_refresh_token_field_token_session_id :: "field_methods" where
  "ent_oauth_refresh_token_field_token_session_id = plain_field ''token_session_id'' ''TokenSessionID''"

definition ent_oauth_refresh_token_field_family_id :: "field_methods" where
  "ent_oauth_refresh_token_field_family_id = plain_field ''family_id'' ''FamilyID''"

definition ent_oauth_refresh_token_field_token_hash :: "field_methods" where
  "ent_oauth_refresh_token_field_token_hash = plain_field ''token_hash'' ''TokenHash''"

definition ent_oauth_refresh_token_field_parent_token_id :: "field_methods" where
  "ent_oauth_refresh_token_field_parent_token_id = nullable_field ''parent_token_id'' ''ParentTokenID''"

definition ent_oauth_refresh_token_field_issued_time :: "field_methods" where
  "ent_oauth_refresh_token_field_issued_time = plain_field ''issued_time'' ''IssuedTime''"

definition ent_oauth_refresh_token_field_expires_time :: "field_methods" where
  "ent_oauth_refresh_token_field_expires_time = plain_field ''expires_time'' ''ExpiresTime''"

definition ent_oauth_refresh_token_field_consumed_time :: "field_methods" where
  "ent_oauth_refresh_token_field_consumed_time = nullable_field ''consumed_time'' ''ConsumedTime''"

definition ent_oauth_refresh_token_field_revoked_time :: "field_methods" where
  "ent_oauth_refresh_token_field_revoked_time = nullable_field ''revoked_time'' ''RevokedTime''"

definition new_ent_oauth_refresh_token_mutation :: "ent_op \<Rightarrow> mutation" where
  "new_ent_oauth_refresh_token_mutation = new_mutation ''OAuthRefreshToken''"

definition ent_oauth_refresh_token_fields :: "mutation \<Rightarrow> string list" where
  "ent_oauth_refresh_token_fields = listed [if_set ent_oauth_refresh_token_field_token_session_id ''token_session_id'',
     if_set ent_oauth_refresh_token_field_family_id ''family_id'',
     if_set ent_oauth_refresh_token_field_token_hash ''token_hash'',
     if_set ent_oauth_refresh_token_field_parent_token_id ''parent_token_id'',
     if_set ent_oauth_refresh_token_field_issued_time ''issued_time'',
     if_set ent_oauth_refresh_token_field_expires_time ''expires_time'',
     if_set ent_oauth_refresh_token_field_consumed_time ''consumed_time'',
     if_set ent_oauth_refresh_token_field_revoked_time ''revoked_time'']"

definition ent_oauth_refresh_token_field :: "string \<Rightarrow> mutation \<Rightarrow> go_value option" where
  "ent_oauth_refresh_token_field = get_switch [(''token_session_id'', ent_oauth_refresh_token_field_token_session_id),
     (''family_id'', ent_oauth_refresh_token_field_family_id),
     (''token_hash'', ent_oauth_refresh_token_field_token_hash),
     (''parent_token_id'', ent_oauth_refresh_token_field_parent_token_id),
     (''issued_time'', ent_oauth_refresh_token_field_issued_time),
     (''expires_time'', ent_oauth_refresh_token_field_expires_time),
     (''consumed_time'', ent_oauth_refresh_token_field_consumed_time),
     (''revoked_time'', ent_oauth_refresh_token_field_revoked_time)]"

definition ent_oauth_refresh_token_old_field :: "(go_value \<Rightarrow> err + entity) \<Rightarrow> string \<Rightarrow> mutation
    \<Rightarrow> (err + go_value option) \<times> mutation" where
  "ent_oauth_refresh_token_old_field = old_switch ''OAuthRefreshToken'' [(''token_session_id'', ent_oauth_refresh_token_field_token_session_id),
     (''family_id'', ent_oauth_refresh_token_field_family_id),
     (''token_hash'', ent_oauth_refresh_token_field_token_hash),
     (''parent_token_id'', ent_oauth_refresh_token_field_parent_token_id),
     (''issued_time'', ent_oauth_refresh_token_field_issued_time),
     (''expires_time'', ent_oauth_refresh_token_field_expires_time),
     (''consumed_time'', ent_oauth_refresh_token_field_consumed_time),
     (''revoked_time'', ent_oauth_refresh_token_field_revoked_time)]"

definition ent_oauth_refresh_token_set_field :: "string \<Rightarrow> go_value \<Rightarrow> mutation \<Rightarrow> err + mutation" where
  "ent_oauth_refresh_token_set_field = set_switch ''OAuthRefreshToken'' [(''token_session_id'', TString, ent_oauth_refresh_token_field_token_session_id),
     (''family_id'', TString, ent_oauth_refresh_token_field_family_id),
     (''token_hash'', TString, ent_oauth_refresh_token_field_token_hash),
     (''parent_token_id'', TString, ent_oauth_refresh_token_field_parent_token_id),
     (''issued_time'', TTime, ent_oauth_refresh_token_field_issued_time),
     (''expires_time'', TTime, ent_oauth_refresh_token_field_expires_time),
     (''consumed_time'', TTime, ent_oauth_refresh_token_field_consumed_time),
     (''revoked_time'', TTime, ent_oauth_refresh_token_field_revoked_time)]"

definition ent_oauth_refresh_token_cleared_fields :: "mutation \<Rightarrow> string list" where
  "ent_oauth_refresh_token_cleared_fields = listed [if_cleared ''parent_token_id'', if_cleared ''consumed_time'', if_cleared ''revoked_time'']"

definition ent_oauth_refresh_token_clear_field :: "string \<Rightarrow> mutation \<Rightarrow> err + mutation" where
  "ent_oauth_refresh_token_clear_field = clear_switch ''OAuthRefreshToken'' [(''parent_token_id'', ent_oauth_refresh_token_field_parent_token_id),
     (''consumed_time'', ent_oauth_refresh_token_field_consumed_time),
     (''revoked_time'', ent_oauth_refresh_token_field_revoked_time)]"

definition ent_oauth_refresh_token_reset_field :: "string \<Rightarrow> mutation \<Rightarrow> err + mutation" where
  "ent_oauth_refresh_token_reset_field = reset_switch ''OAuthRefreshToken'' [(''token_session_id'', ent_oauth_refresh_token_field_token_session_id),
     (''family_id'', ent_oauth_refresh_token_field_family_id),
     (''token_hash'', ent_oauth_refresh_token_field_token_hash),
     (''parent_token_id'', ent_oauth_refresh_token_field_parent_token_id),
     (''issued_time'', ent_oauth_refresh_token_field_issued_time),
     (''expires_time'', ent_oauth_refresh_token_field_expires_time),
     (''consumed_time'', ent_oauth_refresh_token_field_consumed_time),
     (''revoked_time'', ent_oauth_refresh_token_field_revoked_time)]"

definition ent_oauth_refresh_token_create_defaults :: "(nat \<Rightarrow> time) \<Rightarrow> mutation \<Rightarrow> mutation" where
  "ent_oauth_refresh_token_create_defaults = defaulted [
     set_default (descriptor ent_oauth_refresh_token_runtime ent_oauth_refresh_token_schema ''DefaultIssuedTime'') ent_oauth_refresh_token_field_issued_time]"

definition ent_oauth_refresh_token_create_check :: "mutation \<Rightarrow> ent_error option" where
  "ent_oauth_refresh_token_create_check = first_error [
     required ent_oauth_refresh_token_field_token_session_id ''token_session_id'',
     valid (descriptor ent_oauth_refresh_token_runtime ent_oauth_refresh_token_schema ''TokenSessionIDValidator'') ent_oauth_refresh_token_field_token_session_id ''token_session_id'',
     required ent_oauth_refresh_token_field_family_id ''family_id'',
     valid (descriptor ent_oauth_refresh_token_runtime ent_oauth_refresh_token_schema ''FamilyIDValidator'') ent_oauth_refresh_token_field_family_id ''family_id'',
     required ent_oauth_refresh_token_field_token_hash ''token_hash'',
     valid (descriptor ent_oauth_refresh_token_runtime ent_oauth_refresh_token_schema ''TokenHashValidator'') ent_oauth_refresh_token_field_token_hash ''token_hash'',
     required ent_oauth_refresh_token_field_issued_time ''issued_time'',
     required ent_oauth_refresh_token_field_expires_time ''expires_time'']"

definition ent_oauth_refresh_token_zero :: "entity" where
  "ent_oauth_refresh_token_zero = map_of [(''id'', VString []), (''token_session_id'', VString []), (''family_id'', VString []),
     (''token_hash'', VString []), (''issued_time'', VTime 0), (''expires_time'', VTime 0)]"

definition ent_oauth_refresh_token_create_spec :: "mutation \<Rightarrow> create_spec" where
  "ent_oauth_refresh_token_create_spec = create_steps ent_oauth_refresh_token_zero [created_id, created ent_oauth_refresh_token_field_token_session_id ''token_session_id'',
     created ent_oauth_refresh_token_field_family_id ''family_id'',
     created ent_oauth_refresh_token_field_token_hash ''token_hash'',
     created ent_oauth_refresh_token_field_parent_token_id ''parent_token_id'',
     created ent_oauth_refresh_token_field_issued_time ''issued_time'',
     created ent_oauth_refresh_token_field_expires_time ''expires_time'',
     created ent_oauth_refresh_token_field_consumed_time ''consumed_time'',
     created ent_oauth_refresh_token_field_revoked_time ''revoked_time'']"

definition ent_oauth_refresh_token_update_defaults :: "(nat \<Rightarrow> time) \<Rightarrow> mutation \<Rightarrow> mutation" where
  "ent_oauth_refresh_token_update_defaults = defaulted []"

definition ent_oauth_refresh_token_update :: "mutation \<Rightarrow> ent_error + assignment list" where
  "ent_oauth_refresh_token_update = update_steps [
     valid (descriptor ent_oauth_refresh_token_runtime ent_oauth_refresh_token_schema ''TokenHashValidator'') ent_oauth_refresh_token_field_token_hash ''token_hash''] [
     assign_set ent_oauth_refresh_token_field_token_hash ''token_hash'',
     assign_clear ent_oauth_refresh_token_field_parent_token_id ''parent_token_id'',
     assign_set ent_oauth_refresh_token_field_consumed_time ''consumed_time'',
     assign_clear ent_oauth_refresh_token_field_consumed_time ''consumed_time'',
     assign_set ent_oauth_refresh_token_field_revoked_time ''revoked_time'',
     assign_clear ent_oauth_refresh_token_field_revoked_time ''revoked_time'']"

definition ent_oauth_refresh_token_columns :: "string list" where
  "ent_oauth_refresh_token_columns = [''id'', ''token_session_id'', ''family_id'', ''token_hash'', ''parent_token_id'', ''issued_time'',
     ''expires_time'', ''consumed_time'', ''revoked_time'']"

definition ent_oauth_refresh_token_update_one :: "string list \<Rightarrow> mutation
    \<Rightarrow> ent_error + go_value \<times> string list \<times> assignment list" where
  "ent_oauth_refresh_token_update_one = update_one_steps ent_oauth_refresh_token_columns [
     valid (descriptor ent_oauth_refresh_token_runtime ent_oauth_refresh_token_schema ''TokenHashValidator'') ent_oauth_refresh_token_field_token_hash ''token_hash''] [
     assign_set ent_oauth_refresh_token_field_token_hash ''token_hash'',
     assign_clear ent_oauth_refresh_token_field_parent_token_id ''parent_token_id'',
     assign_set ent_oauth_refresh_token_field_consumed_time ''consumed_time'',
     assign_clear ent_oauth_refresh_token_field_consumed_time ''consumed_time'',
     assign_set ent_oauth_refresh_token_field_revoked_time ''revoked_time'',
     assign_clear ent_oauth_refresh_token_field_revoked_time ''revoked_time'']"

definition ent_oauth_refresh_token_scan_values :: "string \<Rightarrow> scan_type" where
  "ent_oauth_refresh_token_scan_values = scan_switch [
     ([''id'', ''token_session_id'', ''family_id'', ''token_hash'', ''parent_token_id''], NullString),
     ([''issued_time'', ''expires_time'', ''consumed_time'', ''revoked_time''], NullTime)]"

definition ent_oauth_refresh_token_assign_values :: "(string \<Rightarrow> err + string list) \<Rightarrow> string list \<Rightarrow> sql_cell list \<Rightarrow> entity \<Rightarrow> err + entity" where
  "ent_oauth_refresh_token_assign_values = assign_row [(''id'', take_cell TString ''id''), (''token_session_id'', take_cell TString ''token_session_id''),
     (''family_id'', take_cell TString ''family_id''), (''token_hash'', take_cell TString ''token_hash''),
     (''parent_token_id'', take_cell TString ''parent_token_id''),
     (''issued_time'', take_cell TTime ''issued_time''), (''expires_time'', take_cell TTime ''expires_time''),
     (''consumed_time'', take_cell TTime ''consumed_time''),
     (''revoked_time'', take_cell TTime ''revoked_time'')]"

definition ent_oauth_refresh_token_code :: entity_code where
  "ent_oauth_refresh_token_code = \<lparr>ey_columns = ent_oauth_refresh_token_columns, ey_zero = ent_oauth_refresh_token_zero, ey_new = new_ent_oauth_refresh_token_mutation,
     ey_fields = ent_oauth_refresh_token_fields, ey_field = ent_oauth_refresh_token_field, ey_old_field = ent_oauth_refresh_token_old_field, ey_set_field = ent_oauth_refresh_token_set_field,
     ey_cleared_fields = ent_oauth_refresh_token_cleared_fields, ey_clear_field = ent_oauth_refresh_token_clear_field, ey_reset_field = ent_oauth_refresh_token_reset_field,
     ey_defaults = ent_oauth_refresh_token_create_defaults, ey_check = ent_oauth_refresh_token_create_check, ey_create_spec = ent_oauth_refresh_token_create_spec,
     ey_update_defaults = ent_oauth_refresh_token_update_defaults, ey_update = ent_oauth_refresh_token_update, ey_update_one = ent_oauth_refresh_token_update_one,
     ey_scan = ent_oauth_refresh_token_scan_values, ey_assign = ent_oauth_refresh_token_assign_values\<rparr>"

lemmas ent_oauth_refresh_token_defs = ent_oauth_refresh_token_schema_def ent_oauth_refresh_token_runtime_def
  ent_oauth_refresh_token_field_token_session_id_def ent_oauth_refresh_token_field_family_id_def
  ent_oauth_refresh_token_field_token_hash_def ent_oauth_refresh_token_field_parent_token_id_def
  ent_oauth_refresh_token_field_issued_time_def ent_oauth_refresh_token_field_expires_time_def
  ent_oauth_refresh_token_field_consumed_time_def ent_oauth_refresh_token_field_revoked_time_def
  new_ent_oauth_refresh_token_mutation_def ent_oauth_refresh_token_fields_def
  ent_oauth_refresh_token_field_def ent_oauth_refresh_token_old_field_def
  ent_oauth_refresh_token_set_field_def ent_oauth_refresh_token_cleared_fields_def
  ent_oauth_refresh_token_clear_field_def ent_oauth_refresh_token_reset_field_def
  ent_oauth_refresh_token_create_defaults_def ent_oauth_refresh_token_create_check_def
  ent_oauth_refresh_token_zero_def ent_oauth_refresh_token_create_spec_def
  ent_oauth_refresh_token_update_defaults_def ent_oauth_refresh_token_update_def
  ent_oauth_refresh_token_columns_def ent_oauth_refresh_token_update_one_def
  ent_oauth_refresh_token_scan_values_def ent_oauth_refresh_token_assign_values_def
  ent_oauth_refresh_token_code_def

lemma ent_oauth_refresh_token_scan: "ent_oauth_refresh_token_scan_values = ey_scan (reference ''OAuthRefreshToken'' TString True (tl ent_oauth_refresh_token_schema))"
  unfolding ent_oauth_refresh_token_scan_values_def by (rule scan_referenceI) code_simp+

lemma ent_oauth_refresh_token_is_reference: "ent_oauth_refresh_token_code = reference ''OAuthRefreshToken'' TString True (tl ent_oauth_refresh_token_schema)"
  using ent_oauth_refresh_token_scan by (simp add: ent_oauth_refresh_token_defs reference_simps)

section \<open>OAuthClient\<close>

definition ent_oauth_client_schema :: "column list" where
  "ent_oauth_client_schema = [
     (field_of TString ''id'' ''ID'')\<lparr>cl_immutable := True\<rparr>,
     (field_of TString ''secret_hash'' ''SecretHash'')\<lparr>cl_not_empty := True\<rparr>,
     (field_of TStrings ''redirect_uris'' ''RedirectUris''),
     (field_of TStrings ''allowed_grant_types'' ''AllowedGrantTypes''),
     (field_of TStrings ''allowed_response_types'' ''AllowedResponseTypes''),
     (field_of TStrings ''allowed_scopes'' ''AllowedScopes''),
     (field_of TBool ''trusted'' ''Trusted'')\<lparr>cl_default := Some (DefaultConst (VBool False))\<rparr>,
     (field_of TTime ''create_time'' ''CreateTime'')\<lparr>cl_default := Some DefaultNow, cl_immutable := True\<rparr>,
     (field_of TTime ''update_time'' ''UpdateTime'')\<lparr>cl_default := Some DefaultNow, cl_update_now := True\<rparr>]"

definition ent_oauth_client_runtime :: "(string \<times> nat) list" where
  "ent_oauth_client_runtime = [(''SecretHashValidator'', 1), (''DefaultTrusted'', 6), (''DefaultCreateTime'', 7),
     (''DefaultUpdateTime'', 8), (''UpdateDefaultUpdateTime'', 8)]"

definition ent_oauth_client_field_secret_hash :: "field_methods" where
  "ent_oauth_client_field_secret_hash = plain_field ''secret_hash'' ''SecretHash''"

definition ent_oauth_client_field_redirect_uris :: "field_methods" where
  "ent_oauth_client_field_redirect_uris = list_field ''redirect_uris'' ''RedirectUris''"

definition ent_oauth_client_field_allowed_grant_types :: "field_methods" where
  "ent_oauth_client_field_allowed_grant_types = list_field ''allowed_grant_types'' ''AllowedGrantTypes''"

definition ent_oauth_client_field_allowed_response_types :: "field_methods" where
  "ent_oauth_client_field_allowed_response_types = list_field ''allowed_response_types'' ''AllowedResponseTypes''"

definition ent_oauth_client_field_allowed_scopes :: "field_methods" where
  "ent_oauth_client_field_allowed_scopes = list_field ''allowed_scopes'' ''AllowedScopes''"

definition ent_oauth_client_field_trusted :: "field_methods" where
  "ent_oauth_client_field_trusted = plain_field ''trusted'' ''Trusted''"

definition ent_oauth_client_field_create_time :: "field_methods" where
  "ent_oauth_client_field_create_time = plain_field ''create_time'' ''CreateTime''"

definition ent_oauth_client_field_update_time :: "field_methods" where
  "ent_oauth_client_field_update_time = plain_field ''update_time'' ''UpdateTime''"

definition new_ent_oauth_client_mutation :: "ent_op \<Rightarrow> mutation" where
  "new_ent_oauth_client_mutation = new_mutation ''OAuthClient''"

definition ent_oauth_client_fields :: "mutation \<Rightarrow> string list" where
  "ent_oauth_client_fields = listed [if_set ent_oauth_client_field_secret_hash ''secret_hash'',
     if_set ent_oauth_client_field_redirect_uris ''redirect_uris'',
     if_set ent_oauth_client_field_allowed_grant_types ''allowed_grant_types'',
     if_set ent_oauth_client_field_allowed_response_types ''allowed_response_types'',
     if_set ent_oauth_client_field_allowed_scopes ''allowed_scopes'',
     if_set ent_oauth_client_field_trusted ''trusted'',
     if_set ent_oauth_client_field_create_time ''create_time'',
     if_set ent_oauth_client_field_update_time ''update_time'']"

definition ent_oauth_client_field :: "string \<Rightarrow> mutation \<Rightarrow> go_value option" where
  "ent_oauth_client_field = get_switch [(''secret_hash'', ent_oauth_client_field_secret_hash),
     (''redirect_uris'', ent_oauth_client_field_redirect_uris),
     (''allowed_grant_types'', ent_oauth_client_field_allowed_grant_types),
     (''allowed_response_types'', ent_oauth_client_field_allowed_response_types),
     (''allowed_scopes'', ent_oauth_client_field_allowed_scopes), (''trusted'', ent_oauth_client_field_trusted),
     (''create_time'', ent_oauth_client_field_create_time),
     (''update_time'', ent_oauth_client_field_update_time)]"

definition ent_oauth_client_old_field :: "(go_value \<Rightarrow> err + entity) \<Rightarrow> string \<Rightarrow> mutation
    \<Rightarrow> (err + go_value option) \<times> mutation" where
  "ent_oauth_client_old_field = old_switch ''OAuthClient'' [(''secret_hash'', ent_oauth_client_field_secret_hash),
     (''redirect_uris'', ent_oauth_client_field_redirect_uris),
     (''allowed_grant_types'', ent_oauth_client_field_allowed_grant_types),
     (''allowed_response_types'', ent_oauth_client_field_allowed_response_types),
     (''allowed_scopes'', ent_oauth_client_field_allowed_scopes), (''trusted'', ent_oauth_client_field_trusted),
     (''create_time'', ent_oauth_client_field_create_time),
     (''update_time'', ent_oauth_client_field_update_time)]"

definition ent_oauth_client_set_field :: "string \<Rightarrow> go_value \<Rightarrow> mutation \<Rightarrow> err + mutation" where
  "ent_oauth_client_set_field = set_switch ''OAuthClient'' [(''secret_hash'', TString, ent_oauth_client_field_secret_hash),
     (''redirect_uris'', TStrings, ent_oauth_client_field_redirect_uris),
     (''allowed_grant_types'', TStrings, ent_oauth_client_field_allowed_grant_types),
     (''allowed_response_types'', TStrings, ent_oauth_client_field_allowed_response_types),
     (''allowed_scopes'', TStrings, ent_oauth_client_field_allowed_scopes),
     (''trusted'', TBool, ent_oauth_client_field_trusted),
     (''create_time'', TTime, ent_oauth_client_field_create_time),
     (''update_time'', TTime, ent_oauth_client_field_update_time)]"

definition ent_oauth_client_cleared_fields :: "mutation \<Rightarrow> string list" where
  "ent_oauth_client_cleared_fields = listed []"

definition ent_oauth_client_clear_field :: "string \<Rightarrow> mutation \<Rightarrow> err + mutation" where
  "ent_oauth_client_clear_field = clear_switch ''OAuthClient'' []"

definition ent_oauth_client_reset_field :: "string \<Rightarrow> mutation \<Rightarrow> err + mutation" where
  "ent_oauth_client_reset_field = reset_switch ''OAuthClient'' [(''secret_hash'', ent_oauth_client_field_secret_hash),
     (''redirect_uris'', ent_oauth_client_field_redirect_uris),
     (''allowed_grant_types'', ent_oauth_client_field_allowed_grant_types),
     (''allowed_response_types'', ent_oauth_client_field_allowed_response_types),
     (''allowed_scopes'', ent_oauth_client_field_allowed_scopes), (''trusted'', ent_oauth_client_field_trusted),
     (''create_time'', ent_oauth_client_field_create_time),
     (''update_time'', ent_oauth_client_field_update_time)]"

definition ent_oauth_client_create_defaults :: "(nat \<Rightarrow> time) \<Rightarrow> mutation \<Rightarrow> mutation" where
  "ent_oauth_client_create_defaults = defaulted [
     set_default (descriptor ent_oauth_client_runtime ent_oauth_client_schema ''DefaultTrusted'') ent_oauth_client_field_trusted,
     set_default (descriptor ent_oauth_client_runtime ent_oauth_client_schema ''DefaultCreateTime'') ent_oauth_client_field_create_time,
     set_default (descriptor ent_oauth_client_runtime ent_oauth_client_schema ''DefaultUpdateTime'') ent_oauth_client_field_update_time]"

definition ent_oauth_client_create_check :: "mutation \<Rightarrow> ent_error option" where
  "ent_oauth_client_create_check = first_error [
     required ent_oauth_client_field_secret_hash ''secret_hash'',
     valid (descriptor ent_oauth_client_runtime ent_oauth_client_schema ''SecretHashValidator'') ent_oauth_client_field_secret_hash ''secret_hash'',
     required ent_oauth_client_field_redirect_uris ''redirect_uris'',
     required ent_oauth_client_field_allowed_grant_types ''allowed_grant_types'',
     required ent_oauth_client_field_allowed_response_types ''allowed_response_types'',
     required ent_oauth_client_field_allowed_scopes ''allowed_scopes'',
     required ent_oauth_client_field_trusted ''trusted'',
     required ent_oauth_client_field_create_time ''create_time'',
     required ent_oauth_client_field_update_time ''update_time'']"

definition ent_oauth_client_zero :: "entity" where
  "ent_oauth_client_zero = map_of [(''id'', VString []), (''secret_hash'', VString []), (''redirect_uris'', VStrings []),
     (''allowed_grant_types'', VStrings []), (''allowed_response_types'', VStrings []),
     (''allowed_scopes'', VStrings []), (''trusted'', VBool False), (''create_time'', VTime 0),
     (''update_time'', VTime 0)]"

definition ent_oauth_client_create_spec :: "mutation \<Rightarrow> create_spec" where
  "ent_oauth_client_create_spec = create_steps ent_oauth_client_zero [created_id, created ent_oauth_client_field_secret_hash ''secret_hash'',
     created ent_oauth_client_field_redirect_uris ''redirect_uris'',
     created ent_oauth_client_field_allowed_grant_types ''allowed_grant_types'',
     created ent_oauth_client_field_allowed_response_types ''allowed_response_types'',
     created ent_oauth_client_field_allowed_scopes ''allowed_scopes'',
     created ent_oauth_client_field_trusted ''trusted'',
     created ent_oauth_client_field_create_time ''create_time'',
     created ent_oauth_client_field_update_time ''update_time'']"

definition ent_oauth_client_update_defaults :: "(nat \<Rightarrow> time) \<Rightarrow> mutation \<Rightarrow> mutation" where
  "ent_oauth_client_update_defaults = defaulted [update_to_now ent_oauth_client_field_update_time]"

definition ent_oauth_client_update :: "mutation \<Rightarrow> ent_error + assignment list" where
  "ent_oauth_client_update = update_steps [
     valid (descriptor ent_oauth_client_runtime ent_oauth_client_schema ''SecretHashValidator'') ent_oauth_client_field_secret_hash ''secret_hash''] [
     assign_set ent_oauth_client_field_secret_hash ''secret_hash'',
     assign_set ent_oauth_client_field_redirect_uris ''redirect_uris'',
     assign_append ent_oauth_client_field_redirect_uris ''redirect_uris'',
     assign_set ent_oauth_client_field_allowed_grant_types ''allowed_grant_types'',
     assign_append ent_oauth_client_field_allowed_grant_types ''allowed_grant_types'',
     assign_set ent_oauth_client_field_allowed_response_types ''allowed_response_types'',
     assign_append ent_oauth_client_field_allowed_response_types ''allowed_response_types'',
     assign_set ent_oauth_client_field_allowed_scopes ''allowed_scopes'',
     assign_append ent_oauth_client_field_allowed_scopes ''allowed_scopes'',
     assign_set ent_oauth_client_field_trusted ''trusted'',
     assign_set ent_oauth_client_field_update_time ''update_time'']"

definition ent_oauth_client_columns :: "string list" where
  "ent_oauth_client_columns = [''id'', ''secret_hash'', ''redirect_uris'', ''allowed_grant_types'', ''allowed_response_types'',
     ''allowed_scopes'', ''trusted'', ''create_time'', ''update_time'']"

definition ent_oauth_client_update_one :: "string list \<Rightarrow> mutation
    \<Rightarrow> ent_error + go_value \<times> string list \<times> assignment list" where
  "ent_oauth_client_update_one = update_one_steps ent_oauth_client_columns [
     valid (descriptor ent_oauth_client_runtime ent_oauth_client_schema ''SecretHashValidator'') ent_oauth_client_field_secret_hash ''secret_hash''] [
     assign_set ent_oauth_client_field_secret_hash ''secret_hash'',
     assign_set ent_oauth_client_field_redirect_uris ''redirect_uris'',
     assign_append ent_oauth_client_field_redirect_uris ''redirect_uris'',
     assign_set ent_oauth_client_field_allowed_grant_types ''allowed_grant_types'',
     assign_append ent_oauth_client_field_allowed_grant_types ''allowed_grant_types'',
     assign_set ent_oauth_client_field_allowed_response_types ''allowed_response_types'',
     assign_append ent_oauth_client_field_allowed_response_types ''allowed_response_types'',
     assign_set ent_oauth_client_field_allowed_scopes ''allowed_scopes'',
     assign_append ent_oauth_client_field_allowed_scopes ''allowed_scopes'',
     assign_set ent_oauth_client_field_trusted ''trusted'',
     assign_set ent_oauth_client_field_update_time ''update_time'']"

definition ent_oauth_client_scan_values :: "string \<Rightarrow> scan_type" where
  "ent_oauth_client_scan_values = scan_switch [
     ([''redirect_uris'', ''allowed_grant_types'', ''allowed_response_types'', ''allowed_scopes''], RawBytes),
     ([''trusted''], NullBool),
     ([''id'', ''secret_hash''], NullString),
     ([''create_time'', ''update_time''], NullTime)]"

definition ent_oauth_client_assign_values :: "(string \<Rightarrow> err + string list) \<Rightarrow> string list \<Rightarrow> sql_cell list \<Rightarrow> entity \<Rightarrow> err + entity" where
  "ent_oauth_client_assign_values = assign_row [(''id'', take_cell TString ''id''), (''secret_hash'', take_cell TString ''secret_hash''),
     (''redirect_uris'', take_cell TStrings ''redirect_uris''),
     (''allowed_grant_types'', take_cell TStrings ''allowed_grant_types''),
     (''allowed_response_types'', take_cell TStrings ''allowed_response_types''),
     (''allowed_scopes'', take_cell TStrings ''allowed_scopes''), (''trusted'', take_cell TBool ''trusted''),
     (''create_time'', take_cell TTime ''create_time''), (''update_time'', take_cell TTime ''update_time'')]"

definition ent_oauth_client_code :: entity_code where
  "ent_oauth_client_code = \<lparr>ey_columns = ent_oauth_client_columns, ey_zero = ent_oauth_client_zero, ey_new = new_ent_oauth_client_mutation,
     ey_fields = ent_oauth_client_fields, ey_field = ent_oauth_client_field, ey_old_field = ent_oauth_client_old_field, ey_set_field = ent_oauth_client_set_field,
     ey_cleared_fields = ent_oauth_client_cleared_fields, ey_clear_field = ent_oauth_client_clear_field, ey_reset_field = ent_oauth_client_reset_field,
     ey_defaults = ent_oauth_client_create_defaults, ey_check = ent_oauth_client_create_check, ey_create_spec = ent_oauth_client_create_spec,
     ey_update_defaults = ent_oauth_client_update_defaults, ey_update = ent_oauth_client_update, ey_update_one = ent_oauth_client_update_one,
     ey_scan = ent_oauth_client_scan_values, ey_assign = ent_oauth_client_assign_values\<rparr>"

lemmas ent_oauth_client_defs = ent_oauth_client_schema_def ent_oauth_client_runtime_def ent_oauth_client_field_secret_hash_def
  ent_oauth_client_field_redirect_uris_def ent_oauth_client_field_allowed_grant_types_def
  ent_oauth_client_field_allowed_response_types_def ent_oauth_client_field_allowed_scopes_def
  ent_oauth_client_field_trusted_def ent_oauth_client_field_create_time_def
  ent_oauth_client_field_update_time_def new_ent_oauth_client_mutation_def ent_oauth_client_fields_def
  ent_oauth_client_field_def ent_oauth_client_old_field_def ent_oauth_client_set_field_def
  ent_oauth_client_cleared_fields_def ent_oauth_client_clear_field_def ent_oauth_client_reset_field_def
  ent_oauth_client_create_defaults_def ent_oauth_client_create_check_def ent_oauth_client_zero_def
  ent_oauth_client_create_spec_def ent_oauth_client_update_defaults_def ent_oauth_client_update_def
  ent_oauth_client_columns_def ent_oauth_client_update_one_def ent_oauth_client_scan_values_def
  ent_oauth_client_assign_values_def ent_oauth_client_code_def

lemma ent_oauth_client_scan: "ent_oauth_client_scan_values = ey_scan (reference ''OAuthClient'' TString True (tl ent_oauth_client_schema))"
  unfolding ent_oauth_client_scan_values_def by (rule scan_referenceI) code_simp+

lemma ent_oauth_client_is_reference: "ent_oauth_client_code = reference ''OAuthClient'' TString True (tl ent_oauth_client_schema)"
  using ent_oauth_client_scan by (simp add: ent_oauth_client_defs reference_simps)

section \<open>OIDCSigningKey\<close>

definition ent_oidc_signing_key_schema :: "column list" where
  "ent_oidc_signing_key_schema = [
     (field_of TString ''id'' ''ID'')\<lparr>cl_immutable := True\<rparr>,
     (field_of TString ''public_jwk'' ''PublicJwk'')\<lparr>cl_not_empty := True\<rparr>,
     (field_of TString ''algorithm'' ''Algorithm'')\<lparr>cl_default := Some (DefaultConst (VString ''RS256'')), cl_immutable := True\<rparr>,
     (field_of TTime ''not_before_time'' ''NotBeforeTime'')\<lparr>cl_immutable := True\<rparr>,
     (field_of TTime ''expires_time'' ''ExpiresTime'')\<lparr>cl_immutable := True\<rparr>,
     (field_of TTime ''revoked_time'' ''RevokedTime'')\<lparr>cl_optional := True, cl_nillable := True\<rparr>,
     (field_of TTime ''create_time'' ''CreateTime'')\<lparr>cl_default := Some DefaultNow, cl_immutable := True\<rparr>]"

definition ent_oidc_signing_key_runtime :: "(string \<times> nat) list" where
  "ent_oidc_signing_key_runtime = [(''PublicJwkValidator'', 1), (''DefaultAlgorithm'', 2), (''DefaultCreateTime'', 6)]"

definition ent_oidc_signing_key_field_public_jwk :: "field_methods" where
  "ent_oidc_signing_key_field_public_jwk = plain_field ''public_jwk'' ''PublicJwk''"

definition ent_oidc_signing_key_field_algorithm :: "field_methods" where
  "ent_oidc_signing_key_field_algorithm = plain_field ''algorithm'' ''Algorithm''"

definition ent_oidc_signing_key_field_not_before_time :: "field_methods" where
  "ent_oidc_signing_key_field_not_before_time = plain_field ''not_before_time'' ''NotBeforeTime''"

definition ent_oidc_signing_key_field_expires_time :: "field_methods" where
  "ent_oidc_signing_key_field_expires_time = plain_field ''expires_time'' ''ExpiresTime''"

definition ent_oidc_signing_key_field_revoked_time :: "field_methods" where
  "ent_oidc_signing_key_field_revoked_time = nullable_field ''revoked_time'' ''RevokedTime''"

definition ent_oidc_signing_key_field_create_time :: "field_methods" where
  "ent_oidc_signing_key_field_create_time = plain_field ''create_time'' ''CreateTime''"

definition new_ent_oidc_signing_key_mutation :: "ent_op \<Rightarrow> mutation" where
  "new_ent_oidc_signing_key_mutation = new_mutation ''OIDCSigningKey''"

definition ent_oidc_signing_key_fields :: "mutation \<Rightarrow> string list" where
  "ent_oidc_signing_key_fields = listed [if_set ent_oidc_signing_key_field_public_jwk ''public_jwk'',
     if_set ent_oidc_signing_key_field_algorithm ''algorithm'',
     if_set ent_oidc_signing_key_field_not_before_time ''not_before_time'',
     if_set ent_oidc_signing_key_field_expires_time ''expires_time'',
     if_set ent_oidc_signing_key_field_revoked_time ''revoked_time'',
     if_set ent_oidc_signing_key_field_create_time ''create_time'']"

definition ent_oidc_signing_key_field :: "string \<Rightarrow> mutation \<Rightarrow> go_value option" where
  "ent_oidc_signing_key_field = get_switch [(''public_jwk'', ent_oidc_signing_key_field_public_jwk),
     (''algorithm'', ent_oidc_signing_key_field_algorithm),
     (''not_before_time'', ent_oidc_signing_key_field_not_before_time),
     (''expires_time'', ent_oidc_signing_key_field_expires_time),
     (''revoked_time'', ent_oidc_signing_key_field_revoked_time),
     (''create_time'', ent_oidc_signing_key_field_create_time)]"

definition ent_oidc_signing_key_old_field :: "(go_value \<Rightarrow> err + entity) \<Rightarrow> string \<Rightarrow> mutation
    \<Rightarrow> (err + go_value option) \<times> mutation" where
  "ent_oidc_signing_key_old_field = old_switch ''OIDCSigningKey'' [(''public_jwk'', ent_oidc_signing_key_field_public_jwk),
     (''algorithm'', ent_oidc_signing_key_field_algorithm),
     (''not_before_time'', ent_oidc_signing_key_field_not_before_time),
     (''expires_time'', ent_oidc_signing_key_field_expires_time),
     (''revoked_time'', ent_oidc_signing_key_field_revoked_time),
     (''create_time'', ent_oidc_signing_key_field_create_time)]"

definition ent_oidc_signing_key_set_field :: "string \<Rightarrow> go_value \<Rightarrow> mutation \<Rightarrow> err + mutation" where
  "ent_oidc_signing_key_set_field = set_switch ''OIDCSigningKey'' [(''public_jwk'', TString, ent_oidc_signing_key_field_public_jwk),
     (''algorithm'', TString, ent_oidc_signing_key_field_algorithm),
     (''not_before_time'', TTime, ent_oidc_signing_key_field_not_before_time),
     (''expires_time'', TTime, ent_oidc_signing_key_field_expires_time),
     (''revoked_time'', TTime, ent_oidc_signing_key_field_revoked_time),
     (''create_time'', TTime, ent_oidc_signing_key_field_create_time)]"

definition ent_oidc_signing_key_cleared_fields :: "mutation \<Rightarrow> string list" where
  "ent_oidc_signing_key_cleared_fields = listed [if_cleared ''revoked_time'']"

definition ent_oidc_signing_key_clear_field :: "string \<Rightarrow> mutation \<Rightarrow> err + mutation" where
  "ent_oidc_signing_key_clear_field = clear_switch ''OIDCSigningKey'' [(''revoked_time'', ent_oidc_signing_key_field_revoked_time)]"

definition ent_oidc_signing_key_reset_field :: "string \<Rightarrow> mutation \<Rightarrow> err + mutation" where
  "ent_oidc_signing_key_reset_field = reset_switch ''OIDCSigningKey'' [(''public_jwk'', ent_oidc_signing_key_field_public_jwk),
     (''algorithm'', ent_oidc_signing_key_field_algorithm),
     (''not_before_time'', ent_oidc_signing_key_field_not_before_time),
     (''expires_time'', ent_oidc_signing_key_field_expires_time),
     (''revoked_time'', ent_oidc_signing_key_field_revoked_time),
     (''create_time'', ent_oidc_signing_key_field_create_time)]"

definition ent_oidc_signing_key_create_defaults :: "(nat \<Rightarrow> time) \<Rightarrow> mutation \<Rightarrow> mutation" where
  "ent_oidc_signing_key_create_defaults = defaulted [
     set_default (descriptor ent_oidc_signing_key_runtime ent_oidc_signing_key_schema ''DefaultAlgorithm'') ent_oidc_signing_key_field_algorithm,
     set_default (descriptor ent_oidc_signing_key_runtime ent_oidc_signing_key_schema ''DefaultCreateTime'') ent_oidc_signing_key_field_create_time]"

definition ent_oidc_signing_key_create_check :: "mutation \<Rightarrow> ent_error option" where
  "ent_oidc_signing_key_create_check = first_error [
     required ent_oidc_signing_key_field_public_jwk ''public_jwk'',
     valid (descriptor ent_oidc_signing_key_runtime ent_oidc_signing_key_schema ''PublicJwkValidator'') ent_oidc_signing_key_field_public_jwk ''public_jwk'',
     required ent_oidc_signing_key_field_algorithm ''algorithm'',
     required ent_oidc_signing_key_field_not_before_time ''not_before_time'',
     required ent_oidc_signing_key_field_expires_time ''expires_time'',
     required ent_oidc_signing_key_field_create_time ''create_time'']"

definition ent_oidc_signing_key_zero :: "entity" where
  "ent_oidc_signing_key_zero = map_of [(''id'', VString []), (''public_jwk'', VString []), (''algorithm'', VString []),
     (''not_before_time'', VTime 0), (''expires_time'', VTime 0), (''create_time'', VTime 0)]"

definition ent_oidc_signing_key_create_spec :: "mutation \<Rightarrow> create_spec" where
  "ent_oidc_signing_key_create_spec = create_steps ent_oidc_signing_key_zero [created_id, created ent_oidc_signing_key_field_public_jwk ''public_jwk'',
     created ent_oidc_signing_key_field_algorithm ''algorithm'',
     created ent_oidc_signing_key_field_not_before_time ''not_before_time'',
     created ent_oidc_signing_key_field_expires_time ''expires_time'',
     created ent_oidc_signing_key_field_revoked_time ''revoked_time'',
     created ent_oidc_signing_key_field_create_time ''create_time'']"

definition ent_oidc_signing_key_update_defaults :: "(nat \<Rightarrow> time) \<Rightarrow> mutation \<Rightarrow> mutation" where
  "ent_oidc_signing_key_update_defaults = defaulted []"

definition ent_oidc_signing_key_update :: "mutation \<Rightarrow> ent_error + assignment list" where
  "ent_oidc_signing_key_update = update_steps [
     valid (descriptor ent_oidc_signing_key_runtime ent_oidc_signing_key_schema ''PublicJwkValidator'') ent_oidc_signing_key_field_public_jwk ''public_jwk''] [
     assign_set ent_oidc_signing_key_field_public_jwk ''public_jwk'',
     assign_set ent_oidc_signing_key_field_revoked_time ''revoked_time'',
     assign_clear ent_oidc_signing_key_field_revoked_time ''revoked_time'']"

definition ent_oidc_signing_key_columns :: "string list" where
  "ent_oidc_signing_key_columns = [''id'', ''public_jwk'', ''algorithm'', ''not_before_time'', ''expires_time'', ''revoked_time'',
     ''create_time'']"

definition ent_oidc_signing_key_update_one :: "string list \<Rightarrow> mutation
    \<Rightarrow> ent_error + go_value \<times> string list \<times> assignment list" where
  "ent_oidc_signing_key_update_one = update_one_steps ent_oidc_signing_key_columns [
     valid (descriptor ent_oidc_signing_key_runtime ent_oidc_signing_key_schema ''PublicJwkValidator'') ent_oidc_signing_key_field_public_jwk ''public_jwk''] [
     assign_set ent_oidc_signing_key_field_public_jwk ''public_jwk'',
     assign_set ent_oidc_signing_key_field_revoked_time ''revoked_time'',
     assign_clear ent_oidc_signing_key_field_revoked_time ''revoked_time'']"

definition ent_oidc_signing_key_scan_values :: "string \<Rightarrow> scan_type" where
  "ent_oidc_signing_key_scan_values = scan_switch [
     ([''id'', ''public_jwk'', ''algorithm''], NullString),
     ([''not_before_time'', ''expires_time'', ''revoked_time'', ''create_time''], NullTime)]"

definition ent_oidc_signing_key_assign_values :: "(string \<Rightarrow> err + string list) \<Rightarrow> string list \<Rightarrow> sql_cell list \<Rightarrow> entity \<Rightarrow> err + entity" where
  "ent_oidc_signing_key_assign_values = assign_row [(''id'', take_cell TString ''id''), (''public_jwk'', take_cell TString ''public_jwk''),
     (''algorithm'', take_cell TString ''algorithm''),
     (''not_before_time'', take_cell TTime ''not_before_time''),
     (''expires_time'', take_cell TTime ''expires_time''), (''revoked_time'', take_cell TTime ''revoked_time''),
     (''create_time'', take_cell TTime ''create_time'')]"

definition ent_oidc_signing_key_code :: entity_code where
  "ent_oidc_signing_key_code = \<lparr>ey_columns = ent_oidc_signing_key_columns, ey_zero = ent_oidc_signing_key_zero, ey_new = new_ent_oidc_signing_key_mutation,
     ey_fields = ent_oidc_signing_key_fields, ey_field = ent_oidc_signing_key_field, ey_old_field = ent_oidc_signing_key_old_field, ey_set_field = ent_oidc_signing_key_set_field,
     ey_cleared_fields = ent_oidc_signing_key_cleared_fields, ey_clear_field = ent_oidc_signing_key_clear_field, ey_reset_field = ent_oidc_signing_key_reset_field,
     ey_defaults = ent_oidc_signing_key_create_defaults, ey_check = ent_oidc_signing_key_create_check, ey_create_spec = ent_oidc_signing_key_create_spec,
     ey_update_defaults = ent_oidc_signing_key_update_defaults, ey_update = ent_oidc_signing_key_update, ey_update_one = ent_oidc_signing_key_update_one,
     ey_scan = ent_oidc_signing_key_scan_values, ey_assign = ent_oidc_signing_key_assign_values\<rparr>"

lemmas ent_oidc_signing_key_defs = ent_oidc_signing_key_schema_def ent_oidc_signing_key_runtime_def ent_oidc_signing_key_field_public_jwk_def
  ent_oidc_signing_key_field_algorithm_def ent_oidc_signing_key_field_not_before_time_def
  ent_oidc_signing_key_field_expires_time_def ent_oidc_signing_key_field_revoked_time_def
  ent_oidc_signing_key_field_create_time_def new_ent_oidc_signing_key_mutation_def
  ent_oidc_signing_key_fields_def ent_oidc_signing_key_field_def ent_oidc_signing_key_old_field_def
  ent_oidc_signing_key_set_field_def ent_oidc_signing_key_cleared_fields_def
  ent_oidc_signing_key_clear_field_def ent_oidc_signing_key_reset_field_def
  ent_oidc_signing_key_create_defaults_def ent_oidc_signing_key_create_check_def
  ent_oidc_signing_key_zero_def ent_oidc_signing_key_create_spec_def ent_oidc_signing_key_update_defaults_def
  ent_oidc_signing_key_update_def ent_oidc_signing_key_columns_def ent_oidc_signing_key_update_one_def
  ent_oidc_signing_key_scan_values_def ent_oidc_signing_key_assign_values_def ent_oidc_signing_key_code_def

lemma ent_oidc_signing_key_scan: "ent_oidc_signing_key_scan_values = ey_scan (reference ''OIDCSigningKey'' TString True (tl ent_oidc_signing_key_schema))"
  unfolding ent_oidc_signing_key_scan_values_def by (rule scan_referenceI) code_simp+

lemma ent_oidc_signing_key_is_reference: "ent_oidc_signing_key_code = reference ''OIDCSigningKey'' TString True (tl ent_oidc_signing_key_schema)"
  using ent_oidc_signing_key_scan by (simp add: ent_oidc_signing_key_defs reference_simps)

end
