(* ===== verification/EntExample.thy ===== *)
theory EntExample
  imports EntTable
begin

text \<open>
  The generated \<open>ent\<close> code of the users of the example service, one definition per generated
  function or, for a field, per group of typed methods; each schema is the hand-written one.
\<close>

section \<open>User\<close>

definition ent_example_user_schema :: "column list" where
  "ent_example_user_schema = [
     (field_of TString ''tenant_id'' ''TenantID'')\<lparr>cl_not_empty := True, cl_immutable := True\<rparr>,
     (field_of TString ''resource_id'' ''ResourceID'')\<lparr>cl_not_empty := True, cl_immutable := True\<rparr>,
     (field_of TString ''display_name'' ''DisplayName'')\<lparr>cl_default := Some (DefaultConst (VString []))\<rparr>,
     (field_of TString ''email'' ''Email'')\<lparr>cl_not_empty := True\<rparr>,
     (field_of TString ''tenant_plan'' ''TenantPlan'')\<lparr>cl_default := Some (DefaultConst (VString [])), cl_immutable := True\<rparr>,
     (field_of TString ''nickname'' ''Nickname'')\<lparr>cl_optional := True, cl_nillable := True\<rparr>,
     (field_of TString ''password_hash'' ''PasswordHash'')\<lparr>cl_optional := True, cl_nillable := True\<rparr>,
     (field_of TString ''etag'' ''Etag'')\<lparr>cl_not_empty := True\<rparr>,
     (field_of TTime ''create_time'' ''CreateTime'')\<lparr>cl_default := Some DefaultNow, cl_immutable := True\<rparr>,
     (field_of TTime ''update_time'' ''UpdateTime'')\<lparr>cl_default := Some DefaultNow, cl_update_now := True\<rparr>]"

definition soft_delete_columns :: "column list" where
  "soft_delete_columns = [
     (field_of TTime ''delete_time'' ''DeleteTime'')\<lparr>cl_optional := True, cl_nillable := True\<rparr>,
     (field_of TString ''deleted_by'' ''DeletedBy'')\<lparr>cl_optional := True, cl_nillable := True\<rparr>,
     (field_of TTime ''purge_time'' ''PurgeTime'')\<lparr>cl_optional := True, cl_nillable := True\<rparr>]"

definition ent_example_user_runtime :: "(string \<times> nat) list" where
  "ent_example_user_runtime = [(''TenantIDValidator'', 0), (''ResourceIDValidator'', 1), (''DefaultDisplayName'', 2),
     (''EmailValidator'', 3), (''DefaultTenantPlan'', 4), (''EtagValidator'', 7), (''DefaultCreateTime'', 8),
     (''DefaultUpdateTime'', 9), (''UpdateDefaultUpdateTime'', 9)]"

definition ent_example_user_field_delete_time :: "field_methods" where
  "ent_example_user_field_delete_time = nullable_field ''delete_time'' ''DeleteTime''"

definition ent_example_user_field_deleted_by :: "field_methods" where
  "ent_example_user_field_deleted_by = nullable_field ''deleted_by'' ''DeletedBy''"

definition ent_example_user_field_purge_time :: "field_methods" where
  "ent_example_user_field_purge_time = nullable_field ''purge_time'' ''PurgeTime''"

definition ent_example_user_field_tenant_id :: "field_methods" where
  "ent_example_user_field_tenant_id = plain_field ''tenant_id'' ''TenantID''"

definition ent_example_user_field_resource_id :: "field_methods" where
  "ent_example_user_field_resource_id = plain_field ''resource_id'' ''ResourceID''"

definition ent_example_user_field_display_name :: "field_methods" where
  "ent_example_user_field_display_name = plain_field ''display_name'' ''DisplayName''"

definition ent_example_user_field_email :: "field_methods" where
  "ent_example_user_field_email = plain_field ''email'' ''Email''"

definition ent_example_user_field_tenant_plan :: "field_methods" where
  "ent_example_user_field_tenant_plan = plain_field ''tenant_plan'' ''TenantPlan''"

definition ent_example_user_field_nickname :: "field_methods" where
  "ent_example_user_field_nickname = nullable_field ''nickname'' ''Nickname''"

definition ent_example_user_field_password_hash :: "field_methods" where
  "ent_example_user_field_password_hash = nullable_field ''password_hash'' ''PasswordHash''"

definition ent_example_user_field_etag :: "field_methods" where
  "ent_example_user_field_etag = plain_field ''etag'' ''Etag''"

definition ent_example_user_field_create_time :: "field_methods" where
  "ent_example_user_field_create_time = plain_field ''create_time'' ''CreateTime''"

definition ent_example_user_field_update_time :: "field_methods" where
  "ent_example_user_field_update_time = plain_field ''update_time'' ''UpdateTime''"

definition new_ent_example_user_mutation :: "ent_op \<Rightarrow> mutation" where
  "new_ent_example_user_mutation = new_mutation ''User''"

definition ent_example_user_fields :: "mutation \<Rightarrow> string list" where
  "ent_example_user_fields = listed [if_set ent_example_user_field_delete_time ''delete_time'',
     if_set ent_example_user_field_deleted_by ''deleted_by'',
     if_set ent_example_user_field_purge_time ''purge_time'',
     if_set ent_example_user_field_tenant_id ''tenant_id'',
     if_set ent_example_user_field_resource_id ''resource_id'',
     if_set ent_example_user_field_display_name ''display_name'', if_set ent_example_user_field_email ''email'',
     if_set ent_example_user_field_tenant_plan ''tenant_plan'',
     if_set ent_example_user_field_nickname ''nickname'',
     if_set ent_example_user_field_password_hash ''password_hash'', if_set ent_example_user_field_etag ''etag'',
     if_set ent_example_user_field_create_time ''create_time'',
     if_set ent_example_user_field_update_time ''update_time'']"

definition ent_example_user_field :: "string \<Rightarrow> mutation \<Rightarrow> go_value option" where
  "ent_example_user_field = get_switch [(''delete_time'', ent_example_user_field_delete_time), (''deleted_by'', ent_example_user_field_deleted_by),
     (''purge_time'', ent_example_user_field_purge_time), (''tenant_id'', ent_example_user_field_tenant_id),
     (''resource_id'', ent_example_user_field_resource_id),
     (''display_name'', ent_example_user_field_display_name), (''email'', ent_example_user_field_email),
     (''tenant_plan'', ent_example_user_field_tenant_plan), (''nickname'', ent_example_user_field_nickname),
     (''password_hash'', ent_example_user_field_password_hash), (''etag'', ent_example_user_field_etag),
     (''create_time'', ent_example_user_field_create_time),
     (''update_time'', ent_example_user_field_update_time)]"

definition ent_example_user_old_field :: "(go_value \<Rightarrow> err + entity) \<Rightarrow> string \<Rightarrow> mutation
    \<Rightarrow> (err + go_value option) \<times> mutation" where
  "ent_example_user_old_field = old_switch ''User'' [(''delete_time'', ent_example_user_field_delete_time), (''deleted_by'', ent_example_user_field_deleted_by),
     (''purge_time'', ent_example_user_field_purge_time), (''tenant_id'', ent_example_user_field_tenant_id),
     (''resource_id'', ent_example_user_field_resource_id),
     (''display_name'', ent_example_user_field_display_name), (''email'', ent_example_user_field_email),
     (''tenant_plan'', ent_example_user_field_tenant_plan), (''nickname'', ent_example_user_field_nickname),
     (''password_hash'', ent_example_user_field_password_hash), (''etag'', ent_example_user_field_etag),
     (''create_time'', ent_example_user_field_create_time),
     (''update_time'', ent_example_user_field_update_time)]"

definition ent_example_user_set_field :: "string \<Rightarrow> go_value \<Rightarrow> mutation \<Rightarrow> err + mutation" where
  "ent_example_user_set_field = set_switch ''User'' [(''delete_time'', TTime, ent_example_user_field_delete_time),
     (''deleted_by'', TString, ent_example_user_field_deleted_by),
     (''purge_time'', TTime, ent_example_user_field_purge_time),
     (''tenant_id'', TString, ent_example_user_field_tenant_id),
     (''resource_id'', TString, ent_example_user_field_resource_id),
     (''display_name'', TString, ent_example_user_field_display_name),
     (''email'', TString, ent_example_user_field_email),
     (''tenant_plan'', TString, ent_example_user_field_tenant_plan),
     (''nickname'', TString, ent_example_user_field_nickname),
     (''password_hash'', TString, ent_example_user_field_password_hash),
     (''etag'', TString, ent_example_user_field_etag),
     (''create_time'', TTime, ent_example_user_field_create_time),
     (''update_time'', TTime, ent_example_user_field_update_time)]"

definition ent_example_user_cleared_fields :: "mutation \<Rightarrow> string list" where
  "ent_example_user_cleared_fields = listed [if_cleared ''delete_time'', if_cleared ''deleted_by'', if_cleared ''purge_time'', if_cleared ''nickname'',
     if_cleared ''password_hash'']"

definition ent_example_user_clear_field :: "string \<Rightarrow> mutation \<Rightarrow> err + mutation" where
  "ent_example_user_clear_field = clear_switch ''User'' [(''delete_time'', ent_example_user_field_delete_time), (''deleted_by'', ent_example_user_field_deleted_by),
     (''purge_time'', ent_example_user_field_purge_time), (''nickname'', ent_example_user_field_nickname),
     (''password_hash'', ent_example_user_field_password_hash)]"

definition ent_example_user_reset_field :: "string \<Rightarrow> mutation \<Rightarrow> err + mutation" where
  "ent_example_user_reset_field = reset_switch ''User'' [(''delete_time'', ent_example_user_field_delete_time), (''deleted_by'', ent_example_user_field_deleted_by),
     (''purge_time'', ent_example_user_field_purge_time), (''tenant_id'', ent_example_user_field_tenant_id),
     (''resource_id'', ent_example_user_field_resource_id),
     (''display_name'', ent_example_user_field_display_name), (''email'', ent_example_user_field_email),
     (''tenant_plan'', ent_example_user_field_tenant_plan), (''nickname'', ent_example_user_field_nickname),
     (''password_hash'', ent_example_user_field_password_hash), (''etag'', ent_example_user_field_etag),
     (''create_time'', ent_example_user_field_create_time),
     (''update_time'', ent_example_user_field_update_time)]"

definition ent_example_user_create_defaults :: "(nat \<Rightarrow> time) \<Rightarrow> mutation \<Rightarrow> mutation" where
  "ent_example_user_create_defaults = defaulted [
     set_default (descriptor ent_example_user_runtime ent_example_user_schema ''DefaultDisplayName'') ent_example_user_field_display_name,
     set_default (descriptor ent_example_user_runtime ent_example_user_schema ''DefaultTenantPlan'') ent_example_user_field_tenant_plan,
     set_default (descriptor ent_example_user_runtime ent_example_user_schema ''DefaultCreateTime'') ent_example_user_field_create_time,
     set_default (descriptor ent_example_user_runtime ent_example_user_schema ''DefaultUpdateTime'') ent_example_user_field_update_time]"

definition ent_example_user_create_check :: "mutation \<Rightarrow> ent_error option" where
  "ent_example_user_create_check = first_error [
     required ent_example_user_field_tenant_id ''tenant_id'',
     valid (descriptor ent_example_user_runtime ent_example_user_schema ''TenantIDValidator'') ent_example_user_field_tenant_id ''tenant_id'',
     required ent_example_user_field_resource_id ''resource_id'',
     valid (descriptor ent_example_user_runtime ent_example_user_schema ''ResourceIDValidator'') ent_example_user_field_resource_id ''resource_id'',
     required ent_example_user_field_display_name ''display_name'',
     required ent_example_user_field_email ''email'',
     valid (descriptor ent_example_user_runtime ent_example_user_schema ''EmailValidator'') ent_example_user_field_email ''email'',
     required ent_example_user_field_tenant_plan ''tenant_plan'',
     required ent_example_user_field_etag ''etag'',
     valid (descriptor ent_example_user_runtime ent_example_user_schema ''EtagValidator'') ent_example_user_field_etag ''etag'',
     required ent_example_user_field_create_time ''create_time'',
     required ent_example_user_field_update_time ''update_time'']"

definition ent_example_user_zero :: "entity" where
  "ent_example_user_zero = map_of [(''id'', VInt 0), (''tenant_id'', VString []), (''resource_id'', VString []),
     (''display_name'', VString []), (''email'', VString []), (''tenant_plan'', VString []),
     (''etag'', VString []), (''create_time'', VTime 0), (''update_time'', VTime 0)]"

definition ent_example_user_create_spec :: "mutation \<Rightarrow> create_spec" where
  "ent_example_user_create_spec = create_steps ent_example_user_zero [created ent_example_user_field_delete_time ''delete_time'',
     created ent_example_user_field_deleted_by ''deleted_by'',
     created ent_example_user_field_purge_time ''purge_time'',
     created ent_example_user_field_tenant_id ''tenant_id'',
     created ent_example_user_field_resource_id ''resource_id'',
     created ent_example_user_field_display_name ''display_name'',
     created ent_example_user_field_email ''email'', created ent_example_user_field_tenant_plan ''tenant_plan'',
     created ent_example_user_field_nickname ''nickname'',
     created ent_example_user_field_password_hash ''password_hash'',
     created ent_example_user_field_etag ''etag'', created ent_example_user_field_create_time ''create_time'',
     created ent_example_user_field_update_time ''update_time'']"

definition ent_example_user_update_defaults :: "(nat \<Rightarrow> time) \<Rightarrow> mutation \<Rightarrow> mutation" where
  "ent_example_user_update_defaults = defaulted [update_to_now ent_example_user_field_update_time]"

definition ent_example_user_update :: "mutation \<Rightarrow> ent_error + assignment list" where
  "ent_example_user_update = update_steps [
     valid (descriptor ent_example_user_runtime ent_example_user_schema ''EmailValidator'') ent_example_user_field_email ''email'',
     valid (descriptor ent_example_user_runtime ent_example_user_schema ''EtagValidator'') ent_example_user_field_etag ''etag''] [
     assign_set ent_example_user_field_delete_time ''delete_time'',
     assign_clear ent_example_user_field_delete_time ''delete_time'',
     assign_set ent_example_user_field_deleted_by ''deleted_by'',
     assign_clear ent_example_user_field_deleted_by ''deleted_by'',
     assign_set ent_example_user_field_purge_time ''purge_time'',
     assign_clear ent_example_user_field_purge_time ''purge_time'',
     assign_set ent_example_user_field_display_name ''display_name'',
     assign_set ent_example_user_field_email ''email'', assign_set ent_example_user_field_nickname ''nickname'',
     assign_clear ent_example_user_field_nickname ''nickname'',
     assign_set ent_example_user_field_password_hash ''password_hash'',
     assign_clear ent_example_user_field_password_hash ''password_hash'',
     assign_set ent_example_user_field_etag ''etag'',
     assign_set ent_example_user_field_update_time ''update_time'']"

definition ent_example_user_columns :: "string list" where
  "ent_example_user_columns = [''id'', ''delete_time'', ''deleted_by'', ''purge_time'', ''tenant_id'', ''resource_id'', ''display_name'',
     ''email'', ''tenant_plan'', ''nickname'', ''password_hash'', ''etag'', ''create_time'', ''update_time'']"

definition ent_example_user_update_one :: "string list \<Rightarrow> mutation
    \<Rightarrow> ent_error + go_value \<times> string list \<times> assignment list" where
  "ent_example_user_update_one = update_one_steps ent_example_user_columns [
     valid (descriptor ent_example_user_runtime ent_example_user_schema ''EmailValidator'') ent_example_user_field_email ''email'',
     valid (descriptor ent_example_user_runtime ent_example_user_schema ''EtagValidator'') ent_example_user_field_etag ''etag''] [
     assign_set ent_example_user_field_delete_time ''delete_time'',
     assign_clear ent_example_user_field_delete_time ''delete_time'',
     assign_set ent_example_user_field_deleted_by ''deleted_by'',
     assign_clear ent_example_user_field_deleted_by ''deleted_by'',
     assign_set ent_example_user_field_purge_time ''purge_time'',
     assign_clear ent_example_user_field_purge_time ''purge_time'',
     assign_set ent_example_user_field_display_name ''display_name'',
     assign_set ent_example_user_field_email ''email'', assign_set ent_example_user_field_nickname ''nickname'',
     assign_clear ent_example_user_field_nickname ''nickname'',
     assign_set ent_example_user_field_password_hash ''password_hash'',
     assign_clear ent_example_user_field_password_hash ''password_hash'',
     assign_set ent_example_user_field_etag ''etag'',
     assign_set ent_example_user_field_update_time ''update_time'']"

definition ent_example_user_scan_values :: "string \<Rightarrow> scan_type" where
  "ent_example_user_scan_values = scan_switch [
     ([''id''], NullInt64),
     ([''deleted_by'', ''tenant_id'', ''resource_id'', ''display_name'', ''email'', ''tenant_plan'',
       ''nickname'', ''password_hash'', ''etag''], NullString),
     ([''delete_time'', ''purge_time'', ''create_time'', ''update_time''], NullTime)]"

definition ent_example_user_assign_values :: "(string \<Rightarrow> err + string list) \<Rightarrow> string list \<Rightarrow> sql_cell list \<Rightarrow> entity \<Rightarrow> err + entity" where
  "ent_example_user_assign_values = assign_row [(''id'', take_cell TInt ''id''), (''delete_time'', take_cell TTime ''delete_time''),
     (''deleted_by'', take_cell TString ''deleted_by''), (''purge_time'', take_cell TTime ''purge_time''),
     (''tenant_id'', take_cell TString ''tenant_id''), (''resource_id'', take_cell TString ''resource_id''),
     (''display_name'', take_cell TString ''display_name''), (''email'', take_cell TString ''email''),
     (''tenant_plan'', take_cell TString ''tenant_plan''), (''nickname'', take_cell TString ''nickname''),
     (''password_hash'', take_cell TString ''password_hash''), (''etag'', take_cell TString ''etag''),
     (''create_time'', take_cell TTime ''create_time''), (''update_time'', take_cell TTime ''update_time'')]"

definition ent_example_user_code :: entity_code where
  "ent_example_user_code = \<lparr>ey_columns = ent_example_user_columns, ey_zero = ent_example_user_zero, ey_new = new_ent_example_user_mutation,
     ey_fields = ent_example_user_fields, ey_field = ent_example_user_field, ey_old_field = ent_example_user_old_field, ey_set_field = ent_example_user_set_field,
     ey_cleared_fields = ent_example_user_cleared_fields, ey_clear_field = ent_example_user_clear_field, ey_reset_field = ent_example_user_reset_field,
     ey_defaults = ent_example_user_create_defaults, ey_check = ent_example_user_create_check, ey_create_spec = ent_example_user_create_spec,
     ey_update_defaults = ent_example_user_update_defaults, ey_update = ent_example_user_update, ey_update_one = ent_example_user_update_one,
     ey_scan = ent_example_user_scan_values, ey_assign = ent_example_user_assign_values\<rparr>"

lemmas ent_example_user_defs = ent_example_user_schema_def soft_delete_columns_def ent_example_user_runtime_def
  ent_example_user_field_delete_time_def ent_example_user_field_deleted_by_def
  ent_example_user_field_purge_time_def ent_example_user_field_tenant_id_def
  ent_example_user_field_resource_id_def ent_example_user_field_display_name_def
  ent_example_user_field_email_def ent_example_user_field_tenant_plan_def ent_example_user_field_nickname_def
  ent_example_user_field_password_hash_def ent_example_user_field_etag_def
  ent_example_user_field_create_time_def ent_example_user_field_update_time_def
  new_ent_example_user_mutation_def ent_example_user_fields_def ent_example_user_field_def
  ent_example_user_old_field_def ent_example_user_set_field_def ent_example_user_cleared_fields_def
  ent_example_user_clear_field_def ent_example_user_reset_field_def ent_example_user_create_defaults_def
  ent_example_user_create_check_def ent_example_user_zero_def ent_example_user_create_spec_def
  ent_example_user_update_defaults_def ent_example_user_update_def ent_example_user_columns_def
  ent_example_user_update_one_def ent_example_user_scan_values_def ent_example_user_assign_values_def
  ent_example_user_code_def

lemma ent_example_user_scan: "ent_example_user_scan_values = ey_scan (reference ''User'' TInt False (soft_delete_columns @ ent_example_user_schema))"
  unfolding ent_example_user_scan_values_def by (rule scan_referenceI) code_simp+

lemma ent_example_user_is_reference: "ent_example_user_code = reference ''User'' TInt False (soft_delete_columns @ ent_example_user_schema)"
  using ent_example_user_scan by (simp add: ent_example_user_defs reference_simps)

end
