(* ===== verification/EntWhereOauth.thy ===== *)
theory EntWhereOauth
  imports EntWhere EntOauth EntExample
begin

text \<open>
  The generated predicates (\<open>where.go\<close>) of the OpenID provider and of the users of the example service, one definition per
  field with the functions in the order of the file.
\<close>

section \<open>OIDCAuthorizationRequest\<close>

definition ent_oidc_authorization_request_where_id :: "(string \<times> filter_method) list" where
  "ent_oidc_authorization_request_where_id = [
     (''ID'', OnOne TString (FieldEQ ''id'')), (''IDEQ'', OnOne TString (FieldEQ ''id'')),
     (''IDNEQ'', OnOne TString (FieldNEQ ''id'')), (''IDIn'', OnMany TString (FieldIn ''id'')),
     (''IDNotIn'', OnMany TString (FieldNotIn ''id'')), (''IDGT'', OnOne TString (FieldGT ''id'')),
     (''IDGTE'', OnOne TString (FieldGTE ''id'')), (''IDLT'', OnOne TString (FieldLT ''id'')),
     (''IDLTE'', OnOne TString (FieldLTE ''id'')), (''IDEqualFold'', OnOne TString (FieldEqualFold ''id'')),
     (''IDContainsFold'', OnOne TString (FieldContainsFold ''id''))]"

definition ent_oidc_authorization_request_where_shortcuts :: "(string \<times> filter_method) list" where
  "ent_oidc_authorization_request_where_shortcuts = [
     (''ClientID'', OnOne TString (FieldEQ ''client_id'')),
     (''RedirectURI'', OnOne TString (FieldEQ ''redirect_uri'')),
     (''ResponseType'', OnOne TString (FieldEQ ''response_type'')),
     (''ResponseMode'', OnOne TString (FieldEQ ''response_mode'')),
     (''State'', OnOne TString (FieldEQ ''state'')), (''Nonce'', OnOne TString (FieldEQ ''nonce'')),
     (''PkceChallenge'', OnOne TString (FieldEQ ''pkce_challenge'')),
     (''PkceChallengeMethod'', OnOne TString (FieldEQ ''pkce_challenge_method'')),
     (''Subject'', OnOne TString (FieldEQ ''subject'')),
     (''IamLoginSessionID'', OnOne TString (FieldEQ ''iam_login_session_id'')),
     (''AuthTime'', OnOne TTime (FieldEQ ''auth_time'')), (''Done'', OnOne TBool (FieldEQ ''done'')),
     (''ExpiresTime'', OnOne TTime (FieldEQ ''expires_time'')),
     (''CreateTime'', OnOne TTime (FieldEQ ''create_time'')),
     (''UpdateTime'', OnOne TTime (FieldEQ ''update_time''))]"

definition ent_oidc_authorization_request_where_client_id :: "(string \<times> filter_method) list" where
  "ent_oidc_authorization_request_where_client_id = [
     (''ClientIDEQ'', OnOne TString (FieldEQ ''client_id'')),
     (''ClientIDNEQ'', OnOne TString (FieldNEQ ''client_id'')),
     (''ClientIDIn'', OnMany TString (FieldIn ''client_id'')),
     (''ClientIDNotIn'', OnMany TString (FieldNotIn ''client_id'')),
     (''ClientIDGT'', OnOne TString (FieldGT ''client_id'')),
     (''ClientIDGTE'', OnOne TString (FieldGTE ''client_id'')),
     (''ClientIDLT'', OnOne TString (FieldLT ''client_id'')),
     (''ClientIDLTE'', OnOne TString (FieldLTE ''client_id'')),
     (''ClientIDContains'', OnOne TString (FieldContains ''client_id'')),
     (''ClientIDHasPrefix'', OnOne TString (FieldHasPrefix ''client_id'')),
     (''ClientIDHasSuffix'', OnOne TString (FieldHasSuffix ''client_id'')),
     (''ClientIDEqualFold'', OnOne TString (FieldEqualFold ''client_id'')),
     (''ClientIDContainsFold'', OnOne TString (FieldContainsFold ''client_id''))]"

definition ent_oidc_authorization_request_where_redirect_uri :: "(string \<times> filter_method) list" where
  "ent_oidc_authorization_request_where_redirect_uri = [
     (''RedirectURIEQ'', OnOne TString (FieldEQ ''redirect_uri'')),
     (''RedirectURINEQ'', OnOne TString (FieldNEQ ''redirect_uri'')),
     (''RedirectURIIn'', OnMany TString (FieldIn ''redirect_uri'')),
     (''RedirectURINotIn'', OnMany TString (FieldNotIn ''redirect_uri'')),
     (''RedirectURIGT'', OnOne TString (FieldGT ''redirect_uri'')),
     (''RedirectURIGTE'', OnOne TString (FieldGTE ''redirect_uri'')),
     (''RedirectURILT'', OnOne TString (FieldLT ''redirect_uri'')),
     (''RedirectURILTE'', OnOne TString (FieldLTE ''redirect_uri'')),
     (''RedirectURIContains'', OnOne TString (FieldContains ''redirect_uri'')),
     (''RedirectURIHasPrefix'', OnOne TString (FieldHasPrefix ''redirect_uri'')),
     (''RedirectURIHasSuffix'', OnOne TString (FieldHasSuffix ''redirect_uri'')),
     (''RedirectURIEqualFold'', OnOne TString (FieldEqualFold ''redirect_uri'')),
     (''RedirectURIContainsFold'', OnOne TString (FieldContainsFold ''redirect_uri''))]"

definition ent_oidc_authorization_request_where_response_type :: "(string \<times> filter_method) list" where
  "ent_oidc_authorization_request_where_response_type = [
     (''ResponseTypeEQ'', OnOne TString (FieldEQ ''response_type'')),
     (''ResponseTypeNEQ'', OnOne TString (FieldNEQ ''response_type'')),
     (''ResponseTypeIn'', OnMany TString (FieldIn ''response_type'')),
     (''ResponseTypeNotIn'', OnMany TString (FieldNotIn ''response_type'')),
     (''ResponseTypeGT'', OnOne TString (FieldGT ''response_type'')),
     (''ResponseTypeGTE'', OnOne TString (FieldGTE ''response_type'')),
     (''ResponseTypeLT'', OnOne TString (FieldLT ''response_type'')),
     (''ResponseTypeLTE'', OnOne TString (FieldLTE ''response_type'')),
     (''ResponseTypeContains'', OnOne TString (FieldContains ''response_type'')),
     (''ResponseTypeHasPrefix'', OnOne TString (FieldHasPrefix ''response_type'')),
     (''ResponseTypeHasSuffix'', OnOne TString (FieldHasSuffix ''response_type'')),
     (''ResponseTypeEqualFold'', OnOne TString (FieldEqualFold ''response_type'')),
     (''ResponseTypeContainsFold'', OnOne TString (FieldContainsFold ''response_type''))]"

definition ent_oidc_authorization_request_where_response_mode :: "(string \<times> filter_method) list" where
  "ent_oidc_authorization_request_where_response_mode = [
     (''ResponseModeEQ'', OnOne TString (FieldEQ ''response_mode'')),
     (''ResponseModeNEQ'', OnOne TString (FieldNEQ ''response_mode'')),
     (''ResponseModeIn'', OnMany TString (FieldIn ''response_mode'')),
     (''ResponseModeNotIn'', OnMany TString (FieldNotIn ''response_mode'')),
     (''ResponseModeGT'', OnOne TString (FieldGT ''response_mode'')),
     (''ResponseModeGTE'', OnOne TString (FieldGTE ''response_mode'')),
     (''ResponseModeLT'', OnOne TString (FieldLT ''response_mode'')),
     (''ResponseModeLTE'', OnOne TString (FieldLTE ''response_mode'')),
     (''ResponseModeContains'', OnOne TString (FieldContains ''response_mode'')),
     (''ResponseModeHasPrefix'', OnOne TString (FieldHasPrefix ''response_mode'')),
     (''ResponseModeHasSuffix'', OnOne TString (FieldHasSuffix ''response_mode'')),
     (''ResponseModeIsNil'', OnNone (FieldIsNull ''response_mode'')),
     (''ResponseModeNotNil'', OnNone (FieldNotNull ''response_mode'')),
     (''ResponseModeEqualFold'', OnOne TString (FieldEqualFold ''response_mode'')),
     (''ResponseModeContainsFold'', OnOne TString (FieldContainsFold ''response_mode''))]"

definition ent_oidc_authorization_request_where_state :: "(string \<times> filter_method) list" where
  "ent_oidc_authorization_request_where_state = [
     (''StateEQ'', OnOne TString (FieldEQ ''state'')), (''StateNEQ'', OnOne TString (FieldNEQ ''state'')),
     (''StateIn'', OnMany TString (FieldIn ''state'')), (''StateNotIn'', OnMany TString (FieldNotIn ''state'')),
     (''StateGT'', OnOne TString (FieldGT ''state'')), (''StateGTE'', OnOne TString (FieldGTE ''state'')),
     (''StateLT'', OnOne TString (FieldLT ''state'')), (''StateLTE'', OnOne TString (FieldLTE ''state'')),
     (''StateContains'', OnOne TString (FieldContains ''state'')),
     (''StateHasPrefix'', OnOne TString (FieldHasPrefix ''state'')),
     (''StateHasSuffix'', OnOne TString (FieldHasSuffix ''state'')),
     (''StateIsNil'', OnNone (FieldIsNull ''state'')), (''StateNotNil'', OnNone (FieldNotNull ''state'')),
     (''StateEqualFold'', OnOne TString (FieldEqualFold ''state'')),
     (''StateContainsFold'', OnOne TString (FieldContainsFold ''state''))]"

definition ent_oidc_authorization_request_where_nonce :: "(string \<times> filter_method) list" where
  "ent_oidc_authorization_request_where_nonce = [
     (''NonceEQ'', OnOne TString (FieldEQ ''nonce'')), (''NonceNEQ'', OnOne TString (FieldNEQ ''nonce'')),
     (''NonceIn'', OnMany TString (FieldIn ''nonce'')), (''NonceNotIn'', OnMany TString (FieldNotIn ''nonce'')),
     (''NonceGT'', OnOne TString (FieldGT ''nonce'')), (''NonceGTE'', OnOne TString (FieldGTE ''nonce'')),
     (''NonceLT'', OnOne TString (FieldLT ''nonce'')), (''NonceLTE'', OnOne TString (FieldLTE ''nonce'')),
     (''NonceContains'', OnOne TString (FieldContains ''nonce'')),
     (''NonceHasPrefix'', OnOne TString (FieldHasPrefix ''nonce'')),
     (''NonceHasSuffix'', OnOne TString (FieldHasSuffix ''nonce'')),
     (''NonceIsNil'', OnNone (FieldIsNull ''nonce'')), (''NonceNotNil'', OnNone (FieldNotNull ''nonce'')),
     (''NonceEqualFold'', OnOne TString (FieldEqualFold ''nonce'')),
     (''NonceContainsFold'', OnOne TString (FieldContainsFold ''nonce''))]"

definition ent_oidc_authorization_request_where_pkce_challenge :: "(string \<times> filter_method) list" where
  "ent_oidc_authorization_request_where_pkce_challenge = [
     (''PkceChallengeEQ'', OnOne TString (FieldEQ ''pkce_challenge'')),
     (''PkceChallengeNEQ'', OnOne TString (FieldNEQ ''pkce_challenge'')),
     (''PkceChallengeIn'', OnMany TString (FieldIn ''pkce_challenge'')),
     (''PkceChallengeNotIn'', OnMany TString (FieldNotIn ''pkce_challenge'')),
     (''PkceChallengeGT'', OnOne TString (FieldGT ''pkce_challenge'')),
     (''PkceChallengeGTE'', OnOne TString (FieldGTE ''pkce_challenge'')),
     (''PkceChallengeLT'', OnOne TString (FieldLT ''pkce_challenge'')),
     (''PkceChallengeLTE'', OnOne TString (FieldLTE ''pkce_challenge'')),
     (''PkceChallengeContains'', OnOne TString (FieldContains ''pkce_challenge'')),
     (''PkceChallengeHasPrefix'', OnOne TString (FieldHasPrefix ''pkce_challenge'')),
     (''PkceChallengeHasSuffix'', OnOne TString (FieldHasSuffix ''pkce_challenge'')),
     (''PkceChallengeEqualFold'', OnOne TString (FieldEqualFold ''pkce_challenge'')),
     (''PkceChallengeContainsFold'', OnOne TString (FieldContainsFold ''pkce_challenge''))]"

definition ent_oidc_authorization_request_where_pkce_challenge_method :: "(string \<times> filter_method) list" where
  "ent_oidc_authorization_request_where_pkce_challenge_method = [
     (''PkceChallengeMethodEQ'', OnOne TString (FieldEQ ''pkce_challenge_method'')),
     (''PkceChallengeMethodNEQ'', OnOne TString (FieldNEQ ''pkce_challenge_method'')),
     (''PkceChallengeMethodIn'', OnMany TString (FieldIn ''pkce_challenge_method'')),
     (''PkceChallengeMethodNotIn'', OnMany TString (FieldNotIn ''pkce_challenge_method'')),
     (''PkceChallengeMethodGT'', OnOne TString (FieldGT ''pkce_challenge_method'')),
     (''PkceChallengeMethodGTE'', OnOne TString (FieldGTE ''pkce_challenge_method'')),
     (''PkceChallengeMethodLT'', OnOne TString (FieldLT ''pkce_challenge_method'')),
     (''PkceChallengeMethodLTE'', OnOne TString (FieldLTE ''pkce_challenge_method'')),
     (''PkceChallengeMethodContains'', OnOne TString (FieldContains ''pkce_challenge_method'')),
     (''PkceChallengeMethodHasPrefix'', OnOne TString (FieldHasPrefix ''pkce_challenge_method'')),
     (''PkceChallengeMethodHasSuffix'', OnOne TString (FieldHasSuffix ''pkce_challenge_method'')),
     (''PkceChallengeMethodEqualFold'', OnOne TString (FieldEqualFold ''pkce_challenge_method'')),
     (''PkceChallengeMethodContainsFold'', OnOne TString (FieldContainsFold ''pkce_challenge_method''))]"

definition ent_oidc_authorization_request_where_subject :: "(string \<times> filter_method) list" where
  "ent_oidc_authorization_request_where_subject = [
     (''SubjectEQ'', OnOne TString (FieldEQ ''subject'')),
     (''SubjectNEQ'', OnOne TString (FieldNEQ ''subject'')),
     (''SubjectIn'', OnMany TString (FieldIn ''subject'')),
     (''SubjectNotIn'', OnMany TString (FieldNotIn ''subject'')),
     (''SubjectGT'', OnOne TString (FieldGT ''subject'')),
     (''SubjectGTE'', OnOne TString (FieldGTE ''subject'')),
     (''SubjectLT'', OnOne TString (FieldLT ''subject'')),
     (''SubjectLTE'', OnOne TString (FieldLTE ''subject'')),
     (''SubjectContains'', OnOne TString (FieldContains ''subject'')),
     (''SubjectHasPrefix'', OnOne TString (FieldHasPrefix ''subject'')),
     (''SubjectHasSuffix'', OnOne TString (FieldHasSuffix ''subject'')),
     (''SubjectIsNil'', OnNone (FieldIsNull ''subject'')),
     (''SubjectNotNil'', OnNone (FieldNotNull ''subject'')),
     (''SubjectEqualFold'', OnOne TString (FieldEqualFold ''subject'')),
     (''SubjectContainsFold'', OnOne TString (FieldContainsFold ''subject''))]"

definition ent_oidc_authorization_request_where_iam_login_session_id :: "(string \<times> filter_method) list" where
  "ent_oidc_authorization_request_where_iam_login_session_id = [
     (''IamLoginSessionIDEQ'', OnOne TString (FieldEQ ''iam_login_session_id'')),
     (''IamLoginSessionIDNEQ'', OnOne TString (FieldNEQ ''iam_login_session_id'')),
     (''IamLoginSessionIDIn'', OnMany TString (FieldIn ''iam_login_session_id'')),
     (''IamLoginSessionIDNotIn'', OnMany TString (FieldNotIn ''iam_login_session_id'')),
     (''IamLoginSessionIDGT'', OnOne TString (FieldGT ''iam_login_session_id'')),
     (''IamLoginSessionIDGTE'', OnOne TString (FieldGTE ''iam_login_session_id'')),
     (''IamLoginSessionIDLT'', OnOne TString (FieldLT ''iam_login_session_id'')),
     (''IamLoginSessionIDLTE'', OnOne TString (FieldLTE ''iam_login_session_id'')),
     (''IamLoginSessionIDContains'', OnOne TString (FieldContains ''iam_login_session_id'')),
     (''IamLoginSessionIDHasPrefix'', OnOne TString (FieldHasPrefix ''iam_login_session_id'')),
     (''IamLoginSessionIDHasSuffix'', OnOne TString (FieldHasSuffix ''iam_login_session_id'')),
     (''IamLoginSessionIDIsNil'', OnNone (FieldIsNull ''iam_login_session_id'')),
     (''IamLoginSessionIDNotNil'', OnNone (FieldNotNull ''iam_login_session_id'')),
     (''IamLoginSessionIDEqualFold'', OnOne TString (FieldEqualFold ''iam_login_session_id'')),
     (''IamLoginSessionIDContainsFold'', OnOne TString (FieldContainsFold ''iam_login_session_id''))]"

definition ent_oidc_authorization_request_where_auth_time :: "(string \<times> filter_method) list" where
  "ent_oidc_authorization_request_where_auth_time = [
     (''AuthTimeEQ'', OnOne TTime (FieldEQ ''auth_time'')),
     (''AuthTimeNEQ'', OnOne TTime (FieldNEQ ''auth_time'')),
     (''AuthTimeIn'', OnMany TTime (FieldIn ''auth_time'')),
     (''AuthTimeNotIn'', OnMany TTime (FieldNotIn ''auth_time'')),
     (''AuthTimeGT'', OnOne TTime (FieldGT ''auth_time'')),
     (''AuthTimeGTE'', OnOne TTime (FieldGTE ''auth_time'')),
     (''AuthTimeLT'', OnOne TTime (FieldLT ''auth_time'')),
     (''AuthTimeLTE'', OnOne TTime (FieldLTE ''auth_time'')),
     (''AuthTimeIsNil'', OnNone (FieldIsNull ''auth_time'')),
     (''AuthTimeNotNil'', OnNone (FieldNotNull ''auth_time''))]"

definition ent_oidc_authorization_request_where_done :: "(string \<times> filter_method) list" where
  "ent_oidc_authorization_request_where_done = [
     (''DoneEQ'', OnOne TBool (FieldEQ ''done'')), (''DoneNEQ'', OnOne TBool (FieldNEQ ''done''))]"

definition ent_oidc_authorization_request_where_expires_time :: "(string \<times> filter_method) list" where
  "ent_oidc_authorization_request_where_expires_time = [
     (''ExpiresTimeEQ'', OnOne TTime (FieldEQ ''expires_time'')),
     (''ExpiresTimeNEQ'', OnOne TTime (FieldNEQ ''expires_time'')),
     (''ExpiresTimeIn'', OnMany TTime (FieldIn ''expires_time'')),
     (''ExpiresTimeNotIn'', OnMany TTime (FieldNotIn ''expires_time'')),
     (''ExpiresTimeGT'', OnOne TTime (FieldGT ''expires_time'')),
     (''ExpiresTimeGTE'', OnOne TTime (FieldGTE ''expires_time'')),
     (''ExpiresTimeLT'', OnOne TTime (FieldLT ''expires_time'')),
     (''ExpiresTimeLTE'', OnOne TTime (FieldLTE ''expires_time''))]"

definition ent_oidc_authorization_request_where_create_time :: "(string \<times> filter_method) list" where
  "ent_oidc_authorization_request_where_create_time = [
     (''CreateTimeEQ'', OnOne TTime (FieldEQ ''create_time'')),
     (''CreateTimeNEQ'', OnOne TTime (FieldNEQ ''create_time'')),
     (''CreateTimeIn'', OnMany TTime (FieldIn ''create_time'')),
     (''CreateTimeNotIn'', OnMany TTime (FieldNotIn ''create_time'')),
     (''CreateTimeGT'', OnOne TTime (FieldGT ''create_time'')),
     (''CreateTimeGTE'', OnOne TTime (FieldGTE ''create_time'')),
     (''CreateTimeLT'', OnOne TTime (FieldLT ''create_time'')),
     (''CreateTimeLTE'', OnOne TTime (FieldLTE ''create_time''))]"

definition ent_oidc_authorization_request_where_update_time :: "(string \<times> filter_method) list" where
  "ent_oidc_authorization_request_where_update_time = [
     (''UpdateTimeEQ'', OnOne TTime (FieldEQ ''update_time'')),
     (''UpdateTimeNEQ'', OnOne TTime (FieldNEQ ''update_time'')),
     (''UpdateTimeIn'', OnMany TTime (FieldIn ''update_time'')),
     (''UpdateTimeNotIn'', OnMany TTime (FieldNotIn ''update_time'')),
     (''UpdateTimeGT'', OnOne TTime (FieldGT ''update_time'')),
     (''UpdateTimeGTE'', OnOne TTime (FieldGTE ''update_time'')),
     (''UpdateTimeLT'', OnOne TTime (FieldLT ''update_time'')),
     (''UpdateTimeLTE'', OnOne TTime (FieldLTE ''update_time''))]"

definition ent_oidc_authorization_request_where_groups :: "(string \<times> filter_method) list" where
  "ent_oidc_authorization_request_where_groups = [
     (''And'', OnPreds AndPredicates), (''Or'', OnPreds OrPredicates), (''Not'', OnPred NotPredicates)]"

definition ent_oidc_authorization_request_where :: "(string \<times> filter_method) list" where
  "ent_oidc_authorization_request_where = concat [ent_oidc_authorization_request_where_id, ent_oidc_authorization_request_where_shortcuts,
     ent_oidc_authorization_request_where_client_id, ent_oidc_authorization_request_where_redirect_uri,
     ent_oidc_authorization_request_where_response_type, ent_oidc_authorization_request_where_response_mode,
     ent_oidc_authorization_request_where_state, ent_oidc_authorization_request_where_nonce,
     ent_oidc_authorization_request_where_pkce_challenge,
     ent_oidc_authorization_request_where_pkce_challenge_method, ent_oidc_authorization_request_where_subject,
     ent_oidc_authorization_request_where_iam_login_session_id, ent_oidc_authorization_request_where_auth_time,
     ent_oidc_authorization_request_where_done, ent_oidc_authorization_request_where_expires_time,
     ent_oidc_authorization_request_where_create_time, ent_oidc_authorization_request_where_update_time,
     ent_oidc_authorization_request_where_groups]"

lemmas ent_oidc_authorization_request_where_defs = ent_oidc_authorization_request_where_id_def ent_oidc_authorization_request_where_shortcuts_def
  ent_oidc_authorization_request_where_client_id_def ent_oidc_authorization_request_where_redirect_uri_def
  ent_oidc_authorization_request_where_response_type_def
  ent_oidc_authorization_request_where_response_mode_def ent_oidc_authorization_request_where_state_def
  ent_oidc_authorization_request_where_nonce_def ent_oidc_authorization_request_where_pkce_challenge_def
  ent_oidc_authorization_request_where_pkce_challenge_method_def
  ent_oidc_authorization_request_where_subject_def
  ent_oidc_authorization_request_where_iam_login_session_id_def
  ent_oidc_authorization_request_where_auth_time_def ent_oidc_authorization_request_where_done_def
  ent_oidc_authorization_request_where_expires_time_def ent_oidc_authorization_request_where_create_time_def
  ent_oidc_authorization_request_where_update_time_def ent_oidc_authorization_request_where_groups_def
  ent_oidc_authorization_request_where_def ent_oidc_authorization_request_schema_def

lemma ent_oidc_authorization_request_where_is_reference: "ent_oidc_authorization_request_where = where_reference TString (tl ent_oidc_authorization_request_schema)"
  by (simp add: ent_oidc_authorization_request_where_defs where_reference_simps)

section \<open>OAuthAuthorizationCode\<close>

definition ent_oauth_authorization_code_where_id :: "(string \<times> filter_method) list" where
  "ent_oauth_authorization_code_where_id = [
     (''ID'', OnOne TString (FieldEQ ''id'')), (''IDEQ'', OnOne TString (FieldEQ ''id'')),
     (''IDNEQ'', OnOne TString (FieldNEQ ''id'')), (''IDIn'', OnMany TString (FieldIn ''id'')),
     (''IDNotIn'', OnMany TString (FieldNotIn ''id'')), (''IDGT'', OnOne TString (FieldGT ''id'')),
     (''IDGTE'', OnOne TString (FieldGTE ''id'')), (''IDLT'', OnOne TString (FieldLT ''id'')),
     (''IDLTE'', OnOne TString (FieldLTE ''id'')), (''IDEqualFold'', OnOne TString (FieldEqualFold ''id'')),
     (''IDContainsFold'', OnOne TString (FieldContainsFold ''id''))]"

definition ent_oauth_authorization_code_where_shortcuts :: "(string \<times> filter_method) list" where
  "ent_oauth_authorization_code_where_shortcuts = [
     (''CodeHash'', OnOne TString (FieldEQ ''code_hash'')),
     (''AuthorizationRequestID'', OnOne TString (FieldEQ ''authorization_request_id'')),
     (''TokenSessionID'', OnOne TString (FieldEQ ''token_session_id'')),
     (''ClientID'', OnOne TString (FieldEQ ''client_id'')), (''Subject'', OnOne TString (FieldEQ ''subject'')),
     (''RedirectURI'', OnOne TString (FieldEQ ''redirect_uri'')),
     (''PkceChallenge'', OnOne TString (FieldEQ ''pkce_challenge'')),
     (''PkceChallengeMethod'', OnOne TString (FieldEQ ''pkce_challenge_method'')),
     (''ExpiresTime'', OnOne TTime (FieldEQ ''expires_time'')),
     (''ConsumedTime'', OnOne TTime (FieldEQ ''consumed_time'')),
     (''CreateTime'', OnOne TTime (FieldEQ ''create_time''))]"

definition ent_oauth_authorization_code_where_code_hash :: "(string \<times> filter_method) list" where
  "ent_oauth_authorization_code_where_code_hash = [
     (''CodeHashEQ'', OnOne TString (FieldEQ ''code_hash'')),
     (''CodeHashNEQ'', OnOne TString (FieldNEQ ''code_hash'')),
     (''CodeHashIn'', OnMany TString (FieldIn ''code_hash'')),
     (''CodeHashNotIn'', OnMany TString (FieldNotIn ''code_hash'')),
     (''CodeHashGT'', OnOne TString (FieldGT ''code_hash'')),
     (''CodeHashGTE'', OnOne TString (FieldGTE ''code_hash'')),
     (''CodeHashLT'', OnOne TString (FieldLT ''code_hash'')),
     (''CodeHashLTE'', OnOne TString (FieldLTE ''code_hash'')),
     (''CodeHashContains'', OnOne TString (FieldContains ''code_hash'')),
     (''CodeHashHasPrefix'', OnOne TString (FieldHasPrefix ''code_hash'')),
     (''CodeHashHasSuffix'', OnOne TString (FieldHasSuffix ''code_hash'')),
     (''CodeHashEqualFold'', OnOne TString (FieldEqualFold ''code_hash'')),
     (''CodeHashContainsFold'', OnOne TString (FieldContainsFold ''code_hash''))]"

definition ent_oauth_authorization_code_where_authorization_request_id :: "(string \<times> filter_method) list" where
  "ent_oauth_authorization_code_where_authorization_request_id = [
     (''AuthorizationRequestIDEQ'', OnOne TString (FieldEQ ''authorization_request_id'')),
     (''AuthorizationRequestIDNEQ'', OnOne TString (FieldNEQ ''authorization_request_id'')),
     (''AuthorizationRequestIDIn'', OnMany TString (FieldIn ''authorization_request_id'')),
     (''AuthorizationRequestIDNotIn'', OnMany TString (FieldNotIn ''authorization_request_id'')),
     (''AuthorizationRequestIDGT'', OnOne TString (FieldGT ''authorization_request_id'')),
     (''AuthorizationRequestIDGTE'', OnOne TString (FieldGTE ''authorization_request_id'')),
     (''AuthorizationRequestIDLT'', OnOne TString (FieldLT ''authorization_request_id'')),
     (''AuthorizationRequestIDLTE'', OnOne TString (FieldLTE ''authorization_request_id'')),
     (''AuthorizationRequestIDContains'', OnOne TString (FieldContains ''authorization_request_id'')),
     (''AuthorizationRequestIDHasPrefix'', OnOne TString (FieldHasPrefix ''authorization_request_id'')),
     (''AuthorizationRequestIDHasSuffix'', OnOne TString (FieldHasSuffix ''authorization_request_id'')),
     (''AuthorizationRequestIDEqualFold'', OnOne TString (FieldEqualFold ''authorization_request_id'')),
     (''AuthorizationRequestIDContainsFold'', OnOne TString (FieldContainsFold ''authorization_request_id''))]"

definition ent_oauth_authorization_code_where_token_session_id :: "(string \<times> filter_method) list" where
  "ent_oauth_authorization_code_where_token_session_id = [
     (''TokenSessionIDEQ'', OnOne TString (FieldEQ ''token_session_id'')),
     (''TokenSessionIDNEQ'', OnOne TString (FieldNEQ ''token_session_id'')),
     (''TokenSessionIDIn'', OnMany TString (FieldIn ''token_session_id'')),
     (''TokenSessionIDNotIn'', OnMany TString (FieldNotIn ''token_session_id'')),
     (''TokenSessionIDGT'', OnOne TString (FieldGT ''token_session_id'')),
     (''TokenSessionIDGTE'', OnOne TString (FieldGTE ''token_session_id'')),
     (''TokenSessionIDLT'', OnOne TString (FieldLT ''token_session_id'')),
     (''TokenSessionIDLTE'', OnOne TString (FieldLTE ''token_session_id'')),
     (''TokenSessionIDContains'', OnOne TString (FieldContains ''token_session_id'')),
     (''TokenSessionIDHasPrefix'', OnOne TString (FieldHasPrefix ''token_session_id'')),
     (''TokenSessionIDHasSuffix'', OnOne TString (FieldHasSuffix ''token_session_id'')),
     (''TokenSessionIDIsNil'', OnNone (FieldIsNull ''token_session_id'')),
     (''TokenSessionIDNotNil'', OnNone (FieldNotNull ''token_session_id'')),
     (''TokenSessionIDEqualFold'', OnOne TString (FieldEqualFold ''token_session_id'')),
     (''TokenSessionIDContainsFold'', OnOne TString (FieldContainsFold ''token_session_id''))]"

definition ent_oauth_authorization_code_where_client_id :: "(string \<times> filter_method) list" where
  "ent_oauth_authorization_code_where_client_id = [
     (''ClientIDEQ'', OnOne TString (FieldEQ ''client_id'')),
     (''ClientIDNEQ'', OnOne TString (FieldNEQ ''client_id'')),
     (''ClientIDIn'', OnMany TString (FieldIn ''client_id'')),
     (''ClientIDNotIn'', OnMany TString (FieldNotIn ''client_id'')),
     (''ClientIDGT'', OnOne TString (FieldGT ''client_id'')),
     (''ClientIDGTE'', OnOne TString (FieldGTE ''client_id'')),
     (''ClientIDLT'', OnOne TString (FieldLT ''client_id'')),
     (''ClientIDLTE'', OnOne TString (FieldLTE ''client_id'')),
     (''ClientIDContains'', OnOne TString (FieldContains ''client_id'')),
     (''ClientIDHasPrefix'', OnOne TString (FieldHasPrefix ''client_id'')),
     (''ClientIDHasSuffix'', OnOne TString (FieldHasSuffix ''client_id'')),
     (''ClientIDEqualFold'', OnOne TString (FieldEqualFold ''client_id'')),
     (''ClientIDContainsFold'', OnOne TString (FieldContainsFold ''client_id''))]"

definition ent_oauth_authorization_code_where_subject :: "(string \<times> filter_method) list" where
  "ent_oauth_authorization_code_where_subject = [
     (''SubjectEQ'', OnOne TString (FieldEQ ''subject'')),
     (''SubjectNEQ'', OnOne TString (FieldNEQ ''subject'')),
     (''SubjectIn'', OnMany TString (FieldIn ''subject'')),
     (''SubjectNotIn'', OnMany TString (FieldNotIn ''subject'')),
     (''SubjectGT'', OnOne TString (FieldGT ''subject'')),
     (''SubjectGTE'', OnOne TString (FieldGTE ''subject'')),
     (''SubjectLT'', OnOne TString (FieldLT ''subject'')),
     (''SubjectLTE'', OnOne TString (FieldLTE ''subject'')),
     (''SubjectContains'', OnOne TString (FieldContains ''subject'')),
     (''SubjectHasPrefix'', OnOne TString (FieldHasPrefix ''subject'')),
     (''SubjectHasSuffix'', OnOne TString (FieldHasSuffix ''subject'')),
     (''SubjectEqualFold'', OnOne TString (FieldEqualFold ''subject'')),
     (''SubjectContainsFold'', OnOne TString (FieldContainsFold ''subject''))]"

definition ent_oauth_authorization_code_where_redirect_uri :: "(string \<times> filter_method) list" where
  "ent_oauth_authorization_code_where_redirect_uri = [
     (''RedirectURIEQ'', OnOne TString (FieldEQ ''redirect_uri'')),
     (''RedirectURINEQ'', OnOne TString (FieldNEQ ''redirect_uri'')),
     (''RedirectURIIn'', OnMany TString (FieldIn ''redirect_uri'')),
     (''RedirectURINotIn'', OnMany TString (FieldNotIn ''redirect_uri'')),
     (''RedirectURIGT'', OnOne TString (FieldGT ''redirect_uri'')),
     (''RedirectURIGTE'', OnOne TString (FieldGTE ''redirect_uri'')),
     (''RedirectURILT'', OnOne TString (FieldLT ''redirect_uri'')),
     (''RedirectURILTE'', OnOne TString (FieldLTE ''redirect_uri'')),
     (''RedirectURIContains'', OnOne TString (FieldContains ''redirect_uri'')),
     (''RedirectURIHasPrefix'', OnOne TString (FieldHasPrefix ''redirect_uri'')),
     (''RedirectURIHasSuffix'', OnOne TString (FieldHasSuffix ''redirect_uri'')),
     (''RedirectURIEqualFold'', OnOne TString (FieldEqualFold ''redirect_uri'')),
     (''RedirectURIContainsFold'', OnOne TString (FieldContainsFold ''redirect_uri''))]"

definition ent_oauth_authorization_code_where_pkce_challenge :: "(string \<times> filter_method) list" where
  "ent_oauth_authorization_code_where_pkce_challenge = [
     (''PkceChallengeEQ'', OnOne TString (FieldEQ ''pkce_challenge'')),
     (''PkceChallengeNEQ'', OnOne TString (FieldNEQ ''pkce_challenge'')),
     (''PkceChallengeIn'', OnMany TString (FieldIn ''pkce_challenge'')),
     (''PkceChallengeNotIn'', OnMany TString (FieldNotIn ''pkce_challenge'')),
     (''PkceChallengeGT'', OnOne TString (FieldGT ''pkce_challenge'')),
     (''PkceChallengeGTE'', OnOne TString (FieldGTE ''pkce_challenge'')),
     (''PkceChallengeLT'', OnOne TString (FieldLT ''pkce_challenge'')),
     (''PkceChallengeLTE'', OnOne TString (FieldLTE ''pkce_challenge'')),
     (''PkceChallengeContains'', OnOne TString (FieldContains ''pkce_challenge'')),
     (''PkceChallengeHasPrefix'', OnOne TString (FieldHasPrefix ''pkce_challenge'')),
     (''PkceChallengeHasSuffix'', OnOne TString (FieldHasSuffix ''pkce_challenge'')),
     (''PkceChallengeEqualFold'', OnOne TString (FieldEqualFold ''pkce_challenge'')),
     (''PkceChallengeContainsFold'', OnOne TString (FieldContainsFold ''pkce_challenge''))]"

definition ent_oauth_authorization_code_where_pkce_challenge_method :: "(string \<times> filter_method) list" where
  "ent_oauth_authorization_code_where_pkce_challenge_method = [
     (''PkceChallengeMethodEQ'', OnOne TString (FieldEQ ''pkce_challenge_method'')),
     (''PkceChallengeMethodNEQ'', OnOne TString (FieldNEQ ''pkce_challenge_method'')),
     (''PkceChallengeMethodIn'', OnMany TString (FieldIn ''pkce_challenge_method'')),
     (''PkceChallengeMethodNotIn'', OnMany TString (FieldNotIn ''pkce_challenge_method'')),
     (''PkceChallengeMethodGT'', OnOne TString (FieldGT ''pkce_challenge_method'')),
     (''PkceChallengeMethodGTE'', OnOne TString (FieldGTE ''pkce_challenge_method'')),
     (''PkceChallengeMethodLT'', OnOne TString (FieldLT ''pkce_challenge_method'')),
     (''PkceChallengeMethodLTE'', OnOne TString (FieldLTE ''pkce_challenge_method'')),
     (''PkceChallengeMethodContains'', OnOne TString (FieldContains ''pkce_challenge_method'')),
     (''PkceChallengeMethodHasPrefix'', OnOne TString (FieldHasPrefix ''pkce_challenge_method'')),
     (''PkceChallengeMethodHasSuffix'', OnOne TString (FieldHasSuffix ''pkce_challenge_method'')),
     (''PkceChallengeMethodEqualFold'', OnOne TString (FieldEqualFold ''pkce_challenge_method'')),
     (''PkceChallengeMethodContainsFold'', OnOne TString (FieldContainsFold ''pkce_challenge_method''))]"

definition ent_oauth_authorization_code_where_expires_time :: "(string \<times> filter_method) list" where
  "ent_oauth_authorization_code_where_expires_time = [
     (''ExpiresTimeEQ'', OnOne TTime (FieldEQ ''expires_time'')),
     (''ExpiresTimeNEQ'', OnOne TTime (FieldNEQ ''expires_time'')),
     (''ExpiresTimeIn'', OnMany TTime (FieldIn ''expires_time'')),
     (''ExpiresTimeNotIn'', OnMany TTime (FieldNotIn ''expires_time'')),
     (''ExpiresTimeGT'', OnOne TTime (FieldGT ''expires_time'')),
     (''ExpiresTimeGTE'', OnOne TTime (FieldGTE ''expires_time'')),
     (''ExpiresTimeLT'', OnOne TTime (FieldLT ''expires_time'')),
     (''ExpiresTimeLTE'', OnOne TTime (FieldLTE ''expires_time''))]"

definition ent_oauth_authorization_code_where_consumed_time :: "(string \<times> filter_method) list" where
  "ent_oauth_authorization_code_where_consumed_time = [
     (''ConsumedTimeEQ'', OnOne TTime (FieldEQ ''consumed_time'')),
     (''ConsumedTimeNEQ'', OnOne TTime (FieldNEQ ''consumed_time'')),
     (''ConsumedTimeIn'', OnMany TTime (FieldIn ''consumed_time'')),
     (''ConsumedTimeNotIn'', OnMany TTime (FieldNotIn ''consumed_time'')),
     (''ConsumedTimeGT'', OnOne TTime (FieldGT ''consumed_time'')),
     (''ConsumedTimeGTE'', OnOne TTime (FieldGTE ''consumed_time'')),
     (''ConsumedTimeLT'', OnOne TTime (FieldLT ''consumed_time'')),
     (''ConsumedTimeLTE'', OnOne TTime (FieldLTE ''consumed_time'')),
     (''ConsumedTimeIsNil'', OnNone (FieldIsNull ''consumed_time'')),
     (''ConsumedTimeNotNil'', OnNone (FieldNotNull ''consumed_time''))]"

definition ent_oauth_authorization_code_where_create_time :: "(string \<times> filter_method) list" where
  "ent_oauth_authorization_code_where_create_time = [
     (''CreateTimeEQ'', OnOne TTime (FieldEQ ''create_time'')),
     (''CreateTimeNEQ'', OnOne TTime (FieldNEQ ''create_time'')),
     (''CreateTimeIn'', OnMany TTime (FieldIn ''create_time'')),
     (''CreateTimeNotIn'', OnMany TTime (FieldNotIn ''create_time'')),
     (''CreateTimeGT'', OnOne TTime (FieldGT ''create_time'')),
     (''CreateTimeGTE'', OnOne TTime (FieldGTE ''create_time'')),
     (''CreateTimeLT'', OnOne TTime (FieldLT ''create_time'')),
     (''CreateTimeLTE'', OnOne TTime (FieldLTE ''create_time''))]"

definition ent_oauth_authorization_code_where_groups :: "(string \<times> filter_method) list" where
  "ent_oauth_authorization_code_where_groups = [
     (''And'', OnPreds AndPredicates), (''Or'', OnPreds OrPredicates), (''Not'', OnPred NotPredicates)]"

definition ent_oauth_authorization_code_where :: "(string \<times> filter_method) list" where
  "ent_oauth_authorization_code_where = concat [ent_oauth_authorization_code_where_id, ent_oauth_authorization_code_where_shortcuts,
     ent_oauth_authorization_code_where_code_hash, ent_oauth_authorization_code_where_authorization_request_id,
     ent_oauth_authorization_code_where_token_session_id, ent_oauth_authorization_code_where_client_id,
     ent_oauth_authorization_code_where_subject, ent_oauth_authorization_code_where_redirect_uri,
     ent_oauth_authorization_code_where_pkce_challenge,
     ent_oauth_authorization_code_where_pkce_challenge_method, ent_oauth_authorization_code_where_expires_time,
     ent_oauth_authorization_code_where_consumed_time, ent_oauth_authorization_code_where_create_time,
     ent_oauth_authorization_code_where_groups]"

lemmas ent_oauth_authorization_code_where_defs = ent_oauth_authorization_code_where_id_def ent_oauth_authorization_code_where_shortcuts_def
  ent_oauth_authorization_code_where_code_hash_def
  ent_oauth_authorization_code_where_authorization_request_id_def
  ent_oauth_authorization_code_where_token_session_id_def ent_oauth_authorization_code_where_client_id_def
  ent_oauth_authorization_code_where_subject_def ent_oauth_authorization_code_where_redirect_uri_def
  ent_oauth_authorization_code_where_pkce_challenge_def
  ent_oauth_authorization_code_where_pkce_challenge_method_def
  ent_oauth_authorization_code_where_expires_time_def ent_oauth_authorization_code_where_consumed_time_def
  ent_oauth_authorization_code_where_create_time_def ent_oauth_authorization_code_where_groups_def
  ent_oauth_authorization_code_where_def ent_oauth_authorization_code_schema_def

lemma ent_oauth_authorization_code_where_is_reference: "ent_oauth_authorization_code_where = where_reference TString (tl ent_oauth_authorization_code_schema)"
  by (simp add: ent_oauth_authorization_code_where_defs where_reference_simps)

section \<open>OAuthTokenSession\<close>

definition ent_oauth_token_session_where_id :: "(string \<times> filter_method) list" where
  "ent_oauth_token_session_where_id = [
     (''ID'', OnOne TString (FieldEQ ''id'')), (''IDEQ'', OnOne TString (FieldEQ ''id'')),
     (''IDNEQ'', OnOne TString (FieldNEQ ''id'')), (''IDIn'', OnMany TString (FieldIn ''id'')),
     (''IDNotIn'', OnMany TString (FieldNotIn ''id'')), (''IDGT'', OnOne TString (FieldGT ''id'')),
     (''IDGTE'', OnOne TString (FieldGTE ''id'')), (''IDLT'', OnOne TString (FieldLT ''id'')),
     (''IDLTE'', OnOne TString (FieldLTE ''id'')), (''IDEqualFold'', OnOne TString (FieldEqualFold ''id'')),
     (''IDContainsFold'', OnOne TString (FieldContainsFold ''id''))]"

definition ent_oauth_token_session_where_shortcuts :: "(string \<times> filter_method) list" where
  "ent_oauth_token_session_where_shortcuts = [
     (''UserID'', OnOne TString (FieldEQ ''user_id'')), (''ClientID'', OnOne TString (FieldEQ ''client_id'')),
     (''IamLoginSessionID'', OnOne TString (FieldEQ ''iam_login_session_id'')),
     (''RefreshFamilyID'', OnOne TString (FieldEQ ''refresh_family_id'')),
     (''AuthTime'', OnOne TTime (FieldEQ ''auth_time'')),
     (''RevokedTime'', OnOne TTime (FieldEQ ''revoked_time'')),
     (''CreateTime'', OnOne TTime (FieldEQ ''create_time'')),
     (''UpdateTime'', OnOne TTime (FieldEQ ''update_time''))]"

definition ent_oauth_token_session_where_user_id :: "(string \<times> filter_method) list" where
  "ent_oauth_token_session_where_user_id = [
     (''UserIDEQ'', OnOne TString (FieldEQ ''user_id'')), (''UserIDNEQ'', OnOne TString (FieldNEQ ''user_id'')),
     (''UserIDIn'', OnMany TString (FieldIn ''user_id'')),
     (''UserIDNotIn'', OnMany TString (FieldNotIn ''user_id'')),
     (''UserIDGT'', OnOne TString (FieldGT ''user_id'')), (''UserIDGTE'', OnOne TString (FieldGTE ''user_id'')),
     (''UserIDLT'', OnOne TString (FieldLT ''user_id'')), (''UserIDLTE'', OnOne TString (FieldLTE ''user_id'')),
     (''UserIDContains'', OnOne TString (FieldContains ''user_id'')),
     (''UserIDHasPrefix'', OnOne TString (FieldHasPrefix ''user_id'')),
     (''UserIDHasSuffix'', OnOne TString (FieldHasSuffix ''user_id'')),
     (''UserIDEqualFold'', OnOne TString (FieldEqualFold ''user_id'')),
     (''UserIDContainsFold'', OnOne TString (FieldContainsFold ''user_id''))]"

definition ent_oauth_token_session_where_client_id :: "(string \<times> filter_method) list" where
  "ent_oauth_token_session_where_client_id = [
     (''ClientIDEQ'', OnOne TString (FieldEQ ''client_id'')),
     (''ClientIDNEQ'', OnOne TString (FieldNEQ ''client_id'')),
     (''ClientIDIn'', OnMany TString (FieldIn ''client_id'')),
     (''ClientIDNotIn'', OnMany TString (FieldNotIn ''client_id'')),
     (''ClientIDGT'', OnOne TString (FieldGT ''client_id'')),
     (''ClientIDGTE'', OnOne TString (FieldGTE ''client_id'')),
     (''ClientIDLT'', OnOne TString (FieldLT ''client_id'')),
     (''ClientIDLTE'', OnOne TString (FieldLTE ''client_id'')),
     (''ClientIDContains'', OnOne TString (FieldContains ''client_id'')),
     (''ClientIDHasPrefix'', OnOne TString (FieldHasPrefix ''client_id'')),
     (''ClientIDHasSuffix'', OnOne TString (FieldHasSuffix ''client_id'')),
     (''ClientIDEqualFold'', OnOne TString (FieldEqualFold ''client_id'')),
     (''ClientIDContainsFold'', OnOne TString (FieldContainsFold ''client_id''))]"

definition ent_oauth_token_session_where_iam_login_session_id :: "(string \<times> filter_method) list" where
  "ent_oauth_token_session_where_iam_login_session_id = [
     (''IamLoginSessionIDEQ'', OnOne TString (FieldEQ ''iam_login_session_id'')),
     (''IamLoginSessionIDNEQ'', OnOne TString (FieldNEQ ''iam_login_session_id'')),
     (''IamLoginSessionIDIn'', OnMany TString (FieldIn ''iam_login_session_id'')),
     (''IamLoginSessionIDNotIn'', OnMany TString (FieldNotIn ''iam_login_session_id'')),
     (''IamLoginSessionIDGT'', OnOne TString (FieldGT ''iam_login_session_id'')),
     (''IamLoginSessionIDGTE'', OnOne TString (FieldGTE ''iam_login_session_id'')),
     (''IamLoginSessionIDLT'', OnOne TString (FieldLT ''iam_login_session_id'')),
     (''IamLoginSessionIDLTE'', OnOne TString (FieldLTE ''iam_login_session_id'')),
     (''IamLoginSessionIDContains'', OnOne TString (FieldContains ''iam_login_session_id'')),
     (''IamLoginSessionIDHasPrefix'', OnOne TString (FieldHasPrefix ''iam_login_session_id'')),
     (''IamLoginSessionIDHasSuffix'', OnOne TString (FieldHasSuffix ''iam_login_session_id'')),
     (''IamLoginSessionIDEqualFold'', OnOne TString (FieldEqualFold ''iam_login_session_id'')),
     (''IamLoginSessionIDContainsFold'', OnOne TString (FieldContainsFold ''iam_login_session_id''))]"

definition ent_oauth_token_session_where_refresh_family_id :: "(string \<times> filter_method) list" where
  "ent_oauth_token_session_where_refresh_family_id = [
     (''RefreshFamilyIDEQ'', OnOne TString (FieldEQ ''refresh_family_id'')),
     (''RefreshFamilyIDNEQ'', OnOne TString (FieldNEQ ''refresh_family_id'')),
     (''RefreshFamilyIDIn'', OnMany TString (FieldIn ''refresh_family_id'')),
     (''RefreshFamilyIDNotIn'', OnMany TString (FieldNotIn ''refresh_family_id'')),
     (''RefreshFamilyIDGT'', OnOne TString (FieldGT ''refresh_family_id'')),
     (''RefreshFamilyIDGTE'', OnOne TString (FieldGTE ''refresh_family_id'')),
     (''RefreshFamilyIDLT'', OnOne TString (FieldLT ''refresh_family_id'')),
     (''RefreshFamilyIDLTE'', OnOne TString (FieldLTE ''refresh_family_id'')),
     (''RefreshFamilyIDContains'', OnOne TString (FieldContains ''refresh_family_id'')),
     (''RefreshFamilyIDHasPrefix'', OnOne TString (FieldHasPrefix ''refresh_family_id'')),
     (''RefreshFamilyIDHasSuffix'', OnOne TString (FieldHasSuffix ''refresh_family_id'')),
     (''RefreshFamilyIDEqualFold'', OnOne TString (FieldEqualFold ''refresh_family_id'')),
     (''RefreshFamilyIDContainsFold'', OnOne TString (FieldContainsFold ''refresh_family_id''))]"

definition ent_oauth_token_session_where_auth_time :: "(string \<times> filter_method) list" where
  "ent_oauth_token_session_where_auth_time = [
     (''AuthTimeEQ'', OnOne TTime (FieldEQ ''auth_time'')),
     (''AuthTimeNEQ'', OnOne TTime (FieldNEQ ''auth_time'')),
     (''AuthTimeIn'', OnMany TTime (FieldIn ''auth_time'')),
     (''AuthTimeNotIn'', OnMany TTime (FieldNotIn ''auth_time'')),
     (''AuthTimeGT'', OnOne TTime (FieldGT ''auth_time'')),
     (''AuthTimeGTE'', OnOne TTime (FieldGTE ''auth_time'')),
     (''AuthTimeLT'', OnOne TTime (FieldLT ''auth_time'')),
     (''AuthTimeLTE'', OnOne TTime (FieldLTE ''auth_time''))]"

definition ent_oauth_token_session_where_revoked_time :: "(string \<times> filter_method) list" where
  "ent_oauth_token_session_where_revoked_time = [
     (''RevokedTimeEQ'', OnOne TTime (FieldEQ ''revoked_time'')),
     (''RevokedTimeNEQ'', OnOne TTime (FieldNEQ ''revoked_time'')),
     (''RevokedTimeIn'', OnMany TTime (FieldIn ''revoked_time'')),
     (''RevokedTimeNotIn'', OnMany TTime (FieldNotIn ''revoked_time'')),
     (''RevokedTimeGT'', OnOne TTime (FieldGT ''revoked_time'')),
     (''RevokedTimeGTE'', OnOne TTime (FieldGTE ''revoked_time'')),
     (''RevokedTimeLT'', OnOne TTime (FieldLT ''revoked_time'')),
     (''RevokedTimeLTE'', OnOne TTime (FieldLTE ''revoked_time'')),
     (''RevokedTimeIsNil'', OnNone (FieldIsNull ''revoked_time'')),
     (''RevokedTimeNotNil'', OnNone (FieldNotNull ''revoked_time''))]"

definition ent_oauth_token_session_where_create_time :: "(string \<times> filter_method) list" where
  "ent_oauth_token_session_where_create_time = [
     (''CreateTimeEQ'', OnOne TTime (FieldEQ ''create_time'')),
     (''CreateTimeNEQ'', OnOne TTime (FieldNEQ ''create_time'')),
     (''CreateTimeIn'', OnMany TTime (FieldIn ''create_time'')),
     (''CreateTimeNotIn'', OnMany TTime (FieldNotIn ''create_time'')),
     (''CreateTimeGT'', OnOne TTime (FieldGT ''create_time'')),
     (''CreateTimeGTE'', OnOne TTime (FieldGTE ''create_time'')),
     (''CreateTimeLT'', OnOne TTime (FieldLT ''create_time'')),
     (''CreateTimeLTE'', OnOne TTime (FieldLTE ''create_time''))]"

definition ent_oauth_token_session_where_update_time :: "(string \<times> filter_method) list" where
  "ent_oauth_token_session_where_update_time = [
     (''UpdateTimeEQ'', OnOne TTime (FieldEQ ''update_time'')),
     (''UpdateTimeNEQ'', OnOne TTime (FieldNEQ ''update_time'')),
     (''UpdateTimeIn'', OnMany TTime (FieldIn ''update_time'')),
     (''UpdateTimeNotIn'', OnMany TTime (FieldNotIn ''update_time'')),
     (''UpdateTimeGT'', OnOne TTime (FieldGT ''update_time'')),
     (''UpdateTimeGTE'', OnOne TTime (FieldGTE ''update_time'')),
     (''UpdateTimeLT'', OnOne TTime (FieldLT ''update_time'')),
     (''UpdateTimeLTE'', OnOne TTime (FieldLTE ''update_time''))]"

definition ent_oauth_token_session_where_groups :: "(string \<times> filter_method) list" where
  "ent_oauth_token_session_where_groups = [
     (''And'', OnPreds AndPredicates), (''Or'', OnPreds OrPredicates), (''Not'', OnPred NotPredicates)]"

definition ent_oauth_token_session_where :: "(string \<times> filter_method) list" where
  "ent_oauth_token_session_where = concat [ent_oauth_token_session_where_id, ent_oauth_token_session_where_shortcuts,
     ent_oauth_token_session_where_user_id, ent_oauth_token_session_where_client_id,
     ent_oauth_token_session_where_iam_login_session_id, ent_oauth_token_session_where_refresh_family_id,
     ent_oauth_token_session_where_auth_time, ent_oauth_token_session_where_revoked_time,
     ent_oauth_token_session_where_create_time, ent_oauth_token_session_where_update_time,
     ent_oauth_token_session_where_groups]"

lemmas ent_oauth_token_session_where_defs = ent_oauth_token_session_where_id_def ent_oauth_token_session_where_shortcuts_def
  ent_oauth_token_session_where_user_id_def ent_oauth_token_session_where_client_id_def
  ent_oauth_token_session_where_iam_login_session_id_def ent_oauth_token_session_where_refresh_family_id_def
  ent_oauth_token_session_where_auth_time_def ent_oauth_token_session_where_revoked_time_def
  ent_oauth_token_session_where_create_time_def ent_oauth_token_session_where_update_time_def
  ent_oauth_token_session_where_groups_def ent_oauth_token_session_where_def
  ent_oauth_token_session_schema_def

lemma ent_oauth_token_session_where_is_reference: "ent_oauth_token_session_where = where_reference TString (tl ent_oauth_token_session_schema)"
  by (simp add: ent_oauth_token_session_where_defs where_reference_simps)

section \<open>OAuthAccessToken\<close>

definition ent_oauth_access_token_where_id :: "(string \<times> filter_method) list" where
  "ent_oauth_access_token_where_id = [
     (''ID'', OnOne TString (FieldEQ ''id'')), (''IDEQ'', OnOne TString (FieldEQ ''id'')),
     (''IDNEQ'', OnOne TString (FieldNEQ ''id'')), (''IDIn'', OnMany TString (FieldIn ''id'')),
     (''IDNotIn'', OnMany TString (FieldNotIn ''id'')), (''IDGT'', OnOne TString (FieldGT ''id'')),
     (''IDGTE'', OnOne TString (FieldGTE ''id'')), (''IDLT'', OnOne TString (FieldLT ''id'')),
     (''IDLTE'', OnOne TString (FieldLTE ''id'')), (''IDEqualFold'', OnOne TString (FieldEqualFold ''id'')),
     (''IDContainsFold'', OnOne TString (FieldContainsFold ''id''))]"

definition ent_oauth_access_token_where_shortcuts :: "(string \<times> filter_method) list" where
  "ent_oauth_access_token_where_shortcuts = [
     (''TokenSessionID'', OnOne TString (FieldEQ ''token_session_id'')),
     (''Subject'', OnOne TString (FieldEQ ''subject'')), (''ClientID'', OnOne TString (FieldEQ ''client_id'')),
     (''IssuedTime'', OnOne TTime (FieldEQ ''issued_time'')),
     (''ExpiresTime'', OnOne TTime (FieldEQ ''expires_time'')),
     (''RevokedTime'', OnOne TTime (FieldEQ ''revoked_time''))]"

definition ent_oauth_access_token_where_token_session_id :: "(string \<times> filter_method) list" where
  "ent_oauth_access_token_where_token_session_id = [
     (''TokenSessionIDEQ'', OnOne TString (FieldEQ ''token_session_id'')),
     (''TokenSessionIDNEQ'', OnOne TString (FieldNEQ ''token_session_id'')),
     (''TokenSessionIDIn'', OnMany TString (FieldIn ''token_session_id'')),
     (''TokenSessionIDNotIn'', OnMany TString (FieldNotIn ''token_session_id'')),
     (''TokenSessionIDGT'', OnOne TString (FieldGT ''token_session_id'')),
     (''TokenSessionIDGTE'', OnOne TString (FieldGTE ''token_session_id'')),
     (''TokenSessionIDLT'', OnOne TString (FieldLT ''token_session_id'')),
     (''TokenSessionIDLTE'', OnOne TString (FieldLTE ''token_session_id'')),
     (''TokenSessionIDContains'', OnOne TString (FieldContains ''token_session_id'')),
     (''TokenSessionIDHasPrefix'', OnOne TString (FieldHasPrefix ''token_session_id'')),
     (''TokenSessionIDHasSuffix'', OnOne TString (FieldHasSuffix ''token_session_id'')),
     (''TokenSessionIDEqualFold'', OnOne TString (FieldEqualFold ''token_session_id'')),
     (''TokenSessionIDContainsFold'', OnOne TString (FieldContainsFold ''token_session_id''))]"

definition ent_oauth_access_token_where_subject :: "(string \<times> filter_method) list" where
  "ent_oauth_access_token_where_subject = [
     (''SubjectEQ'', OnOne TString (FieldEQ ''subject'')),
     (''SubjectNEQ'', OnOne TString (FieldNEQ ''subject'')),
     (''SubjectIn'', OnMany TString (FieldIn ''subject'')),
     (''SubjectNotIn'', OnMany TString (FieldNotIn ''subject'')),
     (''SubjectGT'', OnOne TString (FieldGT ''subject'')),
     (''SubjectGTE'', OnOne TString (FieldGTE ''subject'')),
     (''SubjectLT'', OnOne TString (FieldLT ''subject'')),
     (''SubjectLTE'', OnOne TString (FieldLTE ''subject'')),
     (''SubjectContains'', OnOne TString (FieldContains ''subject'')),
     (''SubjectHasPrefix'', OnOne TString (FieldHasPrefix ''subject'')),
     (''SubjectHasSuffix'', OnOne TString (FieldHasSuffix ''subject'')),
     (''SubjectEqualFold'', OnOne TString (FieldEqualFold ''subject'')),
     (''SubjectContainsFold'', OnOne TString (FieldContainsFold ''subject''))]"

definition ent_oauth_access_token_where_client_id :: "(string \<times> filter_method) list" where
  "ent_oauth_access_token_where_client_id = [
     (''ClientIDEQ'', OnOne TString (FieldEQ ''client_id'')),
     (''ClientIDNEQ'', OnOne TString (FieldNEQ ''client_id'')),
     (''ClientIDIn'', OnMany TString (FieldIn ''client_id'')),
     (''ClientIDNotIn'', OnMany TString (FieldNotIn ''client_id'')),
     (''ClientIDGT'', OnOne TString (FieldGT ''client_id'')),
     (''ClientIDGTE'', OnOne TString (FieldGTE ''client_id'')),
     (''ClientIDLT'', OnOne TString (FieldLT ''client_id'')),
     (''ClientIDLTE'', OnOne TString (FieldLTE ''client_id'')),
     (''ClientIDContains'', OnOne TString (FieldContains ''client_id'')),
     (''ClientIDHasPrefix'', OnOne TString (FieldHasPrefix ''client_id'')),
     (''ClientIDHasSuffix'', OnOne TString (FieldHasSuffix ''client_id'')),
     (''ClientIDEqualFold'', OnOne TString (FieldEqualFold ''client_id'')),
     (''ClientIDContainsFold'', OnOne TString (FieldContainsFold ''client_id''))]"

definition ent_oauth_access_token_where_issued_time :: "(string \<times> filter_method) list" where
  "ent_oauth_access_token_where_issued_time = [
     (''IssuedTimeEQ'', OnOne TTime (FieldEQ ''issued_time'')),
     (''IssuedTimeNEQ'', OnOne TTime (FieldNEQ ''issued_time'')),
     (''IssuedTimeIn'', OnMany TTime (FieldIn ''issued_time'')),
     (''IssuedTimeNotIn'', OnMany TTime (FieldNotIn ''issued_time'')),
     (''IssuedTimeGT'', OnOne TTime (FieldGT ''issued_time'')),
     (''IssuedTimeGTE'', OnOne TTime (FieldGTE ''issued_time'')),
     (''IssuedTimeLT'', OnOne TTime (FieldLT ''issued_time'')),
     (''IssuedTimeLTE'', OnOne TTime (FieldLTE ''issued_time''))]"

definition ent_oauth_access_token_where_expires_time :: "(string \<times> filter_method) list" where
  "ent_oauth_access_token_where_expires_time = [
     (''ExpiresTimeEQ'', OnOne TTime (FieldEQ ''expires_time'')),
     (''ExpiresTimeNEQ'', OnOne TTime (FieldNEQ ''expires_time'')),
     (''ExpiresTimeIn'', OnMany TTime (FieldIn ''expires_time'')),
     (''ExpiresTimeNotIn'', OnMany TTime (FieldNotIn ''expires_time'')),
     (''ExpiresTimeGT'', OnOne TTime (FieldGT ''expires_time'')),
     (''ExpiresTimeGTE'', OnOne TTime (FieldGTE ''expires_time'')),
     (''ExpiresTimeLT'', OnOne TTime (FieldLT ''expires_time'')),
     (''ExpiresTimeLTE'', OnOne TTime (FieldLTE ''expires_time''))]"

definition ent_oauth_access_token_where_revoked_time :: "(string \<times> filter_method) list" where
  "ent_oauth_access_token_where_revoked_time = [
     (''RevokedTimeEQ'', OnOne TTime (FieldEQ ''revoked_time'')),
     (''RevokedTimeNEQ'', OnOne TTime (FieldNEQ ''revoked_time'')),
     (''RevokedTimeIn'', OnMany TTime (FieldIn ''revoked_time'')),
     (''RevokedTimeNotIn'', OnMany TTime (FieldNotIn ''revoked_time'')),
     (''RevokedTimeGT'', OnOne TTime (FieldGT ''revoked_time'')),
     (''RevokedTimeGTE'', OnOne TTime (FieldGTE ''revoked_time'')),
     (''RevokedTimeLT'', OnOne TTime (FieldLT ''revoked_time'')),
     (''RevokedTimeLTE'', OnOne TTime (FieldLTE ''revoked_time'')),
     (''RevokedTimeIsNil'', OnNone (FieldIsNull ''revoked_time'')),
     (''RevokedTimeNotNil'', OnNone (FieldNotNull ''revoked_time''))]"

definition ent_oauth_access_token_where_groups :: "(string \<times> filter_method) list" where
  "ent_oauth_access_token_where_groups = [
     (''And'', OnPreds AndPredicates), (''Or'', OnPreds OrPredicates), (''Not'', OnPred NotPredicates)]"

definition ent_oauth_access_token_where :: "(string \<times> filter_method) list" where
  "ent_oauth_access_token_where = concat [ent_oauth_access_token_where_id, ent_oauth_access_token_where_shortcuts,
     ent_oauth_access_token_where_token_session_id, ent_oauth_access_token_where_subject,
     ent_oauth_access_token_where_client_id, ent_oauth_access_token_where_issued_time,
     ent_oauth_access_token_where_expires_time, ent_oauth_access_token_where_revoked_time,
     ent_oauth_access_token_where_groups]"

lemmas ent_oauth_access_token_where_defs = ent_oauth_access_token_where_id_def ent_oauth_access_token_where_shortcuts_def
  ent_oauth_access_token_where_token_session_id_def ent_oauth_access_token_where_subject_def
  ent_oauth_access_token_where_client_id_def ent_oauth_access_token_where_issued_time_def
  ent_oauth_access_token_where_expires_time_def ent_oauth_access_token_where_revoked_time_def
  ent_oauth_access_token_where_groups_def ent_oauth_access_token_where_def ent_oauth_access_token_schema_def

lemma ent_oauth_access_token_where_is_reference: "ent_oauth_access_token_where = where_reference TString (tl ent_oauth_access_token_schema)"
  by (simp add: ent_oauth_access_token_where_defs where_reference_simps)

section \<open>OAuthRefreshToken\<close>

definition ent_oauth_refresh_token_where_id :: "(string \<times> filter_method) list" where
  "ent_oauth_refresh_token_where_id = [
     (''ID'', OnOne TString (FieldEQ ''id'')), (''IDEQ'', OnOne TString (FieldEQ ''id'')),
     (''IDNEQ'', OnOne TString (FieldNEQ ''id'')), (''IDIn'', OnMany TString (FieldIn ''id'')),
     (''IDNotIn'', OnMany TString (FieldNotIn ''id'')), (''IDGT'', OnOne TString (FieldGT ''id'')),
     (''IDGTE'', OnOne TString (FieldGTE ''id'')), (''IDLT'', OnOne TString (FieldLT ''id'')),
     (''IDLTE'', OnOne TString (FieldLTE ''id'')), (''IDEqualFold'', OnOne TString (FieldEqualFold ''id'')),
     (''IDContainsFold'', OnOne TString (FieldContainsFold ''id''))]"

definition ent_oauth_refresh_token_where_shortcuts :: "(string \<times> filter_method) list" where
  "ent_oauth_refresh_token_where_shortcuts = [
     (''TokenSessionID'', OnOne TString (FieldEQ ''token_session_id'')),
     (''FamilyID'', OnOne TString (FieldEQ ''family_id'')),
     (''TokenHash'', OnOne TString (FieldEQ ''token_hash'')),
     (''ParentTokenID'', OnOne TString (FieldEQ ''parent_token_id'')),
     (''IssuedTime'', OnOne TTime (FieldEQ ''issued_time'')),
     (''ExpiresTime'', OnOne TTime (FieldEQ ''expires_time'')),
     (''ConsumedTime'', OnOne TTime (FieldEQ ''consumed_time'')),
     (''RevokedTime'', OnOne TTime (FieldEQ ''revoked_time''))]"

definition ent_oauth_refresh_token_where_token_session_id :: "(string \<times> filter_method) list" where
  "ent_oauth_refresh_token_where_token_session_id = [
     (''TokenSessionIDEQ'', OnOne TString (FieldEQ ''token_session_id'')),
     (''TokenSessionIDNEQ'', OnOne TString (FieldNEQ ''token_session_id'')),
     (''TokenSessionIDIn'', OnMany TString (FieldIn ''token_session_id'')),
     (''TokenSessionIDNotIn'', OnMany TString (FieldNotIn ''token_session_id'')),
     (''TokenSessionIDGT'', OnOne TString (FieldGT ''token_session_id'')),
     (''TokenSessionIDGTE'', OnOne TString (FieldGTE ''token_session_id'')),
     (''TokenSessionIDLT'', OnOne TString (FieldLT ''token_session_id'')),
     (''TokenSessionIDLTE'', OnOne TString (FieldLTE ''token_session_id'')),
     (''TokenSessionIDContains'', OnOne TString (FieldContains ''token_session_id'')),
     (''TokenSessionIDHasPrefix'', OnOne TString (FieldHasPrefix ''token_session_id'')),
     (''TokenSessionIDHasSuffix'', OnOne TString (FieldHasSuffix ''token_session_id'')),
     (''TokenSessionIDEqualFold'', OnOne TString (FieldEqualFold ''token_session_id'')),
     (''TokenSessionIDContainsFold'', OnOne TString (FieldContainsFold ''token_session_id''))]"

definition ent_oauth_refresh_token_where_family_id :: "(string \<times> filter_method) list" where
  "ent_oauth_refresh_token_where_family_id = [
     (''FamilyIDEQ'', OnOne TString (FieldEQ ''family_id'')),
     (''FamilyIDNEQ'', OnOne TString (FieldNEQ ''family_id'')),
     (''FamilyIDIn'', OnMany TString (FieldIn ''family_id'')),
     (''FamilyIDNotIn'', OnMany TString (FieldNotIn ''family_id'')),
     (''FamilyIDGT'', OnOne TString (FieldGT ''family_id'')),
     (''FamilyIDGTE'', OnOne TString (FieldGTE ''family_id'')),
     (''FamilyIDLT'', OnOne TString (FieldLT ''family_id'')),
     (''FamilyIDLTE'', OnOne TString (FieldLTE ''family_id'')),
     (''FamilyIDContains'', OnOne TString (FieldContains ''family_id'')),
     (''FamilyIDHasPrefix'', OnOne TString (FieldHasPrefix ''family_id'')),
     (''FamilyIDHasSuffix'', OnOne TString (FieldHasSuffix ''family_id'')),
     (''FamilyIDEqualFold'', OnOne TString (FieldEqualFold ''family_id'')),
     (''FamilyIDContainsFold'', OnOne TString (FieldContainsFold ''family_id''))]"

definition ent_oauth_refresh_token_where_token_hash :: "(string \<times> filter_method) list" where
  "ent_oauth_refresh_token_where_token_hash = [
     (''TokenHashEQ'', OnOne TString (FieldEQ ''token_hash'')),
     (''TokenHashNEQ'', OnOne TString (FieldNEQ ''token_hash'')),
     (''TokenHashIn'', OnMany TString (FieldIn ''token_hash'')),
     (''TokenHashNotIn'', OnMany TString (FieldNotIn ''token_hash'')),
     (''TokenHashGT'', OnOne TString (FieldGT ''token_hash'')),
     (''TokenHashGTE'', OnOne TString (FieldGTE ''token_hash'')),
     (''TokenHashLT'', OnOne TString (FieldLT ''token_hash'')),
     (''TokenHashLTE'', OnOne TString (FieldLTE ''token_hash'')),
     (''TokenHashContains'', OnOne TString (FieldContains ''token_hash'')),
     (''TokenHashHasPrefix'', OnOne TString (FieldHasPrefix ''token_hash'')),
     (''TokenHashHasSuffix'', OnOne TString (FieldHasSuffix ''token_hash'')),
     (''TokenHashEqualFold'', OnOne TString (FieldEqualFold ''token_hash'')),
     (''TokenHashContainsFold'', OnOne TString (FieldContainsFold ''token_hash''))]"

definition ent_oauth_refresh_token_where_parent_token_id :: "(string \<times> filter_method) list" where
  "ent_oauth_refresh_token_where_parent_token_id = [
     (''ParentTokenIDEQ'', OnOne TString (FieldEQ ''parent_token_id'')),
     (''ParentTokenIDNEQ'', OnOne TString (FieldNEQ ''parent_token_id'')),
     (''ParentTokenIDIn'', OnMany TString (FieldIn ''parent_token_id'')),
     (''ParentTokenIDNotIn'', OnMany TString (FieldNotIn ''parent_token_id'')),
     (''ParentTokenIDGT'', OnOne TString (FieldGT ''parent_token_id'')),
     (''ParentTokenIDGTE'', OnOne TString (FieldGTE ''parent_token_id'')),
     (''ParentTokenIDLT'', OnOne TString (FieldLT ''parent_token_id'')),
     (''ParentTokenIDLTE'', OnOne TString (FieldLTE ''parent_token_id'')),
     (''ParentTokenIDContains'', OnOne TString (FieldContains ''parent_token_id'')),
     (''ParentTokenIDHasPrefix'', OnOne TString (FieldHasPrefix ''parent_token_id'')),
     (''ParentTokenIDHasSuffix'', OnOne TString (FieldHasSuffix ''parent_token_id'')),
     (''ParentTokenIDIsNil'', OnNone (FieldIsNull ''parent_token_id'')),
     (''ParentTokenIDNotNil'', OnNone (FieldNotNull ''parent_token_id'')),
     (''ParentTokenIDEqualFold'', OnOne TString (FieldEqualFold ''parent_token_id'')),
     (''ParentTokenIDContainsFold'', OnOne TString (FieldContainsFold ''parent_token_id''))]"

definition ent_oauth_refresh_token_where_issued_time :: "(string \<times> filter_method) list" where
  "ent_oauth_refresh_token_where_issued_time = [
     (''IssuedTimeEQ'', OnOne TTime (FieldEQ ''issued_time'')),
     (''IssuedTimeNEQ'', OnOne TTime (FieldNEQ ''issued_time'')),
     (''IssuedTimeIn'', OnMany TTime (FieldIn ''issued_time'')),
     (''IssuedTimeNotIn'', OnMany TTime (FieldNotIn ''issued_time'')),
     (''IssuedTimeGT'', OnOne TTime (FieldGT ''issued_time'')),
     (''IssuedTimeGTE'', OnOne TTime (FieldGTE ''issued_time'')),
     (''IssuedTimeLT'', OnOne TTime (FieldLT ''issued_time'')),
     (''IssuedTimeLTE'', OnOne TTime (FieldLTE ''issued_time''))]"

definition ent_oauth_refresh_token_where_expires_time :: "(string \<times> filter_method) list" where
  "ent_oauth_refresh_token_where_expires_time = [
     (''ExpiresTimeEQ'', OnOne TTime (FieldEQ ''expires_time'')),
     (''ExpiresTimeNEQ'', OnOne TTime (FieldNEQ ''expires_time'')),
     (''ExpiresTimeIn'', OnMany TTime (FieldIn ''expires_time'')),
     (''ExpiresTimeNotIn'', OnMany TTime (FieldNotIn ''expires_time'')),
     (''ExpiresTimeGT'', OnOne TTime (FieldGT ''expires_time'')),
     (''ExpiresTimeGTE'', OnOne TTime (FieldGTE ''expires_time'')),
     (''ExpiresTimeLT'', OnOne TTime (FieldLT ''expires_time'')),
     (''ExpiresTimeLTE'', OnOne TTime (FieldLTE ''expires_time''))]"

definition ent_oauth_refresh_token_where_consumed_time :: "(string \<times> filter_method) list" where
  "ent_oauth_refresh_token_where_consumed_time = [
     (''ConsumedTimeEQ'', OnOne TTime (FieldEQ ''consumed_time'')),
     (''ConsumedTimeNEQ'', OnOne TTime (FieldNEQ ''consumed_time'')),
     (''ConsumedTimeIn'', OnMany TTime (FieldIn ''consumed_time'')),
     (''ConsumedTimeNotIn'', OnMany TTime (FieldNotIn ''consumed_time'')),
     (''ConsumedTimeGT'', OnOne TTime (FieldGT ''consumed_time'')),
     (''ConsumedTimeGTE'', OnOne TTime (FieldGTE ''consumed_time'')),
     (''ConsumedTimeLT'', OnOne TTime (FieldLT ''consumed_time'')),
     (''ConsumedTimeLTE'', OnOne TTime (FieldLTE ''consumed_time'')),
     (''ConsumedTimeIsNil'', OnNone (FieldIsNull ''consumed_time'')),
     (''ConsumedTimeNotNil'', OnNone (FieldNotNull ''consumed_time''))]"

definition ent_oauth_refresh_token_where_revoked_time :: "(string \<times> filter_method) list" where
  "ent_oauth_refresh_token_where_revoked_time = [
     (''RevokedTimeEQ'', OnOne TTime (FieldEQ ''revoked_time'')),
     (''RevokedTimeNEQ'', OnOne TTime (FieldNEQ ''revoked_time'')),
     (''RevokedTimeIn'', OnMany TTime (FieldIn ''revoked_time'')),
     (''RevokedTimeNotIn'', OnMany TTime (FieldNotIn ''revoked_time'')),
     (''RevokedTimeGT'', OnOne TTime (FieldGT ''revoked_time'')),
     (''RevokedTimeGTE'', OnOne TTime (FieldGTE ''revoked_time'')),
     (''RevokedTimeLT'', OnOne TTime (FieldLT ''revoked_time'')),
     (''RevokedTimeLTE'', OnOne TTime (FieldLTE ''revoked_time'')),
     (''RevokedTimeIsNil'', OnNone (FieldIsNull ''revoked_time'')),
     (''RevokedTimeNotNil'', OnNone (FieldNotNull ''revoked_time''))]"

definition ent_oauth_refresh_token_where_groups :: "(string \<times> filter_method) list" where
  "ent_oauth_refresh_token_where_groups = [
     (''And'', OnPreds AndPredicates), (''Or'', OnPreds OrPredicates), (''Not'', OnPred NotPredicates)]"

definition ent_oauth_refresh_token_where :: "(string \<times> filter_method) list" where
  "ent_oauth_refresh_token_where = concat [ent_oauth_refresh_token_where_id, ent_oauth_refresh_token_where_shortcuts,
     ent_oauth_refresh_token_where_token_session_id, ent_oauth_refresh_token_where_family_id,
     ent_oauth_refresh_token_where_token_hash, ent_oauth_refresh_token_where_parent_token_id,
     ent_oauth_refresh_token_where_issued_time, ent_oauth_refresh_token_where_expires_time,
     ent_oauth_refresh_token_where_consumed_time, ent_oauth_refresh_token_where_revoked_time,
     ent_oauth_refresh_token_where_groups]"

lemmas ent_oauth_refresh_token_where_defs = ent_oauth_refresh_token_where_id_def ent_oauth_refresh_token_where_shortcuts_def
  ent_oauth_refresh_token_where_token_session_id_def ent_oauth_refresh_token_where_family_id_def
  ent_oauth_refresh_token_where_token_hash_def ent_oauth_refresh_token_where_parent_token_id_def
  ent_oauth_refresh_token_where_issued_time_def ent_oauth_refresh_token_where_expires_time_def
  ent_oauth_refresh_token_where_consumed_time_def ent_oauth_refresh_token_where_revoked_time_def
  ent_oauth_refresh_token_where_groups_def ent_oauth_refresh_token_where_def
  ent_oauth_refresh_token_schema_def

lemma ent_oauth_refresh_token_where_is_reference: "ent_oauth_refresh_token_where = where_reference TString (tl ent_oauth_refresh_token_schema)"
  by (simp add: ent_oauth_refresh_token_where_defs where_reference_simps)

section \<open>OAuthClient\<close>

definition ent_oauth_client_where_id :: "(string \<times> filter_method) list" where
  "ent_oauth_client_where_id = [
     (''ID'', OnOne TString (FieldEQ ''id'')), (''IDEQ'', OnOne TString (FieldEQ ''id'')),
     (''IDNEQ'', OnOne TString (FieldNEQ ''id'')), (''IDIn'', OnMany TString (FieldIn ''id'')),
     (''IDNotIn'', OnMany TString (FieldNotIn ''id'')), (''IDGT'', OnOne TString (FieldGT ''id'')),
     (''IDGTE'', OnOne TString (FieldGTE ''id'')), (''IDLT'', OnOne TString (FieldLT ''id'')),
     (''IDLTE'', OnOne TString (FieldLTE ''id'')), (''IDEqualFold'', OnOne TString (FieldEqualFold ''id'')),
     (''IDContainsFold'', OnOne TString (FieldContainsFold ''id''))]"

definition ent_oauth_client_where_shortcuts :: "(string \<times> filter_method) list" where
  "ent_oauth_client_where_shortcuts = [
     (''SecretHash'', OnOne TString (FieldEQ ''secret_hash'')),
     (''Trusted'', OnOne TBool (FieldEQ ''trusted'')), (''CreateTime'', OnOne TTime (FieldEQ ''create_time'')),
     (''UpdateTime'', OnOne TTime (FieldEQ ''update_time''))]"

definition ent_oauth_client_where_secret_hash :: "(string \<times> filter_method) list" where
  "ent_oauth_client_where_secret_hash = [
     (''SecretHashEQ'', OnOne TString (FieldEQ ''secret_hash'')),
     (''SecretHashNEQ'', OnOne TString (FieldNEQ ''secret_hash'')),
     (''SecretHashIn'', OnMany TString (FieldIn ''secret_hash'')),
     (''SecretHashNotIn'', OnMany TString (FieldNotIn ''secret_hash'')),
     (''SecretHashGT'', OnOne TString (FieldGT ''secret_hash'')),
     (''SecretHashGTE'', OnOne TString (FieldGTE ''secret_hash'')),
     (''SecretHashLT'', OnOne TString (FieldLT ''secret_hash'')),
     (''SecretHashLTE'', OnOne TString (FieldLTE ''secret_hash'')),
     (''SecretHashContains'', OnOne TString (FieldContains ''secret_hash'')),
     (''SecretHashHasPrefix'', OnOne TString (FieldHasPrefix ''secret_hash'')),
     (''SecretHashHasSuffix'', OnOne TString (FieldHasSuffix ''secret_hash'')),
     (''SecretHashEqualFold'', OnOne TString (FieldEqualFold ''secret_hash'')),
     (''SecretHashContainsFold'', OnOne TString (FieldContainsFold ''secret_hash''))]"

definition ent_oauth_client_where_trusted :: "(string \<times> filter_method) list" where
  "ent_oauth_client_where_trusted = [
     (''TrustedEQ'', OnOne TBool (FieldEQ ''trusted'')), (''TrustedNEQ'', OnOne TBool (FieldNEQ ''trusted''))]"

definition ent_oauth_client_where_create_time :: "(string \<times> filter_method) list" where
  "ent_oauth_client_where_create_time = [
     (''CreateTimeEQ'', OnOne TTime (FieldEQ ''create_time'')),
     (''CreateTimeNEQ'', OnOne TTime (FieldNEQ ''create_time'')),
     (''CreateTimeIn'', OnMany TTime (FieldIn ''create_time'')),
     (''CreateTimeNotIn'', OnMany TTime (FieldNotIn ''create_time'')),
     (''CreateTimeGT'', OnOne TTime (FieldGT ''create_time'')),
     (''CreateTimeGTE'', OnOne TTime (FieldGTE ''create_time'')),
     (''CreateTimeLT'', OnOne TTime (FieldLT ''create_time'')),
     (''CreateTimeLTE'', OnOne TTime (FieldLTE ''create_time''))]"

definition ent_oauth_client_where_update_time :: "(string \<times> filter_method) list" where
  "ent_oauth_client_where_update_time = [
     (''UpdateTimeEQ'', OnOne TTime (FieldEQ ''update_time'')),
     (''UpdateTimeNEQ'', OnOne TTime (FieldNEQ ''update_time'')),
     (''UpdateTimeIn'', OnMany TTime (FieldIn ''update_time'')),
     (''UpdateTimeNotIn'', OnMany TTime (FieldNotIn ''update_time'')),
     (''UpdateTimeGT'', OnOne TTime (FieldGT ''update_time'')),
     (''UpdateTimeGTE'', OnOne TTime (FieldGTE ''update_time'')),
     (''UpdateTimeLT'', OnOne TTime (FieldLT ''update_time'')),
     (''UpdateTimeLTE'', OnOne TTime (FieldLTE ''update_time''))]"

definition ent_oauth_client_where_groups :: "(string \<times> filter_method) list" where
  "ent_oauth_client_where_groups = [
     (''And'', OnPreds AndPredicates), (''Or'', OnPreds OrPredicates), (''Not'', OnPred NotPredicates)]"

definition ent_oauth_client_where :: "(string \<times> filter_method) list" where
  "ent_oauth_client_where = concat [ent_oauth_client_where_id, ent_oauth_client_where_shortcuts, ent_oauth_client_where_secret_hash,
     ent_oauth_client_where_trusted, ent_oauth_client_where_create_time, ent_oauth_client_where_update_time,
     ent_oauth_client_where_groups]"

lemmas ent_oauth_client_where_defs = ent_oauth_client_where_id_def ent_oauth_client_where_shortcuts_def ent_oauth_client_where_secret_hash_def
  ent_oauth_client_where_trusted_def ent_oauth_client_where_create_time_def
  ent_oauth_client_where_update_time_def ent_oauth_client_where_groups_def ent_oauth_client_where_def
  ent_oauth_client_schema_def

lemma ent_oauth_client_where_is_reference: "ent_oauth_client_where = where_reference TString (tl ent_oauth_client_schema)"
  by (simp add: ent_oauth_client_where_defs where_reference_simps)

section \<open>OIDCSigningKey\<close>

definition ent_oidc_signing_key_where_id :: "(string \<times> filter_method) list" where
  "ent_oidc_signing_key_where_id = [
     (''ID'', OnOne TString (FieldEQ ''id'')), (''IDEQ'', OnOne TString (FieldEQ ''id'')),
     (''IDNEQ'', OnOne TString (FieldNEQ ''id'')), (''IDIn'', OnMany TString (FieldIn ''id'')),
     (''IDNotIn'', OnMany TString (FieldNotIn ''id'')), (''IDGT'', OnOne TString (FieldGT ''id'')),
     (''IDGTE'', OnOne TString (FieldGTE ''id'')), (''IDLT'', OnOne TString (FieldLT ''id'')),
     (''IDLTE'', OnOne TString (FieldLTE ''id'')), (''IDEqualFold'', OnOne TString (FieldEqualFold ''id'')),
     (''IDContainsFold'', OnOne TString (FieldContainsFold ''id''))]"

definition ent_oidc_signing_key_where_shortcuts :: "(string \<times> filter_method) list" where
  "ent_oidc_signing_key_where_shortcuts = [
     (''PublicJwk'', OnOne TString (FieldEQ ''public_jwk'')),
     (''Algorithm'', OnOne TString (FieldEQ ''algorithm'')),
     (''NotBeforeTime'', OnOne TTime (FieldEQ ''not_before_time'')),
     (''ExpiresTime'', OnOne TTime (FieldEQ ''expires_time'')),
     (''RevokedTime'', OnOne TTime (FieldEQ ''revoked_time'')),
     (''CreateTime'', OnOne TTime (FieldEQ ''create_time''))]"

definition ent_oidc_signing_key_where_public_jwk :: "(string \<times> filter_method) list" where
  "ent_oidc_signing_key_where_public_jwk = [
     (''PublicJwkEQ'', OnOne TString (FieldEQ ''public_jwk'')),
     (''PublicJwkNEQ'', OnOne TString (FieldNEQ ''public_jwk'')),
     (''PublicJwkIn'', OnMany TString (FieldIn ''public_jwk'')),
     (''PublicJwkNotIn'', OnMany TString (FieldNotIn ''public_jwk'')),
     (''PublicJwkGT'', OnOne TString (FieldGT ''public_jwk'')),
     (''PublicJwkGTE'', OnOne TString (FieldGTE ''public_jwk'')),
     (''PublicJwkLT'', OnOne TString (FieldLT ''public_jwk'')),
     (''PublicJwkLTE'', OnOne TString (FieldLTE ''public_jwk'')),
     (''PublicJwkContains'', OnOne TString (FieldContains ''public_jwk'')),
     (''PublicJwkHasPrefix'', OnOne TString (FieldHasPrefix ''public_jwk'')),
     (''PublicJwkHasSuffix'', OnOne TString (FieldHasSuffix ''public_jwk'')),
     (''PublicJwkEqualFold'', OnOne TString (FieldEqualFold ''public_jwk'')),
     (''PublicJwkContainsFold'', OnOne TString (FieldContainsFold ''public_jwk''))]"

definition ent_oidc_signing_key_where_algorithm :: "(string \<times> filter_method) list" where
  "ent_oidc_signing_key_where_algorithm = [
     (''AlgorithmEQ'', OnOne TString (FieldEQ ''algorithm'')),
     (''AlgorithmNEQ'', OnOne TString (FieldNEQ ''algorithm'')),
     (''AlgorithmIn'', OnMany TString (FieldIn ''algorithm'')),
     (''AlgorithmNotIn'', OnMany TString (FieldNotIn ''algorithm'')),
     (''AlgorithmGT'', OnOne TString (FieldGT ''algorithm'')),
     (''AlgorithmGTE'', OnOne TString (FieldGTE ''algorithm'')),
     (''AlgorithmLT'', OnOne TString (FieldLT ''algorithm'')),
     (''AlgorithmLTE'', OnOne TString (FieldLTE ''algorithm'')),
     (''AlgorithmContains'', OnOne TString (FieldContains ''algorithm'')),
     (''AlgorithmHasPrefix'', OnOne TString (FieldHasPrefix ''algorithm'')),
     (''AlgorithmHasSuffix'', OnOne TString (FieldHasSuffix ''algorithm'')),
     (''AlgorithmEqualFold'', OnOne TString (FieldEqualFold ''algorithm'')),
     (''AlgorithmContainsFold'', OnOne TString (FieldContainsFold ''algorithm''))]"

definition ent_oidc_signing_key_where_not_before_time :: "(string \<times> filter_method) list" where
  "ent_oidc_signing_key_where_not_before_time = [
     (''NotBeforeTimeEQ'', OnOne TTime (FieldEQ ''not_before_time'')),
     (''NotBeforeTimeNEQ'', OnOne TTime (FieldNEQ ''not_before_time'')),
     (''NotBeforeTimeIn'', OnMany TTime (FieldIn ''not_before_time'')),
     (''NotBeforeTimeNotIn'', OnMany TTime (FieldNotIn ''not_before_time'')),
     (''NotBeforeTimeGT'', OnOne TTime (FieldGT ''not_before_time'')),
     (''NotBeforeTimeGTE'', OnOne TTime (FieldGTE ''not_before_time'')),
     (''NotBeforeTimeLT'', OnOne TTime (FieldLT ''not_before_time'')),
     (''NotBeforeTimeLTE'', OnOne TTime (FieldLTE ''not_before_time''))]"

definition ent_oidc_signing_key_where_expires_time :: "(string \<times> filter_method) list" where
  "ent_oidc_signing_key_where_expires_time = [
     (''ExpiresTimeEQ'', OnOne TTime (FieldEQ ''expires_time'')),
     (''ExpiresTimeNEQ'', OnOne TTime (FieldNEQ ''expires_time'')),
     (''ExpiresTimeIn'', OnMany TTime (FieldIn ''expires_time'')),
     (''ExpiresTimeNotIn'', OnMany TTime (FieldNotIn ''expires_time'')),
     (''ExpiresTimeGT'', OnOne TTime (FieldGT ''expires_time'')),
     (''ExpiresTimeGTE'', OnOne TTime (FieldGTE ''expires_time'')),
     (''ExpiresTimeLT'', OnOne TTime (FieldLT ''expires_time'')),
     (''ExpiresTimeLTE'', OnOne TTime (FieldLTE ''expires_time''))]"

definition ent_oidc_signing_key_where_revoked_time :: "(string \<times> filter_method) list" where
  "ent_oidc_signing_key_where_revoked_time = [
     (''RevokedTimeEQ'', OnOne TTime (FieldEQ ''revoked_time'')),
     (''RevokedTimeNEQ'', OnOne TTime (FieldNEQ ''revoked_time'')),
     (''RevokedTimeIn'', OnMany TTime (FieldIn ''revoked_time'')),
     (''RevokedTimeNotIn'', OnMany TTime (FieldNotIn ''revoked_time'')),
     (''RevokedTimeGT'', OnOne TTime (FieldGT ''revoked_time'')),
     (''RevokedTimeGTE'', OnOne TTime (FieldGTE ''revoked_time'')),
     (''RevokedTimeLT'', OnOne TTime (FieldLT ''revoked_time'')),
     (''RevokedTimeLTE'', OnOne TTime (FieldLTE ''revoked_time'')),
     (''RevokedTimeIsNil'', OnNone (FieldIsNull ''revoked_time'')),
     (''RevokedTimeNotNil'', OnNone (FieldNotNull ''revoked_time''))]"

definition ent_oidc_signing_key_where_create_time :: "(string \<times> filter_method) list" where
  "ent_oidc_signing_key_where_create_time = [
     (''CreateTimeEQ'', OnOne TTime (FieldEQ ''create_time'')),
     (''CreateTimeNEQ'', OnOne TTime (FieldNEQ ''create_time'')),
     (''CreateTimeIn'', OnMany TTime (FieldIn ''create_time'')),
     (''CreateTimeNotIn'', OnMany TTime (FieldNotIn ''create_time'')),
     (''CreateTimeGT'', OnOne TTime (FieldGT ''create_time'')),
     (''CreateTimeGTE'', OnOne TTime (FieldGTE ''create_time'')),
     (''CreateTimeLT'', OnOne TTime (FieldLT ''create_time'')),
     (''CreateTimeLTE'', OnOne TTime (FieldLTE ''create_time''))]"

definition ent_oidc_signing_key_where_groups :: "(string \<times> filter_method) list" where
  "ent_oidc_signing_key_where_groups = [
     (''And'', OnPreds AndPredicates), (''Or'', OnPreds OrPredicates), (''Not'', OnPred NotPredicates)]"

definition ent_oidc_signing_key_where :: "(string \<times> filter_method) list" where
  "ent_oidc_signing_key_where = concat [ent_oidc_signing_key_where_id, ent_oidc_signing_key_where_shortcuts, ent_oidc_signing_key_where_public_jwk,
     ent_oidc_signing_key_where_algorithm, ent_oidc_signing_key_where_not_before_time,
     ent_oidc_signing_key_where_expires_time, ent_oidc_signing_key_where_revoked_time,
     ent_oidc_signing_key_where_create_time, ent_oidc_signing_key_where_groups]"

lemmas ent_oidc_signing_key_where_defs = ent_oidc_signing_key_where_id_def ent_oidc_signing_key_where_shortcuts_def
  ent_oidc_signing_key_where_public_jwk_def ent_oidc_signing_key_where_algorithm_def
  ent_oidc_signing_key_where_not_before_time_def ent_oidc_signing_key_where_expires_time_def
  ent_oidc_signing_key_where_revoked_time_def ent_oidc_signing_key_where_create_time_def
  ent_oidc_signing_key_where_groups_def ent_oidc_signing_key_where_def ent_oidc_signing_key_schema_def

lemma ent_oidc_signing_key_where_is_reference: "ent_oidc_signing_key_where = where_reference TString (tl ent_oidc_signing_key_schema)"
  by (simp add: ent_oidc_signing_key_where_defs where_reference_simps)

section \<open>User\<close>

definition ent_example_user_where_id :: "(string \<times> filter_method) list" where
  "ent_example_user_where_id = [
     (''ID'', OnOne TInt (FieldEQ ''id'')), (''IDEQ'', OnOne TInt (FieldEQ ''id'')),
     (''IDNEQ'', OnOne TInt (FieldNEQ ''id'')), (''IDIn'', OnMany TInt (FieldIn ''id'')),
     (''IDNotIn'', OnMany TInt (FieldNotIn ''id'')), (''IDGT'', OnOne TInt (FieldGT ''id'')),
     (''IDGTE'', OnOne TInt (FieldGTE ''id'')), (''IDLT'', OnOne TInt (FieldLT ''id'')),
     (''IDLTE'', OnOne TInt (FieldLTE ''id''))]"

definition ent_example_user_where_shortcuts :: "(string \<times> filter_method) list" where
  "ent_example_user_where_shortcuts = [
     (''DeleteTime'', OnOne TTime (FieldEQ ''delete_time'')),
     (''DeletedBy'', OnOne TString (FieldEQ ''deleted_by'')),
     (''PurgeTime'', OnOne TTime (FieldEQ ''purge_time'')),
     (''TenantID'', OnOne TString (FieldEQ ''tenant_id'')),
     (''ResourceID'', OnOne TString (FieldEQ ''resource_id'')),
     (''DisplayName'', OnOne TString (FieldEQ ''display_name'')),
     (''Email'', OnOne TString (FieldEQ ''email'')), (''TenantPlan'', OnOne TString (FieldEQ ''tenant_plan'')),
     (''Nickname'', OnOne TString (FieldEQ ''nickname'')),
     (''PasswordHash'', OnOne TString (FieldEQ ''password_hash'')),
     (''Etag'', OnOne TString (FieldEQ ''etag'')), (''CreateTime'', OnOne TTime (FieldEQ ''create_time'')),
     (''UpdateTime'', OnOne TTime (FieldEQ ''update_time''))]"

definition ent_example_user_where_delete_time :: "(string \<times> filter_method) list" where
  "ent_example_user_where_delete_time = [
     (''DeleteTimeEQ'', OnOne TTime (FieldEQ ''delete_time'')),
     (''DeleteTimeNEQ'', OnOne TTime (FieldNEQ ''delete_time'')),
     (''DeleteTimeIn'', OnMany TTime (FieldIn ''delete_time'')),
     (''DeleteTimeNotIn'', OnMany TTime (FieldNotIn ''delete_time'')),
     (''DeleteTimeGT'', OnOne TTime (FieldGT ''delete_time'')),
     (''DeleteTimeGTE'', OnOne TTime (FieldGTE ''delete_time'')),
     (''DeleteTimeLT'', OnOne TTime (FieldLT ''delete_time'')),
     (''DeleteTimeLTE'', OnOne TTime (FieldLTE ''delete_time'')),
     (''DeleteTimeIsNil'', OnNone (FieldIsNull ''delete_time'')),
     (''DeleteTimeNotNil'', OnNone (FieldNotNull ''delete_time''))]"

definition ent_example_user_where_deleted_by :: "(string \<times> filter_method) list" where
  "ent_example_user_where_deleted_by = [
     (''DeletedByEQ'', OnOne TString (FieldEQ ''deleted_by'')),
     (''DeletedByNEQ'', OnOne TString (FieldNEQ ''deleted_by'')),
     (''DeletedByIn'', OnMany TString (FieldIn ''deleted_by'')),
     (''DeletedByNotIn'', OnMany TString (FieldNotIn ''deleted_by'')),
     (''DeletedByGT'', OnOne TString (FieldGT ''deleted_by'')),
     (''DeletedByGTE'', OnOne TString (FieldGTE ''deleted_by'')),
     (''DeletedByLT'', OnOne TString (FieldLT ''deleted_by'')),
     (''DeletedByLTE'', OnOne TString (FieldLTE ''deleted_by'')),
     (''DeletedByContains'', OnOne TString (FieldContains ''deleted_by'')),
     (''DeletedByHasPrefix'', OnOne TString (FieldHasPrefix ''deleted_by'')),
     (''DeletedByHasSuffix'', OnOne TString (FieldHasSuffix ''deleted_by'')),
     (''DeletedByIsNil'', OnNone (FieldIsNull ''deleted_by'')),
     (''DeletedByNotNil'', OnNone (FieldNotNull ''deleted_by'')),
     (''DeletedByEqualFold'', OnOne TString (FieldEqualFold ''deleted_by'')),
     (''DeletedByContainsFold'', OnOne TString (FieldContainsFold ''deleted_by''))]"

definition ent_example_user_where_purge_time :: "(string \<times> filter_method) list" where
  "ent_example_user_where_purge_time = [
     (''PurgeTimeEQ'', OnOne TTime (FieldEQ ''purge_time'')),
     (''PurgeTimeNEQ'', OnOne TTime (FieldNEQ ''purge_time'')),
     (''PurgeTimeIn'', OnMany TTime (FieldIn ''purge_time'')),
     (''PurgeTimeNotIn'', OnMany TTime (FieldNotIn ''purge_time'')),
     (''PurgeTimeGT'', OnOne TTime (FieldGT ''purge_time'')),
     (''PurgeTimeGTE'', OnOne TTime (FieldGTE ''purge_time'')),
     (''PurgeTimeLT'', OnOne TTime (FieldLT ''purge_time'')),
     (''PurgeTimeLTE'', OnOne TTime (FieldLTE ''purge_time'')),
     (''PurgeTimeIsNil'', OnNone (FieldIsNull ''purge_time'')),
     (''PurgeTimeNotNil'', OnNone (FieldNotNull ''purge_time''))]"

definition ent_example_user_where_tenant_id :: "(string \<times> filter_method) list" where
  "ent_example_user_where_tenant_id = [
     (''TenantIDEQ'', OnOne TString (FieldEQ ''tenant_id'')),
     (''TenantIDNEQ'', OnOne TString (FieldNEQ ''tenant_id'')),
     (''TenantIDIn'', OnMany TString (FieldIn ''tenant_id'')),
     (''TenantIDNotIn'', OnMany TString (FieldNotIn ''tenant_id'')),
     (''TenantIDGT'', OnOne TString (FieldGT ''tenant_id'')),
     (''TenantIDGTE'', OnOne TString (FieldGTE ''tenant_id'')),
     (''TenantIDLT'', OnOne TString (FieldLT ''tenant_id'')),
     (''TenantIDLTE'', OnOne TString (FieldLTE ''tenant_id'')),
     (''TenantIDContains'', OnOne TString (FieldContains ''tenant_id'')),
     (''TenantIDHasPrefix'', OnOne TString (FieldHasPrefix ''tenant_id'')),
     (''TenantIDHasSuffix'', OnOne TString (FieldHasSuffix ''tenant_id'')),
     (''TenantIDEqualFold'', OnOne TString (FieldEqualFold ''tenant_id'')),
     (''TenantIDContainsFold'', OnOne TString (FieldContainsFold ''tenant_id''))]"

definition ent_example_user_where_resource_id :: "(string \<times> filter_method) list" where
  "ent_example_user_where_resource_id = [
     (''ResourceIDEQ'', OnOne TString (FieldEQ ''resource_id'')),
     (''ResourceIDNEQ'', OnOne TString (FieldNEQ ''resource_id'')),
     (''ResourceIDIn'', OnMany TString (FieldIn ''resource_id'')),
     (''ResourceIDNotIn'', OnMany TString (FieldNotIn ''resource_id'')),
     (''ResourceIDGT'', OnOne TString (FieldGT ''resource_id'')),
     (''ResourceIDGTE'', OnOne TString (FieldGTE ''resource_id'')),
     (''ResourceIDLT'', OnOne TString (FieldLT ''resource_id'')),
     (''ResourceIDLTE'', OnOne TString (FieldLTE ''resource_id'')),
     (''ResourceIDContains'', OnOne TString (FieldContains ''resource_id'')),
     (''ResourceIDHasPrefix'', OnOne TString (FieldHasPrefix ''resource_id'')),
     (''ResourceIDHasSuffix'', OnOne TString (FieldHasSuffix ''resource_id'')),
     (''ResourceIDEqualFold'', OnOne TString (FieldEqualFold ''resource_id'')),
     (''ResourceIDContainsFold'', OnOne TString (FieldContainsFold ''resource_id''))]"

definition ent_example_user_where_display_name :: "(string \<times> filter_method) list" where
  "ent_example_user_where_display_name = [
     (''DisplayNameEQ'', OnOne TString (FieldEQ ''display_name'')),
     (''DisplayNameNEQ'', OnOne TString (FieldNEQ ''display_name'')),
     (''DisplayNameIn'', OnMany TString (FieldIn ''display_name'')),
     (''DisplayNameNotIn'', OnMany TString (FieldNotIn ''display_name'')),
     (''DisplayNameGT'', OnOne TString (FieldGT ''display_name'')),
     (''DisplayNameGTE'', OnOne TString (FieldGTE ''display_name'')),
     (''DisplayNameLT'', OnOne TString (FieldLT ''display_name'')),
     (''DisplayNameLTE'', OnOne TString (FieldLTE ''display_name'')),
     (''DisplayNameContains'', OnOne TString (FieldContains ''display_name'')),
     (''DisplayNameHasPrefix'', OnOne TString (FieldHasPrefix ''display_name'')),
     (''DisplayNameHasSuffix'', OnOne TString (FieldHasSuffix ''display_name'')),
     (''DisplayNameEqualFold'', OnOne TString (FieldEqualFold ''display_name'')),
     (''DisplayNameContainsFold'', OnOne TString (FieldContainsFold ''display_name''))]"

definition ent_example_user_where_email :: "(string \<times> filter_method) list" where
  "ent_example_user_where_email = [
     (''EmailEQ'', OnOne TString (FieldEQ ''email'')), (''EmailNEQ'', OnOne TString (FieldNEQ ''email'')),
     (''EmailIn'', OnMany TString (FieldIn ''email'')), (''EmailNotIn'', OnMany TString (FieldNotIn ''email'')),
     (''EmailGT'', OnOne TString (FieldGT ''email'')), (''EmailGTE'', OnOne TString (FieldGTE ''email'')),
     (''EmailLT'', OnOne TString (FieldLT ''email'')), (''EmailLTE'', OnOne TString (FieldLTE ''email'')),
     (''EmailContains'', OnOne TString (FieldContains ''email'')),
     (''EmailHasPrefix'', OnOne TString (FieldHasPrefix ''email'')),
     (''EmailHasSuffix'', OnOne TString (FieldHasSuffix ''email'')),
     (''EmailEqualFold'', OnOne TString (FieldEqualFold ''email'')),
     (''EmailContainsFold'', OnOne TString (FieldContainsFold ''email''))]"

definition ent_example_user_where_tenant_plan :: "(string \<times> filter_method) list" where
  "ent_example_user_where_tenant_plan = [
     (''TenantPlanEQ'', OnOne TString (FieldEQ ''tenant_plan'')),
     (''TenantPlanNEQ'', OnOne TString (FieldNEQ ''tenant_plan'')),
     (''TenantPlanIn'', OnMany TString (FieldIn ''tenant_plan'')),
     (''TenantPlanNotIn'', OnMany TString (FieldNotIn ''tenant_plan'')),
     (''TenantPlanGT'', OnOne TString (FieldGT ''tenant_plan'')),
     (''TenantPlanGTE'', OnOne TString (FieldGTE ''tenant_plan'')),
     (''TenantPlanLT'', OnOne TString (FieldLT ''tenant_plan'')),
     (''TenantPlanLTE'', OnOne TString (FieldLTE ''tenant_plan'')),
     (''TenantPlanContains'', OnOne TString (FieldContains ''tenant_plan'')),
     (''TenantPlanHasPrefix'', OnOne TString (FieldHasPrefix ''tenant_plan'')),
     (''TenantPlanHasSuffix'', OnOne TString (FieldHasSuffix ''tenant_plan'')),
     (''TenantPlanEqualFold'', OnOne TString (FieldEqualFold ''tenant_plan'')),
     (''TenantPlanContainsFold'', OnOne TString (FieldContainsFold ''tenant_plan''))]"

definition ent_example_user_where_nickname :: "(string \<times> filter_method) list" where
  "ent_example_user_where_nickname = [
     (''NicknameEQ'', OnOne TString (FieldEQ ''nickname'')),
     (''NicknameNEQ'', OnOne TString (FieldNEQ ''nickname'')),
     (''NicknameIn'', OnMany TString (FieldIn ''nickname'')),
     (''NicknameNotIn'', OnMany TString (FieldNotIn ''nickname'')),
     (''NicknameGT'', OnOne TString (FieldGT ''nickname'')),
     (''NicknameGTE'', OnOne TString (FieldGTE ''nickname'')),
     (''NicknameLT'', OnOne TString (FieldLT ''nickname'')),
     (''NicknameLTE'', OnOne TString (FieldLTE ''nickname'')),
     (''NicknameContains'', OnOne TString (FieldContains ''nickname'')),
     (''NicknameHasPrefix'', OnOne TString (FieldHasPrefix ''nickname'')),
     (''NicknameHasSuffix'', OnOne TString (FieldHasSuffix ''nickname'')),
     (''NicknameIsNil'', OnNone (FieldIsNull ''nickname'')),
     (''NicknameNotNil'', OnNone (FieldNotNull ''nickname'')),
     (''NicknameEqualFold'', OnOne TString (FieldEqualFold ''nickname'')),
     (''NicknameContainsFold'', OnOne TString (FieldContainsFold ''nickname''))]"

definition ent_example_user_where_password_hash :: "(string \<times> filter_method) list" where
  "ent_example_user_where_password_hash = [
     (''PasswordHashEQ'', OnOne TString (FieldEQ ''password_hash'')),
     (''PasswordHashNEQ'', OnOne TString (FieldNEQ ''password_hash'')),
     (''PasswordHashIn'', OnMany TString (FieldIn ''password_hash'')),
     (''PasswordHashNotIn'', OnMany TString (FieldNotIn ''password_hash'')),
     (''PasswordHashGT'', OnOne TString (FieldGT ''password_hash'')),
     (''PasswordHashGTE'', OnOne TString (FieldGTE ''password_hash'')),
     (''PasswordHashLT'', OnOne TString (FieldLT ''password_hash'')),
     (''PasswordHashLTE'', OnOne TString (FieldLTE ''password_hash'')),
     (''PasswordHashContains'', OnOne TString (FieldContains ''password_hash'')),
     (''PasswordHashHasPrefix'', OnOne TString (FieldHasPrefix ''password_hash'')),
     (''PasswordHashHasSuffix'', OnOne TString (FieldHasSuffix ''password_hash'')),
     (''PasswordHashIsNil'', OnNone (FieldIsNull ''password_hash'')),
     (''PasswordHashNotNil'', OnNone (FieldNotNull ''password_hash'')),
     (''PasswordHashEqualFold'', OnOne TString (FieldEqualFold ''password_hash'')),
     (''PasswordHashContainsFold'', OnOne TString (FieldContainsFold ''password_hash''))]"

definition ent_example_user_where_etag :: "(string \<times> filter_method) list" where
  "ent_example_user_where_etag = [
     (''EtagEQ'', OnOne TString (FieldEQ ''etag'')), (''EtagNEQ'', OnOne TString (FieldNEQ ''etag'')),
     (''EtagIn'', OnMany TString (FieldIn ''etag'')), (''EtagNotIn'', OnMany TString (FieldNotIn ''etag'')),
     (''EtagGT'', OnOne TString (FieldGT ''etag'')), (''EtagGTE'', OnOne TString (FieldGTE ''etag'')),
     (''EtagLT'', OnOne TString (FieldLT ''etag'')), (''EtagLTE'', OnOne TString (FieldLTE ''etag'')),
     (''EtagContains'', OnOne TString (FieldContains ''etag'')),
     (''EtagHasPrefix'', OnOne TString (FieldHasPrefix ''etag'')),
     (''EtagHasSuffix'', OnOne TString (FieldHasSuffix ''etag'')),
     (''EtagEqualFold'', OnOne TString (FieldEqualFold ''etag'')),
     (''EtagContainsFold'', OnOne TString (FieldContainsFold ''etag''))]"

definition ent_example_user_where_create_time :: "(string \<times> filter_method) list" where
  "ent_example_user_where_create_time = [
     (''CreateTimeEQ'', OnOne TTime (FieldEQ ''create_time'')),
     (''CreateTimeNEQ'', OnOne TTime (FieldNEQ ''create_time'')),
     (''CreateTimeIn'', OnMany TTime (FieldIn ''create_time'')),
     (''CreateTimeNotIn'', OnMany TTime (FieldNotIn ''create_time'')),
     (''CreateTimeGT'', OnOne TTime (FieldGT ''create_time'')),
     (''CreateTimeGTE'', OnOne TTime (FieldGTE ''create_time'')),
     (''CreateTimeLT'', OnOne TTime (FieldLT ''create_time'')),
     (''CreateTimeLTE'', OnOne TTime (FieldLTE ''create_time''))]"

definition ent_example_user_where_update_time :: "(string \<times> filter_method) list" where
  "ent_example_user_where_update_time = [
     (''UpdateTimeEQ'', OnOne TTime (FieldEQ ''update_time'')),
     (''UpdateTimeNEQ'', OnOne TTime (FieldNEQ ''update_time'')),
     (''UpdateTimeIn'', OnMany TTime (FieldIn ''update_time'')),
     (''UpdateTimeNotIn'', OnMany TTime (FieldNotIn ''update_time'')),
     (''UpdateTimeGT'', OnOne TTime (FieldGT ''update_time'')),
     (''UpdateTimeGTE'', OnOne TTime (FieldGTE ''update_time'')),
     (''UpdateTimeLT'', OnOne TTime (FieldLT ''update_time'')),
     (''UpdateTimeLTE'', OnOne TTime (FieldLTE ''update_time''))]"

definition ent_example_user_where_groups :: "(string \<times> filter_method) list" where
  "ent_example_user_where_groups = [
     (''And'', OnPreds AndPredicates), (''Or'', OnPreds OrPredicates), (''Not'', OnPred NotPredicates)]"

definition ent_example_user_where :: "(string \<times> filter_method) list" where
  "ent_example_user_where = concat [ent_example_user_where_id, ent_example_user_where_shortcuts, ent_example_user_where_delete_time,
     ent_example_user_where_deleted_by, ent_example_user_where_purge_time, ent_example_user_where_tenant_id,
     ent_example_user_where_resource_id, ent_example_user_where_display_name, ent_example_user_where_email,
     ent_example_user_where_tenant_plan, ent_example_user_where_nickname, ent_example_user_where_password_hash,
     ent_example_user_where_etag, ent_example_user_where_create_time, ent_example_user_where_update_time,
     ent_example_user_where_groups]"

lemmas ent_example_user_where_defs = ent_example_user_where_id_def ent_example_user_where_shortcuts_def ent_example_user_where_delete_time_def
  ent_example_user_where_deleted_by_def ent_example_user_where_purge_time_def
  ent_example_user_where_tenant_id_def ent_example_user_where_resource_id_def
  ent_example_user_where_display_name_def ent_example_user_where_email_def
  ent_example_user_where_tenant_plan_def ent_example_user_where_nickname_def
  ent_example_user_where_password_hash_def ent_example_user_where_etag_def
  ent_example_user_where_create_time_def ent_example_user_where_update_time_def
  ent_example_user_where_groups_def ent_example_user_where_def ent_example_user_schema_def
  soft_delete_columns_def

lemma ent_example_user_where_is_reference: "ent_example_user_where = where_reference TInt (soft_delete_columns @ ent_example_user_schema)"
  by (simp add: ent_example_user_where_defs where_reference_simps)

end
