(* ===== verification/EntClients.thy ===== *)
theory EntClients
  imports EntLaws EntWhereAccounts EntWhereOauth
begin

text \<open>
  The generated \<open>ent\<close> clients of IAM (\<open>app/iam/service/internal/data/ent\<close>) and of the example service
  (\<open>app/example/service/internal/data/ent\<close>) against their schemas.
\<close>

definition ent_clients :: "entity_code list" where
  "ent_clients = [
     ent_authenticator_code, ent_email_verification_token_code, ent_iam_login_session_code,
     ent_login_identifier_code, ent_oauth_access_token_code, ent_oauth_authorization_code_code,
     ent_oauth_client_code, ent_oauth_refresh_token_code, ent_oauth_token_session_code,
     ent_oidc_authorization_request_code, ent_oidc_signing_key_code, ent_password_authenticator_code,
     ent_password_reset_token_code, ent_user_code, ent_example_user_code]"

text \<open>
  The schemas: the name of the entity, the type of its identifier, whether the schema declares it, and its columns. The
  example gets three columns from the soft delete mixin of the framework, as the migration lists them.
\<close>

definition ent_schemas :: "(string \<times> go_type \<times> bool \<times> column list) list" where
  "ent_schemas = [
     (''Authenticator'', TString, True, tl ent_authenticator_schema),
     (''EmailVerificationToken'', TString, True, tl ent_email_verification_token_schema),
     (''IAMLoginSession'', TString, True, tl ent_iam_login_session_schema),
     (''LoginIdentifier'', TString, True, tl ent_login_identifier_schema),
     (''OAuthAccessToken'', TString, True, tl ent_oauth_access_token_schema),
     (''OAuthAuthorizationCode'', TString, True, tl ent_oauth_authorization_code_schema),
     (''OAuthClient'', TString, True, tl ent_oauth_client_schema),
     (''OAuthRefreshToken'', TString, True, tl ent_oauth_refresh_token_schema),
     (''OAuthTokenSession'', TString, True, tl ent_oauth_token_session_schema),
     (''OIDCAuthorizationRequest'', TString, True, tl ent_oidc_authorization_request_schema),
     (''OIDCSigningKey'', TString, True, tl ent_oidc_signing_key_schema),
     (''PasswordAuthenticator'', TString, True, tl ent_password_authenticator_schema),
     (''PasswordResetToken'', TString, True, tl ent_password_reset_token_schema),
     (''User'', TString, True, tl ent_user_schema),
     (''User'', TInt, False, soft_delete_columns @ ent_example_user_schema)]"

lemmas client_references = ent_authenticator_is_reference ent_email_verification_token_is_reference ent_iam_login_session_is_reference
  ent_login_identifier_is_reference ent_oauth_access_token_is_reference ent_oauth_authorization_code_is_reference
  ent_oauth_client_is_reference ent_oauth_refresh_token_is_reference ent_oauth_token_session_is_reference
  ent_oidc_authorization_request_is_reference ent_oidc_signing_key_is_reference ent_password_authenticator_is_reference
  ent_password_reset_token_is_reference ent_user_is_reference ent_example_user_is_reference

text \<open>The generated predicates of the same entities, in the same order.\<close>

definition ent_filters :: "(string \<times> filter_method) list list" where
  "ent_filters = [
     ent_authenticator_where, ent_email_verification_token_where, ent_iam_login_session_where,
     ent_login_identifier_where, ent_oauth_access_token_where, ent_oauth_authorization_code_where,
     ent_oauth_client_where, ent_oauth_refresh_token_where, ent_oauth_token_session_where,
     ent_oidc_authorization_request_where, ent_oidc_signing_key_where, ent_password_authenticator_where,
     ent_password_reset_token_where, ent_user_where, ent_example_user_where]"

lemmas filter_references = ent_authenticator_where_is_reference ent_email_verification_token_where_is_reference
  ent_iam_login_session_where_is_reference ent_login_identifier_where_is_reference
  ent_oauth_access_token_where_is_reference ent_oauth_authorization_code_where_is_reference
  ent_oauth_client_where_is_reference ent_oauth_refresh_token_where_is_reference
  ent_oauth_token_session_where_is_reference ent_oidc_authorization_request_where_is_reference
  ent_oidc_signing_key_where_is_reference ent_password_authenticator_where_is_reference
  ent_password_reset_token_where_is_reference ent_user_where_is_reference ent_example_user_where_is_reference

lemma schemas_well_formed: "list_all (\<lambda>(_, _, _, cs). well_formed cs) ent_schemas"
  by code_simp

lemma client_is_reference:
  assumes "K \<in> set ent_clients"
  obtains name i own cs where "K = reference name i own cs" "well_formed cs"
proof -
  have clients: "ent_clients = map (\<lambda>(name, i, own, cs). reference name i own cs) ent_schemas"
    unfolding ent_clients_def ent_schemas_def client_references by simp
  obtain x where x: "x \<in> set ent_schemas" "K = (\<lambda>(name, i, own, cs). reference name i own cs) x"
    using assms unfolding clients set_map by blast
  obtain name i own cs where "x = (name, i, own, cs)" by (cases x) auto
  with x schemas_well_formed that show thesis by (force simp: list_all_iff)
qed

text \<open>
  C33. The generated clients are what their schemas say, for each of the fourteen entities of IAM and for the user of the
  example: which fields a mutation has, lists, sets, clears and resets, of which type and under which name; which
  default each create fills in and from which position of the schema, which fields it requires and validates; which
  columns an update may assign or clear and which, being immutable, it never assigns; how a row is scanned; and which
  predicates a query can use, each over the column, with the comparison and the type of value, that its name says. No
  column is forgotten, duplicated or confused with another in any of these places.
\<close>

theorem generated_clients_follow_schemas:
  "ent_clients = map (\<lambda>(name, i, own, cs). reference name i own cs) ent_schemas
     \<and> ent_filters = map (\<lambda>(_, i, _, cs). where_reference i cs) ent_schemas
     \<and> list_all (\<lambda>(_, _, _, cs). well_formed cs) ent_schemas"
  using schemas_well_formed
  unfolding ent_clients_def ent_filters_def ent_schemas_def client_references filter_references by simp

text \<open>
  C35. A named method of a mutation changes the field that it names and nothing else, in every client: \<open>SetField\<close> that
  succeeds makes the field have that value and leaves the cleared fields as they are (it does not take back a
  \<open>ClearField\<close>); \<open>ClearField\<close> unsets the field and records that it is cleared; \<open>ResetField\<close> does away with both; and
  \<open>Fields\<close> lists exactly the fields that have a value.
\<close>

theorem mutation_changes_one_field:
  assumes "K \<in> set ent_clients"
  shows "one_field_laws K"
  using client_is_reference [OF assms] reference_laws by metis

theorem mutation_changes_one_field_witness:
  "\<exists>m. ent_user_set_field ''etag'' (VString ''e'') (new_ent_user_mutation OpUpdate) = Inr m
     \<and> ent_user_field ''etag'' m = Some (VString ''e'')"
proof -
  have K: "ent_user_code \<in> set ent_clients" by (simp add: ent_clients_def)
  have "\<exists>m. ent_user_set_field ''etag'' (VString ''e'') (new_ent_user_mutation OpUpdate) = Inr m"
    by (simp add: ent_user_set_field_def set_switch_def)
  then obtain m where "ey_set_field ent_user_code ''etag'' (VString ''e'') (new_ent_user_mutation OpUpdate) = Inr m"
    by (auto simp: ent_user_code_def)
  with mutation_changes_one_field [OF K] show ?thesis
    unfolding one_field_laws_def by (auto simp: ent_user_code_def)
qed


text \<open>A JSON codec for the witness: every character after a mark, every string closed by another.\<close>

definition marked :: "string list \<Rightarrow> string" where
  "marked xs = CHR ''['' # concat (map (\<lambda>s. concat (map (\<lambda>c. [CHR ''c'', c]) s) @ [CHR ''e'']) xs)"

fun unmark :: "string \<Rightarrow> string \<Rightarrow> string list" where
  "unmark cur [] = []"
| "unmark cur (k # rest) =
     (if k = CHR ''e'' then cur # unmark [] rest
      else case rest of [] \<Rightarrow> [] | c # rest' \<Rightarrow> unmark (cur @ [c]) rest')"

lemma unmark_string: "unmark cur (concat (map (\<lambda>c. [CHR ''c'', c]) s) @ CHR ''e'' # rest) = (cur @ s) # unmark [] rest"
  by (induction s arbitrary: cur) auto

lemma unmark_marked: "unmark [] (tl (marked xs)) = xs"
  unfolding marked_def by (induction xs) (simp_all add: unmark_string)

definition sample_user :: mutation where
  "sample_user = (new_ent_user_mutation OpCreate)\<lparr>mt_set := [''etag'' \<mapsto> VString ''e'', ''create_time'' \<mapsto> VTime 7]\<rparr>"


end
