(* ===== verification/Spec2Isabelle.thy ===== *)
theory Spec2Isabelle
  imports Cap SessionAuthn OpenFga JwtAuthn OidcConfig IamMail IamServed RuleGen ExampleDemo AuditLog AuditQuery
    AuditStart IamList IamTransport ServiceTransport IamStart ExampleStart ExampleList PbRedact EntClients
begin

text \<open>
  \<^bold>\<open>The program.\<close> Servora Plateau is a set of Go services and the security libraries that they share.

  \<^item> \<open>security/\<close>: the actor (who executes a call), three middlewares that set or check it (\<open>authn/session\<close>, \<open>authn/jwt\<close>,
    \<open>authz/openfga\<close>), RS256 tokens (\<open>jwt\<close>), passwords (\<open>password\<close>) and a proof-of-work captcha (\<open>cap\<close>).
  \<^item> \<open>app/iam/service\<close>: identity and access management. Handlers (\<open>internal/service\<close>) behind the two middlewares
    (\<open>internal/server\<close>, \<open>authn\<close>, \<open>authz\<close>) call use cases (\<open>internal/biz\<close>) over repositories (\<open>internal/data\<close>); an OpenID
    provider (\<open>internal/oidc\<close>) keeps its state in the same database; mails go out through \<open>internal/mail\<close>.
  \<^item> \<open>app/example/service\<close>: a multi-tenant user service with etags, soft deletion and listing.
  \<^item> \<open>app/audit/service\<close>: a Kafka consumer that projects events to rows, a writer that stores them in ClickHouse in
    batches, and a query service.
  \<^item> \<open>cmd/\<close> and \<open>internal/codegen\<close>: the two protoc plugins that generate the rule maps of the middlewares.
  \<^item> \<open>infra/\<close>: clients of OpenFGA and ClickHouse. \<open>api/gen\<close> and \<open>ent/\<close>: generated messages, transport and database code.

  \<^bold>\<open>How Go is read.\<close> An error is a tree of sentinels and wrappings, so that \<open>errors.Is\<close> is a function on it. A function
  that does not touch the world returns a sum; one that does is a program, \<open>world \<Rightarrow> (err + 'a) \<times> world\<close>. The environment
  answers for the clock, randomness and failing calls at the tick of each call, so every failure of a database, of Redis
  or of a remote service is a run of the model. Nil pointers and nil interfaces are options; a panic is \<open>None\<close> or an error
  that ends the call, as the code has it; integers are \<open>int\<close> or \<open>nat\<close> but for the 32-bit arithmetic of the captcha, which
  is on words. A repository call is one or more statements or a transaction; before each of them the requests of other
  clients may have run, as the environment decides (\<open>interfere\<close>). Programs written by others (SHA-256, HMAC, Argon2, RSA, PEM,
  JSON, Unicode normalisation, the protocol engine, drivers) are parameters; where a property needs a law of one, the law
  is a hypothesis, and its witness gives an instance.

  \<^bold>\<open>The theories.\<close>
  \<^item> Prelude. \<open>GoBase\<close>: errors, programs and their combinators, the collections \<open>prog_run\<close>, \<open>prog_inv\<close> and
    \<open>preserve_intros\<close>. \<open>GoStrings\<close>, \<open>GoText\<close>: strings, UTF-8, base64, hex, numbers. \<open>GoWire\<close>: constructors with cleanups.
    \<open>Redis\<close>: its commands, with their laws in the locale \<open>redis_server\<close> and a server with expiring keys that has them.
    \<open>Middleware\<close>: contexts, rules, API errors, and what it means that a middleware stops or calls its handler.
  \<^item> \<open>security/\<close>. \<open>Actor\<close>; \<open>CapWork\<close>, \<open>Cap\<close>; \<open>SessionAuthn\<close>; \<open>OpenFga\<close>, \<open>FgaConfig\<close>; \<open>JwtAuthn\<close>; \<open>Password\<close>.
  \<^item> Database. \<open>EntStore\<close>: the statements on the rows of a table and their errors. \<open>EntTable\<close>, \<open>EntWhere\<close>: the parts of
    ent's generated code and what a schema gives rise to; \<open>EntAccounts\<close>, \<open>EntOauth\<close>, \<open>EntExample\<close>, \<open>EntWhereAccounts\<close>,
    \<open>EntWhereOauth\<close>: the generated functions of the fifteen entities; \<open>EntLaws\<close>, \<open>EntClients\<close>: what holds of them.
  \<^item> IAM. \<open>IamSchema\<close> (entities), \<open>IamBiz\<close> and \<open>IamAccount\<close> (use cases over ports), \<open>IamData\<close> (repositories),
    \<open>IamService\<close> (handlers, rule maps and the binding of the middlewares), \<open>IamTransport\<close> (routes and clients, on
    \<open>Transport\<close>), \<open>IamMail\<close>, \<open>IamStart\<close> (\<open>wireApp\<close> and the initializer), \<open>PbRedact\<close> (what the request log shows).
  \<^item> OpenID. \<open>OidcStorage\<close> (requests, codes, token sessions, refresh tokens, keys), \<open>OidcProvider\<close> (request validation,
    the login callback, reconciliation of clients), \<open>OidcConfig\<close> (key files, routes, discovery).
  \<^item> IAM's guarantees. \<open>IamContracts\<close>: a locale per use case, with what it needs of its ports, proved once. \<open>DbEvolve\<close>: the
    locale \<open>evolving_table\<close>, interpreted on the fourteen tables, says how rows may change. \<open>IamKeeps\<close> and \<open>OidcKeeps\<close>
    interpret the contracts on the repositories. \<open>IamSpent\<close>: what is revoked or consumed stays so (\<open>revoked_secret\<close>,
    \<open>spent_vtoken\<close>, \<open>spent_rtoken\<close>). \<open>IamClaims\<close>, \<open>IamLogin\<close>, \<open>IamRound\<close>, \<open>IamAdmin\<close>, \<open>IamUniform\<close>, \<open>IamList\<close>,
    \<open>IamServed\<close>, \<open>OidcTokens\<close>, \<open>OidcStart\<close>: the properties; \<open>IamDemo\<close>, \<open>OidcDemo\<close>: instances for their witnesses.
  \<^item> Example service. \<open>ExampleStore\<close>, \<open>ExampleUser\<close>, \<open>ExampleList\<close>, \<open>ExampleStart\<close>; \<open>ExampleSpec\<close>: the life of a user as
    the abstract specification, with the locales \<open>step_log\<close> and \<open>ex_user_port\<close>; \<open>ExampleServed\<close>, \<open>ExampleDemo\<close>.
  \<^item> Audit service. \<open>AuditEvents\<close> (projection), \<open>AuditWriter\<close> (the two goroutines as a step relation), \<open>AuditLog\<close> (the
    append-only log that they refine), \<open>AuditQuery\<close> (filters and pages), \<open>AuditStart\<close>. \<open>ServiceTransport\<close>: routes and
    clients of the example and the audit service.
  \<^item> Plugins. \<open>RulePlan\<close> (which rules a plan collects, from which options), \<open>RuleGen\<close> (checks and output).
\<close>

text \<open>
  \<^bold>\<open>What is shown.\<close>
  \<^item> Sessions and accounts: every request keeps the unique indexes and lets rows evolve only as intended, whatever runs
    beside it; a session that was logged out, reset away or disabled never resolves again; a mailed token works once; a
    login needs the credentials of an active and verified user; failed logins cannot be told apart; a fresh login
    resolves, through the cookie as well.
  \<^item> OpenID: a code is exchanged once; a refresh token rotates once and its replay revokes the session; logout ends the
    access tokens; an authorization request can only be completed by a live login session.
  \<^item> Calls: behind the middlewares a handler runs at most once and only as the right actor, after the checks that the rule
    of its method demands; each route and each generated client reaches its own method; each rule that the plugins let
    through finds its resource; the log line of a request has no secret in it.
  \<^item> Example: each request takes the steps of the abstract life of a user that its method allows, in the tenant of its
    name; etags guard updates; a deleted user can be restored.
  \<^item> Audit: what is stored is a queue in front of a log, in order; only stored records are committed; a full buffer is
    seen; the last flush ends; following the page tokens lists every matching event once.
  \<^item> Captcha: a challenge is redeemed once and only with the work done. Tokens: what a signer signs, its verifier accepts.
  \<^item> Generated database code: for each entity it is what the schema says, a named method changes its own field only, and
    a created entity reads back.
  \<^item> Start: a start that fails closes what it opened; a start of IAM that succeeds has wired the use cases and the
    middlewares that the other properties are about.
  Where the code does something else than it means to, a lemma exhibits it (\<open>late_script_redeems_twice\<close>,
  \<open>sub_millisecond_ttl_never_verifies\<close>, \<open>refused_batch_is_skipped\<close>, \<open>dash_user_is_unreachable\<close>, \<open>password_assigned_twice\<close>,
  \<open>unreadable_row_ends_listing\<close> and the property of the bootstrap administrator's address).

  \<^bold>\<open>Bounds.\<close> Restoring a user tries \<open>max_undelete_attempts\<close> = 3 times, as the code does. \<open>follow_pages\<close> has fuel for the
  client that follows page tokens; the number of rows, plus one, is proved to be enough. The number of steps that the last
  flush of the writer may still take is \<open>loop_fuel\<close>, at most 3. All other recursion is structural or has a measure.
  In witnesses the tables have a handful of rows; no theorem bounds them.

  \<^bold>\<open>Not modelled.\<close>
  \<^item> Third-party code: the protocol engine that serves the OpenID routes, the Servora framework (list engine, CRUD plans,
    configuration, servers, tracing, metrics), Kratos, ent's runtime and its SQL, drivers, SMTP, HTML templates,
    cryptography and encodings. They are parameters. That the request log calls \<open>Redact\<close> is documented behaviour of the
    framework.
  \<^item> Generated code that only passes values on: message structs and getters, descriptors, validators (no message declares
    a rule), the clients, queries, hooks, interceptors, transactions and migration of ent, the chaining methods of its
    builders, eager loading, ordering and bulk creation.
  \<^item> \<open>main\<close> functions and injector specifications, the server options of the audit and the example service, logging and
    deadlines, the test helper \<open>internal/codegen/plugintest\<close>, and everything that is not Go.
  \<^item> Concurrency below a database statement or an atomic section of the audit writer: a statement, a transaction and a
    section under the writer's lock are single steps.
\<close>

end
